(* ===== verification/Prelude.thy ===== *)
theory Prelude
  imports Main "HOL-Library.Word" "HOL-Library.Monad_Syntax"
begin

text \<open>
  Shared vocabulary of the development: the C integer types at their width, the option
  monad that stands for a run of C code (\<open>None\<close> is a run without a defined result: a
  division by zero, a dereferenced null pointer, a read outside an array, a loop that never
  ends), counted loops over a C array, and the generic facts on words and options that the
  component theories share.
\<close>

unbundle bit_operations_syntax

type_synonym u8 = "8 word"
type_synonym u16 = "16 word"
type_synonym u32 = "32 word"
type_synonym u64 = "64 word"

text \<open>
  A C array of the driver is a total function on its index type; the bounds of the indices
  that reach it are theorems of the component that uses it.
\<close>

type_synonym 'a carray = "u32 \<Rightarrow> 'a"

named_theorems frame_simps \<open>what an operation leaves unchanged\<close>
named_theorems run_simps \<open>unfolding one run of C code in the option monad\<close>

subsection \<open>The option monad\<close>

lemmas run_bind [run_simps] = bind_eq_Some_conv

lemma if_None_eq_Some [simp]: "(if b then None else x) = Some y \<longleftrightarrow> \<not> b \<and> x = Some y"
  by simp

lemma if_Some_None_eq [simp]: "(if b then x else None) = Some y \<longleftrightarrow> b \<and> x = Some y"
  by simp

text \<open>A loop over a list of indices that threads a state and may fail.\<close>

fun ofold :: "('a \<Rightarrow> 's \<Rightarrow> 's option) \<Rightarrow> 'a list \<Rightarrow> 's \<Rightarrow> 's option" where
  "ofold f [] s = Some s"
| "ofold f (x # xs) s = f x s \<bind> ofold f xs"

lemma ofold_append: "ofold f (xs @ ys) s = ofold f xs s \<bind> ofold f ys"
  by (induction xs arbitrary: s) (auto split: Option.bind_splits)

lemma ofold_invariant:
  assumes "ofold f xs s = Some t" and "P s"
    and "\<And>x s t. x \<in> set xs \<Longrightarrow> P s \<Longrightarrow> f x s = Some t \<Longrightarrow> P t"
  shows "P t"
  using assms
  by (induction xs arbitrary: s) (auto simp: bind_eq_Some_conv)

lemma ofold_total:
  assumes "P s" and "\<And>x s. x \<in> set xs \<Longrightarrow> P s \<Longrightarrow> \<exists>t. f x s = Some t \<and> P t"
  shows "\<exists>t. ofold f xs s = Some t \<and> P t"
  using assms
proof (induction xs arbitrary: s)
  case Nil
  then show ?case by simp
next
  case (Cons x xs)
  obtain t where t: "f x s = Some t" "P t"
    using Cons.prems(1) Cons.prems(2)[of x s] by auto
  moreover have "\<exists>u. ofold f xs t = Some u \<and> P u"
    by (rule Cons.IH) (use t Cons.prems(2) in auto)
  ultimately show ?case by simp
qed

subsection \<open>Division\<close>

text \<open>Quotient plus one for a remainder is the rounded-up quotient.\<close>

lemma div_ceiling:
  assumes "0 < (d::nat)"
  shows "n div d + (if n mod d \<noteq> 0 then 1 else 0) = (n + d - 1) div d"
proof -
  let ?r = "n mod d"
  have "n + d - 1 = (?r + (d - 1)) + (n div d) * d"
    using assms div_mult_mod_eq[of n d] by linarith
  then have "(n + d - 1) div d = n div d + (?r + (d - 1)) div d"
    using assms by (metis div_mult_self1 add.commute less_not_refl)
  moreover have "(?r + (d - 1)) div d = (if ?r \<noteq> 0 then 1 else 0)"
  proof (cases "?r = 0")
    case False
    then have "?r + (d - 1) = (?r - 1) + 1 * d" and "?r - 1 < d"
      using assms mod_less_divisor[of d n] by linarith+
    then show ?thesis using False assms by (metis div_less div_mult_self3 less_not_refl2 add_0 add.commute)
  qed (use assms in simp)
  ultimately show ?thesis by simp
qed

lemma div_less_multiple:
  assumes "0 < (d::nat)"
  shows "(k * d + (d - 1)) div d = k"
proof -
  have "(k * d + (d - 1)) div d = k + (d - 1) div d"
    using assms by (metis div_mult_self3 less_not_refl)
  then show ?thesis using assms by simp
qed

text \<open>A rounded-up quotient is the least number of divisors that covers the dividend.\<close>

lemma ceiling_le_iff:
  assumes "0 < (d::nat)" shows "(n + d - 1) div d \<le> k \<longleftrightarrow> n \<le> k * d"
proof
  assume "(n + d - 1) div d \<le> k"
  then have "(n + d - 1) div d * d \<le> k * d" by simp
  moreover have "n + d - 1 < (n + d - 1) div d * d + d"
    using assms div_mult_mod_eq[of "n + d - 1" d] mod_less_divisor[of d "n + d - 1"] by linarith
  ultimately show "n \<le> k * d" by linarith
next
  assume "n \<le> k * d"
  then have "n + d - 1 \<le> k * d + (d - 1)" using assms by linarith
  then have "(n + d - 1) div d \<le> (k * d + (d - 1)) div d" by (rule div_le_mono)
  then show "(n + d - 1) div d \<le> k" by (simp only: div_less_multiple[OF assms])
qed

subsection \<open>Words\<close>

definition bool_word :: "bool \<Rightarrow> 'w::len word" where
  "bool_word b = (if b then 1 else 0)"

lemma bool_word_simps [simp]:
  "bool_word True = 1" "bool_word False = 0"
  "bool_word b = (0 :: 'w::len word) \<longleftrightarrow> \<not> b"
  by (simp_all add: bool_word_def)

text \<open>Assignment to a one-bit C bit-field keeps the lowest bit only.\<close>

definition bitfield1 :: "u32 \<Rightarrow> u32" where
  "bitfield1 x = x AND 1"

lemma bitfield1_simps [simp]: "bitfield1 0 = 0" "bitfield1 1 = 1"
  by (simp_all add: bitfield1_def)

lemma bitfield1_cases: "bitfield1 x = 0 \<or> bitfield1 x = 1"
  by (simp add: bitfield1_def and_one_eq mod2_eq_if)

text \<open>\<open>hweight32\<close>: the number of set bits.\<close>

definition hweight32 :: "u32 \<Rightarrow> u32" where
  "hweight32 w = of_nat (length (filter (bit w) [0..<32]))"

lemma hweight32_simps [simp]: "hweight32 0 = 0"
  by (simp add: hweight32_def)

lemma unat_hweight32: "unat (hweight32 w) = card {i. i < 32 \<and> bit w i}"
proof -
  have "length (filter (bit w) [0..<32]) \<le> length [0..<(32::nat)]"
    by (rule length_filter_le)
  then have "length (filter (bit w) [0..<32]) \<le> 32"
    by (simp only: length_upt)
  then have "unat (hweight32 w) = length (filter (bit w) [0..<32])"
    by (simp add: hweight32_def unsigned_of_nat take_bit_nat_eq_self)
  also have "\<dots> = card (set (filter (bit w) [0..<32]))"
    by (rule distinct_card[symmetric]) simp
  also have "set (filter (bit w) [0..<32]) = {i. i < 32 \<and> bit w i}"
    by auto
  finally show ?thesis .
qed

lemma unat_less_32: "unat (x :: u32) < 4294967296"
  using unsigned_less[of x] by simp

lemma unat_ucast_32_64 [simp]: "unat (ucast (x :: u32) :: u64) = unat x"
proof -
  have "unat x < 2 ^ 64" using unat_less_32[of x] by simp
  then show ?thesis by (simp add: unsigned_ucast_eq take_bit_nat_eq_self)
qed

lemma unat_ucast_64_32: "unat (ucast (x :: u64) :: u32) = unat x mod 4294967296"
  by (simp add: unsigned_ucast_eq take_bit_eq_mod)

text \<open>The product of two \<open>u32\<close> values, widened to \<open>u64\<close> first, does not wrap.\<close>

lemma unat_mult_64:
  "unat (ucast (x :: u32) * ucast (y :: u32) :: u64) = unat x * unat y"
proof -
  have "unat x * unat y \<le> 4294967295 * 4294967295"
    using unat_less_32[of x] unat_less_32[of y] by (intro mult_le_mono) auto
  then show ?thesis by (simp add: unat_word_ariths)
qed

text \<open>A value below \<open>2^31\<close> reads the same signed and unsigned.\<close>

lemma sint_small:
  assumes "unat (k :: u32) < 2147483648"
  shows "sint k = int (unat k)"
proof -
  have u: "uint k < 2 ^ 31" using assms by (simp only: unat_eq_nat_uint nat_less_iff[OF uint_ge_0], simp)
  have "signed_take_bit 31 (uint k) = uint k"
    by (rule signed_take_bit_int_eq_self) (use u uint_ge_0[of k] in linarith)+
  moreover have "sint k = signed_take_bit 31 (uint k)"
    using sint_uint[of k] by (simp only: len_num1 len_num0 len_bit0 len_bit1) (simp add: eval_nat_numeral)
  ultimately show ?thesis by simp
qed
end
