(* ===== verification/FsTypes.thy ===== *)
theory FsTypes
  imports Prelude
begin

text \<open>
  The data of the frame-sync driver (\<open>frame-sync/*.h\<close> and the private structures at the head
  of each \<open>frame-sync/*.c\<close> file), one record per C structure, and the record of the whole
  driver state: the static variables of \<open>frame_sync.c\<close>, \<open>frame_sync_algo.c\<close>,
  \<open>frame_monitor.c\<close>, \<open>hw_sensor_sync_algo.c\<close> and \<open>frame_sync_console.c\<close>. Record fields carry
  the C field name behind a two-letter prefix of the structure.
\<close>

subsection \<open>Constants\<close>

definition SENSOR_MAX_NUM :: u32 where "SENSOR_MAX_NUM = 5"
definition FS_TOLERANCE :: u32 where "FS_TOLERANCE = 1000"
definition MASTER_IDX_NONE :: u32 where "MASTER_IDX_NONE = 255"
definition RECORDER_DEPTH :: u32 where "RECORDER_DEPTH = 4"
definition VSYNCS_MAX :: u32 where "VSYNCS_MAX = 4"
definition CCU_CAM_TG_MIN :: u32 where "CCU_CAM_TG_MIN = 1"
definition CCU_CAM_TG_MAX :: u32 where "CCU_CAM_TG_MAX = 4"
definition CAMSV_TG_MIN :: u32 where "CAMSV_TG_MIN = 5"
definition CAMSV_TG_MAX :: u32 where "CAMSV_TG_MAX = 15"
definition FM_TG_CNT :: u32 where "FM_TG_CNT = CAMSV_TG_MAX"
definition TG_MAX_NUM :: u32 where "TG_MAX_NUM = CCU_CAM_TG_MAX - CCU_CAM_TG_MIN"
definition FS_HDR_MAX :: u32 where "FS_HDR_MAX = 5"

lemmas fs_const_defs =
  SENSOR_MAX_NUM_def FS_TOLERANCE_def MASTER_IDX_NONE_def RECORDER_DEPTH_def VSYNCS_MAX_def
  CCU_CAM_TG_MIN_def CCU_CAM_TG_MAX_def CAMSV_TG_MIN_def CAMSV_TG_MAX_def FM_TG_CNT_def
  TG_MAX_NUM_def FS_HDR_MAX_def

text \<open>The values of a loop \<open>for (i = 0; i < n; ++i)\<close> over an \<open>unsigned int\<close>.\<close>

definition loop_idx :: "u32 \<Rightarrow> u32 list" where
  "loop_idx n = map of_nat [0..<unat n]"

definition sensor_loop :: "u32 list" where
  "sensor_loop = [0, 1, 2, 3, 4]"

lemma sensor_loop_eq: "sensor_loop = loop_idx SENSOR_MAX_NUM"
  by (simp add: sensor_loop_def loop_idx_def SENSOR_MAX_NUM_def upt_rec)

lemma length_loop_idx [simp]: "length (loop_idx n) = unat n"
  by (simp add: loop_idx_def)

lemma set_loop_idx: "set (loop_idx n) = {i. i < n}"
proof -
  have "i \<in> of_nat ` {0..<unat n} \<longleftrightarrow> i < n" for i :: u32
  proof
    assume "i \<in> of_nat ` {0..<unat n}"
    then obtain k where k: "k < unat n" "i = of_nat k" by auto
    then have "unat i = k" using unat_less_32[of n]
      by (simp add: unsigned_of_nat take_bit_nat_eq_self)
    with k show "i < n" by (simp add: word_less_nat_alt)
  next
    assume "i < n"
    then have "unat i \<in> {0..<unat n}" "i = of_nat (unat i)"
      by (simp_all add: word_less_nat_alt)
    then show "i \<in> of_nat ` {0..<unat n}" by blast
  qed
  then show ?thesis by (auto simp: loop_idx_def)
qed

lemma distinct_sensor_loop: "distinct sensor_loop"
  by (simp add: sensor_loop_def)

subsection \<open>Enumerations and flags\<close>

datatype FS_STATUS =
  FS_NONE | FS_INITIALIZED | FS_WAIT_FOR_SYNCFRAME_START | FS_START_TO_GET_PERFRAME_CTRL
| FS_STATUS_UNKNOWN

fun fs_status_val :: "FS_STATUS \<Rightarrow> nat" where
  "fs_status_val FS_NONE = 0"
| "fs_status_val FS_INITIALIZED = 1"
| "fs_status_val FS_WAIT_FOR_SYNCFRAME_START = 2"
| "fs_status_val FS_START_TO_GET_PERFRAME_CTRL = 3"
| "fs_status_val FS_STATUS_UNKNOWN = 4"

text \<open>The C code compares enumerators by their value (\<open>status < FS_WAIT_FOR_SYNCFRAME_START\<close>).\<close>

lemma fs_status_val_inj: "fs_status_val a = fs_status_val b \<Longrightarrow> a = b"
  by (cases a; cases b) simp_all

instantiation FS_STATUS :: linorder
begin

definition less_eq_FS_STATUS :: "FS_STATUS \<Rightarrow> FS_STATUS \<Rightarrow> bool" where
  "less_eq_FS_STATUS a b = (fs_status_val a \<le> fs_status_val b)"

definition less_FS_STATUS :: "FS_STATUS \<Rightarrow> FS_STATUS \<Rightarrow> bool" where
  "less_FS_STATUS a b = (fs_status_val a < fs_status_val b)"

instance
  by standard (auto simp: less_eq_FS_STATUS_def less_FS_STATUS_def dest: fs_status_val_inj)

end

definition FS_SYNC_TYPE_NONE :: u32 where "FS_SYNC_TYPE_NONE = 0"
definition FS_SYNC_TYPE_VSYNC :: u32 where "FS_SYNC_TYPE_VSYNC = 2"
definition FS_SYNC_TYPE_READOUT_CENTER :: u32 where "FS_SYNC_TYPE_READOUT_CENTER = 4"
definition FS_SYNC_TYPE_LE :: u32 where "FS_SYNC_TYPE_LE = 8"
definition FS_SYNC_TYPE_SE :: u32 where "FS_SYNC_TYPE_SE = 16"

definition FS_FT_MODE_NORMAL :: u32 where "FS_FT_MODE_NORMAL = 0"
definition FS_FT_MODE_STG_HDR :: u32 where "FS_FT_MODE_STG_HDR = 1"
definition FS_FT_MODE_FRAME_TAG :: u32 where "FS_FT_MODE_FRAME_TAG = 2"
definition FS_FT_MODE_ASSIGN_FRAME_TAG :: u32 where "FS_FT_MODE_ASSIGN_FRAME_TAG = 4"
definition FS_FT_MODE_N_1_ON :: u32 where "FS_FT_MODE_N_1_ON = 8"
definition FS_FT_MODE_N_1_KEEP :: u32 where "FS_FT_MODE_N_1_KEEP = 16"
definition FS_FT_MODE_N_1_OFF :: u32 where "FS_FT_MODE_N_1_OFF = 32"

lemmas fs_flag_defs =
  FS_SYNC_TYPE_NONE_def FS_SYNC_TYPE_VSYNC_def FS_SYNC_TYPE_READOUT_CENTER_def
  FS_SYNC_TYPE_LE_def FS_SYNC_TYPE_SE_def FS_FT_MODE_NORMAL_def FS_FT_MODE_STG_HDR_def
  FS_FT_MODE_FRAME_TAG_def FS_FT_MODE_ASSIGN_FRAME_TAG_def FS_FT_MODE_N_1_ON_def
  FS_FT_MODE_N_1_KEEP_def FS_FT_MODE_N_1_OFF_def

definition FS_SA_ADAPTIVE_MASTER :: u32 where "FS_SA_ADAPTIVE_MASTER = 0"

definition FS_HDR_LE :: int where "FS_HDR_LE = 0"
definition FS_HDR_ME :: int where "FS_HDR_ME = 1"
definition FS_HDR_SE :: int where "FS_HDR_SE = 2"

text \<open>
  \<open>hdr_exp_idx_map[cnt][i]\<close>; \<open>None\<close> is a read outside the six rows of five columns.
\<close>

definition hdr_exp_idx_table :: "int list list" where
  "hdr_exp_idx_table =
     [[-1, -1, -1, -1, -1],
      [ 0, -1, -1, -1, -1],
      [ 0,  2, -1, -1, -1],
      [ 0,  1,  2, -1, -1],
      [ 0,  1,  2,  3, -1],
      [ 0,  1,  2,  3,  4]]"

definition hdr_exp_idx_map :: "u32 \<Rightarrow> u32 \<Rightarrow> int option" where
  "hdr_exp_idx_map cnt i =
     (if unat cnt < length hdr_exp_idx_table \<and> unat i < length (hdr_exp_idx_table ! unat cnt)
      then Some (hdr_exp_idx_table ! unat cnt ! unat i) else None)"

subsection \<open>Structures shared with the sensor driver (\<open>frame_sync.h\<close>)\<close>

record fs_hdr_exp_st =
  he_mode_exp_cnt :: u32
  he_ae_exp_cnt :: u32
  he_exp_lc :: "u32 carray"
  he_readout_len_lc :: u32
  he_read_margin_lc :: u32

text \<open>Function and context pointers handed in by the sensor driver are opaque; 0 is null.\<close>

record fs_streaming_st =
  ss_sensor_id :: u32
  ss_sensor_idx :: u32
  ss_tg :: u32
  ss_fl_active_delay :: u32
  ss_def_fl_lc :: u32
  ss_max_fl_lc :: u32
  ss_def_shutter_lc :: u32
  ss_sync_mode :: u32
  ss_hdr_exp :: fs_hdr_exp_st
  ss_func_ptr :: u64
  ss_p_ctx :: u64

record fs_perframe_st =
  pf_sensor_id :: u32
  pf_sensor_idx :: u32
  pf_min_fl_lc :: u32
  pf_shutter_lc :: u32
  pf_margin_lc :: u32
  pf_flicker_en :: u32
  pf_out_fl_lc :: u32
  pf_hdr_exp :: fs_hdr_exp_st
  pf_pclk :: u32
  pf_linelength :: u32
  pf_lineTimeInNs :: u32
  pf_cmd_id :: u32

subsection \<open>Frame recorder (\<open>frame_sync.c\<close>, \<open>frame_sync_def.h\<close>)\<close>

record FrameRecord =
  fr_shutter_lc :: u32
  fr_framelength_lc :: u32

record FrameRecorder =
  rc_init :: u32
  rc_depthIdx :: u32
  rc_frame_recs :: "FrameRecord carray"

text \<open>
  \<open>struct frame_record_st\<close> holds two pointers into the recorder of a sensor. A pointer
  \<open>&fs_mgr.frm_recorder[i].frame_recs[d].shutter_lc\<close> is the pair \<open>(i, d)\<close>, null is
  \<open>None\<close>; the field it points to is fixed by the pointer's own field name.
\<close>

type_synonym rec_ptr = "(u32 \<times> u32) option"

record frame_record_st =
  rs_framelength_lc :: rec_ptr
  rs_shutter_lc :: rec_ptr

subsection \<open>Algorithm state (\<open>frame_sync_algo.c\<close>)\<close>

record FrameSyncDynamicPara =
  dp_magic_num :: u32
  dp_master_idx :: u32
  dp_chg_master :: u32
  dp_adj_diff_m :: int
  dp_adj_diff_s :: int
  dp_adj_or_not :: u32
  dp_min_fl_us :: u32
  dp_target_min_fl_us :: u32
  dp_stable_fl_us :: u32
  dp_pred_fl_us :: "u32 carray"
  dp_ts_bias_us :: u32
  dp_f_tag :: u32
  dp_f_cell :: u32
  dp_tag_bias_us :: u32
  dp_delta :: u32
  dp_cur_tick :: u32
  dp_last_ts :: u32
  dp_vsyncs :: u32

record FrameSyncStandAloneInst =
  sa_master_idx :: u32
  sa_magic_num :: "u32 carray"
  sa_dynamic_paras :: "FrameSyncDynamicPara carray"

record FrameSyncInst =
  fi_sensor_id :: u32
  fi_sensor_idx :: u32
  fi_sync_type :: u32
  fi_custom_bias_us :: u32
  fi_tg :: u32
  fi_fl_active_delay :: u32
  fi_def_min_fl_lc :: u32
  fi_max_fl_lc :: u32
  fi_def_shutter_lc :: u32
  fi_flicker_en :: u32
  fi_min_fl_lc :: u32
  fi_shutter_lc :: u32
  fi_hdr_exp :: fs_hdr_exp_st
  fi_prev_hdr_exp :: fs_hdr_exp_st
  fi_margin_lc :: u32
  fi_pclk :: u32
  fi_linelength :: u32
  fi_lineTimeInNs :: u32
  fi_output_fl_lc :: u32
  fi_output_fl_us :: u32
  fi_readout_min_fl_lc :: u32
  fi_prev_readout_min_fl_lc :: u32
  fi_extend_fl_lc :: u32
  fi_extend_fl_us :: u32
  fi_n_1_on_off :: u32
  fi_frame_cell_size :: u32
  fi_frame_tag :: u32
  fi_predicted_fl_us :: "u32 carray"
  fi_predicted_fl_lc :: "u32 carray"
  fi_vsyncs_updated :: u32
  fi_recs :: "frame_record_st carray"
  fi_vsyncs :: u32
  fi_last_vts :: u32
  fi_cur_tick :: u32
  fi_vdiff :: u32
  fi_is_nonvalid_ts :: u32

record alg_state =
  al_inst :: "FrameSyncInst carray"
  al_sa :: FrameSyncStandAloneInst
  al_target_min_fl_us :: u32
  al_cur_tick :: u32
  al_tick_factor :: u32

subsection \<open>Frame monitor state (\<open>frame_monitor.c\<close>, \<open>frame_monitor.h\<close>)\<close>

record vsync_time =
  vt_id :: u32
  vt_vsyncs :: u32
  vt_timestamps :: "u32 carray"

record vsync_rec =
  vr_ids :: u32
  vr_cur_tick :: u32
  vr_tick_factor :: u32
  vr_recs :: "vsync_time carray"

record FrameResult =
  rt_predicted_fl_us :: u32
  rt_predicted_fl_lc :: u32
  rt_actual_fl_us :: u32

record FrameMeasurement =
  fm_is_init :: u32
  fm_idx :: u32
  fm_timestamps :: "u32 carray"
  fm_results :: "FrameResult carray"

record FrameInfo =
  in_sensor_id :: u32
  in_sensor_idx :: u32
  in_tg :: u32
  in_wait_for_setting_predicted_fl :: u32
  in_fmeas :: FrameMeasurement

record FrameMonitorInst =
  mo_camsv0_tg :: u32
  mo_recs :: "vsync_time carray"
  mo_query_ts_at_tick :: "u32 carray"
  mo_cur_tick :: u32
  mo_tick_factor :: u32
  mo_f_info :: "FrameInfo carray"
  mo_ts_last_check :: "u32 carray"
  mo_ts_last_query :: "u32 carray"
  mo_ts_check_cnt :: u32

subsection \<open>Hardware sync, console and manager state\<close>

record HwSyncSensorInfo =
  hw_sensor_id :: u32
  hw_sensor_idx :: u32
  hw_fl_active_delay :: u32
  hw_sync_mode :: u32
  hw_line_time_in_ns :: u32
  hw_min_fl_lc :: u32
  hw_shutter_lc :: u32
  hw_margin_lc :: u32

record fs_console =
  co_log_tracer :: u32
  co_force_to_ignore_set_sync :: u32
  co_default_en_set_sync :: u32
  co_auto_listen_ext_vsync :: u32
  co_listen_ext_vsync :: u32
  co_listen_vsync_alg :: u32

record SensorInfo =
  si_sensor_id :: u32
  si_sensor_idx :: u32

record callback_st =
  cb_p_ctx :: u64
  cb_cmd_id :: u32
  cb_func_ptr :: u64

record FrameSyncMgr =
  mg_reg_cnt :: u32
  mg_sensors :: "SensorInfo carray"
  mg_fs_status :: u32
  mg_user_counter :: u32
  mg_streaming_bits :: u32
  mg_enSync_bits :: u32
  mg_validSync_bits :: u32
  mg_pf_ctrl_bits :: u32
  mg_last_pf_ctrl_bits :: u32
  mg_setup_complete_bits :: u32
  mg_last_setup_complete_bits :: u32
  mg_ft_mode :: "u32 carray"
  mg_frame_cell_size :: "u32 carray"
  mg_frame_tag :: "u32 carray"
  mg_pf_ctrl :: "fs_perframe_st carray"
  mg_cb_data :: "callback_st carray"
  mg_act_cnt :: u32
  mg_user_set_sa :: u32
  mg_using_sa_ver :: u32
  mg_sa_bits :: u32
  mg_sa_method :: u32
  mg_master_idx :: u32

text \<open>
  The whole state. The recorder memory (\<open>fs_mgr.frm_recorder\<close>) is a field of its own since
  the algorithm reads and writes it through the pointers of \<open>fs_inst[idx].recs\<close>. Calls of a
  sensor driver's frame-length callback are appended to \<open>w_cb_calls\<close>: function pointer,
  context, command id and frame length.
\<close>

record fs_world =
  w_alg :: alg_state
  w_recorder :: "FrameRecorder carray"
  w_frm :: FrameMonitorInst
  w_hw :: "HwSyncSensorInfo carray"
  w_con :: fs_console
  w_mgr :: FrameSyncMgr
  w_cb_calls :: "(u64 \<times> u64 \<times> u32 \<times> u32) list"

subsection \<open>Zero-initialised structures\<close>

definition zero_hdr_exp :: fs_hdr_exp_st where
  "zero_hdr_exp = \<lparr>he_mode_exp_cnt = 0, he_ae_exp_cnt = 0, he_exp_lc = (\<lambda>_. 0),
     he_readout_len_lc = 0, he_read_margin_lc = 0\<rparr>"

definition null_frame_record_st :: frame_record_st where
  "null_frame_record_st = \<lparr>rs_framelength_lc = None, rs_shutter_lc = None\<rparr>"

definition zero_perframe :: fs_perframe_st where
  "zero_perframe = \<lparr>pf_sensor_id = 0, pf_sensor_idx = 0, pf_min_fl_lc = 0, pf_shutter_lc = 0,
     pf_margin_lc = 0, pf_flicker_en = 0, pf_out_fl_lc = 0, pf_hdr_exp = zero_hdr_exp,
     pf_pclk = 0, pf_linelength = 0, pf_lineTimeInNs = 0, pf_cmd_id = 0\<rparr>"

definition zero_dynamic_para :: FrameSyncDynamicPara where
  "zero_dynamic_para = \<lparr>dp_magic_num = 0, dp_master_idx = 0, dp_chg_master = 0,
     dp_adj_diff_m = 0, dp_adj_diff_s = 0, dp_adj_or_not = 0, dp_min_fl_us = 0,
     dp_target_min_fl_us = 0, dp_stable_fl_us = 0, dp_pred_fl_us = (\<lambda>_. 0),
     dp_ts_bias_us = 0, dp_f_tag = 0, dp_f_cell = 0, dp_tag_bias_us = 0, dp_delta = 0,
     dp_cur_tick = 0, dp_last_ts = 0, dp_vsyncs = 0\<rparr>"

definition zero_fs_inst :: FrameSyncInst where
  "zero_fs_inst = \<lparr>fi_sensor_id = 0, fi_sensor_idx = 0, fi_sync_type = 0,
     fi_custom_bias_us = 0, fi_tg = 0, fi_fl_active_delay = 0, fi_def_min_fl_lc = 0,
     fi_max_fl_lc = 0, fi_def_shutter_lc = 0, fi_flicker_en = 0, fi_min_fl_lc = 0,
     fi_shutter_lc = 0, fi_hdr_exp = zero_hdr_exp, fi_prev_hdr_exp = zero_hdr_exp,
     fi_margin_lc = 0, fi_pclk = 0, fi_linelength = 0, fi_lineTimeInNs = 0,
     fi_output_fl_lc = 0, fi_output_fl_us = 0, fi_readout_min_fl_lc = 0,
     fi_prev_readout_min_fl_lc = 0, fi_extend_fl_lc = 0, fi_extend_fl_us = 0,
     fi_n_1_on_off = 0, fi_frame_cell_size = 0, fi_frame_tag = 0,
     fi_predicted_fl_us = (\<lambda>_. 0), fi_predicted_fl_lc = (\<lambda>_. 0), fi_vsyncs_updated = 0,
     fi_recs = (\<lambda>_. null_frame_record_st), fi_vsyncs = 0, fi_last_vts = 0,
     fi_cur_tick = 0, fi_vdiff = 0, fi_is_nonvalid_ts = 0\<rparr>"

definition zero_vsync_time :: vsync_time where
  "zero_vsync_time = \<lparr>vt_id = 0, vt_vsyncs = 0, vt_timestamps = (\<lambda>_. 0)\<rparr>"

definition zero_vsync_rec :: vsync_rec where
  "zero_vsync_rec = \<lparr>vr_ids = 0, vr_cur_tick = 0, vr_tick_factor = 0,
     vr_recs = (\<lambda>_. zero_vsync_time)\<rparr>"

definition zero_frame_result :: FrameResult where
  "zero_frame_result = \<lparr>rt_predicted_fl_us = 0, rt_predicted_fl_lc = 0, rt_actual_fl_us = 0\<rparr>"

definition zero_measurement :: FrameMeasurement where
  "zero_measurement = \<lparr>fm_is_init = 0, fm_idx = 0, fm_timestamps = (\<lambda>_. 0),
     fm_results = (\<lambda>_. zero_frame_result)\<rparr>"

definition zero_frame_info :: FrameInfo where
  "zero_frame_info = \<lparr>in_sensor_id = 0, in_sensor_idx = 0, in_tg = 0,
     in_wait_for_setting_predicted_fl = 0, in_fmeas = zero_measurement\<rparr>"

definition zero_frame_record :: FrameRecord where
  "zero_frame_record = \<lparr>fr_shutter_lc = 0, fr_framelength_lc = 0\<rparr>"

text \<open>The state at module load: every static variable is zero.\<close>

definition zero_world :: fs_world where
  "zero_world = \<lparr>
     w_alg = \<lparr>al_inst = (\<lambda>_. zero_fs_inst),
       al_sa = \<lparr>sa_master_idx = 0, sa_magic_num = (\<lambda>_. 0),
         sa_dynamic_paras = (\<lambda>_. zero_dynamic_para)\<rparr>,
       al_target_min_fl_us = 0, al_cur_tick = 0, al_tick_factor = 0\<rparr>,
     w_recorder = (\<lambda>_. \<lparr>rc_init = 0, rc_depthIdx = 0,
       rc_frame_recs = (\<lambda>_. zero_frame_record)\<rparr>),
     w_frm = \<lparr>mo_camsv0_tg = 0, mo_recs = (\<lambda>_. zero_vsync_time),
       mo_query_ts_at_tick = (\<lambda>_. 0), mo_cur_tick = 0, mo_tick_factor = 0,
       mo_f_info = (\<lambda>_. zero_frame_info), mo_ts_last_check = (\<lambda>_. 0),
       mo_ts_last_query = (\<lambda>_. 0), mo_ts_check_cnt = 0\<rparr>,
     w_hw = (\<lambda>_. \<lparr>hw_sensor_id = 0, hw_sensor_idx = 0, hw_fl_active_delay = 0,
       hw_sync_mode = 0, hw_line_time_in_ns = 0, hw_min_fl_lc = 0, hw_shutter_lc = 0,
       hw_margin_lc = 0\<rparr>),
     w_con = \<lparr>co_log_tracer = 0, co_force_to_ignore_set_sync = 0,
       co_default_en_set_sync = 0, co_auto_listen_ext_vsync = 0, co_listen_ext_vsync = 0,
       co_listen_vsync_alg = 0\<rparr>,
     w_mgr = \<lparr>mg_reg_cnt = 0, mg_sensors = (\<lambda>_. \<lparr>si_sensor_id = 0, si_sensor_idx = 0\<rparr>),
       mg_fs_status = 0, mg_user_counter = 0, mg_streaming_bits = 0, mg_enSync_bits = 0,
       mg_validSync_bits = 0, mg_pf_ctrl_bits = 0, mg_last_pf_ctrl_bits = 0,
       mg_setup_complete_bits = 0, mg_last_setup_complete_bits = 0, mg_ft_mode = (\<lambda>_. 0),
       mg_frame_cell_size = (\<lambda>_. 0), mg_frame_tag = (\<lambda>_. 0),
       mg_pf_ctrl = (\<lambda>_. zero_perframe),
       mg_cb_data = (\<lambda>_. \<lparr>cb_p_ctx = 0, cb_cmd_id = 0, cb_func_ptr = 0\<rparr>),
       mg_act_cnt = 0, mg_user_set_sa = 0, mg_using_sa_ver = 0, mg_sa_bits = 0,
       mg_sa_method = 0, mg_master_idx = 0\<rparr>,
     w_cb_calls = []\<rparr>"

subsection \<open>Access to one array element of the state\<close>

abbreviation fs_inst :: "fs_world \<Rightarrow> u32 \<Rightarrow> FrameSyncInst" where
  "fs_inst w \<equiv> al_inst (w_alg w)"

abbreviation dyn_para :: "fs_world \<Rightarrow> u32 \<Rightarrow> FrameSyncDynamicPara" where
  "dyn_para w \<equiv> sa_dynamic_paras (al_sa (w_alg w))"

definition upd_inst :: "u32 \<Rightarrow> (FrameSyncInst \<Rightarrow> FrameSyncInst) \<Rightarrow> fs_world \<Rightarrow> fs_world" where
  "upd_inst idx f w = w\<lparr>w_alg := (w_alg w)\<lparr>al_inst := (fs_inst w)(idx := f (fs_inst w idx))\<rparr>\<rparr>"

definition upd_sa :: "(FrameSyncStandAloneInst \<Rightarrow> FrameSyncStandAloneInst) \<Rightarrow> fs_world \<Rightarrow> fs_world" where
  "upd_sa f w = w\<lparr>w_alg := (w_alg w)\<lparr>al_sa := f (al_sa (w_alg w))\<rparr>\<rparr>"

definition upd_recorder :: "u32 \<Rightarrow> (FrameRecorder \<Rightarrow> FrameRecorder) \<Rightarrow> fs_world \<Rightarrow> fs_world" where
  "upd_recorder idx f w = w\<lparr>w_recorder := (w_recorder w)(idx := f (w_recorder w idx))\<rparr>"

definition upd_frm :: "(FrameMonitorInst \<Rightarrow> FrameMonitorInst) \<Rightarrow> fs_world \<Rightarrow> fs_world" where
  "upd_frm f w = w\<lparr>w_frm := f (w_frm w)\<rparr>"

definition upd_mgr :: "(FrameSyncMgr \<Rightarrow> FrameSyncMgr) \<Rightarrow> fs_world \<Rightarrow> fs_world" where
  "upd_mgr f w = w\<lparr>w_mgr := f (w_mgr w)\<rparr>"

lemma upd_inst_sel [simp]:
  "fs_inst (upd_inst idx f w) j = (if j = idx then f (fs_inst w idx) else fs_inst w j)"
  "al_sa (w_alg (upd_inst idx f w)) = al_sa (w_alg w)"
  "al_target_min_fl_us (w_alg (upd_inst idx f w)) = al_target_min_fl_us (w_alg w)"
  "al_cur_tick (w_alg (upd_inst idx f w)) = al_cur_tick (w_alg w)"
  "al_tick_factor (w_alg (upd_inst idx f w)) = al_tick_factor (w_alg w)"
  "w_recorder (upd_inst idx f w) = w_recorder w"
  "w_frm (upd_inst idx f w) = w_frm w" "w_hw (upd_inst idx f w) = w_hw w"
  "w_con (upd_inst idx f w) = w_con w" "w_mgr (upd_inst idx f w) = w_mgr w"
  "w_cb_calls (upd_inst idx f w) = w_cb_calls w"
  by (simp_all add: upd_inst_def)

lemma upd_sa_sel [simp]:
  "al_inst (w_alg (upd_sa g w)) = al_inst (w_alg w)"
  "al_sa (w_alg (upd_sa g w)) = g (al_sa (w_alg w))"
  "al_target_min_fl_us (w_alg (upd_sa g w)) = al_target_min_fl_us (w_alg w)"
  "al_cur_tick (w_alg (upd_sa g w)) = al_cur_tick (w_alg w)"
  "al_tick_factor (w_alg (upd_sa g w)) = al_tick_factor (w_alg w)"
  "w_recorder (upd_sa g w) = w_recorder w"
  "w_frm (upd_sa g w) = w_frm w" "w_hw (upd_sa g w) = w_hw w"
  "w_con (upd_sa g w) = w_con w" "w_mgr (upd_sa g w) = w_mgr w"
  "w_cb_calls (upd_sa g w) = w_cb_calls w"
  by (simp_all add: upd_sa_def)

lemma upd_recorder_sel [simp]:
  "w_recorder (upd_recorder idx f w) j = (if j = idx then f (w_recorder w idx) else w_recorder w j)"
  "w_alg (upd_recorder idx f w) = w_alg w"
  "w_frm (upd_recorder idx f w) = w_frm w" "w_hw (upd_recorder idx f w) = w_hw w"
  "w_con (upd_recorder idx f w) = w_con w" "w_mgr (upd_recorder idx f w) = w_mgr w"
  "w_cb_calls (upd_recorder idx f w) = w_cb_calls w"
  by (simp_all add: upd_recorder_def)

lemma upd_frm_sel [simp]:
  "w_alg (upd_frm g w) = w_alg w" "w_recorder (upd_frm g w) = w_recorder w"
  "w_frm (upd_frm g w) = g (w_frm w)" "w_hw (upd_frm g w) = w_hw w"
  "w_con (upd_frm g w) = w_con w" "w_mgr (upd_frm g w) = w_mgr w"
  "w_cb_calls (upd_frm g w) = w_cb_calls w"
  by (simp_all add: upd_frm_def)

lemma upd_mgr_sel [simp]:
  "w_alg (upd_mgr g w) = w_alg w" "w_recorder (upd_mgr g w) = w_recorder w"
  "w_frm (upd_mgr g w) = w_frm w" "w_hw (upd_mgr g w) = w_hw w"
  "w_con (upd_mgr g w) = w_con w" "w_mgr (upd_mgr g w) = g (w_mgr w)"
  "w_cb_calls (upd_mgr g w) = w_cb_calls w"
  by (simp_all add: upd_mgr_def)

end
