(* ===== verification/FsUtil.thy ===== *)
theory FsUtil
  imports FsTypes
begin

text \<open>
  \<open>frame_sync_util.c\<close>: line time, conversion between line counts and microseconds, and the
  order of two clock ticks.
\<close>

subsection \<open>Definitions\<close>

definition calcLineTimeInNs :: "u32 \<Rightarrow> u32 \<Rightarrow> u32 option" where
  "calcLineTimeInNs pclk linelength =
     (if pclk div 1000 = 0 then None
      else Some (ucast ((ucast linelength * 1000000 + ucast (pclk div 1000 - 1) :: u64)
                  div ucast (pclk div 1000))))"

definition convert2TotalTime :: "u32 \<Rightarrow> u32 \<Rightarrow> u32" where
  "convert2TotalTime lineTimeInNs lc =
     (if lineTimeInNs = 0 then 0
      else ucast ((ucast lc * ucast lineTimeInNs :: u64) div 1000))"

definition convert2LineCount :: "u32 \<Rightarrow> u32 \<Rightarrow> u32 option" where
  "convert2LineCount lineTimeInNs val =
     (if lineTimeInNs = 0 then None
      else let n = (1000 * ucast val :: u64); d = ucast lineTimeInNs
           in Some (ucast (n div d + (if n mod d \<noteq> 0 then 1 else 0))))"

definition check_tick_b_after_a :: "u32 \<Rightarrow> u32 \<Rightarrow> u32" where
  "check_tick_b_after_a tick_a tick_b =
     (let tick_diff = tick_b - tick_a; tick_max = (0 - 1 :: u32); tick_half = drop_bit 1 tick_max
      in if tick_diff < tick_half then 1 else 0)"

subsection \<open>What they compute\<close>

lemma unat_convert2TotalTime:
  "unat (convert2TotalTime lt lc) = (unat lc * unat lt div 1000) mod 4294967296"
  by (simp add: convert2TotalTime_def unat_ucast_64_32 unat_div_distrib unat_mult_64
        unat_eq_zero)

lemma convert2LineCount_None [simp]: "convert2LineCount 0 v = None"
  by (simp add: convert2LineCount_def)

lemma convert2LineCount_eq_None_iff: "convert2LineCount lt v = None \<longleftrightarrow> lt = 0"
  by (simp add: convert2LineCount_def Let_def)

lemma unat_1000_mult: "unat (1000 * ucast (v :: u32) :: u64) = 1000 * unat v"
  using unat_mult_64[of 1000 v] by simp

text \<open>The C expression is the ceiling of \<open>1000 * val / lineTimeInNs\<close>, truncated to 32 bits.\<close>

lemma convert2LineCount_ceiling:
  assumes "convert2LineCount lt v = Some lc"
  shows "0 < lt" and "unat lc = ((1000 * unat v + unat lt - 1) div unat lt) mod 4294967296"
proof -
  let ?n = "1000 * unat v" and ?d = "unat lt"
  from assms have lt: "lt \<noteq> 0"
    and lc: "lc = ucast ((1000 * ucast v :: u64) div ucast lt
        + (if (1000 * ucast v :: u64) mod ucast lt \<noteq> 0 then 1 else 0))"
    by (auto simp: convert2LineCount_def Let_def split: if_splits)
  show "0 < lt" using lt by (simp add: word_neq_0_conv)
  have d: "0 < ?d" using lt by (simp add: unat_gt_0)
  let ?e = "if ?n mod ?d \<noteq> 0 then 1 else (0::nat)"
  have "unat ((1000 * ucast v :: u64) mod ucast lt) = ?n mod ?d"
    by (simp add: unat_mod_distrib unat_1000_mult)
  then have m: "(1000 * ucast v :: u64) mod ucast lt = 0 \<longleftrightarrow> ?n mod ?d = 0"
    unfolding unat_0_iff[symmetric] by simp
  have b: "?n div ?d + ?e < 2 ^ 64"
  proof -
    have "?n \<le> 4294967295000" using unat_less_32[of v] by simp
    with div_le_dividend[of ?n ?d] have "?n div ?d \<le> 4294967295000" by (rule order_trans)
    then show ?thesis by simp
  qed
  have "unat ((1000 * ucast v :: u64) div ucast lt
        + (if (1000 * ucast v :: u64) mod ucast lt \<noteq> 0 then 1 else 0)) = ?n div ?d + ?e"
  proof -
    have "unat ((1000 * ucast v :: u64) div ucast lt) = ?n div ?d"
      by (simp add: unat_div_distrib unat_1000_mult)
    then show ?thesis using b m by (auto simp: unat_word_ariths)
  qed
  then have "unat lc = (?n div ?d + ?e) mod 4294967296"
    by (simp only: lc unat_ucast_64_32)
  also have "?n div ?d + ?e = (?n + ?d - 1) div ?d"
    using d by (rule div_ceiling)
  finally show "unat lc = ((1000 * unat v + unat lt - 1) div unat lt) mod 4294967296" .
qed

subsection \<open>Line counts and times form a Galois connection\<close>

text \<open>
  The interface the algorithm relies on when it turns a frame length in microseconds into
  lines: the line count is the least one whose exposure time covers the wanted time. The
  predicates say for which arguments the 32-bit results are not truncated.
\<close>

locale line_time =
  fixes to_us :: "u32 \<Rightarrow> u32" and to_lc :: "u32 \<Rightarrow> u32"
    and ok_us :: "u32 \<Rightarrow> bool" and ok_lc :: "u32 \<Rightarrow> bool"
  assumes galois: "ok_us v \<Longrightarrow> ok_lc lc \<Longrightarrow> to_lc v \<le> lc \<longleftrightarrow> v \<le> to_us lc"
    and ok_to_lc: "ok_us v \<Longrightarrow> ok_lc (to_lc v)"
begin

lemma covers: "ok_us v \<Longrightarrow> v \<le> to_us (to_lc v)"
  using galois[of v "to_lc v"] ok_to_lc by simp

lemma least: "ok_us v \<Longrightarrow> ok_lc lc \<Longrightarrow> v \<le> to_us lc \<Longrightarrow> to_lc v \<le> lc"
  using galois by simp

lemma mono: "ok_us v \<Longrightarrow> ok_us v' \<Longrightarrow> v \<le> v' \<Longrightarrow> to_lc v \<le> to_lc v'"
  using least[of v "to_lc v'"] covers[of v'] ok_to_lc[of v'] by (meson order_trans)

lemma stable:
  assumes "ok_us v" and "ok_us (to_us (to_lc v))"
  shows "to_lc (to_us (to_lc v)) = to_lc v"
  using assms by (meson antisym covers least mono ok_to_lc order_refl)

end

definition line_time_ok_us :: "u32 \<Rightarrow> u32 \<Rightarrow> bool" where
  "line_time_ok_us lt v \<longleftrightarrow> lt \<noteq> 0 \<and> 1000 * unat v \<le> unat lt * 4294967295
     \<and> unat v + (unat lt - 1) div 1000 < 4294967296"

definition line_time_ok_lc :: "u32 \<Rightarrow> u32 \<Rightarrow> bool" where
  "line_time_ok_lc lt lc \<longleftrightarrow> unat lc * unat lt div 1000 < 4294967296"

lemma unat_convert2LineCount:
  assumes "line_time_ok_us lt v"
  shows "unat (the (convert2LineCount lt v)) = (1000 * unat v + unat lt - 1) div unat lt"
proof -
  from assms have lt: "0 < unat lt" and le: "1000 * unat v \<le> unat lt * 4294967295"
    by (auto simp: line_time_ok_us_def unat_gt_0)
  then obtain lc where lc: "convert2LineCount lt v = Some lc"
    by (cases "convert2LineCount lt v") (auto simp: convert2LineCount_eq_None_iff)
  have "1000 * unat v \<le> 4294967295 * unat lt" using le by (simp add: mult.commute)
  then have "(1000 * unat v + unat lt - 1) div unat lt \<le> 4294967295"
    by (simp only: ceiling_le_iff[OF lt])
  then show ?thesis
    using convert2LineCount_ceiling(2)[OF lc] lc by simp
qed

interpretation lt: line_time "convert2TotalTime lt" "\<lambda>v. the (convert2LineCount lt v)"
    "line_time_ok_us lt" "line_time_ok_lc lt" for lt :: u32
proof
  fix v lc assume us: "line_time_ok_us lt v" and lc: "line_time_ok_lc lt lc"
  then have lt: "0 < unat lt" by (auto simp: line_time_ok_us_def unat_gt_0)
  have "the (convert2LineCount lt v) \<le> lc \<longleftrightarrow> 1000 * unat v \<le> unat lc * unat lt"
    by (simp only: word_le_nat_alt unat_convert2LineCount[OF us] ceiling_le_iff[OF lt])
  also have "\<dots> \<longleftrightarrow> unat v \<le> unat lc * unat lt div 1000"
    by (simp add: less_eq_div_iff_mult_less_eq mult.commute)
  also have "\<dots> \<longleftrightarrow> v \<le> convert2TotalTime lt lc"
    using lc by (simp add: word_le_nat_alt unat_convert2TotalTime line_time_ok_lc_def)
  finally show "the (convert2LineCount lt v) \<le> lc \<longleftrightarrow> v \<le> convert2TotalTime lt lc" .
next
  fix v assume us: "line_time_ok_us lt v"
  then have lt: "0 < unat lt" and b: "unat v + (unat lt - 1) div 1000 < 4294967296"
    by (auto simp: line_time_ok_us_def unat_gt_0)
  let ?lc = "(1000 * unat v + unat lt - 1) div unat lt"
  have "?lc * unat lt \<le> 1000 * unat v + unat lt - 1" by simp
  then have "?lc * unat lt div 1000 \<le> (1000 * unat v + (unat lt - 1)) div 1000"
    using lt by (intro div_le_mono) linarith
  also have "\<dots> = unat v + (unat lt - 1) div 1000" by simp
  finally show "line_time_ok_lc lt (the (convert2LineCount lt v))"
    using b by (simp only: line_time_ok_lc_def unat_convert2LineCount[OF us])
qed

subsection \<open>Order of ticks\<close>

text \<open>
  The tick test reads a wrap-around difference below \<open>2^31 - 1\<close> as "later": two different
  ticks are never each after the other, and a tick advanced by less than half the range is
  after the old one even when the 32-bit counter wraps in between.
\<close>

lemma check_tick_b_after_a_iff:
  "check_tick_b_after_a a b = 1 \<longleftrightarrow> unat (b - a) < 2147483647"
  by (simp add: check_tick_b_after_a_def Let_def word_less_nat_alt mask_numeral)

lemma check_tick_b_after_a_range: "check_tick_b_after_a a b \<in> {0, 1}"
  by (simp add: check_tick_b_after_a_def Let_def)

end
