(* ===== verification/FrameMonitor.thy ===== *)
theory FrameMonitor
  imports FsUtil
begin

text \<open>
  \<open>frame_monitor.c\<close>: the vsync records of every TG, the query that fills them, the per-sensor
  ring of measured frame lengths and the check that two sensors' timestamps agree. The
  operations are functions of the monitor's own state. The query of the CCU (or N3D) is code
  outside the repository: it is the parameter \<open>src\<close>, which gets the request and answers
  \<open>None\<close> for an error or the filled records. In the configuration of \<open>frame_sync_def.h\<close>
  neither \<open>USING_CCU\<close> nor \<open>USING_N3D\<close> is defined and the request itself is the answer
  (\<open>shipped_source\<close>).
\<close>

type_synonym vsync_source = "vsync_rec \<Rightarrow> vsync_rec option"

definition shipped_source :: vsync_source where
  "shipped_source r = Some r"

subsection \<open>Bounds of a TG number\<close>

definition check_tg_vsync_rec_pos_valid :: "u32 \<Rightarrow> bool" where
  "check_tg_vsync_rec_pos_valid tg = (\<not> (tg < 1 \<or> FM_TG_CNT < tg))"

definition check_tg_valid :: "u32 \<Rightarrow> bool" where
  "check_tg_valid tg = (\<not> (tg < CCU_CAM_TG_MIN \<or> FM_TG_CNT \<le> tg))"

subsection \<open>Saving and querying vsync data\<close>

definition copy_vsync_data_of_query :: "vsync_rec \<Rightarrow> FrameMonitorInst \<Rightarrow> FrameMonitorInst" where
  "copy_vsync_data_of_query pData m =
     fold (\<lambda>i m. let r = vr_recs pData i in
             if \<not> check_tg_valid (vt_id r) then m
             else let idx = vt_id r - 1 in
               m\<lparr>mo_recs := (mo_recs m)(idx := r),
                 mo_query_ts_at_tick := (mo_query_ts_at_tick m)(idx := vr_cur_tick pData)\<rparr>)
       (loop_idx (vr_ids pData))
       (m\<lparr>mo_cur_tick := vr_cur_tick pData, mo_tick_factor := vr_tick_factor pData\<rparr>)"

definition frm_save_vsync_timestamp :: "vsync_rec \<Rightarrow> FrameMonitorInst \<Rightarrow> FrameMonitorInst" where
  "frm_save_vsync_timestamp pData m = copy_vsync_data_of_query pData m"

definition frm_set_wait_for_setting_fmeas_by_tg ::
    "u32 list \<Rightarrow> FrameMonitorInst \<Rightarrow> FrameMonitorInst" where
  "frm_set_wait_for_setting_fmeas_by_tg tgs m =
     fold (\<lambda>i m. if in_tg (mo_f_info m i) = 0 then m
             else fold (\<lambda>tg m. if \<not> check_tg_valid tg then m
                     else if in_tg (mo_f_info m i) = tg
                     then m\<lparr>mo_f_info := (mo_f_info m)(i :=
                            (mo_f_info m i)\<lparr>in_wait_for_setting_predicted_fl := 1\<rparr>)\<rparr>
                     else m) tgs m)
       sensor_loop m"

text \<open>The device tree's camsv nodes: camsv id and cammux id, \<open>None\<close> for a missing property.\<close>

fun frm_get_camsv0_tg :: "(u32 option \<times> u32 option) list \<Rightarrow> u32" where
  "frm_get_camsv0_tg [] = 0"
| "frm_get_camsv0_tg ((Some camsv_id, Some cammux_id) # nodes) =
     (if camsv_id = 0 then cammux_id + 1 else frm_get_camsv0_tg nodes)"
| "frm_get_camsv0_tg (_ # nodes) = frm_get_camsv0_tg nodes"

definition frm_convert_cammux_tg_to_ccu_tg ::
    "(u32 option \<times> u32 option) list \<Rightarrow> u32 \<Rightarrow> FrameMonitorInst \<Rightarrow> u32 \<times> FrameMonitorInst" where
  "frm_convert_cammux_tg_to_ccu_tg nodes tg m =
     (let m1 = (if mo_camsv0_tg m = 0 then m\<lparr>mo_camsv0_tg := frm_get_camsv0_tg nodes\<rparr> else m);
          camsv_id = (if mo_camsv0_tg m1 \<le> tg then tg - mo_camsv0_tg m1 else - 1);
          tg_mapped = (if 0 \<le> sint camsv_id then camsv_id + CAMSV_TG_MIN else tg)
      in (if CAMSV_TG_MAX < tg_mapped then tg else tg_mapped, m1))"

definition frm_update_tg :: "u32 \<Rightarrow> u32 \<Rightarrow> FrameMonitorInst \<Rightarrow> FrameMonitorInst" where
  "frm_update_tg idx tg m =
     m\<lparr>mo_f_info := (mo_f_info m)(idx := (mo_f_info m idx)\<lparr>in_tg := tg\<rparr>)\<rparr>"

text \<open>The request: \<open>ids = len\<close> and one zeroed record per TG with its id filled in.\<close>

definition vsync_request :: "u32 list \<Rightarrow> vsync_rec" where
  "vsync_request tgs = zero_vsync_rec\<lparr>vr_ids := of_nat (length tgs),
     vr_recs := (\<lambda>i. if unat i < length tgs then zero_vsync_time\<lparr>vt_id := tgs ! unat i\<rparr>
                     else zero_vsync_time)\<rparr>"

definition frm_query_vsync_data ::
    "vsync_source \<Rightarrow> u32 list \<Rightarrow> vsync_rec \<Rightarrow> FrameMonitorInst
      \<Rightarrow> u32 \<times> vsync_rec \<times> FrameMonitorInst" where
  "frm_query_vsync_data src tgs pData m =
     (if unat TG_MAX_NUM < length tgs then (1, pData, m)
      else case src (vsync_request tgs) of
        None \<Rightarrow> (1, pData, m)
      | Some vsyncs_data \<Rightarrow>
          (0, vsyncs_data,
           frm_set_wait_for_setting_fmeas_by_tg tgs (frm_save_vsync_timestamp vsyncs_data m)))"

subsection \<open>Frame measurement\<close>

definition upd_fmeas ::
    "u32 \<Rightarrow> (FrameMeasurement \<Rightarrow> FrameMeasurement) \<Rightarrow> FrameMonitorInst \<Rightarrow> FrameMonitorInst" where
  "upd_fmeas idx f m = m\<lparr>mo_f_info := (mo_f_info m)(idx :=
     (mo_f_info m idx)\<lparr>in_fmeas := f (in_fmeas (mo_f_info m idx))\<rparr>)\<rparr>"

definition upd_result ::
    "u32 \<Rightarrow> (FrameResult \<Rightarrow> FrameResult) \<Rightarrow> FrameMeasurement \<Rightarrow> FrameMeasurement" where
  "upd_result k f p = p\<lparr>fm_results := (fm_results p)(k := f (fm_results p k))\<rparr>"

text \<open>One turn of the search loop of \<open>calc_ts_diff_and_info\<close>.\<close>

fun calc_ts_step ::
    "u32 \<Rightarrow> u32 \<Rightarrow> FrameMonitorInst \<times> u32 \<times> u32 \<Rightarrow> FrameMonitorInst \<times> u32 \<times> u32" where
  "calc_ts_step idx i (m, at, sof) =
     (if vt_id (mo_recs m i) = 0 then (m, at, sof)
      else if vt_id (mo_recs m i) = in_tg (mo_f_info m idx) then
        let m' = upd_fmeas idx (\<lambda>p. p\<lparr>fm_timestamps := (\<lambda>j. if j < VSYNCS_MAX
                     then vt_timestamps (mo_recs m i) j else fm_timestamps p j)\<rparr>) m;
            query_at_tick = mo_query_ts_at_tick m i;
            query_vts_at = (if 0 < mo_tick_factor m
                            then query_at_tick div mo_tick_factor m else 0);
            time_after_sof = (if 0 < query_vts_at
               then query_vts_at - fm_timestamps (in_fmeas (mo_f_info m' idx)) 0 else 0)
        in (m', query_vts_at, time_after_sof)
      else (m, at, sof))"

definition calc_ts_diff_and_info ::
    "u32 \<Rightarrow> FrameMonitorInst \<Rightarrow> u32 carray \<times> u32 \<times> u32 \<times> FrameMonitorInst" where
  "calc_ts_diff_and_info idx m =
     (let (m1, at1, sof1) = fold (calc_ts_step idx) (loop_idx FM_TG_CNT) (m, 0, 0);
          ts = fm_timestamps (in_fmeas (mo_f_info m1 idx))
      in (\<lambda>i. if i < VSYNCS_MAX - 1 then ts i - ts (i + 1) else 0, at1, sof1, m1))"

definition frm_reset_measurement :: "u32 \<Rightarrow> FrameMonitorInst \<Rightarrow> FrameMonitorInst" where
  "frm_reset_measurement idx m = upd_fmeas idx (\<lambda>_. zero_measurement) m"

definition set_predicted :: "u32 \<Rightarrow> u32 \<Rightarrow> FrameResult \<Rightarrow> FrameResult" where
  "set_predicted fl_us fl_lc r = r\<lparr>rt_predicted_fl_us := fl_us, rt_predicted_fl_lc := fl_lc\<rparr>"

definition frm_init_measurement ::
    "u32 \<Rightarrow> u32 \<Rightarrow> u32 \<Rightarrow> FrameMonitorInst \<Rightarrow> FrameMonitorInst" where
  "frm_init_measurement idx def_fl_us def_fl_lc m =
     upd_fmeas idx (\<lambda>p. (upd_result (fm_idx p + 1) (set_predicted def_fl_us def_fl_lc)
         (upd_result (fm_idx p) (set_predicted def_fl_us def_fl_lc) p))\<lparr>fm_is_init := 1\<rparr>)
       (frm_reset_measurement idx m)"

definition ring_back :: "u32 \<Rightarrow> u32" where
  "ring_back k = (k + (VSYNCS_MAX - 1)) mod VSYNCS_MAX"

text \<open>The two loops of \<open>frm_set_frame_measurement\<close> over the result ring.\<close>

definition store_actual_fl :: "u32 carray \<Rightarrow> FrameMeasurement \<Rightarrow> FrameMeasurement" where
  "store_actual_fl vdiff p =
     fst (fold (\<lambda>i (p, vts_idx).
            (upd_result vts_idx (\<lambda>r. r\<lparr>rt_actual_fl_us := vdiff i\<rparr>) p, ring_back vts_idx))
          [0, 1, 2] (p, ring_back (fm_idx p)))"

definition store_passed_vsyncs ::
    "u32 \<Rightarrow> u32 \<Rightarrow> u32 \<Rightarrow> FrameMeasurement \<Rightarrow> FrameMeasurement" where
  "store_passed_vsyncs passed_vsyncs curr_fl_us curr_fl_lc p =
     fst (fold (\<lambda>i (p, meas_idx).
            (upd_result meas_idx (set_predicted curr_fl_us curr_fl_lc) p, ring_back meas_idx))
          (takeWhile (\<lambda>i. i < passed_vsyncs) [1, 2, 3, 4]) (p, fm_idx p))"

definition frm_set_frame_measurement ::
    "u32 \<Rightarrow> u32 \<Rightarrow> u32 \<Rightarrow> u32 \<Rightarrow> u32 \<Rightarrow> u32 \<Rightarrow> FrameMonitorInst \<Rightarrow> FrameMonitorInst" where
  "frm_set_frame_measurement idx passed_vsyncs curr_fl_us curr_fl_lc next_fl_us next_fl_lc m =
     (if in_wait_for_setting_predicted_fl (mo_f_info m idx) = 0 then m
      else let
        m1 = (if fm_is_init (in_fmeas (mo_f_info m idx)) = 0
              then frm_init_measurement idx curr_fl_us curr_fl_lc m else m);
        m2 = upd_fmeas idx (\<lambda>p. p\<lparr>fm_idx := (fm_idx p + passed_vsyncs) mod VSYNCS_MAX\<rparr>) m1;
        (vdiff, query_vts_at, time_after_sof, m3) = calc_ts_diff_and_info idx m2;
        m4 = upd_fmeas idx (store_actual_fl vdiff) m3;
        m5 = upd_fmeas idx (store_passed_vsyncs passed_vsyncs curr_fl_us curr_fl_lc) m4;
        m6 = upd_fmeas idx (\<lambda>p. upd_result ((fm_idx p + 1) mod VSYNCS_MAX)
               (set_predicted next_fl_us next_fl_lc) p) m5
      in m6\<lparr>mo_f_info := (mo_f_info m6)(idx :=
              (mo_f_info m6 idx)\<lparr>in_wait_for_setting_predicted_fl := 0\<rparr>)\<rparr>)"

subsection \<open>Frame info\<close>

definition frm_reset_frame_info :: "u32 \<Rightarrow> FrameMonitorInst \<Rightarrow> FrameMonitorInst" where
  "frm_reset_frame_info idx m = m\<lparr>mo_f_info := (mo_f_info m)(idx := zero_frame_info)\<rparr>"

definition frm_init_frame_info_st_data ::
    "u32 \<Rightarrow> u32 \<Rightarrow> u32 \<Rightarrow> u32 \<Rightarrow> FrameMonitorInst \<Rightarrow> FrameMonitorInst" where
  "frm_init_frame_info_st_data idx sensor_id sensor_idx tg m =
     (let m1 = frm_reset_frame_info idx m in
      m1\<lparr>mo_f_info := (mo_f_info m1)(idx := (mo_f_info m1 idx)\<lparr>in_sensor_id := sensor_id,
           in_sensor_idx := sensor_idx, in_tg := tg\<rparr>)\<rparr>)"

subsection \<open>Timestamp check\<close>

definition frm_detect_repeat_ts_check ::
    "u32 \<Rightarrow> u32 \<Rightarrow> u32 \<Rightarrow> u32 \<Rightarrow> FrameMonitorInst \<Rightarrow> u32 \<times> FrameMonitorInst" where
  "frm_detect_repeat_ts_check m_tg s_tg m_ts_select s_ts_select m =
     (if \<not> check_tg_vsync_rec_pos_valid m_tg \<or> \<not> check_tg_vsync_rec_pos_valid s_tg
      then (- 1, m)
      else let
        m_tg_idx = m_tg - 1;
        s_tg_idx = s_tg - 1;
        m_last_ts = vt_timestamps (mo_recs m m_tg_idx) m_ts_select;
        s_last_ts = vt_timestamps (mo_recs m s_tg_idx) s_ts_select;
        m_ts_repeat = (m_last_ts = mo_ts_last_check m m_tg_idx);
        m1 = (if m_ts_repeat then m
              else m\<lparr>mo_ts_last_check := (mo_ts_last_check m)(m_tg_idx := m_last_ts)\<rparr>);
        s_ts_repeat = (s_last_ts = mo_ts_last_check m1 s_tg_idx);
        m2 = (if s_ts_repeat then m1
              else m1\<lparr>mo_ts_last_check := (mo_ts_last_check m1)(s_tg_idx := s_last_ts)\<rparr>)
      in (bool_word (m_ts_repeat \<and> s_ts_repeat), m2))"

definition ts_dist :: "u32 \<Rightarrow> u32 \<Rightarrow> u32" where
  "ts_dist a b = (if b < a then a - b else b - a)"

text \<open>
  The two search loops. The state is the smallest distance so far and the pair of positions
  (master, slave) it was found at.
\<close>

definition match_master :: "u32 \<Rightarrow> u32 carray \<Rightarrow> u32 \<times> u32 \<times> u32 \<Rightarrow> u32 \<times> u32 \<times> u32" where
  "match_master s_last_ts m_ts =
     fold (\<lambda>i (min_diff, mi, si). let diff = ts_dist s_last_ts (m_ts i) in
             if diff < min_diff then (diff, i, 0) else (min_diff, mi, si)) [0, 1, 2, 3]"

definition match_slave :: "u32 \<Rightarrow> u32 carray \<Rightarrow> u32 \<times> u32 \<times> u32 \<Rightarrow> u32 \<times> u32 \<times> u32" where
  "match_slave m_last_ts s_ts =
     fold (\<lambda>i (min_diff, mi, si). let diff = ts_dist m_last_ts (s_ts i) in
             if diff < min_diff then (diff, 0, i) else (min_diff, mi, si)) [0, 1, 2, 3]"

text \<open>Remember the newest timestamps queried; the verdict on the best match.\<close>

definition note_last_query ::
    "u32 \<Rightarrow> u32 \<Rightarrow> u32 \<Rightarrow> u32 \<Rightarrow> FrameMonitorInst \<Rightarrow> FrameMonitorInst" where
  "note_last_query m_tg_idx s_tg_idx m_last_ts s_last_ts m =
     (let m_ts_updated = (m_last_ts \<noteq> mo_ts_last_query m m_tg_idx);
          s_ts_updated = (s_last_ts \<noteq> mo_ts_last_query m s_tg_idx);
          m1 = (if m_ts_updated
                then m\<lparr>mo_ts_last_query := (mo_ts_last_query m)(m_tg_idx := m_last_ts)\<rparr> else m)
      in if s_ts_updated
         then m1\<lparr>mo_ts_last_query := (mo_ts_last_query m1)(s_tg_idx := s_last_ts)\<rparr> else m1)"

definition timestamp_verdict :: "u32 \<Rightarrow> u32 \<Rightarrow> u32 \<Rightarrow> int" where
  "timestamp_verdict min_diff m_min_idx s_min_idx =
     (if min_diff < FS_TOLERANCE then 1
      else if 16675 \<le> min_diff \<and> (m_min_idx = s_min_idx + 3 \<or> s_min_idx = m_min_idx + 3)
      then -1 else 0)"

definition frm_timestamp_checker ::
    "u32 \<Rightarrow> u32 \<Rightarrow> FrameMonitorInst \<Rightarrow> int \<times> FrameMonitorInst" where
  "frm_timestamp_checker m_tg s_tg m =
     (if \<not> check_tg_vsync_rec_pos_valid m_tg \<or> \<not> check_tg_vsync_rec_pos_valid s_tg
      then (-1, m)
      else let
        m_ts = vt_timestamps (mo_recs m (m_tg - 1));
        s_ts = vt_timestamps (mo_recs m (s_tg - 1))
      in if m_ts 0 = 0 \<or> s_ts 0 = 0 then (-1, m)
      else let
        m2 = note_last_query (m_tg - 1) (s_tg - 1) (m_ts 0) (s_ts 0) m;
        (min_diff, m_min_idx, s_min_idx) =
          match_slave (m_ts 0) s_ts (match_master (s_ts 0) m_ts (- 1, 0, 0));
        (repeat, m3) = frm_detect_repeat_ts_check m_tg s_tg m_min_idx s_min_idx m2
      in if repeat \<noteq> 0 then (-1, m3)
      else (timestamp_verdict min_diff m_min_idx s_min_idx,
            m3\<lparr>mo_ts_check_cnt := mo_ts_check_cnt m3 + 1\<rparr>))"

subsection \<open>Distances and the scan for the best match\<close>

lemma unat_ts_dist: "unat (ts_dist a b) = (if unat b < unat a then unat a - unat b else unat b - unat a)"
  by (simp add: ts_dist_def word_less_nat_alt unat_sub_if' not_less)

lemma ts_dist_commute: "ts_dist a b = ts_dist b a"
  by (auto simp: ts_dist_def)

lemma scan_min:
  "fst (fold (\<lambda>i (d, a, b). if f i < d then (f i, g i, h i) else (d, a, b)) xs (d0, a0, b0)) =
   fold (\<lambda>i d. min (f i) d) xs (d0 :: u32)"
  by (induction xs arbitrary: d0 a0 b0) (auto simp: min_def)

lemma fold_min_less_iff:
  "fold (\<lambda>i d. min (f i) d) xs d0 < (t :: 'a::linorder) \<longleftrightarrow> d0 < t \<or> (\<exists>i\<in>set xs. f i < t)"
  by (induction xs arbitrary: d0) (auto simp: min_less_iff_disj)

lemma match_master_less_iff:
  "fst (match_master s m (d0, a0, b0)) < t
     \<longleftrightarrow> d0 < t \<or> (\<exists>i\<in>{0, 1, 2, 3}. ts_dist s (m i) < t)"
  by (simp only: match_master_def Let_def scan_min fold_min_less_iff list.set)

lemma match_slave_less_iff:
  "fst (match_slave s m (d0, a0, b0)) < t
     \<longleftrightarrow> d0 < t \<or> (\<exists>i\<in>{0, 1, 2, 3}. ts_dist s (m i) < t)"
  by (simp only: match_slave_def Let_def scan_min fold_min_less_iff list.set)

text \<open>
  The reference the two scans are checked against: some timestamp of one sensor is within
  the tolerance of the other sensor's newest one.
\<close>

definition ts_in_sync :: "u32 carray \<Rightarrow> u32 carray \<Rightarrow> bool" where
  "ts_in_sync m_ts s_ts \<longleftrightarrow>
     (\<exists>i\<in>{0, 1, 2, 3}. ts_dist (s_ts 0) (m_ts i) < FS_TOLERANCE
        \<or> ts_dist (m_ts 0) (s_ts i) < FS_TOLERANCE)"

lemma best_match_in_sync:
  "fst (match_slave (m_ts 0) s_ts (match_master (s_ts 0) m_ts (- 1, 0, 0))) < FS_TOLERANCE
     \<longleftrightarrow> ts_in_sync m_ts s_ts"
proof -
  obtain d a b where mm: "match_master (s_ts 0) m_ts (- 1, 0, 0) = (d, a, b)"
    by (cases "match_master (s_ts 0) m_ts (- 1, 0, 0)") auto
  then have "d < FS_TOLERANCE \<longleftrightarrow> (\<exists>i\<in>{0, 1, 2, 3}. ts_dist (s_ts 0) (m_ts i) < FS_TOLERANCE)"
    using match_master_less_iff[of "s_ts 0" m_ts "- 1" 0 0 FS_TOLERANCE]
    by (simp add: FS_TOLERANCE_def)
  then show ?thesis
    by (auto simp: mm match_slave_less_iff ts_in_sync_def)
qed

subsection \<open>The state invariant\<close>

text \<open>
  Every measurement ring index stays inside the ring, and a vsync record that has been
  filled in sits at the position of its own TG (\<open>recs[id - 1]\<close>).
\<close>

definition frm_inv :: "FrameMonitorInst \<Rightarrow> bool" where
  "frm_inv m \<longleftrightarrow> (\<forall>i. fm_idx (in_fmeas (mo_f_info m i)) < VSYNCS_MAX) \<and>
     (\<forall>k. vt_id (mo_recs m k) = 0 \<or> vt_id (mo_recs m k) = k + 1)"

lemma frm_invI:
  assumes "\<And>i. fm_idx (in_fmeas (mo_f_info m i)) < VSYNCS_MAX"
    and "\<And>k. vt_id (mo_recs m k) = 0 \<or> vt_id (mo_recs m k) = k + 1"
  shows "frm_inv m"
  using assms by (simp add: frm_inv_def)

lemma upd_fmeas_sel [simp]:
  "mo_recs (upd_fmeas idx f m) = mo_recs m"
  "in_fmeas (mo_f_info (upd_fmeas idx f m) i) =
     (if i = idx then f (in_fmeas (mo_f_info m idx)) else in_fmeas (mo_f_info m i))"
  "in_tg (mo_f_info (upd_fmeas idx f m) i) = in_tg (mo_f_info m i)"
  "in_wait_for_setting_predicted_fl (mo_f_info (upd_fmeas idx f m) i) =
     in_wait_for_setting_predicted_fl (mo_f_info m i)"
  "mo_tick_factor (upd_fmeas idx f m) = mo_tick_factor m"
  "mo_query_ts_at_tick (upd_fmeas idx f m) = mo_query_ts_at_tick m"
  by (simp_all add: upd_fmeas_def)

lemma upd_result_sel [simp]:
  "fm_idx (upd_result k f p) = fm_idx p"
  "fm_is_init (upd_result k f p) = fm_is_init p"
  "fm_timestamps (upd_result k f p) = fm_timestamps p"
  "fm_results (upd_result k f p) i = (if i = k then f (fm_results p k) else fm_results p i)"
  by (simp_all add: upd_result_def)

lemma mod_VSYNCS_MAX_less: "k mod VSYNCS_MAX < VSYNCS_MAX"
  by (simp add: VSYNCS_MAX_def word_less_nat_alt unat_mod_distrib)

lemma frm_inv_fold:
  assumes "frm_inv m" and "\<And>x m. frm_inv m \<Longrightarrow> frm_inv (f x m)"
  shows "frm_inv (fold f xs m)"
  using assms by (induction xs arbitrary: m) auto

lemma frm_inv_copy [simp]:
  assumes "frm_inv m" shows "frm_inv (copy_vsync_data_of_query d m)"
  unfolding copy_vsync_data_of_query_def
proof (rule frm_inv_fold)
  show "frm_inv (m\<lparr>mo_cur_tick := vr_cur_tick d, mo_tick_factor := vr_tick_factor d\<rparr>)"
    using assms by (simp add: frm_inv_def)
qed (auto simp: frm_inv_def Let_def)

lemma frm_inv_set_wait [simp]:
  assumes "frm_inv m" shows "frm_inv (frm_set_wait_for_setting_fmeas_by_tg tgs m)"
  unfolding frm_set_wait_for_setting_fmeas_by_tg_def
proof (rule frm_inv_fold[OF assms])
  fix i m assume "frm_inv m"
  then have "frm_inv (fold (\<lambda>tg m. if \<not> check_tg_valid tg then m
                     else if in_tg (mo_f_info m i) = tg
                     then m\<lparr>mo_f_info := (mo_f_info m)(i :=
                            (mo_f_info m i)\<lparr>in_wait_for_setting_predicted_fl := 1\<rparr>)\<rparr>
                     else m) tgs m)"
    by (rule frm_inv_fold) (auto simp: frm_inv_def)
  then show "frm_inv (if in_tg (mo_f_info m i) = 0 then m else fold (\<lambda>tg m. if \<not> check_tg_valid tg then m
                     else if in_tg (mo_f_info m i) = tg
                     then m\<lparr>mo_f_info := (mo_f_info m)(i :=
                            (mo_f_info m i)\<lparr>in_wait_for_setting_predicted_fl := 1\<rparr>)\<rparr>
                     else m) tgs m)"
    using \<open>frm_inv m\<close> by simp
qed

lemma frm_inv_query:
  "frm_inv m \<Longrightarrow> frm_inv (snd (snd (frm_query_vsync_data src tgs p m)))"
  by (simp add: frm_query_vsync_data_def frm_save_vsync_timestamp_def split: option.split)

lemma frm_inv_convert:
  "frm_inv m \<Longrightarrow> frm_inv (snd (frm_convert_cammux_tg_to_ccu_tg nodes tg m))"
  by (simp add: frm_convert_cammux_tg_to_ccu_tg_def Let_def frm_inv_def)

lemma frm_inv_simple_ops:
  assumes "frm_inv m"
  shows "frm_inv (frm_update_tg idx tg m)" "frm_inv (frm_reset_frame_info idx m)"
    "frm_inv (frm_init_frame_info_st_data idx a b c m)"
    "frm_inv (snd (frm_detect_repeat_ts_check mt st i j m))"
  using assms
  by (simp_all add: frm_inv_def frm_update_tg_def frm_reset_frame_info_def
      frm_init_frame_info_st_data_def frm_detect_repeat_ts_check_def Let_def zero_frame_info_def
      zero_measurement_def VSYNCS_MAX_def)

subsection \<open>Measured frame lengths\<close>

declare calc_ts_step.simps [simp del]

lemma calc_ts_step_frame:
  assumes "calc_ts_step idx i (m, a, t) = (m', a', t')"
  shows "mo_recs m' = mo_recs m" "in_tg (mo_f_info m' j) = in_tg (mo_f_info m j)"
    "fm_idx (in_fmeas (mo_f_info m' j)) = fm_idx (in_fmeas (mo_f_info m j))"
    "fm_is_init (in_fmeas (mo_f_info m' j)) = fm_is_init (in_fmeas (mo_f_info m j))"
    "fm_results (in_fmeas (mo_f_info m' j)) = fm_results (in_fmeas (mo_f_info m j))"
  using assms by (auto simp: calc_ts_step.simps Let_def split: if_splits)

lemma calc_ts_fold_frame:
  "fold (calc_ts_step idx) xs (m, a, t) = (m', a', t') \<Longrightarrow>
     mo_recs m' = mo_recs m \<and> in_tg (mo_f_info m' j) = in_tg (mo_f_info m j) \<and>
     fm_idx (in_fmeas (mo_f_info m' j)) = fm_idx (in_fmeas (mo_f_info m j)) \<and>
     fm_results (in_fmeas (mo_f_info m' j)) = fm_results (in_fmeas (mo_f_info m j))"
proof (induction xs arbitrary: m a t)
  case (Cons x xs)
  obtain m1 a1 t1 where s: "calc_ts_step idx x (m, a, t) = (m1, a1, t1)"
    by (cases "calc_ts_step idx x (m, a, t)") auto
  with Cons.prems have "fold (calc_ts_step idx) xs (m1, a1, t1) = (m', a', t')" by simp
  from Cons.IH[OF this] show ?case by (simp add: calc_ts_step_frame[OF s])
qed simp

lemma calc_ts_fold_timestamps:
  assumes "fold (calc_ts_step idx) xs (m, a, t) = (m', a', t')"
    and "\<And>k. vt_id (mo_recs m k) = 0 \<or> vt_id (mo_recs m k) = k + 1"
    and "in_tg (mo_f_info m idx) = tg" and "tg \<noteq> 0" and "vt_id (mo_recs m (tg - 1)) = tg"
    and "j < VSYNCS_MAX"
  shows "fm_timestamps (in_fmeas (mo_f_info m' idx)) j =
     (if tg - 1 \<in> set xs then vt_timestamps (mo_recs m (tg - 1)) j
      else fm_timestamps (in_fmeas (mo_f_info m idx)) j)"
  using assms
proof (induction xs arbitrary: m a t)
  case (Cons x xs)
  obtain m1 a1 t1 where s: "calc_ts_step idx x (m, a, t) = (m1, a1, t1)"
    by (cases "calc_ts_step idx x (m, a, t)") auto
  note fr = calc_ts_step_frame[OF s]
  have ih: "fm_timestamps (in_fmeas (mo_f_info m' idx)) j =
     (if tg - 1 \<in> set xs then vt_timestamps (mo_recs m (tg - 1)) j
      else fm_timestamps (in_fmeas (mo_f_info m1 idx)) j)"
    using Cons.IH[of m1 a1 t1] Cons.prems s by (simp add: fr)
  have "vt_id (mo_recs m x) = tg \<longleftrightarrow> x = tg - 1"
    using Cons.prems(2)[of x] Cons.prems(4,5) by auto
  then have "fm_timestamps (in_fmeas (mo_f_info m1 idx)) j =
     (if x = tg - 1 then vt_timestamps (mo_recs m (tg - 1)) j
      else fm_timestamps (in_fmeas (mo_f_info m idx)) j)"
    using s Cons.prems(3-6) by (auto simp: calc_ts_step.simps Let_def split: if_splits)
  with ih show ?case by auto
qed simp

lemma calc_ts_diff_frame:
  assumes "calc_ts_diff_and_info idx m = (vd, a, t, m')"
  shows "mo_recs m' = mo_recs m" "in_tg (mo_f_info m' j) = in_tg (mo_f_info m j)"
    "fm_idx (in_fmeas (mo_f_info m' j)) = fm_idx (in_fmeas (mo_f_info m j))"
    "fm_results (in_fmeas (mo_f_info m' j)) = fm_results (in_fmeas (mo_f_info m j))"
    "vd i = (if i < VSYNCS_MAX - 1 then fm_timestamps (in_fmeas (mo_f_info m' idx)) i
               - fm_timestamps (in_fmeas (mo_f_info m' idx)) (i + 1) else 0)"
  using assms calc_ts_fold_frame[of idx "loop_idx FM_TG_CNT" m 0 0]
  by (auto simp: calc_ts_diff_and_info_def Let_def split: prod.splits)

lemma calc_ts_diff_timestamps:
  assumes "calc_ts_diff_and_info idx m = (vd, a, t, m')" and "frm_inv m"
    and "check_tg_vsync_rec_pos_valid (in_tg (mo_f_info m idx))"
    and "vt_id (mo_recs m (in_tg (mo_f_info m idx) - 1)) = in_tg (mo_f_info m idx)"
    and "j < VSYNCS_MAX"
  shows "fm_timestamps (in_fmeas (mo_f_info m' idx)) j =
     vt_timestamps (mo_recs m (in_tg (mo_f_info m idx) - 1)) j"
proof -
  let ?tg = "in_tg (mo_f_info m idx)"
  have tg: "?tg \<noteq> 0" "?tg - 1 < FM_TG_CNT"
    using assms(3)
    by (auto simp: check_tg_vsync_rec_pos_valid_def fs_const_defs word_less_nat_alt
        word_le_nat_alt unat_sub_if' split: if_splits)
  obtain a1 t1 where "fold (calc_ts_step idx) (loop_idx FM_TG_CNT) (m, 0, 0) = (m', a1, t1)"
    using assms(1) by (auto simp: calc_ts_diff_and_info_def Let_def split: prod.splits)
  from calc_ts_fold_timestamps[OF this, of ?tg j] show ?thesis
    using assms tg by (simp add: frm_inv_def set_loop_idx)
qed

lemma ring_back_simps [simp]:
  "ring_back 0 = 3" "ring_back 1 = 0" "ring_back 2 = 1" "ring_back 3 = 2"
  by (simp_all add: ring_back_def VSYNCS_MAX_def)

lemma ring_cases: "k < VSYNCS_MAX \<Longrightarrow> k = 0 \<or> k = 1 \<or> k = 2 \<or> k = 3"
proof -
  assume "k < VSYNCS_MAX"
  then have "unat k < 4" by (simp add: VSYNCS_MAX_def word_less_nat_alt)
  then have "unat k = unat (0::u32) \<or> unat k = unat (1::u32) \<or> unat k = unat (2::u32) \<or> unat k = unat (3::u32)"
    by auto
  then show ?thesis by (simp only: word_unat_eq_iff)
qed

lemma store_actual_fl_sel [simp]:
  "fm_idx (store_actual_fl vd p) = fm_idx p"
  "fm_timestamps (store_actual_fl vd p) = fm_timestamps p"
  "fm_is_init (store_actual_fl vd p) = fm_is_init p"
  by (simp_all add: store_actual_fl_def)

lemma store_actual_fl_results:
  assumes "fm_idx p < VSYNCS_MAX"
  shows "rt_actual_fl_us (fm_results (store_actual_fl vd p) (ring_back (fm_idx p))) = vd 0"
    "rt_actual_fl_us (fm_results (store_actual_fl vd p) (ring_back (ring_back (fm_idx p)))) = vd 1"
    "rt_actual_fl_us (fm_results (store_actual_fl vd p)
        (ring_back (ring_back (ring_back (fm_idx p))))) = vd 2"
  using ring_cases[OF assms] by (auto simp: store_actual_fl_def)

lemma store_passed_keeps:
  "fst (fold (\<lambda>i (p, k). (upd_result k (set_predicted a b) p, ring_back k)) xs (p, k)) = q \<Longrightarrow>
     fm_idx q = fm_idx p \<and> fm_timestamps q = fm_timestamps p \<and> fm_is_init q = fm_is_init p \<and>
     rt_actual_fl_us (fm_results q i) = rt_actual_fl_us (fm_results p i)"
  by (induction xs arbitrary: p k) (auto simp: set_predicted_def)

lemma store_passed_vsyncs_sel [simp]:
  "fm_idx (store_passed_vsyncs n a b p) = fm_idx p"
  "rt_actual_fl_us (fm_results (store_passed_vsyncs n a b p) i) = rt_actual_fl_us (fm_results p i)"
  using store_passed_keeps[OF store_passed_vsyncs_def[symmetric]] by blast+

lemma set_predicted_actual [simp]: "rt_actual_fl_us (set_predicted a b r) = rt_actual_fl_us r"
  by (simp add: set_predicted_def)

lemma frm_inv_init_measurement [simp]:
  "frm_inv m \<Longrightarrow> frm_inv (frm_init_measurement idx a b m)"
  by (auto simp: frm_inv_def frm_init_measurement_def frm_reset_measurement_def
      zero_measurement_def VSYNCS_MAX_def)

lemma frm_inv_upd_fmeas:
  "frm_inv m \<Longrightarrow> (\<And>p. fm_idx p < VSYNCS_MAX \<Longrightarrow> fm_idx (f p) < VSYNCS_MAX)
     \<Longrightarrow> frm_inv (upd_fmeas idx f m)"
  by (auto simp: frm_inv_def)

lemma frm_inv_set_frame_measurement:
  assumes "frm_inv m"
  shows "frm_inv (frm_set_frame_measurement idx n a b c d m)"
proof -
  define m1 where "m1 = (if fm_is_init (in_fmeas (mo_f_info m idx)) = 0
              then frm_init_measurement idx a b m else m)"
  define m2 where "m2 = upd_fmeas idx (\<lambda>p. p\<lparr>fm_idx := (fm_idx p + n) mod VSYNCS_MAX\<rparr>) m1"
  obtain vd x y m3 where c: "calc_ts_diff_and_info idx m2 = (vd, x, y, m3)"
    by (cases "calc_ts_diff_and_info idx m2") auto
  have "frm_inv m1" using assms by (simp add: m1_def)
  then have "frm_inv m2" unfolding m2_def
    by (rule frm_inv_upd_fmeas) (simp add: mod_VSYNCS_MAX_less)
  then have "frm_inv m3" by (simp add: frm_inv_def calc_ts_diff_frame[OF c])
  then show ?thesis
    using assms c by (auto simp: frm_set_frame_measurement_def Let_def m1_def[symmetric]
        m2_def[symmetric] frm_inv_def)
qed

lemma frm_inv_upd_check [simp]:
  "frm_inv (m\<lparr>mo_ts_last_query := q\<rparr>) = frm_inv m"
  "frm_inv (m\<lparr>mo_ts_check_cnt := k\<rparr>) = frm_inv m"
  by (simp_all add: frm_inv_def)

lemma frm_inv_note_last_query [simp]:
  "frm_inv (note_last_query i j a b m) = frm_inv m"
  by (simp add: note_last_query_def Let_def)

lemma frm_inv_timestamp_checker:
  assumes "frm_inv m" shows "frm_inv (snd (frm_timestamp_checker mt st m))"
proof -
  have inv: "frm_inv (snd (frm_detect_repeat_ts_check mt st i j (note_last_query a b c d m)))"
    for i j a b c d
    by (rule frm_inv_simple_ops(4)) (simp add: assms)
  then have "frm_inv m3"
    if "frm_detect_repeat_ts_check mt st i j (note_last_query a b c d m) = (r, m3)" for i j a b c d r m3
    using that inv[of i j a b c d] by simp
  then show ?thesis
    using assms unfolding frm_timestamp_checker_def Let_def
    by (auto split: prod.split)
qed

text \<open>The two flags of the repeat check, and the result of a check that is not discarded.\<close>

lemma frm_timestamp_checker_cases:
  assumes "fst (frm_timestamp_checker m_tg s_tg m) = r" and "r \<noteq> -1"
  shows "check_tg_vsync_rec_pos_valid m_tg" "check_tg_vsync_rec_pos_valid s_tg"
    "vt_timestamps (mo_recs m (m_tg - 1)) 0 \<noteq> 0" "vt_timestamps (mo_recs m (s_tg - 1)) 0 \<noteq> 0"
    "r = (if ts_in_sync (vt_timestamps (mo_recs m (m_tg - 1))) (vt_timestamps (mo_recs m (s_tg - 1)))
          then 1 else 0)"
proof -
  let ?mt = "vt_timestamps (mo_recs m (m_tg - 1))" and ?st = "vt_timestamps (mo_recs m (s_tg - 1))"
  show g: "check_tg_vsync_rec_pos_valid m_tg" "check_tg_vsync_rec_pos_valid s_tg"
    "?mt 0 \<noteq> 0" "?st 0 \<noteq> 0"
    using assms by (auto simp: frm_timestamp_checker_def Let_def split: if_splits)
  obtain d a b where d: "match_slave (?mt 0) ?st (match_master (?st 0) ?mt (- 1, 0, 0)) = (d, a, b)"
    by (cases "match_slave (?mt 0) ?st (match_master (?st 0) ?mt (- 1, 0, 0))") auto
  then have "d < FS_TOLERANCE \<longleftrightarrow> ts_in_sync ?mt ?st"
    using best_match_in_sync[of ?mt ?st] by simp
  moreover have "r = (if d < FS_TOLERANCE then 1 else 0)"
    using assms g d unfolding frm_timestamp_checker_def Let_def
    by (auto simp: timestamp_verdict_def split: prod.splits if_splits)
  ultimately show "r = (if ts_in_sync ?mt ?st then 1 else 0)" by simp
qed

subsection \<open>Properties of the monitor\<close>

text \<open>
  A timestamp check that is not discarded (result other than -1) answers 1 exactly when one of
  the four recorded timestamps of one sensor lies within \<open>FS_TOLERANCE\<close> of the newest
  timestamp of the other, and 0 otherwise; both TGs are then valid record positions with a
  recorded timestamp.
\<close>

theorem timestamp_checker_correct:
  assumes "frm_timestamp_checker m_tg s_tg m = (r, m')" and "r \<noteq> -1"
  shows "r = (if ts_in_sync (vt_timestamps (mo_recs m (m_tg - 1)))
                             (vt_timestamps (mo_recs m (s_tg - 1))) then 1 else 0)
    \<and> m_tg \<noteq> 0 \<and> m_tg \<le> FM_TG_CNT \<and> s_tg \<noteq> 0 \<and> s_tg \<le> FM_TG_CNT
    \<and> vt_timestamps (mo_recs m (m_tg - 1)) 0 \<noteq> 0 \<and> vt_timestamps (mo_recs m (s_tg - 1)) 0 \<noteq> 0"
  using frm_timestamp_checker_cases[of m_tg s_tg m r] assms
  by (auto simp: check_tg_vsync_rec_pos_valid_def not_less)

text \<open>A monitor with two sensors whose records hold the given timestamps, for the witnesses.\<close>

definition two_tg_monitor :: "u32 carray \<Rightarrow> u32 carray \<Rightarrow> FrameMonitorInst" where
  "two_tg_monitor ts1 ts2 =
     (w_frm zero_world)\<lparr>
       mo_recs := (\<lambda>k. if k = 0 then zero_vsync_time\<lparr>vt_id := 1, vt_timestamps := ts1\<rparr>
         else if k = 1 then zero_vsync_time\<lparr>vt_id := 2, vt_timestamps := ts2\<rparr> else zero_vsync_time),
       mo_f_info := (\<lambda>i. if i = 0 then zero_frame_info\<lparr>in_tg := 1, in_wait_for_setting_predicted_fl := 1\<rparr>
         else zero_frame_info)\<rparr>"

theorem timestamp_checker_correct_witness:
  "fst (frm_timestamp_checker 1 2 (two_tg_monitor (\<lambda>i. 90000 - i * 30000) (\<lambda>i. 90400 - i * 30000))) = 1
   \<and> (1 :: int) = (if ts_in_sync (\<lambda>i. 90000 - i * 30000) (\<lambda>i. 90400 - i * 30000) then 1 else 0)"
proof -
  let ?a = "\<lambda>i :: u32. 90000 - i * 30000 :: u32" and ?b = "\<lambda>i :: u32. 90400 - i * 30000 :: u32"
  let ?m = "two_tg_monitor ?a ?b"
  have run: "fst (frm_timestamp_checker 1 2 ?m) = 1"
    by (simp add: frm_timestamp_checker_def two_tg_monitor_def check_tg_vsync_rec_pos_valid_def
        fs_const_defs Let_def match_master_def match_slave_def ts_dist_def note_last_query_def
        frm_detect_repeat_ts_check_def timestamp_verdict_def zero_vsync_time_def zero_world_def)
  then obtain m' where "frm_timestamp_checker 1 2 ?m = (1, m')"
    by (cases "frm_timestamp_checker 1 2 ?m") auto
  from timestamp_checker_correct[OF this] run show ?thesis
    by (simp add: two_tg_monitor_def)
qed

text \<open>
  When a measurement is due, \<open>frm_set_frame_measurement\<close> moves the ring index by the number
  of vsyncs that passed, stores the three differences of consecutive recorded timestamps as
  the actual lengths of the three frames behind that index, puts the predicted next frame
  length one position ahead of it, and clears the request flag.
\<close>

theorem frame_measurement_stored:
  fixes m idx n a b c d
  defines "m' \<equiv> frm_set_frame_measurement idx n a b c d m"
    and "tg \<equiv> in_tg (mo_f_info m idx)"
  defines "p' \<equiv> in_fmeas (mo_f_info m' idx)" and "ts \<equiv> vt_timestamps (mo_recs m (tg - 1))"
  assumes "frm_inv m" and "in_wait_for_setting_predicted_fl (mo_f_info m idx) \<noteq> 0"
    and "check_tg_vsync_rec_pos_valid tg" and "vt_id (mo_recs m (tg - 1)) = tg"
    and "fm_is_init (in_fmeas (mo_f_info m idx)) \<noteq> 0"
  shows "fm_idx p' = (fm_idx (in_fmeas (mo_f_info m idx)) + n) mod VSYNCS_MAX
    \<and> rt_actual_fl_us (fm_results p' (ring_back (fm_idx p'))) = ts 0 - ts 1
    \<and> rt_actual_fl_us (fm_results p' (ring_back (ring_back (fm_idx p')))) = ts 1 - ts 2
    \<and> rt_actual_fl_us (fm_results p' (ring_back (ring_back (ring_back (fm_idx p'))))) = ts 2 - ts 3
    \<and> rt_predicted_fl_us (fm_results p' ((fm_idx p' + 1) mod VSYNCS_MAX)) = c
    \<and> rt_predicted_fl_lc (fm_results p' ((fm_idx p' + 1) mod VSYNCS_MAX)) = d
    \<and> in_wait_for_setting_predicted_fl (mo_f_info m' idx) = 0"
proof -
  define m2 where "m2 = upd_fmeas idx (\<lambda>p. p\<lparr>fm_idx := (fm_idx p + n) mod VSYNCS_MAX\<rparr>) m"
  obtain vd x y m3 where c: "calc_ts_diff_and_info idx m2 = (vd, x, y, m3)"
    by (cases "calc_ts_diff_and_info idx m2") auto
  have i2: "frm_inv m2" using assms(5) unfolding m2_def
    by (rule frm_inv_upd_fmeas) (simp add: mod_VSYNCS_MAX_less)
  have ts: "fm_timestamps (in_fmeas (mo_f_info m3 idx)) j = ts j" if "j < VSYNCS_MAX" for j
    using calc_ts_diff_timestamps[OF c i2 _ _ that] assms by (simp add: m2_def tg_def)
  note fr = calc_ts_diff_frame[OF c]
  have vd: "vd 0 = ts 0 - ts 1" "vd 1 = ts 1 - ts 2" "vd 2 = ts 2 - ts 3"
    using fr(5)[of 0] fr(5)[of 1] fr(5)[of 2] by (simp_all add: VSYNCS_MAX_def ts)
  define k where "k = (fm_idx (in_fmeas (mo_f_info m idx)) + n) mod VSYNCS_MAX"
  define p3 where "p3 = in_fmeas (mo_f_info m3 idx)"
  have k3: "fm_idx p3 = k" by (simp add: p3_def fr(3) m2_def k_def)
  have k: "k < VSYNCS_MAX" by (simp add: k_def mod_VSYNCS_MAX_less)
  define p5 where "p5 = store_passed_vsyncs n a b (store_actual_fl vd p3)"
  have p': "p' = upd_result ((fm_idx p5 + 1) mod VSYNCS_MAX) (set_predicted c d) p5"
    and w': "in_wait_for_setting_predicted_fl (mo_f_info m' idx) = 0"
    using assms(6,9) by (simp_all add: p'_def m'_def frm_set_frame_measurement_def Let_def
        m2_def[symmetric] c p5_def p3_def)
  have k5: "fm_idx p5 = k" by (simp add: p5_def k3)
  have act: "rt_actual_fl_us (fm_results p' i) = rt_actual_fl_us (fm_results (store_actual_fl vd p3) i)" for i
    by (simp add: p' p5_def)
  have idx: "fm_idx p' = k" by (simp add: p' k5)
  have "fm_results p' ((k + 1) mod VSYNCS_MAX) =
      set_predicted c d (fm_results p5 ((k + 1) mod VSYNCS_MAX))"
    by (simp add: p' k5)
  then show ?thesis
    using store_actual_fl_results[of p3 vd] k
    by (simp add: act idx k3 vd w' k_def[symmetric] set_predicted_def)
qed

theorem frame_measurement_stored_witness:
  "rt_actual_fl_us (fm_results (in_fmeas (mo_f_info (frm_set_frame_measurement 0 1 33000 1000 34000 1100
      (upd_fmeas 0 (\<lambda>p. p\<lparr>fm_is_init := 1\<rparr>)
        (two_tg_monitor (\<lambda>i. 90000 - i * 30000) (\<lambda>i. 0)))) 0)) 0) = 30000"
proof -
  let ?m = "upd_fmeas 0 (\<lambda>p. p\<lparr>fm_is_init := 1\<rparr>)
     (two_tg_monitor (\<lambda>i. 90000 - i * 30000) (\<lambda>i. 0))"
  have pre: "frm_inv ?m" "in_wait_for_setting_predicted_fl (mo_f_info ?m 0) \<noteq> 0"
    "check_tg_vsync_rec_pos_valid (in_tg (mo_f_info ?m 0))"
    "vt_id (mo_recs ?m (in_tg (mo_f_info ?m 0) - 1)) = in_tg (mo_f_info ?m 0)"
    "fm_is_init (in_fmeas (mo_f_info ?m 0)) \<noteq> 0" "fm_idx (in_fmeas (mo_f_info ?m 0)) = 0"
    "vt_timestamps (mo_recs ?m (in_tg (mo_f_info ?m 0) - 1)) = (\<lambda>i. 90000 - i * 30000)"
    by (simp_all add: frm_inv_def two_tg_monitor_def zero_frame_info_def zero_measurement_def
        zero_vsync_time_def zero_world_def check_tg_vsync_rec_pos_valid_def fs_const_defs)
  note stored = frame_measurement_stored[OF pre(1-5), of 1 33000 1000 34000 1100,
      unfolded pre(6,7)]
  then have "fm_idx (in_fmeas (mo_f_info
      (frm_set_frame_measurement 0 1 33000 1000 34000 1100 ?m) 0)) = 1"
    by (simp add: VSYNCS_MAX_def)
  with stored show ?thesis by simp
qed

text \<open>Once the TG of camsv 0 is known (\<open>c \<noteq> 0\<close>), the conversion leaves every TG below it alone
  and maps camsv \<open>k\<close> (TG \<open>c + k\<close>) to CCU TG \<open>5 + k\<close>, for the eleven values that do not
  exceed \<open>CAMSV_TG_MAX\<close>; so two different TGs of a sensor never share a CCU TG, provided the
  raw TGs lie below \<open>CAMSV_TG_MIN\<close>.
\<close>

theorem convert_cammux_tg_correct:
  assumes "mo_camsv0_tg m = c" and "c \<noteq> 0" and "c \<le> CAMSV_TG_MIN" and "tg \<le> c + 10"
  shows "frm_convert_cammux_tg_to_ccu_tg nodes tg m =
    (if tg < c then tg else CAMSV_TG_MIN + (tg - c), m)"
proof -
  have c5: "unat c \<le> 5" using assms(3) by (simp add: CAMSV_TG_MIN_def word_le_nat_alt)
  show ?thesis
  proof (cases "tg < c")
    case True
    then show ?thesis
      using assms c5 by (simp add: frm_convert_cammux_tg_to_ccu_tg_def Let_def not_le[symmetric]
          fs_const_defs word_less_nat_alt)
  next
    case False
    define k where "k = tg - c"
    have "unat tg \<le> unat c + 10" using assms(4) c5 by (simp add: word_le_nat_alt unat_word_ariths)
    then have k: "unat k \<le> 10" using False by (simp add: k_def not_less word_le_nat_alt unat_sub)
    have "\<not> CAMSV_TG_MAX < CAMSV_TG_MIN + k"
      using k by (simp add: fs_const_defs word_less_nat_alt unat_word_ariths)
    moreover have "0 \<le> sint k" using k by (simp add: sint_small)
    moreover have "c \<le> tg" using False by simp
    ultimately show ?thesis
      using assms False by (simp add: frm_convert_cammux_tg_to_ccu_tg_def Let_def k_def add.commute)
  qed
qed

theorem convert_cammux_tg_correct_witness:
  "frm_convert_cammux_tg_to_ccu_tg [] 7 ((w_frm zero_world)\<lparr>mo_camsv0_tg := 4\<rparr>)
     = (8, (w_frm zero_world)\<lparr>mo_camsv0_tg := 4\<rparr>)"
  using convert_cammux_tg_correct[of "(w_frm zero_world)\<lparr>mo_camsv0_tg := 4\<rparr>" 4 7 "[]"]
  by (simp add: fs_const_defs)

text \<open>
  The device tree search that finds no camsv 0 node leaves 0 as the TG of camsv 0, and the
  conversion then takes every TG, raw ones included, for a camsv TG.
\<close>

lemma convert_without_camsv0:
  "fst (frm_convert_cammux_tg_to_ccu_tg [] 1 (w_frm zero_world)) = 6"
  by (simp add: frm_convert_cammux_tg_to_ccu_tg_def zero_world_def fs_const_defs Let_def)

end
