(* ===== verification/FsAlgo.thy ===== *)
theory FsAlgo
  imports FrameMonitor
begin

text \<open>
  \<open>frame_sync_algo.c\<close>, the part every mode shares and the pair-trigger algorithm: frame-length
  helpers, prediction from the frame recorder, exposure (HDR) bookkeeping, the setters called
  by the driver, and \<open>fs_alg_solve_frame_length\<close>. A function that can reach a null recorder
  pointer, a division by zero or a read outside \<open>hdr_exp_idx_map\<close> returns an option; \<open>None\<close> is
  that run. Log output is not modelled.
\<close>

subsection \<open>Utility functions\<close>

definition fs_flicker_table :: "(u32 \<times> u32) list" where
  "fs_flicker_table = [(68493, 65359), (40650, 39525), (33783, 32786), (16891, 16474),
     (0, 0), (0, 0), (0, 0), (0, 0)]"

fun anti_flicker_scan :: "(u32 \<times> u32) list \<Rightarrow> u32 \<Rightarrow> u32" where
  "anti_flicker_scan [] framelength = framelength"
| "anti_flicker_scan ((hi, lo) # rows) framelength =
     (if hi = 0 then framelength
      else if framelength < hi \<and> lo \<le> framelength then hi
      else anti_flicker_scan rows framelength)"

definition get_anti_flicker_fl :: "u32 \<Rightarrow> u32" where
  "get_anti_flicker_fl framelength = anti_flicker_scan fs_flicker_table framelength"

definition check_sync_flicker_en_status :: "u32 \<Rightarrow> fs_world \<Rightarrow> u32" where
  "check_sync_flicker_en_status idx w =
     (let flk_en_fdelay =
        fold (\<lambda>i flk. if 0 < fi_flicker_en (fs_inst w i) \<and> fi_fl_active_delay (fs_inst w i) < flk
                 then fi_fl_active_delay (fs_inst w i) else flk) sensor_loop (0 - 1)
      in if fi_fl_active_delay (fs_inst w idx) < flk_en_fdelay then 0 else 1)"

definition check_fl_boundary :: "u32 \<Rightarrow> fs_world \<Rightarrow> fs_world" where
  "check_fl_boundary idx w =
     (if fi_max_fl_lc (fs_inst w idx) < fi_output_fl_lc (fs_inst w idx)
      then upd_inst idx (\<lambda>s. s\<lparr>fi_output_fl_lc := fi_max_fl_lc s,
             fi_output_fl_us := convert2TotalTime (fi_lineTimeInNs s) (fi_max_fl_lc s)\<rparr>) w
      else w)"

definition check_vsync_valid :: "u32 list \<Rightarrow> fs_world \<Rightarrow> u32" where
  "check_vsync_valid solveIdxs w =
     fold (\<lambda>idx ret. if fi_last_vts (fs_inst w idx) = 0 then 0 else ret) solveIdxs 1"

definition get_valid_frame_cell_size :: "u32 \<Rightarrow> fs_world \<Rightarrow> u32" where
  "get_valid_frame_cell_size idx w =
     (if 1 < fi_frame_cell_size (fs_inst w idx) then fi_frame_cell_size (fs_inst w idx) else 1)"

definition set_fl_us :: "u32 \<Rightarrow> u32 \<Rightarrow> fs_world \<Rightarrow> fs_world option" where
  "set_fl_us idx us w = do {
     fl_lc \<leftarrow> convert2LineCount (fi_lineTimeInNs (fs_inst w idx)) us;
     Some (check_fl_boundary idx
       (upd_inst idx (\<lambda>s. s\<lparr>fi_output_fl_us := us, fi_output_fl_lc := fl_lc\<rparr>) w))
   }"

definition calc_min_fl_lc :: "u32 \<Rightarrow> u32 \<Rightarrow> fs_world \<Rightarrow> u32" where
  "calc_min_fl_lc idx min_fl_lc w =
     (let s = fs_inst w idx;
          shutter_margin = fi_shutter_lc s + fi_margin_lc s;
          fl1 = (if min_fl_lc < shutter_margin then shutter_margin else min_fl_lc);
          fl2 = (if 1 < he_mode_exp_cnt (fi_hdr_exp s)
                 then (if fi_readout_min_fl_lc s < fl1 then fl1 else fi_readout_min_fl_lc s)
                 else fl1);
          fl3 = (if fi_extend_fl_lc s \<noteq> 0 then fl2 + fi_extend_fl_lc s else fl2)
      in if fi_max_fl_lc s < fl3 then fi_max_fl_lc s else fl3)"

definition check_valid_for_using_vsyncs_recs_data :: "u32 \<Rightarrow> fs_world \<Rightarrow> bool" where
  "check_valid_for_using_vsyncs_recs_data idx w = (fi_vsyncs_updated (fs_inst w idx) \<noteq> 0)"

definition set_valid_for_using_vsyncs_recs_data :: "u32 \<Rightarrow> u32 \<Rightarrow> fs_world \<Rightarrow> fs_world" where
  "set_valid_for_using_vsyncs_recs_data idx flag w =
     upd_inst idx (\<lambda>s. s\<lparr>fi_vsyncs_updated := bitfield1 flag\<rparr>) w"

subsection \<open>Reads and writes through the recorder pointers\<close>

fun read_fl :: "fs_world \<Rightarrow> rec_ptr \<Rightarrow> u32 option" where
  "read_fl w None = None"
| "read_fl w (Some (i, d)) = Some (fr_framelength_lc (rc_frame_recs (w_recorder w i) d))"

fun read_shutter :: "fs_world \<Rightarrow> rec_ptr \<Rightarrow> u32 option" where
  "read_shutter w None = None"
| "read_shutter w (Some (i, d)) = Some (fr_shutter_lc (rc_frame_recs (w_recorder w i) d))"

definition upd_rec :: "u32 \<Rightarrow> u32 \<Rightarrow> (FrameRecord \<Rightarrow> FrameRecord) \<Rightarrow> fs_world \<Rightarrow> fs_world" where
  "upd_rec i d f w = upd_recorder i (\<lambda>r. r\<lparr>rc_frame_recs :=
     (rc_frame_recs r)(d := f (rc_frame_recs r d))\<rparr>) w"

fun write_fl :: "rec_ptr \<Rightarrow> u32 \<Rightarrow> fs_world \<Rightarrow> fs_world option" where
  "write_fl None v w = None"
| "write_fl (Some (i, d)) v w = Some (upd_rec i d (\<lambda>r. r\<lparr>fr_framelength_lc := v\<rparr>) w)"

fun write_shutter :: "rec_ptr \<Rightarrow> u32 \<Rightarrow> fs_world \<Rightarrow> fs_world option" where
  "write_shutter None v w = None"
| "write_shutter (Some (i, d)) v w = Some (upd_rec i d (\<lambda>r. r\<lparr>fr_shutter_lc := v\<rparr>) w)"

subsection \<open>Predicted frame lengths\<close>

text \<open>One turn of the loop: \<open>i = 0\<close> is the current frame, \<open>i = 1\<close> the next one.\<close>

definition predicted_lc :: "u32 \<Rightarrow> u32 \<Rightarrow> fs_world \<Rightarrow> u32 option" where
  "predicted_lc idx i w =
     (let s = fs_inst w idx in
      if fi_fl_active_delay s = 3 then do {
        shutter \<leftarrow> read_shutter w (rs_shutter_lc (fi_recs s (1 - i)));
        fl \<leftarrow> read_fl w (rs_framelength_lc (fi_recs s (2 - i)));
        let sm = shutter + fi_margin_lc s;
        let p = (if sm < fl then fl else sm);
        Some (if 1 < he_mode_exp_cnt (fi_hdr_exp s)
              then (let m = (if i = 0 then fi_prev_readout_min_fl_lc s else fi_readout_min_fl_lc s)
                    in if m < p then p else m)
              else p)
      }
      else read_fl w (rs_framelength_lc (fi_recs s (1 - i))))"

definition store_predicted :: "u32 \<Rightarrow> u32 \<Rightarrow> fs_world \<Rightarrow> fs_world option" where
  "store_predicted idx i w = do {
     p \<leftarrow> predicted_lc idx i w;
     Some (upd_inst idx (\<lambda>s. s\<lparr>fi_predicted_fl_lc := (fi_predicted_fl_lc s)(i := p),
       fi_predicted_fl_us := (fi_predicted_fl_us s)(i := convert2TotalTime (fi_lineTimeInNs s) p)\<rparr>) w)
   }"

definition calc_predicted_frame_length :: "u32 \<Rightarrow> fs_world \<Rightarrow> fs_world option" where
  "calc_predicted_frame_length idx w =
     (let fdelay = fi_fl_active_delay (fs_inst w idx) in
      if fdelay < 2 \<or> 3 < fdelay then Some w
      else store_predicted idx 0 w \<bind> store_predicted idx 1)"

definition copy_rec :: "u32 \<Rightarrow> u32 \<Rightarrow> u32 \<Rightarrow> fs_world \<Rightarrow> fs_world option" where
  "copy_rec idx dst src w = do {
     fl \<leftarrow> read_fl w (rs_framelength_lc (fi_recs (fs_inst w idx) src));
     w \<leftarrow> write_fl (rs_framelength_lc (fi_recs (fs_inst w idx) dst)) fl w;
     sh \<leftarrow> read_shutter w (rs_shutter_lc (fi_recs (fs_inst w idx) src));
     write_shutter (rs_shutter_lc (fi_recs (fs_inst w idx) dst)) sh w
   }"

definition calibrate_recs_data_by_vsyncs :: "u32 \<Rightarrow> fs_world \<Rightarrow> fs_world option" where
  "calibrate_recs_data_by_vsyncs idx w =
     (if \<not> check_valid_for_using_vsyncs_recs_data idx w then Some w
      else do {
        w \<leftarrow> (if 1 < fi_vsyncs (fs_inst w idx) then copy_rec idx 2 1 w else Some w);
        w \<leftarrow> (if fi_vsyncs (fs_inst w idx) = 0 \<and> RECORDER_DEPTH = 4
             then copy_rec idx 1 2 w \<bind> copy_rec idx 2 3 else Some w);
        w \<leftarrow> calc_predicted_frame_length idx w;
        Some (set_valid_for_using_vsyncs_recs_data idx 0 w)
      })"

definition calc_vts_sync_bias :: "u32 \<Rightarrow> fs_world \<Rightarrow> u32 option" where
  "calc_vts_sync_bias idx w =
     (let s = fs_inst w idx; hdr = fi_hdr_exp s; cnt = he_mode_exp_cnt hdr;
          margin_lc_per_exp = (if 1 < cnt then fi_margin_lc s div cnt else 0);
          vts_exp_bias =
            (if 1 < cnt \<and> fi_sync_type s AND FS_SYNC_TYPE_SE \<noteq> 0 then
               if cnt = 2 then margin_lc_per_exp + he_exp_lc hdr 2
               else if cnt = 3 then margin_lc_per_exp + he_exp_lc hdr 1
                                    + margin_lc_per_exp + he_exp_lc hdr 2
               else 0
             else 0);
          vts_signal_bias = 0;
          total_bias = vts_exp_bias + vts_signal_bias
      in if fi_custom_bias_us s \<noteq> 0 then do {
           lc \<leftarrow> convert2LineCount (fi_lineTimeInNs s) (fi_custom_bias_us s);
           Some (total_bias + lc)
         }
         else Some total_bias)"

definition check_timing_critical_section :: "u32 \<Rightarrow> u32 \<Rightarrow> u32" where
  "check_timing_critical_section pred_vdiff target_min_fl_us =
     (let threshold = FS_TOLERANCE div 2;
          delta = threshold div 10;
          threshold = threshold + delta
      in if target_min_fl_us < pred_vdiff
         then (if pred_vdiff - target_min_fl_us < threshold then 1 else 0)
         else (if target_min_fl_us - pred_vdiff < threshold then 1 else 0))"

definition fs_alg_setup_frame_monitor_fmeas_data :: "u32 \<Rightarrow> fs_world \<Rightarrow> fs_world option" where
  "fs_alg_setup_frame_monitor_fmeas_data idx w = do {
     w \<leftarrow> calc_predicted_frame_length idx w;
     let s = fs_inst w idx;
     Some (upd_frm (frm_set_frame_measurement idx (fi_vsyncs s)
       (fi_predicted_fl_us s 0) (fi_predicted_fl_lc s 0)
       (fi_predicted_fl_us s 1) (fi_predicted_fl_lc s 1)) w)
   }"

subsection \<open>Setters\<close>

definition fs_alg_set_frame_cell_size :: "u32 \<Rightarrow> u32 \<Rightarrow> fs_world \<Rightarrow> fs_world" where
  "fs_alg_set_frame_cell_size idx n w = upd_inst idx (\<lambda>s. s\<lparr>fi_frame_cell_size := n\<rparr>) w"

definition fs_alg_set_frame_tag :: "u32 \<Rightarrow> u32 \<Rightarrow> fs_world \<Rightarrow> fs_world" where
  "fs_alg_set_frame_tag idx cnt w = upd_inst idx (\<lambda>s. s\<lparr>fi_frame_tag := cnt\<rparr>) w"

definition fs_alg_set_n_1_on_off_flag :: "u32 \<Rightarrow> u32 \<Rightarrow> fs_world \<Rightarrow> fs_world" where
  "fs_alg_set_n_1_on_off_flag idx flag w =
     upd_inst idx (\<lambda>s. s\<lparr>fi_n_1_on_off := bitfield1 flag\<rparr>) w"

definition fs_alg_set_sync_type :: "u32 \<Rightarrow> u32 \<Rightarrow> fs_world \<Rightarrow> fs_world" where
  "fs_alg_set_sync_type idx type w = upd_inst idx (\<lambda>s. s\<lparr>fi_sync_type := type\<rparr>) w"

definition fs_alg_set_anti_flicker :: "u32 \<Rightarrow> u32 \<Rightarrow> fs_world \<Rightarrow> fs_world" where
  "fs_alg_set_anti_flicker idx flag w =
     upd_inst idx (\<lambda>s. s\<lparr>fi_flicker_en := bitfield1 flag\<rparr>) w"

definition fs_alg_set_extend_framelength ::
    "u32 \<Rightarrow> u32 \<Rightarrow> u32 \<Rightarrow> fs_world \<Rightarrow> fs_world option" where
  "fs_alg_set_extend_framelength idx ext_fl_lc ext_fl_us w =
     (let lt = fi_lineTimeInNs (fs_inst w idx) in
      if ext_fl_lc = 0 \<and> ext_fl_us = 0 then
        Some (upd_inst idx (\<lambda>s. s\<lparr>fi_extend_fl_lc := ext_fl_lc, fi_extend_fl_us := ext_fl_us\<rparr>) w)
      else if ext_fl_lc \<noteq> 0 \<and> ext_fl_us = 0 then
        Some (upd_inst idx (\<lambda>s. s\<lparr>fi_extend_fl_lc := ext_fl_lc,
               fi_extend_fl_us := convert2TotalTime lt ext_fl_lc\<rparr>) w)
      else if ext_fl_lc = 0 \<and> ext_fl_us \<noteq> 0 then do {
        lc \<leftarrow> convert2LineCount lt ext_fl_us;
        Some (upd_inst idx (\<lambda>s. s\<lparr>fi_extend_fl_us := ext_fl_us, fi_extend_fl_lc := lc\<rparr>) w)
      }
      else do {
        tmp_ext_fl_lc \<leftarrow> convert2LineCount lt ext_fl_us;
        let lc = (if tmp_ext_fl_lc < ext_fl_lc then ext_fl_lc else tmp_ext_fl_lc);
        Some (upd_inst idx (\<lambda>s. s\<lparr>fi_extend_fl_lc := lc,
                fi_extend_fl_us := convert2TotalTime lt lc\<rparr>) w)
      })"

definition fs_alg_seamless_switch :: "u32 \<Rightarrow> fs_world \<Rightarrow> fs_world option" where
  "fs_alg_seamless_switch idx w = fs_alg_set_extend_framelength idx 0 0 w"

definition fs_alg_update_tg :: "u32 \<Rightarrow> u32 \<Rightarrow> fs_world \<Rightarrow> fs_world" where
  "fs_alg_update_tg idx tg w = upd_inst idx (\<lambda>s. s\<lparr>fi_tg := tg\<rparr>) w"

definition fs_alg_update_min_fl_lc :: "u32 \<Rightarrow> u32 \<Rightarrow> fs_world \<Rightarrow> fs_world" where
  "fs_alg_update_min_fl_lc idx min_fl_lc w =
     (if fi_min_fl_lc (fs_inst w idx) \<noteq> min_fl_lc
      then upd_inst idx (\<lambda>s. s\<lparr>fi_min_fl_lc := min_fl_lc\<rparr>) w else w)"

definition fs_alg_set_sync_with_diff :: "u32 \<Rightarrow> u32 \<Rightarrow> fs_world \<Rightarrow> fs_world" where
  "fs_alg_set_sync_with_diff idx diff_us w = upd_inst idx (\<lambda>s. s\<lparr>fi_custom_bias_us := diff_us\<rparr>) w"

subsection \<open>Multi-exposure (HDR) settings\<close>

text \<open>
  The loop over the exposures of one setting. \<open>None\<close> reads outside the index table;
  \<open>Some None\<close> is the early \<open>return 0\<close> on an invalid index; \<open>Some (Some s)\<close> the sum.
\<close>

fun hdr_exp_sum :: "u32 \<Rightarrow> u32 carray \<Rightarrow> u32 list \<Rightarrow> u32 \<Rightarrow> u32 option option" where
  "hdr_exp_sum cnt exp_lc [] acc = Some (Some acc)"
| "hdr_exp_sum cnt exp_lc (i # is) acc =
     (case hdr_exp_idx_map cnt i of
        None \<Rightarrow> None
      | Some hdr_idx \<Rightarrow> if hdr_idx < 0 then Some None
                        else hdr_exp_sum cnt exp_lc is (acc + exp_lc (of_int hdr_idx)))"

definition fs_alg_get_hdr_equivalent_exp_lc :: "u32 \<Rightarrow> fs_world \<Rightarrow> u32 option" where
  "fs_alg_get_hdr_equivalent_exp_lc idx w =
     (let hdr = fi_hdr_exp (fs_inst w idx); prev = fi_prev_hdr_exp (fs_inst w idx);
          mode_exp_cnt_1 = he_mode_exp_cnt hdr; mode_exp_cnt_2 = he_mode_exp_cnt prev
      in do {
        r1 \<leftarrow> hdr_exp_sum mode_exp_cnt_1 (he_exp_lc hdr) (loop_idx mode_exp_cnt_1) 0;
        case r1 of None \<Rightarrow> Some 0
        | Some result_1 \<Rightarrow> do {
            r2 \<leftarrow> hdr_exp_sum mode_exp_cnt_2 (he_exp_lc prev) (drop 1 (loop_idx mode_exp_cnt_2))
                   (he_exp_lc hdr 0);
            case r2 of None \<Rightarrow> Some 0
            | Some result_2 \<Rightarrow> Some (if result_2 < result_1 then result_1 else result_2)
          }
      })"

text \<open>
  \<open>read_offset_diff\<close> is a C \<open>int\<close> that accumulates unsigned differences: a 32-bit value read
  as signed in the test.
\<close>

fun readout_fl_loop ::
    "u32 \<Rightarrow> fs_hdr_exp_st \<Rightarrow> fs_hdr_exp_st \<Rightarrow> u32 list \<Rightarrow> u32 \<Rightarrow> u32 \<Rightarrow> u32 option option" where
  "readout_fl_loop cnt cur prev [] off readout_min = Some (Some readout_min)"
| "readout_fl_loop cnt cur prev (i # is) off readout_min =
     (case hdr_exp_idx_map cnt i of
        None \<Rightarrow> None
      | Some hdr_idx \<Rightarrow>
          if hdr_idx < 0 then Some None
          else let off' = off + (he_exp_lc prev (of_int hdr_idx) - he_exp_lc cur (of_int hdr_idx));
                   base = he_readout_len_lc cur + he_read_margin_lc cur;
                   readout_fl_lc = (if 0 < sint off' then base + off' else base)
               in readout_fl_loop cnt cur prev is off'
                    (if readout_min < readout_fl_lc then readout_fl_lc else readout_min))"

definition fs_alg_update_hdr_exp_readout_fl_lc :: "u32 \<Rightarrow> fs_world \<Rightarrow> fs_world option" where
  "fs_alg_update_hdr_exp_readout_fl_lc idx w =
     (let cur = fi_hdr_exp (fs_inst w idx); prev = fi_prev_hdr_exp (fs_inst w idx);
          cnt = he_mode_exp_cnt cur
      in if 1 < cnt \<and> he_readout_len_lc cur = 0
         then Some (upd_inst idx (\<lambda>s. s\<lparr>fi_readout_min_fl_lc := 0\<rparr>) w)
         else do {
           r \<leftarrow> readout_fl_loop cnt cur prev (drop 1 (loop_idx cnt)) 0 0;
           case r of None \<Rightarrow> Some w
           | Some m \<Rightarrow> Some (upd_inst idx (\<lambda>s. s\<lparr>fi_readout_min_fl_lc := m\<rparr>) w)
         })"

text \<open>The copy loop; the flag is \<open>False\<close> when it left through the early \<open>return\<close>.\<close>

fun copy_exp_loop :: "u32 \<Rightarrow> u32 carray \<Rightarrow> u32 list \<Rightarrow> u32 carray \<Rightarrow> (bool \<times> u32 carray) option" where
  "copy_exp_loop cnt src [] exp_lc = Some (True, exp_lc)"
| "copy_exp_loop cnt src (i # is) exp_lc =
     (case hdr_exp_idx_map cnt i of
        None \<Rightarrow> None
      | Some hdr_idx \<Rightarrow> if hdr_idx < 0 then Some (False, exp_lc)
          else copy_exp_loop cnt src is (exp_lc(of_int hdr_idx := src (of_int hdr_idx))))"

definition valid_exp_idx :: "u32 \<Rightarrow> int option list" where
  "valid_exp_idx cnt = map (hdr_exp_idx_map cnt) (loop_idx cnt)"

definition clamp_hdr_cnt :: "fs_hdr_exp_st \<Rightarrow> fs_hdr_exp_st" where
  "clamp_hdr_cnt p =
     (let p1 = (if FS_HDR_MAX < he_mode_exp_cnt p then p\<lparr>he_mode_exp_cnt := FS_HDR_MAX\<rparr> else p)
      in if FS_HDR_MAX < he_ae_exp_cnt p then p1\<lparr>he_ae_exp_cnt := FS_HDR_MAX\<rparr> else p1)"

text \<open>
  \<open>shutter_lc\<close> and \<open>p_hdr_exp\<close> are pointers into the caller's structure; the results are what
  they point to afterwards.
\<close>

definition fs_alg_set_hdr_exp_st_data ::
    "u32 \<Rightarrow> u32 \<Rightarrow> fs_hdr_exp_st \<Rightarrow> fs_world \<Rightarrow> (u32 \<times> fs_hdr_exp_st \<times> fs_world) option" where
  "fs_alg_set_hdr_exp_st_data idx shutter_lc p_hdr w =
     (if he_ae_exp_cnt p_hdr = 0 then Some (shutter_lc, p_hdr, w)
      else let p = clamp_hdr_cnt p_hdr in
      if he_mode_exp_cnt p = 0 then
        Some (he_exp_lc p 0, p, upd_inst idx (\<lambda>s. s\<lparr>fi_shutter_lc := he_exp_lc p 0\<rparr>) w)
      else do {
        let w1 = upd_inst idx (\<lambda>s. s\<lparr>fi_prev_hdr_exp := fi_hdr_exp s,
          fi_hdr_exp := (fi_hdr_exp s)\<lparr>he_mode_exp_cnt := he_mode_exp_cnt p,
            he_ae_exp_cnt := he_ae_exp_cnt p, he_readout_len_lc := he_readout_len_lc p,
            he_read_margin_lc := he_read_margin_lc p\<rparr>\<rparr>) w;
        (fin, exp_lc) \<leftarrow> copy_exp_loop (he_ae_exp_cnt p) (he_exp_lc p)
          (loop_idx (he_ae_exp_cnt p)) (he_exp_lc (fi_hdr_exp (fs_inst w1 idx)));
        let w2 = upd_inst idx (\<lambda>s. s\<lparr>fi_hdr_exp := (fi_hdr_exp s)\<lparr>he_exp_lc := exp_lc\<rparr>\<rparr>) w1;
        if \<not> fin then Some (shutter_lc, p, w2)
        else do {
          let w3 = upd_inst idx (\<lambda>s. s\<lparr>fi_hdr_exp := (fi_hdr_exp s)\<lparr>he_exp_lc :=
            (\<lambda>i. if i < FS_HDR_MAX \<and> Some (uint i) \<notin> set (valid_exp_idx (he_mode_exp_cnt p))
                 then 0 else he_exp_lc (fi_hdr_exp s) i)\<rparr>\<rparr>) w2;
          eq \<leftarrow> fs_alg_get_hdr_equivalent_exp_lc idx w3;
          let w4 = upd_inst idx (\<lambda>s. s\<lparr>fi_shutter_lc := eq\<rparr>) w3;
          w5 \<leftarrow> fs_alg_update_hdr_exp_readout_fl_lc idx w4;
          Some (eq, p, w5)
        }
      })"

definition fs_alg_set_streaming_st_data ::
    "u32 \<Rightarrow> fs_streaming_st \<Rightarrow> fs_world \<Rightarrow> (fs_streaming_st \<times> fs_world) option" where
  "fs_alg_set_streaming_st_data idx pData w = do {
     let w1 = upd_inst idx (\<lambda>s. s\<lparr>fi_sensor_id := ss_sensor_id pData,
       fi_sensor_idx := ss_sensor_idx pData, fi_tg := ss_tg pData,
       fi_fl_active_delay := ss_fl_active_delay pData, fi_def_min_fl_lc := ss_def_fl_lc pData,
       fi_max_fl_lc := ss_max_fl_lc pData, fi_def_shutter_lc := ss_def_shutter_lc pData,
       fi_hdr_exp := ss_hdr_exp pData\<rparr>) w;
     (sh, hdr, w2) \<leftarrow> fs_alg_set_hdr_exp_st_data idx (ss_def_shutter_lc pData) (ss_hdr_exp pData) w1;
     Some (pData\<lparr>ss_def_shutter_lc := sh, ss_hdr_exp := hdr\<rparr>, w2)
   }"

definition fs_alg_set_perframe_st_data ::
    "u32 \<Rightarrow> fs_perframe_st \<Rightarrow> fs_world \<Rightarrow> (fs_perframe_st \<times> fs_world) option" where
  "fs_alg_set_perframe_st_data idx pData w = do {
     let w1 = upd_inst idx (\<lambda>s. s\<lparr>fi_min_fl_lc := pf_min_fl_lc pData,
       fi_shutter_lc := pf_shutter_lc pData, fi_margin_lc := pf_margin_lc pData,
       fi_flicker_en := bitfield1 (pf_flicker_en pData), fi_pclk := pf_pclk pData,
       fi_linelength := pf_linelength pData, fi_lineTimeInNs := pf_lineTimeInNs pData,
       fi_prev_readout_min_fl_lc := fi_readout_min_fl_lc s, fi_readout_min_fl_lc := 0\<rparr>) w;
     (sh, hdr, w2) \<leftarrow> fs_alg_set_hdr_exp_st_data idx (pf_shutter_lc pData) (pf_hdr_exp pData) w1;
     Some (pData\<lparr>pf_shutter_lc := sh, pf_hdr_exp := hdr\<rparr>, w2)
   }"

definition fs_alg_reset_fs_sa_inst :: "u32 \<Rightarrow> fs_world \<Rightarrow> fs_world" where
  "fs_alg_reset_fs_sa_inst idx w = upd_sa (\<lambda>sa. sa\<lparr>sa_magic_num := (sa_magic_num sa)(idx := 0),
     sa_dynamic_paras := (sa_dynamic_paras sa)(idx := zero_dynamic_para)\<rparr>) w"

definition fs_alg_reset_fs_inst :: "u32 \<Rightarrow> fs_world \<Rightarrow> fs_world" where
  "fs_alg_reset_fs_inst idx w = fs_alg_reset_fs_sa_inst idx (upd_inst idx (\<lambda>_. zero_fs_inst) w)"

definition fs_alg_set_frame_record_st_data ::
    "u32 \<Rightarrow> frame_record_st carray \<Rightarrow> fs_world \<Rightarrow> fs_world option" where
  "fs_alg_set_frame_record_st_data idx data w =
     calc_predicted_frame_length idx
       (upd_inst idx (\<lambda>s. s\<lparr>fi_recs := (\<lambda>i. if i < RECORDER_DEPTH then data i else fi_recs s i)\<rparr>) w)"

subsection \<open>Vsync data\<close>

text \<open>The loop of \<open>fs_alg_get_vsync_data\<close> over the solved sensors, \<open>i\<close> the position.\<close>

fun take_vsync_data :: "vsync_rec \<Rightarrow> u32 list \<Rightarrow> u32 \<Rightarrow> fs_world \<Rightarrow> (u32 \<times> fs_world) option" where
  "take_vsync_data recs [] i w = Some (0, w)"
| "take_vsync_data recs (idx # idxs) i w =
     (if fi_tg (fs_inst w idx) \<noteq> vt_id (vr_recs recs i) then Some (1, w)
      else do {
        let w1 = upd_inst idx (\<lambda>s. s\<lparr>fi_vsyncs := vt_vsyncs (vr_recs recs i),
          fi_last_vts := vt_timestamps (vr_recs recs i) 0, fi_cur_tick := vr_cur_tick recs\<rparr>) w;
        w2 \<leftarrow> calibrate_recs_data_by_vsyncs idx (set_valid_for_using_vsyncs_recs_data idx 1 w1);
        take_vsync_data recs idxs (i + 1) w2
      })"

definition fs_alg_get_vsync_data ::
    "vsync_source \<Rightarrow> u32 list \<Rightarrow> fs_world \<Rightarrow> (u32 \<times> fs_world) option" where
  "fs_alg_get_vsync_data src solveIdxs w =
     (let query_tg_ts = map (\<lambda>idx. fi_tg (fs_inst w idx)) solveIdxs;
          (ret, vsync_recs, frm) = frm_query_vsync_data src query_tg_ts zero_vsync_rec (w_frm w);
          w1 = upd_frm (\<lambda>_. frm) w
      in if ret \<noteq> 0 then Some (1, w1)
         else take_vsync_data vsync_recs solveIdxs 0
           (w1\<lparr>w_alg := (w_alg w1)\<lparr>al_cur_tick := vr_cur_tick vsync_recs,
              al_tick_factor := vr_tick_factor vsync_recs\<rparr>\<rparr>))"

subsection \<open>Pair-trigger algorithm\<close>

definition sensor_min_fl_us :: "u32 \<Rightarrow> fs_world \<Rightarrow> u32" where
  "sensor_min_fl_us idx w = convert2TotalTime (fi_lineTimeInNs (fs_inst w idx))
     (calc_min_fl_lc idx (fi_min_fl_lc (fs_inst w idx)) w)"

text \<open>\<open>alloc_ok\<close>: the result of \<open>kcalloc\<close>. The log line reads the newest record.\<close>

definition do_fps_sync :: "bool \<Rightarrow> u32 list \<Rightarrow> fs_world \<Rightarrow> fs_world option" where
  "do_fps_sync alloc_ok solveIdxs w =
     (if \<not> alloc_ok then Some w
      else do {
        target_fl_us \<leftarrow> ofold (\<lambda>idx target. do {
            _ \<leftarrow> read_fl w (rs_framelength_lc (fi_recs (fs_inst w idx) 0));
            Some (if target < sensor_min_fl_us idx w then sensor_min_fl_us idx w else target)
          }) solveIdxs 0;
        w \<leftarrow> ofold (\<lambda>idx. set_fl_us idx target_fl_us) solveIdxs w;
        Some (w\<lparr>w_alg := (w_alg w)\<lparr>al_target_min_fl_us := target_fl_us\<rparr>\<rparr>)
      })"

text \<open>The steps of \<open>adjust_vsync_diff\<close>, in the order of the code's numbered comments.\<close>

definition vtick_of :: "u32 \<Rightarrow> fs_world \<Rightarrow> u32" where
  "vtick_of idx w = fi_last_vts (fs_inst w idx) * al_tick_factor (w_alg w) - al_cur_tick (w_alg w)"

fun vtick_scan :: "u32 list \<Rightarrow> u32 \<Rightarrow> fs_world \<Rightarrow> u32 \<times> fs_world" where
  "vtick_scan [] mn w = (mn, w)"
| "vtick_scan (idx # idxs) mn w =
     vtick_scan idxs (if vtick_of idx w < mn then vtick_of idx w else mn)
       (upd_inst idx (\<lambda>s. s\<lparr>fi_vdiff := vtick_of idx w\<rparr>) w)"

definition rebase_vdiff :: "u32 \<Rightarrow> u32 \<Rightarrow> fs_world \<Rightarrow> fs_world" where
  "rebase_vdiff min_vtick_diff idx w =
     (let v = fi_vdiff (fs_inst w idx) - min_vtick_diff; tf = al_tick_factor (w_alg w)
      in upd_inst idx (\<lambda>s. s\<lparr>fi_vdiff := (if tf \<noteq> 0 then v div tf else v)\<rparr>) w)"

definition calc_vdiff :: "u32 list \<Rightarrow> fs_world \<Rightarrow> fs_world" where
  "calc_vdiff solveIdxs w =
     (let (min_vtick_diff, w1) = vtick_scan solveIdxs (0 - 1) w
      in fold (rebase_vdiff min_vtick_diff) solveIdxs w1)"

definition predict_vts :: "u32 \<Rightarrow> fs_world \<Rightarrow> fs_world option" where
  "predict_vts idx w = do {
     w \<leftarrow> calc_predicted_frame_length idx w;
     let w1 = upd_inst idx (\<lambda>s. s\<lparr>fi_vdiff := fi_vdiff s
       + (fi_predicted_fl_us s 0 + fi_predicted_fl_us s 1)\<rparr>) w;
     vts_bias \<leftarrow> calc_vts_sync_bias idx w1;
     let vts_bias_us = convert2TotalTime (fi_lineTimeInNs (fs_inst w1 idx)) vts_bias;
     Some (upd_inst idx (\<lambda>s. s\<lparr>fi_vdiff := fi_vdiff s + vts_bias_us\<rparr>) w1)
   }"

definition calc_target_vts :: "u32 list \<Rightarrow> fs_world \<Rightarrow> u32" where
  "calc_target_vts solveIdxs w =
     fold (\<lambda>idx t. if t < fi_vdiff (fs_inst w idx) then fi_vdiff (fs_inst w idx) else t) solveIdxs 0"

definition pred_vdiff_of :: "u32 \<Rightarrow> u32 \<Rightarrow> fs_world \<Rightarrow> u32" where
  "pred_vdiff_of target_vts idx w =
     (let pred_vdiff = target_vts - fi_vdiff (fs_inst w idx);
          tm = al_target_min_fl_us (w_alg w)
      in if check_timing_critical_section pred_vdiff tm \<noteq> 0 then 0
         else if tm \<le> pred_vdiff then 0 else pred_vdiff)"

definition extend_to_target :: "u32 \<Rightarrow> u32 \<Rightarrow> fs_world \<Rightarrow> fs_world option" where
  "extend_to_target target_vts idx w =
     set_fl_us idx (fi_output_fl_us (fs_inst w idx) + pred_vdiff_of target_vts idx w) w"

definition flicker_vdiff_of :: "u32 \<Rightarrow> fs_world \<Rightarrow> u32" where
  "flicker_vdiff_of idx w =
     get_anti_flicker_fl (fi_output_fl_us (fs_inst w idx)) - fi_output_fl_us (fs_inst w idx)"

definition max_flicker_scan :: "u32 list \<Rightarrow> fs_world \<Rightarrow> u32 \<times> u32" where
  "max_flicker_scan solveIdxs w =
     fold (\<lambda>idx (en, mx).
       if fi_flicker_en (fs_inst w idx) = 0 then (en, mx)
       else (en OR fi_flicker_en (fs_inst w idx),
             if flicker_vdiff_of idx w = 0 then mx
             else if mx < flicker_vdiff_of idx w then flicker_vdiff_of idx w else mx))
     solveIdxs (0, 0)"

text \<open>After setting the anti-flicker frame length the log line divides by it.\<close>

definition add_flicker :: "u32 \<Rightarrow> u32 \<Rightarrow> fs_world \<Rightarrow> fs_world option" where
  "add_flicker max_flicker_vdiff idx w = do {
     w \<leftarrow> set_fl_us idx (fi_output_fl_us (fs_inst w idx) + max_flicker_vdiff) w;
     if fi_output_fl_us (fs_inst w idx) = 0 then None else Some w
   }"

definition adjust_vsync_diff :: "bool \<Rightarrow> u32 list \<Rightarrow> fs_world \<Rightarrow> fs_world option" where
  "adjust_vsync_diff alloc_ok solveIdxs w =
     (if \<not> alloc_ok then Some w
      else if check_vsync_valid solveIdxs w = 0 then Some w
      else do {
        let w1 = calc_vdiff solveIdxs w;
        w2 \<leftarrow> ofold predict_vts solveIdxs w1;
        w3 \<leftarrow> ofold (extend_to_target (calc_target_vts solveIdxs w2)) solveIdxs w2;
        let (anti_flicker_en, max_flicker_vdiff) = max_flicker_scan solveIdxs w3;
        if anti_flicker_en = 0 then Some w3
        else ofold (add_flicker max_flicker_vdiff) solveIdxs w3
      })"

definition fs_alg_solve_frame_length ::
    "vsync_source \<Rightarrow> bool \<Rightarrow> bool \<Rightarrow> u32 list \<Rightarrow> u32 carray \<Rightarrow> fs_world
      \<Rightarrow> (u32 \<times> u32 carray \<times> fs_world) option" where
  "fs_alg_solve_frame_length src alloc1 alloc2 solveIdxs framelength_lc w =
     (if unat TG_MAX_NUM < length solveIdxs then Some (1, framelength_lc, w)
      else do {
        (ret, w) \<leftarrow> fs_alg_get_vsync_data src solveIdxs w;
        if ret \<noteq> 0 then Some (1, framelength_lc, w)
        else do {
          w \<leftarrow> do_fps_sync alloc1 solveIdxs w;
          w \<leftarrow> adjust_vsync_diff alloc2 solveIdxs w;
          Some (0, fold (\<lambda>idx fl. fl(idx := fi_output_fl_lc (fs_inst w idx))) solveIdxs framelength_lc, w)
        }
      })"

subsection \<open>What a run of the algorithm leaves unchanged\<close>

text \<open>
  The configuration of a sensor is its instance without the computed fields; the configuration
  of the driver adds the recorder positions, the shared stand-alone parameters and everything
  outside the algorithm except the frame monitor.
\<close>

definition inst_conf :: "FrameSyncInst \<Rightarrow> FrameSyncInst" where
  "inst_conf s = s\<lparr>fi_output_fl_lc := 0, fi_output_fl_us := 0, fi_predicted_fl_us := (\<lambda>_. 0),
     fi_predicted_fl_lc := (\<lambda>_. 0), fi_vsyncs_updated := 0, fi_vsyncs := 0, fi_last_vts := 0,
     fi_cur_tick := 0, fi_vdiff := 0, fi_is_nonvalid_ts := 0\<rparr>"

definition rec_conf :: "FrameRecorder \<Rightarrow> u32 \<times> u32" where
  "rec_conf r = (rc_init r, rc_depthIdx r)"

definition alg_conf :: "fs_world \<Rightarrow> (u32 \<Rightarrow> FrameSyncInst) \<times> (u32 \<Rightarrow> u32 \<times> u32) \<times>
    HwSyncSensorInfo carray \<times> fs_console \<times> FrameSyncMgr \<times> (u64 \<times> u64 \<times> u32 \<times> u32) list
    \<times> FrameSyncStandAloneInst" where
  "alg_conf w = (\<lambda>j. inst_conf (fs_inst w j), \<lambda>j. rec_conf (w_recorder w j),
     w_hw w, w_con w, w_mgr w, w_cb_calls w, al_sa (w_alg w))"

lemma inst_conf_upd [simp]:
  "inst_conf (s\<lparr>fi_output_fl_lc := a\<rparr>) = inst_conf s"
  "inst_conf (s\<lparr>fi_output_fl_us := a\<rparr>) = inst_conf s"
  "inst_conf (s\<lparr>fi_predicted_fl_us := f\<rparr>) = inst_conf s"
  "inst_conf (s\<lparr>fi_predicted_fl_lc := f\<rparr>) = inst_conf s"
  "inst_conf (s\<lparr>fi_vsyncs_updated := a\<rparr>) = inst_conf s"
  "inst_conf (s\<lparr>fi_vsyncs := a\<rparr>) = inst_conf s"
  "inst_conf (s\<lparr>fi_last_vts := a\<rparr>) = inst_conf s"
  "inst_conf (s\<lparr>fi_cur_tick := a\<rparr>) = inst_conf s"
  "inst_conf (s\<lparr>fi_vdiff := a\<rparr>) = inst_conf s"
  "inst_conf (s\<lparr>fi_is_nonvalid_ts := a\<rparr>) = inst_conf s"
  by (simp_all add: inst_conf_def)

lemma inst_conf_sel:
  assumes "inst_conf s = inst_conf t"
  shows "fi_sensor_id s = fi_sensor_id t" "fi_sensor_idx s = fi_sensor_idx t"
    "fi_tg s = fi_tg t" "fi_fl_active_delay s = fi_fl_active_delay t"
    "fi_max_fl_lc s = fi_max_fl_lc t" "fi_lineTimeInNs s = fi_lineTimeInNs t"
    "fi_hdr_exp s = fi_hdr_exp t" "fi_prev_hdr_exp s = fi_prev_hdr_exp t"
    "fi_recs s = fi_recs t" "fi_margin_lc s = fi_margin_lc t"
    "fi_shutter_lc s = fi_shutter_lc t" "fi_min_fl_lc s = fi_min_fl_lc t"
    "fi_extend_fl_lc s = fi_extend_fl_lc t" "fi_readout_min_fl_lc s = fi_readout_min_fl_lc t"
    "fi_flicker_en s = fi_flicker_en t" "fi_sync_type s = fi_sync_type t"
    "fi_custom_bias_us s = fi_custom_bias_us t" "fi_frame_cell_size s = fi_frame_cell_size t"
    "fi_prev_readout_min_fl_lc s = fi_prev_readout_min_fl_lc t"
    "fi_frame_tag s = fi_frame_tag t" "fi_n_1_on_off s = fi_n_1_on_off t"
  using arg_cong[OF assms, of fi_sensor_id] arg_cong[OF assms, of fi_sensor_idx]
    arg_cong[OF assms, of fi_tg] arg_cong[OF assms, of fi_fl_active_delay]
    arg_cong[OF assms, of fi_max_fl_lc] arg_cong[OF assms, of fi_lineTimeInNs]
    arg_cong[OF assms, of fi_hdr_exp] arg_cong[OF assms, of fi_prev_hdr_exp]
    arg_cong[OF assms, of fi_recs] arg_cong[OF assms, of fi_margin_lc]
    arg_cong[OF assms, of fi_shutter_lc] arg_cong[OF assms, of fi_min_fl_lc]
    arg_cong[OF assms, of fi_extend_fl_lc] arg_cong[OF assms, of fi_readout_min_fl_lc]
    arg_cong[OF assms, of fi_flicker_en] arg_cong[OF assms, of fi_sync_type]
    arg_cong[OF assms, of fi_custom_bias_us] arg_cong[OF assms, of fi_frame_cell_size]
    arg_cong[OF assms, of fi_prev_readout_min_fl_lc]
    arg_cong[OF assms, of fi_frame_tag] arg_cong[OF assms, of fi_n_1_on_off]
  by (simp_all add: inst_conf_def)

lemma rec_conf_upd [simp]: "rec_conf (r\<lparr>rc_frame_recs := f\<rparr>) = rec_conf r"
  by (simp add: rec_conf_def)

lemma alg_conf_sel:
  assumes "alg_conf w = alg_conf v"
  shows "inst_conf (fs_inst w j) = inst_conf (fs_inst v j)"
    "rc_init (w_recorder w j) = rc_init (w_recorder v j)"
    "rc_depthIdx (w_recorder w j) = rc_depthIdx (w_recorder v j)"
    "w_hw w = w_hw v" "w_con w = w_con v" "w_mgr w = w_mgr v" "w_cb_calls w = w_cb_calls v"
    "al_sa (w_alg w) = al_sa (w_alg v)"
  using assms by (auto simp: alg_conf_def rec_conf_def dest: fun_cong)

lemmas alg_conf_inst = alg_conf_sel(1)[THEN inst_conf_sel(1)]
  alg_conf_sel(1)[THEN inst_conf_sel(2)] alg_conf_sel(1)[THEN inst_conf_sel(3)]
  alg_conf_sel(1)[THEN inst_conf_sel(4)] alg_conf_sel(1)[THEN inst_conf_sel(5)]
  alg_conf_sel(1)[THEN inst_conf_sel(6)] alg_conf_sel(1)[THEN inst_conf_sel(7)]
  alg_conf_sel(1)[THEN inst_conf_sel(8)] alg_conf_sel(1)[THEN inst_conf_sel(9)]
  alg_conf_sel(1)[THEN inst_conf_sel(10)]

lemma alg_conf_upd_inst:
  assumes "inst_conf (f (fs_inst w idx)) = inst_conf (fs_inst w idx)"
  shows "alg_conf (upd_inst idx f w) = alg_conf w"
  using assms by (auto simp: alg_conf_def)

lemma alg_conf_upd_rec [simp]: "alg_conf (upd_rec i d f w) = alg_conf w"
  by (auto simp: alg_conf_def upd_rec_def)

lemma alg_conf_upd_frm [simp]: "alg_conf (upd_frm f w) = alg_conf w"
  by (simp add: alg_conf_def)

lemma alg_conf_upd_alg [simp]:
  "al_inst a = fs_inst w \<Longrightarrow> al_sa a = al_sa (w_alg w) \<Longrightarrow> alg_conf (w\<lparr>w_alg := a\<rparr>) = alg_conf w"
  by (simp add: alg_conf_def)

lemma ofold_alg_conf:
  assumes "ofold f xs w = Some w'" and "\<And>x v v'. f x v = Some v' \<Longrightarrow> alg_conf v' = alg_conf v"
  shows "alg_conf w' = alg_conf w"
  by (rule ofold_invariant[OF assms(1), of "\<lambda>v. alg_conf v = alg_conf w"]) (auto dest: assms(2))

lemma alg_conf_check_fl_boundary [simp]: "alg_conf (check_fl_boundary idx w) = alg_conf w"
  by (simp add: check_fl_boundary_def alg_conf_upd_inst)

lemma alg_conf_set_fl_us:
  assumes "set_fl_us idx us w = Some w'" shows "alg_conf w' = alg_conf w"
  using assms by (auto simp: set_fl_us_def run_bind alg_conf_upd_inst)

lemma alg_conf_write:
  "write_fl p v w = Some w' \<Longrightarrow> alg_conf w' = alg_conf w"
  "write_shutter p v w = Some w' \<Longrightarrow> alg_conf w' = alg_conf w"
  by (cases p; auto)+

lemma alg_conf_store_predicted:
  assumes "store_predicted idx i w = Some w'" shows "alg_conf w' = alg_conf w"
  using assms by (auto simp: store_predicted_def run_bind alg_conf_upd_inst)

lemma alg_conf_calc_predicted:
  assumes "calc_predicted_frame_length idx w = Some w'" shows "alg_conf w' = alg_conf w"
  using assms
  by (auto simp: calc_predicted_frame_length_def run_bind Let_def alg_conf_store_predicted
        split: if_splits)

lemma alg_conf_copy_rec:
  assumes "copy_rec idx d s w = Some w'" shows "alg_conf w' = alg_conf w"
  using assms by (auto simp: copy_rec_def run_bind dest!: alg_conf_write)

lemma alg_conf_set_valid [simp]:
  "alg_conf (set_valid_for_using_vsyncs_recs_data idx flag w) = alg_conf w"
  by (simp add: set_valid_for_using_vsyncs_recs_data_def alg_conf_upd_inst)

lemma alg_conf_calibrate:
  assumes "calibrate_recs_data_by_vsyncs idx w = Some w'" shows "alg_conf w' = alg_conf w"
  using assms
  by (auto simp: calibrate_recs_data_by_vsyncs_def run_bind
        dest!: alg_conf_copy_rec alg_conf_calc_predicted split: if_splits)

lemma alg_conf_setup_fmeas:
  assumes "fs_alg_setup_frame_monitor_fmeas_data idx w = Some w'" shows "alg_conf w' = alg_conf w"
  using assms
  by (auto simp: fs_alg_setup_frame_monitor_fmeas_data_def run_bind Let_def
        dest!: alg_conf_calc_predicted)

lemma alg_conf_take_vsync_data:
  assumes "take_vsync_data recs idxs i w = Some (r, w')" shows "alg_conf w' = alg_conf w"
  using assms
proof (induction idxs arbitrary: i w)
  case (Cons idx idxs)
  show ?case
  proof (cases "fi_tg (fs_inst w idx) = vt_id (vr_recs recs i)")
    case True
    with Cons.prems obtain v where
      "calibrate_recs_data_by_vsyncs idx (set_valid_for_using_vsyncs_recs_data idx 1
         (upd_inst idx (\<lambda>s. s\<lparr>fi_vsyncs := vt_vsyncs (vr_recs recs i),
            fi_last_vts := vt_timestamps (vr_recs recs i) 0, fi_cur_tick := vr_cur_tick recs\<rparr>) w)) = Some v"
      "take_vsync_data recs idxs (i + 1) v = Some (r, w')"
      by (auto simp: run_bind Let_def)
    from alg_conf_calibrate[OF this(1)] Cons.IH[OF this(2)] show ?thesis
      by (simp add: alg_conf_upd_inst)
  qed (use Cons.prems in simp)
qed simp

lemma alg_conf_get_vsync_data:
  assumes "fs_alg_get_vsync_data src idxs w = Some (r, w')" shows "alg_conf w' = alg_conf w"
  using assms
  by (auto simp: fs_alg_get_vsync_data_def Let_def run_bind dest!: alg_conf_take_vsync_data
      split: if_splits prod.splits)

lemma alg_conf_do_fps_sync:
  assumes "do_fps_sync a idxs w = Some w'" shows "alg_conf w' = alg_conf w"
  using assms
  by (auto simp: do_fps_sync_def run_bind dest!: ofold_alg_conf alg_conf_set_fl_us
        split: if_splits)

lemma alg_conf_vtick_scan: "alg_conf (snd (vtick_scan idxs mn w)) = alg_conf w"
  by (induction idxs mn w rule: vtick_scan.induct) (simp_all add: alg_conf_upd_inst)

lemma alg_conf_fold_upd:
  assumes "\<And>x v. alg_conf (f x v) = alg_conf v"
  shows "alg_conf (fold f xs w) = alg_conf w"
  using assms by (induction xs arbitrary: w) auto

lemma alg_conf_calc_vdiff [simp]: "alg_conf (calc_vdiff idxs w) = alg_conf w"
  using alg_conf_vtick_scan[of idxs "0 - 1" w]
  by (simp add: calc_vdiff_def Let_def alg_conf_fold_upd alg_conf_upd_inst rebase_vdiff_def
       split_beta)

lemma alg_conf_predict_vts:
  assumes "predict_vts idx w = Some w'" shows "alg_conf w' = alg_conf w"
  using assms
  by (auto simp: predict_vts_def run_bind Let_def alg_conf_upd_inst dest!: alg_conf_calc_predicted)

lemma alg_conf_adjust_vsync_diff:
  assumes "adjust_vsync_diff a idxs w = Some w'" shows "alg_conf w' = alg_conf w"
  using assms
  by (auto simp: adjust_vsync_diff_def run_bind Let_def extend_to_target_def add_flicker_def
        split_beta dest!: ofold_alg_conf alg_conf_set_fl_us alg_conf_predict_vts
        split: if_splits)

lemma alg_conf_solve:
  assumes "fs_alg_solve_frame_length src a b idxs fl w = Some (r, fl', w')"
  shows "alg_conf w' = alg_conf w"
  using assms
  by (auto simp: fs_alg_solve_frame_length_def run_bind Let_def
        dest!: alg_conf_adjust_vsync_diff alg_conf_do_fps_sync alg_conf_get_vsync_data
        split: if_splits)

subsection \<open>Runs that cannot fail\<close>

text \<open>An instance whose record pointers are set, and one whose line time is known as well.\<close>

definition recs_ready :: "FrameSyncInst \<Rightarrow> bool" where
  "recs_ready s \<longleftrightarrow>
     (\<forall>k \<in> {0, 1, 2, 3}. rs_framelength_lc (fi_recs s k) \<noteq> None \<and> rs_shutter_lc (fi_recs s k) \<noteq> None)"

definition inst_ready :: "FrameSyncInst \<Rightarrow> bool" where
  "inst_ready s \<longleftrightarrow> fi_lineTimeInNs s \<noteq> 0 \<and> recs_ready s"

lemma inst_readyD: "inst_ready s \<Longrightarrow> recs_ready s" "inst_ready s \<Longrightarrow> fi_lineTimeInNs s \<noteq> 0"
  by (simp_all add: inst_ready_def)

lemma recs_ready_conf: "inst_conf s = inst_conf t \<Longrightarrow> recs_ready s = recs_ready t"
  by (simp add: recs_ready_def inst_conf_sel(9)[of s t])

lemma inst_ready_conf: "inst_conf s = inst_conf t \<Longrightarrow> inst_ready s = inst_ready t"
  using recs_ready_conf[of s t] inst_conf_sel(6)[of s t] by (simp add: inst_ready_def)

lemma alg_conf_ready:
  "alg_conf w = alg_conf v \<Longrightarrow> inst_ready (fs_inst w i) = inst_ready (fs_inst v i)"
  by (rule inst_ready_conf, rule alg_conf_sel(1))

lemma alg_conf_recs_ready:
  "alg_conf w = alg_conf v \<Longrightarrow> recs_ready (fs_inst w i) = recs_ready (fs_inst v i)"
  by (rule recs_ready_conf, rule alg_conf_sel(1))

lemma rec_ptr_total:
  "p \<noteq> None \<Longrightarrow> \<exists>v. read_fl w p = Some v" "p \<noteq> None \<Longrightarrow> \<exists>v. read_shutter w p = Some v"
  "p \<noteq> None \<Longrightarrow> \<exists>w'. write_fl p x w = Some w'" "p \<noteq> None \<Longrightarrow> \<exists>w'. write_shutter p x w = Some w'"
  by (cases p; auto)+

lemma recs_ready_recs:
  assumes "recs_ready (fs_inst w idx)" and "k \<in> {0, 1, 2, 3}"
  obtains a b where "rs_framelength_lc (fi_recs (fs_inst w idx) k) = Some a"
    and "rs_shutter_lc (fi_recs (fs_inst w idx) k) = Some b"
  using assms unfolding recs_ready_def by blast

lemma predicted_lc_total:
  assumes "recs_ready (fs_inst w idx)" and "i = 0 \<or> i = 1"
  shows "\<exists>p. predicted_lc idx i w = Some p"
proof -
  have k: "1 - i \<in> {0, 1, 2, 3}" "2 - i \<in> {0, 1, 2, 3}" using assms(2) by auto
  obtain a b where "rs_framelength_lc (fi_recs (fs_inst w idx) (1 - i)) = Some a"
    "rs_shutter_lc (fi_recs (fs_inst w idx) (1 - i)) = Some b"
    using recs_ready_recs[OF assms(1) k(1)] .
  moreover obtain c d where "rs_framelength_lc (fi_recs (fs_inst w idx) (2 - i)) = Some c"
    "rs_shutter_lc (fi_recs (fs_inst w idx) (2 - i)) = Some d"
    using recs_ready_recs[OF assms(1) k(2)] .
  ultimately show ?thesis
    by (cases a; cases b; cases c) (simp add: predicted_lc_def Let_def)
qed

lemma store_predicted_total:
  assumes "recs_ready (fs_inst w idx)" and "i = 0 \<or> i = 1"
  shows "\<exists>w'. store_predicted idx i w = Some w'"
  using predicted_lc_total[OF assms] by (auto simp: store_predicted_def)

lemma calc_predicted_total:
  assumes "recs_ready (fs_inst w idx)"
  shows "\<exists>w'. calc_predicted_frame_length idx w = Some w'"
proof -
  obtain v where v: "store_predicted idx 0 w = Some v" using store_predicted_total[OF assms] by auto
  have "recs_ready (fs_inst v idx)"
    using alg_conf_recs_ready[OF alg_conf_store_predicted[OF v]] assms by simp
  then show ?thesis
    using store_predicted_total[of v idx 1] v by (simp add: calc_predicted_frame_length_def Let_def)
qed

lemma copy_rec_total:
  assumes "recs_ready (fs_inst w idx)" and "d \<in> {0, 1, 2, 3}" and "s \<in> {0, 1, 2, 3}"
  shows "\<exists>w'. copy_rec idx d s w = Some w'"
proof -
  obtain a b where d: "rs_framelength_lc (fi_recs (fs_inst w idx) d) = Some a"
    "rs_shutter_lc (fi_recs (fs_inst w idx) d) = Some b"
    using recs_ready_recs[OF assms(1,2)] .
  obtain a' b' where s: "rs_framelength_lc (fi_recs (fs_inst w idx) s) = Some a'"
    "rs_shutter_lc (fi_recs (fs_inst w idx) s) = Some b'"
    using recs_ready_recs[OF assms(1,3)] .
  show ?thesis using d s
    by (cases a; cases b; cases a'; cases b') (simp add: copy_rec_def upd_rec_def)
qed

lemma calibrate_total:
  assumes "recs_ready (fs_inst w idx)"
  shows "\<exists>w'. calibrate_recs_data_by_vsyncs idx w = Some w'"
proof -
  have copy: "\<exists>v'. copy_rec idx d s v = Some v' \<and> alg_conf v' = alg_conf w"
    if "alg_conf v = alg_conf w" "d \<in> {0, 1, 2, 3}" "s \<in> {0, 1, 2, 3}" for v d s
  proof -
    have "recs_ready (fs_inst v idx)" using alg_conf_recs_ready[OF that(1)] assms by simp
    from copy_rec_total[OF this that(2,3)] obtain v' where "copy_rec idx d s v = Some v'" by auto
    with alg_conf_copy_rec[OF this] that(1) show ?thesis by auto
  qed
  have "\<exists>v1. (if 1 < fi_vsyncs (fs_inst w idx) then copy_rec idx 2 1 w else Some w) = Some v1
      \<and> alg_conf v1 = alg_conf w"
    using copy[of w 2 1] by auto
  then obtain v1 where v1: "(if 1 < fi_vsyncs (fs_inst w idx) then copy_rec idx 2 1 w else Some w) = Some v1"
    "alg_conf v1 = alg_conf w" by blast
  have "\<exists>v2. (if fi_vsyncs (fs_inst v1 idx) = 0 \<and> RECORDER_DEPTH = 4
             then copy_rec idx 1 2 v1 \<bind> copy_rec idx 2 3 else Some v1) = Some v2
      \<and> alg_conf v2 = alg_conf w"
  proof -
    obtain u where "copy_rec idx 1 2 v1 = Some u" "alg_conf u = alg_conf w"
      using copy[OF v1(2), of 1 2] by auto
    then show ?thesis using copy[of u 2 3] v1(2) by auto
  qed
  then obtain v2 where v2: "(if fi_vsyncs (fs_inst v1 idx) = 0 \<and> RECORDER_DEPTH = 4
             then copy_rec idx 1 2 v1 \<bind> copy_rec idx 2 3 else Some v1) = Some v2"
    "alg_conf v2 = alg_conf w" by blast
  obtain v3 where "calc_predicted_frame_length idx v2 = Some v3"
    using calc_predicted_total alg_conf_recs_ready[OF v2(2)] assms by blast
  with v1(1) v2(1) show ?thesis
    by (simp add: calibrate_recs_data_by_vsyncs_def)
qed

lemma calc_vts_sync_bias_total:
  assumes "fi_lineTimeInNs (fs_inst w idx) \<noteq> 0"
  shows "\<exists>b. calc_vts_sync_bias idx w = Some b"
proof -
  have "\<exists>lc. convert2LineCount (fi_lineTimeInNs (fs_inst w idx)) us = Some lc" for us
    using assms by (simp add: convert2LineCount_def Let_def)
  then obtain lc where
    "convert2LineCount (fi_lineTimeInNs (fs_inst w idx)) (fi_custom_bias_us (fs_inst w idx)) = Some lc"
    by blast
  then show ?thesis by (simp add: calc_vts_sync_bias_def Let_def)
qed

lemma predict_vts_total:
  assumes "inst_ready (fs_inst w idx)"
  shows "\<exists>w'. predict_vts idx w = Some w'"
proof -
  obtain v where v: "calc_predicted_frame_length idx w = Some v"
    using calc_predicted_total[OF inst_readyD(1)[OF assms]] by auto
  then have "inst_ready (fs_inst v idx)"
    using alg_conf_ready[OF alg_conf_calc_predicted[OF v]] assms by simp
  then have "fi_lineTimeInNs (fs_inst v idx) \<noteq> 0" by (rule inst_readyD)
  then have "\<exists>b. calc_vts_sync_bias idx (upd_inst idx (\<lambda>s. s\<lparr>fi_vdiff := fi_vdiff s
       + (fi_predicted_fl_us s 0 + fi_predicted_fl_us s 1)\<rparr>) v) = Some b"
    by (intro calc_vts_sync_bias_total) simp
  then show ?thesis using v by (auto simp: predict_vts_def Let_def)
qed

subsection \<open>Loops over distinct sensors\<close>

lemma upd_inst_twice: "upd_inst idx f (upd_inst idx g w) = upd_inst idx (\<lambda>s. f (g s)) w"
  by (simp add: upd_inst_def)

lemma upd_inst_cong: "f (fs_inst w idx) = g (fs_inst w idx) \<Longrightarrow> upd_inst idx f w = upd_inst idx g w"
  by (simp add: upd_inst_def)

text \<open>
  A loop whose step rewrites the instance of its own sensor, reading nothing of the others,
  rewrites each instance once.
\<close>

lemma ofold_upd_inst:
  assumes "ofold f idxs w = Some w'" and "distinct idxs" and "P w"
    and "\<And>i v v'. P v \<Longrightarrow> f i v = Some v' \<Longrightarrow> v' = upd_inst i (g i) v"
    and "\<And>i h v. P v \<Longrightarrow> P (upd_inst i h v)"
  shows "fs_inst w' j = (if j \<in> set idxs then g j (fs_inst w j) else fs_inst w j)"
    and "al_target_min_fl_us (w_alg w') = al_target_min_fl_us (w_alg w)"
  using assms(1-3)
proof (induction idxs arbitrary: w)
  case Nil
  { case 1 then show ?case by simp }
  { case 2 then show ?case by simp }
next
  case (Cons i idxs)
  { case 1
    then obtain v where v: "f i w = Some v" "ofold f idxs v = Some w'" by (auto simp: run_bind)
    then have eq: "v = upd_inst i (g i) w" using assms(4) 1 by blast
    have "fs_inst w' j = (if j \<in> set idxs then g j (fs_inst v j) else fs_inst v j)"
      using Cons.IH(1)[OF v(2)] 1 eq assms(5) by simp
    then show ?case using 1 eq by auto }
  { case 2
    then obtain v where v: "f i w = Some v" "ofold f idxs v = Some w'" by (auto simp: run_bind)
    then have eq: "v = upd_inst i (g i) w" using assms(4) 2 by blast
    show ?case using Cons.IH(2)[OF v(2)] 2 eq assms(5) by simp }
qed

subsection \<open>Anti-flicker frame lengths\<close>

definition in_flicker_band :: "u32 \<Rightarrow> bool" where
  "in_flicker_band fl \<longleftrightarrow> (\<exists>(hi, lo) \<in> set fs_flicker_table. lo \<le> fl \<and> fl < hi)"

lemma in_flicker_band_iff:
  "in_flicker_band fl \<longleftrightarrow> 65359 \<le> fl \<and> fl < 68493 \<or> 39525 \<le> fl \<and> fl < 40650
     \<or> 32786 \<le> fl \<and> fl < 33783 \<or> 16474 \<le> fl \<and> fl < 16891"
  by (auto simp: in_flicker_band_def fs_flicker_table_def)

lemma get_anti_flicker_fl_eq:
  "get_anti_flicker_fl fl =
     (if fl < 68493 \<and> 65359 \<le> fl then 68493 else if fl < 40650 \<and> 39525 \<le> fl then 40650
      else if fl < 33783 \<and> 32786 \<le> fl then 33783
      else if fl < 16891 \<and> 16474 \<le> fl then 16891 else fl)"
  by (simp add: get_anti_flicker_fl_def fs_flicker_table_def)

text \<open>
  The anti-flicker frame length is the least frame length not below the wanted one that
  lies outside every flicker band of the table.\<close>

theorem anti_flicker_least:
  "fl \<le> get_anti_flicker_fl fl \<and> \<not> in_flicker_band (get_anti_flicker_fl fl)
     \<and> (\<forall>g. fl \<le> g \<and> \<not> in_flicker_band g \<longrightarrow> get_anti_flicker_fl fl \<le> g)"
  by (auto simp: get_anti_flicker_fl_eq in_flicker_band_iff word_le_nat_alt word_less_nat_alt)

theorem anti_flicker_least_witness:
  "(33000 :: u32) \<le> 33783 \<and> get_anti_flicker_fl 33000 \<le> 33783"
proof -
  have "\<not> in_flicker_band 33783" by (simp add: in_flicker_band_iff)
  then show ?thesis using anti_flicker_least[of 33000] by simp
qed

subsection \<open>Setting a frame length\<close>

text \<open>The value the output frame length takes when \<open>us\<close> is requested, for the instance \<open>s\<close>.\<close>

definition lines_of :: "FrameSyncInst \<Rightarrow> u32 \<Rightarrow> u32" where
  "lines_of s us = the (convert2LineCount (fi_lineTimeInNs s) us)"

definition capped :: "FrameSyncInst \<Rightarrow> u32 \<Rightarrow> bool" where
  "capped s us \<longleftrightarrow> fi_max_fl_lc s < lines_of s us"

definition with_fl :: "u32 \<Rightarrow> FrameSyncInst \<Rightarrow> FrameSyncInst" where
  "with_fl us s = s\<lparr>
     fi_output_fl_us := (if capped s us then convert2TotalTime (fi_lineTimeInNs s) (fi_max_fl_lc s) else us),
     fi_output_fl_lc := (if capped s us then fi_max_fl_lc s else lines_of s us)\<rparr>"

lemma with_fl_sel [simp]:
  "fi_output_fl_us (with_fl us s) =
     (if capped s us then convert2TotalTime (fi_lineTimeInNs s) (fi_max_fl_lc s) else us)"
  "fi_output_fl_lc (with_fl us s) = (if capped s us then fi_max_fl_lc s else lines_of s us)"
  "fi_vdiff (with_fl us s) = fi_vdiff s" "fi_max_fl_lc (with_fl us s) = fi_max_fl_lc s"
  "fi_lineTimeInNs (with_fl us s) = fi_lineTimeInNs s"
  "inst_conf (with_fl us s) = inst_conf s"
  by (simp_all add: with_fl_def)

lemma with_fl_capped [simp]: "capped (with_fl us s) = capped s"
  by (rule ext) (simp add: capped_def lines_of_def)

lemma set_fl_us_eq:
  "set_fl_us idx us w =
     (if fi_lineTimeInNs (fs_inst w idx) = 0 then None else Some (upd_inst idx (with_fl us) w))"
proof (cases "convert2LineCount (fi_lineTimeInNs (fs_inst w idx)) us")
  case None
  then show ?thesis
    using convert2LineCount_eq_None_iff[of "fi_lineTimeInNs (fs_inst w idx)" us]
    by (simp add: set_fl_us_def)
next
  case (Some lc)
  then have "fi_lineTimeInNs (fs_inst w idx) \<noteq> 0"
    using convert2LineCount_eq_None_iff[of "fi_lineTimeInNs (fs_inst w idx)" us] by auto
  moreover have "lines_of (fs_inst w idx) us = lc" using Some by (simp add: lines_of_def)
  ultimately show ?thesis using Some
    by (auto simp: set_fl_us_def check_fl_boundary_def upd_inst_twice with_fl_def capped_def
        intro!: upd_inst_cong)
qed

text \<open>
  Setting a frame length stores the least number of lines whose exposure time covers
  the requested time, unless that exceeds the sensor's maximum: then the maximum and its time
  are stored. No other sensor changes.\<close>

theorem set_fl_us_correct:
  assumes "set_fl_us idx us w = Some w'"
    and "line_time_ok_us (fi_lineTimeInNs (fs_inst w idx)) us"
  shows "let s = fs_inst w idx; s' = fs_inst w' idx; lt = fi_lineTimeInNs s in
    fi_output_fl_lc s' \<le> fi_max_fl_lc s
    \<and> (fi_output_fl_us s' = us
       \<or> fi_output_fl_lc s' = fi_max_fl_lc s
         \<and> fi_output_fl_us s' = convert2TotalTime lt (fi_max_fl_lc s))
    \<and> (fi_output_fl_lc s' < fi_max_fl_lc s \<longrightarrow> us \<le> convert2TotalTime lt (fi_output_fl_lc s'))
    \<and> (\<forall>lc. line_time_ok_lc lt lc \<and> us \<le> convert2TotalTime lt lc \<longrightarrow> fi_output_fl_lc s' \<le> lc)
    \<and> (\<forall>j. j \<noteq> idx \<longrightarrow> fs_inst w' j = fs_inst w j)"
proof -
  let ?s = "fs_inst w idx" let ?lt = "fi_lineTimeInNs ?s"
  have w': "w' = upd_inst idx (with_fl us) w"
    using assms(1) by (simp add: set_fl_us_eq split: if_splits)
  have cov: "us \<le> convert2TotalTime ?lt (lines_of ?s us)"
    using lt.covers[OF assms(2)] by (simp add: lines_of_def)
  have least: "lines_of ?s us \<le> lc" if "line_time_ok_lc ?lt lc" "us \<le> convert2TotalTime ?lt lc" for lc
    using lt.least[OF assms(2) that] by (simp add: lines_of_def)
  show ?thesis
    using cov least unfolding Let_def w'
    by (auto simp: capped_def not_less intro: less_imp_le order_trans)
qed

definition demo_sensor :: "u32 \<Rightarrow> FrameSyncInst" where
  "demo_sensor shutter = zero_fs_inst\<lparr>fi_lineTimeInNs := 10000, fi_max_fl_lc := 60000,
     fi_min_fl_lc := 3000, fi_shutter_lc := shutter, fi_margin_lc := 10,
     fi_recs := (\<lambda>_. \<lparr>rs_framelength_lc = Some (0, 0), rs_shutter_lc = Some (0, 0)\<rparr>)\<rparr>"

text \<open>A state with two sensors of different shutter, used to exhibit the properties.\<close>

definition demo_world :: fs_world where
  "demo_world = upd_inst 1 (\<lambda>_. demo_sensor 4000) (upd_inst 0 (\<lambda>_. demo_sensor 2000) zero_world)"

lemma demo_world_sel [simp]:
  "fi_lineTimeInNs (demo_sensor sh) = 10000" "fi_max_fl_lc (demo_sensor sh) = 60000"
  "fi_min_fl_lc (demo_sensor sh) = 3000" "fi_shutter_lc (demo_sensor sh) = sh"
  "fi_margin_lc (demo_sensor sh) = 10" "fi_readout_min_fl_lc (demo_sensor sh) = 0"
  "fi_extend_fl_lc (demo_sensor sh) = 0" "he_mode_exp_cnt (fi_hdr_exp (demo_sensor sh)) = 0"
  "fi_recs (demo_sensor sh) i = \<lparr>rs_framelength_lc = Some (0, 0), rs_shutter_lc = Some (0, 0)\<rparr>"
  "fs_inst demo_world 0 = demo_sensor 2000" "fs_inst demo_world 1 = demo_sensor 4000"
  by (simp_all add: demo_sensor_def demo_world_def zero_fs_inst_def zero_hdr_exp_def)

theorem set_fl_us_correct_witness:
  "\<exists>w'. set_fl_us 0 30000 demo_world = Some w' \<and> fi_output_fl_lc (fs_inst w' 0) \<le> 60000"
proof -
  obtain w' where w': "set_fl_us 0 30000 demo_world = Some w'" by (simp add: set_fl_us_eq)
  have "line_time_ok_us (fi_lineTimeInNs (fs_inst demo_world 0)) 30000"
    by (simp add: line_time_ok_us_def)
  from set_fl_us_correct[OF w' this] w' show ?thesis by (simp add: Let_def)
qed

subsection \<open>Minimum frame length\<close>

text \<open>
  Without 32-bit overflow, the minimum frame length of a sensor is the largest of the
  requested minimum, shutter plus margin and (multi-exposure) the readout length, plus the
  extension, limited by the sensor's maximum.\<close>

theorem calc_min_fl_lc_correct:
  assumes "unat (fi_shutter_lc (fs_inst w idx)) + unat (fi_margin_lc (fs_inst w idx)) < 2 ^ 32"
    and "max (unat m) (max (unat (fi_shutter_lc (fs_inst w idx)) + unat (fi_margin_lc (fs_inst w idx)))
           (unat (fi_readout_min_fl_lc (fs_inst w idx)))) + unat (fi_extend_fl_lc (fs_inst w idx)) < 2 ^ 32"
  shows "unat (calc_min_fl_lc idx m w) =
    (let s = fs_inst w idx;
         base = max (unat m) (unat (fi_shutter_lc s) + unat (fi_margin_lc s));
         hdr = (if 1 < he_mode_exp_cnt (fi_hdr_exp s) then max base (unat (fi_readout_min_fl_lc s))
                else base)
     in min (unat (fi_max_fl_lc s)) (hdr + unat (fi_extend_fl_lc s)))"
proof -
  define s where "s = fs_inst w idx"
  define sm where "sm = fi_shutter_lc s + fi_margin_lc s"
  define f1 where "f1 = (if m < sm then sm else m)"
  define f2 where "f2 = (if 1 < he_mode_exp_cnt (fi_hdr_exp s)
    then (if fi_readout_min_fl_lc s < f1 then f1 else fi_readout_min_fl_lc s) else f1)"
  have sm: "unat sm = unat (fi_shutter_lc s) + unat (fi_margin_lc s)"
    using assms(1) by (simp add: sm_def s_def unat_word_ariths)
  have f1: "unat f1 = max (unat m) (unat sm)"
    by (simp add: f1_def word_less_nat_alt)
  have f2: "unat f2 = (if 1 < he_mode_exp_cnt (fi_hdr_exp s)
      then max (unat f1) (unat (fi_readout_min_fl_lc s)) else unat f1)"
    by (simp add: f2_def word_less_nat_alt)
  have "unat f2 + unat (fi_extend_fl_lc s) < 2 ^ 32"
    using assms(2) unfolding f2 f1 sm s_def[symmetric] by auto
  then have f3: "unat (f2 + fi_extend_fl_lc s) = unat f2 + unat (fi_extend_fl_lc s)"
    by (simp add: unat_word_ariths)
  have "calc_min_fl_lc idx m w =
      (let f3 = f2 + fi_extend_fl_lc s in if fi_max_fl_lc s < f3 then fi_max_fl_lc s else f3)"
    unfolding calc_min_fl_lc_def Let_def s_def[symmetric] sm_def[symmetric] f1_def[symmetric]
      f2_def[symmetric] by (cases "fi_extend_fl_lc s = 0") simp_all
  then have "unat (calc_min_fl_lc idx m w) = min (unat (fi_max_fl_lc s)) (unat (f2 + fi_extend_fl_lc s))"
    by (simp add: Let_def word_less_nat_alt)
  then show ?thesis
    unfolding f3 f2 f1 sm Let_def s_def[symmetric] by simp
qed

theorem calc_min_fl_lc_correct_witness:
  "unat (calc_min_fl_lc 1 3000 demo_world) = 4010"
  using calc_min_fl_lc_correct[of demo_world 1 3000] by (simp add: Let_def)

end
