(* ===== verification/FsRecorder.thy ===== *)
theory FsRecorder
  imports FsAlgo
begin

text \<open>
  The frame recorder of \<open>frame_sync.c\<close> (functions \<open>frec_*\<close>): a ring of the last four pairs of
  shutter and frame length per sensor, whose elements the algorithm reaches through the pointers
  handed over by \<open>frec_notify_setting_frame_record_st_data\<close>. The abstract contract is a bounded
  history, newest first (locale \<open>bounded_history\<close>).
\<close>

subsection \<open>Definitions\<close>

definition frec_reset_recorder :: "u32 \<Rightarrow> fs_world \<Rightarrow> fs_world" where
  "frec_reset_recorder idx w = upd_recorder idx (\<lambda>r. r\<lparr>rc_init := 0, rc_depthIdx := 0,
     rc_frame_recs := (\<lambda>i. if i < RECORDER_DEPTH then zero_frame_record else rc_frame_recs r i)\<rparr>) w"

definition frec_back :: "u32 \<Rightarrow> u32" where
  "frec_back depthIdx = (depthIdx + (RECORDER_DEPTH - 1)) mod RECORDER_DEPTH"

text \<open>The loop that fills the pointer array, newest record first.\<close>

fun frec_fill :: "u32 \<Rightarrow> u32 \<Rightarrow> u32 list \<Rightarrow> frame_record_st carray \<Rightarrow> frame_record_st carray" where
  "frec_fill idx depthIdx [] recs = recs"
| "frec_fill idx depthIdx (i # is) recs =
     frec_fill idx (frec_back depthIdx) is
       (recs(i := \<lparr>rs_framelength_lc = Some (idx, frec_back depthIdx),
                   rs_shutter_lc = Some (idx, frec_back depthIdx)\<rparr>))"

definition frec_notify_setting_frame_record_st_data :: "u32 \<Rightarrow> fs_world \<Rightarrow> fs_world option" where
  "frec_notify_setting_frame_record_st_data idx w =
     fs_alg_set_frame_record_st_data idx
       (frec_fill idx (rc_depthIdx (w_recorder w idx)) (loop_idx RECORDER_DEPTH) (\<lambda>_. null_frame_record_st)) w"

definition rec_update :: "u32 \<Rightarrow> u32 \<Rightarrow> FrameRecorder \<Rightarrow> FrameRecorder" where
  "rec_update shutter_lc fl_lc r =
     (let d = frec_back (rc_depthIdx r); x = rc_frame_recs r d;
          x = (if 0 < shutter_lc then x\<lparr>fr_shutter_lc := shutter_lc\<rparr> else x);
          x = (if 0 < fl_lc then x\<lparr>fr_framelength_lc := fl_lc\<rparr> else x)
      in r\<lparr>rc_frame_recs := (rc_frame_recs r)(d := x)\<rparr>)"

definition frec_update_shutter_fl_lc :: "u32 \<Rightarrow> u32 \<Rightarrow> u32 \<Rightarrow> fs_world \<Rightarrow> fs_world option" where
  "frec_update_shutter_fl_lc idx shutter_lc fl_lc w =
     frec_notify_setting_frame_record_st_data idx (upd_recorder idx (rec_update shutter_lc fl_lc) w)"

definition rec_set_all :: "u32 \<Rightarrow> u32 \<Rightarrow> FrameRecorder \<Rightarrow> FrameRecorder" where
  "rec_set_all shutter_lc fl_lc r = r\<lparr>rc_frame_recs := (\<lambda>i. if i < RECORDER_DEPTH
       then \<lparr>fr_shutter_lc = shutter_lc, fr_framelength_lc = fl_lc\<rparr> else rc_frame_recs r i),
     rc_init := 1\<rparr>"

definition frec_push_def_shutter_fl_lc :: "u32 \<Rightarrow> u32 \<Rightarrow> u32 \<Rightarrow> fs_world \<Rightarrow> fs_world option" where
  "frec_push_def_shutter_fl_lc idx shutter_lc fl_lc w =
     frec_notify_setting_frame_record_st_data idx (upd_recorder idx (rec_set_all shutter_lc fl_lc) w)"

definition rec_push :: "u32 \<Rightarrow> u32 \<Rightarrow> FrameRecorder \<Rightarrow> FrameRecorder" where
  "rec_push shutter_lc fl_lc r = r\<lparr>rc_frame_recs := (rc_frame_recs r)(rc_depthIdx r :=
       \<lparr>fr_shutter_lc = shutter_lc, fr_framelength_lc = fl_lc\<rparr>),
     rc_depthIdx := (rc_depthIdx r + 1) mod RECORDER_DEPTH\<rparr>"

definition frec_push_shutter_fl_lc :: "u32 \<Rightarrow> u32 \<Rightarrow> u32 \<Rightarrow> fs_world \<Rightarrow> fs_world option" where
  "frec_push_shutter_fl_lc idx shutter_lc fl_lc w =
     frec_notify_setting_frame_record_st_data idx (upd_recorder idx (rec_push shutter_lc fl_lc) w)"

text \<open>The check of \<open>init\<close> only logs.\<close>

definition frec_push_record :: "u32 \<Rightarrow> u32 \<Rightarrow> u32 \<Rightarrow> fs_world \<Rightarrow> fs_world option" where
  "frec_push_record idx shutter_lc framelength_lc w = frec_push_shutter_fl_lc idx shutter_lc framelength_lc w"

definition frec_notify_vsync :: "u32 \<Rightarrow> fs_world \<Rightarrow> fs_world option" where
  "frec_notify_vsync idx w =
     frec_push_record idx (pf_shutter_lc (mg_pf_ctrl (w_mgr w) idx)) (pf_out_fl_lc (mg_pf_ctrl (w_mgr w) idx)) w"

subsection \<open>A bounded history\<close>

text \<open>
  The contract of the recorder: \<open>view\<close> lists the kept records, newest first; a push puts a
  record in front and drops the oldest; an update rewrites the newest one.
\<close>

locale bounded_history =
  fixes ok :: "'s \<Rightarrow> bool" and view :: "'s \<Rightarrow> 'r list" and push :: "'r \<Rightarrow> 's \<Rightarrow> 's"
    and update :: "('r \<Rightarrow> 'r) \<Rightarrow> 's \<Rightarrow> 's" and depth :: nat
  assumes depth_pos: "0 < depth"
    and view_length: "ok s \<Longrightarrow> length (view s) = depth"
    and push_ok: "ok s \<Longrightarrow> ok (push r s)"
    and push_view: "ok s \<Longrightarrow> view (push r s) = r # butlast (view s)"
    and update_ok: "ok s \<Longrightarrow> ok (update f s)"
    and update_view: "ok s \<Longrightarrow> view (update f s) = f (hd (view s)) # tl (view s)"
begin

lemma newest: "ok s \<Longrightarrow> hd (view (push r s)) = r"
  by (simp add: push_view)

lemma update_push: "ok s \<Longrightarrow> view (update f (push r s)) = view (push (f r) s)"
  by (simp add: push_ok push_view update_view)

lemma pushes_ok: "ok s \<Longrightarrow> ok (fold push rs s)"
  by (induction rs arbitrary: s) (auto simp: push_ok)

lemma pushes_view: "ok s \<Longrightarrow> view (fold push rs s) = take depth (rev rs @ view s)"
proof (induction rs arbitrary: s)
  case Nil
  then show ?case by (simp add: view_length)
next
  case (Cons r rs)
  have "view (fold push (r # rs) s) = take depth (rev rs @ view (push r s))"
    using Cons.IH[OF push_ok[OF Cons.prems]] by simp
  also have "\<dots> = take depth (rev rs @ r # butlast (view s))"
    by (simp add: push_view Cons.prems)
  also have "\<dots> = take depth ((rev rs @ r # butlast (view s)) @ [last (view s)])"
  proof -
    have "depth - length (rev rs @ r # butlast (view s)) = 0"
      using view_length[OF Cons.prems] depth_pos by simp
    then show ?thesis by (simp only: take_append[of depth "rev rs @ r # butlast (view s)"] take_0 append_Nil2)
  qed
  also have "\<dots> = take depth (rev (r # rs) @ view s)"
    using view_length[OF Cons.prems] depth_pos by (cases "view s = []") simp_all
  finally show ?case .
qed

text \<open>After as many pushes as the depth nothing of the old history is left.\<close>

lemma full_turn: "ok s \<Longrightarrow> depth \<le> length rs \<Longrightarrow> view (fold push rs s) = take depth (rev rs)"
  by (simp add: pushes_view)

end

subsection \<open>The recorder is a bounded history\<close>

definition rec_ok :: "FrameRecorder \<Rightarrow> bool" where
  "rec_ok r \<longleftrightarrow> rc_depthIdx r < RECORDER_DEPTH"

definition rec_view :: "FrameRecorder \<Rightarrow> FrameRecord list" where
  "rec_view r = (let d = rc_depthIdx r; b = frec_back in
     [rc_frame_recs r (b d), rc_frame_recs r (b (b d)), rc_frame_recs r (b (b (b d))),
      rc_frame_recs r (b (b (b (b d))))])"

lemma depth_cases:
  assumes "d < RECORDER_DEPTH" shows "d = 0 \<or> d = 1 \<or> d = 2 \<or> d = (3 :: u32)"
proof -
  have "unat d < 4" using assms by (simp add: RECORDER_DEPTH_def word_less_nat_alt)
  then have "unat d = 0 \<or> unat d = 1 \<or> unat d = 2 \<or> unat d = 3" by linarith
  moreover have "unat d = unat k \<Longrightarrow> d = k" for k :: u32 by (rule unsigned_word_eqI)
  from this[of 0] this[of 1] this[of 2] this[of 3]
  have "unat d = 0 \<Longrightarrow> d = 0" "unat d = 1 \<Longrightarrow> d = 1" "unat d = 2 \<Longrightarrow> d = 2" "unat d = 3 \<Longrightarrow> d = 3"
    by simp_all
  ultimately show ?thesis by blast
qed

lemma frec_back_simps [simp]:
  "frec_back 0 = 3" "frec_back 1 = 0" "frec_back 2 = 1" "frec_back 3 = 2"
  by (simp_all add: frec_back_def RECORDER_DEPTH_def)

lemma frec_next_simps [simp]:
  "(0 + 1) mod RECORDER_DEPTH = 1" "(1 + 1) mod RECORDER_DEPTH = 2" "(2 :: u32) mod RECORDER_DEPTH = 2"
  "(2 + 1) mod RECORDER_DEPTH = 3" "(3 :: u32) mod RECORDER_DEPTH = 3" "(3 + 1) mod RECORDER_DEPTH = 0"
  "(4 :: u32) mod RECORDER_DEPTH = 0" "(1 :: u32) mod RECORDER_DEPTH = 1"
  by (simp_all add: RECORDER_DEPTH_def)

interpretation frec: bounded_history rec_ok rec_view
    "\<lambda>x. rec_push (fr_shutter_lc x) (fr_framelength_lc x)"
    "\<lambda>f r. r\<lparr>rc_frame_recs := (rc_frame_recs r)(frec_back (rc_depthIdx r) :=
        f (rc_frame_recs r (frec_back (rc_depthIdx r))))\<rparr>" 4
proof
  fix s :: FrameRecorder and r :: FrameRecord and f
  show "(0 :: nat) < 4" by simp
  assume s: "rec_ok s"
  show "length (rec_view s) = 4" by (simp add: rec_view_def Let_def)
  consider "rc_depthIdx s = 0" | "rc_depthIdx s = 1" | "rc_depthIdx s = 2" | "rc_depthIdx s = 3"
    using depth_cases s unfolding rec_ok_def by blast
  note cases = this
  show "rec_ok (rec_push (fr_shutter_lc r) (fr_framelength_lc r) s)"
    using cases by cases (simp_all add: rec_ok_def rec_push_def, simp_all add: RECORDER_DEPTH_def)
  show "rec_view (rec_push (fr_shutter_lc r) (fr_framelength_lc r) s) = r # butlast (rec_view s)"
    using cases by cases (simp_all add: rec_view_def rec_push_def RECORDER_DEPTH_def)
  show "rec_ok (s\<lparr>rc_frame_recs := (rc_frame_recs s)(frec_back (rc_depthIdx s) :=
        f (rc_frame_recs s (frec_back (rc_depthIdx s))))\<rparr>)"
    using s by (simp add: rec_ok_def)
  show "rec_view (s\<lparr>rc_frame_recs := (rc_frame_recs s)(frec_back (rc_depthIdx s) :=
        f (rc_frame_recs s (frec_back (rc_depthIdx s))))\<rparr>) = f (hd (rec_view s)) # tl (rec_view s)"
    using cases by cases (simp_all add: rec_view_def)
qed

text \<open>C33. The recorder keeps exactly the last four pairs pushed, newest first, whatever it held
  before and wherever its write index stood. An update changes only the newest pair: its shutter
  unless the new shutter is zero, its frame length unless the new frame length is zero.\<close>

theorem recorder_keeps_last_four:
  assumes "rec_ok r" and "4 \<le> length xs"
  shows "rec_view (fold (\<lambda>x. rec_push (fr_shutter_lc x) (fr_framelength_lc x)) xs r) = take 4 (rev xs)
    \<and> rec_ok (fold (\<lambda>x. rec_push (fr_shutter_lc x) (fr_framelength_lc x)) xs r)
    \<and> rec_view (rec_update sh fl r) =
        \<lparr>fr_shutter_lc = (if sh = 0 then fr_shutter_lc (hd (rec_view r)) else sh),
         fr_framelength_lc = (if fl = 0 then fr_framelength_lc (hd (rec_view r)) else fl)\<rparr> # tl (rec_view r)
    \<and> rec_ok (rec_update sh fl r)"
proof -
  define f where "f = (\<lambda>x :: FrameRecord. \<lparr>fr_shutter_lc = (if sh = 0 then fr_shutter_lc x else sh),
         fr_framelength_lc = (if fl = 0 then fr_framelength_lc x else fl)\<rparr>)"
  have "rec_update sh fl r = r\<lparr>rc_frame_recs := (rc_frame_recs r)(frec_back (rc_depthIdx r) :=
      f (rc_frame_recs r (frec_back (rc_depthIdx r))))\<rparr>"
    by (cases "rc_frame_recs r (frec_back (rc_depthIdx r))") (simp add: rec_update_def f_def Let_def word_gt_0)
  then have "rec_view (rec_update sh fl r) = f (hd (rec_view r)) # tl (rec_view r)" "rec_ok (rec_update sh fl r)"
    using frec.update_view[OF assms(1)] frec.update_ok[OF assms(1)] by simp_all
  then show ?thesis using frec.full_turn[OF assms] frec.pushes_ok[OF assms(1)] by (simp add: f_def)
qed

theorem recorder_keeps_last_four_witness:
  "rec_view (fold (\<lambda>x. rec_push (fr_shutter_lc x) (fr_framelength_lc x))
     (map (\<lambda>n. \<lparr>fr_shutter_lc = n, fr_framelength_lc = n + 1\<rparr>) [1, 2, 3, 4, 5]) (w_recorder zero_world 0))
   = map (\<lambda>n. \<lparr>fr_shutter_lc = n, fr_framelength_lc = n + 1\<rparr>) [5, 4, 3, 2]"
proof -
  have "rec_ok (w_recorder zero_world 0)" by (simp add: rec_ok_def zero_world_def RECORDER_DEPTH_def)
  from recorder_keeps_last_four[OF this, of "map (\<lambda>n. \<lparr>fr_shutter_lc = n, fr_framelength_lc = n + 1\<rparr>) [1, 2, 3, 4, 5]"]
  show ?thesis by (simp add: eval_nat_numeral)
qed

subsection \<open>The pointers handed to the algorithm\<close>

lemma loop_idx_depth: "loop_idx RECORDER_DEPTH = [0, 1, 2, 3]"
  by (simp add: loop_idx_def RECORDER_DEPTH_def upt_rec)

lemma frec_fill_ptrs:
  "frec_fill idx d (loop_idx RECORDER_DEPTH) recs =
     (let b = frec_back; p = (\<lambda>d. \<lparr>rs_framelength_lc = Some (idx, d), rs_shutter_lc = Some (idx, d)\<rparr>)
      in recs(0 := p (b d), 1 := p (b (b d)), 2 := p (b (b (b d))), 3 := p (b (b (b (b d))))))"
  by (simp add: loop_idx_depth Let_def)

end
