(* ===== verification/FsConsole.thy ===== *)
theory FsConsole
  imports FsTypes
begin

text \<open>
  \<open>frame_sync_console.c\<close>: the control variables of the driver and the sysfs command that sets
  them. A command is one unsigned number, command id times \<open>FS_CON_CMD_SHIFT\<close> plus value. The
  kernel's \<open>kstrtouint\<close> is a parameter: the number it parses, or \<open>None\<close> when it fails, in
  which case the local \<open>cmd\<close> keeps its initial 0.
\<close>

definition FS_CON_CMD_SHIFT :: u32 where "FS_CON_CMD_SHIFT = 100000000"
definition TWO_STAGE_FS :: u32 where "TWO_STAGE_FS = 1"
definition ALGO_AUTO_LISTEN_VSYNC :: u32 where "ALGO_AUTO_LISTEN_VSYNC = 0"
definition LOG_TRACER_DEF :: u32 where "LOG_TRACER_DEF = 0"

definition FS_CON_FORCE_TO_IGNORE_SET_SYNC :: u32 where "FS_CON_FORCE_TO_IGNORE_SET_SYNC = 1"
definition FS_CON_DEFAULT_EN_SET_SYNC :: u32 where "FS_CON_DEFAULT_EN_SET_SYNC = 2"
definition FS_CON_AUTO_LISTEN_EXT_VSYNC :: u32 where "FS_CON_AUTO_LISTEN_EXT_VSYNC = 40"
definition FS_CON_FORCE_LISTEN_EXT_VSYNC :: u32 where "FS_CON_FORCE_LISTEN_EXT_VSYNC = 41"
definition FS_CON_LOG_TRACER :: u32 where "FS_CON_LOG_TRACER = 42"

lemmas fs_con_cmd_defs =
  FS_CON_FORCE_TO_IGNORE_SET_SYNC_def FS_CON_DEFAULT_EN_SET_SYNC_def
  FS_CON_AUTO_LISTEN_EXT_VSYNC_def FS_CON_FORCE_LISTEN_EXT_VSYNC_def FS_CON_LOG_TRACER_def

subsection \<open>Control variables\<close>

definition fs_console_init_def_value :: "fs_console \<Rightarrow> fs_console" where
  "fs_console_init_def_value c = c\<lparr>co_log_tracer := LOG_TRACER_DEF,
     co_force_to_ignore_set_sync := 0, co_default_en_set_sync := 0,
     co_auto_listen_ext_vsync := ALGO_AUTO_LISTEN_VSYNC,
     co_listen_ext_vsync := TWO_STAGE_FS, co_listen_vsync_alg := 0\<rparr>"

definition fs_console_get_cmd_id :: "u32 \<Rightarrow> u32" where
  "fs_console_get_cmd_id cmd = cmd div FS_CON_CMD_SHIFT"

definition fs_console_get_cmd_value :: "u32 \<Rightarrow> u32" where
  "fs_console_get_cmd_value cmd = cmd mod FS_CON_CMD_SHIFT"

definition fs_con_chk_force_to_ignore_set_sync :: "fs_console \<Rightarrow> u32" where
  "fs_con_chk_force_to_ignore_set_sync c = co_force_to_ignore_set_sync c"

definition fs_con_chk_default_en_set_sync :: "fs_console \<Rightarrow> u32" where
  "fs_con_chk_default_en_set_sync c = co_default_en_set_sync c"

definition fs_con_get_usr_listen_ext_vsync :: "fs_console \<Rightarrow> u32" where
  "fs_con_get_usr_listen_ext_vsync c = co_listen_ext_vsync c"

definition fs_con_get_usr_auto_listen_ext_vsync :: "fs_console \<Rightarrow> u32" where
  "fs_con_get_usr_auto_listen_ext_vsync c = co_auto_listen_ext_vsync c"

definition fs_con_get_listen_vsync_alg_cfg :: "fs_console \<Rightarrow> u32" where
  "fs_con_get_listen_vsync_alg_cfg c =
     (if co_auto_listen_ext_vsync c \<noteq> 0 then co_listen_vsync_alg c else 0)"

definition fs_con_set_listen_vsync_alg_cfg :: "u32 \<Rightarrow> fs_console \<Rightarrow> fs_console" where
  "fs_con_set_listen_vsync_alg_cfg flag c = c\<lparr>co_listen_vsync_alg := flag\<rparr>"

subsection \<open>The sysfs command\<close>

definition fsync_console_store ::
    "(string \<Rightarrow> u32 option) \<Rightarrow> string \<Rightarrow> nat \<Rightarrow> fs_console \<Rightarrow> nat \<times> fs_console" where
  "fsync_console_store kstrtouint buf count c =
     (let cmd = (case kstrtouint buf of Some v \<Rightarrow> v | None \<Rightarrow> 0);
          cmd_id = fs_console_get_cmd_id cmd; v = fs_console_get_cmd_value cmd
      in (count,
          if cmd_id = FS_CON_FORCE_TO_IGNORE_SET_SYNC then c\<lparr>co_force_to_ignore_set_sync := v\<rparr>
          else if cmd_id = FS_CON_DEFAULT_EN_SET_SYNC then c\<lparr>co_default_en_set_sync := v\<rparr>
          else if cmd_id = FS_CON_LOG_TRACER then c\<lparr>co_log_tracer := v\<rparr>
          else if cmd_id = FS_CON_AUTO_LISTEN_EXT_VSYNC then c\<lparr>co_auto_listen_ext_vsync := v\<rparr>
          else if cmd_id = FS_CON_FORCE_LISTEN_EXT_VSYNC then c\<lparr>co_listen_ext_vsync := v\<rparr>
          else c))"

text \<open>\<open>dev_ok\<close>: the device pointer is not null; \<open>ret\<close>: the result of \<open>device_create_file\<close>.\<close>

definition fs_con_create_sysfs_file :: "bool \<Rightarrow> u32 \<Rightarrow> fs_console \<Rightarrow> u32 \<times> fs_console" where
  "fs_con_create_sysfs_file dev_ok ret c =
     (let c = fs_console_init_def_value c in if \<not> dev_ok then (1, c) else (ret, c))"

subsection \<open>Commands and their values\<close>

lemma cmd_split:
  assumes "unat cid \<le> 41" and "unat v < 100000000"
  shows "fs_console_get_cmd_id (cid * FS_CON_CMD_SHIFT + v) = cid"
    and "fs_console_get_cmd_value (cid * FS_CON_CMD_SHIFT + v) = v"
proof -
  have "unat cid * 100000000 + unat v < 4294967296" using assms by simp
  then have u: "unat (cid * FS_CON_CMD_SHIFT + v) = unat cid * 100000000 + unat v"
    by (simp add: FS_CON_CMD_SHIFT_def unat_word_ariths)
  have "unat (fs_console_get_cmd_id (cid * FS_CON_CMD_SHIFT + v)) = unat cid"
    unfolding fs_console_get_cmd_id_def unat_div_distrib u using assms(2)
    by (simp add: FS_CON_CMD_SHIFT_def)
  then show "fs_console_get_cmd_id (cid * FS_CON_CMD_SHIFT + v) = cid"
    by (simp add: unsigned_word_eqI)
  have "unat (fs_console_get_cmd_value (cid * FS_CON_CMD_SHIFT + v)) = unat v"
    unfolding fs_console_get_cmd_value_def unat_mod_distrib u using assms(2)
    by (simp add: FS_CON_CMD_SHIFT_def)
  then show "fs_console_get_cmd_value (cid * FS_CON_CMD_SHIFT + v) = v"
    by (simp add: unsigned_word_eqI)
qed

text \<open>A command written as id and value reaches exactly the variable of that id with exactly
  that value, for the four ids whose values all fit; an unknown id or a text that does not parse
  changes nothing.\<close>

theorem console_store_correct:
  assumes "unat v < 100000000" and "kstrtouint buf = Some (cid * FS_CON_CMD_SHIFT + v)"
    and "unat cid \<le> 41" and "kstrtouint bad = None"
  shows "snd (fsync_console_store kstrtouint buf n c) =
      (if cid = FS_CON_FORCE_TO_IGNORE_SET_SYNC then c\<lparr>co_force_to_ignore_set_sync := v\<rparr>
       else if cid = FS_CON_DEFAULT_EN_SET_SYNC then c\<lparr>co_default_en_set_sync := v\<rparr>
       else if cid = FS_CON_AUTO_LISTEN_EXT_VSYNC then c\<lparr>co_auto_listen_ext_vsync := v\<rparr>
       else if cid = FS_CON_FORCE_LISTEN_EXT_VSYNC then c\<lparr>co_listen_ext_vsync := v\<rparr>
       else c)
    \<and> fsync_console_store kstrtouint bad n c = (n, c)"
proof -
  have "cid \<noteq> FS_CON_LOG_TRACER" using assms(3) by (auto simp: FS_CON_LOG_TRACER_def)
  then have "snd (fsync_console_store kstrtouint buf n c) =
      (if cid = FS_CON_FORCE_TO_IGNORE_SET_SYNC then c\<lparr>co_force_to_ignore_set_sync := v\<rparr>
       else if cid = FS_CON_DEFAULT_EN_SET_SYNC then c\<lparr>co_default_en_set_sync := v\<rparr>
       else if cid = FS_CON_AUTO_LISTEN_EXT_VSYNC then c\<lparr>co_auto_listen_ext_vsync := v\<rparr>
       else if cid = FS_CON_FORCE_LISTEN_EXT_VSYNC then c\<lparr>co_listen_ext_vsync := v\<rparr>
       else c)"
    by (simp add: fsync_console_store_def assms(2) cmd_split[OF assms(3,1)])
  moreover have "fsync_console_store kstrtouint bad n c = (n, c)"
    by (simp add: fsync_console_store_def assms(4) fs_console_get_cmd_id_def fs_con_cmd_defs
          FS_CON_CMD_SHIFT_def)
  ultimately show ?thesis ..
qed

theorem console_store_correct_witness:
  "co_listen_ext_vsync (snd (fsync_console_store
     (\<lambda>s. if s = ''4100000007'' then Some 4100000007 else None) ''4100000007'' 10 (w_con zero_world))) = 7"
proof -
  let ?k = "\<lambda>s. if s = ''4100000007'' then Some 4100000007 else None"
  have "snd (fsync_console_store ?k ''4100000007'' 10 (w_con zero_world)) =
      (w_con zero_world)\<lparr>co_listen_ext_vsync := 7\<rparr> \<and> fsync_console_store ?k ''x'' 10 (w_con zero_world)
        = (10, w_con zero_world)"
    using console_store_correct[of 7 ?k "''4100000007''" 41 "''x''" 10 "w_con zero_world"]
    by (simp add: fs_con_cmd_defs FS_CON_CMD_SHIFT_def)
  then show ?thesis by simp
qed

end
