(* ===== verification/FsAlgoSA.thy ===== *)
theory FsAlgoSA
  imports FsAlgo FsConsole
begin

text \<open>
  The stand-alone (SA) algorithm of \<open>frame_sync_algo.c\<close>: each sensor computes its own frame
  length against a master sensor. C \<open>long long\<close> values are integers: every operand is at most
  a sum of four 32-bit values, far inside 64 bits. Sums of \<open>unsigned int\<close> wrap before they are
  widened, as in C. The loop that lifts a negative difference is a partial function: \<open>None\<close>
  when it does not end.
\<close>

subsection \<open>Dynamic parameters\<close>

definition fs_alg_sa_init_new_ctrl ::
    "u32 \<Rightarrow> u32 \<Rightarrow> FrameSyncDynamicPara \<Rightarrow> fs_world \<Rightarrow> FrameSyncDynamicPara \<times> fs_world" where
  "fs_alg_sa_init_new_ctrl idx m_idx p w =
     (let magic = sa_magic_num (al_sa (w_alg w)) idx + 1 in
      (p\<lparr>dp_magic_num := magic, dp_master_idx := m_idx, dp_f_tag := fi_frame_tag (fs_inst w idx),
         dp_f_cell := fi_frame_cell_size (fs_inst w idx)\<rparr>,
       upd_sa (\<lambda>sa. sa\<lparr>sa_magic_num := (sa_magic_num sa)(idx := magic)\<rparr>) w))"

definition fs_alg_sa_dynamic_paras_checker :: "u32 \<Rightarrow> u32 \<Rightarrow> fs_world \<Rightarrow> u32" where
  "fs_alg_sa_dynamic_paras_checker s_idx m_idx w =
     (let fdelay_s = fi_fl_active_delay (fs_inst w s_idx);
          fdelay_m = fi_fl_active_delay (fs_inst w m_idx);
          ret = (if check_vsync_valid [s_idx, m_idx] w = 0 then 1 else 0)
      in if (fdelay_s < 2 \<or> 3 < fdelay_s) \<or> (fdelay_m < 2 \<or> 3 < fdelay_m) then 2 else ret)"

definition fs_alg_sa_get_timestamp_info ::
    "u32 \<Rightarrow> FrameSyncDynamicPara \<Rightarrow> fs_world \<Rightarrow> u32 \<times> FrameSyncDynamicPara" where
  "fs_alg_sa_get_timestamp_info idx p w =
     (let s = fs_inst w idx in
      if fi_is_nonvalid_ts s \<noteq> 0 then (1, p)
      else (0, p\<lparr>dp_last_ts := fi_last_vts s, dp_cur_tick := fi_cur_tick s, dp_vsyncs := fi_vsyncs s\<rparr>))"

definition fs_alg_sa_calc_m_s_ts_diff ::
    "FrameSyncDynamicPara \<Rightarrow> FrameSyncDynamicPara \<Rightarrow> u32 \<Rightarrow> int \<times> int" where
  "fs_alg_sa_calc_m_s_ts_diff p_m p_s tick_factor =
     (let cur_tick = (if check_tick_b_after_a (dp_cur_tick p_m) (dp_cur_tick p_s) \<noteq> 0
                      then dp_cur_tick p_s else dp_cur_tick p_m);
          m = dp_last_ts p_m * tick_factor;
          s = dp_last_ts p_s * tick_factor
      in if cur_tick - m < cur_tick - s
         then (uint (if tick_factor \<noteq> 0 then (m - s) div tick_factor else m - s), 0)
         else (0, uint (if tick_factor \<noteq> 0 then (s - m) div tick_factor else s - m)))"

definition fs_alg_sa_calc_target_pred_fl_us ::
    "u32 carray \<Rightarrow> u32 \<Rightarrow> u32 \<Rightarrow> u32 \<Rightarrow> u32 \<Rightarrow> u32" where
  "fs_alg_sa_calc_target_pred_fl_us pred_fl_us stable_fl_us fdelay target f_cell =
     (if fdelay = 2 \<and> target = 1 then 0
      else let f_cell = (if f_cell < 1 then 1 else f_cell);
               i0 = target * f_cell; cnt = target * f_cell + f_cell
           in if target = 0 \<or> target = 1
              then fold (\<lambda>k acc. acc + (if k < 2 then pred_fl_us (of_nat k) else stable_fl_us))
                     [unat i0..<unat cnt] 0
              else 0)"

text \<open>\<open>get_valid_frame_cell_size\<close> is at least 1, so the remainder is defined.\<close>

definition fs_alg_sa_calc_f_tag_diff :: "u32 \<Rightarrow> u32 \<Rightarrow> fs_world \<Rightarrow> u32" where
  "fs_alg_sa_calc_f_tag_diff idx f_tag w =
     (let f_cell = get_valid_frame_cell_size idx w;
          fdelay = fi_fl_active_delay (fs_inst w idx); fl = fi_output_fl_us (fs_inst w idx)
      in if 1 < f_cell then fl * ((f_cell - (fdelay - 1) + (f_cell - f_tag)) mod f_cell) else 0)"

text \<open>The result is the difference and the new frame length.\<close>

definition fs_alg_sa_get_flk_diff_and_fl :: "u32 \<Rightarrow> u32 \<Rightarrow> u32 \<Rightarrow> fs_world \<Rightarrow> u32 \<times> u32" where
  "fs_alg_sa_get_flk_diff_and_fl idx fl_us sync_flk_en w =
     (if fi_flicker_en (fs_inst w idx) \<noteq> 0 \<or> sync_flk_en \<noteq> 0
      then (get_anti_flicker_fl fl_us - fl_us, get_anti_flicker_fl fl_us) else (0, fl_us))"

definition fs_alg_sa_update_pred_fl_and_ts_bias ::
    "u32 \<Rightarrow> FrameSyncDynamicPara \<Rightarrow> fs_world \<Rightarrow> (FrameSyncDynamicPara \<times> fs_world) option" where
  "fs_alg_sa_update_pred_fl_and_ts_bias idx p w = do {
     w \<leftarrow> calc_predicted_frame_length idx w;
     ts_bias_lc \<leftarrow> calc_vts_sync_bias idx w;
     let s = fs_inst w idx;
     Some (p\<lparr>dp_pred_fl_us := (dp_pred_fl_us p)(0 := fi_predicted_fl_us s 0, 1 := fi_predicted_fl_us s 1),
             dp_ts_bias_us := convert2TotalTime (fi_lineTimeInNs s) ts_bias_lc,
             dp_tag_bias_us := fs_alg_sa_calc_f_tag_diff idx (fi_frame_tag s) w\<rparr>, w)
   }"

definition fs_alg_sa_prepare_dynamic_para ::
    "u32 \<Rightarrow> FrameSyncDynamicPara \<Rightarrow> fs_world \<Rightarrow> (FrameSyncDynamicPara \<times> fs_world) option" where
  "fs_alg_sa_prepare_dynamic_para idx p w = do {
     (p, w) \<leftarrow> fs_alg_sa_update_pred_fl_and_ts_bias idx p w;
     let pred = (\<lambda>i. fs_alg_sa_calc_target_pred_fl_us (dp_pred_fl_us p) (dp_stable_fl_us p)
                       (fi_fl_active_delay (fs_inst w idx)) i 1);
     Some (p\<lparr>dp_delta := dp_ts_bias_us p + dp_tag_bias_us p + pred 0 + pred 1\<rparr>, w)
   }"

definition fs_alg_sa_update_fl_us ::
    "u32 \<Rightarrow> u32 \<Rightarrow> FrameSyncDynamicPara \<Rightarrow> fs_world \<Rightarrow> (FrameSyncDynamicPara \<times> fs_world) option" where
  "fs_alg_sa_update_fl_us idx us p w = do {
     w \<leftarrow> set_fl_us idx us w;
     fs_alg_sa_prepare_dynamic_para idx (p\<lparr>dp_stable_fl_us := us\<rparr>) w
   }"

definition fs_alg_sa_get_dynamic_para :: "u32 \<Rightarrow> fs_world \<Rightarrow> FrameSyncDynamicPara" where
  "fs_alg_sa_get_dynamic_para idx w = dyn_para w idx"

definition fs_alg_sa_update_dynamic_para ::
    "u32 \<Rightarrow> FrameSyncDynamicPara \<Rightarrow> fs_world \<Rightarrow> (FrameSyncDynamicPara \<times> fs_world) option" where
  "fs_alg_sa_update_dynamic_para idx p w = do {
     (p, w) \<leftarrow> fs_alg_sa_update_pred_fl_and_ts_bias idx p w;
     Some (p, upd_sa (\<lambda>sa. sa\<lparr>sa_dynamic_paras := (sa_dynamic_paras sa)(idx := p)\<rparr>) w)
   }"

text \<open>The three buffers filled from the shared parameters.\<close>

definition fs_alg_sa_query_all_min_fl_us :: "fs_world \<Rightarrow> u32 carray \<times> u32 carray \<times> u32 carray" where
  "fs_alg_sa_query_all_min_fl_us w =
     (\<lambda>i. dp_min_fl_us (dyn_para w i), \<lambda>i. dp_target_min_fl_us (dyn_para w i),
      \<lambda>i. dp_magic_num (dyn_para w i))"

subsection \<open>Adjustment of a slave against the master\<close>

definition fs_alg_sa_calc_adjust_diff_master :: "u32 \<Rightarrow> int \<Rightarrow> FrameSyncDynamicPara \<Rightarrow> fs_world \<Rightarrow> int" where
  "fs_alg_sa_calc_adjust_diff_master m_idx adjust_diff_s p_m w =
     uint (dp_stable_fl_us p_m * get_valid_frame_cell_size m_idx w) - adjust_diff_s"

partial_function (option) adjust_loop :: "u32 \<Rightarrow> u32 \<Rightarrow> int \<Rightarrow> int option" where
  "adjust_loop stable_fl period adjust_diff_s =
     (if adjust_diff_s < 0
      then (if stable_fl = 0 then Some 0 else adjust_loop stable_fl period (adjust_diff_s + uint period))
      else Some adjust_diff_s)"

definition raw_adjust_diff ::
    "u32 \<Rightarrow> u32 \<Rightarrow> int \<Rightarrow> int \<Rightarrow> FrameSyncDynamicPara \<Rightarrow> FrameSyncDynamicPara \<Rightarrow> fs_world \<Rightarrow> int" where
  "raw_adjust_diff m_idx s_idx ts_diff_m ts_diff_s p_m p_s w =
     (let d = (ts_diff_m + uint (dp_delta p_m)) - (ts_diff_s + uint (dp_delta p_s))
      in if fi_fl_active_delay (fs_inst w s_idx) \<noteq> fi_fl_active_delay (fs_inst w m_idx) \<and> 0 < d
         then d - uint (dp_stable_fl_us p_s * get_valid_frame_cell_size s_idx w) else d)"

definition fs_alg_sa_calc_adjust_diff_slave ::
    "u32 \<Rightarrow> u32 \<Rightarrow> int \<Rightarrow> int \<Rightarrow> FrameSyncDynamicPara \<Rightarrow> FrameSyncDynamicPara \<Rightarrow> fs_world \<Rightarrow> int option" where
  "fs_alg_sa_calc_adjust_diff_slave m_idx s_idx ts_diff_m ts_diff_s p_m p_s w =
     adjust_loop (dp_stable_fl_us p_m) (dp_stable_fl_us p_m * get_valid_frame_cell_size m_idx w)
       (raw_adjust_diff m_idx s_idx ts_diff_m ts_diff_s p_m p_s w)"

definition fs_alg_sa_calc_sync_delay :: "u32 \<Rightarrow> int \<Rightarrow> FrameSyncDynamicPara \<Rightarrow> fs_world \<Rightarrow> u32" where
  "fs_alg_sa_calc_sync_delay idx adjust_diff p w =
     (let base = uint (dp_stable_fl_us p * get_valid_frame_cell_size idx w) + adjust_diff
      in if fi_fl_active_delay (fs_inst w idx) = 3 then of_int (uint (dp_pred_fl_us p 1) + base)
         else of_int base)"

text \<open>The result is the returned value and the slave's updated parameters.\<close>

definition fs_alg_sa_adjust_slave_diff_resolver ::
    "u32 \<Rightarrow> u32 \<Rightarrow> FrameSyncDynamicPara \<Rightarrow> FrameSyncDynamicPara \<Rightarrow> fs_world
      \<Rightarrow> (u32 \<times> FrameSyncDynamicPara) option" where
  "fs_alg_sa_adjust_slave_diff_resolver m_idx s_idx p_m p_s w = do {
     let (ts_diff_m, ts_diff_s) = fs_alg_sa_calc_m_s_ts_diff p_m p_s (al_tick_factor (w_alg w));
     adjust_diff_s \<leftarrow> fs_alg_sa_calc_adjust_diff_slave m_idx s_idx ts_diff_m ts_diff_s p_m p_s w;
     let adjust_diff_m = fs_alg_sa_calc_adjust_diff_master m_idx adjust_diff_s p_m w;
     let sync_delay_m = fs_alg_sa_calc_sync_delay m_idx adjust_diff_m p_m w;
     let sync_delay_s = fs_alg_sa_calc_sync_delay s_idx adjust_diff_s p_s w;
     let period = dp_stable_fl_us p_m * get_valid_frame_cell_size m_idx w;
     let request_switch_master =
       (uint FS_TOLERANCE < adjust_diff_s \<and> 0 < adjust_diff_m \<and> sync_delay_m < sync_delay_s);
     let adjust_or_not = (check_timing_critical_section (of_int adjust_diff_s) period = 0
       \<and> adjust_diff_s \<le> uint period);
     Some (if request_switch_master \<or> \<not> adjust_or_not then 0 else of_int adjust_diff_s,
           p_s\<lparr>dp_adj_diff_m := adjust_diff_m, dp_adj_diff_s := adjust_diff_s,
               dp_adj_or_not := bool_word adjust_or_not,
               dp_chg_master := bool_word request_switch_master\<rparr>)
   }"

text \<open>\<open>fs_sa_request_switch_master\<close> of \<open>frame_sync.c\<close>, called back by the algorithm.\<close>

definition fs_sa_request_switch_master :: "u32 \<Rightarrow> fs_world \<Rightarrow> fs_world" where
  "fs_sa_request_switch_master idx w =
     (if mg_sa_method (w_mgr w) \<noteq> FS_SA_ADAPTIVE_MASTER then w
      else upd_mgr (\<lambda>m. m\<lparr>mg_master_idx := idx\<rparr>) w)"

subsection \<open>The two steps and the whole algorithm\<close>

definition sa_scan_min_fl :: "u32 \<Rightarrow> u32 \<Rightarrow> u32 \<Rightarrow> fs_world \<Rightarrow> u32 \<times> u32" where
  "sa_scan_min_fl idx valid_sync_bits start w =
     (let (mins, targets, _) = fs_alg_sa_query_all_min_fl_us w in
      fold (\<lambda>i (mn, tg).
        if drop_bit (unat i) valid_sync_bits AND 1 = 1
           \<and> fi_fl_active_delay (fs_inst w i) \<le> fi_fl_active_delay (fs_inst w idx)
        then (if mn < mins i then mins i else mn, if tg < targets i then targets i else tg)
        else (mn, tg)) sensor_loop (start, start))"

definition do_fps_sync_sa ::
    "u32 \<Rightarrow> u32 \<Rightarrow> u32 \<Rightarrow> FrameSyncDynamicPara \<Rightarrow> fs_world \<Rightarrow> (FrameSyncDynamicPara \<times> fs_world) option" where
  "do_fps_sync_sa idx m_idx valid_sync_bits p w =
     (let f_cell = get_valid_frame_cell_size idx w;
          sync_flk_en = check_sync_flicker_en_status idx w;
          fl_lc = calc_min_fl_lc idx (fi_min_fl_lc (fs_inst w idx)) w;
          fl_us = convert2TotalTime (fi_lineTimeInNs (fs_inst w idx)) fl_lc;
          (_, fl_us) = fs_alg_sa_get_flk_diff_and_fl idx fl_us sync_flk_en w;
          p = p\<lparr>dp_min_fl_us := fl_us * f_cell\<rparr>;
          (min_fl_us, target_min_fl_us) = sa_scan_min_fl idx valid_sync_bits (fl_us * f_cell) w;
          out_fl_us = (if min_fl_us < target_min_fl_us then min_fl_us else target_min_fl_us);
          (_, out_fl_us) = fs_alg_sa_get_flk_diff_and_fl idx out_fl_us sync_flk_en w
      in fs_alg_sa_update_fl_us idx (out_fl_us div f_cell) (p\<lparr>dp_target_min_fl_us := out_fl_us\<rparr>) w)"

definition adjust_vsync_diff_sa ::
    "u32 \<Rightarrow> u32 \<Rightarrow> FrameSyncDynamicPara \<Rightarrow> fs_world \<Rightarrow> (FrameSyncDynamicPara \<times> fs_world) option" where
  "adjust_vsync_diff_sa idx m_idx p w =
     (if idx = m_idx then Some (p, w)
      else let p_m = fs_alg_sa_get_dynamic_para m_idx w in
      if fs_alg_sa_dynamic_paras_checker idx m_idx w \<noteq> 0 then Some (p, w)
      else do {
        (adjust_diff, p) \<leftarrow> fs_alg_sa_adjust_slave_diff_resolver m_idx idx p_m p w;
        if adjust_diff = 0 then Some (p, fs_sa_request_switch_master idx w)
        else let
          w = (if 0 < fs_con_get_usr_auto_listen_ext_vsync (w_con w)
               then w\<lparr>w_con := fs_con_set_listen_vsync_alg_cfg
                      (bool_word (FS_TOLERANCE div 4 < adjust_diff)) (w_con w)\<rparr> else w);
          out_fl_us = fi_output_fl_us (fs_inst w idx) + adjust_diff;
          (_, out_fl_us) = fs_alg_sa_get_flk_diff_and_fl idx out_fl_us 0 w
        in fs_alg_sa_update_fl_us idx out_fl_us p w
      })"

text \<open>The result is the returned value, the frame length written through \<open>fl_lc\<close> if any, and
  the state.\<close>

definition fs_alg_solve_frame_length_sa ::
    "u32 \<Rightarrow> u32 \<Rightarrow> u32 \<Rightarrow> u32 \<Rightarrow> fs_world \<Rightarrow> (u32 \<times> u32 \<times> fs_world) option" where
  "fs_alg_solve_frame_length_sa idx m_idx valid_sync_bits fl_lc w =
     (let w = upd_sa (\<lambda>sa. sa\<lparr>sa_master_idx := m_idx\<rparr>) w;
          (para, w) = fs_alg_sa_init_new_ctrl idx m_idx zero_dynamic_para w;
          (ret, para) = fs_alg_sa_get_timestamp_info idx para w
      in if ret \<noteq> 0 then Some (ret, fl_lc, w)
      else do {
        (para, w) \<leftarrow> do_fps_sync_sa idx m_idx valid_sync_bits para w;
        (para, w) \<leftarrow> adjust_vsync_diff_sa idx m_idx para w;
        let fl_lc = fi_output_fl_lc (fs_inst w idx);
        (_, w) \<leftarrow> fs_alg_sa_update_dynamic_para idx para w;
        Some (0, fl_lc, w)
      })"

text \<open>The driver's two notifications.\<close>

definition fs_alg_sa_notify_setup_all_frame_info :: "u32 \<Rightarrow> fs_world \<Rightarrow> fs_world option" where
  "fs_alg_sa_notify_setup_all_frame_info idx w = do {
     let m_idx = sa_master_idx (al_sa (w_alg w));
     w \<leftarrow> fs_alg_setup_frame_monitor_fmeas_data idx w;
     Some (if idx \<noteq> m_idx
           then upd_frm (\<lambda>m. snd (frm_timestamp_checker (fi_tg (fs_inst w m_idx)) (fi_tg (fs_inst w idx)) m)) w
           else w)
   }"

definition fs_alg_sa_notify_vsync :: "vsync_source \<Rightarrow> u32 \<Rightarrow> fs_world \<Rightarrow> fs_world option" where
  "fs_alg_sa_notify_vsync src idx w = do {
     (ret, w) \<leftarrow> fs_alg_get_vsync_data src [idx] w;
     Some (upd_inst idx (\<lambda>s. s\<lparr>fi_is_nonvalid_ts := bitfield1 ret\<rparr>) w)
   }"
subsection \<open>The period loop\<close>

lemma adjust_loop_nonneg [simp]: "0 \<le> d \<Longrightarrow> adjust_loop s p d = Some d"
  by (subst adjust_loop.simps) simp

lemma adjust_loop_abort [simp]: "d < 0 \<Longrightarrow> adjust_loop 0 p d = Some 0"
  by (subst adjust_loop.simps) simp

lemma adjust_loop_mod:
  assumes "s \<noteq> 0" and "p \<noteq> 0" and "d < 0"
  shows "adjust_loop s p d = Some (d mod uint p)"
  using assms(3)
proof (induction "nat (- d)" arbitrary: d rule: less_induct)
  case less
  have p: "0 < uint p" using assms(2) by (simp add: uint_0_iff order_less_le)
  have step: "adjust_loop s p d = adjust_loop s p (d + uint p)"
    using less.prems assms(1) by (subst adjust_loop.simps) simp
  show ?case
  proof (cases "d + uint p < 0")
    case True
    then have "adjust_loop s p (d + uint p) = Some ((d + uint p) mod uint p)"
      using less.hyps[of "d + uint p"] p less.prems by linarith
    with step show ?thesis by simp
  next
    case False
    moreover have "d mod uint p = d + uint p"
    proof -
      have "(d + uint p) mod uint p = d + uint p"
        using False less.prems by (intro mod_pos_pos_trivial) linarith+
      then show ?thesis by simp
    qed
    ultimately show ?thesis using step by simp
  qed
qed

lemma adjust_loop_diverges:
  assumes "s \<noteq> 0" and "d < 0" shows "adjust_loop s 0 d = None"
proof (rule ccontr)
  assume "adjust_loop s 0 d \<noteq> None"
  then obtain y where "adjust_loop s 0 d = Some y" by auto
  moreover have "\<not> (s \<noteq> 0 \<and> p = 0 \<and> d < 0)" if "adjust_loop s p d = Some y" for s p d y
    by (induction s p d y rule: adjust_loop.raw_induct) (fastforce split: if_splits, rule that)
  ultimately show False using assms by blast
qed

text \<open>C34. The loop that makes the difference non-negative returns exactly when the difference is
  not negative, the guard on the master's frame length stops it, or the master's period (frame
  length times cell size, in 32 bits) is not zero; its result is then the difference itself, zero,
  or the difference modulo the period.\<close>

theorem adjust_loop_returns_iff:
  "adjust_loop s p d =
     (if 0 \<le> d then Some d else if s = 0 then Some 0
      else if p = 0 then None else Some (d mod uint p))"
  using adjust_loop_mod[of s p d] adjust_loop_diverges[of s d] by auto

lemma adjust_loop_bounds:
  assumes "adjust_loop s p d = Some y" shows "0 \<le> y" and "d < 0 \<Longrightarrow> s \<noteq> 0 \<Longrightarrow> y < uint p"
proof -
  have p: "p \<noteq> 0 \<Longrightarrow> 0 < uint p" by (simp add: uint_0_iff order_less_le)
  show "0 \<le> y" using assms p by (auto simp: adjust_loop_returns_iff split: if_splits)
  show "y < uint p" if "d < 0" "s \<noteq> 0"
    using assms that p by (auto simp: adjust_loop_returns_iff split: if_splits)
qed

lemma adjust_loop_cong:
  assumes "adjust_loop s p d = Some y" and "s \<noteq> 0"
  shows "(y - d) mod uint p = 0"
  using assms by (auto simp: adjust_loop_returns_iff mod_diff_left_eq split: if_splits)

subsection \<open>Timestamp difference\<close>

text \<open>
  What the difference of two timestamps means on a 32-bit tick that wraps around. The age of a
  vsync is the number of ticks from it to the newer of the two query ticks; the gap is how many
  whole microseconds the master's vsync is later than the slave's. Two timestamps are comparable
  when neither product with the tick factor wraps and both lie before the newer query tick; then
  the gap is simply their difference.
\<close>

definition newest_tick :: "FrameSyncDynamicPara \<Rightarrow> FrameSyncDynamicPara \<Rightarrow> u32" where
  "newest_tick p_m p_s =
     (if check_tick_b_after_a (dp_cur_tick p_m) (dp_cur_tick p_s) \<noteq> 0
      then dp_cur_tick p_s else dp_cur_tick p_m)"

definition vsync_age :: "u32 \<Rightarrow> u32 \<Rightarrow> u32 \<Rightarrow> nat" where
  "vsync_age tf newest ts = unat (newest - ts * tf)"

definition vsync_gap :: "u32 \<Rightarrow> FrameSyncDynamicPara \<Rightarrow> FrameSyncDynamicPara \<Rightarrow> int" where
  "vsync_gap tf p_m p_s =
     (let c = newest_tick p_m p_s; am = vsync_age tf c (dp_last_ts p_m); as = vsync_age tf c (dp_last_ts p_s)
      in if am < as then int ((as - am) div unat tf) else - int ((am - as) div unat tf))"

definition ts_comparable :: "u32 \<Rightarrow> FrameSyncDynamicPara \<Rightarrow> FrameSyncDynamicPara \<Rightarrow> bool" where
  "ts_comparable tf p_m p_s \<longleftrightarrow> tf \<noteq> 0
     \<and> unat (dp_last_ts p_m) * unat tf \<le> unat (newest_tick p_m p_s)
     \<and> unat (dp_last_ts p_s) * unat tf \<le> unat (newest_tick p_m p_s)"

lemma word_sub_unat: "y \<le> x \<Longrightarrow> unat ((x :: u32) - y) = unat x - unat y"
  by (rule unat_sub)

lemma vsync_gap_comparable:
  assumes "ts_comparable tf p_m p_s"
  shows "vsync_gap tf p_m p_s = uint (dp_last_ts p_m) - uint (dp_last_ts p_s)"
proof -
  define c where "c = newest_tick p_m p_s"
  have tf: "0 < unat tf" using assms by (simp add: ts_comparable_def unat_gt_0)
  have age: "vsync_age tf c t = unat c - unat t * unat tf" if "unat t * unat tf \<le> unat c" for t
  proof -
    have "unat (t * tf) = unat t * unat tf"
      using that unat_less_32[of c] by (simp add: unat_word_ariths)
    then show ?thesis using that by (simp add: vsync_age_def word_sub_unat word_le_nat_alt)
  qed
  have le: "unat (dp_last_ts p_m) * unat tf \<le> unat c" "unat (dp_last_ts p_s) * unat tf \<le> unat c"
    using assms by (simp_all add: ts_comparable_def c_def)
  have diff: "(unat c - x * unat tf - (unat c - y * unat tf)) div unat tf = y - x"
    if "x * unat tf \<le> unat c" "y * unat tf \<le> unat c" "x \<le> y" for x y
  proof -
    have "unat c - x * unat tf - (unat c - y * unat tf) = (y - x) * unat tf"
      using that by (simp add: diff_mult_distrib)
    then show ?thesis using tf by simp
  qed
  have lt: "unat c - x * unat tf < unat c - y * unat tf \<longleftrightarrow> y < x"
    if "x * unat tf \<le> unat c" "y * unat tf \<le> unat c" for x y
  proof -
    have "unat c - x * unat tf < unat c - y * unat tf \<longleftrightarrow> y * unat tf < x * unat tf" using that by linarith
    then show ?thesis using tf by simp
  qed
  have gap: "vsync_gap tf p_m p_s =
      (if unat c - unat (dp_last_ts p_m) * unat tf < unat c - unat (dp_last_ts p_s) * unat tf
       then int ((unat c - unat (dp_last_ts p_s) * unat tf - (unat c - unat (dp_last_ts p_m) * unat tf)) div unat tf)
       else - int ((unat c - unat (dp_last_ts p_m) * unat tf - (unat c - unat (dp_last_ts p_s) * unat tf)) div unat tf))"
    unfolding vsync_gap_def Let_def c_def[symmetric] age[OF le(1)] age[OF le(2)] ..
  show ?thesis
  proof (cases "unat (dp_last_ts p_s) < unat (dp_last_ts p_m)")
    case True
    then show ?thesis unfolding gap if_P[OF iffD2[OF lt[OF le] True]] diff[OF le(2,1) less_imp_le[OF True]]
      unfolding uint_nat using True by linarith
  next
    case False
    have not: "\<not> unat c - unat (dp_last_ts p_m) * unat tf < unat c - unat (dp_last_ts p_s) * unat tf"
      using False unfolding lt[OF le] .
    have "unat (dp_last_ts p_m) \<le> unat (dp_last_ts p_s)" using False by simp
    from diff[OF le this] show ?thesis unfolding gap if_not_P[OF not]
      unfolding uint_nat using False by linarith
  qed
qed

lemma m_s_ts_diff_gap:
  assumes "tf \<noteq> 0"
  shows "fs_alg_sa_calc_m_s_ts_diff p_m p_s tf =
    (max 0 (vsync_gap tf p_m p_s), max 0 (- vsync_gap tf p_m p_s))"
proof -
  define c where "c = newest_tick p_m p_s"
  define m where "m = dp_last_ts p_m * tf"
  define s where "s = dp_last_ts p_s * tf"
  have sub: "uint ((x - y) div tf) = int ((unat (c - y) - unat (c - x)) div unat tf)" if "c - x \<le> c - y" for x y
  proof -
    have "x - y = (c - y) - (c - x)" by simp
    then have "unat (x - y) = unat (c - y) - unat (c - x)" using that by (simp only: word_sub_unat)
    then show ?thesis unfolding uint_nat unat_div_distrib by simp
  qed
  have def: "fs_alg_sa_calc_m_s_ts_diff p_m p_s tf =
      (if c - m < c - s then (uint ((m - s) div tf), 0) else (0, uint ((s - m) div tf)))"
    using assms unfolding fs_alg_sa_calc_m_s_ts_diff_def Let_def newest_tick_def[symmetric]
      c_def[symmetric] m_def[symmetric] s_def[symmetric] by simp
  have gap: "vsync_gap tf p_m p_s = (if c - m < c - s then uint ((m - s) div tf) else - uint ((s - m) div tf))"
    using sub[of m s] sub[of s m]
    by (simp add: vsync_gap_def Let_def vsync_age_def c_def[symmetric] m_def[symmetric] s_def[symmetric]
        word_less_nat_alt not_less word_le_nat_alt)
  have "0 \<le> uint ((m - s) div tf)" "0 \<le> uint ((s - m) div tf)" by simp_all
  then show ?thesis unfolding def gap by simp
qed

lemma m_s_ts_diff_correct:
  assumes "ts_comparable tf p_m p_s"
  shows "fs_alg_sa_calc_m_s_ts_diff p_m p_s tf =
    (max 0 (uint (dp_last_ts p_m) - uint (dp_last_ts p_s)),
     max 0 (uint (dp_last_ts p_s) - uint (dp_last_ts p_m)))"
  using m_s_ts_diff_gap[of tf p_m p_s] vsync_gap_comparable[OF assms] assms by (simp add: ts_comparable_def)

subsection \<open>A slave's adjustment aligns it with the master\<close>

text \<open>C27. When the resolver of a slave with the master's frame-length delay returns a non-zero
  adjustment, adding it to the slave's predicted vsync (its delta after its last vsync) gives a
  time equal to the master's predicted vsync modulo the master's period; the adjustment is
  positive, at most one period (below one period when the slave was ahead), and outside the
  timing-critical section. Times are counted from the slave's last vsync, the master's being the
  gap later that the 32-bit tick shows, wrapped around or not; when neither timestamp is beyond
  the newest tick, the gap is the difference of the two timestamps. The tick factor is not
  zero.\<close>

theorem slave_adjustment_aligns:
  assumes "fs_alg_sa_adjust_slave_diff_resolver m_idx s_idx p_m p_s w = Some (r, p')" and "r \<noteq> 0"
    and "fi_fl_active_delay (fs_inst w s_idx) = fi_fl_active_delay (fs_inst w m_idx)"
    and "al_tick_factor (w_alg w) \<noteq> 0"
  shows "let period = dp_stable_fl_us p_m * get_valid_frame_cell_size m_idx w;
        gap = vsync_gap (al_tick_factor (w_alg w)) p_m p_s;
        next_m = gap + uint (dp_delta p_m);
        next_s = uint (dp_delta p_s)
    in (next_s + uint r - next_m) mod uint period = 0 \<and> 0 < r \<and> r \<le> period
      \<and> (next_m < next_s \<longrightarrow> r < period)
      \<and> (next_s \<le> next_m \<longrightarrow> next_s + uint r = next_m)
      \<and> check_timing_critical_section r period = 0
      \<and> (ts_comparable (al_tick_factor (w_alg w)) p_m p_s
           \<longrightarrow> gap = uint (dp_last_ts p_m) - uint (dp_last_ts p_s))"
proof -
  define period where "period = dp_stable_fl_us p_m * get_valid_frame_cell_size m_idx w"
  define gap where "gap = vsync_gap (al_tick_factor (w_alg w)) p_m p_s"
  define m where "m = gap + uint (dp_delta p_m)"
  define s where "s = uint (dp_delta p_s)"
  have raw: "raw_adjust_diff m_idx s_idx (max 0 gap) (max 0 (- gap)) p_m p_s w = m - s"
    using assms(3) by (simp add: raw_adjust_diff_def Let_def m_def s_def max_def)
  from assms(1) obtain d where d: "adjust_loop (dp_stable_fl_us p_m) period (m - s) = Some d"
    and r: "r = (if uint FS_TOLERANCE < d
           \<and> 0 < fs_alg_sa_calc_adjust_diff_master m_idx d p_m w
           \<and> fs_alg_sa_calc_sync_delay m_idx (fs_alg_sa_calc_adjust_diff_master m_idx d p_m w) p_m w
              < fs_alg_sa_calc_sync_delay s_idx d p_s w
         \<or> \<not> (check_timing_critical_section (of_int d) period = 0 \<and> d \<le> uint period)
         then 0 else of_int d)"
    by (auto simp: fs_alg_sa_adjust_slave_diff_resolver_def m_s_ts_diff_gap[OF assms(4)]
          gap_def[symmetric] fs_alg_sa_calc_adjust_diff_slave_def raw run_bind Let_def period_def)
  from r assms(2) have d1: "of_int d \<noteq> (0 :: u32)" "r = of_int d" "d \<le> uint period"
    "check_timing_critical_section (of_int d) period = 0"
    by (auto split: if_splits)
  have "0 \<le> d" using adjust_loop_bounds(1)[OF d] .
  moreover have "d \<noteq> 0" using d1(1) by auto
  moreover have "d < 2 ^ 32" using d1(3) uint_bounded[of period] by simp
  ultimately have ur: "uint r = d" and pos: "0 < d"
    using d1(2) by (simp_all add: uint_word_of_int)
  have st: "dp_stable_fl_us p_m \<noteq> 0"
  proof
    assume "dp_stable_fl_us p_m = 0"
    then have "period = 0" by (simp add: period_def)
    then show False using d1(3) pos by simp
  qed
  have mod: "(d - (m - s)) mod uint period = 0" by (rule adjust_loop_cong[OF d st])
  have lt: "d < uint period" if "m < s" using adjust_loop_bounds(2)[OF d _ st] that by simp
  have eq: "d = m - s" if "s \<le> m" using d that by simp
  have cmp: "gap = uint (dp_last_ts p_m) - uint (dp_last_ts p_s)"
    if "ts_comparable (al_tick_factor (w_alg w)) p_m p_s"
    unfolding gap_def by (rule vsync_gap_comparable[OF that])
  show ?thesis
    unfolding Let_def period_def[symmetric] gap_def[symmetric] m_def[symmetric] s_def[symmetric]
    using mod lt eq d1(2-4) ur pos cmp
    by (auto simp: word_le_def word_less_def algebra_simps)
qed

definition demo_para :: "u32 \<Rightarrow> u32 \<Rightarrow> FrameSyncDynamicPara" where
  "demo_para ts delta = zero_dynamic_para\<lparr>dp_last_ts := ts, dp_delta := delta,
     dp_stable_fl_us := 40000, dp_cur_tick := 30000\<rparr>"

definition demo_sa_world :: fs_world where
  "demo_sa_world = demo_world\<lparr>w_alg := (w_alg demo_world)\<lparr>al_tick_factor := 1\<rparr>\<rparr>"

theorem slave_adjustment_aligns_witness:
  "\<exists>r p'. fs_alg_sa_adjust_slave_diff_resolver 0 1 (demo_para 20000 70000) (demo_para 15000 60000)
       demo_sa_world = Some (r, p') \<and> 15000 + 60000 + uint r = (20000 + 70000 :: int)"
proof -
  have sel: "dp_last_ts (demo_para a b) = a" "dp_delta (demo_para a b) = b"
    "dp_stable_fl_us (demo_para a b) = 40000" "dp_cur_tick (demo_para a b) = 30000" for a b
    by (simp_all add: demo_para_def)
  have wsel: "al_tick_factor (w_alg demo_sa_world) = 1" "fs_inst demo_sa_world = fs_inst demo_world"
    "fi_fl_active_delay (demo_sensor x) = 0" "fi_frame_cell_size (demo_sensor x) = 0" for x
    by (simp_all add: demo_sa_world_def demo_sensor_def zero_fs_inst_def)
  have cmp: "ts_comparable (al_tick_factor (w_alg demo_sa_world)) (demo_para 20000 70000) (demo_para 15000 60000)"
    by (simp add: ts_comparable_def newest_tick_def sel wsel)
  have tsd: "fs_alg_sa_calc_m_s_ts_diff (demo_para 20000 70000) (demo_para 15000 60000) 1 = (5000, 0)"
    using m_s_ts_diff_correct[OF cmp] by (simp add: sel wsel)
  have diff: "fs_alg_sa_calc_adjust_diff_slave 0 1 5000 0 (demo_para 20000 70000)
      (demo_para 15000 60000) demo_sa_world = Some 15000"
    by (simp add: fs_alg_sa_calc_adjust_diff_slave_def raw_adjust_diff_def sel wsel Let_def)
  have "\<exists>p'. fs_alg_sa_adjust_slave_diff_resolver 0 1 (demo_para 20000 70000)
      (demo_para 15000 60000) demo_sa_world = Some (15000, p')"
    by (simp add: fs_alg_sa_adjust_slave_diff_resolver_def tsd diff sel wsel Let_def
        fs_alg_sa_calc_adjust_diff_master_def fs_alg_sa_calc_sync_delay_def
        get_valid_frame_cell_size_def check_timing_critical_section_def FS_TOLERANCE_def)
  then obtain p' where "fs_alg_sa_adjust_slave_diff_resolver 0 1 (demo_para 20000 70000)
      (demo_para 15000 60000) demo_sa_world = Some (15000, p')" by blast
  from slave_adjustment_aligns[OF this] this vsync_gap_comparable[OF cmp] show ?thesis
    by (auto simp: Let_def sel wsel)
qed

subsection \<open>What the stand-alone algorithm leaves unchanged\<close>

text \<open>
  As \<open>alg_conf\<close>, but a run may change the master index and the vsync-listening flag.
\<close>

definition sa_conf :: "fs_world \<Rightarrow> (u32 \<Rightarrow> FrameSyncInst) \<times> (u32 \<Rightarrow> u32 \<times> u32) \<times>
    HwSyncSensorInfo carray \<times> fs_console \<times> FrameSyncMgr \<times> (u64 \<times> u64 \<times> u32 \<times> u32) list" where
  "sa_conf w = (\<lambda>j. inst_conf (fs_inst w j), \<lambda>j. rec_conf (w_recorder w j),
     w_hw w, (w_con w)\<lparr>co_listen_vsync_alg := 0\<rparr>, (w_mgr w)\<lparr>mg_master_idx := 0\<rparr>, w_cb_calls w)"

lemma alg_conf_sa_conf: "alg_conf w = alg_conf v \<Longrightarrow> sa_conf w = sa_conf v"
  by (auto simp: alg_conf_def sa_conf_def)

lemma sa_conf_upd [simp]:
  "sa_conf (upd_sa f w) = sa_conf w" "sa_conf (upd_frm g w) = sa_conf w"
  "sa_conf (fs_sa_request_switch_master i w) = sa_conf w"
  "sa_conf (w\<lparr>w_con := fs_con_set_listen_vsync_alg_cfg x (w_con w)\<rparr>) = sa_conf w"
  by (simp_all add: sa_conf_def fs_sa_request_switch_master_def fs_con_set_listen_vsync_alg_cfg_def)

lemma sa_conf_ready: "sa_conf w = sa_conf v \<Longrightarrow> inst_ready (fs_inst w i) = inst_ready (fs_inst v i)"
  by (rule inst_ready_conf) (auto simp: sa_conf_def dest: fun_cong)

lemma sa_conf_inst: "sa_conf w = sa_conf v \<Longrightarrow> inst_conf (fs_inst w i) = inst_conf (fs_inst v i)"
  by (auto simp: sa_conf_def dest: fun_cong)

lemma sa_conf_update_pred:
  assumes "fs_alg_sa_update_pred_fl_and_ts_bias idx p w = Some (p', w')"
  shows "alg_conf w' = alg_conf w"
  using assms
  by (auto simp: fs_alg_sa_update_pred_fl_and_ts_bias_def run_bind Let_def dest: alg_conf_calc_predicted)

lemma sa_conf_update_fl:
  assumes "fs_alg_sa_update_fl_us idx us p w = Some (p', w')" shows "alg_conf w' = alg_conf w"
  using assms
  by (auto simp: fs_alg_sa_update_fl_us_def fs_alg_sa_prepare_dynamic_para_def run_bind Let_def
        dest!: alg_conf_set_fl_us sa_conf_update_pred)

lemma sa_conf_do_fps:
  assumes "do_fps_sync_sa idx m b p w = Some (p', w')" shows "alg_conf w' = alg_conf w"
  using assms sa_conf_update_fl by (auto simp: do_fps_sync_sa_def Let_def split_beta)

lemma sa_conf_adjust:
  assumes "adjust_vsync_diff_sa idx m p w = Some (p', w')" shows "sa_conf w' = sa_conf w"
  using assms
  by (auto simp: adjust_vsync_diff_sa_def Let_def split_beta run_bind
        dest!: sa_conf_update_fl alg_conf_sa_conf split: if_splits)

lemma sa_conf_solve:
  assumes "fs_alg_solve_frame_length_sa idx m b fl w = Some (r, fl', w')"
  shows "sa_conf w' = sa_conf w"
proof -
  define w1 where "w1 = snd (fs_alg_sa_init_new_ctrl idx m zero_dynamic_para (upd_sa (\<lambda>sa. sa\<lparr>sa_master_idx := m\<rparr>) w))"
  have w1: "sa_conf w1 = sa_conf w"
    by (simp add: w1_def fs_alg_sa_init_new_ctrl_def Let_def)
  have "w' = w1 \<or> (\<exists>p1 p2 p3 w2 w3 p4 w4. do_fps_sync_sa idx m b p1 w1 = Some (p2, w2)
      \<and> adjust_vsync_diff_sa idx m p2 w2 = Some (p3, w3)
      \<and> fs_alg_sa_update_pred_fl_and_ts_bias idx p3 w3 = Some (p4, w4)
      \<and> sa_conf w' = sa_conf w4)"
    using assms
    by (fastforce simp: fs_alg_solve_frame_length_sa_def Let_def split_beta run_bind w1_def[symmetric]
          fs_alg_sa_update_dynamic_para_def split: if_splits)
  then show ?thesis
    using w1 by (auto dest!: sa_conf_do_fps[THEN alg_conf_sa_conf] sa_conf_adjust
            sa_conf_update_pred[THEN alg_conf_sa_conf])
qed

subsection \<open>Runs that cannot fail\<close>

lemma update_pred_total:
  assumes "inst_ready (fs_inst w idx)"
  shows "\<exists>p' w'. fs_alg_sa_update_pred_fl_and_ts_bias idx p w = Some (p', w')"
proof -
  obtain v where v: "calc_predicted_frame_length idx w = Some v"
    using calc_predicted_total[OF inst_readyD(1)[OF assms]] by auto
  have "inst_ready (fs_inst v idx)"
    using alg_conf_ready[OF alg_conf_calc_predicted[OF v]] assms by simp
  then obtain b where "calc_vts_sync_bias idx v = Some b"
    using calc_vts_sync_bias_total inst_readyD(2) by blast
  with v show ?thesis
    by (auto simp: fs_alg_sa_update_pred_fl_and_ts_bias_def Let_def)
qed

lemma update_fl_total:
  assumes "inst_ready (fs_inst w idx)"
  shows "\<exists>p' w'. fs_alg_sa_update_fl_us idx us p w = Some (p', w')"
proof -
  obtain v where v: "set_fl_us idx us w = Some v"
    using assms inst_readyD(2) by (auto simp: set_fl_us_eq)
  have "inst_ready (fs_inst v idx)" using alg_conf_ready[OF alg_conf_set_fl_us[OF v]] assms by simp
  then obtain p' v' where
    "fs_alg_sa_update_pred_fl_and_ts_bias idx (p\<lparr>dp_stable_fl_us := us\<rparr>) v = Some (p', v')"
    using update_pred_total by blast
  with v show ?thesis
    by (simp add: fs_alg_sa_update_fl_us_def fs_alg_sa_prepare_dynamic_para_def Let_def)
qed

lemma do_fps_total:
  assumes "inst_ready (fs_inst w idx)"
  shows "\<exists>p' w'. do_fps_sync_sa idx m b p w = Some (p', w')"
  using update_fl_total[OF assms] by (simp add: do_fps_sync_sa_def Let_def split_beta)

text \<open>
  The only way left for a run to hang: the published frame length of the master is not zero but
  its period is, because the product with the cell size wrapped around.
\<close>

definition period_ok :: "u32 \<Rightarrow> fs_world \<Rightarrow> bool" where
  "period_ok m w \<longleftrightarrow>
     (dp_stable_fl_us (dyn_para w m) = 0 \<or> dp_stable_fl_us (dyn_para w m) * get_valid_frame_cell_size m w \<noteq> 0)"

lemma resolver_total:
  assumes "dp_stable_fl_us p_m = 0 \<or> dp_stable_fl_us p_m * get_valid_frame_cell_size m w \<noteq> 0"
  shows "\<exists>r p'. fs_alg_sa_adjust_slave_diff_resolver m s p_m p_s w = Some (r, p')"
proof -
  have "\<exists>d. fs_alg_sa_calc_adjust_diff_slave m s a b p_m p_s w = Some d" for a b
    using assms by (auto simp: fs_alg_sa_calc_adjust_diff_slave_def adjust_loop_returns_iff)
  then obtain d where "fs_alg_sa_calc_adjust_diff_slave m s
      (fst (fs_alg_sa_calc_m_s_ts_diff p_m p_s (al_tick_factor (w_alg w))))
      (snd (fs_alg_sa_calc_m_s_ts_diff p_m p_s (al_tick_factor (w_alg w)))) p_m p_s w = Some d" by blast
  then show ?thesis
    by (simp add: fs_alg_sa_adjust_slave_diff_resolver_def Let_def split_beta)
qed

lemma adjust_sa_total:
  assumes "inst_ready (fs_inst w idx)" and "idx \<noteq> m \<Longrightarrow> period_ok m w"
  shows "\<exists>p' w'. adjust_vsync_diff_sa idx m p w = Some (p', w')"
proof (cases "idx = m \<or> fs_alg_sa_dynamic_paras_checker idx m w \<noteq> 0")
  case False
  then obtain r q where r: "fs_alg_sa_adjust_slave_diff_resolver m idx (dyn_para w m) p w = Some (r, q)"
    using resolver_total[of "dyn_para w m" m w idx p] assms(2) by (auto simp: period_ok_def)
  have "\<exists>p' w'. fs_alg_sa_update_fl_us idx us q (w\<lparr>w_con := c\<rparr>) = Some (p', w')" for us c
    using assms(1) by (intro update_fl_total) simp
  then show ?thesis
    using update_fl_total[OF assms(1)] False r
    by (simp add: adjust_vsync_diff_sa_def Let_def split_beta fs_alg_sa_get_dynamic_para_def)
qed (auto simp: adjust_vsync_diff_sa_def Let_def)

lemma solve_sa_total:
  assumes "inst_ready (fs_inst w idx)" and "idx \<noteq> m \<Longrightarrow> period_ok m w"
  shows "\<exists>r fl' w'. fs_alg_solve_frame_length_sa idx m b fl w = Some (r, fl', w')"
proof -
  define w1 where "w1 = snd (fs_alg_sa_init_new_ctrl idx m zero_dynamic_para (upd_sa (\<lambda>sa. sa\<lparr>sa_master_idx := m\<rparr>) w))"
  define p1 where "p1 = snd (fs_alg_sa_get_timestamp_info idx
     (fst (fs_alg_sa_init_new_ctrl idx m zero_dynamic_para (upd_sa (\<lambda>sa. sa\<lparr>sa_master_idx := m\<rparr>) w))) w1)"
  have i1: "fs_inst w1 = fs_inst w" "dyn_para w1 = dyn_para w"
    by (simp_all add: w1_def fs_alg_sa_init_new_ctrl_def Let_def)
  then have rd1: "inst_ready (fs_inst w1 idx)" using assms(1) by simp
  obtain p2 w2 where 2: "do_fps_sync_sa idx m b p1 w1 = Some (p2, w2)" using do_fps_total[OF rd1] by blast
  note c2 = sa_conf_do_fps[OF 2]
  have rd2: "inst_ready (fs_inst w2 idx)" using alg_conf_ready[OF c2] rd1 by simp
  have sa2: "al_sa (w_alg w2) = al_sa (w_alg w1)"
    using 2 by (auto simp: do_fps_sync_sa_def fs_alg_sa_update_fl_us_def Let_def split_beta run_bind
        fs_alg_sa_prepare_dynamic_para_def fs_alg_sa_update_pred_fl_and_ts_bias_def set_fl_us_eq
        calc_predicted_frame_length_def store_predicted_def split: if_splits)
  have "fi_frame_cell_size (fs_inst w2 m) = fi_frame_cell_size (fs_inst w m)"
    using alg_conf_sel(1)[OF c2, of m, THEN inst_conf_sel(18)] i1 by simp
  then have "idx \<noteq> m \<Longrightarrow> period_ok m w2"
    using assms(2) sa2 i1 by (auto simp: period_ok_def get_valid_frame_cell_size_def)
  then obtain p3 w3 where 3: "adjust_vsync_diff_sa idx m p2 w2 = Some (p3, w3)"
    using adjust_sa_total[OF rd2] by blast
  have "inst_ready (fs_inst w3 idx)" using sa_conf_ready[OF sa_conf_adjust[OF 3]] rd2 by simp
  then obtain p4 w4 where "fs_alg_sa_update_pred_fl_and_ts_bias idx p3 w3 = Some (p4, w4)"
    using update_pred_total by blast
  with 2 3 show ?thesis
    by (simp add: fs_alg_solve_frame_length_sa_def Let_def split_beta p1_def[symmetric] w1_def[symmetric]
        fs_alg_sa_update_dynamic_para_def)
qed

subsection \<open>Frame-rate synchronisation\<close>

lemma max_if_fold:
  fixes f g :: "'i \<Rightarrow> u32" and P :: "'i \<Rightarrow> bool" and a b :: u32
  defines "step \<equiv> \<lambda>i (x, y). if P i then (if x < f i then f i else x, if y < g i then g i else y) else (x, y)"
  shows "a \<le> fst (fold step xs (a, b)) \<and> b \<le> snd (fold step xs (a, b))
    \<and> (\<forall>i \<in> set xs. P i \<longrightarrow> f i \<le> fst (fold step xs (a, b)) \<and> g i \<le> snd (fold step xs (a, b)))
    \<and> (\<forall>t. a \<le> t \<and> (\<forall>i \<in> set xs. P i \<longrightarrow> f i \<le> t) \<longrightarrow> fst (fold step xs (a, b)) \<le> t)"
proof (induction xs arbitrary: a b)
  case (Cons x xs)
  show ?case
    using Cons.IH[of "if P x \<and> a < f x then f x else a" "if P x \<and> b < g x then g x else b"]
    by (auto simp: step_def split: if_splits intro: order_trans less_imp_le)
qed simp

definition fps_partner :: "u32 \<Rightarrow> u32 \<Rightarrow> fs_world \<Rightarrow> u32 \<Rightarrow> bool" where
  "fps_partner idx bits w i \<longleftrightarrow> i < SENSOR_MAX_NUM \<and> drop_bit (unat i) bits AND 1 = 1
     \<and> fi_fl_active_delay (fs_inst w i) \<le> fi_fl_active_delay (fs_inst w idx)"

lemma sa_scan_min_fl_correct:
  "own \<le> fst (sa_scan_min_fl idx bits own w) \<and> own \<le> snd (sa_scan_min_fl idx bits own w)
   \<and> (\<forall>i. fps_partner idx bits w i \<longrightarrow>
        dp_min_fl_us (dyn_para w i) \<le> fst (sa_scan_min_fl idx bits own w)
        \<and> dp_target_min_fl_us (dyn_para w i) \<le> snd (sa_scan_min_fl idx bits own w))
   \<and> (\<forall>t. own \<le> t \<and> (\<forall>i. fps_partner idx bits w i \<longrightarrow> dp_min_fl_us (dyn_para w i) \<le> t)
        \<longrightarrow> fst (sa_scan_min_fl idx bits own w) \<le> t)"
proof -
  have eq: "sa_scan_min_fl idx bits own w = fold (\<lambda>i (x, y).
      if drop_bit (unat i) bits AND 1 = 1
         \<and> fi_fl_active_delay (fs_inst w i) \<le> fi_fl_active_delay (fs_inst w idx)
      then (if x < dp_min_fl_us (dyn_para w i) then dp_min_fl_us (dyn_para w i) else x,
            if y < dp_target_min_fl_us (dyn_para w i) then dp_target_min_fl_us (dyn_para w i) else y)
      else (x, y)) sensor_loop (own, own)"
    by (simp add: sa_scan_min_fl_def fs_alg_sa_query_all_min_fl_us_def)
  have "i \<in> set sensor_loop \<longleftrightarrow> i < SENSOR_MAX_NUM" for i
    by (simp only: sensor_loop_eq set_loop_idx mem_Collect_eq)
  then show ?thesis
    using max_if_fold[of own "\<lambda>i. drop_bit (unat i) bits AND 1 = 1
         \<and> fi_fl_active_delay (fs_inst w i) \<le> fi_fl_active_delay (fs_inst w idx)"
        "\<lambda>i. dp_min_fl_us (dyn_para w i)" "\<lambda>i. dp_target_min_fl_us (dyn_para w i)" sensor_loop own]
    unfolding eq fps_partner_def by blast
qed

lemma update_fl_us_result:
  assumes "fs_alg_sa_update_fl_us idx us p w = Some (p', w')"
  shows "fi_output_fl_us (fs_inst w' idx) = fi_output_fl_us (with_fl us (fs_inst w idx))"
    and "fi_output_fl_lc (fs_inst w' idx) = fi_output_fl_lc (with_fl us (fs_inst w idx))"
    and "dp_stable_fl_us p' = us" and "dp_min_fl_us p' = dp_min_fl_us p"
    and "dp_target_min_fl_us p' = dp_target_min_fl_us p"
    and "dp_last_ts p' = dp_last_ts p" and "dp_cur_tick p' = dp_cur_tick p"
    and "al_sa (w_alg w') = al_sa (w_alg w)"
  using assms
  by (auto simp: fs_alg_sa_update_fl_us_def fs_alg_sa_prepare_dynamic_para_def Let_def run_bind
      fs_alg_sa_update_pred_fl_and_ts_bias_def set_fl_us_eq calc_predicted_frame_length_def
      store_predicted_def split: if_splits)

text \<open>C28. Frame-rate synchronisation of the stand-alone algorithm, without anti-flicker: the
  target is at least the sensor's own minimum (scaled by its cell size) and at most the largest
  minimum among itself and its partners, and reaches every partner's minimum once each partner
  published a target not below its own minimum; the sensor's output is the target divided by
  its cell size, limited by its maximum.\<close>

theorem do_fps_sync_sa_correct:
  assumes "do_fps_sync_sa idx m bits p w = Some (p', w')"
    and "fi_flicker_en (fs_inst w idx) = 0" and "check_sync_flicker_en_status idx w = 0"
  shows "let own = sensor_min_fl_us idx w * get_valid_frame_cell_size idx w; T = dp_target_min_fl_us p';
        us = T div get_valid_frame_cell_size idx w
    in dp_min_fl_us p' = own \<and> own \<le> T
      \<and> (\<forall>t. own \<le> t \<and> (\<forall>i. fps_partner idx bits w i \<longrightarrow> dp_min_fl_us (dyn_para w i) \<le> t) \<longrightarrow> T \<le> t)
      \<and> ((\<forall>i. fps_partner idx bits w i \<longrightarrow> dp_min_fl_us (dyn_para w i) \<le> dp_target_min_fl_us (dyn_para w i))
         \<longrightarrow> (\<forall>i. fps_partner idx bits w i \<longrightarrow> dp_min_fl_us (dyn_para w i) \<le> T))
      \<and> dp_stable_fl_us p' = us
      \<and> fi_output_fl_us (fs_inst w' idx) = fi_output_fl_us (with_fl us (fs_inst w idx))
      \<and> fi_output_fl_lc (fs_inst w' idx) \<le> fi_max_fl_lc (fs_inst w idx)
      \<and> alg_conf w' = alg_conf w"
proof -
  define cell where "cell = get_valid_frame_cell_size idx w"
  define own where "own = sensor_min_fl_us idx w * cell"
  define mt where "mt = sa_scan_min_fl idx bits own w"
  define T where "T = (if fst mt < snd mt then fst mt else snd mt)"
  have flk: "fs_alg_sa_get_flk_diff_and_fl idx fl 0 w = (0, fl)" for fl
    using assms(2) by (simp add: fs_alg_sa_get_flk_diff_and_fl_def)
  have run: "fs_alg_sa_update_fl_us idx (T div cell)
      (p\<lparr>dp_min_fl_us := own, dp_target_min_fl_us := T\<rparr>) w = Some (p', w')"
    using assms(1)[unfolded do_fps_sync_sa_def Let_def split_beta assms(3) flk fst_conv snd_conv]
    unfolding sensor_min_fl_us_def[symmetric] cell_def[symmetric] own_def[symmetric]
      mt_def[symmetric] T_def[symmetric] .
  note res = update_fl_us_result[OF run]
  note scan = sa_scan_min_fl_correct[of own idx bits w, folded mt_def]
  have out: "fi_output_fl_lc (fs_inst w' idx) \<le> fi_max_fl_lc (fs_inst w idx)"
    using res(2) by (simp add: capped_def not_less)
  have T: "own \<le> T" "T \<le> fst mt"
    "\<And>x. x \<le> fst mt \<Longrightarrow> x \<le> snd mt \<Longrightarrow> x \<le> T"
    using scan by (auto simp: T_def)
  have eqs: "dp_min_fl_us p' = own" "dp_target_min_fl_us p' = T" "dp_stable_fl_us p' = T div cell"
    using res(3-5) by simp_all
  have below: "T \<le> t" if "own \<le> t" "\<forall>i. fps_partner idx bits w i \<longrightarrow> dp_min_fl_us (dyn_para w i) \<le> t" for t
    using scan T(2) that by (meson order_trans)
  have above: "dp_min_fl_us (dyn_para w i) \<le> T"
    if "\<forall>i. fps_partner idx bits w i \<longrightarrow> dp_min_fl_us (dyn_para w i) \<le> dp_target_min_fl_us (dyn_para w i)"
      "fps_partner idx bits w i" for i
    using scan T(3) that by (meson order_trans)
  show ?thesis
    unfolding Let_def cell_def[symmetric] own_def[symmetric] eqs
    using T(1) below above res(1) out sa_conf_do_fps[OF assms(1)] by blast
qed

theorem do_fps_sync_sa_correct_witness:
  "\<exists>p' w'. do_fps_sync_sa 0 1 3 zero_dynamic_para demo_world = Some (p', w')
     \<and> dp_min_fl_us p' = 30000 \<and> 30000 \<le> dp_target_min_fl_us p'"
proof -
  have "inst_ready (fs_inst demo_world 0)"
    by (simp add: inst_ready_def recs_ready_def)
  from do_fps_total[OF this] obtain p' w' where
    run: "do_fps_sync_sa 0 1 3 zero_dynamic_para demo_world = Some (p', w')" by blast
  have own: "sensor_min_fl_us 0 demo_world * get_valid_frame_cell_size 0 demo_world = 30000"
    by (simp add: sensor_min_fl_us_def calc_min_fl_lc_def convert2TotalTime_def Let_def
        get_valid_frame_cell_size_def demo_sensor_def zero_fs_inst_def zero_hdr_exp_def)
  have fd: "fi_fl_active_delay (fs_inst demo_world i) = 0 \<and> fi_flicker_en (fs_inst demo_world i) = 0" for i
    by (simp add: demo_world_def demo_sensor_def zero_fs_inst_def zero_world_def)
  then have "check_sync_flicker_en_status 0 demo_world = 0"
    by (simp add: word_gt_0 demo_sensor_def zero_fs_inst_def check_sync_flicker_en_status_def sensor_loop_def)
  moreover have "fi_flicker_en (fs_inst demo_world 0) = 0" using fd by blast
  ultimately show ?thesis
    using do_fps_sync_sa_correct[OF run] run unfolding Let_def own by blast
qed

subsection \<open>The whole run\<close>

lemma update_pred_result:
  assumes "fs_alg_sa_update_pred_fl_and_ts_bias idx p w = Some (p', w')"
  shows "fi_output_fl_lc (fs_inst w' j) = fi_output_fl_lc (fs_inst w j)"
    and "al_sa (w_alg w') = al_sa (w_alg w)"
    and "dp_magic_num p' = dp_magic_num p" and "dp_master_idx p' = dp_master_idx p"
    and "dp_last_ts p' = dp_last_ts p" and "dp_stable_fl_us p' = dp_stable_fl_us p"
    and "dp_min_fl_us p' = dp_min_fl_us p" and "dp_target_min_fl_us p' = dp_target_min_fl_us p"
  using assms
  by (auto simp: fs_alg_sa_update_pred_fl_and_ts_bias_def Let_def run_bind
      calc_predicted_frame_length_def store_predicted_def split: if_splits)

lemma update_fl_result:
  assumes "fs_alg_sa_update_fl_us idx us p w = Some (p', w')"
  shows "fi_output_fl_lc (fs_inst w' idx) \<le> fi_max_fl_lc (fs_inst w idx)
    \<and> al_sa (w_alg w') = al_sa (w_alg w)
    \<and> dp_magic_num p' = dp_magic_num p \<and> dp_master_idx p' = dp_master_idx p
    \<and> dp_last_ts p' = dp_last_ts p"
proof -
  obtain v where v: "set_fl_us idx us w = Some v"
    and p: "fs_alg_sa_prepare_dynamic_para idx (p\<lparr>dp_stable_fl_us := us\<rparr>) v = Some (p', w')"
    using assms by (auto simp: fs_alg_sa_update_fl_us_def run_bind)
  from p obtain q where q: "fs_alg_sa_update_pred_fl_and_ts_bias idx (p\<lparr>dp_stable_fl_us := us\<rparr>) v = Some (q, w')"
    and p': "dp_magic_num p' = dp_magic_num q" "dp_master_idx p' = dp_master_idx q" "dp_last_ts p' = dp_last_ts q"
    by (auto simp: fs_alg_sa_prepare_dynamic_para_def run_bind Let_def)
  show "fi_output_fl_lc (fs_inst w' idx) \<le> fi_max_fl_lc (fs_inst w idx)
    \<and> al_sa (w_alg w') = al_sa (w_alg w)
    \<and> dp_magic_num p' = dp_magic_num p \<and> dp_master_idx p' = dp_master_idx p
    \<and> dp_last_ts p' = dp_last_ts p"
    using v p' update_pred_result[OF q]
    by (auto simp: set_fl_us_eq capped_def not_less split: if_splits)
qed

lemma do_fps_sa_result:
  assumes "do_fps_sync_sa idx m b p w = Some (p', w')"
  shows "fi_output_fl_lc (fs_inst w' idx) \<le> fi_max_fl_lc (fs_inst w idx)"
    and "al_sa (w_alg w') = al_sa (w_alg w)"
    and "dp_magic_num p' = dp_magic_num p" and "dp_master_idx p' = dp_master_idx p"
    and "dp_last_ts p' = dp_last_ts p"
  using assms by (auto simp: do_fps_sync_sa_def Let_def split_beta dest: update_fl_result)

lemma resolver_result:
  assumes "fs_alg_sa_adjust_slave_diff_resolver m s p_m p_s w = Some (r, p')"
  shows "dp_magic_num p' = dp_magic_num p_s \<and> dp_master_idx p' = dp_master_idx p_s
    \<and> dp_last_ts p' = dp_last_ts p_s"
  using assms by (auto simp: fs_alg_sa_adjust_slave_diff_resolver_def Let_def split_beta run_bind)

lemma adjust_sa_result:
  assumes "adjust_vsync_diff_sa idx m p w = Some (p', w')"
    and "fi_output_fl_lc (fs_inst w idx) \<le> fi_max_fl_lc (fs_inst w idx)"
  shows "fi_output_fl_lc (fs_inst w' idx) \<le> fi_max_fl_lc (fs_inst w idx)"
    and "al_sa (w_alg w') = al_sa (w_alg w)"
    and "dp_magic_num p' = dp_magic_num p" and "dp_master_idx p' = dp_master_idx p"
    and "dp_last_ts p' = dp_last_ts p"
proof -
  have "(p' = p \<and> w' = w) \<or> (\<exists>q r. fs_alg_sa_adjust_slave_diff_resolver m idx (dyn_para w m) p w = Some (r, q)
     \<and> (p' = q \<and> w' = fs_sa_request_switch_master idx w
        \<or> (\<exists>us v. fs_inst v = fs_inst w \<and> al_sa (w_alg v) = al_sa (w_alg w)
             \<and> fs_alg_sa_update_fl_us idx us q v = Some (p', w'))))"
    using assms(1)
    by (fastforce simp: adjust_vsync_diff_sa_def Let_def split_beta run_bind fs_alg_sa_get_dynamic_para_def
        split: if_splits)
  then show "fi_output_fl_lc (fs_inst w' idx) \<le> fi_max_fl_lc (fs_inst w idx)"
    and "al_sa (w_alg w') = al_sa (w_alg w)"
    and "dp_magic_num p' = dp_magic_num p" and "dp_master_idx p' = dp_master_idx p"
    and "dp_last_ts p' = dp_last_ts p"
    using assms(2)
    by (auto simp: fs_sa_request_switch_master_def dest!: resolver_result update_fl_result split: if_splits)
qed

text \<open>A run split into its steps.\<close>

lemma solve_sa_run:
  assumes "fs_alg_solve_frame_length_sa idx m bits fl w = Some (r, fl', w')"
  shows "\<exists>w1 t. fs_inst w1 = fs_inst w \<and> dyn_para w1 = dyn_para w \<and> w_mgr w1 = w_mgr w
    \<and> w_con w1 = w_con w \<and> sa_master_idx (al_sa (w_alg w1)) = m
    \<and> sa_magic_num (al_sa (w_alg w1)) idx = sa_magic_num (al_sa (w_alg w)) idx + 1
    \<and> dp_magic_num t = sa_magic_num (al_sa (w_alg w)) idx + 1 \<and> dp_master_idx t = m
    \<and> (fi_is_nonvalid_ts (fs_inst w idx) \<noteq> 0 \<and> r = 1 \<and> fl' = fl \<and> w' = w1
       \<or> fi_is_nonvalid_ts (fs_inst w idx) = 0 \<and> r = 0
         \<and> dp_last_ts t = fi_last_vts (fs_inst w idx)
         \<and> (\<exists>p2 w2 p3 w3 p4 w4. do_fps_sync_sa idx m bits t w1 = Some (p2, w2)
            \<and> adjust_vsync_diff_sa idx m p2 w2 = Some (p3, w3) \<and> fl' = fi_output_fl_lc (fs_inst w3 idx)
            \<and> fs_alg_sa_update_pred_fl_and_ts_bias idx p3 w3 = Some (p4, w4)
            \<and> fs_inst w' = fs_inst w4 \<and> w_mgr w' = w_mgr w4 \<and> w_con w' = w_con w4
            \<and> al_sa (w_alg w') = (al_sa (w_alg w4))\<lparr>sa_dynamic_paras := (dyn_para w4)(idx := p4)\<rparr>))"
proof -
  define i where "i = fs_alg_sa_init_new_ctrl idx m zero_dynamic_para (upd_sa (\<lambda>sa. sa\<lparr>sa_master_idx := m\<rparr>) w)"
  define t where "t = fs_alg_sa_get_timestamp_info idx (fst i) (snd i)"
  have w1: "fs_inst (snd i) = fs_inst w \<and> dyn_para (snd i) = dyn_para w \<and> w_mgr (snd i) = w_mgr w
    \<and> w_con (snd i) = w_con w \<and> sa_master_idx (al_sa (w_alg (snd i))) = m
    \<and> sa_magic_num (al_sa (w_alg (snd i))) idx = sa_magic_num (al_sa (w_alg w)) idx + 1"
    "dp_magic_num (fst i) = sa_magic_num (al_sa (w_alg w)) idx + 1 \<and> dp_master_idx (fst i) = m"
    by (simp_all add: i_def fs_alg_sa_init_new_ctrl_def Let_def)
  have t: "fst t = (if fi_is_nonvalid_ts (fs_inst w idx) \<noteq> 0 then 1 else 0)"
    "fst t = 0 \<Longrightarrow> dp_last_ts (snd t) = fi_last_vts (fs_inst w idx)"
    "dp_magic_num (snd t) = dp_magic_num (fst i) \<and> dp_master_idx (snd t) = dp_master_idx (fst i)"
    by (auto simp: t_def fs_alg_sa_get_timestamp_info_def Let_def w1(1))
  have "fst t \<noteq> 0 \<and> r = fst t \<and> fl' = fl \<and> w' = snd i \<or>
    fst t = 0 \<and> r = 0 \<and> (\<exists>p2 w2 p3 w3 p4 w4. do_fps_sync_sa idx m bits (snd t) (snd i) = Some (p2, w2)
      \<and> adjust_vsync_diff_sa idx m p2 w2 = Some (p3, w3) \<and> fl' = fi_output_fl_lc (fs_inst w3 idx)
      \<and> fs_alg_sa_update_pred_fl_and_ts_bias idx p3 w3 = Some (p4, w4)
      \<and> fs_inst w' = fs_inst w4 \<and> w_mgr w' = w_mgr w4 \<and> w_con w' = w_con w4
      \<and> al_sa (w_alg w') = (al_sa (w_alg w4))\<lparr>sa_dynamic_paras := (dyn_para w4)(idx := p4)\<rparr>)"
    using assms
    by (fastforce simp: fs_alg_solve_frame_length_sa_def Let_def split_beta run_bind i_def[symmetric]
          t_def[symmetric] fs_alg_sa_update_dynamic_para_def split: if_splits)
  then show ?thesis
    using w1 t by (intro exI[of _ "snd i"] exI[of _ "snd t"]) (auto split: if_splits)
qed

lemma adjust_sa_mgr:
  assumes "adjust_vsync_diff_sa idx m p w = Some (p', w')"
  shows "w_mgr w' = w_mgr w \<or> w_mgr w' = (w_mgr w)\<lparr>mg_master_idx := idx\<rparr>
      \<and> idx \<noteq> m \<and> mg_sa_method (w_mgr w) = FS_SA_ADAPTIVE_MASTER"
    and "w_con w' = w_con w \<or> (\<exists>x. w_con w' = (w_con w)\<lparr>co_listen_vsync_alg := x\<rparr>)
      \<and> idx \<noteq> m \<and> 0 < fs_con_get_usr_auto_listen_ext_vsync (w_con w)"
proof -
  have "(p' = p \<and> w' = w) \<or> idx \<noteq> m \<and> (w' = fs_sa_request_switch_master idx w
     \<or> (\<exists>us q v. fs_alg_sa_update_fl_us idx us q v = Some (p', w') \<and> w_mgr v = w_mgr w
          \<and> (v = w \<or> 0 < fs_con_get_usr_auto_listen_ext_vsync (w_con w)
               \<and> (\<exists>x. w_con v = (w_con w)\<lparr>co_listen_vsync_alg := x\<rparr>))))"
  proof (cases "idx = m \<or> fs_alg_sa_dynamic_paras_checker idx m w \<noteq> 0")
    case False
    then obtain d q where d: "fs_alg_sa_adjust_slave_diff_resolver m idx (fs_alg_sa_get_dynamic_para m w) p w = Some (d, q)"
      using assms by (auto simp: adjust_vsync_diff_sa_def Let_def run_bind)
    define v where "v = (if 0 < fs_con_get_usr_auto_listen_ext_vsync (w_con w)
      then w\<lparr>w_con := fs_con_set_listen_vsync_alg_cfg (bool_word (FS_TOLERANCE div 4 < d)) (w_con w)\<rparr> else w)"
    have v: "w_mgr v = w_mgr w" "v = w \<or> 0 < fs_con_get_usr_auto_listen_ext_vsync (w_con w)
               \<and> (\<exists>x. w_con v = (w_con w)\<lparr>co_listen_vsync_alg := x\<rparr>)"
      by (auto simp: v_def fs_con_set_listen_vsync_alg_cfg_def)
    show ?thesis
    proof (cases "d = 0")
      case True
      then show ?thesis using assms False d by (simp add: adjust_vsync_diff_sa_def Let_def)
    next
      case d0: False
      have "\<exists>us. fs_alg_sa_update_fl_us idx us q v = Some (p', w')"
        using assms False d d0 by (simp add: adjust_vsync_diff_sa_def Let_def split_beta v_def[symmetric] cong: if_cong) blast
      then show ?thesis using v False by blast
    qed
  next
    case True
    then have "adjust_vsync_diff_sa idx m p w = Some (p, w)" by (auto simp: adjust_vsync_diff_sa_def Let_def)
    then show ?thesis using assms by simp
  qed
  moreover have "w_mgr w' = w_mgr v \<and> w_con w' = w_con v"
    if "fs_alg_sa_update_fl_us idx us q v = Some (p', w')" for us q v
    using alg_conf_sel(5,6)[OF sa_conf_update_fl[OF that]] by simp
  ultimately show "w_mgr w' = w_mgr w \<or> w_mgr w' = (w_mgr w)\<lparr>mg_master_idx := idx\<rparr>
      \<and> idx \<noteq> m \<and> mg_sa_method (w_mgr w) = FS_SA_ADAPTIVE_MASTER"
    and "w_con w' = w_con w \<or> (\<exists>x. w_con w' = (w_con w)\<lparr>co_listen_vsync_alg := x\<rparr>)
      \<and> idx \<noteq> m \<and> 0 < fs_con_get_usr_auto_listen_ext_vsync (w_con w)"
    by (auto simp: fs_sa_request_switch_master_def split: if_splits)
qed

text \<open>A run changes the manager at most in its master, to the sensor itself.\<close>

lemma solve_sa_mgr:
  assumes "fs_alg_solve_frame_length_sa idx m bits fl w = Some (r, fl', w')"
  shows "(w_mgr w' = w_mgr w \<or> w_mgr w' = (w_mgr w)\<lparr>mg_master_idx := idx\<rparr>
        \<and> idx \<noteq> m \<and> mg_sa_method (w_mgr w) = FS_SA_ADAPTIVE_MASTER)
    \<and> (w_con w' = w_con w \<or> (\<exists>x. w_con w' = (w_con w)\<lparr>co_listen_vsync_alg := x\<rparr>)
        \<and> idx \<noteq> m \<and> 0 < fs_con_get_usr_auto_listen_ext_vsync (w_con w))
    \<and> sa_master_idx (al_sa (w_alg w')) = m"
proof -
  obtain w1 t where w1: "fs_inst w1 = fs_inst w" "w_mgr w1 = w_mgr w" "w_con w1 = w_con w" "sa_master_idx (al_sa (w_alg w1)) = m"
    and run: "w' = w1 \<or> (\<exists>p2 w2 p3 w3 p4 w4. do_fps_sync_sa idx m bits t w1 = Some (p2, w2)
            \<and> adjust_vsync_diff_sa idx m p2 w2 = Some (p3, w3)
            \<and> fs_alg_sa_update_pred_fl_and_ts_bias idx p3 w3 = Some (p4, w4)
            \<and> w_mgr w' = w_mgr w4 \<and> w_con w' = w_con w4
            \<and> al_sa (w_alg w') = (al_sa (w_alg w4))\<lparr>sa_dynamic_paras := (dyn_para w4)(idx := p4)\<rparr>)"
    using solve_sa_run[OF assms] by blast
  show ?thesis
  proof (cases "w' = w1")
    case False
    then obtain p2 w2 p3 w3 p4 w4 where 2: "do_fps_sync_sa idx m bits t w1 = Some (p2, w2)"
      and 3: "adjust_vsync_diff_sa idx m p2 w2 = Some (p3, w3)"
      and 4: "fs_alg_sa_update_pred_fl_and_ts_bias idx p3 w3 = Some (p4, w4)"
      and w': "w_mgr w' = w_mgr w4" "w_con w' = w_con w4"
        "al_sa (w_alg w') = (al_sa (w_alg w4))\<lparr>sa_dynamic_paras := (dyn_para w4)(idx := p4)\<rparr>"
      using run by blast
    have "fi_max_fl_lc (fs_inst w2 idx) = fi_max_fl_lc (fs_inst w1 idx)"
      using inst_conf_sel(5)[OF alg_conf_sel(1)[OF sa_conf_do_fps[OF 2]]] .
    then have le: "fi_output_fl_lc (fs_inst w2 idx) \<le> fi_max_fl_lc (fs_inst w2 idx)"
      using do_fps_sa_result(1)[OF 2] by simp
    have "sa_master_idx (al_sa (w_alg w')) = m"
      using w'(3) update_pred_result(2)[OF 4] adjust_sa_result(2)[OF 3 le] do_fps_sa_result(2)[OF 2] w1(4)
      by simp
    moreover have "w_mgr w4 = w_mgr w3" "w_con w4 = w_con w3"
      using alg_conf_sel(5,6)[OF sa_conf_update_pred[OF 4]] by simp_all
    moreover have "w_mgr w2 = w_mgr w1" "w_con w2 = w_con w1"
      using alg_conf_sel(5,6)[OF sa_conf_do_fps[OF 2]] by simp_all
    ultimately show ?thesis using w'(1,2) adjust_sa_mgr[OF 3] w1(2,3) by simp
  qed (use w1 in simp)
qed

lemma solve_sa_result:
  assumes "fs_alg_solve_frame_length_sa idx m bits fl w = Some (r, fl', w')"
  shows "r = (if fi_is_nonvalid_ts (fs_inst w idx) \<noteq> 0 then 1 else 0)
    \<and> (r \<noteq> 0 \<longrightarrow> fl' = fl \<and> fs_inst w' = fs_inst w \<and> dyn_para w' = dyn_para w)
    \<and> (r = 0 \<longrightarrow> fl' = fi_output_fl_lc (fs_inst w' idx) \<and> fl' \<le> fi_max_fl_lc (fs_inst w idx)
         \<and> dp_magic_num (dyn_para w' idx) = sa_magic_num (al_sa (w_alg w)) idx + 1
         \<and> dp_master_idx (dyn_para w' idx) = m
         \<and> dp_last_ts (dyn_para w' idx) = fi_last_vts (fs_inst w idx))
    \<and> sa_magic_num (al_sa (w_alg w')) idx = sa_magic_num (al_sa (w_alg w)) idx + 1
    \<and> (\<forall>j. j \<noteq> idx \<longrightarrow> dyn_para w' j = dyn_para w j)
    \<and> sa_master_idx (al_sa (w_alg w')) = m \<and> sa_conf w' = sa_conf w"
proof -
  obtain w1 t where w1: "fs_inst w1 = fs_inst w" "dyn_para w1 = dyn_para w"
      "sa_master_idx (al_sa (w_alg w1)) = m"
      "sa_magic_num (al_sa (w_alg w1)) idx = sa_magic_num (al_sa (w_alg w)) idx + 1"
      "dp_magic_num t = sa_magic_num (al_sa (w_alg w)) idx + 1" "dp_master_idx t = m"
    and run: "fi_is_nonvalid_ts (fs_inst w idx) \<noteq> 0 \<and> r = 1 \<and> fl' = fl \<and> w' = w1
       \<or> fi_is_nonvalid_ts (fs_inst w idx) = 0 \<and> r = 0 \<and> dp_last_ts t = fi_last_vts (fs_inst w idx)
         \<and> (\<exists>p2 w2 p3 w3 p4 w4. do_fps_sync_sa idx m bits t w1 = Some (p2, w2)
            \<and> adjust_vsync_diff_sa idx m p2 w2 = Some (p3, w3) \<and> fl' = fi_output_fl_lc (fs_inst w3 idx)
            \<and> fs_alg_sa_update_pred_fl_and_ts_bias idx p3 w3 = Some (p4, w4) \<and> fs_inst w' = fs_inst w4
            \<and> al_sa (w_alg w') = (al_sa (w_alg w4))\<lparr>sa_dynamic_paras := (dyn_para w4)(idx := p4)\<rparr>)"
    using solve_sa_run[OF assms] by blast
  show ?thesis
  proof (cases "fi_is_nonvalid_ts (fs_inst w idx) = 0")
    case False
    then show ?thesis using run w1 sa_conf_solve[OF assms] by auto
  next
    case True
    then obtain p2 w2 p3 w3 p4 w4 where r: "r = 0" "dp_last_ts t = fi_last_vts (fs_inst w idx)"
      and 2: "do_fps_sync_sa idx m bits t w1 = Some (p2, w2)"
      and 3: "adjust_vsync_diff_sa idx m p2 w2 = Some (p3, w3)"
      and fl: "fl' = fi_output_fl_lc (fs_inst w3 idx)"
      and 4: "fs_alg_sa_update_pred_fl_and_ts_bias idx p3 w3 = Some (p4, w4)"
      and w': "fs_inst w' = fs_inst w4"
        "al_sa (w_alg w') = (al_sa (w_alg w4))\<lparr>sa_dynamic_paras := (dyn_para w4)(idx := p4)\<rparr>"
      using run by blast
    note r2 = do_fps_sa_result[OF 2]
    have mx: "fi_max_fl_lc (fs_inst w2 idx) = fi_max_fl_lc (fs_inst w idx)"
      using inst_conf_sel(5)[OF alg_conf_sel(1)[OF sa_conf_do_fps[OF 2]]] w1(1) by simp
    have le: "fi_output_fl_lc (fs_inst w2 idx) \<le> fi_max_fl_lc (fs_inst w2 idx)"
      using r2(1) mx w1(1) by simp
    note r3 = adjust_sa_result[OF 3 le] and r4 = update_pred_result[OF 4]
    have "fl' = fi_output_fl_lc (fs_inst w' idx)" "fl' \<le> fi_max_fl_lc (fs_inst w idx)"
      using fl w'(1) r4(1) r3(1) mx by simp_all
    moreover have "al_sa (w_alg w') = (al_sa (w_alg w1))\<lparr>sa_dynamic_paras := (dyn_para w)(idx := p4)\<rparr>"
      using w'(2) r4(2) r3(2) r2(2) w1(2) by simp
    ultimately show ?thesis
      using r True w1 r2 r3 r4 sa_conf_solve[OF assms] by simp
  qed
qed

text \<open>C26. A stand-alone run reports an invalid timestamp without touching any frame length;
  otherwise it returns the sensor's new frame length, never above the sensor's maximum, and
  publishes parameters carrying the next serial number, the master used and the timestamp of this
  run. In both cases no other sensor's published parameters change, and neither does the
  configuration of any sensor, the recorders' or the hardware table's, nor is a call made. The
  manager changes only in its master, to this sensor, and only when it ran as a slave under the
  adaptive-master method; the console changes only in its vsync-listening flag, and only when
  the sensor ran as a slave and listening is left to the driver.\<close>

theorem solve_sa_correct:
  assumes "fs_alg_solve_frame_length_sa idx m bits fl w = Some (r, fl', w')"
  shows "r = (if fi_is_nonvalid_ts (fs_inst w idx) \<noteq> 0 then 1 else 0)
    \<and> (r \<noteq> 0 \<longrightarrow> fl' = fl \<and> fs_inst w' = fs_inst w \<and> dyn_para w' = dyn_para w)
    \<and> (r = 0 \<longrightarrow> fl' = fi_output_fl_lc (fs_inst w' idx) \<and> fl' \<le> fi_max_fl_lc (fs_inst w idx)
         \<and> dp_magic_num (dyn_para w' idx) = sa_magic_num (al_sa (w_alg w)) idx + 1
         \<and> dp_master_idx (dyn_para w' idx) = m
         \<and> dp_last_ts (dyn_para w' idx) = fi_last_vts (fs_inst w idx))
    \<and> sa_magic_num (al_sa (w_alg w')) idx = sa_magic_num (al_sa (w_alg w)) idx + 1
    \<and> (\<forall>j. j \<noteq> idx \<longrightarrow> dyn_para w' j = dyn_para w j)
    \<and> sa_master_idx (al_sa (w_alg w')) = m \<and> sa_conf w' = sa_conf w
    \<and> (w_mgr w' = w_mgr w \<or> w_mgr w' = (w_mgr w)\<lparr>mg_master_idx := idx\<rparr>
          \<and> idx \<noteq> m \<and> mg_sa_method (w_mgr w) = FS_SA_ADAPTIVE_MASTER)
    \<and> (w_con w' = w_con w \<or> (\<exists>x. w_con w' = (w_con w)\<lparr>co_listen_vsync_alg := x\<rparr>)
          \<and> idx \<noteq> m \<and> 0 < fs_con_get_usr_auto_listen_ext_vsync (w_con w))"
  using solve_sa_result[OF assms] solve_sa_mgr[OF assms] by blast

theorem solve_sa_correct_witness:
  "\<exists>r fl' w'. fs_alg_solve_frame_length_sa 0 0 1 0 demo_world = Some (r, fl', w') \<and> r = 0
     \<and> fl' \<le> 60000 \<and> dp_magic_num (dyn_para w' 0) = 1"
proof -
  have "inst_ready (fs_inst demo_world 0)" by (simp add: inst_ready_def recs_ready_def)
  from solve_sa_total[OF this, of 0] obtain r fl' w' where
    run: "fs_alg_solve_frame_length_sa 0 0 1 0 demo_world = Some (r, fl', w')" by blast
  have 0: "fi_is_nonvalid_ts (fs_inst demo_world 0) = 0" "sa_magic_num (al_sa (w_alg demo_world)) 0 = 0"
    "fi_max_fl_lc (fs_inst demo_world 0) = 60000"
    by (simp_all add: demo_sensor_def zero_fs_inst_def demo_world_def zero_world_def)
  have "r = 0" "fl' \<le> 60000" "dp_magic_num (dyn_para w' 0) = 1"
    using solve_sa_correct[OF run] unfolding 0 by (auto simp del: demo_world_sel)
  with run show ?thesis by blast
qed

end
