(* ===== verification/FsPairSync.thy ===== *)
theory FsPairSync
  imports FsAlgo
begin

text \<open>
  What the pair-trigger algorithm of \<open>frame_sync_algo.c\<close> guarantees: \<open>do_fps_sync\<close> gives the
  solved sensors one common frame length, and \<open>adjust_vsync_diff\<close> extends it so that their
  next vsyncs fall on one point in time.
\<close>

subsection \<open>Frame-rate synchronisation\<close>

lemma ofold_max:
  assumes "ofold (\<lambda>i t. do { _ \<leftarrow> g i; Some (if t < f i then f i else t) }) xs a = Some (T :: u32)"
  shows "a \<le> T" and "\<forall>i \<in> set xs. f i \<le> T" and "T = a \<or> T \<in> f ` set xs"
  using assms
proof (induction xs arbitrary: a)
  case (Cons x xs)
  { case 1 then show ?case using Cons.IH(1) by (fastforce simp: run_bind split: if_splits) }
  { case 2 then show ?case using Cons.IH(1,2) by (fastforce simp: run_bind split: if_splits) }
  { case 3 then show ?case using Cons.IH(3) by (fastforce simp: run_bind split: if_splits) }
qed simp_all

lemma set_fl_us_Some:
  assumes "set_fl_us i us v = Some v'" shows "v' = upd_inst i (with_fl us) v"
  using assms by (simp add: set_fl_us_eq split: if_splits)

text \<open>C30. After frame-rate synchronisation of distinct sensors the common target is the largest
  of their minimum frame lengths; each runs at the target, unless the target exceeds its
  maximum, which it then runs at; no other sensor changes.\<close>

theorem do_fps_sync_correct:
  assumes "do_fps_sync True idxs w = Some w'" and "distinct idxs" and "idxs \<noteq> []"
  shows "let T = al_target_min_fl_us (w_alg w') in
    (\<forall>i \<in> set idxs. sensor_min_fl_us i w \<le> T)
    \<and> (T = 0 \<or> T \<in> (\<lambda>i. sensor_min_fl_us i w) ` set idxs)
    \<and> (\<forall>i. fs_inst w' i = (if i \<in> set idxs then with_fl T (fs_inst w i) else fs_inst w i))
    \<and> (\<forall>i \<in> set idxs. fi_output_fl_lc (fs_inst w' i) \<le> fi_max_fl_lc (fs_inst w i))
    \<and> alg_conf w' = alg_conf w"
proof -
  from assms(1) obtain T v where T: "ofold (\<lambda>idx target. do {
            _ \<leftarrow> read_fl w (rs_framelength_lc (fi_recs (fs_inst w idx) 0));
            Some (if target < sensor_min_fl_us idx w then sensor_min_fl_us idx w else target)
          }) idxs 0 = Some T"
    and v: "ofold (\<lambda>idx. set_fl_us idx T) idxs w = Some v"
    and w': "w' = v\<lparr>w_alg := (w_alg v)\<lparr>al_target_min_fl_us := T\<rparr>\<rparr>"
    by (auto simp: do_fps_sync_def run_bind)
  have inst: "fs_inst w' i = (if i \<in> set idxs then with_fl T (fs_inst w i) else fs_inst w i)" for i
    using ofold_upd_inst(1)[OF v assms(2), of "\<lambda>_. True" "\<lambda>_. with_fl T"]
    by (simp add: w' set_fl_us_Some)
  show ?thesis
    using ofold_max[OF T] inst alg_conf_do_fps_sync[OF assms(1)]
    by (auto simp: Let_def w' capped_def not_less)
qed

theorem do_fps_sync_correct_witness:
  "\<exists>w'. do_fps_sync True [0, 1] demo_world = Some w' \<and> 40100 \<le> al_target_min_fl_us (w_alg w')"
proof -
  obtain w' where w': "do_fps_sync True [0, 1] demo_world = Some w'"
    by (simp add: do_fps_sync_def set_fl_us_eq)
  have "sensor_min_fl_us 1 demo_world = 40100"
    by (simp add: sensor_min_fl_us_def calc_min_fl_lc_def convert2TotalTime_def Let_def)
  with do_fps_sync_correct[OF w'] w' show ?thesis by (simp add: Let_def)
qed

subsection \<open>The algorithm does not fail\<close>

lemma ofold_ready_total:
  assumes "\<And>i v. inst_ready (fs_inst v i) \<Longrightarrow> \<exists>v'. f i v = Some v'"
    and "\<And>i v v'. f i v = Some v' \<Longrightarrow> alg_conf v' = alg_conf v"
    and "\<forall>i \<in> set idxs. inst_ready (fs_inst w i)"
  shows "\<exists>w'. ofold f idxs w = Some w' \<and> alg_conf w' = alg_conf w"
proof (rule ofold_total[of "\<lambda>v. alg_conf v = alg_conf w"])
  fix i v assume i: "i \<in> set idxs" and v: "alg_conf v = alg_conf w"
  then have "inst_ready (fs_inst v i)" using assms(3) alg_conf_ready[OF v] by simp
  with assms(1) obtain v' where "f i v = Some v'" by blast
  with assms(2)[OF this] v show "\<exists>t. f i v = Some t \<and> alg_conf t = alg_conf w" by auto
qed simp

lemma set_fl_us_total: "inst_ready (fs_inst w i) \<Longrightarrow> \<exists>w'. set_fl_us i us w = Some w'"
  by (simp add: set_fl_us_eq inst_ready_def)

lemma do_fps_sync_total:
  assumes "\<forall>i \<in> set idxs. inst_ready (fs_inst w i)"
  shows "\<exists>w'. do_fps_sync a idxs w = Some w'"
proof (cases a)
  case True
  have "\<exists>T. ofold (\<lambda>idx target. do {
            _ \<leftarrow> read_fl w (rs_framelength_lc (fi_recs (fs_inst w idx) 0));
            Some (if target < sensor_min_fl_us idx w then sensor_min_fl_us idx w else target)
          }) idxs 0 = Some T \<and> True"
  proof (rule ofold_total)
    fix i t assume "i \<in> set idxs"
    with assms have "recs_ready (fs_inst w i)" by (blast dest: inst_readyD(1))
    then obtain p b where "rs_framelength_lc (fi_recs (fs_inst w i) 0) = Some p"
      using recs_ready_recs[of w i 0] by blast
    then show "\<exists>t'. (do { _ \<leftarrow> read_fl w (rs_framelength_lc (fi_recs (fs_inst w i) 0));
            Some (if t < sensor_min_fl_us i w then sensor_min_fl_us i w else t) }) = Some t' \<and> True"
      by (cases p) simp
  qed simp
  then obtain T where T: "ofold (\<lambda>idx target. do {
            _ \<leftarrow> read_fl w (rs_framelength_lc (fi_recs (fs_inst w idx) 0));
            Some (if target < sensor_min_fl_us idx w then sensor_min_fl_us idx w else target)
          }) idxs 0 = Some T" by blast
  have "\<exists>w'. ofold (\<lambda>idx. set_fl_us idx T) idxs w = Some w' \<and> alg_conf w' = alg_conf w"
    by (rule ofold_ready_total[OF _ _ assms]) (auto dest: set_fl_us_total alg_conf_set_fl_us)
  with T show ?thesis by (auto simp: do_fps_sync_def)
qed (simp add: do_fps_sync_def)

lemma max_flicker_scan_none:
  assumes "\<forall>i \<in> set idxs. fi_flicker_en (fs_inst w i) = 0"
  shows "fst (max_flicker_scan idxs w) = 0"
proof -
  have "fold (\<lambda>idx (en, mx).
       if fi_flicker_en (fs_inst w idx) = 0 then (en, mx)
       else (en OR fi_flicker_en (fs_inst w idx),
             if flicker_vdiff_of idx w = 0 then mx
             else if mx < flicker_vdiff_of idx w then flicker_vdiff_of idx w else mx)) idxs p = p" for p
    using assms by (induction idxs arbitrary: p) (simp_all add: split_beta)
  then show ?thesis by (simp add: max_flicker_scan_def)
qed

lemma adjust_vsync_diff_total:
  assumes "\<forall>i \<in> set idxs. inst_ready (fs_inst w i) \<and> fi_flicker_en (fs_inst w i) = 0"
  shows "\<exists>w'. adjust_vsync_diff a idxs w = Some w'"
proof -
  have ready: "\<forall>i \<in> set idxs. inst_ready (fs_inst v i)" if "alg_conf v = alg_conf w" for v
    using assms alg_conf_ready[OF that] by simp
  obtain w2 where w2: "ofold predict_vts idxs (calc_vdiff idxs w) = Some w2" "alg_conf w2 = alg_conf w"
    using ofold_ready_total[of predict_vts idxs "calc_vdiff idxs w"] predict_vts_total
      alg_conf_predict_vts ready[of "calc_vdiff idxs w"] by auto
  have "\<exists>w3. ofold (extend_to_target (calc_target_vts idxs w2)) idxs w2 = Some w3
      \<and> alg_conf w3 = alg_conf w2"
    by (rule ofold_ready_total)
      (auto simp: extend_to_target_def ready[OF w2(2)] dest: set_fl_us_total alg_conf_set_fl_us)
  then obtain w3 where w3: "ofold (extend_to_target (calc_target_vts idxs w2)) idxs w2 = Some w3"
    "alg_conf w3 = alg_conf w" using w2(2) by auto
  have "\<forall>i \<in> set idxs. fi_flicker_en (fs_inst w3 i) = 0"
    using assms alg_conf_sel(1)[OF w3(2), THEN inst_conf_sel(15)] by simp
  then have "fst (max_flicker_scan idxs w3) = 0" by (rule max_flicker_scan_none)
  with w2 w3 show ?thesis by (simp add: adjust_vsync_diff_def Let_def split_beta)
qed

subsection \<open>Vsync alignment\<close>

lemma max_fold:
  fixes f :: "'i \<Rightarrow> u32"
  shows "a \<le> fold (\<lambda>i t. if t < f i then f i else t) xs a
    \<and> (\<forall>i \<in> set xs. f i \<le> fold (\<lambda>i t. if t < f i then f i else t) xs a)
    \<and> (fold (\<lambda>i t. if t < f i then f i else t) xs a = a
       \<or> fold (\<lambda>i t. if t < f i then f i else t) xs a \<in> f ` set xs)"
proof (induction xs arbitrary: a)
  case (Cons x xs)
  show ?case using Cons.IH[of "if a < f x then f x else a"]
    by (auto split: if_splits intro: order_trans less_imp_le)
qed simp

definition pred_vdiff_at :: "u32 \<Rightarrow> u32 \<Rightarrow> FrameSyncInst \<Rightarrow> u32" where
  "pred_vdiff_at target_vts target_min s =
     (let d = target_vts - fi_vdiff s in
      if check_timing_critical_section d target_min \<noteq> 0 \<or> target_min \<le> d then 0 else d)"

lemma extend_to_target_Some:
  assumes "extend_to_target t i v = Some v'" and "al_target_min_fl_us (w_alg v) = tm"
  shows "v' = upd_inst i (\<lambda>s. with_fl (fi_output_fl_us s + pred_vdiff_at t tm s) s) v"
  using set_fl_us_Some[OF assms(1)[unfolded extend_to_target_def]] assms(2)
  by (auto simp: pred_vdiff_of_def pred_vdiff_at_def Let_def intro!: upd_inst_cong)

lemma add_flicker_Some:
  assumes "add_flicker m i v = Some v'"
  shows "v' = upd_inst i (\<lambda>s. with_fl (fi_output_fl_us s + m) s) v"
  using assms
  by (auto simp: add_flicker_def run_bind dest!: set_fl_us_Some intro!: upd_inst_cong split: if_splits)

text \<open>
  The prediction of the next vsync changes nothing of the frame lengths.
\<close>

definition fl_part :: "fs_world \<Rightarrow> (u32 \<Rightarrow> u32 \<times> u32) \<times> u32" where
  "fl_part w = (\<lambda>i. (fi_output_fl_us (fs_inst w i), fi_output_fl_lc (fs_inst w i)),
     al_target_min_fl_us (w_alg w))"

lemma fl_part_upd:
  assumes "fi_output_fl_us (f (fs_inst w i)) = fi_output_fl_us (fs_inst w i)"
    and "fi_output_fl_lc (f (fs_inst w i)) = fi_output_fl_lc (fs_inst w i)"
  shows "fl_part (upd_inst i f w) = fl_part w"
  using assms by (auto simp: fl_part_def)

lemma fl_part_predict:
  assumes "predict_vts i w = Some w'" shows "fl_part w' = fl_part w"
  using assms
  by (auto simp: predict_vts_def run_bind Let_def fl_part_upd calc_predicted_frame_length_def
        store_predicted_def split: if_splits)

lemma fl_part_ofold_predict:
  assumes "ofold predict_vts idxs w = Some w'" shows "fl_part w' = fl_part w"
  by (rule ofold_invariant[OF assms, of "\<lambda>v. fl_part v = fl_part w"]) (auto dest: fl_part_predict)

lemma fl_part_vtick_scan: "fl_part (snd (vtick_scan idxs mn w)) = fl_part w"
  by (induction idxs mn w rule: vtick_scan.induct) (simp_all add: fl_part_upd)

lemma fl_part_rebase: "fl_part (fold (rebase_vdiff m) idxs w) = fl_part w"
  by (induction idxs arbitrary: w) (simp_all add: rebase_vdiff_def Let_def fl_part_upd)

lemma fl_part_calc_vdiff: "fl_part (calc_vdiff idxs w) = fl_part w"
  by (simp add: calc_vdiff_def Let_def split_beta fl_part_rebase fl_part_vtick_scan)

text \<open>The two output stages: extend every sensor to the target, then add the flicker amount.\<close>

lemma extend_stage:
  assumes "ofold (extend_to_target t) idxs w = Some w'" and "distinct idxs"
  shows "fs_inst w' i = (if i \<in> set idxs
    then with_fl (fi_output_fl_us (fs_inst w i) + pred_vdiff_at t (al_target_min_fl_us (w_alg w)) (fs_inst w i))
           (fs_inst w i)
    else fs_inst w i)"
  by (rule ofold_upd_inst(1)[OF assms, of "\<lambda>v. al_target_min_fl_us (w_alg v) = al_target_min_fl_us (w_alg w)"])
    (auto dest: extend_to_target_Some)

lemma flicker_stage:
  assumes "ofold (add_flicker m) idxs w = Some w'" and "distinct idxs"
  shows "fs_inst w' i = (if i \<in> set idxs then with_fl (fi_output_fl_us (fs_inst w i) + m) (fs_inst w i)
    else fs_inst w i)"
  by (rule ofold_upd_inst(1)[OF assms, of "\<lambda>_. True"]) (auto dest: add_flicker_Some)

text \<open>The anti-flicker amount: the largest step to an unflickering length that a sensor with
  anti-flicker on needs.\<close>

lemma max_flicker_scan_max:
  "(fst (max_flicker_scan idxs w) = 0 \<longleftrightarrow> (\<forall>i \<in> set idxs. fi_flicker_en (fs_inst w i) = 0))
   \<and> (\<forall>i \<in> set idxs. fi_flicker_en (fs_inst w i) \<noteq> 0 \<longrightarrow> flicker_vdiff_of i w \<le> snd (max_flicker_scan idxs w))
   \<and> (snd (max_flicker_scan idxs w) = 0
      \<or> (\<exists>i \<in> set idxs. fi_flicker_en (fs_inst w i) \<noteq> 0 \<and> snd (max_flicker_scan idxs w) = flicker_vdiff_of i w))"
proof -
  define f where "f = (\<lambda>idx (en, mx). if fi_flicker_en (fs_inst w idx) = 0 then (en, mx)
       else (en OR fi_flicker_en (fs_inst w idx),
             if flicker_vdiff_of idx w = 0 then mx
             else if mx < flicker_vdiff_of idx w then flicker_vdiff_of idx w else mx))"
  have f: "fst (f i a) = fst a OR fi_flicker_en (fs_inst w i)"
    "snd (f i a) = (if fi_flicker_en (fs_inst w i) = 0 then snd a else max (snd a) (flicker_vdiff_of i w))" for i a
    by (auto simp: f_def split_beta max_def not_less word_gt_0 intro: antisym)
  have zero: "x OR y = 0 \<longleftrightarrow> x = 0 \<and> y = 0" for x y :: u32 by (auto simp: or_eq_0_iff)
  have "(fst (fold f xs a) = 0 \<longleftrightarrow> fst a = 0 \<and> (\<forall>i \<in> set xs. fi_flicker_en (fs_inst w i) = 0))
    \<and> snd a \<le> snd (fold f xs a)
    \<and> (\<forall>i \<in> set xs. fi_flicker_en (fs_inst w i) \<noteq> 0 \<longrightarrow> flicker_vdiff_of i w \<le> snd (fold f xs a))
    \<and> (snd (fold f xs a) = snd a
       \<or> (\<exists>i \<in> set xs. fi_flicker_en (fs_inst w i) \<noteq> 0 \<and> snd (fold f xs a) = flicker_vdiff_of i w))" for xs a
  proof (induction xs arbitrary: a)
    case (Cons x xs)
    show ?case using Cons.IH[of "f x a"] by (auto simp: f zero max_def split: if_splits intro: order_trans)
  qed simp
  from this[of idxs "(0, 0)"] show ?thesis by (simp add: max_flicker_scan_def f_def)
qed

text \<open>C29. Vsync alignment: there is one target time \<open>T\<close>, the latest predicted vsync of the solved
  sensors, and one flicker amount \<open>F\<close>, the largest step from an extended frame length to the next
  unflickering one among the sensors that ask for anti-flicker (so zero when none asks), such that
  every sensor that is neither in the timing-critical section nor limited by its maximum ends with
  predicted vsync plus frame length equal to \<open>T\<close> plus its old frame length plus \<open>F\<close>: sensors that
  started with a common frame length align. A sensor in the critical section, or too far away, is
  extended by \<open>F\<close> only.\<close>

theorem adjust_vsync_diff_aligns:
  assumes "adjust_vsync_diff True idxs w = Some w'" and "distinct idxs"
    and "check_vsync_valid idxs w \<noteq> 0"
  shows "\<exists>T F. (\<forall>i \<in> set idxs. fi_vdiff (fs_inst w' i) \<le> T)
    \<and> (T = 0 \<or> (\<exists>i \<in> set idxs. T = fi_vdiff (fs_inst w' i)))
    \<and> (let tm = al_target_min_fl_us (w_alg w); d = \<lambda>i. T - fi_vdiff (fs_inst w' i);
          e = \<lambda>i. if check_timing_critical_section (d i) tm = 0 \<and> d i < tm then d i else 0;
          x = \<lambda>i. fi_output_fl_us (with_fl (fi_output_fl_us (fs_inst w i) + e i) (fs_inst w i));
          step = \<lambda>i. get_anti_flicker_fl (x i) - x i
        in (\<forall>i \<in> set idxs. fi_flicker_en (fs_inst w i) \<noteq> 0 \<longrightarrow> step i \<le> F)
         \<and> (F = 0 \<or> (\<exists>i \<in> set idxs. fi_flicker_en (fs_inst w i) \<noteq> 0 \<and> F = step i))
         \<and> (\<forall>i \<in> set idxs. let s = fs_inst w i in
              \<not> capped s (fi_output_fl_us s + e i) \<and> \<not> capped s (fi_output_fl_us s + e i + F)
              \<longrightarrow> fi_output_fl_us (fs_inst w' i) = fi_output_fl_us s + e i + F
                  \<and> (e i = d i \<longrightarrow> fi_vdiff (fs_inst w' i) + fi_output_fl_us (fs_inst w' i)
                                = T + fi_output_fl_us s + F)))
    \<and> (\<forall>i. i \<notin> set idxs \<longrightarrow> fi_output_fl_us (fs_inst w' i) = fi_output_fl_us (fs_inst w i))"
proof -
  define w1 where "w1 = calc_vdiff idxs w"
  from assms(1,3) obtain w2 w3 where w2: "ofold predict_vts idxs w1 = Some w2"
    and w3: "ofold (extend_to_target (calc_target_vts idxs w2)) idxs w2 = Some w3"
    and w4: "if fst (max_flicker_scan idxs w3) = 0 then w' = w3
      else ofold (add_flicker (snd (max_flicker_scan idxs w3))) idxs w3 = Some w'"
    by (auto simp: adjust_vsync_diff_def run_bind Let_def w1_def split_beta split: if_splits)
  define T where "T = calc_target_vts idxs w2"
  define F where "F = (if fst (max_flicker_scan idxs w3) = 0 then 0 else snd (max_flicker_scan idxs w3))"
  have conf: "inst_conf (fs_inst w2 i) = inst_conf (fs_inst w i)" for i
  proof (rule alg_conf_sel(1))
    show "alg_conf w2 = alg_conf w"
      using ofold_alg_conf[OF w2 alg_conf_predict_vts] by (simp add: w1_def)
  qed
  have part: "fl_part w2 = fl_part w"
    using fl_part_ofold_predict[OF w2] by (simp add: w1_def fl_part_calc_vdiff)
  have out2: "fi_output_fl_us (fs_inst w2 i) = fi_output_fl_us (fs_inst w i)"
    and tm2: "al_target_min_fl_us (w_alg w2) = al_target_min_fl_us (w_alg w)" for i
    using part by (auto simp: fl_part_def dest: fun_cong)
  have cap2: "capped (fs_inst w2 i) = capped (fs_inst w i)" for i
    using inst_conf_sel(5,6)[OF conf[of i]] by (intro ext) (simp add: capped_def lines_of_def)
  note s3 = extend_stage[OF w3 assms(2), folded T_def]
  have v4: "fi_vdiff (fs_inst w' i) = fi_vdiff (fs_inst w2 i)" for i
    using w4 s3[of i] flicker_stage[OF _ assms(2), of _ w3 w' i] by (auto split: if_splits)
  have o4: "fi_output_fl_us (fs_inst w' i) = fi_output_fl_us s + e + F"
    if "i \<in> set idxs" "s = fs_inst w i" "e = pred_vdiff_at T (al_target_min_fl_us (w_alg w)) (fs_inst w2 i)"
      "\<not> capped s (fi_output_fl_us s + e)" "\<not> capped s (fi_output_fl_us s + e + F)" for i s e
    using w4 s3[of i] flicker_stage[OF _ assms(2), of _ w3 w' i] that
    by (auto simp: out2 tm2 cap2 F_def split: if_splits)
  have n4: "fi_output_fl_us (fs_inst w' i) = fi_output_fl_us (fs_inst w i)" if "i \<notin> set idxs" for i
    using w4 s3[of i] flicker_stage[OF _ assms(2), of _ w3 w' i] that
    by (auto simp: out2 split: if_splits)
  have T: "\<forall>i \<in> set idxs. fi_vdiff (fs_inst w' i) \<le> T"
    "T = 0 \<or> (\<exists>i \<in> set idxs. T = fi_vdiff (fs_inst w' i))"
    using max_fold[of 0 "\<lambda>i. fi_vdiff (fs_inst w2 i)" idxs]
    by (auto simp: T_def calc_target_vts_def v4)
  define tm where "tm = al_target_min_fl_us (w_alg w)"
  define d where "d = (\<lambda>i. T - fi_vdiff (fs_inst w' i))"
  define e where "e = (\<lambda>i. if check_timing_critical_section (d i) tm = 0 \<and> d i < tm then d i else 0)"
  define x where "x = (\<lambda>i. fi_output_fl_us (with_fl (fi_output_fl_us (fs_inst w i) + e i) (fs_inst w i)))"
  have e: "pred_vdiff_at T tm (fs_inst w2 i) = e i" for i
    by (auto simp: pred_vdiff_at_def Let_def e_def d_def v4)
  have x3: "fi_output_fl_us (fs_inst w3 i) = x i" if "i \<in> set idxs" for i
    using s3[of i] that e[of i] inst_conf_sel(5,6)[OF conf[of i]] by (simp add: x_def out2 tm2 cap2 tm_def)
  have flk: "fi_flicker_en (fs_inst w3 i) = fi_flicker_en (fs_inst w i)" if "i \<in> set idxs" for i
    using s3[of i] that inst_conf_sel(15)[OF conf[of i]] by (simp add: with_fl_def)
  have step: "flicker_vdiff_of i w3 = get_anti_flicker_fl (x i) - x i" if "i \<in> set idxs" for i
    unfolding flicker_vdiff_of_def x3[OF that] ..
  note scan = max_flicker_scan_max[of idxs w3]
  have F: "\<forall>i \<in> set idxs. fi_flicker_en (fs_inst w i) \<noteq> 0 \<longrightarrow> get_anti_flicker_fl (x i) - x i \<le> F"
    "F = 0 \<or> (\<exists>i \<in> set idxs. fi_flicker_en (fs_inst w i) \<noteq> 0 \<and> F = get_anti_flicker_fl (x i) - x i)"
    using scan flk step by (auto simp: F_def)
  have out: "\<forall>i \<in> set idxs. let s = fs_inst w i in
      \<not> capped s (fi_output_fl_us s + e i) \<and> \<not> capped s (fi_output_fl_us s + e i + F)
      \<longrightarrow> fi_output_fl_us (fs_inst w' i) = fi_output_fl_us s + e i + F
          \<and> (e i = d i \<longrightarrow> fi_vdiff (fs_inst w' i) + fi_output_fl_us (fs_inst w' i) = T + fi_output_fl_us s + F)"
  proof
    fix i assume i: "i \<in> set idxs"
    show "let s = fs_inst w i in
      \<not> capped s (fi_output_fl_us s + e i) \<and> \<not> capped s (fi_output_fl_us s + e i + F)
      \<longrightarrow> fi_output_fl_us (fs_inst w' i) = fi_output_fl_us s + e i + F
          \<and> (e i = d i \<longrightarrow> fi_vdiff (fs_inst w' i) + fi_output_fl_us (fs_inst w' i) = T + fi_output_fl_us s + F)"
      using o4[OF i refl, of "e i"] e[of i] by (auto simp: Let_def tm_def d_def)
  qed
  have keep: "\<forall>i. i \<notin> set idxs \<longrightarrow> fi_output_fl_us (fs_inst w' i) = fi_output_fl_us (fs_inst w i)"
    using n4 by blast
  show ?thesis
    using T F out keep unfolding Let_def x_def e_def d_def tm_def
    by - (rule exI[of _ T], rule exI[of _ F], intro conjI; assumption)
qed

definition demo_vsync_world :: fs_world where
  "demo_vsync_world =
     (let w = upd_inst 1 (\<lambda>s. s\<lparr>fi_last_vts := 70000, fi_output_fl_us := 40100\<rparr>)
                (upd_inst 0 (\<lambda>s. s\<lparr>fi_last_vts := 60000, fi_output_fl_us := 40100\<rparr>) demo_world)
      in w\<lparr>w_alg := (w_alg w)\<lparr>al_tick_factor := 1, al_cur_tick := 90000,
           al_target_min_fl_us := 40100\<rparr>\<rparr>)"

theorem adjust_vsync_diff_aligns_witness:
  "\<exists>w' T. adjust_vsync_diff True [0, 1] demo_vsync_world = Some w'
     \<and> fi_vdiff (fs_inst w' 0) \<le> T \<and> fi_vdiff (fs_inst w' 1) \<le> T"
proof -
  have valid: "check_vsync_valid [0, 1] demo_vsync_world \<noteq> 0"
    by (simp add: check_vsync_valid_def demo_vsync_world_def Let_def)
  have "\<forall>i \<in> set [0, 1]. inst_ready (fs_inst demo_vsync_world i)
      \<and> fi_flicker_en (fs_inst demo_vsync_world i) = 0"
    by (simp add: demo_vsync_world_def Let_def inst_ready_def recs_ready_def demo_sensor_def zero_fs_inst_def)
  from adjust_vsync_diff_total[OF this] obtain w' where
    w': "adjust_vsync_diff True [0, 1] demo_vsync_world = Some w'" by blast
  from adjust_vsync_diff_aligns[OF w' _ valid] obtain T where
    "\<forall>i \<in> set [0, 1]. fi_vdiff (fs_inst w' i) \<le> T" by fastforce
  with w' show ?thesis by auto
qed

end
