(* ===== verification/HwSync.thy ===== *)
theory HwSync
  imports FsAlgo
begin

text \<open>
  \<open>hw_sensor_sync_algo.c\<close> and the customisable calculator \<open>custom/custom_hw_sync.c\<close>: sensors
  that synchronise in hardware (a master drives its slaves) get frame lengths of one common time.
\<close>

subsection \<open>Definitions\<close>

definition SENSOR_MASTER_SYNC_MODE :: u32 where "SENSOR_MASTER_SYNC_MODE = 1"
definition SENSOR_SLAVE_SYNC_MODE :: u32 where "SENSOR_SLAVE_SYNC_MODE = 2"

datatype SENSOR_SYNC_MODE = SENSOR_SYNC_NONE | SENSOR_SYNC_MASTER | SENSOR_SYNC_SLAVE
datatype SENSOR_FL_EFFECT_TYPE = SENSOR_N_1 | SENSOR_N_2

record SyncSensorPara =
  sp_sensor_idx :: u32
  sp_sensor_type :: SENSOR_FL_EFFECT_TYPE
  sp_sync_mode :: SENSOR_SYNC_MODE
  sp_line_time_in_ns :: u32
  sp_shutter_lc :: u32
  sp_min_fl_lc :: u32
  sp_sensor_margin_lc :: u32
  sp_out_fl_lc :: u32

definition upd_hw :: "u32 \<Rightarrow> (HwSyncSensorInfo \<Rightarrow> HwSyncSensorInfo) \<Rightarrow> fs_world \<Rightarrow> fs_world" where
  "upd_hw idx f w = w\<lparr>w_hw := (w_hw w)(idx := f (w_hw w idx))\<rparr>"

definition hw_fs_alg_set_streaming_st_data :: "u32 \<Rightarrow> fs_streaming_st \<Rightarrow> fs_world \<Rightarrow> fs_world" where
  "hw_fs_alg_set_streaming_st_data idx pData w = upd_hw idx (\<lambda>s. s\<lparr>hw_sensor_id := ss_sensor_id pData,
     hw_sensor_idx := ss_sensor_idx pData, hw_fl_active_delay := ss_fl_active_delay pData,
     hw_sync_mode := ss_sync_mode pData\<rparr>) w"

definition hw_fs_alg_update_min_fl_lc :: "u32 \<Rightarrow> u32 \<Rightarrow> fs_world \<Rightarrow> fs_world" where
  "hw_fs_alg_update_min_fl_lc idx min_fl_lc w =
     (if hw_min_fl_lc (w_hw w idx) \<noteq> min_fl_lc
      then upd_hw idx (\<lambda>s. s\<lparr>hw_min_fl_lc := min_fl_lc\<rparr>) w else w)"

definition hw_fs_alg_set_perframe_st_data :: "u32 \<Rightarrow> fs_perframe_st \<Rightarrow> fs_world \<Rightarrow> fs_world" where
  "hw_fs_alg_set_perframe_st_data idx pData w = upd_hw idx (\<lambda>s. s\<lparr>hw_min_fl_lc := pf_min_fl_lc pData,
     hw_shutter_lc := pf_shutter_lc pData, hw_margin_lc := pf_margin_lc pData,
     hw_line_time_in_ns := pf_lineTimeInNs pData\<rparr>) w"

text \<open>The loop sets the flags (none, master, slave).\<close>

fun sync_mode_flags :: "HwSyncSensorInfo carray \<Rightarrow> u32 list \<Rightarrow> bool \<times> bool \<times> bool \<Rightarrow> bool \<times> bool \<times> bool" where
  "sync_mode_flags infos [] flags = flags"
| "sync_mode_flags infos (idx # idxs) (has_none, has_master, has_slave) =
     sync_mode_flags infos idxs
       (if hw_sync_mode (infos idx) = SENSOR_MASTER_SYNC_MODE then (has_none, True, has_slave)
        else if hw_sync_mode (infos idx) = SENSOR_SLAVE_SYNC_MODE then (has_none, has_master, True)
        else (True, has_master, has_slave))"

definition handle_by_hw_sensor_sync :: "u32 list \<Rightarrow> fs_world \<Rightarrow> bool" where
  "handle_by_hw_sensor_sync solveIdxs w =
     (let (has_none, has_master, has_slave) = sync_mode_flags (w_hw w) solveIdxs (False, False, False)
      in \<not> (has_none \<or> \<not> (has_master \<and> has_slave)))"

definition para_min_frame_time :: "SyncSensorPara \<Rightarrow> u32" where
  "para_min_frame_time para = convert2TotalTime (sp_line_time_in_ns para)
     (max (sp_shutter_lc para + sp_sensor_margin_lc para) (sp_min_fl_lc para))"

text \<open>The result is the array with the output frame lengths; \<open>None\<close> is a division by a zero
  line time.\<close>

definition custom_frame_time_calculator :: "SyncSensorPara list \<Rightarrow> SyncSensorPara list option" where
  "custom_frame_time_calculator paras =
     (let max_frame_time = fold (\<lambda>para mx. if mx < para_min_frame_time para then para_min_frame_time para
            else mx) paras 0
      in those (map (\<lambda>para. map_option (\<lambda>lc. para\<lparr>sp_out_fl_lc :=
             (if sp_sync_mode para = SENSOR_SYNC_MASTER then lc + 1 else lc)\<rparr>)
           (convert2LineCount (sp_line_time_in_ns para) max_frame_time)) paras))"

definition hw_para :: "u32 \<Rightarrow> fs_world \<Rightarrow> SyncSensorPara" where
  "hw_para idx w =
     (let s = w_hw w idx in
      \<lparr>sp_sensor_idx = hw_sensor_idx s,
       sp_sensor_type = (if hw_fl_active_delay s = 3 then SENSOR_N_2 else SENSOR_N_1),
       sp_sync_mode = (if hw_sync_mode s = SENSOR_MASTER_SYNC_MODE then SENSOR_SYNC_MASTER
         else if hw_sync_mode s = SENSOR_SLAVE_SYNC_MODE then SENSOR_SYNC_SLAVE else SENSOR_SYNC_NONE),
       sp_line_time_in_ns = hw_line_time_in_ns s, sp_shutter_lc = hw_shutter_lc s,
       sp_min_fl_lc = hw_min_fl_lc s, sp_sensor_margin_lc = hw_margin_lc s, sp_out_fl_lc = 0\<rparr>)"

text \<open>The results go to \<open>framelength_lc[i]\<close>, \<open>i\<close> the position in \<open>solveIdxs\<close>.\<close>

definition hw_fs_alg_solve_frame_length :: "u32 list \<Rightarrow> u32 carray \<Rightarrow> fs_world \<Rightarrow> (u32 \<times> u32 carray) option" where
  "hw_fs_alg_solve_frame_length solveIdxs framelength_lc w = do {
     paras \<leftarrow> custom_frame_time_calculator (map (\<lambda>idx. hw_para idx w) solveIdxs);
     Some (0, fold (\<lambda>(i, para) fl. fl(i := sp_out_fl_lc para))
                (zip (loop_idx (of_nat (length solveIdxs))) paras) framelength_lc)
   }"

lemma upd_hw_sel [simp]:
  "w_alg (upd_hw idx f w) = w_alg w" "w_recorder (upd_hw idx f w) = w_recorder w"
  "w_frm (upd_hw idx f w) = w_frm w" "w_con (upd_hw idx f w) = w_con w"
  "w_mgr (upd_hw idx f w) = w_mgr w" "w_cb_calls (upd_hw idx f w) = w_cb_calls w"
  "w_hw (upd_hw idx f w) j = (if j = idx then f (w_hw w idx) else w_hw w j)"
  by (simp_all add: upd_hw_def)

subsection \<open>Which groups the hardware handles\<close>

lemma sync_mode_flags_eq:
  "sync_mode_flags infos idxs (n, m, s) =
     (n \<or> (\<exists>i \<in> set idxs. hw_sync_mode (infos i) \<noteq> SENSOR_MASTER_SYNC_MODE
             \<and> hw_sync_mode (infos i) \<noteq> SENSOR_SLAVE_SYNC_MODE),
      m \<or> (\<exists>i \<in> set idxs. hw_sync_mode (infos i) = SENSOR_MASTER_SYNC_MODE),
      s \<or> (\<exists>i \<in> set idxs. hw_sync_mode (infos i) = SENSOR_SLAVE_SYNC_MODE))"
proof (induction idxs arbitrary: n m s)
  case (Cons i idxs)
  have "SENSOR_MASTER_SYNC_MODE \<noteq> SENSOR_SLAVE_SYNC_MODE"
    by (simp add: SENSOR_MASTER_SYNC_MODE_def SENSOR_SLAVE_SYNC_MODE_def)
  then show ?case by (auto simp: Cons.IH)
qed simp

lemma handle_by_hw_iff:
  "handle_by_hw_sensor_sync idxs w \<longleftrightarrow>
     (\<forall>i \<in> set idxs. hw_sync_mode (w_hw w i) \<in> {SENSOR_MASTER_SYNC_MODE, SENSOR_SLAVE_SYNC_MODE})
     \<and> (\<exists>i \<in> set idxs. hw_sync_mode (w_hw w i) = SENSOR_MASTER_SYNC_MODE)
     \<and> (\<exists>i \<in> set idxs. hw_sync_mode (w_hw w i) = SENSOR_SLAVE_SYNC_MODE)"
  by (auto simp: handle_by_hw_sensor_sync_def sync_mode_flags_eq)

text \<open>A single sensor is never handled by hardware sync: it cannot be master and slave.\<close>

lemma handle_by_hw_single [simp]: "\<not> handle_by_hw_sensor_sync [i] w"
  by (simp add: handle_by_hw_iff SENSOR_MASTER_SYNC_MODE_def SENSOR_SLAVE_SYNC_MODE_def)

subsection \<open>Frame lengths of a hardware-synchronised group\<close>

lemma those_map_nth:
  assumes "those (map f xs) = Some ys"
  shows "length ys = length xs \<and> (\<forall>k < length xs. f (xs ! k) = Some (ys ! k))"
  using assms
proof (induction xs arbitrary: ys)
  case (Cons x xs)
  then obtain z zs where "f x = Some z" "those (map f xs) = Some zs" "ys = z # zs"
    by (auto split: option.splits)
  with Cons.IH[of zs] show ?case by (auto simp: nth_Cons split: nat.split)
qed simp

lemma max_fold_word:
  fixes f :: "'i \<Rightarrow> u32"
  shows "a \<le> fold (\<lambda>i t. if t < f i then f i else t) xs a
    \<and> (\<forall>i \<in> set xs. f i \<le> fold (\<lambda>i t. if t < f i then f i else t) xs a)"
proof (induction xs arbitrary: a)
  case (Cons x xs)
  show ?case using Cons.IH[of "if a < f x then f x else a"]
    by (auto split: if_splits intro: order_trans less_imp_le)
qed simp

definition group_frame_time :: "SyncSensorPara list \<Rightarrow> u32" where
  "group_frame_time paras =
     fold (\<lambda>para mx. if mx < para_min_frame_time para then para_min_frame_time para else mx) paras 0"

text \<open>
  The calculator gives every sensor the least number of lines covering the longest
  minimum frame time of the group, and a master one line more; the other parameters are kept.\<close>

theorem custom_frame_time_correct:
  assumes "custom_frame_time_calculator paras = Some outs" and "k < length paras"
    and "line_time_ok_us (sp_line_time_in_ns (paras ! k)) (group_frame_time paras)"
  shows "let p = paras ! k; T = group_frame_time paras;
        lc = (if sp_sync_mode p = SENSOR_SYNC_MASTER then sp_out_fl_lc (outs ! k) - 1
              else sp_out_fl_lc (outs ! k))
    in length outs = length paras \<and> para_min_frame_time p \<le> T
      \<and> T \<le> convert2TotalTime (sp_line_time_in_ns p) lc
      \<and> (\<forall>lc'. line_time_ok_lc (sp_line_time_in_ns p) lc' \<and> T \<le> convert2TotalTime (sp_line_time_in_ns p) lc'
           \<longrightarrow> lc \<le> lc')
      \<and> (outs ! k)\<lparr>sp_out_fl_lc := sp_out_fl_lc p\<rparr> = p"
proof -
  define T where "T = group_frame_time paras"
  define lt where "lt = sp_line_time_in_ns (paras ! k)"
  define lc where "lc = the (convert2LineCount lt T)"
  have th: "those (map (\<lambda>para. map_option (\<lambda>lc. para\<lparr>sp_out_fl_lc :=
             (if sp_sync_mode para = SENSOR_SYNC_MASTER then lc + 1 else lc)\<rparr>)
           (convert2LineCount (sp_line_time_in_ns para) T)) paras) = Some outs"
    using assms(1) by (simp add: custom_frame_time_calculator_def T_def group_frame_time_def Let_def)
  have ok: "line_time_ok_us lt T" using assms(3) by (simp add: lt_def T_def)
  have "map_option (\<lambda>lc. (paras ! k)\<lparr>sp_out_fl_lc :=
             (if sp_sync_mode (paras ! k) = SENSOR_SYNC_MASTER then lc + 1 else lc)\<rparr>)
           (convert2LineCount lt T) = Some (outs ! k)"
    using those_map_nth[OF th] assms(2) by (simp add: lt_def)
  then have out: "outs ! k = (paras ! k)\<lparr>sp_out_fl_lc :=
      (if sp_sync_mode (paras ! k) = SENSOR_SYNC_MASTER then lc + 1 else lc)\<rparr>"
    by (auto simp: lc_def)
  have "para_min_frame_time (paras ! k) \<le> T"
    using max_fold_word[of 0 para_min_frame_time paras] assms(2) by (simp add: T_def group_frame_time_def)
  moreover have "T \<le> convert2TotalTime lt lc" using lt.covers[OF ok] by (simp add: lc_def)
  moreover have "lc \<le> lc'" if "line_time_ok_lc lt lc'" "T \<le> convert2TotalTime lt lc'" for lc'
    using lt.least[OF ok that] by (simp add: lc_def)
  moreover have "length outs = length paras" using those_map_nth[OF th] by simp
  ultimately show ?thesis
    unfolding Let_def T_def[symmetric] lt_def[symmetric] by (simp add: out)
qed

definition demo_hw_para :: "SENSOR_SYNC_MODE \<Rightarrow> u32 \<Rightarrow> SyncSensorPara" where
  "demo_hw_para mode sh = \<lparr>sp_sensor_idx = 0, sp_sensor_type = SENSOR_N_2, sp_sync_mode = mode,
     sp_line_time_in_ns = 10000, sp_shutter_lc = sh, sp_min_fl_lc = 3000, sp_sensor_margin_lc = 10,
     sp_out_fl_lc = 0\<rparr>"

theorem custom_frame_time_correct_witness:
  "\<exists>outs. custom_frame_time_calculator [demo_hw_para SENSOR_SYNC_MASTER 4000, demo_hw_para SENSOR_SYNC_SLAVE 2000]
       = Some outs \<and> 40100 \<le> convert2TotalTime 10000 (sp_out_fl_lc (outs ! 1))"
proof -
  let ?ps = "[demo_hw_para SENSOR_SYNC_MASTER 4000, demo_hw_para SENSOR_SYNC_SLAVE 2000]"
  have T: "group_frame_time ?ps = 40100"
    by (simp add: group_frame_time_def para_min_frame_time_def demo_hw_para_def convert2TotalTime_def max_def)
  obtain c where c: "convert2LineCount 10000 40100 = Some c"
    by (simp add: convert2LineCount_def)
  have "sp_line_time_in_ns (demo_hw_para m sh) = 10000" for m sh
    by (simp add: demo_hw_para_def)
  then have "custom_frame_time_calculator ?ps \<noteq> None"
    unfolding custom_frame_time_calculator_def group_frame_time_def[symmetric] Let_def T
    by (simp add: c)
  then obtain outs where outs: "custom_frame_time_calculator ?ps = Some outs" by blast
  have ok: "line_time_ok_us (sp_line_time_in_ns (?ps ! 1)) (group_frame_time ?ps)"
    unfolding T by (simp add: line_time_ok_us_def demo_hw_para_def)
  have "40100 \<le> convert2TotalTime 10000 (sp_out_fl_lc (outs ! 1))"
    using custom_frame_time_correct[OF outs _ ok] unfolding T
    by (simp add: Let_def demo_hw_para_def)
  with outs show ?thesis by blast
qed

end
