(* ===== verification/FsDrv.thy ===== *)
theory FsDrv
  imports FsRecorder FsAlgoSA FsPairSync HwSync
begin

text \<open>
  \<open>frame_sync.c\<close>: the manager the sensor driver and camsys call. Every exported function is one
  atomic step of the model; the lock-free loops around \<open>atomic_cmpxchg\<close> are then one turn each.
  What the driver gets from outside is an environment: the device-tree nodes of the camsv
  mapping, the source of vsync data and the results of the two \<open>kcalloc\<close> calls. \<open>None\<close> is a run
  with a fault or without end (see \<open>FsAlgo\<close>); which calls can have one is proved in \<open>FsDrvInv\<close>.
\<close>

record fs_env =
  ev_nodes :: "(u32 option \<times> u32 option) list"
  ev_src :: vsync_source
  ev_alloc1 :: bool
  ev_alloc2 :: bool

subsection \<open>Status and bit words\<close>

definition change_fs_status :: "FS_STATUS \<Rightarrow> fs_world \<Rightarrow> fs_world" where
  "change_fs_status status = upd_mgr (\<lambda>m. m\<lparr>mg_fs_status := of_nat (fs_status_val status)\<rparr>)"

definition get_fs_status :: "fs_world \<Rightarrow> FS_STATUS" where
  "get_fs_status w =
     (let val = mg_fs_status (w_mgr w) in
      if val = 0 then FS_NONE else if val = 1 then FS_INITIALIZED
      else if val = 2 then FS_WAIT_FOR_SYNCFRAME_START
      else if val = 3 then FS_START_TO_GET_PERFRAME_CTRL else FS_STATUS_UNKNOWN)"

definition check_idx_valid :: "u32 \<Rightarrow> u32" where
  "check_idx_valid sensor_idx = (if sensor_idx < SENSOR_MAX_NUM then 1 else 0)"

definition check_bit_atomic :: "u32 \<Rightarrow> u32 \<Rightarrow> u32" where
  "check_bit_atomic idx val =
     (if check_idx_valid idx = 1 then drop_bit (unat idx) val AND 1 else 0xFFFFFFFF)"

text \<open>The new value of the bit word.\<close>

definition write_bit_atomic :: "u32 \<Rightarrow> u32 \<Rightarrow> u32 \<Rightarrow> u32" where
  "write_bit_atomic idx en val =
     (if check_idx_valid idx = 1
      then (if 0 < en then val OR push_bit (unat idx) 1 else val AND NOT (push_bit (unat idx) 1))
      else val)"

subsection \<open>Register table\<close>

datatype CHECK_SENSOR_INFO_METHOD = BY_NONE | BY_SENSOR_ID | BY_SENSOR_IDX

definition REGISTER_METHOD :: CHECK_SENSOR_INFO_METHOD where "REGISTER_METHOD = BY_SENSOR_IDX"

definition compare_sensor_id :: "u32 \<Rightarrow> u32 \<Rightarrow> bool" where
  "compare_sensor_id id1 id2 = (id1 = id2 \<and> id1 \<noteq> 0)"

definition compare_sensor_idx :: "u32 \<Rightarrow> u32 \<Rightarrow> bool" where
  "compare_sensor_idx idx1 idx2 = (idx1 = idx2)"

fun check_sensor_info :: "SensorInfo \<Rightarrow> SensorInfo \<Rightarrow> CHECK_SENSOR_INFO_METHOD \<Rightarrow> bool" where
  "check_sensor_info info1 info2 BY_SENSOR_ID = compare_sensor_id (si_sensor_id info1) (si_sensor_id info2)"
| "check_sensor_info info1 info2 BY_SENSOR_IDX = compare_sensor_idx (si_sensor_idx info1) (si_sensor_idx info2)"
| "check_sensor_info info1 info2 BY_NONE = compare_sensor_idx (si_sensor_idx info1) (si_sensor_idx info2)"

definition fs_search_reg_sensors :: "SensorInfo \<Rightarrow> CHECK_SENSOR_INFO_METHOD \<Rightarrow> fs_world \<Rightarrow> u32" where
  "fs_search_reg_sensors sensor_info method w =
     (case List.find (\<lambda>i. check_sensor_info (mg_sensors (w_mgr w) i) sensor_info method)
             (loop_idx (mg_reg_cnt (w_mgr w))) of
        Some i \<Rightarrow> i | None \<Rightarrow> 0xffffffff)"

definition fs_push_sensor :: "SensorInfo \<Rightarrow> fs_world \<Rightarrow> u32 \<times> fs_world" where
  "fs_push_sensor sensor_info w =
     (let cnt_now = mg_reg_cnt (w_mgr w) in
      if \<not> (0 \<le> sint cnt_now \<and> sint cnt_now < sint SENSOR_MAX_NUM) then (0xFFFFFFFF, w)
      else (cnt_now, upd_mgr (\<lambda>m. m\<lparr>mg_reg_cnt := cnt_now + 1,
              mg_sensors := (mg_sensors m)(cnt_now := sensor_info)\<rparr>) w))"

definition fs_register_sensor ::
    "SensorInfo \<Rightarrow> CHECK_SENSOR_INFO_METHOD \<Rightarrow> fs_world \<Rightarrow> u32 \<times> fs_world" where
  "fs_register_sensor sensor_info method w =
     (if method = BY_SENSOR_ID \<and> si_sensor_id sensor_info = 0 then (0xffffffff, w)
      else let idx = fs_search_reg_sensors sensor_info method w in
      if idx = 0xffffffff then fs_push_sensor sensor_info w
      else (idx,
        if method = BY_SENSOR_IDX
           \<and> si_sensor_id (mg_sensors (w_mgr w) idx) \<noteq> si_sensor_id sensor_info
        then upd_mgr (\<lambda>m. m\<lparr>mg_sensors := (mg_sensors m)(idx :=
               (mg_sensors m idx)\<lparr>si_sensor_id := si_sensor_id sensor_info\<rparr>)\<rparr>) w
        else w))"

definition fs_get_reg_sensor_pos :: "u32 \<Rightarrow> fs_world \<Rightarrow> u32" where
  "fs_get_reg_sensor_pos ident w =
     (let info = \<lparr>si_sensor_id = 0, si_sensor_idx = 0\<rparr>;
          info = (if REGISTER_METHOD = BY_SENSOR_ID then info\<lparr>si_sensor_id := ident\<rparr>
                  else info\<lparr>si_sensor_idx := ident\<rparr>)
      in fs_search_reg_sensors info REGISTER_METHOD w)"

subsection \<open>Callback data\<close>

definition fs_reset_cb_data :: "u32 \<Rightarrow> fs_world \<Rightarrow> fs_world" where
  "fs_reset_cb_data idx = upd_mgr (\<lambda>m. m\<lparr>mg_cb_data := (mg_cb_data m)(idx :=
     \<lparr>cb_p_ctx = 0, cb_cmd_id = 0, cb_func_ptr = 0\<rparr>)\<rparr>)"

definition fs_init_cb_data :: "u32 \<Rightarrow> u64 \<Rightarrow> u64 \<Rightarrow> fs_world \<Rightarrow> fs_world" where
  "fs_init_cb_data idx p_ctx func_ptr = upd_mgr (\<lambda>m. m\<lparr>mg_cb_data := (mg_cb_data m)(idx :=
     \<lparr>cb_p_ctx = p_ctx, cb_cmd_id = 0, cb_func_ptr = func_ptr\<rparr>)\<rparr>)"

definition fs_set_cb_cmd_id :: "u32 \<Rightarrow> u32 \<Rightarrow> fs_world \<Rightarrow> fs_world" where
  "fs_set_cb_cmd_id idx cmd_id = upd_mgr (\<lambda>m. m\<lparr>mg_cb_data := (mg_cb_data m)(idx :=
     (mg_cb_data m idx)\<lparr>cb_cmd_id := cmd_id\<rparr>)\<rparr>)"

subsection \<open>Initialisation and configuration\<close>

definition fs_init_members :: "fs_world \<Rightarrow> fs_world" where
  "fs_init_members = upd_mgr (\<lambda>m. m\<lparr>mg_reg_cnt := 0, mg_fs_status := 0, mg_streaming_bits := 0,
     mg_enSync_bits := 0, mg_validSync_bits := 0, mg_pf_ctrl_bits := 0, mg_last_pf_ctrl_bits := 0,
     mg_setup_complete_bits := 0, mg_last_setup_complete_bits := 0, mg_using_sa_ver := 0,
     mg_sa_bits := 0, mg_sa_method := 0, mg_master_idx := MASTER_IDX_NONE\<rparr>)"

definition fs_init :: "fs_world \<Rightarrow> fs_world" where
  "fs_init w =
     (let status = get_fs_status w; w = upd_mgr (\<lambda>m. m\<lparr>mg_user_counter := mg_user_counter m + 1\<rparr>) w
      in if status = FS_NONE then change_fs_status FS_INITIALIZED (fs_init_members w) else w)"

definition fs_sa_set_sa_method :: "u32 \<Rightarrow> fs_world \<Rightarrow> fs_world" where
  "fs_sa_set_sa_method method = upd_mgr (\<lambda>m. m\<lparr>mg_sa_method := method\<rparr>)"

definition fs_set_using_sa_mode :: "u32 \<Rightarrow> fs_world \<Rightarrow> fs_world" where
  "fs_set_using_sa_mode en = upd_mgr (\<lambda>m. m\<lparr>mg_user_set_sa := (if 0 < en then 1 else 0)\<rparr>)"

text \<open>\<open>FORCE_USING_SA_MODE\<close> is defined.\<close>

definition fs_user_sa_config :: "fs_world \<Rightarrow> u32" where
  "fs_user_sa_config w = 1"

subsection \<open>Sync status\<close>

definition fs_update_valid_sync_bit :: "fs_world \<Rightarrow> u32 \<times> fs_world" where
  "fs_update_valid_sync_bit w =
     (let v = mg_streaming_bits (w_mgr w) AND mg_enSync_bits (w_mgr w)
      in (v, upd_mgr (\<lambda>m. m\<lparr>mg_validSync_bits := v\<rparr>) w))"

definition fs_update_status :: "fs_world \<Rightarrow> fs_world" where
  "fs_update_status w =
     (let (valid_sync, w) = fs_update_valid_sync_bit w; cnt = hweight32 valid_sync
      in change_fs_status (if 1 < cnt \<and> cnt \<le> SENSOR_MAX_NUM then FS_WAIT_FOR_SYNCFRAME_START
                           else FS_INITIALIZED) w)"

definition fs_set_stream :: "u32 \<Rightarrow> u32 \<Rightarrow> fs_world \<Rightarrow> fs_world" where
  "fs_set_stream idx flag = upd_mgr (\<lambda>m. m\<lparr>mg_streaming_bits :=
     write_bit_atomic idx (if 0 < flag then 1 else 0) (mg_streaming_bits m)\<rparr>)"

definition fs_reset_ft_mode_data :: "u32 \<Rightarrow> u32 \<Rightarrow> fs_world \<Rightarrow> fs_world" where
  "fs_reset_ft_mode_data idx flag w =
     (if 0 < flag then w
      else upd_mgr (\<lambda>m. m\<lparr>mg_ft_mode := (mg_ft_mode m)(idx := 0),
             mg_frame_cell_size := (mg_frame_cell_size m)(idx := 0),
             mg_frame_tag := (mg_frame_tag m)(idx := 0)\<rparr>) w)"

definition fs_check_sync_need_sa_mode :: "u32 \<Rightarrow> u32 \<Rightarrow> fs_world \<Rightarrow> fs_world" where
  "fs_check_sync_need_sa_mode idx flag w =
     (if flag \<noteq> FS_FT_MODE_NORMAL
      then upd_mgr (\<lambda>m. m\<lparr>mg_sa_bits := write_bit_atomic idx 1 (mg_sa_bits m)\<rparr>) w else w)"

definition fs_decision_maker :: "u32 \<Rightarrow> fs_world \<Rightarrow> fs_world" where
  "fs_decision_maker idx w =
     (let w = fs_check_sync_need_sa_mode idx (mg_ft_mode (w_mgr w) idx) w;
          need_sa_ver = 0 < hweight32 (mg_sa_bits (w_mgr w));
          user_sa_en = fs_user_sa_config w
      in upd_mgr (\<lambda>m. m\<lparr>mg_using_sa_ver := (if need_sa_ver \<or> 0 < user_sa_en then 1 else 0)\<rparr>) w)"

definition fs_sa_try_reset_master_idx :: "u32 \<Rightarrow> fs_world \<Rightarrow> fs_world" where
  "fs_sa_try_reset_master_idx idx = upd_mgr (\<lambda>m. m\<lparr>mg_master_idx :=
     (if idx = mg_master_idx m then MASTER_IDX_NONE else mg_master_idx m)\<rparr>)"

definition fs_set_sync_status :: "u32 \<Rightarrow> u32 \<Rightarrow> fs_world \<Rightarrow> fs_world" where
  "fs_set_sync_status idx flag w =
     (let w = (if flag = 0 then upd_mgr (\<lambda>m. m\<lparr>
                   mg_pf_ctrl_bits := write_bit_atomic idx 0 (mg_pf_ctrl_bits m),
                   mg_setup_complete_bits := write_bit_atomic idx 0 (mg_setup_complete_bits m)\<rparr>) w
               else w)
      in upd_mgr (\<lambda>m. m\<lparr>mg_enSync_bits :=
           write_bit_atomic idx (if 0 < flag then 1 else 0) (mg_enSync_bits m)\<rparr>) w)"

definition fs_set_sync_idx :: "u32 \<Rightarrow> u32 \<Rightarrow> fs_world \<Rightarrow> fs_world" where
  "fs_set_sync_idx idx flag w =
     fs_update_status (fs_decision_maker idx (fs_sa_try_reset_master_idx idx
       (fs_alg_set_sync_type idx flag (fs_set_sync_status idx flag w))))"

definition fs_set_sync :: "u32 \<Rightarrow> u32 \<Rightarrow> fs_world \<Rightarrow> fs_world" where
  "fs_set_sync ident flag w =
     (let idx = fs_get_reg_sensor_pos ident w in
      if check_idx_valid idx = 0 then w
      else if fs_con_chk_force_to_ignore_set_sync (w_con w) \<noteq> 0 then w
      else fs_set_sync_idx idx flag w)"

definition fs_is_set_sync :: "u32 \<Rightarrow> fs_world \<Rightarrow> u32" where
  "fs_is_set_sync ident w =
     (let idx = fs_get_reg_sensor_pos ident w in
      if check_idx_valid idx = 0 then 0 else check_bit_atomic idx (mg_enSync_bits (w_mgr w)))"

subsection \<open>Frame length output\<close>

definition fs_set_sensor_driver_framelength_lc :: "u32 \<Rightarrow> u32 \<Rightarrow> fs_world \<Rightarrow> fs_world" where
  "fs_set_sensor_driver_framelength_lc idx fl_lc w =
     (let cb = mg_cb_data (w_mgr w) idx in
      if cb_func_ptr cb \<noteq> 0 \<and> fl_lc \<noteq> 0
      then w\<lparr>w_cb_calls := w_cb_calls w @ [(cb_func_ptr cb, cb_p_ctx cb, cb_cmd_id cb, fl_lc)]\<rparr> else w)"

text \<open>With \<open>TWO_STAGE_FS\<close> the recorder update at the head is not compiled.\<close>

definition fs_set_framelength_lc :: "u32 \<Rightarrow> u32 \<Rightarrow> fs_world \<Rightarrow> fs_world" where
  "fs_set_framelength_lc idx fl_lc w = fs_set_sensor_driver_framelength_lc idx fl_lc w"

subsection \<open>Feature modes: N:1, M-stream, frame tags\<close>

definition fs_check_n_1_status_ctrl :: "u32 \<Rightarrow> u32 \<Rightarrow> fs_world \<Rightarrow> u32" where
  "fs_check_n_1_status_ctrl idx en w =
     (let mode_status = mg_ft_mode (w_mgr w) idx in
      if en \<noteq> 0 then (if mode_status = 0 then 1 else 0)
      else (if mode_status AND (FS_FT_MODE_FRAME_TAG OR FS_FT_MODE_N_1_KEEP) \<noteq> 0 then 1 else 0))"

definition upd_ft_mode :: "u32 \<Rightarrow> (u32 \<Rightarrow> u32) \<Rightarrow> fs_world \<Rightarrow> fs_world" where
  "upd_ft_mode idx f = upd_mgr (\<lambda>m. m\<lparr>mg_ft_mode := (mg_ft_mode m)(idx := f (mg_ft_mode m idx))\<rparr>)"

definition fs_check_n_1_status_extra_ctrl :: "u32 \<Rightarrow> fs_world \<Rightarrow> fs_world" where
  "fs_check_n_1_status_extra_ctrl idx w =
     (if mg_ft_mode (w_mgr w) idx AND FS_FT_MODE_N_1_ON \<noteq> 0
      then fs_alg_set_n_1_on_off_flag idx 0
             (upd_ft_mode idx (\<lambda>f. (f AND NOT FS_FT_MODE_N_1_ON) OR FS_FT_MODE_N_1_KEEP) w)
      else if mg_ft_mode (w_mgr w) idx AND FS_FT_MODE_N_1_OFF \<noteq> 0
      then fs_alg_set_n_1_on_off_flag idx 0
             (upd_ft_mode idx (\<lambda>f. ((f AND NOT FS_FT_MODE_N_1_OFF) AND NOT FS_FT_MODE_FRAME_TAG)
                OR FS_FT_MODE_NORMAL) w)
      else w)"

definition fs_feature_status_extra_ctrl :: "u32 \<Rightarrow> fs_world \<Rightarrow> fs_world" where
  "fs_feature_status_extra_ctrl idx w = fs_check_n_1_status_extra_ctrl idx w"

definition fs_reset_frame_tag :: "u32 \<Rightarrow> fs_world \<Rightarrow> fs_world" where
  "fs_reset_frame_tag idx w =
     fs_alg_set_frame_tag idx 0 (upd_mgr (\<lambda>m. m\<lparr>mg_frame_tag := (mg_frame_tag m)(idx := 0)\<rparr>) w)"

definition fs_try_set_auto_frame_tag :: "u32 \<Rightarrow> fs_world \<Rightarrow> fs_world" where
  "fs_try_set_auto_frame_tag idx w =
     (if mg_ft_mode (w_mgr w) idx AND FS_FT_MODE_ASSIGN_FRAME_TAG = 0
         \<and> mg_ft_mode (w_mgr w) idx AND FS_FT_MODE_FRAME_TAG \<noteq> 0
      then if mg_frame_cell_size (w_mgr w) idx = 0 then w
           else upd_mgr (\<lambda>m. m\<lparr>mg_frame_tag := (mg_frame_tag m)(idx :=
                    (mg_frame_tag m idx + 1) mod mg_frame_cell_size m idx)\<rparr>)
                  (fs_alg_set_frame_tag idx (mg_frame_tag (w_mgr w) idx) w)
      else w)"

definition fs_set_frame_tag :: "u32 \<Rightarrow> u32 \<Rightarrow> fs_world \<Rightarrow> fs_world" where
  "fs_set_frame_tag ident f_tag w =
     (let idx = fs_get_reg_sensor_pos ident w in
      if check_idx_valid idx = 0 then w
      else if mg_ft_mode (w_mgr w) idx AND FS_FT_MODE_ASSIGN_FRAME_TAG \<noteq> 0
              \<and> mg_ft_mode (w_mgr w) idx AND FS_FT_MODE_FRAME_TAG \<noteq> 0
      then fs_alg_set_frame_tag idx f_tag
             (upd_mgr (\<lambda>m. m\<lparr>mg_frame_tag := (mg_frame_tag m)(idx := f_tag)\<rparr>) w)
      else w)"

definition fs_n_1_en :: "u32 \<Rightarrow> u32 \<Rightarrow> u32 \<Rightarrow> fs_world \<Rightarrow> fs_world" where
  "fs_n_1_en ident n en w =
     (let idx = fs_get_reg_sensor_pos ident w in
      if check_idx_valid idx = 0 then w
      else if fs_check_n_1_status_ctrl idx en w = 0 then w
      else let
        cell = (if en \<noteq> 0 then n else 0);
        mode = (if en \<noteq> 0 then FS_FT_MODE_FRAME_TAG OR FS_FT_MODE_N_1_ON
                else FS_FT_MODE_FRAME_TAG OR FS_FT_MODE_N_1_OFF);
        w = upd_mgr (\<lambda>m. m\<lparr>mg_frame_cell_size := (mg_frame_cell_size m)(idx := cell)\<rparr>) w;
        w = upd_ft_mode idx (\<lambda>_. mode) w
      in fs_alg_set_n_1_on_off_flag idx 1
           (fs_reset_frame_tag idx (fs_alg_set_frame_cell_size idx cell w)))"

definition fs_mstream_en :: "u32 \<Rightarrow> u32 \<Rightarrow> fs_world \<Rightarrow> fs_world" where
  "fs_mstream_en ident en w =
     (let idx = fs_get_reg_sensor_pos ident w in
      if check_idx_valid idx = 0 then w
      else upd_ft_mode idx (\<lambda>f. if en \<noteq> 0 then f OR FS_FT_MODE_ASSIGN_FRAME_TAG
                               else f AND NOT FS_FT_MODE_ASSIGN_FRAME_TAG) (fs_n_1_en ident 2 en w))"

subsection \<open>Stand-alone trigger\<close>

definition fs_get_valid_master_instance_idx :: "fs_world \<Rightarrow> u32 \<times> fs_world" where
  "fs_get_valid_master_instance_idx w =
     (let m_idx = mg_master_idx (w_mgr w); valid = mg_validSync_bits (w_mgr w) in
      if m_idx = MASTER_IDX_NONE \<or> check_bit_atomic m_idx valid = 0
      then let i = (case List.find (\<lambda>i. drop_bit (unat i) valid AND 1 = 1) sensor_loop of
                      Some i \<Rightarrow> i | None \<Rightarrow> SENSOR_MAX_NUM)
           in (i, upd_mgr (\<lambda>m. m\<lparr>mg_master_idx := i\<rparr>) w)
      else (m_idx, w))"

definition fs_clear_ctrl_bits :: "u32 \<Rightarrow> fs_world \<Rightarrow> fs_world" where
  "fs_clear_ctrl_bits idx = upd_mgr (\<lambda>m. m\<lparr>
     mg_pf_ctrl_bits := write_bit_atomic idx 0 (mg_pf_ctrl_bits m),
     mg_setup_complete_bits := write_bit_atomic idx 0 (mg_setup_complete_bits m)\<rparr>)"

definition fs_try_trigger_frame_sync_sa :: "u32 \<Rightarrow> fs_world \<Rightarrow> (u32 \<times> fs_world) option" where
  "fs_try_trigger_frame_sync_sa idx w =
     (if check_bit_atomic idx (mg_validSync_bits (w_mgr w)) = 0 then Some (0, w)
      else if check_bit_atomic idx (mg_pf_ctrl_bits (w_mgr w)) = 0 then Some (0, w)
      else if check_bit_atomic idx (mg_setup_complete_bits (w_mgr w)) = 0 then Some (0, w)
      else do {
        let (m_idx, w) = fs_get_valid_master_instance_idx w;
        (ret, fl_lc, w) \<leftarrow> fs_alg_solve_frame_length_sa idx m_idx (mg_validSync_bits (w_mgr w)) 0 w;
        Some (1, if ret = 0
                 then fs_feature_status_extra_ctrl idx (fs_clear_ctrl_bits idx (fs_set_framelength_lc idx fl_lc w))
                 else w)
      })"

subsection \<open>Simple notifications\<close>

definition fs_set_extend_framelength :: "u32 \<Rightarrow> u32 \<Rightarrow> u32 \<Rightarrow> fs_world \<Rightarrow> fs_world option" where
  "fs_set_extend_framelength ident ext_fl_lc ext_fl_us w =
     (let idx = fs_get_reg_sensor_pos ident w in
      if check_idx_valid idx = 0 then Some w
      else fs_alg_set_extend_framelength idx ext_fl_lc ext_fl_us w)"

definition fs_seamless_switch :: "u32 \<Rightarrow> fs_world \<Rightarrow> fs_world option" where
  "fs_seamless_switch ident w =
     (let idx = fs_get_reg_sensor_pos ident w in
      if check_idx_valid idx = 0 then Some w else fs_alg_seamless_switch idx w)"

text \<open>The conversion of a cammux TG updates the monitor's cached camsv0 number.\<close>

definition fs_convert_tg :: "fs_env \<Rightarrow> u32 \<Rightarrow> fs_world \<Rightarrow> u32 \<times> fs_world" where
  "fs_convert_tg ev tg w =
     (let (tg', frm) = frm_convert_cammux_tg_to_ccu_tg (ev_nodes ev) tg (w_frm w)
      in (tg', upd_frm (\<lambda>_. frm) w))"

definition fs_update_tg :: "fs_env \<Rightarrow> u32 \<Rightarrow> u32 \<Rightarrow> fs_world \<Rightarrow> fs_world" where
  "fs_update_tg ev ident tg w =
     (let idx = fs_get_reg_sensor_pos ident w in
      if check_idx_valid idx = 0 then w
      else let (tg, w) = fs_convert_tg ev tg w
           in upd_frm (frm_update_tg idx tg) (fs_alg_update_tg idx tg w))"

definition fs_update_auto_flicker_mode :: "u32 \<Rightarrow> u32 \<Rightarrow> fs_world \<Rightarrow> fs_world" where
  "fs_update_auto_flicker_mode ident en w =
     (let idx = fs_get_reg_sensor_pos ident w in
      if check_idx_valid idx = 0 then w else fs_alg_set_anti_flicker idx en w)"

text \<open>With \<open>USING_V4L2_CTRL_REQUEST_SETUP\<close> this is not the last control of a frame.\<close>

definition fs_update_min_framelength_lc :: "u32 \<Rightarrow> u32 \<Rightarrow> fs_world \<Rightarrow> fs_world" where
  "fs_update_min_framelength_lc ident min_fl_lc w =
     (let idx = fs_get_reg_sensor_pos ident w in
      if check_idx_valid idx = 0 then w
      else hw_fs_alg_update_min_fl_lc idx min_fl_lc (fs_alg_update_min_fl_lc idx min_fl_lc w))"

subsection \<open>Streaming\<close>

definition fs_reset_idx_ctx :: "u32 \<Rightarrow> fs_world \<Rightarrow> fs_world" where
  "fs_reset_idx_ctx idx w =
     fs_reset_cb_data idx (fs_set_stream idx 0 (frec_reset_recorder idx (fs_alg_reset_fs_inst idx
       (upd_frm (frm_reset_frame_info idx) (fs_set_sync_idx idx 0 w)))))"

text \<open>Stream on: the caller's structure is updated in place, so it is part of the result.\<close>

definition fs_stream_on :: "fs_env \<Rightarrow> u32 \<Rightarrow> fs_streaming_st \<Rightarrow> fs_world \<Rightarrow> (fs_streaming_st \<times> fs_world) option" where
  "fs_stream_on ev idx sensor_info w = do {
     let (tg, w) = fs_convert_tg ev (ss_tg sensor_info) w;
     let sensor_info = sensor_info\<lparr>ss_tg := tg\<rparr>;
     let w = upd_frm (frm_init_frame_info_st_data idx (ss_sensor_id sensor_info) (ss_sensor_idx sensor_info) tg) w;
     (sensor_info, w) \<leftarrow> fs_alg_set_streaming_st_data idx sensor_info w;
     let w = hw_fs_alg_set_streaming_st_data idx sensor_info w;
     w \<leftarrow> frec_push_def_shutter_fl_lc idx (ss_def_shutter_lc sensor_info) (ss_def_fl_lc sensor_info) w;
     Some (sensor_info, fs_init_cb_data idx (ss_p_ctx sensor_info) (ss_func_ptr sensor_info) (fs_set_stream idx 1 w))
   }"

definition fs_stream_off :: "u32 \<Rightarrow> fs_world \<Rightarrow> fs_world" where
  "fs_stream_off idx w = fs_reset_ft_mode_data idx 0 (upd_mgr (\<lambda>m. m\<lparr>mg_act_cnt := 0\<rparr>) w)"

definition fs_streaming ::
    "fs_env \<Rightarrow> u32 \<Rightarrow> fs_streaming_st \<Rightarrow> fs_world \<Rightarrow> (u32 \<times> fs_streaming_st \<times> fs_world) option" where
  "fs_streaming ev flag sensor_info w = do {
     let (idx, w) = fs_register_sensor
       \<lparr>si_sensor_id = ss_sensor_id sensor_info, si_sensor_idx = ss_sensor_idx sensor_info\<rparr> REGISTER_METHOD w;
     if check_idx_valid idx = 0 then Some (1, sensor_info, w)
     else do {
       let w = fs_reset_idx_ctx idx w;
       (sensor_info, w) \<leftarrow> (if 0 < flag then fs_stream_on ev idx sensor_info w
                           else Some (sensor_info, fs_stream_off idx w));
       Some (0, sensor_info,
             if 0 < flag \<and> fs_con_chk_default_en_set_sync (w_con w) \<noteq> 0 then fs_set_sync_idx idx 1 w else w)
     }
   }"

subsection \<open>Per-frame controls\<close>

definition fs_notify_sensor_ctrl_setup_complete :: "u32 \<Rightarrow> fs_world \<Rightarrow> fs_world option" where
  "fs_notify_sensor_ctrl_setup_complete idx w =
     (let w = (if check_bit_atomic idx (mg_streaming_bits (w_mgr w)) = 1
               then upd_mgr (\<lambda>m. m\<lparr>mg_setup_complete_bits :=
                      write_bit_atomic idx 1 (mg_setup_complete_bits m)\<rparr>) w else w)
      in if handle_by_hw_sensor_sync [idx] w then Some w
         else if mg_using_sa_ver (w_mgr w) \<noteq> 0 then map_option snd (fs_try_trigger_frame_sync_sa idx w)
         else Some w)"

definition fs_check_frame_sync_ctrl :: "u32 \<Rightarrow> fs_perframe_st \<Rightarrow> fs_world \<Rightarrow> fs_world" where
  "fs_check_frame_sync_ctrl idx frameCtrl w =
     (if check_bit_atomic idx (mg_validSync_bits (w_mgr w)) = 0 then w
      else if check_bit_atomic idx (mg_pf_ctrl_bits (w_mgr w)) = 1 then w
      else fs_set_cb_cmd_id idx (pf_cmd_id frameCtrl)
        (upd_mgr (\<lambda>m. m\<lparr>mg_pf_ctrl_bits := write_bit_atomic idx 1 (mg_pf_ctrl_bits m)\<rparr>) w))"

definition fs_perframe_ident :: "fs_perframe_st \<Rightarrow> u32" where
  "fs_perframe_ident frameCtrl =
     (if REGISTER_METHOD = BY_SENSOR_ID then pf_sensor_id frameCtrl else pf_sensor_idx frameCtrl)"

text \<open>The part of \<open>fs_set_shutter\<close> behind its three checks.\<close>

definition fs_do_set_shutter :: "u32 \<Rightarrow> fs_perframe_st \<Rightarrow> fs_world \<Rightarrow> (fs_perframe_st \<times> fs_world) option" where
  "fs_do_set_shutter idx frameCtrl w = do {
     let w = upd_mgr (\<lambda>m. m\<lparr>mg_pf_ctrl := (mg_pf_ctrl m)(idx := frameCtrl)\<rparr>) w;
     let w = fs_try_set_auto_frame_tag idx w;
     (frameCtrl, w) \<leftarrow> fs_alg_set_perframe_st_data idx frameCtrl w;
     let w = hw_fs_alg_set_perframe_st_data idx frameCtrl w;
     w \<leftarrow> frec_update_shutter_fl_lc idx (pf_shutter_lc frameCtrl) (pf_out_fl_lc frameCtrl) w;
     w \<leftarrow> fs_notify_sensor_ctrl_setup_complete idx (fs_check_frame_sync_ctrl idx frameCtrl w);
     Some (frameCtrl, w)
   }"

definition fs_set_shutter :: "fs_perframe_st \<Rightarrow> fs_world \<Rightarrow> (fs_perframe_st \<times> fs_world) option" where
  "fs_set_shutter frameCtrl w =
     (let idx = fs_get_reg_sensor_pos (fs_perframe_ident frameCtrl) w in
      if check_idx_valid idx = 0 then Some (frameCtrl, w)
      else if check_bit_atomic idx (mg_validSync_bits (w_mgr w)) = 0 then Some (frameCtrl, w)
      else if check_bit_atomic idx (mg_streaming_bits (w_mgr w)) = 0 then Some (frameCtrl, w)
      else fs_do_set_shutter idx frameCtrl w)"

definition fs_update_shutter :: "fs_perframe_st \<Rightarrow> fs_world \<Rightarrow> fs_world option" where
  "fs_update_shutter frameCtrl w =
     (let idx = fs_get_reg_sensor_pos (fs_perframe_ident frameCtrl) w in
      if check_idx_valid idx = 0 then Some w
      else if check_bit_atomic idx (mg_validSync_bits (w_mgr w)) = 0 then Some w
      else if check_bit_atomic idx (mg_streaming_bits (w_mgr w)) = 0 then Some w
      else frec_update_shutter_fl_lc idx 0 (pf_out_fl_lc frameCtrl)
             (upd_mgr (\<lambda>m. m\<lparr>mg_pf_ctrl := (mg_pf_ctrl m)(idx := frameCtrl)\<rparr>) w))"

definition fs_notify_vsync :: "fs_env \<Rightarrow> u32 \<Rightarrow> fs_world \<Rightarrow> fs_world option" where
  "fs_notify_vsync ev ident w =
     (let idx = fs_get_reg_sensor_pos ident w in
      if check_idx_valid idx = 0 then Some w
      else if check_bit_atomic idx (mg_validSync_bits (w_mgr w)) = 0 then Some w
      else if \<not> (fs_con_get_usr_listen_ext_vsync (w_con w) \<noteq> 0
                 \<or> fs_con_get_listen_vsync_alg_cfg (w_con w) \<noteq> 0) then Some w
      else do {
        w \<leftarrow> fs_alg_sa_notify_setup_all_frame_info idx w;
        w \<leftarrow> frec_notify_vsync idx w;
        fs_alg_sa_notify_vsync (ev_src ev) idx w
      })"

subsection \<open>Pair trigger\<close>

definition fs_run_frame_sync_proc ::
    "fs_env \<Rightarrow> u32 list \<Rightarrow> u32 carray \<Rightarrow> fs_world \<Rightarrow> (u32 \<times> u32 carray \<times> fs_world) option" where
  "fs_run_frame_sync_proc ev solveIdxs framelength w =
     (if handle_by_hw_sensor_sync solveIdxs w
      then map_option (\<lambda>(ret, fl). (ret, fl, w)) (hw_fs_alg_solve_frame_length solveIdxs framelength w)
      else fs_alg_solve_frame_length (ev_src ev) (ev_alloc1 ev) (ev_alloc2 ev) solveIdxs framelength w)"

text \<open>The counter is increased in the argument of the log call.\<close>

definition fs_try_trigger_frame_sync :: "fs_env \<Rightarrow> fs_world \<Rightarrow> (u32 \<times> fs_world) option" where
  "fs_try_trigger_frame_sync ev w =
     (if mg_validSync_bits (w_mgr w) = mg_pf_ctrl_bits (w_mgr w)
         \<and> mg_pf_ctrl_bits (w_mgr w) = mg_setup_complete_bits (w_mgr w)
      then let solveIdxs = filter (\<lambda>i. check_bit_atomic i (mg_validSync_bits (w_mgr w)) = 1) sensor_loop
           in do {
             let w = upd_mgr (\<lambda>m. m\<lparr>mg_act_cnt := mg_act_cnt m + 1\<rparr>) w;
             (ret, fl_lc, w) \<leftarrow> fs_run_frame_sync_proc ev solveIdxs (\<lambda>_. 0) w;
             Some (1, if ret = 0 then fold (\<lambda>idx. fs_set_framelength_lc idx (fl_lc idx)) solveIdxs w else w)
           }
      else Some (0, w))"

definition fs_sync_frame :: "fs_env \<Rightarrow> u32 \<Rightarrow> fs_world \<Rightarrow> (u32 \<times> fs_world) option" where
  "fs_sync_frame ev flag w =
     (let status = get_fs_status w; valid_sync = mg_validSync_bits (w_mgr w) in
      if fs_con_chk_force_to_ignore_set_sync (w_con w) \<noteq> 0 then Some (0, w)
      else if mg_using_sa_ver (w_mgr w) \<noteq> 0 then Some (0, w)
      else if 0 < flag then
        if status < FS_WAIT_FOR_SYNCFRAME_START then Some (0, w)
        else Some (hweight32 valid_sync, change_fs_status FS_START_TO_GET_PERFRAME_CTRL w)
      else if status \<noteq> FS_START_TO_GET_PERFRAME_CTRL then Some (0, w)
      else do {
        (triggered, w) \<leftarrow> fs_try_trigger_frame_sync ev w;
        if triggered \<noteq> 0
        then let last_pf_ctrl = mg_pf_ctrl_bits (w_mgr w)
             in Some (hweight32 last_pf_ctrl,
                  upd_mgr (\<lambda>m. m\<lparr>mg_last_pf_ctrl_bits := last_pf_ctrl, mg_pf_ctrl_bits := 0,
                      mg_last_setup_complete_bits := mg_setup_complete_bits m,
                      mg_setup_complete_bits := 0\<rparr>)
                    (change_fs_status FS_WAIT_FOR_SYNCFRAME_START w))
        else Some (hweight32 0, w)
      })"

subsection \<open>Module entry\<close>

text \<open>\<open>ptr_ok\<close>, \<open>dev_ok\<close>: the two pointers are not null; \<open>ret\<close>: of \<open>device_create_file\<close>.\<close>

definition FrameSyncInit :: "bool \<Rightarrow> bool \<Rightarrow> u32 \<Rightarrow> fs_world \<Rightarrow> u32 \<times> fs_world" where
  "FrameSyncInit ptr_ok dev_ok ret w =
     (if \<not> ptr_ok then (1, w)
      else let w = fs_init w; (r, con) = fs_con_create_sysfs_file dev_ok ret (w_con w)
           in (r, w\<lparr>w_con := con\<rparr>))"

end
