(* ===== verification/FsHdr.thy ===== *)
theory FsHdr
  imports FsAlgo
begin

text \<open>
  The multi-exposure bookkeeping of \<open>frame_sync_algo.c\<close>: with at most five exposures the table
  \<open>hdr_exp_idx_map\<close> is never left, and the stored setting and the equivalent shutter are what
  the comments of the code describe.
\<close>

subsection \<open>The index table\<close>

lemma idx_map_valid:
  assumes "unat cnt \<le> 5" and "i < cnt"
  shows "\<exists>k. hdr_exp_idx_map cnt i = Some k \<and> 0 \<le> k \<and> k < 5"
proof -
  have i: "unat i < unat cnt" using assms(2) by (simp add: word_less_nat_alt)
  have all: "list_all (\<lambda>c. list_all (\<lambda>j. 0 \<le> hdr_exp_idx_table ! c ! j \<and> hdr_exp_idx_table ! c ! j < 5)
      [0..<c]) [0..<6]"
    by (simp add: hdr_exp_idx_table_def upt_rec)
  have len: "length hdr_exp_idx_table = 6" "list_all (\<lambda>r. length r = 5) hdr_exp_idx_table"
    by (simp_all add: hdr_exp_idx_table_def)
  have row: "length (hdr_exp_idx_table ! unat cnt) = 5"
    using len assms(1) by (simp add: list_all_length)
  have "0 \<le> hdr_exp_idx_table ! unat cnt ! unat i \<and> hdr_exp_idx_table ! unat cnt ! unat i < 5"
    using all i assms(1) by (simp add: list_all_iff)
  then show ?thesis using row len(1) assms(1) i by (simp add: hdr_exp_idx_map_def)
qed

definition exp_slot :: "u32 \<Rightarrow> u32 \<Rightarrow> u32" where
  "exp_slot cnt i = of_int (the (hdr_exp_idx_map cnt i))"

definition exp_sum :: "u32 \<Rightarrow> u32 carray \<Rightarrow> u32 list \<Rightarrow> u32" where
  "exp_sum cnt exp_lc is = sum_list (map (\<lambda>i. exp_lc (exp_slot cnt i)) is)"

lemma hdr_exp_sum_eq:
  assumes "unat cnt \<le> 5" and "\<forall>i \<in> set is. i < cnt"
  shows "hdr_exp_sum cnt f is acc = Some (Some (acc + exp_sum cnt f is))"
  using assms(2)
proof (induction "is" arbitrary: acc)
  case (Cons i "is")
  obtain k where "hdr_exp_idx_map cnt i = Some k" "0 \<le> k"
    using idx_map_valid[OF assms(1), of i] Cons.prems by auto
  then show ?case using Cons by (simp add: exp_sum_def exp_slot_def algebra_simps)
qed (simp add: exp_sum_def)

lemma set_drop_loop: "i \<in> set (drop n (loop_idx cnt)) \<Longrightarrow> i < cnt"
  using in_set_dropD[of i n "loop_idx cnt"] by (simp add: set_loop_idx)

lemma readout_fl_total:
  assumes "unat cnt \<le> 5" and "\<forall>i \<in> set is. i < cnt"
  shows "\<exists>m. readout_fl_loop cnt cur prev is off mn = Some (Some m)"
  using assms(2)
proof (induction "is" arbitrary: off mn)
  case (Cons i "is")
  obtain k where k: "hdr_exp_idx_map cnt i = Some k" "0 \<le> k"
    using idx_map_valid[OF assms(1), of i] Cons.prems by auto
  have "\<exists>m. readout_fl_loop cnt cur prev is o' m' = Some (Some m)" for o' m'
    using Cons by simp
  then show ?case using k by (simp add: Let_def)
qed simp

lemma copy_exp_loop_eq:
  assumes "unat cnt \<le> 5" and "\<forall>i \<in> set is. i < cnt"
  shows "copy_exp_loop cnt src is dst =
    Some (True, \<lambda>k. if k \<in> exp_slot cnt ` set is then src k else dst k)"
  using assms(2)
proof (induction "is" arbitrary: dst)
  case (Cons i "is")
  obtain k where k: "hdr_exp_idx_map cnt i = Some k" "0 \<le> k"
    using idx_map_valid[OF assms(1), of i] Cons.prems by auto
  then have "copy_exp_loop cnt src (i # is) dst =
      copy_exp_loop cnt src is (dst(exp_slot cnt i := src (exp_slot cnt i)))"
    by (simp add: exp_slot_def)
  then show ?case using Cons by (auto simp: fun_eq_iff)
qed simp

subsection \<open>Storing a setting\<close>

definition hdr_cnt_ok :: "fs_hdr_exp_st \<Rightarrow> bool" where
  "hdr_cnt_ok h \<longleftrightarrow> unat (he_mode_exp_cnt h) \<le> 5"

definition hdr_ok :: "FrameSyncInst \<Rightarrow> bool" where
  "hdr_ok s \<longleftrightarrow> hdr_cnt_ok (fi_hdr_exp s) \<and> hdr_cnt_ok (fi_prev_hdr_exp s)"

lemma clamp_hdr_cnt_ok: "hdr_cnt_ok (clamp_hdr_cnt p)" "unat (he_ae_exp_cnt (clamp_hdr_cnt p)) \<le> 5"
  by (auto simp: clamp_hdr_cnt_def hdr_cnt_ok_def Let_def FS_HDR_MAX_def word_less_nat_alt)

lemma equivalent_exp_eq:
  assumes "hdr_ok (fs_inst w idx)"
  shows "fs_alg_get_hdr_equivalent_exp_lc idx w =
    (let cur = fi_hdr_exp (fs_inst w idx); prev = fi_prev_hdr_exp (fs_inst w idx);
         n = he_mode_exp_cnt cur; m = he_mode_exp_cnt prev
     in Some (max (exp_sum n (he_exp_lc cur) (loop_idx n))
                  (he_exp_lc cur 0 + exp_sum m (he_exp_lc prev) (drop 1 (loop_idx m)))))"
proof -
  define cur where "cur = fi_hdr_exp (fs_inst w idx)"
  define prev where "prev = fi_prev_hdr_exp (fs_inst w idx)"
  have ok: "unat (he_mode_exp_cnt cur) \<le> 5" "unat (he_mode_exp_cnt prev) \<le> 5"
    using assms by (simp_all add: hdr_ok_def hdr_cnt_ok_def cur_def prev_def)
  have 1: "hdr_exp_sum (he_mode_exp_cnt cur) f (loop_idx (he_mode_exp_cnt cur)) 0
      = Some (Some (exp_sum (he_mode_exp_cnt cur) f (loop_idx (he_mode_exp_cnt cur))))" for f
    using hdr_exp_sum_eq[OF ok(1), of "loop_idx (he_mode_exp_cnt cur)"] by (simp add: set_loop_idx)
  have 2: "hdr_exp_sum (he_mode_exp_cnt prev) f (drop 1 (loop_idx (he_mode_exp_cnt prev))) a
      = Some (Some (a + exp_sum (he_mode_exp_cnt prev) f (drop 1 (loop_idx (he_mode_exp_cnt prev)))))" for f a
    by (rule hdr_exp_sum_eq[OF ok(2)]) (use set_drop_loop in blast)
  have mx: "(if b < a then a else b) = max a b" for a b :: u32
    by (auto simp: max_def)
  show ?thesis
    unfolding fs_alg_get_hdr_equivalent_exp_lc_def Let_def cur_def[symmetric] prev_def[symmetric]
      1 2 bind.bind_lunit option.case mx ..
qed

lemma update_readout_total:
  assumes "hdr_ok (fs_inst w idx)"
  shows "\<exists>m. fs_alg_update_hdr_exp_readout_fl_lc idx w =
    Some (upd_inst idx (\<lambda>s. s\<lparr>fi_readout_min_fl_lc := m\<rparr>) w)"
proof -
  obtain m where "readout_fl_loop (he_mode_exp_cnt (fi_hdr_exp (fs_inst w idx))) (fi_hdr_exp (fs_inst w idx))
      (fi_prev_hdr_exp (fs_inst w idx)) (drop 1 (loop_idx (he_mode_exp_cnt (fi_hdr_exp (fs_inst w idx))))) 0 0
      = Some (Some m)"
    using readout_fl_total assms set_drop_loop unfolding hdr_ok_def hdr_cnt_ok_def by meson
  then show ?thesis by (auto simp: fs_alg_update_hdr_exp_readout_fl_lc_def Let_def)
qed

text \<open>The exposures after a new setting: the positions of the copied ones, the rest cleared.\<close>

definition stored_exp :: "fs_hdr_exp_st \<Rightarrow> u32 carray \<Rightarrow> u32 carray" where
  "stored_exp p old = (\<lambda>k.
     if k < FS_HDR_MAX \<and> Some (uint k) \<notin> set (valid_exp_idx (he_mode_exp_cnt p)) then 0
     else if k \<in> exp_slot (he_ae_exp_cnt p) ` {i. i < he_ae_exp_cnt p} then he_exp_lc p k else old k)"

definition with_hdr :: "fs_hdr_exp_st \<Rightarrow> FrameSyncInst \<Rightarrow> FrameSyncInst" where
  "with_hdr p s = s\<lparr>fi_prev_hdr_exp := fi_hdr_exp s,
     fi_hdr_exp := p\<lparr>he_exp_lc := stored_exp p (he_exp_lc (fi_hdr_exp s))\<rparr>\<rparr>"

definition equivalent_exp :: "FrameSyncInst \<Rightarrow> u32" where
  "equivalent_exp s =
     (let cur = fi_hdr_exp s; prev = fi_prev_hdr_exp s; n = he_mode_exp_cnt cur; m = he_mode_exp_cnt prev
      in max (exp_sum n (he_exp_lc cur) (loop_idx n))
             (he_exp_lc cur 0 + exp_sum m (he_exp_lc prev) (drop 1 (loop_idx m))))"

lemma take_counts:
  "h\<lparr>he_mode_exp_cnt := he_mode_exp_cnt p, he_ae_exp_cnt := he_ae_exp_cnt p,
     he_readout_len_lc := he_readout_len_lc p, he_read_margin_lc := he_read_margin_lc p,
     he_exp_lc := e\<rparr> = (p :: fs_hdr_exp_st)\<lparr>he_exp_lc := e\<rparr>"
  by (cases p; cases h) simp

lemma set_hdr_cases:
  assumes "hdr_cnt_ok (fi_hdr_exp (fs_inst w idx))"
  shows "fs_alg_set_hdr_exp_st_data idx sh p0 w = Some (sh, p0, w) \<and> he_ae_exp_cnt p0 = 0
    \<or> he_ae_exp_cnt p0 \<noteq> 0 \<and> he_mode_exp_cnt (clamp_hdr_cnt p0) = 0
      \<and> fs_alg_set_hdr_exp_st_data idx sh p0 w = Some (he_exp_lc p0 0, clamp_hdr_cnt p0,
          upd_inst idx (\<lambda>s. s\<lparr>fi_shutter_lc := he_exp_lc p0 0\<rparr>) w)
    \<or> he_ae_exp_cnt p0 \<noteq> 0 \<and> he_mode_exp_cnt (clamp_hdr_cnt p0) \<noteq> 0
      \<and> (\<exists>m. fs_alg_set_hdr_exp_st_data idx sh p0 w =
          Some (equivalent_exp (with_hdr (clamp_hdr_cnt p0) (fs_inst w idx)), clamp_hdr_cnt p0,
            upd_inst idx (\<lambda>s. (with_hdr (clamp_hdr_cnt p0) s)\<lparr>
              fi_shutter_lc := equivalent_exp (with_hdr (clamp_hdr_cnt p0) (fs_inst w idx)),
              fi_readout_min_fl_lc := m\<rparr>) w))"
proof -
  define p where "p = clamp_hdr_cnt p0"
  have exp0: "he_exp_lc p = he_exp_lc p0"
    by (simp add: p_def clamp_hdr_cnt_def Let_def)
  consider "he_ae_exp_cnt p0 = 0" | "he_ae_exp_cnt p0 \<noteq> 0" "he_mode_exp_cnt p = 0"
    | "he_ae_exp_cnt p0 \<noteq> 0" "he_mode_exp_cnt p \<noteq> 0" by blast
  then show ?thesis
  proof cases
    case 1
    then show ?thesis by (simp add: fs_alg_set_hdr_exp_st_data_def)
  next
    case 2
    then show ?thesis
      by (simp add: fs_alg_set_hdr_exp_st_data_def Let_def p_def[symmetric] exp0)
  next
    case 3
    define w3 where "w3 = upd_inst idx (with_hdr p) w"
    have ae: "unat (he_ae_exp_cnt p) \<le> 5" by (simp add: p_def clamp_hdr_cnt_ok)
    have ok3: "hdr_ok (fs_inst w3 idx)"
      using assms clamp_hdr_cnt_ok(1)[of p0] by (simp add: w3_def with_hdr_def hdr_ok_def hdr_cnt_ok_def p_def)
    define w4 where "w4 = upd_inst idx (\<lambda>s. s\<lparr>fi_shutter_lc := equivalent_exp (fs_inst w3 idx)\<rparr>) w3"
    have "hdr_ok (fs_inst w4 idx)" using ok3 by (simp add: w4_def hdr_ok_def)
    then obtain m where m: "fs_alg_update_hdr_exp_readout_fl_lc idx w4 =
        Some (upd_inst idx (\<lambda>s. s\<lparr>fi_readout_min_fl_lc := m\<rparr>) w4)"
      using update_readout_total by blast
    have eq: "fs_alg_get_hdr_equivalent_exp_lc idx w3 = Some (equivalent_exp (fs_inst w3 idx))"
      by (simp add: equivalent_exp_eq[OF ok3] equivalent_exp_def Let_def)
    let ?cond = "\<lambda>s. s\<lparr>fi_prev_hdr_exp := fi_hdr_exp s,
          fi_hdr_exp := (fi_hdr_exp s)\<lparr>he_mode_exp_cnt := he_mode_exp_cnt p,
            he_ae_exp_cnt := he_ae_exp_cnt p, he_readout_len_lc := he_readout_len_lc p,
            he_read_margin_lc := he_read_margin_lc p\<rparr>\<rparr>"
    let ?copy = "\<lambda>k. if k \<in> exp_slot (he_ae_exp_cnt p) ` {i. i < he_ae_exp_cnt p} then he_exp_lc p k
         else he_exp_lc (fi_hdr_exp (fs_inst w idx)) k"
    have copy: "copy_exp_loop (he_ae_exp_cnt p) (he_exp_lc p) (loop_idx (he_ae_exp_cnt p))
        (he_exp_lc (fi_hdr_exp (fs_inst w idx))) = Some (True, ?copy)"
      using copy_exp_loop_eq[OF ae, of "loop_idx (he_ae_exp_cnt p)"] by (simp add: set_loop_idx)
    have w3: "upd_inst idx (\<lambda>s. s\<lparr>fi_hdr_exp := (fi_hdr_exp s)\<lparr>he_exp_lc :=
            (\<lambda>i. if i < FS_HDR_MAX \<and> Some (uint i) \<notin> set (valid_exp_idx (he_mode_exp_cnt p))
                 then 0 else he_exp_lc (fi_hdr_exp s) i)\<rparr>\<rparr>)
        (upd_inst idx (\<lambda>s. s\<lparr>fi_hdr_exp := (fi_hdr_exp s)\<lparr>he_exp_lc := ?copy\<rparr>\<rparr>) (upd_inst idx ?cond w)) = w3"
      unfolding w3_def upd_inst_twice
      by (rule upd_inst_cong) (simp add: with_hdr_def stored_exp_def take_counts cong: if_cong)
    have "fs_alg_set_hdr_exp_st_data idx sh p0 w =
        Some (equivalent_exp (fs_inst w3 idx), p, upd_inst idx (\<lambda>s. s\<lparr>fi_readout_min_fl_lc := m\<rparr>) w4)"
      unfolding fs_alg_set_hdr_exp_st_data_def p_def[symmetric] Let_def
      using 3 by (simp add: copy w3 eq m[unfolded w4_def] w4_def)
    then show ?thesis
      using 3 by (auto simp: p_def[symmetric] w3_def w4_def upd_inst_twice)
  qed
qed

text \<open>
  Storing a multi-exposure setting keeps the previous one, clamps both counts to five,
  copies each exposure to its slot, clears the slots the mode does not use, and makes the sensor's
  shutter the larger of the new total exposure and of the new long exposure followed by the
  rest of the previous setting.\<close>

theorem hdr_setting_stored:
  assumes "hdr_cnt_ok (fi_hdr_exp (fs_inst w idx))" and "he_ae_exp_cnt p \<noteq> 0" and "he_mode_exp_cnt p \<noteq> 0"
  shows "\<exists>sh' w'. fs_alg_set_hdr_exp_st_data idx sh p w = Some (sh', clamp_hdr_cnt p, w')
    \<and> (let s = fs_inst w idx; s' = fs_inst w' idx; q = clamp_hdr_cnt p; n = he_mode_exp_cnt q;
           old = fi_hdr_exp s
       in sh' = fi_shutter_lc s' \<and> fi_prev_hdr_exp s' = old
         \<and> he_mode_exp_cnt (fi_hdr_exp s') = n \<and> unat n \<le> 5
         \<and> he_ae_exp_cnt (fi_hdr_exp s') = he_ae_exp_cnt q \<and> unat (he_ae_exp_cnt q) \<le> 5
         \<and> (\<forall>k < FS_HDR_MAX. he_exp_lc (fi_hdr_exp s') k =
              (if Some (uint k) \<notin> set (valid_exp_idx n) then 0
               else if k \<in> exp_slot (he_ae_exp_cnt q) ` {i. i < he_ae_exp_cnt q} then he_exp_lc p k
               else he_exp_lc old k))
         \<and> fi_shutter_lc s' = max (exp_sum n (he_exp_lc (fi_hdr_exp s')) (loop_idx n))
             (he_exp_lc (fi_hdr_exp s') 0
              + exp_sum (he_mode_exp_cnt old) (he_exp_lc old) (drop 1 (loop_idx (he_mode_exp_cnt old))))
         \<and> (\<forall>j. j \<noteq> idx \<longrightarrow> fs_inst w' j = fs_inst w j))"
proof -
  define q where "q = clamp_hdr_cnt p"
  have n0: "he_mode_exp_cnt q \<noteq> 0"
    using assms(3) by (auto simp: q_def clamp_hdr_cnt_def Let_def FS_HDR_MAX_def)
  have exps: "he_exp_lc q = he_exp_lc p" by (simp add: q_def clamp_hdr_cnt_def Let_def)
  have cnts: "unat (he_mode_exp_cnt q) \<le> 5" "unat (he_ae_exp_cnt q) \<le> 5"
    using clamp_hdr_cnt_ok[of p] by (simp_all add: q_def hdr_cnt_ok_def)
  obtain m where run: "fs_alg_set_hdr_exp_st_data idx sh p w =
      Some (equivalent_exp (with_hdr q (fs_inst w idx)), q, upd_inst idx (\<lambda>s. (with_hdr q s)\<lparr>
        fi_shutter_lc := equivalent_exp (with_hdr q (fs_inst w idx)), fi_readout_min_fl_lc := m\<rparr>) w)"
    using set_hdr_cases[OF assms(1), of sh p] assms(2) n0 unfolding q_def[symmetric] by blast
  show ?thesis
    unfolding q_def[symmetric] run Let_def
    by (rule exI, rule exI, rule conjI[OF refl])
      (simp add: with_hdr_def equivalent_exp_def Let_def cnts stored_exp_def exps)
qed

theorem hdr_setting_stored_witness:
  "\<exists>sh' p' w'. fs_alg_set_hdr_exp_st_data 0 0 (zero_hdr_exp\<lparr>he_mode_exp_cnt := 2, he_ae_exp_cnt := 2,
      he_exp_lc := (\<lambda>k. if k = 0 then 3000 else 500)\<rparr>) zero_world = Some (sh', p', w')
    \<and> fi_prev_hdr_exp (fs_inst w' 0) = zero_hdr_exp"
proof -
  have 0: "fi_hdr_exp (fs_inst zero_world 0) = zero_hdr_exp" by (simp add: zero_world_def zero_fs_inst_def)
  have "hdr_cnt_ok (fi_hdr_exp (fs_inst zero_world 0))"
    unfolding 0 by (simp add: hdr_cnt_ok_def zero_hdr_exp_def)
  from hdr_setting_stored[OF this, of "zero_hdr_exp\<lparr>he_mode_exp_cnt := 2, he_ae_exp_cnt := 2,
      he_exp_lc := (\<lambda>k. if k = 0 then 3000 else 500)\<rparr>" 0]
  show ?thesis unfolding Let_def 0 by auto
qed

subsection \<open>The setters the driver calls\<close>

text \<open>A setter rewrites one instance and keeps its record pointers.\<close>

text \<open>A setter that returns has the same shape, whatever counts were stored before.\<close>

definition hdr_only :: "(FrameSyncInst \<Rightarrow> FrameSyncInst) \<Rightarrow> bool" where
  "hdr_only g \<longleftrightarrow> (\<forall>s. fi_recs (g s) = fi_recs s \<and> fi_lineTimeInNs (g s) = fi_lineTimeInNs s
    \<and> fi_frame_cell_size (g s) = fi_frame_cell_size s \<and> fi_max_fl_lc (g s) = fi_max_fl_lc s
    \<and> fi_is_nonvalid_ts (g s) = fi_is_nonvalid_ts s)"

lemma set_hdr_returned:
  assumes "fs_alg_set_hdr_exp_st_data idx sh p w = Some (r, p', w')"
  shows "\<exists>g. w' = upd_inst idx g w \<and> hdr_only g"
proof -
  have same: "\<exists>g. w = upd_inst idx g w \<and> hdr_only g" by (rule exI[of _ "\<lambda>s. s"]) (simp add: upd_inst_def hdr_only_def)
  have step: "\<exists>g. upd_inst idx f v = upd_inst idx g w \<and> hdr_only g"
    if prev: "\<exists>g. v = upd_inst idx g w \<and> hdr_only g" and only: "hdr_only f" for f v
  proof -
    obtain g where "v = upd_inst idx g w" "hdr_only g" using prev by blast
    then show ?thesis using only by (intro exI[of _ "\<lambda>s. f (g s)"]) (simp add: upd_inst_twice hdr_only_def)
  qed
  have readout: "\<exists>g. v' = upd_inst idx g w \<and> hdr_only g"
    if "fs_alg_update_hdr_exp_readout_fl_lc idx v = Some v'" "\<exists>g. v = upd_inst idx g w \<and> hdr_only g" for v v'
    using that(1) step[OF that(2), of "\<lambda>s. s\<lparr>fi_readout_min_fl_lc := _\<rparr>"] that(2)
    by (auto simp: fs_alg_update_hdr_exp_readout_fl_lc_def Let_def hdr_only_def bind_eq_Some_conv split: if_splits option.splits)
  show ?thesis
    using assms
    by (auto simp: fs_alg_set_hdr_exp_st_data_def Let_def bind_eq_Some_conv split: if_splits
        intro!: same step dest!: readout) (use same in \<open>simp_all add: hdr_only_def\<close>)
qed

lemma set_streaming_returned:
  assumes "fs_alg_set_streaming_st_data idx p w = Some (p', w')"
  shows "\<exists>g. w' = upd_inst idx g w"
  using assms
  by (auto simp: fs_alg_set_streaming_st_data_def Let_def bind_eq_Some_conv upd_inst_twice dest!: set_hdr_returned)

lemma set_perframe_returned:
  assumes "fs_alg_set_perframe_st_data idx p w = Some (p', w')"
  shows "\<exists>g. w' = upd_inst idx g w \<and> pf_cmd_id p' = pf_cmd_id p \<and> (\<forall>s. fi_recs (g s) = fi_recs s
    \<and> fi_lineTimeInNs (g s) = pf_lineTimeInNs p \<and> fi_frame_cell_size (g s) = fi_frame_cell_size s
    \<and> fi_max_fl_lc (g s) = fi_max_fl_lc s \<and> fi_is_nonvalid_ts (g s) = fi_is_nonvalid_ts s)"
  using assms
  by (auto simp: fs_alg_set_perframe_st_data_def Let_def bind_eq_Some_conv upd_inst_twice hdr_only_def dest!: set_hdr_returned)

text \<open>
  When the bookkeeping leaves the table: a multi-exposure setting is stored although the setting
  it replaces has more than five exposures. A stream-on stores its own setting, unclamped, as the
  one to be replaced.
\<close>

definition hdr_fault :: "fs_hdr_exp_st \<Rightarrow> fs_hdr_exp_st \<Rightarrow> bool" where
  "hdr_fault p old \<longleftrightarrow> he_ae_exp_cnt p \<noteq> 0 \<and> he_mode_exp_cnt p \<noteq> 0 \<and> \<not> hdr_cnt_ok old"

lemma hdr_sum_beyond:
  assumes "5 < unat m" shows "hdr_exp_sum m f (drop 1 (loop_idx m)) a = None"
proof -
  obtain k where k: "unat m = Suc (Suc k)" using assms by (auto dest!: less_imp_Suc_add)
  have "[0..<Suc (Suc k)] = 0 # 1 # [2..<Suc (Suc k)]"
    by (simp add: upt_conv_Cons numeral_2_eq_2 del: upt_Suc)
  then have "drop 1 (loop_idx m) = 1 # map of_nat [2..<Suc (Suc k)]" by (simp add: loop_idx_def k)
  moreover have "hdr_exp_idx_map m 1 = None" using assms by (simp add: hdr_exp_idx_map_def hdr_exp_idx_table_def)
  ultimately show ?thesis by simp
qed

lemma equivalent_beyond:
  assumes "unat (he_mode_exp_cnt (fi_hdr_exp (fs_inst w idx))) \<le> 5"
    and "5 < unat (he_mode_exp_cnt (fi_prev_hdr_exp (fs_inst w idx)))"
  shows "fs_alg_get_hdr_equivalent_exp_lc idx w = None"
proof -
  define cur where "cur = fi_hdr_exp (fs_inst w idx)"
  have "hdr_exp_sum (he_mode_exp_cnt cur) f (loop_idx (he_mode_exp_cnt cur)) 0
      = Some (Some (exp_sum (he_mode_exp_cnt cur) f (loop_idx (he_mode_exp_cnt cur))))" for f
    using hdr_exp_sum_eq[OF assms(1)[folded cur_def], of "loop_idx (he_mode_exp_cnt cur)"] by (simp add: set_loop_idx)
  then show ?thesis
    unfolding fs_alg_get_hdr_equivalent_exp_lc_def Let_def cur_def[symmetric]
    by (simp add: hdr_sum_beyond[OF assms(2), unfolded One_nat_def])
qed

lemma set_hdr_faults:
  "fs_alg_set_hdr_exp_st_data idx sh p w = None \<longleftrightarrow> hdr_fault p (fi_hdr_exp (fs_inst w idx))"
proof (cases "hdr_fault p (fi_hdr_exp (fs_inst w idx))")
  case False
  have zero: "he_mode_exp_cnt (clamp_hdr_cnt p) = 0 \<longleftrightarrow> he_mode_exp_cnt p = 0"
    by (auto simp: clamp_hdr_cnt_def Let_def FS_HDR_MAX_def)
  consider "he_ae_exp_cnt p = 0" | "he_ae_exp_cnt p \<noteq> 0" "he_mode_exp_cnt p = 0"
    | "hdr_cnt_ok (fi_hdr_exp (fs_inst w idx))"
    using False by (auto simp: hdr_fault_def)
  then have "fs_alg_set_hdr_exp_st_data idx sh p w \<noteq> None"
    by cases (use set_hdr_cases in \<open>force simp: fs_alg_set_hdr_exp_st_data_def Let_def zero\<close>)+
  with False show ?thesis by simp
next
  case True
  define q where "q = clamp_hdr_cnt p"
  have nz: "he_ae_exp_cnt p \<noteq> 0" "he_mode_exp_cnt q \<noteq> 0" "5 < unat (he_mode_exp_cnt (fi_hdr_exp (fs_inst w idx)))"
    using True by (auto simp: hdr_fault_def q_def clamp_hdr_cnt_def Let_def FS_HDR_MAX_def hdr_cnt_ok_def)
  have ae: "unat (he_ae_exp_cnt q) \<le> 5" and mode: "unat (he_mode_exp_cnt q) \<le> 5"
    using clamp_hdr_cnt_ok[of p] by (simp_all add: q_def hdr_cnt_ok_def)
  obtain e where copy: "copy_exp_loop (he_ae_exp_cnt q) (he_exp_lc q) (loop_idx (he_ae_exp_cnt q))
        (he_exp_lc (fi_hdr_exp (fs_inst w idx))) = Some (True, e)"
    using copy_exp_loop_eq[OF ae, of "loop_idx (he_ae_exp_cnt q)"] by (simp add: set_loop_idx)
  define w3 where "w3 = upd_inst idx (\<lambda>s. s\<lparr>fi_hdr_exp := (fi_hdr_exp s)\<lparr>he_exp_lc :=
            (\<lambda>i. if i < FS_HDR_MAX \<and> Some (uint i) \<notin> set (valid_exp_idx (he_mode_exp_cnt q))
                 then 0 else he_exp_lc (fi_hdr_exp s) i)\<rparr>\<rparr>)
        (upd_inst idx (\<lambda>s. s\<lparr>fi_hdr_exp := (fi_hdr_exp s)\<lparr>he_exp_lc := e\<rparr>\<rparr>)
        (upd_inst idx (\<lambda>s. s\<lparr>fi_prev_hdr_exp := fi_hdr_exp s,
          fi_hdr_exp := (fi_hdr_exp s)\<lparr>he_mode_exp_cnt := he_mode_exp_cnt q,
            he_ae_exp_cnt := he_ae_exp_cnt q, he_readout_len_lc := he_readout_len_lc q,
            he_read_margin_lc := he_read_margin_lc q\<rparr>\<rparr>) w))"
  have "fs_alg_get_hdr_equivalent_exp_lc idx w3 = None"
    by (rule equivalent_beyond) (use mode nz(3) in \<open>simp_all add: w3_def\<close>)
  then have "fs_alg_set_hdr_exp_st_data idx sh p w = None"
    unfolding fs_alg_set_hdr_exp_st_data_def q_def[symmetric] Let_def
    using nz by (simp add: copy w3_def[symmetric])
  with True show ?thesis by simp
qed

lemma set_streaming_faults:
  "fs_alg_set_streaming_st_data idx p w = None \<longleftrightarrow> hdr_fault (ss_hdr_exp p) (ss_hdr_exp p)"
  by (auto simp: fs_alg_set_streaming_st_data_def Let_def bind_eq_None_conv set_hdr_faults split_beta)

lemma set_perframe_faults:
  "fs_alg_set_perframe_st_data idx p w = None \<longleftrightarrow> hdr_fault (pf_hdr_exp p) (fi_hdr_exp (fs_inst w idx))"
  by (auto simp: fs_alg_set_perframe_st_data_def Let_def bind_eq_None_conv set_hdr_faults split_beta)

text \<open>C37. A stream-on faults exactly when it is a multi-exposure setting with more than five
  exposures: the setting is stored as given, and only the copy used is cut to five, so the sum over
  the exposures it replaces reads beyond the table of five. A control faults exactly when it is a
  multi-exposure setting and the stored one has more than five exposures.\<close>

theorem multi_exposure_faults_iff:
  "(fs_alg_set_streaming_st_data idx s w = None \<longleftrightarrow>
      he_ae_exp_cnt (ss_hdr_exp s) \<noteq> 0 \<and> 5 < unat (he_mode_exp_cnt (ss_hdr_exp s)))
   \<and> (fs_alg_set_perframe_st_data idx p w = None \<longleftrightarrow>
      he_ae_exp_cnt (pf_hdr_exp p) \<noteq> 0 \<and> he_mode_exp_cnt (pf_hdr_exp p) \<noteq> 0
      \<and> 5 < unat (he_mode_exp_cnt (fi_hdr_exp (fs_inst w idx))))"
  by (auto simp: set_streaming_faults set_perframe_faults hdr_fault_def hdr_cnt_ok_def not_le)

end
