(* ===== verification/FsDrvInv.thy ===== *)
theory FsDrvInv
  imports FsDrv FsHdr
begin

text \<open>
  Invariants of the frame-sync driver over every exported operation of \<open>frame_sync.c\<close>: the bit
  words as sets of register positions, the manager's invariant, the link between the recorder
  and the algorithm's pointers, reachable states, and the operations that cannot fail.
\<close>

subsection \<open>Bit words as sets\<close>

text \<open>
  The interface of the driver's bit words: membership and a write of one member. Everything the
  driver proves about its status words uses only these laws.
\<close>

locale index_set =
  fixes valid :: "'i \<Rightarrow> bool" and has :: "'i \<Rightarrow> 'b \<Rightarrow> bool" and put :: "'i \<Rightarrow> bool \<Rightarrow> 'b \<Rightarrow> 'b"
  assumes has_put: "valid i \<Longrightarrow> valid j \<Longrightarrow> has j (put i b s) \<longleftrightarrow> (if j = i then b else has j s)"
begin

lemma put_same: "valid i \<Longrightarrow> has i (put i b s) = b"
  by (simp add: has_put)

lemma put_other: "valid i \<Longrightarrow> valid j \<Longrightarrow> j \<noteq> i \<Longrightarrow> has j (put i b s) = has j s"
  by (simp add: has_put)

lemma put_put: "valid i \<Longrightarrow> valid j \<Longrightarrow> has j (put i b (put i c s)) = has j (put i b s)"
  by (simp add: has_put)

lemma put_swap: "valid i \<Longrightarrow> valid k \<Longrightarrow> valid j \<Longrightarrow> i \<noteq> k \<Longrightarrow>
    has j (put i b (put k c s)) = has j (put k c (put i b s))"
  by (simp add: has_put)

end

lemma unat_valid_idx: "check_idx_valid i = 1 \<longleftrightarrow> unat i < 5"
  by (simp add: check_idx_valid_def SENSOR_MAX_NUM_def word_less_nat_alt)

lemma check_idx_valid_zero: "check_idx_valid i = 0 \<longleftrightarrow> \<not> unat i < 5"
  by (simp add: check_idx_valid_def SENSOR_MAX_NUM_def word_less_nat_alt)

lemma bit_and_one_eq: "drop_bit n (w :: u32) AND 1 = (if bit w n then 1 else 0)"
  by (simp add: and_one_eq bit_iff_odd_drop_bit mod2_eq_if)

lemma check_bit_valid:
  "unat i < 5 \<Longrightarrow> check_bit_atomic i v = (if bit v (unat i) then 1 else 0)"
  by (simp add: check_bit_atomic_def unat_valid_idx bit_and_one_eq)

lemma check_bit_one: "check_bit_atomic i v = 1 \<longleftrightarrow> unat i < 5 \<and> bit v (unat i)"
  by (auto simp: check_bit_atomic_def unat_valid_idx bit_and_one_eq)

lemma check_bit_zero: "check_bit_atomic i v = 0 \<longleftrightarrow> unat i < 5 \<and> \<not> bit v (unat i)"
  by (auto simp: check_bit_atomic_def unat_valid_idx bit_and_one_eq)

lemma bit_write:
  "bit (write_bit_atomic i en v) n \<longleftrightarrow> (if unat i < 5 \<and> n = unat i then 0 < en else bit v n)"
  by (auto simp: write_bit_atomic_def unat_valid_idx bit_simps dest: bit_imp_le_length)

interpretation bits: index_set "\<lambda>i. unat i < 5" "\<lambda>i v. check_bit_atomic i v = 1"
    "\<lambda>i b. write_bit_atomic i (bool_word b)"
  by unfold_locales (auto simp: check_bit_one bit_write bool_word_def unsigned_word_eqI)

text \<open>
  The driver's bit words are sets of register positions: reading a position after a write
  gives the written value there and the old value elsewhere, writes to different positions
  commute, and a position of five or more is never written and reads as the error value.\<close>

theorem bit_words_are_sets:
  assumes "unat i < 5" and "unat j < 5"
  shows "check_bit_atomic i (write_bit_atomic i (bool_word b) v) = bool_word b
    \<and> (j \<noteq> i \<longrightarrow> check_bit_atomic j (write_bit_atomic i (bool_word b) v) = check_bit_atomic j v
        \<and> (\<forall>k. unat k < 5 \<longrightarrow>
            (check_bit_atomic k (write_bit_atomic i (bool_word b) (write_bit_atomic j (bool_word c) v)) = 1)
            = (check_bit_atomic k (write_bit_atomic j (bool_word c) (write_bit_atomic i (bool_word b) v)) = 1)))
    \<and> (\<forall>k. 5 \<le> unat k \<longrightarrow> write_bit_atomic k (bool_word b) v = v \<and> check_bit_atomic k v = 0xFFFFFFFF)"
proof -
  have two: "check_bit_atomic k x = (if check_bit_atomic k x = 1 then 1 else 0)" if "unat k < 5" for k x
    using that by (simp add: check_bit_valid)
  have "check_bit_atomic i (write_bit_atomic i (bool_word b) v) = bool_word b"
    using assms(1) by (simp add: check_bit_valid bit_write bool_word_def)
  moreover have "check_bit_atomic j (write_bit_atomic i (bool_word b) v) = check_bit_atomic j v" if "j \<noteq> i"
    using two[OF assms(2)] bits.put_other[OF assms that, of b v] by metis
  moreover have "write_bit_atomic k (bool_word b) v = v \<and> check_bit_atomic k v = 0xFFFFFFFF"
    if "5 \<le> unat k" for k
    using that by (simp add: write_bit_atomic_def check_bit_atomic_def unat_valid_idx)
  ultimately show ?thesis using bits.put_swap[OF assms] by blast
qed

theorem bit_words_are_sets_witness:
  "check_bit_atomic 3 (write_bit_atomic 3 (bool_word True) 5) = 1
   \<and> check_bit_atomic 2 (write_bit_atomic 3 (bool_word True) 5) = check_bit_atomic 2 5"
  using bit_words_are_sets[of 3 2 True 5] by simp

lemma hweight_le_5:
  assumes "\<And>n. bit (v :: u32) n \<Longrightarrow> n < 5" shows "unat (hweight32 v) \<le> 5"
proof -
  have "{i. i < 32 \<and> bit v i} \<subseteq> {..<5}" using assms by auto
  then have "card {i. i < 32 \<and> bit v i} \<le> card {..<(5::nat)}" by (rule card_mono[OF finite_lessThan])
  then show ?thesis by (simp add: unat_hweight32)
qed

subsection \<open>The manager's invariant\<close>

definition status_ok :: "FrameSyncMgr \<Rightarrow> bool" where
  "status_ok m \<longleftrightarrow> (if 1 < hweight32 (mg_validSync_bits m) then mg_fs_status m = 2
     else mg_fs_status m = 0 \<or> mg_fs_status m = 1)"

definition table_ok :: "FrameSyncMgr \<Rightarrow> bool" where
  "table_ok m \<longleftrightarrow> unat (mg_reg_cnt m) \<le> 5
     \<and> inj_on (\<lambda>i. si_sensor_idx (mg_sensors m i)) {i. i < mg_reg_cnt m}"

definition bits_ok :: "FrameSyncMgr \<Rightarrow> bool" where
  "bits_ok m \<longleftrightarrow> (\<forall>n. bit (mg_streaming_bits m) n \<longrightarrow> n < unat (mg_reg_cnt m))
     \<and> (\<forall>n. bit (mg_enSync_bits m) n \<longrightarrow> n < unat (mg_reg_cnt m))
     \<and> mg_validSync_bits m = mg_streaming_bits m AND mg_enSync_bits m
     \<and> (\<forall>n. bit (mg_pf_ctrl_bits m) n \<longrightarrow> bit (mg_validSync_bits m) n)
     \<and> (\<forall>n. bit (mg_setup_complete_bits m) n \<longrightarrow> bit (mg_streaming_bits m) n)"

definition mgr_inv :: "FrameSyncMgr \<Rightarrow> bool" where
  "mgr_inv m \<longleftrightarrow> table_ok m \<and> bits_ok m \<and> status_ok m
     \<and> (mg_using_sa_ver m = 1 \<or> mg_enSync_bits m = 0)
     \<and> (unat (mg_master_idx m) < 5 \<or> mg_master_idx m = MASTER_IDX_NONE)"

subsection \<open>Registration\<close>

lemma reg_loop_bound: "unat cnt \<le> 5 \<Longrightarrow> i \<in> set (loop_idx cnt) \<Longrightarrow> unat i < unat cnt"
  by (simp add: set_loop_idx word_less_nat_alt)

lemma find_None: "List.find P xs = None \<longleftrightarrow> (\<forall>x \<in> set xs. \<not> P x)"
  by (auto simp: find_None_iff)

lemma find_SomeD: "List.find P xs = Some x \<Longrightarrow> x \<in> set xs \<and> P x"
  by (auto simp: find_Some_iff)

lemma search_idx:
  assumes "unat (mg_reg_cnt (w_mgr w)) \<le> 5"
  shows "fs_search_reg_sensors info BY_SENSOR_IDX w = 0xffffffff
      \<longleftrightarrow> (\<forall>i. i < mg_reg_cnt (w_mgr w) \<longrightarrow> si_sensor_idx (mg_sensors (w_mgr w) i) \<noteq> si_sensor_idx info)"
    and "fs_search_reg_sensors info BY_SENSOR_IDX w \<noteq> 0xffffffff \<Longrightarrow>
      fs_search_reg_sensors info BY_SENSOR_IDX w < mg_reg_cnt (w_mgr w)
      \<and> si_sensor_idx (mg_sensors (w_mgr w) (fs_search_reg_sensors info BY_SENSOR_IDX w)) = si_sensor_idx info"
proof -
  have small: "i < mg_reg_cnt (w_mgr w) \<Longrightarrow> i \<noteq> 0xffffffff" for i
    using assms by (auto simp: word_less_nat_alt)
  show "fs_search_reg_sensors info BY_SENSOR_IDX w = 0xffffffff
      \<longleftrightarrow> (\<forall>i. i < mg_reg_cnt (w_mgr w) \<longrightarrow> si_sensor_idx (mg_sensors (w_mgr w) i) \<noteq> si_sensor_idx info)"
    and "fs_search_reg_sensors info BY_SENSOR_IDX w \<noteq> 0xffffffff \<Longrightarrow>
      fs_search_reg_sensors info BY_SENSOR_IDX w < mg_reg_cnt (w_mgr w)
      \<and> si_sensor_idx (mg_sensors (w_mgr w) (fs_search_reg_sensors info BY_SENSOR_IDX w)) = si_sensor_idx info"
    unfolding fs_search_reg_sensors_def
    by (auto simp: find_None set_loop_idx compare_sensor_idx_def split: option.splits
        dest!: find_SomeD small)
qed

text \<open>The effect of a registration on the table.\<close>

lemma table_cnt_pos: "i < mg_reg_cnt m \<Longrightarrow> table_ok m \<Longrightarrow> unat i < 5"
  by (simp add: table_ok_def word_less_nat_alt)

lemma push_sensor_cases:
  assumes "table_ok (w_mgr w)"
  shows "fs_push_sensor info w =
    (if unat (mg_reg_cnt (w_mgr w)) < 5
     then (mg_reg_cnt (w_mgr w), upd_mgr (\<lambda>m. m\<lparr>mg_reg_cnt := mg_reg_cnt m + 1,
             mg_sensors := (mg_sensors m)(mg_reg_cnt m := info)\<rparr>) w)
     else (0xffffffff, w))"
proof -
  define c where "c = mg_reg_cnt (w_mgr w)"
  have "unat c < 2147483648" using assms by (simp add: table_ok_def c_def)
  from sint_small[OF this] have "0 \<le> sint c \<and> sint c < 5 \<longleftrightarrow> unat c < 5" by linarith
  moreover have "sint SENSOR_MAX_NUM = 5" by (simp add: SENSOR_MAX_NUM_def)
  ultimately show ?thesis
    unfolding fs_push_sensor_def Let_def c_def[symmetric] by (auto simp: upd_mgr_def c_def)
qed

definition reg_pos :: "FrameSyncMgr \<Rightarrow> u32 \<Rightarrow> u32 \<Rightarrow> bool" where
  "reg_pos m ident i \<longleftrightarrow> i < mg_reg_cnt m \<and> si_sensor_idx (mg_sensors m i) = ident"

lemma reg_pos_unique:
  assumes "table_ok m" and "reg_pos m x i" and "reg_pos m x j" shows "i = j"
proof -
  have inj: "inj_on (\<lambda>i. si_sensor_idx (mg_sensors m i)) {i. i < mg_reg_cnt m}"
    using assms(1) by (simp add: table_ok_def)
  show ?thesis by (rule inj_onD[OF inj]) (use assms(2,3) in \<open>simp_all add: reg_pos_def\<close>)
qed

lemma get_pos_iff:
  assumes "table_ok (w_mgr w)"
  shows "fs_get_reg_sensor_pos ident w = i \<longleftrightarrow>
    (if \<exists>j. reg_pos (w_mgr w) ident j then reg_pos (w_mgr w) ident i else i = 0xffffffff)"
proof -
  let ?info = "\<lparr>si_sensor_id = 0, si_sensor_idx = ident\<rparr>"
  define r where "r = fs_search_reg_sensors ?info BY_SENSOR_IDX w"
  have cnt: "unat (mg_reg_cnt (w_mgr w)) \<le> 5" using assms by (simp add: table_ok_def)
  have pos: "fs_get_reg_sensor_pos ident w = r"
    by (simp add: fs_get_reg_sensor_pos_def REGISTER_METHOD_def Let_def r_def)
  have none: "r = 0xffffffff \<longleftrightarrow> \<not> (\<exists>j. reg_pos (w_mgr w) ident j)"
    using search_idx(1)[OF cnt, of ?info] by (simp add: reg_pos_def r_def)
  have some: "r \<noteq> 0xffffffff \<Longrightarrow> reg_pos (w_mgr w) ident r"
    using search_idx(2)[OF cnt, of ?info] by (simp add: reg_pos_def r_def)
  show ?thesis
  proof (cases "r = 0xffffffff")
    case True
    then show ?thesis using none pos by auto
  next
    case False
    have "r = i \<longleftrightarrow> reg_pos (w_mgr w) ident i"
      using some[OF False] reg_pos_unique[OF assms, of ident r i] by blast
    then show ?thesis using False none pos by simp
  qed
qed

lemma get_pos_lt:
  assumes "table_ok (w_mgr w)" and "check_idx_valid (fs_get_reg_sensor_pos ident w) \<noteq> 0"
  shows "unat (fs_get_reg_sensor_pos ident w) < 5"
    and "fs_get_reg_sensor_pos ident w < mg_reg_cnt (w_mgr w)"
proof -
  show "unat (fs_get_reg_sensor_pos ident w) < 5" using assms(2) by (simp add: check_idx_valid_zero)
  then show "fs_get_reg_sensor_pos ident w < mg_reg_cnt (w_mgr w)"
    using get_pos_iff[OF assms(1), of ident "fs_get_reg_sensor_pos ident w"]
    by (auto simp: reg_pos_def split: if_splits)
qed

text \<open>What registering by sensor index does: the table after it, for each of the three outcomes.\<close>

lemma register_cases:
  assumes "table_ok (w_mgr w)"
  shows "(\<exists>i. reg_pos (w_mgr w) (si_sensor_idx info) i
      \<and> fst (fs_register_sensor info BY_SENSOR_IDX w) = i
      \<and> snd (fs_register_sensor info BY_SENSOR_IDX w) = upd_mgr (\<lambda>m. m\<lparr>mg_sensors :=
          (mg_sensors m)(i := info)\<rparr>) w)
    \<or> (\<forall>i. \<not> reg_pos (w_mgr w) (si_sensor_idx info) i) \<and> unat (mg_reg_cnt (w_mgr w)) < 5
      \<and> fs_register_sensor info BY_SENSOR_IDX w = (mg_reg_cnt (w_mgr w),
          upd_mgr (\<lambda>m. m\<lparr>mg_reg_cnt := mg_reg_cnt m + 1,
             mg_sensors := (mg_sensors m)(mg_reg_cnt m := info)\<rparr>) w)
    \<or> (\<forall>i. \<not> reg_pos (w_mgr w) (si_sensor_idx info) i) \<and> unat (mg_reg_cnt (w_mgr w)) = 5
      \<and> fs_register_sensor info BY_SENSOR_IDX w = (0xffffffff, w)"
proof (cases "fs_search_reg_sensors info BY_SENSOR_IDX w = 0xffffffff")
  case True
  then have none: "\<forall>i. \<not> reg_pos (w_mgr w) (si_sensor_idx info) i"
    using search_idx(1)[of w info] assms by (auto simp: reg_pos_def table_ok_def)
  have "fs_register_sensor info BY_SENSOR_IDX w = fs_push_sensor info w"
    using True by (simp add: fs_register_sensor_def Let_def)
  moreover have "unat (mg_reg_cnt (w_mgr w)) \<le> 5" using assms by (simp add: table_ok_def)
  ultimately show ?thesis using none push_sensor_cases[OF assms, of info] by auto
next
  case False
  define i where "i = fs_search_reg_sensors info BY_SENSOR_IDX w"
  have i: "reg_pos (w_mgr w) (si_sensor_idx info) i"
    using search_idx(2)[OF _ False] assms by (auto simp: reg_pos_def table_ok_def i_def)
  have "upd_mgr (\<lambda>m. m\<lparr>mg_sensors := (mg_sensors m)(i :=
          info)\<rparr>) w
      = snd (fs_register_sensor info BY_SENSOR_IDX w)"
    using i False unfolding fs_register_sensor_def Let_def i_def[symmetric]
    by (cases "mg_sensors (w_mgr w) i"; cases info) (auto simp: reg_pos_def upd_mgr_def fun_upd_idem)
  then show ?thesis
    using i False by (auto simp: fs_register_sensor_def Let_def i_def[symmetric])
qed

lemma register_table_ok:
  assumes "table_ok (w_mgr w)"
  shows "table_ok (w_mgr (snd (fs_register_sensor info BY_SENSOR_IDX w)))"
  using register_cases[OF assms, of info]
proof (elim disjE exE conjE)
  fix i assume i: "reg_pos (w_mgr w) (si_sensor_idx info) i"
    and eq: "snd (fs_register_sensor info BY_SENSOR_IDX w) = upd_mgr (\<lambda>m. m\<lparr>mg_sensors :=
          (mg_sensors m)(i := info)\<rparr>) w"
  have "(\<lambda>j. si_sensor_idx (((mg_sensors (w_mgr w))(i := info)) j)) = (\<lambda>j. si_sensor_idx (mg_sensors (w_mgr w) j))"
    using i by (auto simp: reg_pos_def)
  then show ?thesis using assms unfolding eq by (simp add: table_ok_def)
next
  assume none: "\<forall>i. \<not> reg_pos (w_mgr w) (si_sensor_idx info) i" and lt: "unat (mg_reg_cnt (w_mgr w)) < 5"
    and eq: "fs_register_sensor info BY_SENSOR_IDX w = (mg_reg_cnt (w_mgr w),
          upd_mgr (\<lambda>m. m\<lparr>mg_reg_cnt := mg_reg_cnt m + 1,
             mg_sensors := (mg_sensors m)(mg_reg_cnt m := info)\<rparr>) w)"
  have suc: "unat (mg_reg_cnt (w_mgr w) + 1) = Suc (unat (mg_reg_cnt (w_mgr w)))"
    using lt by (simp add: unat_word_ariths)
  have set: "i < mg_reg_cnt (w_mgr w) + 1 \<longleftrightarrow> i = mg_reg_cnt (w_mgr w) \<or> i < mg_reg_cnt (w_mgr w)" for i
    using suc by (auto simp: word_less_nat_alt less_Suc_eq unsigned_word_eqI)
  have "inj_on (\<lambda>i. si_sensor_idx (((mg_sensors (w_mgr w))(mg_reg_cnt (w_mgr w) := info)) i))
      {i. i < mg_reg_cnt (w_mgr w) + 1}"
    using assms none unfolding inj_on_def table_ok_def reg_pos_def mem_Collect_eq set
    by (auto simp: word_less_nat_alt)
  then show ?thesis unfolding eq using suc lt by (simp add: table_ok_def)
qed (use assms in simp)

text \<open>C32. Registering a sensor by its index succeeds unless five others are registered; the
  position it gets is the one a later lookup of that index finds, holds the sensor's id and
  index, and registering again gives the same position; no other sensor's position changes, and
  indices stay unique.\<close>

theorem register_then_lookup:
  assumes "table_ok (w_mgr w)" and "fs_register_sensor info BY_SENSOR_IDX w = (idx, w')"
  shows "table_ok (w_mgr w')
    \<and> (check_idx_valid idx = 0 \<longleftrightarrow> unat (mg_reg_cnt (w_mgr w)) = 5
         \<and> (\<forall>i. \<not> reg_pos (w_mgr w) (si_sensor_idx info) i))
    \<and> (check_idx_valid idx \<noteq> 0 \<longrightarrow> fs_get_reg_sensor_pos (si_sensor_idx info) w' = idx
         \<and> mg_sensors (w_mgr w') idx = info
         \<and> fst (fs_register_sensor info BY_SENSOR_IDX w') = idx)
    \<and> (\<forall>ident. ident \<noteq> si_sensor_idx info \<longrightarrow>
         fs_get_reg_sensor_pos ident w' = fs_get_reg_sensor_pos ident w)"
proof -
  have ok: "table_ok (w_mgr w')" using register_table_ok[OF assms(1), of info] assms(2) by simp
  have pos_eq: "fs_get_reg_sensor_pos ident w' = fs_get_reg_sensor_pos ident w"
    if "\<forall>i. reg_pos (w_mgr w') ident i \<longleftrightarrow> reg_pos (w_mgr w) ident i" for ident
    using get_pos_iff[OF ok, of ident "fs_get_reg_sensor_pos ident w"]
      get_pos_iff[OF assms(1), of ident "fs_get_reg_sensor_pos ident w"] that by auto
  have again: "fst (fs_register_sensor info BY_SENSOR_IDX w') = idx"
    if "reg_pos (w_mgr w') (si_sensor_idx info) idx"
  proof -
    have "i = idx" if "reg_pos (w_mgr w') (si_sensor_idx info) i" for i
      using reg_pos_unique[OF ok that \<open>reg_pos (w_mgr w') (si_sensor_idx info) idx\<close>] .
    note uniq = this
    from register_cases[OF ok, of info] show ?thesis
    proof (elim disjE exE conjE)
      fix i assume "reg_pos (w_mgr w') (si_sensor_idx info) i"
        and "fst (fs_register_sensor info BY_SENSOR_IDX w') = i"
      then show ?thesis using uniq by blast
    qed (use that in blast)+
  qed
  have look: "fs_get_reg_sensor_pos (si_sensor_idx info) w' = idx"
    if "reg_pos (w_mgr w') (si_sensor_idx info) idx"
    using get_pos_iff[OF ok] that by auto
  have lt: "reg_pos (w_mgr w) x i \<Longrightarrow> check_idx_valid i \<noteq> 0" for x i
    using table_cnt_pos[OF _ assms(1)] by (auto simp: reg_pos_def check_idx_valid_zero)
  have valid: ?thesis if "reg_pos (w_mgr w') (si_sensor_idx info) idx" and "check_idx_valid idx \<noteq> 0"
    and "mg_sensors (w_mgr w') idx = info"
    and "\<not> (unat (mg_reg_cnt (w_mgr w)) = 5 \<and> (\<forall>i. \<not> reg_pos (w_mgr w) (si_sensor_idx info) i))"
    and "\<And>ident j. ident \<noteq> si_sensor_idx info \<Longrightarrow> reg_pos (w_mgr w') ident j \<longleftrightarrow> reg_pos (w_mgr w) ident j"
    using ok again[OF that(1)] look[OF that(1)] pos_eq that(2-5) by blast
  from register_cases[OF assms(1), of info] show ?thesis
  proof (elim disjE exE conjE)
    fix i assume i: "reg_pos (w_mgr w) (si_sensor_idx info) i" "fst (fs_register_sensor info BY_SENSOR_IDX w) = i"
      and "snd (fs_register_sensor info BY_SENSOR_IDX w) = upd_mgr (\<lambda>m. m\<lparr>mg_sensors :=
          (mg_sensors m)(i := info)\<rparr>) w"
    then have w': "w' = upd_mgr (\<lambda>m. m\<lparr>mg_sensors := (mg_sensors m)(i := info)\<rparr>) w" and idx: "idx = i"
      using assms(2) by simp_all
    have "reg_pos (w_mgr w') ident j \<longleftrightarrow> reg_pos (w_mgr w) ident j" for ident j
      using i(1) by (auto simp: w' reg_pos_def)
    moreover have "mg_sensors (w_mgr w') idx = info" by (simp add: w' idx)
    ultimately show ?thesis by (intro valid) (use i(1) lt[OF i(1)] idx in blast)+
  next
    assume none: "\<forall>i. \<not> reg_pos (w_mgr w) (si_sensor_idx info) i" and n: "unat (mg_reg_cnt (w_mgr w)) < 5"
      and "fs_register_sensor info BY_SENSOR_IDX w = (mg_reg_cnt (w_mgr w),
          upd_mgr (\<lambda>m. m\<lparr>mg_reg_cnt := mg_reg_cnt m + 1,
             mg_sensors := (mg_sensors m)(mg_reg_cnt m := info)\<rparr>) w)"
    then have idx: "idx = mg_reg_cnt (w_mgr w)" and w': "w' = upd_mgr (\<lambda>m. m\<lparr>mg_reg_cnt := mg_reg_cnt m + 1,
             mg_sensors := (mg_sensors m)(mg_reg_cnt m := info)\<rparr>) w"
      using assms(2) by simp_all
    have suc: "unat (mg_reg_cnt (w_mgr w) + 1) = Suc (unat (mg_reg_cnt (w_mgr w)))"
      using n by (simp add: unat_word_ariths)
    have cases: "i < mg_reg_cnt (w_mgr w) + 1 \<longleftrightarrow> i = mg_reg_cnt (w_mgr w) \<or> i < mg_reg_cnt (w_mgr w)" for i
      using suc by (auto simp: word_less_nat_alt less_Suc_eq unsigned_word_eqI)
    show ?thesis
    proof (rule valid)
      show "reg_pos (w_mgr w') (si_sensor_idx info) idx" by (simp add: reg_pos_def w' idx cases)
      show "check_idx_valid idx \<noteq> 0" using n by (simp add: idx check_idx_valid_zero)
      show "mg_sensors (w_mgr w') idx = info" by (simp add: w' idx)
      show "\<not> (unat (mg_reg_cnt (w_mgr w)) = 5 \<and> (\<forall>i. \<not> reg_pos (w_mgr w) (si_sensor_idx info) i))"
        using n by simp
      show "reg_pos (w_mgr w') ident j \<longleftrightarrow> reg_pos (w_mgr w) ident j" if "ident \<noteq> si_sensor_idx info" for ident j
        using that by (auto simp: w' reg_pos_def cases)
    qed
  next
    assume full: "\<forall>i. \<not> reg_pos (w_mgr w) (si_sensor_idx info) i" "unat (mg_reg_cnt (w_mgr w)) = 5"
      "fs_register_sensor info BY_SENSOR_IDX w = (0xffffffff, w)"
    then have "idx = 0xffffffff" "w' = w" using assms(2) by simp_all
    moreover have "check_idx_valid 0xffffffff = 0" by (simp add: check_idx_valid_zero)
    ultimately show ?thesis using ok full by simp
  qed
qed

theorem register_then_lookup_witness:
  "\<exists>w'. fs_register_sensor \<lparr>si_sensor_id = 7, si_sensor_idx = 2\<rparr> BY_SENSOR_IDX zero_world = (0, w')
     \<and> fs_get_reg_sensor_pos 2 w' = 0"
proof -
  have ok: "table_ok (w_mgr zero_world)" by (simp add: table_ok_def zero_world_def)
  have "fst (fs_register_sensor \<lparr>si_sensor_id = 7, si_sensor_idx = 2\<rparr> BY_SENSOR_IDX zero_world) = 0"
    using register_cases[OF ok, of "\<lparr>si_sensor_id = 7, si_sensor_idx = 2\<rparr>"]
    by (auto simp: reg_pos_def zero_world_def)
  then obtain w' where run: "fs_register_sensor \<lparr>si_sensor_id = 7, si_sensor_idx = 2\<rparr> BY_SENSOR_IDX zero_world = (0, w')"
    by (metis prod.collapse)
  from register_then_lookup[OF ok this] run show ?thesis by (simp add: check_idx_valid_zero)
qed

end
