(* ===== verification/FsDrvSafe.thy ===== *)
theory FsDrvSafe
  imports FsDrvInv
begin

text \<open>
  Every exported operation of the driver keeps its invariant, so every reachable state has it;
  and in such a state the operations return, with one exception that is made precise.
\<close>

subsection \<open>The driver's invariant\<close>

definition link_ptrs :: "u32 \<Rightarrow> u32 \<Rightarrow> frame_record_st carray" where
  "link_ptrs i depthIdx = frec_fill i depthIdx (loop_idx RECORDER_DEPTH) (\<lambda>_. null_frame_record_st)"

definition recs_linked :: "fs_world \<Rightarrow> u32 \<Rightarrow> bool" where
  "recs_linked w i \<longleftrightarrow> (\<forall>k \<in> {0, 1, 2, 3}.
     fi_recs (fs_inst w i) k = link_ptrs i (rc_depthIdx (w_recorder w i)) k)"

definition data_inv :: "fs_world \<Rightarrow> bool" where
  "data_inv w \<longleftrightarrow> (\<forall>i. rec_ok (w_recorder w i)) \<and> unat (sa_master_idx (al_sa (w_alg w))) < 5"

definition linked_inv :: "fs_world \<Rightarrow> bool" where
  "linked_inv w \<longleftrightarrow> (\<forall>i. bit (mg_streaming_bits (w_mgr w)) (unat i) \<longrightarrow> recs_linked w i)"

definition drv_inv :: "fs_world \<Rightarrow> bool" where
  "drv_inv w \<longleftrightarrow> mgr_inv (w_mgr w) \<and> data_inv w \<and> linked_inv w"

lemma link_ptrs_eq:
  "link_ptrs i d 0 = \<lparr>rs_framelength_lc = Some (i, frec_back d), rs_shutter_lc = Some (i, frec_back d)\<rparr>"
  "link_ptrs i d 1 = \<lparr>rs_framelength_lc = Some (i, frec_back (frec_back d)),
     rs_shutter_lc = Some (i, frec_back (frec_back d))\<rparr>"
  "link_ptrs i d 2 = \<lparr>rs_framelength_lc = Some (i, frec_back (frec_back (frec_back d))),
     rs_shutter_lc = Some (i, frec_back (frec_back (frec_back d)))\<rparr>"
  "link_ptrs i d 3 = \<lparr>rs_framelength_lc = Some (i, frec_back (frec_back (frec_back (frec_back d)))),
     rs_shutter_lc = Some (i, frec_back (frec_back (frec_back (frec_back d))))\<rparr>"
  by (simp_all add: link_ptrs_def loop_idx_depth)

lemma recs_linked_ready: "recs_linked w i \<Longrightarrow> recs_ready (fs_inst w i)"
  by (auto simp: recs_linked_def recs_ready_def link_ptrs_eq)

text \<open>The invariant reads only the manager, the recorder positions, and of an instance the
  pointers and exposure settings; so a run of the algorithm keeps it.\<close>

lemma data_inv_cong:
  assumes "\<And>i. rc_depthIdx (w_recorder w i) = rc_depthIdx (w_recorder v i)"
    and "\<And>i. inst_conf (fs_inst w i) = inst_conf (fs_inst v i)"
    and "unat (sa_master_idx (al_sa (w_alg w))) < 5"
  shows "data_inv v \<Longrightarrow> data_inv w"
  using assms by (simp add: data_inv_def rec_ok_def)

lemma linked_inv_cong:
  assumes "\<And>i. rc_depthIdx (w_recorder w i) = rc_depthIdx (w_recorder v i)"
    and "\<And>i. inst_conf (fs_inst w i) = inst_conf (fs_inst v i)"
    and "mg_streaming_bits (w_mgr w) = mg_streaming_bits (w_mgr v)"
  shows "linked_inv v \<Longrightarrow> linked_inv w"
  using assms inst_conf_sel(9)[OF assms(2)] by (simp add: linked_inv_def recs_linked_def)

lemma drv_inv_alg_conf:
  assumes "alg_conf w = alg_conf v" and "drv_inv v" shows "drv_inv w"
proof -
  note c = alg_conf_sel[OF assms(1)]
  have "data_inv w" by (rule data_inv_cong[OF c(3) c(1)]) (use assms(2) c(8) in \<open>simp_all add: drv_inv_def data_inv_def\<close>)
  moreover have "linked_inv w" by (rule linked_inv_cong[OF c(3) c(1)]) (use assms(2) c(6) in \<open>simp_all add: drv_inv_def\<close>)
  ultimately show ?thesis using assms(2) c(6) by (simp add: drv_inv_def)
qed

subsection \<open>Changes of one instance and of the manager\<close>

lemma drv_inv_upd_inst:
  assumes "drv_inv w" and "fi_recs (g (fs_inst w i)) = fi_recs (fs_inst w i)"
  shows "drv_inv (upd_inst i g w)"
  using assms by (auto simp: drv_inv_def data_inv_def linked_inv_def recs_linked_def)

lemma drv_inv_upd_frm [simp]: "drv_inv (upd_frm f w) = drv_inv w"
  by (simp add: drv_inv_def data_inv_def linked_inv_def recs_linked_def)

lemma drv_inv_upd_hw [simp]: "drv_inv (upd_hw i f w) = drv_inv w"
  by (simp add: drv_inv_def data_inv_def linked_inv_def recs_linked_def)

lemma drv_inv_upd_con [simp]: "drv_inv (w\<lparr>w_con := c\<rparr>) = drv_inv w"
  by (simp add: drv_inv_def data_inv_def linked_inv_def recs_linked_def)

lemma drv_inv_upd_calls [simp]: "drv_inv (w\<lparr>w_cb_calls := c\<rparr>) = drv_inv w"
  by (simp add: drv_inv_def data_inv_def linked_inv_def recs_linked_def)

lemma drv_inv_upd_mgr:
  assumes "drv_inv w" and "mgr_inv (f (w_mgr w))"
    and "mg_streaming_bits (f (w_mgr w)) = mg_streaming_bits (w_mgr w)"
  shows "drv_inv (upd_mgr f w)"
  using assms by (simp add: drv_inv_def data_inv_def linked_inv_def recs_linked_def)

text \<open>Fields of the manager the invariant does not read.\<close>

lemma mgr_inv_simps [simp]:
  "mgr_inv (m\<lparr>mg_ft_mode := a\<rparr>) = mgr_inv m" "mgr_inv (m\<lparr>mg_frame_cell_size := b\<rparr>) = mgr_inv m"
  "mgr_inv (m\<lparr>mg_frame_tag := c\<rparr>) = mgr_inv m" "mgr_inv (m\<lparr>mg_pf_ctrl := d\<rparr>) = mgr_inv m"
  "mgr_inv (m\<lparr>mg_cb_data := e\<rparr>) = mgr_inv m" "mgr_inv (m\<lparr>mg_act_cnt := g\<rparr>) = mgr_inv m"
  "mgr_inv (m\<lparr>mg_user_counter := h\<rparr>) = mgr_inv m" "mgr_inv (m\<lparr>mg_user_set_sa := i\<rparr>) = mgr_inv m"
  "mgr_inv (m\<lparr>mg_sa_bits := j\<rparr>) = mgr_inv m" "mgr_inv (m\<lparr>mg_sa_method := k\<rparr>) = mgr_inv m"
  "mgr_inv (m\<lparr>mg_last_pf_ctrl_bits := k\<rparr>) = mgr_inv m"
  "mgr_inv (m\<lparr>mg_last_setup_complete_bits := k\<rparr>) = mgr_inv m"
  by (simp_all add: mgr_inv_def table_ok_def bits_ok_def status_ok_def)

lemma mgr_inv_master: "mgr_inv m \<Longrightarrow> unat i < 5 \<Longrightarrow> mgr_inv (m\<lparr>mg_master_idx := i\<rparr>)"
  by (auto simp: mgr_inv_def table_ok_def bits_ok_def status_ok_def)

lemma mgr_inv_bound:
  assumes "mgr_inv m" and "bit (mg_streaming_bits m) n \<or> bit (mg_validSync_bits m) n
      \<or> bit (mg_pf_ctrl_bits m) n \<or> bit (mg_setup_complete_bits m) n \<or> bit (mg_enSync_bits m) n"
  shows "n < 5"
proof -
  have "n < unat (mg_reg_cnt m)" using assms by (auto simp: mgr_inv_def bits_ok_def bit_simps)
  then show ?thesis using assms(1) by (simp add: mgr_inv_def table_ok_def)
qed

lemma mgr_inv_pf:
  assumes "mgr_inv m" and "unat i < 5" and "bit (mg_validSync_bits m) (unat i) \<or> \<not> 0 < en"
  shows "mgr_inv (m\<lparr>mg_pf_ctrl_bits := write_bit_atomic i en (mg_pf_ctrl_bits m)\<rparr>)"
  using assms by (auto simp: mgr_inv_def table_ok_def bits_ok_def status_ok_def bit_write)

lemma mgr_inv_setup:
  assumes "mgr_inv m" and "unat i < 5" and "bit (mg_streaming_bits m) (unat i) \<or> \<not> 0 < en"
  shows "mgr_inv (m\<lparr>mg_setup_complete_bits := write_bit_atomic i en (mg_setup_complete_bits m)\<rparr>)"
  using assms by (auto simp: mgr_inv_def table_ok_def bits_ok_def status_ok_def bit_write)

subsection \<open>Setting the sync flag\<close>

definition synced_mgr :: "u32 \<Rightarrow> u32 \<Rightarrow> FrameSyncMgr \<Rightarrow> FrameSyncMgr" where
  "synced_mgr idx flag m =
     (let en = write_bit_atomic idx (if 0 < flag then 1 else 0) (mg_enSync_bits m);
          v = mg_streaming_bits m AND en in
      m\<lparr>mg_pf_ctrl_bits := (if flag = 0 then write_bit_atomic idx 0 (mg_pf_ctrl_bits m) else mg_pf_ctrl_bits m),
        mg_setup_complete_bits := (if flag = 0 then write_bit_atomic idx 0 (mg_setup_complete_bits m)
          else mg_setup_complete_bits m),
        mg_enSync_bits := en, mg_validSync_bits := v, mg_using_sa_ver := 1,
        mg_master_idx := (if idx = mg_master_idx m then MASTER_IDX_NONE else mg_master_idx m),
        mg_sa_bits := (if mg_ft_mode m idx \<noteq> FS_FT_MODE_NORMAL then write_bit_atomic idx 1 (mg_sa_bits m)
          else mg_sa_bits m),
        mg_fs_status := (if 1 < hweight32 v \<and> hweight32 v \<le> SENSOR_MAX_NUM then 2 else 1)\<rparr>)"

lemma set_sync_idx_eq:
  "fs_set_sync_idx idx flag w =
     upd_inst idx (\<lambda>s. s\<lparr>fi_sync_type := flag\<rparr>) (upd_mgr (synced_mgr idx flag) w)"
  by (simp add: fs_set_sync_idx_def fs_update_status_def fs_update_valid_sync_bit_def change_fs_status_def
      fs_decision_maker_def fs_user_sa_config_def fs_check_sync_need_sa_mode_def
      fs_sa_try_reset_master_idx_def fs_set_sync_status_def fs_alg_set_sync_type_def synced_mgr_def
      Let_def upd_mgr_def upd_inst_def)

lemma synced_mgr_inv:
  assumes "mgr_inv m" and "idx < mg_reg_cnt m"
  shows "mgr_inv (synced_mgr idx flag m)"
proof -
  define en where "en = write_bit_atomic idx (if 0 < flag then 1 else 0) (mg_enSync_bits m)"
  define v where "v = mg_streaming_bits m AND en"
  have idx: "unat idx < unat (mg_reg_cnt m)" "unat idx < 5"
    using assms by (simp_all add: word_less_nat_alt mgr_inv_def table_ok_def)
  have bit_en: "bit en n \<longleftrightarrow> (if n = unat idx then 0 < flag else bit (mg_enSync_bits m) n)" for n
    using idx(2) by (simp add: en_def bit_write)
  have bit_v: "bit v n \<longleftrightarrow> bit (mg_streaming_bits m) n \<and> bit en n" for n
    by (simp add: v_def bit_simps)
  have "bit v n \<Longrightarrow> n < 5" for n
    using mgr_inv_bound[OF assms(1), of n] by (simp add: bit_v)
  then have hw: "hweight32 v \<le> SENSOR_MAX_NUM"
    using hweight_le_5[of v] by (simp add: SENSOR_MAX_NUM_def word_le_nat_alt)
  have "bits_ok (synced_mgr idx flag m)"
    using assms(1) idx
    by (auto simp: bits_ok_def synced_mgr_def Let_def mgr_inv_def en_def[symmetric] v_def[symmetric]
        bit_en bit_v bit_write bit_simps word_gt_0)
  moreover have "status_ok (synced_mgr idx flag m)"
    using hw by (simp add: status_ok_def synced_mgr_def Let_def en_def[symmetric] v_def[symmetric])
  moreover have "table_ok (synced_mgr idx flag m)"
    using assms(1) by (simp add: table_ok_def mgr_inv_def synced_mgr_def Let_def)
  ultimately show ?thesis
    using assms(1) by (auto simp: mgr_inv_def synced_mgr_def Let_def)
qed

lemma drv_inv_set_sync_idx:
  assumes "drv_inv w" and "idx < mg_reg_cnt (w_mgr w)"
  shows "drv_inv (fs_set_sync_idx idx flag w)"
proof -
  have "drv_inv (upd_mgr (synced_mgr idx flag) w)"
    using assms synced_mgr_inv by (intro drv_inv_upd_mgr) (auto simp: drv_inv_def synced_mgr_def Let_def)
  then show ?thesis unfolding set_sync_idx_eq
    by (rule drv_inv_upd_inst) simp
qed

subsection \<open>The recorder\<close>

text \<open>The recorder operations always succeed and end with the pointers linked.\<close>

lemma notify_total:
  "\<exists>w'. frec_notify_setting_frame_record_st_data idx w = Some w'
    \<and> alg_conf w' = alg_conf (upd_inst idx (\<lambda>s. s\<lparr>fi_recs := (\<lambda>k. if k < RECORDER_DEPTH
        then link_ptrs idx (rc_depthIdx (w_recorder w idx)) k else fi_recs s k)\<rparr>) w)"
proof -
  let ?v = "upd_inst idx (\<lambda>s. s\<lparr>fi_recs := (\<lambda>k. if k < RECORDER_DEPTH
        then link_ptrs idx (rc_depthIdx (w_recorder w idx)) k else fi_recs s k)\<rparr>) w"
  have "recs_ready (fs_inst ?v idx)"
    by (simp add: recs_ready_def RECORDER_DEPTH_def link_ptrs_eq)
  from calc_predicted_total[OF this] obtain w' where w': "calc_predicted_frame_length idx ?v = Some w'" ..
  then have "frec_notify_setting_frame_record_st_data idx w = Some w'"
    unfolding frec_notify_setting_frame_record_st_data_def fs_alg_set_frame_record_st_data_def
      link_ptrs_def[symmetric] .
  then show ?thesis using alg_conf_calc_predicted[OF w'] by blast
qed

lemma notify_linked:
  assumes "frec_notify_setting_frame_record_st_data idx w = Some w'"
  shows "recs_linked w' idx" and "w_mgr w' = w_mgr w" and "w_con w' = w_con w"
    and "al_sa (w_alg w') = al_sa (w_alg w)"
    and "rc_depthIdx (w_recorder w' j) = rc_depthIdx (w_recorder w j)"
    and "j \<noteq> idx \<Longrightarrow> inst_conf (fs_inst w' j) = inst_conf (fs_inst w j)"
    and "hdr_ok (fs_inst w' j) = hdr_ok (fs_inst w j)"
    and "fi_lineTimeInNs (fs_inst w' j) = fi_lineTimeInNs (fs_inst w j)"
    and "fi_frame_cell_size (fs_inst w' j) = fi_frame_cell_size (fs_inst w j)"
    and "fi_max_fl_lc (fs_inst w' j) = fi_max_fl_lc (fs_inst w j)"
    and "fi_is_nonvalid_ts (fs_inst w' j) = fi_is_nonvalid_ts (fs_inst w j)"
    and "w_cb_calls w' = w_cb_calls w"
proof -
  let ?v = "upd_inst idx (\<lambda>s. s\<lparr>fi_recs := (\<lambda>k. if k < RECORDER_DEPTH
        then link_ptrs idx (rc_depthIdx (w_recorder w idx)) k else fi_recs s k)\<rparr>) w"
  have conf: "alg_conf w' = alg_conf ?v" using notify_total[of idx w] assms by auto
  note c = alg_conf_sel[OF conf] and i = inst_conf_sel[OF alg_conf_sel(1)[OF conf]]
  show "recs_linked w' idx"
    using i(9)[of idx] c(3)[of idx] by (simp add: recs_linked_def RECORDER_DEPTH_def)
  show "w_mgr w' = w_mgr w" "w_con w' = w_con w" "al_sa (w_alg w') = al_sa (w_alg w)"
    using c(5,6,8) by simp_all
  show "rc_depthIdx (w_recorder w' j) = rc_depthIdx (w_recorder w j)" using c(3) by simp
  show "j \<noteq> idx \<Longrightarrow> inst_conf (fs_inst w' j) = inst_conf (fs_inst w j)" using c(1)[of j] by simp
  show "hdr_ok (fs_inst w' j) = hdr_ok (fs_inst w j)" using i(7,8)[of j] by (simp add: hdr_ok_def)
  show "fi_lineTimeInNs (fs_inst w' j) = fi_lineTimeInNs (fs_inst w j)" using i(6)[of j] by simp
  show "fi_frame_cell_size (fs_inst w' j) = fi_frame_cell_size (fs_inst w j)" using i(18)[of j] by simp
  show "fi_max_fl_lc (fs_inst w' j) = fi_max_fl_lc (fs_inst w j)" using i(5)[of j] by simp
  show "w_cb_calls w' = w_cb_calls w" using c(7) by simp
  show "fi_is_nonvalid_ts (fs_inst w' j) = fi_is_nonvalid_ts (fs_inst w j)"
    using assms
    by (auto simp: frec_notify_setting_frame_record_st_data_def fs_alg_set_frame_record_st_data_def
        calc_predicted_frame_length_def store_predicted_def run_bind Let_def split: if_splits)
qed

text \<open>One recorder operation: change the recorder of one sensor, then link.\<close>

lemma recorder_op:
  assumes "frec_notify_setting_frame_record_st_data idx (upd_recorder idx f w) = Some w'"
    and "\<And>r. rec_ok r \<Longrightarrow> rec_ok (f r)" and "data_inv w"
    and "\<And>j. j \<noteq> idx \<Longrightarrow> bit (mg_streaming_bits (w_mgr w)) (unat j) \<Longrightarrow> recs_linked w j"
  shows "data_inv w'" and "linked_inv w'"
proof -
  note n = notify_linked[OF assms(1)]
  have "rec_ok (w_recorder w' j)" for j
    using assms(2,3) n(5)[of j] by (simp add: data_inv_def rec_ok_def)
  moreover have "unat (sa_master_idx (al_sa (w_alg w'))) < 5" using assms(3) n(4) by (simp add: data_inv_def)
  ultimately show "data_inv w'" by (simp add: data_inv_def)
  have "recs_linked w' j" if "bit (mg_streaming_bits (w_mgr w')) (unat j)" for j
  proof (cases "j = idx")
    case True then show ?thesis using n(1) by simp
  next
    case False
    have "bit (mg_streaming_bits (w_mgr w)) (unat j)" using that n(2) by simp
    then have "recs_linked w j" using assms(4) False by blast
    moreover have "fi_recs (fs_inst w' j) = fi_recs (fs_inst w j)"
      using inst_conf_sel(9)[OF n(6)[OF False]] by simp
    ultimately show ?thesis using n(5)[of j] False by (simp add: recs_linked_def)
  qed
  then show "linked_inv w'" by (simp add: linked_inv_def)
qed

lemma rec_ok_ops:
  "rec_ok r \<Longrightarrow> rec_ok (rec_update a b r)" "rec_ok r \<Longrightarrow> rec_ok (rec_set_all a b r)"
  "rec_ok (rec_push a b r)"
  by (simp_all add: rec_ok_def rec_update_def rec_set_all_def rec_push_def Let_def)
    (simp add: RECORDER_DEPTH_def word_mod_less_divisor)

lemma drv_inv_recorder:
  assumes "frec_notify_setting_frame_record_st_data idx (upd_recorder idx f w) = Some w'"
    and "\<And>r. rec_ok r \<Longrightarrow> rec_ok (f r)" and "drv_inv w"
  shows "drv_inv w'"
  using recorder_op[OF assms(1,2)] notify_linked(2)[OF assms(1)] assms(3)
  by (simp add: drv_inv_def linked_inv_def)

subsection \<open>Streaming\<close>

definition idle_mgr :: "u32 \<Rightarrow> FrameSyncMgr \<Rightarrow> FrameSyncMgr" where
  "idle_mgr idx m = (synced_mgr idx 0 m)\<lparr>mg_streaming_bits := write_bit_atomic idx 0 (mg_streaming_bits m),
     mg_cb_data := (mg_cb_data m)(idx := \<lparr>cb_p_ctx = 0, cb_cmd_id = 0, cb_func_ptr = 0\<rparr>)\<rparr>"

lemma idle_mgr_inv:
  assumes "mgr_inv m" and "idx < mg_reg_cnt m"
  shows "mgr_inv (idle_mgr idx m)"
proof -
  define k where "k = synced_mgr idx 0 m"
  have k: "mgr_inv k" unfolding k_def by (rule synced_mgr_inv[OF assms])
  have idx: "unat idx < 5" using assms by (simp add: word_less_nat_alt mgr_inv_def table_ok_def)
  have off: "\<not> bit (mg_enSync_bits k) (unat idx)" "\<not> bit (mg_setup_complete_bits k) (unat idx)"
    "mg_streaming_bits k = mg_streaming_bits m"
    using idx by (simp_all add: k_def synced_mgr_def Let_def bit_write)
  have v: "mg_validSync_bits k = write_bit_atomic idx 0 (mg_streaming_bits k) AND mg_enSync_bits k"
    using k off(1) idx
    by (intro bit_eqI) (auto simp: mgr_inv_def bits_ok_def bit_simps bit_write)
  have "mgr_inv (k\<lparr>mg_streaming_bits := write_bit_atomic idx 0 (mg_streaming_bits k)\<rparr>)"
    using k off(2) v idx by (auto simp: mgr_inv_def bits_ok_def table_ok_def status_ok_def bit_write)
  then show ?thesis using off(3) by (simp add: idle_mgr_def k_def[symmetric])
qed

lemma reset_ctx_parts:
  "w_mgr (fs_reset_idx_ctx idx w) = idle_mgr idx (w_mgr w)"
  "j \<noteq> idx \<Longrightarrow> fs_inst (fs_reset_idx_ctx idx w) j = fs_inst w j"
  "fs_inst (fs_reset_idx_ctx idx w) idx = zero_fs_inst"
  "j \<noteq> idx \<Longrightarrow> w_recorder (fs_reset_idx_ctx idx w) j = w_recorder w j"
  "rc_depthIdx (w_recorder (fs_reset_idx_ctx idx w) idx) = 0"
  "sa_master_idx (al_sa (w_alg (fs_reset_idx_ctx idx w))) = sa_master_idx (al_sa (w_alg w))"
  "w_con (fs_reset_idx_ctx idx w) = w_con w"
  by (simp_all add: fs_reset_idx_ctx_def set_sync_idx_eq fs_reset_cb_data_def fs_set_stream_def
      frec_reset_recorder_def fs_alg_reset_fs_inst_def fs_alg_reset_fs_sa_inst_def idle_mgr_def)
    (simp_all add: synced_mgr_def Let_def)

lemma idle_mgr_streaming:
  "unat idx < 5 \<Longrightarrow> bit (mg_streaming_bits (idle_mgr idx m)) n \<longleftrightarrow> n \<noteq> unat idx \<and> bit (mg_streaming_bits m) n"
  "unat idx < 5 \<Longrightarrow> \<not> bit (mg_enSync_bits (idle_mgr idx m)) (unat idx)"
  "mg_reg_cnt (idle_mgr idx m) = mg_reg_cnt m"
  by (auto simp: idle_mgr_def bit_write synced_mgr_def Let_def)

lemma drv_inv_reset_ctx:
  assumes "drv_inv w" and "idx < mg_reg_cnt (w_mgr w)"
  shows "drv_inv (fs_reset_idx_ctx idx w)"
proof -
  let ?w = "fs_reset_idx_ctx idx w"
  have idx: "unat idx < 5" using assms by (simp add: drv_inv_def word_less_nat_alt mgr_inv_def table_ok_def)
  have "rec_ok (w_recorder ?w j)" for j
    using assms(1) reset_ctx_parts(3,5)[of idx w] reset_ctx_parts(2,4)[of j idx w]
    by (cases "j = idx") (auto simp: drv_inv_def data_inv_def rec_ok_def RECORDER_DEPTH_def)
  then have "data_inv ?w" using assms(1) by (simp add: data_inv_def reset_ctx_parts(6) drv_inv_def)
  moreover have "recs_linked ?w j" if "bit (mg_streaming_bits (w_mgr ?w)) (unat j)" for j
  proof -
    have "j \<noteq> idx" "bit (mg_streaming_bits (w_mgr w)) (unat j)"
      using that by (auto simp: reset_ctx_parts(1) idle_mgr_streaming(1)[OF idx])
    then show ?thesis
      using assms(1) reset_ctx_parts(2,4)[of j idx w] by (simp add: drv_inv_def linked_inv_def recs_linked_def)
  qed
  ultimately show ?thesis
    using assms idle_mgr_inv by (simp add: drv_inv_def linked_inv_def reset_ctx_parts(1))
qed

lemma mgr_inv_stream_on:
  assumes "mgr_inv m" and "idx < mg_reg_cnt m" and "\<not> bit (mg_enSync_bits m) (unat idx)"
  shows "mgr_inv (m\<lparr>mg_streaming_bits := write_bit_atomic idx 1 (mg_streaming_bits m)\<rparr>)"
proof -
  have idx: "unat idx < 5" "unat idx < unat (mg_reg_cnt m)"
    using assms by (simp_all add: word_less_nat_alt mgr_inv_def table_ok_def)
  have "mg_validSync_bits m = write_bit_atomic idx 1 (mg_streaming_bits m) AND mg_enSync_bits m"
    using assms idx by (intro bit_eqI) (auto simp: mgr_inv_def bits_ok_def bit_simps bit_write)
  then show ?thesis
    using assms idx by (auto simp: mgr_inv_def bits_ok_def table_ok_def status_ok_def bit_write)
qed

text \<open>Stream-on of an idle sensor: it returns, keeps the invariant and sets the stream bit.\<close>

lemma stream_on_total:
  assumes "drv_inv w" and "idx < mg_reg_cnt (w_mgr w)" and "\<not> bit (mg_enSync_bits (w_mgr w)) (unat idx)"
    and "\<not> bit (mg_streaming_bits (w_mgr w)) (unat idx)" 
    and ok: "\<not> hdr_fault (ss_hdr_exp info) (ss_hdr_exp info) \<or> fs_stream_on ev idx info w \<noteq> None"
  shows "\<exists>info' w'. fs_stream_on ev idx info w = Some (info', w') \<and> drv_inv w'
    \<and> mg_reg_cnt (w_mgr w') = mg_reg_cnt (w_mgr w) \<and> bit (mg_streaming_bits (w_mgr w')) (unat idx)"
proof -
  have idx: "unat idx < 5" using assms by (simp add: drv_inv_def word_less_nat_alt mgr_inv_def table_ok_def)
  define c where "c = fs_convert_tg ev (ss_tg info) w"
  define i1 where "i1 = info\<lparr>ss_tg := fst c\<rparr>"
  define w1 where "w1 = upd_frm (frm_init_frame_info_st_data idx (ss_sensor_id i1) (ss_sensor_idx i1) (fst c)) (snd c)"
  have w1: "drv_inv w1" "w_mgr w1 = w_mgr w" "fs_inst w1 = fs_inst w" "w_recorder w1 = w_recorder w"
    using assms(1) by (simp_all add: w1_def c_def fs_convert_tg_def split_beta)
  have w1_eq: "upd_frm (frm_init_frame_info_st_data idx (ss_sensor_id info) (ss_sensor_idx info) (fst c)) (snd c) = w1"
    by (simp add: w1_def i1_def)
  obtain i2 g where run: "fs_alg_set_streaming_st_data idx i1 w1 = Some (i2, upd_inst idx g w1)"
  proof (cases "fs_alg_set_streaming_st_data idx i1 w1")
    case None
    then have "fs_stream_on ev idx info w = None"
      using w1_eq by (simp add: fs_stream_on_def Let_def split_beta c_def[symmetric] i1_def[symmetric])
    then have "\<not> hdr_fault (ss_hdr_exp i1) (ss_hdr_exp i1)" using ok by (simp add: i1_def)
    then show thesis using None by (simp add: set_streaming_faults)
  next
    case (Some r)
    obtain i2 u where r: "r = (i2, u)" by fastforce
    then show thesis using that Some set_streaming_returned[of idx i1 w1 i2 u] by auto
  qed
  define w2 where "w2 = hw_fs_alg_set_streaming_st_data idx i2 (upd_inst idx g w1)"
  have w2: "w_mgr w2 = w_mgr w" "fs_inst w2 j = (if j = idx then g (fs_inst w idx) else fs_inst w j)"
    "w_recorder w2 = w_recorder w" "al_sa (w_alg w2) = al_sa (w_alg w1)" for j
    using w1 by (simp_all add: w2_def hw_fs_alg_set_streaming_st_data_def)
  have d2: "data_inv w2" using w1(1) w2 w1(3,4) by (simp add: drv_inv_def data_inv_def)
  obtain w3 where w3: "frec_push_def_shutter_fl_lc idx (ss_def_shutter_lc i2) (ss_def_fl_lc i2) w2 = Some w3"
    using notify_total unfolding frec_push_def_shutter_fl_lc_def by blast
  note n3 = notify_linked[OF w3[unfolded frec_push_def_shutter_fl_lc_def]]
  have lk: "recs_linked w2 j" if "j \<noteq> idx" "bit (mg_streaming_bits (w_mgr w2)) (unat j)" for j
    using assms(1) that w2 by (simp add: drv_inv_def linked_inv_def recs_linked_def)
  note r3 = recorder_op[OF w3[unfolded frec_push_def_shutter_fl_lc_def] rec_ok_ops(2) d2 lk, simplified]
  define w4 where "w4 = fs_init_cb_data idx (ss_p_ctx i2) (ss_func_ptr i2) (fs_set_stream idx 1 w3)"
  have m3: "w_mgr w3 = w_mgr w" using n3(2) w2(1) by simp
  have m4: "w_mgr w4 = (w_mgr w)\<lparr>mg_streaming_bits := write_bit_atomic idx 1 (mg_streaming_bits (w_mgr w)),
      mg_cb_data := (mg_cb_data (w_mgr w))(idx := \<lparr>cb_p_ctx = ss_p_ctx i2, cb_cmd_id = 0, cb_func_ptr = ss_func_ptr i2\<rparr>)\<rparr>"
    and p4: "fs_inst w4 = fs_inst w3" "w_recorder w4 = w_recorder w3" "al_sa (w_alg w4) = al_sa (w_alg w3)"
    using m3 by (simp_all add: w4_def fs_init_cb_data_def fs_set_stream_def)
  have "mgr_inv (w_mgr w4)"
    using mgr_inv_stream_on[OF _ assms(2,3)] assms(1) by (simp add: m4 drv_inv_def)
  moreover have "data_inv w4" using r3(1) p4 by (simp add: data_inv_def)
  moreover have "linked_inv w4"
    unfolding linked_inv_def
  proof (intro allI impI)
    fix j :: u32
    assume j: "bit (mg_streaming_bits (w_mgr w4)) (unat j)"
    have "recs_linked w3 j"
    proof (cases "j = idx")
      case True then show ?thesis using n3(1) by simp
    next
      case False
      then have "unat j \<noteq> unat idx" by (metis unsigned_word_eqI)
      then have "bit (mg_streaming_bits (w_mgr w3)) (unat j)"
        using j by (simp add: m4 m3 bit_write)
      then show ?thesis using r3(2) by (simp add: linked_inv_def)
    qed
    then show "recs_linked w4 j" using p4 by (simp add: recs_linked_def)
  qed
  moreover have "fs_stream_on ev idx info w = Some (i2, w4)"
    using run w3 w1_eq
    by (simp add: fs_stream_on_def Let_def split_beta c_def[symmetric] i1_def[symmetric]
        w2_def[symmetric] w4_def[symmetric])
  moreover have "bit (mg_streaming_bits (w_mgr w4)) (unat idx)" using idx by (simp add: m4 bit_write)
  ultimately show ?thesis by (auto simp: drv_inv_def m4)
qed


subsection \<open>Registering\<close>

lemma register_mgr_inv:
  assumes "mgr_inv (w_mgr w)"
  shows "mgr_inv (w_mgr (snd (fs_register_sensor info BY_SENSOR_IDX w)))"
proof -
  have tab: "table_ok (w_mgr w)" using assms by (simp add: mgr_inv_def)
  have tab': "table_ok (w_mgr (snd (fs_register_sensor info BY_SENSOR_IDX w)))" by (rule register_table_ok[OF tab])
  from register_cases[OF tab, of info] show ?thesis
  proof (elim disjE exE conjE)
    fix i assume "snd (fs_register_sensor info BY_SENSOR_IDX w) = upd_mgr (\<lambda>m. m\<lparr>mg_sensors := (mg_sensors m)(i := info)\<rparr>) w"
    then show ?thesis using assms tab' by (auto simp: mgr_inv_def bits_ok_def status_ok_def)
  next
    assume lt: "unat (mg_reg_cnt (w_mgr w)) < 5"
      and eq: "fs_register_sensor info BY_SENSOR_IDX w = (mg_reg_cnt (w_mgr w),
          upd_mgr (\<lambda>m. m\<lparr>mg_reg_cnt := mg_reg_cnt m + 1,
             mg_sensors := (mg_sensors m)(mg_reg_cnt m := info)\<rparr>) w)"
    have "unat (mg_reg_cnt (w_mgr w) + 1) = Suc (unat (mg_reg_cnt (w_mgr w)))"
      using lt by (simp add: unat_word_ariths)
    then show ?thesis using assms tab' unfolding eq
      by (auto simp: mgr_inv_def bits_ok_def status_ok_def less_SucI)
  qed (use assms in simp)
qed

lemma register_drv_inv:
  assumes "drv_inv w" and "fs_register_sensor info BY_SENSOR_IDX w = (idx, w')"
  shows "drv_inv w'" and "check_idx_valid idx \<noteq> 0 \<Longrightarrow> idx < mg_reg_cnt (w_mgr w')"
    and "w_con w' = w_con w" and "w_alg w' = w_alg w" and "w_recorder w' = w_recorder w"
proof -
  have tab: "table_ok (w_mgr w)" using assms(1) by (simp add: drv_inv_def mgr_inv_def)
  have w': "snd (fs_register_sensor info BY_SENSOR_IDX w) = w'" "fst (fs_register_sensor info BY_SENSOR_IDX w) = idx"
    using assms(2) by simp_all
  note cases = register_cases[OF tab, of info, unfolded w']
  have shape: "\<exists>f. w' = upd_mgr f w \<and> mg_streaming_bits (f (w_mgr w)) = mg_streaming_bits (w_mgr w)"
    using cases
  proof (elim disjE exE conjE)
    fix i assume "w' = upd_mgr (\<lambda>m. m\<lparr>mg_sensors := (mg_sensors m)(i := info)\<rparr>) w"
    then show ?thesis by fastforce
  next
    assume "fs_register_sensor info BY_SENSOR_IDX w = (mg_reg_cnt (w_mgr w),
          upd_mgr (\<lambda>m. m\<lparr>mg_reg_cnt := mg_reg_cnt m + 1,
             mg_sensors := (mg_sensors m)(mg_reg_cnt m := info)\<rparr>) w)"
    then have "w' = upd_mgr (\<lambda>m. m\<lparr>mg_reg_cnt := mg_reg_cnt m + 1,
             mg_sensors := (mg_sensors m)(mg_reg_cnt m := info)\<rparr>) w" using assms(2) by simp
    then show ?thesis by fastforce
  next
    assume "fs_register_sensor info BY_SENSOR_IDX w = (0xffffffff, w)"
    then have "w' = upd_mgr (\<lambda>m. m) w" using assms(2) by (simp add: upd_mgr_def)
    then show ?thesis by fastforce
  qed
  have "mgr_inv (w_mgr w')" using register_mgr_inv[of w info] assms(1) w' by (simp add: drv_inv_def)
  then show "drv_inv w'" using shape assms(1) by (auto intro: drv_inv_upd_mgr)
  show "w_con w' = w_con w" "w_alg w' = w_alg w" "w_recorder w' = w_recorder w" using shape by auto
  assume valid: "check_idx_valid idx \<noteq> 0"
  show "idx < mg_reg_cnt (w_mgr w')"
    using cases
  proof (elim disjE exE conjE)
    fix i assume "reg_pos (w_mgr w) (si_sensor_idx info) i" "idx = i"
      "w' = upd_mgr (\<lambda>m. m\<lparr>mg_sensors := (mg_sensors m)(i := info)\<rparr>) w"
    then show ?thesis by (simp add: reg_pos_def)
  next
    assume lt: "unat (mg_reg_cnt (w_mgr w)) < 5" and eq: "fs_register_sensor info BY_SENSOR_IDX w = (mg_reg_cnt (w_mgr w),
          upd_mgr (\<lambda>m. m\<lparr>mg_reg_cnt := mg_reg_cnt m + 1,
             mg_sensors := (mg_sensors m)(mg_reg_cnt m := info)\<rparr>) w)"
    have "unat (mg_reg_cnt (w_mgr w) + 1) = Suc (unat (mg_reg_cnt (w_mgr w)))"
      using lt by (simp add: unat_word_ariths)
    then show ?thesis using eq assms(2) by (auto simp: word_less_nat_alt)
  next
    assume "fs_register_sensor info BY_SENSOR_IDX w = (0xffffffff, w)"
    then have "idx = 0xffffffff" using assms(2) by simp
    then show ?thesis using valid by (simp add: check_idx_valid_zero)
  qed
qed

text \<open>A streaming call on any state of the invariant keeps it, and returns unless a stream-on names more
  than five exposures.\<close>

lemma streaming_total:
  assumes "drv_inv w" and ok: "flag = 0 \<or> \<not> hdr_fault (ss_hdr_exp info) (ss_hdr_exp info) \<or> fs_streaming ev flag info w \<noteq> None"
  shows "\<exists>r info' w'. fs_streaming ev flag info w = Some (r, info', w') \<and> drv_inv w'"
proof -
  define reg where "reg = fs_register_sensor
       \<lparr>si_sensor_id = ss_sensor_id info, si_sensor_idx = ss_sensor_idx info\<rparr> BY_SENSOR_IDX w"
  obtain idx w1 where reg_eq: "reg = (idx, w1)" by (cases reg)
  note reg_inv = register_drv_inv[OF assms(1) reg_eq[unfolded reg_def]]
  show ?thesis
  proof (cases "check_idx_valid idx = 0")
    case True
    then show ?thesis
      using reg_inv(1) reg_eq by (simp add: fs_streaming_def REGISTER_METHOD_def reg_def[symmetric])
  next
    case False
    define w2 where "w2 = fs_reset_idx_ctx idx w1"
    have idx: "idx < mg_reg_cnt (w_mgr w1)" by (rule reg_inv(2)[OF False])
    have lt5: "unat idx < 5" using False by (simp add: check_idx_valid_zero)
    have w2: "drv_inv w2" unfolding w2_def by (rule drv_inv_reset_ctx[OF reg_inv(1) idx])
    have m2: "w_mgr w2 = idle_mgr idx (w_mgr w1)" by (simp add: w2_def reset_ctx_parts(1))
    have idle: "idx < mg_reg_cnt (w_mgr w2)" "\<not> bit (mg_enSync_bits (w_mgr w2)) (unat idx)"
      "\<not> bit (mg_streaming_bits (w_mgr w2)) (unat idx)"
      using idx lt5 by (simp_all add: m2 idle_mgr_streaming)
    show ?thesis
    proof (cases "0 < flag")
      case True
      obtain info' w3 where on: "fs_stream_on ev idx info w2 = Some (info', w3)" "drv_inv w3"
        "mg_reg_cnt (w_mgr w3) = mg_reg_cnt (w_mgr w2)"
      proof -
        have "fs_stream_on ev idx info w2 = None \<Longrightarrow> fs_streaming ev flag info w = None"
          using True False reg_eq
          by (simp add: fs_streaming_def REGISTER_METHOD_def reg_def[symmetric] w2_def[symmetric])
        then have "\<not> hdr_fault (ss_hdr_exp info) (ss_hdr_exp info) \<or> fs_stream_on ev idx info w2 \<noteq> None"
          using ok True by (cases "fs_stream_on ev idx info w2 = None") auto
        from stream_on_total[OF w2 idle(1,2,3) this] show thesis using that by blast
      qed
      have "drv_inv (fs_set_sync_idx idx 1 w3)"
        by (rule drv_inv_set_sync_idx[OF on(2)]) (use on(3) idle(1) in simp)
      then show ?thesis
        using True False on(1,2) reg_eq
        by (simp add: fs_streaming_def REGISTER_METHOD_def reg_def[symmetric] w2_def[symmetric])
    next
      case off: False
      have "drv_inv (fs_stream_off idx w2)"
        unfolding fs_stream_off_def fs_reset_ft_mode_data_def using w2 w2[unfolded drv_inv_def]
        by (auto intro!: drv_inv_upd_mgr)
      then show ?thesis
        using off False reg_eq
        by (simp add: fs_streaming_def REGISTER_METHOD_def reg_def[symmetric] w2_def[symmetric])
    qed
  qed
qed

end
