(* ===== verification/FsDrvTrigger.thy ===== *)
theory FsDrvTrigger
  imports FsDrvSafe
begin

text \<open>
  The stand-alone trigger and the per-frame operations of \<open>frame_sync.c\<close>: choice of the master,
  the clearing of the control bits, the calls that reach the sensor driver, and that every
  operation keeps the driver's invariant and returns.
\<close>

subsection \<open>Choice of the master\<close>

lemma sensor_loop_set: "i \<in> set sensor_loop \<longleftrightarrow> unat i < 5"
  by (simp only: sensor_loop_eq set_loop_idx mem_Collect_eq) (simp add: SENSOR_MAX_NUM_def word_less_nat_alt)

lemma get_master:
  fixes idx :: u32
  assumes "mgr_inv (w_mgr w)" and "bit (mg_validSync_bits (w_mgr w)) (unat idx)" and "unat idx < 5"
  obtains i where "fs_get_valid_master_instance_idx w = (i, upd_mgr (\<lambda>m. m\<lparr>mg_master_idx := i\<rparr>) w)"
    and "unat i < 5" and "bit (mg_validSync_bits (w_mgr w)) (unat i)"
proof (cases "mg_master_idx (w_mgr w) = MASTER_IDX_NONE
    \<or> check_bit_atomic (mg_master_idx (w_mgr w)) (mg_validSync_bits (w_mgr w)) = 0")
  case True
  let ?P = "\<lambda>i :: u32. drop_bit (unat i) (mg_validSync_bits (w_mgr w)) AND 1 = 1"
  have P: "?P i \<longleftrightarrow> bit (mg_validSync_bits (w_mgr w)) (unat i)" for i by (simp add: bit_and_one_eq)
  have "idx \<in> set sensor_loop" "?P idx" using assms(2,3) P[of idx] by (simp_all add: sensor_loop_set)
  then have "List.find ?P sensor_loop \<noteq> None" by (auto simp: find_None)
  then obtain i where i: "List.find ?P sensor_loop = Some i" by blast
  then have "?P i" "i \<in> set sensor_loop" using find_SomeD[of ?P sensor_loop i] by blast+
  then have "unat i < 5" "bit (mg_validSync_bits (w_mgr w)) (unat i)"
    using P[of i] sensor_loop_set[of i] by blast+
  moreover have "fs_get_valid_master_instance_idx w = (i, upd_mgr (\<lambda>m. m\<lparr>mg_master_idx := i\<rparr>) w)"
    using True by (simp add: fs_get_valid_master_instance_idx_def i Let_def)
  ultimately show thesis using that by blast
next
  case False
  then have lt: "unat (mg_master_idx (w_mgr w)) < 5" using assms(1) by (auto simp: mgr_inv_def)
  have "w = upd_mgr (\<lambda>m. m\<lparr>mg_master_idx := mg_master_idx (w_mgr w)\<rparr>) w" by (simp add: upd_mgr_def)
  then show thesis
    using False lt that[of "mg_master_idx (w_mgr w)"]
    by (auto simp: fs_get_valid_master_instance_idx_def Let_def check_bit_zero)
qed

subsection \<open>The trigger\<close>

lemma drv_inv_solve:
  assumes "drv_inv w" and "unat m < 5" and "unat idx < 5"
    and run: "fs_alg_solve_frame_length_sa idx m b fl w = Some (r, fl', w')"
  shows "drv_inv w'"
proof -
  note mgr = solve_sa_mgr[OF run] and conf = sa_conf_solve[OF run]
  have rec: "rc_depthIdx (w_recorder w' i) = rc_depthIdx (w_recorder w i)" for i
    using fun_cong[of "\<lambda>j. rec_conf (w_recorder w' j)" "\<lambda>j. rec_conf (w_recorder w j)" i] conf
    by (simp add: sa_conf_def rec_conf_def)
  have "data_inv w'"
    by (rule data_inv_cong[OF rec sa_conf_inst[OF conf]]) (use assms(1,2) mgr in \<open>auto simp: drv_inv_def\<close>)
  moreover have bits: "mg_streaming_bits (w_mgr w') = mg_streaming_bits (w_mgr w)" using mgr by auto
  have "linked_inv w'"
    by (rule linked_inv_cong[OF rec sa_conf_inst[OF conf] bits]) (use assms(1) in \<open>simp add: drv_inv_def\<close>)
  moreover have "mgr_inv (w_mgr w')"
    using mgr assms(1) mgr_inv_master[OF _ assms(3)] by (auto simp: drv_inv_def)
  ultimately show ?thesis by (simp add: drv_inv_def)
qed

lemma drv_inv_set_fl [simp]: "drv_inv (fs_set_framelength_lc idx fl w) = drv_inv w"
  by (simp add: fs_set_framelength_lc_def fs_set_sensor_driver_framelength_lc_def Let_def)

lemma drv_inv_clear_ctrl:
  assumes "drv_inv w" and "unat idx < 5" shows "drv_inv (fs_clear_ctrl_bits idx w)"
proof -
  have "mgr_inv (w_mgr w)" using assms(1) by (simp add: drv_inv_def)
  from mgr_inv_setup[OF mgr_inv_pf[OF this assms(2), of 0] assms(2), of 0]
  show ?thesis unfolding fs_clear_ctrl_bits_def
    by (intro drv_inv_upd_mgr[OF assms(1)]) simp_all
qed

lemma drv_inv_upd_flags:
  "drv_inv w \<Longrightarrow> drv_inv (upd_ft_mode i f w)"
  "drv_inv w \<Longrightarrow> drv_inv (fs_alg_set_n_1_on_off_flag i x w)"
  "drv_inv w \<Longrightarrow> drv_inv (fs_alg_set_frame_cell_size i x w)"
  "drv_inv w \<Longrightarrow> drv_inv (fs_alg_set_frame_tag i x w)"
  "drv_inv w \<Longrightarrow> drv_inv (fs_alg_update_tg i x w)"
  "drv_inv w \<Longrightarrow> drv_inv (fs_alg_set_anti_flicker i x w)"
  "drv_inv w \<Longrightarrow> drv_inv (fs_alg_update_min_fl_lc i x w)"
  "drv_inv w \<Longrightarrow> drv_inv (hw_fs_alg_update_min_fl_lc i x w)"
  "drv_inv w \<Longrightarrow> drv_inv (fs_set_cb_cmd_id i x w)"
proof -
  assume w: "drv_inv w"
  then have m: "mgr_inv (w_mgr w)" by (simp add: drv_inv_def)
  show "drv_inv (upd_ft_mode i f w)" "drv_inv (fs_set_cb_cmd_id i x w)"
    unfolding upd_ft_mode_def fs_set_cb_cmd_id_def by (rule drv_inv_upd_mgr[OF w]; simp add: m)+
  show "drv_inv (fs_alg_set_n_1_on_off_flag i x w)" "drv_inv (fs_alg_set_frame_cell_size i x w)"
    "drv_inv (fs_alg_set_frame_tag i x w)" "drv_inv (fs_alg_update_tg i x w)"
    "drv_inv (fs_alg_set_anti_flicker i x w)"
    unfolding fs_alg_set_n_1_on_off_flag_def fs_alg_set_frame_cell_size_def fs_alg_set_frame_tag_def
      fs_alg_update_tg_def fs_alg_set_anti_flicker_def
    by (rule drv_inv_upd_inst[OF w]; simp)+
  have "drv_inv (upd_inst i (\<lambda>s. s\<lparr>fi_min_fl_lc := x\<rparr>) w)"
    by (rule drv_inv_upd_inst[OF w]) simp
  then show "drv_inv (fs_alg_update_min_fl_lc i x w)" using w by (simp add: fs_alg_update_min_fl_lc_def)
  show "drv_inv (hw_fs_alg_update_min_fl_lc i x w)" using w by (simp add: hw_fs_alg_update_min_fl_lc_def)
qed

lemma drv_inv_feature_extra: "drv_inv w \<Longrightarrow> drv_inv (fs_feature_status_extra_ctrl idx w)"
  by (simp add: fs_feature_status_extra_ctrl_def fs_check_n_1_status_extra_ctrl_def drv_inv_upd_flags)

text \<open>The gate of the trigger, and one run behind it.\<close>

definition sa_gate :: "u32 \<Rightarrow> fs_world \<Rightarrow> bool" where
  "sa_gate idx w \<longleftrightarrow> bit (mg_validSync_bits (w_mgr w)) (unat idx)
     \<and> bit (mg_pf_ctrl_bits (w_mgr w)) (unat idx) \<and> bit (mg_setup_complete_bits (w_mgr w)) (unat idx)"

definition after_solve :: "u32 \<Rightarrow> u32 \<Rightarrow> u32 \<Rightarrow> fs_world \<Rightarrow> fs_world" where
  "after_solve idx r fl w = (if r = 0 then fs_feature_status_extra_ctrl idx
     (fs_clear_ctrl_bits idx (fs_set_framelength_lc idx fl w)) else w)"

lemma sa_trigger_closed:
  "unat idx < 5 \<Longrightarrow> \<not> sa_gate idx w \<Longrightarrow> fs_try_trigger_frame_sync_sa idx w = Some (0, w)"
  by (auto simp: fs_try_trigger_frame_sync_sa_def sa_gate_def check_bit_zero)

lemma sa_trigger_open:
  assumes "mgr_inv (w_mgr w)" and "unat idx < 5" and "sa_gate idx w"
  obtains m where "unat m < 5" and "bit (mg_validSync_bits (w_mgr w)) (unat m)"
    and "unat (mg_master_idx (w_mgr w)) < 5 \<Longrightarrow>
      bit (mg_validSync_bits (w_mgr w)) (unat (mg_master_idx (w_mgr w))) \<Longrightarrow> m = mg_master_idx (w_mgr w)"
    and "fs_try_trigger_frame_sync_sa idx w = map_option (\<lambda>(r, fl, w'). (1, after_solve idx r fl w'))
      (fs_alg_solve_frame_length_sa idx m (mg_validSync_bits (w_mgr w)) 0
        (upd_mgr (\<lambda>k. k\<lparr>mg_master_idx := m\<rparr>) w))"
proof -
  obtain m where m: "fs_get_valid_master_instance_idx w = (m, upd_mgr (\<lambda>k. k\<lparr>mg_master_idx := m\<rparr>) w)"
    "unat m < 5" "bit (mg_validSync_bits (w_mgr w)) (unat m)"
    using get_master[OF assms(1) _ assms(2)] assms(3) by (auto simp: sa_gate_def)
  have "m = mg_master_idx (w_mgr w)" if "unat (mg_master_idx (w_mgr w)) < 5"
    "bit (mg_validSync_bits (w_mgr w)) (unat (mg_master_idx (w_mgr w)))"
    using m(1) that by (auto simp: fs_get_valid_master_instance_idx_def Let_def check_bit_zero MASTER_IDX_NONE_def
        split: if_splits)
  moreover have "fs_try_trigger_frame_sync_sa idx w = map_option (\<lambda>(r, fl, w'). (1, after_solve idx r fl w'))
      (fs_alg_solve_frame_length_sa idx m (mg_validSync_bits (w_mgr w)) 0
        (upd_mgr (\<lambda>k. k\<lparr>mg_master_idx := m\<rparr>) w))"
    using assms(2,3) m(1)
    by (simp add: fs_try_trigger_frame_sync_sa_def sa_gate_def check_bit_zero after_solve_def
        map_conv_bind_option case_prod_unfold comp_def)
  ultimately show thesis using that m by blast
qed

lemma drv_inv_master: "drv_inv w \<Longrightarrow> unat i < 5 \<Longrightarrow> drv_inv (upd_mgr (\<lambda>k. k\<lparr>mg_master_idx := i\<rparr>) w)"
  by (rule drv_inv_upd_mgr) (auto simp: drv_inv_def intro: mgr_inv_master)

lemma drv_inv_after_solve: "drv_inv w \<Longrightarrow> unat idx < 5 \<Longrightarrow> drv_inv (after_solve idx r fl w)"
  by (simp add: after_solve_def drv_inv_feature_extra drv_inv_clear_ctrl)

lemma sa_trigger_inv:
  assumes "drv_inv w" and "unat idx < 5" and run: "fs_try_trigger_frame_sync_sa idx w = Some (t, w')"
  shows "drv_inv w'"
proof (cases "sa_gate idx w")
  case False
  then show ?thesis using sa_trigger_closed[OF assms(2) False] run assms(1) by simp
next
  case True
  have "mgr_inv (w_mgr w)" using assms(1) by (simp add: drv_inv_def)
  from sa_trigger_open[OF this assms(2) True] obtain m where m: "unat m < 5"
    and eq: "fs_try_trigger_frame_sync_sa idx w = map_option (\<lambda>(r, fl, w'). (1, after_solve idx r fl w'))
      (fs_alg_solve_frame_length_sa idx m (mg_validSync_bits (w_mgr w)) 0
        (upd_mgr (\<lambda>k. k\<lparr>mg_master_idx := m\<rparr>) w))" by blast
  from run[unfolded eq] obtain r fl v where
    s: "fs_alg_solve_frame_length_sa idx m (mg_validSync_bits (w_mgr w)) 0
        (upd_mgr (\<lambda>k. k\<lparr>mg_master_idx := m\<rparr>) w) = Some (r, fl, v)" and w': "w' = after_solve idx r fl v"
    by auto
  from drv_inv_solve[OF drv_inv_master[OF assms(1) m] m assms(2) s] show ?thesis
    unfolding w' by (rule drv_inv_after_solve[OF _ assms(2)])
qed

lemma period_ok_mgr [simp]: "period_ok m (upd_mgr f w) = period_ok m w"
  by (simp add: period_ok_def get_valid_frame_cell_size_def)

lemma sa_trigger_total:
  assumes "drv_inv w" and "unat idx < 5" and "inst_ready (fs_inst w idx)"
    and "\<And>m. unat m < 5 \<Longrightarrow> m \<noteq> idx \<Longrightarrow> period_ok m w"
  shows "\<exists>t w'. fs_try_trigger_frame_sync_sa idx w = Some (t, w')"
proof (cases "sa_gate idx w")
  case False
  then show ?thesis using sa_trigger_closed[OF assms(2)] by simp
next
  case True
  have "mgr_inv (w_mgr w)" using assms(1) by (simp add: drv_inv_def)
  from sa_trigger_open[OF this assms(2) True] obtain m where m: "unat m < 5"
    and eq: "fs_try_trigger_frame_sync_sa idx w = map_option (\<lambda>(r, fl, w'). (1, after_solve idx r fl w'))
      (fs_alg_solve_frame_length_sa idx m (mg_validSync_bits (w_mgr w)) 0
        (upd_mgr (\<lambda>k. k\<lparr>mg_master_idx := m\<rparr>) w))" by blast
  have "\<exists>r fl' v. fs_alg_solve_frame_length_sa idx m (mg_validSync_bits (w_mgr w)) 0
        (upd_mgr (\<lambda>k. k\<lparr>mg_master_idx := m\<rparr>) w) = Some (r, fl', v)"
    by (rule solve_sa_total) (use assms(3,4) m in auto)
  then show ?thesis unfolding eq by auto
qed

lemma sa_trigger_result:
  assumes "drv_inv w" and "unat idx < 5" and "fs_try_trigger_frame_sync_sa idx w = Some (t, w')"
  shows "(t = 1 \<longleftrightarrow> sa_gate idx w) \<and> (t = 0 \<longrightarrow> w' = w)
    \<and> (t = 1 \<longrightarrow>
        (let m = sa_master_idx (al_sa (w_alg w')); old = mg_master_idx (w_mgr w) in
           check_bit_atomic m (mg_validSync_bits (w_mgr w)) = 1
           \<and> (check_bit_atomic old (mg_validSync_bits (w_mgr w)) = 1 \<longrightarrow> m = old))
        \<and> mg_validSync_bits (w_mgr w') = mg_validSync_bits (w_mgr w)
        \<and> (if fi_is_nonvalid_ts (fs_inst w idx) \<noteq> 0
            then w_cb_calls w' = w_cb_calls w \<and> mg_pf_ctrl_bits (w_mgr w') = mg_pf_ctrl_bits (w_mgr w)
              \<and> mg_setup_complete_bits (w_mgr w') = mg_setup_complete_bits (w_mgr w)
            else mg_pf_ctrl_bits (w_mgr w') = write_bit_atomic idx 0 (mg_pf_ctrl_bits (w_mgr w))
              \<and> mg_setup_complete_bits (w_mgr w') = write_bit_atomic idx 0 (mg_setup_complete_bits (w_mgr w))
              \<and> fi_output_fl_lc (fs_inst w' idx) \<le> fi_max_fl_lc (fs_inst w idx)
              \<and> w_cb_calls w' = w_cb_calls w @ (let cb = mg_cb_data (w_mgr w) idx;
                    fl = fi_output_fl_lc (fs_inst w' idx) in
                  if cb_func_ptr cb \<noteq> 0 \<and> fl \<noteq> 0
                  then [(cb_func_ptr cb, cb_p_ctx cb, cb_cmd_id cb, fl)] else [])))"
proof (cases "sa_gate idx w")
  case False
  then show ?thesis using sa_trigger_closed[OF assms(2) False] assms(3) by simp
next
  case True
  have "mgr_inv (w_mgr w)" using assms(1) by (simp add: drv_inv_def)
  from sa_trigger_open[OF this assms(2) True] obtain m where m: "unat m < 5"
      "bit (mg_validSync_bits (w_mgr w)) (unat m)"
      "unat (mg_master_idx (w_mgr w)) < 5 \<Longrightarrow>
        bit (mg_validSync_bits (w_mgr w)) (unat (mg_master_idx (w_mgr w))) \<Longrightarrow> m = mg_master_idx (w_mgr w)"
    and eq: "fs_try_trigger_frame_sync_sa idx w = map_option (\<lambda>(r, fl, w'). (1, after_solve idx r fl w'))
      (fs_alg_solve_frame_length_sa idx m (mg_validSync_bits (w_mgr w)) 0
        (upd_mgr (\<lambda>k. k\<lparr>mg_master_idx := m\<rparr>) w))" by blast
  from assms(3)[unfolded eq] obtain r fl v where
    s: "fs_alg_solve_frame_length_sa idx m (mg_validSync_bits (w_mgr w)) 0
        (upd_mgr (\<lambda>k. k\<lparr>mg_master_idx := m\<rparr>) w) = Some (r, fl, v)"
    and w': "w' = after_solve idx r fl v" and t: "t = 1"
    by auto
  note res = solve_sa_result[OF s]
  have calls: "w_cb_calls v = w_cb_calls w" using res by (simp add: sa_conf_def)
  have mgr: "(w_mgr v)\<lparr>mg_master_idx := 0\<rparr> = (w_mgr w)\<lparr>mg_master_idx := 0\<rparr>"
    using res by (simp add: sa_conf_def)
  note mgrs = arg_cong[OF mgr, of mg_pf_ctrl_bits] arg_cong[OF mgr, of mg_setup_complete_bits]
    arg_cong[OF mgr, of mg_cb_data] arg_cong[OF mgr, of mg_validSync_bits]
  have extra: "sa_master_idx (al_sa (w_alg (fs_feature_status_extra_ctrl idx x))) = sa_master_idx (al_sa (w_alg x))"
    "w_cb_calls (fs_feature_status_extra_ctrl idx x) = w_cb_calls x"
    "mg_pf_ctrl_bits (w_mgr (fs_feature_status_extra_ctrl idx x)) = mg_pf_ctrl_bits (w_mgr x)"
    "mg_setup_complete_bits (w_mgr (fs_feature_status_extra_ctrl idx x)) = mg_setup_complete_bits (w_mgr x)"
    "mg_validSync_bits (w_mgr (fs_feature_status_extra_ctrl idx x)) = mg_validSync_bits (w_mgr x)"
    "fi_output_fl_lc (fs_inst (fs_feature_status_extra_ctrl idx x) idx) = fi_output_fl_lc (fs_inst x idx)" for x
    by (simp_all add: fs_feature_status_extra_ctrl_def fs_check_n_1_status_extra_ctrl_def upd_ft_mode_def
        fs_alg_set_n_1_on_off_flag_def)
  have set_fl: "w_mgr (fs_set_framelength_lc idx fl v) = w_mgr v"
    "fs_inst (fs_set_framelength_lc idx fl v) = fs_inst v" "w_alg (fs_set_framelength_lc idx fl v) = w_alg v"
    "w_cb_calls (fs_set_framelength_lc idx fl v) = w_cb_calls v @ (let cb = mg_cb_data (w_mgr v) idx in
        if cb_func_ptr cb \<noteq> 0 \<and> fl \<noteq> 0 then [(cb_func_ptr cb, cb_p_ctx cb, cb_cmd_id cb, fl)] else [])" for fl
    by (simp_all add: fs_set_framelength_lc_def fs_set_sensor_driver_framelength_lc_def Let_def)
  have sa: "sa_master_idx (al_sa (w_alg w')) = m" "mg_validSync_bits (w_mgr w') = mg_validSync_bits (w_mgr w)"
    using res mgrs by (simp_all add: w' after_solve_def extra fs_clear_ctrl_bits_def set_fl)
  have "check_bit_atomic m (mg_validSync_bits (w_mgr w)) = 1"
    "check_bit_atomic (mg_master_idx (w_mgr w)) (mg_validSync_bits (w_mgr w)) = 1 \<longrightarrow> m = mg_master_idx (w_mgr w)"
    using m by (auto simp: check_bit_one)
  moreover have "w_cb_calls w' = w_cb_calls w \<and> mg_pf_ctrl_bits (w_mgr w') = mg_pf_ctrl_bits (w_mgr w)
              \<and> mg_setup_complete_bits (w_mgr w') = mg_setup_complete_bits (w_mgr w)"
    if "fi_is_nonvalid_ts (fs_inst w idx) \<noteq> 0"
    using res that calls mgrs by (simp add: w' after_solve_def)
  moreover have "mg_pf_ctrl_bits (w_mgr w') = write_bit_atomic idx 0 (mg_pf_ctrl_bits (w_mgr w))
              \<and> mg_setup_complete_bits (w_mgr w') = write_bit_atomic idx 0 (mg_setup_complete_bits (w_mgr w))
              \<and> fi_output_fl_lc (fs_inst w' idx) \<le> fi_max_fl_lc (fs_inst w idx)
              \<and> w_cb_calls w' = w_cb_calls w @ (let cb = mg_cb_data (w_mgr w) idx;
                    fl = fi_output_fl_lc (fs_inst w' idx) in
                  if cb_func_ptr cb \<noteq> 0 \<and> fl \<noteq> 0
                  then [(cb_func_ptr cb, cb_p_ctx cb, cb_cmd_id cb, fl)] else [])"
    if "fi_is_nonvalid_ts (fs_inst w idx) = 0"
  proof -
    have "r = 0" using res that by simp
    then have fl: "fl = fi_output_fl_lc (fs_inst v idx)" "fl \<le> fi_max_fl_lc (fs_inst w idx)" using res by auto
    with \<open>r = 0\<close> show ?thesis
      using mgrs calls by (simp add: w' after_solve_def extra fs_clear_ctrl_bits_def set_fl Let_def)
  qed
  ultimately show ?thesis using True t sa unfolding Let_def by simp
qed

text \<open>C24. The stand-alone trigger of a synchronised sensor: it solves exactly when the sensor is in
  valid sync, has sent its frame's control and its setup is complete. The master it uses is in
  valid sync, and is the current one when that still is. With a usable timestamp the sensor's two
  control bits are cleared, no other sensor's are, and the frame length solved, at most the
  sensor's maximum, reaches the sensor driver in one call with the sensor's own callback data,
  unless there is no callback or the length is zero; without a usable timestamp, control bits and
  calls stay.\<close>

theorem sa_trigger_correct:
  assumes "drv_inv w" and "unat idx < 5" and "fs_try_trigger_frame_sync_sa idx w = Some (t, w')"
  shows "(t = 1 \<longleftrightarrow> sa_gate idx w) \<and> (t = 0 \<longrightarrow> w' = w)
    \<and> (t = 1 \<longrightarrow>
        (let m = sa_master_idx (al_sa (w_alg w')); old = mg_master_idx (w_mgr w) in
           check_bit_atomic m (mg_validSync_bits (w_mgr w)) = 1
           \<and> (check_bit_atomic old (mg_validSync_bits (w_mgr w)) = 1 \<longrightarrow> m = old))
        \<and> mg_validSync_bits (w_mgr w') = mg_validSync_bits (w_mgr w)
        \<and> (if fi_is_nonvalid_ts (fs_inst w idx) \<noteq> 0
            then w_cb_calls w' = w_cb_calls w \<and> mg_pf_ctrl_bits (w_mgr w') = mg_pf_ctrl_bits (w_mgr w)
              \<and> mg_setup_complete_bits (w_mgr w') = mg_setup_complete_bits (w_mgr w)
            else mg_pf_ctrl_bits (w_mgr w') = write_bit_atomic idx 0 (mg_pf_ctrl_bits (w_mgr w))
              \<and> mg_setup_complete_bits (w_mgr w') = write_bit_atomic idx 0 (mg_setup_complete_bits (w_mgr w))
              \<and> fi_output_fl_lc (fs_inst w' idx) \<le> fi_max_fl_lc (fs_inst w idx)
              \<and> w_cb_calls w' = w_cb_calls w @ (let cb = mg_cb_data (w_mgr w) idx;
                    fl = fi_output_fl_lc (fs_inst w' idx) in
                  if cb_func_ptr cb \<noteq> 0 \<and> fl \<noteq> 0
                  then [(cb_func_ptr cb, cb_p_ctx cb, cb_cmd_id cb, fl)] else [])))"
  by (rule sa_trigger_result[OF assms])

subsection \<open>The per-frame control\<close>

lemma setup_complete_eq:
  "fs_notify_sensor_ctrl_setup_complete idx w =
     (let v = (if check_bit_atomic idx (mg_streaming_bits (w_mgr w)) = 1
               then upd_mgr (\<lambda>m. m\<lparr>mg_setup_complete_bits :=
                      write_bit_atomic idx 1 (mg_setup_complete_bits m)\<rparr>) w else w)
      in if mg_using_sa_ver (w_mgr w) \<noteq> 0 then map_option snd (fs_try_trigger_frame_sync_sa idx v) else Some v)"
  by (simp add: fs_notify_sensor_ctrl_setup_complete_def Let_def)

lemma setup_complete_shape:
  assumes "drv_inv w" and "unat idx < 5"
  obtains v where "drv_inv v" and "fs_inst v = fs_inst w" and "w_alg v = w_alg w"
    and "fs_notify_sensor_ctrl_setup_complete idx w = (if mg_using_sa_ver (w_mgr w) \<noteq> 0
       then map_option snd (fs_try_trigger_frame_sync_sa idx v) else Some v)"
proof -
  define v where "v = (if check_bit_atomic idx (mg_streaming_bits (w_mgr w)) = 1
               then upd_mgr (\<lambda>m. m\<lparr>mg_setup_complete_bits :=
                      write_bit_atomic idx 1 (mg_setup_complete_bits m)\<rparr>) w else w)"
  have "drv_inv v"
    unfolding v_def using assms
    by (auto intro!: drv_inv_upd_mgr mgr_inv_setup simp: check_bit_one) (simp add: drv_inv_def)
  moreover have "fs_inst v = fs_inst w" "w_alg v = w_alg w" by (simp_all add: v_def)
  ultimately show thesis using that setup_complete_eq[of idx w] unfolding v_def[symmetric] Let_def by blast
qed

lemma drv_inv_check_ctrl:
  assumes "drv_inv w" and "unat idx < 5" shows "drv_inv (fs_check_frame_sync_ctrl idx p w)"
proof -
  have "drv_inv (upd_mgr (\<lambda>m. m\<lparr>mg_pf_ctrl_bits := write_bit_atomic idx 1 (mg_pf_ctrl_bits m)\<rparr>) w)"
    if "bit (mg_validSync_bits (w_mgr w)) (unat idx)"
    using assms that by (intro drv_inv_upd_mgr mgr_inv_pf) (auto simp: drv_inv_def)
  then show ?thesis using assms by (simp add: fs_check_frame_sync_ctrl_def check_bit_zero drv_inv_upd_flags)
qed

lemma check_ctrl_sel [simp]:
  "fs_inst (fs_check_frame_sync_ctrl idx p w) = fs_inst w"
  "w_alg (fs_check_frame_sync_ctrl idx p w) = w_alg w"
  by (simp_all add: fs_check_frame_sync_ctrl_def fs_set_cb_cmd_id_def)

lemma drv_inv_auto_tag: "drv_inv w \<Longrightarrow> drv_inv (fs_try_set_auto_frame_tag idx w)"
  by (auto simp: fs_try_set_auto_frame_tag_def drv_inv_upd_flags intro!: drv_inv_upd_mgr)
    (use drv_inv_upd_flags(4)[of w idx] in \<open>simp add: drv_inv_def\<close>)

lemma auto_tag_sel [simp]:
  "fi_lineTimeInNs (fs_inst (fs_try_set_auto_frame_tag idx w) j) = fi_lineTimeInNs (fs_inst w j)"
  "fi_frame_cell_size (fs_inst (fs_try_set_auto_frame_tag idx w) j) = fi_frame_cell_size (fs_inst w j)"
  "al_sa (w_alg (fs_try_set_auto_frame_tag idx w)) = al_sa (w_alg w)"
  by (simp_all add: fs_try_set_auto_frame_tag_def fs_alg_set_frame_tag_def)

text \<open>What the call leaves as it is before it reports its setup: the bit words but for the sensor's
  own control bit, the calls made, the sensor's timestamp verdict and its maximum.\<close>

definition shutter_frame :: "u32 \<Rightarrow> fs_perframe_st \<Rightarrow> fs_world \<Rightarrow> fs_world \<Rightarrow> bool" where
  "shutter_frame idx p w v \<longleftrightarrow> w_cb_calls v = w_cb_calls w
     \<and> mg_validSync_bits (w_mgr v) = mg_validSync_bits (w_mgr w)
     \<and> mg_streaming_bits (w_mgr v) = mg_streaming_bits (w_mgr w)
     \<and> mg_setup_complete_bits (w_mgr v) = mg_setup_complete_bits (w_mgr w)
     \<and> mg_using_sa_ver (w_mgr v) = mg_using_sa_ver (w_mgr w)
     \<and> mg_master_idx (w_mgr v) = mg_master_idx (w_mgr w)
     \<and> (bit (mg_validSync_bits (w_mgr w)) (unat idx) \<longrightarrow>
          mg_pf_ctrl_bits (w_mgr v) = write_bit_atomic idx 1 (mg_pf_ctrl_bits (w_mgr w))
          \<and> mg_cb_data (w_mgr v) idx = (if bit (mg_pf_ctrl_bits (w_mgr w)) (unat idx)
               then mg_cb_data (w_mgr w) idx else (mg_cb_data (w_mgr w) idx)\<lparr>cb_cmd_id := pf_cmd_id p\<rparr>))
     \<and> fi_max_fl_lc (fs_inst v idx) = fi_max_fl_lc (fs_inst w idx)
     \<and> fi_is_nonvalid_ts (fs_inst v idx) = fi_is_nonvalid_ts (fs_inst w idx)"

lemma write_bit_same:
  "unat i < 5 \<Longrightarrow> bit v (unat i) \<Longrightarrow> write_bit_atomic i 1 v = v"
  by (rule bit_eqI) (simp add: bit_write)

lemma check_ctrl_frame:
  assumes "unat idx < 5"
  shows "shutter_frame idx p w (fs_check_frame_sync_ctrl idx p w)"
  using assms write_bit_same[OF assms, of "mg_pf_ctrl_bits (w_mgr w)"]
  by (auto simp: shutter_frame_def fs_check_frame_sync_ctrl_def fs_set_cb_cmd_id_def check_bit_zero check_bit_one)

lemma auto_tag_frame [simp]:
  "w_cb_calls (fs_try_set_auto_frame_tag idx w) = w_cb_calls w"
  "mg_validSync_bits (w_mgr (fs_try_set_auto_frame_tag idx w)) = mg_validSync_bits (w_mgr w)"
  "mg_streaming_bits (w_mgr (fs_try_set_auto_frame_tag idx w)) = mg_streaming_bits (w_mgr w)"
  "mg_setup_complete_bits (w_mgr (fs_try_set_auto_frame_tag idx w)) = mg_setup_complete_bits (w_mgr w)"
  "mg_using_sa_ver (w_mgr (fs_try_set_auto_frame_tag idx w)) = mg_using_sa_ver (w_mgr w)"
  "mg_master_idx (w_mgr (fs_try_set_auto_frame_tag idx w)) = mg_master_idx (w_mgr w)"
  "mg_pf_ctrl_bits (w_mgr (fs_try_set_auto_frame_tag idx w)) = mg_pf_ctrl_bits (w_mgr w)"
  "mg_cb_data (w_mgr (fs_try_set_auto_frame_tag idx w)) = mg_cb_data (w_mgr w)"
  "fi_max_fl_lc (fs_inst (fs_try_set_auto_frame_tag idx w) j) = fi_max_fl_lc (fs_inst w j)"
  "fi_is_nonvalid_ts (fs_inst (fs_try_set_auto_frame_tag idx w) j) = fi_is_nonvalid_ts (fs_inst w j)"
  by (simp_all add: fs_try_set_auto_frame_tag_def fs_alg_set_frame_tag_def)

text \<open>All of \<open>fs_set_shutter\<close> up to its last call, which may run the solver.\<close>

lemma do_set_shutter_shape:
  assumes "drv_inv w" and "unat idx < 5" and ok: "\<not> hdr_fault (pf_hdr_exp p) (fi_hdr_exp (fs_inst w idx)) \<or> fs_do_set_shutter idx p w \<noteq> None"
  obtains p' v where "drv_inv v" and "fs_do_set_shutter idx p w =
      map_option (Pair p') (fs_notify_sensor_ctrl_setup_complete idx v)"
    and "fi_lineTimeInNs (fs_inst v idx) = pf_lineTimeInNs p" and "recs_ready (fs_inst v idx)"
    and "\<And>m. period_ok m v = period_ok m w" and "shutter_frame idx p w v"
proof -
  define w1 where "w1 = fs_try_set_auto_frame_tag idx
    (upd_mgr (\<lambda>m. m\<lparr>mg_pf_ctrl := (mg_pf_ctrl m)(idx := p)\<rparr>) w)"
  have w1: "drv_inv w1"
    unfolding w1_def using assms(1)
    by (intro drv_inv_auto_tag drv_inv_upd_mgr[OF assms(1)]) (auto simp: drv_inv_def)
  have "fi_hdr_exp (fs_inst w1 idx) = fi_hdr_exp (fs_inst w idx)"
    by (simp add: w1_def fs_try_set_auto_frame_tag_def fs_alg_set_frame_tag_def)
  moreover have "fs_do_set_shutter idx p w = None" if "fs_alg_set_perframe_st_data idx p w1 = None"
    using that by (simp add: fs_do_set_shutter_def w1_def)
  ultimately have "fs_alg_set_perframe_st_data idx p w1 \<noteq> None"
    using ok by (auto simp: set_perframe_faults)
  then obtain p' u where run: "fs_alg_set_perframe_st_data idx p w1 = Some (p', u)" by auto
  then obtain g where u: "u = upd_inst idx g w1" and cmd: "pf_cmd_id p' = pf_cmd_id p"
    and g: "fi_recs (g (fs_inst w1 idx)) = fi_recs (fs_inst w1 idx)"
      "fi_lineTimeInNs (g (fs_inst w1 idx)) = pf_lineTimeInNs p"
      "fi_frame_cell_size (g (fs_inst w1 idx)) = fi_frame_cell_size (fs_inst w1 idx)"
      "fi_max_fl_lc (g (fs_inst w1 idx)) = fi_max_fl_lc (fs_inst w1 idx)"
      "fi_is_nonvalid_ts (g (fs_inst w1 idx)) = fi_is_nonvalid_ts (fs_inst w1 idx)"
    using set_perframe_returned by blast
  note run = run[unfolded u]
  define w2 where "w2 = hw_fs_alg_set_perframe_st_data idx p' (upd_inst idx g w1)"
  have w2: "drv_inv w2"
    unfolding w2_def hw_fs_alg_set_perframe_st_data_def using drv_inv_upd_inst[where g = g, OF w1 g(1)] by simp
  obtain w3 where w3: "frec_update_shutter_fl_lc idx (pf_shutter_lc p') (pf_out_fl_lc p') w2 = Some w3"
    using notify_total unfolding frec_update_shutter_fl_lc_def by blast
  note n3 = notify_linked[OF w3[unfolded frec_update_shutter_fl_lc_def]]
  have w3_inv: "drv_inv w3"
    using drv_inv_recorder[OF w3[unfolded frec_update_shutter_fl_lc_def] rec_ok_ops(1) w2] .
  define v where "v = fs_check_frame_sync_ctrl idx p' w3"
  have v: "drv_inv v" unfolding v_def by (rule drv_inv_check_ctrl[OF w3_inv assms(2)])
  moreover have "fs_do_set_shutter idx p w = map_option (Pair p') (fs_notify_sensor_ctrl_setup_complete idx v)"
    using run w3 by (simp add: fs_do_set_shutter_def w1_def[symmetric] w2_def[symmetric] v_def[symmetric]
        map_conv_bind_option comp_def)
  moreover have "fi_lineTimeInNs (fs_inst v idx) = pf_lineTimeInNs p"
    using n3(8)[of idx] g(2) by (simp add: v_def w2_def hw_fs_alg_set_perframe_st_data_def)
  moreover have "recs_ready (fs_inst v idx)" using recs_linked_ready[OF n3(1)] by (simp add: v_def)
  moreover have "period_ok m v = period_ok m w" for m
  proof -
    have sa: "al_sa (w_alg v) = al_sa (w_alg w)"
      using n3(4) by (simp add: v_def w2_def w1_def hw_fs_alg_set_perframe_st_data_def)
    have cell: "fi_frame_cell_size (fs_inst v m) = fi_frame_cell_size (fs_inst w m)"
      using n3(9)[of m] g(3) by (simp add: v_def w2_def hw_fs_alg_set_perframe_st_data_def)
        (simp add: w1_def)
    show ?thesis by (simp add: period_ok_def get_valid_frame_cell_size_def sa cell)
  qed
  moreover have "shutter_frame idx p w v"
  proof -
    have mgr: "w_mgr w3 = w_mgr w1" "w_cb_calls w3 = w_cb_calls w1"
      using n3(2,12) by (simp_all add: w2_def hw_fs_alg_set_perframe_st_data_def)
    have inst: "fi_max_fl_lc (fs_inst w3 idx) = fi_max_fl_lc (fs_inst w idx)"
      "fi_is_nonvalid_ts (fs_inst w3 idx) = fi_is_nonvalid_ts (fs_inst w idx)"
      using n3(10,11)[of idx] g(4,5) by (simp_all add: w2_def hw_fs_alg_set_perframe_st_data_def)
        (simp_all add: w1_def)
    have "shutter_frame idx p' w3 v" unfolding v_def by (rule check_ctrl_frame[OF assms(2)])
    then show ?thesis using inst cmd by (simp add: shutter_frame_def mgr w1_def)
  qed
  ultimately show thesis by (rule that)
qed

lemma setup_complete_inv:
  assumes "drv_inv w" and "unat idx < 5" and "fs_notify_sensor_ctrl_setup_complete idx w = Some w'"
  shows "drv_inv w'"
proof -
  obtain v where v: "drv_inv v" and eq: "fs_notify_sensor_ctrl_setup_complete idx w =
      (if mg_using_sa_ver (w_mgr w) \<noteq> 0
       then map_option snd (fs_try_trigger_frame_sync_sa idx v) else Some v)"
    using setup_complete_shape[OF assms(1,2)] by blast
  show ?thesis
    using assms(3) v sa_trigger_inv[OF v assms(2)] unfolding eq by (auto split: if_splits)
qed

lemma setup_complete_total:
  assumes "drv_inv w" and "unat idx < 5" and "inst_ready (fs_inst w idx)"
    and "\<And>m. unat m < 5 \<Longrightarrow> m \<noteq> idx \<Longrightarrow> period_ok m w"
  shows "\<exists>w'. fs_notify_sensor_ctrl_setup_complete idx w = Some w'"
proof -
  obtain v where v: "drv_inv v" "fs_inst v = fs_inst w" "w_alg v = w_alg w"
    and eq: "fs_notify_sensor_ctrl_setup_complete idx w = (if mg_using_sa_ver (w_mgr w) \<noteq> 0
       then map_option snd (fs_try_trigger_frame_sync_sa idx v) else Some v)"
    using setup_complete_shape[OF assms(1,2)] by blast
  have "period_ok m v = period_ok m w" for m by (simp add: period_ok_def get_valid_frame_cell_size_def v(2,3))
  then have "\<exists>t w'. fs_try_trigger_frame_sync_sa idx v = Some (t, w')"
    by (intro sa_trigger_total[OF v(1) assms(2)]) (use assms(3,4) v(2) in auto)
  then show ?thesis unfolding eq by auto
qed

lemma do_set_shutter_inv:
  assumes "drv_inv w" and "unat idx < 5" and "fs_do_set_shutter idx p w = Some (p', w')"
  shows "drv_inv w'"
proof -
  obtain q v where v: "drv_inv v" and eq: "fs_do_set_shutter idx p w =
      map_option (Pair q) (fs_notify_sensor_ctrl_setup_complete idx v)"
    using do_set_shutter_shape[OF assms(1,2)] assms(3) by (metis option.distinct(1))
  show ?thesis using assms(3) setup_complete_inv[OF v assms(2)] unfolding eq by auto
qed

lemma do_set_shutter_total:
  assumes "drv_inv w" and "unat idx < 5" and "pf_lineTimeInNs p \<noteq> 0" and "\<not> hdr_fault (pf_hdr_exp p) (fi_hdr_exp (fs_inst w idx))"
    and "\<And>m. unat m < 5 \<Longrightarrow> m \<noteq> idx \<Longrightarrow> period_ok m w"
  shows "\<exists>p' w'. fs_do_set_shutter idx p w = Some (p', w')"
proof -
  obtain q v where v: "drv_inv v" "fi_lineTimeInNs (fs_inst v idx) = pf_lineTimeInNs p"
      "recs_ready (fs_inst v idx)" "\<And>m. period_ok m v = period_ok m w"
    and eq: "fs_do_set_shutter idx p w = map_option (Pair q) (fs_notify_sensor_ctrl_setup_complete idx v)"
    using do_set_shutter_shape[OF assms(1,2), of p] assms(4) by metis
  have "inst_ready (fs_inst v idx)" using v(2,3) assms(3) by (simp add: inst_ready_def)
  then have "\<exists>w'. fs_notify_sensor_ctrl_setup_complete idx v = Some w'"
    using setup_complete_total[OF v(1) assms(2)] assms(5) v(4) by blast
  then show ?thesis unfolding eq by auto
qed

text \<open>C23. A control of a sensor in valid sync is solved in the same call. With a usable timestamp the
  driver hands the frame length it solved (the output it stored for the sensor, at most the
  sensor's maximum) to the sensor driver in exactly one call, with the callback data and the
  command of the first control that was pending; only a sensor without a callback or a length of
  zero is not called. The sensor's control bits are clear again. Without a usable timestamp the
  control stays pending and nothing is called.\<close>

theorem set_shutter_delivers:
  assumes "drv_inv w" and "fs_set_shutter p w = Some (p', w')"
    and "fs_get_reg_sensor_pos (fs_perframe_ident p) w = idx"
    and "check_bit_atomic idx (mg_validSync_bits (w_mgr w)) = 1"
  shows "let m = w_mgr w; m' = w_mgr w'; cb = mg_cb_data m idx;
      cmd = (if check_bit_atomic idx (mg_pf_ctrl_bits m) = 1 then cb_cmd_id cb else pf_cmd_id p) in
    mg_validSync_bits m' = mg_validSync_bits m
    \<and> (if fi_is_nonvalid_ts (fs_inst w idx) \<noteq> 0
       then w_cb_calls w' = w_cb_calls w
         \<and> mg_pf_ctrl_bits m' = write_bit_atomic idx 1 (mg_pf_ctrl_bits m)
         \<and> mg_setup_complete_bits m' = write_bit_atomic idx 1 (mg_setup_complete_bits m)
       else mg_pf_ctrl_bits m' = write_bit_atomic idx 0 (mg_pf_ctrl_bits m)
         \<and> mg_setup_complete_bits m' = write_bit_atomic idx 0 (mg_setup_complete_bits m)
         \<and> fi_output_fl_lc (fs_inst w' idx) \<le> fi_max_fl_lc (fs_inst w idx)
         \<and> w_cb_calls w' = w_cb_calls w
              @ (if cb_func_ptr cb \<noteq> 0 \<and> fi_output_fl_lc (fs_inst w' idx) \<noteq> 0
                 then [(cb_func_ptr cb, cb_p_ctx cb, cmd, fi_output_fl_lc (fs_inst w' idx))] else []))"
proof -
  have idx: "unat idx < 5" and valid: "bit (mg_validSync_bits (w_mgr w)) (unat idx)"
    using assms(4) by (simp_all add: check_bit_one)
  have mi: "mgr_inv (w_mgr w)" using assms(1) by (simp add: drv_inv_def)
  then have en: "bit (mg_streaming_bits (w_mgr w)) (unat idx)" "bit (mg_enSync_bits (w_mgr w)) (unat idx)"
    using valid by (simp_all add: mgr_inv_def bits_ok_def bit_simps)
  then have sa: "mg_using_sa_ver (w_mgr w) = 1" using mi by (auto simp: mgr_inv_def)
  have returned: "fs_do_set_shutter idx p w = Some (p', w')"
    using assms(2-4) idx en valid
    by (auto simp: fs_set_shutter_def Let_def check_bit_zero check_idx_valid_zero split: if_splits)
  moreover obtain q v where v: "drv_inv v" and eq: "fs_do_set_shutter idx p w =
      map_option (Pair q) (fs_notify_sensor_ctrl_setup_complete idx v)" and fr: "shutter_frame idx p w v"
    using do_set_shutter_shape[OF assms(1) idx, of p] returned by (metis option.distinct(1))
  ultimately have run: "fs_notify_sensor_ctrl_setup_complete idx v = Some w'" by auto
  note fr = fr[unfolded shutter_frame_def]
  define u where "u = upd_mgr (\<lambda>m. m\<lparr>mg_setup_complete_bits :=
      write_bit_atomic idx 1 (mg_setup_complete_bits m)\<rparr>) v"
  have str: "check_bit_atomic idx (mg_streaming_bits (w_mgr v)) = 1" using fr en idx by (simp add: check_bit_one)
  have u: "drv_inv u" unfolding u_def
    using v str by (auto intro!: drv_inv_upd_mgr mgr_inv_setup simp: check_bit_one) (simp add: drv_inv_def)
  have "mg_using_sa_ver (w_mgr v) \<noteq> 0" using fr sa by simp
  with run str obtain t where trig: "fs_try_trigger_frame_sync_sa idx u = Some (t, w')"
    by (auto simp: setup_complete_eq Let_def u_def)
  have pf: "mg_pf_ctrl_bits (w_mgr u) = write_bit_atomic idx 1 (mg_pf_ctrl_bits (w_mgr w))"
    and su: "mg_setup_complete_bits (w_mgr u) = write_bit_atomic idx 1 (mg_setup_complete_bits (w_mgr w))"
    and vs: "mg_validSync_bits (w_mgr u) = mg_validSync_bits (w_mgr w)" "w_cb_calls u = w_cb_calls w"
    and cb: "mg_cb_data (w_mgr u) idx = (if bit (mg_pf_ctrl_bits (w_mgr w)) (unat idx)
      then mg_cb_data (w_mgr w) idx else (mg_cb_data (w_mgr w) idx)\<lparr>cb_cmd_id := pf_cmd_id p\<rparr>)"
    and inst: "fi_max_fl_lc (fs_inst u idx) = fi_max_fl_lc (fs_inst w idx)"
      "fi_is_nonvalid_ts (fs_inst u idx) = fi_is_nonvalid_ts (fs_inst w idx)"
    using fr valid by (simp_all add: u_def)
  have "sa_gate idx u" using idx valid by (simp add: sa_gate_def pf su vs bit_write)
  with sa_trigger_result[OF u idx trig] have t: "t = 1" by blast
  have again: "write_bit_atomic idx 0 (write_bit_atomic idx 1 x) = write_bit_atomic idx 0 x" for x
    by (rule bit_eqI) (simp add: bit_write)
  have pend: "check_bit_atomic idx (mg_pf_ctrl_bits (w_mgr w)) = 1 \<longleftrightarrow> bit (mg_pf_ctrl_bits (w_mgr w)) (unat idx)"
    using idx by (simp add: check_bit_one)
  note res = sa_trigger_result[OF u idx trig, unfolded pf su vs inst again Let_def]
  show ?thesis
    using res t cb pend unfolding Let_def by (auto split: if_splits)
qed

subsection \<open>A concrete state\<close>

text \<open>Two sensors that stream in sync; the first has its control and setup in, so it may solve.\<close>

definition synced_demo :: fs_world where
  "synced_demo = upd_mgr (\<lambda>m. m\<lparr>mg_reg_cnt := 2,
       mg_sensors := (\<lambda>i. \<lparr>si_sensor_id = i + 1, si_sensor_idx = i\<rparr>), mg_streaming_bits := 3,
       mg_enSync_bits := 3, mg_validSync_bits := 3, mg_pf_ctrl_bits := 1, mg_setup_complete_bits := 1,
       mg_using_sa_ver := 1, mg_fs_status := 2\<rparr>)
     (upd_inst 1 (\<lambda>_. (demo_sensor 4000)\<lparr>fi_recs := link_ptrs 1 0\<rparr>)
     (upd_inst 0 (\<lambda>_. (demo_sensor 2000)\<lparr>fi_recs := link_ptrs 0 0\<rparr>) zero_world))"

lemma bit_three: "bit (3 :: u32) n \<longleftrightarrow> n = 0 \<or> n = 1" "bit (3 :: int) n \<longleftrightarrow> n = 0 \<or> n = 1"
  "bit (3 :: nat) n \<longleftrightarrow> n = 0 \<or> n = 1"
proof -
  have "(3 :: u32) = mask 2" "(3 :: int) = mask 2" "(3 :: nat) = mask 2" by (simp_all add: mask_eq_exp_minus_1)
  then have "bit (3 :: u32) n \<longleftrightarrow> n < 32 \<and> n < 2" "bit (3 :: int) n \<longleftrightarrow> n < 2" "bit (3 :: nat) n \<longleftrightarrow> n < 2"
    by (simp_all only: bit_mask_iff) simp_all
  then show "bit (3 :: u32) n \<longleftrightarrow> n = 0 \<or> n = 1" "bit (3 :: int) n \<longleftrightarrow> n = 0 \<or> n = 1"
    "bit (3 :: nat) n \<longleftrightarrow> n = 0 \<or> n = 1" by auto
qed

lemma bit_one: "bit (1 :: u32) n \<longleftrightarrow> n = 0"
  by (simp add: bit_1_iff)

lemma hweight32_three: "hweight32 3 = 2"
proof -
  have "{i. i < 32 \<and> bit (3 :: u32) i} = {0, 1}" by (auto simp: bit_three)
  then have "unat (hweight32 3) = 2" by (simp add: unat_hweight32)
  then show ?thesis by (intro unsigned_word_eqI) simp
qed

lemma synced_demo_mgr [simp]:
  "mg_reg_cnt (w_mgr synced_demo) = 2" "mg_streaming_bits (w_mgr synced_demo) = 3"
  "mg_enSync_bits (w_mgr synced_demo) = 3" "mg_validSync_bits (w_mgr synced_demo) = 3"
  "mg_pf_ctrl_bits (w_mgr synced_demo) = 1" "mg_setup_complete_bits (w_mgr synced_demo) = 1"
  "mg_using_sa_ver (w_mgr synced_demo) = 1" "mg_fs_status (w_mgr synced_demo) = 2"
  "mg_sensors (w_mgr synced_demo) i = \<lparr>si_sensor_id = i + 1, si_sensor_idx = i\<rparr>"
  "mg_master_idx (w_mgr synced_demo) = 0" "mg_ft_mode (w_mgr synced_demo) = (\<lambda>_. 0)"
  "w_recorder synced_demo = w_recorder zero_world" "al_sa (w_alg synced_demo) = al_sa (w_alg zero_world)"
  "fs_inst synced_demo i = (if i = 0 then (demo_sensor 2000)\<lparr>fi_recs := link_ptrs 0 0\<rparr>
     else if i = 1 then (demo_sensor 4000)\<lparr>fi_recs := link_ptrs 1 0\<rparr> else zero_fs_inst)"
  by (simp_all add: synced_demo_def zero_world_def upd_inst_def upd_mgr_def)

lemma synced_demo_inv: "drv_inv synced_demo"
proof -
  have "mgr_inv (w_mgr synced_demo)"
    by (auto simp: mgr_inv_def table_ok_def bits_ok_def status_ok_def bit_three bit_one hweight32_three inj_on_def)
  moreover have "rec_ok (w_recorder synced_demo i)" for i
    by (simp add: rec_ok_def zero_world_def RECORDER_DEPTH_def)
  then have "data_inv synced_demo" by (simp add: data_inv_def zero_world_def)
  moreover have "recs_linked synced_demo i" if "bit (3 :: u32) (unat i)" for i
  proof -
    have "i = 0 \<or> i = 1" using that unfolding bit_three by (metis unat_0 unat_1 unsigned_word_eqI)
    then show ?thesis by (auto simp: recs_linked_def zero_world_def)
  qed
  then have "linked_inv synced_demo" by (simp add: linked_inv_def)
  ultimately show ?thesis by (simp add: drv_inv_def)
qed

lemma synced_demo_ready: "inst_ready (fs_inst synced_demo 0)" "period_ok m synced_demo"
proof -
  show "inst_ready (fs_inst synced_demo 0)"
    by (simp add: inst_ready_def demo_sensor_def recs_ready_def link_ptrs_eq)
  show "period_ok m synced_demo" by (simp add: period_ok_def zero_world_def zero_dynamic_para_def)
qed

lemma synced_demo_hdr: "\<not> hdr_fault p (fi_hdr_exp (fs_inst synced_demo i))"
  by (simp add: hdr_fault_def hdr_cnt_ok_def demo_sensor_def zero_fs_inst_def zero_hdr_exp_def)

theorem sa_trigger_correct_witness:
  "\<exists>w'. fs_try_trigger_frame_sync_sa 0 synced_demo = Some (1, w')
     \<and> mg_pf_ctrl_bits (w_mgr w') = write_bit_atomic 0 0 1"
proof -
  have gate: "sa_gate 0 synced_demo" by (simp add: sa_gate_def bit_three)
  have "unat (0 :: u32) < 5" by simp
  from sa_trigger_total[OF synced_demo_inv this synced_demo_ready] obtain t w' where
    run: "fs_try_trigger_frame_sync_sa 0 synced_demo = Some (t, w')" by blast
  have "fi_is_nonvalid_ts (fs_inst synced_demo 0) = 0" by (simp add: demo_sensor_def zero_fs_inst_def)
  with sa_trigger_correct[OF synced_demo_inv _ run] gate
  have "t = 1 \<and> mg_pf_ctrl_bits (w_mgr w') = write_bit_atomic 0 0 1" by simp
  with run show ?thesis by blast
qed

theorem set_shutter_delivers_witness:
  "\<exists>p' w'. fs_set_shutter (zero_perframe\<lparr>pf_lineTimeInNs := 10000\<rparr>) synced_demo = Some (p', w')
     \<and> mg_setup_complete_bits (w_mgr w') = write_bit_atomic 0 0 1"
proof -
  let ?p = "zero_perframe\<lparr>pf_lineTimeInNs := 10000\<rparr>"
  have lt: "unat (0 :: u32) < 5" by simp
  have tab: "table_ok (w_mgr synced_demo)" using synced_demo_inv by (simp add: drv_inv_def mgr_inv_def)
  have "reg_pos (w_mgr synced_demo) 0 0" by (simp add: reg_pos_def)
  then have pos: "fs_get_reg_sensor_pos (fs_perframe_ident ?p) synced_demo = 0"
    using get_pos_iff[OF tab, of 0 0] by (auto simp: fs_perframe_ident_def REGISTER_METHOD_def zero_perframe_def)
  have valid: "check_bit_atomic 0 (mg_validSync_bits (w_mgr synced_demo)) = 1" by (simp add: check_bit_one bit_three)
  obtain p' w' where "fs_do_set_shutter 0 ?p synced_demo = Some (p', w')"
    using do_set_shutter_total[OF synced_demo_inv lt _ synced_demo_hdr synced_demo_ready(2), of ?p] by auto
  then have run: "fs_set_shutter ?p synced_demo = Some (p', w')"
    by (simp add: fs_set_shutter_def pos Let_def check_bit_zero check_idx_valid_zero bit_three)
  from set_shutter_delivers[OF synced_demo_inv run pos valid]
  have "mg_setup_complete_bits (w_mgr w') = write_bit_atomic 0 0 1"
    by (simp add: Let_def demo_sensor_def zero_fs_inst_def)
  with run show ?thesis by blast
qed

end
