(* ===== verification/FsFeature.thy ===== *)
theory FsFeature
  imports FsDrvSafe
begin

text \<open>
  The feature modes of a sensor (\<open>frame_sync.c\<close>: N:1 and M-stream): the mode word as a state
  machine, what each request does to it, and the frame tags the sensor gets.
\<close>

subsection \<open>The state machine\<close>

text \<open>
  An N:1 session is switched on and off in two steps: the request sets \<open>N_1_ON\<close> or \<open>N_1_OFF\<close>,
  the next solved frame turns it into \<open>N_1_KEEP\<close> or back to normal. The second component says
  that tags are assigned from outside (M-stream).
\<close>

datatype n1_phase = N1_Normal | N1_On | N1_Keep | N1_Off

datatype ft_event = Enable | Disable | Assign_On | Assign_Off | Solved

type_synonym ft_state = "n1_phase \<times> bool"

fun phase_word :: "n1_phase \<Rightarrow> u32" where
  "phase_word N1_Normal = FS_FT_MODE_NORMAL"
| "phase_word N1_On = FS_FT_MODE_FRAME_TAG OR FS_FT_MODE_N_1_ON"
| "phase_word N1_Keep = FS_FT_MODE_FRAME_TAG OR FS_FT_MODE_N_1_KEEP"
| "phase_word N1_Off = FS_FT_MODE_FRAME_TAG OR FS_FT_MODE_N_1_OFF"

definition ft_word :: "ft_state \<Rightarrow> u32" where
  "ft_word s = phase_word (fst s) OR (if snd s then FS_FT_MODE_ASSIGN_FRAME_TAG else 0)"

inductive ft_step :: "ft_state \<Rightarrow> ft_event \<Rightarrow> ft_state \<Rightarrow> bool" where
  enable: "ft_step (N1_Normal, False) Enable (N1_On, False)"
| enable_ignored: "s \<noteq> (N1_Normal, False) \<Longrightarrow> ft_step s Enable s"
| disable: "ph \<noteq> N1_Normal \<Longrightarrow> ft_step (ph, a) Disable (N1_Off, False)"
| disable_ignored: "ft_step (N1_Normal, a) Disable (N1_Normal, a)"
| assign_on: "ft_step (ph, a) Assign_On (ph, True)"
| assign_off: "ft_step (ph, a) Assign_Off (ph, False)"
| solved_on: "ft_step (N1_On, a) Solved (N1_Keep, a)"
| solved_off: "ft_step (N1_Off, a) Solved (N1_Normal, a)"
| solved_other: "ph = N1_Normal \<or> ph = N1_Keep \<Longrightarrow> ft_step (ph, a) Solved (ph, a)"

code_pred ft_step .

inductive_cases ft_enableE: "ft_step s Enable t"
inductive_cases ft_disableE: "ft_step s Disable t"
inductive_cases ft_assign_onE: "ft_step s Assign_On t"
inductive_cases ft_assign_offE: "ft_step s Assign_Off t"
inductive_cases ft_solvedE: "ft_step s Solved t"

lemmas ft_stepE = ft_enableE ft_disableE ft_assign_onE ft_assign_offE ft_solvedE

lemma ft_step_total: "\<exists>t. ft_step s e t"
proof (cases s)
  case (Pair ph a)
  then show ?thesis by (cases e; cases ph; cases a) (auto intro: ft_step.intros)
qed

lemma ft_step_unique: "ft_step s e t \<Longrightarrow> ft_step s e u \<Longrightarrow> t = u"
  by (cases e) (auto elim: ft_stepE)

lemma ft_word_bits:
  "ft_word s AND FS_FT_MODE_N_1_ON \<noteq> 0 \<longleftrightarrow> fst s = N1_On"
  "ft_word s AND FS_FT_MODE_N_1_OFF \<noteq> 0 \<longleftrightarrow> fst s = N1_Off"
  "ft_word s AND FS_FT_MODE_FRAME_TAG \<noteq> 0 \<longleftrightarrow> fst s \<noteq> N1_Normal"
  "ft_word s AND FS_FT_MODE_ASSIGN_FRAME_TAG \<noteq> 0 \<longleftrightarrow> snd s"
  "ft_word s AND (FS_FT_MODE_FRAME_TAG OR FS_FT_MODE_N_1_KEEP) \<noteq> 0 \<longleftrightarrow> fst s \<noteq> N1_Normal"
  "ft_word s = 0 \<longleftrightarrow> s = (N1_Normal, False)"
  by (cases s; cases "fst s"; cases "snd s"; simp add: ft_word_def fs_flag_defs)+

lemma ft_word_moves:
  "ft_word (ph, a) OR FS_FT_MODE_ASSIGN_FRAME_TAG = ft_word (ph, True)"
  "ft_word (ph, a) AND NOT FS_FT_MODE_ASSIGN_FRAME_TAG = ft_word (ph, False)"
  "(ft_word (N1_On, a) AND NOT FS_FT_MODE_N_1_ON) OR FS_FT_MODE_N_1_KEEP = ft_word (N1_Keep, a)"
  "((ft_word (N1_Off, a) AND NOT FS_FT_MODE_N_1_OFF) AND NOT FS_FT_MODE_FRAME_TAG) OR FS_FT_MODE_NORMAL
     = ft_word (N1_Normal, a)"
  "FS_FT_MODE_FRAME_TAG OR FS_FT_MODE_N_1_ON = ft_word (N1_On, False)"
  "FS_FT_MODE_FRAME_TAG OR FS_FT_MODE_N_1_OFF = ft_word (N1_Off, False)"
  by (cases ph; cases a; simp add: ft_word_def fs_flag_defs)+

lemma ft_word_inject: "ft_word s = ft_word t \<longleftrightarrow> s = t"
proof
  assume eq: "ft_word s = ft_word t"
  have "fst s = fst t" using ft_word_bits(1,2,3)[of s] ft_word_bits(1,2,3)[of t] eq
    by (cases "fst s"; cases "fst t") auto
  moreover have "snd s = snd t" using ft_word_bits(4)[of s] ft_word_bits(4)[of t] eq by simp
  ultimately show "s = t" by (rule prod_eqI)
qed simp

subsection \<open>The driver implements it\<close>

definition ft_is :: "u32 \<Rightarrow> ft_state \<Rightarrow> fs_world \<Rightarrow> bool" where
  "ft_is idx s w \<longleftrightarrow> mg_ft_mode (w_mgr w) idx = ft_word s"

text \<open>What an accepted switch of N:1 does.\<close>

definition n1_switched :: "u32 \<Rightarrow> u32 \<Rightarrow> u32 \<Rightarrow> fs_world \<Rightarrow> fs_world" where
  "n1_switched idx cell mode w = fs_alg_set_n_1_on_off_flag idx 1 (fs_reset_frame_tag idx
     (fs_alg_set_frame_cell_size idx cell (upd_ft_mode idx (\<lambda>_. mode)
       (upd_mgr (\<lambda>m. m\<lparr>mg_frame_cell_size := (mg_frame_cell_size m)(idx := cell)\<rparr>) w))))"

lemma n1_switched_sel [simp]:
  "mg_ft_mode (w_mgr (n1_switched idx cell mode w)) = (mg_ft_mode (w_mgr w))(idx := mode)"
  "mg_frame_cell_size (w_mgr (n1_switched idx cell mode w)) = (mg_frame_cell_size (w_mgr w))(idx := cell)"
  "mg_frame_tag (w_mgr (n1_switched idx cell mode w)) = (mg_frame_tag (w_mgr w))(idx := 0)"
  "mg_reg_cnt (w_mgr (n1_switched idx cell mode w)) = mg_reg_cnt (w_mgr w)"
  "mg_sensors (w_mgr (n1_switched idx cell mode w)) = mg_sensors (w_mgr w)"
  "fs_inst (n1_switched idx cell mode w) j = (if j = idx then (fs_inst w idx)\<lparr>fi_frame_cell_size := cell,
     fi_frame_tag := 0, fi_n_1_on_off := 1\<rparr> else fs_inst w j)"
  by (simp_all add: n1_switched_def upd_ft_mode_def fs_reset_frame_tag_def fs_alg_set_frame_tag_def
      fs_alg_set_frame_cell_size_def fs_alg_set_n_1_on_off_flag_def bitfield1_def)

lemma n_1_en_cases:
  assumes "check_idx_valid (fs_get_reg_sensor_pos ident w) \<noteq> 0" and "ft_is (fs_get_reg_sensor_pos ident w) s w"
  shows "fs_n_1_en ident n en w =
    (if en \<noteq> 0 then if s = (N1_Normal, False)
       then n1_switched (fs_get_reg_sensor_pos ident w) n (ft_word (N1_On, False)) w else w
     else if fst s \<noteq> N1_Normal
       then n1_switched (fs_get_reg_sensor_pos ident w) 0 (ft_word (N1_Off, False)) w else w)"
  using assms ft_word_bits(5,6)[of s]
  by (simp add: fs_n_1_en_def fs_check_n_1_status_ctrl_def ft_is_def Let_def n1_switched_def[symmetric]
      ft_word_moves)

lemma n_1_en_step:
  assumes "check_idx_valid (fs_get_reg_sensor_pos ident w) \<noteq> 0" and "ft_is (fs_get_reg_sensor_pos ident w) s w"
  shows "\<exists>t. ft_step s (if en \<noteq> 0 then Enable else Disable) t
    \<and> ft_is (fs_get_reg_sensor_pos ident w) t (fs_n_1_en ident n en w)"
  unfolding n_1_en_cases[OF assms]
proof (cases s)
  case (Pair ph a)
  show "\<exists>t. ft_step s (if en \<noteq> 0 then Enable else Disable) t
    \<and> ft_is (fs_get_reg_sensor_pos ident w) t (if en \<noteq> 0 then if s = (N1_Normal, False)
       then n1_switched (fs_get_reg_sensor_pos ident w) n (ft_word (N1_On, False)) w else w
     else if fst s \<noteq> N1_Normal
       then n1_switched (fs_get_reg_sensor_pos ident w) 0 (ft_word (N1_Off, False)) w else w)"
    using assms(2) Pair
    by (cases "en = 0"; cases ph; cases a) (auto simp: ft_is_def intro: ft_step.intros)
qed

text \<open>The register table is not touched, so positions stay.\<close>

lemma pos_cong:
  "mg_reg_cnt (w_mgr v) = mg_reg_cnt (w_mgr w) \<Longrightarrow> mg_sensors (w_mgr v) = mg_sensors (w_mgr w) \<Longrightarrow>
    fs_get_reg_sensor_pos x v = fs_get_reg_sensor_pos x w"
  by (simp add: fs_get_reg_sensor_pos_def fs_search_reg_sensors_def)

lemma feature_pos [simp]:
  "fs_get_reg_sensor_pos x (upd_ft_mode i f w) = fs_get_reg_sensor_pos x w"
  "fs_get_reg_sensor_pos x (fs_feature_status_extra_ctrl i w) = fs_get_reg_sensor_pos x w"
  by (rule pos_cong; simp add: upd_ft_mode_def fs_feature_status_extra_ctrl_def
      fs_check_n_1_status_extra_ctrl_def fs_alg_set_n_1_on_off_flag_def)+

lemma extra_ctrl_step:
  assumes "ft_is idx s w"
  shows "\<exists>t. ft_step s Solved t \<and> ft_is idx t (fs_feature_status_extra_ctrl idx w)"
  using assms ft_word_bits(1,2)[of s]
  by (cases s; cases "fst s")
    (auto simp: ft_is_def fs_feature_status_extra_ctrl_def fs_check_n_1_status_extra_ctrl_def upd_ft_mode_def
      fs_alg_set_n_1_on_off_flag_def ft_word_moves intro: ft_step.intros)

text \<open>One registered sensor, used to exhibit the properties.\<close>

definition one_sensor :: fs_world where
  "one_sensor = upd_mgr (\<lambda>m. m\<lparr>mg_reg_cnt := 1\<rparr>) zero_world"

lemma one_sensor_pos: "fs_get_reg_sensor_pos 0 one_sensor = 0"
proof -
  have "loop_idx 1 = [0]" by (simp add: loop_idx_def)
  then show ?thesis
    by (simp add: fs_get_reg_sensor_pos_def fs_search_reg_sensors_def REGISTER_METHOD_def one_sensor_def
        zero_world_def compare_sensor_idx_def Let_def)
qed

text \<open>C31. The mode word of a sensor is a state machine of N:1 phase and tag assignment: an N:1
  request is the event Enable or Disable, an M-stream request the same followed by Assign_On or
  Assign_Off, and the end of a solved frame the event Solved; requests for one sensor leave the
  mode of every other sensor.\<close>

theorem feature_mode_machine:
  assumes "check_idx_valid (fs_get_reg_sensor_pos ident w) \<noteq> 0"
    and "mg_ft_mode (w_mgr w) (fs_get_reg_sensor_pos ident w) = ft_word s"
  shows "let idx = fs_get_reg_sensor_pos ident w; mode = (\<lambda>v. mg_ft_mode (w_mgr v) idx) in
    (\<exists>t. ft_step s (if en \<noteq> 0 then Enable else Disable) t \<and> mode (fs_n_1_en ident n en w) = ft_word t)
    \<and> (\<exists>t u. ft_step s (if en \<noteq> 0 then Enable else Disable) t
         \<and> ft_step t (if en \<noteq> 0 then Assign_On else Assign_Off) u
         \<and> mode (fs_mstream_en ident en w) = ft_word u)
    \<and> (\<exists>t. ft_step s Solved t \<and> mode (fs_feature_status_extra_ctrl idx w) = ft_word t)
    \<and> (\<forall>j. j \<noteq> idx \<longrightarrow> mg_ft_mode (w_mgr (fs_n_1_en ident n en w)) j = mg_ft_mode (w_mgr w) j
         \<and> mg_ft_mode (w_mgr (fs_mstream_en ident en w)) j = mg_ft_mode (w_mgr w) j
         \<and> mg_ft_mode (w_mgr (fs_feature_status_extra_ctrl idx w)) j = mg_ft_mode (w_mgr w) j)"
proof -
  define idx where "idx = fs_get_reg_sensor_pos ident w"
  have is_s: "ft_is idx s w" using assms(2) by (simp add: ft_is_def idx_def)
  note n1 = n_1_en_step[OF assms(1) is_s[unfolded idx_def], folded idx_def]
  obtain t where t: "ft_step s (if en \<noteq> 0 then Enable else Disable) t" "ft_is idx t (fs_n_1_en ident 2 en w)"
    using n1 by blast
  have "\<exists>u. ft_step t (if en \<noteq> 0 then Assign_On else Assign_Off) u \<and> ft_is idx u (fs_mstream_en ident en w)"
  proof (cases t)
    case (Pair ph a)
    have "ft_is idx (ph, en \<noteq> 0) (fs_mstream_en ident en w)"
      using t(2) assms(1) Pair
      by (cases "en = 0")
        (simp_all add: fs_mstream_en_def Let_def ft_is_def upd_ft_mode_def ft_word_moves idx_def[symmetric])
    moreover have "ft_step t (if en \<noteq> 0 then Assign_On else Assign_Off) (ph, en \<noteq> 0)"
      using Pair by (cases "en = 0") (simp_all add: ft_step.intros)
    ultimately show ?thesis by blast
  qed
  moreover have "\<exists>t. ft_step s Solved t \<and> ft_is idx t (fs_feature_status_extra_ctrl idx w)"
    by (rule extra_ctrl_step[OF is_s])
  moreover have other: "mg_ft_mode (w_mgr (fs_n_1_en ident k en w)) j = mg_ft_mode (w_mgr w) j" if "j \<noteq> idx" for j k
    using that by (simp add: n_1_en_cases[OF assms(1) is_s[unfolded idx_def]] idx_def)
  moreover have "mg_ft_mode (w_mgr (fs_mstream_en ident en w)) j = mg_ft_mode (w_mgr w) j
         \<and> mg_ft_mode (w_mgr (fs_feature_status_extra_ctrl idx w)) j = mg_ft_mode (w_mgr w) j" if "j \<noteq> idx" for j
    using that other[OF that]
    by (auto simp: fs_mstream_en_def Let_def upd_ft_mode_def idx_def[symmetric] fs_feature_status_extra_ctrl_def
        fs_check_n_1_status_extra_ctrl_def fs_alg_set_n_1_on_off_flag_def)
  ultimately show ?thesis
    using n1 t(1) unfolding Let_def idx_def[symmetric] ft_is_def by blast
qed

theorem feature_mode_machine_witness:
  "mg_ft_mode (w_mgr (fs_n_1_en 0 2 1 one_sensor)) 0 = ft_word (N1_On, False)"
proof -
  have "check_idx_valid (fs_get_reg_sensor_pos 0 one_sensor) \<noteq> 0"
    and mode: "mg_ft_mode (w_mgr one_sensor) (fs_get_reg_sensor_pos 0 one_sensor) = ft_word (N1_Normal, False)"
    by (simp_all add: one_sensor_pos ft_word_def fs_flag_defs check_idx_valid_zero) (simp add: one_sensor_def zero_world_def)
  from feature_mode_machine[OF this, of 1 2] obtain t where
    "ft_step (N1_Normal, False) Enable t" "mg_ft_mode (w_mgr (fs_n_1_en 0 2 1 one_sensor)) 0 = ft_word t"
    by (auto simp: Let_def one_sensor_pos)
  then show ?thesis by (auto elim: ft_enableE)
qed

text \<open>
  A consequence: when M-stream is enabled while the end of the previous session is still waiting
  for its frame, that frame leaves only the assignment flag, and from there no further enable,
  N:1 or M-stream, has any effect.
\<close>

text \<open>C35. An M-stream enable that arrives between a disable and the next solved frame is lost: after
  that frame the sensor has no frame tags, and neither another M-stream enable nor an N:1 enable
  changes that.\<close>

theorem mstream_enable_lost:
  assumes "check_idx_valid (fs_get_reg_sensor_pos ident w) \<noteq> 0"
    and "mg_ft_mode (w_mgr w) (fs_get_reg_sensor_pos ident w) = ft_word (N1_Off, False)" and "en \<noteq> 0"
  shows "let idx = fs_get_reg_sensor_pos ident w;
      w' = fs_feature_status_extra_ctrl idx (fs_mstream_en ident en w) in
    mg_ft_mode (w_mgr w') idx AND FS_FT_MODE_FRAME_TAG = 0
    \<and> mg_ft_mode (w_mgr (fs_mstream_en ident en w')) idx = mg_ft_mode (w_mgr w') idx
    \<and> fs_n_1_en ident n en w' = w'"
proof -
  define idx where "idx = fs_get_reg_sensor_pos ident w"
  have is_off: "ft_is idx (N1_Off, False) w" using assms(2) by (simp add: ft_is_def idx_def)
  have same: "fs_n_1_en ident 2 en w = w"
    using n_1_en_cases[OF assms(1) is_off[unfolded idx_def], of 2 en] assms(3) by simp
  define w1 where "w1 = fs_mstream_en ident en w"
  define w' where "w' = fs_feature_status_extra_ctrl idx w1"
  have w1: "w1 = upd_ft_mode idx (\<lambda>f. f OR FS_FT_MODE_ASSIGN_FRAME_TAG) w"
    using assms(1,3) same by (simp add: w1_def fs_mstream_en_def Let_def idx_def)
  have "ft_is idx (N1_Off, True) w1" using is_off by (simp add: w1 upd_ft_mode_def ft_is_def ft_word_moves)
  from extra_ctrl_step[OF this] have w': "ft_is idx (N1_Normal, True) w'"
    by (auto simp: w'_def elim: ft_solvedE)
  have pos: "fs_get_reg_sensor_pos ident w' = idx"
    by (simp add: w'_def w1 idx_def)
  have same': "fs_n_1_en ident k en w' = w'" for k
    using n_1_en_cases[of ident w' "(N1_Normal, True)" k en] pos w' assms(1,3) by (simp add: idx_def)
  have "mg_ft_mode (w_mgr w') idx AND FS_FT_MODE_FRAME_TAG = 0"
    using w' ft_word_bits(3)[of "(N1_Normal, True)"] by (simp add: ft_is_def)
  moreover have "mg_ft_mode (w_mgr (fs_mstream_en ident en w')) idx = mg_ft_mode (w_mgr w') idx"
    using w' assms(1,3) same' pos
    by (simp add: fs_mstream_en_def Let_def upd_ft_mode_def ft_is_def ft_word_moves idx_def)
  ultimately show ?thesis using same' unfolding Let_def idx_def[symmetric] w1_def[symmetric] w'_def[symmetric] by blast
qed

theorem mstream_enable_lost_witness:
  "\<exists>w. mg_ft_mode (w_mgr w) 0 = ft_word (N1_Off, False)
     \<and> mg_ft_mode (w_mgr (fs_feature_status_extra_ctrl 0 (fs_mstream_en 0 1 w))) 0 AND FS_FT_MODE_FRAME_TAG = 0"
proof -
  let ?w = "upd_ft_mode 0 (\<lambda>_. ft_word (N1_Off, False)) one_sensor"
  have pos: "fs_get_reg_sensor_pos 0 ?w = 0"
    using one_sensor_pos by simp
  have mode: "mg_ft_mode (w_mgr ?w) 0 = ft_word (N1_Off, False)" by (simp add: upd_ft_mode_def)
  have "check_idx_valid (fs_get_reg_sensor_pos 0 ?w) \<noteq> 0" unfolding pos by (simp add: check_idx_valid_zero)
  from mstream_enable_lost[OF this, of 1 2] mode show ?thesis unfolding pos Let_def by auto
qed

subsection \<open>Frame tags\<close>

definition auto_tagged :: "u32 \<Rightarrow> fs_world \<Rightarrow> bool" where
  "auto_tagged idx w \<longleftrightarrow> mg_ft_mode (w_mgr w) idx AND FS_FT_MODE_FRAME_TAG \<noteq> 0
     \<and> mg_ft_mode (w_mgr w) idx AND FS_FT_MODE_ASSIGN_FRAME_TAG = 0 \<and> mg_frame_cell_size (w_mgr w) idx \<noteq> 0"

lemma auto_tag_step:
  assumes "auto_tagged idx w"
  shows "auto_tagged idx (fs_try_set_auto_frame_tag idx w)"
    and "mg_frame_cell_size (w_mgr (fs_try_set_auto_frame_tag idx w)) = mg_frame_cell_size (w_mgr w)"
    and "mg_frame_tag (w_mgr (fs_try_set_auto_frame_tag idx w)) = (mg_frame_tag (w_mgr w))
      (idx := (mg_frame_tag (w_mgr w) idx + 1) mod mg_frame_cell_size (w_mgr w) idx)"
    and "fi_frame_tag (fs_inst (fs_try_set_auto_frame_tag idx w) idx) = mg_frame_tag (w_mgr w) idx"
  using assms by (simp_all add: auto_tagged_def fs_try_set_auto_frame_tag_def fs_alg_set_frame_tag_def)

lemma next_tag:
  assumes "unat tag = k mod unat c" and "c \<noteq> (0 :: u32)"
  shows "unat ((tag + 1) mod c) = Suc k mod unat c"
proof -
  have pos: "0 < unat c" using assms(2) by (simp add: unat_gt_0)
  have lt: "unat tag < unat c" unfolding assms(1) by (rule mod_less_divisor[OF pos])
  have "unat c < 2 ^ 32" using unat_less_32[of c] by simp
  with lt have "unat (tag + 1) = Suc (unat tag)" by (simp add: unat_word_ariths)
  then show ?thesis by (simp add: unat_mod_distrib assms(1) mod_Suc_eq)
qed

text \<open>In N:1 mode the frames of a sensor are tagged round robin: starting with tag zero, the
  (k+1)-th control gives the algorithm tag \<open>k mod cell\<close>, for every cell size but zero.\<close>

theorem auto_tags_round_robin:
  assumes "auto_tagged idx w" and "mg_frame_tag (w_mgr w) idx = 0"
  shows "unat (fi_frame_tag (fs_inst ((fs_try_set_auto_frame_tag idx ^^ Suc k) w) idx))
    = k mod unat (mg_frame_cell_size (w_mgr w) idx)"
proof -
  let ?c = "mg_frame_cell_size (w_mgr w) idx"
  have "auto_tagged idx ((fs_try_set_auto_frame_tag idx ^^ k) w)
    \<and> mg_frame_cell_size (w_mgr ((fs_try_set_auto_frame_tag idx ^^ k) w)) idx = ?c
    \<and> unat (mg_frame_tag (w_mgr ((fs_try_set_auto_frame_tag idx ^^ k) w)) idx) = k mod unat ?c" for k
  proof (induction k)
    case (Suc k)
    define v where "v = (fs_try_set_auto_frame_tag idx ^^ k) w"
    note IH = Suc.IH[folded v_def]
    have "?c \<noteq> 0" using assms(1) by (simp add: auto_tagged_def)
    with IH auto_tag_step[of idx v] next_tag[of "mg_frame_tag (w_mgr v) idx" k ?c] show ?case
      by (simp add: v_def[symmetric])
  qed (use assms in simp)
  note inv = this[of k]
  then show ?thesis using auto_tag_step(4)[of idx "(fs_try_set_auto_frame_tag idx ^^ k) w"] by simp
qed

theorem auto_tags_round_robin_witness:
  "unat (fi_frame_tag (fs_inst ((fs_try_set_auto_frame_tag 0 ^^ Suc 4)
      (n1_switched 0 3 (ft_word (N1_On, False)) one_sensor)) 0)) = 1"
proof -
  let ?w = "n1_switched 0 3 (ft_word (N1_On, False)) one_sensor"
  have "auto_tagged 0 ?w" using ft_word_bits(3,4)[of "(N1_On, False)"] by (simp add: auto_tagged_def)
  from auto_tags_round_robin[OF this, of 4] show ?thesis by simp
qed

end
