(* ===== verification/FsDrvReach.thy ===== *)
theory FsDrvReach
  imports FsDrvTrigger FsFeature
begin

text \<open>
  The driver as a transition system: the exported calls as data, one atomic step per call, the
  reachable states, and what holds in all of them.
\<close>

subsection \<open>Calls\<close>

text \<open>One constructor per exported function; \<open>Console\<close> is a write to the sysfs file.\<close>

datatype fs_call =
    Init bool bool u32
  | Streaming u32 fs_streaming_st
  | Set_Sync u32 u32
  | Sync_Frame u32
  | Set_Shutter fs_perframe_st
  | Update_Shutter fs_perframe_st
  | Notify_Vsync u32
  | N_1_En u32 u32 u32
  | Mstream_En u32 u32
  | Set_Frame_Tag u32 u32
  | Set_Extend_FL u32 u32 u32
  | Seamless_Switch u32
  | Update_TG u32 u32
  | Auto_Flicker u32 u32
  | Update_Min_FL u32 u32
  | Set_SA_Mode u32
  | Console fs_console

fun fs_exec :: "fs_env \<Rightarrow> fs_call \<Rightarrow> fs_world \<Rightarrow> fs_world option" where
  "fs_exec ev (Init p d r) w = Some (snd (FrameSyncInit p d r w))"
| "fs_exec ev (Streaming flag info) w = map_option (\<lambda>(_, _, v). v) (fs_streaming ev flag info w)"
| "fs_exec ev (Set_Sync ident flag) w = Some (fs_set_sync ident flag w)"
| "fs_exec ev (Sync_Frame flag) w = map_option snd (fs_sync_frame ev flag w)"
| "fs_exec ev (Set_Shutter p) w = map_option snd (fs_set_shutter p w)"
| "fs_exec ev (Update_Shutter p) w = fs_update_shutter p w"
| "fs_exec ev (Notify_Vsync ident) w = fs_notify_vsync ev ident w"
| "fs_exec ev (N_1_En ident n en) w = Some (fs_n_1_en ident n en w)"
| "fs_exec ev (Mstream_En ident en) w = Some (fs_mstream_en ident en w)"
| "fs_exec ev (Set_Frame_Tag ident tag) w = Some (fs_set_frame_tag ident tag w)"
| "fs_exec ev (Set_Extend_FL ident lc us) w = fs_set_extend_framelength ident lc us w"
| "fs_exec ev (Seamless_Switch ident) w = fs_seamless_switch ident w"
| "fs_exec ev (Update_TG ident tg) w = Some (fs_update_tg ev ident tg w)"
| "fs_exec ev (Auto_Flicker ident en) w = Some (fs_update_auto_flicker_mode ident en w)"
| "fs_exec ev (Update_Min_FL ident fl) w = Some (fs_update_min_framelength_lc ident fl w)"
| "fs_exec ev (Set_SA_Mode en) w = Some (fs_set_using_sa_mode en w)"
| "fs_exec ev (Console c) w = Some (w\<lparr>w_con := c\<rparr>)"

inductive fs_reach :: "fs_env \<Rightarrow> fs_world \<Rightarrow> bool" for ev where
  loaded: "fs_reach ev zero_world"
| call: "fs_reach ev w \<Longrightarrow> fs_exec ev c w = Some w' \<Longrightarrow> fs_reach ev w'"

subsection \<open>The other operations keep the invariant\<close>

lemma table_of_inv: "drv_inv w \<Longrightarrow> table_ok (w_mgr w)"
  by (simp add: drv_inv_def mgr_inv_def)

lemma pos_bound:
  assumes "drv_inv w" and "check_idx_valid (fs_get_reg_sensor_pos ident w) \<noteq> 0"
  shows "unat (fs_get_reg_sensor_pos ident w) < 5" "fs_get_reg_sensor_pos ident w < mg_reg_cnt (w_mgr w)"
  using get_pos_lt[OF table_of_inv[OF assms(1)] assms(2)] .

lemma drv_inv_set_sync: "drv_inv w \<Longrightarrow> drv_inv (fs_set_sync ident flag w)"
  using drv_inv_set_sync_idx pos_bound(2) by (simp add: fs_set_sync_def Let_def)

lemma drv_inv_mgr_free:
  assumes "drv_inv w" and "mgr_inv (f (w_mgr w)) = mgr_inv (w_mgr w)"
    and "mg_streaming_bits (f (w_mgr w)) = mg_streaming_bits (w_mgr w)"
  shows "drv_inv (upd_mgr f w)"
  using drv_inv_upd_mgr[OF assms(1), of f] assms by (simp add: drv_inv_def)

lemma drv_inv_n_1_en: "drv_inv w \<Longrightarrow> drv_inv (fs_n_1_en ident n en w)"
  unfolding fs_n_1_en_def Let_def fs_reset_frame_tag_def
  by (auto intro!: drv_inv_upd_flags drv_inv_mgr_free)

lemma drv_inv_feature_calls:
  assumes "drv_inv w"
  shows "drv_inv (fs_mstream_en ident en w)" and "drv_inv (fs_set_frame_tag ident tag w)"
    and "drv_inv (fs_update_tg ev ident tg w)" and "drv_inv (fs_update_auto_flicker_mode ident en w)"
    and "drv_inv (fs_update_min_framelength_lc ident tg w)" and "drv_inv (fs_set_using_sa_mode en w)"
proof -
  show "drv_inv (fs_mstream_en ident en w)"
    using assms drv_inv_n_1_en by (simp add: fs_mstream_en_def Let_def drv_inv_upd_flags)
  show "drv_inv (fs_set_frame_tag ident tag w)"
    unfolding fs_set_frame_tag_def Let_def using assms by (auto intro!: drv_inv_upd_flags drv_inv_mgr_free)
  show "drv_inv (fs_update_tg ev ident tg w)"
    using assms by (simp add: fs_update_tg_def fs_convert_tg_def Let_def split_beta drv_inv_upd_flags)
  show "drv_inv (fs_update_auto_flicker_mode ident en w)"
    using assms by (simp add: fs_update_auto_flicker_mode_def Let_def drv_inv_upd_flags)
  show "drv_inv (fs_update_min_framelength_lc ident tg w)"
    using assms by (simp add: fs_update_min_framelength_lc_def Let_def drv_inv_upd_flags)
  show "drv_inv (fs_set_using_sa_mode en w)"
    unfolding fs_set_using_sa_mode_def using assms by (auto intro!: drv_inv_mgr_free)
qed

lemma drv_inv_init: "drv_inv w \<Longrightarrow> drv_inv (snd (FrameSyncInit p d r w))"
proof -
  assume w: "drv_inv w"
  have "mgr_inv (w_mgr (change_fs_status FS_INITIALIZED (fs_init_members v)))"
    "mg_streaming_bits (w_mgr (change_fs_status FS_INITIALIZED (fs_init_members v))) = 0" for v
    by (simp_all add: change_fs_status_def fs_init_members_def mgr_inv_def table_ok_def bits_ok_def status_ok_def
        MASTER_IDX_NONE_def)
  moreover have "data_inv (change_fs_status FS_INITIALIZED (fs_init_members v))" if "data_inv v" for v
    using that by (simp add: data_inv_def change_fs_status_def fs_init_members_def)
  ultimately have "drv_inv (change_fs_status FS_INITIALIZED (fs_init_members v))" if "drv_inv v" for v
    using that by (simp add: drv_inv_def linked_inv_def)
  moreover have "drv_inv (upd_mgr (\<lambda>m. m\<lparr>mg_user_counter := mg_user_counter m + 1\<rparr>) w)"
    using w by (auto intro!: drv_inv_mgr_free)
  ultimately have "drv_inv (fs_init w)" using w by (simp add: fs_init_def Let_def)
  then show ?thesis using w by (simp add: FrameSyncInit_def Let_def split_beta)
qed

text \<open>The pair trigger is never run: stand-alone mode is on as soon as a sensor is in sync.\<close>

lemma sync_frame_idle:
  assumes "drv_inv w" shows "fs_sync_frame ev flag w = Some (0, w)"
proof -
  have m: "mgr_inv (w_mgr w)" using assms by (simp add: drv_inv_def)
  show ?thesis
  proof (cases "mg_using_sa_ver (w_mgr w) = 0")
    case True
    then have "mg_enSync_bits (w_mgr w) = 0" using m by (simp add: mgr_inv_def)
    then have "mg_validSync_bits (w_mgr w) = 0" using m by (simp add: mgr_inv_def bits_ok_def)
    then have "mg_fs_status (w_mgr w) = 0 \<or> mg_fs_status (w_mgr w) = 1"
      using m by (simp add: mgr_inv_def status_ok_def)
    then show ?thesis
      by (auto simp: fs_sync_frame_def Let_def get_fs_status_def less_FS_STATUS_def)
  qed (simp add: fs_sync_frame_def Let_def)
qed

text \<open>Frame-length extension: it needs a line time only when the extension is given in time.\<close>

lemma extend_total:
  assumes "us = 0 \<or> fi_lineTimeInNs (fs_inst w idx) \<noteq> 0"
  shows "\<exists>g. fs_alg_set_extend_framelength idx lc us w = Some (upd_inst idx g w)"
  using assms by (auto simp: fs_alg_set_extend_framelength_def convert2LineCount_def Let_def)

lemma extend_keeps:
  assumes "fs_alg_set_extend_framelength idx lc us w = Some w'" and "drv_inv w" shows "drv_inv w'"
proof -
  have "drv_inv (upd_inst idx (\<lambda>s. s\<lparr>fi_extend_fl_lc := a, fi_extend_fl_us := b\<rparr>) w)"
    "drv_inv (upd_inst idx (\<lambda>s. s\<lparr>fi_extend_fl_us := b, fi_extend_fl_lc := a\<rparr>) w)" for a b
    by (intro drv_inv_upd_inst[OF assms(2)]; simp)+
  then show ?thesis
    using assms(1) by (auto simp: fs_alg_set_extend_framelength_def Let_def run_bind split: if_splits)
qed

lemma set_shutter_keeps:
  assumes "drv_inv w" and "fs_set_shutter p w = Some (p', w')" shows "drv_inv w'"
proof -
  define idx where "idx = fs_get_reg_sensor_pos (fs_perframe_ident p) w"
  show ?thesis
    using assms(2) pos_bound(1)[OF assms(1), of "fs_perframe_ident p"] do_set_shutter_inv[OF assms(1), of idx p p' w'] assms(1)
    by (auto simp: fs_set_shutter_def Let_def idx_def[symmetric] split: if_splits)
qed

lemma update_shutter_returns:
  assumes "drv_inv w" shows "\<exists>w'. fs_update_shutter p w = Some w' \<and> drv_inv w'"
proof -
  define idx where "idx = fs_get_reg_sensor_pos (fs_perframe_ident p) w"
  define w1 where "w1 = upd_mgr (\<lambda>m. m\<lparr>mg_pf_ctrl := (mg_pf_ctrl m)(idx := p)\<rparr>) w"
  have w1: "drv_inv w1" unfolding w1_def using assms by (auto intro!: drv_inv_mgr_free)
  obtain w' where w': "frec_update_shutter_fl_lc idx 0 (pf_out_fl_lc p) w1 = Some w'"
    using notify_total unfolding frec_update_shutter_fl_lc_def by blast
  have "drv_inv w'" using drv_inv_recorder[OF w'[unfolded frec_update_shutter_fl_lc_def] rec_ok_ops(1) w1] .
  with w' assms show ?thesis
    by (auto simp: fs_update_shutter_def Let_def idx_def[symmetric] w1_def[symmetric])
qed

lemma linked_ready:
  assumes "drv_inv w" and "unat idx < 5" and "check_bit_atomic idx (mg_validSync_bits (w_mgr w)) \<noteq> 0"
  shows "recs_linked w idx" and "recs_ready (fs_inst w idx)"
proof -
  have "bit (mg_validSync_bits (w_mgr w)) (unat idx)" using assms(2,3) by (auto simp: check_bit_valid split: if_splits)
  moreover have "mg_validSync_bits (w_mgr w) = mg_streaming_bits (w_mgr w) AND mg_enSync_bits (w_mgr w)"
    using assms(1) by (simp add: drv_inv_def mgr_inv_def bits_ok_def)
  ultimately have "bit (mg_streaming_bits (w_mgr w)) (unat idx)" by (simp add: bit_simps)
  then show "recs_linked w idx" using assms(1) by (simp add: drv_inv_def linked_inv_def)
  then show "recs_ready (fs_inst w idx)" by (rule recs_linked_ready)
qed

lemma take_vsync_total:
  "(\<And>i. i \<in> set idxs \<Longrightarrow> recs_ready (fs_inst w i)) \<Longrightarrow> \<exists>r w'. take_vsync_data recs idxs k w = Some (r, w')"
proof (induction idxs arbitrary: k w)
  case (Cons idx idxs)
  define v where "v = set_valid_for_using_vsyncs_recs_data idx 1 (upd_inst idx (\<lambda>s. s\<lparr>fi_vsyncs := vt_vsyncs (vr_recs recs k),
          fi_last_vts := vt_timestamps (vr_recs recs k) 0, fi_cur_tick := vr_cur_tick recs\<rparr>) w)"
  have v: "alg_conf v = alg_conf w" by (simp add: v_def alg_conf_upd_inst)
  have "recs_ready (fs_inst v idx)" using alg_conf_recs_ready[OF v] Cons.prems by simp
  then obtain u where u: "calibrate_recs_data_by_vsyncs idx v = Some u" using calibrate_total by blast
  have "alg_conf u = alg_conf w" using alg_conf_calibrate[OF u] v by simp
  then have "recs_ready (fs_inst u i)" if "i \<in> set idxs" for i
    using alg_conf_recs_ready[of u w i] Cons.prems that by simp
  from Cons.IH[OF this, where k = "k + 1"] u show ?case by (auto simp: v_def Let_def)
qed simp

lemma get_vsync_total:
  assumes "recs_ready (fs_inst w idx)" shows "\<exists>r w'. fs_alg_get_vsync_data src [idx] w = Some (r, w')"
proof -
  have "\<exists>r w'. take_vsync_data recs [idx] k
      ((upd_frm f w)\<lparr>w_alg := (w_alg w)\<lparr>al_cur_tick := a, al_tick_factor := b\<rparr>\<rparr>) = Some (r, w')" for recs k f a b
    using assms by (intro take_vsync_total) simp
  then show ?thesis by (auto simp: fs_alg_get_vsync_data_def Let_def split_beta)
qed

lemma notify_vsync_parts:
  fixes src :: vsync_source
  assumes "drv_inv w" and "recs_ready (fs_inst w idx)"
  obtains w1 w2 w3 where "fs_alg_sa_notify_setup_all_frame_info idx w = Some w1"
    and "frec_notify_vsync idx w1 = Some w2" and "fs_alg_sa_notify_vsync src idx w2 = Some w3" and "drv_inv w3"
proof -
  obtain v where v: "calc_predicted_frame_length idx w = Some v" using calc_predicted_total[OF assms(2)] by blast
  then obtain w1 where w1: "fs_alg_sa_notify_setup_all_frame_info idx w = Some w1"
    by (auto simp: fs_alg_sa_notify_setup_all_frame_info_def fs_alg_setup_frame_monitor_fmeas_data_def Let_def)
  then have c1: "alg_conf w1 = alg_conf w"
    by (auto simp: fs_alg_sa_notify_setup_all_frame_info_def run_bind Let_def dest: alg_conf_setup_fmeas split: if_splits)
  have inv1: "drv_inv w1" using drv_inv_alg_conf[OF c1 assms(1)] .
  obtain w2 where w2: "frec_notify_vsync idx w1 = Some w2"
    using notify_total unfolding frec_notify_vsync_def frec_push_record_def frec_push_shutter_fl_lc_def by blast
  note op = w2[unfolded frec_notify_vsync_def frec_push_record_def frec_push_shutter_fl_lc_def]
  have inv2: "drv_inv w2" using drv_inv_recorder[OF op rec_ok_ops(3) inv1] .
  have "recs_ready (fs_inst w2 idx)" using recs_linked_ready[OF notify_linked(1)[OF op]] .
  then obtain r x where x: "fs_alg_get_vsync_data src [idx] w2 = Some (r, x)"
    using get_vsync_total by blast
  have "drv_inv x" using drv_inv_alg_conf[OF alg_conf_get_vsync_data[OF x] inv2] .
  then have "drv_inv (upd_inst idx (\<lambda>s. s\<lparr>fi_is_nonvalid_ts := bitfield1 r\<rparr>) x)"
    by (intro drv_inv_upd_inst) simp_all
  moreover have "fs_alg_sa_notify_vsync src idx w2 = Some (upd_inst idx (\<lambda>s. s\<lparr>fi_is_nonvalid_ts := bitfield1 r\<rparr>) x)"
    unfolding fs_alg_sa_notify_vsync_def x by simp
  ultimately show thesis using that[OF w1 w2] by blast
qed

lemma notify_vsync_returns:
  assumes "drv_inv w" shows "\<exists>w'. fs_notify_vsync ev ident w = Some w' \<and> drv_inv w'"
proof -
  define idx where "idx = fs_get_reg_sensor_pos ident w"
  show ?thesis
  proof (cases "check_idx_valid idx \<noteq> 0 \<and> check_bit_atomic idx (mg_validSync_bits (w_mgr w)) \<noteq> 0")
    case True
    then have "unat idx < 5" using pos_bound(1)[OF assms, of ident] by (simp add: idx_def)
    with linked_ready(2)[OF assms this] True have "recs_ready (fs_inst w idx)" by blast
    then obtain w1 w2 w3 where "fs_alg_sa_notify_setup_all_frame_info idx w = Some w1"
      "frec_notify_vsync idx w1 = Some w2" "fs_alg_sa_notify_vsync (ev_src ev) idx w2 = Some w3" "drv_inv w3"
      using notify_vsync_parts[OF assms] by blast
    then show ?thesis using assms by (auto simp: fs_notify_vsync_def Let_def idx_def[symmetric])
  next
    case False
    then show ?thesis using assms by (auto simp: fs_notify_vsync_def Let_def idx_def[symmetric])
  qed
qed

subsection \<open>All reachable states\<close>

lemma exec_keeps_inv:
  assumes "drv_inv w" and "fs_exec ev c w = Some w'" shows "drv_inv w'"
proof (cases c)
  case (Streaming flag info)
  with assms(2) have "fs_streaming ev flag info w \<noteq> None" by auto
  then show ?thesis using streaming_total[OF assms(1), of flag info ev] assms(2) Streaming by auto
next
  case (Set_Shutter p)
  then show ?thesis using assms(2) set_shutter_keeps[OF assms(1)] by auto
next
  case (Update_Shutter p)
  then show ?thesis using assms(2) update_shutter_returns[OF assms(1), of p] by auto
next
  case (Notify_Vsync ident)
  then show ?thesis using assms(2) notify_vsync_returns[OF assms(1), of ev ident] by auto
next
  case (Set_Extend_FL ident lc us)
  then show ?thesis using assms(1,2) extend_keeps
    by (auto simp: fs_set_extend_framelength_def Let_def split: if_splits)
next
  case (Seamless_Switch ident)
  then show ?thesis using assms(1,2) extend_keeps
    by (auto simp: fs_seamless_switch_def fs_alg_seamless_switch_def Let_def split: if_splits)
qed (use assms in \<open>auto simp: sync_frame_idle drv_inv_init drv_inv_set_sync drv_inv_n_1_en drv_inv_feature_calls\<close>)

lemma zero_world_inv: "drv_inv zero_world"
  by (simp add: drv_inv_def mgr_inv_def table_ok_def bits_ok_def status_ok_def data_inv_def linked_inv_def
      rec_ok_def RECORDER_DEPTH_def zero_world_def)

lemma reach_inv: "fs_reach ev w \<Longrightarrow> drv_inv w"
  by (induction rule: fs_reach.induct) (auto intro: zero_world_inv exec_keeps_inv)

text \<open>C22. In every state the driver can reach by any sequence of calls that return: at most five
  sensors are registered, with distinct indices; the streaming and sync words name registered
  sensors only; valid sync is streaming and sync enabled; a pending control is of a sensor in valid
  sync, and a completed setup of a streaming one; the status says whether two sensors or more are in
  valid sync; stand-alone mode is on unless no sensor is sync enabled; the recorder pointers of
  every streaming sensor point to its own recorder.\<close>

theorem driver_invariant:
  assumes "fs_reach ev w"
  shows "let m = w_mgr w in
    unat (mg_reg_cnt m) \<le> 5 \<and> inj_on (\<lambda>i. si_sensor_idx (mg_sensors m i)) {i. i < mg_reg_cnt m}
    \<and> (\<forall>n. bit (mg_streaming_bits m) n \<or> bit (mg_enSync_bits m) n \<longrightarrow> n < unat (mg_reg_cnt m))
    \<and> (\<forall>n. bit (mg_validSync_bits m) n \<longleftrightarrow> bit (mg_streaming_bits m) n \<and> bit (mg_enSync_bits m) n)
    \<and> (\<forall>n. bit (mg_pf_ctrl_bits m) n \<longrightarrow> bit (mg_validSync_bits m) n)
    \<and> (\<forall>n. bit (mg_setup_complete_bits m) n \<longrightarrow> bit (mg_streaming_bits m) n)
    \<and> (get_fs_status w = FS_WAIT_FOR_SYNCFRAME_START \<longleftrightarrow> 1 < hweight32 (mg_validSync_bits m))
    \<and> (mg_using_sa_ver m = 1 \<or> mg_enSync_bits m = 0)
    \<and> (\<forall>i. check_bit_atomic i (mg_streaming_bits m) = 1 \<longrightarrow> recs_linked w i)"
proof -
  have inv: "drv_inv w" by (rule reach_inv[OF assms])
  then have m: "table_ok (w_mgr w)" "bits_ok (w_mgr w)" "status_ok (w_mgr w)"
    "mg_using_sa_ver (w_mgr w) = 1 \<or> mg_enSync_bits (w_mgr w) = 0"
    by (simp_all add: drv_inv_def mgr_inv_def)
  have "get_fs_status w = FS_WAIT_FOR_SYNCFRAME_START \<longleftrightarrow> 1 < hweight32 (mg_validSync_bits (w_mgr w))"
    using m(3) by (auto simp: status_ok_def get_fs_status_def Let_def split: if_splits)
  moreover have "\<forall>i. check_bit_atomic i (mg_streaming_bits (w_mgr w)) = 1 \<longrightarrow> recs_linked w i"
    using inv by (simp add: check_bit_one drv_inv_def linked_inv_def)
  moreover have "\<forall>n. bit (mg_validSync_bits (w_mgr w)) n \<longleftrightarrow>
      bit (mg_streaming_bits (w_mgr w)) n \<and> bit (mg_enSync_bits (w_mgr w)) n"
    using m(2) by (simp add: bits_ok_def bit_simps)
  ultimately show ?thesis using m(1,2,4) unfolding table_ok_def bits_ok_def Let_def by blast
qed

definition shipped_env :: fs_env where
  "shipped_env = \<lparr>ev_nodes = [(None, Some 30)], ev_src = shipped_source, ev_alloc1 = True, ev_alloc2 = True\<rparr>"

theorem driver_invariant_witness:
  "fs_reach shipped_env (fs_set_using_sa_mode 1 zero_world)
   \<and> unat (mg_reg_cnt (w_mgr (fs_set_using_sa_mode 1 zero_world))) \<le> 5"
proof -
  have r: "fs_reach shipped_env (fs_set_using_sa_mode 1 zero_world)"
    by (rule fs_reach.call[OF fs_reach.loaded, where c = "Set_SA_Mode 1"]) simp
  with driver_invariant[OF r] show ?thesis by (simp add: Let_def)
qed

text \<open>When a call may fault: a stream-on that stores more than five exposures, a control of a sensor
  that has stored more, a solve whose sensor has no line time or whose master's period wraps
  to zero, and an extension given in time before the sensor has a line time.\<close>

fun call_safe :: "fs_call \<Rightarrow> fs_world \<Rightarrow> bool" where
  "call_safe (Streaming flag info) w \<longleftrightarrow> flag = 0 \<or> \<not> hdr_fault (ss_hdr_exp info) (ss_hdr_exp info)"
| "call_safe (Set_Shutter p) w \<longleftrightarrow> pf_lineTimeInNs p \<noteq> 0 \<and> (\<forall>m. unat m < 5 \<longrightarrow> period_ok m w)
     \<and> \<not> hdr_fault (pf_hdr_exp p) (fi_hdr_exp (fs_inst w (fs_get_reg_sensor_pos (fs_perframe_ident p) w)))"
| "call_safe (Set_Extend_FL ident lc us) w \<longleftrightarrow> us = 0
     \<or> fi_lineTimeInNs (fs_inst w (fs_get_reg_sensor_pos ident w)) \<noteq> 0"
| "call_safe _ w \<longleftrightarrow> True"

text \<open>C25. In every reachable state every call returns, on four conditions: a stream-on with a
  multi-exposure setting names at most five exposures; a control has a line time and no master's
  period wraps to zero; a control with a multi-exposure setting replaces a stored setting of at
  most five exposures; a frame-length extension in time comes after a control with a line time.
  All other calls return in every reachable state.\<close>

theorem driver_calls_return:
  assumes "fs_reach ev w" and "call_safe c w"
  shows "\<exists>w'. fs_exec ev c w = Some w'"
proof -
  have inv: "drv_inv w" by (rule reach_inv[OF assms(1)])
  show ?thesis
  proof (cases c)
    case (Streaming flag info)
    then show ?thesis using streaming_total[OF inv, of flag info ev] assms(2) by auto
  next
    case (Set_Shutter p)
    define idx where "idx = fs_get_reg_sensor_pos (fs_perframe_ident p) w"
    have "\<exists>p' w'. fs_do_set_shutter idx p w = Some (p', w')" if "check_idx_valid idx \<noteq> 0"
      using do_set_shutter_total[OF inv pos_bound(1)[OF inv that[unfolded idx_def], folded idx_def], of p]
        assms(2) Set_Shutter by (auto simp: idx_def)
    then show ?thesis using Set_Shutter by (auto simp: fs_set_shutter_def Let_def idx_def[symmetric])
  next
    case (Update_Shutter p)
    then show ?thesis using update_shutter_returns[OF inv, of p] by auto
  next
    case (Notify_Vsync ident)
    then show ?thesis using notify_vsync_returns[OF inv, of ev ident] by auto
  next
    case (Set_Extend_FL ident lc us)
    then show ?thesis
      using extend_total[of us w "fs_get_reg_sensor_pos ident w" lc] assms(2)
      by (auto simp: fs_set_extend_framelength_def Let_def)
  next
    case (Seamless_Switch ident)
    then show ?thesis using extend_total[of 0 w "fs_get_reg_sensor_pos ident w" 0]
      by (auto simp: fs_seamless_switch_def fs_alg_seamless_switch_def Let_def)
  qed (simp_all add: sync_frame_idle[OF inv])
qed

text \<open>A run that meets the conditions: a two-exposure stream-on, a control and a vsync.\<close>

definition demo_stream :: fs_streaming_st where
  "demo_stream = \<lparr>ss_sensor_id = 1, ss_sensor_idx = 0, ss_tg = 1, ss_fl_active_delay = 2, ss_def_fl_lc = 3000,
     ss_max_fl_lc = 60000, ss_def_shutter_lc = 1000, ss_sync_mode = 1,
     ss_hdr_exp = zero_hdr_exp\<lparr>he_mode_exp_cnt := 2, he_ae_exp_cnt := 2\<rparr>, ss_func_ptr = 1, ss_p_ctx = 1\<rparr>"

lemma streaming_stable:
  assumes "fs_streaming ev flag info w = Some (r, info', w')" and "\<And>m. dp_stable_fl_us (dyn_para w m) = 0"
  shows "dp_stable_fl_us (dyn_para w' m) = 0"
proof -
  obtain idx w1 where reg: "fs_register_sensor \<lparr>si_sensor_id = ss_sensor_id info,
      si_sensor_idx = ss_sensor_idx info\<rparr> REGISTER_METHOD w = (idx, w1)" by fastforce
  then have w1: "al_sa (w_alg w1) = al_sa (w_alg w)"
    by (auto simp: fs_register_sensor_def fs_push_sensor_def Let_def split: if_splits)
  have reset: "dp_stable_fl_us (dyn_para (fs_reset_idx_ctx idx w1) j) = 0" for j
    using assms(2)[of j] w1
    by (simp add: fs_reset_idx_ctx_def set_sync_idx_eq fs_reset_cb_data_def fs_set_stream_def
        frec_reset_recorder_def fs_alg_reset_fs_inst_def fs_alg_reset_fs_sa_inst_def zero_dynamic_para_def)
  have on: "al_sa (w_alg v') = al_sa (w_alg v)" if run: "fs_stream_on ev idx info v = Some (i', v')" for v i' v'
  proof -
    define c where "c = fs_convert_tg ev (ss_tg info) v"
    have c: "al_sa (w_alg (snd c)) = al_sa (w_alg v)" by (simp add: c_def fs_convert_tg_def split_beta)
    from run obtain i2 x y where x: "fs_alg_set_streaming_st_data idx (info\<lparr>ss_tg := fst c\<rparr>)
        (upd_frm (frm_init_frame_info_st_data idx (ss_sensor_id info) (ss_sensor_idx info) (fst c)) (snd c)) = Some (i2, x)"
      and y: "frec_push_def_shutter_fl_lc idx (ss_def_shutter_lc i2) (ss_def_fl_lc i2)
        (hw_fs_alg_set_streaming_st_data idx i2 x) = Some y"
      and v': "v' = fs_init_cb_data idx (ss_p_ctx i2) (ss_func_ptr i2) (fs_set_stream idx 1 y)"
      by (auto simp: fs_stream_on_def Let_def split_beta c_def[symmetric] bind_eq_Some_conv)
    have "al_sa (w_alg x) = al_sa (w_alg v)" using set_streaming_returned[OF x] c by auto
    moreover have "al_sa (w_alg y) = al_sa (w_alg x)"
      using notify_linked(4)[OF y[unfolded frec_push_def_shutter_fl_lc_def]]
      by (simp add: hw_fs_alg_set_streaming_st_data_def)
    ultimately show ?thesis by (simp add: v' fs_init_cb_data_def fs_set_stream_def)
  qed
  have sync: "al_sa (w_alg (fs_set_sync_idx idx 1 v)) = al_sa (w_alg v)" for v by (simp add: set_sync_idx_eq)
  have off: "al_sa (w_alg (fs_stream_off idx v)) = al_sa (w_alg v)" for v
    by (simp add: fs_stream_off_def fs_reset_ft_mode_data_def)
  show ?thesis
    using assms(1)[unfolded fs_streaming_def reg Let_def prod.case] reset assms(2)[of m] w1
    by (auto simp: sync off bind_eq_Some_conv dest!: on split: if_splits)
qed

theorem driver_calls_return_witness:
  "\<exists>w1 w2 w3. fs_exec shipped_env (Streaming 1 demo_stream) zero_world = Some w1
     \<and> fs_exec shipped_env (Set_Shutter (zero_perframe\<lparr>pf_lineTimeInNs := 10000\<rparr>)) w1 = Some w2
     \<and> fs_exec shipped_env (Notify_Vsync 0) w2 = Some w3"
proof -
  let ?p = "zero_perframe\<lparr>pf_lineTimeInNs := 10000\<rparr>"
  have "call_safe (Streaming 1 demo_stream) zero_world"
    by (simp add: demo_stream_def hdr_fault_def hdr_cnt_ok_def)
  from driver_calls_return[OF fs_reach.loaded this] obtain w1 where
    w1: "fs_exec shipped_env (Streaming 1 demo_stream) zero_world = Some w1" by blast
  then have "dp_stable_fl_us (dyn_para w1 m) = 0" for m
    using streaming_stable by (fastforce simp: zero_world_def zero_dynamic_para_def)
  then have "call_safe (Set_Shutter ?p) w1"
    by (simp add: period_ok_def hdr_fault_def zero_perframe_def zero_hdr_exp_def)
  from driver_calls_return[OF fs_reach.call[OF fs_reach.loaded w1] this] obtain w2 where
    w2: "fs_exec shipped_env (Set_Shutter ?p) w1 = Some w2" by blast
  have "call_safe (Notify_Vsync 0) w2" by simp
  from driver_calls_return[OF fs_reach.call[OF fs_reach.call[OF fs_reach.loaded w1] w2] this] w1 w2
  show ?thesis by blast
qed

text \<open>The pair trigger of \<open>fs_sync_frame\<close> is dead: in every reachable state a call returns zero
  and changes nothing, because stand-alone mode is on whenever a sensor is in sync.\<close>

theorem sync_frame_never_triggers:
  assumes "fs_reach ev w" shows "fs_sync_frame ev flag w = Some (0, w)"
  by (rule sync_frame_idle[OF reach_inv[OF assms]])

theorem sync_frame_never_triggers_witness: "fs_sync_frame shipped_env 1 zero_world = Some (0, zero_world)"
  by (rule sync_frame_never_triggers[OF fs_reach.loaded])

text \<open>C36. A frame-length extension given in time faults exactly when the sensor is registered and
  has no line time, as between its stream-on and its first control: the driver divides by it
  unchecked.\<close>

theorem extend_faults_iff:
  "fs_set_extend_framelength ident lc us w = None \<longleftrightarrow>
     check_idx_valid (fs_get_reg_sensor_pos ident w) \<noteq> 0 \<and> us \<noteq> 0
     \<and> fi_lineTimeInNs (fs_inst w (fs_get_reg_sensor_pos ident w)) = 0"
  by (auto simp: fs_set_extend_framelength_def fs_alg_set_extend_framelength_def convert2LineCount_def Let_def)

end
