(* ===== verification/CamTimesync.thy ===== *)
theory CamTimesync
  imports Prelude "HOL-Library.Signed_Division"
begin

text \<open>
  \<open>mtk_cam-timesync.c\<close>: conversion of the 13 MHz architecture counter to nanoseconds and the moving
  average of the offset between a kernel clock and that counter. The kernel clocks and the counter
  are read by the caller; a call is given the two values it read.
\<close>

subsection \<open>Counter to nanoseconds\<close>

definition arch_counter_to_ns :: "u64 \<Rightarrow> u64" where
  "arch_counter_to_ns cyc =
     (let mult = 161319385; max = 0xFFFFFFFFFFFFFFFF div mult;
          (nsec, cyc) = (if max < cyc
             then let num = cyc div max in (drop_bit 21 (max * mult) * num, cyc - num * max)
             else (0, cyc))
      in nsec + drop_bit 21 (cyc * mult))"

definition mtk_cam_get_time :: "u64 \<Rightarrow> u64" where
  "mtk_cam_get_time cyc = arch_counter_to_ns cyc"

subsection \<open>The moving average\<close>

definition FILTER_DATAPOINTS :: u8 where "FILTER_DATAPOINTS = 16"
definition FILTER_FREQ :: u64 where "FILTER_FREQ = 10000000"

record moving_average =
  last_time :: u64
  input :: "u8 \<Rightarrow> u64"
  ma_output :: u64
  ma_cnt :: u8
  ma_tail :: u8

definition filter_algo_init :: moving_average where
  "filter_algo_init = \<lparr>last_time = 0, input = (\<lambda>_. 0), ma_output = 0, ma_cnt = 0, ma_tail = 0\<rparr>"

text \<open>\<open>div_s64\<close>: signed division of a 64-bit by a 32-bit number, towards zero.\<close>

definition div_s64 :: "u64 \<Rightarrow> u32 \<Rightarrow> u64" where
  "div_s64 a b = word_of_int (sint a sdiv sint b)"

definition ma_sum :: "(u8 \<Rightarrow> u64) \<Rightarrow> nat \<Rightarrow> u64" where
  "ma_sum inp n = foldl (\<lambda>avg i. avg + (inp (of_nat i) - inp 0)) 0 [1..<n]"

definition moving_average_filter :: "u64 \<Rightarrow> u64 \<Rightarrow> moving_average \<Rightarrow> moving_average" where
  "moving_average_filter base_time archcounter_time f =
     (if base_time < last_time f + FILTER_FREQ then f
      else let inp = (input f)(ma_tail f := base_time - archcounter_time);
               tail = (ma_tail f + 1) AND (FILTER_DATAPOINTS - 1);
               cnt = (if ma_cnt f < FILTER_DATAPOINTS then ma_cnt f + 1 else ma_cnt f);
               avg = ma_sum inp (unat cnt)
           in f\<lparr>last_time := base_time, input := inp, ma_tail := tail, ma_cnt := cnt,
                ma_output := div_s64 avg (ucast cnt) + inp 0\<rparr>)"

definition get_filter_output :: "moving_average \<Rightarrow> u64" where
  "get_filter_output f = ma_output f"

text \<open>Both filters.\<close>

record timesync =
  mono :: moving_average
  boot :: moving_average

definition mtk_cam_timesync_init :: "u8 \<Rightarrow> timesync \<Rightarrow> timesync" where
  "mtk_cam_timesync_init status t =
     (if status \<noteq> 0 then t\<lparr>mono := filter_algo_init, boot := filter_algo_init\<rparr> else t)"

text \<open>The kernel clock and the counter, read together, precede the hardware time.\<close>

definition mtk_cam_timesync_to_monotonic :: "u64 \<Rightarrow> u64 \<Rightarrow> u64 \<Rightarrow> timesync \<Rightarrow> u64 \<times> timesync" where
  "mtk_cam_timesync_to_monotonic base_time cntvct hwclock t =
     (let f = moving_average_filter base_time (arch_counter_to_ns cntvct) (mono t)
      in (arch_counter_to_ns hwclock + get_filter_output f, t\<lparr>mono := f\<rparr>))"

definition mtk_cam_timesync_to_boot :: "u64 \<Rightarrow> u64 \<Rightarrow> u64 \<Rightarrow> timesync \<Rightarrow> u64 \<times> timesync" where
  "mtk_cam_timesync_to_boot base_time cntvct hwclock t =
     (let f = moving_average_filter base_time (arch_counter_to_ns cntvct) (boot t)
      in (arch_counter_to_ns hwclock + get_filter_output f, t\<lparr>boot := f\<rparr>))"

subsection \<open>The conversion is exact up to one nanosecond per two hours\<close>

text \<open>The value of the conversion without the 64-bit limit.\<close>

definition exact_ns :: "nat \<Rightarrow> nat" where "exact_ns n = n * 161319385 div 2097152"

lemma exact_ns_mono: "m \<le> n \<Longrightarrow> exact_ns m \<le> exact_ns n"
  by (simp add: exact_ns_def div_le_mono)

lemma split_conversion:
  assumes "q = n div 114349209016" and "r = n mod 114349209016"
  shows "exact_ns n = 8796093022202 * q + r * 161319385 div 2097152 + (606456 * q + r * 161319385 mod 2097152) div 2097152"
proof -
  have "n = q * 114349209016 + r" using assms by simp
  then have "n * 161319385 = (8796093022202 * q + r * 161319385 div 2097152) * 2097152
      + (606456 * q + r * 161319385 mod 2097152)"
    using div_mult_mod_eq[of "r * 161319385" 2097152] by simp
  then have "exact_ns n = ((606456 * q + r * 161319385 mod 2097152)
      + (8796093022202 * q + r * 161319385 div 2097152) * 2097152) div 2097152"
    unfolding exact_ns_def by (simp only: add.commute)
  then show ?thesis by (subst (asm) div_mult_self1) simp_all
qed

text \<open>The computed value, when it fits.\<close>

lemma unat_shift21: "unat (drop_bit 21 (w :: u64)) = unat w div 2097152"
  by (simp add: drop_bit_eq_div unat_div)

lemma unat_mult_fits: "unat (a :: u64) * unat b < 18446744073709551616 \<Longrightarrow> unat (a * b) = unat a * unat b"
  by (simp add: unat_word_ariths)

lemma unat_add_fits: "unat (a :: u64) + unat b < 18446744073709551616 \<Longrightarrow> unat (a + b) = unat a + unat b"
  by (simp add: unat_word_ariths)

lemma unat_remainder: "unat (c - c div m * m :: u64) = unat c mod unat m"
  by (simp add: minus_div_mult_eq_mod unat_mod)

lemma arch_counter_nat:
  assumes "exact_ns (unat cyc) < 18446744073709551616"
  shows "unat (arch_counter_to_ns cyc) = 8796093022202 * (unat cyc div 114349209016)
     + (unat cyc mod 114349209016) * 161319385 div 2097152"
proof -
  define q where "q = unat cyc div 114349209016" define r where "r = unat cyc mod 114349209016"
  have r: "r < 114349209016" by (simp add: r_def)
  have fits: "8796093022202 * q + r * 161319385 div 2097152 < 18446744073709551616"
    using assms split_conversion[OF q_def r_def] by simp
  define big where "big = (8796093022202 :: u64) * (cyc div 114349209016)"
  define rest where "rest = cyc - cyc div 114349209016 * 114349209016"
  have q: "unat (cyc div 114349209016) = q" by (simp add: unat_div q_def)
  have big: "unat big = 8796093022202 * q"
    unfolding big_def using fits q by (subst unat_mult_fits) simp_all
  have rest: "unat rest = r"
    unfolding rest_def using unat_remainder[of cyc 114349209016] by (simp add: r_def)
  have small: "unat (drop_bit 21 (x * 161319385 :: u64)) = unat x * 161319385 div 2097152"
    if "unat x \<le> 114349209016" for x :: u64
    unfolding unat_shift21 using that by (subst unat_mult_fits) simp_all
  have code: "arch_counter_to_ns cyc = (if 114349209016 < cyc then big + drop_bit 21 (rest * 161319385)
      else drop_bit 21 (cyc * 161319385))"
    by (simp add: arch_counter_to_ns_def Let_def big_def rest_def)
  show ?thesis
  proof (cases "114349209016 < cyc")
    case True
    have "unat (drop_bit 21 (rest * 161319385)) = r * 161319385 div 2097152"
      using small[of rest] rest r by simp
    then show ?thesis
      unfolding code q_def[symmetric] r_def[symmetric] using True big fits by (simp add: unat_add_fits)
  next
    case False
    then have le: "unat cyc \<le> 114349209016" by (simp add: word_le_nat_alt not_less)
    show ?thesis
    proof (cases "unat cyc = 114349209016")
      case True
      then show ?thesis unfolding code using False small[OF le] by simp
    next
      case neq: False
      then have "unat cyc < 114349209016" using le by simp
      then show ?thesis unfolding code using False small[OF le] by simp
    qed
  qed
qed

lemma arch_counter_bounds:
  assumes "exact_ns (unat cyc) < 18446744073709551616"
  shows "unat (arch_counter_to_ns cyc) \<le> exact_ns (unat cyc)"
    and "exact_ns (unat cyc) \<le> unat (arch_counter_to_ns cyc) + unat cyc div 114349209016"
proof -
  define q where "q = unat cyc div 114349209016" define r where "r = unat cyc mod 114349209016"
  have val: "unat (arch_counter_to_ns cyc) = 8796093022202 * q + r * 161319385 div 2097152"
    using arch_counter_nat[OF assms] by (simp add: q_def r_def)
  have "r * 161319385 mod 2097152 < 2097152" by simp
  then have "606456 * q + r * 161319385 mod 2097152 < (q + 1) * 2097152" unfolding distrib_right by linarith
  then have "(606456 * q + r * 161319385 mod 2097152) div 2097152 \<le> q"
    by (metis Suc_eq_plus1 less_Suc_eq_le less_mult_imp_div_less)
  then show "unat (arch_counter_to_ns cyc) \<le> exact_ns (unat cyc)"
    and "exact_ns (unat cyc) \<le> unat (arch_counter_to_ns cyc) + unat cyc div 114349209016"
    unfolding val split_conversion[OF q_def r_def] by (simp_all add: q_def)
qed

text \<open>Later counts never convert to earlier times.\<close>

lemma conversion_mono:
  assumes "m \<le> n"
  shows "8796093022202 * (m div 114349209016) + (m mod 114349209016) * 161319385 div (2097152 :: nat)
    \<le> 8796093022202 * (n div 114349209016) + (n mod 114349209016) * 161319385 div 2097152"
proof (cases "m div 114349209016 = n div 114349209016")
  case True
  then have "m mod 114349209016 \<le> n mod 114349209016"
    using assms div_mult_mod_eq[of m 114349209016] div_mult_mod_eq[of n 114349209016] by linarith
  then show ?thesis using True by (simp add: div_le_mono)
next
  case False
  then have "m div 114349209016 + 1 \<le> n div 114349209016" using assms div_le_mono[of m n 114349209016] by simp
  moreover have "(m mod 114349209016) * 161319385 div 2097152 \<le> (114349209015 * 161319385 div 2097152 :: nat)"
    by (intro div_le_mono mult_le_mono1) (use mod_less_divisor[of 114349209016 m] in linarith)
  ultimately show ?thesis by simp
qed

text \<open>As long as the time in nanoseconds fits in 64 bits, the conversion of a counter value is at most
  the exact value \<open>cyc * 161319385 / 2^21\<close> and short of it by at most one nanosecond per
  114349209016 counts (two and a half hours), and it is monotone in the counter.\<close>

theorem arch_counter_correct:
  assumes "exact_ns (unat cyc) < 18446744073709551616"
  shows "unat (arch_counter_to_ns cyc) \<le> exact_ns (unat cyc)
    \<and> exact_ns (unat cyc) \<le> unat (arch_counter_to_ns cyc) + unat cyc div 114349209016
    \<and> (\<forall>earlier \<le> cyc. arch_counter_to_ns earlier \<le> arch_counter_to_ns cyc)"
proof (intro conjI allI impI)
  fix earlier assume le: "earlier \<le> cyc"
  then have n: "unat earlier \<le> unat cyc" by (simp add: word_le_nat_alt)
  then have "exact_ns (unat earlier) < 18446744073709551616"
    using assms by (meson exact_ns_mono le_less_trans)
  then show "arch_counter_to_ns earlier \<le> arch_counter_to_ns cyc"
    using conversion_mono[OF n] by (simp add: word_le_nat_alt arch_counter_nat assms)
qed (use arch_counter_bounds[OF assms] in simp_all)

theorem arch_counter_correct_witness:
  "unat (arch_counter_to_ns 1300000000000) \<le> 100000000238418 \<and> 100000000238418 \<le> unat (arch_counter_to_ns 1300000000000) + 11"
  using arch_counter_correct[of 1300000000000] by (simp add: exact_ns_def unat_numeral)

subsection \<open>The filter keeps the last sixteen samples\<close>

text \<open>\<open>xs\<close> are the samples accepted so far, oldest first.\<close>

definition ma_holds :: "u64 list \<Rightarrow> moving_average \<Rightarrow> bool" where
  "ma_holds xs f \<longleftrightarrow> unat (ma_cnt f) = min (length xs) 16 \<and> unat (ma_tail f) = length xs mod 16
     \<and> (\<forall>j < length xs. length xs \<le> j + 16 \<longrightarrow> input f (of_nat (j mod 16)) = xs ! j)"

text \<open>The mean of the stored samples as the code computes it, relative to the first slot.\<close>

definition window :: "'a list \<Rightarrow> 'a list" where "window xs = drop (length xs - 16) xs"

definition offset_mean :: "u64 list \<Rightarrow> u64 \<Rightarrow> bool" where
  "offset_mean xs out \<longleftrightarrow> \<bar>sint out * int (length (window xs)) - (\<Sum>w\<leftarrow>window xs. sint w)\<bar> < int (length (window xs))"

text \<open>The samples close enough for the signed sums not to wrap.\<close>

definition close_samples :: "u64 list \<Rightarrow> int \<Rightarrow> int \<Rightarrow> bool" where
  "close_samples xs lo hi \<longleftrightarrow> hi - lo \<le> 2 ^ 58 \<and> (\<forall>w \<in> set (window xs). lo \<le> sint w \<and> sint w \<le> hi)"

lemma ma_holds_init: "ma_holds [] filter_algo_init"
  by (simp add: ma_holds_def filter_algo_init_def)

lemma ring_tail: "unat (t :: u8) = n mod 16 \<Longrightarrow> unat ((t + 1) AND 15) = Suc n mod 16"
proof -
  assume t: "unat t = n mod 16"
  have "(t + 1) AND 15 = take_bit 4 (t + 1)" by (simp add: take_bit_eq_mask mask_eq_exp_minus_1)
  then have "unat ((t + 1) AND 15) = unat (t + 1) mod 16" by (simp add: take_bit_eq_mod unat_mod)
  also have "unat (t + 1) = n mod 16 + 1"
    using t mod_less_divisor[of 16 n] by (simp add: unat_word_ariths)
  finally show ?thesis by (simp add: mod_Suc_eq)
qed

lemma ring_write:
  assumes "ma_holds xs f" and "\<not> b < last_time f + FILTER_FREQ"
  shows "ma_holds (xs @ [b - a]) (moving_average_filter b a f)"
proof -
  have cnt: "unat (ma_cnt f) = min (length xs) 16" and tail: "unat (ma_tail f) = length xs mod 16"
    and ring: "\<And>j. j < length xs \<Longrightarrow> length xs \<le> j + 16 \<Longrightarrow> input f (of_nat (j mod 16)) = xs ! j"
    using assms(1) by (auto simp: ma_holds_def)
  have tail_eq: "ma_tail f = of_nat (length xs mod 16)" by (simp add: tail[symmetric])
  have other: "of_nat (j mod 16) \<noteq> ma_tail f" if "j < length xs" "Suc (length xs) \<le> j + 16" for j
  proof
    assume eq: "of_nat (j mod 16) = ma_tail f"
    have "unat (of_nat (j mod 16) :: u8) = j mod 16"
      using mod_less_divisor[of 16 j] by (simp add: unsigned_of_nat take_bit_eq_mod)
    then have "j mod 16 = length xs mod 16" using eq tail by simp
    then have "16 dvd length xs - j" using that by (metis less_imp_le_nat mod_eq_dvd_iff_nat)
    then have "16 \<le> length xs - j" using that by (intro dvd_imp_le) auto
    then show False using that by simp
  qed
  have "unat (ma_cnt f + 1) = unat (ma_cnt f) + 1" using cnt by (simp add: unat_word_ariths)
  then have "unat (if ma_cnt f < FILTER_DATAPOINTS then ma_cnt f + 1 else ma_cnt f) = min (Suc (length xs)) 16"
    using cnt by (simp add: FILTER_DATAPOINTS_def word_less_nat_alt)
  then show ?thesis
    using assms(2) ring_tail[OF tail] ring other tail_eq
    by (auto simp: ma_holds_def moving_average_filter_def Let_def FILTER_DATAPOINTS_def nth_append less_Suc_eq)
qed

lemma ma_skip: "b < last_time f + FILTER_FREQ \<Longrightarrow> moving_average_filter b a f = f"
  by (simp add: moving_average_filter_def)

text \<open>Summing a ring of sixteen slots over any sixteen consecutive positions visits every slot once.\<close>

lemma ring_sum: "(\<Sum>j \<in> {n..<n + 16 :: nat}. h (j mod 16)) = (\<Sum>j \<in> {0..<16}. h j :: int)"
proof (induction n)
  case 0
  show ?case by (intro sum.cong) auto
next
  case (Suc n)
  have "{Suc n..<Suc n + 16} = insert (n + 16) {Suc n..<n + 16}" and "{n..<n + 16} = insert n {Suc n..<n + 16}"
    by auto
  then have "(\<Sum>j \<in> {Suc n..<Suc n + 16}. h (j mod 16)) = (\<Sum>j \<in> {n..<n + 16}. h (j mod 16))"
    by simp
  then show ?case using Suc by simp
qed

lemma window_sum:
  assumes "ma_holds xs f"
  shows "(\<Sum>i \<in> {0..<unat (ma_cnt f)}. sint (input f (of_nat i))) = (\<Sum>w\<leftarrow>window xs. sint w)"
    and "length (window xs) = unat (ma_cnt f)"
    and "\<And>i. i < unat (ma_cnt f) \<Longrightarrow> input f (of_nat i) \<in> set (window xs)"
proof -
  let ?n = "length xs"
  have cnt: "unat (ma_cnt f) = min ?n 16" and ring: "\<And>j. j < ?n \<Longrightarrow> ?n \<le> j + 16 \<Longrightarrow> input f (of_nat (j mod 16)) = xs ! j"
    using assms by (auto simp: ma_holds_def)
  show "length (window xs) = unat (ma_cnt f)" using cnt by (simp add: window_def)
  have wsum: "(\<Sum>w\<leftarrow>window xs. sint w) = (\<Sum>j \<in> {?n - 16..<?n}. sint (xs ! j))"
  proof -
    have "window xs = map ((!) xs) [?n - 16..<?n]"
      by (rule nth_equalityI) (auto simp: window_def)
    then show ?thesis by (simp add: sum_list_distinct_conv_sum_set comp_def)
  qed
  have slots: "(\<Sum>j \<in> {?n - 16..<?n}. sint (xs ! j)) = (\<Sum>j \<in> {?n - 16..<?n}. sint (input f (of_nat (j mod 16))))"
    by (intro sum.cong) (use ring in auto)
  show "(\<Sum>i \<in> {0..<unat (ma_cnt f)}. sint (input f (of_nat i))) = (\<Sum>w\<leftarrow>window xs. sint w)"
  proof (cases "?n \<le> 16")
    case True
    then have "(\<Sum>j \<in> {0..<?n}. sint (input f (of_nat (j mod 16)))) = (\<Sum>j \<in> {0..<?n}. sint (input f (of_nat j)))"
      by (intro sum.cong) auto
    then show ?thesis using True cnt slots wsum by simp
  next
    case False
    then show ?thesis
      using cnt slots wsum ring_sum[of "\<lambda>i. sint (input f (of_nat i))" "?n - 16"] by simp
  qed
  fix i assume i: "i < unat (ma_cnt f)"
  define k where "k = (?n - 1 - i) div 16"
  define j where "j = i + 16 * k"
  have "16 * k \<le> ?n - 1 - i \<and> ?n - 1 - i < 16 * k + 16"
    unfolding k_def using mod_less_divisor[of 16 "?n - 1 - i"] div_mult_mod_eq[of "?n - 1 - i" 16] by linarith
  then have "j < ?n \<and> ?n \<le> j + 16 \<and> j mod 16 = i"
    using i cnt by (auto simp: j_def)
  then show "input f (of_nat i) \<in> set (window xs)"
    using ring[of j] by (auto simp: window_def in_set_conv_nth intro!: exI[of _ "j - (?n - 16)"])
qed

subsection \<open>The output is the mean of the last sixteen samples\<close>

lemma sint_word_of_int_64:
  "- 9223372036854775808 \<le> k \<Longrightarrow> k < 9223372036854775808 \<Longrightarrow> sint (word_of_int k :: u64) = k"
  by (simp add: sint_word_ariths sint_sbintrunc' signed_take_bit_int_eq_self)

lemma sint_range_64: "- 9223372036854775808 \<le> sint (w :: u64)" "sint (w :: u64) \<le> 9223372036854775807"
  using sint_ge[of w] sint_lt[of w] by simp_all

lemma ma_sum_int:
  "ma_sum inp n = word_of_int (\<Sum>i \<in> {1..<n}. sint (inp (of_nat i)) - sint (inp 0))"
proof -
  have fold: "foldl (\<lambda>avg i. avg + (inp (of_nat i) - inp 0)) a [1..<n]
      = a + word_of_int (\<Sum>i \<in> {1..<n}. sint (inp (of_nat i)) - sint (inp 0))" for a
  proof (induction n arbitrary: a)
    case (Suc n)
    then show ?case by (cases n) (simp_all add: algebra_simps)
  qed simp
  show ?thesis using fold[of 0] by (simp add: ma_sum_def)
qed

lemma truncated_quotient:
  assumes "0 < (c :: int)"
  shows "\<bar>(a sdiv c) * c - a\<bar> < c"
proof -
  have "a - (a sdiv c) * c = a smod c" by (simp add: minus_sdiv_mult_eq_smod)
  moreover have "\<bar>a smod c\<bar> < c"
    using assms by (auto simp: signed_modulo_int_def abs_mult sgn_if)
  ultimately show ?thesis by linarith
qed

lemma mean_between:
  assumes "\<bar>v * int (length ws) - (\<Sum>w\<leftarrow>ws. f w)\<bar> < int (length ws)"
    and "\<And>w. w \<in> set ws \<Longrightarrow> lo \<le> f w" and "\<And>w. w \<in> set ws \<Longrightarrow> f w \<le> hi"
  shows "lo \<le> v" and "v \<le> hi"
proof -
  have low: "lo * int (length ws) \<le> (\<Sum>w\<leftarrow>ws. f w)"
    using sum_list_mono[of ws "\<lambda>_. lo" f] assms(2) by (simp add: sum_list_triv mult.commute)
  have high: "(\<Sum>w\<leftarrow>ws. f w) \<le> hi * int (length ws)"
    using sum_list_mono[of ws f "\<lambda>_. hi"] assms(3) by (simp add: sum_list_triv mult.commute)
  have "(lo - 1) * int (length ws) < v * int (length ws)" "v * int (length ws) < (hi + 1) * int (length ws)"
    using low high assms(1) by (simp_all add: left_diff_distrib distrib_right)
  then show "lo \<le> v" "v \<le> hi" by (simp_all add: mult_less_cancel_right)
qed

text \<open>What an accepted sample makes of the output.\<close>

lemma filter_mean:
  assumes holds: "ma_holds xs f" and acc: "\<not> b < last_time f + FILTER_FREQ"
    and close: "close_samples (xs @ [b - a]) lo hi"
  defines "f' \<equiv> moving_average_filter b a f"
  shows "offset_mean (xs @ [b - a]) (ma_output f')"
proof -
  let ?xs = "xs @ [b - a]"
  have holds': "ma_holds ?xs f'" unfolding f'_def by (rule ring_write[OF holds acc])
  define s where "s i = sint (input f' (of_nat i))" for i :: nat
  define n where "n = unat (ma_cnt f')"
  have n: "n = length (window ?xs)" "0 < n" "n \<le> 16"
    using holds' window_sum(2)[OF holds'] by (auto simp: n_def ma_holds_def)
  have range: "lo \<le> s i \<and> s i \<le> hi" if "i < n" for i
    using close window_sum(3)[OF holds', of i] that by (simp add: close_samples_def s_def n_def)
  define d where "d = (\<Sum>i \<in> {1..<n}. s i - s 0)"
  have "\<bar>d\<bar> \<le> (\<Sum>i \<in> {1..<n}. 2 ^ 58)"
    unfolding d_def using range[of 0] range close n
    by (intro order_trans[OF sum_abs] sum_mono) (fastforce simp: close_samples_def abs_le_iff)
  also have "\<dots> \<le> 15 * 2 ^ 58" using n by simp
  finally have d_small: "\<bar>d\<bar> \<le> 4323455642275676160" by simp
  have out: "ma_output f' = div_s64 (word_of_int d) (ucast (ma_cnt f')) + input f' 0"
    using acc by (simp add: f'_def moving_average_filter_def Let_def ma_sum_int d_def s_def n_def)
  have "unat (ucast (ma_cnt f') :: u32) = n"
    using n by (simp add: n_def unsigned_ucast_eq take_bit_nat_eq_self)
  then have "sint (ucast (ma_cnt f') :: u32) = int n" using n sint_small[of "ucast (ma_cnt f')"] by simp
  moreover have "sint (word_of_int d :: u64) = d" by (rule sint_word_of_int_64) (use d_small in auto)
  ultimately have quot: "div_s64 (word_of_int d) (ucast (ma_cnt f')) = word_of_int (d sdiv int n)"
    by (simp add: div_s64_def)
  define v where "v = d sdiv int n + s 0"
  have "(\<Sum>i \<in> {0..<n}. s i) = d + int n * s 0"
    using n by (cases n) (simp_all add: d_def sum.atLeast_Suc_lessThan sum_subtractf algebra_simps)
  then have sum: "(\<Sum>w\<leftarrow>window ?xs. sint w) = d + int n * s 0"
    using window_sum(1)[OF holds'] by (simp add: s_def n_def)
  have mean: "\<bar>v * int (length (window ?xs)) - (\<Sum>w\<leftarrow>window ?xs. sint w)\<bar> < int (length (window ?xs))"
    using truncated_quotient[of "int n" d] n sum by (simp add: v_def algebra_simps)
  have "- 9223372036854775808 \<le> v" "v \<le> 9223372036854775807"
    by (rule mean_between[OF mean]; rule sint_range_64)+
  moreover have "ma_output f' = word_of_int v" by (simp add: out quot v_def s_def)
  ultimately have "sint (ma_output f') = v" by (simp add: sint_word_of_int_64)
  then show ?thesis using mean by (simp add: offset_mean_def)
qed

subsection \<open>A run of conversions\<close>

text \<open>The samples a run of calls adds, each call given by the kernel clock and the counter it read.\<close>

fun accepted :: "u64 \<Rightarrow> (u64 \<times> u64) list \<Rightarrow> u64 list" where
  "accepted prev [] = []"
| "accepted prev ((b, c) # rs) = (if b < prev + FILTER_FREQ then accepted prev rs
     else (b - arch_counter_to_ns c) # accepted b rs)"

fun monotonic_calls :: "(u64 \<times> u64) list \<Rightarrow> timesync \<Rightarrow> timesync" where
  "monotonic_calls [] t = t"
| "monotonic_calls ((b, c) # rs) t = monotonic_calls rs (snd (mtk_cam_timesync_to_monotonic b c 0 t))"

definition ma_averages :: "u64 list \<Rightarrow> moving_average \<Rightarrow> bool" where
  "ma_averages xs f \<longleftrightarrow> ma_holds xs f
     \<and> (xs \<noteq> [] \<longrightarrow> (\<forall>lo hi. close_samples xs lo hi \<longrightarrow> offset_mean xs (ma_output f)))"

lemma ma_averages_step:
  assumes "ma_averages xs f"
  shows "if b < last_time f + FILTER_FREQ then moving_average_filter b a f = f
    else ma_averages (xs @ [b - a]) (moving_average_filter b a f) \<and> last_time (moving_average_filter b a f) = b"
proof (cases "b < last_time f + FILTER_FREQ")
  case False
  then have "last_time (moving_average_filter b a f) = b"
    by (simp add: moving_average_filter_def Let_def)
  then show ?thesis
    using False assms ring_write[of xs f b a] filter_mean[of xs f b a] by (auto simp: ma_averages_def)
qed (simp add: ma_skip)

lemma monotonic_calls_averages:
  assumes "ma_averages xs (mono t)"
  shows "ma_averages (xs @ accepted (last_time (mono t)) rs) (mono (monotonic_calls rs t))"
  using assms
proof (induction rs arbitrary: xs t)
  case (Cons r rs)
  obtain b c where r: "r = (b, c)" by (cases r)
  let ?t = "snd (mtk_cam_timesync_to_monotonic b c 0 t)"
  have "mono ?t = moving_average_filter b (arch_counter_to_ns c) (mono t)"
    by (simp add: mtk_cam_timesync_to_monotonic_def Let_def)
  then show ?case
    using ma_averages_step[OF Cons.prems, of b "arch_counter_to_ns c"] Cons.IH[of xs ?t]
      Cons.IH[of "xs @ [b - arch_counter_to_ns c]" ?t] Cons.prems
    by (simp add: r split: if_splits)
qed simp

lemma monotonic_calls_snoc:
  "monotonic_calls (rs @ [(b, c)]) t = snd (mtk_cam_timesync_to_monotonic b c hw (monotonic_calls rs t))"
  by (induction rs t rule: monotonic_calls.induct) (simp_all add: mtk_cam_timesync_to_monotonic_def Let_def)

text \<open>
  A conversion to monotonic time after any run of calls returns the converted hardware time plus
  an offset that is the mean, to within one nanosecond, of the last sixteen samples taken since the
  filter was initialised (all of them when there were fewer), and lies between the smallest and the
  largest of those, provided at least one sample was taken and they are within 2^58 ns of each
  other. Samples are taken only when ten milliseconds have passed since the last one.\<close>

theorem timesync_offset_correct:
  assumes "status \<noteq> 0" and "xs = accepted 0 (rs @ [(b, c)])" and "xs \<noteq> []" and "close_samples xs lo hi"
    and "(result, t') = mtk_cam_timesync_to_monotonic b c hw (monotonic_calls rs (mtk_cam_timesync_init status t))"
  shows "\<exists>off. result = arch_counter_to_ns hw + off \<and> offset_mean xs off \<and> lo \<le> sint off \<and> sint off \<le> hi"
proof -
  let ?t = "mtk_cam_timesync_init status t"
  have init: "mono ?t = filter_algo_init" using assms(1) by (simp add: mtk_cam_timesync_init_def)
  then have "ma_averages [] (mono ?t)" by (simp add: ma_averages_def ma_holds_init)
  then have avg: "ma_averages xs (mono (monotonic_calls (rs @ [(b, c)]) ?t))"
    using monotonic_calls_averages[of "[]" ?t "rs @ [(b, c)]"] init assms(2) by (simp add: filter_algo_init_def)
  have t': "t' = monotonic_calls (rs @ [(b, c)]) ?t"
    using assms(5) monotonic_calls_snoc[of rs b c ?t hw] by (metis snd_conv)
  have mean: "offset_mean xs (ma_output (mono t'))"
    using avg assms(3,4) by (auto simp: ma_averages_def t')
  have "result = arch_counter_to_ns hw + ma_output (mono t')"
    using assms(5) by (simp add: mtk_cam_timesync_to_monotonic_def Let_def get_filter_output_def)
  moreover have "lo \<le> sint (ma_output (mono t'))" "sint (ma_output (mono t')) \<le> hi"
    using assms(4)
    by (auto simp: close_samples_def intro: mean_between[OF mean[unfolded offset_mean_def], where lo = lo and hi = hi])
  ultimately show ?thesis using mean by blast
qed

theorem timesync_offset_correct_witness:
  "\<exists>off. fst (mtk_cam_timesync_to_monotonic 1000030000000 13000260 26000000
        (monotonic_calls [(1000000000000, 13000000), (1000000000500, 13000013)]
          (mtk_cam_timesync_init 1 \<lparr>mono = filter_algo_init, boot = filter_algo_init\<rparr>)))
      = arch_counter_to_ns 26000000 + off
    \<and> 998000000000 \<le> sint off \<and> sint off \<le> 999040000000"
proof -
  have acc: "accepted 0 ([(1000000000000, 13000000), (1000000000500, 13000013)] @ [(1000030000000, 13000260)])
      = [998999999998, 999029979998]"
    by (simp add: FILTER_FREQ_def arch_counter_to_ns_def drop_bit_eq_div)
  have close: "close_samples [998999999998, 999029979998] 998000000000 999040000000"
    by (simp add: close_samples_def window_def)
  show ?thesis
    using timesync_offset_correct[OF one_neq_zero acc[symmetric] list.distinct(2) close prod.collapse] by blast
qed

end
