(* ===== verification/CamFeature.thy ===== *)
theory CamFeature
  imports Prelude
begin

text \<open>
  \<open>mtk_cam-feature.h\<close>, \<open>mtk_cam-feature.c\<close>: what a raw feature word says (HDR kind, sub-sampling,
  off-line use) and which exposure change a new word asks for. Feature words are 32 bits wide.
\<close>

unbundle bit_operations_syntax

subsection \<open>Feature words (\<open>mtk_cam-raw.h\<close>)\<close>

definition MTK_CAM_FEATURE_HDR_MASK :: u32 where "MTK_CAM_FEATURE_HDR_MASK = 0x0000000F"
definition MTK_CAM_FEATURE_SUBSAMPLE_MASK :: u32 where "MTK_CAM_FEATURE_SUBSAMPLE_MASK = 0x000000F0"
definition MTK_CAM_FEATURE_OFFLINE_M2M_MASK :: u32 where "MTK_CAM_FEATURE_OFFLINE_M2M_MASK = 0x00000100"
definition MTK_CAM_FEATURE_PURE_OFFLINE_M2M_MASK :: u32 where
  "MTK_CAM_FEATURE_PURE_OFFLINE_M2M_MASK = 0x00000200"
definition MTK_CAM_FEATURE_TIMESHARE_MASK :: u32 where "MTK_CAM_FEATURE_TIMESHARE_MASK = 0x00001000"
definition MTK_CAM_FEATURE_HDR_MEMORY_SAVING_MASK :: u32 where
  "MTK_CAM_FEATURE_HDR_MEMORY_SAVING_MASK = 0x00002000"

definition STAGGER_2_EXPOSURE_LE_SE :: u32 where "STAGGER_2_EXPOSURE_LE_SE = 1"
definition STAGGER_2_EXPOSURE_SE_LE :: u32 where "STAGGER_2_EXPOSURE_SE_LE = 2"
definition STAGGER_3_EXPOSURE_LE_NE_SE :: u32 where "STAGGER_3_EXPOSURE_LE_NE_SE = 3"
definition STAGGER_3_EXPOSURE_SE_NE_LE :: u32 where "STAGGER_3_EXPOSURE_SE_NE_LE = 4"
definition MSTREAM_NE_SE :: u32 where "MSTREAM_NE_SE = 5"
definition MSTREAM_SE_NE :: u32 where "MSTREAM_SE_NE = 6"
definition WITH_W_CHANNEL :: u32 where "WITH_W_CHANNEL = 0x00010000"

lemmas feature_ids =
  MTK_CAM_FEATURE_HDR_MASK_def MTK_CAM_FEATURE_SUBSAMPLE_MASK_def MTK_CAM_FEATURE_OFFLINE_M2M_MASK_def
  MTK_CAM_FEATURE_PURE_OFFLINE_M2M_MASK_def MTK_CAM_FEATURE_TIMESHARE_MASK_def
  STAGGER_2_EXPOSURE_LE_SE_def STAGGER_2_EXPOSURE_SE_LE_def STAGGER_3_EXPOSURE_LE_NE_SE_def
  STAGGER_3_EXPOSURE_SE_NE_LE_def MSTREAM_NE_SE_def MSTREAM_SE_NE_def WITH_W_CHANNEL_def

definition EXPOSURE_CHANGE_NONE :: u32 where "EXPOSURE_CHANGE_NONE = 0"
definition EXPOSURE_CHANGE_3_to_2 :: u32 where "EXPOSURE_CHANGE_3_to_2 = 1"
definition EXPOSURE_CHANGE_3_to_1 :: u32 where "EXPOSURE_CHANGE_3_to_1 = 2"
definition EXPOSURE_CHANGE_2_to_3 :: u32 where "EXPOSURE_CHANGE_2_to_3 = 3"
definition EXPOSURE_CHANGE_2_to_1 :: u32 where "EXPOSURE_CHANGE_2_to_1 = 4"
definition EXPOSURE_CHANGE_1_to_3 :: u32 where "EXPOSURE_CHANGE_1_to_3 = 5"
definition EXPOSURE_CHANGE_1_to_2 :: u32 where "EXPOSURE_CHANGE_1_to_2 = 6"
definition MSTREAM_EXPOSURE_CHANGE :: u32 where "MSTREAM_EXPOSURE_CHANGE = 16"

lemmas exposure_change_defs =
  EXPOSURE_CHANGE_NONE_def EXPOSURE_CHANGE_3_to_2_def EXPOSURE_CHANGE_3_to_1_def EXPOSURE_CHANGE_2_to_3_def
  EXPOSURE_CHANGE_2_to_1_def EXPOSURE_CHANGE_1_to_3_def EXPOSURE_CHANGE_1_to_2_def MSTREAM_EXPOSURE_CHANGE_def

subsection \<open>Predicates on a word (\<open>mtk_cam-feature.h\<close>)\<close>

definition mtk_cam_feature_is_mstream_m2m :: "u32 \<Rightarrow> bool" where
  "mtk_cam_feature_is_mstream_m2m feature =
     (if feature AND MTK_CAM_FEATURE_OFFLINE_M2M_MASK = 0 then False
      else let raw_feature = feature AND MTK_CAM_FEATURE_HDR_MASK
           in raw_feature = MSTREAM_NE_SE \<or> raw_feature = MSTREAM_SE_NE)"

definition mtk_cam_feature_is_mstream :: "u32 \<Rightarrow> bool" where
  "mtk_cam_feature_is_mstream feature =
     (if feature AND MTK_CAM_FEATURE_OFFLINE_M2M_MASK \<noteq> 0 then False
      else let raw_feature = feature AND MTK_CAM_FEATURE_HDR_MASK
           in raw_feature = MSTREAM_NE_SE \<or> raw_feature = MSTREAM_SE_NE)"

definition mtk_cam_feature_is_time_shared :: "u32 \<Rightarrow> bool" where
  "mtk_cam_feature_is_time_shared feature = (feature AND MTK_CAM_FEATURE_TIMESHARE_MASK \<noteq> 0)"

definition mtk_cam_feature_is_stagger_m2m :: "u32 \<Rightarrow> bool" where
  "mtk_cam_feature_is_stagger_m2m feature =
     (let is_hdr = feature AND MTK_CAM_FEATURE_HDR_MASK
      in feature AND MTK_CAM_FEATURE_OFFLINE_M2M_MASK \<noteq> 0
         \<and> STAGGER_2_EXPOSURE_LE_SE \<le> is_hdr \<and> is_hdr \<le> STAGGER_3_EXPOSURE_SE_NE_LE)"

definition mtk_cam_feature_is_m2m :: "u32 \<Rightarrow> bool" where
  "mtk_cam_feature_is_m2m feature = (feature AND MTK_CAM_FEATURE_OFFLINE_M2M_MASK \<noteq> 0
     \<or> feature AND MTK_CAM_FEATURE_PURE_OFFLINE_M2M_MASK \<noteq> 0)"

definition mtk_cam_feature_is_pure_m2m :: "u32 \<Rightarrow> bool" where
  "mtk_cam_feature_is_pure_m2m feature = (feature AND MTK_CAM_FEATURE_PURE_OFFLINE_M2M_MASK \<noteq> 0)"

definition mtk_cam_feature_is_stagger :: "u32 \<Rightarrow> bool" where
  "mtk_cam_feature_is_stagger feature =
     (if feature AND MTK_CAM_FEATURE_OFFLINE_M2M_MASK \<noteq> 0 then False
      else let is_hdr = feature AND MTK_CAM_FEATURE_HDR_MASK
           in is_hdr \<noteq> 0 \<and> STAGGER_2_EXPOSURE_LE_SE \<le> is_hdr \<and> is_hdr \<le> STAGGER_3_EXPOSURE_SE_NE_LE)"

definition mtk_cam_feature_is_subsample :: "u32 \<Rightarrow> bool" where
  "mtk_cam_feature_is_subsample feature = (feature AND MTK_CAM_FEATURE_SUBSAMPLE_MASK \<noteq> 0)"

definition mtk_cam_feature_is_2_exposure :: "u32 \<Rightarrow> bool" where
  "mtk_cam_feature_is_2_exposure feature =
     (let raw_feature = feature AND 0x0000000F
      in raw_feature = STAGGER_2_EXPOSURE_LE_SE \<or> raw_feature = STAGGER_2_EXPOSURE_SE_LE
         \<or> mtk_cam_feature_is_mstream feature)"

definition mtk_cam_feature_is_3_exposure :: "u32 \<Rightarrow> bool" where
  "mtk_cam_feature_is_3_exposure feature =
     (let raw_feature = feature AND 0x0000000F
      in raw_feature = STAGGER_3_EXPOSURE_LE_NE_SE \<or> raw_feature = STAGGER_3_EXPOSURE_SE_NE_LE)"

definition mtk_cam_feature_change_is_mstream :: "u32 \<Rightarrow> bool" where
  "mtk_cam_feature_change_is_mstream feature_change = (feature_change AND MSTREAM_EXPOSURE_CHANGE \<noteq> 0)"

definition mtk_cam_feature_is_switchable_hdr :: "u32 \<Rightarrow> bool" where
  "mtk_cam_feature_is_switchable_hdr feature =
     (mtk_cam_feature_is_stagger feature \<or> mtk_cam_feature_is_mstream feature)"

subsection \<open>Predicates on a context (\<open>mtk_cam-feature.c\<close>)\<close>

text \<open>The fields of a stream context and its raw pipeline the predicates read.\<close>

record cam_feature_ctx =
  fc_used_raw_num :: u32
  fc_feature_pending :: u32
  fc_feature_active :: u32
  fc_enable_hsf_raw :: u32

definition mtk_cam_is_time_shared :: "cam_feature_ctx \<Rightarrow> bool" where
  "mtk_cam_is_time_shared ctx = (if fc_used_raw_num ctx = 0 then False
     else mtk_cam_feature_is_time_shared (fc_feature_pending ctx))"

definition mtk_cam_is_hsf :: "cam_feature_ctx \<Rightarrow> bool" where
  "mtk_cam_is_hsf ctx = (if fc_used_raw_num ctx = 0 then False else fc_enable_hsf_raw ctx \<noteq> 0)"

definition mtk_cam_is_pure_m2m :: "cam_feature_ctx \<Rightarrow> bool" where
  "mtk_cam_is_pure_m2m ctx = (if fc_used_raw_num ctx = 0 then False
     else fc_feature_pending ctx AND MTK_CAM_FEATURE_PURE_OFFLINE_M2M_MASK \<noteq> 0)"

definition mtk_cam_is_m2m :: "cam_feature_ctx \<Rightarrow> bool" where
  "mtk_cam_is_m2m ctx = (if fc_used_raw_num ctx = 0 then False
     else mtk_cam_feature_is_m2m (fc_feature_pending ctx))"

definition mtk_cam_is_stagger_m2m :: "cam_feature_ctx \<Rightarrow> bool" where
  "mtk_cam_is_stagger_m2m ctx = (if fc_used_raw_num ctx = 0 then False
     else mtk_cam_feature_is_stagger_m2m (fc_feature_pending ctx))"

text \<open>Alone of these, it reads the active word.\<close>

definition mtk_cam_is_stagger :: "cam_feature_ctx \<Rightarrow> bool" where
  "mtk_cam_is_stagger ctx = (if fc_used_raw_num ctx = 0 then False
     else mtk_cam_feature_is_stagger (fc_feature_active ctx))"

definition mtk_cam_is_mstream_m2m :: "cam_feature_ctx \<Rightarrow> bool" where
  "mtk_cam_is_mstream_m2m ctx = (if fc_used_raw_num ctx = 0 then False
     else mtk_cam_feature_is_mstream_m2m (fc_feature_pending ctx))"

definition mtk_cam_is_mstream :: "cam_feature_ctx \<Rightarrow> bool" where
  "mtk_cam_is_mstream ctx = (if fc_used_raw_num ctx = 0 then False
     else mtk_cam_feature_is_mstream (fc_feature_pending ctx))"

definition mtk_cam_is_subsample :: "cam_feature_ctx \<Rightarrow> bool" where
  "mtk_cam_is_subsample ctx = (if fc_used_raw_num ctx = 0 then False
     else mtk_cam_feature_is_subsample (fc_feature_pending ctx))"

definition mtk_cam_is_2_exposure :: "cam_feature_ctx \<Rightarrow> bool" where
  "mtk_cam_is_2_exposure ctx = (if fc_used_raw_num ctx = 0 then False
     else mtk_cam_feature_is_2_exposure (fc_feature_pending ctx))"

definition mtk_cam_is_3_exposure :: "cam_feature_ctx \<Rightarrow> bool" where
  "mtk_cam_is_3_exposure ctx = (if fc_used_raw_num ctx = 0 then False
     else mtk_cam_feature_is_3_exposure (fc_feature_pending ctx))"

definition mtk_cam_is_with_w_channel :: "cam_feature_ctx \<Rightarrow> bool" where
  "mtk_cam_is_with_w_channel ctx = (if fc_used_raw_num ctx = 0 then False
     else fc_feature_pending ctx AND WITH_W_CHANNEL \<noteq> 0)"

definition mtk_cam_get_sensor_exposure_num :: "u32 \<Rightarrow> u32" where
  "mtk_cam_get_sensor_exposure_num raw_feature =
     (let raw_feature = raw_feature AND MTK_CAM_FEATURE_HDR_MASK in
      if raw_feature = STAGGER_3_EXPOSURE_LE_NE_SE \<or> raw_feature = STAGGER_3_EXPOSURE_SE_NE_LE then 3
      else if raw_feature = STAGGER_2_EXPOSURE_LE_SE \<or> raw_feature = STAGGER_2_EXPOSURE_SE_LE then 2
      else 1)"

text \<open>\<open>cur\<close> is the pipeline's pending word. The first test compares with \<open>LE_SE\<close> twice.\<close>

definition mtk_cam_get_feature_switch :: "u32 \<Rightarrow> u32 \<Rightarrow> u32" where
  "mtk_cam_get_feature_switch cur prev =
     (if cur = prev then EXPOSURE_CHANGE_NONE
      else if cur AND MTK_CAM_FEATURE_HDR_MASK \<noteq> 0 \<or> prev AND MTK_CAM_FEATURE_HDR_MASK \<noteq> 0 then
        if mtk_cam_feature_is_mstream cur \<or> mtk_cam_feature_is_mstream prev then
          if prev = 0 \<and> mtk_cam_feature_is_mstream cur then EXPOSURE_CHANGE_1_to_2 OR MSTREAM_EXPOSURE_CHANGE
          else if cur = 0 \<and> mtk_cam_feature_is_mstream prev then EXPOSURE_CHANGE_2_to_1 OR MSTREAM_EXPOSURE_CHANGE
          else EXPOSURE_CHANGE_NONE
        else let cur = cur AND MTK_CAM_FEATURE_HDR_MASK; prev = prev AND MTK_CAM_FEATURE_HDR_MASK in
          if (cur = STAGGER_2_EXPOSURE_LE_SE \<or> cur = STAGGER_2_EXPOSURE_LE_SE)
             \<and> (prev = STAGGER_3_EXPOSURE_LE_NE_SE \<or> prev = STAGGER_3_EXPOSURE_SE_NE_LE)
          then EXPOSURE_CHANGE_3_to_2
          else if (prev = STAGGER_2_EXPOSURE_LE_SE \<or> prev = STAGGER_2_EXPOSURE_SE_LE)
             \<and> (cur = STAGGER_3_EXPOSURE_LE_NE_SE \<or> cur = STAGGER_3_EXPOSURE_SE_NE_LE)
          then EXPOSURE_CHANGE_2_to_3
          else if prev = 0 \<and> (cur = STAGGER_3_EXPOSURE_LE_NE_SE \<or> cur = STAGGER_3_EXPOSURE_SE_NE_LE)
          then EXPOSURE_CHANGE_1_to_3
          else if cur = 0 \<and> (prev = STAGGER_3_EXPOSURE_LE_NE_SE \<or> prev = STAGGER_3_EXPOSURE_SE_NE_LE)
          then EXPOSURE_CHANGE_3_to_1
          else if prev = 0 \<and> (cur = STAGGER_2_EXPOSURE_LE_SE \<or> cur = STAGGER_2_EXPOSURE_SE_LE)
          then EXPOSURE_CHANGE_1_to_2
          else if cur = 0 \<and> (prev = STAGGER_2_EXPOSURE_LE_SE \<or> prev = STAGGER_2_EXPOSURE_SE_LE)
          then EXPOSURE_CHANGE_2_to_1
          else EXPOSURE_CHANGE_NONE
      else EXPOSURE_CHANGE_NONE)"

subsection \<open>What a switch asks for\<close>

text \<open>The change between two exposure counts.\<close>

definition exposure_change :: "u32 \<Rightarrow> u32 \<Rightarrow> u32" where
  "exposure_change from to =
     (if from = 3 \<and> to = 2 then EXPOSURE_CHANGE_3_to_2 else if from = 3 \<and> to = 1 then EXPOSURE_CHANGE_3_to_1
      else if from = 2 \<and> to = 3 then EXPOSURE_CHANGE_2_to_3 else if from = 2 \<and> to = 1 then EXPOSURE_CHANGE_2_to_1
      else if from = 1 \<and> to = 3 then EXPOSURE_CHANGE_1_to_3 else if from = 1 \<and> to = 2 then EXPOSURE_CHANGE_1_to_2
      else EXPOSURE_CHANGE_NONE)"

lemma word_le_4: "x \<le> 4 \<Longrightarrow> x = 0 \<or> x = 1 \<or> x = 2 \<or> x = 3 \<or> x = (4 :: u32)"
proof -
  assume "x \<le> 4"
  then have "unat x = 0 \<or> unat x = 1 \<or> unat x = 2 \<or> unat x = 3 \<or> unat x = 4"
    by (auto simp: word_le_nat_alt)
  then have "unat x = unat (0 :: u32) \<or> unat x = unat (1 :: u32) \<or> unat x = unat (2 :: u32)
      \<or> unat x = unat (3 :: u32) \<or> unat x = unat (4 :: u32)" by simp
  then show ?thesis by (metis unsigned_word_eqI)
qed

text \<open>
  For single-exposure and staggered words the requested switch is the change between the two
  exposure counts, with one exception: a switch from three exposures to two in the order short
  before long is reported as no change.\<close>

theorem feature_switch_correct:
  assumes "cur AND MTK_CAM_FEATURE_HDR_MASK \<le> STAGGER_3_EXPOSURE_SE_NE_LE"
    and "prev AND MTK_CAM_FEATURE_HDR_MASK \<le> STAGGER_3_EXPOSURE_SE_NE_LE"
  shows "mtk_cam_get_feature_switch cur prev =
    (if cur AND MTK_CAM_FEATURE_HDR_MASK = STAGGER_2_EXPOSURE_SE_LE \<and> mtk_cam_feature_is_3_exposure prev
     then EXPOSURE_CHANGE_NONE
     else exposure_change (mtk_cam_get_sensor_exposure_num prev) (mtk_cam_get_sensor_exposure_num cur))"
proof -
  define c where "c = cur AND 15" define p where "p = prev AND 15"
  have c: "c = 0 \<or> c = 1 \<or> c = 2 \<or> c = 3 \<or> c = 4" and p: "p = 0 \<or> p = 1 \<or> p = 2 \<or> p = 3 \<or> p = 4"
    using assms word_le_4[of c] word_le_4[of p] by (auto simp: c_def p_def feature_ids)
  have no_mstream: "\<not> mtk_cam_feature_is_mstream cur" "\<not> mtk_cam_feature_is_mstream prev"
    using c p by (auto simp: mtk_cam_feature_is_mstream_def feature_ids Let_def c_def[symmetric] p_def[symmetric])
  show ?thesis
  proof (cases "cur = prev")
    case True
    then have "c = p" by (simp add: c_def p_def)
    with True p show ?thesis
      by (auto simp: mtk_cam_get_feature_switch_def mtk_cam_feature_is_3_exposure_def exposure_change_def
          feature_ids Let_def c_def[symmetric] p_def[symmetric])
  next
    case False
    have switch: "mtk_cam_get_feature_switch cur prev =
        (if c = 1 \<and> (p = 3 \<or> p = 4) then EXPOSURE_CHANGE_3_to_2
         else if (p = 1 \<or> p = 2) \<and> (c = 3 \<or> c = 4) then EXPOSURE_CHANGE_2_to_3
         else if p = 0 \<and> (c = 3 \<or> c = 4) then EXPOSURE_CHANGE_1_to_3
         else if c = 0 \<and> (p = 3 \<or> p = 4) then EXPOSURE_CHANGE_3_to_1
         else if p = 0 \<and> (c = 1 \<or> c = 2) then EXPOSURE_CHANGE_1_to_2
         else if c = 0 \<and> (p = 1 \<or> p = 2) then EXPOSURE_CHANGE_2_to_1
         else EXPOSURE_CHANGE_NONE)"
      using False by (auto simp: mtk_cam_get_feature_switch_def no_mstream feature_ids Let_def
          c_def[symmetric] p_def[symmetric])
    have nums: "mtk_cam_get_sensor_exposure_num cur = (if c = 3 \<or> c = 4 then 3 else if c = 1 \<or> c = 2 then 2 else 1)"
      "mtk_cam_get_sensor_exposure_num prev = (if p = 3 \<or> p = 4 then 3 else if p = 1 \<or> p = 2 then 2 else 1)"
      "mtk_cam_feature_is_3_exposure prev \<longleftrightarrow> p = 3 \<or> p = 4"
      "cur AND MTK_CAM_FEATURE_HDR_MASK = STAGGER_2_EXPOSURE_SE_LE \<longleftrightarrow> c = 2"
      by (simp_all add: mtk_cam_get_sensor_exposure_num_def mtk_cam_feature_is_3_exposure_def feature_ids Let_def
          c_def p_def)
    show ?thesis
      unfolding switch nums exposure_change_def using c p by (elim disjE; simp)
  qed
qed

theorem feature_switch_correct_witness:
  "mtk_cam_get_feature_switch STAGGER_2_EXPOSURE_SE_LE STAGGER_3_EXPOSURE_LE_NE_SE = EXPOSURE_CHANGE_NONE
   \<and> mtk_cam_get_feature_switch STAGGER_2_EXPOSURE_LE_SE STAGGER_3_EXPOSURE_LE_NE_SE = EXPOSURE_CHANGE_3_to_2"
  using feature_switch_correct[of STAGGER_2_EXPOSURE_SE_LE STAGGER_3_EXPOSURE_LE_NE_SE]
    feature_switch_correct[of STAGGER_2_EXPOSURE_LE_SE STAGGER_3_EXPOSURE_LE_NE_SE]
  by (simp add: feature_ids mtk_cam_feature_is_3_exposure_def mtk_cam_get_sensor_exposure_num_def
      exposure_change_def exposure_change_defs)

end
