(* ===== verification/CcdMem.thy ===== *)
theory CcdMem
  imports Prelude "HOL-Library.Multiset"
begin

text \<open>
  \<open>drivers/remoteproc/mtk_ccd_mem.c\<close>: the table of DMA buffers of the camera co-processor. A buffer is
  a reference-counted object; exporting it as a dma-buf takes a second reference, and the dma-buf is
  itself a counted file that an open file descriptor refers to. The objects live in explicit stores
  (\<open>ccd_heap\<close>, \<open>ccd_files\<close>, \<open>ccd_fds\<close>), so that a use after free or a leak is visible; a run that
  dereferences a missing object is \<open>None\<close>. What the kernel decides (whether an allocation or an export
  succeeds, which descriptor is unused) is the parameter \<open>env\<close>.
\<close>

definition CCD_ALLOCATE_MAX_BUFFER_SIZE :: u64 where "CCD_ALLOCATE_MAX_BUFFER_SIZE = 0x20000000"
definition MAX_NUMBER_OF_BUFFER :: u32 where "MAX_NUMBER_OF_BUFFER = 128"

definition EINVAL :: int where "EINVAL = 22"
definition ENOMEM :: int where "ENOMEM = 12"
definition EMFILE :: int where "EMFILE = 24"

subsection \<open>State\<close>

record mem_obj =
  iova :: u64
  len :: u32
  va :: u64

text \<open>\<open>struct mtk_ccd_buf\<close> and the dma-buf made from it.\<close>

record mtk_ccd_buf =
  vaddr :: u64
  dma_addr :: u64
  bsize :: u64
  refcount :: nat
  sgt_base :: bool
  dbuf :: "nat option"

record dma_buf =
  db_priv :: nat
  f_count :: nat

datatype mem_priv = NULL_PRIV | ERR_PRIV | PRIV nat

record mtk_ccd_mem =
  mem_priv :: mem_priv
  msize :: u64

record mtk_ccd =
  num_buffers :: u32
  bufs :: "nat \<Rightarrow> mtk_ccd_mem"
  ccd_heap :: "nat \<rightharpoonup> mtk_ccd_buf"
  ccd_files :: "nat \<rightharpoonup> dma_buf"
  ccd_fds :: "int \<rightharpoonup> nat"
  ccd_next :: nat

text \<open>The kernel. \<open>dma_alloc\<close> stands for \<open>kzalloc\<close> and \<open>dma_alloc_attrs\<close> together.\<close>

record ccd_env =
  dma_alloc :: "mtk_ccd \<Rightarrow> u64 \<Rightarrow> (u64 \<times> u64) option"
  dma_get_sgtable :: "mtk_ccd \<Rightarrow> nat \<Rightarrow> bool"
  dma_buf_export :: "mtk_ccd \<Rightarrow> nat \<Rightarrow> bool"
  get_unused_fd :: "mtk_ccd \<Rightarrow> int"
  nofile :: nat
  current_files :: bool

definition mtk_ccd_mem_init :: mtk_ccd where
  "mtk_ccd_mem_init = \<lparr>num_buffers = 0, bufs = (\<lambda>_. \<lparr>mem_priv = NULL_PRIV, msize = 0\<rparr>),
     ccd_heap = Map.empty, ccd_files = Map.empty, ccd_fds = Map.empty, ccd_next = 0\<rparr>"

subsection \<open>Buffer objects\<close>

definition mtk_ccd_buf_alloc :: "ccd_env \<Rightarrow> u64 \<Rightarrow> mtk_ccd \<Rightarrow> nat option \<times> mtk_ccd" where
  "mtk_ccd_buf_alloc env sz w = (case dma_alloc env w sz of
       None \<Rightarrow> (None, w)
     | Some (cpu, dma) \<Rightarrow>
         (Some (ccd_next w),
          w\<lparr>ccd_heap := (ccd_heap w)(ccd_next w \<mapsto>
               \<lparr>vaddr = cpu, dma_addr = dma, bsize = sz, refcount = 1, sgt_base = False, dbuf = None\<rparr>),
            ccd_next := ccd_next w + 1\<rparr>))"

definition mtk_ccd_buf_put :: "nat \<Rightarrow> mtk_ccd \<Rightarrow> mtk_ccd option" where
  "mtk_ccd_buf_put b w = (case ccd_heap w b of
       None \<Rightarrow> None
     | Some buf \<Rightarrow> if refcount buf = 0 then None
         else if refcount buf = 1 then Some (w\<lparr>ccd_heap := (ccd_heap w)(b := None)\<rparr>)
         else Some (w\<lparr>ccd_heap := (ccd_heap w)(b \<mapsto> buf\<lparr>refcount := refcount buf - 1\<rparr>)\<rparr>))"

text \<open>Dropping a reference to a file; the last one releases the dma-buf, which puts its buffer.\<close>

definition dma_buf_put :: "nat \<Rightarrow> mtk_ccd \<Rightarrow> mtk_ccd option" where
  "dma_buf_put d w = (case ccd_files w d of
       None \<Rightarrow> None
     | Some f \<Rightarrow> if 1 < f_count f then Some (w\<lparr>ccd_files := (ccd_files w)(d \<mapsto> f\<lparr>f_count := f_count f - 1\<rparr>)\<rparr>)
         else mtk_ccd_buf_put (db_priv f) (w\<lparr>ccd_files := (ccd_files w)(d := None)\<rparr>))"

definition close_fd :: "int \<Rightarrow> mtk_ccd \<Rightarrow> mtk_ccd option" where
  "close_fd fd w = (case ccd_fds w fd of
       None \<Rightarrow> Some w
     | Some d \<Rightarrow> dma_buf_put d (w\<lparr>ccd_fds := (ccd_fds w)(fd := None)\<rparr>))"

definition mtk_ccd_get_dmabuf :: "ccd_env \<Rightarrow> nat \<Rightarrow> mtk_ccd \<Rightarrow> (nat option \<times> mtk_ccd) option" where
  "mtk_ccd_get_dmabuf env b w = (case ccd_heap w b of
       None \<Rightarrow> None
     | Some buf \<Rightarrow>
         let buf = (if sgt_base buf then buf else buf\<lparr>sgt_base := dma_get_sgtable env w b\<rparr>);
             w = w\<lparr>ccd_heap := (ccd_heap w)(b \<mapsto> buf)\<rparr>
         in if \<not> sgt_base buf then Some (None, w)
            else if \<not> dma_buf_export env w b then Some (None, w)
            else let d = ccd_next w in
              Some (Some d, w\<lparr>ccd_heap := (ccd_heap w)(b \<mapsto> buf\<lparr>dbuf := Some d, refcount := refcount buf + 1\<rparr>),
                ccd_files := (ccd_files w)(d \<mapsto> \<lparr>db_priv = b, f_count = 1\<rparr>), ccd_next := d + 1\<rparr>))"

subsection \<open>The table\<close>

definition mtk_ccd_get_buffer :: "ccd_env \<Rightarrow> mem_obj \<Rightarrow> mtk_ccd \<Rightarrow> (int + nat) \<times> mem_obj \<times> mtk_ccd" where
  "mtk_ccd_get_buffer env m w =
     (let m = m\<lparr>iova := 0, va := 0\<rparr>; n = num_buffers w in
      if CCD_ALLOCATE_MAX_BUFFER_SIZE < ucast (len m) \<or> len m = 0 \<or> MAX_NUMBER_OF_BUFFER \<le> n
      then (Inl (- EINVAL), m, w)
      else case mtk_ccd_buf_alloc env (ucast (len m)) w of
        (None, w) \<Rightarrow> (Inl (- ENOMEM), m,
           w\<lparr>bufs := (bufs w)(unat n := \<lparr>mem_priv = ERR_PRIV, msize = ucast (len m)\<rparr>)\<rparr>)
      | (Some b, w) \<Rightarrow>
          let buf = the (ccd_heap w b) in
          (Inr b, m\<lparr>iova := dma_addr buf, va := vaddr buf\<rparr>,
           w\<lparr>bufs := (bufs w)(unat n := \<lparr>mem_priv = PRIV b, msize = ucast (len m)\<rparr>), num_buffers := n + 1\<rparr>))"

text \<open>The search both put functions do: the first slot whose address and length match.\<close>

fun ccd_find :: "mtk_ccd \<Rightarrow> mem_obj \<Rightarrow> nat list \<Rightarrow> (nat \<times> nat) option option" where
  "ccd_find w m [] = Some None"
| "ccd_find w m (i # is) = (case mem_priv (bufs w i) of
     PRIV b \<Rightarrow> (case ccd_heap w b of
         None \<Rightarrow> None
       | Some buf \<Rightarrow> if va m = vaddr buf \<and> ucast (len m) = msize (bufs w i) then Some (Some (i, b))
           else ccd_find w m is)
   | _ \<Rightarrow> None)"

definition mtk_ccd_put_buffer :: "mem_obj \<Rightarrow> mtk_ccd \<Rightarrow> (int \<times> mtk_ccd) option" where
  "mtk_ccd_put_buffer m w =
     (let n = unat (num_buffers w) in
      if num_buffers w = 0 then Some (- EINVAL, w)
      else do {
        found \<leftarrow> ccd_find w m [0..<n];
        case found of
          None \<Rightarrow> Some (- EINVAL, w)
        | Some (i, b) \<Rightarrow> do {
            w \<leftarrow> mtk_ccd_buf_put b w;
            let bs = (if n - 1 \<noteq> i then (bufs w)(i := bufs w (n - 1)) else bufs w);
            Some (0, w\<lparr>bufs := bs(n - 1 := \<lparr>mem_priv = NULL_PRIV, msize = 0\<rparr>), num_buffers := num_buffers w - 1\<rparr>)
          }
      })"

subsection \<open>Descriptors\<close>

definition mtk_ccd_get_fd :: "ccd_env \<Rightarrow> nat \<Rightarrow> mtk_ccd \<Rightarrow> (int \<times> mtk_ccd) option" where
  "mtk_ccd_get_fd env b w = do {
     (dbuf, w) \<leftarrow> mtk_ccd_get_dmabuf env b w;
     case dbuf of
       None \<Rightarrow> Some (0, w)
     | Some d \<Rightarrow> do {
         let target_fd = get_unused_fd env w;
         f \<leftarrow> ccd_files w d;
         let w = w\<lparr>ccd_files := (ccd_files w)(d \<mapsto> f\<lparr>f_count := f_count f + 1\<rparr>)\<rparr>;
         if target_fd < 0 then Some (- EMFILE, w)
         else Some (target_fd, w\<lparr>ccd_fds := (ccd_fds w)(target_fd \<mapsto> d)\<rparr>)
       }
   }"

definition mtk_ccd_get_buffer_fd :: "ccd_env \<Rightarrow> mem_priv \<Rightarrow> mtk_ccd \<Rightarrow> (int \<times> mtk_ccd) option" where
  "mtk_ccd_get_buffer_fd env p w = (case p of
     NULL_PRIV \<Rightarrow> Some (- EINVAL, w) | ERR_PRIV \<Rightarrow> None | PRIV b \<Rightarrow> mtk_ccd_get_fd env b w)"

definition mtk_ccd_put_fd :: "ccd_env \<Rightarrow> mem_obj \<Rightarrow> int \<Rightarrow> mtk_ccd \<Rightarrow> (int \<times> mtk_ccd) option" where
  "mtk_ccd_put_fd env m target_fd w =
     (if num_buffers w = 0 then Some (- EINVAL, w)
      else do {
        found \<leftarrow> ccd_find w m [0..<unat (num_buffers w)];
        case found of
          None \<Rightarrow> Some (- EINVAL, w)
        | Some (_, b) \<Rightarrow> do {
            buf \<leftarrow> ccd_heap w b;
            d \<leftarrow> dbuf buf;
            f \<leftarrow> ccd_files w d;
            w \<leftarrow> (if 1 < f_count f \<and> current_files env then close_fd target_fd w else Some w);
            w \<leftarrow> dma_buf_put d w;
            Some (0, w)
          }
      })"

subsection \<open>A well-formed table\<close>

definition entries :: "mtk_ccd \<Rightarrow> mtk_ccd_mem list" where
  "entries w = map (bufs w) [0..<unat (num_buffers w)]"

lemma entries_update [simp]:
  "entries (w\<lparr>ccd_heap := h\<rparr>) = entries w" "entries (w\<lparr>ccd_files := fl\<rparr>) = entries w"
  "entries (w\<lparr>ccd_fds := g\<rparr>) = entries w" "entries (w\<lparr>ccd_next := k\<rparr>) = entries w"
  by (simp_all add: entries_def)

definition entry_ok :: "mtk_ccd \<Rightarrow> mtk_ccd_mem \<Rightarrow> bool" where
  "entry_ok w e \<longleftrightarrow> (case mem_priv e of
     PRIV b \<Rightarrow> (case ccd_heap w b of Some buf \<Rightarrow> bsize buf = msize e | None \<Rightarrow> False)
   | _ \<Rightarrow> False)"

lemma entry_ok_iff:
  "entry_ok w e \<longleftrightarrow> (\<exists>b buf. mem_priv e = PRIV b \<and> ccd_heap w b = Some buf \<and> bsize buf = msize e)"
  by (auto simp: entry_ok_def split: mem_priv.splits option.splits)

text \<open>Every counted slot names a live buffer of its size, no buffer twice, live buffers have different
  addresses, and identifiers not handed out yet name nothing.\<close>

definition ccd_ok :: "mtk_ccd \<Rightarrow> bool" where
  "ccd_ok w \<longleftrightarrow> num_buffers w \<le> MAX_NUMBER_OF_BUFFER
     \<and> (\<forall>e \<in> set (entries w). entry_ok w e) \<and> distinct (map mem_priv (entries w))
     \<and> (\<forall>b b' x y. ccd_heap w b = Some x \<longrightarrow> ccd_heap w b' = Some y \<longrightarrow> vaddr x = vaddr y \<longrightarrow> b = b')
     \<and> (\<forall>k. ccd_next w \<le> k \<longrightarrow> ccd_heap w k = None \<and> ccd_files w k = None)
     \<and> (\<forall>fd d. ccd_fds w fd = Some d \<longrightarrow> ccd_files w d \<noteq> None) \<and> finite (dom (ccd_fds w))"

lemma ccd_okI:
  assumes "num_buffers w \<le> MAX_NUMBER_OF_BUFFER"
    and "\<And>e. e \<in> set (entries w) \<Longrightarrow> entry_ok w e" and "distinct (map mem_priv (entries w))"
    and "\<And>b b' x y. ccd_heap w b = Some x \<Longrightarrow> ccd_heap w b' = Some y \<Longrightarrow> vaddr x = vaddr y \<Longrightarrow> b = b'"
    and "\<And>k. ccd_next w \<le> k \<Longrightarrow> ccd_heap w k = None \<and> ccd_files w k = None"
    and "\<And>fd d. ccd_fds w fd = Some d \<Longrightarrow> ccd_files w d \<noteq> None" and "finite (dom (ccd_fds w))"
  shows "ccd_ok w"
  unfolding ccd_ok_def using assms by (intro conjI ballI allI impI) blast+

lemma ccd_okD:
  assumes "ccd_ok w"
  shows "num_buffers w \<le> MAX_NUMBER_OF_BUFFER" "distinct (map mem_priv (entries w))"
    "e \<in> set (entries w) \<Longrightarrow> entry_ok w e" "ccd_next w \<le> k \<Longrightarrow> ccd_heap w k = None"
    "ccd_next w \<le> k \<Longrightarrow> ccd_files w k = None" "ccd_fds w fd = Some d \<Longrightarrow> ccd_files w d \<noteq> None"
    "finite (dom (ccd_fds w))"
  using assms by (simp_all add: ccd_ok_def)

lemma ccd_ok_init: "ccd_ok mtk_ccd_mem_init"
  by (simp add: ccd_ok_def mtk_ccd_mem_init_def entries_def)

text \<open>What the kernel promises: an allocation is not at the address of a live one, exports succeed, and while
  fewer than \<open>nofile\<close> of these descriptors are open there is an unused one.\<close>

definition alloc_ok :: "ccd_env \<Rightarrow> bool" where
  "alloc_ok env \<longleftrightarrow> (\<forall>w sz cpu dma. ccd_ok w \<longrightarrow> dma_alloc env w sz = Some (cpu, dma) \<longrightarrow>
     (\<forall>b buf. ccd_heap w b = Some buf \<longrightarrow> vaddr buf \<noteq> cpu))"

definition exports_ok :: "ccd_env \<Rightarrow> bool" where
  "exports_ok env \<longleftrightarrow> current_files env \<and> (\<forall>w b. dma_get_sgtable env w b \<and> dma_buf_export env w b)
     \<and> (\<forall>w. ccd_ok w \<longrightarrow> card (dom (ccd_fds w)) < nofile env \<longrightarrow>
          0 \<le> get_unused_fd env w \<and> ccd_fds w (get_unused_fd env w) = None)"

lemma ccd_ok_entry:
  assumes "ccd_ok w" and "e \<in> set (entries w)"
  obtains b buf where "mem_priv e = PRIV b" and "ccd_heap w b = Some buf" and "bsize buf = msize e"
  using assms by (auto simp: ccd_ok_def entry_ok_iff)

lemma ccd_ok_vaddr:
  "ccd_ok w \<Longrightarrow> ccd_heap w b = Some x \<Longrightarrow> ccd_heap w b' = Some y \<Longrightarrow> vaddr x = vaddr y \<Longrightarrow> b = b'"
  by (auto simp: ccd_ok_def)

text \<open>The search finds the slot of a live buffer, whatever its position.\<close>

lemma ccd_find_upto:
  assumes ok: "ccd_ok w" and buf: "ccd_heap w b = Some buf" "va m = vaddr buf" "ucast (len m) = bsize buf"
    and "set is \<subseteq> {0..<unat (num_buffers w)}" and "\<exists>i \<in> set is. mem_priv (bufs w i) = PRIV b"
  shows "\<exists>i \<in> set is. ccd_find w m is = Some (Some (i, b)) \<and> mem_priv (bufs w i) = PRIV b"
  using assms(5,6)
proof (induction "is")
  case (Cons i "is")
  have "bufs w i \<in> set (entries w)" using Cons.prems(1) by (auto simp: entries_def)
  then obtain c cbuf where c: "mem_priv (bufs w i) = PRIV c" "ccd_heap w c = Some cbuf" "bsize cbuf = msize (bufs w i)"
    using ccd_ok_entry[OF ok] by blast
  show ?case
  proof (cases "c = b")
    case True
    then show ?thesis using c buf by simp
  next
    case False
    then have "vaddr cbuf \<noteq> vaddr buf" using ccd_ok_vaddr[OF ok c(2) buf(1)] by blast
    then show ?thesis using c False Cons buf(2) by simp
  qed
qed simp

lemma ccd_find_live:
  assumes "ccd_ok w" and "ccd_heap w b = Some buf" "va m = vaddr buf" "ucast (len m) = bsize buf"
    and "PRIV b \<in> set (map mem_priv (entries w))"
  shows "\<exists>i < unat (num_buffers w). ccd_find w m [0..<unat (num_buffers w)] = Some (Some (i, b))
    \<and> mem_priv (bufs w i) = PRIV b"
proof -
  have "\<exists>i \<in> set [0..<unat (num_buffers w)]. mem_priv (bufs w i) = PRIV b"
    using assms(5) by (auto simp: entries_def)
  then show ?thesis using ccd_find_upto[OF assms(1-4), of "[0..<unat (num_buffers w)]"] by auto
qed

text \<open>Moving the last element into the hole removes one occurrence.\<close>

lemma mset_butlast: "xs \<noteq> [] \<Longrightarrow> mset (butlast xs) = mset xs - {#last xs#}"
  by (cases xs rule: rev_cases) simp_all

lemma mset_swap_remove:
  assumes "i < length xs"
  shows "mset (butlast (xs[i := last xs])) = mset xs - {#xs ! i#}"
proof (cases "i = length xs - 1")
  case True
  moreover have "xs \<noteq> []" using assms by auto
  ultimately have "xs ! i = last xs" by (simp add: last_conv_nth)
  then have "xs[i := last xs] = xs" and "xs ! i = last xs" by (metis list_update_id)+
  then show ?thesis using assms by (metis length_0_conv mset_butlast not_less_zero)
next
  case False
  have "last (xs[i := last xs]) = last xs" using assms False by (subst last_list_update) auto
  then have "mset (butlast (xs[i := last xs])) = mset (xs[i := last xs]) - {#last xs#}"
    using assms by (metis length_0_conv length_list_update mset_butlast not_less_zero)
  then show ?thesis using assms by (simp add: mset_update)
qed

lemma distinct_submset: "distinct xs \<Longrightarrow> mset ys \<subseteq># mset xs \<Longrightarrow> distinct ys"
proof -
  assume "distinct xs" and sub: "mset ys \<subseteq># mset xs"
  then have "count (mset xs) y \<le> 1" for y by (simp add: distinct_count_atmost_1)
  then have "count (mset ys) y \<le> 1" for y using mset_subset_eq_count[OF sub, of y] le_trans by blast
  moreover have "1 \<le> count (mset ys) y" if "y \<in> set ys" for y
    using that by (simp add: Suc_le_eq count_greater_zero_iff)
  ultimately show "distinct ys"
    unfolding distinct_count_atmost_1 by (metis count_eq_zero_iff le_antisym set_mset_mset)
qed

subsection \<open>What a client owns\<close>

text \<open>A client's buffer: object, dma-buf, descriptor, address and length.\<close>

type_synonym ccd_own = "nat \<times> nat \<times> int \<times> u64 \<times> u32"

definition own_buf :: "ccd_own \<Rightarrow> nat" where "own_buf x = fst x"
definition own_file :: "ccd_own \<Rightarrow> nat" where "own_file x = fst (snd x)"
definition own_fd :: "ccd_own \<Rightarrow> int" where "own_fd x = fst (snd (snd x))"
definition own_va :: "ccd_own \<Rightarrow> u64" where "own_va x = fst (snd (snd (snd x)))"
definition own_len :: "ccd_own \<Rightarrow> u32" where "own_len x = snd (snd (snd (snd x)))"
definition own_entry :: "ccd_own \<Rightarrow> mtk_ccd_mem" where
  "own_entry x = \<lparr>mem_priv = PRIV (own_buf x), msize = ucast (own_len x)\<rparr>"

lemmas own_defs = own_buf_def own_file_def own_fd_def own_va_def own_len_def

text \<open>The buffer has two references (the table's and the dma-buf's); user space may have closed the
  descriptor already, which took one of the file's two.\<close>

definition owns :: "mtk_ccd \<Rightarrow> ccd_own \<Rightarrow> bool" where
  "owns w x \<longleftrightarrow> (case (ccd_heap w (own_buf x), ccd_files w (own_file x)) of
     (Some buf, Some f) \<Rightarrow> refcount buf = 2 \<and> dbuf buf = Some (own_file x) \<and> vaddr buf = own_va x
        \<and> bsize buf = ucast (own_len x) \<and> db_priv f = own_buf x
        \<and> (f_count f = 2 \<and> ccd_fds w (own_fd x) = Some (own_file x) \<or> f_count f = 1 \<and> ccd_fds w (own_fd x) = None)
   | _ \<Rightarrow> False)"

text \<open>\<open>w\<close> is \<open>w0\<close> plus the buffers \<open>xs\<close>, and nothing else changed.\<close>

definition ccd_plus :: "mtk_ccd \<Rightarrow> ccd_own list \<Rightarrow> mtk_ccd \<Rightarrow> bool" where
  "ccd_plus w0 xs w \<longleftrightarrow> ccd_ok w \<and> ccd_ok w0
     \<and> mset (entries w) = mset (entries w0) + mset (map own_entry xs)
     \<and> distinct (map own_buf xs) \<and> distinct (map own_file xs) \<and> distinct (map own_fd xs)
     \<and> (\<forall>x \<in> set xs. owns w x \<and> ccd_heap w0 (own_buf x) = None \<and> ccd_files w0 (own_file x) = None
          \<and> ccd_fds w0 (own_fd x) = None)
     \<and> (\<forall>b. b \<notin> own_buf ` set xs \<longrightarrow> ccd_heap w b = ccd_heap w0 b)
     \<and> (\<forall>d. d \<notin> own_file ` set xs \<longrightarrow> ccd_files w d = ccd_files w0 d)
     \<and> (\<forall>fd. fd \<notin> own_fd ` set xs \<longrightarrow> ccd_fds w fd = ccd_fds w0 fd)"

lemma ccd_plus_refl: "ccd_ok w \<Longrightarrow> ccd_plus w [] w"
  by (simp add: ccd_plus_def)

lemma ccd_plus_ok: "ccd_plus w0 xs w \<Longrightarrow> ccd_ok w"
  by (simp add: ccd_plus_def)

lemma ccd_plus_outside:
  assumes "ccd_plus w0 xs w"
  shows "b \<notin> own_buf ` set xs \<Longrightarrow> ccd_heap w0 b = ccd_heap w b"
    "d \<notin> own_file ` set xs \<Longrightarrow> ccd_files w0 d = ccd_files w d"
    "fd \<notin> own_fd ` set xs \<Longrightarrow> ccd_fds w0 fd = ccd_fds w fd"
  using assms by (simp_all add: ccd_plus_def)

lemma ccd_plus_owns: "ccd_plus w0 xs w \<Longrightarrow> x \<in> set xs \<Longrightarrow> owns w x"
  by (simp add: ccd_plus_def)

text \<open>Without extra buffers the stores are those of \<open>w0\<close>, the table up to its order.\<close>

lemma ccd_plus_Nil:
  assumes "ccd_plus w0 [] w"
  shows "ccd_heap w = ccd_heap w0" "ccd_files w = ccd_files w0" "ccd_fds w = ccd_fds w0"
    "mset (entries w) = mset (entries w0)"
  using assms by (auto simp: ccd_plus_def)

subsection \<open>Taking a buffer\<close>

lemma entries_snoc:
  assumes "num_buffers w < MAX_NUMBER_OF_BUFFER"
  shows "entries (w\<lparr>bufs := (bufs w)(unat (num_buffers w) := e), num_buffers := num_buffers w + 1\<rparr>)
    = entries w @ [e]"
proof -
  have "unat (num_buffers w + 1) = unat (num_buffers w) + 1"
    using assms by (simp add: MAX_NUMBER_OF_BUFFER_def word_less_nat_alt unat_word_ariths)
  then show ?thesis by (simp add: entries_def)
qed

lemma get_buffer_cases:
  assumes "mtk_ccd_get_buffer env m w = (r, m', w')"
  shows "len m' = len m"
    and "case r of
      Inl _ \<Rightarrow> entries w' = entries w \<and> ccd_heap w' = ccd_heap w \<and> ccd_files w' = ccd_files w
        \<and> ccd_fds w' = ccd_fds w \<and> ccd_next w' = ccd_next w \<and> num_buffers w' = num_buffers w
    | Inr b \<Rightarrow> b = ccd_next w \<and> num_buffers w < MAX_NUMBER_OF_BUFFER \<and> len m \<noteq> 0
        \<and> dma_alloc env w (ucast (len m)) = Some (va m', iova m')
        \<and> num_buffers w' = num_buffers w + 1 \<and> entries w' = entries w @ [\<lparr>mem_priv = PRIV b, msize = ucast (len m)\<rparr>]
        \<and> ccd_heap w' = (ccd_heap w)(b \<mapsto> \<lparr>vaddr = va m', dma_addr = iova m', bsize = ucast (len m),
              refcount = 1, sgt_base = False, dbuf = None\<rparr>)
        \<and> ccd_files w' = ccd_files w \<and> ccd_fds w' = ccd_fds w \<and> ccd_next w' = ccd_next w + 1"
proof -
  show "len m' = len m"
    using assms by (auto simp: mtk_ccd_get_buffer_def Let_def mtk_ccd_buf_alloc_def split: if_splits option.splits prod.splits)
  show "case r of
      Inl _ \<Rightarrow> entries w' = entries w \<and> ccd_heap w' = ccd_heap w \<and> ccd_files w' = ccd_files w
        \<and> ccd_fds w' = ccd_fds w \<and> ccd_next w' = ccd_next w \<and> num_buffers w' = num_buffers w
    | Inr b \<Rightarrow> b = ccd_next w \<and> num_buffers w < MAX_NUMBER_OF_BUFFER \<and> len m \<noteq> 0
        \<and> dma_alloc env w (ucast (len m)) = Some (va m', iova m')
        \<and> num_buffers w' = num_buffers w + 1 \<and> entries w' = entries w @ [\<lparr>mem_priv = PRIV b, msize = ucast (len m)\<rparr>]
        \<and> ccd_heap w' = (ccd_heap w)(b \<mapsto> \<lparr>vaddr = va m', dma_addr = iova m', bsize = ucast (len m),
              refcount = 1, sgt_base = False, dbuf = None\<rparr>)
        \<and> ccd_files w' = ccd_files w \<and> ccd_fds w' = ccd_fds w \<and> ccd_next w' = ccd_next w + 1"
  proof (cases "CCD_ALLOCATE_MAX_BUFFER_SIZE < ucast (len m) \<or> len m = 0 \<or> MAX_NUMBER_OF_BUFFER \<le> num_buffers w")
    case True
    then show ?thesis using assms by (auto simp: mtk_ccd_get_buffer_def Let_def)
  next
    case False
    then have n: "num_buffers w < MAX_NUMBER_OF_BUFFER" by (simp add: not_le)
    show ?thesis
      using assms False entries_snoc[OF n]
      by (auto simp: mtk_ccd_get_buffer_def Let_def mtk_ccd_buf_alloc_def entries_def split: option.splits)
  qed
qed

lemma owns_iff:
  "owns w x \<longleftrightarrow> (\<exists>buf f. ccd_heap w (own_buf x) = Some buf \<and> ccd_files w (own_file x) = Some f
     \<and> refcount buf = 2 \<and> dbuf buf = Some (own_file x) \<and> vaddr buf = own_va x
     \<and> bsize buf = ucast (own_len x) \<and> db_priv f = own_buf x
     \<and> (f_count f = 2 \<and> ccd_fds w (own_fd x) = Some (own_file x) \<or> f_count f = 1 \<and> ccd_fds w (own_fd x) = None))"
  by (auto simp: owns_def split: option.splits)

lemma ccd_plus_get_error:
  assumes "mtk_ccd_get_buffer env m w = (Inl e, m', w')" and "ccd_plus w0 xs w"
  shows "ccd_plus w0 xs w'"
proof -
  have *: "entries w' = entries w" "ccd_heap w' = ccd_heap w" "ccd_files w' = ccd_files w"
    "ccd_fds w' = ccd_fds w" "ccd_next w' = ccd_next w" "num_buffers w' = num_buffers w"
    using get_buffer_cases(2)[OF assms(1)] by simp_all
  show ?thesis
    using assms(2) by (simp add: ccd_plus_def ccd_ok_def owns_iff entry_ok_iff *)
qed

text \<open>A step that leaves a buffer's object, file and descriptor alone leaves it owned.\<close>

lemma owns_frame:
  assumes "owns w x" and "ccd_heap w' (own_buf x) = ccd_heap w (own_buf x)"
    and "ccd_files w' (own_file x) = ccd_files w (own_file x)" and "ccd_fds w' (own_fd x) = ccd_fds w (own_fd x)"
  shows "owns w' x"
  using assms unfolding owns_iff by simp

lemma ccd_ok_add:
  assumes ok: "ccd_ok w" and env: "alloc_ok env" and alloc: "dma_alloc env w sz = Some (vaddr buf, dma)"
    and n: "num_buffers w < MAX_NUMBER_OF_BUFFER" "num_buffers w' = num_buffers w + 1"
    and buf: "bsize buf = sz" "b = ccd_next w" "d = ccd_next w + 1" "ccd_next w' = d + 1"
    and w': "ccd_heap w' = (ccd_heap w)(b \<mapsto> buf)" "ccd_files w' = (ccd_files w)(d \<mapsto> f)"
      "entries w' = entries w @ [\<lparr>mem_priv = PRIV b, msize = sz\<rparr>]"
    and fds: "\<And>g k. ccd_fds w' g = Some k \<Longrightarrow> k = d \<or> ccd_fds w g = Some k" and fin: "finite (dom (ccd_fds w'))"
  shows "ccd_ok w'"
proof -
  have fresh: "ccd_heap w b = None" using ok buf by (auto simp: ccd_ok_def)
  have size: "num_buffers w' \<le> MAX_NUMBER_OF_BUFFER"
    using n by (simp add: MAX_NUMBER_OF_BUFFER_def inc_le)
  have old: "entry_ok w e" "mem_priv e \<noteq> PRIV b" if "e \<in> set (entries w)" for e
  proof -
    show "entry_ok w e" using ok that by (simp add: ccd_ok_def)
    then show "mem_priv e \<noteq> PRIV b" using fresh by (auto simp: entry_ok_iff)
  qed
  have kept: "entry_ok w' e" if e: "e \<in> set (entries w)" for e
  proof -
    obtain c cbuf where c: "mem_priv e = PRIV c" "ccd_heap w c = Some cbuf" "bsize cbuf = msize e"
      using old(1)[OF e] by (auto simp: entry_ok_iff)
    then have "c \<noteq> b" using old(2)[OF e] by auto
    then show ?thesis using c by (simp add: entry_ok_iff w')
  qed
  have ent: "entry_ok w' e" if "e \<in> set (entries w')" for e
    using that kept buf(1) by (auto simp: w'(3)) (simp add: entry_ok_iff w')
  have "PRIV b \<notin> mem_priv ` set (entries w)" using old(2) by (metis imageE)
  then have dist: "distinct (map mem_priv (entries w'))"
    using ok by (simp add: w' ccd_ok_def)
  have new: "vaddr x \<noteq> vaddr buf" if "ccd_heap w c = Some x" for c x
    using env ok alloc that unfolding alloc_ok_def by blast
  have inj: "c = c'" if "ccd_heap w' c = Some x" "ccd_heap w' c' = Some y" "vaddr x = vaddr y" for c c' x y
    using that new ccd_ok_vaddr[OF ok, of c x c' y] by (auto simp: w' split: if_splits)
  have "ccd_heap w' k = None \<and> ccd_files w' k = None" if "ccd_next w' \<le> k" for k
    using that ok buf by (auto simp: w' ccd_ok_def)
  moreover have "ccd_files w' k \<noteq> None" if "ccd_fds w' g = Some k" for g k
    using fds[OF that] ccd_okD(6)[OF ok] by (auto simp: w')
  ultimately show ?thesis
    using size ent dist inj fin unfolding ccd_ok_def by blast
qed

text \<open>A fresh buffer and its descriptor.\<close>

lemma ccd_acquire:
  assumes get: "mtk_ccd_get_buffer env m w = (Inr b, m', w1)" and plus: "ccd_plus w0 xs w"
    and open_fds: "\<forall>x \<in> set xs. ccd_fds w (own_fd x) \<noteq> None"
    and env: "alloc_ok env" "exports_ok env" and room: "card (dom (ccd_fds w0)) + length xs < nofile env"
  shows "\<exists>x w2. mtk_ccd_get_buffer_fd env (PRIV b) w1 = Some (own_fd x, w2) \<and> ccd_plus w0 (x # xs) w2
    \<and> own_va x = va m' \<and> own_len x = len m' \<and> (\<forall>x \<in> set (x # xs). ccd_fds w2 (own_fd x) \<noteq> None)"
proof -
  have b: "b = ccd_next w" and alloc: "dma_alloc env w (ucast (len m)) = Some (va m', iova m')"
    and n: "num_buffers w < MAX_NUMBER_OF_BUFFER" "num_buffers w1 = num_buffers w + 1"
    and ent: "entries w1 = entries w @ [\<lparr>mem_priv = PRIV b, msize = ucast (len m)\<rparr>]"
    and heap: "ccd_heap w1 = (ccd_heap w)(b \<mapsto> \<lparr>vaddr = va m', dma_addr = iova m', bsize = ucast (len m),
              refcount = 1, sgt_base = False, dbuf = None\<rparr>)"
    and same: "ccd_files w1 = ccd_files w" "ccd_fds w1 = ccd_fds w" "ccd_next w1 = ccd_next w + 1"
    using get_buffer_cases(2)[OF get] by simp_all
  have len: "len m' = len m" by (rule get_buffer_cases(1)[OF get])
  have ok: "ccd_ok w" by (rule ccd_plus_ok[OF plus])
  define d where "d = ccd_next w + 1"
  define buf where "buf = \<lparr>vaddr = va m', dma_addr = iova m', bsize = ucast (len m), refcount = 2, sgt_base = True, dbuf = Some d\<rparr>"
  define w1' where "w1' = w1\<lparr>ccd_heap := (ccd_heap w)(b \<mapsto> buf), ccd_files := (ccd_files w)(d \<mapsto> \<lparr>db_priv = b, f_count = 1\<rparr>), ccd_next := d + 1\<rparr>"
  define fd where "fd = get_unused_fd env w1'"
  define w2 where "w2 = w1'\<lparr>ccd_files := (ccd_files w)(d \<mapsto> \<lparr>db_priv = b, f_count = 2\<rparr>), ccd_fds := (ccd_fds w)(fd \<mapsto> d)\<rparr>"
  define x where "x = (b, d, fd, va m', len m)"
  have exp: "dma_get_sgtable env v c" "dma_buf_export env v c" for v c using env(2) by (simp_all add: exports_ok_def)
  have dmabuf: "mtk_ccd_get_dmabuf env b w1 = Some (Some d, w1')"
    using exp by (simp add: mtk_ccd_get_dmabuf_def heap Let_def same w1'_def d_def buf_def numeral_2_eq_2)
  have "ccd_ok w1'"
    using alloc ent ccd_okD(7)[OF ok]
    by (intro ccd_ok_add[OF ok env(1) _ n(1)]) (simp_all add: w1'_def n(2) buf_def b d_def same)
  moreover have "card (dom (ccd_fds w1')) < nofile env"
  proof -
    have "dom (ccd_fds w) \<subseteq> dom (ccd_fds w0) \<union> own_fd ` set xs"
      using ccd_plus_outside(3)[OF plus] by (auto simp: dom_def)
    then have "card (dom (ccd_fds w)) \<le> card (dom (ccd_fds w0) \<union> own_fd ` set xs)"
      using plus by (intro card_mono) (auto simp: ccd_plus_def ccd_okD(7))
    also have "\<dots> \<le> card (dom (ccd_fds w0)) + card (own_fd ` set xs)" by (rule card_Un_le)
    also have "card (own_fd ` set xs) \<le> length xs"
      by (metis card_length length_map list.set_map)
    finally show ?thesis using room by (simp add: w1'_def same)
  qed
  ultimately have fd0: "0 \<le> fd" and fd: "ccd_fds w fd = None"
    using env(2) unfolding exports_ok_def fd_def by (auto simp: w1'_def same)
  have getfd: "mtk_ccd_get_buffer_fd env (PRIV b) w1 = Some (own_fd x, w2)"
    using fd0 by (simp add: mtk_ccd_get_buffer_fd_def mtk_ccd_get_fd_def dmabuf Let_def fd_def[symmetric]
        w2_def own_defs x_def) (simp add: w1'_def same numeral_2_eq_2)
  have w2: "ccd_heap w2 = (ccd_heap w)(b \<mapsto> buf)" "ccd_files w2 = (ccd_files w)(d \<mapsto> \<lparr>db_priv = b, f_count = 2\<rparr>)"
    "ccd_fds w2 = (ccd_fds w)(fd \<mapsto> d)" "ccd_next w2 = d + 1" "num_buffers w2 = num_buffers w1"
    "entries w2 = entries w @ [own_entry x]"
    using ent by (simp_all add: w2_def w1'_def same entries_def own_entry_def x_def own_defs)
  have fresh: "ccd_heap w b = None" "ccd_files w d = None" using ok by (auto simp: ccd_ok_def b d_def)
  have ok2: "ccd_ok w2"
    using alloc ccd_okD(7)[OF ok] by (intro ccd_ok_add[OF ok env(1) _ n(1)]) (auto simp: w2 n(2) buf_def b d_def own_entry_def own_defs x_def len split: if_splits)
  have old: "own_buf y \<noteq> b \<and> own_file y \<noteq> d \<and> own_fd y \<noteq> fd" if "y \<in> set xs" for y
  proof -
    have "owns w y" by (rule ccd_plus_owns[OF plus that])
    then show ?thesis using fresh fd open_fds that by (auto simp: owns_iff)
  qed
  have out: "b \<notin> own_buf ` set xs" "d \<notin> own_file ` set xs" "fd \<notin> own_fd ` set xs" using old by blast+
  have fresh0: "ccd_heap w0 b = None" "ccd_files w0 d = None" "ccd_fds w0 fd = None"
    using ccd_plus_outside(1)[OF plus out(1)] ccd_plus_outside(2)[OF plus out(2)]
      ccd_plus_outside(3)[OF plus out(3)] fresh fd by simp_all
  have x: "own_buf x = b" "own_file x = d" "own_fd x = fd" "own_va x = va m'" "own_len x = len m"
    by (simp_all add: x_def own_defs len)
  have "owns w2 y" if "y \<in> set xs" for y
    using old[OF that] by (intro owns_frame[OF ccd_plus_owns[OF plus that]]) (simp_all add: w2)
  moreover have "owns w2 x" by (simp add: owns_iff x w2 buf_def)
  ultimately have owned: "\<forall>y \<in> set (x # xs). owns w2 y" by simp
  have "distinct (map own_buf xs)" "distinct (map own_file xs)" "distinct (map own_fd xs)"
    "mset (entries w) = mset (entries w0) + mset (map own_entry xs)"
    "ccd_ok w0" "\<forall>y \<in> set xs. ccd_heap w0 (own_buf y) = None \<and> ccd_files w0 (own_file y) = None \<and> ccd_fds w0 (own_fd y) = None"
    using plus by (simp_all add: ccd_plus_def)
  then have "ccd_plus w0 (x # xs) w2"
    unfolding ccd_plus_def using ok2 owned fresh0 out ccd_plus_outside[OF plus] by (simp add: w2 x)
  moreover have "\<forall>y \<in> set (x # xs). ccd_fds w2 (own_fd y) \<noteq> None"
    using open_fds by (auto simp: w2 x)
  ultimately show ?thesis using getfd x len by metis
qed

subsection \<open>Giving it back\<close>

lemma entries_remove:
  assumes "i < unat (num_buffers w)"
  shows "entries (w\<lparr>bufs := (if unat (num_buffers w) - 1 \<noteq> i then (bufs w)(i := bufs w (unat (num_buffers w) - 1)) else bufs w)
        (unat (num_buffers w) - 1 := e), num_buffers := num_buffers w - 1\<rparr>)
    = butlast ((entries w)[i := last (entries w)])" (is "entries ?w = _")
proof (rule nth_equalityI)
  have n: "unat (num_buffers w - 1) = unat (num_buffers w) - 1"
    using assms by (intro unat_minus_one) auto
  show "length (entries ?w) = length (butlast ((entries w)[i := last (entries w)]))"
    by (simp add: entries_def n)
  fix j assume "j < length (entries ?w)"
  then have j: "j < unat (num_buffers w) - 1" by (simp add: entries_def n)
  have "last (entries w) = bufs w (unat (num_buffers w) - 1)"
    using assms by (subst last_conv_nth) (auto simp: entries_def)
  then show "entries ?w ! j = butlast ((entries w)[i := last (entries w)]) ! j"
    using j assms by (auto simp: entries_def n nth_butlast nth_list_update)
qed

lemma put_buffer_found:
  assumes "ccd_ok w" and heap: "ccd_heap w b = Some buf" "va m = vaddr buf" "ucast (len m) = bsize buf"
    and put: "mtk_ccd_buf_put b w = Some w1" and "PRIV b \<in> set (map mem_priv (entries w))"
  shows "\<exists>w'. mtk_ccd_put_buffer m w = Some (0, w') \<and> num_buffers w' = num_buffers w - 1
    \<and> mset (entries w') = mset (entries w) - {#\<lparr>mem_priv = PRIV b, msize = bsize buf\<rparr>#}
    \<and> \<lparr>mem_priv = PRIV b, msize = bsize buf\<rparr> \<in> set (entries w)
    \<and> ccd_heap w' = ccd_heap w1 \<and> ccd_files w' = ccd_files w \<and> ccd_fds w' = ccd_fds w
    \<and> ccd_next w' = ccd_next w"
proof -
  obtain i where i: "i < unat (num_buffers w)"
    "ccd_find w m [0..<unat (num_buffers w)] = Some (Some (i, b))" "mem_priv (bufs w i) = PRIV b"
    using ccd_find_live[OF assms(1) heap assms(6)] by blast
  have mem: "bufs w i \<in> set (entries w)" using i(1) by (auto simp: entries_def)
  then have "bsize buf = msize (bufs w i)"
    using assms(1) i(3) heap(1) by (auto simp: ccd_ok_def entry_ok_iff dest!: bspec)
  then have ent: "bufs w i = \<lparr>mem_priv = PRIV b, msize = bsize buf\<rparr>" using i(3) by (cases "bufs w i") simp
  have len: "i < length (entries w)" "entries w ! i = bufs w i" using i(1) by (simp_all add: entries_def)
  have nz: "num_buffers w \<noteq> 0" using i(1) by auto
  define w' where "w' = w1\<lparr>bufs := (if unat (num_buffers w1) - 1 \<noteq> i
      then (bufs w1)(i := bufs w1 (unat (num_buffers w1) - 1)) else bufs w1)
      (unat (num_buffers w1) - 1 := \<lparr>mem_priv = NULL_PRIV, msize = 0\<rparr>), num_buffers := num_buffers w1 - 1\<rparr>"
  have w1: "num_buffers w1 = num_buffers w" "bufs w1 = bufs w" "entries w1 = entries w"
    "ccd_files w1 = ccd_files w" "ccd_fds w1 = ccd_fds w" "ccd_next w1 = ccd_next w"
    using put by (auto simp: mtk_ccd_buf_put_def entries_def split: option.splits if_splits)
  have "entries w' = butlast ((entries w)[i := last (entries w)])"
    unfolding w'_def using i(1) by (subst entries_remove) (simp_all add: w1)
  then have "mset (entries w') = mset (entries w) - {#\<lparr>mem_priv = PRIV b, msize = bsize buf\<rparr>#}"
    using mset_swap_remove[OF len(1)] len(2) ent by simp
  moreover have "mtk_ccd_put_buffer m w = Some (0, w')"
    using nz i(2) by (simp add: mtk_ccd_put_buffer_def Let_def put w'_def w1)
  moreover have "num_buffers w' = num_buffers w - 1" by (simp add: w'_def w1)
  moreover have "\<lparr>mem_priv = PRIV b, msize = bsize buf\<rparr> \<in> set (entries w)" using mem ent by simp
  ultimately show ?thesis by (intro exI[of _ w']) (simp add: w'_def w1)
qed

lemma fd_of_own:
  assumes "ccd_plus w0 xs w" and "x \<in> set xs" and "ccd_fds w g = Some (own_file x)"
  shows "g = own_fd x"
proof (cases "g \<in> own_fd ` set xs")
  case True
  then obtain y where y: "y \<in> set xs" "g = own_fd y" by blast
  then have "own_file y = own_file x"
    using ccd_plus_owns[OF assms(1) y(1)] assms(3) by (auto simp: owns_iff)
  then have "y = x" using assms(1,2) y(1) by (auto simp: ccd_plus_def distinct_map dest: inj_onD)
  then show ?thesis using y by simp
next
  case False
  then have "ccd_fds w0 g = Some (own_file x)" using ccd_plus_outside(3)[OF assms(1)] assms(3) by simp
  then have "ccd_files w0 (own_file x) \<noteq> None" using assms(1) by (auto simp: ccd_plus_def ccd_ok_def)
  then show ?thesis using assms(1,2) by (simp add: ccd_plus_def)
qed

lemma own_entry_in:
  assumes "ccd_plus w0 xs w" and "x \<in> set xs"
  shows "own_entry x \<in> set (entries w)"
proof -
  have "own_entry x \<in># mset (entries w)" using assms by (simp add: ccd_plus_def)
  then show ?thesis by simp
qed

text \<open>The descriptor and the file go; the table's reference stays.\<close>

lemma put_fd_owned:
  assumes plus: "ccd_plus w0 xs w" and x: "x \<in> set xs" and m: "va m = own_va x" "len m = own_len x"
    and env: "current_files env" and buf: "ccd_heap w (own_buf x) = Some buf"
  shows "mtk_ccd_put_fd env m (own_fd x) w = Some (0, w\<lparr>ccd_heap := (ccd_heap w)(own_buf x \<mapsto> buf\<lparr>refcount := 1\<rparr>),
    ccd_files := (ccd_files w)(own_file x := None), ccd_fds := (ccd_fds w)(own_fd x := None)\<rparr>)"
proof -
  obtain f where own: "ccd_files w (own_file x) = Some f" "refcount buf = 2" "dbuf buf = Some (own_file x)"
      "vaddr buf = own_va x" "bsize buf = ucast (own_len x)" "db_priv f = own_buf x"
      "f_count f = 2 \<and> ccd_fds w (own_fd x) = Some (own_file x) \<or> f_count f = 1 \<and> ccd_fds w (own_fd x) = None"
    using ccd_plus_owns[OF plus x] buf by (auto simp: owns_iff)
  have "PRIV (own_buf x) \<in> set (map mem_priv (entries w))"
    using own_entry_in[OF plus x] by (force simp: own_entry_def)
  then obtain i where i: "i < unat (num_buffers w)"
    "ccd_find w m [0..<unat (num_buffers w)] = Some (Some (i, own_buf x))"
    using ccd_find_live[OF ccd_plus_ok[OF plus] buf, of m] own(4,5) m by auto
  have nz: "num_buffers w \<noteq> 0" using i(1) by auto
  show ?thesis
    using own(7)
  proof
    assume c: "f_count f = 2 \<and> ccd_fds w (own_fd x) = Some (own_file x)"
    then show ?thesis
      using nz i(2) own buf env
      by (simp add: mtk_ccd_put_fd_def close_fd_def dma_buf_put_def mtk_ccd_buf_put_def)
  next
    assume c: "f_count f = 1 \<and> ccd_fds w (own_fd x) = None"
    then have "(ccd_fds w)(own_fd x := None) = ccd_fds w" by auto
    then show ?thesis
      using c nz i(2) own buf
      by (simp add: mtk_ccd_put_fd_def dma_buf_put_def mtk_ccd_buf_put_def)
  qed
qed

text \<open>Replacing a buffer's object by one of the same address and size, and dropping a file no
  descriptor names, keeps the table well-formed.\<close>

lemma ccd_ok_update:
  assumes "ccd_ok w" and "ccd_heap w b = Some buf" and "vaddr buf' = vaddr buf" "bsize buf' = bsize buf"
    and "\<And>g. g \<noteq> fd \<Longrightarrow> ccd_fds w g \<noteq> Some d"
  shows "ccd_ok (w\<lparr>ccd_heap := (ccd_heap w)(b \<mapsto> buf'), ccd_files := (ccd_files w)(d := None),
    ccd_fds := (ccd_fds w)(fd := None)\<rparr>)" (is "ccd_ok ?w")
proof -
  have ent: "entries ?w = entries w" by (simp add: entries_def)
  show ?thesis
  proof (rule ccd_okI, unfold ent)
    fix e assume "e \<in> set (entries w)"
    then have "entry_ok w e" by (rule ccd_okD(3)[OF assms(1)])
    then show "entry_ok ?w e" using assms(2,4) by (auto simp: entry_ok_iff)
  next
    fix c c' x y assume "ccd_heap ?w c = Some x" "ccd_heap ?w c' = Some y" "vaddr x = vaddr y"
    then show "c = c'" using assms(2,3) ccd_ok_vaddr[OF assms(1)] by (simp split: if_splits)
  next
    fix k assume "ccd_next ?w \<le> k"
    then show "ccd_heap ?w k = None \<and> ccd_files ?w k = None"
      using ccd_okD(4,5)[OF assms(1)] assms(2) by auto
  next
    fix g k assume "ccd_fds ?w g = Some k"
    then show "ccd_files ?w k \<noteq> None" using ccd_okD(6)[OF assms(1)] assms(5) by (auto split: if_splits)
  qed (use ccd_okD[OF assms(1)] in simp_all)
qed

lemma ccd_ok_remove:
  assumes ok: "ccd_ok w" and e: "e \<in> set (entries w)" "mem_priv e = PRIV b"
    and w': "mset (entries w') = mset (entries w) - {#e#}" "num_buffers w' \<le> MAX_NUMBER_OF_BUFFER"
      "ccd_heap w' = (ccd_heap w)(b := None)" "ccd_files w' = ccd_files w" "ccd_fds w' = ccd_fds w"
      "ccd_next w' = ccd_next w"
  shows "ccd_ok w'"
proof -
  have mset: "mset (entries w) = add_mset e (mset (entries w'))" using e(1) by (simp add: w'(1))
  have "mset (map mem_priv (entries w)) = add_mset (mem_priv e) (mset (map mem_priv (entries w')))"
    using arg_cong[OF mset, of "image_mset mem_priv"] by simp
  then have "mset (map mem_priv (entries w)) = mset (mem_priv e # map mem_priv (entries w'))" by simp
  moreover have "distinct (map mem_priv (entries w))" by (rule ccd_okD(2)[OF ok])
  ultimately have dist: "distinct (mem_priv e # map mem_priv (entries w'))" by (metis mset_eq_imp_distinct_iff)
  have sub: "set (entries w') \<subseteq> set (entries w)" using arg_cong[OF mset, of set_mset] by auto
  show ?thesis
  proof (rule ccd_okI)
    fix x assume x: "x \<in> set (entries w')"
    then have "entry_ok w x" using sub ccd_okD(3)[OF ok] by blast
    moreover have "mem_priv x \<noteq> PRIV b" using imageI[OF x, of mem_priv] dist e(2) by auto
    ultimately show "entry_ok w' x" by (auto simp: entry_ok_iff w')
  next
    fix c c' x y assume "ccd_heap w' c = Some x" "ccd_heap w' c' = Some y" "vaddr x = vaddr y"
    then show "c = c'" using ccd_ok_vaddr[OF ok] by (simp add: w' split: if_splits)
  next
    fix k assume "ccd_next w' \<le> k"
    then show "ccd_heap w' k = None \<and> ccd_files w' k = None" using ccd_okD(4,5)[OF ok] by (simp add: w')
  next
    fix g k assume "ccd_fds w' g = Some k"
    then show "ccd_files w' k \<noteq> None" using ccd_okD(6)[OF ok] by (simp add: w')
  qed (use dist w'(2) ccd_okD(7)[OF ok] in \<open>simp_all add: w'\<close>)
qed

text \<open>Giving a buffer back frees its object, its file and its descriptor and leaves the others.\<close>

lemma ccd_release:
  assumes plus: "ccd_plus w0 (x # xs) w" and m: "va m = own_va x" "len m = own_len x" and env: "current_files env"
  shows "\<exists>w1 w2. mtk_ccd_put_fd env m (own_fd x) w = Some (0, w1) \<and> mtk_ccd_put_buffer m w1 = Some (0, w2)
    \<and> ccd_plus w0 xs w2"
proof -
  have x: "x \<in> set (x # xs)" by simp
  obtain buf f where own: "ccd_heap w (own_buf x) = Some buf" "ccd_files w (own_file x) = Some f" "refcount buf = 2"
      "vaddr buf = own_va x" "bsize buf = ucast (own_len x)"
    using ccd_plus_owns[OF plus x] by (auto simp: owns_iff)
  define buf1 where "buf1 = buf\<lparr>refcount := 1\<rparr>"
  define w1 where "w1 = w\<lparr>ccd_heap := (ccd_heap w)(own_buf x \<mapsto> buf1),
    ccd_files := (ccd_files w)(own_file x := None), ccd_fds := (ccd_fds w)(own_fd x := None)\<rparr>"
  have putfd: "mtk_ccd_put_fd env m (own_fd x) w = Some (0, w1)"
    unfolding w1_def buf1_def by (rule put_fd_owned[OF plus x m env own(1)])
  have ok1: "ccd_ok w1"
    unfolding w1_def using fd_of_own[OF plus x]
    by (intro ccd_ok_update[OF ccd_plus_ok[OF plus] own(1)]) (auto simp: buf1_def)
  have ent1: "entries w1 = entries w" and heap1: "ccd_heap w1 (own_buf x) = Some buf1"
    by (simp_all add: w1_def entries_def)
  have priv: "PRIV (own_buf x) \<in> set (map mem_priv (entries w1))"
    using own_entry_in[OF plus x] by (force simp: own_entry_def ent1)
  obtain w2 where put: "mtk_ccd_put_buffer m w1 = Some (0, w2)" and w2: "num_buffers w2 = num_buffers w1 - 1"
      "mset (entries w2) = mset (entries w1) - {#own_entry x#}" "own_entry x \<in> set (entries w1)"
      "ccd_heap w2 = (ccd_heap w1)(own_buf x := None)" "ccd_files w2 = ccd_files w1" "ccd_fds w2 = ccd_fds w1"
      "ccd_next w2 = ccd_next w1"
    using put_buffer_found[OF ok1 heap1, of m "w1\<lparr>ccd_heap := (ccd_heap w1)(own_buf x := None)\<rparr>"] heap1 priv own m
    by (auto simp: buf1_def own_entry_def mtk_ccd_buf_put_def)
  have "num_buffers w1 \<noteq> 0" using w2(3) by (auto simp: entries_def)
  then have "num_buffers w2 \<le> MAX_NUMBER_OF_BUFFER"
    using ccd_okD(1)[OF ok1] by (simp add: w2(1)) (meson less_imp_le order.trans word_not_simps(1) measure_unat word_less_nat_alt)
  then have ok2: "ccd_ok w2"
    by (intro ccd_ok_remove[OF ok1 w2(3) _ w2(2)]) (simp_all add: w2 own_entry_def)
  have stores: "ccd_heap w2 = (ccd_heap w)(own_buf x := None)" "ccd_files w2 = (ccd_files w)(own_file x := None)"
    "ccd_fds w2 = (ccd_fds w)(own_fd x := None)"
    by (auto simp: w2 w1_def)
  have dist: "own_buf x \<notin> own_buf ` set xs" "own_file x \<notin> own_file ` set xs" "own_fd x \<notin> own_fd ` set xs"
    "distinct (map own_buf xs)" "distinct (map own_file xs)" "distinct (map own_fd xs)"
    and base: "ccd_ok w0" "mset (entries w) = mset (entries w0) + mset (map own_entry (x # xs))"
      "\<forall>y \<in> set (x # xs). ccd_heap w0 (own_buf y) = None \<and> ccd_files w0 (own_file y) = None \<and> ccd_fds w0 (own_fd y) = None"
    using plus by (simp_all add: ccd_plus_def)
  have owned: "owns w2 y" if y: "y \<in> set xs" for y
  proof -
    have "own_buf y \<noteq> own_buf x" "own_file y \<noteq> own_file x" "own_fd y \<noteq> own_fd x"
      using dist(1-3) imageI[OF y, of own_buf] imageI[OF y, of own_file] imageI[OF y, of own_fd] by metis+
    then show ?thesis using y by (intro owns_frame[OF ccd_plus_owns[OF plus, of y]]) (simp_all add: stores)
  qed
  have "mset (entries w2) = mset (entries w0) + mset (map own_entry xs)"
    using base(2) by (simp add: w2(2) ent1)
  moreover have "ccd_heap w2 b = ccd_heap w0 b" if "b \<notin> own_buf ` set xs" for b
    using that ccd_plus_outside(1)[OF plus, of b] base(3) by (auto simp: stores)
  moreover have "ccd_files w2 d = ccd_files w0 d" if "d \<notin> own_file ` set xs" for d
    using that ccd_plus_outside(2)[OF plus, of d] base(3) by (auto simp: stores)
  moreover have "ccd_fds w2 g = ccd_fds w0 g" if "g \<notin> own_fd ` set xs" for g
    using that ccd_plus_outside(3)[OF plus, of g] base(3) by (auto simp: stores)
  ultimately have "ccd_plus w0 xs w2"
    unfolding ccd_plus_def using ok2 base dist(4-6) owned by simp
  then show ?thesis using putfd put by blast
qed

text \<open>User space closing the descriptor itself changes neither what is owned nor anything else.\<close>

lemma ccd_user_close:
  assumes plus: "ccd_plus w0 xs w" and x: "x \<in> set xs"
  shows "\<exists>w'. close_fd (own_fd x) w = Some w' \<and> ccd_plus w0 xs w'"
proof (cases "ccd_fds w (own_fd x)")
  case None
  then show ?thesis using plus by (auto simp: close_fd_def)
next
  case (Some d)
  obtain buf f where own: "ccd_heap w (own_buf x) = Some buf" "ccd_files w (own_file x) = Some f"
      "refcount buf = 2" "dbuf buf = Some (own_file x)" "vaddr buf = own_va x" "bsize buf = ucast (own_len x)"
      "db_priv f = own_buf x" "d = own_file x" "f_count f = 2"
    using ccd_plus_owns[OF plus x] Some by (auto simp: owns_iff)
  define w' where "w' = w\<lparr>ccd_files := (ccd_files w)(own_file x \<mapsto> f\<lparr>f_count := 1\<rparr>),
    ccd_fds := (ccd_fds w)(own_fd x := None)\<rparr>"
  have close: "close_fd (own_fd x) w = Some w'"
    using own Some by (simp add: close_fd_def dma_buf_put_def w'_def)
  have ent: "entries w' = entries w" by (simp add: w'_def entries_def)
  have ok: "ccd_ok w'"
  proof (rule ccd_okI, unfold ent)
    fix e assume "e \<in> set (entries w)"
    then show "entry_ok w' e" using ccd_okD(3)[OF ccd_plus_ok[OF plus]] by (simp add: entry_ok_iff w'_def)
  next
    fix c c' y z assume "ccd_heap w' c = Some y" "ccd_heap w' c' = Some z" "vaddr y = vaddr z"
    then show "c = c'" using ccd_ok_vaddr[OF ccd_plus_ok[OF plus]] by (simp add: w'_def)
  next
    fix k assume "ccd_next w' \<le> k"
    then show "ccd_heap w' k = None \<and> ccd_files w' k = None"
      using ccd_okD(4,5)[OF ccd_plus_ok[OF plus]] own(2) by (auto simp: w'_def)
  next
    fix g k assume "ccd_fds w' g = Some k"
    then show "ccd_files w' k \<noteq> None" using ccd_okD(6)[OF ccd_plus_ok[OF plus]]
      by (auto simp: w'_def split: if_splits)
  qed (use ccd_okD[OF ccd_plus_ok[OF plus]] in \<open>simp_all add: w'_def\<close>)
  have inj: "own_file y \<noteq> own_file x \<and> own_fd y \<noteq> own_fd x" if "y \<in> set xs" "y \<noteq> x" for y
    using plus x that by (auto simp: ccd_plus_def distinct_map dest: inj_onD)
  have owned: "owns w' y" if y: "y \<in> set xs" for y
  proof (cases "y = x")
    case True
    then show ?thesis using own by (simp add: owns_iff w'_def)
  next
    case False
    then show ?thesis
      using inj[OF y] by (intro owns_frame[OF ccd_plus_owns[OF plus y]]) (simp_all add: w'_def)
  qed
  have out: "own_file x \<in> own_file ` set xs" "own_fd x \<in> own_fd ` set xs" using x by simp_all
  have "ccd_files w' k = ccd_files w0 k" if "k \<notin> own_file ` set xs" for k
    using that out ccd_plus_outside(2)[OF plus, of k] by (auto simp: w'_def)
  moreover have "ccd_fds w' g = ccd_fds w0 g" if "g \<notin> own_fd ` set xs" for g
    using that out ccd_plus_outside(3)[OF plus, of g] by (auto simp: w'_def)
  moreover have "ccd_heap w' b = ccd_heap w0 b" if "b \<notin> own_buf ` set xs" for b
    using that ccd_plus_outside(1)[OF plus, of b] by (simp add: w'_def)
  moreover have "ccd_ok w0" "mset (entries w) = mset (entries w0) + mset (map own_entry xs)"
    "distinct (map own_buf xs)" "distinct (map own_file xs)" "distinct (map own_fd xs)"
    "\<forall>y \<in> set xs. ccd_heap w0 (own_buf y) = None \<and> ccd_files w0 (own_file y) = None \<and> ccd_fds w0 (own_fd y) = None"
    using plus by (simp_all add: ccd_plus_def)
  ultimately have "ccd_plus w0 xs w'"
    unfolding ccd_plus_def using ok owned by (simp add: ent)
  then show ?thesis using close by blast
qed

subsection \<open>A kernel that keeps its promises\<close>

text \<open>An allocator that hands out the first multiple of 512 MB that is not in use.\<close>

definition first_fit :: "mtk_ccd \<Rightarrow> u64 \<Rightarrow> (u64 \<times> u64) option" where
  "first_fit w sz = map_option (\<lambda>a. (a, a))
     (find (\<lambda>a. \<forall>b \<in> set [0..<ccd_next w]. map_option vaddr (ccd_heap w b) \<noteq> Some a)
       (map (\<lambda>k. of_nat k * 0x20000000) [1..<200]))"

definition kernel_env :: "(mtk_ccd \<Rightarrow> int) \<Rightarrow> ccd_env" where
  "kernel_env fd = \<lparr>dma_alloc = first_fit, dma_get_sgtable = (\<lambda>_ _. True), dma_buf_export = (\<lambda>_ _. True),
     get_unused_fd = fd, nofile = 1024, current_files = True\<rparr>"

text \<open>The lowest unused descriptor below 1024.\<close>

definition lowest_fd :: "mtk_ccd \<Rightarrow> int" where
  "lowest_fd w = (case find (\<lambda>fd. ccd_fds w fd = None) (map int [0..<1024]) of Some fd \<Rightarrow> fd | None \<Rightarrow> -1)"

lemma exports_ok_kernel_env: "exports_ok (kernel_env lowest_fd)"
proof -
  have "0 \<le> lowest_fd w \<and> ccd_fds w (lowest_fd w) = None"
    if ok: "ccd_ok w" and room: "card (dom (ccd_fds w)) < 1024" for w
  proof (cases "find (\<lambda>fd. ccd_fds w fd = None) (map int [0..<1024])")
    case None
    then have "int ` {0..<1024} \<subseteq> dom (ccd_fds w)" by (auto simp: find_None_iff dom_def)
    then have "card (int ` {0..<1024}) \<le> card (dom (ccd_fds w))" by (intro card_mono ccd_okD(7)[OF ok])
    then show ?thesis using room by (simp add: card_image)
  next
    case (Some fd)
    then have "0 \<le> fd" "ccd_fds w fd = None" by (auto simp: find_Some_iff simp del: upt.simps)
    then show ?thesis using Some by (simp add: lowest_fd_def)
  qed
  then show ?thesis by (simp add: exports_ok_def kernel_env_def)
qed

lemma alloc_ok_kernel_env: "alloc_ok (kernel_env fd)"
proof -
  have "vaddr buf \<noteq> cpu"
    if ok: "ccd_ok w" and fit: "first_fit w sz = Some (cpu, dma)" and live: "ccd_heap w b = Some buf"
    for w sz cpu dma b buf
  proof -
    have "b < ccd_next w" using ccd_okD(4)[OF ok, of b] live by (cases "b < ccd_next w") auto
    moreover have "\<forall>b \<in> set [0..<ccd_next w]. map_option vaddr (ccd_heap w b) \<noteq> Some cpu"
      using fit unfolding first_fit_def by (auto simp: find_Some_iff simp del: upt.simps set_upt)
    ultimately show ?thesis using live by auto
  qed
  then show ?thesis by (auto simp: alloc_ok_def kernel_env_def)
qed

subsection \<open>When no descriptor is left\<close>

lemma fd_exhaustion_result:
  assumes ok: "ccd_ok w" and get: "mtk_ccd_get_buffer env m w = (Inr b, m', w1)" and env: "alloc_ok env"
    and exp: "\<And>v c. dma_get_sgtable env v c" "\<And>v c. dma_buf_export env v c" and full: "\<And>v. get_unused_fd env v < 0"
    and fds: "ccd_fds w (- EMFILE) = None"
  shows "\<exists>w2 w3 w4. mtk_ccd_get_buffer_fd env (PRIV b) w1 = Some (- EMFILE, w2)
    \<and> mtk_ccd_put_fd env m' (- EMFILE) w2 = Some (0, w3) \<and> mtk_ccd_put_buffer m' w3 = Some (0, w4)
    \<and> mset (entries w4) = mset (entries w) \<and> ccd_fds w4 = ccd_fds w
    \<and> ccd_heap w b = None \<and> map_option refcount (ccd_heap w4 b) = Some 1"
proof -
  have b: "b = ccd_next w" and alloc: "dma_alloc env w (ucast (len m)) = Some (va m', iova m')"
    and n: "num_buffers w < MAX_NUMBER_OF_BUFFER" "num_buffers w1 = num_buffers w + 1"
    and ent: "entries w1 = entries w @ [\<lparr>mem_priv = PRIV b, msize = ucast (len m)\<rparr>]"
    and heap: "ccd_heap w1 = (ccd_heap w)(b \<mapsto> \<lparr>vaddr = va m', dma_addr = iova m', bsize = ucast (len m),
              refcount = 1, sgt_base = False, dbuf = None\<rparr>)"
    and same: "ccd_files w1 = ccd_files w" "ccd_fds w1 = ccd_fds w" "ccd_next w1 = ccd_next w + 1"
    using get_buffer_cases(2)[OF get] by simp_all
  have len: "len m' = len m" by (rule get_buffer_cases(1)[OF get])
  define d where "d = ccd_next w + 1"
  define buf where "buf = \<lparr>vaddr = va m', dma_addr = iova m', bsize = ucast (len m), refcount = 2, sgt_base = True, dbuf = Some d\<rparr>"
  define dfile where "dfile k = \<lparr>db_priv = b, f_count = k\<rparr>" for k
  define w2 where "w2 = w1\<lparr>ccd_heap := (ccd_heap w)(b \<mapsto> buf), ccd_files := (ccd_files w)(d \<mapsto> dfile 2), ccd_next := d + 1\<rparr>"
  define w3 where "w3 = w2\<lparr>ccd_files := (ccd_files w)(d \<mapsto> dfile 1)\<rparr>"
  have w2: "num_buffers w2 = num_buffers w1" "bufs w2 = bufs w1" "entries w2 = entries w1" "ccd_fds w2 = ccd_fds w"
    "ccd_heap w2 = (ccd_heap w)(b \<mapsto> buf)" "ccd_files w2 = (ccd_files w)(d \<mapsto> dfile 2)"
    by (simp_all add: w2_def entries_def same)
  have ok2: "ccd_ok w2"
    using alloc ccd_okD(7)[OF ok] by (intro ccd_ok_add[OF ok env _ n(1)]) (simp_all add: w2_def buf_def b d_def n(2) ent same)
  have w3: "ccd_heap w3 = (ccd_heap w)(b \<mapsto> buf)" "entries w3 = entries w1" "ccd_fds w3 = ccd_fds w"
    by (simp_all add: w3_def w2 entries_def)
  have ok3: "ccd_ok w3"
    using alloc ccd_okD(7)[OF ok] by (intro ccd_ok_add[OF ok env _ n(1)]) (simp_all add: w3_def w2_def buf_def b d_def n(2) ent same)
  have getfd: "mtk_ccd_get_buffer_fd env (PRIV b) w1 = Some (- EMFILE, w2)"
    using exp full by (simp add: mtk_ccd_get_buffer_fd_def mtk_ccd_get_fd_def mtk_ccd_get_dmabuf_def heap Let_def same
        w2_def d_def buf_def dfile_def numeral_2_eq_2)
  have hb: "ccd_heap w2 b = Some buf" "ccd_heap w3 b = Some buf" "va m' = vaddr buf" "ucast (len m') = bsize buf"
    by (simp_all add: w2 w3 buf_def len)
  have priv: "PRIV b \<in> set (map mem_priv (entries w2))" "PRIV b \<in> set (map mem_priv (entries w3))"
    by (simp_all add: w2 w3 ent)
  obtain i where i: "i < unat (num_buffers w2)"
    "ccd_find w2 m' [0..<unat (num_buffers w2)] = Some (Some (i, b))"
    using ccd_find_live[OF ok2 hb(1,3,4) priv(1)] by blast
  then have "num_buffers w2 \<noteq> 0" by auto
  then have putfd: "mtk_ccd_put_fd env m' (- EMFILE) w2 = Some (0, w3)"
    using i(2) fds by (simp add: mtk_ccd_put_fd_def close_fd_def dma_buf_put_def w2 buf_def dfile_def w3_def)
  define wp where "wp = w3\<lparr>ccd_heap := (ccd_heap w)(b \<mapsto> buf\<lparr>refcount := 1\<rparr>)\<rparr>"
  have put: "mtk_ccd_buf_put b w3 = Some wp" by (simp add: mtk_ccd_buf_put_def w3 wp_def buf_def)
  obtain w4 where w4: "mtk_ccd_put_buffer m' w3 = Some (0, w4)"
      "mset (entries w4) = mset (entries w3) - {#\<lparr>mem_priv = PRIV b, msize = bsize buf\<rparr>#}"
      "ccd_heap w4 = ccd_heap wp" "ccd_fds w4 = ccd_fds w3"
    using put_buffer_found[OF ok3 hb(2-4) put priv(2)] by blast
  have "mset (entries w4) = mset (entries w)" by (simp add: w4 w3 ent buf_def)
  moreover have "ccd_heap w b = None" using ccd_okD(4)[OF ok, of b] b by simp
  moreover have "map_option refcount (ccd_heap w4 b) = Some 1" by (simp add: w4 wp_def)
  ultimately show ?thesis using getfd putfd w4(1) by (metis w3(3) w4(4))
qed

text \<open>
  When the process has no descriptor left, exporting a fresh buffer fails with \<open>-EMFILE\<close>, but the
  file has already been counted a second time: putting the descriptor and the buffer afterwards both
  succeed and the table forgets the buffer, yet its object survives with one reference that nothing
  can drop any more.\<close>

theorem fd_exhaustion_leaks:
  assumes "ccd_ok w" and "mtk_ccd_get_buffer env m w = (Inr b, m', w1)" and "alloc_ok env"
    and "\<And>v c. dma_get_sgtable env v c" and "\<And>v c. dma_buf_export env v c" and "\<And>v. get_unused_fd env v < 0"
    and "ccd_fds w (- EMFILE) = None"
  shows "\<exists>w2 w3 w4. mtk_ccd_get_buffer_fd env (PRIV b) w1 = Some (- EMFILE, w2)
    \<and> mtk_ccd_put_fd env m' (- EMFILE) w2 = Some (0, w3) \<and> mtk_ccd_put_buffer m' w3 = Some (0, w4)
    \<and> mset (entries w4) = mset (entries w) \<and> ccd_fds w4 = ccd_fds w
    \<and> ccd_heap w b = None \<and> map_option refcount (ccd_heap w4 b) = Some 1"
  by (rule fd_exhaustion_result[OF assms(1-3) assms(4,5,6,7)])

theorem fd_exhaustion_leaks_witness:
  "\<exists>m' w1 w2 w3 w4. mtk_ccd_get_buffer (kernel_env (\<lambda>_. -1)) \<lparr>iova = 0, len = 4096, va = 0\<rparr> mtk_ccd_mem_init
       = (Inr 0, m', w1)
     \<and> mtk_ccd_get_buffer_fd (kernel_env (\<lambda>_. -1)) (PRIV 0) w1 = Some (- EMFILE, w2)
     \<and> mtk_ccd_put_fd (kernel_env (\<lambda>_. -1)) m' (- EMFILE) w2 = Some (0, w3)
     \<and> mtk_ccd_put_buffer m' w3 = Some (0, w4) \<and> entries w4 = [] \<and> ccd_heap w4 0 \<noteq> None"
proof -
  let ?m = "\<lparr>iova = 0, len = 4096, va = 0\<rparr> :: mem_obj"
  have "fst (mtk_ccd_get_buffer (kernel_env (\<lambda>_. -1)) ?m mtk_ccd_mem_init) = Inr 0"
    by (simp add: mtk_ccd_get_buffer_def mtk_ccd_buf_alloc_def kernel_env_def first_fit_def mtk_ccd_mem_init_def
        CCD_ALLOCATE_MAX_BUFFER_SIZE_def MAX_NUMBER_OF_BUFFER_def Let_def upt_rec[of "Suc 0"])
  then obtain m' w1 where get: "mtk_ccd_get_buffer (kernel_env (\<lambda>_. -1)) ?m mtk_ccd_mem_init = (Inr 0, m', w1)"
    by (metis prod.collapse)
  have "entries mtk_ccd_mem_init = []" by (simp add: entries_def mtk_ccd_mem_init_def)
  then show ?thesis
    using get fd_exhaustion_leaks[OF ccd_ok_init get alloc_ok_kernel_env]
    by (auto simp: kernel_env_def mtk_ccd_mem_init_def)
qed

end
