(* ===== verification/CamPool.thy ===== *)
theory CamPool
  imports CcdMem
begin

text \<open>
  \<open>mtk_cam-pool.c\<close>: the working-buffer, image-buffer and camsv-buffer pools of a stream context. An
  entry is its index in the pool's array; a free list is the list of indices, oldest first, beside
  the counter the code keeps. Adding an entry that is on the list already would corrupt the list and
  is \<open>None\<close>. The regions come from the co-processor's table (theory \<open>CcdMem\<close>).
\<close>

definition CAM_CQ_BUF_NUM :: nat where "CAM_CQ_BUF_NUM = 16"
definition CAM_IMG_BUF_NUM :: nat where "CAM_IMG_BUF_NUM = 6"
definition CAMSV_WORKING_BUF_NUM :: nat where "CAMSV_WORKING_BUF_NUM = 64"

subsection \<open>State\<close>

record mtk_cam_working_buf =
  wb_va :: u64
  wb_iova :: u64
  wb_size :: u32

record mtk_cam_msg_buf =
  mb_va :: u64
  mb_size :: u32

record mtk_cam_dmao_buf =
  db_va :: u64
  db_iova :: u64
  db_size :: u32
  db_fd :: int

record mtk_cam_working_buf_entry =
  buffer :: mtk_cam_working_buf
  meta_buffer :: mtk_cam_dmao_buf
  msg_buffer :: mtk_cam_msg_buf

text \<open>\<open>struct mtk_cam_working_buf_list\<close>: the list and its counter.\<close>

record buf_list =
  bl_list :: "nat list"
  bl_cnt :: u32

record mtk_cam_working_buf_pool =
  working_buf_va :: u64
  msg_buf_va :: u64
  working_buf_iova :: u64
  working_buf_fd :: int
  working_buf_size :: u32
  msg_buf_fd :: int
  msg_buf_size :: u32
  working_buf :: "nat \<Rightarrow> mtk_cam_working_buf_entry"
  cam_freelist :: buf_list
  sv_freelist :: buf_list

record mtk_cam_img_working_buf_pool =
  working_img_buf_va :: u64
  working_img_buf_iova :: u64
  working_img_buf_fd :: int
  working_img_buf_size :: u32
  img_working_buf :: "nat \<Rightarrow> mtk_cam_working_buf"
  cam_freeimglist :: buf_list

text \<open>Sizes of other compilation units, and the kernel behind the table.\<close>

record pool_cfg =
  CQ_BUF_SIZE :: u32
  IPI_FRAME_BUF_SIZE :: u32
  PAGE_SIZE :: u32
  meta_size :: u32
  pool_env :: ccd_env

definition round_up :: "u32 \<Rightarrow> u32 \<Rightarrow> u32" where
  "round_up x y = ((x - 1) OR (y - 1)) + 1"

definition bl_init :: buf_list where
  "bl_init = \<lparr>bl_list = [], bl_cnt = 0\<rparr>"

definition bl_add_tail :: "nat \<Rightarrow> buf_list \<Rightarrow> buf_list option" where
  "bl_add_tail i l = (if i \<in> set (bl_list l) then None
     else Some (l\<lparr>bl_list := bl_list l @ [i], bl_cnt := bl_cnt l + 1\<rparr>))"

definition bl_take_first :: "buf_list \<Rightarrow> nat option \<times> buf_list" where
  "bl_take_first l = (case bl_list l of
     [] \<Rightarrow> (None, l)
   | i # is \<Rightarrow> (Some i, l\<lparr>bl_list := is, bl_cnt := bl_cnt l - 1\<rparr>))"

subsection \<open>Taking and returning entries\<close>

definition mtk_cam_working_buf_put :: "nat \<Rightarrow> mtk_cam_working_buf_pool \<Rightarrow> mtk_cam_working_buf_pool option" where
  "mtk_cam_working_buf_put i p = map_option (\<lambda>l. p\<lparr>cam_freelist := l\<rparr>) (bl_add_tail i (cam_freelist p))"

definition mtk_cam_working_buf_get :: "mtk_cam_working_buf_pool \<Rightarrow> nat option \<times> mtk_cam_working_buf_pool" where
  "mtk_cam_working_buf_get p = map_prod id (\<lambda>l. p\<lparr>cam_freelist := l\<rparr>) (bl_take_first (cam_freelist p))"

definition mtk_cam_img_working_buf_put ::
  "nat \<Rightarrow> mtk_cam_img_working_buf_pool \<Rightarrow> mtk_cam_img_working_buf_pool option" where
  "mtk_cam_img_working_buf_put i p = map_option (\<lambda>l. p\<lparr>cam_freeimglist := l\<rparr>) (bl_add_tail i (cam_freeimglist p))"

definition mtk_cam_img_working_buf_get ::
  "mtk_cam_img_working_buf_pool \<Rightarrow> nat option \<times> mtk_cam_img_working_buf_pool" where
  "mtk_cam_img_working_buf_get p = map_prod id (\<lambda>l. p\<lparr>cam_freeimglist := l\<rparr>) (bl_take_first (cam_freeimglist p))"

text \<open>The argument of the camsv put is dereferenced before it is compared with \<open>NULL\<close>.\<close>

definition mtk_cam_sv_working_buf_put ::
  "nat option \<Rightarrow> mtk_cam_working_buf_pool \<Rightarrow> mtk_cam_working_buf_pool option" where
  "mtk_cam_sv_working_buf_put buf_entry p = (case buf_entry of
     None \<Rightarrow> None
   | Some i \<Rightarrow> map_option (\<lambda>l. p\<lparr>sv_freelist := l\<rparr>) (bl_add_tail i (sv_freelist p)))"

definition mtk_cam_sv_working_buf_get :: "mtk_cam_working_buf_pool \<Rightarrow> nat option \<times> mtk_cam_working_buf_pool" where
  "mtk_cam_sv_working_buf_get p = map_prod id (\<lambda>l. p\<lparr>sv_freelist := l\<rparr>) (bl_take_first (sv_freelist p))"

subsection \<open>Setting the pools up\<close>

text \<open>A region and its descriptor, or the error of the allocation.\<close>

definition take_region :: "pool_cfg \<Rightarrow> u32 \<Rightarrow> mtk_ccd \<Rightarrow> ((int + mem_obj \<times> int) \<times> mtk_ccd) option" where
  "take_region cfg n w = (case mtk_ccd_get_buffer (pool_env cfg) \<lparr>iova = 0, len = n, va = 0\<rparr> w of
     (Inl err, smem, w) \<Rightarrow> Some (Inl err, w)
   | (Inr b, smem, w) \<Rightarrow> do {
       (fd, w) \<leftarrow> mtk_ccd_get_buffer_fd (pool_env cfg) (PRIV b) w;
       Some (Inr (smem, fd), w)
     })"

text \<open>One turn of the loop: the shares of the two regions, a region of its own for the statistics, and the
  free list. The index stays far below \<open>2^32\<close>.\<close>

definition init_entry :: "pool_cfg \<Rightarrow> nat \<Rightarrow> mtk_cam_working_buf_pool \<Rightarrow> mtk_cam_working_buf_pool" where
  "init_entry cfg i p =
     (let working_buf_size = round_up (CQ_BUF_SIZE cfg) (PAGE_SIZE cfg);
          msg_buf_size = round_up (IPI_FRAME_BUF_SIZE cfg) (PAGE_SIZE cfg);
          offset = of_nat i * working_buf_size; offset_msg = of_nat i * msg_buf_size
      in p\<lparr>working_buf := (working_buf p)(i := (working_buf p i)\<lparr>
             buffer := \<lparr>wb_va = working_buf_va p + ucast offset, wb_iova = working_buf_iova p + ucast offset,
                        wb_size = working_buf_size\<rparr>,
             msg_buffer := \<lparr>mb_va = msg_buf_va p + ucast offset_msg, mb_size = msg_buf_size\<rparr>\<rparr>)\<rparr>)"

fun init_entries :: "pool_cfg \<Rightarrow> nat list \<Rightarrow> mtk_cam_working_buf_pool \<Rightarrow> mtk_ccd
    \<Rightarrow> (int \<times> mtk_cam_working_buf_pool \<times> mtk_ccd) option" where
  "init_entries cfg [] p w = Some (0, p, w)"
| "init_entries cfg (i # is) p w = do {
     let p = init_entry cfg i p;
     (r, w) \<leftarrow> take_region cfg (meta_size cfg) w;
     case r of
       Inl err \<Rightarrow> Some (err, p, w)
     | Inr (smem, fd) \<Rightarrow> do {
         let p = p\<lparr>working_buf := (working_buf p)(i := (working_buf p i)\<lparr>
             meta_buffer := \<lparr>db_va = va smem, db_iova = iova smem, db_size = len smem, db_fd = fd\<rparr>\<rparr>)\<rparr>;
         l \<leftarrow> bl_add_tail i (cam_freelist p);
         init_entries cfg is (p\<lparr>cam_freelist := l\<rparr>) w
       }
   }"

definition mtk_cam_working_buf_pool_init :: "pool_cfg \<Rightarrow> mtk_cam_working_buf_pool \<Rightarrow> mtk_ccd
    \<Rightarrow> (int \<times> mtk_cam_working_buf_pool \<times> mtk_ccd) option" where
  "mtk_cam_working_buf_pool_init cfg p w = do {
     let wsize = round_up (CQ_BUF_SIZE cfg) (PAGE_SIZE cfg);
     let msize = round_up (IPI_FRAME_BUF_SIZE cfg) (PAGE_SIZE cfg);
     let p = p\<lparr>cam_freelist := bl_init, working_buf_size := of_nat CAM_CQ_BUF_NUM * wsize,
               msg_buf_size := of_nat CAM_CQ_BUF_NUM * msize\<rparr>;
     (r, w) \<leftarrow> take_region cfg (working_buf_size p) w;
     case r of
       Inl err \<Rightarrow> Some (err, p, w)
     | Inr (smem, fd) \<Rightarrow> do {
         let p = p\<lparr>working_buf_va := va smem, working_buf_iova := iova smem, working_buf_fd := fd\<rparr>;
         (r, w) \<leftarrow> take_region cfg (msg_buf_size p) w;
         case r of
           Inl err \<Rightarrow> Some (err, p, w)
         | Inr (smem, fd) \<Rightarrow>
             init_entries cfg [0..<CAM_CQ_BUF_NUM] (p\<lparr>msg_buf_va := va smem, msg_buf_fd := fd\<rparr>) w
       }
   }"

text \<open>Releasing: each statistics region, then the working and the message region; return codes are ignored.\<close>

definition give_region :: "pool_cfg \<Rightarrow> mem_obj \<Rightarrow> int \<Rightarrow> mtk_ccd \<Rightarrow> mtk_ccd option" where
  "give_region cfg smem fd w = do {
     (_, w) \<leftarrow> mtk_ccd_put_fd (pool_env cfg) smem fd w;
     (_, w) \<leftarrow> mtk_ccd_put_buffer smem w;
     Some w
   }"

fun release_entries :: "pool_cfg \<Rightarrow> nat list \<Rightarrow> mtk_cam_working_buf_pool \<Rightarrow> mtk_ccd
    \<Rightarrow> (mtk_cam_working_buf_pool \<times> mtk_ccd) option" where
  "release_entries cfg [] p w = Some (p, w)"
| "release_entries cfg (i # is) p w = do {
     let meta = meta_buffer (working_buf p i);
     w \<leftarrow> give_region cfg \<lparr>iova = db_iova meta, len = db_size meta, va = db_va meta\<rparr> (db_fd meta) w;
     release_entries cfg is (p\<lparr>working_buf := (working_buf p)(i := (working_buf p i)\<lparr>
       meta_buffer := meta\<lparr>db_size := 0\<rparr>\<rparr>)\<rparr>) w
   }"

definition mtk_cam_working_buf_pool_release :: "pool_cfg \<Rightarrow> mtk_cam_working_buf_pool \<Rightarrow> mtk_ccd
    \<Rightarrow> (mtk_cam_working_buf_pool \<times> mtk_ccd) option" where
  "mtk_cam_working_buf_pool_release cfg p w = do {
     (p, w) \<leftarrow> release_entries cfg [0..<CAM_CQ_BUF_NUM] p w;
     w \<leftarrow> give_region cfg \<lparr>iova = working_buf_iova p, len = working_buf_size p, va = working_buf_va p\<rparr> (working_buf_fd p) w;
     w \<leftarrow> give_region cfg \<lparr>iova = 0, len = msg_buf_size p, va = msg_buf_va p\<rparr> (msg_buf_fd p) w;
     Some (p, w)
   }"

text \<open>The image pool divides one region into up to six buffers of \<open>image_size\<close> bytes.\<close>

fun init_img_entries :: "u32 \<Rightarrow> nat list \<Rightarrow> mtk_cam_img_working_buf_pool \<Rightarrow> mtk_cam_img_working_buf_pool option" where
  "init_img_entries image_size [] p = Some p"
| "init_img_entries image_size (i # is) p = do {
     let offset = of_nat i * image_size;
     let p = p\<lparr>img_working_buf := (img_working_buf p)(i := \<lparr>wb_va = working_img_buf_va p + ucast offset,
               wb_iova = working_img_buf_iova p + ucast offset, wb_size = image_size\<rparr>)\<rparr>;
     l \<leftarrow> bl_add_tail i (cam_freeimglist p);
     init_img_entries image_size is (p\<lparr>cam_freeimglist := l\<rparr>)
   }"

definition mtk_cam_img_working_buf_pool_init :: "pool_cfg \<Rightarrow> nat \<Rightarrow> u32 \<Rightarrow> mtk_cam_img_working_buf_pool \<Rightarrow> mtk_ccd
    \<Rightarrow> (int \<times> mtk_cam_img_working_buf_pool \<times> mtk_ccd) option" where
  "mtk_cam_img_working_buf_pool_init cfg buf_num image_size p w =
     (if CAM_IMG_BUF_NUM < buf_num then Some (0, p, w)
      else do {
        let p = p\<lparr>cam_freeimglist := bl_init, working_img_buf_size := of_nat buf_num * image_size\<rparr>;
        (r, w) \<leftarrow> take_region cfg (working_img_buf_size p) w;
        case r of
          Inl err \<Rightarrow> Some (err, p, w)
        | Inr (smem, fd) \<Rightarrow> do {
            p \<leftarrow> init_img_entries image_size [0..<buf_num]
                  (p\<lparr>working_img_buf_va := va smem, working_img_buf_iova := iova smem, working_img_buf_fd := fd\<rparr>);
            Some (0, p, w)
          }
      })"

definition mtk_cam_img_working_buf_pool_release :: "pool_cfg \<Rightarrow> mtk_cam_img_working_buf_pool \<Rightarrow> mtk_ccd
    \<Rightarrow> (mtk_cam_img_working_buf_pool \<times> mtk_ccd) option" where
  "mtk_cam_img_working_buf_pool_release cfg p w = do {
     w \<leftarrow> give_region cfg \<lparr>iova = working_img_buf_iova p, len = working_img_buf_size p, va = working_img_buf_va p\<rparr>
            (working_img_buf_fd p) w;
     Some (p\<lparr>working_img_buf_size := 0\<rparr>, w)
   }"

fun init_sv_entries :: "nat list \<Rightarrow> buf_list \<Rightarrow> buf_list option" where
  "init_sv_entries [] l = Some l"
| "init_sv_entries (i # is) l = bl_add_tail i l \<bind> init_sv_entries is"

definition mtk_cam_sv_working_buf_pool_init :: "mtk_cam_working_buf_pool \<Rightarrow> (int \<times> mtk_cam_working_buf_pool) option" where
  "mtk_cam_sv_working_buf_pool_init p = do {
     l \<leftarrow> init_sv_entries [0..<CAMSV_WORKING_BUF_NUM] bl_init;
     Some (0, p\<lparr>sv_freelist := l\<rparr>)
   }"

subsection \<open>The interface of a free list\<close>

text \<open>A client takes entries and returns those it holds. \<open>held\<close> are the entries it has taken.\<close>

datatype pool_op = Take | Return nat

fun pool_run :: "('s \<Rightarrow> nat option \<times> 's) \<Rightarrow> (nat \<Rightarrow> 's \<Rightarrow> 's option) \<Rightarrow> pool_op list \<Rightarrow> 's \<Rightarrow> nat list
    \<Rightarrow> ('s \<times> nat list) option" where
  "pool_run get put [] s held = Some (s, held)"
| "pool_run get put (Take # ops) s held = (case get s of
     (None, s) \<Rightarrow> pool_run get put ops s held
   | (Some i, s) \<Rightarrow> pool_run get put ops s (held @ [i]))"
| "pool_run get put (Return i # ops) s held = (if i \<notin> set held then None
     else do { s \<leftarrow> put i s; pool_run get put ops s (remove1 i held) })"

text \<open>The client keeps to what it holds.\<close>

fun keeps_to_held :: "('s \<Rightarrow> nat option \<times> 's) \<Rightarrow> (nat \<Rightarrow> 's \<Rightarrow> 's option) \<Rightarrow> pool_op list \<Rightarrow> 's \<Rightarrow> nat list \<Rightarrow> bool" where
  "keeps_to_held get put [] s held = True"
| "keeps_to_held get put (Take # ops) s held = (case get s of
     (None, s) \<Rightarrow> keeps_to_held get put ops s held
   | (Some i, s) \<Rightarrow> keeps_to_held get put ops s (held @ [i]))"
| "keeps_to_held get put (Return i # ops) s held = (i \<in> set held
     \<and> (case put i s of None \<Rightarrow> True | Some s \<Rightarrow> keeps_to_held get put ops s (remove1 i held)))"

locale free_list =
  fixes get :: "'s \<Rightarrow> nat option \<times> 's"
    and put :: "nat \<Rightarrow> 's \<Rightarrow> 's option"
    and fl :: "'s \<Rightarrow> buf_list"
  assumes get_empty: "bl_list (fl s) = [] \<Longrightarrow> get s = (None, s)"
    and get_first: "bl_list (fl s) = i # is \<Longrightarrow>
      \<exists>s'. get s = (Some i, s') \<and> fl s' = \<lparr>bl_list = is, bl_cnt = bl_cnt (fl s) - 1\<rparr>"
    and put_last: "i \<notin> set (bl_list (fl s)) \<Longrightarrow>
      \<exists>s'. put i s = Some s' \<and> fl s' = \<lparr>bl_list = bl_list (fl s) @ [i], bl_cnt = bl_cnt (fl s) + 1\<rparr>"
begin

text \<open>The free and the held entries together are the \<open>N\<close> entries of the pool, and the counter is right.\<close>

definition fl_inv :: "nat \<Rightarrow> 's \<Rightarrow> nat list \<Rightarrow> bool" where
  "fl_inv N s held \<longleftrightarrow> distinct (bl_list (fl s) @ held) \<and> set (bl_list (fl s) @ held) = {0..<N}
     \<and> bl_cnt (fl s) = of_nat (length (bl_list (fl s)))"

lemma run_inv:
  assumes "fl_inv N s held" and "keeps_to_held get put ops s held"
  shows "\<exists>s' held'. pool_run get put ops s held = Some (s', held') \<and> fl_inv N s' held'"
  using assms
proof (induction ops arbitrary: s held)
  case (Cons op ops)
  show ?case
  proof (cases op)
    case Take
    show ?thesis
    proof (cases "bl_list (fl s)")
      case Nil
      then show ?thesis using Cons get_empty[OF Nil] Take by simp
    next
      case (Cons i "is")
      obtain s' where s': "get s = (Some i, s')" "fl s' = \<lparr>bl_list = is, bl_cnt = bl_cnt (fl s) - 1\<rparr>"
        using get_first[OF Cons] by blast
      have "fl_inv N s' (held @ [i])" using Cons.prems(1) Cons s'(2) by (auto simp: fl_inv_def)
      then show ?thesis using Cons.IH Cons.prems(2) Take s'(1) by simp
    qed
  next
    case (Return i)
    then have i: "i \<in> set held" using Cons.prems(2) by simp
    then have "i \<notin> set (bl_list (fl s))" using Cons.prems(1) by (auto simp: fl_inv_def)
    then obtain s' where s': "put i s = Some s'" "fl s' = \<lparr>bl_list = bl_list (fl s) @ [i], bl_cnt = bl_cnt (fl s) + 1\<rparr>"
      using put_last by blast
    have "fl_inv N s' (remove1 i held)"
      using Cons.prems(1) i s'(2) by (auto simp: fl_inv_def dest: in_set_remove1)
    then show ?thesis using Cons.IH Cons.prems(2) Return s'(1) i by simp
  qed
qed simp

text \<open>A take fails exactly when everything is held; otherwise it gives the entry returned longest ago.\<close>

lemma get_fails_iff:
  assumes "fl_inv N s held"
  shows "fst (get s) = None \<longleftrightarrow> set held = {0..<N}"
proof (cases "bl_list (fl s)")
  case Nil
  then show ?thesis using get_empty[OF Nil] assms by (simp add: fl_inv_def)
next
  case (Cons i "is")
  then show ?thesis using get_first[OF Cons] assms by (auto simp: fl_inv_def)
qed

end

interpretation working_pool: free_list mtk_cam_working_buf_get mtk_cam_working_buf_put cam_freelist
  by unfold_locales (auto simp: mtk_cam_working_buf_get_def mtk_cam_working_buf_put_def bl_take_first_def bl_add_tail_def)

interpretation img_pool: free_list mtk_cam_img_working_buf_get mtk_cam_img_working_buf_put cam_freeimglist
  by unfold_locales (auto simp: mtk_cam_img_working_buf_get_def mtk_cam_img_working_buf_put_def bl_take_first_def
      bl_add_tail_def)

interpretation sv_pool: free_list mtk_cam_sv_working_buf_get "\<lambda>i. mtk_cam_sv_working_buf_put (Some i)" sv_freelist
  by unfold_locales (auto simp: mtk_cam_sv_working_buf_get_def mtk_cam_sv_working_buf_put_def bl_take_first_def
      bl_add_tail_def)

subsection \<open>Regions a pool holds\<close>

lemma distinct_map_perm: "mset xs = mset ys \<Longrightarrow> distinct (map f xs) \<longleftrightarrow> distinct (map f ys)"
  by (metis mset_eq_imp_distinct_iff mset_map)

lemma ccd_plus_perm:
  assumes "mset xs = mset ys" and "ccd_plus w0 xs w"
  shows "ccd_plus w0 ys w"
proof -
  have "set xs = set ys" by (rule mset_eq_setD[OF assms(1)])
  then show ?thesis using assms distinct_map_perm[OF assms(1), of own_buf] distinct_map_perm[OF assms(1), of own_file]
      distinct_map_perm[OF assms(1), of own_fd]
    by (simp add: ccd_plus_def)
qed

definition region :: "ccd_own \<Rightarrow> u64 \<times> u32 \<times> int" where
  "region x = (own_va x, own_len x, own_fd x)"

definition all_open :: "ccd_own list \<Rightarrow> mtk_ccd \<Rightarrow> bool" where
  "all_open xs w \<longleftrightarrow> (\<forall>x \<in> set xs. ccd_fds w (own_fd x) \<noteq> None)"

text \<open>An allocation of \<open>n\<close> bytes fails in a world with the regions \<open>xs\<close> taken.\<close>

definition allocation_fails :: "pool_cfg \<Rightarrow> mtk_ccd \<Rightarrow> u32 \<Rightarrow> ccd_own list \<Rightarrow> mtk_ccd \<Rightarrow> bool" where
  "allocation_fails cfg w0 n xs w \<longleftrightarrow> ccd_plus w0 xs w \<and> all_open xs w
     \<and> (\<exists>err w'. take_region cfg n w = Some (Inl err, w'))"

lemma get_buffer_error:
  "mtk_ccd_get_buffer env m w = (Inl err, m', w') \<Longrightarrow> err < 0"
  by (auto simp: mtk_ccd_get_buffer_def Let_def EINVAL_def ENOMEM_def split: if_splits option.splits prod.splits)

lemma take_region_cases:
  assumes plus: "ccd_plus w0 xs w" "all_open xs w" and env: "alloc_ok (pool_env cfg)" "exports_ok (pool_env cfg)"
    and room: "card (dom (ccd_fds w0)) + length xs < nofile (pool_env cfg)"
  obtains (error) err w' where "take_region cfg n w = Some (Inl err, w')" "err < 0" "ccd_plus w0 xs w'" "all_open xs w'"
  | (taken) smem fd w' x where "take_region cfg n w = Some (Inr (smem, fd), w')" "len smem = n"
      "region x = (va smem, n, fd)" "ccd_plus w0 (x # xs) w'" "all_open (x # xs) w'"
proof -
  let ?m = "\<lparr>iova = 0, len = n, va = 0\<rparr> :: mem_obj"
  obtain r smem w1 where get: "mtk_ccd_get_buffer (pool_env cfg) ?m w = (r, smem, w1)" by (metis prod.collapse)
  show ?thesis
  proof (cases r)
    case (Inl err)
    then have get: "mtk_ccd_get_buffer (pool_env cfg) ?m w = (Inl err, smem, w1)" using get by simp
    have "ccd_fds w1 = ccd_fds w" using get_buffer_cases(2)[OF get] by simp
    then have "all_open xs w1" using plus(2) by (simp add: all_open_def)
    then show ?thesis
      using error[of err w1] get get_buffer_error[OF get] ccd_plus_get_error[OF get plus(1)]
      by (simp add: take_region_def)
  next
    case (Inr b)
    then have get: "mtk_ccd_get_buffer (pool_env cfg) ?m w = (Inr b, smem, w1)" using get by simp
    have len: "len smem = n" using get_buffer_cases(1)[OF get] by simp
    obtain x w2 where x: "mtk_ccd_get_buffer_fd (pool_env cfg) (PRIV b) w1 = Some (own_fd x, w2)"
        "ccd_plus w0 (x # xs) w2" "own_va x = va smem" "own_len x = len smem" "all_open (x # xs) w2"
      using ccd_acquire[OF get plus(1) _ env room] plus(2) unfolding all_open_def by blast
    then have "take_region cfg n w = Some (Inr (smem, own_fd x), w2)" by (simp add: take_region_def get)
    then show ?thesis using taken[of smem "own_fd x" w2 x] x len by (simp add: region_def)
  qed
qed

lemma give_region_owned:
  assumes plus: "ccd_plus w0 xs w" and x: "x \<in> set xs" "region x = (va smem, len smem, fd)"
    and env: "current_files (pool_env cfg)"
  shows "\<exists>w'. give_region cfg smem fd w = Some w' \<and> ccd_plus w0 (remove1 x xs) w'"
proof -
  have "mset xs = mset (x # remove1 x xs)" using x(1) by simp
  then have "ccd_plus w0 (x # remove1 x xs) w" by (rule ccd_plus_perm[OF _ plus])
  then show ?thesis
    using ccd_release[of w0 x "remove1 x xs" w smem "pool_env cfg"] x(2) env
    by (auto simp: region_def give_region_def)
qed

lemma region_in:
  assumes "mset (map region xs) = add_mset r rs"
  obtains x where "x \<in> set xs" "region x = r" "mset (map region (remove1 x xs)) = rs"
proof -
  have "r \<in> set (map region xs)" using arg_cong[OF assms, of set_mset] by simp
  then obtain x where x: "x \<in> set xs" "region x = r" by auto
  have perm: "mset (x # remove1 x xs) = mset xs" using x(1) by simp
  have "mset (map region xs) = image_mset region (mset (x # remove1 x xs))" by (simp only: perm mset_map)
  then have "mset (map region xs) = add_mset r (mset (map region (remove1 x xs)))"
    by (simp only: mset.simps image_mset_add_mset x(2) mset_map)
  then show ?thesis using that[OF x] assms by simp
qed

definition meta_region :: "mtk_cam_working_buf_pool \<Rightarrow> nat \<Rightarrow> u64 \<times> u32 \<times> int" where
  "meta_region p i = (let m = meta_buffer (working_buf p i) in (db_va m, db_size m, db_fd m))"

definition main_regions :: "mtk_cam_working_buf_pool \<Rightarrow> (u64 \<times> u32 \<times> int) list" where
  "main_regions p = [(working_buf_va p, working_buf_size p, working_buf_fd p), (msg_buf_va p, msg_buf_size p, msg_buf_fd p)]"

definition pool_regions :: "mtk_cam_working_buf_pool \<Rightarrow> (u64 \<times> u32 \<times> int) list" where
  "pool_regions p = main_regions p @ map (meta_region p) [0..<CAM_CQ_BUF_NUM]"

subsection \<open>Release undoes initialisation\<close>

lemma bl_add_tail_new:
  "i \<notin> set (bl_list l) \<Longrightarrow> bl_add_tail i l = Some (l\<lparr>bl_list := bl_list l @ [i], bl_cnt := bl_cnt l + 1\<rparr>)"
  by (simp add: bl_add_tail_def)

text \<open>The loop takes one region for every entry and puts the entry on the free list, or stops with an
  error and keeps what it has.\<close>

lemma init_entries_result:
  assumes "ccd_plus w0 xs w" "all_open xs w" and env: "alloc_ok (pool_env cfg)" "exports_ok (pool_env cfg)"
    and "mset (map region xs) = mset (main_regions p) + mset (map (meta_region p) ds)"
    and "distinct (ds @ is)" and "set (bl_list (cam_freelist p)) \<inter> set is = {}"
    and "card (dom (ccd_fds w0)) + length xs + length is \<le> nofile (pool_env cfg)"
  shows "\<exists>r p' w' xs'. init_entries cfg is p w = Some (r, p', w') \<and> ccd_plus w0 xs' w' \<and> all_open xs' w'
    \<and> r \<le> 0 \<and> length xs \<le> length xs'
    \<and> (r \<noteq> 0 \<longrightarrow> (\<exists>ys v. allocation_fails cfg w0 (meta_size cfg) ys v \<and> length ys < length xs + length is))
    \<and> (r = 0 \<longrightarrow> mset (map region xs') = mset (main_regions p') + mset (map (meta_region p') (ds @ is))
        \<and> cam_freelist p' = \<lparr>bl_list = bl_list (cam_freelist p) @ is,
             bl_cnt = bl_cnt (cam_freelist p) + of_nat (length is)\<rparr>)"
  using assms(1,2,5-8)
proof (induction "is" arbitrary: xs ds p w)
  case Nil
  then show ?case by (intro exI[of _ 0] exI[of _ p] exI[of _ w] exI[of _ xs]) simp
next
  case (Cons i "is")
  define p1 where "p1 = init_entry cfg i p"
  have p1: "main_regions p1 = main_regions p" "cam_freelist p1 = cam_freelist p"
    "meta_region p1 = meta_region p"
    by (auto simp: p1_def init_entry_def Let_def main_regions_def meta_region_def fun_eq_iff)
  have room: "card (dom (ccd_fds w0)) + length xs < nofile (pool_env cfg)" using Cons.prems(6) by simp
  show ?case
  proof (rule take_region_cases[OF Cons.prems(1,2) env room, of "meta_size cfg"])
    fix err w' assume *: "take_region cfg (meta_size cfg) w = Some (Inl err, w')" "err < 0"
      "ccd_plus w0 xs w'" "all_open xs w'"
    then have "init_entries cfg (i # is) p w = Some (err, p1, w')" by (simp add: p1_def Let_def)
    moreover have "allocation_fails cfg w0 (meta_size cfg) xs w"
      using Cons.prems(1,2) *(1) by (auto simp: allocation_fails_def)
    ultimately show ?thesis
      using *(2-4) by (intro exI[of _ err] exI[of _ p1] exI[of _ w'] exI[of _ xs]) auto
  next
    fix smem fd w' x
    assume *: "take_region cfg (meta_size cfg) w = Some (Inr (smem, fd), w')" "len smem = meta_size cfg"
      "region x = (va smem, meta_size cfg, fd)" "ccd_plus w0 (x # xs) w'" "all_open (x # xs) w'"
    define p2 where "p2 = p1\<lparr>working_buf := (working_buf p1)(i := (working_buf p1 i)\<lparr>
             meta_buffer := \<lparr>db_va = va smem, db_iova = iova smem, db_size = len smem, db_fd = fd\<rparr>\<rparr>)\<rparr>"
    define p3 where "p3 = p2\<lparr>cam_freelist := \<lparr>bl_list = bl_list (cam_freelist p) @ [i], bl_cnt = bl_cnt (cam_freelist p) + 1\<rparr>\<rparr>"
    have "i \<notin> set (bl_list (cam_freelist p))" using Cons.prems(5) by simp
    then have free: "bl_add_tail i (cam_freelist p1) = Some (cam_freelist p3)"
      by (simp add: bl_add_tail_new p3_def p1)
    have run: "init_entries cfg (i # is) p w = init_entries cfg is p3 w'"
      using *(1) free by (simp add: Let_def p1_def[symmetric] p2_def[symmetric] p3_def)
    have "main_regions p3 = main_regions p" using p1(1) by (simp add: p3_def p2_def main_regions_def)
    moreover have "meta_region p3 j = (if j = i then region x else meta_region p j)" for j
      using p1(3) *(2,3) by (simp add: p3_def p2_def meta_region_def Let_def fun_eq_iff)
    moreover have "map (\<lambda>j. if j = i then region x else meta_region p j) ds = map (meta_region p) ds"
      using Cons.prems(4) by auto
    ultimately have regions: "mset (map region (x # xs)) = mset (main_regions p3) + mset (map (meta_region p3) (ds @ [i]))"
      using Cons.prems(3) by (simp add: fun_eq_iff[symmetric] cong: map_cong)
    have "distinct ((ds @ [i]) @ is)" "set (bl_list (cam_freelist p3)) \<inter> set is = {}"
      "card (dom (ccd_fds w0)) + length (x # xs) + length is \<le> nofile (pool_env cfg)"
      using Cons.prems(4-6) by (auto simp: p3_def)
    from Cons.IH[OF *(4,5) regions this] obtain r q w'' xs' where
      "init_entries cfg is p3 w' = Some (r, q, w'')" "ccd_plus w0 xs' w''" "all_open xs' w''" "r \<le> 0"
      "length (x # xs) \<le> length xs'"
      "r \<noteq> 0 \<longrightarrow> (\<exists>ys v. allocation_fails cfg w0 (meta_size cfg) ys v \<and> length ys < length (x # xs) + length is)"
      "r = 0 \<longrightarrow> mset (map region xs') = mset (main_regions q) + mset (map (meta_region q) ((ds @ [i]) @ is))
        \<and> cam_freelist q = \<lparr>bl_list = bl_list (cam_freelist p3) @ is, bl_cnt = bl_cnt (cam_freelist p3) + of_nat (length is)\<rparr>"
      by blast
    then show ?thesis
      unfolding run
      by (intro exI[of _ r] exI[of _ q] exI[of _ w''] exI[of _ xs']) (simp add: p3_def ac_simps)
  qed
qed

lemma release_entries_result:
  assumes "ccd_plus w0 xs w" and env: "current_files (pool_env cfg)"
    and "mset (map region xs) = mset (map (meta_region p) is) + rs" and "distinct is"
  shows "\<exists>p' w' xs'. release_entries cfg is p w = Some (p', w') \<and> ccd_plus w0 xs' w'
    \<and> mset (map region xs') = rs \<and> main_regions p' = main_regions p"
  using assms(1,3,4)
proof (induction "is" arbitrary: xs p w)
  case Nil
  then show ?case by auto
next
  case (Cons i "is")
  have "mset (map region xs) = add_mset (meta_region p i) (mset (map (meta_region p) is) + rs)"
    using Cons.prems(2) by simp
  then obtain x where x: "x \<in> set xs" "region x = meta_region p i"
    "mset (map region (remove1 x xs)) = mset (map (meta_region p) is) + rs"
    by (rule region_in)
  define m where "m = meta_buffer (working_buf p i)"
  define p1 where "p1 = p\<lparr>working_buf := (working_buf p)(i := (working_buf p i)\<lparr>meta_buffer := m\<lparr>db_size := 0\<rparr>\<rparr>)\<rparr>"
  obtain w1 where w1: "give_region cfg \<lparr>iova = db_iova m, len = db_size m, va = db_va m\<rparr> (db_fd m) w = Some w1"
    "ccd_plus w0 (remove1 x xs) w1"
    using give_region_owned[OF Cons.prems(1) x(1) _ env, of "\<lparr>iova = db_iova m, len = db_size m, va = db_va m\<rparr>" "db_fd m"] x(2)
    by (auto simp: meta_region_def m_def Let_def)
  have eq: "map (meta_region p1) is = map (meta_region p) is"
    using Cons.prems(3) by (auto simp: meta_region_def p1_def)
  have "mset (map region (remove1 x xs)) = mset (map (meta_region p1) is) + rs" unfolding eq by (rule x(3))
  from Cons.IH[OF w1(2) this] Cons.prems(3) obtain q w'' xs' where
    q: "release_entries cfg is p1 w1 = Some (q, w'')" "ccd_plus w0 xs' w''" "mset (map region xs') = rs"
       "main_regions q = main_regions p1"
    by auto
  have "main_regions p1 = main_regions p" by (simp add: main_regions_def p1_def)
  moreover have "release_entries cfg (i # is) p w = release_entries cfg is p1 w1"
    using w1(1) by (simp add: Let_def p1_def m_def)
  ultimately show ?case using q by auto
qed

lemma pool_init_result:
  assumes ok: "ccd_ok w" and env: "alloc_ok (pool_env cfg)" "exports_ok (pool_env cfg)"
    and room: "card (dom (ccd_fds w)) + CAM_CQ_BUF_NUM + 2 \<le> nofile (pool_env cfg)"
  shows "\<exists>r p' w' xs. mtk_cam_working_buf_pool_init cfg p w = Some (r, p', w') \<and> ccd_plus w xs w' \<and> all_open xs w' \<and> r \<le> 0
    \<and> (\<forall>v w1. take_region cfg (of_nat CAM_CQ_BUF_NUM * round_up (CQ_BUF_SIZE cfg) (PAGE_SIZE cfg)) w
          = Some (Inr v, w1) \<longrightarrow> xs \<noteq> [])
    \<and> (r = 0 \<longrightarrow> mset (map region xs) = mset (pool_regions p')
        \<and> cam_freelist p' = \<lparr>bl_list = [0..<CAM_CQ_BUF_NUM], bl_cnt = of_nat CAM_CQ_BUF_NUM\<rparr>)
    \<and> (r \<noteq> 0 \<longrightarrow> (\<exists>n ys v. allocation_fails cfg w n ys v \<and> length ys < CAM_CQ_BUF_NUM + 2
          \<and> n \<in> {of_nat CAM_CQ_BUF_NUM * round_up (CQ_BUF_SIZE cfg) (PAGE_SIZE cfg),
                 of_nat CAM_CQ_BUF_NUM * round_up (IPI_FRAME_BUF_SIZE cfg) (PAGE_SIZE cfg), meta_size cfg}))"
proof -
  define p1 where "p1 = p\<lparr>cam_freelist := bl_init,
     working_buf_size := of_nat CAM_CQ_BUF_NUM * round_up (CQ_BUF_SIZE cfg) (PAGE_SIZE cfg),
     msg_buf_size := of_nat CAM_CQ_BUF_NUM * round_up (IPI_FRAME_BUF_SIZE cfg) (PAGE_SIZE cfg)\<rparr>"
  have open0: "all_open [] w" by (simp add: all_open_def)
  note init = mtk_cam_working_buf_pool_init_def[of cfg p w, unfolded Let_def, folded p1_def]
  show ?thesis
  proof (rule take_region_cases[OF ccd_plus_refl[OF ok] open0 env, of "working_buf_size p1"])
    show "card (dom (ccd_fds w)) + length ([] :: ccd_own list) < nofile (pool_env cfg)" using room by simp
  next
    fix err w1 assume *: "take_region cfg (working_buf_size p1) w = Some (Inl err, w1)" "err < 0" "ccd_plus w [] w1" "all_open [] w1"
    have "allocation_fails cfg w (working_buf_size p1) [] w"
      using ccd_plus_refl[OF ok] open0 *(1) by (auto simp: allocation_fails_def)
    then have "\<exists>n ys v. allocation_fails cfg w n ys v \<and> length ys < CAM_CQ_BUF_NUM + 2
          \<and> n \<in> {of_nat CAM_CQ_BUF_NUM * round_up (CQ_BUF_SIZE cfg) (PAGE_SIZE cfg),
                 of_nat CAM_CQ_BUF_NUM * round_up (IPI_FRAME_BUF_SIZE cfg) (PAGE_SIZE cfg), meta_size cfg}"
      by (intro exI[of _ "working_buf_size p1"] exI[of _ "[]"] exI[of _ w]) (simp add: p1_def)
    with * show ?thesis
      unfolding init by (intro exI[of _ err] exI[of _ p1] exI[of _ w1] exI[of _ "[]"]) (simp add: p1_def)
  next
    fix smem fd w1 x
    assume 1: "take_region cfg (working_buf_size p1) w = Some (Inr (smem, fd), w1)" "len smem = working_buf_size p1"
      "region x = (va smem, working_buf_size p1, fd)" "ccd_plus w [x] w1" "all_open [x] w1"
    define p2 where "p2 = p1\<lparr>working_buf_va := va smem, working_buf_iova := iova smem, working_buf_fd := fd\<rparr>"
    show ?thesis
    proof (rule take_region_cases[OF 1(4,5) env, of "msg_buf_size p2"])
      show "card (dom (ccd_fds w)) + length [x] < nofile (pool_env cfg)" using room by simp
    next
      fix err w2 assume *: "take_region cfg (msg_buf_size p2) w1 = Some (Inl err, w2)" "err < 0" "ccd_plus w [x] w2" "all_open [x] w2"
      moreover have "allocation_fails cfg w (msg_buf_size p2) [x] w1"
        using 1(4,5) *(1) by (auto simp: allocation_fails_def)
      then have "\<exists>n ys v. allocation_fails cfg w n ys v \<and> length ys < CAM_CQ_BUF_NUM + 2
          \<and> n \<in> {of_nat CAM_CQ_BUF_NUM * round_up (CQ_BUF_SIZE cfg) (PAGE_SIZE cfg),
                 of_nat CAM_CQ_BUF_NUM * round_up (IPI_FRAME_BUF_SIZE cfg) (PAGE_SIZE cfg), meta_size cfg}"
        by (intro exI[of _ "msg_buf_size p2"] exI[of _ "[x]"] exI[of _ w1]) (simp add: p2_def p1_def CAM_CQ_BUF_NUM_def)
      ultimately show ?thesis
        unfolding init by (intro exI[of _ err] exI[of _ p2] exI[of _ w2] exI[of _ "[x]"]) (simp add: 1(1) p2_def)
    next
      fix smem2 fd2 w2 y
      assume 2: "take_region cfg (msg_buf_size p2) w1 = Some (Inr (smem2, fd2), w2)" "len smem2 = msg_buf_size p2"
        "region y = (va smem2, msg_buf_size p2, fd2)" "ccd_plus w [y, x] w2" "all_open [y, x] w2"
      define p3 where "p3 = p2\<lparr>msg_buf_va := va smem2, msg_buf_fd := fd2\<rparr>"
      have run: "mtk_cam_working_buf_pool_init cfg p w = init_entries cfg [0..<CAM_CQ_BUF_NUM] p3 w2"
        unfolding init using 2(1) by (simp add: 1(1) p2_def p3_def)
      have "mset (map region [y, x]) = mset (main_regions p3) + mset (map (meta_region p3) [])"
        using 1(3) 2(3) by (simp add: main_regions_def p3_def p2_def)
      moreover have "set (bl_list (cam_freelist p3)) \<inter> set [0..<CAM_CQ_BUF_NUM] = {}"
        by (simp add: p3_def p2_def p1_def bl_init_def)
      ultimately obtain r q w' xs' where
        "init_entries cfg [0..<CAM_CQ_BUF_NUM] p3 w2 = Some (r, q, w')" "ccd_plus w xs' w'" "all_open xs' w'" "r \<le> 0"
        "xs' \<noteq> []"
        "r \<noteq> 0 \<longrightarrow> (\<exists>ys v. allocation_fails cfg w (meta_size cfg) ys v \<and> length ys < length [y, x] + length [0..<CAM_CQ_BUF_NUM])"
        "r = 0 \<longrightarrow> mset (map region xs') = mset (main_regions q) + mset (map (meta_region q) ([] @ [0..<CAM_CQ_BUF_NUM]))
          \<and> cam_freelist q = \<lparr>bl_list = bl_list (cam_freelist p3) @ [0..<CAM_CQ_BUF_NUM],
               bl_cnt = bl_cnt (cam_freelist p3) + of_nat (length [0..<CAM_CQ_BUF_NUM])\<rparr>"
        using init_entries_result[OF 2(4,5) env, of p3 "[]" "[0..<CAM_CQ_BUF_NUM]"] room by fastforce
      then show ?thesis
        unfolding run by (intro exI[of _ r] exI[of _ q] exI[of _ w'] exI[of _ xs'])
          (auto simp: p3_def p2_def p1_def bl_init_def pool_regions_def)
    qed
  qed
qed

text \<open>User space may close descriptors of the pool at any time.\<close>

definition pool_fds :: "mtk_cam_working_buf_pool \<Rightarrow> int set" where
  "pool_fds p = (\<lambda>(_, _, fd). fd) ` set (pool_regions p)"

lemma user_closes:
  assumes "ccd_plus w0 xs w" and "set fds \<subseteq> own_fd ` set xs"
  shows "\<exists>w'. ofold close_fd fds w = Some w' \<and> ccd_plus w0 xs w'"
  using assms
proof (induction fds arbitrary: w)
  case (Cons fd fds)
  then obtain x where x: "x \<in> set xs" "own_fd x = fd" by auto
  obtain w1 where w1: "close_fd fd w = Some w1" "ccd_plus w0 xs w1"
    using ccd_user_close[OF Cons.prems(1) x(1)] x(2) by auto
  show ?case using Cons.IH[OF w1(2)] Cons.prems(2) w1(1) by simp
qed simp

text \<open>C38. Releasing an initialised working-buffer pool gives the co-processor's memory back exactly as it
  was before: the same buffer objects, dma-bufs and open descriptors, and the same table entries up
  to their order, also when user space has closed some of the pool's descriptors itself meanwhile.
  The kernel is assumed to hand out unused addresses and descriptors.\<close>

theorem pool_release_restores:
  assumes "alloc_ok (pool_env cfg)" and "exports_ok (pool_env cfg)" and "ccd_ok w"
    and "card (dom (ccd_fds w)) + CAM_CQ_BUF_NUM + 2 \<le> nofile (pool_env cfg)"
    and "mtk_cam_working_buf_pool_init cfg p w = Some (0, p1, w1)"
    and "set closed \<subseteq> pool_fds p1" and "ofold close_fd closed w1 = Some w2"
  shows "\<exists>p3 w3. mtk_cam_working_buf_pool_release cfg p1 w2 = Some (p3, w3)
    \<and> ccd_heap w3 = ccd_heap w \<and> ccd_files w3 = ccd_files w \<and> ccd_fds w3 = ccd_fds w
    \<and> mset (entries w3) = mset (entries w)"
proof -
  have cur: "current_files (pool_env cfg)" using assms(2) by (simp add: exports_ok_def)
  obtain xs where xs: "ccd_plus w xs w1" "mset (map region xs) = mset (pool_regions p1)"
    using pool_init_result[OF assms(3,1,2,4), of p] assms(5) by auto
  have "set (map region xs) = set (pool_regions p1)" by (rule mset_eq_setD[OF xs(2)])
  then have "pool_fds p1 = (\<lambda>(_, _, fd). fd) ` region ` set xs" by (simp add: pool_fds_def)
  then have "pool_fds p1 = own_fd ` set xs" by (simp add: image_image region_def)
  then have plus: "ccd_plus w xs w2" using user_closes[OF xs(1), of closed] assms(6,7) by auto
  have "mset (map region xs) = mset (map (meta_region p1) [0..<CAM_CQ_BUF_NUM]) + mset (main_regions p1)"
    using xs(2) by (simp add: pool_regions_def add.commute)
  from release_entries_result[OF plus cur this] obtain q v ys where
    1: "release_entries cfg [0..<CAM_CQ_BUF_NUM] p1 w2 = Some (q, v)" "ccd_plus w ys v"
       "mset (map region ys) = mset (main_regions p1)" "main_regions q = main_regions p1"
    by auto
  let ?m1 = "\<lparr>iova = working_buf_iova q, len = working_buf_size q, va = working_buf_va q\<rparr>"
  let ?m2 = "\<lparr>iova = 0, len = msg_buf_size q, va = msg_buf_va q\<rparr> :: mem_obj"
  have "mset (map region ys) = add_mset (va ?m1, len ?m1, working_buf_fd q) {#(va ?m2, len ?m2, msg_buf_fd q)#}"
    using 1(3,4) by (simp add: main_regions_def)
  then obtain x where x: "x \<in> set ys" "region x = (va ?m1, len ?m1, working_buf_fd q)"
    "mset (map region (remove1 x ys)) = {#(va ?m2, len ?m2, msg_buf_fd q)#}"
    by (rule region_in)
  obtain v1 where v1: "give_region cfg ?m1 (working_buf_fd q) v = Some v1" "ccd_plus w (remove1 x ys) v1"
    using give_region_owned[OF 1(2) x(1,2) cur] by blast
  obtain y where y: "y \<in> set (remove1 x ys)" "region y = (va ?m2, len ?m2, msg_buf_fd q)"
    "mset (map region (remove1 y (remove1 x ys))) = {#}"
    by (rule region_in[of "remove1 x ys" _ "{#}"]) (use x(3) in simp_all)
  obtain v2 where v2: "give_region cfg ?m2 (msg_buf_fd q) v1 = Some v2" "ccd_plus w (remove1 y (remove1 x ys)) v2"
    using give_region_owned[OF v1(2) y(1,2) cur] by blast
  have "remove1 y (remove1 x ys) = []" using y(3) by (metis map_is_Nil_conv mset_zero_iff)
  then have "ccd_plus w [] v2" using v2(2) by simp
  then show ?thesis
    using 1(1) v1(1) v2(1) ccd_plus_Nil[of w v2] by (simp add: mtk_cam_working_buf_pool_release_def)
qed

text \<open>When the first allocation of a pool's initialisation succeeds and a later one fails, the error
  is returned while the co-processor's table still holds regions that were allocated.\<close>

theorem pool_init_failure_leaks:
  assumes "alloc_ok (pool_env cfg)" and "exports_ok (pool_env cfg)" and "ccd_ok w"
    and "card (dom (ccd_fds w)) + CAM_CQ_BUF_NUM + 2 \<le> nofile (pool_env cfg)"
    and "take_region cfg (of_nat CAM_CQ_BUF_NUM * round_up (CQ_BUF_SIZE cfg) (PAGE_SIZE cfg)) w = Some (Inr v, v')"
    and "mtk_cam_working_buf_pool_init cfg p w = Some (r, p1, w1)" and "r \<noteq> 0"
  shows "r < 0 \<and> length (entries w) < length (entries w1) \<and> mset (entries w) \<subseteq># mset (entries w1)"
proof -
  obtain xs where xs: "ccd_plus w xs w1" "xs \<noteq> []" "r \<le> 0"
    using pool_init_result[OF assms(3,1,2,4), of p] assms(5,6) by auto
  then have more: "mset (entries w1) = mset (entries w) + mset (map own_entry xs)" by (simp add: ccd_plus_def)
  have "length (entries w1) = length (entries w) + length xs" using arg_cong[OF more, of size] by simp
  then show ?thesis using xs(2,3) assms(7) more by simp
qed

subsection \<open>What the clients of the pool see\<close>

text \<open>The sixteen shares of the two regions lie one behind the other.\<close>

lemma init_entries_shares:
  assumes "init_entries cfg is p w = Some (r, p', w')" and "distinct is"
  shows "working_buf_va p' = working_buf_va p \<and> working_buf_iova p' = working_buf_iova p \<and> msg_buf_va p' = msg_buf_va p
    \<and> working_buf_size p' = working_buf_size p \<and> msg_buf_size p' = msg_buf_size p
    \<and> (\<forall>j. j \<notin> set is \<longrightarrow> working_buf p' j = working_buf p j)
    \<and> (r = 0 \<longrightarrow> (\<forall>j \<in> set is. buffer (working_buf p' j) = buffer (working_buf (init_entry cfg j p) j)
          \<and> msg_buffer (working_buf p' j) = msg_buffer (working_buf (init_entry cfg j p) j)))"
  using assms
proof (induction "is" arbitrary: p w)
  case (Cons i "is")
  obtain v w1 where take: "take_region cfg (meta_size cfg) w = Some (v, w1)"
    using Cons.prems(1) by (auto simp: Let_def bind_eq_Some_conv)
  show ?case
  proof (cases v)
    case (Inl err)
    then have "p' = init_entry cfg i p" "r = err" using Cons.prems(1) take by (auto simp: Let_def)
    moreover have "err \<noteq> 0" using take Inl
      by (auto simp: take_region_def bind_eq_Some_conv split: sum.splits prod.splits dest: get_buffer_error)
    ultimately show ?thesis by (auto simp: init_entry_def Let_def)
  next
    case (Inr sf)
    then obtain smem fd where sf: "v = Inr (smem, fd)" by (cases sf) auto
    define p2 where "p2 = (init_entry cfg i p)\<lparr>working_buf := (working_buf (init_entry cfg i p))(i := (working_buf (init_entry cfg i p) i)\<lparr>
             meta_buffer := \<lparr>db_va = va smem, db_iova = iova smem, db_size = len smem, db_fd = fd\<rparr>\<rparr>)\<rparr>"
    obtain l where l: "init_entries cfg is (p2\<lparr>cam_freelist := l\<rparr>) w1 = Some (r, p', w')"
      using Cons.prems(1) take sf by (auto simp: Let_def p2_def bind_eq_Some_conv)
    define p3 where "p3 = p2\<lparr>cam_freelist := l\<rparr>"
    have p3: "working_buf_va p3 = working_buf_va p" "working_buf_iova p3 = working_buf_iova p" "msg_buf_va p3 = msg_buf_va p"
      "working_buf_size p3 = working_buf_size p" "msg_buf_size p3 = msg_buf_size p"
      "\<And>j. j \<noteq> i \<Longrightarrow> working_buf p3 j = working_buf p j"
      "buffer (working_buf p3 i) = buffer (working_buf (init_entry cfg i p) i)"
      "msg_buffer (working_buf p3 i) = msg_buffer (working_buf (init_entry cfg i p) i)"
      by (simp_all add: p3_def p2_def init_entry_def Let_def)
    have share: "buffer (working_buf (init_entry cfg j p3) j) = buffer (working_buf (init_entry cfg j p) j)"
      "msg_buffer (working_buf (init_entry cfg j p3) j) = msg_buffer (working_buf (init_entry cfg j p) j)" for j
      by (simp_all add: init_entry_def Let_def p3)
    have "i \<notin> set is" "distinct is" using Cons.prems(2) by simp_all
    with Cons.IH[OF l[folded p3_def]] show ?thesis by (auto simp: p3 share)
  qed
qed simp

lemma pool_init_fields:
  assumes "mtk_cam_working_buf_pool_init cfg p w = Some (0, p1, w1)" and "i < CAM_CQ_BUF_NUM"
  defines "S \<equiv> round_up (CQ_BUF_SIZE cfg) (PAGE_SIZE cfg)" and "M \<equiv> round_up (IPI_FRAME_BUF_SIZE cfg) (PAGE_SIZE cfg)"
  shows "working_buf_size p1 = of_nat CAM_CQ_BUF_NUM * S \<and> msg_buf_size p1 = of_nat CAM_CQ_BUF_NUM * M
    \<and> buffer (working_buf p1 i) = \<lparr>wb_va = working_buf_va p1 + ucast (of_nat i * S),
          wb_iova = working_buf_iova p1 + ucast (of_nat i * S), wb_size = S\<rparr>
    \<and> msg_buffer (working_buf p1 i) = \<lparr>mb_va = msg_buf_va p1 + ucast (of_nat i * M), mb_size = M\<rparr>"
proof -
  have neg: "\<not> (take_region cfg n v = Some (Inl (0 :: int), v'))" for n v v'
    by (auto simp: take_region_def bind_eq_Some_conv split: sum.splits prod.splits dest: get_buffer_error)
  define p2 where "p2 = p\<lparr>cam_freelist := bl_init, working_buf_size := of_nat CAM_CQ_BUF_NUM * S,
     msg_buf_size := of_nat CAM_CQ_BUF_NUM * M\<rparr>"
  note init = assms(1)[unfolded mtk_cam_working_buf_pool_init_def Let_def, folded S_def M_def, folded p2_def]
  obtain a v1 where t1: "take_region cfg (working_buf_size p2) w = Some (a, v1)"
    using init by (cases "take_region cfg (working_buf_size p2) w") auto
  then obtain m1 f1 where a: "a = Inr (m1, f1)" using init neg by (cases a) auto
  define p3 where "p3 = p2\<lparr>working_buf_va := va m1, working_buf_iova := iova m1, working_buf_fd := f1\<rparr>"
  obtain b v2 where t2: "take_region cfg (msg_buf_size p3) v1 = Some (b, v2)"
    using init t1 a by (cases "take_region cfg (msg_buf_size p3) v1") (auto simp: p3_def)
  then obtain m2 f2 where b: "b = Inr (m2, f2)" using init t1 a neg by (cases b) (auto simp: p3_def)
  define q where "q = p3\<lparr>msg_buf_va := va m2, msg_buf_fd := f2\<rparr>"
  have run: "init_entries cfg [0..<CAM_CQ_BUF_NUM] q v2 = Some (0, p1, w1)"
    using init t1 t2 a b by (simp add: p3_def q_def)
  have q: "working_buf_size q = of_nat CAM_CQ_BUF_NUM * S" "msg_buf_size q = of_nat CAM_CQ_BUF_NUM * M"
    by (simp_all add: q_def p3_def p2_def)
  note shares = init_entries_shares[OF run distinct_upt]
  have "buffer (working_buf p1 i) = buffer (working_buf (init_entry cfg i q) i)"
    "msg_buffer (working_buf p1 i) = msg_buffer (working_buf (init_entry cfg i q) i)"
    using shares assms(2) by simp_all
  moreover have "buffer (working_buf (init_entry cfg i q) i) = \<lparr>wb_va = working_buf_va q + ucast (of_nat i * S),
      wb_iova = working_buf_iova q + ucast (of_nat i * S), wb_size = S\<rparr>"
    "msg_buffer (working_buf (init_entry cfg i q) i) = \<lparr>mb_va = msg_buf_va q + ucast (of_nat i * M), mb_size = M\<rparr>"
    by (simp_all add: init_entry_def Let_def S_def M_def)
  ultimately show ?thesis using shares q by simp
qed

lemma share_offset:
  assumes "16 * unat (S :: u32) < 4294967296" and "i < 16"
  shows "(ucast (of_nat i * S) :: u64) = of_nat (i * unat S)"
proof -
  have "i * unat S \<le> 16 * unat S" using assms(2) by simp
  then have lt: "i * unat S < 4294967296" using assms(1) by linarith
  have "of_nat i * S = (of_nat (i * unat S) :: u32)" by simp
  moreover have "unat (of_nat (i * unat S) :: u32) = i * unat S"
    by (simp only: unat_of_nat len_of_numeral_defs) (use mod_less[OF lt] in simp)
  ultimately show ?thesis by (metis of_nat_unat)
qed

lemma share_total: "16 * unat (S :: u32) < 4294967296 \<Longrightarrow> unat (16 * S) = 16 * unat S"
  by (simp add: unat_word_ariths)

text \<open>C40. The sixteen working buffers of an initialised pool are consecutive slices of the working region,
  at the same offset in its kernel and its device address, and together exactly fill it; the same
  holds for the message buffers. The sizes are assumed not to overflow 32 bits.\<close>

theorem pool_slices_tile:
  assumes "mtk_cam_working_buf_pool_init cfg p w = Some (0, p1, w1)"
    and "S = unat (round_up (CQ_BUF_SIZE cfg) (PAGE_SIZE cfg))" and "16 * S < 4294967296"
    and "M = unat (round_up (IPI_FRAME_BUF_SIZE cfg) (PAGE_SIZE cfg))" and "16 * M < 4294967296"
  shows "unat (working_buf_size p1) = 16 * S \<and> unat (msg_buf_size p1) = 16 * M
    \<and> (\<forall>i < CAM_CQ_BUF_NUM. let e = working_buf p1 i in
          wb_va (buffer e) = working_buf_va p1 + of_nat (i * S) \<and> wb_iova (buffer e) = working_buf_iova p1 + of_nat (i * S)
        \<and> unat (wb_size (buffer e)) = S
        \<and> mb_va (msg_buffer e) = msg_buf_va p1 + of_nat (i * M) \<and> unat (mb_size (msg_buffer e)) = M)"
proof -
  note fields = pool_init_fields[OF assms(1)]
  have n: "CAM_CQ_BUF_NUM = 16" by (simp add: CAM_CQ_BUF_NUM_def)
  have wsz: "unat (working_buf_size p1) = 16 * S" "unat (msg_buf_size p1) = 16 * M"
    using fields[of 0] share_total assms(2-5) by (simp_all add: n)
  show ?thesis
    using wsz fields share_offset assms(2-5) by (auto simp: n Let_def)
qed

text \<open>C39. However often buffers are taken from an initialised working-buffer pool and held ones returned,
  no operation faults, every one of the sixteen buffers is either free or held, never both or twice,
  the counter is the number of free ones, and a request fails only when all sixteen are held.\<close>

theorem working_pool_conserved:
  assumes "alloc_ok (pool_env cfg)" and "exports_ok (pool_env cfg)" and "ccd_ok w"
    and "card (dom (ccd_fds w)) + CAM_CQ_BUF_NUM + 2 \<le> nofile (pool_env cfg)"
    and "mtk_cam_working_buf_pool_init cfg p w = Some (0, p1, w1)"
    and "keeps_to_held mtk_cam_working_buf_get mtk_cam_working_buf_put ops p1 []"
  shows "\<exists>p2 held. pool_run mtk_cam_working_buf_get mtk_cam_working_buf_put ops p1 [] = Some (p2, held)
    \<and> distinct (bl_list (cam_freelist p2) @ held)
    \<and> set (bl_list (cam_freelist p2) @ held) = {0..<CAM_CQ_BUF_NUM}
    \<and> bl_cnt (cam_freelist p2) = of_nat (length (bl_list (cam_freelist p2)))
    \<and> (fst (mtk_cam_working_buf_get p2) = None \<longleftrightarrow> set held = {0..<CAM_CQ_BUF_NUM})"
proof -
  have "cam_freelist p1 = \<lparr>bl_list = [0..<CAM_CQ_BUF_NUM], bl_cnt = of_nat CAM_CQ_BUF_NUM\<rparr>"
    using pool_init_result[OF assms(3,1,2,4), of p] assms(5) by auto
  then have "working_pool.fl_inv CAM_CQ_BUF_NUM p1 []" by (simp add: working_pool.fl_inv_def)
  from working_pool.run_inv[OF this assms(6)] obtain p2 held where
    2: "pool_run mtk_cam_working_buf_get mtk_cam_working_buf_put ops p1 [] = Some (p2, held)"
       "working_pool.fl_inv CAM_CQ_BUF_NUM p2 held"
    by blast
  then show ?thesis using working_pool.get_fails_iff[OF 2(2)] by (auto simp: working_pool.fl_inv_def)
qed

subsection \<open>A pool on a kernel that keeps its promises\<close>

definition demo_cfg :: pool_cfg where
  "demo_cfg = \<lparr>CQ_BUF_SIZE = 0x10000, IPI_FRAME_BUF_SIZE = 0x1C00, PAGE_SIZE = 0x1000, meta_size = 0x8000,
     pool_env = kernel_env lowest_fd\<rparr>"

definition demo_pool :: mtk_cam_working_buf_pool where
  "demo_pool = \<lparr>working_buf_va = 0, msg_buf_va = 0, working_buf_iova = 0, working_buf_fd = 0, working_buf_size = 0,
     msg_buf_fd = 0, msg_buf_size = 0,
     working_buf = (\<lambda>_. \<lparr>buffer = \<lparr>wb_va = 0, wb_iova = 0, wb_size = 0\<rparr>,
       meta_buffer = \<lparr>db_va = 0, db_iova = 0, db_size = 0, db_fd = 0\<rparr>, msg_buffer = \<lparr>mb_va = 0, mb_size = 0\<rparr>\<rparr>),
     cam_freelist = bl_init, sv_freelist = bl_init\<rparr>"

lemma inj_candidates: "inj_on (\<lambda>k. of_nat k * 0x20000000 :: u64) {1..<200}"
proof (rule inj_onI)
  fix k l :: nat assume k: "k \<in> {1..<200}" and l: "l \<in> {1..<200}"
    and eq: "(of_nat k * 0x20000000 :: u64) = of_nat l * 0x20000000"
  have "unat (of_nat k * 0x20000000 :: u64) = k * 0x20000000" if "k < 200" for k :: nat
    using that by (simp add: unat_word_ariths unsigned_of_nat take_bit_eq_mod)
  then show "k = l" using k l arg_cong[OF eq, of unat] by simp
qed

text \<open>With fewer than 199 live buffers the first-fit allocator finds an address.\<close>

lemma first_fit_finds:
  assumes "ccd_ok w" and "card (dom (ccd_heap w)) < 199"
  shows "first_fit w sz \<noteq> None"
proof
  assume "first_fit w sz = None"
  then have none: "\<forall>k \<in> {1..<200}. \<exists>b \<in> {0..<ccd_next w}. map_option vaddr (ccd_heap w b) = Some (of_nat k * 0x20000000)"
    unfolding first_fit_def by (auto simp: find_None_iff simp del: upt.simps)
  have fin: "finite (dom (ccd_heap w))"
    using ccd_okD(4)[OF assms(1)] by (intro finite_subset[of "dom (ccd_heap w)" "{0..<ccd_next w}"])
      (auto simp: dom_def, metis not_le option.distinct(1))
  have "(\<lambda>k. of_nat k * 0x20000000 :: u64) ` {1..<200} \<subseteq> (\<lambda>b. vaddr (the (ccd_heap w b))) ` dom (ccd_heap w)"
    using none by (force simp: dom_def)
  then have "card ((\<lambda>k. of_nat k * 0x20000000 :: u64) ` {1..<200}) \<le> card ((\<lambda>b. vaddr (the (ccd_heap w b))) ` dom (ccd_heap w))"
    by (intro card_mono finite_imageI fin)
  also have "\<dots> \<le> card (dom (ccd_heap w))" by (rule card_image_le[OF fin])
  finally show False using assms(2) card_image[OF inj_candidates] by simp
qed

lemma demo_allocation:
  assumes "n \<in> {0x100000, 0x20000, 0x8000}" and "length xs < 18"
  shows "\<not> allocation_fails demo_cfg mtk_ccd_mem_init n xs w"
proof
  assume fail: "allocation_fails demo_cfg mtk_ccd_mem_init n xs w"
  then have plus: "ccd_plus mtk_ccd_mem_init xs w" by (simp add: allocation_fails_def)
  have "dom (ccd_heap w) \<subseteq> own_buf ` set xs"
    using ccd_plus_outside(1)[OF plus] by (auto simp: dom_def mtk_ccd_mem_init_def) (metis option.distinct(1))
  then have "card (dom (ccd_heap w)) \<le> card (own_buf ` set xs)" by (intro card_mono) auto
  also have "\<dots> \<le> length xs" by (metis card_length length_map list.set_map)
  finally have "first_fit w sz \<noteq> None" for sz
    using assms(2) first_fit_finds[OF ccd_plus_ok[OF plus]] by simp
  then obtain cpu dma where fit: "first_fit w (ucast n) = Some (cpu, dma)" by fastforce
  have "size (mset (entries w)) = size (mset (map own_entry xs))"
    using plus by (simp add: ccd_plus_def entries_def[of mtk_ccd_mem_init]) (simp add: mtk_ccd_mem_init_def)
  then have "unat (num_buffers w) = length xs" by (simp add: entries_def)
  then have "num_buffers w < 128" using assms(2) by (simp add: word_less_nat_alt)
  then have "\<exists>b m v. mtk_ccd_get_buffer (kernel_env lowest_fd) \<lparr>iova = 0, len = n, va = 0\<rparr> w = (Inr b, m, v)"
    using fit assms(1) by (auto simp: mtk_ccd_get_buffer_def Let_def CCD_ALLOCATE_MAX_BUFFER_SIZE_def
        MAX_NUMBER_OF_BUFFER_def mtk_ccd_buf_alloc_def kernel_env_def)
  then show False
    using fail by (auto simp: allocation_fails_def take_region_def demo_cfg_def bind_eq_Some_conv)
qed

lemma demo_env: "alloc_ok (pool_env demo_cfg)" "exports_ok (pool_env demo_cfg)"
  "card (dom (ccd_fds mtk_ccd_mem_init)) + CAM_CQ_BUF_NUM + 2 \<le> nofile (pool_env demo_cfg)"
  by (simp_all add: demo_cfg_def alloc_ok_kernel_env exports_ok_kernel_env)
     (simp add: mtk_ccd_mem_init_def kernel_env_def CAM_CQ_BUF_NUM_def)

lemma demo_sizes: "of_nat CAM_CQ_BUF_NUM * round_up (CQ_BUF_SIZE demo_cfg) (PAGE_SIZE demo_cfg) = 0x100000"
  "of_nat CAM_CQ_BUF_NUM * round_up (IPI_FRAME_BUF_SIZE demo_cfg) (PAGE_SIZE demo_cfg) = 0x20000"
  "meta_size demo_cfg = 0x8000"
  by (simp_all add: demo_cfg_def round_up_def CAM_CQ_BUF_NUM_def)

lemma demo_init: "\<exists>p w. mtk_cam_working_buf_pool_init demo_cfg demo_pool mtk_ccd_mem_init = Some (0, p, w)"
proof -
  obtain r p w where run: "mtk_cam_working_buf_pool_init demo_cfg demo_pool mtk_ccd_mem_init = Some (r, p, w)"
    and fails: "r \<noteq> 0 \<longrightarrow> (\<exists>n ys v. allocation_fails demo_cfg mtk_ccd_mem_init n ys v \<and> length ys < CAM_CQ_BUF_NUM + 2
        \<and> n \<in> {0x100000, 0x20000, 0x8000})"
    using pool_init_result[OF ccd_ok_init demo_env, of demo_pool] unfolding demo_sizes by blast
  have "r = 0" using fails demo_allocation by (auto simp: CAM_CQ_BUF_NUM_def)
  then show ?thesis using run by blast
qed

theorem pool_release_restores_witness:
  "\<exists>p1 w1 p3 w3. mtk_cam_working_buf_pool_init demo_cfg demo_pool mtk_ccd_mem_init = Some (0, p1, w1)
    \<and> mtk_cam_working_buf_pool_release demo_cfg p1 w1 = Some (p3, w3) \<and> ccd_heap w3 = Map.empty"
proof -
  obtain p1 w1 where init: "mtk_cam_working_buf_pool_init demo_cfg demo_pool mtk_ccd_mem_init = Some (0, p1, w1)"
    using demo_init by blast
  then show ?thesis
    using pool_release_restores[OF demo_env(1,2) ccd_ok_init demo_env(3) init, of "[]" w1]
    by (auto simp: mtk_ccd_mem_init_def)
qed

theorem working_pool_conserved_witness:
  "\<exists>p1 w1. mtk_cam_working_buf_pool_init demo_cfg demo_pool mtk_ccd_mem_init = Some (0, p1, w1)
    \<and> (\<exists>p2 held. pool_run mtk_cam_working_buf_get mtk_cam_working_buf_put [Take, Take, Return 0] p1 [] = Some (p2, held)
        \<and> set (bl_list (cam_freelist p2) @ held) = {0..<CAM_CQ_BUF_NUM})"
proof -
  obtain p1 w1 where init: "mtk_cam_working_buf_pool_init demo_cfg demo_pool mtk_ccd_mem_init = Some (0, p1, w1)"
    using demo_init by blast
  have "cam_freelist p1 = \<lparr>bl_list = [0..<CAM_CQ_BUF_NUM], bl_cnt = of_nat CAM_CQ_BUF_NUM\<rparr>"
    using pool_init_result[OF ccd_ok_init demo_env, of demo_pool] init by auto
  then have "keeps_to_held mtk_cam_working_buf_get mtk_cam_working_buf_put [Take, Take, Return 0] p1 []"
    by (simp add: mtk_cam_working_buf_get_def bl_take_first_def CAM_CQ_BUF_NUM_def upt_rec split: option.split)
  then show ?thesis
    using working_pool_conserved[OF demo_env(1,2) ccd_ok_init demo_env(3) init] init by blast
qed

theorem pool_slices_tile_witness:
  "\<exists>p1 w1. mtk_cam_working_buf_pool_init demo_cfg demo_pool mtk_ccd_mem_init = Some (0, p1, w1)
    \<and> unat (working_buf_size p1) = 0x100000 \<and> wb_va (buffer (working_buf p1 3)) = working_buf_va p1 + 0x30000"
proof -
  obtain p1 w1 where init: "mtk_cam_working_buf_pool_init demo_cfg demo_pool mtk_ccd_mem_init = Some (0, p1, w1)"
    using demo_init by blast
  have sizes: "0x10000 = unat (round_up (CQ_BUF_SIZE demo_cfg) (PAGE_SIZE demo_cfg))"
    "0x2000 = unat (round_up (IPI_FRAME_BUF_SIZE demo_cfg) (PAGE_SIZE demo_cfg))"
    by (simp_all add: demo_cfg_def round_up_def)
  show ?thesis
    using pool_slices_tile[OF init sizes(1) _ sizes(2)] init by (auto simp: CAM_CQ_BUF_NUM_def Let_def)
qed

text \<open>A kernel that has memory for one buffer only.\<close>

definition poor_env :: ccd_env where
  "poor_env = (kernel_env lowest_fd)\<lparr>dma_alloc := (\<lambda>w sz. if num_buffers w = 0 then first_fit w sz else None)\<rparr>"

lemma poor_env_ok: "alloc_ok poor_env" "exports_ok poor_env"
proof -
  show "alloc_ok poor_env"
    unfolding alloc_ok_def
  proof (intro allI impI)
    fix w sz cpu dma b buf
    assume *: "ccd_ok w" "dma_alloc poor_env w sz = Some (cpu, dma)" "ccd_heap w b = Some buf"
    then have "dma_alloc (kernel_env lowest_fd) w sz = Some (cpu, dma)"
      by (simp add: poor_env_def kernel_env_def split: if_splits)
    then show "vaddr buf \<noteq> cpu"
      using alloc_ok_kernel_env[of lowest_fd] *(1,3) unfolding alloc_ok_def by blast
  qed
  show "exports_ok poor_env"
    using exports_ok_kernel_env by (simp add: exports_ok_def poor_env_def kernel_env_def)
qed

theorem pool_init_failure_leaks_witness:
  "\<exists>r p1 w1. mtk_cam_working_buf_pool_init (demo_cfg\<lparr>pool_env := poor_env\<rparr>) demo_pool mtk_ccd_mem_init = Some (r, p1, w1)
    \<and> r < 0 \<and> 0 < length (entries w1)"
proof -
  let ?cfg = "demo_cfg\<lparr>pool_env := poor_env\<rparr>"
  have sizes: "of_nat CAM_CQ_BUF_NUM * round_up (CQ_BUF_SIZE ?cfg) (PAGE_SIZE ?cfg) = 0x100000"
    "of_nat CAM_CQ_BUF_NUM * round_up (IPI_FRAME_BUF_SIZE ?cfg) (PAGE_SIZE ?cfg) = 0x20000"
    by (simp_all add: demo_cfg_def round_up_def CAM_CQ_BUF_NUM_def)
  have room: "card (dom (ccd_fds mtk_ccd_mem_init)) + CAM_CQ_BUF_NUM + 2 \<le> nofile (pool_env ?cfg)"
    by (simp add: mtk_ccd_mem_init_def poor_env_def kernel_env_def CAM_CQ_BUF_NUM_def)
  have find: "find (\<lambda>k. True) (map (\<lambda>k. of_nat k * 0x20000000 :: u64) [1..<200]) = Some 0x20000000"
    by (simp add: upt_rec[of "Suc 0"])
  have "case take_region ?cfg 0x100000 mtk_ccd_mem_init of Some (Inr v, w1) \<Rightarrow> num_buffers w1 = 1 | _ \<Rightarrow> False"
    by (simp add: take_region_def mtk_ccd_get_buffer_def mtk_ccd_buf_alloc_def poor_env_def kernel_env_def first_fit_def
        mtk_ccd_mem_init_def CCD_ALLOCATE_MAX_BUFFER_SIZE_def MAX_NUMBER_OF_BUFFER_def Let_def find[simplified]
        mtk_ccd_get_buffer_fd_def mtk_ccd_get_fd_def mtk_ccd_get_dmabuf_def lowest_fd_def upt_rec[of 0])
  then obtain a w1 where "take_region ?cfg 0x100000 mtk_ccd_mem_init = Some (a, w1)"
      and "case a of Inr v \<Rightarrow> num_buffers w1 = 1 | _ \<Rightarrow> False"
    by (auto split: option.splits)
  then obtain v where t1: "take_region ?cfg 0x100000 mtk_ccd_mem_init = Some (Inr v, w1)" and n: "num_buffers w1 = 1"
    by (cases a) auto
  have "\<exists>err w2. take_region ?cfg 0x20000 w1 = Some (Inl err, w2) \<and> err \<noteq> 0"
    by (simp add: take_region_def mtk_ccd_get_buffer_def mtk_ccd_buf_alloc_def poor_env_def n ENOMEM_def EINVAL_def
        CCD_ALLOCATE_MAX_BUFFER_SIZE_def MAX_NUMBER_OF_BUFFER_def Let_def)
  then obtain err w2 where t2: "take_region ?cfg 0x20000 w1 = Some (Inl err, w2)" "err \<noteq> 0" by blast
  have "\<exists>p1. mtk_cam_working_buf_pool_init ?cfg demo_pool mtk_ccd_mem_init = Some (err, p1, w2)"
    unfolding mtk_cam_working_buf_pool_init_def sizes Let_def using t1 t2 by (cases v) simp
  then obtain p1 where init: "mtk_cam_working_buf_pool_init ?cfg demo_pool mtk_ccd_mem_init = Some (err, p1, w2)" by blast
  show ?thesis
    using pool_init_failure_leaks[OF _ _ ccd_ok_init room t1[folded sizes(1)] init t2(2)] poor_env_ok init by auto
qed

end
