(* ===== verification/CamTypes.thy ===== *)
theory CamTypes
  imports CamFeature CamPool
begin

text \<open>
  The data of the camera system (\<open>mtk_cam.h\<close>, \<open>mtk_cam-ctrl.h\<close>): device, contexts, requests and
  their stream data, and the look-ups over the running list (\<open>mtk_cam.c\<close>). A request is a number; a stream datum is named by its
  request, pipe and index, since C embeds it there, and its \<open>req\<close> and \<open>ctx\<close> pointers always lead
  back to the request it is part of and to the context of its stream. Effects outside camsys
  (V4L2 events, sensor controls, hardware, work queues, camsv) are recorded in \<open>cam_out\<close> in the
  order the code causes them. Locking is not modelled: each function is one atomic step.
\<close>

subsection \<open>Data\<close>

datatype MTK_CAMSYS_STATE_IDX =
    E_STATE_READY | E_STATE_SENINF | E_STATE_SENSOR | E_STATE_CQ | E_STATE_OUTER
  | E_STATE_CAMMUX_OUTER_CFG | E_STATE_CAMMUX_OUTER | E_STATE_INNER | E_STATE_DONE_NORMAL
  | E_STATE_CQ_SCQ_DELAY | E_STATE_CAMMUX_OUTER_CFG_DELAY | E_STATE_OUTER_HW_DELAY
  | E_STATE_INNER_HW_DELAY | E_STATE_DONE_MISMATCH
  | E_STATE_SUBSPL_READY | E_STATE_SUBSPL_SCQ | E_STATE_SUBSPL_OUTER | E_STATE_SUBSPL_SENSOR
  | E_STATE_SUBSPL_INNER | E_STATE_SUBSPL_DONE_NORMAL | E_STATE_SUBSPL_SCQ_DELAY
  | E_STATE_TS_READY | E_STATE_TS_SENSOR | E_STATE_TS_SV | E_STATE_TS_MEM | E_STATE_TS_CQ
  | E_STATE_TS_INNER | E_STATE_TS_DONE_NORMAL

text \<open>The values of the enumeration; the code compares them by size.\<close>

fun estate_num :: "MTK_CAMSYS_STATE_IDX \<Rightarrow> nat" where
  "estate_num E_STATE_READY = 0"
| "estate_num E_STATE_SENINF = 1"
| "estate_num E_STATE_SENSOR = 2"
| "estate_num E_STATE_CQ = 3"
| "estate_num E_STATE_OUTER = 4"
| "estate_num E_STATE_CAMMUX_OUTER_CFG = 5"
| "estate_num E_STATE_CAMMUX_OUTER = 6"
| "estate_num E_STATE_INNER = 7"
| "estate_num E_STATE_DONE_NORMAL = 8"
| "estate_num E_STATE_CQ_SCQ_DELAY = 9"
| "estate_num E_STATE_CAMMUX_OUTER_CFG_DELAY = 10"
| "estate_num E_STATE_OUTER_HW_DELAY = 11"
| "estate_num E_STATE_INNER_HW_DELAY = 12"
| "estate_num E_STATE_DONE_MISMATCH = 13"
| "estate_num E_STATE_SUBSPL_READY = 16"
| "estate_num E_STATE_SUBSPL_SCQ = 17"
| "estate_num E_STATE_SUBSPL_OUTER = 18"
| "estate_num E_STATE_SUBSPL_SENSOR = 19"
| "estate_num E_STATE_SUBSPL_INNER = 20"
| "estate_num E_STATE_SUBSPL_DONE_NORMAL = 21"
| "estate_num E_STATE_SUBSPL_SCQ_DELAY = 22"
| "estate_num E_STATE_TS_READY = 32"
| "estate_num E_STATE_TS_SENSOR = 33"
| "estate_num E_STATE_TS_SV = 34"
| "estate_num E_STATE_TS_MEM = 35"
| "estate_num E_STATE_TS_CQ = 36"
| "estate_num E_STATE_TS_INNER = 37"
| "estate_num E_STATE_TS_DONE_NORMAL = 38"

lemma estate_num_inj: "estate_num a = estate_num b \<Longrightarrow> a = b"
  by (cases a; cases b; simp)

instantiation MTK_CAMSYS_STATE_IDX :: linorder
begin

definition less_eq_MTK_CAMSYS_STATE_IDX :: "MTK_CAMSYS_STATE_IDX \<Rightarrow> MTK_CAMSYS_STATE_IDX \<Rightarrow> bool" where
  "less_eq_MTK_CAMSYS_STATE_IDX a b = (estate_num a \<le> estate_num b)"

definition less_MTK_CAMSYS_STATE_IDX :: "MTK_CAMSYS_STATE_IDX \<Rightarrow> MTK_CAMSYS_STATE_IDX \<Rightarrow> bool" where
  "less_MTK_CAMSYS_STATE_IDX a b = (estate_num a < estate_num b)"

instance
  by standard (auto simp: less_eq_MTK_CAMSYS_STATE_IDX_def less_MTK_CAMSYS_STATE_IDX_def estate_num_inj)

end

lemmas estate_le [simp] = less_eq_MTK_CAMSYS_STATE_IDX_def
lemmas estate_less [simp] = less_MTK_CAMSYS_STATE_IDX_def

datatype mtk_cam_request_state =
    MTK_CAM_REQ_STATE_PENDING | MTK_CAM_REQ_STATE_RUNNING | MTK_CAM_REQ_STATE_DELETING
  | MTK_CAM_REQ_STATE_COMPLETE | MTK_CAM_REQ_STATE_CLEANUP

datatype vb2_buffer_state = VB2_BUF_STATE_DONE | VB2_BUF_STATE_ERROR

text \<open>A stream datum: request, pipe, index.\<close>

type_synonym sref = "nat \<times> nat \<times> nat"

record mtk_cam_req_feature =
  raw_feature :: u32
  switch_feature_type :: u32
  switch_prev_frame_done :: bool
  switch_curr_setting_done :: bool
  switch_done :: bool

text \<open>
  \<open>sd_sensor_hdl_obj\<close>: the sensor's control object, and whether its handler has the control
  \<open>V4L2_CID_FRAME_SYNC\<close>. \<open>sd_buf_state\<close>: \<open>None\<close> is the initial \<open>-1\<close>.
\<close>

record mtk_cam_request_stream_data =
  frame_seq_no :: u32
  sd_flags :: u32
  sd_timestamp :: u64
  sd_timestamp_mono :: u64
  sd_buf_state :: "vb2_buffer_state option"
  sd_sensor :: "nat option"
  sd_seninf_new :: bool
  sd_sensor_hdl_obj :: "bool option"
  estate :: MTK_CAMSYS_STATE_IDX
  sd_working_buf :: "nat option"
  sd_feature :: mtk_cam_req_feature
  sd_shutter :: u32
  sd_gain :: u32
  sd_frame_done_queued :: bool
  sd_first_setting_check :: bool

record mtk_cam_req_pipe =
  s_data_num :: nat
  req_seq :: u32
  s_data :: "nat \<Rightarrow> mtk_cam_request_stream_data"

record mtk_cam_frame_sync =
  fs_target :: u32
  fs_on_cnt :: u32
  fs_off_cnt :: u32

record mtk_cam_request =
  pipe_used :: u32
  ctx_used :: u32
  ctx_link_update :: u32
  rq_flags :: u32
  done_status :: u32
  rq_state :: mtk_cam_request_state
  rq_fs :: mtk_cam_frame_sync
  p_data :: "nat \<Rightarrow> mtk_cam_req_pipe"
  ref_cnt :: u32

record mtk_camsys_sensor_ctrl =
  has_sensorsetting_wq :: bool
  sof_time :: u64
  timer_req_sensor :: int
  timer_req_event :: int
  sensor_enq_seq_no :: u32
  sensor_request_seq_no :: u32
  isp_request_seq_no :: u32
  isp_enq_seq_no :: u32
  last_drained_seq_no :: u32
  initial_cq_done :: bool
  initial_drop_frame_cnt :: u32
  camsys_state_list :: "sref list"

text \<open>
  A context. \<open>feat\<close> holds the feature words of its raw pipeline, \<open>cx_wbuf_s_data\<close> the \<open>s_data\<close>
  pointer of each CQ buffer; \<open>vf_en\<close>, \<open>sof_count\<close> and \<open>stagger_en\<close> are those of its master raw
  device \<open>master_raw\<close>. Contexts that share one raw device in time share its busy flag, which is in
  the device record.
\<close>

record mtk_cam_ctx =
  stream_id :: nat
  streaming :: bool
  synced :: bool
  streaming_pipe :: u32
  is_first_cq_done :: bool
  cq_done_status :: u32
  running_s_data_cnt :: u32
  cx_sensor :: "nat option"
  sensor_ctrl :: mtk_camsys_sensor_ctrl
  feat :: cam_feature_ctx
  pipe_id :: nat
  used_sv_num :: u32
  used_sv_dev :: "u32 list"
  cx_res_raw_feature :: u32
  enabled_raw :: u32
  stagger_dcif :: bool
  buf_pool :: mtk_cam_working_buf_pool
  cx_wbuf_s_data :: "nat \<Rightarrow> sref option"
  using_buffer_list :: buf_list
  composed_buffer_list :: buf_list
  processing_buffer_list :: buf_list
  img_buf_pool :: mtk_cam_img_working_buf_pool
  cx_img_s_data :: "nat \<Rightarrow> sref option"
  processing_img_buffer_list :: buf_list
  enqueued_frame_seq_no :: u32
  composed_frame_seq_no :: u32
  dequeued_frame_seq_no :: u32
  sv_dequeued_frame_seq_no :: "nat \<Rightarrow> u32"
  next_sof_mask_frame_seq_no :: u32
  working_request_seq :: u32
  vf_en :: bool
  sof_count :: u32
  stagger_en :: bool
  sensor_has_mstream_ctrls :: bool
  master_raw :: nat

text \<open>The receivers a seninf output can be switched to.\<close>

datatype cam_tg = Tg_raw | Tg_sv nat

datatype cam_event =
    Event_request_drained nat
  | Event_frame_sync nat u32
  | Event_eos nat
  | Event_sv_eos nat nat
  | Event_sv_drained nat nat
  | Sensor_ctrl_setup sref
  | Sensor_hdl_complete sref
  | Frame_sync_ctrl nat nat bool
  | Mstream_mode_ctrl nat bool
  | Mstream_exposure_ctrl sref u32
  | Tg_flash_setup sref
  | Sof_notify nat u32
  | Start_sensor_timer nat int
  | Queue_sensor_work nat
  | Queue_frame_done_work sref
  | Queue_meta1_work sref
  | Queue_link_change_work nat
  | Queue_seamless_switch_work sref
  | Raw_stream_on nat
  | Sv_stream_on nat nat
  | Rpmsg_send_frame nat u32 nat
  | Apply_cq nat bool nat
  | Stagger_mode nat bool
  | Enable_tg_db nat bool
  | Exp_switch_cam_mux sref "(cam_tg \<times> bool) list"
  | Hdr_sv_toggle_tg_db nat
  | Sv_toggle_db nat nat
  | Sv_enque nat nat u32
  | Rawi_trig nat "nat option"
  | Qos_bw_calc sref
  | Watchdog_kick nat
  | Raw_stream_on_m2m nat
  | Toggle_db nat
  | M2m_complete nat
  | Dev_try_queue
  | Seninf_change nat
  | Set_fmt sref
  | Sv_apply_all_buffers nat
  | Sv_apply_switch_buffers nat
  | Sv_rgbw_apply_next_buffer sref
  | Sv_finish_buf sref
  | Event_sv_frame_sync nat u32
  | Sv_apply_next_buffer nat nat u64
  | Vb2_buffers_done sref vb2_buffer_state

record mtk_cam_device =
  max_stream_num :: nat
  num_raw_drivers :: nat
  streaming_ctx :: u32
  cam_streaming_pipe :: u32
  ctxs :: "nat \<Rightarrow> mtk_cam_ctx"
  reqs :: "nat \<Rightarrow> mtk_cam_request"
  running_job_list :: "nat list"
  running_job_count :: u32
  sv_exp_order :: "nat \<Rightarrow> nat"
  time_shared_busy :: "nat \<Rightarrow> bool"
  time_shared_busy_ctx_id :: "nat \<Rightarrow> nat"
  cam_out :: "cam_event list"

definition MTKCAM_SUBDEV_RAW_END :: nat where "MTKCAM_SUBDEV_RAW_END = 3"
definition MTKCAM_SUBDEV_CAMSV_START :: nat where "MTKCAM_SUBDEV_CAMSV_START = 3"
definition MTKCAM_SUBDEV_CAMSV_END :: nat where "MTKCAM_SUBDEV_CAMSV_END = 9"
definition MTKCAM_SUBDEV_MAX :: nat where "MTKCAM_SUBDEV_MAX = 9"

definition MTK_CAM_REQ_FLAG_SENINF_CHANGED :: u32 where "MTK_CAM_REQ_FLAG_SENINF_CHANGED = 1"
definition MTK_CAM_REQ_FLAG_SENINF_IMMEDIATE_UPDATE :: u32 where
  "MTK_CAM_REQ_FLAG_SENINF_IMMEDIATE_UPDATE = 2"
definition META1_INDEPENDENT :: u32 where "META1_INDEPENDENT = 2"
definition SENSOR_MODE_UPDATE_T1 :: u32 where "SENSOR_MODE_UPDATE_T1 = 8"
definition SENSOR_HDL_EN :: u32 where "SENSOR_HDL_EN = 16"
definition SENSOR_HDL_COMPLETE :: u32 where "SENSOR_HDL_COMPLETE = 64"
definition SENSOR_HDL_DELAYED :: u32 where "SENSOR_HDL_DELAYED = 256"

definition is_raw_subdev :: "nat \<Rightarrow> bool" where
  "is_raw_subdev p = (p < MTKCAM_SUBDEV_RAW_END)"

definition is_camsv_subdev :: "nat \<Rightarrow> bool" where
  "is_camsv_subdev p = (MTKCAM_SUBDEV_CAMSV_START \<le> p \<and> p < MTKCAM_SUBDEV_CAMSV_END)"

subsection \<open>Access\<close>

text \<open>Reading and writing the embedded structures, and recording an effect.\<close>

definition sd :: "mtk_cam_device \<Rightarrow> sref \<Rightarrow> mtk_cam_request_stream_data" where
  "sd cam s = (case s of (r, p, i) \<Rightarrow> s_data (p_data (reqs cam r) p) i)"

definition upd_req :: "nat \<Rightarrow> (mtk_cam_request \<Rightarrow> mtk_cam_request) \<Rightarrow> mtk_cam_device \<Rightarrow> mtk_cam_device" where
  "upd_req r f cam = cam\<lparr>reqs := (reqs cam)(r := f (reqs cam r))\<rparr>"

definition upd_sd :: "sref \<Rightarrow> (mtk_cam_request_stream_data \<Rightarrow> mtk_cam_request_stream_data) \<Rightarrow> mtk_cam_device \<Rightarrow> mtk_cam_device" where
  "upd_sd s f cam = (case s of (r, p, i) \<Rightarrow> upd_req r (\<lambda>q. q\<lparr>p_data := (p_data q)(p :=
     (p_data q p)\<lparr>s_data := (s_data (p_data q p))(i := f (s_data (p_data q p) i))\<rparr>)\<rparr>) cam)"

definition upd_ctx :: "nat \<Rightarrow> (mtk_cam_ctx \<Rightarrow> mtk_cam_ctx) \<Rightarrow> mtk_cam_device \<Rightarrow> mtk_cam_device" where
  "upd_ctx c f cam = cam\<lparr>ctxs := (ctxs cam)(c := f (ctxs cam c))\<rparr>"

definition upd_sc :: "nat \<Rightarrow> (mtk_camsys_sensor_ctrl \<Rightarrow> mtk_camsys_sensor_ctrl) \<Rightarrow> mtk_cam_device \<Rightarrow> mtk_cam_device" where
  "upd_sc c f = upd_ctx c (\<lambda>x. x\<lparr>sensor_ctrl := f (sensor_ctrl x)\<rparr>)"

definition emit :: "cam_event \<Rightarrow> mtk_cam_device \<Rightarrow> mtk_cam_device" where
  "emit e cam = cam\<lparr>cam_out := cam_out cam @ [e]\<rparr>"

definition sc :: "mtk_cam_device \<Rightarrow> nat \<Rightarrow> mtk_camsys_sensor_ctrl" where
  "sc cam c = sensor_ctrl (ctxs cam c)"

definition mtk_cam_req_get_s_data :: "mtk_cam_device \<Rightarrow> nat \<Rightarrow> nat \<Rightarrow> nat \<Rightarrow> sref option" where
  "mtk_cam_req_get_s_data cam r p i = (if p < MTKCAM_SUBDEV_MAX \<and> i < s_data_num (p_data (reqs cam r) p)
     then Some (r, p, i) else None)"

fun get_req_s_data_in :: "mtk_cam_device \<Rightarrow> nat \<Rightarrow> u32 \<Rightarrow> nat list \<Rightarrow> sref option" where
  "get_req_s_data_in cam p n [] = None"
| "get_req_s_data_in cam p n (r # rs) =
    (if bit (pipe_used (reqs cam r)) p then
       (case find (\<lambda>i. frame_seq_no (sd cam (r, p, i)) = n) [0..<s_data_num (p_data (reqs cam r) p)] of
          Some i \<Rightarrow> Some (r, p, i)
        | None \<Rightarrow> get_req_s_data_in cam p n rs)
     else get_req_s_data_in cam p n rs)"

definition mtk_cam_get_req_s_data :: "mtk_cam_device \<Rightarrow> nat \<Rightarrow> u32 \<Rightarrow> sref option" where
  "mtk_cam_get_req_s_data cam p n = (if p \<ge> MTKCAM_SUBDEV_MAX then None
     else get_req_s_data_in cam p n (running_job_list cam))"

definition mtk_cam_get_req :: "mtk_cam_device \<Rightarrow> nat \<Rightarrow> u32 \<Rightarrow> nat option" where
  "mtk_cam_get_req cam c n = map_option fst (mtk_cam_get_req_s_data cam (stream_id (ctxs cam c)) n)"

definition state_transition :: "sref \<Rightarrow> MTK_CAMSYS_STATE_IDX \<Rightarrow> MTK_CAMSYS_STATE_IDX \<Rightarrow> mtk_cam_device \<Rightarrow> mtk_cam_device" where
  "state_transition s from_state to_state cam = (if estate (sd cam s) = from_state
     then upd_sd s (\<lambda>d. d\<lparr>estate := to_state\<rparr>) cam else cam)"

definition mtk_cam_find_raw_dev :: "mtk_cam_device \<Rightarrow> u32 \<Rightarrow> nat option" where
  "mtk_cam_find_raw_dev cam raw_mask = find (bit raw_mask) [0..<num_raw_drivers cam]"

subsection \<open>Reading after writing\<close>

lemma sd_upd_sd [simp]: "sd (upd_sd s f cam) t = (if s = t then f (sd cam s) else sd cam t)"
  by (auto simp: sd_def upd_sd_def upd_req_def split: prod.splits)

lemma sd_upd_ctx [simp]: "sd (upd_ctx c f cam) = sd cam"
  by (rule ext) (simp add: sd_def upd_ctx_def)

lemma sd_emit [simp]: "sd (emit e cam) = sd cam"
  by (rule ext) (simp add: sd_def emit_def)

lemma ctxs_upd [simp]:
  "ctxs (upd_sd s f cam) = ctxs cam" "ctxs (upd_req r g cam) = ctxs cam" "ctxs (emit e cam) = ctxs cam"
  "ctxs (upd_ctx c h cam) d = (if c = d then h (ctxs cam c) else ctxs cam d)"
  by (auto simp: upd_sd_def upd_req_def emit_def upd_ctx_def split: prod.splits)

lemma reqs_upd [simp]:
  "reqs (upd_ctx c h cam) = reqs cam" "reqs (emit e cam) = reqs cam"
  "reqs (upd_req r g cam) r' = (if r = r' then g (reqs cam r) else reqs cam r')"
  by (auto simp: upd_ctx_def emit_def upd_req_def)

lemma reqs_upd_sd_other: "r \<noteq> fst s \<Longrightarrow> reqs (upd_sd s f cam) r = reqs cam r"
  by (auto simp: upd_sd_def upd_req_def split: prod.splits)

lemma req_fields_upd_sd [simp]:
  "pipe_used (reqs (upd_sd s f cam) r) = pipe_used (reqs cam r)"
  "ctx_used (reqs (upd_sd s f cam) r) = ctx_used (reqs cam r)"
  "ctx_link_update (reqs (upd_sd s f cam) r) = ctx_link_update (reqs cam r)"
  "rq_flags (reqs (upd_sd s f cam) r) = rq_flags (reqs cam r)"
  "done_status (reqs (upd_sd s f cam) r) = done_status (reqs cam r)"
  "rq_state (reqs (upd_sd s f cam) r) = rq_state (reqs cam r)"
  "rq_fs (reqs (upd_sd s f cam) r) = rq_fs (reqs cam r)"
  "ref_cnt (reqs (upd_sd s f cam) r) = ref_cnt (reqs cam r)"
  "s_data_num (p_data (reqs (upd_sd s f cam) r) p) = s_data_num (p_data (reqs cam r) p)"
  by (auto simp: upd_sd_def upd_req_def split: prod.splits)

lemma sd_upd_req [simp]: "p_data (g (reqs cam r)) = p_data (reqs cam r) \<Longrightarrow> sd (upd_req r g cam) = sd cam"
  by (rule ext) (auto simp: sd_def upd_req_def split: prod.splits)

lemma dev_fields_upd [simp]:
  "running_job_list (upd_sd s f cam) = running_job_list cam"
  "running_job_list (upd_req r g cam) = running_job_list cam"
  "running_job_list (upd_ctx c h cam) = running_job_list cam"
  "running_job_list (emit e cam) = running_job_list cam"
  "running_job_count (upd_sd s f cam) = running_job_count cam"
  "running_job_count (upd_req r g cam) = running_job_count cam"
  "running_job_count (upd_ctx c h cam) = running_job_count cam"
  "running_job_count (emit e cam) = running_job_count cam"
  "max_stream_num (upd_sd s f cam) = max_stream_num cam"
  "max_stream_num (upd_req r g cam) = max_stream_num cam"
  "max_stream_num (upd_ctx c h cam) = max_stream_num cam"
  "max_stream_num (emit e cam) = max_stream_num cam"
  "cam_streaming_pipe (upd_sd s f cam) = cam_streaming_pipe cam"
  "cam_streaming_pipe (upd_req r g cam) = cam_streaming_pipe cam"
  "cam_streaming_pipe (upd_ctx c h cam) = cam_streaming_pipe cam"
  "cam_streaming_pipe (emit e cam) = cam_streaming_pipe cam"
  "cam_out (upd_sd s f cam) = cam_out cam"
  "cam_out (upd_req r g cam) = cam_out cam"
  "cam_out (upd_ctx c h cam) = cam_out cam"
  "cam_out (emit e cam) = cam_out cam @ [e]"
  by (auto simp: upd_sd_def upd_req_def upd_ctx_def emit_def split: prod.splits)

lemma get_s_data_upd [simp]:
  "mtk_cam_req_get_s_data (upd_sd s f cam) r p i = mtk_cam_req_get_s_data cam r p i"
  "mtk_cam_req_get_s_data (upd_ctx c h cam) r p i = mtk_cam_req_get_s_data cam r p i"
  "mtk_cam_req_get_s_data (emit e cam) r p i = mtk_cam_req_get_s_data cam r p i"
  by (auto simp: mtk_cam_req_get_s_data_def)

lemma get_s_data_Some: "mtk_cam_req_get_s_data cam r p i = Some s \<Longrightarrow> s = (r, p, i)"
  by (simp add: mtk_cam_req_get_s_data_def split: if_splits)

end
