(* ===== verification/CamReq.thy ===== *)
theory CamReq
  imports CamTypes
begin

text \<open>
  The way of a command-queue (CQ) buffer through the lists of its context (\<open>mtk_cam.c\<close>): taken from
  the pool for a frame, composed by the co-processor, worked on by the hardware, given back when the
  request completes. No buffer is lost or in two places, whatever the order of these steps.
\<close>

subsection \<open>The lists of CQ buffers\<close>

text \<open>
  \<open>list_del\<close> takes a buffer out of the list it is in, whichever that is; a buffer in no list has
  poisoned links.
\<close>

definition list_del_wbuf :: "nat \<Rightarrow> mtk_cam_ctx \<Rightarrow> mtk_cam_ctx option" where
  "list_del_wbuf b x =
    (if b \<in> set (bl_list (using_buffer_list x)) then
       Some (x\<lparr>using_buffer_list := (using_buffer_list x)\<lparr>bl_list := remove1 b (bl_list (using_buffer_list x))\<rparr>\<rparr>)
     else if b \<in> set (bl_list (composed_buffer_list x)) then
       Some (x\<lparr>composed_buffer_list := (composed_buffer_list x)\<lparr>bl_list := remove1 b (bl_list (composed_buffer_list x))\<rparr>\<rparr>)
     else if b \<in> set (bl_list (processing_buffer_list x)) then
       Some (x\<lparr>processing_buffer_list := (processing_buffer_list x)\<lparr>bl_list := remove1 b (bl_list (processing_buffer_list x))\<rparr>\<rparr>)
     else None)"

definition list_push :: "nat \<Rightarrow> buf_list \<Rightarrow> buf_list" where
  "list_push b l = l\<lparr>bl_list := bl_list l @ [b], bl_cnt := bl_cnt l + 1\<rparr>"

definition ctx_option :: "nat \<Rightarrow> (mtk_cam_ctx \<Rightarrow> mtk_cam_ctx option) \<Rightarrow> mtk_cam_device \<Rightarrow> mtk_cam_device option" where
  "ctx_option c f cam = map_option (\<lambda>x. upd_ctx c (\<lambda>_. x) cam) (f (ctxs cam c))"

text \<open>\<open>isp_tx_frame_worker\<close>, its guards and its buffer: a free buffer goes to the using list and
  the frame to the composer. The content of the message is not modelled.\<close>

definition isp_tx_frame_worker :: "nat \<Rightarrow> sref \<Rightarrow> mtk_cam_device \<Rightarrow> mtk_cam_device" where
  "isp_tx_frame_worker c s cam = (let x = ctxs cam c in
     if fc_used_raw_num (feat x) = 0 then cam
     else if \<not> streaming x then cam
     else (case mtk_cam_working_buf_get (buf_pool x) of
       (None, _) \<Rightarrow> cam
     | (Some b, pool) \<Rightarrow>
         let cam1 = upd_sd s (\<lambda>d. d\<lparr>sd_working_buf := Some b\<rparr>) cam;
             cam2 = upd_ctx c (\<lambda>x. x\<lparr>buf_pool := pool,
                      cx_wbuf_s_data := (cx_wbuf_s_data x)(b := Some s),
                      using_buffer_list := list_push b (using_buffer_list x)\<rparr>) cam1
         in emit (Rpmsg_send_frame c (frame_seq_no (sd cam2 s)) b) cam2))"

text \<open>The composer's answer (\<open>isp_composer_handle_ack\<close>): the oldest using buffer is composed, or
  applied at once. The wait for the previous frame of a memory-to-memory stream is scheduling.\<close>

definition EINVAL :: int where "EINVAL = 22"

definition mux_change_with_apply_cq :: "nat \<Rightarrow> sref \<Rightarrow> u32 \<Rightarrow> mtk_cam_device \<Rightarrow> (bool \<times> mtk_cam_device) option" where
  "mux_change_with_apply_cq c s frame_no cam = (case s of (r, p, i) \<Rightarrow>
     if rq_flags (reqs cam r) AND MTK_CAM_REQ_FLAG_SENINF_IMMEDIATE_UPDATE \<noteq> 0 \<and> bit (ctx_link_update (reqs cam r)) p then
       (if mtk_cam_is_mstream (feat (ctxs cam c)) then
          (case mtk_cam_req_get_s_data cam r (stream_id (ctxs cam c)) 1 of
             None \<Rightarrow> None
           | Some m \<Rightarrow> Some (if frame_no = frame_seq_no (sd cam m)
               then (True, upd_ctx c (\<lambda>x. x\<lparr>is_first_cq_done := False\<rparr>) cam) else (False, cam)))
        else Some (True, cam))
     else Some (False, cam))"

text \<open>The composed buffer goes to the hardware at once (first frame, idle memory-to-memory stream,
  switch of the seninf mux) or waits in the composed list.\<close>

definition ack_deliver ::
  "nat \<Rightarrow> nat \<Rightarrow> sref \<Rightarrow> bool \<Rightarrow> u64 \<Rightarrow> u64 \<Rightarrow> mtk_cam_device \<Rightarrow> int \<times> mtk_cam_device" where
  "ack_deliver c b s mux time_boot time_mono cam = (let x = ctxs cam c;
     m2m = (mtk_cam_is_m2m (feat x) \<and> bl_cnt (composed_buffer_list x) = 0)
   in if composed_frame_seq_no x = 1 \<and> \<not> mtk_cam_is_time_shared (feat x) \<or> m2m \<or> mux then
       let cam1 = upd_ctx c (\<lambda>x. x\<lparr>processing_buffer_list := list_push b (processing_buffer_list x)\<rparr>) cam
       in if mtk_cam_find_raw_dev cam1 (enabled_raw x) = None then (- EINVAL, cam1) else
       let cam2 = (if mtk_cam_is_m2m (feat x) then state_transition s E_STATE_SENSOR E_STATE_CQ cam1 else cam1);
           cam3 = emit (Apply_cq c True b) cam2;
           cam4 = (if mtk_cam_is_with_w_channel (feat x) then emit (Sv_rgbw_apply_next_buffer s) cam3 else cam3);
           cam5 = (if mux then emit (Sv_apply_switch_buffers c) cam4 else cam4)
       in (0, upd_sd s (\<lambda>d. d\<lparr>sd_timestamp := time_boot, sd_timestamp_mono := time_mono\<rparr>) cam5)
     else (0, upd_ctx c (\<lambda>x. x\<lparr>composed_buffer_list := list_push b (composed_buffer_list x)\<rparr>) cam))"

definition isp_composer_handle_ack ::
  "nat \<Rightarrow> u32 \<Rightarrow> u64 \<Rightarrow> u64 \<Rightarrow> mtk_cam_device \<Rightarrow> (int \<times> mtk_cam_device) option" where
  "isp_composer_handle_ack c frame_no time_boot time_mono cam =
    (if c \<ge> max_stream_num cam then Some (- EINVAL, cam)
     else let cam0 = upd_ctx c (\<lambda>x. x\<lparr>composed_frame_seq_no := frame_no\<rparr>) cam in
     case bl_take_first (using_buffer_list (ctxs cam0 c)) of
       (None, _) \<Rightarrow> Some (- EINVAL, cam0)
     | (Some b, l) \<Rightarrow>
       let cam1 = upd_ctx c (\<lambda>x. x\<lparr>using_buffer_list := l\<rparr>) cam0 in
       (case cx_wbuf_s_data (ctxs cam1 c) b of
          None \<Rightarrow> Some (- EINVAL, cam1)
        | Some s \<Rightarrow> map_option (\<lambda>(mux, cam2). ack_deliver c b s mux time_boot time_mono cam2)
            (mux_change_with_apply_cq c s frame_no cam1)))"

text \<open>The oldest composed buffer becomes the one the hardware works on.\<close>

definition apply_next_composed :: "nat \<Rightarrow> mtk_cam_device \<Rightarrow> nat option \<times> mtk_cam_device" where
  "apply_next_composed c cam = (case bl_take_first (composed_buffer_list (ctxs cam c)) of
     (None, _) \<Rightarrow> (None, cam)
   | (Some b, l) \<Rightarrow> (Some b, emit (Apply_cq c False b)
       (upd_ctx c (\<lambda>x. x\<lparr>composed_buffer_list := l,
          processing_buffer_list := list_push b (processing_buffer_list x)\<rparr>) cam)))"

definition finish_cq_buf :: "nat \<Rightarrow> sref \<Rightarrow> mtk_cam_device \<Rightarrow> mtk_cam_device option" where
  "finish_cq_buf c s cam = (let x = ctxs cam c in
     if fc_used_raw_num (feat x) = 0 then Some cam
     else (case sd_working_buf (sd cam s) of
       None \<Rightarrow> Some cam
     | Some b \<Rightarrow> if cx_wbuf_s_data x b = None then Some cam
         else ctx_option c (\<lambda>x. list_del_wbuf b x \<bind> (\<lambda>x1.
                map_option (\<lambda>pool. x1\<lparr>buf_pool := pool, cx_wbuf_s_data := (cx_wbuf_s_data x1)(b := None),
                    processing_buffer_list := (processing_buffer_list x1)
                      \<lparr>bl_cnt := bl_cnt (processing_buffer_list x1) - 1\<rparr>\<rparr>)
                  (mtk_cam_working_buf_put b (buf_pool x1))))
              (upd_sd s (\<lambda>d. d\<lparr>sd_working_buf := None\<rparr>) cam)))"

definition finish_img_entry :: "sref \<Rightarrow> nat \<Rightarrow> mtk_cam_ctx \<Rightarrow> mtk_cam_ctx option" where
  "finish_img_entry s b x = (if cx_img_s_data x b = Some s then
     map_option (\<lambda>pool. x\<lparr>img_buf_pool := pool, cx_img_s_data := (cx_img_s_data x)(b := None),
         processing_img_buffer_list := \<lparr>bl_list = remove1 b (bl_list (processing_img_buffer_list x)),
           bl_cnt = bl_cnt (processing_img_buffer_list x) - 1\<rparr>\<rparr>)
       (mtk_cam_img_working_buf_put b (img_buf_pool x))
     else Some x)"

definition finish_img_buf :: "nat \<Rightarrow> sref \<Rightarrow> mtk_cam_device \<Rightarrow> mtk_cam_device option" where
  "finish_img_buf c s cam = (let x = ctxs cam c in
     if fc_used_raw_num (feat x) = 0 then Some cam
     else if bl_cnt (processing_img_buffer_list x) = 0 then Some cam
     else ctx_option c (ofold (finish_img_entry s) (bl_list (processing_img_buffer_list x))) cam)"

subsection \<open>Buffers are conserved\<close>

definition cq_bufs :: "mtk_cam_ctx \<Rightarrow> nat list" where
  "cq_bufs x = bl_list (using_buffer_list x) @ bl_list (composed_buffer_list x) @ bl_list (processing_buffer_list x)"

definition cq_total :: "mtk_cam_ctx \<Rightarrow> u32" where
  "cq_total x = bl_cnt (using_buffer_list x) + bl_cnt (composed_buffer_list x) + bl_cnt (processing_buffer_list x)"

text \<open>
  A context's buffers: none is in two lists; those out of the free list are the ones that have a
  stream datum, which names them in turn.
\<close>

definition cq_inv :: "nat \<Rightarrow> mtk_cam_device \<Rightarrow> bool" where
  "cq_inv c cam = (let x = ctxs cam c in
     distinct (bl_list (cam_freelist (buf_pool x)) @ cq_bufs x) \<and>
     (\<forall>b. b \<in> set (cq_bufs x) \<longleftrightarrow> cx_wbuf_s_data x b \<noteq> None) \<and>
     (\<forall>b s. cx_wbuf_s_data x b = Some s \<longleftrightarrow> fst (snd s) = stream_id x \<and> sd_working_buf (sd cam s) = Some b) \<and>
     cq_total x = of_nat (length (cq_bufs x)))"

definition cq_all :: "nat \<Rightarrow> mtk_cam_device \<Rightarrow> nat multiset" where
  "cq_all c cam = mset (bl_list (cam_freelist (buf_pool (ctxs cam c)))) + mset (cq_bufs (ctxs cam c))"

lemma cq_invI:
  assumes "distinct (bl_list (cam_freelist (buf_pool (ctxs cam c))) @ cq_bufs (ctxs cam c))"
    and "\<And>b. b \<in> set (cq_bufs (ctxs cam c)) \<longleftrightarrow> cx_wbuf_s_data (ctxs cam c) b \<noteq> None"
    and "\<And>b s. cx_wbuf_s_data (ctxs cam c) b = Some s \<longleftrightarrow>
           fst (snd s) = stream_id (ctxs cam c) \<and> sd_working_buf (sd cam s) = Some b"
    and "cq_total (ctxs cam c) = of_nat (length (cq_bufs (ctxs cam c)))"
  shows "cq_inv c cam"
  using assms unfolding cq_inv_def Let_def by blast

lemma cq_invD:
  assumes "cq_inv c cam"
  shows "distinct (bl_list (cam_freelist (buf_pool (ctxs cam c))) @ cq_bufs (ctxs cam c))"
    and "b \<in> set (cq_bufs (ctxs cam c)) \<longleftrightarrow> cx_wbuf_s_data (ctxs cam c) b \<noteq> None"
    and "cx_wbuf_s_data (ctxs cam c) b = Some s \<longleftrightarrow>
           fst (snd s) = stream_id (ctxs cam c) \<and> sd_working_buf (sd cam s) = Some b"
    and "cq_total (ctxs cam c) = of_nat (length (cq_bufs (ctxs cam c)))"
  using assms unfolding cq_inv_def Let_def by blast+

text \<open>Steps that only move buffers between the lists.\<close>

lemma cq_inv_move:
  assumes inv: "cq_inv c cam"
    and pool: "buf_pool (ctxs cam' c) = buf_pool (ctxs cam c)"
    and perm: "mset (cq_bufs (ctxs cam' c)) = mset (cq_bufs (ctxs cam c))"
    and total: "cq_total (ctxs cam' c) = cq_total (ctxs cam c)"
    and w: "cx_wbuf_s_data (ctxs cam' c) = cx_wbuf_s_data (ctxs cam c)"
    and sid: "stream_id (ctxs cam' c) = stream_id (ctxs cam c)"
    and wb: "\<And>s. sd_working_buf (sd cam' s) = sd_working_buf (sd cam s)"
  shows "cq_inv c cam'" and "cq_all c cam' = cq_all c cam"
proof -
  note d = cq_invD[OF inv]
  have eq: "set (cq_bufs (ctxs cam' c)) = set (cq_bufs (ctxs cam c))" using mset_eq_setD[OF perm] .
  have len: "length (cq_bufs (ctxs cam' c)) = length (cq_bufs (ctxs cam c))"
    using arg_cong[OF perm, of size] by simp
  have dist: "distinct (cq_bufs (ctxs cam' c))"
    using d(1) mset_eq_imp_distinct_iff[OF perm] by simp
  show "cq_inv c cam'"
  proof (rule cq_invI)
    show "distinct (bl_list (cam_freelist (buf_pool (ctxs cam' c))) @ cq_bufs (ctxs cam' c))"
      using d(1) dist by (simp add: pool eq)
  qed (use d(2-4) in \<open>simp_all add: eq w sid wb total len\<close>)
  show "cq_all c cam' = cq_all c cam" by (simp add: cq_all_def pool perm)
qed

lemma state_transition_frame [simp]:
  "ctxs (state_transition s a b cam) = ctxs cam"
  "running_job_list (state_transition s a b cam) = running_job_list cam"
  "sd_working_buf (sd (state_transition s a b cam) t) = sd_working_buf (sd cam t)"
  by (simp_all add: state_transition_def)

lemma apply_next_composed_conserves:
  assumes "cq_inv c cam"
  shows "cq_inv c (snd (apply_next_composed c cam))"
    and "cq_all c (snd (apply_next_composed c cam)) = cq_all c cam"
proof -
  let ?cam' = "snd (apply_next_composed c cam)"
  have "cq_inv c ?cam' \<and> cq_all c ?cam' = cq_all c cam"
  proof (cases "bl_list (composed_buffer_list (ctxs cam c))")
    case Nil
    then show ?thesis using assms by (simp add: apply_next_composed_def bl_take_first_def)
  next
    case (Cons b bs)
    have "cq_inv c ?cam'" "cq_all c ?cam' = cq_all c cam"
      by (rule cq_inv_move[OF assms]; simp add: apply_next_composed_def bl_take_first_def Cons cq_bufs_def cq_total_def
            list_push_def)+
    then show ?thesis ..
  qed
  then show "cq_inv c ?cam'" "cq_all c ?cam' = cq_all c cam" by blast+
qed

lemma isp_tx_frame_worker_conserves:
  assumes inv: "cq_inv c cam" and s: "sd_working_buf (sd cam s) = None" "fst (snd s) = stream_id (ctxs cam c)"
  shows "cq_inv c (isp_tx_frame_worker c s cam)" and "cq_all c (isp_tx_frame_worker c s cam) = cq_all c cam"
proof -
  let ?x = "ctxs cam c" and ?cam' = "isp_tx_frame_worker c s cam"
  note d = cq_invD[OF inv]
  show "cq_inv c ?cam'" "cq_all c ?cam' = cq_all c cam"
  proof -
    show "cq_inv c ?cam'"
    proof (cases "fc_used_raw_num (feat ?x) = 0 \<or> \<not> streaming ?x \<or> bl_list (cam_freelist (buf_pool ?x)) = []")
      case True
      then show ?thesis using inv
        by (auto simp: isp_tx_frame_worker_def Let_def mtk_cam_working_buf_get_def bl_take_first_def split: list.splits)
    next
      case False
      then obtain b bs where free: "bl_list (cam_freelist (buf_pool ?x)) = b # bs"
        by (cases "bl_list (cam_freelist (buf_pool ?x))") auto
      have b: "cx_wbuf_s_data ?x b = None" using d(1) d(2)[of b] free by auto
      have not_s: "cx_wbuf_s_data ?x b' \<noteq> Some s" for b' using d(3)[of b' s] s(1) by auto
      have run: "?cam' = emit (Rpmsg_send_frame c (frame_seq_no (sd cam s)) b)
          (upd_ctx c (\<lambda>x. x\<lparr>buf_pool := (buf_pool ?x)\<lparr>cam_freelist := (cam_freelist (buf_pool ?x))\<lparr>bl_list := bs,
                bl_cnt := bl_cnt (cam_freelist (buf_pool ?x)) - 1\<rparr>\<rparr>,
              cx_wbuf_s_data := (cx_wbuf_s_data x)(b := Some s),
              using_buffer_list := list_push b (using_buffer_list x)\<rparr>) (upd_sd s (\<lambda>d. d\<lparr>sd_working_buf := Some b\<rparr>) cam))"
        using False free by (simp add: isp_tx_frame_worker_def Let_def mtk_cam_working_buf_get_def bl_take_first_def)
      show ?thesis unfolding run
      proof (rule cq_invI, goal_cases)
        case 1
        then show ?case using d(1) free by (auto simp: cq_bufs_def list_push_def)
      next
        case (2 b')
        show ?case
        proof (cases "b' = b")
          case True
          then show ?thesis by (simp add: cq_bufs_def list_push_def)
        next
          case False
          then show ?thesis using d(2)[of b'] by (simp add: cq_bufs_def list_push_def)
        qed
      next
        case (3 b' t)
        show ?case
        proof (cases "t = s")
          case True
          then show ?thesis using s(2) not_s[of b'] by auto
        next
          case False
          then show ?thesis using d(3)[of b' t] b by auto
        qed
      next
        case 4
        then show ?case using d(4) by (simp add: cq_bufs_def cq_total_def list_push_def algebra_simps)
      qed
    qed
    show "cq_all c ?cam' = cq_all c cam"
      by (auto simp: cq_all_def cq_bufs_def isp_tx_frame_worker_def Let_def mtk_cam_working_buf_get_def
          bl_take_first_def list_push_def split: list.splits)
  qed
qed

lemma list_del_wbuf_in:
  assumes "b \<in> set (cq_bufs x)" and "distinct (cq_bufs x)"
  obtains x' where "list_del_wbuf b x = Some x'" "cq_bufs x' = remove1 b (cq_bufs x)"
    "bl_cnt (using_buffer_list x') = bl_cnt (using_buffer_list x)"
    "bl_cnt (composed_buffer_list x') = bl_cnt (composed_buffer_list x)"
    "bl_cnt (processing_buffer_list x') = bl_cnt (processing_buffer_list x)"
    "buf_pool x' = buf_pool x" "cx_wbuf_s_data x' = cx_wbuf_s_data x" "stream_id x' = stream_id x"
proof -
  let ?u = "using_buffer_list x" and ?c = "composed_buffer_list x" and ?p = "processing_buffer_list x"
  consider "b \<in> set (bl_list ?u)" | "b \<notin> set (bl_list ?u)" "b \<in> set (bl_list ?c)"
    | "b \<notin> set (bl_list ?u)" "b \<notin> set (bl_list ?c)" "b \<in> set (bl_list ?p)"
    using assms(1) by (auto simp: cq_bufs_def)
  then show thesis
  proof cases
    case 1
    then show thesis
      by (intro that[of "x\<lparr>using_buffer_list := ?u\<lparr>bl_list := remove1 b (bl_list ?u)\<rparr>\<rparr>"])
        (simp_all add: list_del_wbuf_def cq_bufs_def remove1_append)
  next
    case 2
    then show thesis
      by (intro that[of "x\<lparr>composed_buffer_list := ?c\<lparr>bl_list := remove1 b (bl_list ?c)\<rparr>\<rparr>"])
        (simp_all add: list_del_wbuf_def cq_bufs_def remove1_append)
  next
    case 3
    then show thesis
      by (intro that[of "x\<lparr>processing_buffer_list := ?p\<lparr>bl_list := remove1 b (bl_list ?p)\<rparr>\<rparr>"])
        (simp_all add: list_del_wbuf_def cq_bufs_def remove1_append)
  qed
qed

lemma length_remove1_word:
  assumes "b \<in> set bs" shows "(of_nat (length (remove1 b bs)) :: u32) = of_nat (length bs) - 1"
proof -
  have "length bs = Suc (length (remove1 b bs))" using assms by (simp add: length_remove1) (metis length_pos_if_in_set Suc_pred)
  then show ?thesis by simp
qed

text \<open>Giving a request's buffer back: under the invariant it never faults.\<close>

lemma finish_cq_buf_conserves:
  assumes inv: "cq_inv c cam" and s: "fst (snd s) = stream_id (ctxs cam c)"
  obtains cam' where "finish_cq_buf c s cam = Some cam'" "cq_inv c cam'" "cq_all c cam' = cq_all c cam"
proof (cases "fc_used_raw_num (feat (ctxs cam c)) = 0 \<or> sd_working_buf (sd cam s) = None")
  case True
  then show thesis using inv that by (auto simp: finish_cq_buf_def Let_def)
next
  case False
  let ?x = "ctxs cam c"
  note d = cq_invD[OF inv]
  obtain b where b: "sd_working_buf (sd cam s) = Some b" using False by auto
  have w: "cx_wbuf_s_data ?x b = Some s" using d(3)[of b s] b s by simp
  have bin: "b \<in> set (cq_bufs ?x)" using d(2)[of b] w by simp
  have dist: "distinct (cq_bufs ?x)" using d(1) by simp
  obtain x' where x': "list_del_wbuf b ?x = Some x'" "cq_bufs x' = remove1 b (cq_bufs ?x)"
    "bl_cnt (using_buffer_list x') = bl_cnt (using_buffer_list ?x)"
    "bl_cnt (composed_buffer_list x') = bl_cnt (composed_buffer_list ?x)"
    "bl_cnt (processing_buffer_list x') = bl_cnt (processing_buffer_list ?x)"
    "buf_pool x' = buf_pool ?x" "cx_wbuf_s_data x' = cx_wbuf_s_data ?x" "stream_id x' = stream_id ?x"
    using list_del_wbuf_in[OF bin dist] by blast
  have bfree: "b \<notin> set (bl_list (cam_freelist (buf_pool ?x)))" using d(1) bin by auto
  define x'' where "x'' = x'\<lparr>buf_pool := (buf_pool ?x)\<lparr>cam_freelist := (cam_freelist (buf_pool ?x))
         \<lparr>bl_list := bl_list (cam_freelist (buf_pool ?x)) @ [b], bl_cnt := bl_cnt (cam_freelist (buf_pool ?x)) + 1\<rparr>\<rparr>,
       cx_wbuf_s_data := (cx_wbuf_s_data ?x)(b := None),
       processing_buffer_list := (processing_buffer_list x')\<lparr>bl_cnt := bl_cnt (processing_buffer_list x') - 1\<rparr>\<rparr>"
  have bufs: "cq_bufs x'' = remove1 b (cq_bufs ?x)" using x'(2) by (simp add: x''_def cq_bufs_def)
  have free: "bl_list (cam_freelist (buf_pool x'')) = bl_list (cam_freelist (buf_pool ?x)) @ [b]"
    and wbuf: "cx_wbuf_s_data x'' = (cx_wbuf_s_data ?x)(b := None)"
    and sid: "stream_id x'' = stream_id ?x"
    by (simp_all add: x''_def x'(8))
  let ?cam' = "upd_ctx c (\<lambda>_. x'') (upd_sd s (\<lambda>d. d\<lparr>sd_working_buf := None\<rparr>) cam)"
  have run: "finish_cq_buf c s cam = Some ?cam'"
    using False b w x'(1) bfree
    by (simp add: finish_cq_buf_def Let_def ctx_option_def mtk_cam_working_buf_put_def bl_add_tail_def x'(6,7) x''_def)
  have "cq_inv c ?cam'"
  proof (rule cq_invI, goal_cases)
    case 1
    then show ?case using d(1) bfree by (auto simp: bufs free)
  next
    case (2 b')
    then show ?case using d(2)[of b'] dist by (auto simp: bufs wbuf set_remove1_eq)
  next
    case (3 b' t)
    have "t \<noteq> s" if "cx_wbuf_s_data ?x b' = Some t" "b' \<noteq> b" using d(3)[of b' t] that b by auto
    moreover have "b' = b" if "t = s" "cx_wbuf_s_data ?x b' = Some t" using d(3)[of b' t] that b by auto
    moreover have "t = s" if "cx_wbuf_s_data ?x b = Some t" using that w by simp
    ultimately show ?case using d(3)[of b' t] by (auto simp: wbuf sid)
  next
    case 4
    have "cq_total x'' = cq_total ?x - 1" by (simp add: cq_total_def x''_def x'(3-5))
    then show ?case using d(4) length_remove1_word[OF bin] by (simp add: bufs)
  qed
  moreover have "cq_all c ?cam' = cq_all c cam"
    using bin by (simp add: cq_all_def bufs free)
  ultimately show thesis using that run by blast
qed

lemma mux_change_frame:
  assumes "mux_change_with_apply_cq c s n cam = Some (m, cam')"
  shows "sd cam' = sd cam" and "cq_bufs (ctxs cam' c) = cq_bufs (ctxs cam c)"
    and "using_buffer_list (ctxs cam' c) = using_buffer_list (ctxs cam c)"
    and "composed_buffer_list (ctxs cam' c) = composed_buffer_list (ctxs cam c)"
    and "processing_buffer_list (ctxs cam' c) = processing_buffer_list (ctxs cam c)"
    and "buf_pool (ctxs cam' c) = buf_pool (ctxs cam c)"
    and "cx_wbuf_s_data (ctxs cam' c) = cx_wbuf_s_data (ctxs cam c)"
    and "stream_id (ctxs cam' c) = stream_id (ctxs cam c)" and "feat (ctxs cam' c) = feat (ctxs cam c)"
  using assms by (auto simp: mux_change_with_apply_cq_def cq_bufs_def split: prod.splits if_splits option.splits)

lemma ack_deliver_frame:
  assumes "ack_deliver c b s mux tb tm cam = (e, cam')"
  shows "using_buffer_list (ctxs cam' c) = using_buffer_list (ctxs cam c)"
    and "buf_pool (ctxs cam' c) = buf_pool (ctxs cam c)"
    and "cx_wbuf_s_data (ctxs cam' c) = cx_wbuf_s_data (ctxs cam c)"
    and "stream_id (ctxs cam' c) = stream_id (ctxs cam c)"
    and "sd_working_buf (sd cam' t) = sd_working_buf (sd cam t)"
    and "feat (ctxs cam' c) = feat (ctxs cam c)"
    and "processing_buffer_list (ctxs cam' c) = list_push b (processing_buffer_list (ctxs cam c)) \<and>
           composed_buffer_list (ctxs cam' c) = composed_buffer_list (ctxs cam c) \<or>
         processing_buffer_list (ctxs cam' c) = processing_buffer_list (ctxs cam c) \<and>
           composed_buffer_list (ctxs cam' c) = list_push b (composed_buffer_list (ctxs cam c))"
  using assms by (auto simp: ack_deliver_def Let_def split: if_splits)

text \<open>What the composer's answer needs: an m-stream request has its second stream datum.\<close>

definition ack_ok :: "nat \<Rightarrow> mtk_cam_device \<Rightarrow> bool" where
  "ack_ok c cam = (mtk_cam_is_mstream (feat (ctxs cam c)) \<longrightarrow>
     (case bl_list (using_buffer_list (ctxs cam c)) of [] \<Rightarrow> True | b # _ \<Rightarrow>
        (case cx_wbuf_s_data (ctxs cam c) b of None \<Rightarrow> True
         | Some s \<Rightarrow> mtk_cam_req_get_s_data cam (fst s) (stream_id (ctxs cam c)) 1 \<noteq> None)))"

lemma isp_composer_handle_ack_conserves:
  assumes inv: "cq_inv c cam" and ok: "ack_ok c cam"
  obtains e cam' where "isp_composer_handle_ack c n tb tm cam = Some (e, cam')"
    "cq_inv c cam'" "cq_all c cam' = cq_all c cam"
proof (cases "c \<ge> max_stream_num cam")
  case True
  then show thesis using that inv by (simp add: isp_composer_handle_ack_def)
next
  case False
  let ?x = "ctxs cam c"
  let ?cam0 = "upd_ctx c (\<lambda>x. x\<lparr>composed_frame_seq_no := n\<rparr>) cam"
  note d = cq_invD[OF inv]
  show thesis
  proof (cases "bl_list (using_buffer_list ?x)")
    case Nil
    have "cq_inv c ?cam0" "cq_all c ?cam0 = cq_all c cam"
      by (rule cq_inv_move[OF inv]; simp add: cq_bufs_def cq_total_def)+
    moreover have "isp_composer_handle_ack c n tb tm cam = Some (- EINVAL, ?cam0)"
      using False Nil by (simp add: isp_composer_handle_ack_def bl_take_first_def)
    ultimately show thesis using that by blast
  next
    case (Cons b bs)
    define l where "l = (using_buffer_list ?x)\<lparr>bl_list := bs, bl_cnt := bl_cnt (using_buffer_list ?x) - 1\<rparr>"
    define cam1 where "cam1 = upd_ctx c (\<lambda>x. x\<lparr>using_buffer_list := l\<rparr>) ?cam0"
    have "cx_wbuf_s_data ?x b \<noteq> None" using d(2)[of b] Cons by (simp add: cq_bufs_def)
    then obtain s where s: "cx_wbuf_s_data ?x b = Some s" by blast
    have s2: "fst (snd s) = stream_id ?x" using d(3)[of b s] s by simp
    have "mux_change_with_apply_cq c s n cam1 \<noteq> None"
      using ok Cons s by (auto simp: mux_change_with_apply_cq_def ack_ok_def cam1_def split: prod.splits option.splits)
    then obtain mux cam2 where mux: "mux_change_with_apply_cq c s n cam1 = Some (mux, cam2)" by auto
    note f = mux_change_frame[OF mux]
    have lists: "bl_list l = bs" "bl_cnt l = bl_cnt (using_buffer_list ?x) - 1" by (simp_all add: l_def)
    obtain e cam' where del: "ack_deliver c b s mux tb tm cam2 = (e, cam')" by fastforce
    note g = ack_deliver_frame[OF del]
    have run: "isp_composer_handle_ack c n tb tm cam = Some (e, cam')"
      using False Cons s mux del by (simp add: isp_composer_handle_ack_def bl_take_first_def cam1_def l_def)
    have pr: "processing_buffer_list (ctxs cam' c) = list_push b (processing_buffer_list ?x) \<and>
             composed_buffer_list (ctxs cam' c) = composed_buffer_list ?x \<or>
           processing_buffer_list (ctxs cam' c) = processing_buffer_list ?x \<and>
             composed_buffer_list (ctxs cam' c) = list_push b (composed_buffer_list ?x)"
      using g(7) f(4,5) by (simp add: cam1_def)
    have fr: "using_buffer_list (ctxs cam' c) = l" "buf_pool (ctxs cam' c) = buf_pool ?x"
        "cx_wbuf_s_data (ctxs cam' c) = cx_wbuf_s_data ?x" "stream_id (ctxs cam' c) = stream_id ?x"
        "sd_working_buf (sd cam' t) = sd_working_buf (sd cam t)" for t
      using g(1-4) g(5)[of t] f by (simp_all add: cam1_def)
    have "cq_inv c cam'" "cq_all c cam' = cq_all c cam"
      by (rule cq_inv_move[OF inv]; use pr in \<open>auto simp: fr cq_bufs_def cq_total_def lists Cons list_push_def\<close>)+
    then show thesis using run that by blast
  qed
qed

text \<open>The steps in any order.\<close>

datatype cq_op = Tx_frame sref | Composer_ack u32 u64 u64 | Next_frame | Finish_frame sref

fun cq_step :: "nat \<Rightarrow> cq_op \<Rightarrow> mtk_cam_device \<Rightarrow> mtk_cam_device option" where
  "cq_step c (Tx_frame s) cam = Some (isp_tx_frame_worker c s cam)"
| "cq_step c (Composer_ack n tb tm) cam = map_option snd (isp_composer_handle_ack c n tb tm cam)"
| "cq_step c Next_frame cam = Some (snd (apply_next_composed c cam))"
| "cq_step c (Finish_frame s) cam = finish_cq_buf c s cam"

text \<open>A frame is sent once, and a context only handles stream data of its own stream.\<close>

fun cq_op_ok :: "nat \<Rightarrow> cq_op \<Rightarrow> mtk_cam_device \<Rightarrow> bool" where
  "cq_op_ok c (Tx_frame s) cam = (fst (snd s) = stream_id (ctxs cam c) \<and> sd_working_buf (sd cam s) = None)"
| "cq_op_ok c (Composer_ack n tb tm) cam = ack_ok c cam"
| "cq_op_ok c Next_frame cam = True"
| "cq_op_ok c (Finish_frame s) cam = (fst (snd s) = stream_id (ctxs cam c))"

fun cq_keeps :: "nat \<Rightarrow> cq_op list \<Rightarrow> mtk_cam_device \<Rightarrow> bool" where
  "cq_keeps c [] cam = True"
| "cq_keeps c (op # ops) cam = (cq_op_ok c op cam \<and>
     (case cq_step c op cam of None \<Rightarrow> True | Some cam' \<Rightarrow> cq_keeps c ops cam'))"

lemma cq_step_conserves:
  assumes inv: "cq_inv c cam" and ok: "cq_op_ok c op cam"
  shows "\<exists>cam'. cq_step c op cam = Some cam' \<and> cq_inv c cam' \<and> cq_all c cam' = cq_all c cam"
proof (cases op)
  case (Tx_frame s)
  then show ?thesis using ok isp_tx_frame_worker_conserves[OF inv, of s] by simp
next
  case (Composer_ack n tb tm)
  obtain e cam' where "isp_composer_handle_ack c n tb tm cam = Some (e, cam')" "cq_inv c cam'" "cq_all c cam' = cq_all c cam"
    using isp_composer_handle_ack_conserves[OF inv, where n = n and tb = tb and tm = tm] ok Composer_ack by auto
  then show ?thesis using Composer_ack by simp
next
  case Next_frame
  then show ?thesis using apply_next_composed_conserves[OF inv] by simp
next
  case (Finish_frame s)
  obtain cam' where "finish_cq_buf c s cam = Some cam'" "cq_inv c cam'" "cq_all c cam' = cq_all c cam"
    using finish_cq_buf_conserves[OF inv, of s] ok Finish_frame by auto
  then show ?thesis using Finish_frame by simp
qed

lemma list_del_wbuf_feat: "list_del_wbuf b x = Some x' \<Longrightarrow> feat x' = feat x \<and> stream_id x' = stream_id x"
  by (auto simp: list_del_wbuf_def split: if_splits)

lemma cq_step_feat:
  assumes "cq_step c op cam = Some cam'"
  shows "feat (ctxs cam' c) = feat (ctxs cam c) \<and> stream_id (ctxs cam' c) = stream_id (ctxs cam c)"
proof (cases op)
  case (Tx_frame s)
  then show ?thesis using assms by (auto simp: isp_tx_frame_worker_def Let_def split: option.splits prod.splits)
next
  case (Composer_ack n tb tm)
  then show ?thesis using assms
    by (fastforce simp: isp_composer_handle_ack_def Let_def
        dest: mux_change_frame(8,9) ack_deliver_frame(4,6) split: if_splits option.splits prod.splits)
next
  case Next_frame
  then show ?thesis using assms by (auto simp: apply_next_composed_def split: option.splits prod.splits)
next
  case (Finish_frame s)
  then show ?thesis using assms
    by (auto simp: finish_cq_buf_def Let_def ctx_option_def bind_eq_Some_conv dest: list_del_wbuf_feat
        split: if_splits option.splits)
qed

text \<open>C2. The command-queue buffers of a context are conserved: whatever the order in which frames are
  sent to the composer, answered, taken over by the hardware and finished, no step faults, every
  buffer stays in exactly one of the free, using, composed and processing lists, the buffers in
  flight are the ones that belong to a frame, the three counters together count them, and their
  total is the one of the start.
\<close>

theorem cq_buffers_conserved:
  assumes "cq_inv c cam" and "cq_keeps c ops cam"
  shows "\<exists>cam'. ofold (cq_step c) ops cam = Some cam' \<and> cq_inv c cam' \<and> cq_all c cam' = cq_all c cam"
  using assms
proof (induction ops arbitrary: cam)
  case Nil
  then show ?case by simp
next
  case (Cons op ops)
  obtain cam1 where step: "cq_step c op cam = Some cam1" "cq_inv c cam1" "cq_all c cam1 = cq_all c cam"
    using cq_step_conserves[OF Cons.prems(1)] Cons.prems(2) by auto
  have "cq_keeps c ops cam1" using Cons.prems(2) step(1) by simp
  from Cons.IH[OF step(2) this] show ?case using step(1,3) by auto
qed

subsection \<open>A small device\<close>

text \<open>One raw context streaming on pipe 0, and requests of one frame each: request \<open>r\<close> holds frame
  \<open>r + 1\<close>.\<close>

definition demo_sd :: "u32 \<Rightarrow> mtk_cam_request_stream_data" where
  "demo_sd n = \<lparr>frame_seq_no = n, sd_flags = SENSOR_HDL_EN, sd_timestamp = 0, sd_timestamp_mono = 0,
     sd_buf_state = None, sd_sensor = Some 0, sd_seninf_new = False, sd_sensor_hdl_obj = Some True,
     estate = E_STATE_READY, sd_working_buf = None,
     sd_feature = \<lparr>raw_feature = 0, switch_feature_type = 0, switch_prev_frame_done = False,
       switch_curr_setting_done = False, switch_done = False\<rparr>,
     sd_shutter = 0, sd_gain = 0, sd_frame_done_queued = False, sd_first_setting_check = False\<rparr>"

definition demo_req :: "u32 \<Rightarrow> mtk_cam_request" where
  "demo_req n = \<lparr>pipe_used = 1, ctx_used = 1, ctx_link_update = 0, rq_flags = 0, done_status = 0,
     rq_state = MTK_CAM_REQ_STATE_RUNNING, rq_fs = \<lparr>fs_target = 0, fs_on_cnt = 0, fs_off_cnt = 0\<rparr>,
     p_data = (\<lambda>_. \<lparr>s_data_num = 1, req_seq = n, s_data = (\<lambda>_. demo_sd n)\<rparr>), ref_cnt = 1\<rparr>"

definition demo_sc :: mtk_camsys_sensor_ctrl where
  "demo_sc = \<lparr>has_sensorsetting_wq = True, sof_time = 0, timer_req_sensor = 7, timer_req_event = 18,
     sensor_enq_seq_no = 0, sensor_request_seq_no = 0, isp_request_seq_no = 0, isp_enq_seq_no = 0,
     last_drained_seq_no = 0, initial_cq_done = False, initial_drop_frame_cnt = 0, camsys_state_list = []\<rparr>"

definition demo_ctx :: mtk_cam_ctx where
  "demo_ctx = \<lparr>stream_id = 0, streaming = True, synced = False, streaming_pipe = 1,
     is_first_cq_done = False, cq_done_status = 0, running_s_data_cnt = 0, cx_sensor = Some 0,
     sensor_ctrl = demo_sc,
     feat = \<lparr>fc_used_raw_num = 1, fc_feature_pending = 0, fc_feature_active = 0, fc_enable_hsf_raw = 0\<rparr>,
     pipe_id = 0, used_sv_num = 0, used_sv_dev = [], cx_res_raw_feature = 0, enabled_raw = 1, stagger_dcif = False,
     buf_pool = demo_pool\<lparr>cam_freelist := \<lparr>bl_list = [0, 1, 2, 3], bl_cnt = 4\<rparr>\<rparr>,
     cx_wbuf_s_data = (\<lambda>_. None), using_buffer_list = bl_init, composed_buffer_list = bl_init,
     processing_buffer_list = bl_init,
     img_buf_pool = \<lparr>working_img_buf_va = 0, working_img_buf_iova = 0, working_img_buf_fd = 0,
       working_img_buf_size = 0, img_working_buf = (\<lambda>_. \<lparr>wb_va = 0, wb_iova = 0, wb_size = 0\<rparr>),
       cam_freeimglist = bl_init\<rparr>,
     cx_img_s_data = (\<lambda>_. None), processing_img_buffer_list = bl_init,
     enqueued_frame_seq_no = 0, composed_frame_seq_no = 0, dequeued_frame_seq_no = 0, sv_dequeued_frame_seq_no = (\<lambda>_. 0),
     next_sof_mask_frame_seq_no = 0, working_request_seq = 0, vf_en = False, sof_count = 0,
     stagger_en = False, sensor_has_mstream_ctrls = False, master_raw = 0\<rparr>"

definition demo_cam :: mtk_cam_device where
  "demo_cam = \<lparr>max_stream_num = 3, num_raw_drivers = 1, streaming_ctx = 1, cam_streaming_pipe = 1,
     ctxs = (\<lambda>_. demo_ctx), reqs = (\<lambda>r. demo_req (of_nat r + 1)), running_job_list = [0, 1, 2],
     running_job_count = 3, sv_exp_order = (\<lambda>i. i),
     time_shared_busy = (\<lambda>_. False), time_shared_busy_ctx_id = (\<lambda>_. 0), cam_out = []\<rparr>"

lemma demo_cam_cq_inv: "cq_inv 0 demo_cam"
  by (simp add: cq_inv_def demo_cam_def demo_ctx_def cq_bufs_def cq_total_def bl_init_def sd_def
      demo_req_def demo_sd_def split: prod.splits)

lemma demo_cam_sd: "sd demo_cam (r, p, i) = demo_sd (of_nat r + 1)"
  by (simp add: sd_def demo_cam_def demo_req_def)

theorem cq_buffers_conserved_witness:
  "\<exists>cam'. ofold (cq_step 0) [Tx_frame (0, 0, 0), Composer_ack 1 5 5, Finish_frame (0, 0, 0)] demo_cam = Some cam'
     \<and> cq_inv 0 cam' \<and> cq_all 0 cam' = cq_all 0 demo_cam"
proof (rule cq_buffers_conserved[OF demo_cam_cq_inv])
  have "stream_id (ctxs demo_cam 0) = 0" "\<not> mtk_cam_is_mstream (feat (ctxs demo_cam 0))"
    by (simp_all add: demo_cam_def demo_ctx_def mtk_cam_is_mstream_def mtk_cam_feature_is_mstream_def
        MTK_CAM_FEATURE_HDR_MASK_def MSTREAM_NE_SE_def MSTREAM_SE_NE_def MTK_CAM_FEATURE_OFFLINE_M2M_MASK_def)
  then show "cq_keeps 0 [Tx_frame (0, 0, 0), Composer_ack 1 5 5, Finish_frame (0, 0, 0)] demo_cam"
    using cq_step_feat[of 0 "Tx_frame (0, 0, 0)" demo_cam] cq_step_feat[of 0 "Composer_ack 1 5 5"]
    by (auto simp: ack_ok_def demo_cam_sd demo_sd_def simp del: cq_step.simps split: option.splits)
qed

end
