(* ===== verification/CamDeq.thy ===== *)
theory CamDeq
  imports CamReq
begin

text \<open>
  Completion of requests (\<open>mtk_cam.c\<close>, \<open>mtk_cam_dequeue_req_frame\<close> and what it calls): the scan of
  the running list up to the finished frame, the release of the buffers and state of each request
  found, and the state its video buffers are returned with. The copy of the frame's time stamps
  into the statistics buffer and the debug works are not modelled.
\<close>

definition mtk_cam_del_req_from_running :: "nat \<Rightarrow> mtk_cam_device \<Rightarrow> mtk_cam_device" where
  "mtk_cam_del_req_from_running r cam = upd_req r (\<lambda>q. q\<lparr>rq_state := MTK_CAM_REQ_STATE_COMPLETE\<rparr>)
     (cam\<lparr>running_job_list := remove1 r (running_job_list cam), running_job_count := running_job_count cam - 1\<rparr>)"

text \<open>\<open>mtk_camsys_state_delete\<close>: both state elements of an m-stream request leave the list.\<close>

definition mtk_camsys_state_delete :: "nat \<Rightarrow> nat \<Rightarrow> mtk_cam_device \<Rightarrow> mtk_cam_device option" where
  "mtk_camsys_state_delete c r cam = (let x = ctxs cam c in
     if cx_sensor x = None \<or> camsys_state_list (sensor_ctrl x) = [] then Some cam
     else case mtk_cam_req_get_s_data cam r (stream_id x) 0 of
       None \<Rightarrow> None
     | Some s0 \<Rightarrow>
       let f = raw_feature (sd_feature (sd cam s0));
           gone = s0 # (if mtk_cam_feature_is_mstream f \<or> mtk_cam_feature_is_mstream_m2m f
                        then [(r, stream_id x, 1)] else [])
       in Some (upd_sc c (\<lambda>k. k\<lparr>camsys_state_list := filter (\<lambda>s. s \<notin> set gone) (camsys_state_list k)\<rparr>) cam))"

text \<open>\<open>mtk_cam_req_put\<close> and \<open>mtk_cam_req_return_pipe_buffers\<close> for the first stream datum of the pipe.\<close>

definition s_data_clean :: "mtk_cam_request_stream_data \<Rightarrow> mtk_cam_request_stream_data" where
  "s_data_clean d = d\<lparr>sd_seninf_new := False, sd_sensor := None, sd_flags := 0\<rparr>"

definition mtk_cam_req_return_pipe_buffers :: "nat \<Rightarrow> nat \<Rightarrow> mtk_cam_device \<Rightarrow> mtk_cam_device" where
  "mtk_cam_req_return_pipe_buffers r p cam = (case mtk_cam_req_get_s_data cam r p 0 of
     None \<Rightarrow> cam
   | Some s \<Rightarrow>
       let st = (case sd_buf_state (sd cam s) of None \<Rightarrow> VB2_BUF_STATE_ERROR | Some st \<Rightarrow> st)
       in emit (Vb2_buffers_done s st) (upd_sd s s_data_clean cam))"

definition mtk_cam_req_put :: "nat \<Rightarrow> nat \<Rightarrow> mtk_cam_device \<Rightarrow> mtk_cam_device" where
  "mtk_cam_req_put r p cam = (let cam1 = upd_req r (\<lambda>q. q\<lparr>ref_cnt := ref_cnt q - 1\<rparr>) cam;
     cam2 = (if ref_cnt (reqs cam1 r) = 0 then upd_req r (\<lambda>q. q\<lparr>ctx_link_update := 0\<rparr>) cam1 else cam1)
     in mtk_cam_req_return_pipe_buffers r p cam2)"

text \<open>The scan stops at the first later frame, and after 18 requests.\<close>

definition DEQ_MAX :: nat where "DEQ_MAX = 18"

fun deq_scan :: "mtk_cam_device \<Rightarrow> nat \<Rightarrow> u32 \<Rightarrow> nat \<Rightarrow> nat list \<Rightarrow> nat \<Rightarrow> sref list" where
  "deq_scan cam sid n p [] k = []"
| "deq_scan cam sid n p (r # rs) k =
    (if \<not> bit (pipe_used (reqs cam r)) p then deq_scan cam sid n p rs k
     else case mtk_cam_req_get_s_data cam r sid 0 of
       None \<Rightarrow> deq_scan cam sid n p rs k
     | Some s \<Rightarrow>
         if n < frame_seq_no (sd cam s) then []
         else s # (if Suc k \<ge> DEQ_MAX then [] else deq_scan cam sid n p rs (Suc k)))"

text \<open>One request of the scan: mark the pipe done, release what the context holds for it, return
  the buffers of the pipe.\<close>

definition mstream_s_data :: "nat \<Rightarrow> sref \<Rightarrow> mtk_cam_device \<Rightarrow> sref option" where
  "mstream_s_data c s cam = (let f = raw_feature (sd_feature (sd cam s)) in
     if mtk_cam_feature_is_mstream f \<or> mtk_cam_feature_is_mstream_m2m f
     then mtk_cam_req_get_s_data cam (fst s) (stream_id (ctxs cam c)) 1 else None)"

definition deq_del_job :: "nat \<Rightarrow> sref \<Rightarrow> sref option \<Rightarrow> mtk_cam_device \<Rightarrow> mtk_cam_device option" where
  "deq_del_job c s ms cam = do {
     cam1 \<leftarrow> mtk_camsys_state_delete c (fst s)
               (upd_ctx c (\<lambda>x. x\<lparr>running_s_data_cnt := running_s_data_cnt x - 1\<rparr>) cam);
     cam2 \<leftarrow> finish_cq_buf c s (emit (Sv_finish_buf s) cam1);
     cam3 \<leftarrow> (if mtk_cam_is_time_shared (feat (ctxs cam2 c)) then finish_img_buf c s cam2 else Some cam2);
     (case ms of None \<Rightarrow> Some cam3
      | Some m \<Rightarrow> map_option (emit (Sv_finish_buf m)) (finish_cq_buf c m cam3)) }"

definition deq_buf_state :: "u32 \<Rightarrow> bool \<Rightarrow> mtk_cam_request_stream_data \<Rightarrow> vb2_buffer_state" where
  "deq_buf_state n unreliable d =
    (if frame_seq_no d < n then VB2_BUF_STATE_ERROR
     else if estate d = E_STATE_DONE_MISMATCH then VB2_BUF_STATE_ERROR
     else if unreliable then VB2_BUF_STATE_ERROR
     else VB2_BUF_STATE_DONE)"

definition deq_return :: "u32 \<Rightarrow> nat \<Rightarrow> bool \<Rightarrow> sref \<Rightarrow> mtk_cam_device \<Rightarrow> mtk_cam_device" where
  "deq_return n p unreliable s cam = (case mtk_cam_req_get_s_data cam (fst s) p 0 of
     None \<Rightarrow> cam
   | Some sp \<Rightarrow>
       if sd_buf_state (sd cam sp) = None
       then mtk_cam_req_put (fst s) p
              (upd_sd sp (\<lambda>d. d\<lparr>sd_buf_state := Some (deq_buf_state n unreliable (sd cam s))\<rparr>) cam)
       else cam)"

definition deq_delayed :: "nat \<Rightarrow> sref \<Rightarrow> sref option \<Rightarrow> mtk_cam_device \<Rightarrow> bool" where
  "deq_delayed c s ms cam =
    (mtk_cam_feature_is_mstream (raw_feature (sd_feature (sd cam s))) \<and>
     (sd_flags (sd cam s) AND SENSOR_HDL_DELAYED \<noteq> 0 \<or>
      (case ms of None \<Rightarrow> False | Some m \<Rightarrow> sd_flags (sd cam m) AND SENSOR_HDL_DELAYED \<noteq> 0)))"

definition deq_one :: "nat \<Rightarrow> u32 \<Rightarrow> nat \<Rightarrow> sref \<Rightarrow> nat \<times> bool \<times> mtk_cam_device \<Rightarrow> (nat \<times> bool \<times> mtk_cam_device) option" where
  "deq_one c n p s st = (case st of (cnt, unreliable, cam) \<Rightarrow>
     let r = fst s in
     if bit (done_status (reqs cam r)) p then Some (cnt, unreliable, cam)
     else
       let cam1 = upd_req r (\<lambda>q. q\<lparr>done_status := done_status q OR push_bit p 1\<rparr>) cam;
           q = reqs cam1 r; x = ctxs cam1 c;
           del_job = (done_status q AND streaming_pipe x = pipe_used q AND streaming_pipe x);
           del_req = (done_status q AND cam_streaming_pipe cam1 = pipe_used q AND cam_streaming_pipe cam1
                      \<and> rq_state q = MTK_CAM_REQ_STATE_RUNNING);
           cam2 = (if del_req then upd_req r (\<lambda>q. q\<lparr>rq_state := MTK_CAM_REQ_STATE_DELETING\<rparr>) cam1 else cam1);
           ms = mstream_s_data c s cam2
       in do {
         cam3 \<leftarrow> (if del_job then deq_del_job c s ms cam2 else Some cam2);
         let cam4 = (if del_req then mtk_cam_del_req_from_running r cam3 else cam3);
         let unreliable' = (unreliable \<or> deq_delayed c s ms cam4);
         Some ((if del_req then Suc cnt else cnt), unreliable', deq_return n p unreliable' s cam4) })"

definition mtk_cam_dequeue_req_frame :: "nat \<Rightarrow> u32 \<Rightarrow> nat \<Rightarrow> mtk_cam_device \<Rightarrow> (nat \<times> mtk_cam_device) option" where
  "mtk_cam_dequeue_req_frame c n p cam =
    map_option (\<lambda>(cnt, _, cam'). (cnt, cam'))
      (ofold (deq_one c n p) (deq_scan cam (stream_id (ctxs cam c)) n p (running_job_list cam) 0) (0, False, cam))"

subsection \<open>The requests found\<close>

lemma deq_scan_eq:
  assumes "k < DEQ_MAX" and "sid < MTKCAM_SUBDEV_MAX"
  shows "deq_scan cam sid n p rs k = map (\<lambda>r. (r, sid, 0)) (take (DEQ_MAX - k)
    (takeWhile (\<lambda>r. frame_seq_no (sd cam (r, sid, 0)) \<le> n)
      (filter (\<lambda>r. bit (pipe_used (reqs cam r)) p \<and> 0 < s_data_num (p_data (reqs cam r) sid)) rs)))"
  using assms(1)
proof (induction rs arbitrary: k)
  case Nil
  then show ?case by simp
next
  case (Cons r rs)
  show ?case
  proof (cases "bit (pipe_used (reqs cam r)) p \<and> 0 < s_data_num (p_data (reqs cam r) sid)")
    case False
    then show ?thesis using Cons assms(2) by (auto simp: mtk_cam_req_get_s_data_def)
  next
    case True
    obtain m where m: "DEQ_MAX - k = Suc m" "m = DEQ_MAX - Suc k" using Cons.prems by (metis Suc_diff_Suc)
    have "Suc k \<ge> DEQ_MAX \<Longrightarrow> m = 0" using m by simp
    then show ?thesis using True Cons assms(2) m
      by (auto simp: mtk_cam_req_get_s_data_def not_le not_less)
  qed
qed

text \<open>The finished frame and every earlier one the context still runs, oldest first.\<close>

definition finished :: "nat \<Rightarrow> u32 \<Rightarrow> mtk_cam_device \<Rightarrow> nat list" where
  "finished c n cam = (let sid = stream_id (ctxs cam c) in
     takeWhile (\<lambda>r. frame_seq_no (sd cam (r, sid, 0)) \<le> n)
       (filter (\<lambda>r. bit (pipe_used (reqs cam r)) sid \<and> 0 < s_data_num (p_data (reqs cam r) sid)) (running_job_list cam)))"

text \<open>A running request of one exposure whose last pipe is the one of the context.\<close>

definition completes :: "nat \<Rightarrow> nat \<Rightarrow> mtk_cam_device \<Rightarrow> bool" where
  "completes c r cam = (let sid = stream_id (ctxs cam c); q = reqs cam r; d = sd cam (r, sid, 0);
       done = done_status q OR push_bit sid 1
     in \<not> bit (done_status q) sid \<and> rq_state q = MTK_CAM_REQ_STATE_RUNNING \<and>
        done AND streaming_pipe (ctxs cam c) = pipe_used q AND streaming_pipe (ctxs cam c) \<and>
        done AND cam_streaming_pipe cam = pipe_used q AND cam_streaming_pipe cam \<and>
        0 < s_data_num (p_data q sid) \<and> sd_buf_state d = None \<and>
        \<not> mtk_cam_feature_is_mstream (raw_feature (sd_feature d)) \<and>
        \<not> mtk_cam_feature_is_mstream_m2m (raw_feature (sd_feature d)))"

subsection \<open>One request\<close>

lemma finish_cq_buf_shape:
  assumes "finish_cq_buf c s cam = Some cam'"
  obtains "cam' = cam" "fc_used_raw_num (feat (ctxs cam c)) = 0 \<or> sd_working_buf (sd cam s) = None \<or>
      (\<exists>b. sd_working_buf (sd cam s) = Some b \<and> cx_wbuf_s_data (ctxs cam c) b = None)"
  | x where "cam' = upd_ctx c (\<lambda>_. x) (upd_sd s (\<lambda>d. d\<lparr>sd_working_buf := None\<rparr>) cam)"
      "stream_id x = stream_id (ctxs cam c)" "feat x = feat (ctxs cam c)"
      "streaming_pipe x = streaming_pipe (ctxs cam c)" "sensor_ctrl x = sensor_ctrl (ctxs cam c)"
      "cx_sensor x = cx_sensor (ctxs cam c)"
proof -
  let ?x = "ctxs cam c"
  show thesis
  proof (cases "fc_used_raw_num (feat ?x) = 0 \<or> sd_working_buf (sd cam s) = None \<or>
      (\<exists>b. sd_working_buf (sd cam s) = Some b \<and> cx_wbuf_s_data ?x b = None)")
    case True
    then have "finish_cq_buf c s cam = Some cam"
      unfolding finish_cq_buf_def Let_def by (elim disjE exE conjE) simp_all
    then show thesis using that(1) True assms by simp
  next
    case False
    then obtain b where b: "sd_working_buf (sd cam s) = Some b" by auto
    have nr: "fc_used_raw_num (feat ?x) \<noteq> 0" "cx_wbuf_s_data ?x b \<noteq> None" using False b by auto
    have "ctx_option c (\<lambda>x. list_del_wbuf b x \<bind> (\<lambda>x1.
                map_option (\<lambda>pool. x1\<lparr>buf_pool := pool, cx_wbuf_s_data := (cx_wbuf_s_data x1)(b := None),
                    processing_buffer_list := (processing_buffer_list x1)
                      \<lparr>bl_cnt := bl_cnt (processing_buffer_list x1) - 1\<rparr>\<rparr>)
                  (mtk_cam_working_buf_put b (buf_pool x1))))
              (upd_sd s (\<lambda>d. d\<lparr>sd_working_buf := None\<rparr>) cam) = Some cam'"
      using assms b nr by (simp add: finish_cq_buf_def Let_def)
    then obtain x1 pool where x1: "list_del_wbuf b ?x = Some x1"
      and cam': "cam' = upd_ctx c (\<lambda>_. x1\<lparr>buf_pool := pool, cx_wbuf_s_data := (cx_wbuf_s_data x1)(b := None),
            processing_buffer_list := (processing_buffer_list x1)
              \<lparr>bl_cnt := bl_cnt (processing_buffer_list x1) - 1\<rparr>\<rparr>)
          (upd_sd s (\<lambda>d. d\<lparr>sd_working_buf := None\<rparr>) cam)"
      unfolding ctx_option_def map_option_eq_Some bind_eq_Some_conv by auto
    have "feat x1 = feat ?x \<and> stream_id x1 = stream_id ?x \<and> streaming_pipe x1 = streaming_pipe ?x \<and>
        sensor_ctrl x1 = sensor_ctrl ?x \<and> cx_sensor x1 = cx_sensor ?x"
      using x1 by (simp add: list_del_wbuf_def split: if_splits) auto
    then show thesis using that(2)[OF cam'] by simp
  qed
qed

lemma upd_sc_cong: "f (sc cam c) = g (sc cam c) \<Longrightarrow> upd_sc c f cam = upd_sc c g cam"
  by (simp add: upd_sc_def upd_ctx_def sc_def)

text \<open>Releasing what the context holds for a request of one exposure.\<close>

lemma deq_del_job_result:
  assumes inv: "cq_inv c cam" and sid: "stream_id (ctxs cam c) < MTKCAM_SUBDEV_MAX"
    and s: "s = (r, stream_id (ctxs cam c), 0)" "0 < s_data_num (p_data (reqs cam r) (stream_id (ctxs cam c)))"
    and nm: "\<not> mtk_cam_feature_is_mstream (raw_feature (sd_feature (sd cam s)))"
      "\<not> mtk_cam_feature_is_mstream_m2m (raw_feature (sd_feature (sd cam s)))"
    and ts: "\<not> mtk_cam_is_time_shared (feat (ctxs cam c))"
  obtains cam' where "deq_del_job c s None cam = Some cam'"
    and "cq_inv c cam'" and "cq_all c cam' = cq_all c cam"
    and "\<And>r'. r' \<noteq> r \<Longrightarrow> reqs cam' r' = reqs cam r'"
    and "\<And>t. sd cam' t = sd cam t \<or> t = s \<and> sd cam' t = (sd cam t)\<lparr>sd_working_buf := None\<rparr>"
    and "rq_state (reqs cam' r) = rq_state (reqs cam r)" "done_status (reqs cam' r) = done_status (reqs cam r)"
      "pipe_used (reqs cam' r) = pipe_used (reqs cam r)"
      "\<And>p. s_data_num (p_data (reqs cam' r) p) = s_data_num (p_data (reqs cam r) p)"
    and "running_job_list cam' = running_job_list cam" "running_job_count cam' = running_job_count cam"
      "cam_streaming_pipe cam' = cam_streaming_pipe cam" "cam_out cam' = cam_out cam @ [Sv_finish_buf s]"
    and "stream_id (ctxs cam' c) = stream_id (ctxs cam c)" "feat (ctxs cam' c) = feat (ctxs cam c)"
      "streaming_pipe (ctxs cam' c) = streaming_pipe (ctxs cam c)" "cx_sensor (ctxs cam' c) = cx_sensor (ctxs cam c)"
    and "camsys_state_list (sc cam' c) = (if cx_sensor (ctxs cam c) = None then camsys_state_list (sc cam c)
           else filter (\<lambda>t. t \<noteq> s) (camsys_state_list (sc cam c)))"
    and "fc_used_raw_num (feat (ctxs cam c)) \<noteq> 0 \<Longrightarrow> sd_working_buf (sd cam' s) = None"
proof -
  let ?x = "ctxs cam c"
  let ?cam0 = "upd_ctx c (\<lambda>x. x\<lparr>running_s_data_cnt := running_s_data_cnt x - 1\<rparr>) cam"
  define L where "L = (if cx_sensor ?x = None then camsys_state_list (sc cam c)
           else filter (\<lambda>t. t \<noteq> s) (camsys_state_list (sc cam c)))"
  define cam1 where "cam1 = upd_sc c (\<lambda>k. k\<lparr>camsys_state_list := L\<rparr>) ?cam0"
  have same: "upd_sc c (\<lambda>k. k\<lparr>camsys_state_list := camsys_state_list (sc cam c)\<rparr>) ?cam0 = ?cam0"
    by (simp add: upd_sc_def upd_ctx_def sc_def)
  have del: "mtk_camsys_state_delete c (fst s) ?cam0 = Some cam1"
  proof (cases "cx_sensor ?x = None \<or> camsys_state_list (sensor_ctrl ?x) = []")
    case True
    then have "L = camsys_state_list (sc cam c)" by (auto simp: L_def sc_def)
    then show ?thesis using True same by (auto simp: mtk_camsys_state_delete_def cam1_def)
  next
    case False
    then obtain y where y: "cx_sensor ?x = Some y" "camsys_state_list (sensor_ctrl ?x) \<noteq> []" by auto
    then have "mtk_camsys_state_delete c (fst s) ?cam0 =
        Some (upd_sc c (\<lambda>k. k\<lparr>camsys_state_list := filter (\<lambda>t. t \<notin> set [s]) (camsys_state_list k)\<rparr>) ?cam0)"
      using s sid nm by (simp add: mtk_camsys_state_delete_def mtk_cam_req_get_s_data_def Let_def)
    also have "upd_sc c (\<lambda>k. k\<lparr>camsys_state_list := filter (\<lambda>t. t \<notin> set [s]) (camsys_state_list k)\<rparr>) ?cam0 = cam1"
      unfolding cam1_def by (rule upd_sc_cong) (simp add: L_def sc_def y)
    finally show ?thesis .
  qed
  let ?cam1 = "emit (Sv_finish_buf s) cam1"
  have ctx1: "ctxs cam1 c = ?x\<lparr>running_s_data_cnt := running_s_data_cnt ?x - 1,
      sensor_ctrl := (sensor_ctrl ?x)\<lparr>camsys_state_list := L\<rparr>\<rparr>"
    by (simp add: cam1_def upd_sc_def)
  have sd1: "sd cam1 = sd cam" and rq1: "reqs cam1 = reqs cam" by (simp_all add: cam1_def upd_sc_def)
  have inv1: "cq_inv c ?cam1" "cq_all c ?cam1 = cq_all c cam"
    by (rule cq_inv_move[OF inv]; simp add: ctx1 sd1 cq_bufs_def cq_total_def)+
  have s2: "fst (snd s) = stream_id (ctxs ?cam1 c)" using s(1) by (simp add: ctx1)
  obtain cam' where run: "finish_cq_buf c s ?cam1 = Some cam'" and inv': "cq_inv c cam'" "cq_all c cam' = cq_all c ?cam1"
    using finish_cq_buf_conserves[OF inv1(1) s2] by blast
  have out1: "cam_out ?cam1 = cam_out cam @ [Sv_finish_buf s]" "running_job_list ?cam1 = running_job_list cam"
    "running_job_count ?cam1 = running_job_count cam" "cam_streaming_pipe ?cam1 = cam_streaming_pipe cam"
    by (simp_all add: cam1_def upd_sc_def)
  have job: "deq_del_job c s None cam = Some cam'" if "feat (ctxs cam' c) = feat ?x"
    using del run ts that by (simp add: deq_del_job_def)
  have w3: "cx_wbuf_s_data (ctxs cam1 c) b = Some s" if "sd_working_buf (sd cam s) = Some b" for b
    using cq_invD(3)[OF inv1(1), of b s] that s2 by (simp add: sd1)
  show thesis
  proof (rule finish_cq_buf_shape[OF run])
    assume cam': "cam' = ?cam1" and why: "fc_used_raw_num (feat (ctxs ?cam1 c)) = 0 \<or> sd_working_buf (sd ?cam1 s) = None \<or>
        (\<exists>b. sd_working_buf (sd ?cam1 s) = Some b \<and> cx_wbuf_s_data (ctxs ?cam1 c) b = None)"
    have wn: "sd_working_buf (sd cam s) = None" if "fc_used_raw_num (feat ?x) \<noteq> 0"
      using why that w3 by (auto simp: sd1 ctx1)
    have feq: "feat (ctxs cam' c) = feat ?x" by (simp add: cam' ctx1)
    show thesis
    proof (rule that)
      show "deq_del_job c s None cam = Some cam'" by (rule job[OF feq])
      show "cq_inv c cam'" "cq_all c cam' = cq_all c cam" using inv' inv1 by simp_all
      show "sd cam' t = sd cam t \<or> t = s \<and> sd cam' t = (sd cam t)\<lparr>sd_working_buf := None\<rparr>" for t
        by (simp add: cam' sd1)
      show "sd_working_buf (sd cam' s) = None" if "fc_used_raw_num (feat ?x) \<noteq> 0"
        using wn[OF that] by (simp add: cam' sd1)
    qed (simp_all add: cam' ctx1 rq1 L_def sc_def out1[simplified])
  next
    fix x assume cam': "cam' = upd_ctx c (\<lambda>_. x) (upd_sd s (\<lambda>d. d\<lparr>sd_working_buf := None\<rparr>) ?cam1)"
      and x: "stream_id x = stream_id (ctxs ?cam1 c)" "feat x = feat (ctxs ?cam1 c)"
        "streaming_pipe x = streaming_pipe (ctxs ?cam1 c)" "sensor_ctrl x = sensor_ctrl (ctxs ?cam1 c)"
        "cx_sensor x = cx_sensor (ctxs ?cam1 c)"
    note x = x[simplified ctxs_upd ctx1, simplified]
    have feq: "feat (ctxs cam' c) = feat ?x" by (simp add: cam' x)
    have sd': "sd cam' t = (if s = t then (sd cam t)\<lparr>sd_working_buf := None\<rparr> else sd cam t)" for t
      by (simp add: cam' sd1)
    have rq': "reqs cam' r' = reqs cam r'" if "r' \<noteq> r" for r'
      using that s(1) by (simp add: cam' reqs_upd_sd_other rq1)
    show thesis
    proof (rule that)
      show "deq_del_job c s None cam = Some cam'" by (rule job[OF feq])
      show "reqs cam' r' = reqs cam r'" if "r' \<noteq> r" for r' by (rule rq'[OF that])
      show "sd cam' t = sd cam t \<or> t = s \<and> sd cam' t = (sd cam t)\<lparr>sd_working_buf := None\<rparr>" for t
        by (simp add: sd')
      show "cq_inv c cam'" "cq_all c cam' = cq_all c cam" using inv' inv1 by simp_all
      show "sd_working_buf (sd cam' s) = None" by (simp add: sd')
    qed (simp_all add: cam' x rq1 L_def sc_def out1[simplified])
  qed
qed

text \<open>Returning the video buffers of a pipe.\<close>

lemma deq_return_result:
  assumes s: "mtk_cam_req_get_s_data cam (fst s) p 0 = Some s" and none: "sd_buf_state (sd cam s) = None"
  obtains cam' where "deq_return n p u s cam = cam'"
    and "\<And>r'. r' \<noteq> fst s \<Longrightarrow> reqs cam' r' = reqs cam r'" and "ctxs cam' = ctxs cam"
    and "rq_state (reqs cam' (fst s)) = rq_state (reqs cam (fst s))"
    and "running_job_list cam' = running_job_list cam" "running_job_count cam' = running_job_count cam"
      "cam_streaming_pipe cam' = cam_streaming_pipe cam"
      "cam_out cam' = cam_out cam @ [Vb2_buffers_done s (deq_buf_state n u (sd cam s))]"
    and "\<And>t. sd_working_buf (sd cam' t) = sd_working_buf (sd cam t)"
proof -
  define cam1 where "cam1 = upd_sd s (\<lambda>d. d\<lparr>sd_buf_state := Some (deq_buf_state n u (sd cam s))\<rparr>) cam"
  define cam2 where "cam2 = upd_req (fst s) (\<lambda>q. q\<lparr>ref_cnt := ref_cnt q - 1\<rparr>) cam1"
  define cam3 where "cam3 = (if ref_cnt (reqs cam2 (fst s)) = 0 then upd_req (fst s) (\<lambda>q. q\<lparr>ctx_link_update := 0\<rparr>) cam2 else cam2)"
  have s3: "mtk_cam_req_get_s_data cam3 (fst s) p 0 = Some s"
    using s by (simp add: cam3_def cam2_def cam1_def mtk_cam_req_get_s_data_def)
  have sd3: "sd cam3 = sd cam1" by (simp add: cam3_def cam2_def)
  have run: "deq_return n p u s cam = emit (Vb2_buffers_done s (deq_buf_state n u (sd cam s))) (upd_sd s s_data_clean cam3)"
    using s none s3 by (simp add: deq_return_def mtk_cam_req_put_def mtk_cam_req_return_pipe_buffers_def Let_def
        cam1_def[symmetric] cam2_def[symmetric] cam3_def[symmetric] sd3) (simp add: cam1_def)
  show thesis
    by (rule that[OF run]) (auto simp: cam3_def cam2_def cam1_def reqs_upd_sd_other s_data_clean_def)
qed

lemma deq_one_result:
  assumes inv: "cq_inv c cam" and sid: "stream_id (ctxs cam c) < MTKCAM_SUBDEV_MAX"
    and ts: "\<not> mtk_cam_is_time_shared (feat (ctxs cam c))" and comp: "completes c r cam"
    and s: "s = (r, stream_id (ctxs cam c), 0)"
  obtains cam' where "deq_one c n (stream_id (ctxs cam c)) s (k, False, cam) = Some (Suc k, False, cam')"
    and "cq_inv c cam'" "cq_all c cam' = cq_all c cam"
    and "\<And>r'. r' \<noteq> r \<Longrightarrow> reqs cam' r' = reqs cam r'" "rq_state (reqs cam' r) = MTK_CAM_REQ_STATE_COMPLETE"
    and "running_job_list cam' = remove1 r (running_job_list cam)" "running_job_count cam' = running_job_count cam - 1"
      "cam_streaming_pipe cam' = cam_streaming_pipe cam"
      "cam_out cam' = cam_out cam @ [Sv_finish_buf s, Vb2_buffers_done s (deq_buf_state n False (sd cam s))]"
    and "stream_id (ctxs cam' c) = stream_id (ctxs cam c)" "feat (ctxs cam' c) = feat (ctxs cam c)"
      "streaming_pipe (ctxs cam' c) = streaming_pipe (ctxs cam c)" "cx_sensor (ctxs cam' c) = cx_sensor (ctxs cam c)"
    and "camsys_state_list (sc cam' c) = (if cx_sensor (ctxs cam c) = None then camsys_state_list (sc cam c)
           else filter (\<lambda>t. t \<noteq> s) (camsys_state_list (sc cam c)))"
    and "fc_used_raw_num (feat (ctxs cam c)) \<noteq> 0 \<Longrightarrow> sd_working_buf (sd cam' s) = None"
proof -
  let ?sid = "stream_id (ctxs cam c)" and ?x = "ctxs cam c"
  note comp = comp[unfolded completes_def Let_def, folded s]
  define cam1 where "cam1 = upd_req r (\<lambda>q. q\<lparr>done_status := done_status q OR push_bit ?sid 1\<rparr>) cam"
  define cam2 where "cam2 = upd_req r (\<lambda>q. q\<lparr>rq_state := MTK_CAM_REQ_STATE_DELETING\<rparr>) cam1"
  have sd2: "sd cam2 = sd cam" and cx2: "ctxs cam2 = ctxs cam"
    and num2: "\<And>p. s_data_num (p_data (reqs cam2 r) p) = s_data_num (p_data (reqs cam r) p)"
    and oth2: "\<And>r'. r' \<noteq> r \<Longrightarrow> reqs cam2 r' = reqs cam r'"
    and dev2: "running_job_list cam2 = running_job_list cam" "running_job_count cam2 = running_job_count cam"
      "cam_streaming_pipe cam2 = cam_streaming_pipe cam" "cam_out cam2 = cam_out cam"
    by (simp_all add: cam2_def cam1_def)
  have inv2: "cq_inv c cam2" "cq_all c cam2 = cq_all c cam"
    by (rule cq_inv_move[OF inv]; simp add: sd2 cx2)+
  have num: "0 < s_data_num (p_data (reqs cam r) ?sid)" using comp by simp
  have ms: "mstream_s_data c s cam2 = None" using comp by (simp add: mstream_s_data_def sd2)
  obtain cam3 where job: "deq_del_job c s None cam2 = Some cam3"
    and inv3: "cq_inv c cam3" "cq_all c cam3 = cq_all c cam2"
    and oth3: "\<And>r'. r' \<noteq> r \<Longrightarrow> reqs cam3 r' = reqs cam2 r'"
    and sd3: "\<And>t. sd cam3 t = sd cam2 t \<or> t = s \<and> sd cam3 t = (sd cam2 t)\<lparr>sd_working_buf := None\<rparr>"
    and q3: "rq_state (reqs cam3 r) = rq_state (reqs cam2 r)"
      "\<And>p. s_data_num (p_data (reqs cam3 r) p) = s_data_num (p_data (reqs cam2 r) p)"
    and dev3: "running_job_list cam3 = running_job_list cam2" "running_job_count cam3 = running_job_count cam2"
      "cam_streaming_pipe cam3 = cam_streaming_pipe cam2" "cam_out cam3 = cam_out cam2 @ [Sv_finish_buf s]"
    and cx3: "stream_id (ctxs cam3 c) = stream_id (ctxs cam2 c)" "feat (ctxs cam3 c) = feat (ctxs cam2 c)"
      "streaming_pipe (ctxs cam3 c) = streaming_pipe (ctxs cam2 c)" "cx_sensor (ctxs cam3 c) = cx_sensor (ctxs cam2 c)"
    and l3: "camsys_state_list (sc cam3 c) = (if cx_sensor (ctxs cam2 c) = None then camsys_state_list (sc cam2 c)
           else filter (\<lambda>t. t \<noteq> s) (camsys_state_list (sc cam2 c)))"
    and w3: "fc_used_raw_num (feat (ctxs cam2 c)) \<noteq> 0 \<Longrightarrow> sd_working_buf (sd cam3 s) = None"
    by (rule deq_del_job_result[of c cam2 s r]) (use inv2 sid s num num2 comp ts in \<open>simp_all add: sd2 cx2\<close>)
  define cam4 where "cam4 = mtk_cam_del_req_from_running r cam3"
  have sd4: "sd cam4 = sd cam3" and cx4: "ctxs cam4 = ctxs cam3"
    by (rule ext) (auto simp: cam4_def mtk_cam_del_req_from_running_def sd_def upd_req_def split: prod.splits)
  have s4: "mtk_cam_req_get_s_data cam4 (fst s) ?sid 0 = Some s"
    using sid num by (simp add: cam4_def mtk_cam_del_req_from_running_def mtk_cam_req_get_s_data_def s upd_req_def q3 num2)
  have buf4: "sd_buf_state (sd cam4 s) = None" using sd3[of s] comp by (auto simp: sd4 sd2)
  have st4: "deq_buf_state n u (sd cam4 s) = deq_buf_state n u (sd cam s)" for u
    using sd3[of s] by (auto simp: sd4 sd2 deq_buf_state_def)
  have f4: "\<not> deq_delayed c s None cam4" using sd3[of s] comp by (auto simp: deq_delayed_def sd4 sd2)
  obtain cam' where ret: "deq_return n ?sid False s cam4 = cam'"
    and oth5: "\<And>r'. r' \<noteq> fst s \<Longrightarrow> reqs cam' r' = reqs cam4 r'" and cx5: "ctxs cam' = ctxs cam4"
    and q5: "rq_state (reqs cam' (fst s)) = rq_state (reqs cam4 (fst s))"
    and dev5: "running_job_list cam' = running_job_list cam4" "running_job_count cam' = running_job_count cam4"
      "cam_streaming_pipe cam' = cam_streaming_pipe cam4"
      "cam_out cam' = cam_out cam4 @ [Vb2_buffers_done s (deq_buf_state n False (sd cam4 s))]"
    and w5: "\<And>t. sd_working_buf (sd cam' t) = sd_working_buf (sd cam4 t)"
    by (rule deq_return_result[OF s4 buf4]) blast
  have run: "deq_one c n ?sid s (k, False, cam) = Some (Suc k, False, cam')"
  proof -
    have f1: "fst s = r" by (simp add: s)
    have nb: "bit (done_status (reqs cam r)) ?sid = False" using comp by simp
    have dj: "(done_status (reqs cam1 r) AND streaming_pipe (ctxs cam1 c) =
        pipe_used (reqs cam1 r) AND streaming_pipe (ctxs cam1 c)) = True"
      using comp by (simp add: cam1_def)
    have dr: "(done_status (reqs cam1 r) AND cam_streaming_pipe cam1 = pipe_used (reqs cam1 r) AND cam_streaming_pipe cam1
        \<and> rq_state (reqs cam1 r) = MTK_CAM_REQ_STATE_RUNNING) = True"
      using comp by (simp add: cam1_def)
    have f4': "deq_delayed c s None cam4 = False" using f4 by simp
    show ?thesis
      unfolding deq_one_def Let_def prod.case f1 nb if_False cam1_def[symmetric] dj dr if_True cam2_def[symmetric] ms job
        Option.bind.simps cam4_def[symmetric] f4' simp_thms ret ..
  qed
  have inv': "cq_inv c cam'" "cq_all c cam' = cq_all c cam3"
    by (rule cq_inv_move[OF inv3(1)]; simp add: cx5 cx4 w5 sd4)+
  have r4: "reqs cam4 r' = (if r' = r then (reqs cam3 r)\<lparr>rq_state := MTK_CAM_REQ_STATE_COMPLETE\<rparr> else reqs cam3 r')" for r'
    by (simp add: cam4_def mtk_cam_del_req_from_running_def upd_req_def)
  have d4: "running_job_list cam4 = remove1 r (running_job_list cam3)" "running_job_count cam4 = running_job_count cam3 - 1"
    "cam_streaming_pipe cam4 = cam_streaming_pipe cam3" "cam_out cam4 = cam_out cam3"
    by (simp_all add: cam4_def mtk_cam_del_req_from_running_def)
  show thesis
  proof (rule that[OF run inv'(1)])
    show "reqs cam' r' = reqs cam r'" if "r' \<noteq> r" for r'
      using that s by (simp add: oth5 r4 oth3 oth2)
    show "rq_state (reqs cam' r) = MTK_CAM_REQ_STATE_COMPLETE" using q5 s by (simp add: r4)
    show "sd_working_buf (sd cam' s) = None" if "fc_used_raw_num (feat ?x) \<noteq> 0"
      using w3 that by (simp add: w5 sd4 cx2)
  qed (simp_all add: inv' inv3 inv2 dev5 d4 dev3 dev2 st4 sc_def cx5 cx4 cx3 cx2 l3[unfolded sc_def])
qed

subsection \<open>All of them\<close>

text \<open>What completing the requests \<open>rs\<close> leaves.\<close>

definition completed :: "nat \<Rightarrow> u32 \<Rightarrow> nat list \<Rightarrow> mtk_cam_device \<Rightarrow> mtk_cam_device \<Rightarrow> bool" where
  "completed c n rs cam cam' = (let sid = stream_id (ctxs cam c); x = ctxs cam c in
     running_job_list cam' = filter (\<lambda>r. r \<notin> set rs) (running_job_list cam) \<and>
     running_job_count cam' = running_job_count cam - of_nat (length rs) \<and>
     (\<forall>r \<in> set rs. rq_state (reqs cam' r) = MTK_CAM_REQ_STATE_COMPLETE) \<and>
     (cx_sensor x \<noteq> None \<longrightarrow> camsys_state_list (sc cam' c) =
        filter (\<lambda>t. t \<notin> (\<lambda>r. (r, sid, 0)) ` set rs) (camsys_state_list (sc cam c))) \<and>
     (fc_used_raw_num (feat x) \<noteq> 0 \<longrightarrow> (\<forall>r \<in> set rs. sd_working_buf (sd cam' (r, sid, 0)) = None)) \<and>
     cam_out cam' = cam_out cam @ concat (map (\<lambda>r. [Sv_finish_buf (r, sid, 0),
        Vb2_buffers_done (r, sid, 0) (deq_buf_state n False (sd cam (r, sid, 0)))]) rs))"

lemma filter_remove1_distinct:
  "distinct xs \<Longrightarrow> filter P (remove1 x xs) = filter (\<lambda>y. y \<noteq> x \<and> P y) xs"
  by (simp add: distinct_remove1_removeAll removeAll_filter_not_eq) (metis (mono_tags, lifting))

lemma deq_loop:
  assumes "cq_inv c cam" and "stream_id (ctxs cam c) < MTKCAM_SUBDEV_MAX"
    and "\<not> mtk_cam_is_time_shared (feat (ctxs cam c))" and "distinct (running_job_list cam)"
    and "distinct rs" and "\<forall>r \<in> set rs. completes c r cam"
  shows "\<exists>cam'. ofold (deq_one c n (stream_id (ctxs cam c))) (map (\<lambda>r. (r, stream_id (ctxs cam c), 0)) rs) (k, False, cam)
      = Some (k + length rs, False, cam') \<and> cq_inv c cam' \<and> cq_all c cam' = cq_all c cam
      \<and> (\<forall>r. r \<notin> set rs \<longrightarrow> reqs cam' r = reqs cam r) \<and> completed c n rs cam cam'"
  using assms
proof (induction rs arbitrary: k cam)
  case Nil
  then show ?case by (simp add: completed_def)
next
  case (Cons r rs)
  let ?x = "ctxs cam c" and ?sid = "stream_id (ctxs cam c)"
  let ?s = "(r, ?sid, 0::nat)"
  obtain cam1 where run1: "deq_one c n ?sid ?s (k, False, cam) = Some (Suc k, False, cam1)"
    and inv1: "cq_inv c cam1" "cq_all c cam1 = cq_all c cam"
    and oth1: "\<And>r'. r' \<noteq> r \<Longrightarrow> reqs cam1 r' = reqs cam r'" and st1: "rq_state (reqs cam1 r) = MTK_CAM_REQ_STATE_COMPLETE"
    and dev1: "running_job_list cam1 = remove1 r (running_job_list cam)" "running_job_count cam1 = running_job_count cam - 1"
      "cam_streaming_pipe cam1 = cam_streaming_pipe cam"
      "cam_out cam1 = cam_out cam @ [Sv_finish_buf ?s, Vb2_buffers_done ?s (deq_buf_state n False (sd cam ?s))]"
    and cx1: "stream_id (ctxs cam1 c) = ?sid" "feat (ctxs cam1 c) = feat ?x"
      "streaming_pipe (ctxs cam1 c) = streaming_pipe ?x" "cx_sensor (ctxs cam1 c) = cx_sensor ?x"
    and l1: "camsys_state_list (sc cam1 c) = (if cx_sensor ?x = None then camsys_state_list (sc cam c)
           else filter (\<lambda>t. t \<noteq> ?s) (camsys_state_list (sc cam c)))"
    and w1: "fc_used_raw_num (feat ?x) \<noteq> 0 \<Longrightarrow> sd_working_buf (sd cam1 ?s) = None"
    by (rule deq_one_result[OF Cons.prems(1-3), of r ?s n k]) (use Cons.prems(6) in auto)
  have sd1: "sd cam1 (r', p, i) = sd cam (r', p, i)" if "r' \<noteq> r" for r' p i
    using oth1[OF that] by (simp add: sd_def)
  have comp1: "\<forall>r' \<in> set rs. completes c r' cam1"
  proof
    fix r' assume r': "r' \<in> set rs"
    then have "r' \<noteq> r" "completes c r' cam" using Cons.prems(5,6) by auto
    then show "completes c r' cam1" by (simp add: completes_def Let_def oth1 sd1 cx1 dev1)
  qed
  obtain cam2 where run2: "ofold (deq_one c n ?sid) (map (\<lambda>r. (r, ?sid, 0)) rs) (Suc k, False, cam1)
        = Some (Suc k + length rs, False, cam2)"
    and inv2: "cq_inv c cam2" "cq_all c cam2 = cq_all c cam1"
    and oth2: "\<And>r. r \<notin> set rs \<Longrightarrow> reqs cam2 r = reqs cam1 r" and c2: "completed c n rs cam1 cam2"
    using Cons.IH[OF inv1(1), of "Suc k"] Cons.prems(2-5) comp1 cx1 dev1 by auto
  note c2 = c2[unfolded completed_def Let_def cx1]
  have r: "r \<notin> set rs" using Cons.prems(5) by simp
  have sd2: "sd cam2 ?s = sd cam1 ?s" using oth2[OF r] by (simp add: sd_def)
  have sds: "map (\<lambda>q. [Sv_finish_buf (q, ?sid, 0), Vb2_buffers_done (q, ?sid, 0) (deq_buf_state n False (sd cam1 (q, ?sid, 0)))]) rs
      = map (\<lambda>q. [Sv_finish_buf (q, ?sid, 0), Vb2_buffers_done (q, ?sid, 0) (deq_buf_state n False (sd cam (q, ?sid, 0)))]) rs"
    by (rule map_cong[OF refl]) (metis r sd1)
  have "completed c n (r # rs) cam cam2"
    unfolding completed_def Let_def
  proof (intro conjI impI ballI)
    show "running_job_list cam2 = filter (\<lambda>q. q \<notin> set (r # rs)) (running_job_list cam)"
      using c2 by (simp add: dev1 filter_remove1_distinct[OF Cons.prems(4)])
    show "running_job_count cam2 = running_job_count cam - of_nat (length (r # rs))"
      using c2 by (simp add: dev1)
    show "rq_state (reqs cam2 q) = MTK_CAM_REQ_STATE_COMPLETE" if "q \<in> set (r # rs)" for q
      using c2 that st1 oth2[OF r] by auto
    show "camsys_state_list (sc cam2 c) = filter (\<lambda>t. t \<notin> (\<lambda>r. (r, ?sid, 0)) ` set (r # rs)) (camsys_state_list (sc cam c))"
      if "cx_sensor ?x \<noteq> None"
      using c2 that l1 by (simp add: conj_commute)
    show "sd_working_buf (sd cam2 (q, ?sid, 0)) = None" if "fc_used_raw_num (feat ?x) \<noteq> 0" "q \<in> set (r # rs)" for q
      using c2 that w1 sd2 by auto
    show "cam_out cam2 = cam_out cam @ concat (map (\<lambda>r. [Sv_finish_buf (r, ?sid, 0),
        Vb2_buffers_done (r, ?sid, 0) (deq_buf_state n False (sd cam (r, ?sid, 0)))]) (r # rs))"
      using c2 by (simp add: dev1 sds)
  qed
  then show ?case
    using run1 run2 inv2 inv1 oth1 oth2 by (intro exI[of _ cam2]) auto
qed

text \<open>C4. When the hardware has finished frame \<open>n\<close> of a raw stream that is neither multi-stream nor shared
  in time, and the finished requests are running, wait for this stream's pipe only and have no buffer state yet, the requests
  of that stream up to \<open>n\<close> complete, oldest first, at most 18 at once: each leaves the running list and
  the state list, gives its command-queue buffer back, and returns its video buffers exactly once, as
  \<open>DONE\<close> if it is frame \<open>n\<close> itself and was not mismatched, as \<open>ERROR\<close> otherwise. No other request
  changes and no command-queue buffer is lost. (The command-queue buffers
  are assumed to be in the state C2 keeps, and the running list to hold no request twice.)
\<close>

theorem dequeue_completes:
  assumes "cq_inv c cam" and "stream_id (ctxs cam c) < MTKCAM_SUBDEV_MAX"
    and "\<not> mtk_cam_is_time_shared (feat (ctxs cam c))" and "distinct (running_job_list cam)"
    and "\<forall>r \<in> set (finished c n cam). completes c r cam"
  shows "\<exists>cam'. let F = take DEQ_MAX (finished c n cam) in
      mtk_cam_dequeue_req_frame c n (stream_id (ctxs cam c)) cam = Some (length F, cam')
      \<and> cq_inv c cam' \<and> cq_all c cam' = cq_all c cam
      \<and> (\<forall>r. r \<notin> set F \<longrightarrow> reqs cam' r = reqs cam r) \<and> completed c n F cam cam'"
proof -
  let ?F = "take DEQ_MAX (finished c n cam)"
  have dist: "distinct (finished c n cam)"
    unfolding finished_def Let_def using assms(4) by (simp add: distinct_takeWhile)
  have scan: "deq_scan cam (stream_id (ctxs cam c)) n (stream_id (ctxs cam c)) (running_job_list cam) 0 =
      map (\<lambda>r. (r, stream_id (ctxs cam c), 0)) ?F"
    using deq_scan_eq[of 0] assms(2) by (simp add: finished_def DEQ_MAX_def Let_def)
  have "\<forall>r \<in> set ?F. completes c r cam" using assms(5) by (meson in_set_takeD)
  from deq_loop[OF assms(1-4) distinct_take[OF dist] this, of n 0]
  show ?thesis unfolding mtk_cam_dequeue_req_frame_def scan Let_def by auto
qed

lemma demo_finished: "finished 0 2 demo_cam = [0, 1]"
  by (simp add: finished_def demo_cam_sd demo_sd_def) (simp add: demo_cam_def demo_ctx_def demo_req_def)

lemma demo_completes: "completes 0 r demo_cam"
  unfolding completes_def Let_def demo_cam_sd
  by (simp add: demo_cam_def demo_ctx_def demo_req_def demo_sd_def mtk_cam_feature_is_mstream_def
      mtk_cam_feature_is_mstream_m2m_def MTK_CAM_FEATURE_HDR_MASK_def MSTREAM_NE_SE_def MSTREAM_SE_NE_def
      MTK_CAM_FEATURE_OFFLINE_M2M_MASK_def)

theorem dequeue_completes_witness:
  "\<exists>cam'. mtk_cam_dequeue_req_frame 0 2 0 demo_cam = Some (2, cam') \<and> completed 0 2 [0, 1] demo_cam cam'"
proof -
  have sid: "stream_id (ctxs demo_cam 0) = 0" "\<not> mtk_cam_is_time_shared (feat (ctxs demo_cam 0))"
    by (simp_all add: demo_cam_def demo_ctx_def mtk_cam_is_time_shared_def mtk_cam_feature_is_time_shared_def)
  have "stream_id (ctxs demo_cam 0) < MTKCAM_SUBDEV_MAX" "distinct (running_job_list demo_cam)"
    by (simp_all add: sid MTKCAM_SUBDEV_MAX_def) (simp add: demo_cam_def)
  then show ?thesis
    using dequeue_completes[OF demo_cam_cq_inv, of 2] sid demo_completes
    by (auto simp: Let_def demo_finished DEQ_MAX_def)
qed

end
