(* ===== verification/CamSensor.thy ===== *)
theory CamSensor
  imports CamReq
begin

text \<open>
  Sensor settings of a request (\<open>mtk_cam-ctrl.c\<close>): the frame-sync bracket around the settings of
  several sensors, the setting of one frame, and the worker that decides whether the next frame may
  be set. Register writes and V4L2 controls are recorded in \<open>cam_out\<close>.
\<close>

definition INITIAL_DROP_FRAME_CNT :: u32 where "INITIAL_DROP_FRAME_CNT = 1"

subsection \<open>Frame sync\<close>

definition mtk_cam_fs_reset :: "mtk_cam_frame_sync \<Rightarrow> mtk_cam_frame_sync" where
  "mtk_cam_fs_reset fs = \<lparr>fs_target = 0, fs_on_cnt = 0, fs_off_cnt = 0\<rparr>"

definition upd_fs :: "nat \<Rightarrow> (mtk_cam_frame_sync \<Rightarrow> mtk_cam_frame_sync) \<Rightarrow> mtk_cam_device \<Rightarrow> mtk_cam_device" where
  "upd_fs r f = upd_req r (\<lambda>q. q\<lparr>rq_fs := f (rq_fs q)\<rparr>)"

definition mtk_cam_req_frame_sync_set :: "nat \<Rightarrow> nat \<Rightarrow> bool \<Rightarrow> mtk_cam_device \<Rightarrow> bool \<times> mtk_cam_device" where
  "mtk_cam_req_frame_sync_set r p v cam = (case mtk_cam_req_get_s_data cam r p 0 of
     None \<Rightarrow> (False, cam)
   | Some s \<Rightarrow> (case sd_sensor_hdl_obj (sd cam s) of
       None \<Rightarrow> (False, cam)
     | Some has_ctrl \<Rightarrow> if has_ctrl then (True, emit (Frame_sync_ctrl r p v) cam) else (False, cam)))"

text \<open>The loop over the contexts of the request; it counts the contexts that were synced before.\<close>

fun frame_sync_contexts :: "nat \<Rightarrow> nat list \<Rightarrow> mtk_cam_device \<Rightarrow> nat \<times> mtk_cam_device" where
  "frame_sync_contexts r [] cam = (0, cam)"
| "frame_sync_contexts r (c # cs) cam =
    (if \<not> streaming (ctxs cam c) then frame_sync_contexts r cs cam
     else if \<not> synced (ctxs cam c) then
       (case mtk_cam_req_frame_sync_set r (stream_id (ctxs cam c)) True cam of (ok, cam1) \<Rightarrow>
          frame_sync_contexts r cs (if ok then upd_ctx c (\<lambda>x. x\<lparr>synced := True\<rparr>) cam1 else cam1))
     else (case frame_sync_contexts r cs cam of (n, cam1) \<Rightarrow> (Suc n, cam1)))"

definition req_ctxs :: "nat \<Rightarrow> mtk_cam_device \<Rightarrow> nat list" where
  "req_ctxs r cam = filter (bit (ctx_used (reqs cam r))) [0..<max_stream_num cam]"

definition mtk_cam_req_frame_sync_start :: "nat \<Rightarrow> mtk_cam_device \<Rightarrow> bool \<times> mtk_cam_device" where
  "mtk_cam_req_frame_sync_start r cam = (let cs = req_ctxs r cam in
     if length cs > 1 then
       (let cam1 = upd_fs r (\<lambda>f. f\<lparr>fs_on_cnt := fs_on_cnt f + 1\<rparr>) cam in
        if fs_on_cnt (rq_fs (reqs cam1 r)) \<noteq> 1 then (False, cam1)
        else (case frame_sync_contexts r cs cam1 of (synced_cnt, cam2) \<Rightarrow>
          if synced_cnt < 2 then (False, upd_fs r mtk_cam_fs_reset cam2) else (True, cam2)))
     else (case cs of
       [c] \<Rightarrow> (if streaming (ctxs cam c) \<and> synced (ctxs cam c) then
           (case mtk_cam_req_frame_sync_set r (stream_id (ctxs cam c)) False cam of (ok, cam1) \<Rightarrow>
             (False, if ok then upd_ctx c (\<lambda>x. x\<lparr>synced := False\<rparr>) cam1 else cam1))
         else (False, cam))
     | _ \<Rightarrow> (False, cam)))"

definition mtk_cam_req_frame_sync_end :: "nat \<Rightarrow> mtk_cam_device \<Rightarrow> bool \<times> mtk_cam_device" where
  "mtk_cam_req_frame_sync_end r cam = (let f = rq_fs (reqs cam r) in
     if fs_target f \<noteq> 0 \<and> fs_on_cnt f \<noteq> 0 then
       (let f1 = f\<lparr>fs_off_cnt := fs_off_cnt f + 1\<rparr>
        in (fs_on_cnt f1 = fs_target f1 \<and> fs_off_cnt f1 = fs_target f1, upd_fs r (\<lambda>_. f1) cam))
     else (False, cam))"

subsection \<open>Setting the sensor of one frame\<close>

definition mtk_cam_complete_sensor_hdl :: "sref \<Rightarrow> mtk_cam_device \<Rightarrow> mtk_cam_device" where
  "mtk_cam_complete_sensor_hdl s cam = (let d = sd cam s in
     if sd_flags d AND SENSOR_HDL_EN \<noteq> 0 \<and> sd_flags d AND SENSOR_HDL_COMPLETE = 0 \<and> sd_sensor_hdl_obj d \<noteq> None
     then upd_sd s (\<lambda>d. d\<lparr>sd_flags := sd_flags d OR SENSOR_HDL_COMPLETE\<rparr>) (emit (Sensor_hdl_complete s) cam)
     else cam)"

definition is_sensor_switch :: "sref \<Rightarrow> mtk_cam_device \<Rightarrow> bool \<times> mtk_cam_device" where
  "is_sensor_switch s cam = (let d = sd cam s; t = switch_feature_type (sd_feature d) in
     if t \<noteq> 0 \<and> \<not> mtk_cam_feature_change_is_mstream t then (True, cam)
     else if sd_flags d AND SENSOR_MODE_UPDATE_T1 \<noteq> 0
       then (True, state_transition s E_STATE_READY E_STATE_SENSOR cam)
     else (False, cam))"

definition mtk_cam_m2m_sensor_skip :: "sref \<Rightarrow> mtk_cam_device \<Rightarrow> mtk_cam_device" where
  "mtk_cam_m2m_sensor_skip s cam = mtk_cam_complete_sensor_hdl s (state_transition s E_STATE_READY E_STATE_SENSOR cam)"

text \<open>The controls exist or not with the sensor (\<open>sensor_has_mstream_ctrls\<close>).\<close>

definition mtk_cam_set_sensor_mstream_mode :: "nat \<Rightarrow> bool \<Rightarrow> mtk_cam_device \<Rightarrow> mtk_cam_device" where
  "mtk_cam_set_sensor_mstream_mode c on cam =
    (if sensor_has_mstream_ctrls (ctxs cam c) then emit (Mstream_mode_ctrl c on) cam else cam)"

definition mtk_cam_set_sensor_mstream_exposure :: "nat \<Rightarrow> sref \<Rightarrow> mtk_cam_device \<Rightarrow> (bool \<times> mtk_cam_device) option" where
  "mtk_cam_set_sensor_mstream_exposure c s cam =
    (case mtk_cam_req_get_s_data cam (fst s) (stream_id (ctxs cam c)) 0 of
       None \<Rightarrow> None
     | Some l \<Rightarrow>
       let is_last = (frame_seq_no (sd cam s) = frame_seq_no (sd cam l)) in
       if cx_sensor (ctxs cam c) = None then Some (is_last, cam)
       else
         let cam1 = (if frame_seq_no (sd cam l) = 2 \<or>
                        mtk_cam_feature_change_is_mstream (switch_feature_type (sd_feature (sd cam l)))
                     then mtk_cam_set_sensor_mstream_mode c True cam else cam)
         in if \<not> sensor_has_mstream_ctrls (ctxs cam1 c) then Some (is_last, cam1)
            else if 0 < sd_shutter (sd cam1 s) \<and> 0 < sd_gain (sd cam1 s)
              then Some (is_last, emit (Mstream_exposure_ctrl s (if is_last then 2 else 1)) cam1)
            else Some (is_last, cam1))"

text \<open>With \<open>DCIF\<close> staggering the camsv devices are streamed on elsewhere.\<close>

definition mtk_cam_stream_on :: "nat \<Rightarrow> mtk_cam_device \<Rightarrow> mtk_cam_device" where
  "mtk_cam_stream_on c cam = (let x = ctxs cam c;
       hw_scen = (mtk_cam_is_stagger (feat x) \<or> mtk_cam_is_with_w_channel (feat x))
     in if streaming x then
       let cam1 = fold (\<lambda>i. emit (Sv_stream_on c i)) [0..<unat (used_sv_num x)] cam;
           cam2 = fold (\<lambda>i. if hw_scen \<and> bit (enabled_raw x) i \<and> \<not> stagger_dcif x
                    then emit (Sv_stream_on c (i - MTKCAM_SUBDEV_CAMSV_START)) else id)
                  (rev [MTKCAM_SUBDEV_CAMSV_START..<MTKCAM_SUBDEV_CAMSV_END]) cam1
       in emit (Raw_stream_on c) (upd_ctx c (\<lambda>x. x\<lparr>vf_en := True\<rparr>) cam2)
     else cam)"

text \<open>
  \<open>mtk_cam_set_sensor_full\<close>. \<open>None\<close> is a fault: the state element is in the list already, or a
  sensor pointer the code follows is null.
\<close>

definition set_sensor_enqueue :: "nat \<Rightarrow> sref \<Rightarrow> mtk_cam_device \<Rightarrow> mtk_cam_device option" where
  "set_sensor_enqueue c s cam = (if s \<in> set (camsys_state_list (sc cam c)) then None
     else Some (upd_sc c (\<lambda>k. k\<lparr>camsys_state_list := camsys_state_list k @ [s],
                               sensor_request_seq_no := frame_seq_no (sd cam s)\<rparr>) cam))"

definition set_sensor_setup :: "nat \<Rightarrow> sref \<Rightarrow> bool \<Rightarrow> mtk_cam_device \<Rightarrow> mtk_cam_device option" where
  "set_sensor_setup c s is_last cam =
    (if \<not> mtk_cam_is_m2m (feat (ctxs cam c)) \<and> \<not> is_last \<and> sd_flags (sd cam s) AND SENSOR_HDL_EN \<noteq> 0 then
       (if sd_sensor (sd cam s) = None then None else Some (emit (Sensor_ctrl_setup s) cam))
     else Some cam)"

definition set_sensor_transition :: "nat \<Rightarrow> sref \<Rightarrow> mtk_cam_device \<Rightarrow> mtk_cam_device" where
  "set_sensor_transition c s cam =
    (if mtk_cam_is_subsample (feat (ctxs cam c)) then state_transition s E_STATE_SUBSPL_OUTER E_STATE_SUBSPL_SENSOR cam
     else if mtk_cam_is_time_shared (feat (ctxs cam c)) then state_transition s E_STATE_TS_READY E_STATE_TS_SENSOR cam
     else state_transition s E_STATE_READY E_STATE_SENSOR cam)"

definition set_sensor_stream_on :: "nat \<Rightarrow> sref \<Rightarrow> mtk_cam_device \<Rightarrow> mtk_cam_device" where
  "set_sensor_stream_on c s cam =
    (if fc_used_raw_num (feat (ctxs cam c)) \<noteq> 0 \<and> \<not> vf_en (ctxs cam c) \<and> initial_cq_done (sc cam c)
        \<and> frame_seq_no (sd cam s) = 1
     then mtk_cam_stream_on c cam else cam)"

definition set_sensor_mstream_off :: "nat \<Rightarrow> sref \<Rightarrow> mtk_cam_device \<Rightarrow> mtk_cam_device option" where
  "set_sensor_mstream_off c s cam = (let t = switch_feature_type (sd_feature (sd cam s)) in
     if mtk_cam_feature_change_is_mstream t \<and> t = EXPOSURE_CHANGE_2_to_1 OR MSTREAM_EXPOSURE_CHANGE then
       (if cx_sensor (ctxs cam c) = None then None else Some (mtk_cam_set_sensor_mstream_mode c False cam))
     else Some cam)"

definition set_sensor_ts_stream_on :: "nat \<Rightarrow> sref \<Rightarrow> mtk_cam_device \<Rightarrow> mtk_cam_device" where
  "set_sensor_ts_stream_on c s cam =
    (if mtk_cam_is_time_shared (feat (ctxs cam c)) \<and> frame_seq_no (sd cam s) = 1 then
       fold (\<lambda>i. if bit (enabled_raw (ctxs cam c)) i then emit (Sv_stream_on c (i - MTKCAM_SUBDEV_CAMSV_START)) else id)
         (rev [MTKCAM_SUBDEV_CAMSV_START..<MTKCAM_SUBDEV_CAMSV_END]) cam
     else cam)"

definition set_sensor_controls :: "nat \<Rightarrow> sref \<Rightarrow> mtk_cam_device \<Rightarrow> mtk_cam_device option" where
  "set_sensor_controls c s cam = (let raw = (fc_used_raw_num (feat (ctxs cam c)) \<noteq> 0) in do {
     let cam1 = (if sd_seninf_new (sd cam s) then upd_ctx c (\<lambda>x. x\<lparr>cx_sensor := sd_sensor (sd cam s)\<rparr>) cam else cam);
     let cam2 = (if raw then snd (mtk_cam_req_frame_sync_start (fst s) cam1) else cam1);
     (is_last, cam3) \<leftarrow> (if mtk_cam_is_mstream (feat (ctxs cam2 c)) then mtk_cam_set_sensor_mstream_exposure c s cam2
                         else Some (False, cam2));
     cam4 \<leftarrow> set_sensor_setup c s is_last cam3;
     let cam5 = set_sensor_transition c s cam4;
     let cam6 = (if raw then snd (mtk_cam_req_frame_sync_end (fst s) cam5) else cam5);
     cam7 \<leftarrow> set_sensor_mstream_off c s (set_sensor_stream_on c s cam6);
     Some (set_sensor_ts_stream_on c s (mtk_cam_complete_sensor_hdl s (emit (Tg_flash_setup s) cam7))) })"

definition mtk_cam_set_sensor_full :: "nat \<Rightarrow> sref \<Rightarrow> mtk_cam_device \<Rightarrow> mtk_cam_device option" where
  "mtk_cam_set_sensor_full c s cam = do {
     cam1 \<leftarrow> set_sensor_enqueue c s cam;
     (case is_sensor_switch s cam1 of (switch, cam2) \<Rightarrow>
        if switch then Some cam2
        else if mtk_cam_is_m2m (feat (ctxs cam2 c)) then Some (mtk_cam_m2m_sensor_skip s cam2)
        else set_sensor_controls c s cam2) }"

definition mtk_cam_set_sensor_subspl :: "nat \<Rightarrow> sref \<Rightarrow> mtk_cam_device \<Rightarrow> mtk_cam_device option" where
  "mtk_cam_set_sensor_subspl c s cam = do {
     let cam1 = upd_sc c (\<lambda>k. k\<lparr>sensor_request_seq_no := frame_seq_no (sd cam s)\<rparr>) cam;
     cam2 \<leftarrow> (if sd_flags (sd cam1 s) AND SENSOR_HDL_EN \<noteq> 0 then
               (if sd_sensor (sd cam1 s) = None then None else Some (emit (Sensor_ctrl_setup s) cam1))
             else Some cam1);
     let cam3 = state_transition s E_STATE_SUBSPL_OUTER E_STATE_SUBSPL_SENSOR cam2;
     Some (mtk_cam_complete_sensor_hdl s (emit (Tg_flash_setup s) (set_sensor_stream_on c s cam3))) }"

subsection \<open>The sensor worker\<close>

definition mtk_cam_try_set_sensor_subspl :: "nat \<Rightarrow> mtk_cam_device \<Rightarrow> mtk_cam_device option" where
  "mtk_cam_try_set_sensor_subspl c cam = (let n = sensor_request_seq_no (sc cam c) + 1 in
     case mtk_cam_get_req_s_data cam (stream_id (ctxs cam c)) n of
       None \<Rightarrow> Some cam
     | Some s \<Rightarrow> if 1 < sint n \<and> estate (sd cam s) = E_STATE_SUBSPL_OUTER then mtk_cam_set_sensor_subspl c s cam
                else Some cam)"

text \<open>The scan over the state list: \<open>Some\<close> is the state with which the worker gives up.\<close>

fun try_set_scan :: "nat \<Rightarrow> mtk_cam_device \<Rightarrow> sref list \<Rightarrow> mtk_cam_device option" where
  "try_set_scan c cam [] = None"
| "try_set_scan c cam (s # ss) = (let d = sd cam s; n = sensor_request_seq_no (sc cam c) in
     if frame_seq_no d = n then
       (if estate d = E_STATE_CQ \<and> INITIAL_DROP_FRAME_CNT < frame_seq_no d \<and> \<not> mtk_cam_is_stagger (feat (ctxs cam c))
          then Some (upd_sd s (\<lambda>d. d\<lparr>estate := E_STATE_CQ_SCQ_DELAY\<rparr>) cam)
        else if estate d = E_STATE_CAMMUX_OUTER_CFG
          then Some (upd_sd s (\<lambda>d. d\<lparr>estate := E_STATE_CAMMUX_OUTER_CFG_DELAY\<rparr>) cam)
        else if estate d \<le> E_STATE_SENSOR then Some cam
        else try_set_scan c cam ss)
     else if frame_seq_no d = n - 1 \<and> estate d < E_STATE_INNER then Some cam
     else try_set_scan c cam ss)"

definition fs_complete :: "mtk_cam_frame_sync \<Rightarrow> bool" where
  "fs_complete f = (fs_target f \<le> fs_off_cnt f \<and> fs_off_cnt f = fs_on_cnt f)"

text \<open>A link change sets the sensor when the request is queued; \<open>None\<close> follows a null second
  stream datum.\<close>

definition link_change_sets_sensor :: "nat \<Rightarrow> u32 \<Rightarrow> sref \<Rightarrow> mtk_cam_device \<Rightarrow> bool option" where
  "link_change_sets_sensor c n s cam = (case s of (r, p, i) \<Rightarrow>
     if bit (ctx_used (reqs cam r)) p \<and> bit (ctx_link_update (reqs cam r)) p then
       (if mtk_cam_is_mstream (feat (ctxs cam c)) then
          map_option (\<lambda>m. n = frame_seq_no (sd cam m)) (mtk_cam_req_get_s_data cam r (stream_id (ctxs cam c)) 1)
        else Some True)
     else Some False)"

definition mtk_cam_try_set_sensor :: "nat \<Rightarrow> mtk_cam_device \<Rightarrow> mtk_cam_device option" where
  "mtk_cam_try_set_sensor c cam = (let x = ctxs cam c; n = sensor_request_seq_no (sc cam c) + 1 in
     if sint n \<le> 2 \<and> (fc_used_raw_num (feat x) = 0 \<or> fc_feature_active (feat x) = 0) then Some cam
     else case try_set_scan c cam (camsys_state_list (sc cam c)) of
       Some cam' \<Rightarrow> Some cam'
     | None \<Rightarrow>
       if (case mtk_cam_get_req_s_data cam (stream_id x) (n - 1) of
             None \<Rightarrow> False | Some p \<Rightarrow> \<not> fs_complete (rq_fs (reqs cam (fst p)))) then Some cam
       else (case mtk_cam_get_req_s_data cam (stream_id x) n of
           None \<Rightarrow> Some cam
         | Some s \<Rightarrow> (case link_change_sets_sensor c n s cam of
             None \<Rightarrow> None
           | Some b \<Rightarrow> if b then Some cam else mtk_cam_set_sensor_full c s cam)))"

definition mtk_cam_sensor_worker_in_sensorctrl :: "nat \<Rightarrow> mtk_cam_device \<Rightarrow> mtk_cam_device option" where
  "mtk_cam_sensor_worker_in_sensorctrl c cam = (if mtk_cam_is_subsample (feat (ctxs cam c))
     then mtk_cam_try_set_sensor_subspl c cam else mtk_cam_try_set_sensor c cam)"

text \<open>The first frames are set when their request is queued.\<close>

definition mtk_cam_initial_sensor_setup :: "nat \<Rightarrow> nat \<Rightarrow> mtk_cam_device \<Rightarrow> mtk_cam_device option" where
  "mtk_cam_initial_sensor_setup r c cam = (case mtk_cam_req_get_s_data cam r (stream_id (ctxs cam c)) 0 of
     None \<Rightarrow> None
   | Some s \<Rightarrow> map_option (\<lambda>cam1. if mtk_cam_is_subsample (feat (ctxs cam1 c))
         then state_transition s E_STATE_READY E_STATE_SUBSPL_READY cam1 else cam1) (mtk_cam_set_sensor_full c s cam))"

definition mtk_cam_mstream_initial_sensor_setup :: "nat \<Rightarrow> nat \<Rightarrow> mtk_cam_device \<Rightarrow> mtk_cam_device option" where
  "mtk_cam_mstream_initial_sensor_setup r c cam = (case mtk_cam_req_get_s_data cam r (stream_id (ctxs cam c)) 1 of
     None \<Rightarrow> None
   | Some s \<Rightarrow> mtk_cam_set_sensor_full c s cam \<bind> (\<lambda>cam1.
       if mtk_cam_is_mstream_m2m (feat (ctxs cam1 c)) then mtk_cam_initial_sensor_setup r c cam1 else Some cam1))"

subsection \<open>What setting a sensor leaves unchanged\<close>

lemma sc_simps [simp]:
  "sc (upd_sd s f cam) c = sc cam c" "sc (upd_req r g cam) c = sc cam c" "sc (emit e cam) c = sc cam c"
  "sc (upd_fs r h cam) c = sc cam c" "sc (state_transition s a b cam) c = sc cam c"
  by (simp_all add: sc_def upd_fs_def)

lemma sc_upd_ctx [simp]: "(\<And>x. sensor_ctrl (h x) = sensor_ctrl x) \<Longrightarrow> sc (upd_ctx d h cam) c = sc cam c"
  by (simp add: sc_def)

lemma sc_upd_sc [simp]: "sc (upd_sc d f cam) c = (if c = d then f (sc cam c) else sc cam c)"
  by (simp add: sc_def upd_sc_def)

lemma sc_fold_emit: "(\<And>x cam. sc (f x cam) c = sc cam c) \<Longrightarrow> sc (fold f xs cam) c = sc cam c"
  by (induction xs arbitrary: cam) auto

lemma sc_frame_sync_set [simp]: "sc (snd (mtk_cam_req_frame_sync_set r p v cam)) c = sc cam c"
  by (simp add: mtk_cam_req_frame_sync_set_def split: option.split)

lemma sc_frame_sync_contexts [simp]: "sc (snd (frame_sync_contexts r cs cam)) c = sc cam c"
proof (induction r cs cam rule: frame_sync_contexts.induct)
  case (2 r d cs cam)
  show ?case
  proof (cases "mtk_cam_req_frame_sync_set r (stream_id (ctxs cam d)) True cam")
    case (Pair ok cam1)
    have "sc cam1 c = sc cam c"
      using sc_frame_sync_set[of r "stream_id (ctxs cam d)" True cam c] Pair by simp
    then show ?thesis using 2 Pair by (auto split: prod.splits)
  qed
qed simp

lemma sc_frame_sync_start [simp]: "sc (snd (mtk_cam_req_frame_sync_start r cam)) c = sc cam c"
proof -
  have set: "sc b c = sc cam c" if "mtk_cam_req_frame_sync_set r p v cam = (a, b)" for p v a b
    using sc_frame_sync_set[of r p v cam c] that by simp
  have ctxts: "sc b c = sc cam' c" if "frame_sync_contexts r cs cam' = (a, b)" for cs a b cam'
    using sc_frame_sync_contexts[of r cs cam' c] that by simp
  show ?thesis
    by (auto simp: mtk_cam_req_frame_sync_start_def Let_def set dest: ctxts split: prod.splits list.splits)
qed

lemma sc_frame_sync_end [simp]: "sc (snd (mtk_cam_req_frame_sync_end r cam)) c = sc cam c"
  by (simp add: mtk_cam_req_frame_sync_end_def Let_def)

lemma sc_stream_on [simp]: "sc (mtk_cam_stream_on d cam) c = sc cam c"
  by (simp add: mtk_cam_stream_on_def Let_def sc_fold_emit)

lemma sc_complete_hdl [simp]: "sc (mtk_cam_complete_sensor_hdl s cam) c = sc cam c"
  by (simp add: mtk_cam_complete_sensor_hdl_def Let_def)

lemma sc_mstream_mode [simp]: "sc (mtk_cam_set_sensor_mstream_mode d on cam) c = sc cam c"
  by (simp add: mtk_cam_set_sensor_mstream_mode_def)

lemma sc_mstream_exposure: "mtk_cam_set_sensor_mstream_exposure d s cam = Some (b, cam') \<Longrightarrow> sc cam' c = sc cam c"
  by (auto simp: mtk_cam_set_sensor_mstream_exposure_def Let_def split: if_splits option.splits)

lemma sc_set_sensor_setup: "set_sensor_setup d s b cam = Some cam' \<Longrightarrow> sc cam' c = sc cam c"
  by (auto simp: set_sensor_setup_def split: if_splits)

lemma sc_set_sensor_mstream_off: "set_sensor_mstream_off d s cam = Some cam' \<Longrightarrow> sc cam' c = sc cam c"
  by (auto simp: set_sensor_mstream_off_def Let_def split: if_splits)

lemma sc_set_sensor_steps [simp]:
  "sc (set_sensor_transition d s cam) c = sc cam c" "sc (set_sensor_stream_on d s cam) c = sc cam c"
  "sc (set_sensor_ts_stream_on d s cam) c = sc cam c"
  by (simp_all add: set_sensor_transition_def set_sensor_stream_on_def set_sensor_ts_stream_on_def sc_fold_emit)

lemma set_sensor_controls_SomeE:
  assumes "set_sensor_controls c s cam = Some cam'"
  obtains cam1 cam2 b cam3 cam4 cam5 cam6 cam7 where
    "cam1 = (if sd_seninf_new (sd cam s) then upd_ctx c (\<lambda>x. x\<lparr>cx_sensor := sd_sensor (sd cam s)\<rparr>) cam else cam)"
    "cam2 = (if fc_used_raw_num (feat (ctxs cam c)) \<noteq> 0 then snd (mtk_cam_req_frame_sync_start (fst s) cam1) else cam1)"
    "(if mtk_cam_is_mstream (feat (ctxs cam2 c)) then mtk_cam_set_sensor_mstream_exposure c s cam2
        else Some (False, cam2)) = Some (b, cam3)"
    "set_sensor_setup c s b cam3 = Some cam4"
    "cam5 = set_sensor_transition c s cam4"
    "cam6 = (if fc_used_raw_num (feat (ctxs cam c)) \<noteq> 0 then snd (mtk_cam_req_frame_sync_end (fst s) cam5) else cam5)"
    "set_sensor_mstream_off c s (set_sensor_stream_on c s cam6) = Some cam7"
    "cam' = set_sensor_ts_stream_on c s (mtk_cam_complete_sensor_hdl s (emit (Tg_flash_setup s) cam7))"
proof -
  define cam1 where "cam1 = (if sd_seninf_new (sd cam s) then upd_ctx c (\<lambda>x. x\<lparr>cx_sensor := sd_sensor (sd cam s)\<rparr>) cam else cam)"
  define cam2 where "cam2 = (if fc_used_raw_num (feat (ctxs cam c)) \<noteq> 0 then snd (mtk_cam_req_frame_sync_start (fst s) cam1) else cam1)"
  note run = assms[unfolded set_sensor_controls_def Let_def, folded cam1_def, folded cam2_def]
  obtain y where y: "(if mtk_cam_is_mstream (feat (ctxs cam2 c)) then mtk_cam_set_sensor_mstream_exposure c s cam2
        else Some (False, cam2)) = Some y"
    using run unfolding bind_eq_Some_conv by blast
  obtain b cam3 where "y = (b, cam3)" by (cases y)
  note exp = y[unfolded this]
  note run = run[unfolded exp Option.bind.simps prod.case]
  obtain cam4 where ctl: "set_sensor_setup c s b cam3 = Some cam4"
    using run unfolding bind_eq_Some_conv by blast
  note run = run[unfolded ctl Option.bind.simps]
  define cam5 where "cam5 = set_sensor_transition c s cam4"
  define cam6 where "cam6 = (if fc_used_raw_num (feat (ctxs cam c)) \<noteq> 0 then snd (mtk_cam_req_frame_sync_end (fst s) cam5) else cam5)"
  note run = run[folded cam5_def, folded cam6_def]
  obtain cam7 where off: "set_sensor_mstream_off c s (set_sensor_stream_on c s cam6) = Some cam7"
    using run unfolding bind_eq_Some_conv by blast
  have "cam' = set_sensor_ts_stream_on c s (mtk_cam_complete_sensor_hdl s (emit (Tg_flash_setup s) cam7))"
    using run off by simp
  from that[OF cam1_def cam2_def exp ctl cam5_def cam6_def off this] show thesis .
qed

lemma sc_set_sensor_controls:
  assumes "set_sensor_controls d s cam = Some cam'" shows "sc cam' c = sc cam c"
proof (rule set_sensor_controls_SomeE[OF assms])
  fix cam1 cam2 b cam3 cam4 cam5 cam6 cam7
  assume steps: "cam1 = (if sd_seninf_new (sd cam s) then upd_ctx d (\<lambda>x. x\<lparr>cx_sensor := sd_sensor (sd cam s)\<rparr>) cam else cam)"
    "cam2 = (if fc_used_raw_num (feat (ctxs cam d)) \<noteq> 0 then snd (mtk_cam_req_frame_sync_start (fst s) cam1) else cam1)"
    "(if mtk_cam_is_mstream (feat (ctxs cam2 d)) then mtk_cam_set_sensor_mstream_exposure d s cam2
        else Some (False, cam2)) = Some (b, cam3)"
    "set_sensor_setup d s b cam3 = Some cam4" "cam5 = set_sensor_transition d s cam4"
    "cam6 = (if fc_used_raw_num (feat (ctxs cam d)) \<noteq> 0 then snd (mtk_cam_req_frame_sync_end (fst s) cam5) else cam5)"
    "set_sensor_mstream_off d s (set_sensor_stream_on d s cam6) = Some cam7"
    "cam' = set_sensor_ts_stream_on d s (mtk_cam_complete_sensor_hdl s (emit (Tg_flash_setup s) cam7))"
  have "sc cam1 c = sc cam c" "sc cam2 c = sc cam1 c" by (simp_all add: steps)
  moreover have "sc cam3 c = sc cam2 c" using steps(3) by (auto split: if_splits dest: sc_mstream_exposure)
  moreover have "sc cam4 c = sc cam3 c" by (rule sc_set_sensor_setup[OF steps(4)])
  moreover have "sc cam6 c = sc cam4 c" by (simp add: steps)
  moreover have "sc cam7 c = sc cam6 c" using sc_set_sensor_mstream_off[OF steps(7)] by simp
  ultimately show ?thesis by (simp add: steps)
qed

lemma set_sensor_full_advances:
  assumes "mtk_cam_set_sensor_full c s cam = Some cam'"
  shows "camsys_state_list (sc cam' c) = camsys_state_list (sc cam c) @ [s]"
    and "sensor_request_seq_no (sc cam' c) = frame_seq_no (sd cam s)"
    and "s \<notin> set (camsys_state_list (sc cam c))"
  using assms
  by (auto simp: mtk_cam_set_sensor_full_def set_sensor_enqueue_def is_sensor_switch_def mtk_cam_m2m_sensor_skip_def
      Let_def bind_eq_Some_conv dest!: sc_set_sensor_controls[where c = c] split: if_splits prod.splits)

subsection \<open>When the next frame may be set\<close>

text \<open>
  The newest set frame has left the sensor for a command queue that is done, the one before it
  reached the hardware, and the request of the newest frame has completed its frame sync.
\<close>

definition sensor_may_advance :: "nat \<Rightarrow> mtk_cam_device \<Rightarrow> bool" where
  "sensor_may_advance c cam = (let x = ctxs cam c; n = sensor_request_seq_no (sc cam c) in
     (2 < sint (n + 1) \<or> fc_used_raw_num (feat x) \<noteq> 0 \<and> fc_feature_active (feat x) \<noteq> 0) \<and>
     (\<forall>s \<in> set (camsys_state_list (sc cam c)). frame_seq_no (sd cam s) = n \<longrightarrow>
        E_STATE_SENSOR < estate (sd cam s) \<and> estate (sd cam s) \<noteq> E_STATE_CAMMUX_OUTER_CFG \<and>
        (estate (sd cam s) = E_STATE_CQ \<longrightarrow> n \<le> INITIAL_DROP_FRAME_CNT \<or> mtk_cam_is_stagger (feat x))) \<and>
     (\<forall>s \<in> set (camsys_state_list (sc cam c)). frame_seq_no (sd cam s) = n - 1 \<longrightarrow>
        E_STATE_INNER \<le> estate (sd cam s)) \<and>
     (case mtk_cam_get_req_s_data cam (stream_id x) n of
        None \<Rightarrow> True | Some p \<Rightarrow> fs_complete (rq_fs (reqs cam (fst p)))))"

definition next_frame :: "nat \<Rightarrow> mtk_cam_device \<Rightarrow> sref option" where
  "next_frame c cam = (let n = sensor_request_seq_no (sc cam c) + 1 in
     case mtk_cam_get_req_s_data cam (stream_id (ctxs cam c)) n of
       None \<Rightarrow> None
     | Some s \<Rightarrow> if link_change_sets_sensor c n s cam = Some False then Some s else None)"

lemma word_ne_minus_1: "(n :: u32) - 1 \<noteq> n" "n \<noteq> n - 1"
  by (simp_all add: eq_diff_eq)

lemma try_set_scan_None:
  "try_set_scan c cam ss = None \<longleftrightarrow> (let n = sensor_request_seq_no (sc cam c) in
     (\<forall>s \<in> set ss. frame_seq_no (sd cam s) = n \<longrightarrow>
        E_STATE_SENSOR < estate (sd cam s) \<and> estate (sd cam s) \<noteq> E_STATE_CAMMUX_OUTER_CFG \<and>
        (estate (sd cam s) = E_STATE_CQ \<longrightarrow> n \<le> INITIAL_DROP_FRAME_CNT \<or> mtk_cam_is_stagger (feat (ctxs cam c)))) \<and>
     (\<forall>s \<in> set ss. frame_seq_no (sd cam s) = n - 1 \<longrightarrow> E_STATE_INNER \<le> estate (sd cam s)))"
proof (induction ss)
  case (Cons s ss)
  then show ?case
    by (auto simp: Let_def not_le not_less word_ne_minus_1 simp del: estate_le estate_less)
qed (simp add: Let_def)

text \<open>Giving up changes at most the state of the newest frame, which it marks as delayed.\<close>

definition gives_up :: "nat \<Rightarrow> mtk_cam_device \<Rightarrow> mtk_cam_device \<Rightarrow> bool" where
  "gives_up c cam cam' = (cam' = cam \<or> (\<exists>s \<in> set (camsys_state_list (sc cam c)).
     frame_seq_no (sd cam s) = sensor_request_seq_no (sc cam c) \<and>
     (estate (sd cam s) = E_STATE_CQ \<and> cam' = upd_sd s (\<lambda>d. d\<lparr>estate := E_STATE_CQ_SCQ_DELAY\<rparr>) cam \<or>
      estate (sd cam s) = E_STATE_CAMMUX_OUTER_CFG \<and>
        cam' = upd_sd s (\<lambda>d. d\<lparr>estate := E_STATE_CAMMUX_OUTER_CFG_DELAY\<rparr>) cam)))"

lemma try_set_scan_Some:
  assumes "try_set_scan c cam ss = Some cam'" and "set ss \<subseteq> set (camsys_state_list (sc cam c))"
  shows "gives_up c cam cam'"
  using assms
  by (induction ss) (auto simp: Let_def gives_up_def simp del: estate_le estate_less split: if_splits)

lemma get_req_s_data_frame:
  assumes "mtk_cam_get_req_s_data cam p n = Some s"
  shows "frame_seq_no (sd cam s) = n" and "fst (snd s) = p" and "fst s \<in> set (running_job_list cam)"
proof -
  have "frame_seq_no (sd cam s) = n \<and> fst (snd s) = p \<and> fst s \<in> set rs"
    if "get_req_s_data_in cam p n rs = Some s" for rs
    using that
    by (induction cam p n rs rule: get_req_s_data_in.induct)
      (auto simp: find_Some_iff split: if_splits option.splits)
  then show "frame_seq_no (sd cam s) = n" "fst (snd s) = p" "fst s \<in> set (running_job_list cam)"
    using assms by (auto simp: mtk_cam_get_req_s_data_def split: if_splits)
qed

text \<open>
  When the sensor worker sets the next frame. The scan of the state list, which stops at the first
  frame that forbids it, is a condition on all frames of the list (\<open>sensor_may_advance\<close>): past
  the first two frames unless a raw engine with an active feature is used, the newest frame is
  beyond its sensor setting, not waiting for the muxes and, beyond the initial frames and without
  stagger, not still waiting for its command queue; the frame before it is in the hardware; the
  frame sync of its request is complete. The worker then appends the next queued frame, unless it
  is a link change, to the state list and counts it; otherwise it sets nothing and at most marks
  the newest frame as delayed.
\<close>

theorem sensor_set_exactly_when:
  assumes run: "mtk_cam_try_set_sensor c cam = Some cam'"
  shows "case (if sensor_may_advance c cam then next_frame c cam else None) of
      Some s \<Rightarrow> mtk_cam_set_sensor_full c s cam = Some cam' \<and>
        sensor_request_seq_no (sc cam' c) = sensor_request_seq_no (sc cam c) + 1 \<and>
        camsys_state_list (sc cam' c) = camsys_state_list (sc cam c) @ [s]
    | None \<Rightarrow> gives_up c cam cam'"
proof -
  let ?n = "sensor_request_seq_no (sc cam c)" and ?x = "ctxs cam c"
  show ?thesis
  proof (cases "sint (?n + 1) \<le> 2 \<and> (fc_used_raw_num (feat ?x) = 0 \<or> fc_feature_active (feat ?x) = 0)")
    case True
    then have "\<not> sensor_may_advance c cam" by (auto simp: sensor_may_advance_def Let_def)
    moreover have "cam' = cam" using run True by (simp add: mtk_cam_try_set_sensor_def Let_def)
    ultimately show ?thesis by (simp add: gives_up_def)
  next
    case False
    note run = run[unfolded mtk_cam_try_set_sensor_def Let_def if_not_P[OF False]]
    show ?thesis
    proof (cases "try_set_scan c cam (camsys_state_list (sc cam c))")
      case (Some cam1)
      then have "\<not> sensor_may_advance c cam"
        using try_set_scan_None[of c cam "camsys_state_list (sc cam c)"] by (auto simp: sensor_may_advance_def Let_def)
      then show ?thesis using run Some try_set_scan_Some[OF Some] by simp
    next
      case None
      have may: "sensor_may_advance c cam \<longleftrightarrow> (case mtk_cam_get_req_s_data cam (stream_id ?x) ?n of
          None \<Rightarrow> True | Some p \<Rightarrow> fs_complete (rq_fs (reqs cam (fst p))))"
        using None try_set_scan_None[of c cam "camsys_state_list (sc cam c)"] False
        by (auto simp: sensor_may_advance_def Let_def simp del: estate_le estate_less)
      show ?thesis
      proof (cases "sensor_may_advance c cam")
        case False
        then have "cam' = cam" using run None may by (auto split: option.splits)
        then show ?thesis using False by (simp add: gives_up_def)
      next
        case True
        then have ok: "\<not> (case mtk_cam_get_req_s_data cam (stream_id ?x) (?n + 1 - 1) of
             None \<Rightarrow> False | Some p \<Rightarrow> \<not> fs_complete (rq_fs (reqs cam (fst p))))"
          using may by (auto split: option.splits)
        note run = run[unfolded None option.case if_not_P[OF ok]]
        show ?thesis
        proof (cases "next_frame c cam")
          case N: None
          then have "cam' = cam" using run
            by (auto simp: next_frame_def Let_def split: option.splits if_splits)
          then show ?thesis using N True by (simp add: gives_up_def)
        next
          case (Some s)
          then have s: "mtk_cam_get_req_s_data cam (stream_id ?x) (?n + 1) = Some s"
            and l: "link_change_sets_sensor c (?n + 1) s cam = Some False"
            by (auto simp: next_frame_def Let_def split: option.splits if_splits)
          have full: "mtk_cam_set_sensor_full c s cam = Some cam'" using run s l by simp
          show ?thesis using True Some full set_sensor_full_advances[OF full] get_req_s_data_frame(1)[OF s] by simp
        qed
      qed
    qed
  qed
qed

subsection \<open>The frame-sync bracket\<close>

text \<open>Every sensor of a request opens and closes the bracket; the sensors interleave freely.\<close>

datatype fs_op = Fs_start | Fs_end

fun fs_run :: "nat \<Rightarrow> fs_op list \<Rightarrow> mtk_cam_device \<Rightarrow> bool list \<times> mtk_cam_device" where
  "fs_run r [] cam = ([], cam)"
| "fs_run r (op # ops) cam =
    (case (case op of Fs_start \<Rightarrow> mtk_cam_req_frame_sync_start r cam | Fs_end \<Rightarrow> mtk_cam_req_frame_sync_end r cam) of
       (b, cam1) \<Rightarrow> (case fs_run r ops cam1 of (bs, cam2) \<Rightarrow> (b # bs, cam2)))"

text \<open>With \<open>i\<close> sensors started and \<open>j\<close> ended: at most \<open>k\<close> start, and none ends before it starts.\<close>

fun fs_legal :: "nat \<Rightarrow> nat \<Rightarrow> nat \<Rightarrow> fs_op list \<Rightarrow> bool" where
  "fs_legal k i j [] = True"
| "fs_legal k i j (Fs_start # ops) = (i < k \<and> fs_legal k (Suc i) j ops)"
| "fs_legal k i j (Fs_end # ops) = (j < i \<and> fs_legal k i (Suc j) ops)"

text \<open>The first start switches the bracket on, the last end off.\<close>

fun fs_outs :: "nat \<Rightarrow> nat \<Rightarrow> nat \<Rightarrow> fs_op list \<Rightarrow> bool list" where
  "fs_outs k i j [] = []"
| "fs_outs k i j (Fs_start # ops) = (i = 0) # fs_outs k (Suc i) j ops"
| "fs_outs k i j (Fs_end # ops) = (i = k \<and> Suc j = k) # fs_outs k i (Suc j) ops"

definition fs_of :: "nat \<Rightarrow> nat \<Rightarrow> nat \<Rightarrow> mtk_cam_frame_sync" where
  "fs_of t i j = \<lparr>fs_target = of_nat t, fs_on_cnt = of_nat i, fs_off_cnt = of_nat j\<rparr>"

lemma upd_fs_simps [simp]:
  "ctxs (upd_fs r f cam) = ctxs cam" "max_stream_num (upd_fs r f cam) = max_stream_num cam"
  "rq_fs (reqs (upd_fs r f cam) r) = f (rq_fs (reqs cam r))" "ctx_used (reqs (upd_fs r f cam) q) = ctx_used (reqs cam q)"
  "sd (upd_fs r f cam) = sd cam" "running_job_list (upd_fs r f cam) = running_job_list cam"
  "p_data (reqs (upd_fs r f cam) q) = p_data (reqs cam q)" "pipe_used (reqs (upd_fs r f cam) q) = pipe_used (reqs cam q)"
  "cam_out (upd_fs r f cam) = cam_out cam"
  by (simp_all add: upd_fs_def)

lemma upd_fs_upd_fs [simp]: "upd_fs r f (upd_fs r g cam) = upd_fs r (f \<circ> g) cam"
  by (simp add: upd_fs_def upd_req_def fun_upd_def comp_def cong: if_cong)

lemma req_ctxs_upd_fs [simp]: "req_ctxs q (upd_fs r f cam) = req_ctxs q cam"
  by (simp add: req_ctxs_def)

lemma req_ctxs_bound: "length (req_ctxs r cam) \<le> 32"
proof -
  have "set (req_ctxs r cam) \<subseteq> {..<32}"
    unfolding req_ctxs_def by (auto dest: bit_imp_le_length)
  then have "card (set (req_ctxs r cam)) \<le> card {..<32::nat}" by (rule card_mono[OF finite_lessThan])
  moreover have "distinct (req_ctxs r cam)" by (simp add: req_ctxs_def)
  ultimately show ?thesis using distinct_card[of "req_ctxs r cam"] by simp
qed

lemma small_word_eq: "i \<le> 64 \<Longrightarrow> j \<le> 64 \<Longrightarrow> (of_nat i :: u32) = of_nat j \<longleftrightarrow> i = j"
  using word_unat_eq_iff[of "of_nat i :: u32" "of_nat j"]
  by (simp add: unsigned_of_nat take_bit_nat_eq_self)

lemma small_word_0: "i \<le> 64 \<Longrightarrow> (of_nat i :: u32) = 0 \<longleftrightarrow> i = 0"
  using small_word_eq[of i 0] by simp

lemma small_word_1: "i \<le> 63 \<Longrightarrow> (1 + of_nat i :: u32) = 1 \<longleftrightarrow> i = 0"
  using small_word_0[of i] by simp

lemma frame_sync_contexts_synced:
  assumes "\<forall>c \<in> set cs. streaming (ctxs cam c) \<and> synced (ctxs cam c)"
  shows "frame_sync_contexts r cs cam = (length cs, cam)"
  using assms by (induction cs) auto

lemma upd_fs_same: "f (rq_fs (reqs cam r)) = g (rq_fs (reqs cam r)) \<Longrightarrow> upd_fs r f cam = upd_fs r g cam"
  by (simp add: upd_fs_def upd_req_def)

lemma frame_sync_start_synced:
  assumes cs: "2 \<le> length (req_ctxs r cam)" "\<forall>c \<in> set (req_ctxs r cam). streaming (ctxs cam c) \<and> synced (ctxs cam c)"
    and i: "i < 63"
  shows "mtk_cam_req_frame_sync_start r (upd_fs r (\<lambda>_. fs_of t i j) cam) = (i = 0, upd_fs r (\<lambda>_. fs_of t (Suc i) j) cam)"
proof -
  let ?cam = "upd_fs r (\<lambda>_. fs_of t (Suc i) j) cam"
  have scan: "frame_sync_contexts r (req_ctxs r ?cam) ?cam = (length (req_ctxs r cam), ?cam)"
    using frame_sync_contexts_synced[of "req_ctxs r ?cam" ?cam r] cs(2) by simp
  have inc: "upd_fs r (\<lambda>f. f\<lparr>fs_on_cnt := fs_on_cnt f + 1\<rparr>) (upd_fs r (\<lambda>_. fs_of t i j) cam) = ?cam"
    by (simp add: fs_of_def comp_def add.commute)
  have first: "fs_on_cnt (rq_fs (reqs ?cam r)) = 1 \<longleftrightarrow> i = 0"
    using small_word_1[of i] i by (simp add: fs_of_def)
  show ?thesis
  proof (cases "i = 0")
    case True
    then show ?thesis
      using cs(1) scan first inc unfolding mtk_cam_req_frame_sync_start_def Let_def by simp
  next
    case False
    then show ?thesis
      using cs(1) first unfolding mtk_cam_req_frame_sync_start_def Let_def inc by simp
  qed
qed

lemma frame_sync_end_run:
  assumes "t \<le> 64" "0 < i" "i \<le> 64" "j < 64" "0 < t"
  shows "mtk_cam_req_frame_sync_end r (upd_fs r (\<lambda>_. fs_of t i j) cam) = (i = t \<and> Suc j = t, upd_fs r (\<lambda>_. fs_of t i (Suc j)) cam)"
  using assms small_word_0[of t] small_word_0[of i] small_word_eq[of i t] small_word_eq[of "Suc j" t]
  by (simp add: mtk_cam_req_frame_sync_end_def fs_of_def Let_def comp_def add.commute)

lemma fs_run_synced:
  assumes cs: "2 \<le> length (req_ctxs r cam)" "\<forall>c \<in> set (req_ctxs r cam). streaming (ctxs cam c) \<and> synced (ctxs cam c)"
    and k: "k = length (req_ctxs r cam)" and "i \<le> k" "j \<le> i" "fs_legal k i j ops"
  shows "fs_run r ops (upd_fs r (\<lambda>_. fs_of k i j) cam) =
    (fs_outs k i j ops, upd_fs r (\<lambda>_. fs_of k (i + count_list ops Fs_start) (j + count_list ops Fs_end)) cam)"
  using assms(4-6)
proof (induction ops arbitrary: i j)
  case Nil
  then show ?case by simp
next
  case (Cons op ops)
  have k32: "k \<le> 32" using req_ctxs_bound[of r cam] k by simp
  show ?case
  proof (cases op)
    case Fs_start
    then show ?thesis
      using Cons.IH[of "Suc i" j] Cons.prems k32 frame_sync_start_synced[OF cs, of i k j] by simp
  next
    case Fs_end
    have "mtk_cam_req_frame_sync_end r (upd_fs r (\<lambda>_. fs_of k i j) cam)
        = (i = k \<and> Suc j = k, upd_fs r (\<lambda>_. fs_of k i (Suc j)) cam)"
      by (rule frame_sync_end_run) (use Cons.prems k32 Fs_end in auto)
    then show ?thesis using Cons.IH[of i "Suc j"] Cons.prems Fs_end by simp
  qed
qed

text \<open>C5. When the contexts of a request are streaming and already synced, the frame-sync bracket works
  in any interleaving of its sensors: exactly the first start reports it on and exactly the last
  end reports it off, the counters count the starts and ends, and the sync is complete exactly when
  every sensor has ended; until then the sensor worker of none of them goes on to the next frame.
\<close>

theorem frame_sync_complete:
  assumes "2 \<le> length (req_ctxs r cam)"
    and "\<forall>c \<in> set (req_ctxs r cam). streaming (ctxs cam c) \<and> synced (ctxs cam c)"
    and "rq_fs (reqs cam r) = fs_of (length (req_ctxs r cam)) 0 0"
    and "fs_legal (length (req_ctxs r cam)) 0 0 ops"
  shows "\<exists>cam'. fs_run r ops cam = (fs_outs (length (req_ctxs r cam)) 0 0 ops, cam')
    \<and> rq_fs (reqs cam' r) = fs_of (length (req_ctxs r cam)) (count_list ops Fs_start) (count_list ops Fs_end)
    \<and> (fs_complete (rq_fs (reqs cam' r)) \<longleftrightarrow> count_list ops Fs_end = length (req_ctxs r cam))
    \<and> (\<forall>c p. mtk_cam_get_req_s_data cam' (stream_id (ctxs cam' c)) (sensor_request_seq_no (sc cam' c)) = Some p
         \<and> fst p = r \<and> sensor_may_advance c cam' \<longrightarrow> count_list ops Fs_end = length (req_ctxs r cam))"
proof -
  let ?k = "length (req_ctxs r cam)" and ?i = "count_list ops Fs_start" and ?j = "count_list ops Fs_end"
  have bounds: "j + count_list ops Fs_end \<le> i + count_list ops Fs_start \<and> i + count_list ops Fs_start \<le> k"
    if "fs_legal k i j ops" "j \<le> i" "i \<le> k" for i j k
    using that by (induction k i j ops rule: fs_legal.induct) auto
  note b = bounds[OF assms(4), simplified]
  have k32: "?k \<le> 32" by (rule req_ctxs_bound)
  have same: "upd_fs r (\<lambda>_. fs_of ?k 0 0) cam = cam"
    unfolding assms(3)[symmetric] by (simp add: upd_fs_def upd_req_def)
  have run: "fs_run r ops cam = (fs_outs ?k 0 0 ops, upd_fs r (\<lambda>_. fs_of ?k ?i ?j) cam)"
    using fs_run_synced[OF assms(1,2) refl _ _ assms(4)] same by simp
  have le: "(of_nat ?k :: u32) \<le> of_nat ?j \<longleftrightarrow> ?k \<le> ?j"
    using k32 b by (simp add: word_le_nat_alt unsigned_of_nat take_bit_nat_eq_self)
  have comp: "fs_complete (fs_of ?k ?i ?j) \<longleftrightarrow> ?j = ?k"
    using k32 b small_word_eq[of ?j ?i] le by (auto simp: fs_complete_def fs_of_def)
  show ?thesis
    unfolding run using comp by (auto simp: sensor_may_advance_def Let_def)
qed

subsection \<open>The bracket after a loss of sync\<close>

definition fs_ctrl_ok :: "nat \<Rightarrow> nat \<Rightarrow> mtk_cam_device \<Rightarrow> bool" where
  "fs_ctrl_ok r p cam = (case mtk_cam_req_get_s_data cam r p 0 of
     None \<Rightarrow> False | Some s \<Rightarrow> sd_sensor_hdl_obj (sd cam s) = Some True)"

lemma frame_sync_set_ok: "fs_ctrl_ok r p cam \<Longrightarrow> mtk_cam_req_frame_sync_set r p v cam = (True, emit (Frame_sync_ctrl r p v) cam)"
  by (auto simp: fs_ctrl_ok_def mtk_cam_req_frame_sync_set_def split: option.splits)

lemma fs_ctrl_ok_frame [simp]: "fs_ctrl_ok r p (upd_fs q h cam) = fs_ctrl_ok r p cam"
  "fs_ctrl_ok r p (emit e cam) = fs_ctrl_ok r p cam" "fs_ctrl_ok r p (upd_ctx c f cam) = fs_ctrl_ok r p cam"
  by (simp_all add: fs_ctrl_ok_def mtk_cam_req_get_s_data_def)

lemma frame_sync_contexts_all:
  assumes "distinct cs" and "\<forall>c \<in> set cs. streaming (ctxs cam c) \<and> fs_ctrl_ok r (stream_id (ctxs cam c)) cam"
  shows "\<exists>cam2. frame_sync_contexts r cs cam = (length (filter (\<lambda>c. synced (ctxs cam c)) cs), cam2)
    \<and> reqs cam2 = reqs cam \<and> max_stream_num cam2 = max_stream_num cam
    \<and> (\<forall>c. ctxs cam2 c = (if c \<in> set cs then (ctxs cam c)\<lparr>synced := True\<rparr> else ctxs cam c))"
  using assms
proof (induction cs arbitrary: cam)
  case Nil
  then show ?case by simp
next
  case (Cons d cs)
  let ?cam1 = "upd_ctx d (\<lambda>x. x\<lparr>synced := True\<rparr>) (emit (Frame_sync_ctrl r (stream_id (ctxs cam d)) True) cam)"
  have same: "filter (\<lambda>c. synced (ctxs ?cam1 c)) cs = filter (\<lambda>c. synced (ctxs cam c)) cs"
    using Cons.prems(1) by (intro filter_cong) (auto simp: upd_ctx_def)
  have cx: "ctxs ?cam1 c = (if c = d then (ctxs cam d)\<lparr>synced := True\<rparr> else ctxs cam c)" for c
    by (simp add: upd_ctx_def)
  have prem: "\<forall>c \<in> set cs. streaming (ctxs ?cam1 c) \<and> fs_ctrl_ok r (stream_id (ctxs ?cam1 c)) ?cam1"
    using Cons.prems unfolding cx by simp
  have rest: "reqs ?cam1 = reqs cam" "max_stream_num ?cam1 = max_stream_num cam" by (simp_all add: upd_ctx_def)
  obtain cam1 where c1: "frame_sync_contexts r cs ?cam1 = (length (filter (\<lambda>c. synced (ctxs cam c)) cs), cam1)"
      "reqs cam1 = reqs cam" "max_stream_num cam1 = max_stream_num cam"
      "\<And>c. ctxs cam1 c = (if c \<in> set cs then (ctxs ?cam1 c)\<lparr>synced := True\<rparr> else ctxs ?cam1 c)"
    using Cons.IH[OF _ prem] Cons.prems(1) unfolding same rest by auto
  obtain cam2 where c2: "frame_sync_contexts r cs cam = (length (filter (\<lambda>c. synced (ctxs cam c)) cs), cam2)"
      "reqs cam2 = reqs cam" "max_stream_num cam2 = max_stream_num cam"
      "\<And>c. ctxs cam2 c = (if c \<in> set cs then (ctxs cam c)\<lparr>synced := True\<rparr> else ctxs cam c)"
    using Cons.IH[of cam] Cons.prems by auto
  show ?case
  proof (cases "synced (ctxs cam d)")
    case True
    then have "(ctxs cam d)\<lparr>synced := True\<rparr> = ctxs cam d" by simp
    then show ?thesis using True Cons.prems c2 by auto
  next
    case False
    have "ctxs cam1 c = (if c \<in> set (d # cs) then (ctxs cam c)\<lparr>synced := True\<rparr> else ctxs cam c)" for c
      using c1(4)[of c] by (auto simp: upd_ctx_def)
    then show ?thesis
      using False Cons.prems c1(1-3) frame_sync_set_ok[of r "stream_id (ctxs cam d)" cam True]
      by (intro exI[of _ cam1]) simp
  qed
qed

lemma fs_run_stalled:
  assumes cs: "2 \<le> length (req_ctxs r cam)" "\<forall>c \<in> set (req_ctxs r cam). streaming (ctxs cam c) \<and> synced (ctxs cam c)"
    and "i + count_list ops Fs_start \<le> 63"
  shows "snd (fs_run r ops (upd_fs r (\<lambda>_. fs_of 0 i 0) cam)) = upd_fs r (\<lambda>_. fs_of 0 (i + count_list ops Fs_start) 0) cam"
  using assms(3)
proof (induction ops arbitrary: i)
  case Nil
  then show ?case by simp
next
  case (Cons op ops)
  show ?case
  proof (cases op)
    case Fs_start
    then show ?thesis
      using Cons.IH[of "Suc i"] Cons.prems frame_sync_start_synced[OF cs, of i 0 0]
      by (simp add: case_prod_beta)
  next
    case Fs_end
    have "mtk_cam_req_frame_sync_end r (upd_fs r (\<lambda>_. fs_of 0 i 0) cam) = (False, upd_fs r (\<lambda>_. fs_of 0 i 0) cam)"
      by (simp add: mtk_cam_req_frame_sync_end_def fs_of_def)
    then show ?thesis using Cons.IH[of i] Cons.prems Fs_end by (simp add: case_prod_beta)
  qed
qed

text \<open>C6. When fewer than two contexts of the request were synced before, the first start resets the
  bracket although it synced every sensor; the later starts count again, but with the target gone no
  end does. After all sensors the counters differ, so the sync never completes and the sensor worker
  of no context whose newest frame belongs to the request goes on to the next frame.
\<close>

theorem frame_sync_stall:
  assumes k: "2 \<le> length (req_ctxs r cam)"
    and ok: "\<forall>c \<in> set (req_ctxs r cam). streaming (ctxs cam c) \<and> fs_ctrl_ok r (stream_id (ctxs cam c)) cam"
    and few: "length (filter (\<lambda>c. synced (ctxs cam c)) (req_ctxs r cam)) < 2"
    and all: "count_list ops Fs_start = length (req_ctxs r cam) - 1"
    and fresh: "fs_on_cnt (rq_fs (reqs cam r)) = 0"
  shows "\<exists>cam'. snd (fs_run r (Fs_start # ops) cam) = cam'
    \<and> rq_fs (reqs cam' r) = fs_of 0 (length (req_ctxs r cam) - 1) 0
    \<and> (\<forall>c p. mtk_cam_get_req_s_data cam' (stream_id (ctxs cam' c)) (sensor_request_seq_no (sc cam' c)) = Some p
         \<and> fst p = r \<longrightarrow> \<not> sensor_may_advance c cam')"
proof -
  let ?k = "length (req_ctxs r cam)" and ?cam1 = "upd_fs r (\<lambda>f. f\<lparr>fs_on_cnt := fs_on_cnt f + 1\<rparr>) cam"
  have k32: "?k \<le> 32" by (rule req_ctxs_bound)
  have "\<forall>c \<in> set (req_ctxs r cam). streaming (ctxs ?cam1 c) \<and> fs_ctrl_ok r (stream_id (ctxs ?cam1 c)) ?cam1"
    using ok by simp
  then obtain cam2 where c2: "frame_sync_contexts r (req_ctxs r cam) ?cam1 =
        (length (filter (\<lambda>c. synced (ctxs ?cam1 c)) (req_ctxs r cam)), cam2)"
      "reqs cam2 = reqs ?cam1" "max_stream_num cam2 = max_stream_num ?cam1"
      "\<And>c. ctxs cam2 c = (if c \<in> set (req_ctxs r cam) then (ctxs cam c)\<lparr>synced := True\<rparr> else ctxs cam c)"
    using frame_sync_contexts_all[of "req_ctxs r cam" ?cam1 r] by (auto simp: req_ctxs_def)
  have reset: "upd_fs r mtk_cam_fs_reset cam2 = upd_fs r (\<lambda>_. fs_of 0 0 0) cam2"
    by (rule upd_fs_same) (simp add: mtk_cam_fs_reset_def fs_of_def)
  have first: "mtk_cam_req_frame_sync_start r cam = (False, upd_fs r (\<lambda>_. fs_of 0 0 0) cam2)"
    using k few fresh c2(1) reset by (simp add: mtk_cam_req_frame_sync_start_def Let_def)
  have same: "req_ctxs r cam2 = req_ctxs r cam"
    using c2(2,3) by (simp add: req_ctxs_def)
  have "snd (fs_run r ops (upd_fs r (\<lambda>_. fs_of 0 0 0) cam2)) = upd_fs r (\<lambda>_. fs_of 0 (?k - 1) 0) cam2"
    using fs_run_stalled[of r cam2 0 ops] k ok c2(4) k32 all unfolding same by simp
  then have run: "snd (fs_run r (Fs_start # ops) cam) = upd_fs r (\<lambda>_. fs_of 0 (?k - 1) 0) cam2"
    using first by (simp add: case_prod_beta)
  have "\<not> fs_complete (fs_of 0 (?k - 1) 0)"
    using k k32 small_word_0[of "?k - 1"] by (auto simp: fs_complete_def fs_of_def)
  then show ?thesis unfolding run by (auto simp: sensor_may_advance_def Let_def)
qed

subsection \<open>Concrete inputs\<close>

definition demo_dual :: "bool \<Rightarrow> mtk_cam_device" where
  "demo_dual b = demo_cam\<lparr>ctxs := (\<lambda>c. demo_ctx\<lparr>stream_id := c, synced := b\<rparr>),
     reqs := (\<lambda>r. (demo_req (of_nat r + 1))\<lparr>ctx_used := 3, pipe_used := 3, rq_fs := fs_of 2 0 0\<rparr>)\<rparr>"

definition demo_next :: mtk_cam_device where
  "demo_next = demo_cam\<lparr>ctxs := (\<lambda>_. demo_ctx\<lparr>sensor_ctrl := demo_sc\<lparr>sensor_request_seq_no := 2\<rparr>\<rparr>)\<rparr>"

lemma demo_dual_ctxs: "req_ctxs r (demo_dual b) = [0, 1]"
  by (simp add: req_ctxs_def demo_dual_def demo_cam_def upt_rec[of 0] upt_rec[of 1] upt_rec[of 2] numeral_3_eq_3)

lemma demo_dual_simps:
  "streaming (ctxs (demo_dual b) c)" "synced (ctxs (demo_dual b) c) = b" "stream_id (ctxs (demo_dual b) c) = c"
  "rq_fs (reqs (demo_dual b) r) = fs_of 2 0 0"
  by (simp_all add: demo_dual_def demo_ctx_def demo_cam_def)

lemma demo_dual_ctrl: "p < 2 \<Longrightarrow> fs_ctrl_ok r p (demo_dual b)"
  by (simp add: fs_ctrl_ok_def mtk_cam_req_get_s_data_def demo_dual_def demo_req_def demo_sd_def sd_def MTKCAM_SUBDEV_MAX_def)

abbreviation "demo_ops \<equiv> [Fs_start, Fs_end, Fs_start, Fs_end]"

theorem frame_sync_complete_witness:
  "\<exists>cam'. fs_run 0 demo_ops (demo_dual True) = (fs_outs 2 0 0 demo_ops, cam') \<and> fs_complete (rq_fs (reqs cam' 0))"
proof -
  have "fs_legal (length (req_ctxs 0 (demo_dual True))) 0 0 demo_ops" by (simp add: demo_dual_ctxs)
  moreover have len: "length (req_ctxs 0 (demo_dual True)) = 2" "count_list demo_ops Fs_end = 2"
    by (simp_all add: demo_dual_ctxs)
  ultimately show ?thesis
    using frame_sync_complete[of 0 "demo_dual True" demo_ops] unfolding len
    by (auto simp: demo_dual_simps simp del: fs_run.simps fs_outs.simps fs_legal.simps)
qed

theorem frame_sync_stall_witness:
  "\<exists>cam'. snd (fs_run 0 (Fs_start # [Fs_end, Fs_start, Fs_end]) (demo_dual False)) = cam' \<and> rq_fs (reqs cam' 0) = fs_of 0 1 0"
proof -
  have len: "length (req_ctxs 0 (demo_dual False)) = 2" by (simp add: demo_dual_ctxs)
  have on: "fs_on_cnt (fs_of 2 0 0) = 0" by (simp add: fs_of_def)
  show ?thesis
    using frame_sync_stall[of 0 "demo_dual False" "[Fs_end, Fs_start, Fs_end]"] on unfolding len
    by (auto simp: demo_dual_simps demo_dual_ctxs demo_dual_ctrl simp del: fs_run.simps)
qed

lemma demo_next_simps:
  "sensor_ctrl (ctxs demo_next c) = demo_sc\<lparr>sensor_request_seq_no := 2\<rparr>" "feat (ctxs demo_next c) = feat demo_ctx"
  "stream_id (ctxs demo_next c) = 0" "streaming (ctxs demo_next c)" "\<not> synced (ctxs demo_next c)"
  "cx_sensor (ctxs demo_next c) = Some 0" "sensor_has_mstream_ctrls (ctxs demo_next c) = False"
  "sd demo_next (r, p, i) = demo_sd (of_nat r + 1)" "reqs demo_next r = demo_req (of_nat r + 1)"
  "running_job_list demo_next = [0, 1, 2]" "max_stream_num demo_next = 3"
  by (simp_all add: demo_next_def demo_ctx_def demo_cam_def demo_req_def sd_def)

lemma demo_next_feat:
  "\<not> mtk_cam_is_m2m (feat demo_ctx)" "\<not> mtk_cam_is_mstream (feat demo_ctx)" "\<not> mtk_cam_is_subsample (feat demo_ctx)"
  "\<not> mtk_cam_is_time_shared (feat demo_ctx)"
  by code_simp+

lemma demo_next_get: "mtk_cam_get_req_s_data demo_next 0 2 = Some (1, 0, 0)" "mtk_cam_get_req_s_data demo_next 0 3 = Some (2, 0, 0)"
  by (simp_all add: mtk_cam_get_req_s_data_def demo_next_simps demo_req_def demo_sd_def MTKCAM_SUBDEV_MAX_def)

lemma frame_sync_start_single:
  "req_ctxs r cam = [d] \<Longrightarrow> \<not> synced (ctxs cam d) \<Longrightarrow> mtk_cam_req_frame_sync_start r cam = (False, cam)"
  by (simp add: mtk_cam_req_frame_sync_start_def Let_def)

lemma sd_fold: "(\<And>x cam. sd (f x cam) = sd cam) \<Longrightarrow> sd (fold f xs cam) = sd cam"
  by (induction xs arbitrary: cam) auto

lemma sd_feature_set_sensor [simp]:
  "sd_feature (sd (set_sensor_stream_on c s cam) q) = sd_feature (sd cam q)"
  "sd_feature (sd (snd (mtk_cam_req_frame_sync_end r cam)) q) = sd_feature (sd cam q)"
  "sd_feature (sd (set_sensor_transition c s cam) q) = sd_feature (sd cam q)"
  by (auto simp: set_sensor_stream_on_def mtk_cam_stream_on_def mtk_cam_req_frame_sync_end_def
      set_sensor_transition_def state_transition_def Let_def sd_fold)

lemma demo_next_full: "mtk_cam_set_sensor_full 0 (2, 0, 0) demo_next \<noteq> None"
proof -
  let ?cam = "upd_sc 0 (\<lambda>k. k\<lparr>camsys_state_list := camsys_state_list k @ [(2, 0, 0)], sensor_request_seq_no := 3\<rparr>) demo_next"
  have enq: "set_sensor_enqueue 0 (2, 0, 0) demo_next = Some ?cam"
    by (simp add: set_sensor_enqueue_def sc_def demo_next_simps demo_sc_def demo_sd_def)
  have x: "feat (ctxs ?cam 0) = feat demo_ctx" "sd ?cam = sd demo_next" "reqs ?cam = reqs demo_next"
      "max_stream_num ?cam = 3" "\<not> synced (ctxs ?cam 0)"
    by (simp_all add: upd_sc_def upd_ctx_def demo_next_simps sd_def fun_eq_iff split: prod.splits)
  have sw: "is_sensor_switch (2, 0, 0) ?cam = (False, ?cam)"
    by (simp add: is_sensor_switch_def Let_def x demo_next_simps demo_sd_def SENSOR_HDL_EN_def SENSOR_MODE_UPDATE_T1_def)
  have "req_ctxs 2 ?cam = [0]"
    by (simp add: req_ctxs_def x demo_next_simps demo_req_def upt_rec[of 0] upt_rec[of 1] upt_rec[of 2] numeral_3_eq_3)
  then have st: "mtk_cam_req_frame_sync_start 2 ?cam = (False, ?cam)"
    by (rule frame_sync_start_single) (rule x(5))
  have ctl: "set_sensor_controls 0 (2, 0, 0) ?cam \<noteq> None"
    by (simp add: set_sensor_controls_def Let_def st x demo_next_simps demo_next_feat set_sensor_setup_def
        set_sensor_mstream_off_def demo_sd_def mtk_cam_feature_change_is_mstream_def EXPOSURE_CHANGE_2_to_1_def
        MSTREAM_EXPOSURE_CHANGE_def)
  show ?thesis
    using ctl by (simp add: mtk_cam_set_sensor_full_def enq sw x demo_next_feat)
qed

lemma demo_next_sc: "sc demo_next 0 = demo_sc\<lparr>sensor_request_seq_no := 2\<rparr>"
  by (simp add: sc_def demo_next_simps)

lemma demo_next_fs: "fs_complete (rq_fs (demo_req k))"
  by (simp add: fs_complete_def demo_req_def)

lemma demo_next_link: "link_change_sets_sensor 0 3 (2, 0, 0) demo_next = Some False"
  by (simp add: link_change_sets_sensor_def demo_next_simps demo_req_def)

lemma demo_next_run: "\<exists>cam'. mtk_cam_try_set_sensor 0 demo_next = Some cam'"
  using demo_next_full demo_next_get
  by (auto simp: mtk_cam_try_set_sensor_def Let_def demo_next_sc demo_sc_def demo_next_simps demo_next_fs demo_next_link)

theorem sensor_set_exactly_when_witness:
  "\<exists>cam'. mtk_cam_try_set_sensor 0 demo_next = Some cam' \<and> sensor_request_seq_no (sc cam' 0) = 3
     \<and> camsys_state_list (sc cam' 0) = [(2, 0, 0)]"
proof -
  obtain cam' where run: "mtk_cam_try_set_sensor 0 demo_next = Some cam'" using demo_next_run by blast
  have "sensor_may_advance 0 demo_next" "next_frame 0 demo_next = Some (2, 0, 0)"
    using demo_next_get
    by (auto simp: sensor_may_advance_def next_frame_def Let_def demo_next_sc demo_sc_def demo_next_simps demo_next_fs demo_next_link)
  then show ?thesis
    using sensor_set_exactly_when[OF run] run by (auto simp: demo_next_sc demo_sc_def)
qed

end
