(* ===== verification/CamFrame.thy ===== *)
theory CamFrame
  imports CamDeq CamSensor
begin

text \<open>
  The ends of the frame pipeline (\<open>mtk_cam-ctrl.c\<close>): what the driver does when the hardware reports
  that a command queue is loaded and that a frame is done. The works these handlers queue are
  definitions of their own. \<open>None\<close> is a fault: a null pointer followed, or a variable read before
  it is written. Two compile-time switches are fixed as in the code: \<open>MTK_CAM_INITIAL_REQ_SYNC\<close> is
  0 and \<open>STAGGER_CQ_LAST_SOF\<close> is 1; \<open>ISP7_1\<close> is not defined.
\<close>

definition MTK_CAM_INITIAL_REQ_SYNC :: bool where "MTK_CAM_INITIAL_REQ_SYNC = False"

definition is_first_request_sync :: "nat \<Rightarrow> mtk_cam_device \<Rightarrow> bool" where
  "is_first_request_sync c cam = (let x = ctxs cam c in
     if fc_used_raw_num (feat x) \<noteq> 0 then
       fc_feature_active (feat x) = 0 \<and> MTK_CAM_INITIAL_REQ_SYNC \<and> cx_sensor x \<noteq> None
     else MTK_CAM_INITIAL_REQ_SYNC \<and> cx_sensor x \<noteq> None)"

definition mtk_cam_set_timestamp :: "sref \<Rightarrow> u64 \<Rightarrow> u64 \<Rightarrow> mtk_cam_device \<Rightarrow> mtk_cam_device" where
  "mtk_cam_set_timestamp s time_boot time_mono =
     upd_sd s (\<lambda>d. d\<lparr>sd_timestamp := time_boot, sd_timestamp_mono := time_mono\<rparr>)"

text \<open>The stream datum of index 0 that belongs to a state element; the code follows the pointer.\<close>

definition state_s_data :: "nat \<Rightarrow> sref \<Rightarrow> mtk_cam_device \<Rightarrow> sref option" where
  "state_s_data c s cam = mtk_cam_req_get_s_data cam (fst s) (stream_id (ctxs cam c)) 0"

subsection \<open>Time sharing\<close>

definition mtk_camsys_ts_sv_done :: "nat \<Rightarrow> u32 \<Rightarrow> mtk_cam_device \<Rightarrow> mtk_cam_device option" where
  "mtk_camsys_ts_sv_done c n cam = (case mtk_cam_get_req cam c n of
     None \<Rightarrow> Some cam
   | Some r \<Rightarrow> map_option (\<lambda>s. state_transition s E_STATE_TS_SV E_STATE_TS_MEM cam)
                (mtk_cam_req_get_s_data cam r (stream_id (ctxs cam c)) 0))"

definition set_busy :: "nat \<Rightarrow> bool \<Rightarrow> mtk_cam_device \<Rightarrow> mtk_cam_device" where
  "set_busy rw b cam = cam\<lparr>time_shared_busy := (time_shared_busy cam)(rw := b)\<rparr>"

definition mtk_camsys_ts_raw_try_set :: "nat \<Rightarrow> nat \<Rightarrow> u32 \<Rightarrow> mtk_cam_device \<Rightarrow> mtk_cam_device option" where
  "mtk_camsys_ts_raw_try_set rw c n cam = (case mtk_cam_get_req cam c n of
     None \<Rightarrow> Some cam
   | Some r \<Rightarrow> (case mtk_cam_req_get_s_data cam r (stream_id (ctxs cam c)) 0 of
       None \<Rightarrow> None
     | Some s \<Rightarrow> Some (
         if time_shared_busy cam rw \<or> estate (sd cam s) \<noteq> E_STATE_TS_MEM then cam
         else let cam1 = set_busy rw True cam in
           if composed_frame_seq_no (ctxs cam1 c) < n then cam1
           else (case apply_next_composed c cam1 of
               (None, cam2) \<Rightarrow> cam2
             | (Some b, cam2) \<Rightarrow> let cam3 = state_transition s E_STATE_TS_MEM E_STATE_TS_CQ cam2
                 in cam3\<lparr>time_shared_busy_ctx_id := (time_shared_busy_ctx_id cam3)(rw := stream_id (ctxs cam3 c))\<rparr>))))"

subsection \<open>Switching the number of exposures\<close>

definition get_sv_pipe_id :: "nat \<Rightarrow> mtk_cam_device \<Rightarrow> u32 \<Rightarrow> nat option" where
  "get_sv_pipe_id exp_order cam used_dev_mask =
     find (\<lambda>i. bit used_dev_mask i \<and> sv_exp_order cam (i - MTKCAM_SUBDEV_CAMSV_START) = exp_order)
       [MTKCAM_SUBDEV_CAMSV_START..<MTKCAM_SUBDEV_CAMSV_END]"

definition get_main_sv_pipe_id :: "mtk_cam_device \<Rightarrow> u32 \<Rightarrow> nat option" where
  "get_main_sv_pipe_id = get_sv_pipe_id 0"

definition get_sub_sv_pipe_id :: "mtk_cam_device \<Rightarrow> u32 \<Rightarrow> nat option" where
  "get_sub_sv_pipe_id = get_sv_pipe_id 1"

definition mtk_cam_hdr_switch_toggle :: "nat \<Rightarrow> u32 \<Rightarrow> mtk_cam_device \<Rightarrow> mtk_cam_device" where
  "mtk_cam_hdr_switch_toggle c feature cam =
    (case get_main_sv_pipe_id cam (enabled_raw (ctxs cam c)) of
       None \<Rightarrow> cam
     | Some m \<Rightarrow>
       let cam1 = emit (Hdr_sv_toggle_tg_db m) (emit (Enable_tg_db c False) cam);
           on = (\<lambda>cam. emit (Toggle_db c) (emit (Enable_tg_db c True) cam))
       in if feature = STAGGER_3_EXPOSURE_LE_NE_SE \<or> feature = STAGGER_3_EXPOSURE_SE_NE_LE then
            (case get_sub_sv_pipe_id cam (enabled_raw (ctxs cam c)) of
               None \<Rightarrow> cam1
             | Some i \<Rightarrow> on (emit (Hdr_sv_toggle_tg_db i) cam1))
          else on cam1)"

definition stagger_enable :: "nat \<Rightarrow> mtk_cam_device \<Rightarrow> mtk_cam_device" where
  "stagger_enable c cam = emit (Stagger_mode c True) (upd_ctx c (\<lambda>x. x\<lparr>stagger_en := True\<rparr>) cam)"

definition stagger_disable :: "nat \<Rightarrow> mtk_cam_device \<Rightarrow> mtk_cam_device" where
  "stagger_disable c cam = emit (Stagger_mode c False) (upd_ctx c (\<lambda>x. x\<lparr>stagger_en := False\<rparr>) cam)"

text \<open>
  \<open>mtk_camsys_exp_switch_cam_mux\<close>: the receivers of the sensor's outputs, one entry per output.
  \<open>None\<close>: the type is none the table has, and the settings handed on are never written.
\<close>

definition cam_mux_settings :: "u32 \<Rightarrow> nat \<Rightarrow> nat \<Rightarrow> (cam_tg \<times> bool) list option" where
  "cam_mux_settings t m u =
    (if t = EXPOSURE_CHANGE_3_to_2 \<or> t = EXPOSURE_CHANGE_1_to_2 then Some [(Tg_sv m, True), (Tg_raw, True), (Tg_sv u, False)]
     else if t = EXPOSURE_CHANGE_3_to_1 \<or> t = EXPOSURE_CHANGE_2_to_1
       then Some [(Tg_raw, True), (Tg_sv u, False), (Tg_sv m, False)]
     else if t = EXPOSURE_CHANGE_2_to_3 \<or> t = EXPOSURE_CHANGE_1_to_3
       then Some [(Tg_sv m, True), (Tg_sv u, True), (Tg_raw, True)]
     else None)"

definition cam_mux_settings_2 :: "u32 \<Rightarrow> nat \<Rightarrow> (cam_tg \<times> bool) list option" where
  "cam_mux_settings_2 t m =
    (if t = EXPOSURE_CHANGE_2_to_1 then Some [(Tg_raw, True), (Tg_sv m, False)]
     else if t = EXPOSURE_CHANGE_1_to_2 then Some [(Tg_sv m, True), (Tg_raw, True)]
     else None)"

definition upd_feature :: "sref \<Rightarrow> (mtk_cam_req_feature \<Rightarrow> mtk_cam_req_feature) \<Rightarrow> mtk_cam_device \<Rightarrow> mtk_cam_device" where
  "upd_feature s f = upd_sd s (\<lambda>d. d\<lparr>sd_feature := f (sd_feature d)\<rparr>)"

definition exp_switch_state :: "u32 \<Rightarrow> sref \<Rightarrow> mtk_cam_device \<Rightarrow> mtk_cam_device" where
  "exp_switch_state t s cam = (if t = EXPOSURE_CHANGE_3_to_1 \<or> t = EXPOSURE_CHANGE_2_to_1 then
     state_transition s E_STATE_OUTER E_STATE_CAMMUX_OUTER (state_transition s E_STATE_CQ E_STATE_CAMMUX_OUTER cam)
   else cam)"

definition mtk_camsys_exp_switch_cam_mux :: "nat \<Rightarrow> sref \<Rightarrow> mtk_cam_device \<Rightarrow> mtk_cam_device option" where
  "mtk_camsys_exp_switch_cam_mux c s cam = (let x = ctxs cam c; f = sd_feature (sd cam s); t = switch_feature_type f;
       two = (fc_feature_active (feat x) = STAGGER_2_EXPOSURE_LE_SE \<or> fc_feature_active (feat x) = STAGGER_2_EXPOSURE_SE_LE);
       main_id = get_main_sv_pipe_id cam (enabled_raw x); sub_id = get_sub_sv_pipe_id cam (enabled_raw x);
       switch = (\<lambda>l. exp_switch_state t s (upd_feature s (\<lambda>f. f\<lparr>switch_done := True\<rparr>) (emit (Exp_switch_cam_mux s l) cam)))
     in if switch_done f then Some cam
        else if t = EXPOSURE_CHANGE_NONE then Some (exp_switch_state t s cam)
        else case main_id of
          None \<Rightarrow> Some cam
        | Some m \<Rightarrow>
            if two then map_option switch (cam_mux_settings_2 t (m - MTKCAM_SUBDEV_CAMSV_START))
            else (case sub_id of
                None \<Rightarrow> Some cam
              | Some u \<Rightarrow> map_option switch
                  (cam_mux_settings t (m - MTKCAM_SUBDEV_CAMSV_START) (u - MTKCAM_SUBDEV_CAMSV_START))))"

definition mtk_cam_exp_switch_sensor :: "sref \<Rightarrow> mtk_cam_device \<Rightarrow> mtk_cam_device option" where
  "mtk_cam_exp_switch_sensor s cam = do {
     let cam1 = snd (mtk_cam_req_frame_sync_start (fst s) cam);
     cam2 \<leftarrow> (if sd_flags (sd cam1 s) AND SENSOR_HDL_EN \<noteq> 0 then
               (if sd_sensor (sd cam1 s) = None then None else Some (emit (Sensor_ctrl_setup s) cam1))
             else Some cam1);
     let cam3 = state_transition s E_STATE_READY E_STATE_SENSOR cam2;
     Some (mtk_cam_complete_sensor_hdl s (snd (mtk_cam_req_frame_sync_end (fst s) cam3))) }"

definition mtk_cam_exp_sensor_switch :: "nat \<Rightarrow> sref \<Rightarrow> mtk_cam_device \<Rightarrow> mtk_cam_device option" where
  "mtk_cam_exp_sensor_switch c s cam = (let t = switch_feature_type (sd_feature (sd cam s)) in
     if t = EXPOSURE_CHANGE_1_to_2 \<or> t = EXPOSURE_CHANGE_1_to_3
       then mtk_cam_exp_switch_sensor s cam \<bind> mtk_camsys_exp_switch_cam_mux c s
     else Some cam)"

subsection \<open>Frame done\<close>

text \<open>
  With time sharing the code looks for the request's other context. When it finds none it reads
  through the null pointer (\<open>None\<close>); when it finds one it does nothing with it: the test is inverted.
\<close>

definition mtk_camsys_frame_done :: "nat \<Rightarrow> u32 \<Rightarrow> nat \<Rightarrow> mtk_cam_device \<Rightarrow> mtk_cam_device option" where
  "mtk_camsys_frame_done c n p cam = do {
     cam1 \<leftarrow> (if mtk_cam_is_stagger (feat (ctxs cam c)) \<and> is_raw_subdev p then
        (case mtk_cam_get_req cam c (n + 1) of
           None \<Rightarrow> Some cam
         | Some r \<Rightarrow> map_option (\<lambda>s. let f = sd_feature (sd cam s); t = switch_feature_type f in
             if t \<noteq> 0 \<and> \<not> mtk_cam_feature_change_is_mstream t then
               let cam1 = upd_feature s (\<lambda>f. f\<lparr>switch_prev_frame_done := True\<rparr>) cam
               in if switch_curr_setting_done f then mtk_cam_hdr_switch_toggle c (raw_feature f) cam1 else cam1
             else cam) (mtk_cam_req_get_s_data cam r p 0))
      else Some cam);
     (if cx_sensor (ctxs cam1 c) \<noteq> None \<and> isp_request_seq_no (sc cam1 c) = 0 \<and> is_first_request_sync c cam1
         \<and> initial_drop_frame_cnt (sc cam1 c) \<noteq> 0
      then Some (upd_sc c (\<lambda>k. k\<lparr>initial_drop_frame_cnt := initial_drop_frame_cnt k - 1\<rparr>) cam1)
      else (case mtk_cam_get_req_s_data cam1 p n of
        None \<Rightarrow> Some cam1
      | Some s \<Rightarrow>
        if sd_frame_done_queued (sd cam1 s) then Some cam1
        else let cam2 = emit (Queue_frame_done_work s) (upd_sd s (\<lambda>d. d\<lparr>sd_frame_done_queued := True\<rparr>) cam1) in
          if mtk_cam_is_time_shared (feat (ctxs cam2 c)) then (let rw = master_raw (ctxs cam2 c);
              cam3 = set_busy rw False cam2; used = pipe_used (reqs cam3 (fst s)); own = push_bit (stream_id (ctxs cam3 c)) 1 in do {
            cam4 \<leftarrow> (if used \<noteq> own then
               (case find (\<lambda>i. used AND NOT own = push_bit i 1) [0..<max_stream_num cam3] of
                  None \<Rightarrow> None
                | Some _ \<Rightarrow> Some cam3)
             else Some cam3);
            mtk_camsys_ts_raw_try_set rw c (dequeued_frame_seq_no (ctxs cam4 c) + 1) cam4 })
          else Some cam2)) }"

definition mtk_camsys_m2m_frame_done :: "nat \<Rightarrow> u32 \<Rightarrow> nat \<Rightarrow> mtk_cam_device \<Rightarrow> mtk_cam_device option" where
  "mtk_camsys_m2m_frame_done c n p cam = map_option (\<lambda>s. if sd_frame_done_queued (sd cam s) then cam
     else emit (Queue_frame_done_work s) (upd_sd s (\<lambda>d. d\<lparr>sd_frame_done_queued := True\<rparr>) cam))
     (mtk_cam_get_req_s_data cam p n)"

definition mtk_cam_meta1_done :: "nat \<Rightarrow> u32 \<Rightarrow> nat \<Rightarrow> mtk_cam_device \<Rightarrow> mtk_cam_device" where
  "mtk_cam_meta1_done c n p cam = (case mtk_cam_get_req cam c n of
     None \<Rightarrow> cam
   | Some r \<Rightarrow> (case mtk_cam_req_get_s_data cam r p 0 of
       None \<Rightarrow> cam
     | Some s \<Rightarrow>
       if sd_flags (sd cam s) AND META1_INDEPENDENT = 0 then cam
       else if cx_sensor (ctxs cam c) \<noteq> None \<and> isp_request_seq_no (sc cam c) = 0 \<and> is_first_request_sync c cam then cam
       else emit (Queue_meta1_work s) cam))"

definition mtk_cam_raw_prepare_mstream_frame_done :: "nat \<Rightarrow> sref \<Rightarrow> mtk_cam_device \<Rightarrow> bool option" where
  "mtk_cam_raw_prepare_mstream_frame_done c s cam = map_option (\<lambda>s0. let f = raw_feature (sd_feature (sd cam s0)) in
     mtk_cam_feature_is_mstream f \<or> mtk_cam_feature_is_mstream_m2m f \<longrightarrow>
       frame_seq_no (sd cam s) = frame_seq_no (sd cam s0)) (state_s_data c s cam)"

fun prepare_frame_done_in :: "nat \<Rightarrow> u32 \<Rightarrow> sref list \<Rightarrow> mtk_cam_device \<Rightarrow> (bool \<times> mtk_cam_device) option" where
  "prepare_frame_done_in c n [] cam = Some (True, cam)"
| "prepare_frame_done_in c n (s # ss) cam =
    (if frame_seq_no (sd cam s) \<noteq> n then prepare_frame_done_in c n ss cam
     else if mtk_cam_is_subsample (feat (ctxs cam c)) then
       prepare_frame_done_in c n ss (state_transition s E_STATE_SUBSPL_INNER E_STATE_SUBSPL_DONE_NORMAL cam)
     else if mtk_cam_is_time_shared (feat (ctxs cam c)) then
       prepare_frame_done_in c n ss (state_transition s E_STATE_TS_INNER E_STATE_TS_DONE_NORMAL cam)
     else
       let cam1 = state_transition s E_STATE_INNER E_STATE_DONE_NORMAL
                    (state_transition s E_STATE_INNER_HW_DELAY E_STATE_DONE_MISMATCH cam);
           cam2 = (if isp_request_seq_no (sc cam1 c) = 0 then state_transition s E_STATE_CQ E_STATE_OUTER cam1 else cam1);
           f = raw_feature (sd_feature (sd cam2 s))
       in if mtk_cam_feature_is_mstream f \<or> mtk_cam_feature_is_mstream_m2m f \<or> next_sof_mask_frame_seq_no (ctxs cam2 c) \<noteq> 0 then
            (case mtk_cam_raw_prepare_mstream_frame_done c s cam2 of
               None \<Rightarrow> None
             | Some ok \<Rightarrow> if ok then prepare_frame_done_in c n ss cam2 else Some (False, cam2))
          else prepare_frame_done_in c n ss cam2)"

definition mtk_camsys_raw_prepare_frame_done :: "nat \<Rightarrow> u32 \<Rightarrow> mtk_cam_device \<Rightarrow> (bool \<times> mtk_cam_device) option" where
  "mtk_camsys_raw_prepare_frame_done c n cam = (if cx_sensor (ctxs cam c) = None then Some (True, cam)
     else prepare_frame_done_in c n (camsys_state_list (sc cam c)) cam)"

text \<open>The loop ends at the first context that is ready to change its link.\<close>

fun change_pipeline_in :: "nat \<Rightarrow> nat list \<Rightarrow> mtk_cam_device \<Rightarrow> mtk_cam_device option" where
  "change_pipeline_in r [] cam = Some cam"
| "change_pipeline_in r (i # is) cam =
    (if bit (ctx_used (reqs cam r)) i \<and> bit (ctx_link_update (reqs cam r)) i then
       (case mtk_cam_req_get_s_data cam r i 0 of
          None \<Rightarrow> None
        | Some s \<Rightarrow> if estate (sd cam s) = E_STATE_CAMMUX_OUTER_CFG_DELAY then Some (emit (Seninf_change r) cam)
                   else change_pipeline_in r is cam)
     else change_pipeline_in r is cam)"

definition mtk_camsys_raw_change_pipeline :: "nat \<Rightarrow> u32 \<Rightarrow> mtk_cam_device \<Rightarrow> mtk_cam_device option" where
  "mtk_camsys_raw_change_pipeline c n cam = (case mtk_cam_get_req cam c (n + 1) of
     None \<Rightarrow> Some cam
   | Some r \<Rightarrow> if ctx_link_update (reqs cam r) = 0 then Some cam
       else change_pipeline_in r [0..<max_stream_num cam] cam)"

definition mtk_cam_handle_frame_done :: "nat \<Rightarrow> u32 \<Rightarrow> nat \<Rightarrow> mtk_cam_device \<Rightarrow> mtk_cam_device option" where
  "mtk_cam_handle_frame_done c n p cam = (if \<not> streaming (ctxs cam c) then Some cam else do {
     (need_dequeue, cam1) \<leftarrow> (if is_camsv_subdev p then Some (True, cam) else mtk_camsys_raw_prepare_frame_done c n cam);
     if \<not> need_dequeue then Some cam1 else do {
       (cnt, cam2) \<leftarrow> mtk_cam_dequeue_req_frame c n p cam1;
       if cnt = 0 then Some cam2
       else let cam3 = emit Dev_try_queue cam2 in
         if is_raw_subdev p then mtk_camsys_raw_change_pipeline c n cam3 else Some cam3 } })"

text \<open>The frame-sync event of an m-stream request is sent on its first exposure.\<close>

definition report_working :: "nat \<Rightarrow> nat \<Rightarrow> mtk_cam_device \<Rightarrow> mtk_cam_device" where
  "report_working c r cam = (let n = req_seq (p_data (reqs cam r) (stream_id (ctxs cam c))) in
     emit (Event_frame_sync c n) (upd_ctx c (\<lambda>x. x\<lparr>working_request_seq := n\<rparr>) cam))"

definition mtk_cam_mstream_frame_sync :: "nat \<Rightarrow> u32 \<Rightarrow> mtk_cam_device \<Rightarrow> mtk_cam_device option" where
  "mtk_cam_mstream_frame_sync c n cam = (let x = ctxs cam c;
       other = (if n = next_sof_mask_frame_seq_no x then upd_ctx c (\<lambda>x. x\<lparr>next_sof_mask_frame_seq_no := 1\<rparr>) cam
                else emit (Event_frame_sync c (working_request_seq x)) cam)
     in case mtk_cam_get_req cam c n of
       None \<Rightarrow> Some other
     | Some r \<Rightarrow> (case mtk_cam_req_get_s_data cam r (stream_id x) 0 of
         None \<Rightarrow> None
       | Some s0 \<Rightarrow> let f = raw_feature (sd_feature (sd cam s0)) in
         if mtk_cam_feature_is_mstream f \<or> mtk_cam_feature_is_mstream_m2m f then
           map_option (\<lambda>s1. if n = frame_seq_no (sd cam s1)
               then report_working c r (upd_ctx c (\<lambda>x. x\<lparr>next_sof_mask_frame_seq_no := n + 1\<rparr>) cam)
               else other) (mtk_cam_req_get_s_data cam r (stream_id x) 1)
         else Some (report_working c r cam)))"

definition sof_event :: "bool \<Rightarrow> nat \<Rightarrow> u32 \<Rightarrow> mtk_cam_device \<Rightarrow> mtk_cam_device option" where
  "sof_event mstream c n cam = (if mstream \<or> next_sof_mask_frame_seq_no (ctxs cam c) \<noteq> 0
     then mtk_cam_mstream_frame_sync c n cam else Some (emit (Event_frame_sync c n) cam))"

text \<open>
  \<open>mtk_cam_handle_m2m_frame_done\<close> in three steps. The count of dequeued requests is \<open>None\<close> where
  the code does not write it; the last step then reads it.
\<close>

definition m2m_inner_done :: "nat \<Rightarrow> u32 \<Rightarrow> mtk_cam_device \<Rightarrow> mtk_cam_device option" where
  "m2m_inner_done c n cam = (case find (\<lambda>s. estate (sd cam s) = E_STATE_INNER) (camsys_state_list (sc cam c)) of
     None \<Rightarrow> Some cam
   | Some s \<Rightarrow> map_option (\<lambda>s0. if frame_seq_no (sd cam s0) = n
       then upd_sc c (\<lambda>k. k\<lparr>isp_request_seq_no := n\<rparr>) (state_transition s E_STATE_INNER E_STATE_DONE_NORMAL cam)
       else cam) (state_s_data c s cam))"

definition m2m_dequeue :: "nat \<Rightarrow> u32 \<Rightarrow> mtk_cam_device \<Rightarrow> (nat option \<times> mtk_cam_device) option" where
  "m2m_dequeue c n cam = (let sid = stream_id (ctxs cam c);
       deq = map_option (\<lambda>(cnt, cam'). (Some cnt, cam')) (mtk_cam_dequeue_req_frame c n sid cam)
     in if mtk_cam_is_mstream_m2m (feat (ctxs cam c)) then do {
          s \<leftarrow> mtk_cam_get_req_s_data cam sid n;
          ok \<leftarrow> mtk_cam_raw_prepare_mstream_frame_done c s cam;
          if ok then deq else Some (None, cam) }
        else deq)"

definition m2m_apply_next ::
  "nat \<Rightarrow> sref option \<Rightarrow> u64 \<Rightarrow> u64 \<Rightarrow> mtk_cam_device \<Rightarrow> (bool \<times> mtk_cam_device) option" where
  "m2m_apply_next c state_sensor time_boot time_mono cam =
    (case bl_take_first (composed_buffer_list (ctxs cam c)) of
       (None, _) \<Rightarrow> Some (True, cam)
     | (Some b, l) \<Rightarrow>
       let cam1 = upd_ctx c (\<lambda>x. x\<lparr>composed_buffer_list := l,
                    processing_buffer_list := list_push b (processing_buffer_list x)\<rparr>) cam
       in case state_sensor of
         None \<Rightarrow> Some (False, cam1)
       | Some s \<Rightarrow> map_option (\<lambda>s0.
           let cam2 = emit (Apply_cq c False b) (mtk_cam_set_timestamp s0 time_boot time_mono cam1)
           in (True, if cx_sensor (ctxs cam2 c) \<noteq> None then state_transition s E_STATE_SENSOR E_STATE_CQ cam2 else cam2))
           (state_s_data c s cam1))"

definition mtk_cam_handle_m2m_frame_done :: "nat \<Rightarrow> u32 \<Rightarrow> u64 \<Rightarrow> u64 \<Rightarrow> mtk_cam_device \<Rightarrow> mtk_cam_device option" where
  "mtk_cam_handle_m2m_frame_done c n time_boot time_mono cam = (if \<not> streaming (ctxs cam c) then Some cam else do {
     cam1 \<leftarrow> sof_event (mtk_cam_is_mstream_m2m (feat (ctxs cam c))) c n cam;
     let cam2 = upd_ctx c (\<lambda>x. x\<lparr>dequeued_frame_seq_no := n\<rparr>) cam1;
     let state_sensor = find (\<lambda>s. estate (sd cam2 s) = E_STATE_SENSOR) (camsys_state_list (sc cam2 c));
     cam3 \<leftarrow> m2m_inner_done c n cam2;
     (dequeue_cnt, cam4) \<leftarrow> m2m_dequeue c n cam3;
     (go_on, cam5) \<leftarrow> m2m_apply_next c state_sensor time_boot time_mono (emit (M2m_complete c) cam4);
     if \<not> go_on then Some cam5
     else map_option (\<lambda>cnt. if cnt \<noteq> 0 then emit Dev_try_queue cam5 else cam5) dequeue_cnt })"

definition mtk_cam_frame_done_work :: "nat \<Rightarrow> sref \<Rightarrow> u64 \<Rightarrow> u64 \<Rightarrow> mtk_cam_device \<Rightarrow> mtk_cam_device option" where
  "mtk_cam_frame_done_work c s time_boot time_mono cam =
    (if mtk_cam_is_m2m (feat (ctxs cam c))
     then mtk_cam_handle_m2m_frame_done c (frame_seq_no (sd cam s)) time_boot time_mono cam
     else mtk_cam_handle_frame_done c (frame_seq_no (sd cam s)) (fst (snd s)) cam)"

subsection \<open>Command queue done\<close>

definition mtk_cam_seamless_switch_work :: "sref \<Rightarrow> mtk_cam_device \<Rightarrow> mtk_cam_device option" where
  "mtk_cam_seamless_switch_work s cam = do {
     let cam1 = snd (mtk_cam_req_frame_sync_start (fst s) (emit (Set_fmt s) cam));
     cam2 \<leftarrow> (if sd_flags (sd cam1 s) AND SENSOR_HDL_EN \<noteq> 0 then
               (if sd_sensor (sd cam1 s) = None then None else Some (emit (Sensor_ctrl_setup s) cam1))
             else Some cam1);
     let cam3 = emit (Set_fmt s) (emit (Set_fmt s) (snd (mtk_cam_req_frame_sync_end (fst s) cam2)));
     Some (state_transition s E_STATE_CAMMUX_OUTER_CFG_DELAY E_STATE_INNER
       (state_transition s E_STATE_CAMMUX_OUTER_CFG E_STATE_CAMMUX_OUTER (mtk_cam_complete_sensor_hdl s cam3))) }"

definition mtk_cam_handle_seamless_switch :: "sref \<Rightarrow> mtk_cam_device \<Rightarrow> mtk_cam_device" where
  "mtk_cam_handle_seamless_switch s cam = (if sd_flags (sd cam s) AND SENSOR_MODE_UPDATE_T1 \<noteq> 0
     then emit (Queue_seamless_switch_work s) (state_transition s E_STATE_OUTER E_STATE_CAMMUX_OUTER_CFG cam)
     else cam)"

definition mtk_cam_link_change_worker :: "nat \<Rightarrow> mtk_cam_device \<Rightarrow> mtk_cam_device" where
  "mtk_cam_link_change_worker r cam = upd_req r (\<lambda>q. q\<lparr>rq_flags := rq_flags q OR MTK_CAM_REQ_FLAG_SENINF_CHANGED\<rparr>)
     (emit (Seninf_change r) cam)"

definition toggle_ctx :: "nat \<Rightarrow> mtk_cam_device \<Rightarrow> mtk_cam_device" where
  "toggle_ctx i cam = fold (\<lambda>j. emit (Sv_toggle_db i j)) [0..<unat (used_sv_num (ctxs cam i))]
     (emit (Toggle_db i) (emit (Enable_tg_db i True) (emit (Enable_tg_db i False) cam)))"

definition link_updated :: "nat \<Rightarrow> mtk_cam_device \<Rightarrow> bool" where
  "link_updated r cam = (ctx_used (reqs cam r) AND streaming_ctx cam AND ctx_link_update (reqs cam r) \<noteq> 0)"

definition mtk_cam_handle_mux_switch :: "nat \<Rightarrow> mtk_cam_device \<Rightarrow> mtk_cam_device" where
  "mtk_cam_handle_mux_switch r cam =
    (if link_updated r cam \<and> rq_flags (reqs cam r) AND MTK_CAM_REQ_FLAG_SENINF_IMMEDIATE_UPDATE \<noteq> 0 then
       emit (Queue_link_change_work r)
         (fold toggle_ctx (filter (\<lambda>i. bit (ctx_used (reqs cam r)) i \<and> bit (ctx_link_update (reqs cam r)) i)
            [0..<max_stream_num cam]) cam)
     else cam)"

definition mtk_cam_handle_mstream_mux_switch :: "nat \<Rightarrow> sref \<Rightarrow> mtk_cam_device \<Rightarrow> mtk_cam_device option" where
  "mtk_cam_handle_mstream_mux_switch c s cam = (if \<not> link_updated (fst s) cam then Some cam
     else map_option (\<lambda>m. if frame_seq_no (sd cam s) \<noteq> frame_seq_no (sd cam m) then cam
            else mtk_cam_handle_mux_switch (fst s) cam)
       (mtk_cam_req_get_s_data cam (fst s) (stream_id (ctxs cam c)) 1))"

definition m2m_cq_done_one :: "nat \<Rightarrow> u32 \<Rightarrow> sref \<Rightarrow> mtk_cam_device \<Rightarrow> mtk_cam_device option" where
  "m2m_cq_done_one c n s cam = map_option (\<lambda>s0.
     if frame_seq_no (sd cam s0) = n \<and> isp_request_seq_no (sc cam c) < n
     then state_transition s E_STATE_CQ E_STATE_OUTER cam else cam) (state_s_data c s cam)"

definition mtk_camsys_raw_m2m_cq_done :: "nat \<Rightarrow> u32 \<Rightarrow> mtk_cam_device \<Rightarrow> mtk_cam_device option" where
  "mtk_camsys_raw_m2m_cq_done c n cam = ofold (m2m_cq_done_one c n) (camsys_state_list (sc cam c))
     (if n = 1 then emit (Raw_stream_on_m2m c) cam else cam)"

text \<open>The part of the handler for one state element, in the three kinds of pipeline.\<close>

definition cq_done_subspl :: "nat \<Rightarrow> sref \<Rightarrow> mtk_cam_device \<Rightarrow> mtk_cam_device" where
  "cq_done_subspl c s cam =
    (let cam1 = (if sof_count (ctxs cam c) = 0 then state_transition s E_STATE_SUBSPL_READY E_STATE_SUBSPL_OUTER cam else cam) in
     if E_STATE_SUBSPL_SCQ \<le> estate (sd cam1 s) \<and> estate (sd cam1 s) < E_STATE_SUBSPL_INNER then
       upd_sc c (\<lambda>k. k\<lparr>isp_enq_seq_no := frame_seq_no (sd cam1 s)\<rparr>)
         (state_transition s E_STATE_SUBSPL_SCQ_DELAY E_STATE_SUBSPL_OUTER
           (state_transition s E_STATE_SUBSPL_SCQ E_STATE_SUBSPL_OUTER cam1))
     else cam1)"

definition cq_done_ts :: "nat \<Rightarrow> u32 \<Rightarrow> sref \<Rightarrow> mtk_cam_device \<Rightarrow> mtk_cam_device" where
  "cq_done_ts c n s cam = (if frame_seq_no (sd cam s) = n \<and> isp_request_seq_no (sc cam c) < n then
     upd_ctx c (\<lambda>x. x\<lparr>sof_count := sof_count x + 1\<rparr>) (emit (Rawi_trig c None)
       (upd_ctx c (\<lambda>x. x\<lparr>dequeued_frame_seq_no := n\<rparr>) (state_transition s E_STATE_TS_CQ E_STATE_TS_INNER cam)))
   else cam)"

definition cq_done_states :: "u32 \<Rightarrow> sref \<Rightarrow> mtk_cam_device \<Rightarrow> mtk_cam_device" where
  "cq_done_states n s cam = state_transition s E_STATE_SENINF E_STATE_OUTER
     (state_transition s E_STATE_CQ_SCQ_DELAY E_STATE_OUTER (state_transition s E_STATE_CQ E_STATE_OUTER
       (if n = 1 then upd_sd s (\<lambda>d. d\<lparr>estate := E_STATE_OUTER\<rparr>) cam else cam)))"

definition cq_done_switch :: "nat \<Rightarrow> sref \<Rightarrow> mtk_cam_device \<Rightarrow> mtk_cam_device" where
  "cq_done_switch c s cam = (let t = switch_feature_type (sd_feature (sd cam s)) in
     if t \<noteq> 0 \<and> \<not> mtk_cam_is_mstream (feat (ctxs cam c)) \<and> \<not> mtk_cam_feature_change_is_mstream t then
       let cam1 = upd_feature s (\<lambda>f. f\<lparr>switch_curr_setting_done := True\<rparr>) cam;
           cam2 = (if mtk_cam_get_req_s_data cam1 (stream_id (ctxs cam1 c)) (frame_seq_no (sd cam1 s) - 1) = None
                   then upd_feature s (\<lambda>f. f\<lparr>switch_prev_frame_done := True\<rparr>) cam1 else cam1);
           cam3 = (if t = EXPOSURE_CHANGE_3_to_1 \<or> t = EXPOSURE_CHANGE_2_to_1 then stagger_disable c cam2
                   else if t = EXPOSURE_CHANGE_1_to_2 \<or> t = EXPOSURE_CHANGE_1_to_3 then stagger_enable c cam2
                   else cam2);
           f = sd_feature (sd cam3 s)
       in if switch_prev_frame_done f \<and> switch_curr_setting_done f then mtk_cam_hdr_switch_toggle c (raw_feature f) cam3
          else cam3
     else cam)"

definition cq_done_normal :: "nat \<Rightarrow> u32 \<Rightarrow> sref \<Rightarrow> mtk_cam_device \<Rightarrow> mtk_cam_device option" where
  "cq_done_normal c n s cam = (if frame_seq_no (sd cam s) = n \<and> isp_request_seq_no (sc cam c) < n then
     let cam1 = mtk_cam_handle_seamless_switch s (cq_done_switch c s (cq_done_states n s cam)) in
     if mtk_cam_feature_is_mstream (raw_feature (sd_feature (sd cam1 s)))
     then mtk_cam_handle_mstream_mux_switch c s cam1
     else Some (mtk_cam_handle_mux_switch (fst s) cam1)
   else Some cam)"

definition cq_done_one :: "nat \<Rightarrow> u32 \<Rightarrow> sref \<Rightarrow> mtk_cam_device \<Rightarrow> mtk_cam_device option" where
  "cq_done_one c n s cam = (if mtk_cam_is_subsample (feat (ctxs cam c)) then Some (cq_done_subspl c s cam)
     else if mtk_cam_is_time_shared (feat (ctxs cam c)) then Some (cq_done_ts c n s cam)
     else cq_done_normal c n s cam)"

definition initial_cq :: "nat \<Rightarrow> mtk_cam_device \<Rightarrow> mtk_cam_device option" where
  "initial_cq c cam = (if sof_count (ctxs cam c) = 0 then
     let cam1 = upd_sc c (\<lambda>k. k\<lparr>initial_cq_done := True\<rparr>) cam in
     map_option (\<lambda>s. if E_STATE_SENSOR \<le> estate (sd cam1 s) \<or> cx_sensor (ctxs cam1 c) = None
         then mtk_cam_stream_on c cam1 else cam1)
       (mtk_cam_get_req_s_data cam1 (stream_id (ctxs cam1 c)) 1)
   else Some cam)"

definition mtk_camsys_raw_cq_done :: "nat \<Rightarrow> u32 \<Rightarrow> mtk_cam_device \<Rightarrow> mtk_cam_device option" where
  "mtk_camsys_raw_cq_done c n cam = initial_cq c cam \<bind>
     (\<lambda>cam1. ofold (cq_done_one c n) (camsys_state_list (sc cam1 c)) cam1)"

text \<open>The loop over state elements ends at the first request that has the frame.\<close>

fun m2m_trigger_in :: "nat \<Rightarrow> u32 \<Rightarrow> sref list \<Rightarrow> mtk_cam_device \<Rightarrow> mtk_cam_device" where
  "m2m_trigger_in c n [] cam = cam"
| "m2m_trigger_in c n (s # ss) cam = (let sid = stream_id (ctxs cam c); r = fst s in
     case find (\<lambda>i. frame_seq_no (sd cam (r, sid, i)) = n) [0..<s_data_num (p_data (reqs cam r) sid)] of
       None \<Rightarrow> m2m_trigger_in c n ss cam
     | Some i \<Rightarrow>
       let cam1 = (if mtk_cam_is_mstream_m2m (feat (ctxs cam c)) \<and> i \<le> 1
                   then emit (Rawi_trig c (Some i)) (emit (Toggle_db c) cam) else cam)
       in state_transition s E_STATE_OUTER E_STATE_INNER (upd_sc c (\<lambda>k. k\<lparr>isp_request_seq_no := n\<rparr>) cam1))"

definition mtk_camsys_raw_m2m_trigger :: "nat \<Rightarrow> u32 \<Rightarrow> mtk_cam_device \<Rightarrow> mtk_cam_device" where
  "mtk_camsys_raw_m2m_trigger c n cam = (let f = feat (ctxs cam c) in
     if \<not> mtk_cam_feature_is_m2m (fc_feature_active f) then cam
     else m2m_trigger_in c n (camsys_state_list (sc cam c))
       (if mtk_cam_is_mstream_m2m f then cam else emit (Rawi_trig c None) cam))"

definition mtk_camsys_is_all_cq_done :: "nat \<Rightarrow> nat \<Rightarrow> mtk_cam_device \<Rightarrow> bool \<times> mtk_cam_device" where
  "mtk_camsys_is_all_cq_done c p cam = (if is_first_cq_done (ctxs cam c) then (True, cam) else
     let cam1 = upd_ctx c (\<lambda>x. x\<lparr>cq_done_status := cq_done_status x OR push_bit p 1\<rparr>) cam;
         all_subdevs = (if fc_used_raw_num (feat (ctxs cam1 c)) \<noteq> 0 then push_bit (pipe_id (ctxs cam1 c)) 1 else 0)
     in if cq_done_status (ctxs cam1 c) AND all_subdevs = all_subdevs
        then (True, upd_ctx c (\<lambda>x. x\<lparr>is_first_cq_done := True\<rparr>) cam1) else (False, cam1))"

subsection \<open>Starting and stopping a stream\<close>

definition mtk_cam_get_subsample_ratio :: "u32 \<Rightarrow> int" where
  "mtk_cam_get_subsample_ratio f = (let v = f AND MTK_CAM_FEATURE_SUBSAMPLE_MASK in
     if v = 16 then 1 else if v = 32 then 3 else if v = 48 then 7 else if v = 64 then 15 else if v = 80 then 31 else 0)"

definition "SENSOR_SET_DEADLINE_MS = (18::int)"
definition "SENSOR_SET_RESERVED_MS = (7::int)"
definition "SENSOR_SET_DEADLINE_MS_60FPS = (6::int)"
definition "SENSOR_SET_RESERVED_MS_60FPS = (6::int)"
definition "SENSOR_SET_STAGGER_DEADLINE_MS = (23::int)"
definition "SENSOR_SET_STAGGER_RESERVED_MS = (6::int)"

text \<open>With one ratio above 1 and no subsampling the quotient is overwritten.\<close>

definition timer_reqdrained_chk :: "int \<Rightarrow> int \<Rightarrow> int" where
  "timer_reqdrained_chk fps_ratio sub_sample =
    (if 0 < sub_sample then (if 1 < fps_ratio then SENSOR_SET_DEADLINE_MS else SENSOR_SET_DEADLINE_MS * fps_ratio)
     else if sub_sample = 0 \<and> 1 < fps_ratio then SENSOR_SET_DEADLINE_MS_60FPS
     else if 1 < fps_ratio then SENSOR_SET_DEADLINE_MS div fps_ratio
     else SENSOR_SET_DEADLINE_MS)"

definition timer_setsensor :: "int \<Rightarrow> int \<Rightarrow> int" where
  "timer_setsensor fps_ratio sub_sample =
    (if 0 < sub_sample then (if 1 < fps_ratio then SENSOR_SET_RESERVED_MS else SENSOR_SET_RESERVED_MS * fps_ratio)
     else if sub_sample = 0 \<and> 1 < fps_ratio then SENSOR_SET_RESERVED_MS_60FPS
     else if 1 < fps_ratio then SENSOR_SET_RESERVED_MS div fps_ratio
     else SENSOR_SET_RESERVED_MS)"

text \<open>The frame interval is the one the sensor reports: numerator and denominator.\<close>

definition fps_factor :: "u32 \<Rightarrow> u32 \<Rightarrow> int" where
  "fps_factor num den = (if 0 < num then uint (den div num div 30) else 1)"

definition mtk_camsys_ctrl_start :: "nat \<Rightarrow> u32 \<Rightarrow> u32 \<Rightarrow> mtk_cam_device \<Rightarrow> mtk_cam_device" where
  "mtk_camsys_ctrl_start c num den cam = (let x = ctxs cam c; raw = (fc_used_raw_num (feat x) \<noteq> 0);
       factor = (if raw \<or> used_sv_num x \<noteq> 0 then fps_factor num den else 1);
       sub_ratio = (if raw then mtk_cam_get_subsample_ratio (cx_res_raw_feature x) else 0);
       stagger = (mtk_cam_is_stagger (feat x) \<and> factor = 1 \<and> sub_ratio = 0)
     in upd_sc c (\<lambda>k. k\<lparr>sensor_enq_seq_no := 0, sensor_request_seq_no := 0, isp_request_seq_no := 0, isp_enq_seq_no := 0,
          last_drained_seq_no := 0, initial_cq_done := False, sof_time := 0,
          initial_drop_frame_cnt := (if raw then (if is_first_request_sync c cam then INITIAL_DROP_FRAME_CNT else 0)
                                     else initial_drop_frame_cnt k),
          timer_req_event := (if stagger then SENSOR_SET_STAGGER_DEADLINE_MS else timer_reqdrained_chk factor sub_ratio),
          timer_req_sensor := (if stagger then SENSOR_SET_STAGGER_RESERVED_MS else timer_setsensor factor sub_ratio),
          camsys_state_list := [],
          has_sensorsetting_wq := (cx_sensor x \<noteq> None \<or> has_sensorsetting_wq k)\<rparr>) cam)"

definition mtk_camsys_ctrl_update :: "nat \<Rightarrow> u32 \<Rightarrow> u32 \<Rightarrow> mtk_cam_device \<Rightarrow> mtk_cam_device" where
  "mtk_camsys_ctrl_update c num den cam = (let x = ctxs cam c; raw = (fc_used_raw_num (feat x) \<noteq> 0);
       factor = (if raw then fps_factor num den else 1);
       sub_ratio = (if raw then mtk_cam_get_subsample_ratio (cx_res_raw_feature x) else 0)
     in upd_sc c (\<lambda>k. k\<lparr>timer_req_event := timer_reqdrained_chk factor sub_ratio,
          timer_req_sensor := timer_setsensor factor sub_ratio\<rparr>) cam)"

definition mtk_camsys_ctrl_stop :: "nat \<Rightarrow> mtk_cam_device \<Rightarrow> mtk_cam_device" where
  "mtk_camsys_ctrl_stop c cam = (let x = ctxs cam c;
       cam1 = upd_sc c (\<lambda>k. k\<lparr>camsys_state_list := [],
                has_sensorsetting_wq := (cx_sensor x = None \<and> has_sensorsetting_wq k)\<rparr>) cam
     in if fc_used_raw_num (feat x) \<noteq> 0 then emit (Event_eos c) cam1
        else fold (\<lambda>j. emit (Event_sv_eos c j)) [0..<unat (used_sv_num x)] cam1)"

definition mtk_cam_m2m_enter_cq_state :: "sref \<Rightarrow> mtk_cam_device \<Rightarrow> mtk_cam_device" where
  "mtk_cam_m2m_enter_cq_state s = state_transition s E_STATE_SENSOR E_STATE_CQ"

end
