(* ===== verification/CamSof.thy ===== *)
theory CamSof
  imports CamFrame "HOL-Library.Signed_Division"
begin

text \<open>
  Start of frame (\<open>mtk_cam-ctrl.c\<close>): the judgement over the list of state elements, the timer that
  sets the next sensor frame, the choice of the command queue to load, and the dispatch of a raw
  device's interrupt. Clock readings are arguments; an array of the last \<open>STATE_NUM_AT_SOF\<close> states
  that the code does not initialise is a list with \<open>None\<close> in the cells it has not written.
\<close>

definition STATE_NUM_AT_SOF :: nat where "STATE_NUM_AT_SOF = 3"

datatype state_result =
    STATE_RESULT_TRIGGER_CQ sref
  | STATE_RESULT_PASS_CQ_INIT
  | STATE_RESULT_PASS_CQ_SW_DELAY
  | STATE_RESULT_PASS_CQ_SCQ_DELAY
  | STATE_RESULT_PASS_CQ_HW_DELAY

text \<open>The interrupt's data and the clocks: at entry (boot time, monotonic), when the start of frame
  is noted, when the timer is armed, and when a time-shared frame is handed to camsv.\<close>

record irq_info =
  irq_type :: u32
  ts_ns :: u64
  frame_idx :: u32
  frame_idx_inner :: u32
  write_cnt :: u32
  fbc_cnt :: u32
  time_boot :: u64
  time_mono :: u64
  time_sof :: u64
  time_timer :: u64
  time_ts :: u64

subsection \<open>Timers\<close>

definition sensor_seq_no_next :: "nat \<Rightarrow> mtk_cam_device \<Rightarrow> u32" where
  "sensor_seq_no_next c cam = (if mtk_cam_is_subsample (feat (ctxs cam c)) then isp_enq_seq_no (sc cam c) + 1
     else sensor_request_seq_no (sc cam c) + 1)"

definition mtk_cam_request_drained :: "nat \<Rightarrow> mtk_cam_device \<Rightarrow> bool \<times> mtk_cam_device" where
  "mtk_cam_request_drained c cam = (if sint (sensor_seq_no_next c cam) \<le> sint (enqueued_frame_seq_no (ctxs cam c))
     then (False, cam) else (True, emit (Event_request_drained c) cam))"

definition mtk_cam_sv_request_drained :: "nat \<Rightarrow> nat \<Rightarrow> mtk_cam_device \<Rightarrow> mtk_cam_device" where
  "mtk_cam_sv_request_drained c j cam = (if sint (sensor_seq_no_next c cam) \<le> sint (enqueued_frame_seq_no (ctxs cam c))
     then cam else emit (Event_sv_drained c j) cam)"

definition mtk_cam_submit_kwork_in_sensorctrl :: "nat \<Rightarrow> mtk_cam_device \<Rightarrow> mtk_cam_device" where
  "mtk_cam_submit_kwork_in_sensorctrl c cam = (if has_sensorsetting_wq (sc cam c) then emit (Queue_sensor_work c) cam else cam)"

text \<open>The handlers report whether the timer is restarted, and after how many milliseconds.\<close>

definition sensor_set_handler :: "nat \<Rightarrow> mtk_cam_device \<Rightarrow> int option \<times> mtk_cam_device" where
  "sensor_set_handler c cam = (None, mtk_cam_submit_kwork_in_sensorctrl c cam)"

definition sensor_deadline_timer_handler :: "nat \<Rightarrow> mtk_cam_device \<Rightarrow> int option \<times> mtk_cam_device" where
  "sensor_deadline_timer_handler c cam = (let x = ctxs cam c; raw = (fc_used_raw_num (feat x) \<noteq> 0) in
     case (if raw then mtk_cam_request_drained c cam else (False, cam)) of (drained_res, cam1) \<Rightarrow>
     let cam2 = fold (mtk_cam_sv_request_drained c) [0..<unat (used_sv_num x)] cam1 in
     if mtk_cam_is_subsample (feat x) then (None, cam2)
     else if \<not> drained_res \<and> enqueued_frame_seq_no x = sensor_enq_seq_no (sc cam2 c)
       then (None, mtk_cam_submit_kwork_in_sensorctrl c cam2)
     else if raw \<and> fc_feature_active (feat x) = 0
       then (None, upd_sc c (\<lambda>k. k\<lparr>last_drained_seq_no := sensor_request_seq_no k + 1\<rparr>) cam2)
     else (Some (timer_req_sensor (sc cam2 c)), cam2))"

definition sof_timer_ms :: "int \<Rightarrow> int \<Rightarrow> int" where
  "sof_timer_ms timer after = timer - (if after < 0 then 0 else if timer < after then timer - 1 else after)"

definition mtk_cam_sof_timer_setup :: "nat \<Rightarrow> u64 \<Rightarrow> mtk_cam_device \<Rightarrow> mtk_cam_device" where
  "mtk_cam_sof_timer_setup c now cam = (let k = sc cam c;
       after_sof_ms = sint (ucast (now div 1000000 - sof_time k) :: u32)
     in emit (Start_sensor_timer c (sof_timer_ms (timer_req_event k) after_sof_ms))
          (emit (Sof_notify c (sensor_request_seq_no k)) cam))"

definition note_sof :: "nat \<Rightarrow> u64 \<Rightarrow> u64 \<Rightarrow> mtk_cam_device \<Rightarrow> mtk_cam_device" where
  "note_sof c t now cam = mtk_cam_sof_timer_setup c now (upd_sc c (\<lambda>k. k\<lparr>sof_time := t div 1000000\<rparr>) cam)"

subsection \<open>The scan over the state elements\<close>

text \<open>
  The age of a frame against the newest frame \<open>n\<close>, when it fits the array of recorded states.
\<close>

definition stateidx :: "u32 \<Rightarrow> u32 \<Rightarrow> nat option" where
  "stateidx n f = (let i = sint (n - f) in if -1 < i \<and> i < int STATE_NUM_AT_SOF then Some (nat i) else None)"

record sof_scan =
  state_rec :: "sref option list"
  working_req_found :: bool
  state_outer :: "sref option"
  state_inner :: "sref option"
  que_cnt :: nat

definition scan_init :: sof_scan where
  "scan_init = \<lparr>state_rec = [None, None, None], working_req_found = False, state_outer = None, state_inner = None, que_cnt = 0\<rparr>"

definition is_outer :: "MTK_CAMSYS_STATE_IDX \<Rightarrow> bool" where
  "is_outer e = (e = E_STATE_OUTER \<or> e = E_STATE_CAMMUX_OUTER \<or> e = E_STATE_OUTER_HW_DELAY)"

definition is_inner :: "MTK_CAMSYS_STATE_IDX \<Rightarrow> bool" where
  "is_inner e = (e = E_STATE_INNER \<or> e = E_STATE_INNER_HW_DELAY)"

definition raw_scan_one :: "nat \<Rightarrow> irq_info \<Rightarrow> sref \<Rightarrow> sof_scan \<times> mtk_cam_device \<Rightarrow> sof_scan \<times> mtk_cam_device" where
  "raw_scan_one c irq s = (\<lambda>(w, cam). let d = sd cam s;
     (w1, cam1) = (case stateidx (sensor_request_seq_no (sc cam c)) (frame_seq_no d) of
         None \<Rightarrow> (w, cam)
       | Some i \<Rightarrow> (w\<lparr>state_rec := (state_rec w)[i := Some s], working_req_found := working_req_found w \<or> i = 0,
            state_outer := (if is_outer (estate d) then Some s else state_outer w),
            state_inner := (if is_inner (estate d) then Some s else state_inner w)\<rparr>,
          if is_outer (estate d) then mtk_cam_set_timestamp s (time_boot irq) (time_mono irq) cam else cam))
     in (w1\<lparr>que_cnt := Suc (que_cnt w1)\<rparr>, cam1))"

definition raw_scan :: "nat \<Rightarrow> irq_info \<Rightarrow> mtk_cam_device \<Rightarrow> sof_scan \<times> mtk_cam_device" where
  "raw_scan c irq cam = fold (raw_scan_one c irq) (camsys_state_list (sc cam c)) (scan_init, cam)"

text \<open>
  A frame still in the hardware: it is done, or the hardware is late (\<open>True\<close>). The write counter of
  the hardware has eight bits, so the rest of the number is the one of the last request.
\<close>

definition raw_inner_check :: "nat \<Rightarrow> irq_info \<Rightarrow> sref option \<Rightarrow> sref \<Rightarrow> mtk_cam_device \<Rightarrow> (bool \<times> mtk_cam_device) option" where
  "raw_inner_check c irq outer s cam = (let d = sd cam s; isp = isp_request_seq_no (sc cam c);
       wcnt = word_of_int (sint isp sdiv 256 * 256) + write_cnt irq;
       late = mtk_cam_set_timestamp s (time_boot irq - 1000) (time_mono irq - 1000) cam
     in if sint isp < sint (frame_idx_inner irq) \<or> sd_frame_done_queued d then Some (False, cam)
        else if mtk_cam_is_stagger (feat (ctxs cam c)) then Some (False, cam)
        else if frame_seq_no d \<le> wcnt then
          map_option (Pair False) (mtk_camsys_frame_done c wcnt (stream_id (ctxs cam c)) late)
        else if frame_seq_no d - 1 \<le> wcnt \<and> fbc_cnt irq = 0 then
          map_option (Pair False) (mtk_camsys_frame_done c (wcnt + 1) (stream_id (ctxs cam c)) late)
        else
          let cam1 = state_transition s E_STATE_INNER E_STATE_INNER_HW_DELAY cam
          in Some (True, case outer of None \<Rightarrow> cam1
             | Some t \<Rightarrow> state_transition t E_STATE_CAMMUX_OUTER E_STATE_OUTER_HW_DELAY
                 (state_transition t E_STATE_OUTER E_STATE_OUTER_HW_DELAY cam1)))"

text \<open>The frame whose registers the hardware has taken over moves to the inner state.\<close>

definition raw_outer_to_inner :: "nat \<Rightarrow> irq_info \<Rightarrow> sref \<Rightarrow> mtk_cam_device \<Rightarrow> bool \<times> mtk_cam_device" where
  "raw_outer_to_inner c irq s cam = (let k = sc cam c; f = frame_seq_no (sd cam s); n = frame_idx_inner irq in
     if initial_drop_frame_cnt k = 0 \<and> n < f then (True, cam)
     else (False, if initial_drop_frame_cnt k = 0 \<and> f = n \<and> sint (isp_request_seq_no k) < sint n
       then upd_sc c (\<lambda>k. k\<lparr>isp_request_seq_no := n\<rparr>)
         (state_transition s E_STATE_CAMMUX_OUTER E_STATE_INNER (state_transition s E_STATE_OUTER E_STATE_INNER
           (state_transition s E_STATE_OUTER_HW_DELAY E_STATE_INNER_HW_DELAY cam)))
       else cam))"

text \<open>A frame number 1 that was set but never loaded counts as loaded one frame later.\<close>

definition raw_second :: "sof_scan \<Rightarrow> mtk_cam_device \<Rightarrow> mtk_cam_device option" where
  "raw_second w cam = (if 1 < que_cnt w then
     map_option (\<lambda>s. if frame_seq_no (sd cam s) = 1 then state_transition s E_STATE_SENSOR E_STATE_INNER cam else cam)
       (state_rec w ! 1)
   else Some cam)"

definition raw_judge :: "nat \<Rightarrow> sof_scan \<Rightarrow> mtk_cam_device \<Rightarrow> (state_result \<times> mtk_cam_device) option" where
  "raw_judge c w cam = (if que_cnt w = 0 \<or> \<not> working_req_found w then Some (STATE_RESULT_PASS_CQ_SW_DELAY, cam)
     else case state_rec w ! 0 of
       None \<Rightarrow> Some (STATE_RESULT_PASS_CQ_SW_DELAY, cam)
     | Some s \<Rightarrow> let f = sd_feature (sd cam s) in
       if switch_feature_type f \<noteq> 0 \<and> \<not> switch_done f \<and> \<not> mtk_cam_feature_change_is_mstream (switch_feature_type f) then
         map_option (\<lambda>cam1. (STATE_RESULT_TRIGGER_CQ s, state_transition s E_STATE_READY E_STATE_SENSOR cam1))
           (mtk_cam_exp_sensor_switch c s cam)
       else let cam1 = (if estate (sd cam s) = E_STATE_READY
                        then upd_sd s (\<lambda>d. d\<lparr>sd_flags := sd_flags d OR SENSOR_HDL_DELAYED\<rparr>) cam else cam)
         in if estate (sd cam1 s) = E_STATE_SENSOR then Some (STATE_RESULT_TRIGGER_CQ s, cam1)
            else if estate (sd cam1 s) = E_STATE_CQ_SCQ_DELAY
              then Some (STATE_RESULT_PASS_CQ_SCQ_DELAY, state_transition s E_STATE_CQ_SCQ_DELAY E_STATE_OUTER cam1)
            else Some (STATE_RESULT_PASS_CQ_SW_DELAY, cam1))"

definition mtk_camsys_raw_state_handle :: "nat \<Rightarrow> irq_info \<Rightarrow> mtk_cam_device \<Rightarrow> (state_result \<times> mtk_cam_device) option" where
  "mtk_camsys_raw_state_handle c irq cam = (case raw_scan c irq cam of (w, cam1) \<Rightarrow> do {
     (late, cam2) \<leftarrow> (case state_inner w of None \<Rightarrow> Some (False, cam1)
        | Some s \<Rightarrow> raw_inner_check c irq (state_outer w) s cam1);
     if late then Some (STATE_RESULT_PASS_CQ_HW_DELAY, cam2)
     else (case (case state_outer w of None \<Rightarrow> (False, cam2)
             | Some s \<Rightarrow> if has_sensorsetting_wq (sc cam2 c) then raw_outer_to_inner c irq s cam2 else (False, cam2)) of
         (behind, cam3) \<Rightarrow>
           if behind then Some (STATE_RESULT_PASS_CQ_HW_DELAY, cam3)
           else raw_second w (note_sof c (ts_ns irq) (time_timer irq) cam3) \<bind> raw_judge c w) })"

subsection \<open>Subsampled sensors\<close>

definition mtk_cam_subspl_req_prepare :: "nat \<Rightarrow> mtk_cam_device \<Rightarrow> mtk_cam_device option" where
  "mtk_cam_subspl_req_prepare c cam =
    (case mtk_cam_get_req_s_data cam (stream_id (ctxs cam c)) (isp_enq_seq_no (sc cam c) + 1) of
       None \<Rightarrow> Some cam
     | Some s \<Rightarrow> if estate (sd cam s) \<noteq> E_STATE_READY then Some cam
         else if s \<in> set (camsys_state_list (sc cam c)) then None
         else Some (state_transition s E_STATE_READY E_STATE_SUBSPL_READY
           (upd_sc c (\<lambda>k. k\<lparr>camsys_state_list := camsys_state_list k @ [s]\<rparr>) cam)))"

record subspl_scan =
  ss_outer :: "sref option"
  ss_ready :: "sref option"

definition subspl_scan_one :: "nat \<Rightarrow> irq_info \<Rightarrow> sref \<Rightarrow> subspl_scan \<times> mtk_cam_device \<Rightarrow> (subspl_scan \<times> mtk_cam_device) option" where
  "subspl_scan_one c irq s = (\<lambda>(w, cam). map_option (\<lambda>s0. let e = estate (sd cam s) in
     if stateidx (isp_enq_seq_no (sc cam c) + 1) (frame_seq_no (sd cam s0)) = None then (w, cam)
     else let out = (e = E_STATE_SUBSPL_SENSOR \<or> e = E_STATE_SUBSPL_OUTER);
              rdy = (e = E_STATE_SUBSPL_READY \<or> e = E_STATE_SUBSPL_SCQ_DELAY)
       in (w\<lparr>ss_outer := (if out then Some s else ss_outer w), ss_ready := (if rdy then Some s else ss_ready w)\<rparr>,
           if out then mtk_cam_set_timestamp s0 (time_boot irq) (time_mono irq) cam else cam))
     (state_s_data c s cam))"

definition subspl_outer :: "nat \<Rightarrow> irq_info \<Rightarrow> sref \<Rightarrow> mtk_cam_device \<Rightarrow> mtk_cam_device option" where
  "subspl_outer c irq s cam = map_option (\<lambda>s0. let n = frame_idx_inner irq in
     if frame_seq_no (sd cam s0) = n \<and> sint (isp_request_seq_no (sc cam c)) < sint n then
       let cam1 = (if estate (sd cam s) = E_STATE_SUBSPL_OUTER then mtk_cam_submit_kwork_in_sensorctrl c cam else cam)
       in upd_sc c (\<lambda>k. k\<lparr>isp_request_seq_no := n\<rparr>)
            (state_transition s E_STATE_SUBSPL_SENSOR E_STATE_SUBSPL_INNER cam1)
     else cam) (state_s_data c s cam)"

definition subspl_judge :: "nat \<Rightarrow> irq_info \<Rightarrow> sref option \<Rightarrow> mtk_cam_device \<Rightarrow> state_result \<times> mtk_cam_device" where
  "subspl_judge c irq ready cam = (if sint (sensor_request_seq_no (sc cam c)) < sint INITIAL_DROP_FRAME_CNT then
       let cam1 = upd_sc c (\<lambda>k. k\<lparr>isp_request_seq_no := frame_idx_inner irq\<rparr>) cam
       in (STATE_RESULT_PASS_CQ_INIT, case ready of None \<Rightarrow> cam1
            | Some s \<Rightarrow> state_transition s E_STATE_SUBSPL_READY E_STATE_SUBSPL_SCQ cam1)
     else case ready of
       None \<Rightarrow> (STATE_RESULT_PASS_CQ_SW_DELAY, cam)
     | Some s \<Rightarrow> (if estate (sd cam s) = E_STATE_SUBSPL_READY then STATE_RESULT_TRIGGER_CQ s
         else if estate (sd cam s) = E_STATE_SUBSPL_SCQ_DELAY then STATE_RESULT_PASS_CQ_SCQ_DELAY
         else STATE_RESULT_PASS_CQ_SW_DELAY, cam))"

definition mtk_camsys_raw_subspl_state_handle ::
  "nat \<Rightarrow> irq_info \<Rightarrow> mtk_cam_device \<Rightarrow> (state_result \<times> mtk_cam_device) option" where
  "mtk_camsys_raw_subspl_state_handle c irq cam = do {
     cam0 \<leftarrow> mtk_cam_subspl_req_prepare c cam;
     (w, cam1) \<leftarrow> ofold (subspl_scan_one c irq) (camsys_state_list (sc cam0 c)) (\<lparr>ss_outer = None, ss_ready = None\<rparr>, cam0);
     let cam2 = upd_sc c (\<lambda>k. k\<lparr>sof_time := time_sof irq div 1000000\<rparr>) cam1;
     let wq = has_sensorsetting_wq (sc cam2 c);
     if ss_ready w \<noteq> None \<and> wq \<and> initial_drop_frame_cnt (sc cam2 c) = 0 \<and> sint (frame_idx_inner irq) < sint (frame_idx irq)
     then Some (STATE_RESULT_PASS_CQ_HW_DELAY, cam2)
     else do {
       let cam3 = mtk_cam_sof_timer_setup c (time_timer irq) cam2;
       cam4 \<leftarrow> (case ss_outer w of None \<Rightarrow> Some cam3 | Some s \<Rightarrow> if wq then subspl_outer c irq s cam3 else Some cam3);
       Some (subspl_judge c irq (ss_ready w) cam4) } }"

subsection \<open>Loading the next command queue\<close>

definition apply_sv :: "nat \<Rightarrow> nat \<Rightarrow> mtk_cam_device \<Rightarrow> mtk_cam_device option" where
  "apply_sv c b cam = do {
     cam1 \<leftarrow> (if mtk_cam_is_with_w_channel (feat (ctxs cam c))
               then map_option (\<lambda>s. emit (Sv_rgbw_apply_next_buffer s) cam) (cx_wbuf_s_data (ctxs cam c) b) else Some cam);
     Some (if used_sv_num (ctxs cam1 c) \<noteq> 0 then emit (Sv_apply_all_buffers c) cam1 else cam1) }"

definition watchdog_scenario :: "nat \<Rightarrow> mtk_cam_device \<Rightarrow> bool" where
  "watchdog_scenario c cam = (let x = ctxs cam c in
     cx_sensor x \<noteq> None \<and> \<not> mtk_cam_is_m2m (feat x) \<and> fc_used_raw_num (feat x) \<noteq> 0)"

definition loaded_state :: "nat \<Rightarrow> sref option \<Rightarrow> mtk_cam_device \<Rightarrow> mtk_cam_device" where
  "loaded_state c current cam = (case current of None \<Rightarrow> cam
     | Some s \<Rightarrow> let cam1 = emit (Qos_bw_calc s) cam in
         if cx_sensor (ctxs cam1 c) = None then cam1
         else if mtk_cam_is_subsample (feat (ctxs cam1 c)) then state_transition s E_STATE_SUBSPL_READY E_STATE_SUBSPL_SCQ cam1
         else state_transition s E_STATE_SENSOR E_STATE_CQ cam1)"

text \<open>\<open>current\<close> is the frame to load; without a sensor there is none.\<close>

definition load_next :: "nat \<Rightarrow> u32 \<Rightarrow> sref option \<Rightarrow> mtk_cam_device \<Rightarrow> mtk_cam_device option" where
  "load_next c n current cam = (if composed_frame_seq_no (ctxs cam c) \<le> n then Some cam
     else case apply_next_composed c cam of
       (None, cam1) \<Rightarrow> Some cam1
     | (Some b, cam1) \<Rightarrow> apply_sv c b (loaded_state c current cam1))"

text \<open>With staggered exposures the first start of frame only marks the frame; the last one loads it.\<close>

definition mtk_camsys_raw_frame_start :: "nat \<Rightarrow> irq_info \<Rightarrow> mtk_cam_device \<Rightarrow> mtk_cam_device option" where
  "mtk_camsys_raw_frame_start c irq cam = do {
     let n = frame_idx_inner irq;
     let cam1 = (if watchdog_scenario c cam then emit (Watchdog_kick c) cam else cam);
     let cam2 = (if mtk_cam_is_stagger (feat (ctxs cam1 c)) then cam1
                 else upd_ctx c (\<lambda>x. x\<lparr>dequeued_frame_seq_no := n\<rparr>) cam1);
     cam3 \<leftarrow> sof_event (mtk_cam_is_mstream (feat (ctxs cam2 c))) c n cam2;
     if cx_sensor (ctxs cam3 c) = None then load_next c n None cam3
     else do {
       (res, cam4) \<leftarrow> (if mtk_cam_is_subsample (feat (ctxs cam3 c)) then mtk_camsys_raw_subspl_state_handle c irq cam3
                       else mtk_camsys_raw_state_handle c irq cam3);
       (case res of
          STATE_RESULT_TRIGGER_CQ s \<Rightarrow>
            if stagger_en (ctxs cam4 c) then Some (upd_sd s (\<lambda>d. d\<lparr>sd_first_setting_check := True\<rparr>) cam4)
            else load_next c n (Some s) cam4
        | _ \<Rightarrow> Some cam4) } }"

definition mtk_cam_hdr_last_frame_switch_check :: "sref \<Rightarrow> sref \<Rightarrow> mtk_cam_device \<Rightarrow> bool" where
  "mtk_cam_hdr_last_frame_switch_check s s0 cam = (let f = sd_feature (sd cam s0); t = switch_feature_type f; e = estate (sd cam s) in
     (t = EXPOSURE_CHANGE_2_to_1 \<or> t = EXPOSURE_CHANGE_3_to_1) \<and> \<not> switch_done f \<or>
     (t = EXPOSURE_CHANGE_1_to_2 \<or> t = EXPOSURE_CHANGE_1_to_3) \<and> E_STATE_SENSOR < e \<and> e < E_STATE_CAMMUX_OUTER)"

definition hdr_apply_cq_at_last_sof :: "nat \<Rightarrow> sref option \<Rightarrow> irq_info \<Rightarrow> mtk_cam_device \<Rightarrow> mtk_cam_device option" where
  "hdr_apply_cq_at_last_sof c state_sensor irq cam = (let n = frame_idx_inner irq; k = sc cam c in
     if has_sensorsetting_wq k \<and> initial_drop_frame_cnt k = 0 \<and> n < frame_idx irq then Some cam
     else if composed_frame_seq_no (ctxs cam c) \<le> n then Some cam
     else case state_sensor of
       None \<Rightarrow> Some cam
     | Some s \<Rightarrow>
       if bl_list (composed_buffer_list (ctxs cam c)) \<noteq> [] \<and>
          \<not> sd_first_setting_check (sd cam s) \<and> switch_feature_type (sd_feature (sd cam s)) = 0 then Some cam
       else case apply_next_composed c cam of
           (None, cam1) \<Rightarrow> Some cam1
         | (Some b, cam1) \<Rightarrow> let cam2 = emit (Qos_bw_calc s) cam1 in
             apply_sv c b (if cx_sensor (ctxs cam2 c) \<noteq> None then state_transition s E_STATE_SENSOR E_STATE_CQ cam2 else cam2))"

text \<open>The frame to load and the frame whose exposures switch, the latest of the list.\<close>

definition last_scan_one :: "nat \<Rightarrow> mtk_cam_device \<Rightarrow> sref \<Rightarrow> sref option \<times> sref option \<Rightarrow> (sref option \<times> sref option) option" where
  "last_scan_one c cam s = (\<lambda>(state_sensor, state_switch). map_option (\<lambda>s0.
     if stateidx (sensor_request_seq_no (sc cam c)) (frame_seq_no (sd cam s0)) = None then (state_sensor, state_switch)
     else if mtk_cam_hdr_last_frame_switch_check s s0 cam then (Some s, Some s)
     else if estate (sd cam s) = E_STATE_SENSOR then (Some s, state_switch)
     else (state_sensor, state_switch)) (state_s_data c s cam))"

definition mtk_cam_hdr_last_frame_start :: "nat \<Rightarrow> irq_info \<Rightarrow> mtk_cam_device \<Rightarrow> mtk_cam_device option" where
  "mtk_cam_hdr_last_frame_start c irq cam = do {
     let cam1 = upd_ctx c (\<lambda>x. x\<lparr>dequeued_frame_seq_no := frame_idx_inner irq\<rparr>) cam;
     (state_sensor, state_switch) \<leftarrow> ofold (last_scan_one c cam1) (camsys_state_list (sc cam1 c)) (None, None);
     (case state_switch of
        None \<Rightarrow> if stagger_en (ctxs cam1 c) then hdr_apply_cq_at_last_sof c state_sensor irq cam1
               else mtk_camsys_raw_frame_start c irq cam1
      | Some s \<Rightarrow> do {
          s0 \<leftarrow> state_s_data c s cam1;
          cam2 \<leftarrow> mtk_camsys_exp_switch_cam_mux c s0 cam1;
          hdr_apply_cq_at_last_sof c state_sensor irq cam2 }) }"

subsection \<open>Time sharing\<close>

definition ts_scan_one :: "nat \<Rightarrow> irq_info \<Rightarrow> sref \<Rightarrow> sref option \<times> mtk_cam_device \<Rightarrow> (sref option \<times> mtk_cam_device) option" where
  "ts_scan_one c irq s = (\<lambda>(newest, cam). map_option (\<lambda>s0.
     case stateidx (sensor_request_seq_no (sc cam c)) (frame_seq_no (sd cam s0)) of
       None \<Rightarrow> (newest, cam)
     | Some i \<Rightarrow> (if i = 0 then Some s else newest,
         if estate (sd cam s) = E_STATE_TS_SV then mtk_cam_set_timestamp s0 (time_boot irq) (time_mono irq) cam else cam))
     (state_s_data c s cam))"

definition mtk_camsys_ts_state_handle :: "nat \<Rightarrow> irq_info \<Rightarrow> mtk_cam_device \<Rightarrow> (state_result \<times> mtk_cam_device) option" where
  "mtk_camsys_ts_state_handle c irq cam = map_option (\<lambda>(newest, cam1).
     if (\<exists>s. newest = Some s \<and> estate (sd cam1 s) = E_STATE_TS_READY) then (STATE_RESULT_PASS_CQ_SW_DELAY, cam1)
     else let cam2 = note_sof c (time_sof irq) (time_timer irq) cam1 in
       (case newest of
          Some s \<Rightarrow> if estate (sd cam2 s) = E_STATE_TS_SENSOR then STATE_RESULT_TRIGGER_CQ s else STATE_RESULT_PASS_CQ_SW_DELAY
        | None \<Rightarrow> STATE_RESULT_PASS_CQ_SW_DELAY, cam2))
     (ofold (ts_scan_one c irq) (camsys_state_list (sc cam c)) (None, cam))"

definition mtk_camsys_ts_frame_start :: "nat \<Rightarrow> irq_info \<Rightarrow> mtk_cam_device \<Rightarrow> mtk_cam_device option" where
  "mtk_camsys_ts_frame_start c irq cam = (let cam1 = emit (Event_frame_sync c (frame_idx_inner irq)) cam in
     if cx_sensor (ctxs cam1 c) = None then Some cam1
     else do {
       (res, cam2) \<leftarrow> mtk_camsys_ts_state_handle c irq cam1;
       (case res of
          STATE_RESULT_TRIGGER_CQ s \<Rightarrow>
            let cam3 = state_transition s E_STATE_TS_SENSOR E_STATE_TS_SV cam2 in
            map_option (\<lambda>s0. upd_sd s0 (\<lambda>d. d\<lparr>sd_timestamp := time_ts irq\<rparr>)
                (fold (\<lambda>i. if bit (enabled_raw (ctxs cam3 c)) i
                    then emit (Sv_enque c (i - MTKCAM_SUBDEV_CAMSV_START) (frame_seq_no (sd cam3 s0))) else id)
                  (rev [MTKCAM_SUBDEV_CAMSV_START..<MTKCAM_SUBDEV_CAMSV_END]) cam3)) (state_s_data c s cam3)
        | _ \<Rightarrow> Some cam2) })"

subsection \<open>The interrupt of a raw device\<close>

definition CAMSYS_IRQ_SETTING_DONE :: nat where "CAMSYS_IRQ_SETTING_DONE = 0"
definition CAMSYS_IRQ_FRAME_START :: nat where "CAMSYS_IRQ_FRAME_START = 1"
definition CAMSYS_IRQ_AFO_DONE :: nat where "CAMSYS_IRQ_AFO_DONE = 2"
definition CAMSYS_IRQ_FRAME_DONE :: nat where "CAMSYS_IRQ_FRAME_DONE = 3"
definition CAMSYS_IRQ_SUBSAMPLE_SENSOR_SET :: nat where "CAMSYS_IRQ_SUBSAMPLE_SENSOR_SET = 4"

text \<open>\<open>mtk_camsys_event_handle_raw\<close> for the context \<open>c\<close> the raw device works for.\<close>

definition irq_setting_done :: "nat \<Rightarrow> irq_info \<Rightarrow> mtk_cam_device \<Rightarrow> mtk_cam_device option" where
  "irq_setting_done c irq cam = (if mtk_cam_is_m2m (feat (ctxs cam c)) then
       map_option (mtk_camsys_raw_m2m_trigger c (frame_idx irq)) (mtk_camsys_raw_m2m_cq_done c (frame_idx irq) cam)
     else case mtk_camsys_is_all_cq_done c (pipe_id (ctxs cam c)) cam of
       (done, cam1) \<Rightarrow> if done then mtk_camsys_raw_cq_done c (frame_idx irq) cam1 else Some cam1)"

definition irq_frame_done :: "nat \<Rightarrow> irq_info \<Rightarrow> mtk_cam_device \<Rightarrow> mtk_cam_device option" where
  "irq_frame_done c irq cam = (let x = ctxs cam c in
     if mtk_cam_is_m2m (feat x) then mtk_camsys_m2m_frame_done c (frame_idx_inner irq) (stream_id x) cam
     else mtk_camsys_frame_done c (dequeued_frame_seq_no x) (stream_id x) cam)"

definition irq_frame_start :: "nat \<Rightarrow> irq_info \<Rightarrow> mtk_cam_device \<Rightarrow> mtk_cam_device option" where
  "irq_frame_start c irq cam = (if \<not> vf_en (ctxs cam c) then Some cam
     else if mtk_cam_is_stagger (feat (ctxs cam c)) then mtk_cam_hdr_last_frame_start c irq cam
     else mtk_camsys_raw_frame_start c irq cam)"

definition mtk_camsys_event_handle_raw :: "nat \<Rightarrow> irq_info \<Rightarrow> mtk_cam_device \<Rightarrow> mtk_cam_device option" where
  "mtk_camsys_event_handle_raw c irq cam = (let on = bit (irq_type irq) in do {
     cam1 \<leftarrow> (if on CAMSYS_IRQ_SETTING_DONE then irq_setting_done c irq cam else Some cam);
     let cam2 = (if on CAMSYS_IRQ_SUBSAMPLE_SENSOR_SET then mtk_cam_submit_kwork_in_sensorctrl c cam1 else cam1);
     let cam3 = (if on CAMSYS_IRQ_AFO_DONE
                 then mtk_cam_meta1_done c (dequeued_frame_seq_no (ctxs cam2 c)) (stream_id (ctxs cam2 c)) cam2 else cam2);
     cam4 \<leftarrow> (if on CAMSYS_IRQ_FRAME_DONE then irq_frame_done c irq cam3 else Some cam3);
     (if on CAMSYS_IRQ_FRAME_START then irq_frame_start c irq cam4 else Some cam4) })"


subsection \<open>The interrupt of a camsv device\<close>

text \<open>The position of a camsv engine among those the context uses.\<close>

definition mtk_cam_find_sv_dev_index :: "mtk_cam_ctx \<Rightarrow> nat \<Rightarrow> nat option" where
  "mtk_cam_find_sv_dev_index x idx = find (\<lambda>i. used_sv_dev x ! i = push_bit idx 1) [0..<length (used_sv_dev x)]"

definition sv_scan_one :: "nat \<Rightarrow> irq_info \<Rightarrow> sref \<Rightarrow> sof_scan \<times> mtk_cam_device \<Rightarrow> (sof_scan \<times> mtk_cam_device) option" where
  "sv_scan_one c irq s = (\<lambda>(w, cam). map_option (\<lambda>s0.
     let outer = (estate (sd cam s) = E_STATE_OUTER \<or> estate (sd cam s) = E_STATE_OUTER_HW_DELAY);
         w1 = w\<lparr>que_cnt := Suc (que_cnt w)\<rparr>
     in case stateidx (sensor_request_seq_no (sc cam c)) (frame_seq_no (sd cam s0)) of
         None \<Rightarrow> (w1, cam)
       | Some i \<Rightarrow> (w1\<lparr>state_rec := (state_rec w1)[i := Some s], state_outer := (if outer then Some s else state_outer w1)\<rparr>,
           if outer then mtk_cam_set_timestamp s0 (time_boot irq) (time_mono irq) cam else cam))
     (state_s_data c s cam))"

definition sv_outer_to_inner :: "nat \<Rightarrow> u32 \<Rightarrow> sref \<Rightarrow> mtk_cam_device \<Rightarrow> mtk_cam_device option" where
  "sv_outer_to_inner c n s cam = map_option (\<lambda>s0.
     if frame_seq_no (sd cam s0) = n \<and> n = isp_request_seq_no (sc cam c) + 1 then
       upd_sc c (\<lambda>k. k\<lparr>isp_request_seq_no := n\<rparr>)
         (state_transition s E_STATE_OUTER E_STATE_INNER (state_transition s E_STATE_OUTER_HW_DELAY E_STATE_INNER_HW_DELAY cam))
     else cam) (state_s_data c s cam)"

text \<open>The frame whose buffer is to be handed over, if any.\<close>

definition mtk_camsys_camsv_state_handle :: "nat \<Rightarrow> irq_info \<Rightarrow> mtk_cam_device \<Rightarrow> (sref option \<times> mtk_cam_device) option" where
  "mtk_camsys_camsv_state_handle c irq cam = do {
     (w, cam1) \<leftarrow> ofold (sv_scan_one c irq) (camsys_state_list (sc cam c)) (scan_init, cam);
     (case (if STATE_NUM_AT_SOF \<le> que_cnt w then state_rec w ! 1 else None, state_rec w ! 2) of
        (Some s1, Some s2) \<Rightarrow>
          Some (None, upd_sc c (\<lambda>k. k\<lparr>isp_request_seq_no := frame_seq_no (sd cam1 s1)\<rparr>)
            (state_transition s1 E_STATE_OUTER E_STATE_OUTER_HW_DELAY (state_transition s2 E_STATE_INNER E_STATE_INNER_HW_DELAY cam1)))
      | _ \<Rightarrow> do {
          let cam2 = note_sof c (time_sof irq) (time_timer irq) cam1;
          cam3 \<leftarrow> (case state_outer w of None \<Rightarrow> Some cam2 | Some s \<Rightarrow> sv_outer_to_inner c (frame_idx_inner irq) s cam2);
          Some (case state_rec w ! 0 of
             Some s \<Rightarrow> if estate (sd cam3 s) = E_STATE_SENSOR then Some s else None
           | None \<Rightarrow> None, cam3) }) }"

definition CHECK_STATE_DEPTH :: nat where "CHECK_STATE_DEPTH = 3"

definition mtk_camsys_camsv_check_frame_done :: "nat \<Rightarrow> u32 \<Rightarrow> nat \<Rightarrow> mtk_cam_device \<Rightarrow> mtk_cam_device option" where
  "mtk_camsys_camsv_check_frame_done c n p cam = (if cx_sensor (ctxs cam c) = None then Some cam
     else ofold (\<lambda>k. mtk_camsys_frame_done c k p)
       (take CHECK_STATE_DEPTH (filter (\<lambda>k. k < n) (map (\<lambda>s. frame_seq_no (sd cam s)) (camsys_state_list (sc cam c))))) cam)"

text \<open>
  \<open>taken\<close>: whether \<open>mtk_cam_sv_apply_next_buffer\<close> answers that a buffer was there. The pipe whose frames
  are completed is the context's camsv pipe plus the number of the first camsv pipe, as in the code.
\<close>

definition mtk_camsys_camsv_frame_start :: "nat \<Rightarrow> nat \<Rightarrow> bool \<Rightarrow> irq_info \<Rightarrow> mtk_cam_device \<Rightarrow> mtk_cam_device option" where
  "mtk_camsys_camsv_frame_start c e taken irq cam =
    (case mtk_cam_find_sv_dev_index (ctxs cam c) e of
       None \<Rightarrow> Some cam
     | Some i \<Rightarrow> do {
         let n = frame_idx_inner irq;
         let cam1 = emit (Event_sv_frame_sync e n)
           (upd_ctx c (\<lambda>x. x\<lparr>sv_dequeued_frame_seq_no := (sv_dequeued_frame_seq_no x)(i := n)\<rparr>) cam);
         let own = is_camsv_subdev (stream_id (ctxs cam1 c));
         let apply = emit (Sv_apply_next_buffer c (e + MTKCAM_SUBDEV_CAMSV_START) (ts_ns irq));
         if \<not> own then Some (apply cam1)
         else if cx_sensor (ctxs cam1 c) = None
           then map_option apply (mtk_camsys_camsv_check_frame_done c n (stream_id (ctxs cam1 c) + MTKCAM_SUBDEV_CAMSV_START) cam1)
         else do {
           (current, cam2) \<leftarrow> mtk_camsys_camsv_state_handle c irq cam1;
           (case current of
              None \<Rightarrow> Some cam2
            | Some s \<Rightarrow> map_option (\<lambda>cam3. if taken then state_transition s E_STATE_SENSOR E_STATE_OUTER (apply cam3) else apply cam3)
                (mtk_camsys_camsv_check_frame_done c n (stream_id (ctxs cam2 c) + MTKCAM_SUBDEV_CAMSV_START) cam2)) } })"

text \<open>
  \<open>mtk_camsys_event_handle_camsv\<close> for the engine \<open>e\<close>, whose pipeline has the scenario bits \<open>hw_scen\<close>, and
  the context \<open>c\<close> of its master raw pipeline or its own.
\<close>

definition MTKCAM_IPI_HW_PATH_OFFLINE_M2M :: nat where "MTKCAM_IPI_HW_PATH_OFFLINE_M2M = 7"

definition MTK_CAMSV_SUPPORTED_SPECIAL_HW_SCENARIO :: u32 where
  "MTK_CAMSV_SUPPORTED_SPECIAL_HW_SCENARIO = push_bit 9 1 OR push_bit 4 1 OR push_bit 6 1 OR push_bit 5 1 OR push_bit 7 1"

definition sv_special_irq :: "nat \<Rightarrow> nat \<Rightarrow> u32 \<Rightarrow> irq_info \<Rightarrow> mtk_cam_device \<Rightarrow> mtk_cam_device option" where
  "sv_special_irq c e hw_scen irq cam = (let on = bit (irq_type irq) in do {
     cam1 \<leftarrow> (if on CAMSYS_IRQ_FRAME_START then
         (if sv_exp_order cam e = 0 then mtk_camsys_raw_frame_start c irq cam
          else if sv_exp_order cam e = 2 then mtk_cam_hdr_last_frame_start c irq cam else Some cam)
       else Some cam);
     if \<not> bit hw_scen MTKCAM_IPI_HW_PATH_OFFLINE_M2M then Some cam1
     else do {
       cam2 \<leftarrow> (if on CAMSYS_IRQ_FRAME_DONE then do {
           cam2 \<leftarrow> mtk_camsys_ts_sv_done c (frame_idx_inner irq) cam1;
           mtk_camsys_ts_raw_try_set (master_raw (ctxs cam2 c)) c (dequeued_frame_seq_no (ctxs cam2 c) + 1) cam2 }
         else Some cam1);
       (if on CAMSYS_IRQ_FRAME_START then mtk_camsys_ts_frame_start c irq cam2 else Some cam2) } })"

definition mtk_camsys_event_handle_camsv ::
  "nat \<Rightarrow> nat \<Rightarrow> u32 \<Rightarrow> bool \<Rightarrow> irq_info \<Rightarrow> mtk_cam_device \<Rightarrow> (int \<times> mtk_cam_device) option" where
  "mtk_camsys_event_handle_camsv c e hw_scen taken irq cam = (let on = bit (irq_type irq) in
     if hw_scen AND MTK_CAMSV_SUPPORTED_SPECIAL_HW_SCENARIO \<noteq> 0 then map_option (Pair 0) (sv_special_irq c e hw_scen irq cam)
     else if on CAMSYS_IRQ_FRAME_DONE \<and> mtk_cam_find_sv_dev_index (ctxs cam c) e = None then Some (- EINVAL, cam)
     else map_option (Pair 0) (do {
       cam1 \<leftarrow> (case mtk_cam_find_sv_dev_index (ctxs cam c) e of
           Some i \<Rightarrow> if on CAMSYS_IRQ_FRAME_DONE
             then mtk_camsys_frame_done c (sv_dequeued_frame_seq_no (ctxs cam c) i) (e + MTKCAM_SUBDEV_CAMSV_START) cam else Some cam
         | None \<Rightarrow> Some cam);
       (if on CAMSYS_IRQ_FRAME_START then mtk_camsys_camsv_frame_start c e taken irq cam1 else Some cam1) }))"

end
