(* ===== verification/CamStates.thy ===== *)
theory CamStates
  imports CamSof
begin

text \<open>
  The state machine of a frame. Every handler, worker and timer of the camera system is a call; in
  any order of calls a frame moves only along the arrows below.
\<close>

inductive estate_step :: "MTK_CAMSYS_STATE_IDX \<Rightarrow> MTK_CAMSYS_STATE_IDX \<Rightarrow> bool" where
  "estate_step E_STATE_READY E_STATE_SENSOR"
| "estate_step E_STATE_READY E_STATE_SUBSPL_READY"
| "estate_step E_STATE_SENSOR E_STATE_CQ"
| "estate_step E_STATE_SENSOR E_STATE_INNER"
| "estate_step E_STATE_SENSOR E_STATE_OUTER"
| "estate_step E_STATE_SENINF E_STATE_OUTER"
| "estate_step E_STATE_CQ E_STATE_OUTER"
| "estate_step E_STATE_CQ E_STATE_CQ_SCQ_DELAY"
| "estate_step E_STATE_CQ_SCQ_DELAY E_STATE_OUTER"
| "estate_step E_STATE_CQ E_STATE_CAMMUX_OUTER"
| "estate_step E_STATE_OUTER E_STATE_CAMMUX_OUTER"
| "estate_step E_STATE_OUTER E_STATE_CAMMUX_OUTER_CFG"
| "estate_step E_STATE_CAMMUX_OUTER_CFG E_STATE_CAMMUX_OUTER"
| "estate_step E_STATE_CAMMUX_OUTER_CFG E_STATE_CAMMUX_OUTER_CFG_DELAY"
| "estate_step E_STATE_CAMMUX_OUTER_CFG_DELAY E_STATE_INNER"
| "estate_step E_STATE_OUTER E_STATE_OUTER_HW_DELAY"
| "estate_step E_STATE_CAMMUX_OUTER E_STATE_OUTER_HW_DELAY"
| "estate_step E_STATE_OUTER E_STATE_INNER"
| "estate_step E_STATE_CAMMUX_OUTER E_STATE_INNER"
| "estate_step E_STATE_OUTER_HW_DELAY E_STATE_INNER_HW_DELAY"
| "estate_step E_STATE_INNER E_STATE_INNER_HW_DELAY"
| "estate_step E_STATE_INNER E_STATE_DONE_NORMAL"
| "estate_step E_STATE_INNER_HW_DELAY E_STATE_DONE_MISMATCH"
| "estate_step E_STATE_SUBSPL_READY E_STATE_SUBSPL_SCQ"
| "estate_step E_STATE_SUBSPL_READY E_STATE_SUBSPL_OUTER"
| "estate_step E_STATE_SUBSPL_SCQ E_STATE_SUBSPL_OUTER"
| "estate_step E_STATE_SUBSPL_SCQ_DELAY E_STATE_SUBSPL_OUTER"
| "estate_step E_STATE_SUBSPL_OUTER E_STATE_SUBSPL_SENSOR"
| "estate_step E_STATE_SUBSPL_SENSOR E_STATE_SUBSPL_INNER"
| "estate_step E_STATE_SUBSPL_INNER E_STATE_SUBSPL_DONE_NORMAL"
| "estate_step E_STATE_TS_READY E_STATE_TS_SENSOR"
| "estate_step E_STATE_TS_SENSOR E_STATE_TS_SV"
| "estate_step E_STATE_TS_SV E_STATE_TS_MEM"
| "estate_step E_STATE_TS_MEM E_STATE_TS_CQ"
| "estate_step E_STATE_TS_CQ E_STATE_TS_INNER"
| "estate_step E_STATE_TS_INNER E_STATE_TS_DONE_NORMAL"

text \<open>How far a frame has come: no arrow leads back.\<close>

fun estate_rank :: "MTK_CAMSYS_STATE_IDX \<Rightarrow> nat" where
  "estate_rank E_STATE_READY = 0"
| "estate_rank E_STATE_SENINF = 1"
| "estate_rank E_STATE_SENSOR = 2"
| "estate_rank E_STATE_CQ = 3"
| "estate_rank E_STATE_CQ_SCQ_DELAY = 4"
| "estate_rank E_STATE_OUTER = 5"
| "estate_rank E_STATE_CAMMUX_OUTER_CFG = 6"
| "estate_rank E_STATE_CAMMUX_OUTER_CFG_DELAY = 7"
| "estate_rank E_STATE_CAMMUX_OUTER = 7"
| "estate_rank E_STATE_OUTER_HW_DELAY = 8"
| "estate_rank E_STATE_INNER = 9"
| "estate_rank E_STATE_INNER_HW_DELAY = 10"
| "estate_rank E_STATE_DONE_NORMAL = 11"
| "estate_rank E_STATE_DONE_MISMATCH = 11"
| "estate_rank E_STATE_SUBSPL_READY = 1"
| "estate_rank E_STATE_SUBSPL_SCQ = 2"
| "estate_rank E_STATE_SUBSPL_SCQ_DELAY = 2"
| "estate_rank E_STATE_SUBSPL_OUTER = 3"
| "estate_rank E_STATE_SUBSPL_SENSOR = 4"
| "estate_rank E_STATE_SUBSPL_INNER = 5"
| "estate_rank E_STATE_SUBSPL_DONE_NORMAL = 6"
| "estate_rank E_STATE_TS_READY = 0"
| "estate_rank E_STATE_TS_SENSOR = 1"
| "estate_rank E_STATE_TS_SV = 2"
| "estate_rank E_STATE_TS_MEM = 3"
| "estate_rank E_STATE_TS_CQ = 4"
| "estate_rank E_STATE_TS_INNER = 5"
| "estate_rank E_STATE_TS_DONE_NORMAL = 6"

lemma estate_step_rank: "estate_step a b \<Longrightarrow> estate_rank a < estate_rank b"
  by (induction rule: estate_step.induct) simp_all

lemma estate_steps_rank: "estate_step\<^sup>*\<^sup>* a b \<Longrightarrow> a = b \<or> estate_rank a < estate_rank b"
  by (induction rule: rtranclp_induct) (auto dest: estate_step_rank)

lemmas estate_step_simps [simp] = estate_step.intros

subsection \<open>Moves\<close>

definition moves :: "mtk_cam_device \<Rightarrow> mtk_cam_device \<Rightarrow> bool" where
  "moves z cam = (\<forall>s. frame_seq_no (sd cam s) = frame_seq_no (sd z s) \<and>
     switch_feature_type (sd_feature (sd cam s)) = switch_feature_type (sd_feature (sd z s)) \<and>
     (frame_seq_no (sd z s) = 1 \<or> estate_step\<^sup>*\<^sup>* (estate (sd z s)) (estate (sd cam s))))"

lemma moves_refl: "moves z z"
  by (simp add: moves_def)

text \<open>An update that keeps the stream data, or their frame numbers and states, moves nothing.\<close>

lemma moves_sd: "sd cam' = sd cam \<Longrightarrow> moves z cam' = moves z cam"
  by (simp add: moves_def)

lemma sd_more [simp]:
  "sd (upd_sc c g cam) = sd cam" "sd (upd_fs r h cam) = sd cam" "sd (set_busy rw b cam) = sd cam"
  "sd (cam\<lparr>time_shared_busy_ctx_id := k\<rparr>) = sd cam" "sd (cam\<lparr>running_job_list := l, running_job_count := n\<rparr>) = sd cam"
  by (simp_all add: upd_sc_def upd_fs_def set_busy_def sd_def fun_eq_iff split: prod.splits)

lemma moves_simps [simp]:
  "moves z (upd_ctx c f cam) = moves z cam" "moves z (emit e cam) = moves z cam"
  "moves z (upd_sc c g cam) = moves z cam" "moves z (upd_fs r h cam) = moves z cam"
  "moves z (set_busy rw b cam) = moves z cam"
  "moves z (cam\<lparr>time_shared_busy_ctx_id := k\<rparr>) = moves z cam"
  "moves z (cam\<lparr>running_job_list := l, running_job_count := n\<rparr>) = moves z cam"
  by (rule moves_sd; simp)+

lemma moves_upd_req [simp]: "(\<And>q. p_data (f q) = p_data q) \<Longrightarrow> moves z (upd_req r f cam) = moves z cam"
  by (rule moves_sd) simp

lemma moves_upd_sd [simp]:
  "(\<And>d. estate (f d) = estate d) \<Longrightarrow> (\<And>d. frame_seq_no (f d) = frame_seq_no d) \<Longrightarrow>
    (\<And>d. switch_feature_type (sd_feature (f d)) = switch_feature_type (sd_feature d)) \<Longrightarrow>
    moves z (upd_sd s f cam) = moves z cam"
  by (simp add: moves_def)

lemma moves_transition [intro!]:
  assumes "estate_step a b" and "moves z cam"
  shows "moves z (state_transition s a b cam)"
  using assms by (auto simp: moves_def state_transition_def intro: rtranclp.rtrancl_into_rtrancl)

lemma moves_frame: "moves z cam \<Longrightarrow> frame_seq_no (sd cam s) = frame_seq_no (sd z s)"
  "moves z cam \<Longrightarrow> switch_feature_type (sd_feature (sd cam s)) = switch_feature_type (sd_feature (sd z s))"
  unfolding moves_def by blast+

lemma moves_fold:
  assumes "moves z cam" and "\<And>x cam. moves z cam \<Longrightarrow> moves z (f x cam)"
  shows "moves z (fold f xs cam)"
  using assms(1) by (induction xs arbitrary: cam) (auto intro: assms(2))

lemma moves_ofold:
  assumes "ofold f xs cam = Some cam'" and "moves z cam"
    and "\<And>x cam cam'. f x cam = Some cam' \<Longrightarrow> moves z cam \<Longrightarrow> moves z cam'"
  shows "moves z cam'"
  using assms(1,2) by (induction xs arbitrary: cam) (auto split: Option.bind_splits intro: assms(3))

subsection \<open>Every handler moves frames along the arrows\<close>

text \<open>Sensor settings.\<close>

lemma moves_frame_sync_set [simp]: "moves z (snd (mtk_cam_req_frame_sync_set r p v cam)) = moves z cam"
  by (simp add: mtk_cam_req_frame_sync_set_def split: option.split)

lemma moves_frame_sync_contexts [simp]: "moves z (snd (frame_sync_contexts r cs cam)) = moves z cam"
  by (induction r cs cam rule: frame_sync_contexts.induct) (simp_all add: case_prod_beta)

lemma moves_frame_sync_start [simp]: "moves z (snd (mtk_cam_req_frame_sync_start r cam)) = moves z cam"
  by (simp add: mtk_cam_req_frame_sync_start_def Let_def case_prod_beta split: list.split)

lemma moves_frame_sync_end [simp]: "moves z (snd (mtk_cam_req_frame_sync_end r cam)) = moves z cam"
  by (simp add: mtk_cam_req_frame_sync_end_def Let_def)

lemma moves_complete_hdl [simp]: "moves z (mtk_cam_complete_sensor_hdl s cam) = moves z cam"
  by (simp add: mtk_cam_complete_sensor_hdl_def Let_def)

lemma moves_fold_emit [simp]: "moves z (fold (\<lambda>i. emit (e i)) xs cam) = moves z cam"
  by (induction xs arbitrary: cam) simp_all

lemma moves_fold_emit_if [simp]: "moves z (fold (\<lambda>i. if P i then emit (e i) else id) xs cam) = moves z cam"
  by (induction xs arbitrary: cam) simp_all

lemma moves_stream_on [simp]: "moves z (mtk_cam_stream_on c cam) = moves z cam"
  by (simp add: mtk_cam_stream_on_def Let_def)

lemma moves_mstream_mode [simp]: "moves z (mtk_cam_set_sensor_mstream_mode c on cam) = moves z cam"
  by (simp add: mtk_cam_set_sensor_mstream_mode_def)

lemma moves_mstream_exposure:
  "mtk_cam_set_sensor_mstream_exposure c s cam = Some (b, cam') \<Longrightarrow> moves z cam' = moves z cam"
  by (auto simp: mtk_cam_set_sensor_mstream_exposure_def Let_def split: option.splits if_splits)

lemma moves_set_sensor_steps:
  "set_sensor_enqueue c s cam = Some cam1 \<Longrightarrow> moves z cam1 = moves z cam"
  "set_sensor_setup c s b cam = Some cam2 \<Longrightarrow> moves z cam2 = moves z cam"
  "moves z cam \<Longrightarrow> moves z (set_sensor_transition c s cam)"
  "moves z (set_sensor_stream_on c s cam) = moves z cam"
  "set_sensor_mstream_off c s cam = Some cam3 \<Longrightarrow> moves z cam3 = moves z cam"
  "moves z (set_sensor_ts_stream_on c s cam) = moves z cam"
  by (auto simp: set_sensor_enqueue_def set_sensor_setup_def set_sensor_transition_def set_sensor_stream_on_def
      set_sensor_mstream_off_def set_sensor_ts_stream_on_def Let_def split: if_splits)

lemma moves_is_sensor_switch [intro!]: "moves z cam \<Longrightarrow> moves z (snd (is_sensor_switch s cam))"
  by (auto simp: is_sensor_switch_def Let_def)

lemma moves_set_sensor_controls:
  assumes run: "set_sensor_controls c s cam = Some cam'" and z: "moves z cam"
  shows "moves z cam'"
proof -
  obtain cam1 cam2 b cam3 cam4 cam5 cam6 cam7 where
    "cam1 = (if sd_seninf_new (sd cam s) then upd_ctx c (\<lambda>x. x\<lparr>cx_sensor := sd_sensor (sd cam s)\<rparr>) cam else cam)"
    "cam2 = (if fc_used_raw_num (feat (ctxs cam c)) \<noteq> 0 then snd (mtk_cam_req_frame_sync_start (fst s) cam1) else cam1)"
    "(if mtk_cam_is_mstream (feat (ctxs cam2 c)) then mtk_cam_set_sensor_mstream_exposure c s cam2
        else Some (False, cam2)) = Some (b, cam3)"
    "set_sensor_setup c s b cam3 = Some cam4"
    "cam5 = set_sensor_transition c s cam4"
    "cam6 = (if fc_used_raw_num (feat (ctxs cam c)) \<noteq> 0 then snd (mtk_cam_req_frame_sync_end (fst s) cam5) else cam5)"
    "set_sensor_mstream_off c s (set_sensor_stream_on c s cam6) = Some cam7"
    "cam' = set_sensor_ts_stream_on c s (mtk_cam_complete_sensor_hdl s (emit (Tg_flash_setup s) cam7))"
    by (rule set_sensor_controls_SomeE[OF run])
  note st = this
  have "moves z cam2" using z st(1,2) by simp
  then have "moves z cam3" using st(3) moves_mstream_exposure[of c s cam2 b cam3 z] by (auto split: if_splits)
  then have "moves z cam5" using st(4,5) moves_set_sensor_steps(2)[of c s b cam3 cam4 z] moves_set_sensor_steps(3) by simp
  then have "moves z (set_sensor_stream_on c s cam6)" using st(6) moves_set_sensor_steps(4) by simp
  then show ?thesis using st(7,8) moves_set_sensor_steps(5) moves_set_sensor_steps(6) by simp
qed

lemma moves_set_sensor_full: "mtk_cam_set_sensor_full c s cam = Some cam' \<Longrightarrow> moves z cam \<Longrightarrow> moves z cam'"
  using moves_set_sensor_steps(1)[of c s cam _ z]
  by (auto simp: mtk_cam_set_sensor_full_def mtk_cam_m2m_sensor_skip_def case_prod_beta
      split: Option.bind_splits if_splits dest: moves_set_sensor_controls)

lemma moves_set_sensor_subspl: "mtk_cam_set_sensor_subspl c s cam = Some cam' \<Longrightarrow> moves z cam \<Longrightarrow> moves z cam'"
  by (auto simp: mtk_cam_set_sensor_subspl_def Let_def moves_set_sensor_steps(4)
      split: Option.bind_splits if_splits)

lemma moves_try_set_scan:
  "try_set_scan c cam ss = Some cam' \<Longrightarrow> moves z cam \<Longrightarrow> moves z cam'"
proof (induction ss)
  case (Cons s ss)
  have "moves z (state_transition s E_STATE_CQ E_STATE_CQ_SCQ_DELAY cam)"
    "moves z (state_transition s E_STATE_CAMMUX_OUTER_CFG E_STATE_CAMMUX_OUTER_CFG_DELAY cam)"
    using Cons.prems(2) by auto
  then show ?case
    using Cons by (auto simp: Let_def state_transition_def split: if_splits simp del: estate_le estate_less)
qed simp

lemma moves_sensor_worker:
  "mtk_cam_sensor_worker_in_sensorctrl c cam = Some cam' \<Longrightarrow> moves z cam \<Longrightarrow> moves z cam'"
  by (auto simp: mtk_cam_sensor_worker_in_sensorctrl_def mtk_cam_try_set_sensor_subspl_def mtk_cam_try_set_sensor_def Let_def
      split: if_splits option.splits dest: moves_set_sensor_full moves_set_sensor_subspl moves_try_set_scan)

lemma moves_initial_sensor_setup:
  "mtk_cam_initial_sensor_setup r c cam = Some cam' \<Longrightarrow> moves z cam \<Longrightarrow> moves z cam'"
  by (auto simp: mtk_cam_initial_sensor_setup_def split: if_splits option.splits dest: moves_set_sensor_full)

lemma moves_mstream_initial:
  "mtk_cam_mstream_initial_sensor_setup r c cam = Some cam' \<Longrightarrow> moves z cam \<Longrightarrow> moves z cam'"
  by (auto simp: mtk_cam_mstream_initial_sensor_setup_def split: if_splits option.splits Option.bind_splits
      dest: moves_set_sensor_full moves_initial_sensor_setup)

text \<open>Requests and their buffers.\<close>

lemma moves_tx [simp]: "moves z (isp_tx_frame_worker c s cam) = moves z cam"
  by (simp add: isp_tx_frame_worker_def Let_def split: prod.split option.split)

lemma moves_ack_deliver: "moves z cam \<Longrightarrow> moves z (snd (ack_deliver c b s mux tb tm cam))"
  by (auto simp: ack_deliver_def Let_def)

lemma moves_mux_change: "mux_change_with_apply_cq c s n cam = Some (b, cam') \<Longrightarrow> moves z cam' = moves z cam"
  by (auto simp: mux_change_with_apply_cq_def split: prod.splits if_splits option.splits)

lemma moves_ack:
  assumes "isp_composer_handle_ack c n tb tm cam = Some (e, cam')" and "moves z cam"
  shows "moves z cam'"
proof (cases "c \<ge> max_stream_num cam")
  case False
  define cam0 where "cam0 = upd_ctx c (\<lambda>x. x\<lparr>composed_frame_seq_no := n\<rparr>) cam"
  have z: "moves z cam0" using assms(2) by (simp add: cam0_def)
  show ?thesis
    using assms(1) False z moves_mux_change[of c _ n _ _ _ z] moves_ack_deliver[of z]
    by (auto simp: isp_composer_handle_ack_def cam0_def[symmetric] Let_def snd_conv split: prod.splits option.splits)
      (metis moves_simps(1) snd_conv)
qed (use assms in \<open>simp add: isp_composer_handle_ack_def\<close>)

lemma moves_apply_next [simp]: "moves z (snd (apply_next_composed c cam)) = moves z cam"
  by (simp add: apply_next_composed_def split: prod.split option.split)

lemma moves_ctx_option: "ctx_option c f cam = Some cam' \<Longrightarrow> moves z cam' = moves z cam"
  by (auto simp: ctx_option_def)

lemma moves_finish_cq_buf: "finish_cq_buf c s cam = Some cam' \<Longrightarrow> moves z cam' = moves z cam"
  by (auto simp: finish_cq_buf_def Let_def moves_ctx_option split: if_splits option.splits)

lemma moves_finish_img_buf: "finish_img_buf c s cam = Some cam' \<Longrightarrow> moves z cam' = moves z cam"
  by (auto simp: finish_img_buf_def Let_def moves_ctx_option split: if_splits)

lemma moves_state_delete: "mtk_camsys_state_delete c r cam = Some cam' \<Longrightarrow> moves z cam' = moves z cam"
  by (auto simp: mtk_camsys_state_delete_def Let_def split: if_splits option.splits)

lemma moves_deq_del_job: "deq_del_job c s ms cam = Some cam' \<Longrightarrow> moves z cam \<Longrightarrow> moves z cam'"
  by (auto simp: deq_del_job_def moves_state_delete moves_finish_cq_buf moves_finish_img_buf
      split: Option.bind_splits option.splits if_splits)

lemma moves_req_put [simp]: "moves z (mtk_cam_req_put r p cam) = moves z cam"
  by (simp add: mtk_cam_req_put_def mtk_cam_req_return_pipe_buffers_def Let_def s_data_clean_def split: option.split)

lemma moves_deq_return [simp]: "moves z (deq_return n p u s cam) = moves z cam"
  by (simp add: deq_return_def split: option.split)

lemma moves_del_req [simp]: "moves z (mtk_cam_del_req_from_running r cam) = moves z cam"
  by (simp add: mtk_cam_del_req_from_running_def)

lemma moves_deq_one: "deq_one c n p s (k, u, cam) = Some (k', u', cam') \<Longrightarrow> moves z cam \<Longrightarrow> moves z cam'"
  by (auto simp: deq_one_def Let_def split: if_splits Option.bind_splits dest!: moves_deq_del_job[where z = z])

lemma moves_dequeue:
  assumes "mtk_cam_dequeue_req_frame c n p cam = Some (k, cam')" and "moves z cam"
  shows "moves z cam'"
proof -
  have "moves z cam'" if "ofold (deq_one c n p) ss (i, u, cam) = Some (i', u', cam')" "moves z cam" for ss i u cam i' u' cam'
    using that
  proof (induction ss arbitrary: i u cam)
    case (Cons s ss)
    then obtain k1 u1 cam1 where "deq_one c n p s (i, u, cam) = Some (k1, u1, cam1)"
      and rest: "ofold (deq_one c n p) ss (k1, u1, cam1) = Some (i', u', cam')"
      by (cases "deq_one c n p s (i, u, cam)") auto
    then show ?case using Cons.IH[OF rest] Cons.prems(2) moves_deq_one[of c n p s i u cam k1 u1 cam1 z] by simp
  qed simp
  then show ?thesis using assms by (auto simp: mtk_cam_dequeue_req_frame_def)
qed

text \<open>Frame done.\<close>

lemma moves_set_timestamp [simp]: "moves z (mtk_cam_set_timestamp s tb tm cam) = moves z cam"
  by (simp add: mtk_cam_set_timestamp_def)

lemma moves_upd_feature [simp]:
  "(\<And>f. switch_feature_type (g f) = switch_feature_type f) \<Longrightarrow> moves z (upd_feature s g cam) = moves z cam"
  by (simp add: upd_feature_def)

lemma moves_hdr_toggle [simp]: "moves z (mtk_cam_hdr_switch_toggle c f cam) = moves z cam"
  by (simp add: mtk_cam_hdr_switch_toggle_def Let_def split: option.split)

lemma moves_stagger [simp]: "moves z (stagger_enable c cam) = moves z cam" "moves z (stagger_disable c cam) = moves z cam"
  by (simp_all add: stagger_enable_def stagger_disable_def)

lemma moves_ts_sv_done: "mtk_camsys_ts_sv_done c n cam = Some cam' \<Longrightarrow> moves z cam \<Longrightarrow> moves z cam'"
  by (auto simp: mtk_camsys_ts_sv_done_def split: option.splits)

lemma moves_ts_try_set:
  assumes "mtk_camsys_ts_raw_try_set rw c n cam = Some cam'" and "moves z cam"
  shows "moves z cam'"
proof -
  obtain b cam2 where app: "apply_next_composed c (set_busy rw True cam) = (b, cam2)" by fastforce
  then have "moves z cam2" using moves_apply_next[of z c "set_busy rw True cam"] assms(2) by simp
  then show ?thesis
    using assms app by (auto simp: mtk_camsys_ts_raw_try_set_def Let_def split: option.splits if_splits)
qed

lemma moves_frame_done: "mtk_camsys_frame_done c n p cam = Some cam' \<Longrightarrow> moves z cam \<Longrightarrow> moves z cam'"
  by (auto simp: mtk_camsys_frame_done_def Let_def split: Option.bind_splits option.splits if_splits dest!: moves_ts_try_set[where z = z])

lemma moves_m2m_frame_done: "mtk_camsys_m2m_frame_done c n p cam = Some cam' \<Longrightarrow> moves z cam \<Longrightarrow> moves z cam'"
  by (auto simp: mtk_camsys_m2m_frame_done_def)

lemma moves_meta1_done [simp]: "moves z (mtk_cam_meta1_done c n p cam) = moves z cam"
  by (simp add: mtk_cam_meta1_done_def split: option.split)

lemma moves_prepare_in: "prepare_frame_done_in c n ss cam = Some (b, cam') \<Longrightarrow> moves z cam \<Longrightarrow> moves z cam'"
proof (induction ss arbitrary: cam)
  case (Cons s ss)
  define cam1 where "cam1 = state_transition s E_STATE_INNER E_STATE_DONE_NORMAL
    (state_transition s E_STATE_INNER_HW_DELAY E_STATE_DONE_MISMATCH cam)"
  define cam2 where "cam2 = (if isp_request_seq_no (sc cam1 c) = 0 then state_transition s E_STATE_CQ E_STATE_OUTER cam1 else cam1)"
  have "moves z cam1" using Cons.prems(2) unfolding cam1_def by auto
  then have "moves z cam2" unfolding cam2_def by auto
  moreover have "moves z (state_transition s E_STATE_SUBSPL_INNER E_STATE_SUBSPL_DONE_NORMAL cam)"
    "moves z (state_transition s E_STATE_TS_INNER E_STATE_TS_DONE_NORMAL cam)"
    using Cons.prems(2) by auto
  ultimately show ?case
    using Cons.prems[unfolded prepare_frame_done_in.simps Let_def, folded cam1_def, folded cam2_def] Cons.IH
    by (auto split: if_splits option.splits)
qed simp

lemma moves_change_pipeline: "change_pipeline_in r is cam = Some cam' \<Longrightarrow> moves z cam' = moves z cam"
  by (induction "is") (auto split: if_splits option.splits)

lemma moves_handle_frame_done: "mtk_cam_handle_frame_done c n p cam = Some cam' \<Longrightarrow> moves z cam \<Longrightarrow> moves z cam'"
  by (auto simp: mtk_cam_handle_frame_done_def mtk_camsys_raw_prepare_frame_done_def mtk_camsys_raw_change_pipeline_def Let_def
      moves_change_pipeline[where z = z] split: Option.bind_splits if_splits option.splits
      dest!: moves_prepare_in[where z = z] moves_dequeue[where z = z])

lemma moves_sof_event: "sof_event m c n cam = Some cam' \<Longrightarrow> moves z cam' = moves z cam"
  by (auto simp: sof_event_def mtk_cam_mstream_frame_sync_def report_working_def Let_def split: if_splits option.splits)

lemma moves_exp_switch_mux:
  "mtk_camsys_exp_switch_cam_mux c s cam = Some cam' \<Longrightarrow> moves z cam \<Longrightarrow> moves z cam'"
  by (auto simp: mtk_camsys_exp_switch_cam_mux_def exp_switch_state_def Let_def split: if_splits option.splits)

lemma moves_exp_switch_sensor:
  "mtk_cam_exp_switch_sensor s cam = Some cam' \<Longrightarrow> moves z cam \<Longrightarrow> moves z cam'"
  by (auto simp: mtk_cam_exp_switch_sensor_def Let_def split: Option.bind_splits if_splits)

lemma moves_exp_sensor_switch:
  "mtk_cam_exp_sensor_switch c s cam = Some cam' \<Longrightarrow> moves z cam \<Longrightarrow> moves z cam'"
  by (auto simp: mtk_cam_exp_sensor_switch_def Let_def split: Option.bind_splits if_splits
      dest!: moves_exp_switch_sensor[where z = z] dest: moves_exp_switch_mux)

lemma moves_seamless_work: "mtk_cam_seamless_switch_work s cam = Some cam' \<Longrightarrow> moves z cam \<Longrightarrow> moves z cam'"
  by (auto simp: mtk_cam_seamless_switch_work_def Let_def split: Option.bind_splits if_splits)

lemma moves_link_worker [simp]: "moves z (mtk_cam_link_change_worker r cam) = moves z cam"
  by (simp add: mtk_cam_link_change_worker_def)

lemma moves_toggle_ctx [simp]: "moves z (fold toggle_ctx xs cam) = moves z cam"
  by (induction xs arbitrary: cam) (simp_all add: toggle_ctx_def)

lemma moves_mux_switch [simp]: "moves z (mtk_cam_handle_mux_switch r cam) = moves z cam"
  by (simp add: mtk_cam_handle_mux_switch_def)

lemma moves_mstream_mux_switch: "mtk_cam_handle_mstream_mux_switch c s cam = Some cam' \<Longrightarrow> moves z cam' = moves z cam"
  by (auto simp: mtk_cam_handle_mstream_mux_switch_def split: if_splits)

lemma moves_cq_done_subspl: "moves z cam \<Longrightarrow> moves z (cq_done_subspl c s cam)"
  by (auto simp: cq_done_subspl_def Let_def simp del: estate_le estate_less)

lemma moves_cq_done_ts: "moves z cam \<Longrightarrow> moves z (cq_done_ts c n s cam)"
  by (auto simp: cq_done_ts_def)

text \<open>The first frame's state is written without looking at it.\<close>

lemma moves_cq_done_states: "moves z cam \<Longrightarrow> frame_seq_no (sd cam s) = n \<Longrightarrow> moves z (cq_done_states n s cam)"
proof -
  assume z: "moves z cam" "frame_seq_no (sd cam s) = n"
  have "moves z (if n = 1 then upd_sd s (\<lambda>d. d\<lparr>estate := E_STATE_OUTER\<rparr>) cam else cam)"
    using z by (auto simp: moves_def)
  then show ?thesis unfolding cq_done_states_def by auto
qed

lemma moves_cq_done_switch [simp]: "moves z (cq_done_switch c s cam) = moves z cam"
  by (simp add: cq_done_switch_def Let_def)

lemma moves_seamless: "moves z cam \<Longrightarrow> moves z (mtk_cam_handle_seamless_switch s cam)"
  by (auto simp: mtk_cam_handle_seamless_switch_def)

lemma moves_cq_done_one: "cq_done_one c n s cam = Some cam' \<Longrightarrow> moves z cam \<Longrightarrow> moves z cam'"
  using moves_seamless[of z "cq_done_switch c s (cq_done_states n s cam)" s] moves_cq_done_states[of z cam s n]
  by (auto simp: cq_done_one_def cq_done_normal_def Let_def moves_mstream_mux_switch
      split: if_splits intro: moves_cq_done_subspl moves_cq_done_ts)

lemma moves_raw_cq_done: "mtk_camsys_raw_cq_done c n cam = Some cam' \<Longrightarrow> moves z cam \<Longrightarrow> moves z cam'"
  by (auto simp: mtk_camsys_raw_cq_done_def initial_cq_def Let_def split: Option.bind_splits if_splits
      elim!: moves_ofold dest: moves_cq_done_one simp del: estate_le estate_less)

lemma moves_m2m_cq_done: "mtk_camsys_raw_m2m_cq_done c n cam = Some cam' \<Longrightarrow> moves z cam \<Longrightarrow> moves z cam'"
  unfolding mtk_camsys_raw_m2m_cq_done_def
  by (erule moves_ofold) (auto simp: m2m_cq_done_one_def split: if_splits)

lemma moves_m2m_trigger: "moves z cam \<Longrightarrow> moves z (mtk_camsys_raw_m2m_trigger c n cam)"
proof -
  have "moves z cam \<Longrightarrow> moves z (m2m_trigger_in c n ss cam)" for ss cam
    by (induction ss) (auto simp: Let_def split: option.split)
  then show "moves z cam \<Longrightarrow> ?thesis" by (simp add: mtk_camsys_raw_m2m_trigger_def Let_def)
qed

lemma moves_all_cq_done [simp]: "moves z (snd (mtk_camsys_is_all_cq_done c p cam)) = moves z cam"
  by (simp add: mtk_camsys_is_all_cq_done_def Let_def)

lemma moves_ctrl [simp]:
  "moves z (mtk_camsys_ctrl_start c num den cam) = moves z cam" "moves z (mtk_camsys_ctrl_update c num den cam) = moves z cam"
  "moves z (mtk_camsys_ctrl_stop c cam) = moves z cam"
  by (simp_all add: mtk_camsys_ctrl_start_def mtk_camsys_ctrl_update_def mtk_camsys_ctrl_stop_def Let_def)

text \<open>Memory-to-memory frames.\<close>

lemma moves_m2m_inner_done: "m2m_inner_done c n cam = Some cam' \<Longrightarrow> moves z cam \<Longrightarrow> moves z cam'"
  by (auto simp: m2m_inner_done_def split: option.splits)

lemma moves_m2m_dequeue: "m2m_dequeue c n cam = Some (k, cam') \<Longrightarrow> moves z cam \<Longrightarrow> moves z cam'"
  by (auto simp: m2m_dequeue_def Let_def split: if_splits Option.bind_splits dest: moves_dequeue)

lemma moves_m2m_apply_next: "m2m_apply_next c st tb tm cam = Some (b, cam') \<Longrightarrow> moves z cam \<Longrightarrow> moves z cam'"
  by (auto simp: m2m_apply_next_def Let_def split: if_splits option.splits prod.splits)

lemma moves_handle_m2m: "mtk_cam_handle_m2m_frame_done c n tb tm cam = Some cam' \<Longrightarrow> moves z cam \<Longrightarrow> moves z cam'"
  by (auto simp: mtk_cam_handle_m2m_frame_done_def Let_def moves_sof_event[where z = z] split: if_splits Option.bind_splits
      dest!: moves_m2m_inner_done[where z = z] moves_m2m_dequeue[where z = z] moves_m2m_apply_next[where z = z])

lemma moves_frame_done_work: "mtk_cam_frame_done_work c s tb tm cam = Some cam' \<Longrightarrow> moves z cam \<Longrightarrow> moves z cam'"
  by (auto simp: mtk_cam_frame_done_work_def split: if_splits dest: moves_handle_m2m moves_handle_frame_done)

text \<open>Start of frame.\<close>

lemma moves_raw_scan [simp]: "moves z (snd (raw_scan c irq cam)) = moves z cam"
proof -
  have "moves z (snd (fold (raw_scan_one c irq) ss wc)) = moves z (snd wc)" for ss wc
    by (induction ss arbitrary: wc) (simp_all add: raw_scan_one_def Let_def split: prod.split option.split)
  then show ?thesis by (simp add: raw_scan_def)
qed

lemma moves_timer [simp]:
  "moves z (mtk_cam_sof_timer_setup c now cam) = moves z cam" "moves z (note_sof c t now cam) = moves z cam"
  "moves z (mtk_cam_submit_kwork_in_sensorctrl c cam) = moves z cam"
  by (simp_all add: note_sof_def mtk_cam_sof_timer_setup_def mtk_cam_submit_kwork_in_sensorctrl_def Let_def)

lemma moves_deadline_timer [simp]: "moves z (snd (sensor_deadline_timer_handler c cam)) = moves z cam"
proof -
  have "moves z (fold (mtk_cam_sv_request_drained c) xs cam) = moves z cam" for xs cam
    by (induction xs arbitrary: cam) (simp_all add: mtk_cam_sv_request_drained_def)
  then show ?thesis
    by (simp add: sensor_deadline_timer_handler_def mtk_cam_request_drained_def Let_def split: prod.split)
qed

lemma moves_inner_check:
  "raw_inner_check c irq out s cam = Some (b, cam') \<Longrightarrow> moves z cam \<Longrightarrow> moves z cam'"
  by (auto simp: raw_inner_check_def Let_def split: if_splits option.splits dest!: moves_frame_done[where z = z])

lemma moves_outer_to_inner: "raw_outer_to_inner c irq s cam = (b, cam') \<Longrightarrow> moves z cam \<Longrightarrow> moves z cam'"
  by (auto simp: raw_outer_to_inner_def Let_def split: if_splits)

lemma moves_raw_second: "raw_second w cam = Some cam' \<Longrightarrow> moves z cam \<Longrightarrow> moves z cam'"
  by (auto simp: raw_second_def split: if_splits)

lemma moves_raw_judge: "raw_judge c w cam = Some (res, cam') \<Longrightarrow> moves z cam \<Longrightarrow> moves z cam'"
  by (auto simp: raw_judge_def Let_def split: if_splits option.splits dest!: moves_exp_sensor_switch[where z = z])

lemma moves_raw_state_handle:
  assumes run: "mtk_camsys_raw_state_handle c irq cam = Some (res, cam')" and z: "moves z cam"
  shows "moves z cam'"
proof -
  obtain w cam1 where scan: "raw_scan c irq cam = (w, cam1)" by fastforce
  have z1: "moves z cam1" using moves_raw_scan[of z c irq cam] scan z by simp
  note run = run[unfolded mtk_camsys_raw_state_handle_def scan prod.case]
  obtain y where y: "(case state_inner w of None \<Rightarrow> Some (False, cam1)
        | Some s \<Rightarrow> raw_inner_check c irq (state_outer w) s cam1) = Some y"
    using run unfolding bind_eq_Some_conv by blast
  obtain late cam2 where [simp]: "y = (late, cam2)" by (cases y)
  have z2: "moves z cam2" using y z1 by (auto split: option.splits dest: moves_inner_check)
  show ?thesis
  proof (cases late)
    case True
    then show ?thesis using run z2 by (simp add: y)
  next
    case False
    obtain behind cam3 where outer: "(case state_outer w of None \<Rightarrow> (False, cam2)
             | Some s \<Rightarrow> if has_sensorsetting_wq (sc cam2 c) then raw_outer_to_inner c irq s cam2 else (False, cam2)) = (behind, cam3)"
      by fastforce
    then have z3: "moves z cam3" using z2 by (auto split: option.splits if_splits dest: moves_outer_to_inner)
    show ?thesis
    proof (cases behind)
      case True
      then show ?thesis using run False outer z3 by (simp add: y)
    next
      case B: False
      obtain cam4 where sec: "raw_second w (note_sof c (ts_ns irq) (time_timer irq) cam3) = Some cam4"
        and judge: "raw_judge c w cam4 = Some (res, cam')"
        using run False outer B by (auto simp: y split: Option.bind_splits)
      have "moves z cam4" by (rule moves_raw_second[OF sec]) (use z3 in simp)
      then show ?thesis by (rule moves_raw_judge[OF judge])
    qed
  qed
qed

lemma moves_subspl_prepare: "mtk_cam_subspl_req_prepare c cam = Some cam' \<Longrightarrow> moves z cam \<Longrightarrow> moves z cam'"
  by (auto simp: mtk_cam_subspl_req_prepare_def split: if_splits option.splits)

lemma moves_subspl_scan:
  "ofold (subspl_scan_one c irq) ss wc = Some wc' \<Longrightarrow> moves z (snd wc') = moves z (snd wc)"
  by (induction ss arbitrary: wc) (auto simp: subspl_scan_one_def Let_def split: Option.bind_splits prod.splits if_splits)

lemma moves_subspl_outer: "subspl_outer c irq s cam = Some cam' \<Longrightarrow> moves z cam \<Longrightarrow> moves z cam'"
  by (auto simp: subspl_outer_def Let_def)

lemma moves_subspl_judge: "subspl_judge c irq ready cam = (res, cam') \<Longrightarrow> moves z cam \<Longrightarrow> moves z cam'"
  by (auto simp: subspl_judge_def Let_def split: if_splits option.splits)

lemma moves_subspl_handle:
  "mtk_camsys_raw_subspl_state_handle c irq cam = Some (res, cam') \<Longrightarrow> moves z cam \<Longrightarrow> moves z cam'"
  by (auto simp: mtk_camsys_raw_subspl_state_handle_def Let_def split: Option.bind_splits if_splits option.splits
      dest!: moves_subspl_prepare[where z = z] moves_subspl_scan[where z = z] moves_subspl_outer[where z = z]
        moves_subspl_judge[where z = z])

lemma moves_apply_sv: "apply_sv c b cam = Some cam' \<Longrightarrow> moves z cam' = moves z cam"
  by (auto simp: apply_sv_def split: Option.bind_splits if_splits)

lemma moves_loaded [intro!]: "moves z cam \<Longrightarrow> moves z (loaded_state c cur cam)"
  by (auto simp: loaded_state_def Let_def split: option.split)

lemma moves_load_next: "load_next c n cur cam = Some cam' \<Longrightarrow> moves z cam \<Longrightarrow> moves z cam'"
  using moves_apply_next[of z c cam]
  by (cases "apply_next_composed c cam") (auto simp: load_next_def moves_apply_sv[where z = z] split: if_splits option.splits)

lemma moves_raw_frame_start: "mtk_camsys_raw_frame_start c irq cam = Some cam' \<Longrightarrow> moves z cam \<Longrightarrow> moves z cam'"
  by (auto simp: mtk_camsys_raw_frame_start_def Let_def moves_sof_event[where z = z]
      split: Option.bind_splits if_splits state_result.splits
      dest!: moves_load_next[where z = z] moves_raw_state_handle[where z = z] moves_subspl_handle[where z = z])

lemma moves_last_sof: "hdr_apply_cq_at_last_sof c st irq cam = Some cam' \<Longrightarrow> moves z cam \<Longrightarrow> moves z cam'"
  using moves_apply_next[of z c cam]
  by (cases "apply_next_composed c cam")
    (auto simp: hdr_apply_cq_at_last_sof_def Let_def moves_apply_sv[where z = z] split: if_splits option.splits)

lemma moves_last_frame_start: "mtk_cam_hdr_last_frame_start c irq cam = Some cam' \<Longrightarrow> moves z cam \<Longrightarrow> moves z cam'"
  by (auto simp: mtk_cam_hdr_last_frame_start_def Let_def split: Option.bind_splits if_splits option.splits
      dest!: moves_exp_switch_mux[where z = z] moves_raw_frame_start[where z = z] moves_last_sof[where z = z])

lemma moves_ts_scan: "ofold (ts_scan_one c irq) ss wc = Some wc' \<Longrightarrow> moves z (snd wc') = moves z (snd wc)"
  by (induction ss arbitrary: wc) (auto simp: ts_scan_one_def split: Option.bind_splits prod.splits option.splits if_splits)

lemma moves_ts_state_handle: "mtk_camsys_ts_state_handle c irq cam = Some (res, cam') \<Longrightarrow> moves z cam' = moves z cam"
  by (auto simp: mtk_camsys_ts_state_handle_def Let_def split: if_splits dest!: moves_ts_scan[where z = z])

lemma moves_ts_frame_start: "mtk_camsys_ts_frame_start c irq cam = Some cam' \<Longrightarrow> moves z cam \<Longrightarrow> moves z cam'"
  by (auto simp: mtk_camsys_ts_frame_start_def Let_def moves_ts_state_handle[where z = z]
      split: Option.bind_splits if_splits state_result.splits)

lemma moves_event_handle_raw: "mtk_camsys_event_handle_raw c irq cam = Some cam' \<Longrightarrow> moves z cam \<Longrightarrow> moves z cam'"
proof -
  assume run: "mtk_camsys_event_handle_raw c irq cam = Some cam'" and z: "moves z cam"
  have set: "irq_setting_done c irq cam = Some cam' \<Longrightarrow> moves z cam \<Longrightarrow> moves z cam'" for cam cam'
    using moves_all_cq_done[of z c "pipe_id (ctxs cam c)" cam]
    by (cases "mtk_camsys_is_all_cq_done c (pipe_id (ctxs cam c)) cam")
      (auto simp: irq_setting_done_def split: if_splits
        dest: moves_raw_cq_done dest!: moves_m2m_cq_done[where z = z] intro: moves_m2m_trigger)
  have dn: "irq_frame_done c irq cam = Some cam' \<Longrightarrow> moves z cam \<Longrightarrow> moves z cam'" for cam cam'
    by (auto simp: irq_frame_done_def Let_def split: if_splits dest: moves_m2m_frame_done moves_frame_done)
  have start: "irq_frame_start c irq cam = Some cam' \<Longrightarrow> moves z cam \<Longrightarrow> moves z cam'" for cam cam'
    by (auto simp: irq_frame_start_def split: if_splits dest: moves_last_frame_start moves_raw_frame_start)
  show "moves z cam'"
    using run z by (auto simp: mtk_camsys_event_handle_raw_def Let_def split: Option.bind_splits if_splits
        dest!: set dn start)
qed

text \<open>The interrupts of camsv.\<close>

lemma moves_sv_scan: "ofold (sv_scan_one c irq) ss wc = Some wc' \<Longrightarrow> moves z (snd wc') = moves z (snd wc)"
  by (induction ss arbitrary: wc) (auto simp: sv_scan_one_def Let_def split: Option.bind_splits prod.splits option.splits if_splits)

lemma moves_sv_outer: "sv_outer_to_inner c n s cam = Some cam' \<Longrightarrow> moves z cam \<Longrightarrow> moves z cam'"
  by (auto simp: sv_outer_to_inner_def)

lemma moves_sv_handle: "mtk_camsys_camsv_state_handle c irq cam = Some (cur, cam') \<Longrightarrow> moves z cam \<Longrightarrow> moves z cam'"
  by (auto simp: mtk_camsys_camsv_state_handle_def note_sof_def mtk_cam_sof_timer_setup_def Let_def
      split: Option.bind_splits option.splits prod.splits dest!: moves_sv_scan[where z = z] moves_sv_outer[where z = z])

lemma moves_sv_check: "mtk_camsys_camsv_check_frame_done c n p cam = Some cam' \<Longrightarrow> moves z cam \<Longrightarrow> moves z cam'"
  by (auto simp: mtk_camsys_camsv_check_frame_done_def split: if_splits elim!: moves_ofold intro: moves_frame_done)

lemma moves_sv_frame_start: "mtk_camsys_camsv_frame_start c e ok irq cam = Some cam' \<Longrightarrow> moves z cam \<Longrightarrow> moves z cam'"
  by (auto simp: mtk_camsys_camsv_frame_start_def Let_def split: Option.bind_splits if_splits option.splits
      dest!: moves_sv_handle[where z = z] moves_sv_check[where z = z])

lemma moves_sv_special: "sv_special_irq c e hw irq cam = Some cam' \<Longrightarrow> moves z cam \<Longrightarrow> moves z cam'"
  by (auto simp: sv_special_irq_def Let_def split: Option.bind_splits if_splits
      dest!: moves_raw_frame_start[where z = z] moves_last_frame_start[where z = z] moves_ts_sv_done[where z = z]
        moves_ts_try_set[where z = z] moves_ts_frame_start[where z = z])

lemma moves_event_handle_camsv:
  "mtk_camsys_event_handle_camsv c e hw ok irq cam = Some (k, cam') \<Longrightarrow> moves z cam \<Longrightarrow> moves z cam'"
  by (auto simp: mtk_camsys_event_handle_camsv_def Let_def split: Option.bind_splits if_splits option.splits
      dest!: moves_sv_special[where z = z] moves_frame_done[where z = z] moves_sv_frame_start[where z = z])

subsection \<open>Any order of calls\<close>

text \<open>The entries of the camera system, each for a context.\<close>

datatype cam_call =
    Call_irq nat irq_info
  | Call_sv_irq nat nat u32 bool irq_info
  | Call_ts_frame_start nat irq_info
  | Call_ts_sv_done nat u32
  | Call_ts_try_set nat nat u32
  | Call_deadline_timer nat
  | Call_sensor_set_timer nat
  | Call_sensor_worker nat
  | Call_initial_sensor nat nat
  | Call_mstream_initial_sensor nat nat
  | Call_frame_done_work nat sref u64 u64
  | Call_frame_done nat u32 nat
  | Call_seamless_switch_work sref
  | Call_link_change_work nat
  | Call_tx_frame nat sref
  | Call_composer_ack nat u32 u64 u64
  | Call_enter_cq sref
  | Call_ctrl_start nat u32 u32
  | Call_ctrl_update nat u32 u32
  | Call_ctrl_stop nat

fun cam_call_run :: "cam_call \<Rightarrow> mtk_cam_device \<Rightarrow> mtk_cam_device option" where
  "cam_call_run (Call_irq c irq) cam = mtk_camsys_event_handle_raw c irq cam"
| "cam_call_run (Call_sv_irq c e hw taken irq) cam = map_option snd (mtk_camsys_event_handle_camsv c e hw taken irq cam)"
| "cam_call_run (Call_ts_frame_start c irq) cam = mtk_camsys_ts_frame_start c irq cam"
| "cam_call_run (Call_ts_sv_done c n) cam = mtk_camsys_ts_sv_done c n cam"
| "cam_call_run (Call_ts_try_set rw c n) cam = mtk_camsys_ts_raw_try_set rw c n cam"
| "cam_call_run (Call_deadline_timer c) cam = Some (snd (sensor_deadline_timer_handler c cam))"
| "cam_call_run (Call_sensor_set_timer c) cam = Some (snd (sensor_set_handler c cam))"
| "cam_call_run (Call_sensor_worker c) cam = mtk_cam_sensor_worker_in_sensorctrl c cam"
| "cam_call_run (Call_initial_sensor r c) cam = mtk_cam_initial_sensor_setup r c cam"
| "cam_call_run (Call_mstream_initial_sensor r c) cam = mtk_cam_mstream_initial_sensor_setup r c cam"
| "cam_call_run (Call_frame_done_work c s tb tm) cam = mtk_cam_frame_done_work c s tb tm cam"
| "cam_call_run (Call_frame_done c n p) cam = mtk_camsys_frame_done c n p cam"
| "cam_call_run (Call_seamless_switch_work s) cam = mtk_cam_seamless_switch_work s cam"
| "cam_call_run (Call_link_change_work r) cam = Some (mtk_cam_link_change_worker r cam)"
| "cam_call_run (Call_tx_frame c s) cam = Some (isp_tx_frame_worker c s cam)"
| "cam_call_run (Call_composer_ack c n tb tm) cam = map_option snd (isp_composer_handle_ack c n tb tm cam)"
| "cam_call_run (Call_enter_cq s) cam = Some (mtk_cam_m2m_enter_cq_state s cam)"
| "cam_call_run (Call_ctrl_start c num den) cam = Some (mtk_camsys_ctrl_start c num den cam)"
| "cam_call_run (Call_ctrl_update c num den) cam = Some (mtk_camsys_ctrl_update c num den cam)"
| "cam_call_run (Call_ctrl_stop c) cam = Some (mtk_camsys_ctrl_stop c cam)"

lemma moves_cam_call:
  assumes "cam_call_run call cam = Some cam'" and "moves z cam"
  shows "moves z cam'"
proof (cases call)
  case (Call_irq c irq)
  then show ?thesis using assms by (auto dest: moves_event_handle_raw)
next
  case (Call_sv_irq c e hw taken irq)
  then show ?thesis using assms by (auto dest: moves_event_handle_camsv)
next
  case (Call_ts_frame_start c irq)
  then show ?thesis using assms by (auto dest: moves_ts_frame_start)
next
  case (Call_frame_done_work c s tb tm)
  then show ?thesis using assms by (auto dest: moves_frame_done_work)
next
  case (Call_composer_ack c n tb tm)
  then show ?thesis using assms moves_ack[of c n tb tm cam _ _ z] by auto
qed (use assms in \<open>auto simp: sensor_set_handler_def mtk_cam_m2m_enter_cq_state_def
    dest: moves_ts_sv_done moves_ts_try_set moves_sensor_worker moves_initial_sensor_setup moves_mstream_initial
      moves_frame_done moves_seamless_work\<close>)

text \<open>C1. In any order of raw and camsv interrupts, timers, workers and composer answers that does not end in a
  fault of the code, every frame other than the first moves only forward through its states: along the
  arrows of the state machine, so that it is in the state it was in or has a higher rank, and its
  number never changes. (Frame number 1 is excluded: its state is overwritten when its command queue
  is loaded.)
\<close>

theorem frames_only_move_forward:
  assumes "ofold cam_call_run calls cam = Some cam'" and "frame_seq_no (sd cam s) \<noteq> 1"
  shows "frame_seq_no (sd cam' s) = frame_seq_no (sd cam s)
    \<and> estate_step\<^sup>*\<^sup>* (estate (sd cam s)) (estate (sd cam' s))
    \<and> (estate (sd cam' s) = estate (sd cam s) \<or> estate_rank (estate (sd cam s)) < estate_rank (estate (sd cam' s)))"
proof -
  have "moves cam cam'" by (rule moves_ofold[OF assms(1) moves_refl moves_cam_call])
  then have "frame_seq_no (sd cam' s) = frame_seq_no (sd cam s)"
    "estate_step\<^sup>*\<^sup>* (estate (sd cam s)) (estate (sd cam' s))"
    using assms(2) unfolding moves_def by blast+
  then show ?thesis using estate_steps_rank by fastforce
qed

theorem frames_only_move_forward_witness:
  "\<exists>cam'. ofold cam_call_run [Call_sensor_worker 0, Call_tx_frame 0 (2, 0, 0)] demo_next = Some cam'
    \<and> frame_seq_no (sd cam' (2, 0, 0)) = 3
    \<and> estate_step\<^sup>*\<^sup>* E_STATE_READY (estate (sd cam' (2, 0, 0)))"
proof -
  have n: "sd demo_next (2, 0, 0) = demo_sd 3" by (simp add: demo_next_simps)
  obtain cam' where run: "ofold cam_call_run [Call_sensor_worker 0, Call_tx_frame 0 (2, 0, 0)] demo_next = Some cam'"
    using demo_next_run by (auto simp: mtk_cam_sensor_worker_in_sensorctrl_def demo_next_simps demo_next_feat)
  show ?thesis
    using frames_only_move_forward[OF run, of "(2, 0, 0)"] run by (auto simp: n demo_sd_def)
qed

end
