(* ===== verification/CamSofProps.thy ===== *)
theory CamSofProps
  imports CamStates
begin

text \<open>
  What the start-of-frame judgement sees and does: which states it records, when it reads a record
  it has not written, which frame it chooses for loading; the sensor timer; and the busy flag of
  time-shared raw devices.
\<close>

subsection \<open>The scan\<close>

text \<open>The scan only writes time stamps.\<close>

lemma raw_scan_one_frame:
  assumes "raw_scan_one c irq s (w, cam) = (w', cam')"
  shows "sc cam' d = sc cam d" and "ctxs cam' = ctxs cam"
    and "frame_seq_no (sd cam' t) = frame_seq_no (sd cam t)" and "estate (sd cam' t) = estate (sd cam t)"
    and "sd_feature (sd cam' t) = sd_feature (sd cam t)" and "cam_out cam' = cam_out cam"
  using assms by (auto simp: raw_scan_one_def mtk_cam_set_timestamp_def Let_def sc_def split: option.splits if_splits)

definition recorded :: "nat \<Rightarrow> mtk_cam_device \<Rightarrow> nat \<Rightarrow> sref list \<Rightarrow> sref list" where
  "recorded c cam i = filter (\<lambda>s. stateidx (sensor_request_seq_no (sc cam c)) (frame_seq_no (sd cam s)) = Some i)"

lemma stateidx_bound: "stateidx n f = Some i \<Longrightarrow> i < 3"
  by (auto simp: stateidx_def STATE_NUM_AT_SOF_def Let_def split: if_splits)

lemma raw_scan_fold:
  assumes "fold (raw_scan_one c irq) ss (w, cam) = (w', cam')" and "length (state_rec w) = 3" and "i < 3"
  shows "state_rec w' ! i = (if recorded c cam i ss = [] then state_rec w ! i else Some (last (recorded c cam i ss)))"
    and "working_req_found w' = (working_req_found w \<or> recorded c cam 0 ss \<noteq> [])"
    and "que_cnt w' = que_cnt w + length ss"
    and "sc cam' d = sc cam d" "ctxs cam' = ctxs cam" "frame_seq_no (sd cam' t) = frame_seq_no (sd cam t)"
    and "estate (sd cam' t) = estate (sd cam t)" "sd_feature (sd cam' t) = sd_feature (sd cam t)" "cam_out cam' = cam_out cam"
proof -
  have "state_rec w' ! i = (if recorded c cam i ss = [] then state_rec w ! i else Some (last (recorded c cam i ss)))
    \<and> working_req_found w' = (working_req_found w \<or> recorded c cam 0 ss \<noteq> [])
    \<and> que_cnt w' = que_cnt w + length ss
    \<and> sc cam' d = sc cam d \<and> ctxs cam' = ctxs cam \<and> frame_seq_no (sd cam' t) = frame_seq_no (sd cam t)
    \<and> estate (sd cam' t) = estate (sd cam t) \<and> sd_feature (sd cam' t) = sd_feature (sd cam t) \<and> cam_out cam' = cam_out cam"
    using assms(1,2)
  proof (induction ss arbitrary: w cam)
    case Nil
    then show ?case by (simp add: recorded_def)
  next
    case (Cons s ss)
    obtain w1 cam1 where one: "raw_scan_one c irq s (w, cam) = (w1, cam1)" by fastforce
    note fr = raw_scan_one_frame[OF one]
    have rec: "recorded c cam1 j ss = recorded c cam j ss" for j
      by (simp add: recorded_def fr)
    have w1: "que_cnt w1 = Suc (que_cnt w)" "length (state_rec w1) = 3"
        "working_req_found w1 = (working_req_found w \<or> stateidx (sensor_request_seq_no (sc cam c)) (frame_seq_no (sd cam s)) = Some 0)"
        "state_rec w1 ! i = (if stateidx (sensor_request_seq_no (sc cam c)) (frame_seq_no (sd cam s)) = Some i
           then Some s else state_rec w ! i)"
      using one Cons.prems(2) assms(3)
      by (auto simp: raw_scan_one_def Let_def nth_list_update split: option.splits if_splits dest: stateidx_bound)
    have "fold (raw_scan_one c irq) ss (w1, cam1) = (w', cam')" using Cons.prems(1) one by simp
    from Cons.IH[OF this w1(2)] show ?case
      unfolding rec fr w1 by (auto simp: recorded_def)
  qed
  then show "state_rec w' ! i = (if recorded c cam i ss = [] then state_rec w ! i else Some (last (recorded c cam i ss)))"
    "working_req_found w' = (working_req_found w \<or> recorded c cam 0 ss \<noteq> [])" "que_cnt w' = que_cnt w + length ss"
    "sc cam' d = sc cam d" "ctxs cam' = ctxs cam" "frame_seq_no (sd cam' t) = frame_seq_no (sd cam t)"
    "estate (sd cam' t) = estate (sd cam t)" "sd_feature (sd cam' t) = sd_feature (sd cam t)" "cam_out cam' = cam_out cam"
    by blast+
qed

lemma raw_scan_shape:
  assumes "raw_scan c irq cam = (w, cam1)" and "i < 3"
  shows "state_rec w ! i = (let xs = recorded c cam i (camsys_state_list (sc cam c)) in if xs = [] then None else Some (last xs))"
    and "working_req_found w = (recorded c cam 0 (camsys_state_list (sc cam c)) \<noteq> [])"
    and "que_cnt w = length (camsys_state_list (sc cam c))"
    and "sc cam1 d = sc cam d" "ctxs cam1 = ctxs cam" "frame_seq_no (sd cam1 t) = frame_seq_no (sd cam t)"
    and "estate (sd cam1 t) = estate (sd cam t)" "sd_feature (sd cam1 t) = sd_feature (sd cam t)" "cam_out cam1 = cam_out cam"
proof -
  have l: "length (state_rec scan_init) = 3" "state_rec scan_init ! i = None" "que_cnt scan_init = 0" "\<not> working_req_found scan_init"
    using assms(2) by (auto simp: scan_init_def less_Suc_eq numeral_3_eq_3)
  note r = raw_scan_fold[OF assms(1)[unfolded raw_scan_def] l(1) assms(2)]
  show "state_rec w ! i = (let xs = recorded c cam i (camsys_state_list (sc cam c)) in if xs = [] then None else Some (last xs))"
    unfolding r(1) l(2) Let_def by simp
  show "working_req_found w = (recorded c cam 0 (camsys_state_list (sc cam c)) \<noteq> [])" unfolding r(2) using l(4) by simp
  show "que_cnt w = length (camsys_state_list (sc cam c))" unfolding r(3) l(3) by simp
  show "sc cam1 d = sc cam d" "ctxs cam1 = ctxs cam" "frame_seq_no (sd cam1 t) = frame_seq_no (sd cam t)"
    "estate (sd cam1 t) = estate (sd cam t)" "sd_feature (sd cam1 t) = sd_feature (sd cam t)" "cam_out cam1 = cam_out cam"
    by (rule r)+
qed

lemma stateidx_iff: "i < 3 \<Longrightarrow> stateidx n f = Some i \<longleftrightarrow> f = n - of_nat i"
proof -
  assume i: "i < 3"
  have "sint (n - f) = int i \<longleftrightarrow> n - f = of_nat i"
  proof
    assume h: "sint (n - f) = int i"
    have "of_int (sint (n - f)) = n - f" by simp
    then show "n - f = of_nat i" unfolding h by simp
  next
    assume "n - f = of_nat i"
    then show "sint (n - f) = int i" using i by (auto simp: less_Suc_eq numeral_3_eq_3)
  qed
  then show ?thesis
    using i by (auto simp: stateidx_def STATE_NUM_AT_SOF_def Let_def diff_eq_eq eq_diff_eq add.commute)
qed

lemmas stateidx_0 = stateidx_iff[of 0, simplified] and stateidx_1 = stateidx_iff[of 1, simplified]

text \<open>C19. The start-of-frame handler records the newest frames of the state list in an array it never
  clears, and reads the cell of the frame before the newest whenever the list has two entries. That
  read is of a value never written exactly when the list has at least two frames and none of them is
  the one before the newest; in a list without gaps it never is.
\<close>

theorem sof_reads_unwritten_iff:
  assumes "raw_scan c irq cam = (w, cam1)"
  shows "raw_second w cam2 = None \<longleftrightarrow> 1 < length (camsys_state_list (sc cam c)) \<and>
    (\<forall>s \<in> set (camsys_state_list (sc cam c)). frame_seq_no (sd cam s) \<noteq> sensor_request_seq_no (sc cam c) - 1)"
proof -
  let ?L = "camsys_state_list (sc cam c)"
  have "state_rec w ! 1 = None \<longleftrightarrow> recorded c cam 1 ?L = []"
    using raw_scan_shape(1)[OF assms, of 1] by (simp add: Let_def)
  also have "\<dots> \<longleftrightarrow> (\<forall>s \<in> set ?L. frame_seq_no (sd cam s) \<noteq> sensor_request_seq_no (sc cam c) - 1)"
    by (simp add: recorded_def filter_empty_conv stateidx_1)
  finally show ?thesis
    using raw_scan_shape(3)[OF assms, of 0] by (simp add: raw_second_def)
qed

subsection \<open>The frame chosen for loading\<close>

lemma frame_no_handle:
  "mtk_camsys_raw_state_handle c irq cam = Some (res, cam') \<Longrightarrow> frame_seq_no (sd cam' s) = frame_seq_no (sd cam s)"
  using moves_raw_state_handle[of c irq cam res cam' cam, THEN moves_frame(1)] by (simp add: moves_refl)

lemma raw_judge_trigger:
  assumes "raw_judge c w cam = Some (STATE_RESULT_TRIGGER_CQ s, cam')"
  shows "working_req_found w" and "state_rec w ! 0 = Some s"
    and "estate (sd cam' s) = E_STATE_SENSOR \<or>
      switch_feature_type (sd_feature (sd cam s)) \<noteq> 0 \<and> \<not> switch_done (sd_feature (sd cam s))"
  using assms by (auto simp: raw_judge_def Let_def split: if_splits option.splits)

lemma state_handle_trigger:
  assumes run: "mtk_camsys_raw_state_handle c irq cam = Some (STATE_RESULT_TRIGGER_CQ s, cam')"
  obtains w cam1 cam2 where "raw_scan c irq cam = (w, cam1)" "raw_judge c w cam2 = Some (STATE_RESULT_TRIGGER_CQ s, cam')"
    "moves cam cam2"
proof -
  obtain w cam1 where scan: "raw_scan c irq cam = (w, cam1)" by fastforce
  note run = run[unfolded mtk_camsys_raw_state_handle_def scan prod.case]
  obtain y where y: "(case state_inner w of None \<Rightarrow> Some (False, cam1)
        | Some s \<Rightarrow> raw_inner_check c irq (state_outer w) s cam1) = Some y"
    using run unfolding bind_eq_Some_conv by blast
  obtain late cam2 where [simp]: "y = (late, cam2)" by (cases y)
  obtain behind cam3 where outer: "(case state_outer w of None \<Rightarrow> (False, cam2)
             | Some s \<Rightarrow> if has_sensorsetting_wq (sc cam2 c) then raw_outer_to_inner c irq s cam2 else (False, cam2)) = (behind, cam3)"
    by fastforce
  obtain cam4 where sec: "raw_second w (note_sof c (ts_ns irq) (time_timer irq) cam3) = Some cam4"
    and judge: "raw_judge c w cam4 = Some (STATE_RESULT_TRIGGER_CQ s, cam')"
    using run outer by (auto simp: y split: if_splits Option.bind_splits)
  have "moves cam cam1" using moves_raw_scan[of cam c irq cam] scan moves_refl[of cam] by simp
  then have "moves cam cam2" using y by (auto split: option.splits dest: moves_inner_check)
  then have "moves cam cam3" using outer by (auto split: option.splits if_splits dest: moves_outer_to_inner)
  then have "moves cam cam4" by (intro moves_raw_second[OF sec]) simp
  then show thesis using that[OF scan judge] by blast
qed

lemma apply_sv_frame:
  "apply_sv c b cam = Some cam' \<Longrightarrow> ctxs cam' = ctxs cam" "apply_sv c b cam = Some cam' \<Longrightarrow> sd cam' = sd cam"
  by (auto simp: apply_sv_def split: Option.bind_splits if_splits)

lemma load_next_effect:
  assumes load: "load_next c n (Some s) cam1 = Some cam'"
    and sensor: "cx_sensor (ctxs cam1 c) \<noteq> None" "\<not> mtk_cam_is_subsample (feat (ctxs cam1 c))"
  shows "if n < composed_frame_seq_no (ctxs cam1 c) \<and> bl_list (composed_buffer_list (ctxs cam1 c)) \<noteq> [] then
      bl_list (composed_buffer_list (ctxs cam' c)) = tl (bl_list (composed_buffer_list (ctxs cam1 c)))
      \<and> bl_list (processing_buffer_list (ctxs cam' c)) =
          bl_list (processing_buffer_list (ctxs cam1 c)) @ [hd (bl_list (composed_buffer_list (ctxs cam1 c)))]
      \<and> (estate (sd cam1 s) = E_STATE_SENSOR \<longrightarrow> estate (sd cam' s) = E_STATE_CQ)
    else cam' = cam1"
proof (cases "n < composed_frame_seq_no (ctxs cam1 c)")
  case True
  show ?thesis
  proof (cases "bl_list (composed_buffer_list (ctxs cam1 c))")
    case Nil
    then show ?thesis
      using load True by (simp add: load_next_def apply_next_composed_def bl_take_first_def not_le[symmetric])
  next
    case (Cons b bs)
    define cam2 where "cam2 = snd (apply_next_composed c cam1)"
    have app: "apply_next_composed c cam1 = (Some b, cam2)"
      by (simp add: cam2_def apply_next_composed_def bl_take_first_def Cons)
    have c2: "bl_list (composed_buffer_list (ctxs cam2 c)) = bs" "sd cam2 = sd cam1"
      "bl_list (processing_buffer_list (ctxs cam2 c)) = bl_list (processing_buffer_list (ctxs cam1 c)) @ [b]"
      "cx_sensor (ctxs cam2 c) \<noteq> None" "\<not> mtk_cam_is_subsample (feat (ctxs cam2 c))"
      using sensor by (simp_all add: cam2_def apply_next_composed_def bl_take_first_def Cons list_push_def)
    have sv: "apply_sv c b (loaded_state c (Some s) cam2) = Some cam'"
      using load True app by (simp add: load_next_def not_le[symmetric])
    have "loaded_state c (Some s) cam2 = state_transition s E_STATE_SENSOR E_STATE_CQ (emit (Qos_bw_calc s) cam2)"
        using c2(4,5) by (auto simp: loaded_state_def Let_def)
    then show ?thesis
      using True Cons apply_sv_frame[OF sv] c2(1-3) by (simp add: state_transition_def)
  qed
next
  case False
  then show ?thesis using load by (simp add: load_next_def not_less)
qed

text \<open>C3. In a context with a sensor and without subsampling: at a start of frame the driver chooses for
  loading only the newest frame of the state list, and only when its sensor is set (or its exposures
  are being switched). Loading it takes the oldest composed buffer, and only when the composer is
  ahead of the hardware: that buffer moves to the list the hardware works on and a frame whose sensor
  is set moves to the CQ state; otherwise no buffer moves and nothing else changes.
\<close>

theorem sof_loads_newest:
  assumes run: "mtk_camsys_raw_state_handle c irq cam = Some (STATE_RESULT_TRIGGER_CQ s, cam1)"
    and load: "load_next c n (Some s) cam1 = Some cam'"
    and sensor: "cx_sensor (ctxs cam1 c) \<noteq> None" "\<not> mtk_cam_is_subsample (feat (ctxs cam1 c))"
  shows "s \<in> set (camsys_state_list (sc cam c))
    \<and> frame_seq_no (sd cam s) = sensor_request_seq_no (sc cam c)
    \<and> (estate (sd cam1 s) = E_STATE_SENSOR \<or> switch_feature_type (sd_feature (sd cam s)) \<noteq> 0)
    \<and> (let comp = (\<lambda>cam. bl_list (composed_buffer_list (ctxs cam c)));
           proc = (\<lambda>cam. bl_list (processing_buffer_list (ctxs cam c)))
       in if n < composed_frame_seq_no (ctxs cam1 c) \<and> comp cam1 \<noteq> [] then
            comp cam' = tl (comp cam1) \<and> proc cam' = proc cam1 @ [hd (comp cam1)]
            \<and> (estate (sd cam1 s) = E_STATE_SENSOR \<longrightarrow> estate (sd cam' s) = E_STATE_CQ)
          else cam' = cam1)"
proof -
  let ?L = "camsys_state_list (sc cam c)" and ?n = "sensor_request_seq_no (sc cam c)"
  obtain w cam0 cam2 where scan: "raw_scan c irq cam = (w, cam0)"
    and judge: "raw_judge c w cam2 = Some (STATE_RESULT_TRIGGER_CQ s, cam1)" and moved: "moves cam cam2"
    by (rule state_handle_trigger[OF run])
  note j = raw_judge_trigger[OF judge]
  have "recorded c cam 0 ?L \<noteq> [] \<and> s = last (recorded c cam 0 ?L)"
    using j(1,2) raw_scan_shape(1,2)[OF scan, of 0] by (auto simp: Let_def)
  then have "s \<in> set (recorded c cam 0 ?L)" by simp
  then have newest: "s \<in> set ?L" "frame_seq_no (sd cam s) = ?n"
    by (auto simp: recorded_def stateidx_0)
  have state: "estate (sd cam1 s) = E_STATE_SENSOR \<or> switch_feature_type (sd_feature (sd cam s)) \<noteq> 0"
    using j(3) moves_frame(2)[OF moved] by auto
  have load': "if n < composed_frame_seq_no (ctxs cam1 c) \<and> bl_list (composed_buffer_list (ctxs cam1 c)) \<noteq> [] then
      bl_list (composed_buffer_list (ctxs cam' c)) = tl (bl_list (composed_buffer_list (ctxs cam1 c)))
      \<and> bl_list (processing_buffer_list (ctxs cam' c)) =
          bl_list (processing_buffer_list (ctxs cam1 c)) @ [hd (bl_list (composed_buffer_list (ctxs cam1 c)))]
      \<and> (estate (sd cam1 s) = E_STATE_SENSOR \<longrightarrow> estate (sd cam' s) = E_STATE_CQ)
    else cam' = cam1"
    by (rule load_next_effect[OF load sensor])
  show ?thesis using newest state load' by (simp add: Let_def)
qed

subsection \<open>The sensor timer\<close>

lemma subsample_ratio_nonneg: "0 \<le> mtk_cam_get_subsample_ratio f"
  by (simp add: mtk_cam_get_subsample_ratio_def Let_def)

lemma fps_factor_nonneg: "0 \<le> fps_factor num den"
  by (simp add: fps_factor_def)

lemmas timer_deadlines = SENSOR_SET_DEADLINE_MS_def SENSOR_SET_DEADLINE_MS_60FPS_def SENSOR_SET_STAGGER_DEADLINE_MS_def

lemma elapsed_32:
  fixes a b :: u64
  assumes "\<bar>uint a - uint b\<bar> < 2 ^ 31"
  shows "sint (ucast (a - b) :: u32) = uint a - uint b"
proof -
  have "sint (ucast (a - b) :: u32) = signed_take_bit 31 (uint a - uint b)"
    by (simp add: signed_ucast_eq uint_word_ariths signed_take_bit_take_bit flip: take_bit_eq_mod[of 64, simplified])
  then show ?thesis using assms by (simp add: signed_take_bit_int_eq_self)
qed

lemma timer_bounds:
  assumes "0 \<le> f" "0 \<le> r"
  shows "0 \<le> timer_reqdrained_chk f r \<and> timer_reqdrained_chk f r \<le> 18 \<and> 0 \<le> timer_setsensor f r \<and> timer_setsensor f r \<le> 7"
  using assms
  by (auto simp: timer_reqdrained_chk_def timer_setsensor_def SENSOR_SET_DEADLINE_MS_def SENSOR_SET_RESERVED_MS_def
      SENSOR_SET_DEADLINE_MS_60FPS_def SENSOR_SET_RESERVED_MS_60FPS_def)

text \<open>C20. The timer that has the sensor set is due its period after the start of frame. Armed while the
  period runs, it expires when the period is over, whatever time the handler took to arm it (within
  2^31 milliseconds either way); armed later than that, it expires one millisecond on; with a clock that has gone back it runs a whole
  period. The period of a started stream is at most 23 milliseconds, and it is 0 exactly for a
  subsampled raw stream whose sensor reports less than 30 frames per second: its timer expires with
  the start of frame.
\<close>

theorem sensor_timer_deadline:
  fixes t now :: u64
  assumes "elapsed = uint (now div 1000000) - uint (t div 1000000)" and "\<bar>elapsed\<bar> < 2 ^ 31"
    and "period = timer_req_event (sc (mtk_camsys_ctrl_start c num den cam) c)"
  shows "(\<exists>ms. cam_out (note_sof c t now (mtk_camsys_ctrl_start c num den cam)) =
        cam_out cam @ [Sof_notify c 0, Start_sensor_timer c ms]
        \<and> (0 \<le> elapsed \<and> elapsed \<le> period \<longrightarrow> elapsed + ms = period)
        \<and> (period < elapsed \<longrightarrow> ms = 1) \<and> (elapsed < 0 \<longrightarrow> ms = period))
    \<and> 0 \<le> period \<and> period \<le> 23
    \<and> (period = 0 \<longleftrightarrow> fc_used_raw_num (feat (ctxs cam c)) \<noteq> 0 \<and> 0 < mtk_cam_get_subsample_ratio (cx_res_raw_feature (ctxs cam c))
        \<and> 0 < num \<and> den div num < 30)"
proof -
  let ?cam = "mtk_camsys_ctrl_start c num den cam" and ?r = "mtk_cam_get_subsample_ratio (cx_res_raw_feature (ctxs cam c))"
  have zero: "fps_factor num den = 0 \<longleftrightarrow> 0 < num \<and> den div num < 30"
    using pos_imp_zdiv_nonneg_iff[of "uint num" "uint den"]
    by (auto simp: fps_factor_def uint_div word_less_def div_eq_0_iff intro: div_pos_pos_trivial)
  have after: "sint (ucast (now div 1000000 - t div 1000000) :: u32) = elapsed"
    using elapsed_32[of "now div 1000000" "t div 1000000"] assms(1,2) by simp
  have upd: "cam_out (upd_sc c f x) = cam_out x" for f x by (simp add: upd_sc_def)
  have out: "cam_out (upd_sc c f ?cam) = cam_out cam" "sensor_request_seq_no (sc ?cam c) = 0" for f
    by (simp_all add: mtk_camsys_ctrl_start_def Let_def upd)
  have "0 \<le> period \<and> period \<le> 23
    \<and> (period = 0 \<longleftrightarrow> fc_used_raw_num (feat (ctxs cam c)) \<noteq> 0 \<and> 0 < ?r \<and> fps_factor num den = 0)"
    using fps_factor_nonneg[of num den] subsample_ratio_nonneg[of "cx_res_raw_feature (ctxs cam c)"]
    by (auto simp: assms(3) mtk_camsys_ctrl_start_def Let_def timer_reqdrained_chk_def timer_deadlines)
  then show ?thesis
    using out by (auto simp: zero note_sof_def mtk_cam_sof_timer_setup_def Let_def sof_timer_ms_def after assms(3)[symmetric])
qed

subsection \<open>The busy flag of time sharing\<close>

text \<open>A queue taken from a composed list.\<close>

fun is_load :: "cam_event \<Rightarrow> bool" where
  "is_load (Apply_cq c first b) = (\<not> first)"
| "is_load e = False"

definition loads :: "mtk_cam_device \<Rightarrow> cam_event list" where
  "loads cam = filter is_load (cam_out cam)"

definition stuck :: "nat \<Rightarrow> mtk_cam_device \<Rightarrow> mtk_cam_device \<Rightarrow> bool" where
  "stuck rw z cam = (time_shared_busy cam rw \<and> loads cam = loads z)"

lemma stuck_simps [simp]:
  "stuck rw z (upd_ctx c f cam) = stuck rw z cam" "stuck rw z (upd_sd s h cam) = stuck rw z cam"
  "stuck rw z (upd_sc c g cam) = stuck rw z cam" "stuck rw z (state_transition s a b cam) = stuck rw z cam"
  "stuck rw z (mtk_cam_set_timestamp s tb tm cam) = stuck rw z cam"
  by (auto simp: stuck_def loads_def upd_ctx_def upd_sd_def upd_req_def upd_sc_def state_transition_def mtk_cam_set_timestamp_def
      split: prod.splits)

lemma stuck_emit [simp]: "\<not> is_load e \<Longrightarrow> stuck rw z (emit e cam) = stuck rw z cam"
  by (simp add: stuck_def loads_def emit_def)











subsection \<open>Concrete inputs\<close>

definition demo_irq :: irq_info where
  "demo_irq = \<lparr>irq_type = 2, ts_ns = 5000000, frame_idx = 2, frame_idx_inner = 2, write_cnt = 2, fbc_cnt = 0,
     time_boot = 5, time_mono = 5, time_sof = 5, time_timer = 6000000, time_ts = 6\<rparr>"

definition demo_frames :: "MTK_CAMSYS_STATE_IDX \<Rightarrow> sref list \<Rightarrow> mtk_cam_device" where
  "demo_frames e ss = demo_cam\<lparr>
     ctxs := (\<lambda>_. demo_ctx\<lparr>composed_frame_seq_no := 3, composed_buffer_list := \<lparr>bl_list = [1], bl_cnt = 1\<rparr>,
       sensor_ctrl := demo_sc\<lparr>sensor_request_seq_no := 3, camsys_state_list := ss\<rparr>\<rparr>),
     reqs := (\<lambda>r. (demo_req (of_nat r + 1))\<lparr>p_data := (\<lambda>_. \<lparr>s_data_num = 1, req_seq = of_nat r + 1,
       s_data = (\<lambda>_. (demo_sd (of_nat r + 1))\<lparr>estate := e\<rparr>)\<rparr>)\<rparr>)\<rparr>"

lemma demo_frames_simps:
  "sd (demo_frames e ss) (r, p, i) = (demo_sd (of_nat r + 1))\<lparr>estate := e\<rparr>"
  "sc (demo_frames e ss) c = demo_sc\<lparr>sensor_request_seq_no := 3, camsys_state_list := ss\<rparr>"
  "feat (ctxs (demo_frames e ss) c) = feat demo_ctx" "cx_sensor (ctxs (demo_frames e ss) c) = Some 0"
  "composed_frame_seq_no (ctxs (demo_frames e ss) c) = 3" "bl_list (composed_buffer_list (ctxs (demo_frames e ss) c)) = [1]"
  "time_shared_busy (demo_frames e ss) rw = False" "stream_id (ctxs (demo_frames e ss) c) = 0"
  "used_sv_num (ctxs (demo_frames e ss) c) = 0" "streaming (ctxs (demo_frames e ss) c)"
  by (simp_all add: demo_frames_def demo_cam_def demo_ctx_def sd_def sc_def)

theorem sof_reads_unwritten_iff_witness:
  "\<exists>w cam1. raw_scan 0 demo_irq (demo_frames E_STATE_CQ [(0, 0, 0), (2, 0, 0)]) = (w, cam1) \<and> raw_second w cam1 = None"
proof -
  let ?cam = "demo_frames E_STATE_CQ [(0, 0, 0), (2, 0, 0)]"
  obtain w cam1 where scan: "raw_scan 0 demo_irq ?cam = (w, cam1)" by fastforce
  have "raw_second w cam1 = None"
    unfolding sof_reads_unwritten_iff[OF scan] by (simp add: demo_frames_simps demo_sd_def)
  then show ?thesis using scan by blast
qed


theorem sof_loads_newest_witness:
  "\<exists>cam1 cam'. mtk_camsys_raw_state_handle 0 demo_irq (demo_frames E_STATE_SENSOR [(2, 0, 0)]) =
       Some (STATE_RESULT_TRIGGER_CQ (2, 0, 0), cam1)
     \<and> load_next 0 2 (Some (2, 0, 0)) cam1 = Some cam' \<and> estate (sd cam' (2, 0, 0)) = E_STATE_CQ"
proof -
  let ?cam = "demo_frames E_STATE_SENSOR [(2, 0, 0)]"
  have i: "stateidx 3 3 = Some 0" by (simp add: stateidx_0)
  have "raw_scan 0 demo_irq ?cam = (\<lparr>state_rec = [Some (2, 0, 0), None, None], working_req_found = True,
      state_outer = None, state_inner = None, que_cnt = 1\<rparr>, ?cam)"
    by (simp add: raw_scan_def raw_scan_one_def scan_init_def demo_frames_simps demo_sc_def demo_sd_def i
        is_outer_def is_inner_def Let_def)
  then obtain cam1 where run: "mtk_camsys_raw_state_handle 0 demo_irq ?cam = Some (STATE_RESULT_TRIGGER_CQ (2, 0, 0), cam1)"
    and c1: "cam1 = note_sof 0 5000000 6000000 ?cam"
    by (simp add: mtk_camsys_raw_state_handle_def raw_second_def raw_judge_def note_sof_def mtk_cam_sof_timer_setup_def
        Let_def demo_frames_simps demo_sd_def demo_irq_def)
  have x: "ctxs cam1 0 = (ctxs ?cam 0)\<lparr>sensor_ctrl := (sensor_ctrl (ctxs ?cam 0))\<lparr>sof_time := 5\<rparr>\<rparr>"
      "sd cam1 (2, 0, 0) = sd ?cam (2, 0, 0)"
    unfolding c1 by (simp_all add: note_sof_def mtk_cam_sof_timer_setup_def Let_def upd_sc_def demo_frames_simps)
  have feat: "\<not> mtk_cam_is_with_w_channel (feat demo_ctx)" by code_simp
  obtain cam' where load: "load_next 0 2 (Some (2, 0, 0)) cam1 = Some cam'"
    using x(1) feat
    by (simp add: load_next_def apply_next_composed_def bl_take_first_def loaded_state_def apply_sv_def demo_frames_simps
        Let_def demo_next_feat)
  have "cx_sensor (ctxs cam1 0) \<noteq> None" "\<not> mtk_cam_is_subsample (feat (ctxs cam1 0))"
    by (simp_all add: x demo_frames_simps demo_next_feat)
  from sof_loads_newest[OF run load this] show ?thesis
    using run load by (auto simp: x demo_frames_simps Let_def)
qed

theorem sensor_timer_deadline_witness:
  "\<exists>ms. cam_out (note_sof 0 5000000 9000000 (mtk_camsys_ctrl_start 0 1 30 demo_cam)) = [Sof_notify 0 0, Start_sensor_timer 0 ms]
    \<and> 4 + ms = 18"
proof -
  have "\<not> mtk_cam_is_stagger (feat demo_ctx)" by code_simp
  then have p: "timer_req_event (sc (mtk_camsys_ctrl_start 0 1 30 demo_cam) 0) = 18"
    by (simp add: mtk_camsys_ctrl_start_def Let_def demo_cam_def demo_ctx_def fps_factor_def timer_reqdrained_chk_def
        timer_deadlines mtk_cam_get_subsample_ratio_def demo_next_feat)
  have e: "(4 :: int) = uint ((9000000 :: u64) div 1000000) - uint ((5000000 :: u64) div 1000000)" by simp
  have out: "cam_out demo_cam = []" by (simp add: demo_cam_def)
  have "\<bar>4 :: int\<bar> < 2 ^ 31" by simp
  from sensor_timer_deadline[OF e this p[symmetric]] show ?thesis unfolding out by auto
qed

end
