(* ===== verification/CamRes.thy ===== *)
theory CamRes
  imports CamFeature
begin

text \<open>
  The resource negotiation of a raw pipeline (\<open>mtk_cam-raw.c\<close>, \<open>mtk_cam-seninf-drv.c\<close>): the plan
  tables, the line-buffer check, the search for the cheapest plan step that carries the pixel
  rate, and the pixel rates it is asked for. C integers are kept at their width; \<open>int\<close> values
  that are only compared or shifted are \<open>int\<close>.
\<close>

unbundle bit_operations_syntax

subsection \<open>Constants and tables\<close>

definition MTK_CAMSYS_RES_IDXMASK :: u32 where "MTK_CAMSYS_RES_IDXMASK = 0xF0"
definition MTK_CAMSYS_RES_BIN_TAG :: u32 where "MTK_CAMSYS_RES_BIN_TAG = 0x10"
definition MTK_CAMSYS_RES_FRZ_TAG :: u32 where "MTK_CAMSYS_RES_FRZ_TAG = 0x20"
definition MTK_CAMSYS_RES_HWN_TAG :: u32 where "MTK_CAMSYS_RES_HWN_TAG = 0x30"
definition MTK_CAMSYS_RES_CLK_TAG :: u32 where "MTK_CAMSYS_RES_CLK_TAG = 0x40"
definition MTK_CAMSYS_RES_STEP_NUM :: nat where "MTK_CAMSYS_RES_STEP_NUM = 8"
definition TGO_MAX_PXLMODE :: u32 where "TGO_MAX_PXLMODE = 8"
definition FRZ_PXLMODE_THRES :: u32 where "FRZ_PXLMODE_THRES = 71"
definition MTK_CAMSYS_PROC_DEFAULT_PIXELMODE :: nat where "MTK_CAMSYS_PROC_DEFAULT_PIXELMODE = 2"
definition ISP_CLK_LEVEL_CNT :: nat where "ISP_CLK_LEVEL_CNT = 10"

definition E_RES_BASIC :: u32 where "E_RES_BASIC = 0"
definition E_RES_BIN_S :: u32 where "E_RES_BIN_S = 0x10"
definition E_RES_BIN1 :: u32 where "E_RES_BIN1 = 0x11"
definition E_RES_FRZ_S :: u32 where "E_RES_FRZ_S = 0x20"
definition E_RES_FRZ1 :: u32 where "E_RES_FRZ1 = 0x21"
definition E_RES_HWN_S :: u32 where "E_RES_HWN_S = 0x30"
definition E_RES_HWN1 :: u32 where "E_RES_HWN1 = 0x31"
definition E_RES_HWN2 :: u32 where "E_RES_HWN2 = 0x32"
definition E_RES_CLK_S :: u32 where "E_RES_CLK_S = 0x40"
definition E_RES_CLK1 :: u32 where "E_RES_CLK1 = 0x41"
definition E_RES_CLK2 :: u32 where "E_RES_CLK2 = 0x42"
definition E_RES_CLK3 :: u32 where "E_RES_CLK3 = 0x43"

lemmas res_consts =
  MTK_CAMSYS_RES_IDXMASK_def MTK_CAMSYS_RES_BIN_TAG_def MTK_CAMSYS_RES_FRZ_TAG_def
  MTK_CAMSYS_RES_HWN_TAG_def MTK_CAMSYS_RES_CLK_TAG_def MTK_CAMSYS_RES_STEP_NUM_def
  TGO_MAX_PXLMODE_def FRZ_PXLMODE_THRES_def MTK_CAMSYS_PROC_DEFAULT_PIXELMODE_def
  E_RES_BASIC_def E_RES_BIN_S_def E_RES_BIN1_def E_RES_FRZ_S_def E_RES_FRZ1_def
  E_RES_HWN_S_def E_RES_HWN1_def E_RES_HWN2_def
  E_RES_CLK_S_def E_RES_CLK1_def E_RES_CLK2_def E_RES_CLK3_def

definition RESOURCE_STRATEGY_QPR :: u32 where "RESOURCE_STRATEGY_QPR = 0"
definition RESOURCE_STRATEGY_QRP :: u32 where "RESOURCE_STRATEGY_QRP = 3"

text \<open>The four plans, in the order of \<open>enum resource_strategy_id\<close>.\<close>

definition raw_resource_strategy_plan :: "u32 list list" where
  "raw_resource_strategy_plan =
    [[E_RES_BASIC, E_RES_HWN1, E_RES_CLK1, E_RES_CLK2, E_RES_CLK3, E_RES_FRZ1, E_RES_BIN1, E_RES_HWN2],
     [E_RES_BASIC, E_RES_HWN1, E_RES_HWN2, E_RES_FRZ1, E_RES_BIN1, E_RES_CLK1, E_RES_CLK2, E_RES_CLK3],
     [E_RES_BASIC, E_RES_FRZ1, E_RES_BIN1, E_RES_CLK1, E_RES_CLK2, E_RES_CLK3, E_RES_HWN1, E_RES_HWN2],
     [E_RES_BASIC, E_RES_CLK1, E_RES_CLK2, E_RES_CLK3, E_RES_HWN1, E_RES_HWN2, E_RES_FRZ1, E_RES_BIN1]]"

datatype MTK_CAMSYS_MAXLB_CHECK_RESULT =
    LB_CHECK_OK | LB_CHECK_CBN | LB_CHECK_QBN | LB_CHECK_BIN | LB_CHECK_FRZ | LB_CHECK_TWIN | LB_CHECK_RAW

definition CAM_RAW_PROCESS_MAX_LINE_BUFFER :: int where "CAM_RAW_PROCESS_MAX_LINE_BUFFER = 6632"
definition CAM_RAW_FRZ_MAX_LINE_BUFFER :: int where "CAM_RAW_FRZ_MAX_LINE_BUFFER = 6632"
definition CAM_RAW_BIN_MAX_LINE_BUFFER :: int where "CAM_RAW_BIN_MAX_LINE_BUFFER = 12000"
definition CAM_RAW_QBND_MAX_LINE_BUFFER :: int where "CAM_RAW_QBND_MAX_LINE_BUFFER = 16000"
definition CAM_RAW_CBN_MAX_LINE_BUFFER :: int where "CAM_RAW_CBN_MAX_LINE_BUFFER = 18472"
definition CAM_TWIN_PROCESS_MAX_LINE_BUFFER :: int where "CAM_TWIN_PROCESS_MAX_LINE_BUFFER = 12400"

lemmas lb_consts =
  CAM_RAW_PROCESS_MAX_LINE_BUFFER_def CAM_RAW_FRZ_MAX_LINE_BUFFER_def CAM_RAW_BIN_MAX_LINE_BUFFER_def
  CAM_RAW_QBND_MAX_LINE_BUFFER_def CAM_RAW_CBN_MAX_LINE_BUFFER_def CAM_TWIN_PROCESS_MAX_LINE_BUFFER_def

definition BIN_AUTO :: u32 where "BIN_AUTO = 0"
definition BIN_ON :: u32 where "BIN_ON = 1"
definition CBN_2X2_ON :: u32 where "CBN_2X2_ON = 16"
definition CBN_3X3_ON :: u32 where "CBN_3X3_ON = 32"
definition CBN_4X4_ON :: u32 where "CBN_4X4_ON = 64"
definition QBND_ON :: u32 where "QBND_ON = 256"

subsection \<open>Data\<close>

text \<open>
  \<open>struct mtk_cam_resource_config\<close> less its lock; of \<open>sink_fmt\<close> the size is kept. The clock
  levels are the array \<open>clklv\<close> of \<open>struct mtk_camsys_dvfs\<close>.
\<close>

record mtk_cam_resource_config =
  rc_seninf :: "nat option"
  rc_interval_num :: u32
  rc_interval_den :: u32
  rc_pixel_rate :: u64
  bin_limit :: u32
  frz_limit :: u32
  hwn_limit_max :: u32
  hwn_limit_min :: u32
  rc_hblank :: u64
  rc_vblank :: u64
  sensor_pixel_rate :: u64
  res_plan :: u32
  rc_raw_feature :: u32
  res_strategy :: "u32 list"
  clk_target :: u32
  raw_num_used :: u32
  bin_enable :: u32
  frz_enable :: u32
  frz_ratio :: u32
  tgo_pxl_mode :: u32
  raw_path :: u32
  rc_sink_w :: u32
  rc_sink_h :: u32
  enable_hsf_raw :: u32

text \<open>The module parameters \<open>debug_raw\<close>, \<open>debug_raw_num\<close>, \<open>debug_pixel_mode\<close>, \<open>debug_clk_idx\<close>.\<close>

record raw_debug =
  debug_raw :: u32
  debug_raw_num :: int
  debug_pixel_mode :: int
  debug_clk_idx :: int

definition raw_debug_default :: raw_debug where
  "raw_debug_default = \<lparr>debug_raw = 0, debug_raw_num = -1, debug_pixel_mode = -1, debug_clk_idx = -1\<rparr>"

subsection \<open>Line buffer and pixel mode\<close>

text \<open>The result and \<open>*frz_ratio\<close>, which the check leaves alone on most paths.\<close>

definition mtk_raw_linebuf_chk ::
  "bool \<Rightarrow> bool \<Rightarrow> bool \<Rightarrow> bool \<Rightarrow> bool \<Rightarrow> int \<Rightarrow> u32 \<Rightarrow> MTK_CAMSYS_MAXLB_CHECK_RESULT \<times> u32" where
  "mtk_raw_linebuf_chk b_twin b_bin b_frz b_qbn b_cbn tg_x ratio =
    (let x0 = tg_x in
     if b_twin \<and> x0 > CAM_TWIN_PROCESS_MAX_LINE_BUFFER then (LB_CHECK_TWIN, ratio) else
     let x1 = (if b_twin then x0 div 2 else x0) in
     if b_cbn \<and> x1 > CAM_RAW_CBN_MAX_LINE_BUFFER then (LB_CHECK_CBN, ratio) else
     let x2 = (if b_cbn then x1 div 2 else x1) in
     if b_qbn \<and> x2 > CAM_RAW_QBND_MAX_LINE_BUFFER then (LB_CHECK_QBN, ratio) else
     let x3 = (if b_qbn then x2 div 2 else x2) in
     if b_bin \<and> x3 > CAM_RAW_BIN_MAX_LINE_BUFFER then (LB_CHECK_BIN, ratio) else
     let x4 = (if b_bin then x3 div 2 else x3) in
     if x4 \<le> CAM_RAW_PROCESS_MAX_LINE_BUFFER then (LB_CHECK_OK, ratio)
     else if b_frz then
       (if x4 > CAM_RAW_FRZ_MAX_LINE_BUFFER then (LB_CHECK_FRZ, ratio)
        else (LB_CHECK_OK, word_of_int (x4 * 100 div CAM_RAW_PROCESS_MAX_LINE_BUFFER)))
     else (LB_CHECK_RAW, ratio))"

definition mtk_raw_pixelmode_calc :: "u32 \<Rightarrow> u32 \<Rightarrow> bool \<Rightarrow> bool \<Rightarrow> u32 \<Rightarrow> u32" where
  "mtk_raw_pixelmode_calc rawpxl b_twin b_bin b_frz min_ratio =
    (let m0 = rawpxl;
         m1 = (if b_twin = 2 then push_bit 2 m0 else m0);
         m2 = (if b_twin = 1 then push_bit 1 m1 else m1);
         m3 = (if b_bin then push_bit 1 m2 else m2);
         m4 = (if b_frz \<and> sint min_ratio < sint FRZ_PXLMODE_THRES then push_bit 1 m3 else m3)
     in if sint m4 > sint TGO_MAX_PXLMODE then TGO_MAX_PXLMODE else m4)"

definition is_cbn_en :: "u32 \<Rightarrow> bool" where
  "is_cbn_en bin_flag = (bin_flag = CBN_2X2_ON \<or> bin_flag = CBN_3X3_ON \<or> bin_flag = CBN_4X4_ON)"

text \<open>\<open>None\<close>: the forced clock index is outside the table of clock levels.\<close>

definition mtk_raw_update_debug_param ::
  "raw_debug \<Rightarrow> (nat \<Rightarrow> u32) \<Rightarrow> mtk_cam_resource_config \<Rightarrow> mtk_cam_resource_config option" where
  "mtk_raw_update_debug_param dbg clklv res =
    (if debug_raw dbg = 0 then Some res else
     let res1 = (if debug_raw_num dbg > 0 then res\<lparr>raw_num_used := word_of_int (debug_raw_num dbg)\<rparr> else res);
         res2 = (if debug_pixel_mode dbg \<ge> 0 then res1\<lparr>tgo_pxl_mode := word_of_int (debug_pixel_mode dbg)\<rparr> else res1)
     in if debug_clk_idx dbg \<ge> 0
        then (if nat (debug_clk_idx dbg) < ISP_CLK_LEVEL_CNT
              then Some (res2\<lparr>clk_target := clklv (nat (debug_clk_idx dbg))\<rparr>) else None)
        else Some res2)"

subsection \<open>The resource search (\<open>mtk_raw_resource_calc\<close>)\<close>

text \<open>The locals of the search that live across its loop; \<open>rs_res\<close> is \<open>*res\<close>.\<close>

record res_search =
  rs_res :: mtk_cam_resource_config
  rs_bin :: u32
  rs_frz :: u32
  rs_twin :: u32
  rs_clk :: u32
  rs_throughput :: u64
  rs_lb :: MTK_CAMSYS_MAXLB_CHECK_RESULT
  rs_ratio :: u32
  rs_pixel_mode :: "nat \<Rightarrow> u32"
  rs_idx_res :: nat
  rs_found :: bool

text \<open>The switch over the kind of the step, and the two forced settings after it.\<close>

definition res_apply_step :: "u32 \<Rightarrow> res_search \<Rightarrow> res_search" where
  "res_apply_step st c =
    (let res = rs_res c; tag = st AND MTK_CAMSYS_RES_IDXMASK;
         c1 = (if tag = MTK_CAMSYS_RES_BIN_TAG then
                 (let bin_temp = st - E_RES_BIN_S;
                      b = (if bin_temp \<le> bin_limit res then bin_temp else rs_bin c)
                  in c\<lparr>rs_bin := b, rs_frz := (if b \<noteq> 0 \<and> rs_frz c \<noteq> 0 then 0 else rs_frz c)\<rparr>)
               else if tag = MTK_CAMSYS_RES_FRZ_TAG then
                 (if frz_limit res < 100 then c\<lparr>rs_frz := st - E_RES_FRZ_S\<rparr> else c)
               else if tag = MTK_CAMSYS_RES_HWN_TAG then
                 (let hwn_temp = st - E_RES_HWN_S
                  in if hwn_temp + 1 \<le> hwn_limit_max res then c\<lparr>rs_twin := hwn_temp\<rparr> else c)
               else if tag = MTK_CAMSYS_RES_CLK_TAG then c\<lparr>rs_clk := st - E_RES_CLK_S\<rparr>
               else c);
         c2 = (if bin_limit res \<ge> 1 then c1\<lparr>rs_bin := 1\<rparr> else c1)
     in if hwn_limit_min res > 1 then c2\<lparr>rs_twin := 1\<rparr> else c2)"

text \<open>The line-buffer check and, on a resizer step, the resizer's ratio.\<close>

definition res_check_lb :: "int \<Rightarrow> u32 \<Rightarrow> res_search \<Rightarrow> res_search" where
  "res_check_lb in_w st c =
    (let res = rs_res c;
         (lb, ratio) = mtk_raw_linebuf_chk (rs_twin c \<noteq> 0) (bin_limit res AND BIN_ON \<noteq> 0) (rs_frz c \<noteq> 0)
                         (bin_limit res AND QBND_ON \<noteq> 0) (is_cbn_en (bin_limit res)) in_w (rs_ratio c);
         c1 = c\<lparr>rs_lb := lb, rs_ratio := ratio\<rparr>
     in if st AND MTK_CAMSYS_RES_IDXMASK = MTK_CAMSYS_RES_FRZ_TAG then
          c1\<lparr>rs_res := res\<lparr>frz_ratio :=
             (if rs_throughput c > rc_pixel_rate res \<and> lb = LB_CHECK_OK then ratio
              else if frz_limit res < FRZ_PXLMODE_THRES then frz_limit res else FRZ_PXLMODE_THRES)\<rparr>\<rparr>
        else c1)"

text \<open>What both branches record when a step is taken.\<close>

definition res_take :: "(nat \<Rightarrow> u32) \<Rightarrow> nat \<Rightarrow> res_search \<Rightarrow> res_search" where
  "res_take clklv idx c =
    c\<lparr>rs_res := (rs_res c)\<lparr>bin_enable := rs_bin c, frz_enable := rs_frz c,
                            raw_num_used := rs_twin c + 1, clk_target := clklv (unat (rs_clk c))\<rparr>,
      rs_idx_res := idx, rs_found := True\<rparr>"

definition res_tgo :: "u32 \<Rightarrow> res_search \<Rightarrow> u32" where
  "res_tgo p c = mtk_raw_pixelmode_calc p (rs_twin c) (rs_bin c \<noteq> 0) (rs_frz c \<noteq> 0) (frz_ratio (rs_res c))"

text \<open>The inner loop over the pixel modes, left at the first that is taken.\<close>

fun res_try_pixel :: "(nat \<Rightarrow> u32) \<Rightarrow> nat \<Rightarrow> u32 list \<Rightarrow> res_search \<Rightarrow> res_search" where
  "res_try_pixel clklv idx [] c = c"
| "res_try_pixel clklv idx (p # ps) c =
    (let tgo = res_tgo p c;
         c1 = c\<lparr>rs_pixel_mode := (rs_pixel_mode c)(idx := tgo),
                rs_throughput := ucast tgo * ucast (clklv (unat (rs_clk c)))\<rparr>
     in if rs_throughput c1 > rc_pixel_rate (rs_res c1) \<and> rs_lb c1 = LB_CHECK_OK \<and> \<not> rs_found c1
        then res_take clklv idx c1 else res_try_pixel clklv idx ps c1)"

definition res_pixel_modes :: "u32 list" where
  "res_pixel_modes = map of_nat [1 ..< MTK_CAMSYS_PROC_DEFAULT_PIXELMODE + 1]"

definition res_body :: "(nat \<Rightarrow> u32) \<Rightarrow> int \<Rightarrow> nat \<Rightarrow> u32 \<Rightarrow> res_search \<Rightarrow> res_search" where
  "res_body clklv in_w idx st c =
    (let c1 = res_check_lb in_w st (res_apply_step st c)
     in if rc_raw_feature (rs_res c1) AND MTK_CAM_FEATURE_TIMESHARE_MASK \<noteq> 0 then
          (let tgo = res_tgo (of_nat MTK_CAMSYS_PROC_DEFAULT_PIXELMODE) c1;
               c2 = c1\<lparr>rs_pixel_mode := (rs_pixel_mode c1)(idx := tgo)\<rparr>
           in if rs_lb c2 = LB_CHECK_OK then res_take clklv idx c2 else c2)
        else res_try_pixel clklv idx res_pixel_modes c1)"

fun res_loop :: "(nat \<Rightarrow> u32) \<Rightarrow> int \<Rightarrow> nat \<Rightarrow> u32 list \<Rightarrow> res_search \<Rightarrow> res_search" where
  "res_loop clklv in_w idx [] c = c"
| "res_loop clklv in_w idx (st # sts) c = res_loop clklv in_w (Suc idx) sts (res_body clklv in_w idx st c)"

text \<open>The test pattern's rate, the one-engine limit of time sharing, and the start values.\<close>

definition res_prepare :: "mtk_cam_resource_config \<Rightarrow> u64 \<Rightarrow> u32 \<Rightarrow> u32 list \<Rightarrow> mtk_cam_resource_config" where
  "res_prepare res pixel_rate plan steps =
    (let res1 = res\<lparr>res_plan := plan, rc_pixel_rate := (if pixel_rate = 0 then 450 * 1000000 else pixel_rate)\<rparr>;
         res2 = (if rc_raw_feature res1 AND MTK_CAM_FEATURE_TIMESHARE_MASK \<noteq> 0
                 then res1\<lparr>hwn_limit_max := 1\<rparr> else res1)
     in res2\<lparr>res_strategy := steps, bin_enable := 0, raw_num_used := 1, frz_enable := 0, frz_ratio := 100\<rparr>)"

definition res_start :: "(nat \<Rightarrow> u32) \<Rightarrow> mtk_cam_resource_config \<Rightarrow> res_search" where
  "res_start clklv res =
    \<lparr>rs_res = res, rs_bin = 0, rs_frz = 0, rs_twin = 0, rs_clk = 0, rs_throughput = ucast (clklv 0),
     rs_lb = LB_CHECK_RAW, rs_ratio = 100, rs_pixel_mode = (\<lambda>_. 0), rs_idx_res = 0, rs_found = False\<rparr>"

definition res_log2_mode :: "u32 \<Rightarrow> u32 \<Rightarrow> u32" where
  "res_log2_mode mode old =
    (if mode = 1 then 0 else if mode = 2 then 1 else if mode = 4 then 2 else if mode = 8 then 3 else old)"

definition res_out_size :: "mtk_cam_resource_config \<Rightarrow> int \<Rightarrow> int" where
  "res_out_size res x =
    (if bin_enable res \<noteq> 0 then x div 2
     else if frz_enable res \<noteq> 0 then sint ((word_of_int x :: u32) * frz_ratio res div 100)
     else x)"

text \<open>
  Found or not, the configuration and the output size. \<open>None\<close>: a plan outside the table, or a
  forced clock index outside the clock levels.
\<close>

definition mtk_raw_resource_calc ::
  "raw_debug \<Rightarrow> (nat \<Rightarrow> u32) \<Rightarrow> mtk_cam_resource_config \<Rightarrow> u64 \<Rightarrow> u32 \<Rightarrow> int \<Rightarrow> int
     \<Rightarrow> (bool \<times> mtk_cam_resource_config \<times> int \<times> int) option" where
  "mtk_raw_resource_calc dbg clklv res pixel_rate plan in_w in_h =
    (if length raw_resource_strategy_plan \<le> unat plan then None else
     do {
       let steps = raw_resource_strategy_plan ! unat plan;
       let c = res_loop clklv in_w 0 steps (res_start clklv (res_prepare res pixel_rate plan steps));
       let res1 = (rs_res c)\<lparr>tgo_pxl_mode :=
                     res_log2_mode (rs_pixel_mode c (rs_idx_res c)) (tgo_pxl_mode (rs_res c))\<rparr>;
       res2 \<leftarrow> mtk_raw_update_debug_param dbg clklv res1;
       let res3 = (if rs_found c then res2 else res2\<lparr>clk_target := clklv (unat (rs_clk c))\<rparr>);
       Some (rs_found c, res3, res_out_size res3 in_w, res_out_size res3 in_h)
     })"

subsection \<open>What the search finds\<close>

text \<open>
  The plan read as a list of configurations: after its first steps, binning is on when the
  limit asks for it, the resizer once its step has come and no binning step has cleared it, the
  engines and the clock level of the last step that named them.
\<close>

definition step_tag :: "u32 \<Rightarrow> u32" where
  "step_tag st = st AND MTK_CAMSYS_RES_IDXMASK"

definition plan_last :: "u32 list \<Rightarrow> u32 \<Rightarrow> u32" where
  "plan_last l base = (if l = [] then 0 else last l - base)"

definition plan_bin :: "mtk_cam_resource_config \<Rightarrow> bool" where
  "plan_bin res = (1 \<le> bin_limit res)"

definition plan_twin :: "mtk_cam_resource_config \<Rightarrow> u32 list \<Rightarrow> u32" where
  "plan_twin res sts =
    (if 1 < hwn_limit_min res then 1
     else plan_last [st \<leftarrow> sts. step_tag st = MTK_CAMSYS_RES_HWN_TAG \<and> st - E_RES_HWN_S + 1 \<le> hwn_limit_max res]
            E_RES_HWN_S)"

definition plan_clk :: "u32 list \<Rightarrow> u32" where
  "plan_clk sts = plan_last [st \<leftarrow> sts. step_tag st = MTK_CAMSYS_RES_CLK_TAG] E_RES_CLK_S"

definition plan_frz :: "mtk_cam_resource_config \<Rightarrow> u32 list \<Rightarrow> bool" where
  "plan_frz res sts =
    (E_RES_FRZ1 \<in> set sts \<and> frz_limit res < 100 \<and> \<not> (plan_bin res \<and> E_RES_BIN1 \<in> set sts))"

definition plan_ratio :: "mtk_cam_resource_config \<Rightarrow> u32" where
  "plan_ratio res = (if frz_limit res < FRZ_PXLMODE_THRES then frz_limit res else FRZ_PXLMODE_THRES)"

definition plan_lines_ok :: "mtk_cam_resource_config \<Rightarrow> int \<Rightarrow> u32 list \<Rightarrow> bool" where
  "plan_lines_ok res in_w sts =
    (fst (mtk_raw_linebuf_chk (plan_twin res sts \<noteq> 0) (bin_limit res AND BIN_ON \<noteq> 0) False
            (bin_limit res AND QBND_ON \<noteq> 0) (is_cbn_en (bin_limit res)) in_w 100) = LB_CHECK_OK)"

definition plan_mode :: "mtk_cam_resource_config \<Rightarrow> u32 list \<Rightarrow> u32 \<Rightarrow> u32" where
  "plan_mode res sts p =
    mtk_raw_pixelmode_calc p (plan_twin res sts) (plan_bin res) (plan_frz res sts) (plan_ratio res)"

definition plan_carries :: "(nat \<Rightarrow> u32) \<Rightarrow> mtk_cam_resource_config \<Rightarrow> int \<Rightarrow> u32 list \<Rightarrow> u32 \<Rightarrow> bool" where
  "plan_carries clklv res in_w sts p =
    (plan_lines_ok res in_w sts
     \<and> rc_pixel_rate res < ucast (plan_mode res sts p) * ucast (clklv (unat (plan_clk sts))))"

definition plan_first :: "(nat \<Rightarrow> u32) \<Rightarrow> mtk_cam_resource_config \<Rightarrow> int \<Rightarrow> u32 list \<Rightarrow> nat \<Rightarrow> (nat \<times> u32) option" where
  "plan_first clklv res in_w steps n =
    List.find (\<lambda>(i, p). plan_carries clklv res in_w (take (Suc i) steps) p)
      (List.product [0 ..< n] [1, 2])"

subsubsection \<open>The plans\<close>

lemma plan_length: "steps \<in> set raw_resource_strategy_plan \<Longrightarrow> length steps = 8"
  by (auto simp: raw_resource_strategy_plan_def)

lemma nat_less_8: "i < (8::nat) \<longleftrightarrow> i = 0 \<or> i = 1 \<or> i = 2 \<or> i = 3 \<or> i = 4 \<or> i = 5 \<or> i = 6 \<or> i = 7"
  by auto

lemma plan_step_kinds:
  "steps \<in> set raw_resource_strategy_plan \<Longrightarrow> i < 8 \<Longrightarrow>
   steps ! i \<in> {E_RES_BASIC, E_RES_HWN1, E_RES_HWN2, E_RES_FRZ1, E_RES_BIN1, E_RES_CLK1, E_RES_CLK2, E_RES_CLK3}"
  by (unfold nat_less_8) (auto simp: raw_resource_strategy_plan_def)

lemma plan_first_step:
  "steps \<in> set raw_resource_strategy_plan \<Longrightarrow> steps ! 0 = E_RES_BASIC"
  by (auto simp: raw_resource_strategy_plan_def)

lemma plan_frz_before_bin:
  "steps \<in> set raw_resource_strategy_plan \<Longrightarrow> i < 8 \<Longrightarrow> steps ! i = E_RES_FRZ1 \<Longrightarrow>
   0 < i \<and> E_RES_BIN1 \<notin> set (take i steps) \<and> E_RES_FRZ1 \<notin> set (take i steps)"
  by (unfold nat_less_8) (auto simp: raw_resource_strategy_plan_def res_consts)

lemma plan_bin_after_frz:
  "steps \<in> set raw_resource_strategy_plan \<Longrightarrow> i < 8 \<Longrightarrow> steps ! i = E_RES_BIN1 \<Longrightarrow>
   E_RES_FRZ1 \<in> set (take i steps)"
  by (unfold nat_less_8) (auto simp: raw_resource_strategy_plan_def res_consts)

lemma step_tags [simp]:
  "step_tag E_RES_BASIC = 0" "step_tag E_RES_HWN1 = MTK_CAMSYS_RES_HWN_TAG"
  "step_tag E_RES_HWN2 = MTK_CAMSYS_RES_HWN_TAG" "step_tag E_RES_FRZ1 = MTK_CAMSYS_RES_FRZ_TAG"
  "step_tag E_RES_BIN1 = MTK_CAMSYS_RES_BIN_TAG" "step_tag E_RES_CLK1 = MTK_CAMSYS_RES_CLK_TAG"
  "step_tag E_RES_CLK2 = MTK_CAMSYS_RES_CLK_TAG" "step_tag E_RES_CLK3 = MTK_CAMSYS_RES_CLK_TAG"
  by (simp_all add: step_tag_def res_consts)

lemma plan_last_snoc:
  "plan_last (l @ [x]) base = x - base" by (simp add: plan_last_def)

subsubsection \<open>One step\<close>

text \<open>The resizer never changes whether the lines fit, and its ratio is never recomputed.\<close>

lemma frz_line_buffer: "CAM_RAW_FRZ_MAX_LINE_BUFFER = CAM_RAW_PROCESS_MAX_LINE_BUFFER"
  by (simp add: lb_consts)

lemma linebuf_resizer:
  "snd (mtk_raw_linebuf_chk t b f q c x r) = r"
  "fst (mtk_raw_linebuf_chk t b f q c x r) = LB_CHECK_OK \<longleftrightarrow>
   fst (mtk_raw_linebuf_chk t b False q c x r') = LB_CHECK_OK"
  by (cases t; cases b; cases q; cases c; simp add: mtk_raw_linebuf_chk_def frz_line_buffer Let_def)+

lemma step_tags_distinct [simp]:
  "MTK_CAMSYS_RES_BIN_TAG \<noteq> MTK_CAMSYS_RES_FRZ_TAG" "MTK_CAMSYS_RES_FRZ_TAG \<noteq> MTK_CAMSYS_RES_BIN_TAG"
  "MTK_CAMSYS_RES_BIN_TAG \<noteq> MTK_CAMSYS_RES_HWN_TAG" "MTK_CAMSYS_RES_HWN_TAG \<noteq> MTK_CAMSYS_RES_BIN_TAG"
  "MTK_CAMSYS_RES_BIN_TAG \<noteq> MTK_CAMSYS_RES_CLK_TAG" "MTK_CAMSYS_RES_CLK_TAG \<noteq> MTK_CAMSYS_RES_BIN_TAG"
  "MTK_CAMSYS_RES_FRZ_TAG \<noteq> MTK_CAMSYS_RES_HWN_TAG" "MTK_CAMSYS_RES_HWN_TAG \<noteq> MTK_CAMSYS_RES_FRZ_TAG"
  "MTK_CAMSYS_RES_FRZ_TAG \<noteq> MTK_CAMSYS_RES_CLK_TAG" "MTK_CAMSYS_RES_CLK_TAG \<noteq> MTK_CAMSYS_RES_FRZ_TAG"
  "MTK_CAMSYS_RES_HWN_TAG \<noteq> MTK_CAMSYS_RES_CLK_TAG" "MTK_CAMSYS_RES_CLK_TAG \<noteq> MTK_CAMSYS_RES_HWN_TAG"
  "0 \<noteq> MTK_CAMSYS_RES_BIN_TAG" "0 \<noteq> MTK_CAMSYS_RES_FRZ_TAG"
  "0 \<noteq> MTK_CAMSYS_RES_HWN_TAG" "0 \<noteq> MTK_CAMSYS_RES_CLK_TAG"
  by (simp_all add: res_consts)

lemma apply_step_fields:
  "rs_res (res_apply_step st c) = rs_res c" "rs_found (res_apply_step st c) = rs_found c"
  "rs_idx_res (res_apply_step st c) = rs_idx_res c" "rs_pixel_mode (res_apply_step st c) = rs_pixel_mode c"
  "rs_throughput (res_apply_step st c) = rs_throughput c" "rs_ratio (res_apply_step st c) = rs_ratio c"
  by (simp_all add: res_apply_step_def Let_def)

lemma apply_step_regs:
  "rs_twin (res_apply_step st c) =
     (if 1 < hwn_limit_min (rs_res c) then 1
      else if step_tag st = MTK_CAMSYS_RES_HWN_TAG \<and> st - E_RES_HWN_S + 1 \<le> hwn_limit_max (rs_res c)
      then st - E_RES_HWN_S else rs_twin c)"
  "rs_clk (res_apply_step st c) =
     (if step_tag st = MTK_CAMSYS_RES_CLK_TAG then st - E_RES_CLK_S else rs_clk c)"
  "rs_bin (res_apply_step st c) =
     (if plan_bin (rs_res c) then 1
      else if step_tag st = MTK_CAMSYS_RES_BIN_TAG \<and> st - E_RES_BIN_S \<le> bin_limit (rs_res c)
      then st - E_RES_BIN_S else rs_bin c)"
  by (simp_all add: res_apply_step_def Let_def plan_bin_def flip: step_tag_def)

lemma apply_step_frz:
  "rs_frz (res_apply_step st c) =
     (if step_tag st = MTK_CAMSYS_RES_FRZ_TAG then (if frz_limit (rs_res c) < 100 then st - E_RES_FRZ_S else rs_frz c)
      else if step_tag st = MTK_CAMSYS_RES_BIN_TAG \<and>
        (if st - E_RES_BIN_S \<le> bin_limit (rs_res c) then st - E_RES_BIN_S else rs_bin c) \<noteq> 0 then 0
      else rs_frz c)"
  by (auto simp: res_apply_step_def Let_def simp flip: step_tag_def)

lemma apply_step_twin:
  assumes "1 < hwn_limit_min (rs_res c) \<or> rs_twin c = plan_twin (rs_res c) sts"
  shows "rs_twin (res_apply_step st c) = plan_twin (rs_res c) (sts @ [st])"
  using assms by (auto simp: apply_step_regs plan_twin_def plan_last_snoc)

lemma apply_step_clk:
  assumes "rs_clk c = plan_clk sts"
  shows "rs_clk (res_apply_step st c) = plan_clk (sts @ [st])"
  using assms by (auto simp: apply_step_regs plan_clk_def plan_last_snoc)

lemma apply_step_bin:
  assumes "st \<in> {E_RES_BASIC, E_RES_HWN1, E_RES_HWN2, E_RES_FRZ1, E_RES_BIN1, E_RES_CLK1, E_RES_CLK2, E_RES_CLK3}"
    and "rs_bin c \<in> {0, of_bool (plan_bin (rs_res c))}"
  shows "rs_bin (res_apply_step st c) = of_bool (plan_bin (rs_res c))"
  using assms by (auto simp: apply_step_regs plan_bin_def E_RES_BIN_S_def E_RES_BIN1_def)

lemma apply_step_resizer:
  assumes st: "st \<in> {E_RES_BASIC, E_RES_HWN1, E_RES_HWN2, E_RES_FRZ1, E_RES_BIN1, E_RES_CLK1, E_RES_CLK2, E_RES_CLK3}"
    and bin: "rs_bin c \<in> {0, of_bool (plan_bin (rs_res c))}"
    and frz: "rs_frz c = of_bool (plan_frz (rs_res c) sts)"
    and ord: "st = E_RES_FRZ1 \<Longrightarrow> E_RES_BIN1 \<notin> set sts \<and> E_RES_FRZ1 \<notin> set sts"
  shows "rs_frz (res_apply_step st c) = of_bool (plan_frz (rs_res c) (sts @ [st]))"
proof -
  have one: "E_RES_BIN1 - E_RES_BIN_S = 1" "E_RES_FRZ1 - E_RES_FRZ_S = 1" by (simp_all add: res_consts)
  have ne: "E_RES_FRZ1 \<noteq> E_RES_BIN1" by (simp add: res_consts)
  consider "st = E_RES_FRZ1" | "st = E_RES_BIN1"
    | "st \<noteq> E_RES_FRZ1" "st \<noteq> E_RES_BIN1" "step_tag st \<noteq> MTK_CAMSYS_RES_FRZ_TAG" "step_tag st \<noteq> MTK_CAMSYS_RES_BIN_TAG"
    using st step_tags by (auto simp del: step_tags) (auto)
  then show ?thesis
  proof cases
    case 1
    then show ?thesis using frz ord ne by (auto simp: apply_step_frz plan_frz_def one)
  next
    case 2
    then show ?thesis using frz bin ne by (auto simp: apply_step_frz plan_frz_def plan_bin_def one)
  next
    case 3
    then show ?thesis using frz by (auto simp: apply_step_frz plan_frz_def)
  qed
qed

subsubsection \<open>The loop\<close>

lemma res_loop_snoc:
  "res_loop clklv w n (sts @ [st]) c = res_body clklv w (n + length sts) st (res_loop clklv w n sts c)"
  by (induction sts arbitrary: n c) simp_all

lemma res_pixel_modes_eq: "res_pixel_modes = [1, 2]"
  by (simp add: res_pixel_modes_def MTK_CAMSYS_PROC_DEFAULT_PIXELMODE_def upt_rec)

lemma find_append:
  "List.find P (xs @ ys) = (case List.find P xs of None \<Rightarrow> List.find P ys | Some x \<Rightarrow> Some x)"
  by (induction xs) auto

lemma plan_first_Suc:
  "plan_first clklv res w steps (Suc n) =
    (case plan_first clklv res w steps n of
       Some x \<Rightarrow> Some x
     | None \<Rightarrow> if plan_carries clklv res w (take (Suc n) steps) 1 then Some (n, 1)
              else if plan_carries clklv res w (take (Suc n) steps) 2 then Some (n, 2) else None)"
  by (simp add: plan_first_def product_concat_map find_append split: option.split)

text \<open>The configuration read by the search does not change while it runs.\<close>

definition res_taken ::
  "(nat \<Rightarrow> u32) \<Rightarrow> mtk_cam_resource_config \<Rightarrow> u32 list \<Rightarrow> u32 \<Rightarrow> mtk_cam_resource_config" where
  "res_taken clklv r sts q =
    r\<lparr>bin_enable := of_bool (plan_bin r), frz_enable := of_bool (plan_frz r sts),
      raw_num_used := plan_twin r sts + 1, clk_target := clklv (unat (plan_clk sts)), frz_ratio := q\<rparr>"

definition res_same :: "mtk_cam_resource_config \<Rightarrow> mtk_cam_resource_config \<Rightarrow> bool" where
  "res_same r s = (\<exists>b f n k q. s = r\<lparr>bin_enable := b, frz_enable := f, raw_num_used := n, clk_target := k, frz_ratio := q\<rparr>)"

lemma res_sameD:
  assumes "res_same r s"
  shows "bin_limit s = bin_limit r" "frz_limit s = frz_limit r" "hwn_limit_max s = hwn_limit_max r"
    "hwn_limit_min s = hwn_limit_min r" "rc_pixel_rate s = rc_pixel_rate r" "rc_raw_feature s = rc_raw_feature r"
    "tgo_pxl_mode s = tgo_pxl_mode r"
    "plan_bin s = plan_bin r" "plan_twin s = plan_twin r" "plan_frz s = plan_frz r" "plan_ratio s = plan_ratio r"
    "plan_lines_ok s = plan_lines_ok r"
  using assms
  by (auto simp: res_same_def plan_bin_def plan_twin_def plan_frz_def plan_ratio_def plan_lines_ok_def fun_eq_iff)

text \<open>The registers of the search before a step's settings and after them.\<close>

definition res_regs :: "mtk_cam_resource_config \<Rightarrow> u32 list \<Rightarrow> res_search \<Rightarrow> bool" where
  "res_regs r sts c =
    ((1 < hwn_limit_min r \<or> rs_twin c = plan_twin r sts) \<and> rs_clk c = plan_clk sts
     \<and> rs_bin c \<in> {0, of_bool (plan_bin r)} \<and> rs_frz c = of_bool (plan_frz r sts) \<and> rs_ratio c = 100)"

definition res_regs_full :: "mtk_cam_resource_config \<Rightarrow> u32 list \<Rightarrow> res_search \<Rightarrow> bool" where
  "res_regs_full r sts c =
    (rs_twin c = plan_twin r sts \<and> rs_clk c = plan_clk sts
     \<and> rs_bin c = of_bool (plan_bin r) \<and> rs_frz c = of_bool (plan_frz r sts) \<and> rs_ratio c = 100)"

lemma regs_full_regs: "res_regs_full r sts c \<Longrightarrow> res_regs r sts c"
  by (auto simp: res_regs_def res_regs_full_def)

lemma apply_step_regs_full:
  assumes steps: "steps \<in> set raw_resource_strategy_plan" and n: "n < 8"
    and same: "res_same r (rs_res c)" and regs: "res_regs r (take n steps) c"
  shows "res_regs_full r (take (Suc n) steps) (res_apply_step (steps ! n) c)"
proof -
  have sts: "take (Suc n) steps = take n steps @ [steps ! n]"
    using plan_length[OF steps] n by (simp add: take_Suc_conv_app_nth)
  note k = plan_step_kinds[OF steps n]
  note d = res_sameD[OF same]
  have "rs_twin (res_apply_step (steps ! n) c) = plan_twin r (take (Suc n) steps)"
    unfolding sts using apply_step_twin[of c "take n steps" "steps ! n"] regs d by (simp add: res_regs_def)
  moreover have "rs_bin (res_apply_step (steps ! n) c) = of_bool (plan_bin r)"
    using apply_step_bin[OF k, of c] regs d by (simp add: res_regs_def)
  moreover have "rs_frz (res_apply_step (steps ! n) c) = of_bool (plan_frz r (take (Suc n) steps))"
    unfolding sts using apply_step_resizer[OF k, of c "take n steps"] regs d plan_frz_before_bin[OF steps n]
    by (simp add: res_regs_def)
  moreover have "rs_clk (res_apply_step (steps ! n) c) = plan_clk (take (Suc n) steps)"
    unfolding sts using apply_step_clk[of c "take n steps" "steps ! n"] regs by (simp add: res_regs_def)
  ultimately show ?thesis
    using regs by (simp add: res_regs_full_def res_regs_def apply_step_fields)
qed

text \<open>The line-buffer check of a step: whether the lines fit, and the resizer's ratio.\<close>

lemma check_lb_fields:
  "rs_found (res_check_lb w st c) = rs_found c" "rs_idx_res (res_check_lb w st c) = rs_idx_res c"
  "rs_pixel_mode (res_check_lb w st c) = rs_pixel_mode c" "rs_throughput (res_check_lb w st c) = rs_throughput c"
  "rs_twin (res_check_lb w st c) = rs_twin c" "rs_bin (res_check_lb w st c) = rs_bin c"
  "rs_frz (res_check_lb w st c) = rs_frz c" "rs_clk (res_check_lb w st c) = rs_clk c"
  "rs_ratio (res_check_lb w st c) = rs_ratio c"
  by (simp_all add: res_check_lb_def linebuf_resizer Let_def case_prod_beta)

lemma check_lb_ok:
  assumes "res_same r (rs_res c)" and "res_regs_full r sts c"
  shows "rs_lb (res_check_lb w st c) = LB_CHECK_OK \<longleftrightarrow> plan_lines_ok r w sts"
proof -
  have "rs_lb (res_check_lb w st c) =
      fst (mtk_raw_linebuf_chk (rs_twin c \<noteq> 0) (bin_limit (rs_res c) AND BIN_ON \<noteq> 0) (rs_frz c \<noteq> 0)
        (bin_limit (rs_res c) AND QBND_ON \<noteq> 0) (is_cbn_en (bin_limit (rs_res c))) w (rs_ratio c))"
    by (simp add: res_check_lb_def Let_def case_prod_beta)
  then show ?thesis
    using assms(2) res_sameD[OF assms(1)] linebuf_resizer(2)[where r' = 100]
    by (simp add: plan_lines_ok_def res_regs_full_def)
qed

lemma check_lb_res_eq:
  "rs_res (res_check_lb w st c) =
    (if step_tag st = MTK_CAMSYS_RES_FRZ_TAG
     then (rs_res c)\<lparr>frz_ratio :=
        (if rs_throughput c > rc_pixel_rate (rs_res c) \<and> rs_lb (res_check_lb w st c) = LB_CHECK_OK then rs_ratio c
         else plan_ratio (rs_res c))\<rparr>
     else rs_res c)"
  by (simp add: res_check_lb_def linebuf_resizer(1) Let_def case_prod_beta step_tag_def plan_ratio_def)

lemma check_lb_res:
  assumes "res_same r (rs_res c)" and "res_regs_full r sts c"
  shows "rs_res (res_check_lb w st c) =
    (if step_tag st = MTK_CAMSYS_RES_FRZ_TAG
     then (rs_res c)\<lparr>frz_ratio := (if rs_throughput c > rc_pixel_rate r \<and> plan_lines_ok r w sts then 100
                                   else plan_ratio r)\<rparr>
     else rs_res c)"
proof -
  have "rs_ratio c = 100" using assms(2) by (simp add: res_regs_full_def)
  then show ?thesis
    by (simp only: check_lb_res_eq check_lb_ok[OF assms] res_sameD(5,11)[OF assms(1)])
qed

text \<open>The pixel mode of a step, when the ratio that matters is the plan's.\<close>

lemma res_tgo_plan:
  assumes "res_regs_full r sts c" and "plan_frz r sts \<Longrightarrow> frz_ratio (rs_res c) = plan_ratio r"
  shows "res_tgo p c = plan_mode r sts p"
  using assms by (cases "plan_frz r sts") (auto simp: res_tgo_def plan_mode_def res_regs_full_def mtk_raw_pixelmode_calc_def)

lemma plan_twin_snoc_other:
  "step_tag st \<noteq> MTK_CAMSYS_RES_HWN_TAG \<Longrightarrow> plan_twin r (sts @ [st]) = plan_twin r sts"
  by (simp add: plan_twin_def)

lemma plan_lines_snoc_other:
  "step_tag st \<noteq> MTK_CAMSYS_RES_HWN_TAG \<Longrightarrow> plan_lines_ok r w (sts @ [st]) = plan_lines_ok r w sts"
  by (simp add: plan_lines_ok_def plan_twin_snoc_other)

lemma frz_tag_step:
  "st \<in> {E_RES_BASIC, E_RES_HWN1, E_RES_HWN2, E_RES_FRZ1, E_RES_BIN1, E_RES_CLK1, E_RES_CLK2, E_RES_CLK3} \<Longrightarrow>
   step_tag st = MTK_CAMSYS_RES_FRZ_TAG \<longleftrightarrow> st = E_RES_FRZ1"
  using step_tags by (auto simp: res_consts)

definition res_inv ::
  "(nat \<Rightarrow> u32) \<Rightarrow> mtk_cam_resource_config \<Rightarrow> int \<Rightarrow> u32 list \<Rightarrow> nat \<Rightarrow> res_search \<Rightarrow> bool" where
  "res_inv clklv r w steps n c =
    (res_regs r (take n steps) c \<and>
     (case plan_first clklv r w steps n of
        None \<Rightarrow> \<not> rs_found c \<and> rs_idx_res c = 0
          \<and> (0 < n \<longrightarrow> rs_pixel_mode c 0 = plan_mode r (take 1 steps) 2)
          \<and> (0 < n \<longrightarrow> \<not> (rc_pixel_rate r < rs_throughput c \<and> plan_lines_ok r w (take n steps)))
          \<and> (\<exists>q. rs_res c = r\<lparr>frz_ratio := q\<rparr> \<and> (plan_frz r (take n steps) \<longrightarrow> q = plan_ratio r))
      | Some (i, p) \<Rightarrow> i < n \<and> rs_found c \<and> rs_idx_res c = i
          \<and> rs_pixel_mode c i = plan_mode r (take (Suc i) steps) p
          \<and> (\<exists>q. rs_res c = res_taken clklv r (take (Suc i) steps) q
                 \<and> (plan_frz r (take (Suc i) steps) \<longrightarrow> q = plan_ratio r))))"

lemma res_same_taken: "res_same r (res_taken clklv r sts q)"
  unfolding res_same_def res_taken_def by blast

lemma res_taken_ratio: "(res_taken clklv r sts q)\<lparr>frz_ratio := x\<rparr> = res_taken clklv r sts x"
  by (simp add: res_taken_def)

lemma res_same_ratio: "res_same r (r\<lparr>frz_ratio := q\<rparr>)"
  unfolding res_same_def
  by (rule exI[of _ "bin_enable r"], rule exI[of _ "frz_enable r"], rule exI[of _ "raw_num_used r"],
      rule exI[of _ "clk_target r"], rule exI[of _ q]) simp

lemma res_inv_same: "res_inv clklv r w steps n c \<Longrightarrow> res_same r (rs_res c)"
  by (auto simp: res_inv_def split: option.splits prod.splits intro: res_same_taken res_same_ratio)

text \<open>The state at the inner loop: the registers are those of the plan, the choice is as before.\<close>

lemma res_mid:
  assumes steps: "steps \<in> set raw_resource_strategy_plan" and n: "n < 8"
    and inv: "res_inv clklv r w steps n c"
  defines "c1 \<equiv> res_check_lb w (steps ! n) (res_apply_step (steps ! n) c)"
  shows "res_regs_full r (take (Suc n) steps) c1"
    and "rs_lb c1 = LB_CHECK_OK \<longleftrightarrow> plan_lines_ok r w (take (Suc n) steps)"
    and "rs_found c1 = rs_found c" "rs_idx_res c1 = rs_idx_res c" "rs_pixel_mode c1 = rs_pixel_mode c"
proof -
  let ?a = "res_apply_step (steps ! n) c"
  have full: "res_regs_full r (take (Suc n) steps) ?a"
    using apply_step_regs_full[OF steps n res_inv_same[OF inv]] inv by (simp add: res_inv_def)
  have same: "res_same r (rs_res ?a)" using res_inv_same[OF inv] by (simp add: apply_step_fields)
  show "res_regs_full r (take (Suc n) steps) c1"
    using full by (simp add: c1_def res_regs_full_def check_lb_fields)
  show "rs_lb c1 = LB_CHECK_OK \<longleftrightarrow> plan_lines_ok r w (take (Suc n) steps)"
    unfolding c1_def by (rule check_lb_ok[OF same full])
  show "rs_found c1 = rs_found c" "rs_idx_res c1 = rs_idx_res c" "rs_pixel_mode c1 = rs_pixel_mode c"
    by (simp_all add: c1_def check_lb_fields apply_step_fields)
qed

lemma res_mid_res:
  assumes steps: "steps \<in> set raw_resource_strategy_plan" and n: "n < 8"
    and inv: "res_inv clklv r w steps n c"
  shows "rs_res (res_check_lb w (steps ! n) (res_apply_step (steps ! n) c)) =
    (if steps ! n = E_RES_FRZ1
     then (rs_res c)\<lparr>frz_ratio := (if rs_throughput c > rc_pixel_rate r \<and> plan_lines_ok r w (take n steps) then 100
                                   else plan_ratio r)\<rparr>
     else rs_res c)"
proof -
  let ?a = "res_apply_step (steps ! n) c"
  have full: "res_regs_full r (take (Suc n) steps) ?a"
    using apply_step_regs_full[OF steps n res_inv_same[OF inv]] inv by (simp add: res_inv_def)
  have same: "res_same r (rs_res ?a)" using res_inv_same[OF inv] by (simp add: apply_step_fields)
  have sts: "take (Suc n) steps = take n steps @ [steps ! n]"
    using plan_length[OF steps] n by (simp add: take_Suc_conv_app_nth)
  show ?thesis
    using check_lb_res[OF same full, of w "steps ! n"] frz_tag_step[OF plan_step_kinds[OF steps n]]
    by (simp add: apply_step_fields sts plan_lines_snoc_other)
qed

text \<open>Once a step is taken the inner loop only touches the pixel mode and the throughput.\<close>

lemma try_pixel_found:
  assumes "rs_found c"
  shows "rs_res (res_try_pixel clklv i ps c) = rs_res c \<and> rs_found (res_try_pixel clklv i ps c)
    \<and> rs_idx_res (res_try_pixel clklv i ps c) = rs_idx_res c
    \<and> (j \<noteq> i \<longrightarrow> rs_pixel_mode (res_try_pixel clklv i ps c) j = rs_pixel_mode c j)"
  using assms by (induction ps arbitrary: c) (simp_all add: Let_def)

lemma try_pixel_regs:
  "rs_twin (res_try_pixel clklv i ps c) = rs_twin c \<and> rs_clk (res_try_pixel clklv i ps c) = rs_clk c
   \<and> rs_bin (res_try_pixel clklv i ps c) = rs_bin c \<and> rs_frz (res_try_pixel clklv i ps c) = rs_frz c
   \<and> rs_ratio (res_try_pixel clklv i ps c) = rs_ratio c"
  by (induction ps arbitrary: c) (simp_all add: Let_def res_take_def)

lemma try_pixel_full:
  "res_regs_full r sts c \<Longrightarrow> res_regs_full r sts (res_try_pixel clklv i ps c)"
  by (simp add: res_regs_full_def try_pixel_regs)

lemma plan_frz_prefix:
  assumes "steps \<in> set raw_resource_strategy_plan" "n < 8" "steps ! n \<noteq> E_RES_FRZ1"
    and "plan_frz r (take (Suc n) steps)"
  shows "plan_frz r (take n steps)"
proof -
  have "take (Suc n) steps = take n steps @ [steps ! n]"
    using plan_length[OF assms(1)] assms(2) by (simp add: take_Suc_conv_app_nth)
  then show ?thesis using assms(3,4) by (auto simp: plan_frz_def)
qed

text \<open>A step taken before the resizer's step has the resizer off.\<close>

lemma plan_frz_later:
  assumes "steps \<in> set raw_resource_strategy_plan" "n < 8" "steps ! n = E_RES_FRZ1" "i < n"
  shows "\<not> plan_frz r (take (Suc i) steps)"
proof -
  have "set (take (Suc i) steps) \<subseteq> set (take n steps)"
    using assms(4) by (intro set_take_subset_set_take) simp
  then show ?thesis using plan_frz_before_bin[OF assms(1-3)] by (auto simp: plan_frz_def)
qed

lemma res_body_found:
  assumes steps: "steps \<in> set raw_resource_strategy_plan" and n: "n < 8"
    and nts: "rc_raw_feature r AND MTK_CAM_FEATURE_TIMESHARE_MASK = 0"
    and inv: "res_inv clklv r w steps n c" and f: "plan_first clklv r w steps n = Some (i, p)"
  shows "res_inv clklv r w steps (Suc n) (res_body clklv w n (steps ! n) c)"
proof -
  let ?c1 = "res_check_lb w (steps ! n) (res_apply_step (steps ! n) c)"
  let ?c2 = "res_try_pixel clklv n res_pixel_modes ?c1"
  note mid = res_mid[OF steps n inv]
  obtain q where i: "i < n" "rs_found c" "rs_idx_res c = i" "rs_pixel_mode c i = plan_mode r (take (Suc i) steps) p"
    and q: "rs_res c = res_taken clklv r (take (Suc i) steps) q" "plan_frz r (take (Suc i) steps) \<longrightarrow> q = plan_ratio r"
    using inv f by (auto simp: res_inv_def)
  have "\<exists>q'. rs_res ?c1 = res_taken clklv r (take (Suc i) steps) q' \<and> (plan_frz r (take (Suc i) steps) \<longrightarrow> q' = plan_ratio r)"
  proof (cases "steps ! n = E_RES_FRZ1")
    case True
    then show ?thesis
      using res_mid_res[OF steps n inv] plan_frz_later[OF steps n True i(1)] q(1) by (auto simp: res_taken_ratio)
  next
    case False
    then show ?thesis using res_mid_res[OF steps n inv] q by auto
  qed
  then obtain q' where q': "rs_res ?c1 = res_taken clklv r (take (Suc i) steps) q'"
    "plan_frz r (take (Suc i) steps) \<longrightarrow> q' = plan_ratio r" by blast
  have "rc_raw_feature (rs_res ?c1) = rc_raw_feature r" by (simp add: q' res_taken_def)
  then have body: "res_body clklv w n (steps ! n) c = ?c2"
    using nts by (simp add: res_body_def Let_def)
  have "rs_found ?c1" using mid i by simp
  note t = try_pixel_found[OF this, of clklv n res_pixel_modes i]
  show ?thesis
    unfolding body res_inv_def plan_first_Suc f
    using t q' i mid regs_full_regs[OF try_pixel_full[OF mid(1)]] by auto
qed

lemma res_body_search:
  assumes steps: "steps \<in> set raw_resource_strategy_plan" and n: "n < 8"
    and nts: "rc_raw_feature r AND MTK_CAM_FEATURE_TIMESHARE_MASK = 0"
    and inv: "res_inv clklv r w steps n c" and f: "plan_first clklv r w steps n = None"
  shows "res_inv clklv r w steps (Suc n) (res_body clklv w n (steps ! n) c)"
proof -
  let ?c1 = "res_check_lb w (steps ! n) (res_apply_step (steps ! n) c)"
  let ?sts = "take (Suc n) steps"
  let ?c2 = "res_try_pixel clklv n res_pixel_modes ?c1"
  note mid = res_mid[OF steps n inv]
  obtain q where c: "\<not> rs_found c" "rs_idx_res c = 0" "0 < n \<longrightarrow> rs_pixel_mode c 0 = plan_mode r (take 1 steps) 2"
      "0 < n \<longrightarrow> \<not> (rc_pixel_rate r < rs_throughput c \<and> plan_lines_ok r w (take n steps))"
    and q: "rs_res c = r\<lparr>frz_ratio := q\<rparr>" "plan_frz r (take n steps) \<longrightarrow> q = plan_ratio r"
    using inv f by (auto simp: res_inv_def)
  have "\<exists>q'. rs_res ?c1 = r\<lparr>frz_ratio := q'\<rparr> \<and> (plan_frz r ?sts \<longrightarrow> q' = plan_ratio r)"
  proof (cases "steps ! n = E_RES_FRZ1")
    case True
    then have "0 < n" using plan_frz_before_bin[OF steps n] by simp
    then show ?thesis using True res_mid_res[OF steps n inv] c(4) q(1) by auto
  next
    case False
    then show ?thesis using res_mid_res[OF steps n inv] q plan_frz_prefix[OF steps n False] by auto
  qed
  then obtain q' where q': "rs_res ?c1 = r\<lparr>frz_ratio := q'\<rparr>" "plan_frz r ?sts \<longrightarrow> q' = plan_ratio r" by blast
  have body: "res_body clklv w n (steps ! n) c = ?c2"
    using nts q'(1) by (simp add: res_body_def Let_def)
  have tgo: "res_tgo p (?c1\<lparr>rs_pixel_mode := m, rs_throughput := t\<rparr>) = plan_mode r ?sts p"
    and tgo1: "res_tgo p ?c1 = plan_mode r ?sts p" for p m t
    using res_tgo_plan[OF mid(1), of p] q' by (simp_all add: res_tgo_def)
  have regs: "rs_clk ?c1 = plan_clk ?sts" "rs_bin ?c1 = of_bool (plan_bin r)" "rs_frz ?c1 = of_bool (plan_frz r ?sts)"
    "rs_twin ?c1 = plan_twin r ?sts"
    using mid(1) by (simp_all add: res_regs_full_def)
  have idx: "rs_idx_res ?c1 = 0" "\<not> rs_found ?c1" using mid c by simp_all
  have full: "res_regs r ?sts ?c2" by (rule regs_full_regs[OF try_pixel_full[OF mid(1)]])
  have pm: "rs_pixel_mode ?c1 0 = plan_mode r (take 1 steps) 2" if "0 < n" using that mid(5) c(3) by simp
  consider "plan_carries clklv r w ?sts 1" | "\<not> plan_carries clklv r w ?sts 1" "plan_carries clklv r w ?sts 2"
    | "\<not> plan_carries clklv r w ?sts 1" "\<not> plan_carries clklv r w ?sts 2" by blast
  then show ?thesis
  proof cases
    case 1
    then have "rs_res ?c2 = res_taken clklv r ?sts q' \<and> rs_found ?c2 \<and> rs_idx_res ?c2 = n
        \<and> rs_pixel_mode ?c2 n = plan_mode r ?sts 1"
      using idx mid(2) by (simp add: res_pixel_modes_eq Let_def tgo1 regs q'(1) plan_carries_def res_take_def res_taken_def)
    then show ?thesis
      using 1 full q'(2) unfolding body res_inv_def plan_first_Suc f by auto
  next
    case 2
    then have "rs_res ?c2 = res_taken clklv r ?sts q' \<and> rs_found ?c2 \<and> rs_idx_res ?c2 = n
        \<and> rs_pixel_mode ?c2 n = plan_mode r ?sts 2"
      using idx mid(2)
      by (auto simp: res_pixel_modes_eq Let_def tgo tgo1 regs q'(1) plan_carries_def res_take_def res_taken_def)
    then show ?thesis
      using 2 full q'(2) unfolding body res_inv_def plan_first_Suc f by auto
  next
    case 3
    then have "rs_res ?c2 = r\<lparr>frz_ratio := q'\<rparr> \<and> \<not> rs_found ?c2 \<and> rs_idx_res ?c2 = 0
        \<and> rs_pixel_mode ?c2 = (rs_pixel_mode ?c1)(n := plan_mode r ?sts 2)
        \<and> rs_throughput ?c2 = ucast (plan_mode r ?sts 2) * ucast (clklv (unat (plan_clk ?sts)))"
      using idx mid(2)
      by (auto simp: res_pixel_modes_eq Let_def tgo tgo1 regs q'(1) plan_carries_def)
    then have t: "rs_res ?c2 = r\<lparr>frz_ratio := q'\<rparr>" "\<not> rs_found ?c2" "rs_idx_res ?c2 = 0"
      "rs_pixel_mode ?c2 = (rs_pixel_mode ?c1)(n := plan_mode r ?sts 2)"
      "rs_throughput ?c2 = ucast (plan_mode r ?sts 2) * ucast (clklv (unat (plan_clk ?sts)))" by blast+
    have "rs_pixel_mode ?c2 0 = plan_mode r (take 1 steps) 2"
      using pm unfolding t(4) by (cases "n = 0") simp_all
    moreover have "\<not> (rc_pixel_rate r < rs_throughput ?c2 \<and> plan_lines_ok r w ?sts)"
      using 3(2) unfolding t(5) plan_carries_def by blast
    moreover have "\<exists>q. rs_res ?c2 = r\<lparr>frz_ratio := q\<rparr> \<and> (plan_frz r ?sts \<longrightarrow> q = plan_ratio r)"
      using t(1) q'(2) by blast
    ultimately show ?thesis
      using 3 full t(2,3) unfolding body res_inv_def plan_first_Suc f by simp
  qed
qed

lemma res_inv_start: "res_inv clklv r w steps 0 (res_start clklv r)"
  by (simp add: res_inv_def plan_first_def res_start_def res_regs_def plan_twin_def plan_clk_def plan_last_def plan_frz_def)
    (intro exI[of _ "frz_ratio r"], simp)

lemma res_loop_inv:
  assumes steps: "steps \<in> set raw_resource_strategy_plan" and n: "n \<le> 8"
    and nts: "rc_raw_feature r AND MTK_CAM_FEATURE_TIMESHARE_MASK = 0"
  shows "res_inv clklv r w steps n (res_loop clklv w 0 (take n steps) (res_start clklv r))"
  using n
proof (induction n)
  case 0
  then show ?case by (simp add: res_inv_start)
next
  case (Suc n)
  have "take (Suc n) steps = take n steps @ [steps ! n]" "length (take n steps) = n"
    using plan_length[OF steps] Suc.prems by (simp_all add: take_Suc_conv_app_nth)
  then have "res_loop clklv w 0 (take (Suc n) steps) (res_start clklv r) =
      res_body clklv w n (steps ! n) (res_loop clklv w 0 (take n steps) (res_start clklv r))"
    by (simp only: res_loop_snoc) simp
  moreover have inv: "res_inv clklv r w steps n (res_loop clklv w 0 (take n steps) (res_start clklv r))"
    by (rule Suc.IH) (use Suc.prems in simp)
  ultimately show ?case
    using res_body_found[OF steps _ nts inv] res_body_search[OF steps _ nts inv] Suc.prems
    by (cases "plan_first clklv r w steps n") auto
qed

lemma plan_first_prefix: "plan_first clklv res w steps n = Some (i, p) \<Longrightarrow> i < n \<and> p \<in> {1, 2} \<and> plan_carries clklv res w (take (Suc i) steps) p"
  by (induction n) (auto simp: plan_first_Suc plan_first_def[of _ _ _ _ 0] split: option.splits if_splits)

lemma pixelmode_values:
  "p \<in> {1, 2} \<Longrightarrow> mtk_raw_pixelmode_calc p t b f q \<in> {1, 2, 4, 8}"
  by (auto simp: mtk_raw_pixelmode_calc_def TGO_MAX_PXLMODE_def Let_def)

lemma plan_mode_values: "p \<in> {1, 2} \<Longrightarrow> plan_mode r sts p \<in> {1, 2, 4, 8}"
  unfolding plan_mode_def by (rule pixelmode_values)

lemma log2_mode_old: "m \<in> {1, 2, 4, 8} \<Longrightarrow> res_log2_mode m old = res_log2_mode m 0"
  by (auto simp: res_log2_mode_def)

subsubsection \<open>The reference search\<close>

text \<open>
  What a negotiation answers: found or not, binning, resizer, number of engines, clock, pixel
  mode as a power of two, and the output size.
\<close>

record res_answer =
  ra_found :: bool
  ra_bin :: bool
  ra_frz :: bool
  ra_engines :: u32
  ra_clock :: u32
  ra_mode :: u32
  ra_width :: int
  ra_height :: int

definition res_view :: "bool \<times> mtk_cam_resource_config \<times> int \<times> int \<Rightarrow> res_answer" where
  "res_view a = (case a of (found, res, w, h) \<Rightarrow>
    \<lparr>ra_found = found, ra_bin = (bin_enable res \<noteq> 0), ra_frz = (frz_enable res \<noteq> 0),
     ra_engines = raw_num_used res, ra_clock = clk_target res, ra_mode = tgo_pxl_mode res,
     ra_width = w, ra_height = h\<rparr>)"

definition plan_out :: "mtk_cam_resource_config \<Rightarrow> u32 list \<Rightarrow> int \<Rightarrow> int" where
  "plan_out res sts x =
    (if plan_bin res then x div 2
     else if plan_frz res sts then sint ((word_of_int x :: u32) * plan_ratio res div 100)
     else x)"

text \<open>The first configuration of the plan, slow pixel mode first, that carries the rate.\<close>

definition resource_spec ::
  "(nat \<Rightarrow> u32) \<Rightarrow> mtk_cam_resource_config \<Rightarrow> u32 list \<Rightarrow> int \<Rightarrow> int \<Rightarrow> res_answer" where
  "resource_spec clklv res steps w h =
    (case plan_first clklv res w steps MTK_CAMSYS_RES_STEP_NUM of
       Some (i, p) \<Rightarrow>
         (let sts = take (Suc i) steps
          in \<lparr>ra_found = True, ra_bin = plan_bin res, ra_frz = plan_frz res sts,
              ra_engines = plan_twin res sts + 1, ra_clock = clklv (unat (plan_clk sts)),
              ra_mode = res_log2_mode (plan_mode res sts p) 0,
              ra_width = plan_out res sts w, ra_height = plan_out res sts h\<rparr>)
     | None \<Rightarrow>
         \<lparr>ra_found = False, ra_bin = False, ra_frz = False, ra_engines = 1,
          ra_clock = clklv (unat (plan_clk steps)),
          ra_mode = res_log2_mode (plan_mode res (take 1 steps) 2) 0, ra_width = w, ra_height = h\<rparr>)"

lemma debug_off: "debug_raw dbg = 0 \<Longrightarrow> mtk_raw_update_debug_param dbg clklv res = Some res"
  by (simp add: mtk_raw_update_debug_param_def)

lemma prepare_plan:
  "bin_enable (res_prepare res rate plan steps) = 0" "frz_enable (res_prepare res rate plan steps) = 0"
  "raw_num_used (res_prepare res rate plan steps) = 1"
  "rc_raw_feature (res_prepare res rate plan steps) = rc_raw_feature res"
  "bin_limit (res_prepare res rate plan steps) = bin_limit res"
  "frz_limit (res_prepare res rate plan steps) = frz_limit res"
  "hwn_limit_min (res_prepare res rate plan steps) = hwn_limit_min res"
  by (simp_all add: res_prepare_def Let_def)

text \<open>The calculation never changes the feature word.\<close>

lemma try_pixel_feature: "rc_raw_feature (rs_res (res_try_pixel clklv i ps c)) = rc_raw_feature (rs_res c)"
  by (induction ps arbitrary: c) (simp_all add: Let_def res_take_def)

lemma res_body_feature: "rc_raw_feature (rs_res (res_body clklv w i st c)) = rc_raw_feature (rs_res c)"
proof -
  have "rc_raw_feature (rs_res (res_check_lb w st (res_apply_step st c))) = rc_raw_feature (rs_res c)"
    by (simp add: check_lb_res_eq apply_step_fields)
  then show ?thesis by (simp add: res_body_def Let_def try_pixel_feature res_take_def)
qed

lemma res_loop_feature: "rc_raw_feature (rs_res (res_loop clklv w i sts c)) = rc_raw_feature (rs_res c)"
  by (induction sts arbitrary: i c) (simp_all add: res_body_feature)

lemma resource_calc_feature:
  assumes "mtk_raw_resource_calc dbg clklv res rate plan w h = Some (found, res', ow, oh)"
  shows "rc_raw_feature res' = rc_raw_feature res"
  using assms
  by (auto simp: mtk_raw_resource_calc_def mtk_raw_update_debug_param_def Let_def res_loop_feature res_start_def
      prepare_plan split: if_splits)

text \<open>A run of the calculation, reduced to its loop.\<close>

lemma resource_calc_run:
  assumes "debug_raw dbg = 0" and "rc_raw_feature res AND MTK_CAM_FEATURE_TIMESHARE_MASK = 0"
    and "steps = raw_resource_strategy_plan ! unat plan" and "unat plan < 4"
  obtains c where "steps \<in> set raw_resource_strategy_plan"
    and "res_inv clklv (res_prepare res rate plan steps) w steps 8 c"
    and "mtk_raw_resource_calc dbg clklv res rate plan w h =
      (let t = (rs_res c)\<lparr>tgo_pxl_mode := res_log2_mode (rs_pixel_mode c (rs_idx_res c)) (tgo_pxl_mode (rs_res c))\<rparr>;
           r = (if rs_found c then t else t\<lparr>clk_target := clklv (unat (rs_clk c))\<rparr>)
       in Some (rs_found c, r, res_out_size r w, res_out_size r h))"
proof -
  let ?r = "res_prepare res rate plan steps"
  let ?c = "res_loop clklv w 0 steps (res_start clklv ?r)"
  have len: "length raw_resource_strategy_plan = 4" by (simp add: raw_resource_strategy_plan_def)
  then have steps: "steps \<in> set raw_resource_strategy_plan" using assms(3,4) by simp
  have "res_inv clklv ?r w steps 8 (res_loop clklv w 0 (take 8 steps) (res_start clklv ?r))"
    by (rule res_loop_inv[OF steps]) (simp_all add: prepare_plan assms(2))
  then have inv: "res_inv clklv ?r w steps 8 ?c" using plan_length[OF steps] by simp
  show thesis
    by (rule that[OF steps inv])
      (use assms(3,4) len in \<open>simp add: mtk_raw_resource_calc_def debug_off[OF assms(1)] Let_def\<close>)
qed

text \<open>A configuration that keeps the resizer has the ratio of the limit, never one computed from the lines.\<close>

lemma resource_calc_ratio:
  assumes calc: "mtk_raw_resource_calc dbg clklv res rate plan w h = Some (found, res', ow, oh)"
    and "debug_raw dbg = 0" and "rc_raw_feature res AND MTK_CAM_FEATURE_TIMESHARE_MASK = 0"
    and frz: "frz_enable res' \<noteq> 0"
  shows "frz_ratio res' = plan_ratio res"
proof -
  have "unat plan < 4"
    using calc by (auto simp: mtk_raw_resource_calc_def raw_resource_strategy_plan_def split: if_splits)
  then obtain steps c where inv: "res_inv clklv (res_prepare res rate plan steps) w steps 8 c"
    and run: "mtk_raw_resource_calc dbg clklv res rate plan w h =
      (let t = (rs_res c)\<lparr>tgo_pxl_mode := res_log2_mode (rs_pixel_mode c (rs_idx_res c)) (tgo_pxl_mode (rs_res c))\<rparr>;
           r = (if rs_found c then t else t\<lparr>clk_target := clklv (unat (rs_clk c))\<rparr>)
       in Some (rs_found c, r, res_out_size r w, res_out_size r h))"
    using resource_calc_run[OF assms(2,3) refl] by blast
  let ?r = "res_prepare res rate plan steps"
  have f: "frz_enable res' = frz_enable (rs_res c)" "frz_ratio res' = frz_ratio (rs_res c)"
    using calc by (auto simp: run Let_def split: if_splits)
  have ratio: "plan_ratio ?r = plan_ratio res" by (simp add: plan_ratio_def prepare_plan)
  show ?thesis
  proof (cases "plan_first clklv ?r w steps 8")
    case None
    then show ?thesis using inv frz f by (auto simp: res_inv_def prepare_plan)
  next
    case (Some x)
    then show ?thesis using inv frz f ratio by (cases x) (auto simp: res_inv_def res_taken_def)
  qed
qed

text \<open>C7. The resource search of a raw pipeline is a first-fit search: with the debug parameters off
  and no time sharing, its loop over the eight plan steps and two pixel modes answers exactly as
  the reference that lists the configurations of the plan and takes the first one whose lines fit
  and whose throughput exceeds the pixel rate, and otherwise answers not found with nothing
  enabled and the plan's last clock.
\<close>

theorem resource_search_first_fit:
  assumes "debug_raw dbg = 0" and "unat plan < 4"
    and "rc_raw_feature res AND MTK_CAM_FEATURE_TIMESHARE_MASK = 0"
    and "steps = raw_resource_strategy_plan ! unat plan"
  shows "map_option res_view (mtk_raw_resource_calc dbg clklv res rate plan w h)
    = Some (resource_spec clklv (res_prepare res rate plan steps) steps w h)"
proof -
  let ?r = "res_prepare res rate plan steps"
  obtain c where steps: "steps \<in> set raw_resource_strategy_plan" and inv: "res_inv clklv ?r w steps 8 c"
    and calc: "mtk_raw_resource_calc dbg clklv res rate plan w h =
      (let t = (rs_res c)\<lparr>tgo_pxl_mode := res_log2_mode (rs_pixel_mode c (rs_idx_res c)) (tgo_pxl_mode (rs_res c))\<rparr>;
           r = (if rs_found c then t else t\<lparr>clk_target := clklv (unat (rs_clk c))\<rparr>)
       in Some (rs_found c, r, res_out_size r w, res_out_size r h))"
    using resource_calc_run[OF assms(1,3,4,2)] by blast
  show ?thesis
  proof (cases "plan_first clklv ?r w steps 8")
    case None
    then obtain q where "\<not> rs_found c" "rs_idx_res c = 0" "rs_pixel_mode c 0 = plan_mode ?r (take 1 steps) 2"
        "rs_res c = ?r\<lparr>frz_ratio := q\<rparr>" "rs_clk c = plan_clk steps"
      using inv plan_length[OF steps] by (auto simp: res_inv_def res_regs_def)
    then show ?thesis
      using None log2_mode_old[OF plan_mode_values[of 2 ?r "take 1 steps"]]
      by (simp add: calc res_view_def resource_spec_def MTK_CAMSYS_RES_STEP_NUM_def res_out_size_def prepare_plan)
  next
    case (Some x)
    obtain i p where x: "x = (i, p)" by (cases x)
    let ?s = "take (Suc i) steps"
    obtain q where c: "rs_found c" "rs_idx_res c = i" "rs_pixel_mode c i = plan_mode ?r ?s p"
        "rs_res c = res_taken clklv ?r ?s q" "plan_frz ?r ?s \<longrightarrow> q = plan_ratio ?r"
      using inv Some x by (auto simp: res_inv_def)
    have "p \<in> {1, 2}" using plan_first_prefix[of clklv ?r w steps 8 i p] Some x by simp
    then show ?thesis
      using Some x c log2_mode_old[OF plan_mode_values[of p ?r ?s]]
      by (auto simp: calc res_view_def resource_spec_def MTK_CAMSYS_RES_STEP_NUM_def res_out_size_def res_taken_def plan_out_def Let_def)
  qed
qed

text \<open>A 30-frame sensor at 12 megapixels: one engine at the second clock level, two pixels a clock.\<close>

definition demo_res :: mtk_cam_resource_config where
  "demo_res = \<lparr>rc_seninf = None, rc_interval_num = 1, rc_interval_den = 30, rc_pixel_rate = 0, bin_limit = 0,
     frz_limit = 0, hwn_limit_max = 2, hwn_limit_min = 1, rc_hblank = 0, rc_vblank = 0, sensor_pixel_rate = 0,
     res_plan = 0, rc_raw_feature = 0, res_strategy = [], clk_target = 0, raw_num_used = 0, bin_enable = 0,
     frz_enable = 0, frz_ratio = 0, tgo_pxl_mode = 0, raw_path = 0, rc_sink_w = 0, rc_sink_h = 0, enable_hsf_raw = 0\<rparr>"

definition demo_clklv :: "nat \<Rightarrow> u32" where
  "demo_clklv i = (if i = 0 then 273000000 else if i = 1 then 312000000 else if i = 2 then 416000000
                   else if i = 3 then 546000000 else 0)"

lemma demo_clklv_simps:
  "demo_clklv 0 = 273000000" "demo_clklv (Suc 0) = 312000000" "demo_clklv 1 = 312000000" "demo_clklv 2 = 416000000"
  "demo_clklv 3 = 546000000"
  by (simp_all add: demo_clklv_def)

theorem resource_search_first_fit_witness:
  "map_option res_view (mtk_raw_resource_calc raw_debug_default demo_clklv demo_res 600000000 3 4000 3000)
    = Some \<lparr>ra_found = True, ra_bin = False, ra_frz = False, ra_engines = 1, ra_clock = 312000000, ra_mode = 1,
            ra_width = 4000, ra_height = 3000\<rparr>"
proof -
  have "map_option res_view (mtk_raw_resource_calc raw_debug_default demo_clklv demo_res 600000000 3 4000 3000)
    = Some (resource_spec demo_clklv (res_prepare demo_res 600000000 3 (raw_resource_strategy_plan ! 3))
        (raw_resource_strategy_plan ! 3) 4000 3000)"
    by (rule resource_search_first_fit) (simp_all add: raw_debug_default_def demo_res_def)
  then show ?thesis by code_simp
qed

end
