(* ===== verification/RawCtrl.thy ===== *)
theory RawCtrl
  imports CamRes
begin

text \<open>
  The controls of a raw pipeline (\<open>mtk_cam-raw.c\<close>): the resource request of user space, its
  normalisation, the pixel rate it asks for, the negotiation, and the get, set and try handlers
  with the two mutexes they take. Copies from user space give the datum or a fault; the flash
  control's handlers, in \<open>mtk_cam-tg-flash.c\<close>, are a parameter; the copy to user space's
  destination is not modelled.
\<close>

unbundle bit_operations_syntax

definition EINVAL :: int where "EINVAL = 22"

subsection \<open>Data\<close>

text \<open>What the user's \<open>sink_fmt\<close> pointer leads to: nothing, a fault, or a frame size.\<close>

datatype user_fmt = Fmt_null | Fmt_fault | Fmt_at u32 u32

record mtk_cam_resource =
  ru_sink_fmt :: user_fmt
  ru_interval_num :: u32
  ru_interval_den :: u32
  ru_hblank :: u32
  ru_vblank :: u32
  ru_pixel_rate :: u64
  ru_cust_pixel_rate :: u64
  ru_feature :: u64
  ru_strategy :: u16
  ru_raw_max :: u8
  ru_raw_min :: u8
  ru_raw_used :: u8
  ru_bin :: u8
  ru_path_sel :: u8
  ru_pixel_mode :: u8

text \<open>
  The part of \<open>struct mtk_raw_pipeline\<close> the controls use. \<open>res_lock\<close> and \<open>try_res_lock\<close>: the
  mutexes of the two configurations are held. \<open>rp_streaming\<close>: the pads' stream count is not 0.
\<close>

record mtk_raw_pipeline =
  user_res :: mtk_cam_resource
  res_config :: mtk_cam_resource_config
  try_res_config :: mtk_cam_resource_config
  feature_pending :: u64
  feature_active :: u64
  sensor_mode_update :: u32
  sync_id :: u64
  hw_mode :: u64
  mstream_exposure :: nat
  mstream_valid :: bool
  res_lock :: bool
  try_res_lock :: bool
  rp_streaming :: bool

subsection \<open>Pixel rates\<close>

text \<open>\<open>do_div\<close>: the 64-bit dividend is unsigned, the divisor is cut to 32 bits.\<close>

definition do_div :: "u64 \<Rightarrow> u32 \<Rightarrow> u64 option" where
  "do_div n base = (if base = 0 then None else Some (n div ucast base))"

definition PURE_M2M_PROCESS_MARGIN_N :: u64 where "PURE_M2M_PROCESS_MARGIN_N = 11550"
definition PURE_M2M_PROCESS_MARGIN_D :: u32 where "PURE_M2M_PROCESS_MARGIN_D = 10000"
definition HW_BUF_EFFECT :: u64 where "HW_BUF_EFFECT = 80"
definition ISP_CLK_LOW :: u32 where "ISP_CLK_LOW = 273000000"

definition mtk_cam_calc_pure_m2m_pixelrate :: "u64 \<Rightarrow> u64 \<Rightarrow> u32 \<Rightarrow> u32 \<Rightarrow> u64 option" where
  "mtk_cam_calc_pure_m2m_pixelrate width height numerator denominator =
    do_div (width * height * scast denominator * PURE_M2M_PROCESS_MARGIN_N) (numerator * PURE_M2M_PROCESS_MARGIN_D)"

definition calc_buffered_pixel_rate ::
  "u64 \<Rightarrow> u64 \<Rightarrow> u64 \<Rightarrow> u64 \<Rightarrow> u32 \<Rightarrow> u32 \<Rightarrow> u64 \<Rightarrow> u64 option" where
  "calc_buffered_pixel_rate width height hblank vblank fps_n fps_d orig_pixel_rate =
    do {
      pclk \<leftarrow> do_div ((width + hblank) * (height + vblank) * scast fps_n) fps_d;
      k \<leftarrow> do_div (HW_BUF_EFFECT * orig_pixel_rate) ISP_CLK_LOW;
      do_div (orig_pixel_rate * width) (ucast (width + hblank - k))
    }"

text \<open>The function returns \<open>int\<close>: the 64-bit rate is cut to 32 bits and extended by its sign.\<close>

definition mtk_cam_seninf_calc_pixelrate ::
  "u64 \<Rightarrow> u64 \<Rightarrow> u64 \<Rightarrow> u64 \<Rightarrow> u32 \<Rightarrow> u32 \<Rightarrow> u64 \<Rightarrow> u64 option" where
  "mtk_cam_seninf_calc_pixelrate width height hblank vblank fps_n fps_d sensor_rate =
    map_option (\<lambda>r. scast (ucast r :: u32)) (calc_buffered_pixel_rate width height hblank vblank fps_n fps_d sensor_rate)"

subsection \<open>The resource request\<close>

definition resource_test_pattern :: "mtk_cam_resource \<Rightarrow> bool" where
  "resource_test_pattern u =
    (\<not> mtk_cam_feature_is_pure_m2m (ucast (ru_feature u))
     \<and> (ru_pixel_rate u = 0 \<or> ru_hblank u = 0 \<or> ru_vblank u = 0 \<or> ru_interval_den u = 0 \<or> ru_interval_num u = 0))"

definition resource_defaults :: "mtk_cam_resource \<Rightarrow> mtk_cam_resource" where
  "resource_defaults u0 =
    (let u1 = (if ru_feature u0 = 0xFFFFFFFF then u0\<lparr>ru_feature := 0\<rparr> else u0);
         u2 = (if ru_bin u1 = 0xFF then u1\<lparr>ru_bin := 0\<rparr> else u1);
         u3 = (if ru_strategy u2 = 0xFFFF then u2\<lparr>ru_strategy := ucast RESOURCE_STRATEGY_QRP\<rparr> else u2);
         u4 = (if ru_raw_max u3 = 0xFF then u3\<lparr>ru_raw_max := 2\<rparr> else u3);
         u5 = (if ru_raw_min u4 = 0xFF then u4\<lparr>ru_raw_min := 1\<rparr> else u4);
         u6 = (if ru_raw_min u5 > 1 then u5\<lparr>ru_strategy := ucast RESOURCE_STRATEGY_QPR\<rparr> else u5)
     in if ru_path_sel u6 = 0xFF then u6\<lparr>ru_path_sel := 0\<rparr> else u6)"

text \<open>It always returns 0: the request as corrected and the pipeline.\<close>

definition mtk_cam_raw_res_store :: "mtk_raw_pipeline \<Rightarrow> mtk_cam_resource \<Rightarrow> mtk_cam_resource \<times> mtk_raw_pipeline" where
  "mtk_cam_raw_res_store p u =
    (if resource_test_pattern u then
       (u, p\<lparr>res_config := (res_config p)\<lparr>raw_num_used := 1, bin_enable := 0, tgo_pxl_mode := 1, raw_path := 0,
                hwn_limit_min := 1, rc_raw_feature := ucast (ru_feature u)\<rparr>,
             feature_pending := ru_feature u, feature_active := ru_feature u\<rparr>)
     else (resource_defaults u, p))"

definition mtk_cam_res_copy_fmt_from_user :: "mtk_cam_resource \<Rightarrow> (u32 \<times> u32) option" where
  "mtk_cam_res_copy_fmt_from_user u = (case ru_sink_fmt u of Fmt_at w h \<Rightarrow> Some (w, h) | _ \<Rightarrow> None)"

text \<open>What the negotiation copies from the request before it computes.\<close>

definition res_from_user :: "mtk_cam_resource \<Rightarrow> mtk_cam_resource_config \<Rightarrow> mtk_cam_resource_config" where
  "res_from_user u cfg =
    cfg\<lparr>bin_limit := ucast (ru_bin u), frz_limit := 0, hwn_limit_max := ucast (ru_raw_max u),
        hwn_limit_min := ucast (ru_raw_min u), rc_hblank := ucast (ru_hblank u), rc_vblank := ucast (ru_vblank u),
        sensor_pixel_rate := ru_pixel_rate u, res_plan := ucast (ru_strategy u),
        rc_raw_feature := ucast (ru_feature u), raw_path := ucast (ru_path_sel u)\<rparr>"

definition res_user_rate :: "mtk_cam_resource \<Rightarrow> mtk_cam_resource_config \<Rightarrow> u32 \<Rightarrow> u32 \<Rightarrow> u64 option" where
  "res_user_rate u cfg w h =
    do {
      prate \<leftarrow> (if ru_cust_pixel_rate u \<noteq> 0 then Some (ru_cust_pixel_rate u)
                else if mtk_cam_feature_is_pure_m2m (rc_raw_feature cfg) then
                  mtk_cam_calc_pure_m2m_pixelrate (ucast w) (ucast h) (rc_interval_num cfg) (rc_interval_den cfg)
                else mtk_cam_seninf_calc_pixelrate (ucast w) (ucast h) (ucast (ru_hblank u)) (ucast (ru_vblank u))
                       (ru_interval_den u) (ru_interval_num u) (ru_pixel_rate u));
      Some (if mtk_cam_feature_is_stagger (rc_raw_feature cfg) then
              (if mtk_cam_feature_is_2_exposure (rc_raw_feature cfg) then 2 * prate
               else if mtk_cam_feature_is_3_exposure (rc_raw_feature cfg) then 3 * prate else prate)
            else prate)
    }"

text \<open>The return value, the answered request and the configuration.\<close>

definition mtk_cam_raw_try_res_ctrl ::
  "raw_debug \<Rightarrow> (nat \<Rightarrow> u32) \<Rightarrow> mtk_cam_resource \<Rightarrow> mtk_cam_resource_config \<Rightarrow> u32 \<Rightarrow> u32
     \<Rightarrow> (int \<times> mtk_cam_resource \<times> mtk_cam_resource_config) option" where
  "mtk_cam_raw_try_res_ctrl dbg clklv u cfg w h =
    do {
      let cfg1 = res_from_user u cfg;
      prate \<leftarrow> res_user_rate u cfg1 w h;
      (found, cfg2, width, height) \<leftarrow> mtk_raw_resource_calc dbg clklv cfg1 prate (res_plan cfg1) (sint w) (sint h);
      if ru_bin u \<noteq> 0 \<and> bin_enable cfg2 = 0 then Some (- EINVAL, u, cfg2)
      else Some (0, u\<lparr>ru_pixel_mode := ucast (tgo_pxl_mode cfg2), ru_raw_used := ucast (raw_num_used cfg2),
                     ru_bin := (if bin_limit cfg2 = BIN_AUTO then ucast (bin_enable cfg2)
                                else ucast (bin_limit cfg2))\<rparr>, cfg2)
    }"

text \<open>While the pipeline streams only the request is kept, for later.\<close>

definition mtk_cam_raw_set_res_ctrl ::
  "raw_debug \<Rightarrow> (nat \<Rightarrow> u32) \<Rightarrow> mtk_raw_pipeline \<Rightarrow> mtk_cam_resource \<Rightarrow> (int \<times> mtk_cam_resource \<times> mtk_raw_pipeline) option" where
  "mtk_cam_raw_set_res_ctrl dbg clklv p u =
    (let (u1, p1) = mtk_cam_raw_res_store p u; p2 = p1\<lparr>user_res := u1\<rparr>
     in if rp_streaming p2 then Some (0, u1, p2) else
        (case mtk_cam_res_copy_fmt_from_user u1 of
           None \<Rightarrow> Some (- EINVAL, u1, p2)
         | Some (w, h) \<Rightarrow>
             do {
               (ret, u2, cfg) \<leftarrow> mtk_cam_raw_try_res_ctrl dbg clklv u1
                  ((res_config p2)\<lparr>rc_sink_w := w, rc_sink_h := h\<rparr>) w h;
               Some (if ret \<noteq> 0 then - EINVAL else ret, u2, p2\<lparr>res_config := cfg\<rparr>)
             }))"

subsection \<open>The control handlers\<close>

datatype raw_ctrl_id =
    CID_RAW_RESOURCE_CALC | CID_RAW_RESOURCE_UPDATE | CID_USED_ENGINE_TRY | CID_BIN_TRY | CID_FRZ_TRY | CID_SYNC_ID
  | CID_USED_ENGINE | CID_BIN_LIMIT | CID_BIN | CID_FRZ | CID_USED_ENGINE_LIMIT | CID_FRZ_LIMIT
  | CID_RESOURCE_PLAN_POLICY | CID_RAW_PATH_SELECT | CID_HBLANK | CID_VBLANK | CID_PIXEL_RATE
  | CID_MSTREAM_EXPOSURE | CID_HSF_EN | CID_TG_FLASH_CFG | CID_FEATURE | CID_CAMSYS_HW_MODE | CID_OTHER

text \<open>What a control carries: \<open>val\<close>, \<open>*p_s64\<close>, the resource and the exposure behind \<open>p\<close>.\<close>

record ctrl_arg =
  ca_val :: u32
  ca_s64 :: u64
  ca_res :: mtk_cam_resource
  ca_exposure :: nat

text \<open>A mutex taken twice waits for ever; one that is not held is left free by an unlock.\<close>

definition lock_res :: "mtk_raw_pipeline \<Rightarrow> mtk_raw_pipeline option" where
  "lock_res p = (if res_lock p then None else Some (p\<lparr>res_lock := True\<rparr>))"

definition unlock_res :: "mtk_raw_pipeline \<Rightarrow> mtk_raw_pipeline" where
  "unlock_res p = p\<lparr>res_lock := False\<rparr>"

definition lock_try :: "mtk_raw_pipeline \<Rightarrow> mtk_raw_pipeline option" where
  "lock_try p = (if try_res_lock p then None else Some (p\<lparr>try_res_lock := True\<rparr>))"

definition unlock_try :: "mtk_raw_pipeline \<Rightarrow> mtk_raw_pipeline" where
  "unlock_try p = p\<lparr>try_res_lock := False\<rparr>"

text \<open>
  Reading a control changes its argument. The copy of the format back to the user, on a resource
  read, gives the return value \<open>copy_ret\<close>.
\<close>

definition mtk_raw_get_ctrl ::
  "int \<Rightarrow> raw_ctrl_id \<Rightarrow> ctrl_arg \<Rightarrow> mtk_raw_pipeline \<Rightarrow> (int \<times> ctrl_arg \<times> mtk_raw_pipeline) option" where
  "mtk_raw_get_ctrl copy_ret cid a p =
    (if cid = CID_RAW_RESOURCE_CALC then
       (let u = user_res p;
            r = (ca_res a)\<lparr>ru_interval_num := ru_interval_num u, ru_interval_den := ru_interval_den u,
                  ru_hblank := ru_hblank u, ru_vblank := ru_vblank u, ru_pixel_rate := ru_pixel_rate u,
                  ru_cust_pixel_rate := ru_cust_pixel_rate u, ru_feature := ru_feature u,
                  ru_strategy := ru_strategy u, ru_raw_max := ru_raw_max u, ru_raw_min := ru_raw_min u,
                  ru_raw_used := ru_raw_used u, ru_bin := ru_bin u, ru_path_sel := ru_path_sel u,
                  ru_pixel_mode := ru_pixel_mode u\<rparr>
        in Some (if ru_sink_fmt r \<noteq> Fmt_null then copy_ret else 0, a\<lparr>ca_res := r\<rparr>, p))
     else if cid = CID_RAW_RESOURCE_UPDATE then Some (0, a\<lparr>ca_val := sensor_mode_update p\<rparr>, p)
     else if cid = CID_USED_ENGINE_TRY \<or> cid = CID_BIN_TRY \<or> cid = CID_FRZ_TRY then
       do {
         p1 \<leftarrow> lock_try p;
         let t = try_res_config p1;
         let v = (if cid = CID_USED_ENGINE_TRY then raw_num_used t else if cid = CID_BIN_TRY then bin_enable t
                  else if frz_enable t \<noteq> 0 then frz_ratio t else 100);
         Some (0, a\<lparr>ca_val := v\<rparr>, unlock_try p1)
       }
     else if cid = CID_SYNC_ID then
       do { p1 \<leftarrow> lock_res p; Some (0, a\<lparr>ca_s64 := sync_id p1\<rparr>, unlock_try p1) }
     else
       do {
         p1 \<leftarrow> lock_res p;
         let t = res_config p1;
         let a1 = (if cid = CID_USED_ENGINE then a\<lparr>ca_val := raw_num_used t\<rparr>
                   else if cid = CID_BIN_LIMIT then a\<lparr>ca_val := bin_limit t\<rparr>
                   else if cid = CID_BIN then a\<lparr>ca_val := bin_enable t\<rparr>
                   else if cid = CID_FRZ then a\<lparr>ca_val := (if frz_enable t \<noteq> 0 then frz_ratio t else 100)\<rparr>
                   else a);
         Some (0, a1, unlock_res p1)
       })"

text \<open>
  \<open>mtk_raw_set_res_ctrl\<close> under its lock: the configuration it is given and the fields of the
  pipeline that two of the controls reach.
\<close>

definition set_res_field ::
  "raw_ctrl_id \<Rightarrow> ctrl_arg \<Rightarrow> mtk_cam_resource_config \<Rightarrow> mtk_cam_resource_config option" where
  "set_res_field cid a cfg =
    (case cid of
       CID_USED_ENGINE_LIMIT \<Rightarrow> Some (cfg\<lparr>hwn_limit_max := ca_val a\<rparr>)
     | CID_BIN_LIMIT \<Rightarrow> Some (cfg\<lparr>bin_limit := ca_val a\<rparr>)
     | CID_FRZ_LIMIT \<Rightarrow> Some (cfg\<lparr>frz_limit := ca_val a\<rparr>)
     | CID_RESOURCE_PLAN_POLICY \<Rightarrow> Some (cfg\<lparr>res_plan := ca_val a\<rparr>)
     | CID_RAW_PATH_SELECT \<Rightarrow> Some (cfg\<lparr>raw_path := ca_val a\<rparr>)
     | CID_HBLANK \<Rightarrow> Some (cfg\<lparr>rc_hblank := scast (ca_val a)\<rparr>)
     | CID_VBLANK \<Rightarrow> Some (cfg\<lparr>rc_vblank := scast (ca_val a)\<rparr>)
     | CID_PIXEL_RATE \<Rightarrow> Some (cfg\<lparr>sensor_pixel_rate := ca_s64 a\<rparr>)
     | CID_SYNC_ID \<Rightarrow> Some cfg
     | CID_MSTREAM_EXPOSURE \<Rightarrow> Some cfg
     | CID_HSF_EN \<Rightarrow> Some (cfg\<lparr>enable_hsf_raw := ca_val a\<rparr>)
     | _ \<Rightarrow> None)"

definition set_res_pipeline :: "raw_ctrl_id \<Rightarrow> ctrl_arg \<Rightarrow> mtk_raw_pipeline \<Rightarrow> mtk_raw_pipeline" where
  "set_res_pipeline cid a p =
    (if cid = CID_SYNC_ID then p\<lparr>sync_id := ca_s64 a\<rparr>
     else if cid = CID_MSTREAM_EXPOSURE then p\<lparr>mstream_exposure := ca_exposure a, mstream_valid := True\<rparr>
     else p)"

definition mtk_raw_set_res_ctrl ::
  "bool \<Rightarrow> raw_ctrl_id \<Rightarrow> ctrl_arg \<Rightarrow> mtk_raw_pipeline \<Rightarrow> (int \<times> mtk_raw_pipeline) option" where
  "mtk_raw_set_res_ctrl try cid a p =
    do {
      p1 \<leftarrow> (if try then lock_try p else lock_res p);
      let cfg = (if try then try_res_config p1 else res_config p1);
      let (ret, p2) = (case set_res_field cid a cfg of
                         None \<Rightarrow> (- EINVAL, p1)
                       | Some cfg1 \<Rightarrow>
                           (0, set_res_pipeline cid a
                                 (if try then p1\<lparr>try_res_config := cfg1\<rparr> else p1\<lparr>res_config := cfg1\<rparr>)));
      Some (ret, if try then unlock_try p2 else unlock_res p2)
    }"

text \<open>
  The try handler negotiates on a zeroed configuration of its own; a format it cannot copy only
  corrects the request. \<open>flash\<close> stands for the flash control's handler.
\<close>

definition zero_res_config :: mtk_cam_resource_config where
  "zero_res_config = \<lparr>rc_seninf = None, rc_interval_num = 0, rc_interval_den = 0, rc_pixel_rate = 0, bin_limit = 0,
     frz_limit = 0, hwn_limit_max = 0, hwn_limit_min = 0, rc_hblank = 0, rc_vblank = 0, sensor_pixel_rate = 0,
     res_plan = 0, rc_raw_feature = 0, res_strategy = replicate MTK_CAMSYS_RES_STEP_NUM 0, clk_target = 0,
     raw_num_used = 0, bin_enable = 0, frz_enable = 0, frz_ratio = 0, tgo_pxl_mode = 0, raw_path = 0,
     rc_sink_w = 0, rc_sink_h = 0, enable_hsf_raw = 0\<rparr>"

definition mtk_raw_try_ctrl ::
  "raw_debug \<Rightarrow> (nat \<Rightarrow> u32) \<Rightarrow> int \<Rightarrow> raw_ctrl_id \<Rightarrow> ctrl_arg \<Rightarrow> mtk_raw_pipeline
     \<Rightarrow> (int \<times> ctrl_arg \<times> mtk_raw_pipeline) option" where
  "mtk_raw_try_ctrl dbg clklv flash cid a p =
    (if cid = CID_RAW_RESOURCE_CALC then
       (let (u1, p1) = mtk_cam_raw_res_store p (ca_res a)
        in case mtk_cam_res_copy_fmt_from_user u1 of
             None \<Rightarrow> Some (0, a\<lparr>ca_res := u1\<rparr>, p1)
           | Some (w, h) \<Rightarrow>
               do {
                 (ret, u2, cfg) \<leftarrow> mtk_cam_raw_try_res_ctrl dbg clklv u1 (zero_res_config\<lparr>rc_sink_w := w, rc_sink_h := h\<rparr>) w h;
                 Some (ret, a\<lparr>ca_res := u2\<rparr>, p1)
               })
     else if cid = CID_RAW_RESOURCE_UPDATE then Some (0, a, p)
     else if cid = CID_TG_FLASH_CFG then Some (flash, a, p)
     else if cid = CID_MSTREAM_EXPOSURE \<or> cid = CID_FEATURE \<or> cid = CID_CAMSYS_HW_MODE then Some (0, a, p)
     else map_option (\<lambda>(ret, p1). (ret, a, p1)) (mtk_raw_set_res_ctrl True cid a p))"

definition mtk_raw_set_ctrl ::
  "raw_debug \<Rightarrow> (nat \<Rightarrow> u32) \<Rightarrow> int \<Rightarrow> raw_ctrl_id \<Rightarrow> ctrl_arg \<Rightarrow> mtk_raw_pipeline
     \<Rightarrow> (int \<times> ctrl_arg \<times> mtk_raw_pipeline) option" where
  "mtk_raw_set_ctrl dbg clklv flash cid a p =
    (if cid = CID_RAW_RESOURCE_CALC then
       map_option (\<lambda>(ret, u, p1). (ret, a\<lparr>ca_res := u\<rparr>, p1)) (mtk_cam_raw_set_res_ctrl dbg clklv p (ca_res a))
     else if cid = CID_RAW_RESOURCE_UPDATE then Some (0, a, p\<lparr>sensor_mode_update := ca_val a\<rparr>)
     else if cid = CID_TG_FLASH_CFG then Some (flash, a, p)
     else if cid = CID_FEATURE then Some (0, a, p\<lparr>feature_pending := ca_s64 a\<rparr>)
     else if cid = CID_CAMSYS_HW_MODE then Some (0, a, p\<lparr>hw_mode := ca_s64 a\<rparr>)
     else map_option (\<lambda>(ret, p1). (ret, a, p1)) (mtk_raw_set_res_ctrl False cid a p))"

subsection \<open>Sequences of calls\<close>

datatype ctrl_call = Get_ctrl int raw_ctrl_id ctrl_arg | Set_ctrl int raw_ctrl_id ctrl_arg | Try_ctrl int raw_ctrl_id ctrl_arg

definition ctrl_call_run :: "raw_debug \<Rightarrow> (nat \<Rightarrow> u32) \<Rightarrow> ctrl_call \<Rightarrow> mtk_raw_pipeline \<Rightarrow> mtk_raw_pipeline option" where
  "ctrl_call_run dbg clklv k p =
    map_option (\<lambda>(_, _, q). q)
      (case k of Get_ctrl r cid a \<Rightarrow> mtk_raw_get_ctrl r cid a p
               | Set_ctrl f cid a \<Rightarrow> mtk_raw_set_ctrl dbg clklv f cid a p
               | Try_ctrl f cid a \<Rightarrow> mtk_raw_try_ctrl dbg clklv f cid a p)"

text \<open>The calls that take the mutex of the pipeline's configuration.\<close>

fun needs_res_lock :: "ctrl_call \<Rightarrow> bool" where
  "needs_res_lock (Get_ctrl r cid a) =
    (cid \<notin> {CID_RAW_RESOURCE_CALC, CID_RAW_RESOURCE_UPDATE, CID_USED_ENGINE_TRY, CID_BIN_TRY, CID_FRZ_TRY})"
| "needs_res_lock (Set_ctrl f cid a) =
    (cid \<notin> {CID_RAW_RESOURCE_CALC, CID_RAW_RESOURCE_UPDATE, CID_TG_FLASH_CFG, CID_FEATURE, CID_CAMSYS_HW_MODE})"
| "needs_res_lock (Try_ctrl f cid a) = False"

subsection \<open>The mutex of the configuration\<close>

lemma res_store_locks [simp]:
  "res_lock (snd (mtk_cam_raw_res_store p u)) = res_lock p"
  "rp_streaming (snd (mtk_cam_raw_res_store p u)) = rp_streaming p"
  by (simp_all add: mtk_cam_raw_res_store_def)

lemma set_res_pipeline_lock [simp]: "res_lock (set_res_pipeline cid a p) = res_lock p"
  by (simp add: set_res_pipeline_def)

lemma set_res_ctrl_lock:
  "mtk_cam_raw_set_res_ctrl dbg clklv p u = Some (ret, v, q) \<Longrightarrow> res_lock q = res_lock p"
  using res_store_locks[of p u]
  by (auto simp: mtk_cam_raw_set_res_ctrl_def Let_def case_prod_beta bind_eq_Some_conv split: if_splits option.splits)

lemma try_set_res_lock:
  "mtk_raw_set_res_ctrl True cid a p = Some (ret, q) \<Longrightarrow> res_lock q = res_lock p"
  by (auto simp: mtk_raw_set_res_ctrl_def lock_try_def unlock_try_def Let_def case_prod_beta bind_eq_Some_conv
      split: option.splits if_splits)

text \<open>A mutex of the configuration that is held stays held: whoever needs it waits.\<close>

lemma held_get:
  assumes "res_lock p" and "mtk_raw_get_ctrl r cid a p = Some (ret, b, q)"
  shows "res_lock q"
  using assms
  by (auto simp: mtk_raw_get_ctrl_def lock_res_def lock_try_def unlock_try_def Let_def bind_eq_Some_conv split: if_splits)

lemma held_set:
  assumes "res_lock p" and "mtk_raw_set_ctrl dbg clklv f cid a p = Some (ret, b, q)"
  shows "res_lock q"
  using assms
  by (auto simp: mtk_raw_set_ctrl_def mtk_raw_set_res_ctrl_def lock_res_def dest: set_res_ctrl_lock split: if_splits)

lemma held_try:
  assumes "res_lock p" and "mtk_raw_try_ctrl dbg clklv f cid a p = Some (ret, b, q)"
  shows "res_lock q"
  using assms res_store_locks[of p "ca_res a"]
  by (auto simp: mtk_raw_try_ctrl_def Let_def case_prod_beta bind_eq_Some_conv
      dest: try_set_res_lock split: if_splits option.splits)

lemma held_call: "res_lock p \<Longrightarrow> ctrl_call_run dbg clklv k p = Some q \<Longrightarrow> res_lock q"
  by (cases k) (auto simp: ctrl_call_run_def dest: held_get held_set held_try)

lemma held_calls: "ofold (ctrl_call_run dbg clklv) ks p = Some q \<Longrightarrow> res_lock p \<Longrightarrow> res_lock q"
  by (rule ofold_invariant[where P = res_lock]) (auto dest: held_call)

lemma held_blocks: "res_lock p \<Longrightarrow> needs_res_lock k \<Longrightarrow> ctrl_call_run dbg clklv k p = None"
  by (cases k) (auto simp: ctrl_call_run_def mtk_raw_get_ctrl_def mtk_raw_set_ctrl_def mtk_raw_set_res_ctrl_def lock_res_def)

text \<open>C16. Reading the frame-sync id wedges the pipeline's controls: the read takes the mutex of the
  set configuration and releases that of the try configuration, so after one such read, whatever
  control calls follow, no get or set that needs the first mutex ever returns.
\<close>

theorem sync_id_read_deadlocks:
  assumes "mtk_raw_get_ctrl r CID_SYNC_ID a p = Some (ret, b, q)"
    and "ofold (ctrl_call_run dbg clklv) ks q = Some t"
    and "needs_res_lock k"
  shows "ctrl_call_run dbg clklv k t = None"
proof -
  have "res_lock q"
    using assms(1) by (auto simp: mtk_raw_get_ctrl_def lock_res_def unlock_try_def bind_eq_Some_conv)
  then show ?thesis using held_calls[OF assms(2)] held_blocks assms(3) by blast
qed

definition demo_user :: mtk_cam_resource where
  "demo_user = \<lparr>ru_sink_fmt = Fmt_at 4000 3000, ru_interval_num = 1, ru_interval_den = 30, ru_hblank = 400,
     ru_vblank = 100, ru_pixel_rate = 600000000, ru_cust_pixel_rate = 600000000, ru_feature = 0,
     ru_strategy = 0xFFFF, ru_raw_max = 0xFF, ru_raw_min = 0xFF, ru_raw_used = 0, ru_bin = 0, ru_path_sel = 0xFF,
     ru_pixel_mode = 0\<rparr>"

definition demo_arg :: ctrl_arg where
  "demo_arg = \<lparr>ca_val = 1, ca_s64 = 0, ca_res = demo_user, ca_exposure = 0\<rparr>"

definition demo_pipeline :: mtk_raw_pipeline where
  "demo_pipeline = \<lparr>user_res = demo_user, res_config = demo_res, try_res_config = zero_res_config,
     feature_pending = 0, feature_active = 0, sensor_mode_update = 0, sync_id = 5, hw_mode = 0,
     mstream_exposure = 0, mstream_valid = False, res_lock = False, try_res_lock = False, rp_streaming = False\<rparr>"

theorem sync_id_read_deadlocks_witness:
  "mtk_raw_get_ctrl 0 CID_SYNC_ID demo_arg demo_pipeline
     = Some (0, demo_arg\<lparr>ca_s64 := 5\<rparr>, demo_pipeline\<lparr>res_lock := True\<rparr>)
   \<and> ctrl_call_run raw_debug_default demo_clklv (Set_ctrl 0 CID_HBLANK demo_arg)
       (demo_pipeline\<lparr>res_lock := True, sensor_mode_update := 1\<rparr>) = None"
proof -
  have get: "mtk_raw_get_ctrl 0 CID_SYNC_ID demo_arg demo_pipeline
     = Some (0, demo_arg\<lparr>ca_s64 := 5\<rparr>, demo_pipeline\<lparr>res_lock := True\<rparr>)"
    by (simp add: mtk_raw_get_ctrl_def lock_res_def unlock_try_def demo_pipeline_def)
  have step: "ofold (ctrl_call_run raw_debug_default demo_clklv) [Set_ctrl 0 CID_RAW_RESOURCE_UPDATE demo_arg]
      (demo_pipeline\<lparr>res_lock := True\<rparr>) = Some (demo_pipeline\<lparr>res_lock := True, sensor_mode_update := 1\<rparr>)"
    by (simp add: ctrl_call_run_def mtk_raw_set_ctrl_def demo_arg_def)
  have "ctrl_call_run raw_debug_default demo_clklv (Set_ctrl 0 CID_HBLANK demo_arg)
       (demo_pipeline\<lparr>res_lock := True, sensor_mode_update := 1\<rparr>) = None"
    by (rule sync_id_read_deadlocks[OF get step]) simp
  then show ?thesis using get by simp
qed

subsection \<open>When a resource request has no defined result\<close>

lemma resource_calc_None:
  "debug_raw dbg = 0 \<Longrightarrow> mtk_raw_resource_calc dbg clklv res rate plan w h = None \<longleftrightarrow> 4 \<le> unat plan"
  by (simp add: mtk_raw_resource_calc_def debug_off raw_resource_strategy_plan_def Let_def)

lemma unat_ucast_16_32: "unat (ucast (x :: u16) :: u32) = unat x"
  by transfer simp

lemma try_res_ctrl_None:
  assumes "debug_raw dbg = 0"
  shows "mtk_cam_raw_try_res_ctrl dbg clklv u cfg w h = None \<longleftrightarrow>
    res_user_rate u (res_from_user u cfg) w h = None \<or> 4 \<le> unat (ru_strategy u)"
proof -
  have "unat (ucast (ru_strategy u) :: u32) = unat (ru_strategy u)"
    by (rule unat_ucast_16_32)
  then have "unat (res_plan (res_from_user u cfg)) = unat (ru_strategy u)"
    by (simp add: res_from_user_def)
  then show ?thesis
    using resource_calc_None[OF assms, of clklv "res_from_user u cfg" _ "res_plan (res_from_user u cfg)" "sint w" "sint h"]
    by (auto simp: mtk_cam_raw_try_res_ctrl_def Let_def case_prod_beta bind_eq_None_conv split: if_splits)
qed

text \<open>The plan a request ends up with and the division its pixel rate takes.\<close>

definition requested_plan :: "mtk_cam_resource \<Rightarrow> u16" where
  "requested_plan u =
    (if resource_test_pattern u then ru_strategy u
     else if ru_raw_min u > 1 \<and> ru_raw_min u \<noteq> 0xFF then 0
     else if ru_strategy u = 0xFFFF then 3 else ru_strategy u)"

definition requested_feature :: "mtk_cam_resource \<Rightarrow> u64" where
  "requested_feature u = (if ru_feature u = 0xFFFFFFFF \<and> \<not> resource_test_pattern u then 0 else ru_feature u)"

definition request_divides_by_zero :: "mtk_cam_resource \<Rightarrow> u32 \<Rightarrow> u32 \<Rightarrow> bool" where
  "request_divides_by_zero u numerator w =
    (ru_cust_pixel_rate u = 0 \<and>
     (if mtk_cam_feature_is_pure_m2m (ucast (requested_feature u)) then numerator * 10000 = 0
      else ru_interval_num u = 0
        \<or> (ucast (ucast w + ucast (ru_hblank u) - 80 * ru_pixel_rate u div 273000000 :: u64) :: u32) = 0))"

lemma resource_defaults_fields:
  assumes "\<not> resource_test_pattern u"
  shows "ru_strategy (resource_defaults u) = requested_plan u" "ru_feature (resource_defaults u) = requested_feature u"
    "ru_cust_pixel_rate (resource_defaults u) = ru_cust_pixel_rate u" "ru_hblank (resource_defaults u) = ru_hblank u"
    "ru_pixel_rate (resource_defaults u) = ru_pixel_rate u" "ru_interval_num (resource_defaults u) = ru_interval_num u"
    "ru_sink_fmt (resource_defaults u) = ru_sink_fmt u"
  using assms
  by (simp_all add: resource_defaults_def requested_plan_def requested_feature_def Let_def
      RESOURCE_STRATEGY_QRP_def RESOURCE_STRATEGY_QPR_def)

lemma user_rate_None:
  "res_user_rate u (res_from_user u cfg) w h = None \<longleftrightarrow>
    ru_cust_pixel_rate u = 0 \<and>
    (if mtk_cam_feature_is_pure_m2m (ucast (ru_feature u)) then rc_interval_num cfg * 10000 = 0
     else ru_interval_num u = 0
       \<or> (ucast (ucast w + ucast (ru_hblank u) - 80 * ru_pixel_rate u div 273000000 :: u64) :: u32) = 0)"
  by (auto simp: res_user_rate_def res_from_user_def mtk_cam_calc_pure_m2m_pixelrate_def mtk_cam_seninf_calc_pixelrate_def
      calc_buffered_pixel_rate_def do_div_def bind_eq_None_conv PURE_M2M_PROCESS_MARGIN_D_def HW_BUF_EFFECT_def ISP_CLK_LOW_def)

lemma res_store_request:
  "ru_strategy (fst (mtk_cam_raw_res_store p u)) = requested_plan u"
  "ru_feature (fst (mtk_cam_raw_res_store p u)) = requested_feature u"
  "ru_cust_pixel_rate (fst (mtk_cam_raw_res_store p u)) = ru_cust_pixel_rate u"
  "ru_hblank (fst (mtk_cam_raw_res_store p u)) = ru_hblank u"
  "ru_pixel_rate (fst (mtk_cam_raw_res_store p u)) = ru_pixel_rate u"
  "ru_interval_num (fst (mtk_cam_raw_res_store p u)) = ru_interval_num u"
  "ru_sink_fmt (fst (mtk_cam_raw_res_store p u)) = ru_sink_fmt u"
  "rc_interval_num (res_config (snd (mtk_cam_raw_res_store p u))) = rc_interval_num (res_config p)"
  using resource_defaults_fields[of u]
  by (auto simp: mtk_cam_raw_res_store_def requested_plan_def requested_feature_def)

lemma set_res_ctrl_None:
  assumes "debug_raw dbg = 0" and "\<not> rp_streaming p" and "ru_sink_fmt u = Fmt_at w h"
  shows "mtk_cam_raw_set_res_ctrl dbg clklv p u = None \<longleftrightarrow>
    4 \<le> unat (requested_plan u) \<or> request_divides_by_zero u (rc_interval_num (res_config p)) w"
proof -
  let ?u = "fst (mtk_cam_raw_res_store p u)" and ?p = "snd (mtk_cam_raw_res_store p u)"
  have "mtk_cam_raw_set_res_ctrl dbg clklv p u = None \<longleftrightarrow>
      mtk_cam_raw_try_res_ctrl dbg clklv ?u ((res_config ?p)\<lparr>rc_sink_w := w, rc_sink_h := h\<rparr>) w h = None"
    using assms(2,3) res_store_request(7)[of p u]
    by (auto simp: mtk_cam_raw_set_res_ctrl_def Let_def case_prod_beta mtk_cam_res_copy_fmt_from_user_def bind_eq_None_conv)
  then show ?thesis
    by (auto simp: try_res_ctrl_None[OF assms(1)] user_rate_None res_store_request request_divides_by_zero_def)
qed

text \<open>C15. Which resource requests of user space run into undefined behaviour: on an idle pipeline
  with a readable format and the debug parameters off, setting the resource control has no
  defined result exactly when the plan it ends up with is not one of the four of the table (the
  default value is only replaced when the sensor data are complete), or when no customised rate
  is given and the pixel rate divides by zero.
\<close>

theorem resource_request_faults_iff:
  assumes "debug_raw dbg = 0" and "\<not> rp_streaming p" and "ru_sink_fmt (ca_res a) = Fmt_at w h"
  shows "mtk_raw_set_ctrl dbg clklv f CID_RAW_RESOURCE_CALC a p = None \<longleftrightarrow>
    4 \<le> unat (requested_plan (ca_res a))
    \<or> request_divides_by_zero (ca_res a) (rc_interval_num (res_config p)) w"
  using set_res_ctrl_None[OF assms] by (simp add: mtk_raw_set_ctrl_def)

theorem resource_request_faults_iff_witness:
  "mtk_raw_set_ctrl raw_debug_default demo_clklv 0 CID_RAW_RESOURCE_CALC
     (demo_arg\<lparr>ca_res := demo_user\<lparr>ru_strategy := 5\<rparr>\<rparr>) demo_pipeline = None
   \<and> mtk_raw_set_ctrl raw_debug_default demo_clklv 0 CID_RAW_RESOURCE_CALC
     (demo_arg\<lparr>ca_res := demo_user\<lparr>ru_vblank := 0\<rparr>\<rparr>) demo_pipeline = None
   \<and> mtk_raw_set_ctrl raw_debug_default demo_clklv 0 CID_RAW_RESOURCE_CALC demo_arg demo_pipeline \<noteq> None"
proof -
  have r: "debug_raw raw_debug_default = 0" "\<not> rp_streaming demo_pipeline"
    by (simp_all add: raw_debug_default_def demo_pipeline_def)
  have fmt: "ru_sink_fmt (ca_res (demo_arg\<lparr>ca_res := demo_user\<lparr>ru_strategy := 5\<rparr>\<rparr>)) = Fmt_at 4000 3000"
    "ru_sink_fmt (ca_res (demo_arg\<lparr>ca_res := demo_user\<lparr>ru_vblank := 0\<rparr>\<rparr>)) = Fmt_at 4000 3000"
    "ru_sink_fmt (ca_res demo_arg) = Fmt_at 4000 3000"
    by (simp_all add: demo_user_def demo_arg_def)
  note iff = resource_request_faults_iff[OF r fmt(1), of demo_clklv 0]
    resource_request_faults_iff[OF r fmt(2), of demo_clklv 0] resource_request_faults_iff[OF r fmt(3), of demo_clklv 0]
  have m2m: "\<not> mtk_cam_feature_is_pure_m2m 0" by (simp add: mtk_cam_feature_is_pure_m2m_def)
  show ?thesis
    unfolding iff by (simp add: demo_arg_def demo_user_def requested_plan_def resource_test_pattern_def request_divides_by_zero_def m2m)
qed

subsection \<open>The ratio of the resizer\<close>

text \<open>
  Once the negotiation falls back on the resizer it scales to nothing: whenever setting the
  resource control without time sharing leaves the resizer enabled, its stored ratio is 0
  percent, and that is what reading the ratio control returns. The request's limit is always set
  to 0 and is taken for the ratio.
\<close>

theorem resizer_ratio_zero:
  assumes set: "mtk_raw_set_ctrl dbg clklv f CID_RAW_RESOURCE_CALC a p = Some (0, b, q)"
    and "debug_raw dbg = 0" and "\<not> rp_streaming p" and free: "\<not> res_lock p"
    and nts: "rc_raw_feature (res_config q) AND MTK_CAM_FEATURE_TIMESHARE_MASK = 0"
    and frz: "frz_enable (res_config q) \<noteq> 0"
  shows "frz_ratio (res_config q) = 0 \<and> mtk_raw_get_ctrl r CID_FRZ c q = Some (0, c\<lparr>ca_val := 0\<rparr>, q)"
proof -
  let ?u = "fst (mtk_cam_raw_res_store p (ca_res a))" and ?p = "snd (mtk_cam_raw_res_store p (ca_res a))"
  obtain v where run: "mtk_cam_raw_set_res_ctrl dbg clklv p (ca_res a) = Some (0, v, q)"
    using set by (auto simp: mtk_raw_set_ctrl_def)
  obtain w h u2 cfg where try1: "mtk_cam_raw_try_res_ctrl dbg clklv ?u ((res_config ?p)\<lparr>rc_sink_w := w, rc_sink_h := h\<rparr>) w h
        = Some (0, u2, cfg)" and q: "res_config q = cfg"
    using run assms(3)
    by (auto simp: mtk_cam_raw_set_res_ctrl_def Let_def case_prod_beta bind_eq_Some_conv EINVAL_def split: option.splits if_splits)
  let ?cfg = "res_from_user ?u ((res_config ?p)\<lparr>rc_sink_w := w, rc_sink_h := h\<rparr>)"
  obtain rate found ow oh where calc: "mtk_raw_resource_calc dbg clklv ?cfg rate (res_plan ?cfg) (sint w) (sint h)
      = Some (found, cfg, ow, oh)"
    using try1 by (auto simp: mtk_cam_raw_try_res_ctrl_def Let_def case_prod_beta bind_eq_Some_conv split: if_splits)
  have feat: "rc_raw_feature cfg = rc_raw_feature ?cfg" by (rule resource_calc_feature[OF calc])
  have "frz_ratio cfg = plan_ratio ?cfg"
    by (rule resource_calc_ratio[OF calc assms(2)]) (use nts frz q feat in simp_all)
  then have zero: "frz_ratio (res_config q) = 0"
    by (simp add: q plan_ratio_def res_from_user_def FRZ_PXLMODE_THRES_def)
  have "\<not> res_lock q" using set_res_ctrl_lock[OF run] free by simp
  then show ?thesis
    using zero frz by (simp add: mtk_raw_get_ctrl_def lock_res_def unlock_res_def)
qed

text \<open>A rate of three gigapixels: both engines at full clock are not enough, the resizer is.\<close>

theorem resizer_ratio_zero_witness:
  "case mtk_raw_set_ctrl raw_debug_default demo_clklv 0 CID_RAW_RESOURCE_CALC
          (demo_arg\<lparr>ca_res := demo_user\<lparr>ru_cust_pixel_rate := 3000000000\<rparr>\<rparr>) demo_pipeline of
     Some (ret, b, q) \<Rightarrow> ret = 0 \<and> frz_ratio (res_config q) = 0
       \<and> mtk_raw_get_ctrl 0 CID_FRZ demo_arg q = Some (0, demo_arg\<lparr>ca_val := 0\<rparr>, q)
   | None \<Rightarrow> False"
proof -
  have "case mtk_raw_set_ctrl raw_debug_default demo_clklv 0 CID_RAW_RESOURCE_CALC
          (demo_arg\<lparr>ca_res := demo_user\<lparr>ru_cust_pixel_rate := 3000000000\<rparr>\<rparr>) demo_pipeline of
     Some (ret, b, q) \<Rightarrow> ret = 0 \<and> frz_enable (res_config q) \<noteq> 0
       \<and> rc_raw_feature (res_config q) AND MTK_CAM_FEATURE_TIMESHARE_MASK = 0
   | None \<Rightarrow> False" by code_simp
  then obtain b q where set: "mtk_raw_set_ctrl raw_debug_default demo_clklv 0 CID_RAW_RESOURCE_CALC
          (demo_arg\<lparr>ca_res := demo_user\<lparr>ru_cust_pixel_rate := 3000000000\<rparr>\<rparr>) demo_pipeline = Some (0, b, q)"
      "frz_enable (res_config q) \<noteq> 0" "rc_raw_feature (res_config q) AND MTK_CAM_FEATURE_TIMESHARE_MASK = 0"
    by (auto split: option.splits)
  have r: "debug_raw raw_debug_default = 0" "\<not> rp_streaming demo_pipeline" "\<not> res_lock demo_pipeline"
    by (simp_all add: raw_debug_default_def demo_pipeline_def)
  show ?thesis
    using resizer_ratio_zero[OF set(1) r set(3,2), of 0 demo_arg] set(1) by simp
qed

end
