(* ===== verification/CamEngine.thy ===== *)
theory CamEngine
  imports CamFeature
begin

text \<open>
  The engines of camsys and who uses them (\<open>mtk_cam-raw.c\<close>, \<open>mtk_cam.c\<close>): the choice of raw
  engines for a raw pipeline, the reservation of camsv engines for the exposures the raw engine
  does not take, their release when a stream stops, and the mapping sent to the firmware.
  \<open>ISP7_1\<close> is not defined: two raw pipelines, two raw engines, six camsv engines. Context \<open>c\<close> owns
  raw pipeline \<open>c\<close>; an engine's number is its bit in \<open>enabled_raw\<close>, camsv engine \<open>i\<close> has bit \<open>3 + i\<close>.
\<close>

unbundle bit_operations_syntax

subsection \<open>Data\<close>

definition EINVAL :: int where "EINVAL = 22"
definition RAW_PIPELINE_NUM :: nat where "RAW_PIPELINE_NUM = 2"
definition MTKCAM_SUBDEV_RAW_END :: nat where "MTKCAM_SUBDEV_RAW_END = 3"
definition MTKCAM_SUBDEV_CAMSV_START :: nat where "MTKCAM_SUBDEV_CAMSV_START = 3"
definition MTKCAM_SUBDEV_CAMSV_END :: nat where "MTKCAM_SUBDEV_CAMSV_END = 9"
definition MTKCAM_SUBDEV_RAW_MASK :: u32 where "MTKCAM_SUBDEV_RAW_MASK = 7"
definition CAMSV_GROUP_SHIFT :: nat where "CAMSV_GROUP_SHIFT = 16"
definition CAMSV_EXP_ORDER_SHIFT :: nat where "CAMSV_EXP_ORDER_SHIFT = 20"
definition CAMSV_GROUP_AMOUNT :: nat where "CAMSV_GROUP_AMOUNT = 4"

lemmas engine_consts =
  RAW_PIPELINE_NUM_def MTKCAM_SUBDEV_RAW_END_def MTKCAM_SUBDEV_CAMSV_START_def MTKCAM_SUBDEV_CAMSV_END_def
  MTKCAM_SUBDEV_RAW_MASK_def

text \<open>Hardware paths, as the bits the code passes.\<close>

definition HW_PATH_ON_THE_FLY_DCIF_STAGGER :: u32 where "HW_PATH_ON_THE_FLY_DCIF_STAGGER = 16"
definition HW_PATH_OFFLINE_STAGGER :: u32 where "HW_PATH_OFFLINE_STAGGER = 32"
definition HW_PATH_OFFLINE_SRT_DCIF_STAGGER :: u32 where "HW_PATH_OFFLINE_SRT_DCIF_STAGGER = 64"
definition HW_PATH_OFFLINE_M2M :: u32 where "HW_PATH_OFFLINE_M2M = 128"
definition SV_SPECIAL_SCENARIO_ADDITIONAL_RAW :: u32 where "SV_SPECIAL_SCENARIO_ADDITIONAL_RAW = 512"

definition STAGGER_ON_THE_FLY :: u32 where "STAGGER_ON_THE_FLY = 1"
definition STAGGER_OFFLINE :: u32 where "STAGGER_OFFLINE = 2"
definition STAGGER_DCIF :: u32 where "STAGGER_DCIF = 4"

record camsv_pipeline =
  hw_cap :: u32
  is_occupied :: bool

record raw_engine_pipe =
  re_enabled_raw :: u32
  re_feat :: cam_feature_ctx
  re_raw_num_used :: u32
  re_stagger_path :: u32
  re_enabled_dmas :: u64

text \<open>
  \<open>raw_owner\<close>: the \<open>pipeline\<close> pointer of a raw device; \<open>pm_users\<close>: the runtime-PM count of its
  device, which may go below 0 when puts and gets do not match.
\<close>

record cam_engines =
  raw_pipes :: "nat \<Rightarrow> raw_engine_pipe"
  num_raw_drivers :: nat
  sv_pipes :: "nat \<Rightarrow> camsv_pipeline"
  num_camsv_drivers :: nat
  raw_owner :: "nat \<Rightarrow> nat option"
  pm_users :: "nat \<Rightarrow> int"
  used_raw_dev :: "nat \<Rightarrow> u32"

definition upd_pipe :: "nat \<Rightarrow> (raw_engine_pipe \<Rightarrow> raw_engine_pipe) \<Rightarrow> cam_engines \<Rightarrow> cam_engines" where
  "upd_pipe c f cam = cam\<lparr>raw_pipes := (raw_pipes cam)(c := f (raw_pipes cam c))\<rparr>"

definition enabled :: "cam_engines \<Rightarrow> nat \<Rightarrow> u32" where
  "enabled cam c = re_enabled_raw (raw_pipes cam c)"

definition engine_mask :: "nat \<Rightarrow> u32" where "engine_mask m = push_bit m 1"

subsection \<open>Raw engines\<close>

definition mtk_raw_available_resource :: "cam_engines \<Rightarrow> u32" where
  "mtk_raw_available_resource cam =
    fold (\<lambda>i st. fold (\<lambda>j st. if enabled cam i AND engine_mask j \<noteq> 0 then st OR engine_mask j else st)
                   [0 ..< RAW_PIPELINE_NUM] st)
      [0 ..< num_raw_drivers cam] 0"

text \<open>The first engine of the list that no pipeline uses.\<close>

definition first_free_mask :: "u32 \<Rightarrow> nat list \<Rightarrow> u32 option" where
  "first_free_mask raw_status ms = map_option engine_mask (find (\<lambda>m. raw_status AND engine_mask m = 0) ms)"

text \<open>The engines a time-shared pipeline takes over from the first other pipeline of its group.\<close>

definition time_share_mask :: "cam_engines \<Rightarrow> nat \<Rightarrow> u32 option" where
  "time_share_mask cam c =
    map_option (\<lambda>m. enabled cam m AND MTKCAM_SUBDEV_RAW_MASK)
      (find (\<lambda>m. m \<noteq> c
               \<and> fc_feature_active (re_feat (raw_pipes cam c)) AND MTK_CAM_FEATURE_TIMESHARE_MASK
                 = fc_feature_active (re_feat (raw_pipes cam m)) AND MTK_CAM_FEATURE_TIMESHARE_MASK
               \<and> enabled cam m \<noteq> 0) [0 ..< RAW_PIPELINE_NUM])"

text \<open>The masks tried; \<open>None\<close>: nothing could be selected.\<close>

definition raw_select_mask :: "cam_engines \<Rightarrow> nat \<Rightarrow> u32 \<Rightarrow> u32 option" where
  "raw_select_mask cam c raw_status =
    (if fc_feature_pending (re_feat (raw_pipes cam c)) AND MTK_CAM_FEATURE_TIMESHARE_MASK \<noteq> 0 then
       (case time_share_mask cam c of
          Some em \<Rightarrow> Some em
        | None \<Rightarrow> first_free_mask raw_status [0 ..< RAW_PIPELINE_NUM])
     else if re_raw_num_used (raw_pipes cam c) = 3 then
       (if raw_status AND (engine_mask 0 OR engine_mask 1 OR engine_mask 2) = 0
        then Some (engine_mask 0 OR engine_mask 1 OR engine_mask 2) else None)
     else if re_raw_num_used (raw_pipes cam c) = 2 then
       (if raw_status AND (engine_mask 0 OR engine_mask 1) = 0 then Some (engine_mask 0 OR engine_mask 1) else None)
     else first_free_mask raw_status [0 ..< RAW_PIPELINE_NUM])"

definition mtk_cam_raw_select :: "nat \<Rightarrow> cam_engines \<Rightarrow> int \<times> cam_engines" where
  "mtk_cam_raw_select c cam =
    (let cam1 = upd_pipe c (\<lambda>p. p\<lparr>re_enabled_raw := 0\<rparr>) cam;
         raw_status = mtk_raw_available_resource cam1
     in case raw_select_mask cam1 c raw_status of
          None \<Rightarrow> (- EINVAL, cam1)
        | Some em \<Rightarrow> (0, upd_pipe c (\<lambda>p. p\<lparr>re_enabled_raw := re_enabled_raw p OR em\<rparr>) cam1))"

text \<open>One put, or get, of the runtime PM of every engine of the pipeline.\<close>

definition pm_engines :: "int \<Rightarrow> u32 \<Rightarrow> cam_engines \<Rightarrow> cam_engines" where
  "pm_engines d em cam =
    fold (\<lambda>i cam. if em AND engine_mask i \<noteq> 0
                  then cam\<lparr>pm_users := (pm_users cam)(i := pm_users cam i + d)\<rparr> else cam)
      [0 ..< RAW_PIPELINE_NUM] cam"

definition mtk_cam_raw_pipeline_config :: "bool \<Rightarrow> nat \<Rightarrow> cam_engines \<Rightarrow> int \<times> cam_engines" where
  "mtk_cam_raw_pipeline_config streaming c cam =
    (let cam1 = (if streaming then pm_engines (-1) (enabled cam c) cam else cam);
         (ret, cam2) = mtk_cam_raw_select c cam1
     in if ret \<noteq> 0 then (ret, cam2) else
        let cam3 = pm_engines 1 (enabled cam2 c) cam2
        in (0, cam3\<lparr>used_raw_dev := (used_raw_dev cam3)(c := enabled cam3 c)\<rparr>))"

text \<open>
  \<open>mtk_raw_sd_s_stream\<close>: \<open>nodes\<close> are the video nodes' enable flag and DMA port, \<open>user_feature\<close> the
  feature of the user's resource.
\<close>

definition mtk_raw_sd_s_stream ::
  "(bool \<times> nat) list \<Rightarrow> u32 \<Rightarrow> bool \<Rightarrow> nat \<Rightarrow> cam_engines \<Rightarrow> cam_engines" where
  "mtk_raw_sd_s_stream nodes user_feature enable c cam =
    (if enable then
       upd_pipe c (\<lambda>p. p\<lparr>re_feat := (re_feat p)\<lparr>fc_feature_active := user_feature,
                                              fc_used_raw_num := fc_used_raw_num (re_feat p) + 1\<rparr>,
                        re_enabled_dmas := fold (\<lambda>(en, port) d. if en then d OR push_bit port 1 else d) nodes 0\<rparr>) cam
     else pm_engines (-1) (enabled cam c) cam)"

text \<open>The master, and its slaves, which are the engines after it.\<close>

definition find_raw_engine :: "cam_engines \<Rightarrow> u32 \<Rightarrow> nat option" where
  "find_raw_engine cam em = find (\<lambda>i. em AND engine_mask i \<noteq> 0) [0 ..< num_raw_drivers cam]"

definition get_slave_raw_dev :: "cam_engines \<Rightarrow> nat \<Rightarrow> nat option" where
  "get_slave_raw_dev cam c =
    map_option Suc (find (\<lambda>i. enabled cam c AND engine_mask i \<noteq> 0) [0 ..< num_raw_drivers cam - 1])"

text \<open>With two engines the second slave is always the null pointer.\<close>

definition get_slave2_raw_dev :: "cam_engines \<Rightarrow> nat \<Rightarrow> nat option" where
  "get_slave2_raw_dev cam c =
    (if RAW_PIPELINE_NUM < 3 then None else
     map_option (\<lambda>i. i + 2) (find (\<lambda>i. enabled cam c AND engine_mask i \<noteq> 0) [0 ..< num_raw_drivers cam - 2]))"

text \<open>
  The loop that points the raw devices at their pipeline. \<open>None\<close>: a slave that does not exist is
  dereferenced.
\<close>

definition bind_raw_devs :: "nat \<Rightarrow> nat \<Rightarrow> cam_engines \<Rightarrow> cam_engines option" where
  "bind_raw_devs raw_dev c cam =
    (case find (\<lambda>i. enabled cam i AND engine_mask raw_dev \<noteq> 0) [0 ..< RAW_PIPELINE_NUM] of
       None \<Rightarrow> Some cam
     | Some i \<Rightarrow>
         let cam1 = cam\<lparr>raw_owner := (raw_owner cam)(raw_dev := Some i)\<rparr>
         in if re_raw_num_used (raw_pipes cam1 i) = 1 then Some cam1 else
            do {
              s \<leftarrow> get_slave_raw_dev cam1 c;
              let cam2 = cam1\<lparr>raw_owner := (raw_owner cam1)(s := Some i)\<rparr>;
              if re_raw_num_used (raw_pipes cam2 i) = 3
              then do { s2 \<leftarrow> get_slave2_raw_dev cam2 c; Some (cam2\<lparr>raw_owner := (raw_owner cam2)(s2 := Some i)\<rparr>) }
              else Some cam2
            })"

subsection \<open>Camsv engines\<close>

definition sv_mask :: "nat \<Rightarrow> u32" where "sv_mask j = push_bit (MTKCAM_SUBDEV_CAMSV_START + j) 1"

text \<open>The first idle camsv engine with these capabilities.\<close>

definition find_sv :: "cam_engines \<Rightarrow> u32 \<Rightarrow> u32 \<Rightarrow> u32 \<Rightarrow> nat option" where
  "find_sv cam hw_scen grp exp_order =
    find (\<lambda>j. \<not> is_occupied (sv_pipes cam j) \<and> hw_cap (sv_pipes cam j) AND hw_scen \<noteq> 0
            \<and> hw_cap (sv_pipes cam j) AND grp \<noteq> 0 \<and> hw_cap (sv_pipes cam j) AND exp_order \<noteq> 0)
      [0 ..< num_camsv_drivers cam]"

definition sv_exp_order :: "nat \<Rightarrow> u32" where "sv_exp_order i = push_bit (i + CAMSV_EXP_ORDER_SHIFT) 1"

text \<open>One engine of a group for each exposure; \<open>None\<close>: the \<open>goto EXIT\<close> with nothing.\<close>

fun sv_of_group :: "cam_engines \<Rightarrow> u32 \<Rightarrow> u32 \<Rightarrow> nat list \<Rightarrow> u32 \<times> nat \<Rightarrow> (u32 \<times> nat) option" where
  "sv_of_group cam hw_scen grp [] (idle, cnt) = Some (idle, cnt)"
| "sv_of_group cam hw_scen grp (i # is) (idle, cnt) =
    (case find_sv cam hw_scen grp (sv_exp_order i) of
       None \<Rightarrow> None
     | Some j \<Rightarrow> sv_of_group cam hw_scen grp is (idle OR sv_mask j, cnt + 1))"

text \<open>The loop over the groups: it ends at the first group that is short, or when enough are found.\<close>

fun sv_of_groups :: "cam_engines \<Rightarrow> u32 \<Rightarrow> nat \<Rightarrow> nat list \<Rightarrow> u32 \<times> nat \<Rightarrow> (u32 \<times> nat) option" where
  "sv_of_groups cam hw_scen req_amount [] acc = Some acc"
| "sv_of_groups cam hw_scen req_amount (g # gs) acc =
    (case sv_of_group cam hw_scen (push_bit (g + CAMSV_GROUP_SHIFT) 1) [0 ..< req_amount] acc of
       None \<Rightarrow> None
     | Some (idle, cnt) \<Rightarrow> if cnt = req_amount then Some (idle, cnt)
                          else sv_of_groups cam hw_scen req_amount gs (idle, cnt))"

text \<open>The loop of the other scenarios over the camsv engines.\<close>

fun sv_any :: "cam_engines \<Rightarrow> u32 \<Rightarrow> nat \<Rightarrow> nat list \<Rightarrow> u32 \<times> nat \<Rightarrow> u32 \<times> nat" where
  "sv_any cam hw_scen req_amount [] acc = acc"
| "sv_any cam hw_scen req_amount (i # is) (idle, cnt) =
    (let (idle1, cnt1) = (if \<not> is_occupied (sv_pipes cam i) \<and> hw_cap (sv_pipes cam i) AND hw_scen \<noteq> 0
                          then (idle OR sv_mask i, cnt + 1) else (idle, cnt))
     in if cnt1 = req_amount then (idle1, cnt1) else sv_any cam hw_scen req_amount is (idle1, cnt1))"

definition occupy_sv :: "u32 \<Rightarrow> cam_engines \<Rightarrow> cam_engines" where
  "occupy_sv idle cam =
    cam\<lparr>sv_pipes := (\<lambda>i. if i < num_camsv_drivers cam \<and> idle AND sv_mask i \<noteq> 0
                         then (sv_pipes cam i)\<lparr>is_occupied := True\<rparr> else sv_pipes cam i)\<rparr>"

definition get_available_sv_pipes ::
  "u32 \<Rightarrow> nat \<Rightarrow> u32 \<Rightarrow> bool \<Rightarrow> cam_engines \<Rightarrow> u32 \<times> cam_engines" where
  "get_available_sv_pipes hw_scen req_amount master is_trial cam =
    (let found =
       (if hw_scen = HW_PATH_ON_THE_FLY_DCIF_STAGGER \<or> hw_scen = HW_PATH_OFFLINE_SRT_DCIF_STAGGER then
          sv_of_group cam hw_scen (push_bit CAMSV_GROUP_SHIFT master) [0 ..< req_amount] (0, 0)
        else if hw_scen = HW_PATH_OFFLINE_STAGGER then
          sv_of_groups cam hw_scen req_amount [0 ..< CAMSV_GROUP_AMOUNT] (0, 0)
        else
          (let acc = sv_any cam hw_scen req_amount [0 ..< num_camsv_drivers cam] (0, 0)
           in if snd acc < req_amount then None else Some acc))
     in case found of
          None \<Rightarrow> (0, cam)
        | Some (idle, cnt) \<Rightarrow> (idle, if is_trial then cam else occupy_sv idle cam))"

subsection \<open>Configuring a stream (\<open>mtk_cam_dev_config\<close>)\<close>

definition stagger_hw_scen :: "u32 \<Rightarrow> u32" where
  "stagger_hw_scen path =
    (if path = STAGGER_ON_THE_FLY then HW_PATH_ON_THE_FLY_DCIF_STAGGER
     else if path = STAGGER_DCIF then HW_PATH_OFFLINE_SRT_DCIF_STAGGER
     else if path = STAGGER_OFFLINE then HW_PATH_OFFLINE_STAGGER
     else HW_PATH_ON_THE_FLY_DCIF_STAGGER)"

definition stagger_req_amount :: "u32 \<Rightarrow> u32 \<Rightarrow> nat" where
  "stagger_req_amount path feature =
    (if path = STAGGER_DCIF \<or> path = STAGGER_OFFLINE
     then (if mtk_cam_feature_is_3_exposure feature then 3 else 2)
     else (if mtk_cam_feature_is_3_exposure feature then 2 else 1))"

text \<open>The lowest raw bit of the pipeline, engine 0 when it has none.\<close>

definition raw_master :: "u32 \<Rightarrow> u32" where
  "raw_master em =
    (case find (\<lambda>i. em AND engine_mask i \<noteq> 0) [0 ..< MTKCAM_SUBDEV_RAW_END] of None \<Rightarrow> engine_mask 0 | Some i \<Rightarrow> engine_mask i)"

text \<open>One reservation: the bits join the pipeline's, none is an error.\<close>

definition reserve_sv :: "u32 \<Rightarrow> nat \<Rightarrow> u32 \<Rightarrow> nat \<Rightarrow> cam_engines \<Rightarrow> int \<times> cam_engines" where
  "reserve_sv hw_scen req_amount master c cam =
    (let (idle, cam1) = get_available_sv_pipes hw_scen req_amount master False cam;
         cam2 = upd_pipe c (\<lambda>p. p\<lparr>re_enabled_raw := re_enabled_raw p OR idle\<rparr>) cam1
     in (if idle = 0 then - EINVAL else 0, cam2))"

definition config_sv_pipes :: "bool \<Rightarrow> nat \<Rightarrow> cam_engines \<Rightarrow> int \<times> cam_engines" where
  "config_sv_pipes config_pipe c cam =
    (let p = raw_pipes cam c; feature = fc_feature_active (re_feat p) in
     if config_pipe \<and> mtk_cam_feature_is_stagger feature then
       reserve_sv (stagger_hw_scen (re_stagger_path p)) (stagger_req_amount (re_stagger_path p) feature)
         (raw_master (re_enabled_raw p)) c cam
     else if config_pipe \<and> mtk_cam_is_time_shared (re_feat p) then
       reserve_sv HW_PATH_OFFLINE_M2M 1 (raw_master (re_enabled_raw p)) c cam
     else if mtk_cam_is_with_w_channel (re_feat p) then
       reserve_sv SV_SPECIAL_SCENARIO_ADDITIONAL_RAW 1
         (if re_enabled_raw p AND engine_mask 0 \<noteq> 0 then engine_mask 0 else engine_mask 1) c cam
     else (0, cam))"

text \<open>
  The mapping for the firmware: \<open>(pipe, devices, exposure order)\<close> for the raw pipeline and, in a
  staggered mode, each of its camsv engines, as long as the table of six has room.
\<close>

definition sv_map_exp_order :: "u32 \<Rightarrow> bool \<Rightarrow> nat \<Rightarrow> nat" where
  "sv_map_exp_order cap bDcif exp_no =
    (if cap AND push_bit CAMSV_EXP_ORDER_SHIFT 1 \<noteq> 0 then (if bDcif \<and> exp_no = 1 then 2 else 0)
     else if cap AND push_bit (CAMSV_EXP_ORDER_SHIFT + 1) 1 \<noteq> 0 then (if bDcif \<and> exp_no = 2 then 2 else 1)
     else 2)"

definition update_hw_mapping :: "cam_engines \<Rightarrow> nat \<Rightarrow> u32 \<Rightarrow> u32 \<Rightarrow> u32 \<Rightarrow> (nat \<times> u32 \<times> nat option) list" where
  "update_hw_mapping cam c feature stagger_path enabled_raw =
    (let exp_no = (if mtk_cam_feature_is_2_exposure feature then 2
                   else if mtk_cam_feature_is_3_exposure feature then 3 else 1);
         bDcif = (stagger_path = STAGGER_DCIF);
         raw_map = (c, MTKCAM_SUBDEV_RAW_MASK AND used_raw_dev cam c, None)
     in if mtk_cam_feature_is_stagger feature then
          fold (\<lambda>i maps. if enabled_raw AND engine_mask i \<noteq> 0 \<and> length maps < 6
                        then maps @ [(i, engine_mask i,
                               Some (sv_map_exp_order (hw_cap (sv_pipes cam (i - MTKCAM_SUBDEV_CAMSV_START))) bDcif exp_no))]
                        else maps)
            [MTKCAM_SUBDEV_CAMSV_START ..< MTKCAM_SUBDEV_CAMSV_END] [raw_map]
        else [raw_map])"

text \<open>
  The whole configuration. \<open>fmt_ok\<close>: the sensor format and its pixel order are known. The result
  is the return value, the state, and the mapping handed to the composer when it is reached;
  \<open>None\<close> is a null pointer dereferenced.
\<close>

definition mtk_cam_dev_config ::
  "bool \<Rightarrow> bool \<Rightarrow> bool \<Rightarrow> nat \<Rightarrow> cam_engines \<Rightarrow> (int \<times> cam_engines \<times> (nat \<times> u32 \<times> nat option) list option) option" where
  "mtk_cam_dev_config fmt_ok streaming config_pipe c cam =
    (if \<not> fmt_ok then Some (- EINVAL, cam, None) else
     let (ret, cam1) = (if config_pipe then mtk_cam_raw_pipeline_config streaming c cam else (0, cam))
     in if ret \<noteq> 0 then Some (ret, cam1, None) else
     let (ret, cam2) = config_sv_pipes config_pipe c cam1
     in if ret \<noteq> 0 then Some (ret, cam2, None) else
     let maps = update_hw_mapping cam2 c (fc_feature_active (re_feat (raw_pipes cam2 c)))
                  (re_stagger_path (raw_pipes cam2 c)) (enabled cam2 c)
     in case find_raw_engine cam2 (used_raw_dev cam2 c) of
          None \<Rightarrow> Some (- EINVAL, cam2, None)
        | Some raw_dev \<Rightarrow> do { cam3 \<leftarrow> bind_raw_devs raw_dev c cam2; Some (0, cam3, Some maps) })"

subsection \<open>Stopping a stream\<close>

text \<open>The camsv engines of the pipeline are given back one by one.\<close>

definition release_sv_pipe :: "nat \<Rightarrow> nat \<Rightarrow> cam_engines \<Rightarrow> cam_engines" where
  "release_sv_pipe c i cam =
    (if enabled cam c AND engine_mask i \<noteq> 0
     then upd_pipe c (\<lambda>p. p\<lparr>re_enabled_raw := re_enabled_raw p AND NOT (engine_mask i)\<rparr>)
            (cam\<lparr>sv_pipes := (sv_pipes cam)(i - MTKCAM_SUBDEV_CAMSV_START :=
                (sv_pipes cam (i - MTKCAM_SUBDEV_CAMSV_START))\<lparr>is_occupied := False\<rparr>)\<rparr>)
     else cam)"

definition release_sv_pipes :: "nat \<Rightarrow> cam_engines \<Rightarrow> cam_engines" where
  "release_sv_pipes c cam = fold (release_sv_pipe c) [MTKCAM_SUBDEV_CAMSV_START ..< MTKCAM_SUBDEV_CAMSV_END] cam"

text \<open>The engines' part of \<open>mtk_cam_ctx_stream_off\<close>; \<open>feature\<close> is the active word read at its start.\<close>

definition stream_off_engines :: "nat \<Rightarrow> cam_engines \<Rightarrow> cam_engines" where
  "stream_off_engines c cam =
    (let p = raw_pipes cam c; feature = fc_feature_active (re_feat p);
         cam1 = (if fc_used_raw_num (re_feat p) \<noteq> 0 \<and> find_raw_engine cam (used_raw_dev cam c) \<noteq> None
                   \<and> mtk_cam_feature_is_time_shared feature then release_sv_pipes c cam else cam)
     in if fc_used_raw_num (re_feat p) \<noteq> 0 \<and> find_raw_engine cam (used_raw_dev cam c) = None then cam1
        else if mtk_cam_feature_is_stagger feature then release_sv_pipes c cam1
        else if mtk_cam_is_with_w_channel (re_feat p) then release_sv_pipes c cam1
        else cam1)"

subsection \<open>Masks and bits\<close>

lemma engine_mask_exp: "engine_mask m = 2 ^ m"
  by (simp add: engine_mask_def push_bit_eq_mult)

lemma engine_mask_zero [simp]: "x AND engine_mask m = 0 \<longleftrightarrow> \<not> bit x m"
  by (simp add: engine_mask_exp and_exp_eq_0_iff_not_bit)

lemma bit_engine_mask [simp]: "bit (engine_mask m) n \<longleftrightarrow> m = n \<and> n < 32"
  by (auto simp: engine_mask_def bit_simps)

lemma sv_mask_engine: "sv_mask j = engine_mask (MTKCAM_SUBDEV_CAMSV_START + j)"
  by (simp add: sv_mask_def engine_mask_def)

lemma upd_pipe_fields [simp]:
  "raw_pipes (upd_pipe c f cam) = (raw_pipes cam)(c := f (raw_pipes cam c))"
  "num_raw_drivers (upd_pipe c f cam) = num_raw_drivers cam" "sv_pipes (upd_pipe c f cam) = sv_pipes cam"
  "num_camsv_drivers (upd_pipe c f cam) = num_camsv_drivers cam" "raw_owner (upd_pipe c f cam) = raw_owner cam"
  "pm_users (upd_pipe c f cam) = pm_users cam" "used_raw_dev (upd_pipe c f cam) = used_raw_dev cam"
  by (simp_all add: upd_pipe_def)

lemma enabled_upd_pipe [simp]:
  "enabled (upd_pipe c f cam) d = (if d = c then re_enabled_raw (f (raw_pipes cam c)) else enabled cam d)"
  by (simp add: enabled_def)

lemma upt_two: "[0 ..< RAW_PIPELINE_NUM] = [0, 1]"
  by (simp add: RAW_PIPELINE_NUM_def upt_rec)

text \<open>An engine is busy when some pipeline has its bit.\<close>

lemma available_resource_two:
  assumes "num_raw_drivers cam = 2"
  shows "bit (mtk_raw_available_resource cam) j \<longleftrightarrow> j < 2 \<and> (bit (enabled cam 0) j \<or> bit (enabled cam 1) j)"
proof -
  have "[0 ..< num_raw_drivers cam] = [0, 1]" using assms by (simp add: upt_rec)
  then show ?thesis
    by (cases "j = 0"; cases "j = 1")
      (auto simp: mtk_raw_available_resource_def upt_two bit_or_iff less_2_cases_iff split: if_splits)
qed

subsection \<open>The choice of raw engines\<close>

text \<open>The engines a pipeline without time sharing asks for, among those the other one leaves.\<close>

definition wanted_engines :: "u32 \<Rightarrow> u32 \<Rightarrow> u32 option" where
  "wanted_engines num other =
    (if num = 2 then (if \<not> bit other 0 \<and> \<not> bit other 1 then Some 3 else None)
     else if num = 3 then (if \<not> bit other 0 \<and> \<not> bit other 1 then Some 7 else None)
     else if \<not> bit other 0 then Some 1 else if \<not> bit other 1 then Some 2 else None)"

lemma raw_select_two:
  assumes "num_raw_drivers cam = 2" and "c < 2"
    and "fc_feature_pending (re_feat (raw_pipes cam c)) AND MTK_CAM_FEATURE_TIMESHARE_MASK = 0"
  shows "mtk_cam_raw_select c cam =
    (case wanted_engines (re_raw_num_used (raw_pipes cam c)) (enabled cam (1 - c)) of
       None \<Rightarrow> (- EINVAL, upd_pipe c (\<lambda>p. p\<lparr>re_enabled_raw := 0\<rparr>) cam)
     | Some em \<Rightarrow> (0, upd_pipe c (\<lambda>p. p\<lparr>re_enabled_raw := em\<rparr>) (upd_pipe c (\<lambda>p. p\<lparr>re_enabled_raw := 0\<rparr>) cam)))"
proof -
  let ?cam = "upd_pipe c (\<lambda>p. p\<lparr>re_enabled_raw := 0\<rparr>) cam"
  let ?st = "mtk_raw_available_resource ?cam"
  have bits: "bit ?st j \<longleftrightarrow> j < 2 \<and> bit (enabled cam (1 - c)) j" for j
    using available_resource_two[of ?cam j] assms(1,2) by (auto simp: less_2_cases_iff)
  have or0: "x AND (y OR z) = 0 \<longleftrightarrow> x AND y = 0 \<and> x AND z = 0" for x y z :: u32
    by (simp add: bit.conj_disj_distrib or_eq_0_iff)
  have vals: "engine_mask 0 = 1" "engine_mask (Suc 0) = 2" "engine_mask 2 = 4"
    by (simp_all add: engine_mask_exp)
  have two: "?st AND 1 = 0 \<longleftrightarrow> \<not> bit (enabled cam (1 - c)) 0" "?st AND 2 = 0 \<longleftrightarrow> \<not> bit (enabled cam (1 - c)) 1"
    "?st AND 4 = 0"
    using bits[of 0] bits[of 1] bits[of 2] engine_mask_zero[of ?st 0] engine_mask_zero[of ?st 1] engine_mask_zero[of ?st 2]
    by (simp_all add: vals)
  have all: "?st AND 3 = 0 \<longleftrightarrow> \<not> bit (enabled cam (1 - c)) 0 \<and> \<not> bit (enabled cam (1 - c)) 1"
    "?st AND 7 = 0 \<longleftrightarrow> \<not> bit (enabled cam (1 - c)) 0 \<and> \<not> bit (enabled cam (1 - c)) 1"
    using two or0[of ?st 1 2] or0[of ?st 3 4] by simp_all
  have "raw_select_mask ?cam c ?st = wanted_engines (re_raw_num_used (raw_pipes cam c)) (enabled cam (1 - c))"
    using assms(3) two all by (simp add: raw_select_mask_def wanted_engines_def first_free_mask_def upt_two vals or0 bits)
  then show ?thesis
    by (simp add: mtk_cam_raw_select_def Let_def split: option.splits)
qed

text \<open>C13. The choice of raw engines is exclusive and exact: with two raw engines and no time sharing
  asked for, selecting for one pipeline never touches the other's and never takes an engine the
  other has; it succeeds exactly when the engines asked for are free (both for a pipeline that
  uses two or three, any one otherwise), and then the pipeline has that many.
\<close>

theorem raw_engines_exclusive:
  assumes "num_raw_drivers cam = 2" and "c < 2"
    and "fc_feature_pending (re_feat (raw_pipes cam c)) AND MTK_CAM_FEATURE_TIMESHARE_MASK = 0"
    and "mtk_cam_raw_select c cam = (ret, cam')"
  shows "enabled cam' (1 - c) = enabled cam (1 - c)
    \<and> (\<forall>m < 2. \<not> (bit (enabled cam' c) m \<and> bit (enabled cam' (1 - c)) m))
    \<and> (ret = 0 \<longleftrightarrow> (if re_raw_num_used (raw_pipes cam c) \<in> {2, 3}
                  then \<not> bit (enabled cam (1 - c)) 0 \<and> \<not> bit (enabled cam (1 - c)) 1
                  else \<not> (bit (enabled cam (1 - c)) 0 \<and> bit (enabled cam (1 - c)) 1)))
    \<and> (ret = 0 \<longrightarrow> length [m \<leftarrow> [0, 1]. bit (enabled cam' c) m]
                   = (if re_raw_num_used (raw_pipes cam c) \<in> {2, 3} then 2 else 1))
    \<and> (ret \<noteq> 0 \<longrightarrow> ret = - EINVAL \<and> enabled cam' c = 0)"
proof (cases "wanted_engines (re_raw_num_used (raw_pipes cam c)) (enabled cam (1 - c))")
  case None
  have "1 - c \<noteq> c" using assms(2) by arith
  then show ?thesis
    using None raw_select_two[OF assms(1-3)] assms(2,4)
    by (auto simp: wanted_engines_def EINVAL_def split: if_splits)
next
  case (Some em)
  have ne: "1 - c \<noteq> c" using assms(2) by arith
  have "ret = 0" "enabled cam' c = em" "enabled cam' (1 - c) = enabled cam (1 - c)"
    using raw_select_two[OF assms(1-3)] assms(4) Some ne by auto
  moreover have "bit (3 :: u32) (Suc 0)" "bit (7 :: u32) (Suc 0)" "bit (2 :: u32) (Suc 0)" "\<not> bit (2 :: u32) 0"
    "\<not> bit (1 :: u32) (Suc 0)"
    by (simp_all add: bit_Suc)
  ultimately show ?thesis
    using Some by (auto simp: wanted_engines_def less_2_cases_iff split: if_splits)
qed

definition demo_feat :: "u32 \<Rightarrow> cam_feature_ctx" where
  "demo_feat f = \<lparr>fc_used_raw_num = 1, fc_feature_pending = f, fc_feature_active = f, fc_enable_hsf_raw = 0\<rparr>"

definition demo_engine_pipe :: "u32 \<Rightarrow> u32 \<Rightarrow> u32 \<Rightarrow> raw_engine_pipe" where
  "demo_engine_pipe en num f =
    \<lparr>re_enabled_raw = en, re_feat = demo_feat f, re_raw_num_used = num, re_stagger_path = 0, re_enabled_dmas = 0\<rparr>"

text \<open>Six camsv engines: two groups, three exposures each, all scenarios.\<close>

definition demo_sv :: "nat \<Rightarrow> camsv_pipeline" where
  "demo_sv j = \<lparr>hw_cap = 0x2F0 OR push_bit (16 + j div 3) 1 OR push_bit (20 + j mod 3) 1, is_occupied = False\<rparr>"

definition demo_engines :: "raw_engine_pipe \<Rightarrow> raw_engine_pipe \<Rightarrow> cam_engines" where
  "demo_engines p q = \<lparr>raw_pipes = (\<lambda>i. if i = 0 then p else q), num_raw_drivers = 2, sv_pipes = demo_sv,
     num_camsv_drivers = 6, raw_owner = (\<lambda>_. None), pm_users = (\<lambda>_. 0), used_raw_dev = (\<lambda>_. 0)\<rparr>"

theorem raw_engines_exclusive_witness:
  "fst (mtk_cam_raw_select 1 (demo_engines (demo_engine_pipe 1 1 0) (demo_engine_pipe 0 1 0))) = 0
   \<and> fst (mtk_cam_raw_select 1 (demo_engines (demo_engine_pipe 1 1 0) (demo_engine_pipe 0 2 0))) \<noteq> 0"
proof -
  have a: "num_raw_drivers (demo_engines (demo_engine_pipe 1 1 0) (demo_engine_pipe 0 n 0)) = 2"
    "fc_feature_pending (re_feat (raw_pipes (demo_engines (demo_engine_pipe 1 1 0) (demo_engine_pipe 0 n 0)) 1))
       AND MTK_CAM_FEATURE_TIMESHARE_MASK = 0" for n
    by (simp_all add: demo_engines_def demo_engine_pipe_def demo_feat_def)
  show ?thesis
    using raw_engines_exclusive[OF a(1)[of 1] _ a(2)[of 1] prod.collapse[symmetric]]
      raw_engines_exclusive[OF a(1)[of 2] _ a(2)[of 2] prod.collapse[symmetric]]
    by (simp add: demo_engines_def demo_engine_pipe_def enabled_def)
qed

subsection \<open>Camsv engines: reserve and release\<close>

text \<open>A set of bits granted: idle camsv engines that can do the scenario.\<close>

definition sv_granted :: "cam_engines \<Rightarrow> u32 \<Rightarrow> u32 \<Rightarrow> bool" where
  "sv_granted cam hw_scen idle =
    (\<forall>m. bit idle m \<longrightarrow> (\<exists>j < num_camsv_drivers cam. m = 3 + j \<and> \<not> is_occupied (sv_pipes cam j)
                          \<and> hw_cap (sv_pipes cam j) AND hw_scen \<noteq> 0))"

lemma sv_granted_zero [simp]: "sv_granted cam hw_scen 0"
  by (simp add: sv_granted_def)

lemma sv_granted_add:
  assumes "sv_granted cam hw_scen idle" "j < num_camsv_drivers cam" "\<not> is_occupied (sv_pipes cam j)"
    "hw_cap (sv_pipes cam j) AND hw_scen \<noteq> 0"
  shows "sv_granted cam hw_scen (idle OR sv_mask j)"
  using assms by (auto simp: sv_granted_def bit_or_iff sv_mask_engine MTKCAM_SUBDEV_CAMSV_START_def)

lemma find_sv_granted:
  assumes "find_sv cam hw_scen grp e = Some j" and "sv_granted cam hw_scen idle"
  shows "sv_granted cam hw_scen (idle OR sv_mask j)"
  by (rule sv_granted_add[OF assms(2)]) (use assms(1) in \<open>auto simp: find_sv_def find_Some_iff\<close>)

lemma sv_of_group_granted:
  "sv_of_group cam hw_scen grp is (idle, cnt) = Some (idle', cnt') \<Longrightarrow> sv_granted cam hw_scen idle \<Longrightarrow> sv_granted cam hw_scen idle'"
  by (induction "is" arbitrary: idle cnt) (auto dest: find_sv_granted split: option.splits)

lemma sv_of_groups_granted:
  "sv_of_groups cam hw_scen n gs acc = Some (idle', cnt') \<Longrightarrow> sv_granted cam hw_scen (fst acc) \<Longrightarrow> sv_granted cam hw_scen idle'"
proof (induction gs arbitrary: acc)
  case (Cons g gs)
  obtain idle cnt where acc: "acc = (idle, cnt)" by (cases acc)
  show ?case
    using Cons.prems Cons.IH sv_of_group_granted[of cam hw_scen _ _ idle cnt] unfolding acc
    by (fastforce split: option.splits prod.splits if_splits)
qed simp

lemma sv_any_granted:
  "set is \<subseteq> {..< num_camsv_drivers cam} \<Longrightarrow> sv_granted cam hw_scen (fst acc) \<Longrightarrow> sv_granted cam hw_scen (fst (sv_any cam hw_scen n is acc))"
proof (induction "is" arbitrary: acc)
  case (Cons i "is")
  obtain idle cnt where acc: "acc = (idle, cnt)" by (cases acc)
  show ?case
    using Cons.prems Cons.IH[of "(idle OR sv_mask i, cnt + 1)"] Cons.IH[of "(idle, cnt)"]
      sv_granted_add[of cam hw_scen idle i] unfolding acc
    by (auto simp: Let_def)
qed simp

lemma available_sv_cases:
  obtains "get_available_sv_pipes hw_scen n master False cam = (0, cam)"
  | idle where "get_available_sv_pipes hw_scen n master False cam = (idle, occupy_sv idle cam)" "sv_granted cam hw_scen idle"
proof -
  define grps where "grps = sv_of_groups cam hw_scen n [0 ..< CAMSV_GROUP_AMOUNT] (0, 0)"
  define grp1 where "grp1 = sv_of_group cam hw_scen (push_bit CAMSV_GROUP_SHIFT master) [0 ..< n] (0, 0)"
  define ay where "ay = sv_any cam hw_scen n [0 ..< num_camsv_drivers cam] (0, 0)"
  have "sv_granted cam hw_scen (fst ay)"
    unfolding ay_def by (rule sv_any_granted) auto
  moreover have "grp1 = Some (i, k) \<Longrightarrow> sv_granted cam hw_scen i" for i k
    unfolding grp1_def by (erule sv_of_group_granted) (rule sv_granted_zero)
  moreover have "grps = Some (i, k) \<Longrightarrow> sv_granted cam hw_scen i" for i k
    unfolding grps_def by (erule sv_of_groups_granted) simp
  moreover define found where "found = (if hw_scen = HW_PATH_ON_THE_FLY_DCIF_STAGGER \<or> hw_scen = HW_PATH_OFFLINE_SRT_DCIF_STAGGER then grp1
      else if hw_scen = HW_PATH_OFFLINE_STAGGER then grps else if snd ay < n then None else Some ay)"
  ultimately have granted: "sv_granted cam hw_scen i" if "found = Some (i, k)" for i k
    using that by (cases ay) (auto split: if_splits)
  have run: "get_available_sv_pipes hw_scen n master False cam =
      (case found of None \<Rightarrow> (0, cam) | Some (idle, cnt) \<Rightarrow> (idle, occupy_sv idle cam))"
    by (simp only: get_available_sv_pipes_def found_def grps_def grp1_def ay_def Let_def if_False)
  show thesis
  proof (cases found)
    case None
    then show thesis using that(1) run by simp
  next
    case (Some x)
    then show thesis using that(2) run granted by (cases x) auto
  qed
qed

lemma occupy_fields [simp]:
  "raw_pipes (occupy_sv idle cam) = raw_pipes cam" "num_raw_drivers (occupy_sv idle cam) = num_raw_drivers cam"
  "enabled (occupy_sv idle cam) = enabled cam" "num_camsv_drivers (occupy_sv idle cam) = num_camsv_drivers cam"
  by (simp_all add: occupy_sv_def enabled_def fun_eq_iff)

lemma occupy_zero: "occupy_sv 0 cam = cam"
  by (simp add: occupy_sv_def sv_mask_engine fun_eq_iff)

text \<open>The release in one step: the bits \<open>3 \<dots> 2 + n\<close> are cleared and their engines freed.\<close>

definition release_upto :: "nat \<Rightarrow> nat \<Rightarrow> cam_engines \<Rightarrow> cam_engines" where
  "release_upto n c cam =
    cam\<lparr>raw_pipes := (raw_pipes cam)(c := (raw_pipes cam c)\<lparr>re_enabled_raw :=
           enabled cam c AND NOT (push_bit 3 (mask n))\<rparr>),
        sv_pipes := (\<lambda>j. if j < n \<and> bit (enabled cam c) (3 + j) then (sv_pipes cam j)\<lparr>is_occupied := False\<rparr>
                         else sv_pipes cam j)\<rparr>"

lemma release_step:
  assumes "n < 29"
  shows "release_sv_pipe c (3 + n) (release_upto n c cam) = release_upto (Suc n) c cam"
proof -
  let ?w = "enabled cam c"
  have bit: "bit (enabled (release_upto n c cam) c) (3 + n) = bit ?w (3 + n)"
    using assms by (simp add: release_upto_def enabled_def bit_simps)
  have clear: "?w AND NOT (push_bit 3 (mask (Suc n))) = (?w AND NOT (push_bit 3 (mask n))) AND NOT (engine_mask (3 + n))"
    by (rule bit_eqI) (auto simp: bit_simps)
  have keep: "?w AND NOT (push_bit 3 (mask (Suc n))) = ?w AND NOT (push_bit 3 (mask n))" if "\<not> bit ?w (3 + n)"
  proof (rule bit_eqI)
    fix m
    show "bit (?w AND NOT (push_bit 3 (mask (Suc n)))) m = bit (?w AND NOT (push_bit 3 (mask n))) m"
      using that by (cases "m = 3 + n") (auto simp: bit_simps)
  qed
  show ?thesis
  proof (cases "bit ?w (3 + n)")
    case True
    then show ?thesis
      using bit clear
      by (auto simp: release_sv_pipe_def release_upto_def upd_pipe_def enabled_def MTKCAM_SUBDEV_CAMSV_START_def
          fun_eq_iff less_Suc_eq)
  next
    case False
    then have "release_sv_pipe c (3 + n) (release_upto n c cam) = release_upto n c cam"
      using bit by (simp add: release_sv_pipe_def)
    then show ?thesis using keep[OF False] False by (auto simp: release_upto_def fun_eq_iff less_Suc_eq)
  qed
qed

lemma release_all: "release_sv_pipes c cam = release_upto 6 c cam"
proof -
  have "n \<le> 6 \<Longrightarrow> fold (release_sv_pipe c) [3 ..< 3 + n] cam = release_upto n c cam" for n
  proof (induction n)
    case 0
    then show ?case by (simp add: release_upto_def enabled_def)
  next
    case (Suc n)
    have "[3 ..< 3 + Suc n] = [3 ..< 3 + n] @ [3 + n]" by (simp only: add_Suc_right upt_Suc_append le_add1)
    then show ?case using Suc release_step[of n c cam] by (simp only: fold_append fold_simps o_apply)
  qed
  moreover have "[MTKCAM_SUBDEV_CAMSV_START ..< MTKCAM_SUBDEV_CAMSV_END] = [3 ..< 3 + 6]"
    by (simp add: MTKCAM_SUBDEV_CAMSV_START_def MTKCAM_SUBDEV_CAMSV_END_def)
  ultimately show ?thesis by (simp only: release_sv_pipes_def order_refl)
qed

lemma upd_enabled_same: "upd_pipe c (\<lambda>p. p\<lparr>re_enabled_raw := re_enabled_raw p OR 0\<rparr>) cam = cam"
  by (simp add: upd_pipe_def)

lemma reserve_sv_cases:
  assumes "reserve_sv hw_scen n master c cam = (ret, cam1)"
  obtains "ret \<noteq> 0" "cam1 = cam"
  | idle where "ret = 0" "idle \<noteq> 0" "sv_granted cam hw_scen idle"
      "cam1 = upd_pipe c (\<lambda>p. p\<lparr>re_enabled_raw := re_enabled_raw p OR idle\<rparr>) (occupy_sv idle cam)"
proof (rule available_sv_cases[of hw_scen n master cam])
  assume "get_available_sv_pipes hw_scen n master False cam = (0, cam)"
  then show thesis
    using assms that(1) upd_enabled_same[of c cam] by (auto simp: reserve_sv_def EINVAL_def)
next
  fix idle
  assume g: "get_available_sv_pipes hw_scen n master False cam = (idle, occupy_sv idle cam)" "sv_granted cam hw_scen idle"
  show thesis
  proof (cases "idle = 0")
    case True
    then show thesis
      using assms g(1) that(1) upd_enabled_same[of c cam] by (auto simp: reserve_sv_def EINVAL_def occupy_zero)
  next
    case False
    then show thesis using assms g that(2) by (auto simp: reserve_sv_def)
  qed
qed

lemma release_none:
  assumes "\<forall>j < 6. \<not> bit (enabled cam c) (3 + j)"
  shows "release_sv_pipes c cam = cam"
proof -
  have "enabled cam c AND NOT (push_bit 3 (mask 6)) = enabled cam c"
  proof (rule bit_eqI)
    fix m
    show "bit (enabled cam c AND NOT (push_bit 3 (mask 6))) m = bit (enabled cam c) m"
      using assms[rule_format, of "m - 3"] by (auto simp: bit_simps dest: bit_imp_le_length)
  qed
  moreover have "(\<lambda>j. if j < 6 \<and> bit (enabled cam c) (3 + j) then (sv_pipes cam j)\<lparr>is_occupied := False\<rparr> else sv_pipes cam j)
      = sv_pipes cam" using assms by (auto simp: fun_eq_iff)
  ultimately show ?thesis by (simp add: release_all release_upto_def) (simp add: enabled_def)
qed

lemma sv_reservation_undone:
  assumes "num_camsv_drivers cam \<le> 6" and none: "\<forall>j < 6. \<not> bit (enabled cam c) (3 + j)"
    and "reserve_sv hw_scen n master c cam = (ret, cam1)"
  shows "release_sv_pipes c cam1 = cam \<and> (ret \<noteq> 0 \<longrightarrow> cam1 = cam)
    \<and> (\<forall>j < num_camsv_drivers cam.
         is_occupied (sv_pipes cam1 j) = (is_occupied (sv_pipes cam j) \<or> bit (enabled cam1 c) (3 + j))
         \<and> (bit (enabled cam1 c) (3 + j) \<longrightarrow> \<not> is_occupied (sv_pipes cam j) \<and> hw_cap (sv_pipes cam j) AND hw_scen \<noteq> 0))"
  using assms(3)
proof (cases rule: reserve_sv_cases)
  case 1
  have "j < num_camsv_drivers cam \<Longrightarrow> \<not> bit (enabled cam c) (3 + j)" for j using none assms(1) by simp
  then show ?thesis using 1 release_none[OF none] by auto
next
  case (2 idle)
  have g: "bit idle m \<Longrightarrow> \<exists>j < num_camsv_drivers cam. m = 3 + j \<and> \<not> is_occupied (sv_pipes cam j)
        \<and> hw_cap (sv_pipes cam j) AND hw_scen \<noteq> 0" for m
    using 2(3) by (simp add: sv_granted_def)
  have en: "enabled cam1 c = enabled cam c OR idle" by (simp add: 2(4) enabled_def)
  have bit1: "bit (enabled cam1 c) (3 + j) = bit idle (3 + j)" if "j < 6" for j
    using none that by (simp add: en bit_or_iff)
  have sv: "sv_pipes cam1 j = (if bit idle (3 + j) then (sv_pipes cam j)\<lparr>is_occupied := True\<rparr> else sv_pipes cam j)" for j
    using g[of "3 + j"] by (auto simp: 2(4) occupy_sv_def sv_mask_engine MTKCAM_SUBDEV_CAMSV_START_def)
  have "sv_pipes (release_sv_pipes c cam1) = sv_pipes cam"
  proof
    fix j
    show "sv_pipes (release_sv_pipes c cam1) j = sv_pipes cam j"
      using bit1[of j] sv[of j] g[of "3 + j"] assms(1) by (auto simp: release_all release_upto_def)
  qed
  moreover have "(enabled cam c OR idle) AND NOT (push_bit 3 (mask 6)) = enabled cam c"
  proof (rule bit_eqI)
    fix m
    show "bit ((enabled cam c OR idle) AND NOT (push_bit 3 (mask 6))) m = bit (enabled cam c) m"
      using none[rule_format, of "m - 3"] g[of m] assms(1) by (auto simp: bit_simps dest: bit_imp_le_length)
  qed
  ultimately have rel: "release_sv_pipes c cam1 = cam"
    by (simp add: release_all release_upto_def en) (simp add: 2(4) upd_pipe_def occupy_sv_def enabled_def)
  have gj: "j < num_camsv_drivers cam \<and> \<not> is_occupied (sv_pipes cam j) \<and> hw_cap (sv_pipes cam j) AND hw_scen \<noteq> 0"
    if "bit idle (3 + j)" for j using g[OF that] by auto
  have "is_occupied (sv_pipes cam1 j) = (is_occupied (sv_pipes cam j) \<or> bit (enabled cam1 c) (3 + j))
      \<and> (bit (enabled cam1 c) (3 + j) \<longrightarrow> \<not> is_occupied (sv_pipes cam j) \<and> hw_cap (sv_pipes cam j) AND hw_scen \<noteq> 0)"
    if "j < num_camsv_drivers cam" for j
    using bit1[of j] sv[of j] gj[of j] that assms(1) by simp
  then show ?thesis using rel 2(1) by blast
qed

text \<open>
  Which engines a reservation takes. An engine serves exposure \<open>i\<close> of a group when it is idle, has the
  scenario and is wired for that group and exposure.
\<close>

definition sv_serves :: "cam_engines \<Rightarrow> u32 \<Rightarrow> u32 \<Rightarrow> nat \<Rightarrow> nat \<Rightarrow> bool" where
  "sv_serves cam hw_scen grp i j \<longleftrightarrow> \<not> is_occupied (sv_pipes cam j) \<and> hw_cap (sv_pipes cam j) AND hw_scen \<noteq> 0
    \<and> hw_cap (sv_pipes cam j) AND grp \<noteq> 0 \<and> hw_cap (sv_pipes cam j) AND sv_exp_order i \<noteq> 0"

definition sv_idle :: "cam_engines \<Rightarrow> u32 \<Rightarrow> nat set" where
  "sv_idle cam hw_scen = {j. j < num_camsv_drivers cam \<and> \<not> is_occupied (sv_pipes cam j) \<and> hw_cap (sv_pipes cam j) AND hw_scen \<noteq> 0}"

definition sv_bits :: "u32 \<Rightarrow> nat set" where
  "sv_bits w = {j. j < 6 \<and> bit w (3 + j)}"

lemma sv_bits_or: "j < 6 \<Longrightarrow> sv_bits (w OR sv_mask j) = insert j (sv_bits w)"
  by (auto simp: sv_bits_def sv_mask_def MTKCAM_SUBDEV_CAMSV_START_def bit_simps)

lemma sv_bits_zero: "sv_bits 0 = {}" by (simp add: sv_bits_def)

lemma finite_sv_bits: "finite (sv_bits w)" by (simp add: sv_bits_def)

lemma find_sv_Some:
  "find_sv cam hw_scen grp (sv_exp_order i) = Some j \<Longrightarrow> j < num_camsv_drivers cam \<and> sv_serves cam hw_scen grp i j"
  by (auto simp: find_sv_def sv_serves_def find_Some_iff)

lemma find_sv_None:
  "find_sv cam hw_scen grp (sv_exp_order i) = None \<longleftrightarrow> (\<forall>j < num_camsv_drivers cam. \<not> sv_serves cam hw_scen grp i j)"
  by (auto simp: find_sv_def sv_serves_def find_None_iff)

lemma sv_of_group_exact:
  assumes "num_camsv_drivers cam \<le> 6"
  shows "sv_of_group cam hw_scen grp is (w, k) = None \<longleftrightarrow> (\<exists>i \<in> set is. \<forall>j < num_camsv_drivers cam. \<not> sv_serves cam hw_scen grp i j)"
    and "sv_of_group cam hw_scen grp is (w, k) = Some (w', k') \<Longrightarrow> k' = k + length is \<and> sv_bits w \<subseteq> sv_bits w'
      \<and> (\<forall>i \<in> set is. \<exists>j \<in> sv_bits w'. sv_serves cam hw_scen grp i j)
      \<and> (\<forall>j \<in> sv_bits w' - sv_bits w. \<exists>i \<in> set is. sv_serves cam hw_scen grp i j)
      \<and> card (sv_bits w') \<le> card (sv_bits w) + length is"
proof (induction "is" arbitrary: w k)
  case (Cons i "is")
  {
    case 1
    show ?case using Cons.IH(1) by (auto simp: find_sv_None split: option.split dest!: find_sv_Some)
  next
    case 2
    then obtain j where j: "find_sv cam hw_scen grp (sv_exp_order i) = Some j"
      and rest: "sv_of_group cam hw_scen grp is (w OR sv_mask j, k + 1) = Some (w', k')"
      by (auto split: option.splits)
    note f = find_sv_Some[OF j] and r = Cons.IH(2)[OF rest]
    have bits: "sv_bits (w OR sv_mask j) = insert j (sv_bits w)" using f assms by (intro sv_bits_or) simp
    have "card (insert j (sv_bits w)) \<le> Suc (card (sv_bits w))" by (simp add: card_insert_le_m1 card_insert_if finite_sv_bits)
    then have "card (sv_bits w') \<le> card (sv_bits w) + length (i # is)" using r bits by simp
    then show ?case using r f unfolding bits by auto
  }
qed simp_all

lemma sv_any_exact:
  assumes "num_camsv_drivers cam \<le> 6" and "sv_any cam hw_scen n is (w, k) = (w', k')"
    and "distinct is" "set is \<subseteq> {..< num_camsv_drivers cam}" "set is \<inter> sv_bits w = {}" "card (sv_bits w) = k" "k < n"
  shows "card (sv_bits w') = k' \<and> k' = min n (k + card (set is \<inter> sv_idle cam hw_scen))"
  using assms(2-)
proof (induction "is" arbitrary: w k)
  case (Cons i "is")
  let ?ok = "\<not> is_occupied (sv_pipes cam i) \<and> hw_cap (sv_pipes cam i) AND hw_scen \<noteq> 0"
  have i: "i < 6" "i \<in> sv_idle cam hw_scen \<longleftrightarrow> ?ok" "i \<notin> set is" using Cons.prems assms(1) by (auto simp: sv_idle_def)
  have bits: "sv_bits (w OR sv_mask i) = insert i (sv_bits w)" using i by (intro sv_bits_or) simp
  have n: "i \<notin> sv_bits w" using Cons.prems by auto
  show ?case
  proof (cases ?ok)
    case True
    have c: "card (sv_bits (w OR sv_mask i)) = k + 1" using n Cons.prems by (simp add: bits finite_sv_bits)
    have m: "card (set (i # is) \<inter> sv_idle cam hw_scen) = Suc (card (set is \<inter> sv_idle cam hw_scen))" using True i by simp
    show ?thesis
    proof (cases "k + 1 = n")
      case True
      with Cons.prems \<open>?ok\<close> have "w' = w OR sv_mask i" "k' = k + 1" by simp_all
      then show ?thesis using c m True by simp
    next
      case False
      have "sv_any cam hw_scen n is (w OR sv_mask i, k + 1) = (w', k')" using Cons.prems(1) \<open>?ok\<close> False by simp
      from Cons.IH[OF this] Cons.prems c i False m bits show ?thesis by auto
    qed
  next
    case False
    have "sv_any cam hw_scen n is (w, k) = (w', k')" using Cons.prems(1,6) False by (auto simp: Let_def)
    from Cons.IH[OF this] Cons.prems i False show ?thesis by auto
  qed
qed (auto simp: min_def)

definition sv_group :: "u32 \<Rightarrow> u32 \<Rightarrow> u32" where
  "sv_group hw_scen master = (if hw_scen = HW_PATH_OFFLINE_STAGGER then push_bit CAMSV_GROUP_SHIFT 1 else push_bit CAMSV_GROUP_SHIFT master)"

definition by_exposure :: "u32 \<Rightarrow> bool" where
  "by_exposure hw_scen \<longleftrightarrow> hw_scen \<in> {HW_PATH_ON_THE_FLY_DCIF_STAGGER, HW_PATH_OFFLINE_SRT_DCIF_STAGGER, HW_PATH_OFFLINE_STAGGER}"

lemma available_sv_exact:
  assumes "num_camsv_drivers cam \<le> 6" and "0 < n" and "get_available_sv_pipes hw_scen n master False cam = (w, cam1)"
  shows "if by_exposure hw_scen then
      (w \<noteq> 0 \<longleftrightarrow> (\<forall>i < n. \<exists>j < num_camsv_drivers cam. sv_serves cam hw_scen (sv_group hw_scen master) i j))
      \<and> (w \<noteq> 0 \<longrightarrow> (\<forall>i < n. \<exists>j \<in> sv_bits w. sv_serves cam hw_scen (sv_group hw_scen master) i j)
           \<and> (\<forall>j \<in> sv_bits w. \<exists>i < n. sv_serves cam hw_scen (sv_group hw_scen master) i j) \<and> card (sv_bits w) \<le> n)
    else (w \<noteq> 0 \<longleftrightarrow> n \<le> card (sv_idle cam hw_scen)) \<and> (w \<noteq> 0 \<longrightarrow> card (sv_bits w) = n)"
proof (cases "by_exposure hw_scen")
  case True
  let ?grp = "sv_group hw_scen master"
  let ?found = "sv_of_group cam hw_scen ?grp [0 ..< n] (0, 0)"
  note ex = sv_of_group_exact[OF assms(1), of hw_scen ?grp "[0 ..< n]" 0 0, unfolded sv_bits_zero]
  have "[0 ..< CAMSV_GROUP_AMOUNT] = 0 # [1 ..< CAMSV_GROUP_AMOUNT]" by (simp add: CAMSV_GROUP_AMOUNT_def upt_rec)
  then have "sv_of_groups cam hw_scen n [0 ..< CAMSV_GROUP_AMOUNT] (0, 0) = sv_of_group cam hw_scen (push_bit CAMSV_GROUP_SHIFT 1) [0 ..< n] (0, 0)"
    using sv_of_group_exact(2)[OF assms(1), of hw_scen "push_bit CAMSV_GROUP_SHIFT 1" "[0 ..< n]" 0 0] by (auto split: option.split)
  then have w: "w = (case ?found of None \<Rightarrow> 0 | Some (w, k) \<Rightarrow> w)"
    using True assms(3) by (auto simp: get_available_sv_pipes_def by_exposure_def sv_group_def Let_def HW_PATH_ON_THE_FLY_DCIF_STAGGER_def
        HW_PATH_OFFLINE_SRT_DCIF_STAGGER_def HW_PATH_OFFLINE_STAGGER_def split: option.splits if_splits)
  show ?thesis
  proof (cases ?found)
    case None
    then have "\<exists>i < n. \<forall>j < num_camsv_drivers cam. \<not> sv_serves cam hw_scen ?grp i j" using ex(1) by auto
    then show ?thesis using True w None by auto
  next
    case (Some p)
    obtain k where p: "p = (w, k)" using w Some by (cases p) simp
    note e = ex(2)[OF Some[unfolded p]]
    have "sv_bits w \<noteq> {}" using e assms(2) by force
    then have "w \<noteq> 0" using sv_bits_zero by auto
    moreover have "\<forall>i < n. \<exists>j < num_camsv_drivers cam. sv_serves cam hw_scen ?grp i j" using Some ex(1) by force
    moreover have "\<forall>i < n. \<exists>j \<in> sv_bits w. sv_serves cam hw_scen ?grp i j" "\<forall>j \<in> sv_bits w. \<exists>i < n. sv_serves cam hw_scen ?grp i j"
      using e by force+
    ultimately show ?thesis using True e by simp
  qed
next
  case False
  obtain w1 k where s: "sv_any cam hw_scen n [0 ..< num_camsv_drivers cam] (0, 0) = (w1, k)" by fastforce
  have "{0 ..< num_camsv_drivers cam} \<inter> sv_idle cam hw_scen = sv_idle cam hw_scen" by (auto simp: sv_idle_def)
  then have e: "card (sv_bits w1) = k" "k = min n (card (sv_idle cam hw_scen))"
    using sv_any_exact[OF assms(1) s] assms(2) by (simp_all add: sv_bits_zero lessThan_atLeast0)
  have w: "w = (if k < n then 0 else w1)"
    using False assms(3) s by (auto simp: get_available_sv_pipes_def by_exposure_def Let_def split: if_splits)
  show ?thesis using e w assms(2) False by (auto simp: sv_bits_zero)
qed

text \<open>C14. On a device with at most six camsv engines, a reservation of \<open>n\<close> of them (one at least) by a
  pipeline that holds none is all or nothing and is undone by the release. In the staggered scenarios it succeeds exactly when every exposure has an idle
  engine of the group that can serve it, and then each exposure has one of those taken and no other
  engine is taken; in the others it succeeds exactly when \<open>n\<close> idle engines have the scenario, and
  takes \<open>n\<close>. A failed reservation changes nothing; the engines taken are those recorded in the
  pipeline and marked occupied; releasing the pipeline's engines restores the state before.
\<close>

theorem sv_reservation_roundtrip:
  assumes "num_camsv_drivers cam \<le> 6" and none: "\<forall>j < 6. \<not> bit (enabled cam c) (3 + j)"
    and "reserve_sv hw_scen n master c cam = (ret, cam1)" and "0 < n"
  shows "release_sv_pipes c cam1 = cam \<and> (ret \<noteq> 0 \<longrightarrow> cam1 = cam)
    \<and> (\<forall>j < num_camsv_drivers cam.
         is_occupied (sv_pipes cam1 j) = (is_occupied (sv_pipes cam j) \<or> bit (enabled cam1 c) (3 + j))
         \<and> (bit (enabled cam1 c) (3 + j) \<longrightarrow> \<not> is_occupied (sv_pipes cam j) \<and> hw_cap (sv_pipes cam j) AND hw_scen \<noteq> 0))
    \<and> (let taken = {j. j < num_camsv_drivers cam \<and> bit (enabled cam1 c) (3 + j)}; serves = sv_serves cam hw_scen (sv_group hw_scen master)
       in if by_exposure hw_scen then
            (ret = 0 \<longleftrightarrow> (\<forall>i < n. \<exists>j < num_camsv_drivers cam. serves i j))
            \<and> (ret = 0 \<longrightarrow> (\<forall>i < n. \<exists>j \<in> taken. serves i j) \<and> (\<forall>j \<in> taken. \<exists>i < n. serves i j) \<and> card taken \<le> n)
          else (ret = 0 \<longleftrightarrow> n \<le> card (sv_idle cam hw_scen)) \<and> (ret = 0 \<longrightarrow> card taken = n))"
proof -
  obtain w cam2 where av: "get_available_sv_pipes hw_scen n master False cam = (w, cam2)" by fastforce
  have ret: "ret = 0 \<longleftrightarrow> w \<noteq> 0" and cam1: "cam1 = upd_pipe c (\<lambda>p. p\<lparr>re_enabled_raw := re_enabled_raw p OR w\<rparr>) cam2"
    using assms(3) av by (auto simp: reserve_sv_def EINVAL_def)
  have granted: "cam2 = occupy_sv w cam" "sv_granted cam hw_scen w"
    by (rule available_sv_cases[of hw_scen n master cam]; use av in \<open>simp add: occupy_zero sv_granted_zero\<close>)+
  have en: "enabled cam1 c = enabled cam c OR w"
    using granted(1) by (simp add: cam1 enabled_def)
  have g: "bit w (3 + j) \<Longrightarrow> j < num_camsv_drivers cam" for j
    using granted(2) by (fastforce simp: sv_granted_def)
  have taken: "{j. j < num_camsv_drivers cam \<and> bit (enabled cam1 c) (3 + j)} = sv_bits w"
    using none assms(1) g order.strict_trans2[OF g assms(1)] by (auto simp: en sv_bits_def bit_or_iff)
  have "release_sv_pipes c cam1 = cam \<and> (ret \<noteq> 0 \<longrightarrow> cam1 = cam)
    \<and> (\<forall>j < num_camsv_drivers cam.
         is_occupied (sv_pipes cam1 j) = (is_occupied (sv_pipes cam j) \<or> bit (enabled cam1 c) (3 + j))
         \<and> (bit (enabled cam1 c) (3 + j) \<longrightarrow> \<not> is_occupied (sv_pipes cam j) \<and> hw_cap (sv_pipes cam j) AND hw_scen \<noteq> 0))"
    by (rule sv_reservation_undone[OF assms(1-3)])
  from conjI[OF this available_sv_exact[OF assms(1,4) av]] show ?thesis
    unfolding taken ret Let_def conj_assoc .
qed

theorem sv_reservation_roundtrip_witness:
  "fst (reserve_sv HW_PATH_ON_THE_FLY_DCIF_STAGGER 2 1 0 (demo_engines (demo_engine_pipe 1 1 0x4) (demo_engine_pipe 0 1 0))) = 0
   \<and> release_sv_pipes 0 (snd (reserve_sv HW_PATH_ON_THE_FLY_DCIF_STAGGER 2 1 0
         (demo_engines (demo_engine_pipe 1 1 0x4) (demo_engine_pipe 0 1 0))))
      = demo_engines (demo_engine_pipe 1 1 0x4) (demo_engine_pipe 0 1 0)"
proof -
  let ?cam = "demo_engines (demo_engine_pipe 1 1 0x4) (demo_engine_pipe 0 1 0)"
  have sv: "num_camsv_drivers ?cam \<le> 6" "\<forall>j < 6. \<not> bit (enabled ?cam 0) (3 + j)"
    by (simp_all add: demo_engines_def enabled_def demo_engine_pipe_def bit_1_iff)
  have two: "0 < (2 :: nat)" by simp
  note r = sv_reservation_roundtrip[OF sv prod.collapse[symmetric] two, of HW_PATH_ON_THE_FLY_DCIF_STAGGER 1]
  have "fst (reserve_sv HW_PATH_ON_THE_FLY_DCIF_STAGGER 2 1 0 ?cam) = 0" by code_simp
  then show ?thesis using r by blast
qed

subsection \<open>What a stop leaves behind\<close>

text \<open>Stopping a stream clears no raw bit; reserving camsv engines and binding devices clear none either.\<close>

lemma release_raw_bits: "m < 3 \<Longrightarrow> bit (enabled (release_sv_pipes c cam) d) m = bit (enabled cam d) m"
  by (auto simp: release_all release_upto_def enabled_def bit_simps)

lemma release_params:
  "num_raw_drivers (release_sv_pipes c cam) = num_raw_drivers cam"
  "re_feat (raw_pipes (release_sv_pipes c cam) d) = re_feat (raw_pipes cam d)"
  "re_raw_num_used (raw_pipes (release_sv_pipes c cam) d) = re_raw_num_used (raw_pipes cam d)"
  by (simp_all add: release_all release_upto_def)

lemma stream_off_raw_bits: "m < 3 \<Longrightarrow> bit (enabled (stream_off_engines c cam) d) m = bit (enabled cam d) m"
  by (simp add: stream_off_engines_def Let_def release_raw_bits)

lemma stream_off_params:
  "num_raw_drivers (stream_off_engines c cam) = num_raw_drivers cam"
  "re_feat (raw_pipes (stream_off_engines c cam) d) = re_feat (raw_pipes cam d)"
  "re_raw_num_used (raw_pipes (stream_off_engines c cam) d) = re_raw_num_used (raw_pipes cam d)"
  by (simp_all add: stream_off_engines_def Let_def release_params)

lemma reserve_sv_keeps:
  assumes "reserve_sv hw_scen n master c cam = (ret, cam1)"
  shows "(bit (enabled cam d) m \<longrightarrow> bit (enabled cam1 d) m) \<and> num_raw_drivers cam1 = num_raw_drivers cam
    \<and> re_feat (raw_pipes cam1 d) = re_feat (raw_pipes cam d) \<and> re_raw_num_used (raw_pipes cam1 d) = re_raw_num_used (raw_pipes cam d)"
  using assms by (cases rule: reserve_sv_cases) (auto simp: bit_or_iff enabled_def)

lemma config_sv_keeps:
  assumes "config_sv_pipes config_pipe c cam = (ret, cam1)"
  shows "(bit (enabled cam d) m \<longrightarrow> bit (enabled cam1 d) m) \<and> num_raw_drivers cam1 = num_raw_drivers cam
    \<and> re_feat (raw_pipes cam1 d) = re_feat (raw_pipes cam d) \<and> re_raw_num_used (raw_pipes cam1 d) = re_raw_num_used (raw_pipes cam d)"
  using assms by (auto simp: config_sv_pipes_def Let_def dest: reserve_sv_keeps[where d = d and m = m] split: if_splits)

lemma pm_engines_keeps:
  "raw_pipes (pm_engines d em cam) = raw_pipes cam \<and> num_raw_drivers (pm_engines d em cam) = num_raw_drivers cam"
  by (simp add: pm_engines_def upt_two)

lemma bind_keeps:
  "bind_raw_devs r c cam = Some cam1 \<Longrightarrow> raw_pipes cam1 = raw_pipes cam \<and> num_raw_drivers cam1 = num_raw_drivers cam"
  by (auto simp: bind_raw_devs_def Let_def bind_eq_Some_conv split: option.splits if_splits)

lemma pipeline_config_selects:
  assumes "mtk_cam_raw_pipeline_config False c cam = (0, cam1)"
  obtains cam0 where "mtk_cam_raw_select c cam = (0, cam0)" "raw_pipes cam1 = raw_pipes cam0"
    "num_raw_drivers cam1 = num_raw_drivers cam0" "used_raw_dev cam1 c = enabled cam0 c"
  using assms pm_engines_keeps[of 1 "enabled (snd (mtk_cam_raw_select c cam)) c" "snd (mtk_cam_raw_select c cam)"]
  by (cases "mtk_cam_raw_select c cam") (auto simp: mtk_cam_raw_pipeline_config_def Let_def enabled_def split: if_splits)

lemma dev_config_keeps:
  assumes "mtk_cam_dev_config fmt_ok False True c cam = Some (0, cam1, maps)"
  obtains cam0 where "mtk_cam_raw_select c cam = (0, cam0)"
    "\<And>d m. bit (enabled cam0 d) m \<Longrightarrow> bit (enabled cam1 d) m" "num_raw_drivers cam1 = num_raw_drivers cam0"
    "\<And>d. re_feat (raw_pipes cam1 d) = re_feat (raw_pipes cam0 d)"
proof -
  obtain cam2 cam3 where p: "mtk_cam_raw_pipeline_config False c cam = (0, cam2)"
    and s: "config_sv_pipes True c cam2 = (0, cam3)"
    and b: "raw_pipes cam1 = raw_pipes cam3" "num_raw_drivers cam1 = num_raw_drivers cam3"
    using assms
    by (auto simp: mtk_cam_dev_config_def Let_def EINVAL_def bind_eq_Some_conv dest: bind_keeps
        split: if_splits prod.splits option.splits)
  obtain cam0 where c0: "mtk_cam_raw_select c cam = (0, cam0)" "raw_pipes cam2 = raw_pipes cam0"
      "num_raw_drivers cam2 = num_raw_drivers cam0"
    using pipeline_config_selects[OF p] by blast
  show thesis
  proof (rule that[OF c0(1)])
    fix d m
    show "bit (enabled cam0 d) m \<Longrightarrow> bit (enabled cam1 d) m"
      using config_sv_keeps[OF s, of d m] b(1) c0(2) by (simp add: enabled_def)
    show "num_raw_drivers cam1 = num_raw_drivers cam0" using config_sv_keeps[OF s, of d m] b(2) c0(3) by simp
    show "re_feat (raw_pipes cam1 d) = re_feat (raw_pipes cam0 d)"
      using config_sv_keeps[OF s, of d m] b(1) c0(2) by simp
  qed
qed

text \<open>C17. A pipeline that ran on both raw engines keeps them when its stream stops: after its
  configuration and stream-off, selecting engines for the other pipeline without time sharing
  fails, although no stream uses any engine.
\<close>

theorem stopped_twin_starves:
  assumes "num_raw_drivers cam = 2" and c: "c < 2" and "re_raw_num_used (raw_pipes cam c) = 2"
    and "\<forall>d < 2. fc_feature_pending (re_feat (raw_pipes cam d)) AND MTK_CAM_FEATURE_TIMESHARE_MASK = 0"
    and "mtk_cam_dev_config fmt_ok False True c cam = Some (0, cam1, maps)"
  shows "fst (mtk_cam_raw_select (1 - c) (stream_off_engines c cam1)) = - EINVAL"
proof -
  let ?off = "stream_off_engines c cam1"
  have d: "1 - c < 2" "1 - (1 - c) = c" "1 - c \<noteq> c" using c by arith+
  obtain cam0 where c0: "mtk_cam_raw_select c cam = (0, cam0)"
    and bits: "\<And>d m. bit (enabled cam0 d) m \<Longrightarrow> bit (enabled cam1 d) m"
    and params: "num_raw_drivers cam1 = num_raw_drivers cam0" "\<And>d. re_feat (raw_pipes cam1 d) = re_feat (raw_pipes cam0 d)"
    using dev_config_keeps[OF assms(5)] by blast
  have sel: "mtk_cam_raw_select c cam =
      (0, upd_pipe c (\<lambda>p. p\<lparr>re_enabled_raw := 3\<rparr>) (upd_pipe c (\<lambda>p. p\<lparr>re_enabled_raw := 0\<rparr>) cam))"
    using raw_select_two[OF assms(1) c] assms(3,4) c c0 by (auto simp: wanted_engines_def EINVAL_def split: if_splits)
  then have e: "enabled cam0 c = 3" "num_raw_drivers cam0 = 2" "re_feat (raw_pipes cam0 (1 - c)) = re_feat (raw_pipes cam (1 - c))"
    using c0 assms(1) d(3) by auto
  have "bit (enabled cam0 c) 0" "bit (enabled cam0 c) 1" by (simp_all add: e(1) bit_Suc)
  then have "bit (enabled ?off c) 0" "bit (enabled ?off c) 1"
    by (simp_all only: stream_off_raw_bits bits)
  moreover have "num_raw_drivers ?off = 2"
    "fc_feature_pending (re_feat (raw_pipes ?off (1 - c))) AND MTK_CAM_FEATURE_TIMESHARE_MASK = 0"
    using assms(4) d(1) by (simp_all del: One_nat_def add: stream_off_params params e(2,3))
  ultimately show ?thesis
    using raw_select_two[of ?off "1 - c"] d by (simp add: wanted_engines_def)
qed

theorem stopped_twin_starves_witness:
  "case mtk_cam_dev_config True False True 0 (demo_engines (demo_engine_pipe 0 2 0) (demo_engine_pipe 0 1 0)) of
     Some (ret, cam1, maps) \<Rightarrow> ret = 0 \<and> fst (mtk_cam_raw_select 1 (stream_off_engines 0 cam1)) = - EINVAL
   | None \<Rightarrow> False"
proof -
  let ?cam = "demo_engines (demo_engine_pipe 0 2 0) (demo_engine_pipe 0 1 0)"
  have "case mtk_cam_dev_config True False True 0 ?cam of Some (ret, cam1, maps) \<Rightarrow> ret = 0 | None \<Rightarrow> False" by code_simp
  then obtain cam1 maps where run: "mtk_cam_dev_config True False True 0 ?cam = Some (0, cam1, maps)"
    by (auto split: option.splits)
  have "fst (mtk_cam_raw_select (1 - 0) (stream_off_engines 0 cam1)) = - EINVAL"
    by (rule stopped_twin_starves[OF _ _ _ _ run]) (simp_all add: demo_engines_def demo_engine_pipe_def demo_feat_def)
  then show ?thesis using run by simp
qed

text \<open>
  A pipeline negotiated for three engines crashes the driver: with two raw engines, both
  free, configuring a stream whose resource asks for three dereferences the null pointer that
  stands for the second slave (the negotiation gives three when the request's maximum is above
  two).
\<close>

theorem three_engines_crash:
  assumes "num_raw_drivers cam = 2" and c: "c < 2" and three: "re_raw_num_used (raw_pipes cam c) = 3"
    and nts: "fc_feature_pending (re_feat (raw_pipes cam c)) AND MTK_CAM_FEATURE_TIMESHARE_MASK = 0"
    and free: "enabled cam (1 - c) = 0"
    and "\<not> mtk_cam_feature_is_stagger (fc_feature_active (re_feat (raw_pipes cam c)))"
    and "\<not> mtk_cam_is_with_w_channel (re_feat (raw_pipes cam c))"
  shows "mtk_cam_dev_config True False True c cam = None"
proof -
  let ?cam0 = "upd_pipe c (\<lambda>p. p\<lparr>re_enabled_raw := 7\<rparr>) (upd_pipe c (\<lambda>p. p\<lparr>re_enabled_raw := 0\<rparr>) cam)"
  have d: "1 - c \<noteq> c" using c by arith
  have b: "bit (7 :: u32) 0" "bit (7 :: u32) (Suc 0)" by (simp_all add: bit_Suc)
  have "mtk_cam_raw_select c cam = (0, ?cam0)"
    using raw_select_two[OF assms(1) c nts] three free by (simp add: wanted_engines_def)
  then have p: "mtk_cam_raw_pipeline_config False c cam =
      (0, (pm_engines 1 7 ?cam0)\<lparr>used_raw_dev := (used_raw_dev (pm_engines 1 7 ?cam0))(c := 7)\<rparr>)"
    using pm_engines_keeps[of 1 7 ?cam0] by (simp add: mtk_cam_raw_pipeline_config_def Let_def enabled_def)
  let ?cam1 = "(pm_engines 1 7 ?cam0)\<lparr>used_raw_dev := (used_raw_dev (pm_engines 1 7 ?cam0))(c := 7)\<rparr>"
  have pipes: "raw_pipes ?cam1 = raw_pipes ?cam0" "num_raw_drivers ?cam1 = 2" "used_raw_dev ?cam1 c = 7"
    using pm_engines_keeps[of 1 7 ?cam0] assms(1) by simp_all
  have en: "enabled ?cam1 c = 7" "enabled ?cam1 (1 - c) = 0"
    using pipes(1) d free by (simp_all add: enabled_def)
  have "\<not> mtk_cam_is_time_shared (re_feat (raw_pipes cam c))"
    using nts by (simp add: mtk_cam_is_time_shared_def mtk_cam_feature_is_time_shared_def)
  then have s: "config_sv_pipes True c ?cam1 = (0, ?cam1)"
    using assms(6,7) pipes(1) by (simp add: config_sv_pipes_def Let_def)
  have r: "find_raw_engine ?cam1 (used_raw_dev ?cam1 c) = Some 0"
    by (simp add: find_raw_engine_def pipes upt_rec b)
  have "find (\<lambda>i. enabled ?cam1 i AND engine_mask 0 \<noteq> 0) [0 ..< RAW_PIPELINE_NUM] = Some c"
    using en c b by (cases "c = 0") (auto simp: upt_two less_2_cases_iff)
  then have "bind_raw_devs 0 c ?cam1 = None"
    using three pipes(1) by (simp add: bind_raw_devs_def Let_def get_slave2_raw_dev_def RAW_PIPELINE_NUM_def bind_eq_None_conv)
  then show ?thesis
    using p s r by (simp add: mtk_cam_dev_config_def Let_def)
qed

theorem three_engines_crash_witness:
  "mtk_cam_dev_config True False True 0 (demo_engines (demo_engine_pipe 0 3 0) (demo_engine_pipe 0 1 0)) = None"
  by (rule three_engines_crash)
    (simp_all add: demo_engines_def demo_engine_pipe_def demo_feat_def enabled_def mtk_cam_feature_is_stagger_def
      mtk_cam_is_with_w_channel_def feature_ids)

end
