(* ===== verification/SeninfRoute.thy ===== *)
theory SeninfRoute
  imports Prelude "HOL-Library.Multiset"
begin

text \<open>
  The sensor interface (\<open>mtk_cam-seninf-route.c\<close>): which virtual channels a sensor sends and on
  which source pads they appear, the muxes that carry them, and the cam mux each pad is
  connected to. A context is one sensor port; the core owns the muxes. The macros
  \<open>SENINF_VC_ROUTING\<close> and \<open>SENINF_DEBUG\<close> are defined; \<open>ISP7_1\<close> and \<open>SENSOR_SECURE_MTEE_SUPPORT\<close> are
  not. Calls into the hardware layer (\<open>g_seninf_ops\<close>) and into the sensor are recorded in order.
\<close>

unbundle bit_operations_syntax

definition EINVAL :: int where "EINVAL = 22"
definition EBUSY :: int where "EBUSY = 16"
definition EFAULT :: int where "EFAULT = 14"

subsection \<open>Data\<close>

text \<open>The distinct values of \<open>enum VC_FEATURE\<close>, and any other number.\<close>

datatype VC_FEATURE =
    VC_NONE | VC_RAW_DATA | VC_PDAF_STATS | VC_PDAF_STATS_NE | VC_PDAF_STATS_ME | VC_PDAF_STATS_SE
  | VC_PDAF_STATS_PIX_1 | VC_PDAF_STATS_PIX_2 | VC_PDAF_STATS_ME_PIX_1 | VC_PDAF_STATS_ME_PIX_2
  | VC_PDAF_STATS_SE_PIX_1 | VC_PDAF_STATS_SE_PIX_2 | VC_HDR_MVHDR
  | VC_3HDR_EMBEDDED | VC_3HDR_FLICKER | VC_3HDR_Y | VC_3HDR_AE
  | VC_STAGGER_EMBEDDED | VC_STAGGER_NE | VC_STAGGER_ME | VC_STAGGER_SE | VC_YUV_Y | VC_YUV_UV
  | VC_RAW_W_DATA | VC_RAW_PROCESSED_DATA | VC_GENERAL_EMBEDDED | VC_UNNAMED

definition SENINF_VC_MAXCNT :: nat where "SENINF_VC_MAXCNT = 8"
definition SENINF_DEF_PIXEL_MODE :: u8 where "SENINF_DEF_PIXEL_MODE = 2"

definition PAD_SINK :: nat where "PAD_SINK = 0"
definition PAD_SRC_RAW0 :: nat where "PAD_SRC_RAW0 = 1"
definition PAD_SRC_RAW1 :: nat where "PAD_SRC_RAW1 = 2"
definition PAD_SRC_RAW2 :: nat where "PAD_SRC_RAW2 = 3"
definition PAD_SRC_RAW_W0 :: nat where "PAD_SRC_RAW_W0 = 4"
definition PAD_SRC_RAW_EXT0 :: nat where "PAD_SRC_RAW_EXT0 = 5"
definition PAD_SRC_PDAF0 :: nat where "PAD_SRC_PDAF0 = 6"
definition PAD_SRC_PDAF1 :: nat where "PAD_SRC_PDAF1 = 7"
definition PAD_SRC_PDAF2 :: nat where "PAD_SRC_PDAF2 = 8"
definition PAD_SRC_PDAF3 :: nat where "PAD_SRC_PDAF3 = 9"
definition PAD_SRC_PDAF4 :: nat where "PAD_SRC_PDAF4 = 10"
definition PAD_SRC_PDAF5 :: nat where "PAD_SRC_PDAF5 = 11"
definition PAD_SRC_PDAF6 :: nat where "PAD_SRC_PDAF6 = 12"
definition PAD_SRC_HDR0 :: nat where "PAD_SRC_HDR0 = 13"
definition PAD_SRC_HDR1 :: nat where "PAD_SRC_HDR1 = 14"
definition PAD_SRC_HDR2 :: nat where "PAD_SRC_HDR2 = 15"
definition PAD_SRC_GENERAL0 :: nat where "PAD_SRC_GENERAL0 = 16"
definition PAD_MAXCNT :: nat where "PAD_MAXCNT = 17"

lemmas pad_defs =
  PAD_SINK_def PAD_SRC_RAW0_def PAD_SRC_RAW1_def PAD_SRC_RAW2_def PAD_SRC_RAW_W0_def PAD_SRC_RAW_EXT0_def
  PAD_SRC_PDAF0_def PAD_SRC_PDAF1_def PAD_SRC_PDAF2_def PAD_SRC_PDAF3_def PAD_SRC_PDAF4_def PAD_SRC_PDAF5_def
  PAD_SRC_PDAF6_def PAD_SRC_HDR0_def PAD_SRC_HDR1_def PAD_SRC_HDR2_def PAD_SRC_GENERAL0_def PAD_MAXCNT_def

text \<open>Media bus codes, as the kernel numbers them.\<close>

definition MEDIA_BUS_FMT_YUYV8_2X8 :: u32 where "MEDIA_BUS_FMT_YUYV8_2X8 = 0x2008"
definition MEDIA_BUS_FMT_SBGGR8_1X8 :: u32 where "MEDIA_BUS_FMT_SBGGR8_1X8 = 0x3001"
definition MEDIA_BUS_FMT_SBGGR10_1X10 :: u32 where "MEDIA_BUS_FMT_SBGGR10_1X10 = 0x3007"
definition MEDIA_BUS_FMT_SBGGR12_1X12 :: u32 where "MEDIA_BUS_FMT_SBGGR12_1X12 = 0x3008"

definition mbus_raw10 :: "u32 set" where "mbus_raw10 = {0x3007, 0x300e, 0x300a, 0x300f}"
definition mbus_raw12 :: "u32 set" where "mbus_raw12 = {0x3008, 0x3010, 0x3011, 0x3012}"

definition to_std_fmt_code :: "u32 \<Rightarrow> u32" where "to_std_fmt_code code = code AND 0xFFFF"

record seninf_vc =
  vc_vc :: u8
  vc_dt :: u8
  vc_feature :: VC_FEATURE
  vc_out_pad :: nat
  vc_pixel_mode :: u8
  vc_group :: u8
  vc_mux :: u8
  vc_cam :: u8
  vc_enable :: bool
  vc_exp_hsize :: u16
  vc_exp_vsize :: u16

record seninf_fmt =
  sf_code :: u32
  sf_width :: u32
  sf_height :: u32

text \<open>
  \<open>vi_vc\<close> and \<open>vi_cnt\<close> are \<open>struct seninf_vcinfo\<close>; \<open>pad_linked\<close>: the pad has an enabled link;
  \<open>sx_sensor\<close>: \<open>sensor_sd\<close> is set.
\<close>

record seninf_ctx =
  vi_vc :: "seninf_vc list"
  vi_cnt :: nat
  sx_fmt :: "nat \<Rightarrow> seninf_fmt"
  pad2cam :: "nat \<Rightarrow> int"
  pad_linked :: "nat \<Rightarrow> bool"
  sx_list_mux :: "nat list"
  sx_list_cam_mux :: "nat list"
  sx_streaming :: bool
  is_test_model :: nat
  is_test_streamon :: bool
  sx_sensor :: bool
  seninfIdx :: nat
  is_cphy :: bool
  num_data_lanes :: nat
  mipi_pixel_rate :: u64
  buffered_pixel_rate :: u64
  customized_pixel_rate :: u64
  fps_n :: u32
  fps_d :: u32
  isp_freq :: u32
  sx_pm_users :: int
  sx_open_refcnt :: int

text \<open>The calls into the hardware layer, the regulator and the sensor.\<close>

datatype seninf_op =
    Op_reset nat | Op_set_vc nat | Op_set_csi_mipi | Op_mux nat | Op_set_mux_ctrl nat nat u8 | Op_set_top_mux_ctrl nat nat
  | Op_cammux_vc int u8 u8 bool | Op_cammux_src nat int u16 u16 | Op_cammux_chk_pixel_mode int u8
  | Op_cammux int | Op_disable_cammux int | Op_disable_mux nat | Op_inner_page bool | Op_next_ctrl nat int
  | Op_reset_dyn_en | Op_update_mux_pixel_mode nat u8 | Op_poweroff | Op_test_model nat int u8
  | Op_voltage u64 u64 | Op_fsync_map int | Op_notify_fsync | Op_sensor_stream bool

record seninf_core =
  core_list_mux :: "nat list"
  core_list_cam_mux :: "nat list"
  core_ctxs :: "nat \<Rightarrow> seninf_ctx"
  core_num :: nat
  mux_num :: nat
  cam_mux_num :: nat
  pref_mux_num :: nat
  dfs_freqs :: "u64 list"
  dfs_volts :: "u64 list"
  camtm_clk :: bool
  camtm_users :: int
  core_ops :: "nat \<Rightarrow> seninf_op list"

definition upd_sx :: "nat \<Rightarrow> (seninf_ctx \<Rightarrow> seninf_ctx) \<Rightarrow> seninf_core \<Rightarrow> seninf_core" where
  "upd_sx c f s = s\<lparr>core_ctxs := (core_ctxs s)(c := f (core_ctxs s c))\<rparr>"

abbreviation sx :: "seninf_core \<Rightarrow> nat \<Rightarrow> seninf_ctx" where "sx s c \<equiv> core_ctxs s c"

definition emit_op :: "nat \<Rightarrow> seninf_op list \<Rightarrow> seninf_core \<Rightarrow> seninf_core" where
  "emit_op c ops s = s\<lparr>core_ops := (core_ops s)(c := core_ops s c @ ops)\<rparr>"

definition upd_vc :: "nat \<Rightarrow> (seninf_vc \<Rightarrow> seninf_vc) \<Rightarrow> seninf_ctx \<Rightarrow> seninf_ctx" where
  "upd_vc i f x = x\<lparr>vi_vc := (vi_vc x)[i := f (vi_vc x ! i)]\<rparr>"

subsection \<open>Virtual channels\<close>

text \<open>The outer switch on the user descriptor: feature and pad.\<close>

definition desc_pad :: "VC_FEATURE \<Rightarrow> (VC_FEATURE \<times> nat) option" where
  "desc_pad d =
    (case d of
       VC_3HDR_Y \<Rightarrow> Some (VC_3HDR_Y, PAD_SRC_HDR0)
     | VC_3HDR_AE \<Rightarrow> Some (VC_3HDR_AE, PAD_SRC_HDR1)
     | VC_3HDR_FLICKER \<Rightarrow> Some (VC_3HDR_FLICKER, PAD_SRC_HDR2)
     | VC_PDAF_STATS \<Rightarrow> Some (VC_PDAF_STATS, PAD_SRC_PDAF0)
     | VC_PDAF_STATS_PIX_1 \<Rightarrow> Some (VC_PDAF_STATS_PIX_1, PAD_SRC_PDAF1)
     | VC_PDAF_STATS_PIX_2 \<Rightarrow> Some (VC_PDAF_STATS_PIX_2, PAD_SRC_PDAF2)
     | VC_PDAF_STATS_ME_PIX_1 \<Rightarrow> Some (VC_PDAF_STATS_ME_PIX_1, PAD_SRC_PDAF3)
     | VC_PDAF_STATS_ME_PIX_2 \<Rightarrow> Some (VC_PDAF_STATS_ME_PIX_2, PAD_SRC_PDAF4)
     | VC_PDAF_STATS_SE_PIX_1 \<Rightarrow> Some (VC_PDAF_STATS_SE_PIX_1, PAD_SRC_PDAF5)
     | VC_PDAF_STATS_SE_PIX_2 \<Rightarrow> Some (VC_PDAF_STATS_SE_PIX_2, PAD_SRC_PDAF6)
     | VC_YUV_Y \<Rightarrow> Some (VC_RAW_DATA, PAD_SRC_RAW0)
     | VC_YUV_UV \<Rightarrow> Some (VC_RAW_DATA, PAD_SRC_RAW1)
     | VC_GENERAL_EMBEDDED \<Rightarrow> Some (VC_GENERAL_EMBEDDED, PAD_SRC_GENERAL0)
     | _ \<Rightarrow> None)"

text \<open>The inner switch, for a raw data type.\<close>

definition raw_pad :: "VC_FEATURE \<Rightarrow> nat \<Rightarrow> nat" where
  "raw_pad d raw_cnt =
    (case d of
       VC_STAGGER_NE \<Rightarrow> PAD_SRC_RAW0
     | VC_STAGGER_ME \<Rightarrow> PAD_SRC_RAW1
     | VC_STAGGER_SE \<Rightarrow> PAD_SRC_RAW2
     | VC_RAW_W_DATA \<Rightarrow> PAD_SRC_RAW_W0
     | VC_RAW_PROCESSED_DATA \<Rightarrow> PAD_SRC_RAW_EXT0
     | _ \<Rightarrow> PAD_SRC_RAW0 + raw_cnt)"

definition own_group :: "VC_FEATURE \<Rightarrow> bool" where
  "own_group f \<longleftrightarrow>
    f \<in> {VC_PDAF_STATS_PIX_1, VC_PDAF_STATS_PIX_2, VC_PDAF_STATS_ME_PIX_1, VC_PDAF_STATS_ME_PIX_2,
          VC_PDAF_STATS_SE_PIX_1, VC_PDAF_STATS_SE_PIX_2}"

definition get_mbus_format_by_dt :: "u8 \<Rightarrow> u32" where
  "get_mbus_format_by_dt dt =
    (if dt = 0x2a then MEDIA_BUS_FMT_SBGGR8_1X8
     else if dt = 0x2b then MEDIA_BUS_FMT_SBGGR10_1X10
     else if dt = 0x2c then MEDIA_BUS_FMT_SBGGR12_1X12
     else if dt = 0x1e then MEDIA_BUS_FMT_YUYV8_2X8
     else MEDIA_BUS_FMT_SBGGR8_1X8)"

record csi2_entry =
  ce_channel :: u8
  ce_data_type :: u8
  ce_hsize :: u16
  ce_vsize :: u16
  ce_desc :: VC_FEATURE

text \<open>
  What the driver asks of the sensor, and what it answers: the frame descriptor (control found,
  return value, type, entries), the format, interval, blankings and rates (\<open>None\<close>: the query
  failed), the bus configuration (C-PHY, lane flags), and the return values of \<open>s_stream\<close> and of
  the runtime PM.
\<close>

record sensor_if =
  si_desc_ctrl :: bool
  si_desc_ret :: int
  si_desc_csi2 :: bool
  si_desc_entries :: "csi2_entry list"
  si_fmt :: "(u32 \<times> u32 \<times> u32) option"
  si_interval :: "(u32 \<times> u32) option"
  si_hblank :: "u32 option"
  si_vblank :: "u32 option"
  si_pixel_rate :: "u64 option"
  si_cust_rate :: "u32 option"
  si_mbus :: "(bool \<times> u32) option"
  si_s_stream :: "bool \<Rightarrow> int"
  si_fsync_ctrl :: bool
  si_pm_get :: int

text \<open>
  The loop over the entries. Its registers are the next group, the number of raw channels and
  the group of the metadata. Slot \<open>vi_cnt\<close> is written before it is known that the entry is kept,
  and a YUV entry leaves the group that slot had.
\<close>

record vc_scan =
  vs_ctx :: seninf_ctx
  vs_grp :: nat
  vs_raw_cnt :: nat
  vs_meta :: "nat option"

definition vc_classify :: "csi2_entry \<Rightarrow> vc_scan \<Rightarrow> (seninf_vc \<times> vc_scan) option" where
  "vc_classify e w =
    (let vc = (vi_vc (vs_ctx w) ! vi_cnt (vs_ctx w))\<lparr>vc_vc := ce_channel e, vc_dt := ce_data_type e\<rparr>
     in case desc_pad (ce_desc e) of
          Some (f, pad) \<Rightarrow> Some (vc\<lparr>vc_feature := f, vc_out_pad := pad\<rparr>, w)
        | None \<Rightarrow>
            if ce_data_type e \<in> {0x2a, 0x2b, 0x2c} then
              (if vs_raw_cnt w \<ge> 3 then None
               else Some (vc\<lparr>vc_out_pad := raw_pad (ce_desc e) (vs_raw_cnt w), vc_feature := VC_RAW_DATA,
                             vc_group := of_nat (vs_grp w)\<rparr>,
                          w\<lparr>vs_raw_cnt := vs_raw_cnt w + 1, vs_grp := vs_grp w + 1\<rparr>))
            else if ce_data_type e = 0x1e then Some (vc\<lparr>vc_feature := VC_RAW_DATA, vc_out_pad := PAD_SRC_RAW0\<rparr>, w)
            else None)"

definition vc_assign_group :: "seninf_vc \<times> vc_scan \<Rightarrow> seninf_vc \<times> vc_scan" where
  "vc_assign_group p =
    (case p of (vc, w) \<Rightarrow>
       if vc_feature vc = VC_RAW_DATA then (vc, w)
       else if own_group (vc_feature vc) then (vc\<lparr>vc_group := of_nat (vs_grp w)\<rparr>, w\<lparr>vs_grp := vs_grp w + 1\<rparr>)
       else (let w1 = (if vs_meta w = None then w\<lparr>vs_meta := Some (vs_grp w), vs_grp := vs_grp w + 1\<rparr> else w)
             in (vc\<lparr>vc_group := of_nat (the (vs_meta w1))\<rparr>, w1)))"

definition vc_format :: "sensor_if \<Rightarrow> csi2_entry \<Rightarrow> seninf_vc \<Rightarrow> seninf_ctx \<Rightarrow> seninf_ctx" where
  "vc_format si e vc x =
    (let old = sx_fmt x (vc_out_pad vc);
         f1 = (if ce_hsize e \<noteq> 0 \<and> ce_vsize e \<noteq> 0
               then old\<lparr>sf_width := ucast (ce_hsize e), sf_height := ucast (ce_vsize e)\<rparr> else old);
         code = (if vc_feature vc = VC_RAW_DATA
                 then (case si_fmt si of Some (code, _, _) \<Rightarrow> to_std_fmt_code code
                                       | None \<Rightarrow> get_mbus_format_by_dt (vc_dt vc))
                 else get_mbus_format_by_dt (vc_dt vc))
     in x\<lparr>sx_fmt := (sx_fmt x)(vc_out_pad vc := f1\<lparr>sf_code := code\<rparr>)\<rparr>)"

definition vc_step :: "sensor_if \<Rightarrow> csi2_entry \<Rightarrow> vc_scan \<Rightarrow> vc_scan" where
  "vc_step si e w =
    (let x = vs_ctx w; i = vi_cnt x in
     case map_option vc_assign_group (vc_classify e w) of
       None \<Rightarrow> w\<lparr>vs_ctx := upd_vc i (\<lambda>v. v\<lparr>vc_vc := ce_channel e, vc_dt := ce_data_type e\<rparr>) x\<rparr>
     | Some (vc, w1) \<Rightarrow>
         let vc1 = vc\<lparr>vc_exp_hsize := ce_hsize e, vc_exp_vsize := ce_vsize e\<rparr>;
             x1 = vc_format si e vc1 (upd_vc i (\<lambda>_. vc1) x)
         in w1\<lparr>vs_ctx := x1\<lparr>vi_cnt := i + 1\<rparr>\<rparr>)"

definition raw_vc :: "u8 \<Rightarrow> seninf_vc \<Rightarrow> seninf_vc" where
  "raw_vc dt v = v\<lparr>vc_vc := 0, vc_dt := dt, vc_feature := VC_RAW_DATA, vc_out_pad := PAD_SRC_RAW0, vc_group := 0\<rparr>"

definition get_vcinfo_by_pad_fmt :: "seninf_ctx \<Rightarrow> int \<times> seninf_ctx" where
  "get_vcinfo_by_pad_fmt x =
    (let x0 = x\<lparr>vi_cnt := 0\<rparr>; code = to_std_fmt_code (sf_code (sx_fmt x PAD_SINK));
         one = (\<lambda>dt. (0, (upd_vc 0 (raw_vc dt) x0)\<lparr>vi_cnt := 1\<rparr>))
     in if code \<in> mbus_raw10 then one 0x2b
        else if code \<in> mbus_raw12 then one 0x2c
        else if code = MEDIA_BUS_FMT_YUYV8_2X8 then one 0x1e
        else (-1, x0))"

definition MTK_FRAME_DESC_ENTRY_MAX :: nat where "MTK_FRAME_DESC_ENTRY_MAX = 8"

text \<open>\<open>None\<close>: more entries are announced than the descriptor has room for.\<close>

definition mtk_cam_seninf_get_vcinfo :: "sensor_if \<Rightarrow> seninf_ctx \<Rightarrow> (int \<times> seninf_ctx) option" where
  "mtk_cam_seninf_get_vcinfo si x =
    (if \<not> sx_sensor x then Some (- EINVAL, x)
     else if \<not> si_desc_ctrl si then Some (- EINVAL, x)
     else if si_desc_ret si \<noteq> 0 \<or> \<not> si_desc_csi2 si \<or> si_desc_entries si = [] then Some (get_vcinfo_by_pad_fmt x)
     else if MTK_FRAME_DESC_ENTRY_MAX < length (si_desc_entries si) then None
     else Some (0, vs_ctx (fold (vc_step si) (si_desc_entries si)
                     \<lparr>vs_ctx = x\<lparr>vi_cnt := 0\<rparr>, vs_grp = 0, vs_raw_cnt = 0, vs_meta = None\<rparr>)))"

text \<open>The channels of the test patterns.\<close>

definition test_vc :: "u8 \<Rightarrow> VC_FEATURE \<Rightarrow> nat \<Rightarrow> seninf_vc \<Rightarrow> seninf_vc" where
  "test_vc dt f pad v = v\<lparr>vc_vc := 0, vc_dt := dt, vc_feature := f, vc_out_pad := pad, vc_group := 0\<rparr>"

definition mtk_cam_seninf_get_vcinfo_test :: "seninf_ctx \<Rightarrow> seninf_ctx" where
  "mtk_cam_seninf_get_vcinfo_test x =
    (let x0 = x\<lparr>vi_cnt := 0\<rparr>
     in if is_test_model x = 1 then (upd_vc 0 (test_vc 0x2b VC_RAW_DATA PAD_SRC_RAW0) x0)\<lparr>vi_cnt := 1\<rparr>
        else if is_test_model x = 2 then
          (upd_vc 2 (test_vc 0x2b VC_STAGGER_SE PAD_SRC_RAW2)
            (upd_vc 1 (test_vc 0x2b VC_STAGGER_ME PAD_SRC_RAW1)
              (upd_vc 0 (test_vc 0x2b VC_STAGGER_NE PAD_SRC_RAW0) x0)))\<lparr>vi_cnt := 3\<rparr>
        else if is_test_model x = 3 then
          (upd_vc 1 (test_vc 0x30 VC_PDAF_STATS PAD_SRC_PDAF0)
            (upd_vc 0 (test_vc 0x2b VC_RAW_DATA PAD_SRC_RAW0) x0))\<lparr>vi_cnt := 2\<rparr>
        else x0)"

definition mtk_cam_seninf_get_vc_by_pad :: "seninf_ctx \<Rightarrow> nat \<Rightarrow> nat option" where
  "mtk_cam_seninf_get_vc_by_pad x pad = find (\<lambda>i. vc_out_pad (vi_vc x ! i) = pad) [0 ..< vi_cnt x]"

definition mtk_cam_seninf_get_vc_feature :: "seninf_ctx \<Rightarrow> nat \<Rightarrow> VC_FEATURE" where
  "mtk_cam_seninf_get_vc_feature x pad =
    (case mtk_cam_seninf_get_vc_by_pad x pad of Some i \<Rightarrow> vc_feature (vi_vc x ! i) | None \<Rightarrow> VC_NONE)"

definition mtk_cam_seninf_is_vc_enabled :: "seninf_ctx \<Rightarrow> seninf_vc \<Rightarrow> bool" where
  "mtk_cam_seninf_is_vc_enabled x vc = True"

definition mtk_cam_seninf_is_di_enabled :: "seninf_ctx \<Rightarrow> u8 \<Rightarrow> u8 \<Rightarrow> bool" where
  "mtk_cam_seninf_is_di_enabled x ch dt =
    (case find (\<lambda>i. vc_vc (vi_vc x ! i) = ch \<and> vc_dt (vi_vc x ! i) = dt) [0 ..< vi_cnt x] of
       None \<Rightarrow> False
     | Some i \<Rightarrow> is_test_streamon x \<or> pad_linked x (vc_out_pad (vi_vc x ! i)))"

subsection \<open>Muxes\<close>

definition mtk_cam_seninf_init_res :: "seninf_core \<Rightarrow> seninf_core" where
  "mtk_cam_seninf_init_res s = s\<lparr>core_list_mux := [0 ..< mux_num s], core_list_cam_mux := [0 ..< cam_mux_num s]\<rparr>"

definition mtk_cam_seninf_mux_get :: "nat \<Rightarrow> seninf_core \<Rightarrow> nat option \<times> seninf_core" where
  "mtk_cam_seninf_mux_get c s =
    (case core_list_mux s of
       [] \<Rightarrow> (None, s)
     | m # ms \<Rightarrow> (Some m, upd_sx c (\<lambda>x. x\<lparr>sx_list_mux := sx_list_mux x @ [m]\<rparr>) (s\<lparr>core_list_mux := ms\<rparr>)))"

definition mtk_cam_seninf_mux_get_pref :: "nat \<Rightarrow> nat list \<Rightarrow> seninf_core \<Rightarrow> nat option \<times> seninf_core" where
  "mtk_cam_seninf_mux_get_pref c pref s =
    (case find (\<lambda>m. m \<in> set pref) (core_list_mux s) of
       Some m \<Rightarrow> (Some m, upd_sx c (\<lambda>x. x\<lparr>sx_list_mux := sx_list_mux x @ [m]\<rparr>)
                           (s\<lparr>core_list_mux := remove1 m (core_list_mux s)\<rparr>))
     | None \<Rightarrow> mtk_cam_seninf_mux_get c s)"

definition mtk_cam_seninf_mux_put :: "nat \<Rightarrow> nat \<Rightarrow> seninf_core \<Rightarrow> seninf_core" where
  "mtk_cam_seninf_mux_put c m s =
    upd_sx c (\<lambda>x. x\<lparr>sx_list_mux := remove1 m (sx_list_mux x)\<rparr>) (s\<lparr>core_list_mux := core_list_mux s @ [m]\<rparr>)"

definition mtk_cam_seninf_release_mux :: "nat \<Rightarrow> seninf_core \<Rightarrow> seninf_core" where
  "mtk_cam_seninf_release_mux c s = fold (mtk_cam_seninf_mux_put c) (sx_list_mux (sx s c)) s"

definition mtk_cam_seninf_release_cam_mux :: "nat \<Rightarrow> seninf_core \<Rightarrow> seninf_core" where
  "mtk_cam_seninf_release_cam_mux c s =
    upd_sx c (\<lambda>x. x\<lparr>sx_list_cam_mux := []\<rparr>)
      (s\<lparr>core_list_cam_mux := core_list_cam_mux s @ sx_list_cam_mux (sx s c)\<rparr>)"

definition alloc_cam_mux_step :: "nat \<Rightarrow> nat \<Rightarrow> seninf_core \<Rightarrow> seninf_core" where
  "alloc_cam_mux_step c i s =
    (case core_list_cam_mux s of
       [] \<Rightarrow> s
     | m # ms \<Rightarrow> upd_sx c (\<lambda>x. x\<lparr>sx_list_cam_mux := sx_list_cam_mux x @ [m],
                                pad2cam := (pad2cam x)(vc_out_pad (vi_vc x ! i) := int m)\<rparr>)
                  (s\<lparr>core_list_cam_mux := ms\<rparr>))"

definition mtk_cam_seninf_alloc_cam_mux :: "nat \<Rightarrow> seninf_core \<Rightarrow> seninf_core" where
  "mtk_cam_seninf_alloc_cam_mux c s = fold (alloc_cam_mux_step c) [0 ..< vi_cnt (sx s c)] s"

subsection \<open>Moving a pad to another cam mux\<close>

text \<open>The new cam mux of a pad: only while streaming, when it differs, is the hardware reprogrammed.\<close>

definition switch_cammux :: "nat \<Rightarrow> nat \<Rightarrow> int \<Rightarrow> bool \<Rightarrow> nat \<Rightarrow> seninf_core \<Rightarrow> seninf_core" where
  "switch_cammux c pad_id camtg disable_last i s =
    (let vc = vi_vc (sx s c) ! i; old = uint (vc_cam vc); m = unat (vc_mux vc);
         s1 = upd_sx c (upd_vc i (\<lambda>v. v\<lparr>vc_cam := word_of_int camtg\<rparr>)) s;
         new = uint (word_of_int camtg :: u8)
     in if camtg = 0xff then emit_op c [Op_inner_page True, Op_next_ctrl 0x1f old, Op_disable_cammux old] s1
        else emit_op c
          ([Op_inner_page True, Op_next_ctrl 0x1f new, Op_inner_page False,
            Op_cammux_vc new (vc_vc vc) (vc_dt vc) (vc_dt vc \<noteq> 0), Op_cammux_src m new (vc_exp_hsize vc) (vc_exp_vsize vc),
            Op_cammux_chk_pixel_mode new (vc_pixel_mode vc)]
           @ (if old \<noteq> 0xff \<and> disable_last then [Op_disable_cammux old] else [])
           @ [Op_cammux new, Op_inner_page True, Op_next_ctrl m new]
           @ (if old \<noteq> 0xff \<and> disable_last then [Op_next_ctrl m old] else [])
           @ (if pad_id = PAD_SRC_RAW0 then [Op_notify_fsync] else [])) s1)"

definition set_camtg :: "nat \<Rightarrow> int \<Rightarrow> int \<Rightarrow> bool \<Rightarrow> seninf_core \<Rightarrow> int \<times> seninf_core" where
  "set_camtg c pad_id camtg disable_last s =
    (if pad_id < int PAD_SRC_RAW0 \<or> pad_id \<ge> int PAD_MAXCNT then (- EINVAL, s) else
     (case mtk_cam_seninf_get_vc_by_pad (sx s c) (nat pad_id) of
        None \<Rightarrow> (- EINVAL, s)
      | Some i \<Rightarrow>
          let s1 = upd_sx c (\<lambda>x. x\<lparr>pad2cam := (pad2cam x)(nat pad_id := camtg)\<rparr>) s;
              vc = vi_vc (sx s1 c) ! i
          in if sx_streaming (sx s1 c) \<and> mtk_cam_seninf_is_vc_enabled (sx s1 c) vc \<and> uint (vc_cam vc) \<noteq> camtg
             then (0, switch_cammux c (nat pad_id) camtg disable_last i s1)
             else (0, s1)))"

definition mtk_cam_seninf_set_camtg :: "nat \<Rightarrow> int \<Rightarrow> int \<Rightarrow> seninf_core \<Rightarrow> int \<times> seninf_core" where
  "mtk_cam_seninf_set_camtg c pad_id camtg s = set_camtg c pad_id camtg True s"

text \<open>A change of several pads at once; a setting is the context, the pad and the cam mux.\<close>

definition mtk_cam_seninf_streaming_mux_change :: "(nat \<times> int \<times> int) list \<Rightarrow> seninf_core \<Rightarrow> bool \<times> seninf_core" where
  "mtk_cam_seninf_streaming_mux_change settings s =
    (True, case settings of
             [] \<Rightarrow> s
           | [(c, pad, camtg)] \<Rightarrow> snd (set_camtg c pad camtg True s)
           | (c, pad, camtg) # _ \<Rightarrow>
               fold (\<lambda>(c, pad, camtg) s. snd (set_camtg c pad camtg False s)) (take 3 settings)
                 (emit_op c [Op_reset_dyn_en] s))"

definition mtk_cam_seninf_get_raw_cam_info :: "seninf_ctx \<Rightarrow> int" where
  "mtk_cam_seninf_get_raw_cam_info x =
    (case mtk_cam_seninf_get_vc_by_pad x PAD_SRC_RAW0 of Some i \<Rightarrow> uint (vc_cam (vi_vc x ! i)) | None \<Rightarrow> -1)"

definition notify_fsync_cammux_usage :: "sensor_if \<Rightarrow> nat \<Rightarrow> seninf_core \<Rightarrow> int \<times> seninf_core" where
  "notify_fsync_cammux_usage si c s =
    (let cam = mtk_cam_seninf_get_raw_cam_info (sx s c)
     in if cam < 0 then (- EINVAL, s)
        else if \<not> si_fsync_ctrl si then (- EINVAL, s)
        else (0, emit_op c [Op_fsync_map cam] s))"

end
