(* ===== verification/SeninfDrv.thy ===== *)
theory SeninfDrv
  imports RawCtrl SeninfRoute
begin

text \<open>
  The sub-device of a sensor port (\<open>mtk_cam-seninf-drv.c\<close>): clock level, configuration of the
  muxes, stream on and off, test patterns, formats, links, open, close and remove, all over the
  state of \<open>SeninfRoute\<close>. The error counters, the efuse and the secure mode are left out.
\<close>

unbundle bit_operations_syntax

subsection \<open>Clock level\<close>

definition SENINF_CLK_MARGIN_IN_PERCENT :: u64 where "SENINF_CLK_MARGIN_IN_PERCENT = 5"

text \<open>
  The level all ports together require. \<open>isp_freq\<close> is an \<open>int\<close>; the comparisons are made on
  \<open>unsigned long\<close>.
\<close>

definition dfs_require :: "seninf_core \<Rightarrow> u64" where
  "dfs_require s = fold (\<lambda>c r. if scast (isp_freq (sx s c)) > r then scast (isp_freq (sx s c)) else r) [0 ..< core_num s] 0"

definition seninf_dfs_set :: "nat \<Rightarrow> u64 \<Rightarrow> seninf_core \<Rightarrow> int \<times> seninf_core" where
  "seninf_dfs_set c freq s =
    (if dfs_freqs s = [] then (0, s) else
     let s1 = upd_sx c (\<lambda>x. x\<lparr>isp_freq := ucast freq\<rparr>) s
     in case find (\<lambda>i. dfs_freqs s ! i \<ge> dfs_require s1) [0 ..< length (dfs_freqs s)] of
          None \<Rightarrow> (- EINVAL, s)
        | Some i \<Rightarrow> (0, emit_op c [Op_voltage (dfs_volts s ! i) (dfs_volts s ! (length (dfs_freqs s) - 1))] s1))"

definition isp_pixel_rate :: "seninf_ctx \<Rightarrow> u64 option" where
  "isp_pixel_rate x =
    (if customized_pixel_rate x \<noteq> 0 then Some (customized_pixel_rate x)
     else if buffered_pixel_rate x \<noteq> 0 then Some (buffered_pixel_rate x)
     else if mipi_pixel_rate x \<noteq> 0 then Some (mipi_pixel_rate x) else None)"

text \<open>The rate a level carries, with the margin, for a number of pixels a clock.\<close>

definition dfs_throughput :: "u64 \<Rightarrow> u8 \<Rightarrow> u64" where
  "dfs_throughput freq pixelmode =
    push_bit (unat pixelmode) (freq * (100 - SENINF_CLK_MARGIN_IN_PERCENT) div 100)"

definition update_isp_clk :: "nat \<Rightarrow> seninf_core \<Rightarrow> int \<times> seninf_core" where
  "update_isp_clk c s =
    (if dfs_freqs s = [] then (0, s) else
     (case mtk_cam_seninf_get_vc_by_pad (sx s c) PAD_SRC_RAW0 of
        None \<Rightarrow> (-1, s)
      | Some i \<Rightarrow>
          (case isp_pixel_rate (sx s c) of
             None \<Rightarrow> (- EINVAL, s)
           | Some rate \<Rightarrow>
               (case find (\<lambda>f. sint rate \<le> sint (dfs_throughput f (vc_pixel_mode (vi_vc (sx s c) ! i)))) (dfs_freqs s) of
                  None \<Rightarrow> (- EINVAL, s)
                | Some f \<Rightarrow> seninf_dfs_set c f s))))"

subsection \<open>Pixel mode\<close>

definition mtk_cam_seninf_get_pixelmode :: "seninf_ctx \<Rightarrow> nat \<Rightarrow> u8 option" where
  "mtk_cam_seninf_get_pixelmode x pad = map_option (\<lambda>i. vc_pixel_mode (vi_vc x ! i)) (mtk_cam_seninf_get_vc_by_pad x pad)"

definition mtk_cam_seninf_set_pixelmode :: "nat \<Rightarrow> nat \<Rightarrow> u8 \<Rightarrow> seninf_core \<Rightarrow> int \<times> seninf_core" where
  "mtk_cam_seninf_set_pixelmode c pad pixelMode s =
    (case mtk_cam_seninf_get_vc_by_pad (sx s c) pad of
       None \<Rightarrow> (-1, s)
     | Some i \<Rightarrow>
         let s1 = upd_sx c (upd_vc i (\<lambda>v. v\<lparr>vc_pixel_mode := pixelMode\<rparr>)) s
         in if sx_streaming (sx s1 c)
            then (0, emit_op c [Op_update_mux_pixel_mode (unat (vc_mux (vi_vc (sx s1 c) ! i))) pixelMode]
                       (snd (update_isp_clk c s1)))
            else (0, s1))"

subsection \<open>Configuring the muxes\<close>

definition MIPI_SENSOR :: nat where "MIPI_SENSOR = 8"

text \<open>One channel gets its mux; a mux that another channel of the group has already is not set up again.\<close>

definition config_vc :: "nat \<Rightarrow> nat \<Rightarrow> nat \<Rightarrow> bool \<Rightarrow> seninf_core \<Rightarrow> seninf_core" where
  "config_vc c i m skip_mux_ctrl s =
    (let x = sx s c; vc = vi_vc x ! i; cam = uint (word_of_int (pad2cam x (vc_out_pad vc)) :: u8); mx = unat (of_nat m :: u8);
         s1 = upd_sx c (upd_vc i (\<lambda>v. v\<lparr>vc_mux := of_nat m, vc_cam := word_of_int (pad2cam x (vc_out_pad vc))\<rparr>)) s
     in emit_op c
          ((if skip_mux_ctrl then []
            else [Op_mux mx, Op_set_mux_ctrl mx (MIPI_SENSOR + unat (vc_group vc)) (vc_pixel_mode vc),
                  Op_set_top_mux_ctrl mx (seninfIdx x)])
           @ (if cam \<noteq> 0xff then
                [Op_cammux_vc cam (vc_vc vc) (vc_dt vc) (vc_dt vc \<noteq> 0), Op_cammux_src mx cam (vc_exp_hsize vc) (vc_exp_vsize vc),
                 Op_cammux_chk_pixel_mode cam (vc_pixel_mode vc), Op_cammux cam]
              else [])) s1)"

text \<open>
  The loop. \<open>g\<close> is the array of the muxes by group, which has eight entries; \<open>None\<close>: a group
  outside it.
\<close>

fun config_vcs :: "nat \<Rightarrow> nat list \<Rightarrow> (nat \<Rightarrow> nat option) \<Rightarrow> seninf_core \<Rightarrow> (int \<times> seninf_core) option" where
  "config_vcs c [] g s = Some (0, s)"
| "config_vcs c (i # is) g s =
    (let en = mtk_cam_seninf_is_vc_enabled (sx s c) (vi_vc (sx s c) ! i);
         s0 = upd_sx c (upd_vc i (\<lambda>v. v\<lparr>vc_enable := en\<rparr>)) s;
         grp = unat (vc_group (vi_vc (sx s0 c) ! i))
     in if \<not> en then config_vcs c is g s0
        else if SENINF_VC_MAXCNT \<le> grp then None
        else (case g grp of
                Some m \<Rightarrow> config_vcs c is g (config_vc c i m True s0)
              | None \<Rightarrow>
                  (case mtk_cam_seninf_mux_get_pref c [0 ..< pref_mux_num s0] s0 of
                     (None, s1) \<Rightarrow> Some (- EBUSY, mtk_cam_seninf_release_mux c s1)
                   | (Some m, s1) \<Rightarrow> config_vcs c is (g(grp := Some m)) (config_vc c i m False s1))))"

definition config_hw :: "nat \<Rightarrow> seninf_core \<Rightarrow> (int \<times> seninf_core) option" where
  "config_hw c s =
    config_vcs c [0 ..< vi_cnt (sx s c)] (\<lambda>_. None)
      (emit_op c [Op_reset (seninfIdx (sx s c)), Op_set_vc (seninfIdx (sx s c)), Op_set_csi_mipi] s)"

text \<open>\<open>_set_idle\<close> of the hardware layer (\<open>mtk_cam_seninf_set_idle\<close>).\<close>

definition set_idle_vc :: "nat \<Rightarrow> nat \<Rightarrow> seninf_core \<Rightarrow> seninf_core" where
  "set_idle_vc c i s =
    (let vc = vi_vc (sx s c) ! i
     in if vc_enable vc
        then upd_sx c (\<lambda>x. x\<lparr>pad2cam := (pad2cam x)(vc_out_pad vc := 0xff)\<rparr>)
               (emit_op c [Op_disable_mux (unat (vc_mux vc)), Op_disable_cammux (uint (vc_cam vc))] s)
        else s)"

definition mtk_cam_seninf_set_idle :: "nat \<Rightarrow> seninf_core \<Rightarrow> seninf_core" where
  "mtk_cam_seninf_set_idle c s = fold (set_idle_vc c) [0 ..< vi_cnt (sx s c)] s"

subsection \<open>Test patterns\<close>

definition test_pads :: "nat \<Rightarrow> nat list option" where
  "test_pads model =
    (if model = 1 then Some [PAD_SRC_RAW0]
     else if model = 2 then Some [PAD_SRC_RAW0, PAD_SRC_RAW1, PAD_SRC_RAW2]
     else if model = 3 then Some [PAD_SRC_RAW0, PAD_SRC_PDAF0] else None)"

text \<open>The muxes are taken one by one; when they run out those taken are kept.\<close>

fun test_muxes :: "nat \<Rightarrow> nat list \<Rightarrow> seninf_core \<Rightarrow> int \<times> seninf_core" where
  "test_muxes c [] s = (0, s)"
| "test_muxes c (i # is) s =
    (case mtk_cam_seninf_mux_get_pref c [0, 1, 2, 3, 4] s of
       (None, s1) \<Rightarrow> (- EBUSY, s1)
     | (Some m, s1) \<Rightarrow>
         let x = sx s1 c; cam = word_of_int (pad2cam x (vc_out_pad (vi_vc x ! i))) :: u8;
             s2 = upd_sx c (upd_vc i (\<lambda>v. v\<lparr>vc_mux := of_nat m, vc_cam := cam, vc_enable := True\<rparr>)) s1
         in test_muxes c is
              (emit_op c [Op_test_model (unat (of_nat m :: u8)) (uint cam) (vc_pixel_mode (vi_vc x ! i))] s2))"

definition test_model_on :: "nat \<Rightarrow> nat list \<Rightarrow> seninf_core \<Rightarrow> int \<times> seninf_core" where
  "test_model_on c is s =
    (let s1 = upd_sx c (\<lambda>x. x\<lparr>sx_pm_users := sx_pm_users x + 1\<rparr>) s;
         s2 = (if camtm_clk s1 then s1\<lparr>camtm_users := camtm_users s1 + 1\<rparr> else s1);
         s3 = (if dfs_freqs s2 \<noteq> [] then snd (seninf_dfs_set c (last (dfs_freqs s2)) s2) else s2)
     in test_muxes c is s3)"

definition test_model_off :: "nat \<Rightarrow> seninf_core \<Rightarrow> seninf_core" where
  "test_model_off c s =
    (let s1 = mtk_cam_seninf_release_mux c (mtk_cam_seninf_set_idle c s);
         s2 = (if dfs_freqs s1 \<noteq> [] then snd (seninf_dfs_set c 0 s1) else s1);
         s3 = (if camtm_clk s2 then s2\<lparr>camtm_users := camtm_users s2 - 1\<rparr> else s2)
     in upd_sx c (\<lambda>x. x\<lparr>sx_pm_users := sx_pm_users x - 1\<rparr>) s3)"

definition set_test_model :: "nat \<Rightarrow> bool \<Rightarrow> seninf_core \<Rightarrow> int \<times> seninf_core" where
  "set_test_model c enable s =
    (case test_pads (is_test_model (sx s c)) of
       None \<Rightarrow> (-1, s)
     | Some pads \<Rightarrow>
         let vcs = map (mtk_cam_seninf_get_vc_by_pad (sx s c)) pads;
             (ret, s1) = (if enable then test_model_on c (map the vcs) s else (0, test_model_off c s))
         in if None \<in> set vcs then (-1, s)
            else if ret \<noteq> 0 then (ret, s1)
            else (0, upd_sx c (\<lambda>x. x\<lparr>sx_streaming := enable\<rparr>) s1))"

subsection \<open>Stream on and off\<close>

definition get_mbus_config :: "sensor_if \<Rightarrow> seninf_ctx \<Rightarrow> int \<times> seninf_ctx" where
  "get_mbus_config si x =
    (case si_mbus si of
       None \<Rightarrow> (-1, x)
     | Some (cphy, flags) \<Rightarrow>
         let x1 = x\<lparr>is_cphy := cphy\<rparr>
         in (0, case find (\<lambda>n. bit flags n) [0, 1, 2, 3] of Some n \<Rightarrow> x1\<lparr>num_data_lanes := n + 1\<rparr> | None \<Rightarrow> x1))"

text \<open>The rate a line needs when the blanking is buffered; \<open>None\<close>: a division by zero.\<close>

definition get_buffered_pixel_rate :: "sensor_if \<Rightarrow> seninf_ctx \<Rightarrow> u64 \<Rightarrow> (int \<times> u64 \<times> seninf_ctx) option" where
  "get_buffered_pixel_rate si x rate =
    (case (si_fmt si, si_interval si, si_hblank si, si_vblank si) of
       (Some (_, width, height), Some (num, den), Some hblank, Some vblank) \<Rightarrow>
         map_option (\<lambda>r. (0, r, x\<lparr>fps_n := den, fps_d := num\<rparr>))
           (calc_buffered_pixel_rate (ucast width) (ucast height) (scast hblank) (scast vblank) den num rate)
     | _ \<Rightarrow> Some (- EINVAL, rate, x))"

text \<open>The rates are read in this order; a query that fails leaves the field.\<close>

definition read_rates :: "sensor_if \<Rightarrow> seninf_ctx \<Rightarrow> seninf_ctx option" where
  "read_rates si x =
    (let x1 = (case si_pixel_rate si of Some r \<Rightarrow> x\<lparr>mipi_pixel_rate := r\<rparr> | None \<Rightarrow> x)
     in do {
          (_, r, x2) \<leftarrow> get_buffered_pixel_rate si x1 (mipi_pixel_rate x1);
          let x3 = x2\<lparr>buffered_pixel_rate := r\<rparr>;
          Some (case si_cust_rate si of Some v \<Rightarrow> x3\<lparr>customized_pixel_rate := scast v\<rparr> | None \<Rightarrow> x3)
        })"

definition stream_on_port :: "sensor_if \<Rightarrow> nat \<Rightarrow> seninf_core \<Rightarrow> (int \<times> seninf_core) option" where
  "stream_on_port si c s =
    do {
      x \<leftarrow> read_rates si (snd (get_mbus_config si (sx s c)));
      let s1 = upd_sx c (\<lambda>_. x) s;
      if si_pm_get si < 0 then Some (si_pm_get si, s1)
      else do {
        let s2 = snd (update_isp_clk c (upd_sx c (\<lambda>x. x\<lparr>sx_pm_users := sx_pm_users x + 1\<rparr>) s1));
        (ret, s3) \<leftarrow> config_hw c s2;
        if ret \<noteq> 0 then Some (ret, s3)
        else do {
          let s4 = emit_op c [Op_sensor_stream True] (snd (notify_fsync_cammux_usage si c s3));
          if si_s_stream si True \<noteq> 0 then Some (si_s_stream si True, s4)
          else Some (0, upd_sx c (\<lambda>x. x\<lparr>sx_streaming := True\<rparr>) s4)
        }
      }
    }"

definition stream_off_port :: "sensor_if \<Rightarrow> nat \<Rightarrow> seninf_core \<Rightarrow> int \<times> seninf_core" where
  "stream_off_port si c s =
    (let s1 = emit_op c [Op_sensor_stream False] s
     in if si_s_stream si False \<noteq> 0 then (si_s_stream si False, s1) else
        let s2 = mtk_cam_seninf_release_mux c (mtk_cam_seninf_set_idle c s1);
            s3 = emit_op c [Op_poweroff] (snd (seninf_dfs_set c 0 s2))
        in (0, upd_sx c (\<lambda>x. x\<lparr>sx_pm_users := sx_pm_users x - 1, sx_streaming := False\<rparr>) s3))"

definition seninf_s_stream :: "sensor_if \<Rightarrow> nat \<Rightarrow> bool \<Rightarrow> seninf_core \<Rightarrow> (int \<times> seninf_core) option" where
  "seninf_s_stream si c enable s =
    (if sx_streaming (sx s c) = enable then Some (0, s)
     else if is_test_model (sx s c) \<noteq> 0 then Some (set_test_model c enable s)
     else if \<not> sx_sensor (sx s c) then Some (- EFAULT, s)
     else if enable then stream_on_port si c s
     else Some (stream_off_port si c s))"

subsection \<open>Controls, formats, links, open and close\<close>

definition seninf_test_pattern :: "sensor_if \<Rightarrow> nat \<Rightarrow> nat \<Rightarrow> seninf_core \<Rightarrow> (int \<times> seninf_core) option" where
  "seninf_test_pattern si c pattern s =
    (if pattern = 0 then
       (if sx_streaming (sx s c) then Some (- EBUSY, s)
        else map_option (\<lambda>(_, x). (0, upd_sx c (\<lambda>_. x) s)) (mtk_cam_seninf_get_vcinfo si ((sx s c)\<lparr>is_test_model := 0\<rparr>)))
     else if pattern \<in> {1, 2, 3} then
       (if sx_streaming (sx s c) then Some (- EBUSY, s)
        else Some (0, upd_sx c (\<lambda>x. mtk_cam_seninf_get_vcinfo_test (x\<lparr>is_test_model := pattern\<rparr>)) s))
     else Some (0, s))"

definition seninf_test_streamon :: "sensor_if \<Rightarrow> nat \<Rightarrow> bool \<Rightarrow> seninf_core \<Rightarrow> seninf_core option" where
  "seninf_test_streamon si c en s =
    (if en then
       map_option snd (seninf_s_stream si c True
         (mtk_cam_seninf_alloc_cam_mux c (upd_sx c (\<lambda>x. x\<lparr>is_test_streamon := True\<rparr>) s)))
     else
       map_option (\<lambda>(_, s1). upd_sx c (\<lambda>x. x\<lparr>is_test_streamon := False\<rparr>) (mtk_cam_seninf_release_cam_mux c s1))
         (seninf_s_stream si c False s))"

definition init_fmt :: "seninf_ctx \<Rightarrow> seninf_ctx" where
  "init_fmt x =
    x\<lparr>sx_fmt := (\<lambda>_. \<lparr>sf_code = MEDIA_BUS_FMT_SBGGR10_1X10, sf_width = 1600, sf_height = 1200\<rparr>),
      vi_vc := map (\<lambda>v. v\<lparr>vc_pixel_mode := SENINF_DEF_PIXEL_MODE\<rparr>) (vi_vc x)\<rparr>"

text \<open>\<open>try\<close>: the format goes to the file handle's state, not to the port.\<close>

definition mtk_cam_seninf_set_fmt ::
  "sensor_if \<Rightarrow> nat \<Rightarrow> int \<Rightarrow> bool \<Rightarrow> seninf_fmt \<Rightarrow> seninf_core \<Rightarrow> (int \<times> seninf_core) option" where
  "mtk_cam_seninf_set_fmt si c pad try f s =
    (if pad < int PAD_SINK \<or> pad \<ge> int PAD_MAXCNT then Some (- EINVAL, s)
     else if try then Some (0, s)
     else
       let s1 = upd_sx c (\<lambda>x. x\<lparr>sx_fmt := (sx_fmt x)(nat pad := f)\<rparr>) s
       in if nat pad = PAD_SINK \<and> is_test_model (sx s1 c) = 0
          then map_option (\<lambda>(_, x). (0, upd_sx c (\<lambda>_. x) s1)) (mtk_cam_seninf_get_vcinfo si (sx s1 c))
          else Some (0, s1))"

definition mtk_cam_seninf_get_fmt :: "seninf_ctx \<Rightarrow> int \<Rightarrow> seninf_fmt option" where
  "mtk_cam_seninf_get_fmt x pad = (if pad < int PAD_SINK \<or> pad \<ge> int PAD_MAXCNT then None else Some (sx_fmt x (nat pad)))"

definition seninf_link_setup :: "sensor_if \<Rightarrow> nat \<Rightarrow> bool \<Rightarrow> bool \<Rightarrow> seninf_core \<Rightarrow> seninf_core option" where
  "seninf_link_setup si c source enabled s =
    (if source \<or> \<not> enabled then Some s
     else map_option (\<lambda>(_, x). upd_sx c (\<lambda>_. x) s) (mtk_cam_seninf_get_vcinfo si ((sx s c)\<lparr>sx_sensor := True\<rparr>)))"

definition seninf_open :: "nat \<Rightarrow> seninf_core \<Rightarrow> seninf_core" where
  "seninf_open c s = upd_sx c (\<lambda>x. x\<lparr>sx_open_refcnt := sx_open_refcnt x + 1\<rparr>) s"

definition seninf_close :: "sensor_if \<Rightarrow> nat \<Rightarrow> seninf_core \<Rightarrow> seninf_core option" where
  "seninf_close si c s =
    (let s1 = upd_sx c (\<lambda>x. x\<lparr>sx_open_refcnt := sx_open_refcnt x - 1\<rparr>) s
     in if sx_open_refcnt (sx s1 c) = 0 then
          (if is_test_streamon (sx s1 c) then seninf_test_streamon si c False s1
           else if sx_streaming (sx s1 c) then map_option snd (seninf_s_stream si c False s1)
           else Some s1)
        else Some s1)"

definition seninf_remove :: "nat \<Rightarrow> seninf_core \<Rightarrow> seninf_core" where
  "seninf_remove c s = (if sx_streaming (sx s c) then mtk_cam_seninf_release_mux c (mtk_cam_seninf_set_idle c s) else s)"

text \<open>Every call, from the media framework, the controls, camsys and the device core.\<close>

datatype seninf_call =
    Sc_stream sensor_if nat bool | Sc_test_pattern sensor_if nat nat | Sc_test_streamon sensor_if nat bool
  | Sc_set_fmt sensor_if nat int bool seninf_fmt | Sc_link sensor_if nat bool bool | Sc_open nat | Sc_close sensor_if nat
  | Sc_camtg nat int int | Sc_mux_change "(nat \<times> int \<times> int) list" | Sc_pixelmode nat nat u8 | Sc_remove nat

fun seninf_run :: "seninf_call \<Rightarrow> seninf_core \<Rightarrow> seninf_core option" where
  "seninf_run (Sc_stream si c en) s = map_option snd (seninf_s_stream si c en s)"
| "seninf_run (Sc_test_pattern si c n) s = map_option snd (seninf_test_pattern si c n s)"
| "seninf_run (Sc_test_streamon si c en) s = seninf_test_streamon si c en s"
| "seninf_run (Sc_set_fmt si c pad try f) s = map_option snd (mtk_cam_seninf_set_fmt si c pad try f s)"
| "seninf_run (Sc_link si c source enabled) s = seninf_link_setup si c source enabled s"
| "seninf_run (Sc_open c) s = Some (seninf_open c s)"
| "seninf_run (Sc_close si c) s = seninf_close si c s"
| "seninf_run (Sc_camtg c pad camtg) s = Some (snd (mtk_cam_seninf_set_camtg c pad camtg s))"
| "seninf_run (Sc_mux_change settings) s = Some (snd (mtk_cam_seninf_streaming_mux_change settings s))"
| "seninf_run (Sc_pixelmode c pad m) s = Some (snd (mtk_cam_seninf_set_pixelmode c pad m s))"
| "seninf_run (Sc_remove c) s = Some (seninf_remove c s)"

end
