(* ===== verification/SeninfProps.thy ===== *)
theory SeninfProps
  imports SeninfDrv
begin

text \<open>
  What holds of the sensor interface: in every order of calls each mux is on exactly one list and
  every channel's group is in range, so that configuring a port never leaves its array; a port is
  configured with one mux for each group, or not at all; and the ways in which muxes stay taken
  or stay enabled.
\<close>

unbundle bit_operations_syntax

subsection \<open>Fields\<close>

lemma upd_sx_fields [simp]:
  "core_ctxs (upd_sx c f s) = (core_ctxs s)(c := f (core_ctxs s c))"
  "core_list_mux (upd_sx c f s) = core_list_mux s" "core_list_cam_mux (upd_sx c f s) = core_list_cam_mux s"
  "core_num (upd_sx c f s) = core_num s" "mux_num (upd_sx c f s) = mux_num s" "cam_mux_num (upd_sx c f s) = cam_mux_num s"
  "pref_mux_num (upd_sx c f s) = pref_mux_num s" "dfs_freqs (upd_sx c f s) = dfs_freqs s"
  "dfs_volts (upd_sx c f s) = dfs_volts s" "camtm_clk (upd_sx c f s) = camtm_clk s"
  "camtm_users (upd_sx c f s) = camtm_users s" "core_ops (upd_sx c f s) = core_ops s"
  by (simp_all add: upd_sx_def)

lemma emit_op_fields [simp]:
  "core_ctxs (emit_op c ops s) = core_ctxs s" "core_list_mux (emit_op c ops s) = core_list_mux s"
  "core_list_cam_mux (emit_op c ops s) = core_list_cam_mux s" "core_num (emit_op c ops s) = core_num s"
  "mux_num (emit_op c ops s) = mux_num s" "cam_mux_num (emit_op c ops s) = cam_mux_num s"
  "pref_mux_num (emit_op c ops s) = pref_mux_num s" "dfs_freqs (emit_op c ops s) = dfs_freqs s"
  "dfs_volts (emit_op c ops s) = dfs_volts s" "camtm_clk (emit_op c ops s) = camtm_clk s"
  "camtm_users (emit_op c ops s) = camtm_users s" "core_ops (emit_op c ops s) = (core_ops s)(c := core_ops s c @ ops)"
  by (simp_all add: emit_op_def)

lemma upd_vc_fields [simp]:
  "vi_vc (upd_vc i f x) = (vi_vc x)[i := f (vi_vc x ! i)]" "vi_cnt (upd_vc i f x) = vi_cnt x"
  "sx_list_mux (upd_vc i f x) = sx_list_mux x" "sx_list_cam_mux (upd_vc i f x) = sx_list_cam_mux x"
  "pad2cam (upd_vc i f x) = pad2cam x" "sx_streaming (upd_vc i f x) = sx_streaming x"
  "sx_fmt (upd_vc i f x) = sx_fmt x" "is_test_model (upd_vc i f x) = is_test_model x"
  "sx_pm_users (upd_vc i f x) = sx_pm_users x" "seninfIdx (upd_vc i f x) = seninfIdx x"
  by (simp_all add: upd_vc_def)

subsection \<open>Each mux on one list\<close>

definition owned_muxes :: "seninf_core \<Rightarrow> nat multiset" where
  "owned_muxes s = mset (core_list_mux s) + (\<Sum>c < core_num s. mset (sx_list_mux (sx s c)))"

definition ctx_ok :: "seninf_ctx \<Rightarrow> bool" where
  "ctx_ok x \<longleftrightarrow> length (vi_vc x) = SENINF_VC_MAXCNT \<and> vi_cnt x \<le> SENINF_VC_MAXCNT
    \<and> (\<forall>v \<in> set (vi_vc x). unat (vc_group v) < SENINF_VC_MAXCNT)"

definition seninf_ok :: "seninf_core \<Rightarrow> bool" where
  "seninf_ok s \<longleftrightarrow> owned_muxes s = mset [0 ..< mux_num s] \<and> (\<forall>c < core_num s. ctx_ok (sx s c))"

text \<open>What every operation does to the ownership.\<close>

definition evolves :: "seninf_core \<Rightarrow> seninf_core \<Rightarrow> bool" where
  "evolves s t \<longleftrightarrow> owned_muxes t = owned_muxes s \<and> core_num t = core_num s \<and> mux_num t = mux_num s
    \<and> (\<forall>d. ctx_ok (sx s d) \<longrightarrow> ctx_ok (sx t d))"

lemma evolves_refl [simp, intro]: "evolves s s"
  by (simp add: evolves_def)

lemma evolves_trans: "evolves s t \<Longrightarrow> evolves t u \<Longrightarrow> evolves s u"
  by (simp add: evolves_def)

lemma evolves_ok: "evolves s t \<Longrightarrow> seninf_ok s \<Longrightarrow> seninf_ok t"
  by (simp add: evolves_def seninf_ok_def)

lemma evolves_num: "evolves s t \<Longrightarrow> core_num t = core_num s"
  by (simp add: evolves_def)

lemma evolves_upd:
  assumes "sx_list_mux (f (sx s c)) = sx_list_mux (sx s c)" and "ctx_ok (sx s c) \<Longrightarrow> ctx_ok (f (sx s c))"
  shows "evolves s (upd_sx c f s)"
proof -
  have "sx_list_mux (sx (upd_sx c f s) d) = sx_list_mux (sx s d)" for d using assms(1) by simp
  then show ?thesis using assms(2) by (auto simp: evolves_def owned_muxes_def)
qed

lemma evolves_emit [simp, intro]: "evolves s (emit_op c ops s)"
  by (simp add: evolves_def owned_muxes_def)

lemma owned_move:
  assumes "c < core_num s"
    and "mset L + mset (sx_list_mux (f (sx s c))) = mset (core_list_mux s) + mset (sx_list_mux (sx s c))"
  shows "owned_muxes (upd_sx c f (s\<lparr>core_list_mux := L\<rparr>)) = owned_muxes s"
proof -
  have split: "(\<Sum>d < core_num s. h d) = h c + (\<Sum>d \<in> {..< core_num s} - {c}. h d)" for h :: "nat \<Rightarrow> nat multiset"
    using assms(1) by (intro sum.remove) auto
  have same: "(\<Sum>d \<in> {..< core_num s} - {c}. mset (sx_list_mux (if d = c then f (sx s c) else sx s d)))
      = (\<Sum>d \<in> {..< core_num s} - {c}. mset (sx_list_mux (sx s d)))"
    by (rule sum.cong) auto
  show ?thesis
    using assms(2) by (simp add: owned_muxes_def split fun_upd_apply same add.assoc[symmetric] add.commute)
qed

lemma evolves_move:
  assumes "c < core_num s"
    and "mset L + mset (sx_list_mux (f (sx s c))) = mset (core_list_mux s) + mset (sx_list_mux (sx s c))"
    and "ctx_ok (sx s c) \<Longrightarrow> ctx_ok (f (sx s c))"
  shows "evolves s (upd_sx c f (s\<lparr>core_list_mux := L\<rparr>))"
  using owned_move[of c s L f] assms by (simp add: evolves_def)

lemma ctx_ok_simps [simp]:
  "ctx_ok (x\<lparr>sx_list_mux := L\<rparr>) = ctx_ok x" "ctx_ok (x\<lparr>sx_list_cam_mux := L\<rparr>) = ctx_ok x"
  "ctx_ok (x\<lparr>pad2cam := p\<rparr>) = ctx_ok x" "ctx_ok (x\<lparr>sx_streaming := b\<rparr>) = ctx_ok x"
  "ctx_ok (x\<lparr>sx_fmt := fm\<rparr>) = ctx_ok x" "ctx_ok (x\<lparr>is_test_model := n\<rparr>) = ctx_ok x"
  "ctx_ok (x\<lparr>is_test_streamon := b\<rparr>) = ctx_ok x" "ctx_ok (x\<lparr>sx_sensor := b\<rparr>) = ctx_ok x"
  "ctx_ok (x\<lparr>isp_freq := r\<rparr>) = ctx_ok x" "ctx_ok (x\<lparr>sx_pm_users := k\<rparr>) = ctx_ok x"
  "ctx_ok (x\<lparr>sx_open_refcnt := k\<rparr>) = ctx_ok x" "ctx_ok (x\<lparr>is_cphy := b\<rparr>) = ctx_ok x"
  "ctx_ok (x\<lparr>num_data_lanes := n\<rparr>) = ctx_ok x" "ctx_ok (x\<lparr>mipi_pixel_rate := q\<rparr>) = ctx_ok x"
  "ctx_ok (x\<lparr>buffered_pixel_rate := q\<rparr>) = ctx_ok x" "ctx_ok (x\<lparr>customized_pixel_rate := q\<rparr>) = ctx_ok x"
  "ctx_ok (x\<lparr>fps_n := r\<rparr>) = ctx_ok x" "ctx_ok (x\<lparr>fps_d := r\<rparr>) = ctx_ok x"
  by (simp_all add: ctx_ok_def)

lemma ctx_ok_upd_vc:
  assumes "ctx_ok x" and "i < SENINF_VC_MAXCNT \<Longrightarrow> unat (vc_group (f (vi_vc x ! i))) < SENINF_VC_MAXCNT"
  shows "ctx_ok (upd_vc i f x)"
proof (cases "i < length (vi_vc x)")
  case True
  then show ?thesis using assms by (auto simp: ctx_ok_def dest!: set_update_subset_insert[THEN subsetD])
next
  case False
  then show ?thesis using assms(1) by (simp add: ctx_ok_def list_update_beyond)
qed

lemma ctx_ok_keep_group:
  assumes "ctx_ok x" and "\<And>v. vc_group (f v) = vc_group v"
  shows "ctx_ok (upd_vc i f x)"
  using assms by (intro ctx_ok_upd_vc) (auto simp: ctx_ok_def)

subsection \<open>Every operation keeps the ownership\<close>

lemma evolves_fold:
  assumes "\<And>x s. core_num s = n \<Longrightarrow> evolves s (f x s)" and "core_num s = n"
  shows "evolves s (fold f xs s)"
  using assms(2)
proof (induction xs arbitrary: s)
  case (Cons x xs)
  have e: "evolves s (f x s)" using assms(1) Cons.prems by blast
  then have "evolves (f x s) (fold f xs (f x s))" using Cons.IH Cons.prems evolves_num by metis
  with e show ?case by (simp add: evolves_trans)
qed simp

text \<open>Taking a mux: either one of the free ones moves to the port, or there is none.\<close>

lemma get_pref_cases:
  assumes "mtk_cam_seninf_mux_get_pref c pref s = (r, t)"
  obtains (none) "r = None" "core_list_mux s = []" "t = s"
  | (some) m where "r = Some m" "m \<in> set (core_list_mux s)"
      "t = upd_sx c (\<lambda>x. x\<lparr>sx_list_mux := sx_list_mux x @ [m]\<rparr>) (s\<lparr>core_list_mux := remove1 m (core_list_mux s)\<rparr>)"
proof (cases "find (\<lambda>m. m \<in> set pref) (core_list_mux s)")
  case (Some m)
  then have "m \<in> set (core_list_mux s)" by (auto simp: find_Some_iff in_set_conv_nth)
  then show thesis using some[of m] assms Some by (simp add: mtk_cam_seninf_mux_get_pref_def)
next
  case None
  show thesis
  proof (cases "core_list_mux s")
    case Nil
    then show thesis using none assms None by (auto simp: mtk_cam_seninf_mux_get_pref_def mtk_cam_seninf_mux_get_def)
  next
    case (Cons m ms)
    then show thesis using some[of m] assms None by (auto simp: mtk_cam_seninf_mux_get_pref_def mtk_cam_seninf_mux_get_def)
  qed
qed

lemma evolves_get_pref:
  assumes "c < core_num s" and "mtk_cam_seninf_mux_get_pref c pref s = (r, t)"
  shows "evolves s t"
  using assms(2)
proof (cases rule: get_pref_cases)
  case (some m)
  show ?thesis unfolding some(3) using some(2) assms(1) by (intro evolves_move) auto
qed simp

lemma evolves_put:
  assumes "c < core_num s" and "m \<in> set (sx_list_mux (sx s c))"
  shows "evolves s (mtk_cam_seninf_mux_put c m s)"
  using assms unfolding mtk_cam_seninf_mux_put_def
  by (intro evolves_move) (auto simp: )

lemma upd_sx_same: "f (sx s c) = sx s c \<Longrightarrow> upd_sx c f s = s"
  by (simp add: upd_sx_def fun_upd_idem)

lemma put_lists:
  "sx_list_mux (sx (mtk_cam_seninf_mux_put c m s) c) = remove1 m (sx_list_mux (sx s c))"
  "core_list_mux (mtk_cam_seninf_mux_put c m s) = core_list_mux s @ [m]"
  "core_num (mtk_cam_seninf_mux_put c m s) = core_num s"
  by (simp_all add: mtk_cam_seninf_mux_put_def)

lemma put_all:
  "sx_list_mux (sx s c) = ms \<Longrightarrow> fold (mtk_cam_seninf_mux_put c) ms s =
     upd_sx c (\<lambda>x. x\<lparr>sx_list_mux := []\<rparr>) (s\<lparr>core_list_mux := core_list_mux s @ ms\<rparr>)"
proof (induction ms arbitrary: s)
  case Nil
  then have "upd_sx c (\<lambda>x. x\<lparr>sx_list_mux := []\<rparr>) s = s" by (intro upd_sx_same) (cases "sx s c", simp)
  then show ?case by simp
next
  case (Cons m ms)
  have "sx_list_mux (sx (mtk_cam_seninf_mux_put c m s) c) = ms" using Cons.prems by (simp add: put_lists)
  from Cons.IH[OF this] show ?case by (simp add: mtk_cam_seninf_mux_put_def upd_sx_def)
qed

text \<open>Releasing appends the port's muxes to the free ones.\<close>

lemma release_mux_eq:
  "mtk_cam_seninf_release_mux c s =
     upd_sx c (\<lambda>x. x\<lparr>sx_list_mux := []\<rparr>) (s\<lparr>core_list_mux := core_list_mux s @ sx_list_mux (sx s c)\<rparr>)"
  unfolding mtk_cam_seninf_release_mux_def by (rule put_all) simp

lemma evolves_release: "c < core_num s \<Longrightarrow> evolves s (mtk_cam_seninf_release_mux c s)"
  unfolding release_mux_eq by (rule evolves_move) auto

lemma evolves_idle_vc: "evolves s (set_idle_vc c i s)"
  by (auto simp: set_idle_vc_def Let_def intro!: evolves_trans[OF evolves_emit evolves_upd])

lemma evolves_set_idle: "evolves s (mtk_cam_seninf_set_idle c s)"
  unfolding mtk_cam_seninf_set_idle_def by (rule evolves_fold[OF evolves_idle_vc refl])

lemma evolves_dfs_set: "evolves s (snd (seninf_dfs_set c freq s))"
  by (auto simp: seninf_dfs_set_def Let_def split: option.splits intro!: evolves_trans[OF evolves_upd evolves_emit])

lemma evolves_isp_clk: "evolves s (snd (update_isp_clk c s))"
  by (auto simp: update_isp_clk_def evolves_dfs_set split: option.splits)

lemma evolves_config_vc: "evolves s (config_vc c i m skip s)"
  by (auto simp: config_vc_def Let_def intro!: evolves_trans[OF evolves_upd evolves_emit] ctx_ok_keep_group)

lemma evolves_config_vcs:
  "c < core_num s \<Longrightarrow> config_vcs c is g s = Some (ret, t) \<Longrightarrow> evolves s t"
proof (induction "is" arbitrary: g s)
  case (Cons i "is")
  let ?s0 = "upd_sx c (upd_vc i (\<lambda>v. v\<lparr>vc_enable := True\<rparr>)) s"
  have s0: "evolves s ?s0" by (rule evolves_upd) (auto intro: ctx_ok_keep_group)
  have "evolves ?s0 t"
  proof (cases "g (unat (vc_group (vi_vc (sx ?s0 c) ! i)))")
    case (Some m)
    then show ?thesis
      using Cons.prems Cons.IH[of "config_vc c i m True ?s0"] evolves_config_vc[of ?s0 c i m True]
      by (auto simp: mtk_cam_seninf_is_vc_enabled_def Let_def evolves_num split: if_splits intro: evolves_trans)
  next
    case None
    obtain r s1 where p: "mtk_cam_seninf_mux_get_pref c [0 ..< pref_mux_num s] ?s0 = (r, s1)" by fastforce
    then have e: "evolves ?s0 s1" using Cons.prems(1) by (auto intro: evolves_get_pref)
    show ?thesis
    proof (cases r)
      case None
      then show ?thesis
        using Cons.prems p e \<open>g _ = None\<close> evolves_release[of c s1]
        by (auto simp: mtk_cam_seninf_is_vc_enabled_def Let_def evolves_num split: if_splits intro: evolves_trans)
    next
      case (Some m)
      then show ?thesis
        using Cons.prems p e \<open>g _ = None\<close> Cons.IH[of "config_vc c i m False s1"] evolves_config_vc[of s1 c i m False]
        by (auto simp: mtk_cam_seninf_is_vc_enabled_def Let_def evolves_num split: if_splits intro: evolves_trans)
    qed
  qed
  then show ?case using s0 evolves_trans by blast
qed simp

lemma evolves_config_hw: "c < core_num s \<Longrightarrow> config_hw c s = Some (ret, t) \<Longrightarrow> evolves s t"
  unfolding config_hw_def using evolves_config_vcs evolves_emit evolves_trans emit_op_fields(4) by metis

lemma evolves_test_muxes: "c < core_num s \<Longrightarrow> evolves s (snd (test_muxes c is s))"
proof (induction "is" arbitrary: s)
  case (Cons i "is")
  obtain r s1 where p: "mtk_cam_seninf_mux_get_pref c [0, 1, 2, 3, 4] s = (r, s1)" by fastforce
  then have e: "evolves s s1" using Cons.prems by (rule evolves_get_pref[rotated])
  show ?case
  proof (cases r)
    case None
    then show ?thesis using p e by simp
  next
    case (Some m)
    let ?cam = "word_of_int (pad2cam (sx s1 c) (vc_out_pad (vi_vc (sx s1 c) ! i))) :: u8"
    let ?s2 = "upd_sx c (upd_vc i (\<lambda>v. v\<lparr>vc_mux := of_nat m, vc_cam := ?cam, vc_enable := True\<rparr>)) s1"
    let ?s3 = "emit_op c [Op_test_model (unat (of_nat m :: u8)) (uint ?cam) (vc_pixel_mode (vi_vc (sx s1 c) ! i))] ?s2"
    have "evolves s1 ?s2" by (rule evolves_upd) (auto intro: ctx_ok_keep_group)
    then have s3: "evolves s ?s3" using e evolves_trans evolves_emit by blast
    then have "evolves ?s3 (snd (test_muxes c is ?s3))" using Cons.IH[of ?s3] Cons.prems evolves_num[OF s3] by simp
    then show ?thesis using p Some evolves_trans[OF s3] by (simp add: Let_def)
  qed
qed simp

lemma evolves_camtm [simp]: "evolves s (s\<lparr>camtm_users := n\<rparr>)"
  by (simp add: evolves_def owned_muxes_def)

lemma evolves_field:
  assumes "\<And>x. sx_list_mux (f x) = sx_list_mux x" and "\<And>x. ctx_ok (f x) = ctx_ok x"
  shows "evolves s (upd_sx c f s)"
  by (rule evolves_upd) (simp_all add: assms)

lemma evolves_test_on: "c < core_num s \<Longrightarrow> evolves s (snd (test_model_on c is s))"
proof -
  assume c: "c < core_num s"
  define s1 where "s1 = upd_sx c (\<lambda>x. x\<lparr>sx_pm_users := sx_pm_users x + 1\<rparr>) s"
  define s2 where "s2 = (if camtm_clk s1 then s1\<lparr>camtm_users := camtm_users s1 + 1\<rparr> else s1)"
  define s3 where "s3 = (if dfs_freqs s2 \<noteq> [] then snd (seninf_dfs_set c (last (dfs_freqs s2)) s2) else s2)"
  have "evolves s s1" unfolding s1_def by (rule evolves_field) simp_all
  moreover have "evolves s1 s2" "evolves s2 s3" by (simp_all add: s2_def s3_def evolves_dfs_set)
  ultimately have s3: "evolves s s3" using evolves_trans by blast
  have "test_model_on c is s = test_muxes c is s3" unfolding test_model_on_def s3_def s2_def s1_def Let_def ..
  then show ?thesis using evolves_trans[OF s3 evolves_test_muxes] evolves_num[OF s3] c by simp
qed

lemma evolves_idle_release:
  "c < core_num s \<Longrightarrow> evolves s (mtk_cam_seninf_release_mux c (mtk_cam_seninf_set_idle c s))"
  using evolves_set_idle[of s c] evolves_release evolves_num evolves_trans by metis

lemma evolves_test_off: "c < core_num s \<Longrightarrow> evolves s (test_model_off c s)"
proof -
  assume c: "c < core_num s"
  define s1 where "s1 = mtk_cam_seninf_release_mux c (mtk_cam_seninf_set_idle c s)"
  define s2 where "s2 = (if dfs_freqs s1 \<noteq> [] then snd (seninf_dfs_set c 0 s1) else s1)"
  define s3 where "s3 = (if camtm_clk s2 then s2\<lparr>camtm_users := camtm_users s2 - 1\<rparr> else s2)"
  have "evolves s s1" unfolding s1_def using c by (rule evolves_idle_release)
  moreover have "evolves s1 s2" "evolves s2 s3" by (simp_all add: s2_def s3_def evolves_dfs_set)
  ultimately have s3: "evolves s s3" using evolves_trans by blast
  have "test_model_off c s = upd_sx c (\<lambda>x. x\<lparr>sx_pm_users := sx_pm_users x - 1\<rparr>) s3"
    unfolding test_model_off_def s3_def s2_def s1_def Let_def ..
  then show ?thesis using evolves_trans[OF s3 evolves_field] by simp
qed

lemma evolves_streaming: "evolves s t \<Longrightarrow> evolves s (upd_sx c (\<lambda>x. x\<lparr>sx_streaming := b\<rparr>) t)"
  by (rule evolves_trans[OF _ evolves_field]) simp_all

lemma evolves_test_model:
  assumes "c < core_num s"
  shows "evolves s (snd (set_test_model c enable s))"
proof -
  have "evolves s t" if "test_model_on c is s = (ret, t)" for "is" ret t
    using evolves_test_on[OF assms, of "is"] that by simp
  then show ?thesis
    using evolves_test_off[OF assms]
    by (auto simp: set_test_model_def Let_def evolves_streaming split: option.splits prod.splits)
qed

subsection \<open>Channels\<close>

definition scan_ok :: "nat \<Rightarrow> vc_scan \<Rightarrow> bool" where
  "scan_ok k w \<longleftrightarrow> ctx_ok (vs_ctx w) \<and> vi_cnt (vs_ctx w) \<le> k \<and> vs_grp w \<le> k
    \<and> (\<forall>m. vs_meta w = Some m \<longrightarrow> m < vs_grp w)"

lemma ctx_ok_cnt: "ctx_ok x \<Longrightarrow> n \<le> SENINF_VC_MAXCNT \<Longrightarrow> ctx_ok (x\<lparr>vi_cnt := n\<rparr>)"
  by (simp add: ctx_ok_def)

lemma unat_small_group: "n < 8 \<Longrightarrow> unat (of_nat n :: u8) < 8" for n :: nat
  by (simp add: unat_of_nat)

lemma ctx_ok_format: "ctx_ok (vc_format si e vc x) = ctx_ok x"
  by (simp add: vc_format_def Let_def)

lemma classify_ok:
  assumes "scan_ok k w" and "k < SENINF_VC_MAXCNT" and "vc_classify e w = Some (vc, w1)"
  shows "unat (vc_group vc) < SENINF_VC_MAXCNT \<and> vs_ctx w1 = vs_ctx w \<and> vs_grp w \<le> vs_grp w1 \<and> vs_meta w1 = vs_meta w
    \<and> (vc_feature vc = VC_RAW_DATA \<or> vs_grp w1 = vs_grp w) \<and> vs_grp w1 \<le> Suc k"
proof -
  have "vi_cnt (vs_ctx w) < length (vi_vc (vs_ctx w))" "vs_grp w \<le> k"
    using assms(1,2) by (simp_all add: scan_ok_def ctx_ok_def)
  then show ?thesis
    using assms unat_small_group[of "vs_grp w"]
    by (auto simp: vc_classify_def Let_def scan_ok_def ctx_ok_def SENINF_VC_MAXCNT_def split: option.splits if_splits)
qed

lemma assign_group_ok:
  assumes "vs_grp w1 \<le> Suc k" and "vc_feature vc = VC_RAW_DATA \<or> vs_grp w1 \<le> k" and "k < SENINF_VC_MAXCNT"
    and "unat (vc_group vc) < SENINF_VC_MAXCNT" and "\<forall>m. vs_meta w1 = Some m \<longrightarrow> m < vs_grp w1"
    and "vc_assign_group (vc, w1) = (vc2, w2)"
  shows "unat (vc_group vc2) < SENINF_VC_MAXCNT \<and> vs_ctx w2 = vs_ctx w1 \<and> vs_grp w2 \<le> Suc k
    \<and> (\<forall>m. vs_meta w2 = Some m \<longrightarrow> m < vs_grp w2)"
  using assms unat_small_group[of "vs_grp w1"] unat_small_group[of "the (vs_meta w1)"]
  by (auto simp: vc_assign_group_def Let_def SENINF_VC_MAXCNT_def split: if_splits)

lemma vc_step_ok:
  assumes "scan_ok k w" and "k < SENINF_VC_MAXCNT"
  shows "scan_ok (Suc k) (vc_step si e w)"
proof (cases "vc_classify e w")
  case None
  then show ?thesis using assms by (auto simp: vc_step_def Let_def scan_ok_def intro: ctx_ok_keep_group)
next
  case (Some p)
  obtain vc w1 where p: "p = (vc, w1)" by fastforce
  obtain vc2 w2 where a: "vc_assign_group (vc, w1) = (vc2, w2)" by fastforce
  have c: "unat (vc_group vc) < SENINF_VC_MAXCNT" "vs_ctx w1 = vs_ctx w" "vs_grp w \<le> vs_grp w1" "vs_meta w1 = vs_meta w"
    "vc_feature vc = VC_RAW_DATA \<or> vs_grp w1 = vs_grp w" "vs_grp w1 \<le> Suc k"
    using classify_ok[OF assms Some[unfolded p]] by auto
  have m: "\<forall>m. vs_meta w1 = Some m \<longrightarrow> m < vs_grp w1" "vc_feature vc = VC_RAW_DATA \<or> vs_grp w1 \<le> k"
    using assms(1) c by (auto simp: scan_ok_def)
  have g: "unat (vc_group vc2) < SENINF_VC_MAXCNT" "vs_ctx w2 = vs_ctx w1" "vs_grp w2 \<le> Suc k"
    "\<forall>m. vs_meta w2 = Some m \<longrightarrow> m < vs_grp w2"
    using assign_group_ok[OF c(6) m(2) assms(2) c(1) m(1) a] by auto
  let ?vc3 = "vc2\<lparr>vc_exp_hsize := ce_hsize e, vc_exp_vsize := ce_vsize e\<rparr>"
  have x: "ctx_ok (vs_ctx w)" "vi_cnt (vs_ctx w) \<le> k" using assms(1) by (simp_all add: scan_ok_def)
  then have "ctx_ok (upd_vc (vi_cnt (vs_ctx w)) (\<lambda>_. ?vc3) (vs_ctx w))"
    using g(1) by (intro ctx_ok_upd_vc) simp_all
  then show ?thesis
    using Some p a g x assms(2)
    by (simp add: vc_step_def Let_def scan_ok_def ctx_ok_cnt ctx_ok_format)
qed

lemma vc_fold_ok:
  "scan_ok k w \<Longrightarrow> k + length es \<le> SENINF_VC_MAXCNT \<Longrightarrow> scan_ok (k + length es) (fold (vc_step si) es w)"
proof (induction es arbitrary: k w)
  case (Cons e es)
  then show ?case using Cons.IH[OF vc_step_ok[OF Cons.prems(1)]] by simp
qed simp

lemma ctx_ok_pad_fmt: "ctx_ok x \<Longrightarrow> ctx_ok (snd (get_vcinfo_by_pad_fmt x))"
  by (auto simp: get_vcinfo_by_pad_fmt_def Let_def raw_vc_def intro!: ctx_ok_cnt ctx_ok_upd_vc)
    (simp_all add: SENINF_VC_MAXCNT_def)

lemma vc_step_lists:
  "sx_list_mux (vs_ctx (vc_step si e w)) = sx_list_mux (vs_ctx w)"
  by (auto simp: vc_step_def Let_def vc_format_def vc_classify_def vc_assign_group_def split: option.splits if_splits)

lemma vc_fold_lists: "sx_list_mux (vs_ctx (fold (vc_step si) es w)) = sx_list_mux (vs_ctx w)"
  by (induction es arbitrary: w) (simp_all add: vc_step_lists)

lemma get_vcinfo_ok:
  assumes "mtk_cam_seninf_get_vcinfo si x = Some (ret, y)"
  shows "sx_list_mux y = sx_list_mux x \<and> (ctx_ok x \<longrightarrow> ctx_ok y)"
proof -
  let ?w = "\<lparr>vs_ctx = x\<lparr>vi_cnt := 0\<rparr>, vs_grp = 0, vs_raw_cnt = 0, vs_meta = None\<rparr>"
  have "ctx_ok x \<Longrightarrow> scan_ok 0 ?w" by (simp add: scan_ok_def ctx_ok_cnt)
  from vc_fold_ok[OF this, of "si_desc_entries si" si] show ?thesis
    using assms ctx_ok_pad_fmt[of x]
    by (auto simp: mtk_cam_seninf_get_vcinfo_def MTK_FRAME_DESC_ENTRY_MAX_def SENINF_VC_MAXCNT_def scan_ok_def
        vc_fold_lists get_vcinfo_by_pad_fmt_def Let_def split: if_splits)
qed

lemma get_vcinfo_test_ok:
  "sx_list_mux (mtk_cam_seninf_get_vcinfo_test x) = sx_list_mux x \<and> (ctx_ok x \<longrightarrow> ctx_ok (mtk_cam_seninf_get_vcinfo_test x))"
  by (auto simp: mtk_cam_seninf_get_vcinfo_test_def Let_def test_vc_def intro!: ctx_ok_cnt ctx_ok_upd_vc)
    (simp_all add: SENINF_VC_MAXCNT_def)

subsection \<open>Calls\<close>

lemma evolves_vcinfo:
  assumes "mtk_cam_seninf_get_vcinfo si (f (sx s c)) = Some (ret, y)"
    and "sx_list_mux (f (sx s c)) = sx_list_mux (sx s c)" and "ctx_ok (f (sx s c)) = ctx_ok (sx s c)"
  shows "evolves s (upd_sx c (\<lambda>_. y) s)"
  using get_vcinfo_ok[OF assms(1)] assms(2,3) by (intro evolves_upd) auto

lemma read_rates_ok:
  "read_rates si x = Some y \<Longrightarrow> sx_list_mux y = sx_list_mux x \<and> ctx_ok y = ctx_ok x
    \<and> vi_vc y = vi_vc x \<and> vi_cnt y = vi_cnt x \<and> sx_pm_users y = sx_pm_users x \<and> sx_streaming y = sx_streaming x"
  by (auto simp: read_rates_def get_buffered_pixel_rate_def bind_eq_Some_conv Let_def split: option.splits prod.splits)

lemma mbus_config_ok:
  "sx_list_mux (snd (get_mbus_config si x)) = sx_list_mux x" "ctx_ok (snd (get_mbus_config si x)) = ctx_ok x"
  "vi_vc (snd (get_mbus_config si x)) = vi_vc x" "vi_cnt (snd (get_mbus_config si x)) = vi_cnt x"
  "sx_pm_users (snd (get_mbus_config si x)) = sx_pm_users x" "sx_streaming (snd (get_mbus_config si x)) = sx_streaming x"
  by (simp_all add: get_mbus_config_def Let_def split: option.splits prod.splits)

text \<open>The paths of switching a port on.\<close>

lemma stream_on_cases:
  assumes "stream_on_port si c s = Some (ret, t)"
  obtains (pm) x where "read_rates si (snd (get_mbus_config si (sx s c))) = Some x" "ret = si_pm_get si" "ret < 0"
      "t = upd_sx c (\<lambda>_. x) s"
  | (run) x s2 r s3 where "read_rates si (snd (get_mbus_config si (sx s c))) = Some x"
      "s2 = snd (update_isp_clk c (upd_sx c (\<lambda>x. x\<lparr>sx_pm_users := sx_pm_users x + 1\<rparr>) (upd_sx c (\<lambda>_. x) s)))"
      "config_hw c s2 = Some (r, s3)"
      "(r \<noteq> 0 \<and> ret = r \<and> t = s3) \<or>
       (r = 0 \<and> ret = si_s_stream si True \<and> ret \<noteq> 0
          \<and> t = emit_op c [Op_sensor_stream True] (snd (notify_fsync_cammux_usage si c s3))) \<or>
       (r = 0 \<and> ret = 0 \<and> si_s_stream si True = 0 \<and> t = upd_sx c (\<lambda>x. x\<lparr>sx_streaming := True\<rparr>)
          (emit_op c [Op_sensor_stream True] (snd (notify_fsync_cammux_usage si c s3))))"
proof (cases "si_pm_get si < 0")
  case True
  then show thesis using assms pm by (auto simp: stream_on_port_def bind_eq_Some_conv Let_def)
next
  case False
  then show thesis
    using assms run
    by (auto simp: stream_on_port_def bind_eq_Some_conv Let_def split: if_splits)
qed

lemma notify_eq: "snd (notify_fsync_cammux_usage si c s) \<in> {s, emit_op c [Op_fsync_map (mtk_cam_seninf_get_raw_cam_info (sx s c))] s}"
  by (simp add: notify_fsync_cammux_usage_def Let_def)

lemma evolves_notify: "evolves s (emit_op c ops (snd (notify_fsync_cammux_usage si c s)))"
  using notify_eq[of si c s] evolves_trans[OF evolves_emit evolves_emit] by auto

lemma evolves_read_rates:
  assumes "read_rates si (snd (get_mbus_config si (sx s c))) = Some x"
  shows "evolves s (upd_sx c (\<lambda>_. x) s)"
  using read_rates_ok[OF assms] by (intro evolves_upd) (simp_all add: mbus_config_ok)

lemma evolves_stream_on:
  assumes "c < core_num s" and "stream_on_port si c s = Some (ret, t)"
  shows "evolves s t"
  using assms(2)
proof (cases rule: stream_on_cases)
  case (pm x)
  then show ?thesis using evolves_read_rates by simp
next
  case (run x s2 r s3)
  let ?s1 = "upd_sx c (\<lambda>x. x\<lparr>sx_pm_users := sx_pm_users x + 1\<rparr>) (upd_sx c (\<lambda>_. x) s)"
  have "evolves (upd_sx c (\<lambda>_. x) s) ?s1" by (rule evolves_field) simp_all
  then have s2: "evolves s s2"
    using evolves_read_rates[OF run(1)] evolves_isp_clk[of ?s1 c] evolves_trans unfolding run(2) by blast
  then have s3: "evolves s s3"
    using evolves_config_hw[OF _ run(3)] assms(1) evolves_num[OF s2] evolves_trans by simp
  have s4: "evolves s (emit_op c [Op_sensor_stream True] (snd (notify_fsync_cammux_usage si c s3)))"
    by (rule evolves_trans[OF s3 evolves_notify])
  from run(4) show ?thesis
    by (elim disjE conjE) (simp_all add: s3 s4 evolves_streaming)
qed

lemma evolves_stream_off: "c < core_num s \<Longrightarrow> evolves s (snd (stream_off_port si c s))"
proof -
  assume c: "c < core_num s"
  let ?s1 = "emit_op c [Op_sensor_stream False] s"
  let ?s2 = "mtk_cam_seninf_release_mux c (mtk_cam_seninf_set_idle c ?s1)"
  have "evolves s ?s2" using evolves_trans[OF evolves_emit evolves_idle_release] c by simp
  then have "evolves s (emit_op c [Op_poweroff] (snd (seninf_dfs_set c 0 ?s2)))"
    by (rule evolves_trans[OF evolves_trans[OF _ evolves_dfs_set] evolves_emit])
  then have "evolves s (upd_sx c (\<lambda>x. x\<lparr>sx_pm_users := sx_pm_users x - 1, sx_streaming := False\<rparr>)
      (emit_op c [Op_poweroff] (snd (seninf_dfs_set c 0 ?s2))))"
    by (rule evolves_trans[OF _ evolves_field]) simp_all
  then show ?thesis by (simp add: stream_off_port_def Let_def)
qed

text \<open>What \<open>s_stream\<close> does, by its guards.\<close>

lemma s_stream_cases:
  assumes "seninf_s_stream si c enable s = Some (ret, t)"
  obtains (idle) "t = s"
  | (test) "(ret, t) = set_test_model c enable s"
  | (on) "enable" "\<not> sx_streaming (sx s c)" "stream_on_port si c s = Some (ret, t)"
  | (off) "\<not> enable" "(ret, t) = stream_off_port si c s"
  using assms unfolding seninf_s_stream_def by (simp split: if_splits)

lemma evolves_s_stream:
  assumes "c < core_num s" and "seninf_s_stream si c enable s = Some (ret, t)"
  shows "evolves s t"
  using assms(2)
proof (cases rule: s_stream_cases)
  case test
  then show ?thesis using evolves_test_model[OF assms(1), of enable] by (metis snd_conv)
next
  case on
  then show ?thesis using evolves_stream_on[OF assms(1)] by blast
next
  case off
  then show ?thesis using evolves_stream_off[OF assms(1), of si] by (metis snd_conv)
qed simp

lemma evolves_alloc_cam_mux: "evolves s (mtk_cam_seninf_alloc_cam_mux c s)"
proof -
  have "evolves s (s\<lparr>core_list_cam_mux := L\<rparr>)" for s L by (simp add: evolves_def owned_muxes_def)
  then have "evolves s (upd_sx c (\<lambda>x. x\<lparr>sx_list_cam_mux := sx_list_cam_mux x @ [m], pad2cam := (pad2cam x)(p x := int m)\<rparr>)
      (s\<lparr>core_list_cam_mux := ms\<rparr>))" for s m p ms
    by (rule evolves_trans[OF _ evolves_field]) simp_all
  then show ?thesis
    unfolding mtk_cam_seninf_alloc_cam_mux_def
    by (intro evolves_fold[OF _ refl]) (auto simp: alloc_cam_mux_step_def split: list.splits)
qed

lemma evolves_release_cam_mux: "evolves s (mtk_cam_seninf_release_cam_mux c s)"
proof -
  have "evolves s (s\<lparr>core_list_cam_mux := L\<rparr>)" for L by (simp add: evolves_def owned_muxes_def)
  then show ?thesis unfolding mtk_cam_seninf_release_cam_mux_def by (rule evolves_trans[OF _ evolves_field]) simp_all
qed

lemma evolves_test_streamon:
  assumes "c < core_num s" and "seninf_test_streamon si c en s = Some t"
  shows "evolves s t"
proof (cases en)
  case True
  let ?s1 = "upd_sx c (\<lambda>x. x\<lparr>is_test_streamon := True\<rparr>) s"
  have "evolves s ?s1" by (rule evolves_field) simp_all
  then have s2: "evolves s (mtk_cam_seninf_alloc_cam_mux c ?s1)" using evolves_alloc_cam_mux evolves_trans by blast
  then show ?thesis
    using assms True evolves_trans[OF s2 evolves_s_stream] evolves_num[OF s2]
    by (auto simp: seninf_test_streamon_def)
next
  case False
  then obtain ret s1 where "seninf_s_stream si c False s = Some (ret, s1)"
    and t: "t = upd_sx c (\<lambda>x. x\<lparr>is_test_streamon := False\<rparr>) (mtk_cam_seninf_release_cam_mux c s1)"
    using assms(2) by (auto simp: seninf_test_streamon_def)
  then have "evolves s (mtk_cam_seninf_release_cam_mux c s1)"
    using evolves_s_stream[OF assms(1)] evolves_release_cam_mux evolves_trans by blast
  then show ?thesis unfolding t by (rule evolves_trans[OF _ evolves_field]) simp_all
qed

lemma evolves_close:
  assumes "c < core_num s" and "seninf_close si c s = Some t"
  shows "evolves s t"
proof -
  let ?s1 = "upd_sx c (\<lambda>x. x\<lparr>sx_open_refcnt := sx_open_refcnt x - 1\<rparr>) s"
  have s1: "evolves s ?s1" by (rule evolves_field) simp_all
  have "evolves ?s1 t"
    using assms evolves_test_streamon[of c ?s1 si False t] evolves_s_stream[of c ?s1 si False]
    by (auto simp: seninf_close_def Let_def split: if_splits)
  then show ?thesis using s1 evolves_trans by blast
qed

lemma evolves_switch: "evolves s (switch_cammux c pad camtg dl i s)"
  by (auto simp: switch_cammux_def Let_def intro!: evolves_trans[OF evolves_upd evolves_emit] ctx_ok_keep_group)

lemma evolves_set_camtg: "evolves s (snd (set_camtg c pad camtg dl s))"
proof -
  have "evolves s (upd_sx c (\<lambda>x. x\<lparr>pad2cam := (pad2cam x)(p := camtg)\<rparr>) s)" for p
    by (rule evolves_field) simp_all
  then show ?thesis
    using evolves_trans evolves_switch by (auto simp: set_camtg_def Let_def split: option.splits) blast
qed

lemma evolves_mux_change: "evolves s (snd (mtk_cam_seninf_streaming_mux_change settings s))"
proof -
  have "evolves s (snd (case x of (c, pad, camtg) \<Rightarrow> set_camtg c pad camtg l s))" for x l and s :: seninf_core
    by (cases x) (simp add: evolves_set_camtg)
  then have "evolves s (fold (\<lambda>(c, pad, camtg) s. snd (set_camtg c pad camtg False s)) xs s)" for xs and s :: seninf_core
    by (intro evolves_fold[OF _ refl]) (auto simp: evolves_set_camtg split: prod.splits)
  then have many: "evolves s (fold (\<lambda>(c, pad, camtg) s. snd (set_camtg c pad camtg False s)) xs (emit_op d ops s))" for xs d ops
    using evolves_trans[OF evolves_emit] by blast
  show ?thesis
  proof (cases settings)
    case (Cons x xs)
    obtain c pad camtg where x: "x = (c, pad, camtg)" by (cases x)
    show ?thesis
    proof (cases xs)
      case Nil
      then show ?thesis using Cons x by (simp add: mtk_cam_seninf_streaming_mux_change_def evolves_set_camtg)
    next
      case xs: (Cons y ys)
      show ?thesis
        unfolding mtk_cam_seninf_streaming_mux_change_def snd_conv Cons x xs list.case prod.case by (rule many)
    qed
  qed (simp add: mtk_cam_seninf_streaming_mux_change_def)
qed

lemma evolves_pixelmode: "evolves s (snd (mtk_cam_seninf_set_pixelmode c pad m s))"
proof -
  have s1: "evolves s (upd_sx c (upd_vc i (\<lambda>v. v\<lparr>vc_pixel_mode := m\<rparr>)) s)" for i
    by (rule evolves_upd) (auto intro: ctx_ok_keep_group)
  show ?thesis
    using evolves_trans[OF s1 evolves_trans[OF evolves_isp_clk evolves_emit]] s1
    by (simp add: mtk_cam_seninf_set_pixelmode_def Let_def split: option.splits)
qed

subsection \<open>One mux for each group\<close>

definition vc_grp :: "seninf_core \<Rightarrow> nat \<Rightarrow> nat \<Rightarrow> nat" where
  "vc_grp s c i = unat (vc_group (vi_vc (sx s c) ! i))"

lemma nth_update_total: "xs[i := v] ! j = (if i = j \<and> i < length xs then v else xs ! j)"
  by (cases "i = j"; cases "i < length xs") (simp_all add: list_update_beyond)

text \<open>What configuring one channel changes.\<close>

lemma enable_fields:
  fixes s c i b
  defines "t \<equiv> upd_sx c (upd_vc i (\<lambda>v. v\<lparr>vc_enable := b\<rparr>)) s"
  shows "core_list_mux t = core_list_mux s" "sx_list_mux (sx t c) = sx_list_mux (sx s c)"
    "length (vi_vc (sx t c)) = length (vi_vc (sx s c))" "vi_cnt (sx t c) = vi_cnt (sx s c)" "pref_mux_num t = pref_mux_num s"
    "vc_grp t c j = vc_grp s c j" "vc_mux (vi_vc (sx t c) ! j) = vc_mux (vi_vc (sx s c) ! j)"
    "sx_streaming (sx t c) = sx_streaming (sx s c)" "sx_pm_users (sx t c) = sx_pm_users (sx s c)"
    "d \<noteq> c \<Longrightarrow> sx t d = sx s d"
  by (auto simp: t_def vc_grp_def nth_update_total)

lemma config_vc_fields:
  fixes s c i m skip
  defines "t \<equiv> config_vc c i m skip s"
  shows "core_list_mux t = core_list_mux s" "sx_list_mux (sx t c) = sx_list_mux (sx s c)"
    "length (vi_vc (sx t c)) = length (vi_vc (sx s c))" "vi_cnt (sx t c) = vi_cnt (sx s c)" "pref_mux_num t = pref_mux_num s"
    "vc_grp t c j = vc_grp s c j"
    "vc_mux (vi_vc (sx t c) ! j) = (if j = i \<and> i < length (vi_vc (sx s c)) then of_nat m else vc_mux (vi_vc (sx s c) ! j))"
    "sx_streaming (sx t c) = sx_streaming (sx s c)" "sx_pm_users (sx t c) = sx_pm_users (sx s c)"
    "d \<noteq> c \<Longrightarrow> sx t d = sx s d"
  by (auto simp: t_def config_vc_def Let_def vc_grp_def nth_update_total)

text \<open>The step from one channel to the next.\<close>

lemma config_vcs_known:
  assumes "vc_grp s c i < SENINF_VC_MAXCNT" and "g (vc_grp s c i) = Some m"
  shows "config_vcs c (i # is) g s = config_vcs c is g (config_vc c i m True (upd_sx c (upd_vc i (\<lambda>v. v\<lparr>vc_enable := True\<rparr>)) s))"
proof -
  let ?s0 = "upd_sx c (upd_vc i (\<lambda>v. v\<lparr>vc_enable := True\<rparr>)) s"
  have g: "unat (vc_group (vi_vc (sx ?s0 c) ! i)) = vc_grp s c i" using enable_fields(6)[of c i True s i] by (simp only: vc_grp_def)
  show ?thesis
    unfolding config_vcs.simps mtk_cam_seninf_is_vc_enabled_def Let_def g using assms by (simp only: not_True_eq_False if_False linorder_not_le[symmetric] option.case if_True)
qed

lemma config_vcs_new:
  assumes "vc_grp s c i < SENINF_VC_MAXCNT" and "g (vc_grp s c i) = None"
    and "mtk_cam_seninf_mux_get_pref c [0 ..< pref_mux_num s] (upd_sx c (upd_vc i (\<lambda>v. v\<lparr>vc_enable := True\<rparr>)) s) = (r, s1)"
  shows "config_vcs c (i # is) g s =
    (case r of None \<Rightarrow> Some (- EBUSY, mtk_cam_seninf_release_mux c s1)
     | Some m \<Rightarrow> config_vcs c is (g(vc_grp s c i := Some m)) (config_vc c i m False s1))"
proof -
  let ?s0 = "upd_sx c (upd_vc i (\<lambda>v. v\<lparr>vc_enable := True\<rparr>)) s"
  have g: "unat (vc_group (vi_vc (sx ?s0 c) ! i)) = vc_grp s c i" using enable_fields(6)[of c i True s i] by (simp only: vc_grp_def)
  have p: "pref_mux_num ?s0 = pref_mux_num s" by simp
  show ?thesis
    unfolding config_vcs.simps mtk_cam_seninf_is_vc_enabled_def Let_def g p assms(3)
    using assms(1,2) by (simp only: not_True_eq_False if_False linorder_not_le[symmetric] option.case prod.case if_True split: option.split)
qed

text \<open>
  A successful loop: the array of muxes by group has grown by one mux for each new group, they
  moved from the free ones to the port, and every channel has its group's mux.
\<close>

definition config_done ::
  "nat \<Rightarrow> nat list \<Rightarrow> (nat \<Rightarrow> nat option) \<Rightarrow> seninf_core \<Rightarrow> seninf_core \<Rightarrow> (nat \<Rightarrow> nat option) \<Rightarrow> bool" where
  "config_done c is g s t g' \<longleftrightarrow>
    dom g' = dom g \<union> vc_grp s c ` set is \<and> g \<subseteq>\<^sub>m g' \<and> inj_on g' (dom g')
    \<and> (\<exists>new. sx_list_mux (sx t c) = sx_list_mux (sx s c) @ new \<and> set new \<subseteq> set (core_list_mux s)
          \<and> ran g' = ran g \<union> set new)
    \<and> length (core_list_mux t) + card (vc_grp s c ` set is - dom g) = length (core_list_mux s)
    \<and> (\<forall>i \<in> set is. vc_mux (vi_vc (sx t c) ! i) = of_nat (the (g' (vc_grp s c i))))
    \<and> (\<forall>i. i \<notin> set is \<longrightarrow> vc_mux (vi_vc (sx t c) ! i) = vc_mux (vi_vc (sx s c) ! i))
    \<and> vc_grp t c = vc_grp s c \<and> vi_cnt (sx t c) = vi_cnt (sx s c) \<and> sx_streaming (sx t c) = sx_streaming (sx s c)
    \<and> sx_pm_users (sx t c) = sx_pm_users (sx s c) \<and> (\<forall>d. d \<noteq> c \<longrightarrow> sx t d = sx s d)"

definition config_result :: "nat \<Rightarrow> nat list \<Rightarrow> (nat \<Rightarrow> nat option) \<Rightarrow> seninf_core \<Rightarrow> bool" where
  "config_result c is g s \<longleftrightarrow>
    (if card (vc_grp s c ` set is - dom g) \<le> length (core_list_mux s)
     then \<exists>t g'. config_vcs c is g s = Some (0, t) \<and> config_done c is g s t g'
     else \<exists>t. config_vcs c is g s = Some (- EBUSY, t) \<and> sx_list_mux (sx t c) = []
            \<and> length (core_list_mux t) = length (core_list_mux s) + length (sx_list_mux (sx s c)))"

lemma config_done_known:
  assumes "config_done c is g s1 t g'" and "g (vc_grp s c i) = Some m" and "i \<notin> set is" and "i < length (vi_vc (sx s c))"
    and "s1 = config_vc c i m True (upd_sx c (upd_vc i (\<lambda>v. v\<lparr>vc_enable := True\<rparr>)) s)"
  shows "config_done c (i # is) g s t g'"
proof -
  have grp: "vc_grp s1 c = vc_grp s c"
    unfolding assms(5) by (rule ext) (simp only: config_vc_fields enable_fields)
  have frame: "core_list_mux s1 = core_list_mux s" "sx_list_mux (sx s1 c) = sx_list_mux (sx s c)"
    "vi_cnt (sx s1 c) = vi_cnt (sx s c)" "sx_streaming (sx s1 c) = sx_streaming (sx s c)"
    "sx_pm_users (sx s1 c) = sx_pm_users (sx s c)"
    unfolding assms(5) by (simp_all only: config_vc_fields enable_fields)
  have other: "d \<noteq> c \<Longrightarrow> sx s1 d = sx s d" for d
    unfolding assms(5) by (simp add: config_vc_fields(10))
  have mux: "vc_mux (vi_vc (sx s1 c) ! j) = (if j = i then of_nat m else vc_mux (vi_vc (sx s c) ! j))" for j
    unfolding assms(5) config_vc_fields enable_fields using assms(4) by simp
  have ins: "vc_grp s c ` set (i # is) - dom g = vc_grp s c ` set is - dom g" "vc_grp s c i \<in> dom g"
    using assms(2) by auto
  have "g \<subseteq>\<^sub>m g'" using assms(1) by (simp add: config_done_def)
  then have "g' (vc_grp s c i) = Some m" using assms(2) by (metis domI map_le_def)
  then show ?thesis
    using assms(1,3) ins(2) other
    unfolding config_done_def grp frame mux ins(1) by (auto simp: insert_absorb)
qed

lemma config_done_new:
  assumes "config_done c is (g(vc_grp s c i := Some m)) s2 t g'" and "g (vc_grp s c i) = None" and "i \<notin> set is"
    and "i < length (vi_vc (sx s c))" and "m \<in> set (core_list_mux s)"
    and "s2 = config_vc c i m False (upd_sx c (\<lambda>x. x\<lparr>sx_list_mux := sx_list_mux x @ [m]\<rparr>)
          (upd_sx c (upd_vc i (\<lambda>v. v\<lparr>vc_enable := True\<rparr>)) s\<lparr>core_list_mux := remove1 m (core_list_mux s)\<rparr>))"
  shows "config_done c (i # is) g s t g'"
proof -
  let ?s0 = "upd_sx c (upd_vc i (\<lambda>v. v\<lparr>vc_enable := True\<rparr>)) s"
  let ?s1 = "upd_sx c (\<lambda>x. x\<lparr>sx_list_mux := sx_list_mux x @ [m]\<rparr>) (?s0\<lparr>core_list_mux := remove1 m (core_list_mux s)\<rparr>)"
  have s1: "vc_grp ?s1 c = vc_grp ?s0 c" "vi_vc (sx ?s1 c) = vi_vc (sx ?s0 c)" by (simp_all add: vc_grp_def fun_eq_iff)
  have grp: "vc_grp s2 c = vc_grp s c"
    unfolding assms(6) by (rule ext) (simp only: config_vc_fields s1 enable_fields)
  have frame: "core_list_mux s2 = remove1 m (core_list_mux s)" "sx_list_mux (sx s2 c) = sx_list_mux (sx s c) @ [m]"
    "vi_cnt (sx s2 c) = vi_cnt (sx s c)" "sx_streaming (sx s2 c) = sx_streaming (sx s c)"
    "sx_pm_users (sx s2 c) = sx_pm_users (sx s c)"
    unfolding assms(6) config_vc_fields by simp_all
  have other: "d \<noteq> c \<Longrightarrow> sx s2 d = sx s d" for d
    unfolding assms(6) by (simp add: config_vc_fields(10))
  have mux: "vc_mux (vi_vc (sx s2 c) ! j) = (if j = i then of_nat m else vc_mux (vi_vc (sx s c) ! j))" for j
    unfolding assms(6) config_vc_fields s1(2) enable_fields using assms(4) by simp
  let ?N = "vc_grp s c ` set is - dom (g(vc_grp s c i := Some m))"
  have ins: "vc_grp s c ` set (i # is) - dom g = insert (vc_grp s c i) ?N" "vc_grp s c i \<notin> ?N"
    using assms(2) by auto
  then have card: "card (vc_grp s c ` set (i # is) - dom g) = Suc (card ?N)" by simp
  have len: "length (remove1 m (core_list_mux s)) = length (core_list_mux s) - 1" "0 < length (core_list_mux s)"
    using assms(5) by (auto simp: length_remove1)
  obtain new where new: "sx_list_mux (sx t c) = (sx_list_mux (sx s c) @ [m]) @ new"
      "set new \<subseteq> set (remove1 m (core_list_mux s))" "ran g' = ran (g(vc_grp s c i := Some m)) \<union> set new"
    using assms(1) by (auto simp: config_done_def frame)
  have "ran (g(vc_grp s c i := Some m)) = insert m (ran g)" using assms(2) by (rule ran_map_upd)
  then have list: "\<exists>new. sx_list_mux (sx t c) = sx_list_mux (sx s c) @ new \<and> set new \<subseteq> set (core_list_mux s)
      \<and> ran g' = ran g \<union> set new"
    using new assms(5) set_remove1_subset[of m "core_list_mux s"] by (intro exI[of _ "m # new"]) auto
  have le: "g(vc_grp s c i := Some m) \<subseteq>\<^sub>m g'" using assms(1) by (simp add: config_done_def)
  then have gi: "g' (vc_grp s c i) = Some m" by (auto simp: map_le_def)
  have le: "g \<subseteq>\<^sub>m g'" using le assms(2) by (auto simp: map_le_def dom_def split: if_splits)
  have length: "length (core_list_mux t) + card (vc_grp s c ` set (i # is) - dom g) = length (core_list_mux s)"
    using assms(1) len unfolding config_done_def grp frame card by simp
  have facts: "dom g' = dom (g(vc_grp s c i := Some m)) \<union> vc_grp s c ` set is" "inj_on g' (dom g')"
    "\<forall>j \<in> set is. vc_mux (vi_vc (sx t c) ! j) = of_nat (the (g' (vc_grp s c j)))"
    "\<forall>j. j \<notin> set is \<longrightarrow> vc_mux (vi_vc (sx t c) ! j) = (if j = i then of_nat m else vc_mux (vi_vc (sx s c) ! j))"
    "vc_grp t c = vc_grp s c" "vi_cnt (sx t c) = vi_cnt (sx s c)" "sx_streaming (sx t c) = sx_streaming (sx s c)"
    "sx_pm_users (sx t c) = sx_pm_users (sx s c)" "\<forall>d. d \<noteq> c \<longrightarrow> sx t d = sx s2 d"
    using assms(1) unfolding config_done_def grp frame mux by blast+
  have dom: "dom g' = dom g \<union> vc_grp s c ` set (i # is)" using facts(1) by auto
  have muxes: "\<forall>j \<in> set (i # is). vc_mux (vi_vc (sx t c) ! j) = of_nat (the (g' (vc_grp s c j)))"
    "\<forall>j. j \<notin> set (i # is) \<longrightarrow> vc_mux (vi_vc (sx t c) ! j) = vc_mux (vi_vc (sx s c) ! j)"
    using facts(3,4) assms(3) gi by auto
  have others: "\<forall>d. d \<noteq> c \<longrightarrow> sx t d = sx s d" using facts(9) other by simp
  show ?thesis
    unfolding config_done_def by (intro conjI) (fact dom le facts(2) list length muxes facts(5-8) others)+
qed

lemma config_vcs_result:
  assumes "\<forall>i \<in> set is. i < length (vi_vc (sx s c)) \<and> vc_grp s c i < SENINF_VC_MAXCNT" and "distinct is"
    and "distinct (core_list_mux s)" and "inj_on g (dom g)" and "ran g \<inter> set (core_list_mux s) = {}"
  shows "config_result c is g s"
  using assms
proof (induction "is" arbitrary: g s)
  case Nil
  then show ?case by (auto simp: config_result_def config_done_def)
next
  case (Cons i "is")
  let ?s0 = "upd_sx c (upd_vc i (\<lambda>v. v\<lparr>vc_enable := True\<rparr>)) s"
  have i: "i < length (vi_vc (sx s c))" "vc_grp s c i < SENINF_VC_MAXCNT" "i \<notin> set is"
    using Cons.prems by auto
  show ?case
  proof (cases "g (vc_grp s c i)")
    case (Some m)
    let ?s1 = "config_vc c i m True ?s0"
    have grp: "vc_grp ?s1 c j = vc_grp s c j" for j by (simp only: config_vc_fields enable_fields)
    have lists: "core_list_mux ?s1 = core_list_mux s" "sx_list_mux (sx ?s1 c) = sx_list_mux (sx s c)"
      "length (vi_vc (sx ?s1 c)) = length (vi_vc (sx s c))"
      by (simp_all only: config_vc_fields enable_fields)
    have "config_result c is g ?s1"
      using Cons.prems by (intro Cons.IH) (simp_all add: grp lists)
    moreover have "vc_grp s c ` set (i # is) - dom g = vc_grp s c ` set is - dom g" using Some by auto
    moreover have "vc_grp ?s1 c ` set is = vc_grp s c ` set is" by (rule image_cong[OF refl grp])
    moreover have "config_done c is g ?s1 t g' \<Longrightarrow> config_done c (i # is) g s t g'" for t g'
      using config_done_known[of c "is" g ?s1, OF _ Some i(3,1) refl] by blast
    ultimately show ?thesis
      unfolding config_result_def config_vcs_known[OF i(2), of g m, OF Some] lists by (simp split: if_splits) metis
  next
    case None
    let ?N = "vc_grp s c ` set (i # is) - dom g"
    obtain r s1 where p: "mtk_cam_seninf_mux_get_pref c [0 ..< pref_mux_num s] ?s0 = (r, s1)" by fastforce
    have step: "config_vcs c (i # is) g s =
        (case r of None \<Rightarrow> Some (- EBUSY, mtk_cam_seninf_release_mux c s1)
         | Some m \<Rightarrow> config_vcs c is (g(vc_grp s c i := Some m)) (config_vc c i m False s1))"
      by (rule config_vcs_new) (fact i(2) None p)+
    from p show ?thesis
    proof (cases rule: get_pref_cases)
      case none
      have "vc_grp s c i \<in> ?N" using None by auto
      then have "card ?N \<noteq> 0" by (auto simp: card_eq_0_iff)
      moreover have "vc_grp s c i \<notin> dom g" using None by (simp add: domIff)
      ultimately show ?thesis
        using none unfolding config_result_def step
        by (simp add: release_mux_eq)
    next
      case (some m)
      let ?s2 = "config_vc c i m False s1" and ?g = "g(vc_grp s c i := Some m)"
      have m: "m \<in> set (core_list_mux s)" using some(2) by simp
      have s2: "?s2 = config_vc c i m False (upd_sx c (\<lambda>x. x\<lparr>sx_list_mux := sx_list_mux x @ [m]\<rparr>)
          (?s0\<lparr>core_list_mux := remove1 m (core_list_mux s)\<rparr>))" using some(3) by simp
      have s1: "vc_grp s1 c j = vc_grp ?s0 c j" for j unfolding some(3) by (simp add: vc_grp_def)
      have grp: "vc_grp ?s2 c j = vc_grp s c j" for j by (simp only: config_vc_fields s1 enable_fields)
      have lists: "core_list_mux ?s2 = remove1 m (core_list_mux s)" "sx_list_mux (sx ?s2 c) = sx_list_mux (sx s c) @ [m]"
        "length (vi_vc (sx ?s2 c)) = length (vi_vc (sx s c))"
        unfolding config_vc_fields some(3) by simp_all
      have "m \<notin> ran g" using Cons.prems(5) m by auto
      then have inj: "inj_on ?g (dom ?g)" "ran ?g \<inter> set (core_list_mux ?s2) = {}"
        using Cons.prems(3-5) None unfolding lists by (auto simp: inj_on_def dom_def ran_def split: if_splits)
      let ?N' = "vc_grp s c ` set is - dom ?g"
      have image: "vc_grp ?s2 c ` set is = vc_grp s c ` set is" by (rule image_cong[OF refl grp])
      have "config_result c is ?g ?s2"
        using Cons.prems(1-3) by (intro Cons.IH inj) (simp_all add: grp lists distinct_remove1)
      then have result: "if card ?N' \<le> length (remove1 m (core_list_mux s))
          then \<exists>t g'. config_vcs c is ?g ?s2 = Some (0, t) \<and> config_done c is ?g ?s2 t g'
          else \<exists>t. config_vcs c is ?g ?s2 = Some (- EBUSY, t) \<and> sx_list_mux (sx t c) = []
            \<and> length (core_list_mux t) = length (remove1 m (core_list_mux s)) + length (sx_list_mux (sx s c) @ [m])"
        unfolding config_result_def image lists .
      have "?N = insert (vc_grp s c i) ?N'" using None by auto
      then have card: "card ?N = Suc (card ?N')" by simp
      have len: "Suc (length (remove1 m (core_list_mux s))) = length (core_list_mux s)"
        using m length_pos_if_in_set[OF m] by (simp add: length_remove1)
      have grown: "config_done c (i # is) g s t g'" if "config_done c is ?g ?s2 t g'" for t g'
        using config_done_new[of c "is" g s i m ?s2 t g'] that None i(3,1) m s2 by blast
      have step: "config_vcs c (i # is) g s = config_vcs c is ?g ?s2" using step some(1) by simp
      show ?thesis
      proof (cases "card ?N \<le> length (core_list_mux s)")
        case True
        then have "card ?N' \<le> length (remove1 m (core_list_mux s))" using card len by linarith
        then obtain t g' where "config_vcs c is ?g ?s2 = Some (0, t)" "config_done c is ?g ?s2 t g'"
          using result by (simp only: if_True) blast
        then show ?thesis using True grown unfolding config_result_def step by auto
      next
        case False
        then have "\<not> card ?N' \<le> length (remove1 m (core_list_mux s))" using card len by linarith
        then obtain t where "config_vcs c is ?g ?s2 = Some (- EBUSY, t)" "sx_list_mux (sx t c) = []"
          "length (core_list_mux t) = length (remove1 m (core_list_mux s)) + length (sx_list_mux (sx s c) @ [m])"
          using result by (simp only: if_False) blast
        then show ?thesis using False len unfolding config_result_def step by simp
      qed
    qed
  qed
qed

lemma ctx_ok_grp:
  "ctx_ok (sx s c) \<Longrightarrow> i < vi_cnt (sx s c) \<Longrightarrow> i < length (vi_vc (sx s c)) \<and> vc_grp s c i < SENINF_VC_MAXCNT"
  by (simp add: ctx_ok_def vc_grp_def)

lemma ok_core_distinct: "seninf_ok s \<Longrightarrow> distinct (core_list_mux s) \<and> set (core_list_mux s) \<subseteq> {..< mux_num s}"
proof -
  assume ok: "seninf_ok s"
  have "mset [0 ..< mux_num s] = mset (core_list_mux s) + (\<Sum>c < core_num s. mset (sx_list_mux (sx s c)))"
    using ok by (simp only: seninf_ok_def owned_muxes_def)
  moreover obtain ys where "mset ys = (\<Sum>c < core_num s. mset (sx_list_mux (sx s c)))" using ex_mset by blast
  ultimately have eq: "mset [0 ..< mux_num s] = mset (core_list_mux s @ ys)" by simp
  have "distinct (core_list_mux s @ ys)" using mset_eq_imp_distinct_iff[OF eq] by simp
  moreover have "set [0 ..< mux_num s] = set (core_list_mux s @ ys)" using eq by (rule mset_eq_setD)
  ultimately show ?thesis by (auto simp: atLeast0LessThan[symmetric])
qed

lemma emit_grp [simp]: "vc_grp (emit_op c ops s) d = vc_grp s d"
  by (simp add: vc_grp_def fun_eq_iff)

text \<open>Configuring a port in a reachable state, as one result.\<close>

lemma config_hw_result:
  assumes "seninf_ok s" and "c < core_num s"
  shows "if card (vc_grp s c ` {..< vi_cnt (sx s c)}) \<le> length (core_list_mux s)
    then \<exists>t g'. config_hw c s = Some (0, t)
       \<and> config_done c [0 ..< vi_cnt (sx s c)] (\<lambda>_. None)
           (emit_op c [Op_reset (seninfIdx (sx s c)), Op_set_vc (seninfIdx (sx s c)), Op_set_csi_mipi] s) t g'
    else \<exists>t. config_hw c s = Some (- EBUSY, t) \<and> sx_list_mux (sx t c) = []
       \<and> length (core_list_mux t) = length (core_list_mux s) + length (sx_list_mux (sx s c))"
proof -
  let ?e = "emit_op c [Op_reset (seninfIdx (sx s c)), Op_set_vc (seninfIdx (sx s c)), Op_set_csi_mipi] s"
  have "ctx_ok (sx s c)" using assms by (simp add: seninf_ok_def)
  then have "config_result c [0 ..< vi_cnt (sx s c)] (\<lambda>_. None) ?e"
    using ok_core_distinct[OF assms(1)] ctx_ok_grp[of s c] by (intro config_vcs_result) auto
  then show ?thesis
    by (simp add: config_result_def config_hw_def atLeast0LessThan if_bool_eq_conj)
qed

end
