(* ===== verification/SeninfClaims.thy ===== *)
theory SeninfClaims
  imports SeninfProps
begin

text \<open>
  The properties of the sensor interface, over every sequence of calls from the probed state.
\<close>

unbundle bit_operations_syntax

subsection \<open>The probed state and the calls\<close>

definition vc_zero :: seninf_vc where
  "vc_zero = \<lparr>vc_vc = 0, vc_dt = 0, vc_feature = VC_NONE, vc_out_pad = 0, vc_pixel_mode = 0, vc_group = 0, vc_mux = 0,
     vc_cam = 0, vc_enable = False, vc_exp_hsize = 0, vc_exp_vsize = 0\<rparr>"

text \<open>A port after its probe: zeroed, its formats and pixel modes set, its pads on no cam mux.\<close>

definition seninf_probe :: "nat \<Rightarrow> seninf_ctx" where
  "seninf_probe idx =
    init_fmt \<lparr>vi_vc = replicate SENINF_VC_MAXCNT vc_zero, vi_cnt = 0, sx_fmt = (\<lambda>_. \<lparr>sf_code = 0, sf_width = 0, sf_height = 0\<rparr>),
       pad2cam = (\<lambda>_. 0xff), pad_linked = (\<lambda>_. False), sx_list_mux = [], sx_list_cam_mux = [], sx_streaming = False,
       is_test_model = 0, is_test_streamon = False, sx_sensor = False, seninfIdx = idx, is_cphy = False, num_data_lanes = 0,
       mipi_pixel_rate = 0, buffered_pixel_rate = 0, customized_pixel_rate = 0, fps_n = 0, fps_d = 0, isp_freq = 0,
       sx_pm_users = 0, sx_open_refcnt = 0\<rparr>"

definition seninf_boot :: "nat \<Rightarrow> nat \<Rightarrow> nat \<Rightarrow> nat \<Rightarrow> u64 list \<Rightarrow> u64 list \<Rightarrow> bool \<Rightarrow> seninf_core" where
  "seninf_boot ports muxes cams prefs freqs volts clk =
    mtk_cam_seninf_init_res \<lparr>core_list_mux = [], core_list_cam_mux = [], core_ctxs = seninf_probe, core_num = ports,
       mux_num = muxes, cam_mux_num = cams, pref_mux_num = prefs, dfs_freqs = freqs, dfs_volts = volts,
       camtm_clk = clk, camtm_users = 0, core_ops = (\<lambda>_. [])\<rparr>"

text \<open>The ports a call is about.\<close>

fun call_ports :: "seninf_call \<Rightarrow> nat set" where
  "call_ports (Sc_stream si c en) = {c}"
| "call_ports (Sc_test_pattern si c n) = {c}"
| "call_ports (Sc_test_streamon si c en) = {c}"
| "call_ports (Sc_set_fmt si c pad try f) = {c}"
| "call_ports (Sc_link si c source enabled) = {c}"
| "call_ports (Sc_open c) = {c}"
| "call_ports (Sc_close si c) = {c}"
| "call_ports (Sc_camtg c pad camtg) = {c}"
| "call_ports (Sc_mux_change settings) = fst ` set settings"
| "call_ports (Sc_pixelmode c pad m) = {c}"
| "call_ports (Sc_remove c) = {c}"

lemma evolves_call:
  assumes "call_ports k \<subseteq> {..< core_num s}" and "seninf_run k s = Some t"
  shows "evolves s t"
proof (cases k)
  case (Sc_stream si c en)
  then show ?thesis using assms evolves_s_stream[of c s si en] by auto
next
  case (Sc_test_pattern si c n)
  have "evolves s (upd_sx c (\<lambda>x. mtk_cam_seninf_get_vcinfo_test (x\<lparr>is_test_model := n\<rparr>)) s)"
    using get_vcinfo_test_ok[of "(sx s c)\<lparr>is_test_model := n\<rparr>"] by (intro evolves_upd) auto
  moreover have "evolves s (upd_sx c (\<lambda>_. y) s)"
    if "mtk_cam_seninf_get_vcinfo si ((sx s c)\<lparr>is_test_model := 0\<rparr>) = Some (ret, y)" for ret y
    using that by (rule evolves_vcinfo[where f = "\<lambda>x. x\<lparr>is_test_model := 0\<rparr>"]) simp_all
  ultimately show ?thesis using assms(2) Sc_test_pattern by (auto simp: seninf_test_pattern_def split: if_splits)
next
  case (Sc_test_streamon si c en)
  then show ?thesis using assms evolves_test_streamon[of c s si en t] by simp
next
  case (Sc_set_fmt si c pad tr f)
  let ?s1 = "upd_sx c (\<lambda>x. x\<lparr>sx_fmt := (sx_fmt x)(nat pad := f)\<rparr>) s"
  have s1: "evolves s ?s1" by (rule evolves_field) simp_all
  have "evolves ?s1 (upd_sx c (\<lambda>_. y) ?s1)" if "mtk_cam_seninf_get_vcinfo si (sx ?s1 c) = Some (ret, y)" for ret y
    using that by (rule evolves_vcinfo[where f = "\<lambda>x. x"]) simp_all
  then show ?thesis
    using assms(2) Sc_set_fmt s1 evolves_trans[OF s1]
    by (auto simp: mtk_cam_seninf_set_fmt_def Let_def split: if_splits)
next
  case (Sc_link si c source enabled)
  have "evolves s (upd_sx c (\<lambda>_. y) s)"
    if "mtk_cam_seninf_get_vcinfo si ((sx s c)\<lparr>sx_sensor := True\<rparr>) = Some (ret, y)" for ret y
    using that by (rule evolves_vcinfo[where f = "\<lambda>x. x\<lparr>sx_sensor := True\<rparr>"]) simp_all
  then show ?thesis using assms(2) Sc_link by (auto simp: seninf_link_setup_def split: if_splits)
next
  case (Sc_open c)
  then show ?thesis using assms(2) evolves_field[of "\<lambda>x. x\<lparr>sx_open_refcnt := sx_open_refcnt x + 1\<rparr>" s c]
    by (simp add: seninf_open_def)
next
  case (Sc_close si c)
  then show ?thesis using assms evolves_close[of c s si t] by simp
next
  case (Sc_camtg c pad camtg)
  then show ?thesis using assms(2) evolves_set_camtg by (auto simp: mtk_cam_seninf_set_camtg_def)
next
  case (Sc_mux_change settings)
  then show ?thesis using assms(2) evolves_mux_change by auto
next
  case (Sc_pixelmode c pad m)
  then show ?thesis using assms(2) evolves_pixelmode by auto
next
  case (Sc_remove c)
  then show ?thesis using assms evolves_idle_release[of c s] by (auto simp: seninf_remove_def)
qed

lemma boot_ok: "seninf_ok (seninf_boot ports muxes cams prefs freqs volts clk)"
  by (simp add: seninf_ok_def seninf_boot_def mtk_cam_seninf_init_res_def owned_muxes_def seninf_probe_def init_fmt_def
      ctx_ok_def vc_zero_def SENINF_VC_MAXCNT_def)

lemma runs_ok:
  assumes "seninf_ok s" and "\<forall>k \<in> set calls. call_ports k \<subseteq> {..< core_num s}" and "ofold seninf_run calls s = Some t"
  shows "seninf_ok t \<and> core_num t = core_num s \<and> mux_num t = mux_num s"
  using assms
proof (induction calls arbitrary: s)
  case (Cons k calls)
  then obtain u where u: "seninf_run k s = Some u" "ofold seninf_run calls u = Some t"
    by (auto simp: bind_eq_Some_conv)
  then have "evolves s u" using Cons.prems by (auto intro: evolves_call)
  then show ?case
    using Cons.IH[OF _ _ u(2)] Cons.prems evolves_ok[of s u] by (simp add: evolves_def)
qed simp

definition all_muxes :: "seninf_core \<Rightarrow> nat list" where
  "all_muxes s = core_list_mux s @ concat (map (\<lambda>c. sx_list_mux (sx s c)) [0 ..< core_num s])"

lemma get_vcinfo_model: "mtk_cam_seninf_get_vcinfo si x = Some (ret, y) \<Longrightarrow> is_test_model y = is_test_model x"
proof -
  have step: "is_test_model (vs_ctx (vc_step si e w)) = is_test_model (vs_ctx w)" for e w
    by (auto simp: vc_step_def Let_def vc_format_def vc_classify_def vc_assign_group_def split: option.splits if_splits)
  have "is_test_model (vs_ctx (fold (vc_step si) es w)) = is_test_model (vs_ctx w)" for es w
    by (induction es arbitrary: w) (simp_all add: step)
  then show "mtk_cam_seninf_get_vcinfo si x = Some (ret, y) \<Longrightarrow> ?thesis"
    by (auto simp: mtk_cam_seninf_get_vcinfo_def get_vcinfo_by_pad_fmt_def Let_def split: if_splits)
qed

lemma mset_concat_upt: "mset (concat (map f [0 ..< n])) = (\<Sum>c < n. mset (f c))"
  by (induction n) simp_all

lemma ok_all_muxes:
  assumes "seninf_ok s"
  shows "distinct (all_muxes s) \<and> set (all_muxes s) = {0 ..< mux_num s}"
proof -
  have eq: "mset (all_muxes s) = mset [0 ..< mux_num s]"
    using assms unfolding seninf_ok_def owned_muxes_def all_muxes_def mset_append mset_concat_upt by blast
  show ?thesis using mset_eq_imp_distinct_iff[OF eq] mset_eq_setD[OF eq] by simp
qed

lemma ok_config_total: "seninf_ok s \<Longrightarrow> c < core_num s \<Longrightarrow> config_hw c s \<noteq> None"
  using config_hw_result[of s c] by (auto split: if_splits)

text \<open>C8. After any sequence of calls on the ports of the machine, every mux is on exactly one list,
  the free one or one port's, and configuring any port never reaches outside its array of muxes
  by group, whatever descriptors the sensors have sent.
\<close>

theorem mux_on_one_list:
  assumes "\<forall>k \<in> set calls. call_ports k \<subseteq> {..< ports}"
    and "ofold seninf_run calls (seninf_boot ports muxes cams prefs freqs volts clk) = Some s"
  shows "distinct (core_list_mux s @ concat (map (\<lambda>c. sx_list_mux (sx s c)) [0 ..< ports]))
    \<and> set (core_list_mux s @ concat (map (\<lambda>c. sx_list_mux (sx s c)) [0 ..< ports])) = {0 ..< muxes}
    \<and> (\<forall>c < ports. config_hw c s \<noteq> None)"
proof -
  have boot: "core_num (seninf_boot ports muxes cams prefs freqs volts clk) = ports"
    "mux_num (seninf_boot ports muxes cams prefs freqs volts clk) = muxes"
    by (simp_all add: seninf_boot_def mtk_cam_seninf_init_res_def)
  have "seninf_ok s \<and> core_num s = ports \<and> mux_num s = muxes"
    using runs_ok[OF boot_ok _ assms(2)] assms(1) by (simp only: boot)
  then show ?thesis using ok_all_muxes[of s] ok_config_total[of s] by (simp add: all_muxes_def)
qed

subsection \<open>Configuring a port\<close>

lemma of_nat_eq_iff_8: "m < 256 \<Longrightarrow> k < 256 \<Longrightarrow> (of_nat m :: u8) = of_nat k \<longleftrightarrow> m = k"
  by (auto simp: unat_of_nat dest!: arg_cong[where f = unat])

lemma vc_grp_card: "card (vc_grp s c ` A) = card ((\<lambda>i. vc_group (vi_vc (sx s c) ! i)) ` A)"
proof -
  have "vc_grp s c ` A = unat ` (\<lambda>i. vc_group (vi_vc (sx s c) ! i)) ` A" by (auto simp: vc_grp_def image_image)
  then show ?thesis by (simp add: card_image inj_on_def word_unat_eq_iff)
qed

lemma port_core_disjoint:
  assumes "seninf_ok s" and "c < core_num s"
  shows "set (core_list_mux s) \<inter> set (sx_list_mux (sx s c)) = {}"
proof -
  have "set (sx_list_mux (sx s c)) \<subseteq> set (concat (map (\<lambda>c. sx_list_mux (sx s c)) [0 ..< core_num s]))"
    using assms(2) by auto
  then show ?thesis using ok_all_muxes[OF assms(1)] by (auto simp: all_muxes_def)
qed

text \<open>C10. A port is configured with one mux for each group of its channels, or not at all: when the
  free muxes are as many as its groups, two channels have the same mux exactly when they are in
  the same group, all of them come from the free ones, and just as many have left; otherwise the
  answer is \<open>-EBUSY\<close> and the port holds no mux, not even one it held before.
\<close>

theorem config_by_group:
  assumes "seninf_ok s" and "c < core_num s" and "mux_num s \<le> 22"
  shows "if card ((\<lambda>i. vc_group (vi_vc (sx s c) ! i)) ` {..< vi_cnt (sx s c)}) \<le> length (core_list_mux s)
    then \<exists>t. config_hw c s = Some (0, t)
      \<and> (\<forall>i < vi_cnt (sx s c). \<forall>j < vi_cnt (sx s c).
           vc_mux (vi_vc (sx t c) ! i) = vc_mux (vi_vc (sx t c) ! j)
           \<longleftrightarrow> vc_group (vi_vc (sx s c) ! i) = vc_group (vi_vc (sx s c) ! j))
      \<and> (\<forall>i < vi_cnt (sx s c). unat (vc_mux (vi_vc (sx t c) ! i)) \<in> set (core_list_mux s) \<inter> set (sx_list_mux (sx t c)))
      \<and> length (core_list_mux t) + card ((\<lambda>i. vc_group (vi_vc (sx s c) ! i)) ` {..< vi_cnt (sx s c)})
          = length (core_list_mux s)
    else \<exists>t. config_hw c s = Some (- EBUSY, t) \<and> sx_list_mux (sx t c) = []
      \<and> length (core_list_mux t) = length (core_list_mux s) + length (sx_list_mux (sx s c))"
proof (cases "card (vc_grp s c ` {..< vi_cnt (sx s c)}) \<le> length (core_list_mux s)")
  case False
  then show ?thesis using config_hw_result[OF assms(1,2)] by (simp add: vc_grp_card)
next
  case True
  let ?n = "vi_cnt (sx s c)"
  let ?e = "emit_op c [Op_reset (seninfIdx (sx s c)), Op_set_vc (seninfIdx (sx s c)), Op_set_csi_mipi] s"
  obtain t g' where t: "config_hw c s = Some (0, t)" and d: "config_done c [0 ..< ?n] (\<lambda>_. None) ?e t g'"
    using config_hw_result[OF assms(1,2)] True by (simp only: if_True) blast
  have inj: "inj_on g' (dom g')" using d unfolding config_done_def by blast
  have dom: "dom g' = vc_grp s c ` {..< ?n}"
    and len: "length (core_list_mux t) + card (vc_grp s c ` {..< ?n}) = length (core_list_mux s)"
    and mux: "\<forall>i < ?n. vc_mux (vi_vc (sx t c) ! i) = of_nat (the (g' (vc_grp s c i)))"
    using d by (simp_all add: config_done_def atLeast0LessThan)
  obtain new where new: "sx_list_mux (sx t c) = sx_list_mux (sx s c) @ new" "set new \<subseteq> set (core_list_mux s)"
    "ran g' = set new"
    using d by (auto simp: config_done_def)
  have g: "\<exists>m. g' (vc_grp s c i) = Some m \<and> m \<in> set new \<and> m < 22" if "i < ?n" for i
  proof -
    have "vc_grp s c i \<in> dom g'" using that dom by auto
    then obtain m where m: "g' (vc_grp s c i) = Some m" by auto
    then have "m \<in> set new" using new(3) by (auto simp: ran_def)
    then show ?thesis using m new(2) ok_core_distinct[OF assms(1)] assms(3) by fastforce
  qed
  have same: "vc_mux (vi_vc (sx t c) ! i) = vc_mux (vi_vc (sx t c) ! j) \<longleftrightarrow> vc_grp s c i = vc_grp s c j"
    if ij: "i < ?n" "j < ?n" for i j
  proof -
    obtain m k where m: "g' (vc_grp s c i) = Some m" "m < 22" "g' (vc_grp s c j) = Some k" "k < 22"
      using g[OF ij(1)] g[OF ij(2)] by blast
    have "(of_nat m :: u8) = of_nat k \<longleftrightarrow> m = k" using m(2,4) by (simp add: of_nat_eq_iff_8)
    moreover have "m = k \<longleftrightarrow> vc_grp s c i = vc_grp s c j"
      using inj m(1,3) by (auto simp: inj_on_def dom_def)
    ultimately show ?thesis using mux ij m(1,3) by simp
  qed
  have "unat (vc_mux (vi_vc (sx t c) ! i)) \<in> set new" if i: "i < ?n" for i
    using g[OF i] mux i by (auto simp: unat_of_nat)
  moreover have "vc_grp s c i = vc_grp s c j \<longleftrightarrow> vc_group (vi_vc (sx s c) ! i) = vc_group (vi_vc (sx s c) ! j)" for i j
    by (simp add: vc_grp_def word_unat_eq_iff)
  ultimately show ?thesis
    using t same len[unfolded vc_grp_card] True[unfolded vc_grp_card] new by auto
qed

subsection \<open>A sensor that does not start\<close>

lemma isp_clk_cases:
  "snd (update_isp_clk c s) = s
   \<or> (\<exists>r ops. snd (update_isp_clk c s) = emit_op c ops (upd_sx c (\<lambda>x. x\<lparr>isp_freq := r\<rparr>) s))"
  by (auto simp: update_isp_clk_def seninf_dfs_set_def Let_def split: option.splits)

text \<open>What a port keeps while it is configured.\<close>

definition port_view :: "seninf_ctx \<Rightarrow> bool \<times> nat \<times> bool \<times> int \<times> nat" where
  "port_view x = (sx_streaming x, is_test_model x, sx_sensor x, sx_pm_users x, vi_cnt x)"

lemma port_view_simps [simp]:
  "port_view (upd_vc i f x) = port_view x" "port_view (x\<lparr>sx_list_mux := L\<rparr>) = port_view x"
  "port_view (x\<lparr>isp_freq := r\<rparr>) = port_view x"
  by (simp_all add: port_view_def upd_vc_def)

lemma config_vc_view: "port_view (sx (config_vc c i m skip s) c) = port_view (sx s c)"
  by (simp add: config_vc_def Let_def)

lemma config_vcs_view: "config_vcs c is g s = Some (ret, t) \<Longrightarrow> port_view (sx t c) = port_view (sx s c)"
proof (induction "is" arbitrary: g s)
  case (Cons i "is")
  let ?s0 = "upd_sx c (upd_vc i (\<lambda>v. v\<lparr>vc_enable := True\<rparr>)) s"
  obtain r s1 where p: "mtk_cam_seninf_mux_get_pref c [0 ..< pref_mux_num ?s0] ?s0 = (r, s1)" by fastforce
  then have "port_view (sx s1 c) = port_view (sx s c)" by (cases rule: get_pref_cases) simp_all
  moreover have "port_view (sx (mtk_cam_seninf_release_mux c s1) c) = port_view (sx s1 c)" by (simp add: release_mux_eq)
  ultimately show ?case
    using Cons.prems Cons.IH[of _ "config_vc c i _ True ?s0"] Cons.IH[of _ "config_vc c i _ False s1"]
    by (auto simp: mtk_cam_seninf_is_vc_enabled_def Let_def config_vc_view p simp del: upd_sx_fields(7)
        split: if_splits option.splits)
qed simp

lemma read_rates_view: "read_rates si x = Some y \<Longrightarrow> port_view y = port_view x \<and> vi_vc y = vi_vc x"
  by (auto simp: read_rates_def get_buffered_pixel_rate_def bind_eq_Some_conv Let_def port_view_def
      split: option.splits prod.splits)

lemma mbus_view: "port_view (snd (get_mbus_config si x)) = port_view x"
  by (simp add: get_mbus_config_def Let_def port_view_def split: option.splits prod.splits)

text \<open>One start that the sensor refuses, with enough free muxes.\<close>

lemma refused_start:
  assumes ok: "seninf_ok s" and c: "c < core_num s" and port: "port_view (sx s c) = (False, 0, True, k, n)"
    and si: "si_s_stream si True \<noteq> 0" "0 \<le> si_pm_get si" "seninf_run (Sc_stream si c True) s = Some t"
    and free: "card (vc_grp s c ` {..< n}) \<le> length (core_list_mux s)"
  shows "port_view (sx t c) = (False, 0, True, k + 1, n) \<and> vc_grp t c = vc_grp s c
    \<and> length (core_list_mux t) + card (vc_grp s c ` {..< n}) = length (core_list_mux s)"
proof -
  obtain ret where "stream_on_port si c s = Some (ret, t)"
    using si(3) port by (auto simp: seninf_s_stream_def port_view_def)
  then show ?thesis
  proof (cases rule: stream_on_cases)
    case (pm x)
    then show ?thesis using si(2) by simp
  next
    case (run x s2 r s3)
    let ?s1 = "upd_sx c (\<lambda>x. x\<lparr>sx_pm_users := sx_pm_users x + 1\<rparr>) (upd_sx c (\<lambda>_. x) s)"
    have x: "port_view x = (False, 0, True, k, n)" "vi_vc x = vi_vc (sx s c)" "ctx_ok x = ctx_ok (sx s c)"
      using read_rates_view[OF run(1)] read_rates_ok[OF run(1)] port by (simp_all add: mbus_view mbus_config_ok)
    have s2: "port_view (sx s2 c) = (False, 0, True, k + 1, n)" "vc_grp s2 c = vc_grp s c" "core_list_mux s2 = core_list_mux s"
      using isp_clk_cases[of c ?s1] x(1,2) unfolding run(2)[symmetric] by (auto simp: port_view_def vc_grp_def fun_eq_iff)
    have "evolves (upd_sx c (\<lambda>_. x) s) ?s1" by (rule evolves_field) simp_all
    then have e: "evolves s s2"
      using evolves_read_rates[OF run(1)] evolves_isp_clk[of ?s1 c] evolves_trans unfolding run(2) by blast
    have ok2: "seninf_ok s2" "c < core_num s2" using evolves_ok[OF e ok] evolves_num[OF e] c by simp_all
    have cnt: "vi_cnt (sx s2 c) = n" using s2(1) by (simp add: port_view_def)
    have view: "port_view (sx s3 c) = port_view (sx s2 c)"
      using config_vcs_view run(3) by (fastforce simp: config_hw_def)
    have "r = 0 \<and> vc_grp s3 c = vc_grp s2 c \<and> length (core_list_mux s3) + card (vc_grp s c ` {..< n}) = length (core_list_mux s)"
      using config_hw_result[OF ok2] free run(3) cnt s2(2,3)
      by (auto simp: config_done_def atLeast0LessThan split: if_splits)
    moreover have "t = emit_op c [Op_sensor_stream True] (snd (notify_fsync_cammux_usage si c s3))"
      using run(4) calculation si(1) by auto
    ultimately show ?thesis using view s2 notify_eq[of si c s3] by auto
  qed
qed

lemma refused_starts:
  assumes "seninf_ok s" and "c < core_num s" and "port_view (sx s c) = (False, 0, True, p, n)"
    and "si_s_stream si True \<noteq> 0" and "0 \<le> si_pm_get si"
    and "ofold seninf_run (replicate k (Sc_stream si c True)) s = Some t"
    and "k * card (vc_grp s c ` {..< n}) \<le> length (core_list_mux s)"
  shows "port_view (sx t c) = (False, 0, True, p + int k, n)
    \<and> length (core_list_mux t) + k * card (vc_grp s c ` {..< n}) = length (core_list_mux s)"
  using assms
proof (induction k arbitrary: s p)
  case (Suc k)
  obtain u where u: "seninf_run (Sc_stream si c True) s = Some u" "ofold seninf_run (replicate k (Sc_stream si c True)) u = Some t"
    using Suc.prems(6) by (auto simp: bind_eq_Some_conv simp del: seninf_run.simps)
  have step: "port_view (sx u c) = (False, 0, True, p + 1, n)" "vc_grp u c = vc_grp s c"
    "length (core_list_mux u) + card (vc_grp s c ` {..< n}) = length (core_list_mux s)"
    using refused_start[OF Suc.prems(1-5) u(1)] Suc.prems(7) by auto
  have "evolves s u" using Suc.prems(2) u(1) by (intro evolves_call[of "Sc_stream si c True"]) simp_all
  then have ok: "seninf_ok u" "c < core_num u" using evolves_ok Suc.prems(1,2) evolves_num by auto
  have "k * card (vc_grp u c ` {..< n}) \<le> length (core_list_mux u)" using Suc.prems(7) step(2,3) by simp
  from Suc.IH[OF ok step(1) Suc.prems(4,5) u(2) this] show ?case using step(2,3) by simp
qed simp

text \<open>C11. A sensor that refuses to start costs muxes and power each time: as long as the free
  muxes suffice, that is for any number of attempts whose product with the number of the port's
  groups is at most the number of free muxes, after these attempts the free muxes have shrunk by
  one for each group and attempt, the port's runtime-PM count has grown by one for each attempt,
  and since the port does not count as streaming, switching it off does nothing. (The first attempt
  that no longer finds enough muxes returns \<open>-EBUSY\<close> and gives the port's muxes back.) The port is
  not streaming, has its sensor linked and is not the test model.
\<close>

theorem refused_start_keeps_muxes:
  assumes "seninf_ok s" and "c < core_num s" and "\<not> sx_streaming (sx s c)" and "is_test_model (sx s c) = 0" and "sx_sensor (sx s c)"
    and "si_s_stream si True \<noteq> 0" and "0 \<le> si_pm_get si"
    and "ofold seninf_run (replicate k (Sc_stream si c True)) s = Some t"
    and "k * card ((\<lambda>i. vc_group (vi_vc (sx s c) ! i)) ` {..< vi_cnt (sx s c)}) \<le> length (core_list_mux s)"
  shows "length (core_list_mux t) + k * card ((\<lambda>i. vc_group (vi_vc (sx s c) ! i)) ` {..< vi_cnt (sx s c)})
      = length (core_list_mux s)
    \<and> sx_pm_users (sx t c) = sx_pm_users (sx s c) + int k
    \<and> seninf_run (Sc_stream si c False) t = Some t"
proof -
  have port: "port_view (sx s c) = (False, 0, True, sx_pm_users (sx s c), vi_cnt (sx s c))"
    using assms(3-5) by (simp add: port_view_def)
  have r: "port_view (sx t c) = (False, 0, True, sx_pm_users (sx s c) + int k, vi_cnt (sx s c))"
    "length (core_list_mux t) + k * card (vc_grp s c ` {..< vi_cnt (sx s c)}) = length (core_list_mux s)"
    using refused_starts[OF assms(1,2) port assms(6-8)] assms(9) by (simp_all add: vc_grp_card)
  then show ?thesis by (simp add: vc_grp_card port_view_def seninf_s_stream_def)
qed

subsection \<open>A format set while the port streams\<close>

text \<open>C12. Setting the sink format of a streaming port replaces the channels it was configured with:
  when the sensor's descriptor cannot be read and the format is not one of the known ones, the
  next stream-off hands the port's muxes back without disabling any of them or their cam muxes.
\<close>

theorem format_change_leaves_muxes_on:
  assumes "sx_streaming (sx s c)" and "is_test_model (sx s c) = 0" and "sx_sensor (sx s c)"
    and "si_desc_ctrl si" and "si_desc_ret si \<noteq> 0" and "si_s_stream si False = 0"
    and "to_std_fmt_code (sf_code f) \<notin> mbus_raw10 \<union> mbus_raw12 \<union> {MEDIA_BUS_FMT_YUYV8_2X8}"
    and "ofold seninf_run [Sc_set_fmt si c (int PAD_SINK) False f, Sc_stream si c False] s = Some t"
  shows "core_list_mux t = core_list_mux s @ sx_list_mux (sx s c) \<and> sx_list_mux (sx t c) = [] \<and> \<not> sx_streaming (sx t c)
    \<and> (\<exists>ops. core_ops t c = core_ops s c @ ops
          \<and> (\<forall>m. Op_disable_mux m \<notin> set ops) \<and> (\<forall>m. Op_disable_cammux m \<notin> set ops))"
proof -
  let ?x = "(sx s c)\<lparr>sx_fmt := (sx_fmt (sx s c))(PAD_SINK := f)\<rparr>"
  have "mtk_cam_seninf_get_vcinfo si ?x = Some (-1, ?x\<lparr>vi_cnt := 0\<rparr>)"
    using assms(3-5,7) by (simp add: mtk_cam_seninf_get_vcinfo_def get_vcinfo_by_pad_fmt_def Let_def)
  then have fmt: "seninf_run (Sc_set_fmt si c (int PAD_SINK) False f) s
      = Some (upd_sx c (\<lambda>_. ?x\<lparr>vi_cnt := 0\<rparr>) (upd_sx c (\<lambda>_. ?x) s))"
    using assms(2) by (simp add: mtk_cam_seninf_set_fmt_def Let_def pad_defs)
  let ?s1 = "upd_sx c (\<lambda>_. ?x\<lparr>vi_cnt := 0\<rparr>) (upd_sx c (\<lambda>_. ?x) s)"
  let ?s2 = "mtk_cam_seninf_release_mux c (emit_op c [Op_sensor_stream False] ?s1)"
  have idle: "mtk_cam_seninf_set_idle c (emit_op c [Op_sensor_stream False] ?s1) = emit_op c [Op_sensor_stream False] ?s1"
    by (simp add: mtk_cam_seninf_set_idle_def)
  have t: "t = upd_sx c (\<lambda>x. x\<lparr>sx_pm_users := sx_pm_users x - 1, sx_streaming := False\<rparr>)
      (emit_op c [Op_poweroff] (snd (seninf_dfs_set c 0 ?s2)))"
    using assms(1-3,6,8) fmt by (simp add: seninf_s_stream_def stream_off_port_def Let_def idle del: seninf_run.simps(4))
  have "\<exists>ops. set ops \<subseteq> range (case_prod Op_voltage) \<and> core_ops (snd (seninf_dfs_set c 0 ?s2)) c = core_ops ?s2 c @ ops
      \<and> core_list_mux (snd (seninf_dfs_set c 0 ?s2)) = core_list_mux ?s2
      \<and> sx_list_mux (sx (snd (seninf_dfs_set c 0 ?s2)) c) = sx_list_mux (sx ?s2 c)"
    by (auto simp: seninf_dfs_set_def Let_def split: option.splits)
  then obtain ops where ops: "set ops \<subseteq> range (case_prod Op_voltage)"
    "core_ops (snd (seninf_dfs_set c 0 ?s2)) c = core_ops ?s2 c @ ops"
    "core_list_mux (snd (seninf_dfs_set c 0 ?s2)) = core_list_mux ?s2"
    "sx_list_mux (sx (snd (seninf_dfs_set c 0 ?s2)) c) = sx_list_mux (sx ?s2 c)"
    by blast
  have "core_ops t c = core_ops s c @ ([Op_sensor_stream False] @ ops @ [Op_poweroff])"
    unfolding t using ops(2) by (simp add: release_mux_eq)
  moreover have "core_list_mux t = core_list_mux s @ sx_list_mux (sx s c)" "sx_list_mux (sx t c) = []" "\<not> sx_streaming (sx t c)"
    unfolding t using ops(3,4) by (simp_all add: release_mux_eq)
  ultimately show ?thesis using ops(1) by (intro conjI exI[of _ "[Op_sensor_stream False] @ ops @ [Op_poweroff]"]) auto
qed

subsection \<open>An example\<close>

text \<open>A sensor with two exposures and a phase-detection channel, on a machine with eight muxes.\<close>

definition demo_entry :: "u8 \<Rightarrow> VC_FEATURE \<Rightarrow> csi2_entry" where
  "demo_entry dt d = \<lparr>ce_channel = 0, ce_data_type = dt, ce_hsize = 4000, ce_vsize = 3000, ce_desc = d\<rparr>"

definition demo_sensor :: "int \<Rightarrow> int \<Rightarrow> sensor_if" where
  "demo_sensor desc_ret start_ret =
    \<lparr>si_desc_ctrl = True, si_desc_ret = desc_ret, si_desc_csi2 = True,
     si_desc_entries = [demo_entry 0x2b VC_STAGGER_NE, demo_entry 0x2b VC_STAGGER_SE, demo_entry 0x30 VC_PDAF_STATS],
     si_fmt = None, si_interval = None, si_hblank = None, si_vblank = None, si_pixel_rate = Some 300000000,
     si_cust_rate = None, si_mbus = None, si_s_stream = (\<lambda>on. if on then start_ret else 0), si_fsync_ctrl = True, si_pm_get = 0\<rparr>"

text \<open>A start has a result when the sensor's format cannot be read.\<close>

lemma start_total:
  assumes "seninf_ok s" and "c < core_num s" and "si_fmt si = None" and "is_test_model (sx s c) = 0"
  shows "\<exists>t. seninf_run (Sc_stream si c True) s = Some t"
proof -
  have "read_rates si x \<noteq> None" for x by (simp add: read_rates_def get_buffered_pixel_rate_def assms(3) Let_def split: option.splits)
  then obtain x where x: "read_rates si (snd (get_mbus_config si (sx s c))) = Some x" by blast
  let ?s1 = "upd_sx c (\<lambda>x. x\<lparr>sx_pm_users := sx_pm_users x + 1\<rparr>) (upd_sx c (\<lambda>_. x) s)"
  have "evolves (upd_sx c (\<lambda>_. x) s) ?s1" by (rule evolves_field) simp_all
  then have e: "evolves s (snd (update_isp_clk c ?s1))"
    using evolves_read_rates[OF x] evolves_isp_clk[of ?s1 c] evolves_trans by blast
  obtain ret s3 where "config_hw c (snd (update_isp_clk c ?s1)) = Some (ret, s3)"
    using ok_config_total[OF evolves_ok[OF e assms(1)]] evolves_num[OF e] assms(2) by fastforce
  then show ?thesis
    using x assms(4) by (simp add: seninf_s_stream_def stream_on_port_def Let_def)
qed

text \<open>Port 0 with the channels of that sensor, each in its group; streaming when \<open>on\<close>.\<close>

definition demo_vc :: "u8 \<Rightarrow> VC_FEATURE \<Rightarrow> nat \<Rightarrow> u8 \<Rightarrow> u8 \<Rightarrow> seninf_vc" where
  "demo_vc dt f pad g m = vc_zero\<lparr>vc_dt := dt, vc_feature := f, vc_out_pad := pad, vc_group := g, vc_mux := m, vc_enable := True\<rparr>"

definition demo_port :: "bool \<Rightarrow> seninf_core" where
  "demo_port on =
    upd_sx 0 (\<lambda>x. x\<lparr>vi_vc := [demo_vc 0x2b VC_RAW_DATA 1 0 0, demo_vc 0x2b VC_RAW_DATA 3 1 1, demo_vc 0x30 VC_PDAF_STATS 6 2 2]
                      @ replicate 5 vc_zero,
                    vi_cnt := 3, sx_sensor := True, sx_streaming := on, sx_list_mux := (if on then [0, 1, 2] else [])\<rparr>)
      ((seninf_boot 2 8 13 8 [] [] False)\<lparr>core_list_mux := (if on then [3, 4, 5, 6, 7] else [0, 1, 2, 3, 4, 5, 6, 7])\<rparr>)"

lemma demo_port_simps [simp]:
  "core_num (demo_port on) = 2" "mux_num (demo_port on) = 8"
  "core_list_mux (demo_port on) = (if on then [3, 4, 5, 6, 7] else [0, 1, 2, 3, 4, 5, 6, 7])"
  "vi_cnt (sx (demo_port on) 0) = 3" "sx_sensor (sx (demo_port on) 0)" "sx_streaming (sx (demo_port on) 0) = on"
  "is_test_model (sx (demo_port on) 0) = 0" "sx_pm_users (sx (demo_port on) 0) = 0"
  "sx_list_mux (sx (demo_port on) 0) = (if on then [0, 1, 2] else [])"
  "vc_group (vi_vc (sx (demo_port on) 0) ! 0) = 0" "vc_group (vi_vc (sx (demo_port on) 0) ! 1) = 1"
  "vc_group (vi_vc (sx (demo_port on) 0) ! 2) = 2"
  by (simp_all add: demo_port_def seninf_boot_def mtk_cam_seninf_init_res_def seninf_probe_def init_fmt_def demo_vc_def)

lemma demo_port_ok: "seninf_ok (demo_port on)"
proof -
  have lists: "sx_list_mux (sx (demo_port on) 1) = []" "ctx_ok (sx (demo_port on) 1)" "ctx_ok (sx (demo_port on) 0)"
    by (simp_all add: demo_port_def seninf_boot_def mtk_cam_seninf_init_res_def seninf_probe_def init_fmt_def demo_vc_def
        ctx_ok_def SENINF_VC_MAXCNT_def vc_zero_def)
  have "{..< 2} = {0, 1 :: nat}" by auto
  then have "owned_muxes (demo_port on) = mset [0, 1, 2, 3, 4, 5, 6, 7]"
    using lists(1) by (simp add: owned_muxes_def add.commute)
  moreover have "[0 ..< 8] = [0, 1, 2, 3, 4, 5, 6, 7 :: nat]" by (simp add: upt_rec)
  ultimately show ?thesis using lists by (simp add: seninf_ok_def less_2_cases_iff)
qed

lemma demo_groups:
  "card ((\<lambda>i. vc_group (vi_vc (sx (demo_port on) 0) ! i)) ` {..< vi_cnt (sx (demo_port on) 0)}) = 3"
proof -
  have "{..< 3} = {0, 1, 2 :: nat}" by auto
  then show ?thesis by (simp del: One_nat_def)
qed

theorem mux_on_one_list_witness:
  "case ofold seninf_run [Sc_link (demo_sensor 0 0) 0 False True, Sc_stream (demo_sensor 0 0) 0 True] (seninf_boot 2 8 13 8 [] [] False) of
     Some s \<Rightarrow> distinct (core_list_mux s @ concat (map (\<lambda>c. sx_list_mux (sx s c)) [0 ..< 2])) | None \<Rightarrow> False"
proof -
  let ?boot = "seninf_boot 2 8 13 8 [] [] False"
  have num: "core_num ?boot = 2" by (simp add: seninf_boot_def mtk_cam_seninf_init_res_def)
  obtain ret y where y: "mtk_cam_seninf_get_vcinfo (demo_sensor 0 0) ((sx ?boot 0)\<lparr>sx_sensor := True\<rparr>) = Some (ret, y)"
    by (simp add: mtk_cam_seninf_get_vcinfo_def demo_sensor_def MTK_FRAME_DESC_ENTRY_MAX_def del: fold_simps)
  then have link: "seninf_run (Sc_link (demo_sensor 0 0) 0 False True) ?boot = Some (upd_sx 0 (\<lambda>_. y) ?boot)"
    by (simp add: seninf_link_setup_def)
  have "evolves ?boot (upd_sx 0 (\<lambda>_. y) ?boot)" using num by (intro evolves_call[OF _ link]) simp
  then have ok: "seninf_ok (upd_sx 0 (\<lambda>_. y) ?boot)" using boot_ok evolves_ok by blast
  have "is_test_model y = 0" using get_vcinfo_model[OF y] by (simp add: seninf_boot_def mtk_cam_seninf_init_res_def seninf_probe_def init_fmt_def)
  then obtain s where s: "seninf_run (Sc_stream (demo_sensor 0 0) 0 True) (upd_sx 0 (\<lambda>_. y) ?boot) = Some s"
    using start_total[OF ok, of 0 "demo_sensor 0 0"] num by (auto simp: demo_sensor_def)
  have run: "ofold seninf_run [Sc_link (demo_sensor 0 0) 0 False True, Sc_stream (demo_sensor 0 0) 0 True] ?boot = Some s"
    using link s by (simp del: seninf_run.simps)
  have "distinct (core_list_mux s @ concat (map (\<lambda>c. sx_list_mux (sx s c)) [0 ..< 2]))"
    using mux_on_one_list[OF _ run] by (simp del: ofold.simps)
  then show ?thesis unfolding run option.case .
qed

theorem config_by_group_witness:
  "\<exists>t. config_hw 0 (demo_port False) = Some (0, t) \<and> vc_mux (vi_vc (sx t 0) ! 0) \<noteq> vc_mux (vi_vc (sx t 0) ! 2)"
proof -
  have "(3 :: nat) \<le> length (core_list_mux (demo_port False))" by simp
  then obtain t where t: "config_hw 0 (demo_port False) = Some (0, t)"
    "\<forall>i < vi_cnt (sx (demo_port False) 0). \<forall>j < vi_cnt (sx (demo_port False) 0).
       vc_mux (vi_vc (sx t 0) ! i) = vc_mux (vi_vc (sx t 0) ! j)
       \<longleftrightarrow> vc_group (vi_vc (sx (demo_port False) 0) ! i) = vc_group (vi_vc (sx (demo_port False) 0) ! j)"
    using config_by_group[OF demo_port_ok[of False], of 0] unfolding demo_groups by (simp only: if_True) auto
  then show ?thesis by auto
qed

theorem refused_start_keeps_muxes_witness:
  "case ofold seninf_run (replicate 2 (Sc_stream (demo_sensor 0 (-5)) 0 True)) (demo_port False) of
     Some t \<Rightarrow> length (core_list_mux t) = 2 \<and> sx_pm_users (sx t 0) = 2 | None \<Rightarrow> False"
proof -
  let ?k = "Sc_stream (demo_sensor 0 (-5)) 0 True"
  have fmt: "si_fmt (demo_sensor 0 (-5)) = None" and si: "si_s_stream (demo_sensor 0 (-5)) True \<noteq> 0" "0 \<le> si_pm_get (demo_sensor 0 (-5))"
    by (simp_all add: demo_sensor_def)
  obtain u where u: "seninf_run ?k (demo_port False) = Some u" using start_total[OF demo_port_ok _ fmt, of 0 False] by auto
  have "evolves (demo_port False) u" by (rule evolves_call[OF _ u]) simp
  then have ok: "seninf_ok u" "core_num u = 2" using evolves_ok demo_port_ok evolves_num by fastforce+
  have "port_view (sx (demo_port False) 0) = (False, 0, True, 0, 3)" by (simp add: port_view_def)
  then have "port_view (sx u 0) = (False, 0, True, 1, 3)"
    using refused_start[OF demo_port_ok _ _ si u, of 0 3] demo_groups[of False] by (simp add: vc_grp_card)
  then obtain t where "seninf_run ?k u = Some t" using start_total[OF ok(1) _ fmt, of 0] ok(2) by (auto simp: port_view_def)
  with u have t: "ofold seninf_run (replicate 2 ?k) (demo_port False) = Some t" by (simp add: numeral_2_eq_2 del: seninf_run.simps)
  show ?thesis
    using refused_start_keeps_muxes[OF demo_port_ok _ _ _ _ si t] unfolding t option.case demo_groups by simp
qed

theorem format_change_leaves_muxes_on_witness:
  "case ofold seninf_run [Sc_set_fmt (demo_sensor 1 0) 0 (int PAD_SINK) False \<lparr>sf_code = 0x3001, sf_width = 640, sf_height = 480\<rparr>,
     Sc_stream (demo_sensor 1 0) 0 False] (demo_port True) of
   Some t \<Rightarrow> core_list_mux t = [3, 4, 5, 6, 7, 0, 1, 2] | None \<Rightarrow> False"
proof -
  let ?calls = "[Sc_set_fmt (demo_sensor 1 0) 0 (int PAD_SINK) False \<lparr>sf_code = 0x3001, sf_width = 640, sf_height = 480\<rparr>,
     Sc_stream (demo_sensor 1 0) 0 False]"
  have code: "to_std_fmt_code 0x3001 \<notin> mbus_raw10 \<union> mbus_raw12 \<union> {MEDIA_BUS_FMT_YUYV8_2X8}"
    by (simp add: to_std_fmt_code_def mbus_raw10_def mbus_raw12_def MEDIA_BUS_FMT_YUYV8_2X8_def)
  have "ofold seninf_run ?calls (demo_port True) \<noteq> None"
    using code by (simp add: mtk_cam_seninf_set_fmt_def mtk_cam_seninf_get_vcinfo_def get_vcinfo_by_pad_fmt_def Let_def
        demo_sensor_def seninf_s_stream_def pad_defs)
  then obtain t where t: "ofold seninf_run ?calls (demo_port True) = Some t" by blast
  have "core_list_mux t = core_list_mux (demo_port True) @ sx_list_mux (sx (demo_port True) 0)"
    by (rule format_change_leaves_muxes_on[OF _ _ _ _ _ _ _ t, THEN conjunct1]) (use code in \<open>simp_all add: demo_sensor_def\<close>)
  then show ?thesis unfolding t option.case by simp
qed

end
