(* ===== verification/SeninfVc.thy ===== *)
theory SeninfVc
  imports SeninfClaims
begin

text \<open>
  What the virtual channels of a port are, for any frame descriptor a sensor may send
  (\<open>mtk_cam_seninf_get_vcinfo\<close>): the entries that are kept, their order, and which of them share a
  group, that is, a mux.
\<close>

unbundle bit_operations_syntax

datatype vc_kind = K_raw | K_yuv | K_own | K_meta | K_none

text \<open>The kind of an entry: by its user descriptor, else by its data type.\<close>

definition entry_kind :: "csi2_entry \<Rightarrow> vc_kind" where
  "entry_kind e =
    (if ce_desc e \<in> {VC_YUV_Y, VC_YUV_UV} then K_yuv
     else if ce_desc e \<in> {VC_PDAF_STATS_PIX_1, VC_PDAF_STATS_PIX_2, VC_PDAF_STATS_ME_PIX_1, VC_PDAF_STATS_ME_PIX_2,
                          VC_PDAF_STATS_SE_PIX_1, VC_PDAF_STATS_SE_PIX_2} then K_own
     else if ce_desc e \<in> {VC_3HDR_Y, VC_3HDR_AE, VC_3HDR_FLICKER, VC_PDAF_STATS, VC_GENERAL_EMBEDDED} then K_meta
     else if ce_data_type e \<in> {0x2a, 0x2b, 0x2c} then K_raw
     else if ce_data_type e = 0x1e then K_yuv else K_none)"

text \<open>The entries kept after \<open>r\<close> raw ones: raw entries are kept up to the third.\<close>

fun kept_entries :: "nat \<Rightarrow> csi2_entry list \<Rightarrow> csi2_entry list" where
  "kept_entries r [] = []"
| "kept_entries r (e # es) =
    (if entry_kind e = K_none \<or> (entry_kind e = K_raw \<and> 3 \<le> r) then kept_entries r es
     else e # kept_entries (if entry_kind e = K_raw then r + 1 else r) es)"

definition raw_count :: "csi2_entry list \<Rightarrow> nat" where
  "raw_count ks = length [e \<leftarrow> ks. entry_kind e = K_raw]"

lemma raw_count_snoc [simp]: "raw_count (ks @ [e]) = raw_count ks + (if entry_kind e = K_raw then 1 else 0)"
  by (simp add: raw_count_def)

lemma classify_kind:
  "vc_classify e w =
    (let vc = (vi_vc (vs_ctx w) ! vi_cnt (vs_ctx w))\<lparr>vc_vc := ce_channel e, vc_dt := ce_data_type e\<rparr>
     in case entry_kind e of
          K_none \<Rightarrow> None
        | K_raw \<Rightarrow> (if 3 \<le> vs_raw_cnt w then None
                    else Some (vc\<lparr>vc_out_pad := raw_pad (ce_desc e) (vs_raw_cnt w), vc_feature := VC_RAW_DATA,
                                  vc_group := of_nat (vs_grp w)\<rparr>,
                               w\<lparr>vs_raw_cnt := vs_raw_cnt w + 1, vs_grp := vs_grp w + 1\<rparr>))
        | K_yuv \<Rightarrow> Some (vc\<lparr>vc_feature := VC_RAW_DATA,
                           vc_out_pad := (case desc_pad (ce_desc e) of Some (_, pad) \<Rightarrow> pad | None \<Rightarrow> PAD_SRC_RAW0)\<rparr>, w)
        | _ \<Rightarrow> Some (vc\<lparr>vc_feature := fst (the (desc_pad (ce_desc e))), vc_out_pad := snd (the (desc_pad (ce_desc e)))\<rparr>, w))"
  by (cases "ce_desc e") (simp_all add: vc_classify_def entry_kind_def desc_pad_def Let_def)

lemma kind_feature:
  "entry_kind e = K_own \<Longrightarrow> own_group (fst (the (desc_pad (ce_desc e)))) \<and> fst (the (desc_pad (ce_desc e))) \<noteq> VC_RAW_DATA"
  "entry_kind e = K_meta \<Longrightarrow> \<not> own_group (fst (the (desc_pad (ce_desc e)))) \<and> fst (the (desc_pad (ce_desc e))) \<noteq> VC_RAW_DATA"
  by (cases "ce_desc e"; auto simp: entry_kind_def desc_pad_def own_group_def split: if_splits)+

text \<open>What the scan has established for the entries \<open>ks\<close> it kept.\<close>

definition vc_matches :: "seninf_ctx \<Rightarrow> csi2_entry list \<Rightarrow> seninf_ctx \<Rightarrow> bool" where
  "vc_matches x ks y \<longleftrightarrow> vi_cnt y = length ks
    \<and> (\<forall>i < length ks. vc_vc (vi_vc y ! i) = ce_channel (ks ! i) \<and> vc_dt (vi_vc y ! i) = ce_data_type (ks ! i)
         \<and> vc_exp_hsize (vi_vc y ! i) = ce_hsize (ks ! i) \<and> vc_exp_vsize (vi_vc y ! i) = ce_vsize (ks ! i))
    \<and> (\<forall>i < length ks. \<forall>j < length ks. entry_kind (ks ! i) \<noteq> K_yuv \<longrightarrow> entry_kind (ks ! j) \<noteq> K_yuv \<longrightarrow>
         (vc_group (vi_vc y ! i) = vc_group (vi_vc y ! j) \<longleftrightarrow>
            i = j \<or> (entry_kind (ks ! i) = K_meta \<and> entry_kind (ks ! j) = K_meta)))
    \<and> (\<forall>i < length ks. entry_kind (ks ! i) = K_yuv \<longrightarrow> vc_group (vi_vc y ! i) = vc_group (vi_vc x ! i))"

definition scan_inv :: "seninf_ctx \<Rightarrow> csi2_entry list \<Rightarrow> vc_scan \<Rightarrow> bool" where
  "scan_inv x ks w \<longleftrightarrow> vc_matches x ks (vs_ctx w) \<and> length (vi_vc (vs_ctx w)) = SENINF_VC_MAXCNT
    \<and> (\<forall>i < length ks. entry_kind (ks ! i) \<noteq> K_yuv \<longrightarrow>
         (\<exists>g < vs_grp w. vc_group (vi_vc (vs_ctx w) ! i) = of_nat g \<and> (entry_kind (ks ! i) = K_meta \<longleftrightarrow> vs_meta w = Some g)))
    \<and> (\<forall>i. length ks \<le> i \<longrightarrow> vc_group (vi_vc (vs_ctx w) ! i) = vc_group (vi_vc x ! i))
    \<and> vs_grp w \<le> length ks \<and> (\<forall>m. vs_meta w = Some m \<longrightarrow> m < vs_grp w) \<and> vs_raw_cnt w = raw_count ks \<and> raw_count ks \<le> 3"

text \<open>Adding one entry with the group \<open>g\<close>.\<close>

lemma scan_inv_add:
  assumes inv: "scan_inv x ks w" and room: "length ks < SENINF_VC_MAXCNT"
    and ctx: "vi_vc (vs_ctx w2) = (vi_vc (vs_ctx w))[length ks := vc]" "vi_cnt (vs_ctx w2) = Suc (length ks)"
    and vc: "vc_vc vc = ce_channel e" "vc_dt vc = ce_data_type e" "vc_exp_hsize vc = ce_hsize e" "vc_exp_vsize vc = ce_vsize e"
    and grp: "entry_kind e = K_yuv \<Longrightarrow> vc_group vc = vc_group (vi_vc x ! length ks) \<and> vs_grp w2 = vs_grp w \<and> vs_meta w2 = vs_meta w"
      "entry_kind e \<in> {K_raw, K_own} \<Longrightarrow> vc_group vc = of_nat (vs_grp w) \<and> vs_grp w2 = Suc (vs_grp w) \<and> vs_meta w2 = vs_meta w"
      "entry_kind e = K_meta \<Longrightarrow> vc_group vc = of_nat (the (vs_meta w2)) \<and>
         (case vs_meta w of None \<Rightarrow> vs_meta w2 = Some (vs_grp w) \<and> vs_grp w2 = Suc (vs_grp w)
                          | Some m \<Rightarrow> vs_meta w2 = Some m \<and> vs_grp w2 = vs_grp w)"
    and raw: "vs_raw_cnt w2 = raw_count (ks @ [e])" "raw_count (ks @ [e]) \<le> 3"
    and kind: "entry_kind e \<noteq> K_none"
  shows "scan_inv x (ks @ [e]) w2"
proof -
  let ?n = "length ks" and ?v = "vi_vc (vs_ctx w)" and ?v2 = "vi_vc (vs_ctx w2)"
  let ?k = "\<lambda>i. entry_kind ((ks @ [e]) ! i)"
  have len: "length ?v = SENINF_VC_MAXCNT" and grpn: "vs_grp w \<le> ?n" using inv by (auto simp: scan_inv_def)
  have old: "?v2 ! i = ?v ! i" if "i \<noteq> ?n" for i using that by (simp add: ctx(1))
  have new: "?v2 ! ?n = vc" using room len by (simp add: ctx(1))
  have meta: "\<And>m. vs_meta w = Some m \<Longrightarrow> m < vs_grp w" using inv by (simp add: scan_inv_def)
  have cases: "entry_kind e = K_yuv \<and> vs_grp w2 = vs_grp w \<and> vs_meta w2 = vs_meta w
      \<or> entry_kind e \<in> {K_raw, K_own} \<and> vs_grp w2 = Suc (vs_grp w) \<and> vs_meta w2 = vs_meta w \<and> vc_group vc = of_nat (vs_grp w)
      \<or> entry_kind e = K_meta \<and> vs_meta w = None \<and> vs_grp w2 = Suc (vs_grp w) \<and> vs_meta w2 = Some (vs_grp w)
        \<and> vc_group vc = of_nat (vs_grp w)
      \<or> entry_kind e = K_meta \<and> vs_meta w \<noteq> None \<and> vs_grp w2 = vs_grp w \<and> vs_meta w2 = vs_meta w
        \<and> vc_group vc = of_nat (the (vs_meta w))"
  proof (cases "entry_kind e")
    case K_meta then show ?thesis using grp(3) by (cases "vs_meta w") simp_all
  qed (use grp(1,2) kind in simp_all)
  have mono1: "vs_grp w \<le> vs_grp w2" using cases by (elim disjE) simp_all
  have mono2: "vs_grp w2 \<le> Suc ?n" using cases grpn by (elim disjE) simp_all
  have mono3: "m < vs_grp w2" if "vs_meta w2 = Some m" for m
    using cases that meta by (elim disjE) (auto simp: less_Suc_eq)
  have assigned_old: "\<exists>g < vs_grp w. vc_group (?v ! i) = of_nat g \<and> (entry_kind (ks ! i) = K_meta \<longleftrightarrow> vs_meta w = Some g)
      \<and> (entry_kind (ks ! i) = K_meta \<longleftrightarrow> vs_meta w2 = Some g)"
    if i: "i < ?n" "entry_kind (ks ! i) \<noteq> K_yuv" for i
  proof -
    obtain g where g: "g < vs_grp w" "vc_group (?v ! i) = of_nat g" "entry_kind (ks ! i) = K_meta \<longleftrightarrow> vs_meta w = Some g"
      using inv i by (auto simp: scan_inv_def)
    have "vs_meta w2 = Some g \<longleftrightarrow> vs_meta w = Some g"
      using cases g(1) by (elim disjE) auto
    then show ?thesis using g by auto
  qed
  have assigned_new: "\<exists>g < vs_grp w2. vc_group vc = of_nat g \<and> (entry_kind e = K_meta \<longleftrightarrow> vs_meta w2 = Some g)
      \<and> (entry_kind e \<noteq> K_meta \<longrightarrow> g = vs_grp w)"
    if "entry_kind e \<noteq> K_yuv"
    using cases that meta by (elim disjE) (auto simp: less_Suc_eq)
  have small: "(of_nat g :: u8) = of_nat h \<longleftrightarrow> g = h" if "g < 9" "h < 9" for g h :: nat
    using that by (auto simp: unat_of_nat dest!: arg_cong[where f = unat])
  have bound: "vs_grp w < 9" "vs_grp w2 < 9" using grpn mono2 room by (simp_all add: SENINF_VC_MAXCNT_def)
  have pair: "vc_group (?v ! i) = vc_group vc \<longleftrightarrow> entry_kind (ks ! i) = K_meta \<and> entry_kind e = K_meta"
    if i: "i < ?n" "entry_kind (ks ! i) \<noteq> K_yuv" "entry_kind e \<noteq> K_yuv" for i
  proof -
    obtain g where g: "g < vs_grp w" "vc_group (?v ! i) = of_nat g" "entry_kind (ks ! i) = K_meta \<longleftrightarrow> vs_meta w2 = Some g"
      using assigned_old[OF i(1,2)] by blast
    obtain h where h: "h < vs_grp w2" "vc_group vc = of_nat h" "entry_kind e = K_meta \<longleftrightarrow> vs_meta w2 = Some h"
      "entry_kind e \<noteq> K_meta \<longrightarrow> h = vs_grp w"
      using assigned_new[OF i(3)] by blast
    have "vc_group (?v ! i) = vc_group vc \<longleftrightarrow> g = h" using g(1,2) h(1,2) bound by (simp add: small)
    then show ?thesis using g h by auto
  qed
  have m: "vc_matches x ks (vs_ctx w)" using inv by (simp add: scan_inv_def)
  have nth: "(ks @ [e]) ! i = (if i < ?n then ks ! i else e)" if "i < Suc ?n" for i
    using that by (auto simp: nth_append less_Suc_eq)
  have entries: "\<forall>i < Suc ?n. vc_vc (?v2 ! i) = ce_channel ((ks @ [e]) ! i) \<and> vc_dt (?v2 ! i) = ce_data_type ((ks @ [e]) ! i)
      \<and> vc_exp_hsize (?v2 ! i) = ce_hsize ((ks @ [e]) ! i) \<and> vc_exp_vsize (?v2 ! i) = ce_vsize ((ks @ [e]) ! i)"
    using m vc old new by (simp add: vc_matches_def nth less_Suc_eq)
  have groups: "\<forall>i < Suc ?n. \<forall>j < Suc ?n. ?k i \<noteq> K_yuv \<longrightarrow> ?k j \<noteq> K_yuv \<longrightarrow>
      (vc_group (?v2 ! i) = vc_group (?v2 ! j) \<longleftrightarrow> i = j \<or> (?k i = K_meta \<and> ?k j = K_meta))"
    using m old new pair by (auto simp: vc_matches_def nth less_Suc_eq dest: sym)
  have yuv: "\<forall>i < Suc ?n. ?k i = K_yuv \<longrightarrow> vc_group (?v2 ! i) = vc_group (vi_vc x ! i)"
    using m old new grp(1) by (auto simp: vc_matches_def nth less_Suc_eq)
  have assigned: "\<forall>i < Suc ?n. ?k i \<noteq> K_yuv \<longrightarrow>
      (\<exists>g < vs_grp w2. vc_group (?v2 ! i) = of_nat g \<and> (?k i = K_meta \<longleftrightarrow> vs_meta w2 = Some g))"
  proof (intro allI impI)
    fix i assume i: "i < Suc ?n" "?k i \<noteq> K_yuv"
    show "\<exists>g < vs_grp w2. vc_group (?v2 ! i) = of_nat g \<and> (?k i = K_meta \<longleftrightarrow> vs_meta w2 = Some g)"
    proof (cases "i = ?n")
      case True
      then show ?thesis using assigned_new i new by auto
    next
      case False
      then have "i < ?n" "entry_kind (ks ! i) \<noteq> K_yuv" "?k i = entry_kind (ks ! i)" using i nth[OF i(1)] by auto
      then show ?thesis using assigned_old[of i] old[of i] False mono1 by (metis less_le_trans)
    qed
  qed
  have rest: "\<forall>i. Suc ?n \<le> i \<longrightarrow> vc_group (?v2 ! i) = vc_group (vi_vc x ! i)"
    using inv old by (auto simp: scan_inv_def)
  show ?thesis
    unfolding scan_inv_def vc_matches_def length_append_singleton
    using entries groups yuv assigned rest mono2 mono3 raw ctx len by (simp add: Suc_le_eq[symmetric])
qed

text \<open>One entry is dropped, or kept with its group.\<close>

definition next_kept :: "csi2_entry list \<Rightarrow> csi2_entry \<Rightarrow> csi2_entry list" where
  "next_kept ks e = (if entry_kind e = K_none \<or> (entry_kind e = K_raw \<and> 3 \<le> raw_count ks) then ks else ks @ [e])"

lemma vc_format_vc [simp]: "vi_vc (vc_format si e vc x) = vi_vc x" "vi_cnt (vc_format si e vc x) = vi_cnt x"
  by (simp_all add: vc_format_def Let_def)

lemma vc_step_dropped:
  "vc_classify e w = None \<Longrightarrow> vs_grp (vc_step si e w) = vs_grp w \<and> vs_meta (vc_step si e w) = vs_meta w
    \<and> vs_raw_cnt (vc_step si e w) = vs_raw_cnt w \<and> vi_cnt (vs_ctx (vc_step si e w)) = vi_cnt (vs_ctx w)
    \<and> vi_vc (vs_ctx (vc_step si e w)) = (vi_vc (vs_ctx w))[vi_cnt (vs_ctx w) :=
        (vi_vc (vs_ctx w) ! vi_cnt (vs_ctx w))\<lparr>vc_vc := ce_channel e, vc_dt := ce_data_type e\<rparr>]"
  by (simp add: vc_step_def Let_def upd_vc_def)

lemma vc_step_kept:
  "vc_classify e w = Some p \<Longrightarrow> vc_assign_group p = (vc, w1) \<Longrightarrow> vs_grp (vc_step si e w) = vs_grp w1
    \<and> vs_meta (vc_step si e w) = vs_meta w1 \<and> vs_raw_cnt (vc_step si e w) = vs_raw_cnt w1
    \<and> vi_cnt (vs_ctx (vc_step si e w)) = Suc (vi_cnt (vs_ctx w))
    \<and> vi_vc (vs_ctx (vc_step si e w)) = (vi_vc (vs_ctx w))[vi_cnt (vs_ctx w) :=
        vc\<lparr>vc_exp_hsize := ce_hsize e, vc_exp_vsize := ce_vsize e\<rparr>]"
  by (simp add: vc_step_def Let_def upd_vc_def)

lemma scan_inv_drop:
  assumes inv: "scan_inv x ks w"
    and same: "vs_grp w2 = vs_grp w" "vs_meta w2 = vs_meta w" "vs_raw_cnt w2 = vs_raw_cnt w"
      "vi_cnt (vs_ctx w2) = vi_cnt (vs_ctx w)"
      "vi_vc (vs_ctx w2) = (vi_vc (vs_ctx w))[vi_cnt (vs_ctx w) := vc]"
    and grp: "vc_group vc = vc_group (vi_vc (vs_ctx w) ! vi_cnt (vs_ctx w))"
  shows "scan_inv x ks w2"
proof -
  have cnt: "vi_cnt (vs_ctx w) = length ks" using inv by (simp add: scan_inv_def vc_matches_def)
  have old: "vi_vc (vs_ctx w2) ! i = vi_vc (vs_ctx w) ! i" if "i < length ks" for i
    using that by (simp add: same(5) cnt)
  have group: "vc_group (vi_vc (vs_ctx w2) ! i) = vc_group (vi_vc (vs_ctx w) ! i)" for i
    using grp by (cases "vi_cnt (vs_ctx w) < length (vi_vc (vs_ctx w))"; cases "i = vi_cnt (vs_ctx w)")
      (simp_all add: same(5) list_update_beyond)
  have "vc_matches x ks (vs_ctx w2)" using inv by (simp add: scan_inv_def vc_matches_def old same(4))
  moreover have "length (vi_vc (vs_ctx w2)) = SENINF_VC_MAXCNT" using inv by (simp add: scan_inv_def same(5))
  ultimately show ?thesis using inv by (simp add: scan_inv_def group same(1-4))
qed

lemma vc_step_inv:
  assumes inv: "scan_inv x ks w" and room: "length ks < SENINF_VC_MAXCNT"
  shows "scan_inv x (next_kept ks e) (vc_step si e w)"
proof -
  have cnt: "vi_cnt (vs_ctx w) = length ks" using inv by (simp add: scan_inv_def vc_matches_def)
  have raw: "vs_raw_cnt w = raw_count ks" "raw_count ks \<le> 3" using inv by (simp_all add: scan_inv_def)
  have stale: "vc_group (vi_vc (vs_ctx w) ! length ks) = vc_group (vi_vc x ! length ks)"
    using inv by (simp add: scan_inv_def)
  show ?thesis
  proof (cases "vc_classify e w")
    case None
    then have "next_kept ks e = ks" by (auto simp: classify_kind Let_def next_kept_def raw split: vc_kind.splits if_splits)
    then show ?thesis
      using scan_inv_drop[OF inv] vc_step_dropped[OF None, of si] by auto
  next
    case (Some p)
    obtain vc w1 where vw: "vc_assign_group p = (vc, w1)" by fastforce
    have kept: "entry_kind e \<noteq> K_none" "entry_kind e = K_raw \<Longrightarrow> raw_count ks < 3"
      using Some by (auto simp: classify_kind Let_def raw split: if_splits)
    then have keep: "next_kept ks e = ks @ [e]" by (auto simp: next_kept_def)
    note assign = Some vw classify_kind[of e w] vc_assign_group_def Let_def
    have data: "vc_vc vc = ce_channel e \<and> vc_dt vc = ce_data_type e"
      using kept assign by (cases "entry_kind e") (auto split: if_splits)
    have yuv: "vc_group vc = vc_group (vi_vc x ! length ks) \<and> vs_grp w1 = vs_grp w \<and> vs_meta w1 = vs_meta w"
      if "entry_kind e = K_yuv" using that assign stale cnt by (auto split: if_splits)
    have own: "vc_group vc = of_nat (vs_grp w) \<and> vs_grp w1 = Suc (vs_grp w) \<and> vs_meta w1 = vs_meta w"
      if "entry_kind e \<in> {K_raw, K_own}" using that assign kind_feature(1)[of e] by (auto split: if_splits)
    have meta: "vc_group vc = of_nat (the (vs_meta w1)) \<and>
        (case vs_meta w of None \<Rightarrow> vs_meta w1 = Some (vs_grp w) \<and> vs_grp w1 = Suc (vs_grp w)
                         | Some m \<Rightarrow> vs_meta w1 = Some m \<and> vs_grp w1 = vs_grp w)"
      if "entry_kind e = K_meta"
      using that assign kind_feature(2)[of e] by (cases "vs_meta w") auto
    have raws: "vs_raw_cnt w1 = raw_count (ks @ [e])"
      using kept assign raw by (cases "entry_kind e") (auto split: if_splits)
    note r = vc_step_kept[OF Some vw, of si]
    show ?thesis
      unfolding keep
      by (rule scan_inv_add[OF inv room, where vc = "vc\<lparr>vc_exp_hsize := ce_hsize e, vc_exp_vsize := ce_vsize e\<rparr>"])
        (use r cnt data yuv own meta raws raw kept in \<open>auto split: option.splits\<close>)
  qed
qed

lemma kept_entries_fold: "ks @ kept_entries (raw_count ks) es = fold (\<lambda>e ks. next_kept ks e) es ks"
proof (induction es arbitrary: ks)
  case (Cons e es)
  show ?case using Cons.IH[of "next_kept ks e"] by (auto simp: next_kept_def)
qed simp

lemma next_kept_length: "length (next_kept ks e) \<le> Suc (length ks)" by (simp add: next_kept_def)

lemma vc_fold_inv:
  "scan_inv x ks w \<Longrightarrow> length ks + length es \<le> SENINF_VC_MAXCNT \<Longrightarrow>
    scan_inv x (fold (\<lambda>e ks. next_kept ks e) es ks) (fold (vc_step si) es w)"
proof (induction es arbitrary: ks w)
  case (Cons e es)
  show ?case
    using Cons.IH[OF vc_step_inv[OF Cons.prems(1), of e si]] Cons.prems(2) next_kept_length[of ks e] by simp
qed simp

lemma scan_inv_start:
  "length (vi_vc x) = SENINF_VC_MAXCNT \<Longrightarrow>
    scan_inv x [] \<lparr>vs_ctx = x\<lparr>vi_cnt := 0\<rparr>, vs_grp = 0, vs_raw_cnt = 0, vs_meta = None\<rparr>"
  by (simp add: scan_inv_def vc_matches_def raw_count_def)

text \<open>C9. The virtual channels of a port, for every descriptor a sensor may send. Exactly the entries with a
  known user descriptor or data type are kept, in their order, raw ones up to the third; each channel
  carries the entry's channel number, data type and size. Two kept entries share a group - and so a mux -
  only when both are metadata (histogram, flicker, PD statistics, embedded data); every raw and pixel-PD
  entry has a group of its own. A YUV entry gets no group at all: it keeps what an earlier descriptor left
  in its slot.
\<close>

theorem vcinfo_channels:
  assumes "sx_sensor x" "si_desc_ctrl si" "si_desc_ret si = 0" "si_desc_csi2 si" "si_desc_entries si = es"
    and "es \<noteq> []" "length es \<le> MTK_FRAME_DESC_ENTRY_MAX" "length (vi_vc x) = SENINF_VC_MAXCNT"
  shows "\<exists>y. mtk_cam_seninf_get_vcinfo si x = Some (0, y) \<and> vc_matches x (kept_entries 0 es) y
    \<and> raw_count (kept_entries 0 es) \<le> 3"
proof -
  let ?w = "\<lparr>vs_ctx = x\<lparr>vi_cnt := 0\<rparr>, vs_grp = 0, vs_raw_cnt = 0, vs_meta = None\<rparr>"
  have "scan_inv x (kept_entries 0 es) (fold (vc_step si) es ?w)"
    using vc_fold_inv[OF scan_inv_start, of x es si] kept_entries_fold[of "[]" es] assms(7,8)
    by (simp add: raw_count_def SENINF_VC_MAXCNT_def MTK_FRAME_DESC_ENTRY_MAX_def)
  then show ?thesis using assms by (simp add: mtk_cam_seninf_get_vcinfo_def scan_inv_def)
qed

theorem vcinfo_channels_witness:
  "\<exists>y. mtk_cam_seninf_get_vcinfo (demo_sensor 0 0) ((seninf_probe 0)\<lparr>sx_sensor := True\<rparr>) = Some (0, y)
    \<and> vi_cnt y = 3 \<and> vc_group (vi_vc y ! 0) \<noteq> vc_group (vi_vc y ! 1)"
proof -
  let ?x = "(seninf_probe 0)\<lparr>sx_sensor := True\<rparr>" and ?es = "si_desc_entries (demo_sensor 0 0)"
  have kept: "kept_entries 0 ?es = ?es" "length ?es = 3" "entry_kind (?es ! 0) = K_raw" "entry_kind (?es ! 1) = K_raw"
    by (simp_all add: demo_sensor_def demo_entry_def entry_kind_def)
  obtain y where "mtk_cam_seninf_get_vcinfo (demo_sensor 0 0) ?x = Some (0, y)" "vc_matches ?x (kept_entries 0 ?es) y"
    using vcinfo_channels[of ?x "demo_sensor 0 0" ?es]
    by (auto simp: demo_sensor_def demo_entry_def seninf_probe_def init_fmt_def MTK_FRAME_DESC_ENTRY_MAX_def)
  moreover have "vi_cnt y = 3 \<and> vc_group (vi_vc y ! 0) \<noteq> vc_group (vi_vc y ! 1)" if "vc_matches ?x ?es y"
    using that kept(2-4) by (auto simp: vc_matches_def)
  ultimately show ?thesis using kept(1) by auto
qed

end
