(* ===== verification/ImxRegs.thy ===== *)
theory ImxRegs
  imports Prelude "HOL-Library.Word"
begin

text \<open>
  The data of the two IMX214 drivers (\<open>imx214mipiraw_Sensor.c\<close>, \<open>imx214d2lmipiraw_Sensor.c\<close>): the
  timing of each mode, the register lists the driver sends to the sensor, and the table from
  gains to register values.
\<close>

subsection \<open>Modes\<close>

record imgsensor_mode =
  pclk :: u32
  linelength :: u32
  framelength :: u32
  grabwindow_width :: u16
  grabwindow_height :: u16
  mipi_pixel_rate :: u32
  max_framerate :: u16

text \<open>\<open>i2c_addr_table\<close> is the table up to its terminator 0xff.\<close>

record imgsensor_info =
  sensor_id :: u32
  checksum_value :: u32
  in_pre :: imgsensor_mode
  in_cap :: imgsensor_mode
  in_cap1 :: imgsensor_mode
  in_cap2 :: imgsensor_mode
  in_normal_video :: imgsensor_mode
  in_hs_video :: imgsensor_mode
  in_slim_video :: imgsensor_mode
  margin :: u8
  min_shutter :: u32
  min_gain :: u32
  max_gain :: u32
  min_gain_iso :: u32
  exp_step :: u32
  gain_step :: u32
  gain_type :: u32
  max_frame_length :: u32
  i2c_addr_table :: "u8 list"

definition BASEGAIN :: u32 where "BASEGAIN = 0x400"

definition imx214_info :: imgsensor_info where
  "imx214_info =
    \<lparr>sensor_id = 0x0214, checksum_value = 0xf61b7b7c,
     in_pre = \<lparr>pclk = 320000000, linelength = 5008, framelength = 2110, grabwindow_width = 2104, grabwindow_height = 1560,
       mipi_pixel_rate = 317000000, max_framerate = 300\<rparr>,
     in_cap = \<lparr>pclk = 480000000, linelength = 5008, framelength = 3160, grabwindow_width = 4208, grabwindow_height = 3120,
       mipi_pixel_rate = 484000000, max_framerate = 300\<rparr>,
     in_cap1 = \<lparr>pclk = 387200000, linelength = 5008, framelength = 3220, grabwindow_width = 4208, grabwindow_height = 3120,
       mipi_pixel_rate = 484000000, max_framerate = 240\<rparr>,
     in_cap2 = \<lparr>pclk = 243200000, linelength = 5008, framelength = 3220, grabwindow_width = 4208, grabwindow_height = 3120,
       mipi_pixel_rate = 484000000, max_framerate = 150\<rparr>,
     in_normal_video = \<lparr>pclk = 480000000, linelength = 5008, framelength = 3160, grabwindow_width = 4208, grabwindow_height = 3120,
       mipi_pixel_rate = 475000000, max_framerate = 300\<rparr>,
     in_hs_video = \<lparr>pclk = 387200000, linelength = 5008, framelength = 1288, grabwindow_width = 2104, grabwindow_height = 1184,
       mipi_pixel_rate = 320000000, max_framerate = 600\<rparr>,
     in_slim_video = \<lparr>pclk = 387200000, linelength = 5008, framelength = 1288, grabwindow_width = 2104, grabwindow_height = 1184,
       mipi_pixel_rate = 160000000, max_framerate = 300\<rparr>,
     margin = 10, min_shutter = 1, min_gain = BASEGAIN, max_gain = BASEGAIN * 16, min_gain_iso = 100, exp_step = 2,
     gain_step = 1, gain_type = 0, max_frame_length = 0xffff, i2c_addr_table = [0x34, 0x20]\<rparr>"

definition imx214d2l_info :: imgsensor_info where
  "imx214d2l_info =
    \<lparr>sensor_id = 0x0214, checksum_value = 0xf61b7b7c,
     in_pre = \<lparr>pclk = 240384000, linelength = 5008, framelength = 1600, grabwindow_width = 2104, grabwindow_height = 1560,
       mipi_pixel_rate = 260000000, max_framerate = 300\<rparr>,
     in_cap = \<lparr>pclk = 237279200, linelength = 5008, framelength = 3160, grabwindow_width = 4208, grabwindow_height = 3120,
       mipi_pixel_rate = 260000000, max_framerate = 150\<rparr>,
     in_cap1 = \<lparr>pclk = 237279200, linelength = 5008, framelength = 3160, grabwindow_width = 4208, grabwindow_height = 3120,
       mipi_pixel_rate = 260000000, max_framerate = 150\<rparr>,
     in_cap2 = \<lparr>pclk = 237279200, linelength = 5008, framelength = 3160, grabwindow_width = 4208, grabwindow_height = 3120,
       mipi_pixel_rate = 260000000, max_framerate = 150\<rparr>,
     in_normal_video = \<lparr>pclk = 237279200, linelength = 5008, framelength = 3160, grabwindow_width = 4208, grabwindow_height = 3120,
       mipi_pixel_rate = 260000000, max_framerate = 150\<rparr>,
     in_hs_video = \<lparr>pclk = 237279200, linelength = 5008, framelength = 3160, grabwindow_width = 4208, grabwindow_height = 3120,
       mipi_pixel_rate = 260000000, max_framerate = 150\<rparr>,
     in_slim_video = \<lparr>pclk = 237279200, linelength = 5008, framelength = 3160, grabwindow_width = 4208, grabwindow_height = 3120,
       mipi_pixel_rate = 260000000, max_framerate = 150\<rparr>,
     margin = 10, min_shutter = 1, min_gain = BASEGAIN, max_gain = BASEGAIN * 16, min_gain_iso = 100, exp_step = 2,
     gain_step = 1, gain_type = 0, max_frame_length = 0xffff, i2c_addr_table = [0x34, 0x20]\<rparr>"

subsection \<open>Gains\<close>

definition sensorGainMapping :: "(u32 \<times> u16) list" where
  "sensorGainMapping =
    [(64, 1), (65, 8), (66, 13), (67, 23), (68, 27), (69, 36), (70, 41), (71, 49), (72, 53), (73, 61),
     (74, 69), (75, 73), (76, 80), (77, 88), (78, 91), (79, 98), (80, 101), (81, 108), (82, 111), (83, 117),
     (84, 120), (85, 126), (86, 132), (87, 135), (88, 140), (89, 143), (90, 148), (91, 151), (92, 156), (93, 161),
     (94, 163), (95, 168), (96, 170), (97, 175), (98, 177), (99, 181), (100, 185), (101, 187), (102, 191), (103, 193),
     (104, 197), (105, 199), (106, 203), (107, 205), (108, 207), (109, 212), (110, 214), (111, 217), (112, 219), (113, 222),
     (114, 224), (115, 227), (116, 230), (117, 232), (118, 234), (119, 236), (120, 239), (122, 244), (123, 245), (124, 248),
     (125, 249), (126, 252), (127, 253), (128, 256), (129, 258), (130, 260), (131, 262), (132, 263), (133, 266), (134, 268),
     (136, 272), (138, 274), (139, 276), (140, 278), (141, 280), (143, 282), (144, 284), (145, 286), (147, 288), (148, 290),
     (149, 292), (150, 294), (152, 296), (153, 298), (155, 300), (156, 302), (157, 304), (159, 306), (161, 308), (162, 310),
     (164, 312), (166, 314), (167, 316), (169, 318), (171, 320), (172, 322), (174, 324), (176, 326), (178, 328), (180, 330),
     (182, 332), (184, 334), (186, 336), (188, 338), (191, 340), (193, 342), (195, 344), (197, 346), (200, 348), (202, 350),
     (205, 352), (207, 354), (210, 356), (212, 358), (216, 360), (218, 362), (221, 364), (225, 366), (228, 368), (231, 370),
     (234, 372), (237, 374), (241, 376), (244, 378), (248, 380), (252, 382), (256, 384), (260, 386), (264, 388), (269, 390),
     (273, 392), (278, 394), (282, 396), (287, 398), (292, 400), (298, 402), (303, 404), (309, 406), (315, 408), (321, 410),
     (328, 412), (334, 414), (341, 416), (349, 418), (356, 420), (364, 422), (372, 424), (381, 426), (390, 428), (399, 430),
     (410, 432), (420, 434), (431, 436), (443, 438), (455, 440), (468, 442), (482, 444), (497, 446), (512, 448)]"

subsection \<open>Registers\<close>

type_synonym reg_list = "(u16 \<times> u8) list"

definition imx214_init_regs :: reg_list where
  "imx214_init_regs =
    [(0x0136, 0x18), (0x0137, 0x00), (0x0101, 0x00), (0x0105, 0x01), (0x0106, 0x01), (0x4550, 0x02),
     (0x4601, 0x00), (0x4642, 0x05), (0x6276, 0x00), (0x900e, 0x06), (0xa802, 0x90), (0xa803, 0x11),
     (0xa804, 0x62), (0xa805, 0x77), (0xa806, 0xae), (0xa807, 0x34), (0xa808, 0xae), (0xa809, 0x35),
     (0xa80a, 0x62), (0xa80b, 0x83), (0xae33, 0x00), (0x4174, 0x00), (0x4175, 0x11), (0x4612, 0x29),
     (0x461b, 0x12), (0x461f, 0x06), (0x4635, 0x07), (0x4637, 0x30), (0x463f, 0x18), (0x4641, 0x0d),
     (0x465b, 0x12), (0x465f, 0x11), (0x4663, 0x11), (0x4667, 0x0f), (0x466f, 0x0f), (0x470e, 0x09),
     (0x4909, 0xab), (0x490b, 0x95), (0x4915, 0x5d), (0x4a5f, 0xff), (0x4a61, 0xff), (0x4a73, 0x62),
     (0x4a85, 0x00), (0x4a87, 0xff), (0x583c, 0x04), (0x620e, 0x04), (0x6eb2, 0x01), (0x6eb3, 0x00),
     (0x9300, 0x02), (0x3001, 0x07), (0x6d12, 0x3f), (0x6d13, 0xff), (0x9344, 0x03), (0x9706, 0x10),
     (0x9707, 0x03), (0x9708, 0x03), (0x9e04, 0x01), (0x9e05, 0x00), (0x9e0c, 0x01), (0x9e0d, 0x02),
     (0x9e24, 0x00), (0x9e25, 0x8c), (0x9e26, 0x00), (0x9e27, 0x94), (0x9e28, 0x00), (0x9e29, 0x96),
     (0x69db, 0x01), (0x6957, 0x01), (0x6987, 0x17), (0x698a, 0x03), (0x698b, 0x03), (0x0b8e, 0x01),
     (0x0b8f, 0x00), (0x0b90, 0x01), (0x0b91, 0x00), (0x0b92, 0x01), (0x0b93, 0x00), (0x0b94, 0x01),
     (0x0b95, 0x00), (0x6e50, 0x00), (0x6e51, 0x32), (0x9340, 0x00), (0x9341, 0x3c), (0x9342, 0x03),
     (0x9343, 0xff)]"

definition imx214_preview_regs :: reg_list where
  "imx214_preview_regs =
    [(0x0100, 0x00), (0x0114, 0x03), (0x0220, 0x00), (0x0221, 0x11), (0x0222, 0x01), (0x0340, 0x08),
     (0x0341, 0x3e), (0x0342, 0x13), (0x0343, 0x90), (0x0344, 0x00), (0x0345, 0x00), (0x0346, 0x00),
     (0x0347, 0x00), (0x0348, 0x10), (0x0349, 0x6f), (0x034a, 0x0c), (0x034b, 0x2f), (0x0381, 0x01),
     (0x0383, 0x01), (0x0385, 0x01), (0x0387, 0x01), (0x0900, 0x01), (0x0901, 0x22), (0x0902, 0x02),
     (0x3000, 0x35), (0x3054, 0x01), (0x305c, 0x11), (0x0112, 0x0a), (0x0113, 0x0a), (0x034c, 0x08),
     (0x034d, 0x38), (0x034e, 0x06), (0x034f, 0x18), (0x0401, 0x00), (0x0404, 0x00), (0x0405, 0x10),
     (0x0408, 0x00), (0x0409, 0x00), (0x040a, 0x00), (0x040b, 0x00), (0x040c, 0x08), (0x040d, 0x38),
     (0x040e, 0x06), (0x040f, 0x18), (0x0301, 0x05), (0x0303, 0x02), (0x0305, 0x03), (0x0306, 0x00),
     (0x0307, 0x64), (0x0309, 0x0a), (0x030b, 0x01), (0x0310, 0x00), (0x0820, 0x0c), (0x0821, 0x80),
     (0x0822, 0x00), (0x0823, 0x00), (0x3a03, 0x06), (0x3a04, 0x68), (0x3a05, 0x01), (0x0b06, 0x01),
     (0x30a2, 0x00), (0x30b4, 0x00), (0x3a02, 0xff), (0x3011, 0x00), (0x3013, 0x00), (0x0202, 0x08),
     (0x0203, 0x34), (0x0224, 0x01), (0x0225, 0xf4), (0x0204, 0x00), (0x0205, 0x00), (0x020e, 0x01),
     (0x020f, 0x00), (0x0210, 0x01), (0x0211, 0x00), (0x0212, 0x01), (0x0213, 0x00), (0x0214, 0x01),
     (0x0215, 0x00), (0x0216, 0x00), (0x0217, 0x00), (0x4170, 0x00), (0x4171, 0x10), (0x4176, 0x00),
     (0x4177, 0x3c), (0xae20, 0x04), (0xae21, 0x5c), (0x0138, 0x01), (0x0100, 0x01)]"

definition imx214_preview_hdr_regs :: reg_list where
  "imx214_preview_hdr_regs =
    [(0x0100, 0x00), (0x0114, 0x03), (0x0220, 0x01), (0x0221, 0x22), (0x0222, 0x08), (0x0340, 0x08),
     (0x0341, 0x3e), (0x0342, 0x13), (0x0343, 0x90), (0x0344, 0x00), (0x0345, 0x00), (0x0346, 0x00),
     (0x0347, 0x00), (0x0348, 0x10), (0x0349, 0x6f), (0x034a, 0x0c), (0x034b, 0x2f), (0x0381, 0x01),
     (0x0383, 0x01), (0x0385, 0x01), (0x0387, 0x01), (0x0900, 0x00), (0x0901, 0x00), (0x0902, 0x00),
     (0x3000, 0x35), (0x3054, 0x01), (0x305c, 0x11), (0x0112, 0x0a), (0x0113, 0x0a), (0x034c, 0x08),
     (0x034d, 0x38), (0x034e, 0x06), (0x034f, 0x18), (0x0401, 0x00), (0x0404, 0x00), (0x0405, 0x10),
     (0x0408, 0x00), (0x0409, 0x00), (0x040a, 0x00), (0x040b, 0x00), (0x040c, 0x08), (0x040d, 0x38),
     (0x040e, 0x06), (0x040f, 0x18), (0x0301, 0x05), (0x0303, 0x02), (0x0305, 0x03), (0x0306, 0x00),
     (0x0307, 0x64), (0x0309, 0x0a), (0x030b, 0x01), (0x0310, 0x00), (0x0820, 0x0c), (0x0821, 0x80),
     (0x0822, 0x00), (0x0823, 0x00), (0x3a03, 0x06), (0x3a04, 0xe8), (0x3a05, 0x01), (0x0b06, 0x01),
     (0x30a2, 0x00), (0x30b4, 0x00), (0x3a02, 0x06), (0x3011, 0x00), (0x3013, 0x01), (0x0202, 0x08),
     (0x0203, 0x34), (0x0224, 0x01), (0x0225, 0x06), (0x0204, 0x00), (0x0205, 0x00), (0x020e, 0x01),
     (0x020f, 0x00), (0x0210, 0x01), (0x0211, 0x00), (0x0212, 0x01), (0x0213, 0x00), (0x0214, 0x01),
     (0x0215, 0x00), (0x0216, 0x00), (0x0217, 0x00), (0x4170, 0x00), (0x4171, 0x10), (0x4176, 0x00),
     (0x4177, 0x3c), (0xae20, 0x04), (0xae21, 0x5c), (0x3010, 0x00), (0x6d3a, 0x00), (0x3011, 0x00),
     (0x3013, 0x01), (0x5068, 0x35), (0x5069, 0x01), (0x30c2, 0x00), (0x30c3, 0x40), (0x610a, 0x08),
     (0x0220, 0x01), (0x0221, 0x22), (0x0222, 0x08)]"

definition imx214_capture_30fps_regs :: reg_list where
  "imx214_capture_30fps_regs =
    [(0x0100, 0x00), (0x0114, 0x03), (0x0220, 0x00), (0x0221, 0x11), (0x0222, 0x01), (0x0340, 0x0c),
     (0x0341, 0x58), (0x0342, 0x13), (0x0343, 0x90), (0x0344, 0x00), (0x0345, 0x00), (0x0346, 0x00),
     (0x0347, 0x00), (0x0348, 0x10), (0x0349, 0x6f), (0x034a, 0x0c), (0x034b, 0x2f), (0x0381, 0x01),
     (0x0383, 0x01), (0x0385, 0x01), (0x0387, 0x01), (0x0900, 0x00), (0x0901, 0x00), (0x0902, 0x00),
     (0x3000, 0x35), (0x3054, 0x01), (0x305c, 0x11), (0x0112, 0x0a), (0x0113, 0x0a), (0x034c, 0x10),
     (0x034d, 0x70), (0x034e, 0x0c), (0x034f, 0x30), (0x0401, 0x00), (0x0404, 0x00), (0x0405, 0x10),
     (0x0408, 0x00), (0x0409, 0x00), (0x040a, 0x00), (0x040b, 0x00), (0x040c, 0x10), (0x040d, 0x70),
     (0x040e, 0x0c), (0x040f, 0x30), (0x0301, 0x05), (0x0303, 0x02), (0x0305, 0x03), (0x0306, 0x00),
     (0x0307, 0x96), (0x0309, 0x0a), (0x030b, 0x01), (0x0310, 0x00), (0x0820, 0x12), (0x0821, 0xc0),
     (0x0822, 0x00), (0x0823, 0x00), (0x3a03, 0x09), (0x3a04, 0x20), (0x3a05, 0x01), (0x0b06, 0x01),
     (0x30a2, 0x00), (0x30b4, 0x00), (0x3a02, 0xff), (0x3011, 0x00), (0x3013, 0x01), (0x0202, 0x0c),
     (0x0203, 0x4e), (0x0224, 0x01), (0x0225, 0xf4), (0x0204, 0x00), (0x0205, 0x00), (0x020e, 0x01),
     (0x020f, 0x00), (0x0210, 0x01), (0x0211, 0x00), (0x0212, 0x01), (0x0213, 0x00), (0x0214, 0x01),
     (0x0215, 0x00), (0x0216, 0x00), (0x0217, 0x00), (0x4170, 0x00), (0x4171, 0x10), (0x4176, 0x00),
     (0x4177, 0x3c), (0xae20, 0x04), (0xae21, 0x5c), (0x0138, 0x01), (0x0100, 0x01)]"

definition imx214_capture_24fps_regs :: reg_list where
  "imx214_capture_24fps_regs =
    [(0x0100, 0x00), (0x0114, 0x03), (0x0220, 0x00), (0x0221, 0x11), (0x0222, 0x01), (0x0340, 0x0c),
     (0x0341, 0x94), (0x0342, 0x13), (0x0343, 0x90), (0x0344, 0x00), (0x0345, 0x00), (0x0346, 0x00),
     (0x0347, 0x00), (0x0348, 0x10), (0x0349, 0x6f), (0x034a, 0x0c), (0x034b, 0x2f), (0x0381, 0x01),
     (0x0383, 0x01), (0x0385, 0x01), (0x0387, 0x01), (0x0900, 0x00), (0x0901, 0x00), (0x0902, 0x00),
     (0x3000, 0x35), (0x3054, 0x01), (0x305c, 0x11), (0x0112, 0x0a), (0x0113, 0x0a), (0x034c, 0x10),
     (0x034d, 0x70), (0x034e, 0x0c), (0x034f, 0x30), (0x0401, 0x00), (0x0404, 0x00), (0x0405, 0x10),
     (0x0408, 0x00), (0x0409, 0x00), (0x040a, 0x00), (0x040b, 0x00), (0x040c, 0x10), (0x040d, 0x70),
     (0x040e, 0x0c), (0x040f, 0x30), (0x0301, 0x05), (0x0303, 0x02), (0x0305, 0x03), (0x0306, 0x00),
     (0x0307, 0x79), (0x0309, 0x0a), (0x030b, 0x01), (0x0310, 0x00), (0x0820, 0x0f), (0x0821, 0x20),
     (0x0822, 0x00), (0x0823, 0x00), (0x3a03, 0x08), (0x3a04, 0xc0), (0x3a05, 0x02), (0x0b06, 0x01),
     (0x30a2, 0x00), (0x30b4, 0x00), (0x3a02, 0xff), (0x3013, 0x00), (0x0202, 0x0c), (0x0203, 0x8a),
     (0x0224, 0x01), (0x0225, 0xf4), (0x0204, 0x00), (0x0205, 0x00), (0x020e, 0x01), (0x020f, 0x00),
     (0x0210, 0x01), (0x0211, 0x00), (0x0212, 0x01), (0x0213, 0x00), (0x0214, 0x01), (0x0215, 0x00),
     (0x0216, 0x00), (0x0217, 0x00), (0x4170, 0x00), (0x4171, 0x10), (0x4176, 0x00), (0x4177, 0x3c),
     (0xae20, 0x04), (0xae21, 0x5c), (0x0138, 0x01), (0x0100, 0x01)]"

definition imx214_capture_15fps_regs :: reg_list where
  "imx214_capture_15fps_regs =
    [(0x0100, 0x00), (0x0114, 0x03), (0x0220, 0x00), (0x0221, 0x11), (0x0222, 0x01), (0x0340, 0x0c),
     (0x0341, 0x94), (0x0342, 0x13), (0x0343, 0x90), (0x0344, 0x00), (0x0345, 0x00), (0x0346, 0x00),
     (0x0347, 0x00), (0x0348, 0x10), (0x0349, 0x6f), (0x034a, 0x0c), (0x034b, 0x2f), (0x0381, 0x01),
     (0x0383, 0x01), (0x0385, 0x01), (0x0387, 0x01), (0x0900, 0x00), (0x0901, 0x00), (0x0902, 0x00),
     (0x3000, 0x35), (0x3054, 0x01), (0x305c, 0x11), (0x0112, 0x0a), (0x0113, 0x0a), (0x034c, 0x10),
     (0x034d, 0x70), (0x034e, 0x0c), (0x034f, 0x30), (0x0401, 0x00), (0x0404, 0x00), (0x0405, 0x10),
     (0x0408, 0x00), (0x0409, 0x00), (0x040a, 0x00), (0x040b, 0x00), (0x040c, 0x10), (0x040d, 0x70),
     (0x040e, 0x0c), (0x040f, 0x30), (0x0301, 0x05), (0x0303, 0x02), (0x0305, 0x03), (0x0306, 0x00),
     (0x0307, 0x4c), (0x0309, 0x0a), (0x030b, 0x01), (0x0310, 0x00), (0x0820, 0x09), (0x0821, 0x80),
     (0x0822, 0x00), (0x0823, 0x00), (0x3a03, 0x08), (0x3a04, 0xc0), (0x3a05, 0x02), (0x0b06, 0x01),
     (0x30a2, 0x00), (0x30b4, 0x00), (0x3a02, 0xff), (0x3013, 0x00), (0x0202, 0x0c), (0x0203, 0x8a),
     (0x0224, 0x01), (0x0225, 0xf4), (0x0204, 0x00), (0x0205, 0x00), (0x020e, 0x01), (0x020f, 0x00),
     (0x0210, 0x01), (0x0211, 0x00), (0x0212, 0x01), (0x0213, 0x00), (0x0214, 0x01), (0x0215, 0x00),
     (0x0216, 0x00), (0x0217, 0x00), (0x4170, 0x00), (0x4171, 0x10), (0x4176, 0x00), (0x4177, 0x3c),
     (0xae20, 0x04), (0xae21, 0x5c), (0x0138, 0x01), (0x0100, 0x01)]"

definition imx214_video_regs :: reg_list where
  "imx214_video_regs =
    [(0x0100, 0x00), (0x0114, 0x03), (0x0220, 0x00), (0x0221, 0x11), (0x0222, 0x01), (0x0340, 0x0c),
     (0x0341, 0x58), (0x0342, 0x13), (0x0343, 0x90), (0x0344, 0x00), (0x0345, 0x00), (0x0346, 0x00),
     (0x0347, 0x00), (0x0348, 0x10), (0x0349, 0x6f), (0x034a, 0x0c), (0x034b, 0x2f), (0x0381, 0x01),
     (0x0383, 0x01), (0x0385, 0x01), (0x0387, 0x01), (0x0900, 0x00), (0x0901, 0x00), (0x0902, 0x00),
     (0x3000, 0x35), (0x3054, 0x01), (0x305c, 0x11), (0x0112, 0x0a), (0x0113, 0x0a), (0x034c, 0x10),
     (0x034d, 0x70), (0x034e, 0x0c), (0x034f, 0x30), (0x0401, 0x00), (0x0404, 0x00), (0x0405, 0x10),
     (0x0408, 0x00), (0x0409, 0x00), (0x040a, 0x00), (0x040b, 0x00), (0x040c, 0x10), (0x040d, 0x70),
     (0x040e, 0x0c), (0x040f, 0x30), (0x0301, 0x05), (0x0303, 0x02), (0x0305, 0x03), (0x0306, 0x00),
     (0x0307, 0x96), (0x0309, 0x0a), (0x030b, 0x01), (0x0310, 0x00), (0x0820, 0x12), (0x0821, 0xc0),
     (0x0822, 0x00), (0x0823, 0x00), (0x3a03, 0x09), (0x3a04, 0x20), (0x3a05, 0x01), (0x0b06, 0x01),
     (0x30a2, 0x00), (0x30b4, 0x00), (0x3a02, 0xff), (0x3011, 0x00), (0x3013, 0x01), (0x0202, 0x0c),
     (0x0203, 0x4e), (0x0224, 0x01), (0x0225, 0xf4), (0x0204, 0x00), (0x0205, 0x00), (0x020e, 0x01),
     (0x020f, 0x00), (0x0210, 0x01), (0x0211, 0x00), (0x0212, 0x01), (0x0213, 0x00), (0x0214, 0x01),
     (0x0215, 0x00), (0x0216, 0x00), (0x0217, 0x00), (0x4170, 0x00), (0x4171, 0x10), (0x4176, 0x00),
     (0x4177, 0x3c), (0xae20, 0x04), (0xae21, 0x5c), (0x0138, 0x01), (0x0100, 0x01)]"

definition imx214_fullsize_hdr_regs :: reg_list where
  "imx214_fullsize_hdr_regs =
    [(0x0100, 0x00), (0x0114, 0x03), (0x0220, 0x01), (0x0221, 0x11), (0x0222, 0x08), (0x0340, 0x0c),
     (0x0341, 0x58), (0x0342, 0x13), (0x0343, 0x90), (0x0344, 0x00), (0x0345, 0x00), (0x0346, 0x00),
     (0x0347, 0x00), (0x0348, 0x10), (0x0349, 0x6f), (0x034a, 0x0c), (0x034b, 0x2f), (0x0381, 0x01),
     (0x0383, 0x01), (0x0385, 0x01), (0x0387, 0x01), (0x0900, 0x00), (0x0901, 0x00), (0x0902, 0x00),
     (0x3000, 0x35), (0x3054, 0x01), (0x305c, 0x11), (0x0112, 0x0a), (0x0113, 0x0a), (0x034c, 0x10),
     (0x034d, 0x70), (0x034e, 0x0c), (0x034f, 0x30), (0x0401, 0x00), (0x0404, 0x00), (0x0405, 0x10),
     (0x0408, 0x00), (0x0409, 0x00), (0x040a, 0x00), (0x040b, 0x00), (0x040c, 0x10), (0x040d, 0x70),
     (0x040e, 0x0c), (0x040f, 0x30), (0x0301, 0x05), (0x0303, 0x02), (0x0305, 0x03), (0x0306, 0x00),
     (0x0307, 0x96), (0x0309, 0x0a), (0x030b, 0x01), (0x0310, 0x00), (0x0820, 0x12), (0x0821, 0xc0),
     (0x0822, 0x00), (0x0823, 0x00), (0x3a03, 0x08), (0x3a04, 0x90), (0x3a05, 0x01), (0x0b06, 0x01),
     (0x30a2, 0x00), (0x30b4, 0x00), (0x3a02, 0x06), (0x3011, 0x00), (0x3013, 0x01), (0x0202, 0x0c),
     (0x0203, 0x4e), (0x0224, 0x01), (0x0225, 0x89), (0x0204, 0x00), (0x0205, 0x00), (0x020e, 0x01),
     (0x020f, 0x00), (0x0210, 0x01), (0x0211, 0x00), (0x0212, 0x01), (0x0213, 0x00), (0x0214, 0x01),
     (0x0215, 0x00), (0x0216, 0x00), (0x0217, 0x00), (0x4170, 0x00), (0x4171, 0x10), (0x4176, 0x00),
     (0x4177, 0x3c), (0xae20, 0x04), (0xae21, 0x5c), (0x3010, 0x00), (0x6d3a, 0x00), (0x3011, 0x00),
     (0x3013, 0x01), (0x5068, 0x35), (0x5069, 0x01), (0x30c2, 0x00), (0x30c3, 0x40), (0x610a, 0x08),
     (0x0220, 0x01), (0x0221, 0x11), (0x0222, 0x08)]"

definition imx214_hs_video_regs :: reg_list where
  "imx214_hs_video_regs =
    [(0x0100, 0x00), (0x0114, 0x03), (0x0220, 0x00), (0x0221, 0x11), (0x0222, 0x01), (0x0340, 0x05),
     (0x0341, 0x08), (0x0342, 0x13), (0x0343, 0x90), (0x0344, 0x00), (0x0345, 0x00), (0x0346, 0x01),
     (0x0347, 0x78), (0x0348, 0x10), (0x0349, 0x6f), (0x034a, 0x0a), (0x034b, 0xb7), (0x0381, 0x01),
     (0x0383, 0x01), (0x0385, 0x01), (0x0387, 0x01), (0x0900, 0x01), (0x0901, 0x22), (0x0902, 0x02),
     (0x3000, 0x35), (0x3054, 0x01), (0x305c, 0x11), (0x0112, 0x0a), (0x0113, 0x0a), (0x034c, 0x08),
     (0x034d, 0x38), (0x034e, 0x04), (0x034f, 0xa0), (0x0401, 0x00), (0x0404, 0x00), (0x0405, 0x10),
     (0x0408, 0x00), (0x0409, 0x00), (0x040a, 0x00), (0x040b, 0x00), (0x040c, 0x08), (0x040d, 0x38),
     (0x040e, 0x04), (0x040f, 0xa0), (0x0301, 0x05), (0x0303, 0x02), (0x0305, 0x03), (0x0306, 0x00),
     (0x0307, 0x79), (0x0309, 0x0a), (0x030b, 0x01), (0x0310, 0x00), (0x0820, 0x0f), (0x0821, 0x20),
     (0x0822, 0x00), (0x0823, 0x00), (0x3a03, 0x06), (0x3a04, 0x68), (0x3a05, 0x01), (0x0b06, 0x01),
     (0x30a2, 0x00), (0x30b4, 0x00), (0x3a02, 0xff), (0x3013, 0x00), (0x0202, 0x04), (0x0203, 0xfe),
     (0x0224, 0x01), (0x0225, 0xf4), (0x0204, 0x00), (0x0205, 0x00), (0x020e, 0x01), (0x020f, 0x00),
     (0x0210, 0x01), (0x0211, 0x00), (0x0212, 0x01), (0x0213, 0x00), (0x0214, 0x01), (0x0215, 0x00),
     (0x0216, 0x00), (0x0217, 0x00), (0x4170, 0x00), (0x4171, 0x10), (0x4176, 0x00), (0x4177, 0x3c),
     (0xae20, 0x04), (0xae21, 0x5c), (0x0138, 0x01), (0x0100, 0x01)]"

definition imx214d2l_init_regs :: reg_list where
  "imx214d2l_init_regs =
    [(0x0136, 0x18), (0x0137, 0x00), (0x0101, 0x00), (0x0105, 0x01), (0x0106, 0x01), (0x4550, 0x02),
     (0x4601, 0x00), (0x4642, 0x05), (0x6276, 0x00), (0x900e, 0x06), (0xa802, 0x90), (0xa803, 0x11),
     (0xa804, 0x62), (0xa805, 0x77), (0xa806, 0xae), (0xa807, 0x34), (0xa808, 0xae), (0xa809, 0x35),
     (0xa80a, 0x62), (0xa80b, 0x83), (0xae33, 0x00), (0x4174, 0x00), (0x4175, 0x11), (0x4612, 0x29),
     (0x461b, 0x12), (0x461f, 0x06), (0x4635, 0x07), (0x4637, 0x30), (0x463f, 0x18), (0x4641, 0x0d),
     (0x465b, 0x12), (0x465f, 0x11), (0x4663, 0x11), (0x4667, 0x0f), (0x466f, 0x0f), (0x470e, 0x09),
     (0x4909, 0xab), (0x490b, 0x95), (0x4915, 0x5d), (0x4a5f, 0xff), (0x4a61, 0xff), (0x4a73, 0x62),
     (0x4a85, 0x00), (0x4a87, 0xff), (0x583c, 0x04), (0x620e, 0x04), (0x6eb2, 0x01), (0x6eb3, 0x00),
     (0x9300, 0x02), (0x3001, 0x07), (0x6d12, 0x3f), (0x6d13, 0xff), (0x9344, 0x03), (0x9706, 0x10),
     (0x9707, 0x03), (0x9708, 0x03), (0x9e04, 0x01), (0x9e05, 0x00), (0x9e0c, 0x01), (0x9e0d, 0x02),
     (0x9e24, 0x00), (0x9e25, 0x8c), (0x9e26, 0x00), (0x9e27, 0x94), (0x9e28, 0x00), (0x9e29, 0x96),
     (0x69db, 0x01), (0x6957, 0x01), (0x6987, 0x17), (0x698a, 0x03), (0x698b, 0x03), (0x0b8e, 0x01),
     (0x0b8f, 0x00), (0x0b90, 0x01), (0x0b91, 0x00), (0x0b92, 0x01), (0x0b93, 0x00), (0x0b94, 0x01),
     (0x0b95, 0x00), (0x6e50, 0x00), (0x6e51, 0x32), (0x9340, 0x00), (0x9341, 0x3c), (0x9342, 0x03),
     (0x9343, 0xff)]"

definition imx214d2l_preview_regs :: reg_list where
  "imx214d2l_preview_regs =
    [(0x0100, 0x00), (0x0114, 0x01), (0x0220, 0x00), (0x0221, 0x11), (0x0222, 0x01), (0x0340, 0x06),
     (0x0341, 0x40), (0x0342, 0x13), (0x0343, 0x90), (0x0344, 0x00), (0x0345, 0x00), (0x0346, 0x00),
     (0x0347, 0x00), (0x0348, 0x10), (0x0349, 0x6f), (0x034a, 0x0c), (0x034b, 0x2f), (0x0381, 0x01),
     (0x0383, 0x01), (0x0385, 0x01), (0x0387, 0x01), (0x0900, 0x01), (0x0901, 0x22), (0x0902, 0x02),
     (0x3000, 0x35), (0x3054, 0x01), (0x305c, 0x11), (0x0112, 0x0a), (0x0113, 0x0a), (0x034c, 0x08),
     (0x034d, 0x38), (0x034e, 0x06), (0x034f, 0x18), (0x0401, 0x00), (0x0404, 0x00), (0x0405, 0x10),
     (0x0408, 0x00), (0x0409, 0x00), (0x040a, 0x00), (0x040b, 0x00), (0x040c, 0x08), (0x040d, 0x38),
     (0x040e, 0x06), (0x040f, 0x18), (0x0301, 0x05), (0x0303, 0x04), (0x0305, 0x03), (0x0306, 0x00),
     (0x0307, 0x96), (0x0309, 0x0a), (0x030b, 0x01), (0x0310, 0x00), (0x0820, 0x09), (0x0821, 0x60),
     (0x0822, 0x00), (0x0823, 0x00), (0x3a03, 0x06), (0x3a04, 0x68), (0x3a05, 0x01), (0x0b06, 0x01),
     (0x30a2, 0x00), (0x30b4, 0x00), (0x3a02, 0xff), (0x3011, 0x00), (0x3013, 0x00), (0x0202, 0x06),
     (0x0203, 0x00), (0x0224, 0x01), (0x0225, 0xf4), (0x0204, 0x00), (0x0205, 0x00), (0x020e, 0x01),
     (0x020f, 0x00), (0x0210, 0x01), (0x0211, 0x00), (0x0212, 0x01), (0x0213, 0x00), (0x0214, 0x01),
     (0x0215, 0x00), (0x0216, 0x00), (0x0217, 0x00), (0x4170, 0x00), (0x4171, 0x10), (0x4176, 0x00),
     (0x4177, 0x3c), (0xae20, 0x04), (0xae21, 0x5c), (0x0138, 0x01), (0x0100, 0x01)]"

definition imx214d2l_capture_regs :: reg_list where
  "imx214d2l_capture_regs =
    [(0x0100, 0x00), (0x0114, 0x01), (0x0220, 0x00), (0x0221, 0x11), (0x0222, 0x01), (0x0340, 0x0c),
     (0x0341, 0x58), (0x0342, 0x13), (0x0343, 0x90), (0x0344, 0x00), (0x0345, 0x00), (0x0346, 0x00),
     (0x0347, 0x00), (0x0348, 0x10), (0x0349, 0x6f), (0x034a, 0x0c), (0x034b, 0x2f), (0x0381, 0x01),
     (0x0383, 0x01), (0x0385, 0x01), (0x0387, 0x01), (0x0900, 0x00), (0x0901, 0x00), (0x0902, 0x00),
     (0x3000, 0x35), (0x3054, 0x01), (0x305c, 0x11), (0x0112, 0x0a), (0x0113, 0x0a), (0x034c, 0x10),
     (0x034d, 0x70), (0x034e, 0x0c), (0x034f, 0x30), (0x0401, 0x00), (0x0404, 0x00), (0x0405, 0x10),
     (0x0408, 0x00), (0x0409, 0x00), (0x040a, 0x00), (0x040b, 0x00), (0x040c, 0x10), (0x040d, 0x70),
     (0x040e, 0x0c), (0x040f, 0x30), (0x0301, 0x05), (0x0303, 0x04), (0x0305, 0x03), (0x0306, 0x00),
     (0x0307, 0x96), (0x0309, 0x0a), (0x030b, 0x01), (0x0310, 0x00), (0x0820, 0x09), (0x0821, 0x60),
     (0x0822, 0x00), (0x0823, 0x00), (0x3a03, 0x08), (0x3a04, 0x70), (0x3a05, 0x02), (0x0b06, 0x01),
     (0x30a2, 0x00), (0x30b4, 0x00), (0x3a02, 0xff), (0x3011, 0x00), (0x3013, 0x01), (0x0202, 0x0c),
     (0x0203, 0x4e), (0x0224, 0x01), (0x0225, 0xf4), (0x0204, 0x00), (0x0205, 0x00), (0x020e, 0x01),
     (0x020f, 0x00), (0x0210, 0x01), (0x0211, 0x00), (0x0212, 0x01), (0x0213, 0x00), (0x0214, 0x01),
     (0x0215, 0x00), (0x0216, 0x00), (0x0217, 0x00), (0x4170, 0x00), (0x4171, 0x10), (0x4176, 0x00),
     (0x4177, 0x3c), (0xae20, 0x04), (0xae21, 0x5c), (0x0138, 0x01), (0x0100, 0x01)]"

definition imx214d2l_video_regs :: reg_list where
  "imx214d2l_video_regs =
    [(0x0100, 0x00), (0x0114, 0x01), (0x0220, 0x00), (0x0221, 0x11), (0x0222, 0x01), (0x0340, 0x0c),
     (0x0341, 0x58), (0x0342, 0x13), (0x0343, 0x90), (0x0344, 0x00), (0x0345, 0x00), (0x0346, 0x00),
     (0x0347, 0x00), (0x0348, 0x10), (0x0349, 0x6f), (0x034a, 0x0c), (0x034b, 0x2f), (0x0381, 0x01),
     (0x0383, 0x01), (0x0385, 0x01), (0x0387, 0x01), (0x0900, 0x00), (0x0901, 0x00), (0x0902, 0x00),
     (0x3000, 0x35), (0x3054, 0x01), (0x305c, 0x11), (0x0112, 0x0a), (0x0113, 0x0a), (0x034c, 0x10),
     (0x034d, 0x70), (0x034e, 0x0c), (0x034f, 0x30), (0x0401, 0x00), (0x0404, 0x00), (0x0405, 0x10),
     (0x0408, 0x00), (0x0409, 0x00), (0x040a, 0x00), (0x040b, 0x00), (0x040c, 0x10), (0x040d, 0x70),
     (0x040e, 0x0c), (0x040f, 0x30), (0x0301, 0x05), (0x0303, 0x04), (0x0305, 0x03), (0x0306, 0x00),
     (0x0307, 0x96), (0x0309, 0x0a), (0x030b, 0x01), (0x0310, 0x00), (0x0820, 0x09), (0x0821, 0x60),
     (0x0822, 0x00), (0x0823, 0x00), (0x3a03, 0x08), (0x3a04, 0x70), (0x3a05, 0x02), (0x0b06, 0x01),
     (0x30a2, 0x00), (0x30b4, 0x00), (0x3a02, 0xff), (0x3011, 0x00), (0x3013, 0x01), (0x0202, 0x0c),
     (0x0203, 0x4e), (0x0224, 0x01), (0x0225, 0xf4), (0x0204, 0x00), (0x0205, 0x00), (0x020e, 0x01),
     (0x020f, 0x00), (0x0210, 0x01), (0x0211, 0x00), (0x0212, 0x01), (0x0213, 0x00), (0x0214, 0x01),
     (0x0215, 0x00), (0x0216, 0x00), (0x0217, 0x00), (0x4170, 0x00), (0x4171, 0x10), (0x4176, 0x00),
     (0x4177, 0x3c), (0xae20, 0x04), (0xae21, 0x5c), (0x0138, 0x01), (0x0100, 0x01)]"

text \<open>The zigzag registers of the HDR modes.\<close>

definition zigzag_regs :: "bool \<Rightarrow> reg_list" where
  "zigzag_regs zigzag =
    map (\<lambda>a. (a, if zigzag then 1 else 0))
      [0x30b2, 0x30b3, 0x30b4, 0x30b5, 0x30b6, 0x30b7, 0x30b8, 0x30b9, 0x30ba, 0x30bb, 0x30bc]"

definition stream_on_regs :: reg_list where "stream_on_regs = [(0x0138, 0x01), (0x0100, 0x01)]"

text \<open>\<open>imx214_ATR\<close>; \<open>None\<close>: an index outside \<open>sensorATR_Info\<close>.\<close>

definition sensorATR_Info :: "(u8 \<times> u8 \<times> u8 \<times> u8 \<times> u8 \<times> u8) list" where
  "sensorATR_Info =
    [(0x00, 0x00, 0x00, 0x00, 0x00, 0x00), (0x00, 0x32, 0x00, 0x3c, 0x03, 0xff), (0x3f, 0xff, 0x3f, 0xff, 0x3f, 0xff),
     (0x3F, 0xFF, 0x00, 0x0, 0x3F, 0xFF)]"

definition imx214_ATR :: "nat \<Rightarrow> nat \<Rightarrow> reg_list option" where
  "imx214_ATR darkLimit overExp =
    (if darkLimit < length sensorATR_Info \<and> overExp < length sensorATR_Info
     then (case sensorATR_Info ! darkLimit of (dh, dl, _, _, _, _) \<Rightarrow>
           case sensorATR_Info ! overExp of (_, _, minh, minl, maxh, maxl) \<Rightarrow>
             Some [(0x6e50, dh), (0x6e51, dl), (0x9340, minh), (0x9341, minl), (0x9342, maxh), (0x9343, maxl),
                   (0x9706, 0x10), (0x9707, 0x03), (0x9708, 0x03), (0x9e24, 0x00), (0x9e25, 0x8c), (0x9e26, 0x00),
                   (0x9e27, 0x94), (0x9e28, 0x00), (0x9e29, 0x96)])
     else None)"

end
