(* ===== verification/Imx214.thy ===== *)
theory Imx214
  imports ImxRegs
begin

text \<open>
  The IMX214 sensor driver (\<open>imx214mipiraw_Sensor.c\<close>), which \<open>imx214d2lmipiraw_Sensor.c\<close> repeats with
  other data: exposure, gain, frame rate, scenarios and the feature calls of the adaptor. A
  driver is a \<open>sensor_cfg\<close>, its data and its mode settings. The registers of the sensor are the
  last values written; the I2C transfers are taken to succeed, and the driver ignores their
  result. \<open>None\<close> is a division by zero.
\<close>

unbundle bit_operations_syntax

subsection \<open>State\<close>

datatype sensor_mode = MODE_INIT | MODE_PREVIEW | MODE_CAPTURE | MODE_VIDEO | MODE_HIGH_SPEED_VIDEO | MODE_SLIM_VIDEO
  | MODE_CUSTOM1 | MODE_CUSTOM2

record subdrv_ctx =
  sensor_mode :: sensor_mode
  shutter :: u32
  gain :: u32
  ctx_pclk :: u32
  frame_length :: u32
  line_length :: u32
  min_frame_length :: u32
  dummy_pixel :: u16
  dummy_line :: u16
  current_fps :: u16
  autoflicker_en :: bool
  test_pattern :: bool
  current_scenario_id :: u32
  ihdr_mode :: u8
  i2c_write_id :: u8

text \<open>The context and the registers of the sensor behind it.\<close>

record sensor_dev = subdrv_ctx +
  sensor_reg :: "u16 \<Rightarrow> u8"

record sensor_cfg =
  cf_info :: imgsensor_info
  cf_init :: "sensor_dev \<Rightarrow> sensor_dev"
  cf_preview :: "sensor_dev \<Rightarrow> sensor_dev"
  cf_preview_hdr :: "sensor_dev \<Rightarrow> sensor_dev"
  cf_capture :: "u16 \<Rightarrow> sensor_dev \<Rightarrow> sensor_dev"
  cf_normal_video :: "u16 \<Rightarrow> sensor_dev \<Rightarrow> sensor_dev"
  cf_fullsize_hdr :: "u16 \<Rightarrow> sensor_dev \<Rightarrow> sensor_dev"
  cf_hs_video :: "sensor_dev \<Rightarrow> sensor_dev"
  cf_slim_video :: "sensor_dev \<Rightarrow> sensor_dev"

definition write_cmos_sensor_8 :: "u16 \<Rightarrow> u8 \<Rightarrow> sensor_dev \<Rightarrow> sensor_dev" where
  "write_cmos_sensor_8 a v d = d\<lparr>sensor_reg := (sensor_reg d)(a := v)\<rparr>"

definition read_cmos_sensor_8 :: "u16 \<Rightarrow> sensor_dev \<Rightarrow> u8" where
  "read_cmos_sensor_8 a d = sensor_reg d a"

definition write_regs :: "reg_list \<Rightarrow> sensor_dev \<Rightarrow> sensor_dev" where
  "write_regs rs d = fold (\<lambda>(a, v). write_cmos_sensor_8 a v) rs d"

text \<open>A 16-bit value goes into two registers.\<close>

definition write_u16 :: "u16 \<Rightarrow> u32 \<Rightarrow> sensor_dev \<Rightarrow> sensor_dev" where
  "write_u16 a v d = write_cmos_sensor_8 (a + 1) (ucast (v AND 0xFF)) (write_cmos_sensor_8 a (ucast (drop_bit 8 v)) d)"

subsection \<open>Frame length\<close>

definition set_dummy :: "sensor_dev \<Rightarrow> sensor_dev" where
  "set_dummy d = write_u16 0x0340 (frame_length d) d"

definition set_max_framerate :: "sensor_cfg \<Rightarrow> u16 \<Rightarrow> bool \<Rightarrow> sensor_dev \<Rightarrow> sensor_dev option" where
  "set_max_framerate c framerate min_framelength_en d =
    (if framerate = 0 \<or> line_length d = 0 then None else
     let fl = ctx_pclk d div ucast framerate * 10 div line_length d;
         d1 = d\<lparr>frame_length := (if min_frame_length d \<le> fl then fl else min_frame_length d)\<rparr>;
         d2 = d1\<lparr>dummy_line := ucast (frame_length d1 - min_frame_length d1)\<rparr>;
         d3 = (if max_frame_length (cf_info c) < frame_length d2
               then d2\<lparr>frame_length := max_frame_length (cf_info c),
                       dummy_line := ucast (max_frame_length (cf_info c) - min_frame_length d2)\<rparr>
               else d2);
         d4 = (if min_framelength_en then d3\<lparr>min_frame_length := frame_length d3\<rparr> else d3)
     in Some (set_dummy d4))"

text \<open>The frame length an exposure asks for, and the rates at which flicker is avoided.\<close>

definition fit_frame_length :: "sensor_cfg \<Rightarrow> u16 \<Rightarrow> sensor_dev \<Rightarrow> sensor_dev" where
  "fit_frame_length c exp d =
    (let fl = (if min_frame_length d - ucast (margin (cf_info c)) < ucast exp
               then ucast exp + ucast (margin (cf_info c)) else min_frame_length d)
     in d\<lparr>frame_length := (if max_frame_length (cf_info c) < fl then max_frame_length (cf_info c) else fl)\<rparr>)"

definition realtime_fps :: "sensor_dev \<Rightarrow> u16" where
  "realtime_fps d = ucast (ctx_pclk d div line_length d * 10 div frame_length d)"

definition extend_frame_length :: "sensor_cfg \<Rightarrow> sensor_dev \<Rightarrow> sensor_dev option" where
  "extend_frame_length c d =
    (if autoflicker_en d then
       (if line_length d = 0 \<or> frame_length d = 0 then None
        else if 297 \<le> realtime_fps d \<and> realtime_fps d \<le> 305 then set_max_framerate c 296 False d
        else if 147 \<le> realtime_fps d \<and> realtime_fps d \<le> 150 then set_max_framerate c 146 False d
        else Some (write_u16 0x0340 (frame_length d) d))
     else Some (write_u16 0x0340 (frame_length d) d))"

definition clamp_shutter :: "sensor_cfg \<Rightarrow> u16 \<Rightarrow> u16" where
  "clamp_shutter c exp = (if ucast exp < min_shutter (cf_info c) then ucast (min_shutter (cf_info c)) else exp)"

subsection \<open>Exposure and gain\<close>

definition write_shutter :: "sensor_cfg \<Rightarrow> u16 \<Rightarrow> sensor_dev \<Rightarrow> sensor_dev option" where
  "write_shutter c exp d =
    map_option (write_u16 0x0202 (ucast (clamp_shutter c exp)))
      (extend_frame_length c (fit_frame_length c exp (write_cmos_sensor_8 0x0104 1 d)))"

definition set_shutter :: "sensor_cfg \<Rightarrow> u16 \<Rightarrow> sensor_dev \<Rightarrow> sensor_dev option" where
  "set_shutter c exp d = write_shutter c exp (d\<lparr>shutter := ucast exp\<rparr>)"

text \<open>The first entry of the table that is large enough, the last one if none is.\<close>

definition gain2reg :: "u32 \<Rightarrow> u16" where
  "gain2reg g =
    (if g \<le> 512 * 16
     then (case find (\<lambda>p. g \<le> fst p * 16) (butlast sensorGainMapping) of
             Some p \<Rightarrow> snd p | None \<Rightarrow> snd (last sensorGainMapping))
     else ucast (512 - (512 * BASEGAIN) div g))"

text \<open>The analog gain of the long and of the short exposure.\<close>

definition write_gain :: "u16 \<Rightarrow> sensor_dev \<Rightarrow> sensor_dev" where
  "write_gain r d = write_u16 0x0216 (ucast r) (write_u16 0x0204 (ucast r) d)"

definition clamp_gain :: "u32 \<Rightarrow> u32" where
  "clamp_gain g = (if g < BASEGAIN then BASEGAIN else if 16 * BASEGAIN < g then 16 * BASEGAIN else g)"

definition set_gain :: "u32 \<Rightarrow> sensor_dev \<Rightarrow> u32 \<times> sensor_dev" where
  "set_gain g d =
    (let g1 = clamp_gain g; reg_gain = ucast (gain d) :: u16;
         d1 = d\<lparr>gain := ucast (gain2reg g1)\<rparr>;
         d2 = (if reg_gain \<noteq> 0 then write_gain reg_gain d1 else d1)
     in (g1, write_cmos_sensor_8 0x0104 0 d2))"

definition vsync_notify :: "sensor_dev \<Rightarrow> sensor_dev" where
  "vsync_notify d = (let reg_gain = ucast (gain d) :: u16 in if reg_gain \<noteq> 0 then write_gain reg_gain d else d)"

definition ihdr_write_shutter :: "sensor_cfg \<Rightarrow> u16 \<Rightarrow> u16 \<Rightarrow> sensor_dev \<Rightarrow> sensor_dev option" where
  "ihdr_write_shutter c le se d =
    map_option (\<lambda>d1. write_u16 0x0224 (ucast se) (write_u16 0x0202 (ucast (clamp_shutter c le)) d1))
      (extend_frame_length c (fit_frame_length c le d))"

definition ihdr_write_shutter_gain :: "sensor_cfg \<Rightarrow> u16 \<Rightarrow> u16 \<Rightarrow> u16 \<Rightarrow> sensor_dev \<Rightarrow> sensor_dev option" where
  "ihdr_write_shutter_gain c le se g d =
    map_option (\<lambda>d1. let r = gain2reg (ucast g) in
        write_gain r ((write_u16 0x0224 (ucast se) (write_u16 0x0202 (ucast (clamp_shutter c le)) d1))\<lparr>gain := ucast r\<rparr>))
      (extend_frame_length c (fit_frame_length c le d))"

definition set_mirror_flip :: "u8 \<Rightarrow> sensor_dev \<Rightarrow> sensor_dev" where
  "set_mirror_flip image_mirror d =
    (let itemp = read_cmos_sensor_8 0x0101 d AND NOT 0x03
     in if image_mirror = 0 then write_cmos_sensor_8 0x0101 itemp d
        else if image_mirror = 2 then write_cmos_sensor_8 0x0101 (itemp OR 0x02) d
        else if image_mirror = 1 then write_cmos_sensor_8 0x0101 (itemp OR 0x01) d
        else if image_mirror = 3 then write_cmos_sensor_8 0x0101 (itemp OR 0x03) d
        else d)"

subsection \<open>Mode settings\<close>

definition imx214_sensor_init :: "sensor_dev \<Rightarrow> sensor_dev" where
  "imx214_sensor_init d =
    (let d1 = write_regs imx214_init_regs d
     in write_cmos_sensor_8 0x4018 (read_cmos_sensor_8 0x4018 d1 AND 0xFE) d1)"

definition imx214_preview_setting :: "sensor_dev \<Rightarrow> sensor_dev" where
  "imx214_preview_setting = write_regs imx214_preview_regs"

definition hdr_tail :: "sensor_dev \<Rightarrow> sensor_dev" where
  "hdr_tail d =
    write_regs ((case imx214_ATR 3 3 of Some rs \<Rightarrow> rs | None \<Rightarrow> []) @ zigzag_regs (ihdr_mode d = 9) @ stream_on_regs) d"

definition imx214_preview_setting_HDR :: "sensor_dev \<Rightarrow> sensor_dev" where
  "imx214_preview_setting_HDR d = hdr_tail (write_regs imx214_preview_hdr_regs d)"

definition imx214_capture_setting :: "u16 \<Rightarrow> sensor_dev \<Rightarrow> sensor_dev" where
  "imx214_capture_setting currefps =
    write_regs (if currefps = 300 then imx214_capture_30fps_regs
                else if currefps = 240 then imx214_capture_24fps_regs else imx214_capture_15fps_regs)"

definition imx214_normal_video_setting :: "u16 \<Rightarrow> sensor_dev \<Rightarrow> sensor_dev" where
  "imx214_normal_video_setting currefps = write_regs imx214_video_regs"

definition imx214_fullsize_setting_HDR :: "u16 \<Rightarrow> sensor_dev \<Rightarrow> sensor_dev" where
  "imx214_fullsize_setting_HDR currefps d = hdr_tail (write_regs imx214_fullsize_hdr_regs d)"

definition imx214_hs_video_setting :: "sensor_dev \<Rightarrow> sensor_dev" where
  "imx214_hs_video_setting = write_regs imx214_hs_video_regs"

definition imx214_slim_video_setting :: "sensor_dev \<Rightarrow> sensor_dev" where
  "imx214_slim_video_setting = imx214_hs_video_setting"

definition imx214 :: sensor_cfg where
  "imx214 =
    \<lparr>cf_info = imx214_info, cf_init = imx214_sensor_init, cf_preview = imx214_preview_setting,
     cf_preview_hdr = imx214_preview_setting_HDR, cf_capture = imx214_capture_setting,
     cf_normal_video = imx214_normal_video_setting, cf_fullsize_hdr = imx214_fullsize_setting_HDR,
     cf_hs_video = imx214_hs_video_setting, cf_slim_video = imx214_slim_video_setting\<rparr>"

text \<open>The D2L module has no HDR, high-speed or slim video settings: those functions write nothing.\<close>

definition imx214d2l_sensor_init :: "sensor_dev \<Rightarrow> sensor_dev" where
  "imx214d2l_sensor_init d =
    (let d1 = write_regs imx214d2l_init_regs d
     in write_cmos_sensor_8 0x4018 (read_cmos_sensor_8 0x4018 d1 AND 0xFE) d1)"

definition imx214d2l :: sensor_cfg where
  "imx214d2l =
    \<lparr>cf_info = imx214d2l_info, cf_init = imx214d2l_sensor_init, cf_preview = write_regs imx214d2l_preview_regs,
     cf_preview_hdr = id, cf_capture = (\<lambda>_. write_regs imx214d2l_capture_regs),
     cf_normal_video = (\<lambda>_. write_regs imx214d2l_video_regs), cf_fullsize_hdr = (\<lambda>_. id),
     cf_hs_video = id, cf_slim_video = id\<rparr>"

subsection \<open>Identification and opening\<close>

text \<open>
  \<open>probe a k\<close>: the identifier read over address \<open>a\<close> on the \<open>k\<close>-th try. Each address is tried twice.
  The result is the return value, the identifier reported and the device.
\<close>

definition ERROR_NONE :: int where "ERROR_NONE = 0"
definition ERROR_SENSOR_CONNECT_FAIL :: int where "ERROR_SENSOR_CONNECT_FAIL = 16"
definition ERROR_INVALID_SCENARIO_ID :: int where "ERROR_INVALID_SCENARIO_ID = 4"

fun find_sensor :: "u32 \<Rightarrow> (u8 \<Rightarrow> nat \<Rightarrow> u32) \<Rightarrow> u8 list \<Rightarrow> sensor_dev \<Rightarrow> bool \<times> sensor_dev" where
  "find_sensor want probe [] d = (False, d)"
| "find_sensor want probe (a # as) d =
    (let d1 = d\<lparr>i2c_write_id := a\<rparr>
     in if probe a 0 = want \<or> probe a 1 = want then (True, d1) else find_sensor want probe as d1)"

definition get_imgsensor_id :: "sensor_cfg \<Rightarrow> (u8 \<Rightarrow> nat \<Rightarrow> u32) \<Rightarrow> sensor_dev \<Rightarrow> int \<times> u32 \<times> sensor_dev" where
  "get_imgsensor_id c probe d =
    (case find_sensor (sensor_id (cf_info c)) probe (i2c_addr_table (cf_info c)) d of
       (True, d1) \<Rightarrow> (ERROR_NONE, sensor_id (cf_info c), d1)
     | (False, d1) \<Rightarrow> (ERROR_SENSOR_CONNECT_FAIL, 0xFFFFFFFF, d1))"

definition open_sensor :: "sensor_cfg \<Rightarrow> (u8 \<Rightarrow> nat \<Rightarrow> u32) \<Rightarrow> sensor_dev \<Rightarrow> int \<times> sensor_dev" where
  "open_sensor c probe d =
    (case get_imgsensor_id c probe d of
       (ret, _, d1) \<Rightarrow>
         if ret \<noteq> ERROR_NONE then (ret, d1)
         else (ERROR_NONE,
               (cf_init c d1)\<lparr>autoflicker_en := False, sensor_mode := MODE_INIT, shutter := 0x3D0, gain := 0x100,
                  ctx_pclk := pclk (in_pre (cf_info c)), frame_length := framelength (in_pre (cf_info c)),
                  line_length := linelength (in_pre (cf_info c)), min_frame_length := framelength (in_pre (cf_info c)),
                  dummy_pixel := 0, dummy_line := 0, ihdr_mode := 0, test_pattern := False,
                  current_fps := max_framerate (in_pre (cf_info c))\<rparr>))"

text \<open>\<open>init_ctx\<close>, with the defaults of \<open>defctx\<close>; the registers are whatever the sensor holds.\<close>

definition init_ctx :: "u8 \<Rightarrow> (u16 \<Rightarrow> u8) \<Rightarrow> sensor_dev" where
  "init_ctx i2c_id regs =
    \<lparr>sensor_mode = MODE_INIT, shutter = 0x3D0, gain = BASEGAIN * 4, ctx_pclk = 0, frame_length = 0, line_length = 0,
     min_frame_length = 0, dummy_pixel = 0, dummy_line = 0, current_fps = 300, autoflicker_en = False,
     test_pattern = False, current_scenario_id = 0, ihdr_mode = 0, i2c_write_id = i2c_id, sensor_reg = regs\<rparr>"

subsection \<open>Scenarios\<close>

definition NORMAL_PREVIEW :: u32 where "NORMAL_PREVIEW = 0"
definition NORMAL_CAPTURE :: u32 where "NORMAL_CAPTURE = 1"
definition NORMAL_VIDEO :: u32 where "NORMAL_VIDEO = 2"
definition HIGHSPEED_VIDEO :: u32 where "HIGHSPEED_VIDEO = 3"
definition SLIM_VIDEO :: u32 where "SLIM_VIDEO = 4"

lemmas scenario_defs = NORMAL_PREVIEW_def NORMAL_CAPTURE_def NORMAL_VIDEO_def HIGHSPEED_VIDEO_def SLIM_VIDEO_def

definition set_mode_timing :: "imgsensor_mode \<Rightarrow> sensor_dev \<Rightarrow> sensor_dev" where
  "set_mode_timing m d =
    d\<lparr>ctx_pclk := pclk m, line_length := linelength m, frame_length := framelength m, min_frame_length := framelength m,
      autoflicker_en := False\<rparr>"

definition preview :: "sensor_cfg \<Rightarrow> sensor_dev \<Rightarrow> sensor_dev" where
  "preview c d =
    (let d1 = set_mode_timing (in_pre (cf_info c)) (d\<lparr>sensor_mode := MODE_PREVIEW\<rparr>)
     in if ihdr_mode d1 = 2 \<or> ihdr_mode d1 = 9 then cf_preview_hdr c d1 else cf_preview c d1)"

definition capture_mode :: "imgsensor_info \<Rightarrow> u16 \<Rightarrow> imgsensor_mode" where
  "capture_mode i fps =
    (if fps = max_framerate (in_cap1 i) then in_cap1 i
     else if fps = max_framerate (in_cap2 i) then in_cap2 i else in_cap i)"

definition capture :: "sensor_cfg \<Rightarrow> sensor_dev \<Rightarrow> sensor_dev" where
  "capture c d =
    (let d1 = set_mode_timing (capture_mode (cf_info c) (current_fps d)) (d\<lparr>sensor_mode := MODE_CAPTURE\<rparr>)
     in if ihdr_mode d1 = 2 \<or> ihdr_mode d1 = 9 then cf_fullsize_hdr c (current_fps d1) d1 else cf_capture c 300 d1)"

definition normal_video :: "sensor_cfg \<Rightarrow> sensor_dev \<Rightarrow> sensor_dev" where
  "normal_video c d =
    (let d1 = set_mode_timing (in_normal_video (cf_info c)) (d\<lparr>sensor_mode := MODE_VIDEO\<rparr>)
     in if ihdr_mode d1 = 2 then cf_fullsize_hdr c (current_fps d1) d1 else cf_normal_video c (current_fps d1) d1)"

definition hs_video :: "sensor_cfg \<Rightarrow> sensor_dev \<Rightarrow> sensor_dev" where
  "hs_video c d =
    cf_hs_video c
      ((set_mode_timing (in_hs_video (cf_info c)) (d\<lparr>sensor_mode := MODE_HIGH_SPEED_VIDEO\<rparr>))\<lparr>dummy_line := 0, dummy_pixel := 0\<rparr>)"

definition slim_video :: "sensor_cfg \<Rightarrow> sensor_dev \<Rightarrow> sensor_dev" where
  "slim_video c d =
    cf_slim_video c
      ((set_mode_timing (in_slim_video (cf_info c)) (d\<lparr>sensor_mode := MODE_SLIM_VIDEO\<rparr>))\<lparr>dummy_line := 0, dummy_pixel := 0\<rparr>)"

definition control :: "sensor_cfg \<Rightarrow> u32 \<Rightarrow> sensor_dev \<Rightarrow> int \<times> sensor_dev" where
  "control c scenario_id d =
    (let d1 = d\<lparr>current_scenario_id := scenario_id\<rparr>
     in if scenario_id = NORMAL_PREVIEW then (ERROR_NONE, preview c d1)
        else if scenario_id = NORMAL_CAPTURE then (ERROR_NONE, capture c d1)
        else if scenario_id = NORMAL_VIDEO then (ERROR_NONE, normal_video c d1)
        else if scenario_id = HIGHSPEED_VIDEO then (ERROR_NONE, hs_video c d1)
        else if scenario_id = SLIM_VIDEO then (ERROR_NONE, slim_video c d1)
        else (ERROR_INVALID_SCENARIO_ID, preview c d1))"

definition set_video_mode :: "sensor_cfg \<Rightarrow> u16 \<Rightarrow> sensor_dev \<Rightarrow> sensor_dev option" where
  "set_video_mode c framerate d =
    (if framerate = 0 then Some d else
     let d1 = d\<lparr>current_fps := (if framerate = 300 \<and> autoflicker_en d then 296
                                else if framerate = 150 \<and> autoflicker_en d then 146 else framerate)\<rparr>
     in set_max_framerate c (current_fps d1) True d1)"

definition set_auto_flicker_mode :: "bool \<Rightarrow> sensor_dev \<Rightarrow> sensor_dev" where
  "set_auto_flicker_mode enable d = d\<lparr>autoflicker_en := enable\<rparr>"

definition set_scenario_rate :: "imgsensor_mode \<Rightarrow> u32 \<Rightarrow> sensor_dev \<Rightarrow> sensor_dev option" where
  "set_scenario_rate m framerate d =
    (if framerate = 0 \<or> linelength m = 0 then None else
     let fl = pclk m div framerate * 10 div linelength m;
         dummy = (if framelength m < fl then ucast (fl - framelength m) else 0) :: u16
     in Some (d\<lparr>dummy_line := dummy, frame_length := framelength m + ucast dummy,
                min_frame_length := framelength m + ucast dummy\<rparr>))"

definition set_max_framerate_by_scenario :: "sensor_cfg \<Rightarrow> u32 \<Rightarrow> u32 \<Rightarrow> sensor_dev \<Rightarrow> sensor_dev option" where
  "set_max_framerate_by_scenario c scenario_id framerate d =
    (let i = cf_info c
     in if scenario_id = NORMAL_PREVIEW then set_scenario_rate (in_pre i) framerate d
        else if scenario_id = NORMAL_VIDEO then
          (if framerate = 0 then Some d else set_scenario_rate (in_normal_video i) framerate d)
        else if scenario_id = NORMAL_CAPTURE then set_scenario_rate (capture_mode i (current_fps d)) framerate d
        else if scenario_id = HIGHSPEED_VIDEO then set_scenario_rate (in_hs_video i) framerate d
        else if scenario_id = SLIM_VIDEO then set_scenario_rate (in_slim_video i) framerate d
        else set_scenario_rate (in_pre i) framerate d)"

text \<open>The switches on a 64-bit scenario; any value that is not one of the five takes the preview mode.\<close>

definition scenario_mode :: "imgsensor_info \<Rightarrow> u64 \<Rightarrow> imgsensor_mode" where
  "scenario_mode i scenario_id =
    (if scenario_id = 1 then in_cap i
     else if scenario_id = 2 then in_normal_video i
     else if scenario_id = 3 then in_hs_video i
     else if scenario_id = 4 then in_slim_video i else in_pre i)"

text \<open>\<open>None\<close>: the caller's variable is left as it was.\<close>

definition get_default_framerate_by_scenario :: "sensor_cfg \<Rightarrow> u32 \<Rightarrow> u16 option" where
  "get_default_framerate_by_scenario c scenario_id =
    (if unat scenario_id \<le> 4 then Some (max_framerate (scenario_mode (cf_info c) (ucast scenario_id))) else None)"

definition set_test_pattern_mode :: "bool \<Rightarrow> sensor_dev \<Rightarrow> sensor_dev" where
  "set_test_pattern_mode enable d = (write_cmos_sensor_8 0x0601 (if enable then 0x02 else 0x00) d)\<lparr>test_pattern := enable\<rparr>"

subsection \<open>Feature calls\<close>

text \<open>
  The calls of \<open>feature_control\<close> that change state or read it; the 64-bit arguments are cut as the
  casts cut them. The last five setters are calls of the adaptor that the driver has no case for,
  \<open>Set_other\<close> any further one.
\<close>

datatype sensor_feature =
    Set_eshutter u64
  | Set_gain u64
  | Set_register u32 u32
  | Set_video_mode u64
  | Check_sensor_id "u8 \<Rightarrow> nat \<Rightarrow> u32"
  | Set_auto_flicker_mode u16
  | Set_max_frame_rate_by_scenario u64 u64
  | Set_test_pattern u64
  | Set_framerate u64
  | Set_hdr u64
  | Set_ihdr_shutter_gain u64 u64 u64
  | Set_hdr_shutter u64 u64
  | Set_streaming_suspend
  | Set_streaming_resume u64
  | Set_framelength u64 u64
  | Set_multi_shutter_frame_time "u32 list" u32
  | Set_hdr_tri_shutter u64 u64 u64
  | Set_hdr_tri_gain u64 u64 u64
  | Set_dual_gain u64 u64
  | Set_other
  | Get_gain_range
  | Get_base_gain_iso_and_step
  | Get_min_shutter
  | Get_period
  | Get_pixel_clock_freq
  | Get_register u32
  | Get_default_frame_rate_by_scenario u64
  | Get_test_pattern_checksum
  | Get_mipi_pixel_rate u64
  | Get_period_by_scenario u64
  | Get_pixel_clock_freq_by_scenario u64
  | Get_binning_type

definition feature_set :: "sensor_cfg \<Rightarrow> sensor_feature \<Rightarrow> sensor_dev \<Rightarrow> sensor_dev option" where
  "feature_set c f d =
    (case f of
       Set_eshutter s \<Rightarrow> set_shutter c (ucast s) d
     | Set_gain g \<Rightarrow> Some (snd (set_gain (ucast g) d))
     | Set_register a v \<Rightarrow> Some (write_cmos_sensor_8 (ucast a) (ucast v) d)
     | Set_video_mode r \<Rightarrow> set_video_mode c (ucast r) d
     | Check_sensor_id probe \<Rightarrow> Some (snd (snd (get_imgsensor_id c probe d)))
     | Set_auto_flicker_mode e \<Rightarrow> Some (set_auto_flicker_mode ((ucast e :: u8) \<noteq> 0) d)
     | Set_max_frame_rate_by_scenario sc r \<Rightarrow> set_max_framerate_by_scenario c (ucast sc) (ucast r) d
     | Set_test_pattern e \<Rightarrow> Some (set_test_pattern_mode ((ucast e :: u8) \<noteq> 0) d)
     | Set_framerate r \<Rightarrow> Some (d\<lparr>current_fps := ucast r\<rparr>)
     | Set_hdr m \<Rightarrow> Some (d\<lparr>ihdr_mode := ucast m\<rparr>)
     | Set_ihdr_shutter_gain le se g \<Rightarrow> ihdr_write_shutter_gain c (ucast le) (ucast se) (ucast g) d
     | Set_hdr_shutter le se \<Rightarrow> ihdr_write_shutter c (ucast le) (ucast se) d
     | Set_streaming_resume s \<Rightarrow> if s \<noteq> 0 then set_shutter c (ucast s) d else Some d
     | _ \<Rightarrow> Some d)"

text \<open>What a call writes back.\<close>

definition feature_get :: "sensor_cfg \<Rightarrow> sensor_feature \<Rightarrow> sensor_dev \<Rightarrow> u32 list" where
  "feature_get c f d =
    (let i = cf_info c
     in case f of
       Get_gain_range \<Rightarrow> [min_gain i, max_gain i]
     | Get_base_gain_iso_and_step \<Rightarrow> [min_gain_iso i, gain_step i, gain_type i]
     | Get_min_shutter \<Rightarrow> [min_shutter i, exp_step i]
     | Get_period \<Rightarrow> [ucast (ucast (line_length d) :: u16), ucast (ucast (frame_length d) :: u16)]
     | Get_pixel_clock_freq \<Rightarrow> [ctx_pclk d]
     | Get_register a \<Rightarrow> [ucast (read_cmos_sensor_8 (ucast a) d)]
     | Check_sensor_id probe \<Rightarrow> [fst (snd (get_imgsensor_id c probe d))]
     | Get_default_frame_rate_by_scenario sc \<Rightarrow>
         (case get_default_framerate_by_scenario c (ucast sc) of Some r \<Rightarrow> [ucast r] | None \<Rightarrow> [])
     | Get_test_pattern_checksum \<Rightarrow> [checksum_value i]
     | Get_mipi_pixel_rate sc \<Rightarrow> [mipi_pixel_rate (scenario_mode i sc)]
     | Get_period_by_scenario sc \<Rightarrow>
         [push_bit 16 (framelength (scenario_mode i sc)) + linelength (scenario_mode i sc)]
     | Get_pixel_clock_freq_by_scenario sc \<Rightarrow> [pclk (scenario_mode i sc)]
     | Get_binning_type \<Rightarrow> [1]
     | _ \<Rightarrow> [])"

text \<open>\<open>feature_control\<close> always answers \<open>ERROR_NONE\<close>.\<close>

definition feature_control :: "sensor_cfg \<Rightarrow> sensor_feature \<Rightarrow> sensor_dev \<Rightarrow> (u32 list \<times> sensor_dev) option" where
  "feature_control c f d = map_option (\<lambda>d1. (feature_get c f d, d1)) (feature_set c f d)"

end
