(* ===== verification/Imx214Props.thy ===== *)
theory Imx214Props
  imports Imx214
begin

text \<open>
  What the sensor driver keeps: the timing of its context is always that of one of its modes,
  the frame length covers the exposure, and no call other than one divides by zero.
\<close>

unbundle bit_operations_syntax

subsection \<open>Writing registers\<close>

text \<open>A transfer changes the registers and nothing else.\<close>

definition regs_only :: "(sensor_dev \<Rightarrow> sensor_dev) \<Rightarrow> bool" where
  "regs_only f \<longleftrightarrow> (\<forall>d. \<exists>r. f d = d\<lparr>sensor_reg := r\<rparr>)"

lemma regs_only_D: "regs_only f \<Longrightarrow> \<exists>r. f d = d\<lparr>sensor_reg := r\<rparr>" by (simp add: regs_only_def)

lemma regs_only_id: "regs_only id" "regs_only (\<lambda>d. d)"
proof -
  have "\<exists>r. d = d\<lparr>sensor_reg := r\<rparr>" for d :: sensor_dev by (rule exI[of _ "sensor_reg d"]) simp
  then show "regs_only id" "regs_only (\<lambda>d. d)" by (simp_all add: regs_only_def)
qed

lemma regs_only_write: "regs_only (write_cmos_sensor_8 a v)"
  by (auto simp: regs_only_def write_cmos_sensor_8_def)

lemma regs_only_comp:
  assumes "regs_only f" "regs_only g"
  shows "regs_only (\<lambda>d. f (g d))"
  unfolding regs_only_def
proof
  fix d
  obtain r where r: "g d = d\<lparr>sensor_reg := r\<rparr>" using regs_only_D[OF assms(2)] by blast
  obtain r2 where "f (g d) = (g d)\<lparr>sensor_reg := r2\<rparr>" using regs_only_D[OF assms(1)] by blast
  then show "\<exists>r. f (g d) = d\<lparr>sensor_reg := r\<rparr>" using r by auto
qed

lemma regs_only_regs: "regs_only (write_regs rs)"
proof (induction rs)
  case Nil show ?case using regs_only_id by (simp add: write_regs_def)
next
  case (Cons p rs)
  obtain a v where p: "p = (a, v)" by fastforce
  have "write_regs (p # rs) = (\<lambda>d. write_regs rs (write_cmos_sensor_8 a v d))" by (rule ext) (simp add: p write_regs_def)
  then show ?case using regs_only_comp[OF Cons.IH regs_only_write] by simp
qed

lemma regs_only_u16: "regs_only (write_u16 a v)"
proof -
  have "write_u16 a v = (\<lambda>d. write_cmos_sensor_8 (a + 1) (ucast (v AND 0xFF)) (write_cmos_sensor_8 a (ucast (drop_bit 8 v)) d))"
    by (rule ext) (simp add: write_u16_def)
  then show ?thesis using regs_only_comp[OF regs_only_write regs_only_write] by simp
qed

text \<open>What each register holds after a transfer.\<close>

lemma reg_write [simp]: "sensor_reg (write_cmos_sensor_8 a v d) = (sensor_reg d)(a := v)"
  by (simp add: write_cmos_sensor_8_def)

lemma reg_regs: "sensor_reg (write_regs rs d) a = (case map_of (rev rs) a of Some v \<Rightarrow> v | None \<Rightarrow> sensor_reg d a)"
  by (induction rs arbitrary: d) (auto simp: write_regs_def map_add_def split: option.splits)

text \<open>Two registers read as one 16-bit value.\<close>

definition reg16 :: "u16 \<Rightarrow> sensor_dev \<Rightarrow> u32" where
  "reg16 a d = push_bit 8 (ucast (sensor_reg d a)) OR ucast (sensor_reg d (a + 1))"

lemma reg_u16 [simp]:
  "sensor_reg (write_u16 a v d) = (sensor_reg d)(a := ucast (drop_bit 8 v), a + 1 := ucast (v AND 0xFF))"
  by (simp add: write_u16_def)

lemma reg16_bytes:
  assumes "v \<le> 0xFFFF"
  shows "push_bit 8 (ucast (ucast (drop_bit 8 v) :: u8)) OR ucast (ucast (v AND 0xFF) :: u8) = (v :: u32)"
proof -
  have mask: "(0xFF :: u32) = mask 8" by (simp add: mask_eq_exp_minus_1)
  have "unat v < 2 ^ 16" using assms by (simp add: word_le_nat_alt)
  then have v: "take_bit 16 v = v" by (simp add: word_unat_eq_iff unsigned_take_bit_eq take_bit_nat_eq_self)
  have high: "i < 16" if "bit v i" for i using that v by (metis bit_take_bit_iff)
  show ?thesis
    by (rule bit_word_eqI) (auto simp: mask bit_simps dest: high)
qed

lemma reg16_u16: "v \<le> 0xFFFF \<Longrightarrow> reg16 a (write_u16 a v d) = v"
  by (simp add: reg16_def reg16_bytes)

lemma reg16_other: "b \<noteq> a \<Longrightarrow> b \<noteq> a + 1 \<Longrightarrow> b + 1 \<noteq> a \<Longrightarrow> reg16 b (write_u16 a v d) = reg16 b d"
  by (simp add: reg16_def)

lemma reg16_update [simp]:
  "reg16 a (d\<lparr>shutter := x\<rparr>) = reg16 a d" "reg16 a (d\<lparr>gain := x\<rparr>) = reg16 a d"
  "reg16 a (d\<lparr>frame_length := x\<rparr>) = reg16 a d" "reg16 a (d\<lparr>dummy_line := l\<rparr>) = reg16 a d"
  "reg16 a (d\<lparr>min_frame_length := x\<rparr>) = reg16 a d"
  by (simp_all add: reg16_def)

lemma write_u16_fields [simp]:
  "shutter (write_u16 a v d) = shutter d" "gain (write_u16 a v d) = gain d" "ctx_pclk (write_u16 a v d) = ctx_pclk d"
  "frame_length (write_u16 a v d) = frame_length d" "line_length (write_u16 a v d) = line_length d"
  "min_frame_length (write_u16 a v d) = min_frame_length d" "autoflicker_en (write_u16 a v d) = autoflicker_en d"
  "current_fps (write_u16 a v d) = current_fps d" "ihdr_mode (write_u16 a v d) = ihdr_mode d"
  by (simp_all add: write_u16_def write_cmos_sensor_8_def)

lemma write_8_fields [simp]:
  "shutter (write_cmos_sensor_8 a b d) = shutter d" "gain (write_cmos_sensor_8 a b d) = gain d"
  "ctx_pclk (write_cmos_sensor_8 a b d) = ctx_pclk d" "frame_length (write_cmos_sensor_8 a b d) = frame_length d"
  "line_length (write_cmos_sensor_8 a b d) = line_length d" "min_frame_length (write_cmos_sensor_8 a b d) = min_frame_length d"
  "autoflicker_en (write_cmos_sensor_8 a b d) = autoflicker_en d" "current_fps (write_cmos_sensor_8 a b d) = current_fps d"
  "ihdr_mode (write_cmos_sensor_8 a b d) = ihdr_mode d"
  by (simp_all add: write_cmos_sensor_8_def)

subsection \<open>The timing of a mode\<close>

text \<open>What both drivers' data have in common.\<close>

definition mode_ok :: "imgsensor_mode \<Rightarrow> bool" where
  "mode_ok m \<longleftrightarrow> pclk m \<in> {320000000, 480000000, 387200000, 243200000, 240384000, 237279200} \<and> linelength m = 5008
    \<and> 1288 \<le> framelength m \<and> framelength m \<le> 3220"

definition cfg_ok :: "sensor_cfg \<Rightarrow> bool" where
  "cfg_ok c \<longleftrightarrow> margin (cf_info c) = 10 \<and> min_shutter (cf_info c) = 1 \<and> max_frame_length (cf_info c) = 0xFFFF
    \<and> (\<forall>m \<in> {in_pre (cf_info c), in_cap (cf_info c), in_cap1 (cf_info c), in_cap2 (cf_info c), in_normal_video (cf_info c),
              in_hs_video (cf_info c), in_slim_video (cf_info c)}. mode_ok m)
    \<and> regs_only (cf_init c) \<and> regs_only (cf_preview c) \<and> regs_only (cf_preview_hdr c) \<and> (\<forall>fps. regs_only (cf_capture c fps))
    \<and> (\<forall>fps. regs_only (cf_normal_video c fps)) \<and> (\<forall>fps. regs_only (cf_fullsize_hdr c fps)) \<and> regs_only (cf_hs_video c)
    \<and> regs_only (cf_slim_video c)"

lemma regs_only_hdr: "regs_only (\<lambda>d. hdr_tail (write_regs rs d))"
proof -
  have "regs_only hdr_tail"
    unfolding regs_only_def hdr_tail_def using regs_only_regs by (auto simp: regs_only_def)
  then show ?thesis using regs_only_comp[OF _ regs_only_regs] by blast
qed

lemma regs_only_init: "regs_only (\<lambda>d. let d1 = write_regs rs d in write_cmos_sensor_8 a (f d1) d1)"
proof -
  have "regs_only (\<lambda>d. write_cmos_sensor_8 a (f d) d)" by (auto simp: regs_only_def write_cmos_sensor_8_def)
  from regs_only_comp[OF this regs_only_regs] show ?thesis by (simp add: Let_def)
qed

lemma imx214_ok: "cfg_ok imx214"
  unfolding cfg_ok_def imx214_def mode_ok_def imx214_info_def
  using regs_only_regs regs_only_init regs_only_hdr
  by (simp add: imx214_sensor_init_def[abs_def] imx214_preview_setting_def imx214_preview_setting_HDR_def[abs_def]
      imx214_capture_setting_def imx214_normal_video_setting_def imx214_fullsize_setting_HDR_def[abs_def]
      imx214_hs_video_setting_def imx214_slim_video_setting_def)

lemma imx214d2l_ok: "cfg_ok imx214d2l"
  unfolding cfg_ok_def imx214d2l_def mode_ok_def imx214d2l_info_def
  using regs_only_regs regs_only_init regs_only_id by (simp add: imx214d2l_sensor_init_def[abs_def])

lemma imx214_timing: "cf_info imx214 = imx214_info" by (simp add: imx214_def)

text \<open>The state of an opened driver.\<close>

definition timing_ok :: "sensor_dev \<Rightarrow> bool" where
  "timing_ok d \<longleftrightarrow> ctx_pclk d \<in> {320000000, 480000000, 387200000, 243200000, 240384000, 237279200} \<and> line_length d = 5008
    \<and> 1288 \<le> min_frame_length d \<and> min_frame_length d \<le> 68755 \<and> 1288 \<le> frame_length d \<and> frame_length d \<le> 68755"

definition pixel_clocks :: "nat list" where
  "pixel_clocks = [320000000, 480000000, 387200000, 243200000, 240384000, 237279200]"

lemma timing_clock: "timing_ok d \<Longrightarrow> unat (ctx_pclk d) \<in> set pixel_clocks"
  by (auto simp: timing_ok_def pixel_clocks_def)

lemma timing_lengths:
  assumes "timing_ok d"
  shows "line_length d = 5008" "1288 \<le> unat (min_frame_length d)" "unat (min_frame_length d) \<le> 68755"
    "1288 \<le> unat (frame_length d)" "unat (frame_length d) \<le> 68755"
  using assms by (simp_all add: timing_ok_def word_le_nat_alt)

lemma cfg_limits:
  "cfg_ok c \<Longrightarrow> margin (cf_info c) = 10 \<and> min_shutter (cf_info c) = 1 \<and> max_frame_length (cf_info c) = 0xFFFF"
  by (simp add: cfg_ok_def)

lemma unat_cap: "unat (if (0xFFFF :: u32) < x then 0xFFFF else x) = min 65535 (unat x)"
  by (auto simp: word_less_nat_alt)

lemma unat_u16_u32: "unat (ucast (x :: u16) :: u32) = unat x"
  by transfer simp

lemma u16_bound: "unat (x :: u16) < 65536"
  using unsigned_less[of x] by simp

lemma fit_frame_length_eq:
  assumes "cfg_ok c" "timing_ok d"
  shows "\<exists>fl. fit_frame_length c exp d = d\<lparr>frame_length := fl\<rparr>
    \<and> unat fl = min 65535 (max (unat (min_frame_length d)) (unat exp + 10))"
proof -
  note c = cfg_limits[OF assms(1)] and t = timing_lengths[OF assms(2)]
  have diff: "unat (min_frame_length d - 10) = unat (min_frame_length d) - 10"
    using t by (subst unat_sub) (simp_all add: word_le_nat_alt)
  have sum: "unat (ucast exp + 10 :: u32) = unat exp + 10"
    using u16_bound[of exp] by (subst unat_add_lem[THEN iffD1]) (simp_all add: unat_u16_u32)
  have less: "min_frame_length d - 10 < ucast exp \<longleftrightarrow> unat (min_frame_length d) < unat exp + 10"
    using t by (auto simp: word_less_nat_alt diff unat_u16_u32)
  let ?fl = "if min_frame_length d - 10 < ucast exp then ucast exp + 10 else min_frame_length d"
  have "unat ?fl = max (unat (min_frame_length d)) (unat exp + 10)" using less sum by simp
  then have "unat (if 0xFFFF < ?fl then 0xFFFF else ?fl) = min 65535 (max (unat (min_frame_length d)) (unat exp + 10))"
    by (simp only: unat_cap)
  then show ?thesis
    using c by (intro exI[of _ "if 0xFFFF < ?fl then 0xFFFF else ?fl"]) (simp add: fit_frame_length_def Let_def)
qed

text \<open>The frame length of a rate.\<close>

definition rate_lines :: "nat \<Rightarrow> nat \<Rightarrow> nat" where
  "rate_lines clk r = (clk div r * 10) mod 2 ^ 32 div 5008"

lemma set_max_framerate_eq:
  assumes c: "cfg_ok c" and t: "timing_ok d" and r: "r \<noteq> 0"
  shows "\<exists>fl dl. set_max_framerate c r en d =
      Some (write_u16 0x0340 fl (d\<lparr>frame_length := fl, dummy_line := dl, min_frame_length := (if en then fl else min_frame_length d)\<rparr>))
    \<and> unat fl = min 65535 (max (unat (min_frame_length d)) (rate_lines (unat (ctx_pclk d)) (unat r)))"
proof -
  note lim = cfg_limits[OF c] and tl = timing_lengths[OF t]
  let ?f = "ctx_pclk d div ucast r * 10 div line_length d"
  have f: "unat ?f = rate_lines (unat (ctx_pclk d)) (unat r)"
    using tl(1) by (simp add: rate_lines_def unat_div unat_word_ariths unat_u16_u32)
  have m: "unat (if min_frame_length d \<le> ?f then ?f else min_frame_length d)
      = max (unat (min_frame_length d)) (rate_lines (unat (ctx_pclk d)) (unat r))"
    using f by (auto simp: word_le_nat_alt max_def)
  let ?fl = "if min_frame_length d \<le> ?f then ?f else min_frame_length d"
  let ?g = "if 0xFFFF < ?fl then 0xFFFF else ?fl"
  have "unat ?g = min 65535 (max (unat (min_frame_length d)) (rate_lines (unat (ctx_pclk d)) (unat r)))"
    by (simp only: unat_cap m)
  moreover have "set_max_framerate c r en d =
      Some (write_u16 0x0340 ?g (d\<lparr>frame_length := ?g, dummy_line := ucast (?g - min_frame_length d),
              min_frame_length := (if en then ?g else min_frame_length d)\<rparr>))"
    using lim tl(1) r by (simp add: set_max_framerate_def Let_def set_dummy_def)
  ultimately show ?thesis by blast
qed

text \<open>The rate, in tenths of a frame per second, of a clock and a frame length.\<close>

definition frame_rate :: "nat \<Rightarrow> nat \<Rightarrow> nat" where
  "frame_rate clk fl = clk div 5008 * 10 div fl"

definition flickers :: "nat \<Rightarrow> bool" where
  "flickers r \<longleftrightarrow> (297 \<le> r \<and> r \<le> 305) \<or> (147 \<le> r \<and> r \<le> 150)"

lemma realtime_fps_eq:
  assumes "timing_ok d" "0 < unat (frame_length d)"
  shows "unat (realtime_fps d) = frame_rate (unat (ctx_pclk d)) (unat (frame_length d)) mod 65536"
proof -
  have "unat (ctx_pclk d) div 5008 * 10 < 2 ^ 32"
    using timing_clock[OF assms(1)] by (auto simp: pixel_clocks_def)
  then show ?thesis
    using timing_lengths(1)[OF assms(1)]
    by (simp add: realtime_fps_def frame_rate_def unsigned_ucast_eq unat_div unat_word_ariths take_bit_eq_mod)
qed

lemma rate_less: "k \<le> frame_rate clk fl \<Longrightarrow> 0 < fl \<Longrightarrow> k * fl \<le> clk div 5008 * 10"
  by (simp add: frame_rate_def less_eq_div_iff_mult_less_eq)

text \<open>At the two rates the driver falls back to, the frames are longer and the rate is off the flicker bands.\<close>

lemma fallback_30:
  assumes "clk \<in> set pixel_clocks" "297 \<le> frame_rate clk fl" "0 < fl"
  shows "fl \<le> rate_lines clk 296" "rate_lines clk 296 \<le> 65535" "\<not> flickers (frame_rate clk (rate_lines clk 296))"
  using assms(1) rate_less[OF assms(2,3)] by (auto simp: pixel_clocks_def rate_lines_def frame_rate_def flickers_def)

lemma fallback_15:
  assumes "clk \<in> set pixel_clocks" "147 \<le> frame_rate clk fl" "0 < fl"
  shows "fl \<le> rate_lines clk 146" "rate_lines clk 146 \<le> 65535" "\<not> flickers (frame_rate clk (rate_lines clk 146))"
  using assms(1) rate_less[OF assms(2,3)] by (auto simp: pixel_clocks_def rate_lines_def frame_rate_def flickers_def)

lemma rate_bound:
  assumes "clk \<in> set pixel_clocks" "1288 \<le> fl"
  shows "frame_rate clk fl < 65536" "fl = 65535 \<Longrightarrow> frame_rate clk fl < 147"
proof -
  have "frame_rate clk fl \<le> clk div 5008 * 10 div 1288" 
    unfolding frame_rate_def using assms(2) by (intro div_le_mono2) simp_all
  then show "frame_rate clk fl < 65536" using assms(1) by (auto simp: pixel_clocks_def)
  show "fl = 65535 \<Longrightarrow> frame_rate clk fl < 147" using assms(1) by (auto simp: pixel_clocks_def frame_rate_def)
qed

text \<open>The frame length that goes to the sensor.\<close>

lemma extend_frame_length_eq:
  assumes c: "cfg_ok c" and t: "timing_ok d"
    and fl: "1288 \<le> unat (frame_length d)" "unat (frame_length d) \<le> 65535"
      "min 65535 (unat (min_frame_length d)) \<le> unat (frame_length d)"
  shows "\<exists>fl dl. extend_frame_length c d = Some (write_u16 0x0340 fl (d\<lparr>frame_length := fl, dummy_line := dl\<rparr>))
    \<and> unat (frame_length d) \<le> unat fl \<and> unat fl \<le> 65535
    \<and> (if autoflicker_en d then \<not> flickers (frame_rate (unat (ctx_pclk d)) (unat fl)) else fl = frame_length d)"
proof -
  let ?clk = "unat (ctx_pclk d)" and ?fl = "unat (frame_length d)"
  have clk: "?clk \<in> set pixel_clocks" using timing_clock[OF t] .
  have rate: "unat (realtime_fps d) = frame_rate ?clk ?fl"
    using realtime_fps_eq[OF t] rate_bound(1)[OF clk fl(1)] fl(1) by simp
  have bands: "297 \<le> realtime_fps d \<and> realtime_fps d \<le> 305 \<longleftrightarrow> 297 \<le> frame_rate ?clk ?fl \<and> frame_rate ?clk ?fl \<le> 305"
    "147 \<le> realtime_fps d \<and> realtime_fps d \<le> 150 \<longleftrightarrow> 147 \<le> frame_rate ?clk ?fl \<and> frame_rate ?clk ?fl \<le> 150"
    by (simp_all add: word_le_nat_alt rate)
  have nz: "line_length d \<noteq> 0" "frame_length d \<noteq> 0" using timing_lengths(1)[OF t] fl(1) by auto
  have keep: "d = d\<lparr>frame_length := frame_length d, dummy_line := dummy_line d\<rparr>" by simp
  have fallback: ?thesis
    if "autoflicker_en d" "extend_frame_length c d = set_max_framerate c r False d" "r \<noteq> 0"
      "?fl \<le> rate_lines ?clk (unat r)" "rate_lines ?clk (unat r) \<le> 65535" "\<not> flickers (frame_rate ?clk (rate_lines ?clk (unat r)))"
      "147 \<le> frame_rate ?clk ?fl" for r :: u16
  proof -
    obtain g dl where g: "set_max_framerate c r False d = Some (write_u16 0x0340 g (d\<lparr>frame_length := g, dummy_line := dl\<rparr>))"
      "unat g = min 65535 (max (unat (min_frame_length d)) (rate_lines ?clk (unat r)))"
      using set_max_framerate_eq[OF c t \<open>r \<noteq> 0\<close>, of False] by auto
    have "?fl \<noteq> 65535" using rate_bound(2)[OF clk fl(1)] that(7) by auto
    then have "unat (min_frame_length d) \<le> ?fl" using fl by (auto simp: min_def split: if_splits)
    then have "unat g = rate_lines ?clk (unat r)" using g(2) that(4,5) by simp
    then show ?thesis using g(1) that(1,2,4,5,6) by auto
  qed
  consider "\<not> autoflicker_en d" | "autoflicker_en d" "297 \<le> frame_rate ?clk ?fl \<and> frame_rate ?clk ?fl \<le> 305"
    | "autoflicker_en d" "\<not> (297 \<le> frame_rate ?clk ?fl \<and> frame_rate ?clk ?fl \<le> 305)"
        "147 \<le> frame_rate ?clk ?fl \<and> frame_rate ?clk ?fl \<le> 150"
    | "autoflicker_en d" "\<not> flickers (frame_rate ?clk ?fl)"
    by (auto simp: flickers_def)
  then show ?thesis
  proof cases
    case 1
    then show ?thesis using keep fl(2) by (intro exI[of _ "frame_length d"] exI[of _ "dummy_line d"]) (simp add: extend_frame_length_def)
  next
    case 2
    have f: "297 \<le> frame_rate ?clk ?fl" "0 < ?fl" using 2 fl(1) by auto
    have "extend_frame_length c d = set_max_framerate c 296 False d" using 2 nz bands(1) by (simp add: extend_frame_length_def)
    then show ?thesis by (rule fallback[OF 2(1)]) (use f fallback_30[OF clk f] in simp_all)
  next
    case 3
    have f: "147 \<le> frame_rate ?clk ?fl" "0 < ?fl" using 3 fl(1) by auto
    have "extend_frame_length c d = set_max_framerate c 146 False d" using 3 nz bands by (auto simp: extend_frame_length_def)
    then show ?thesis by (rule fallback[OF 3(1)]) (use f fallback_15[OF clk f] in simp_all)
  next
    case 4
    then show ?thesis using keep fl(2) nz bands
      by (intro exI[of _ "frame_length d"] exI[of _ "dummy_line d"]) (auto simp: extend_frame_length_def flickers_def)
  qed
qed

lemma timing_ok_step:
  "timing_ok d \<Longrightarrow> 1288 \<le> unat fl \<Longrightarrow> unat fl \<le> 65535 \<Longrightarrow> timing_ok (d\<lparr>frame_length := fl, dummy_line := dl\<rparr>)"
  by (simp add: timing_ok_def word_le_nat_alt)

text \<open>The frame length for an exposure.\<close>

lemma exposure_step:
  assumes c: "cfg_ok c" and t: "timing_ok d"
  shows "\<exists>fl dl. extend_frame_length c (fit_frame_length c exp d) =
      Some (write_u16 0x0340 fl (d\<lparr>frame_length := fl, dummy_line := dl\<rparr>))
    \<and> unat fl \<le> 65535 \<and> min 65535 (max (unat (min_frame_length d)) (unat exp + 10)) \<le> unat fl
    \<and> (if autoflicker_en d then \<not> flickers (frame_rate (unat (ctx_pclk d)) (unat fl))
       else unat fl = min 65535 (max (unat (min_frame_length d)) (unat exp + 10)))"
proof -
  obtain f where f: "fit_frame_length c exp d = d\<lparr>frame_length := f\<rparr>"
    "unat f = min 65535 (max (unat (min_frame_length d)) (unat exp + 10))"
    using fit_frame_length_eq[OF c t] by blast
  have b: "1288 \<le> unat f" "unat f \<le> 65535" "min 65535 (unat (min_frame_length d)) \<le> unat f"
    using f(2) timing_lengths(2)[OF t] by simp_all
  have "d\<lparr>frame_length := f\<rparr> = d\<lparr>frame_length := f, dummy_line := dummy_line d\<rparr>" by simp
  then have "timing_ok (d\<lparr>frame_length := f\<rparr>)" using timing_ok_step[OF t b(1,2), of "dummy_line d"] by simp
  from extend_frame_length_eq[OF c this] b
  obtain fl dl where e: "extend_frame_length c (d\<lparr>frame_length := f\<rparr>) =
      Some (write_u16 0x0340 fl (d\<lparr>frame_length := f, frame_length := fl, dummy_line := dl\<rparr>))"
    "unat f \<le> unat fl" "unat fl \<le> 65535"
    "if autoflicker_en d then \<not> flickers (frame_rate (unat (ctx_pclk d)) (unat fl)) else fl = f"
    by (auto cong: if_cong)
  then show ?thesis using f by (intro exI[of _ fl] exI[of _ dl]) (auto split: if_splits)
qed

lemma clamp_shutter_eq: "cfg_ok c \<Longrightarrow> unat (clamp_shutter c exp) = max 1 (unat exp)"
  using cfg_limits[of c] by (auto simp: clamp_shutter_def word_less_nat_alt unat_u16_u32 max_def)

lemma timing_ok_regs [simp]:
  "timing_ok (write_u16 a v d) = timing_ok d" "timing_ok (write_cmos_sensor_8 a b d) = timing_ok d"
  "timing_ok (d\<lparr>shutter := x\<rparr>) = timing_ok d" "timing_ok (d\<lparr>gain := x\<rparr>) = timing_ok d"
  "timing_ok (d\<lparr>sensor_reg := r\<rparr>) = timing_ok d" "timing_ok (d\<lparr>test_pattern := p\<rparr>) = timing_ok d"
  "timing_ok (d\<lparr>i2c_write_id := i\<rparr>) = timing_ok d" "timing_ok (d\<lparr>autoflicker_en := p\<rparr>) = timing_ok d"
  "timing_ok (d\<lparr>current_fps := fps\<rparr>) = timing_ok d" "timing_ok (d\<lparr>ihdr_mode := m\<rparr>) = timing_ok d"
  "timing_ok (d\<lparr>current_scenario_id := sc\<rparr>) = timing_ok d" "timing_ok (d\<lparr>sensor_mode := sm\<rparr>) = timing_ok d"
  by (simp_all add: timing_ok_def write_cmos_sensor_8_def)

lemma set_shutter_eq:
  assumes c: "cfg_ok c" and t: "timing_ok d"
  shows "\<exists>fl dl. set_shutter c exp d =
      Some (write_u16 0x0202 (ucast (clamp_shutter c exp)) (write_u16 0x0340 fl
        ((write_cmos_sensor_8 0x0104 1 (d\<lparr>shutter := ucast exp\<rparr>))\<lparr>frame_length := fl, dummy_line := dl\<rparr>)))
    \<and> unat fl \<le> 65535 \<and> min 65535 (max (unat (min_frame_length d)) (unat exp + 10)) \<le> unat fl
    \<and> (if autoflicker_en d then \<not> flickers (frame_rate (unat (ctx_pclk d)) (unat fl))
       else unat fl = min 65535 (max (unat (min_frame_length d)) (unat exp + 10)))"
proof -
  let ?d = "write_cmos_sensor_8 0x0104 1 (d\<lparr>shutter := ucast exp\<rparr>)"
  have "timing_ok ?d" using t by simp
  from exposure_step[OF c this, of exp] show ?thesis by (force simp: set_shutter_def write_shutter_def)
qed

lemma exposure_registers:
  assumes "cfg_ok c" and "timing_ok d"
  shows "\<exists>t. set_shutter c exp d = Some t
    \<and> unat (reg16 0x0202 t) = max 1 (unat exp) \<and> reg16 0x0340 t = frame_length t
    \<and> min_frame_length t = min_frame_length d
    \<and> unat (frame_length t) \<le> 65535 \<and> min 65535 (max (unat (min_frame_length d)) (unat exp + 10)) \<le> unat (frame_length t)
    \<and> (if autoflicker_en d then \<not> flickers (frame_rate (unat (ctx_pclk t)) (unat (frame_length t)))
       else unat (frame_length t) = min 65535 (max (unat (min_frame_length d)) (unat exp + 10)))"
proof -
  obtain fl dl where s: "set_shutter c exp d =
      Some (write_u16 0x0202 (ucast (clamp_shutter c exp)) (write_u16 0x0340 fl
        ((write_cmos_sensor_8 0x0104 1 (d\<lparr>shutter := ucast exp\<rparr>))\<lparr>frame_length := fl, dummy_line := dl\<rparr>)))"
    and fl: "unat fl \<le> 65535" "min 65535 (max (unat (min_frame_length d)) (unat exp + 10)) \<le> unat fl"
      "if autoflicker_en d then \<not> flickers (frame_rate (unat (ctx_pclk d)) (unat fl))
       else unat fl = min 65535 (max (unat (min_frame_length d)) (unat exp + 10))"
    using set_shutter_eq[OF assms] by blast
  have small: "ucast (clamp_shutter c exp) \<le> (0xFFFF :: u32)" "fl \<le> 0xFFFF"
    using u16_bound[of "clamp_shutter c exp"] fl(1) by (simp_all add: word_le_nat_alt unat_u16_u32)
  show ?thesis
    using s fl small clamp_shutter_eq[OF assms(1)] by (simp add: reg16_u16 reg16_other unat_u16_u32)
qed

end
