(* ===== verification/Imx214Claims.thy ===== *)
theory Imx214Claims
  imports Imx214Props
begin

text \<open>
  Properties of the sensor driver over any sequence of calls: which one divides by zero, how the
  video rate only falls, when gains take effect and how exact they are, and when the registers
  of a mode agree with the timing the driver reports.
\<close>

unbundle bit_operations_syntax

subsection \<open>Calls\<close>

text \<open>What the adaptor calls: features, scenarios and the vsync notice.\<close>

datatype sensor_call = Sn_feature sensor_feature | Sn_control u32 | Sn_vsync

fun sensor_run :: "sensor_cfg \<Rightarrow> sensor_call \<Rightarrow> sensor_dev \<Rightarrow> sensor_dev option" where
  "sensor_run c (Sn_feature f) d = feature_set c f d"
| "sensor_run c (Sn_control sc) d = Some (snd (control c sc d))"
| "sensor_run c Sn_vsync d = Some (vsync_notify d)"

lemma timing_ok_regs_only: "regs_only f \<Longrightarrow> timing_ok (f d) = timing_ok d"
  using regs_only_D[of f d] by auto

lemma mode_timing: "mode_ok m \<Longrightarrow> timing_ok (set_mode_timing m d)"
  by (auto simp: mode_ok_def timing_ok_def set_mode_timing_def intro: order.trans)

lemma cfg_modes:
  assumes "cfg_ok c"
  shows "mode_ok (in_pre (cf_info c))" "mode_ok (in_cap (cf_info c))" "mode_ok (in_cap1 (cf_info c))" "mode_ok (in_cap2 (cf_info c))"
    "mode_ok (in_normal_video (cf_info c))" "mode_ok (in_hs_video (cf_info c))" "mode_ok (in_slim_video (cf_info c))"
    "mode_ok (capture_mode (cf_info c) fps)"
  using assms by (simp_all add: cfg_ok_def capture_mode_def)

lemma cfg_regs:
  assumes "cfg_ok c"
  shows "regs_only (cf_init c)" "regs_only (cf_preview c)" "regs_only (cf_preview_hdr c)" "regs_only (cf_capture c fps)"
    "regs_only (cf_normal_video c fps)" "regs_only (cf_fullsize_hdr c fps)" "regs_only (cf_hs_video c)" "regs_only (cf_slim_video c)"
  using assms by (simp_all add: cfg_ok_def)

lemma timing_ok_dummy [simp]: "timing_ok (d\<lparr>dummy_line := l, dummy_pixel := p\<rparr>) = timing_ok d"
  by (simp add: timing_ok_def)

lemma control_ok:
  assumes "cfg_ok c"
  shows "timing_ok (snd (control c sc d))"
  using assms
  by (auto simp: control_def preview_def capture_def normal_video_def hs_video_def slim_video_def Let_def
      timing_ok_regs_only cfg_regs cfg_modes mode_timing)

lemma find_sensor_id: "\<exists>i. snd (find_sensor w probe as d) = d\<lparr>i2c_write_id := i\<rparr>"
proof (induction as arbitrary: d)
  case Nil
  show ?case by (rule exI[of _ "i2c_write_id d"]) simp
next
  case (Cons a as)
  obtain i where "snd (find_sensor w probe as (d\<lparr>i2c_write_id := a\<rparr>)) = d\<lparr>i2c_write_id := a, i2c_write_id := i\<rparr>"
    using Cons.IH by blast
  then show ?case by (auto simp: Let_def)
qed

lemma get_id_dev: "\<exists>i. snd (snd (get_imgsensor_id c probe d)) = d\<lparr>i2c_write_id := i\<rparr>"
  using find_sensor_id[of "sensor_id (cf_info c)" probe "i2c_addr_table (cf_info c)" d]
  by (auto simp: get_imgsensor_id_def split: prod.splits bool.splits)

lemma open_ok:
  assumes "cfg_ok c" "open_sensor c probe d = (ERROR_NONE, t)"
  shows "timing_ok t"
  using assms(2) cfg_modes(1)[OF assms(1)]
  by (auto simp: open_sensor_def timing_ok_def mode_ok_def split: prod.splits if_splits intro: order.trans)

lemma scenario_rate_ok:
  assumes "mode_ok m"
  shows "set_scenario_rate m r d = None \<longleftrightarrow> r = 0" "timing_ok d \<Longrightarrow> set_scenario_rate m r d = Some t \<Longrightarrow> timing_ok t"
proof -
  show "set_scenario_rate m r d = None \<longleftrightarrow> r = 0" using assms by (auto simp: set_scenario_rate_def mode_ok_def Let_def)
  assume t: "timing_ok d" "set_scenario_rate m r d = Some t"
  let ?fl = "pclk m div r * 10 div linelength m"
  let ?l = "(if framelength m < ?fl then ucast (?fl - framelength m) else 0) :: u16"
  have "t = d\<lparr>dummy_line := ?l, frame_length := framelength m + ucast ?l, min_frame_length := framelength m + ucast ?l\<rparr>"
    using t(2) by (simp add: set_scenario_rate_def Let_def split: if_splits)
  then obtain l :: u16 where l: "t = d\<lparr>dummy_line := l, frame_length := framelength m + ucast l, min_frame_length := framelength m + ucast l\<rparr>"
    by blast
  have "unat (framelength m + ucast l :: u32) = unat (framelength m) + unat l"
    using assms u16_bound[of l] by (subst unat_add_lem[THEN iffD1]) (simp_all add: unat_u16_u32 mode_ok_def word_le_nat_alt)
  then show "timing_ok t" using t(1) l assms u16_bound[of l] by (simp add: timing_ok_def mode_ok_def word_le_nat_alt)
qed

lemma max_framerate_timing:
  assumes "cfg_ok c" "timing_ok d" "r \<noteq> 0"
  shows "\<exists>t. set_max_framerate c r en d = Some t \<and> timing_ok t \<and> (\<not> en \<longrightarrow> min_frame_length t = min_frame_length d)
    \<and> (en \<longrightarrow> unat (min_frame_length t) \<le> 65535 \<and> min 65535 (unat (min_frame_length d)) \<le> unat (min_frame_length t)
         \<and> frame_length t = min_frame_length t)"
proof -
  obtain fl dl where f: "set_max_framerate c r en d =
      Some (write_u16 0x0340 fl (d\<lparr>frame_length := fl, dummy_line := dl, min_frame_length := (if en then fl else min_frame_length d)\<rparr>))"
    "unat fl = min 65535 (max (unat (min_frame_length d)) (rate_lines (unat (ctx_pclk d)) (unat r)))"
    using set_max_framerate_eq[OF assms] by blast
  have b: "1288 \<le> unat fl" "unat fl \<le> 65535" "min 65535 (unat (min_frame_length d)) \<le> unat fl"
    using f(2) timing_lengths(2)[OF assms(2)] by simp_all
  then show ?thesis using f(1) assms(2) by (simp add: timing_ok_def word_le_nat_alt)
qed

lemma video_mode_timing:
  assumes "cfg_ok c" "timing_ok d"
  shows "\<exists>t. set_video_mode c r d = Some t \<and> timing_ok t
    \<and> min 65535 (unat (min_frame_length d)) \<le> unat (min_frame_length t)
    \<and> (r \<noteq> 0 \<longrightarrow> unat (min_frame_length t) \<le> 65535 \<and> frame_length t = min_frame_length t)"
proof (cases "r = 0")
  case True
  then show ?thesis using assms(2) by (simp add: set_video_mode_def)
next
  case False
  let ?fps = "if r = 300 \<and> autoflicker_en d then 296 else if r = 150 \<and> autoflicker_en d then 146 else r"
  have "timing_ok (d\<lparr>current_fps := ?fps\<rparr>)" "?fps \<noteq> 0" using assms(2) False by auto
  from max_framerate_timing[OF assms(1) this, of True] False show ?thesis by (auto simp: set_video_mode_def Let_def)
qed

text \<open>The exposure calls.\<close>

lemma exposure_timing:
  assumes c: "cfg_ok c" and t: "timing_ok d"
  shows "\<exists>t. set_shutter c e d = Some t \<and> timing_ok t \<and> min_frame_length t = min_frame_length d"
    "\<exists>t. ihdr_write_shutter c e se d = Some t \<and> timing_ok t \<and> min_frame_length t = min_frame_length d"
    "\<exists>t. ihdr_write_shutter_gain c e se g d = Some t \<and> timing_ok t \<and> min_frame_length t = min_frame_length d"
proof -
  have bound: "1288 \<le> unat fl" if "min 65535 (max (unat (min_frame_length d)) (unat e + 10)) \<le> unat fl" for fl :: u32
    using that timing_lengths(2)[OF t] by simp
  obtain fl dl where s: "set_shutter c e d =
      Some (write_u16 0x0202 (ucast (clamp_shutter c e)) (write_u16 0x0340 fl
        ((write_cmos_sensor_8 0x0104 1 (d\<lparr>shutter := ucast e\<rparr>))\<lparr>frame_length := fl, dummy_line := dl\<rparr>)))"
    "unat fl \<le> 65535" "min 65535 (max (unat (min_frame_length d)) (unat e + 10)) \<le> unat fl"
    using set_shutter_eq[OF c t] by blast
  have "timing_ok (write_cmos_sensor_8 0x0104 1 (d\<lparr>shutter := ucast e\<rparr>))" using t by simp
  from timing_ok_step[OF this bound[OF s(3)] s(2), of dl] s(1)
  show "\<exists>t. set_shutter c e d = Some t \<and> timing_ok t \<and> min_frame_length t = min_frame_length d" by simp
  obtain fl dl where x: "extend_frame_length c (fit_frame_length c e d) =
      Some (write_u16 0x0340 fl (d\<lparr>frame_length := fl, dummy_line := dl\<rparr>))"
    "unat fl \<le> 65535" "min 65535 (max (unat (min_frame_length d)) (unat e + 10)) \<le> unat fl"
    using exposure_step[OF c t] by blast
  note k = timing_ok_step[OF t bound[OF x(3)] x(2), of dl]
  show "\<exists>t. ihdr_write_shutter c e se d = Some t \<and> timing_ok t \<and> min_frame_length t = min_frame_length d"
    using x(1) k by (simp add: ihdr_write_shutter_def)
  show "\<exists>t. ihdr_write_shutter_gain c e se g d = Some t \<and> timing_ok t \<and> min_frame_length t = min_frame_length d"
    using x(1) k by (simp add: ihdr_write_shutter_gain_def write_gain_def Let_def)
qed

text \<open>Every call has a result, one kind of rate request excepted, and keeps the timing.\<close>

definition zero_rate :: "sensor_feature \<Rightarrow> bool" where
  "zero_rate f \<longleftrightarrow> (\<exists>sc r. f = Set_max_frame_rate_by_scenario sc r \<and> (ucast r :: u32) = 0 \<and> (ucast sc :: u32) \<noteq> NORMAL_VIDEO)"

lemma by_scenario_ok:
  assumes "cfg_ok c"
  shows "set_max_framerate_by_scenario c sc r d = None \<longleftrightarrow> r = 0 \<and> sc \<noteq> NORMAL_VIDEO"
    "timing_ok d \<Longrightarrow> set_max_framerate_by_scenario c sc r d = Some t \<Longrightarrow> timing_ok t"
proof -
  note m = cfg_modes[OF assms]
  show "set_max_framerate_by_scenario c sc r d = None \<longleftrightarrow> r = 0 \<and> sc \<noteq> NORMAL_VIDEO"
    using m by (simp add: set_max_framerate_by_scenario_def Let_def scenario_rate_ok(1) scenario_defs del: not_None_eq)
  assume t: "timing_ok d" "set_max_framerate_by_scenario c sc r d = Some t"
  then have "t = d \<or> (\<exists>x. mode_ok x \<and> set_scenario_rate x r d = Some t)"
    using m by (simp add: set_max_framerate_by_scenario_def Let_def split: if_splits) blast+
  then show "timing_ok t" using t(1) scenario_rate_ok(2) by blast
qed

lemma gain_timing [simp]:
  "timing_ok (snd (set_gain g d)) = timing_ok d" "min_frame_length (snd (set_gain g d)) = min_frame_length d"
  "timing_ok (vsync_notify d) = timing_ok d" "min_frame_length (vsync_notify d) = min_frame_length d"
  by (simp_all add: set_gain_def vsync_notify_def write_gain_def Let_def)

lemma id_timing [simp]:
  "timing_ok (snd (snd (get_imgsensor_id c probe d))) = timing_ok d"
  "min_frame_length (snd (snd (get_imgsensor_id c probe d))) = min_frame_length d"
  using get_id_dev[of c probe d] by auto

lemma feature_cases:
  assumes c: "cfg_ok c" and t: "timing_ok d"
  shows "feature_set c f d = None \<longleftrightarrow> zero_rate f"
    "feature_set c f d = Some x \<Longrightarrow> timing_ok x
      \<and> ((\<forall>sc r. f \<noteq> Set_max_frame_rate_by_scenario sc r) \<longrightarrow> min 65535 (unat (min_frame_length d)) \<le> unat (min_frame_length x))"
proof -
  have "(feature_set c f d = None \<longleftrightarrow> zero_rate f) \<and> (feature_set c f d = Some x \<longrightarrow> timing_ok x
      \<and> ((\<forall>sc r. f \<noteq> Set_max_frame_rate_by_scenario sc r) \<longrightarrow> min 65535 (unat (min_frame_length d)) \<le> unat (min_frame_length x)))"
  proof (cases f)
    case (Set_eshutter e)
    then show ?thesis using exposure_timing(1)[OF c t, of "ucast e"] by (auto simp: feature_set_def zero_rate_def)
  next
    case (Set_video_mode r)
    then show ?thesis using video_mode_timing[OF c t, of "ucast r"] by (auto simp: feature_set_def zero_rate_def)
  next
    case (Set_max_frame_rate_by_scenario sc r)
    then show ?thesis using by_scenario_ok[OF c] t by (auto simp: feature_set_def zero_rate_def)
  next
    case (Set_ihdr_shutter_gain le se g)
    then show ?thesis using exposure_timing(3)[OF c t, of "ucast le" "ucast se" "ucast g"]
      by (auto simp: feature_set_def zero_rate_def)
  next
    case (Set_hdr_shutter le se)
    then show ?thesis using exposure_timing(2)[OF c t, of "ucast le" "ucast se"] by (auto simp: feature_set_def zero_rate_def)
  next
    case (Set_streaming_resume e)
    then show ?thesis using exposure_timing(1)[OF c t, of "ucast e"] t by (auto simp: feature_set_def zero_rate_def)
  next
    case (Set_register a v)
    then show ?thesis using t by (auto simp: feature_set_def zero_rate_def)
  next
    case (Set_test_pattern e)
    then show ?thesis using t by (auto simp: feature_set_def zero_rate_def set_test_pattern_mode_def)
  next
    case (Set_auto_flicker_mode e)
    then show ?thesis using t by (auto simp: feature_set_def zero_rate_def set_auto_flicker_mode_def)
  qed (use t in \<open>auto simp: feature_set_def zero_rate_def\<close>)
  then show "feature_set c f d = None \<longleftrightarrow> zero_rate f"
    "feature_set c f d = Some x \<Longrightarrow> timing_ok x
      \<and> ((\<forall>sc r. f \<noteq> Set_max_frame_rate_by_scenario sc r) \<longrightarrow> min 65535 (unat (min_frame_length d)) \<le> unat (min_frame_length x))"
    by auto
qed

lemma sensor_run_ok: "cfg_ok c \<Longrightarrow> timing_ok d \<Longrightarrow> sensor_run c k d = Some t \<Longrightarrow> timing_ok t"
  using feature_cases(2)[of c d] control_ok[of c] by (cases k) auto

lemma opened_timing:
  assumes "c = imx214 \<or> c = imx214d2l" and "open_sensor c probe d0 = (ERROR_NONE, d1)"
    and "ofold (sensor_run c) calls d1 = Some d"
  shows "cfg_ok c" and "timing_ok d"
proof -
  show c: "cfg_ok c" using assms(1) imx214_ok imx214d2l_ok by blast
  show "timing_ok d"
    using ofold_invariant[OF assms(3), of timing_ok] open_ok[OF c assms(2)] sensor_run_ok[OF c] by blast
qed

text \<open>C21. After a successful open of either module and any scenario, feature and vsync calls that return, an
  exposure reaches the sensor: the call returns, the exposure registers hold the exposure (one line
  at least), the frame-length registers hold the context's frame length, frames are never shorter
  than the current minimum and leave ten lines after the exposure, both as far as the register's
  65535 lines allow. Without anti-flicker the frame length is the least such one; with it the rate
  is kept off 29.7 to 30.5 and 14.7 to 15.0 frames per second.
\<close>

theorem exposure_reaches_sensor:
  assumes "c = imx214 \<or> c = imx214d2l" and "open_sensor c probe d0 = (ERROR_NONE, d1)"
    and "ofold (sensor_run c) calls d1 = Some d"
  shows "\<exists>t. set_shutter c exp d = Some t
    \<and> unat (reg16 0x0202 t) = max 1 (unat exp) \<and> reg16 0x0340 t = frame_length t
    \<and> min_frame_length t = min_frame_length d
    \<and> unat (frame_length t) \<le> 65535 \<and> min 65535 (max (unat (min_frame_length d)) (unat exp + 10)) \<le> unat (frame_length t)
    \<and> (if autoflicker_en d then \<not> flickers (frame_rate (unat (ctx_pclk t)) (unat (frame_length t)))
       else unat (frame_length t) = min 65535 (max (unat (min_frame_length d)) (unat exp + 10)))"
  by (rule exposure_registers[OF opened_timing[OF assms]])

theorem exposure_reaches_sensor_witness:
  "\<exists>d t. sensor_run imx214 (Sn_control NORMAL_PREVIEW)
      (snd (open_sensor imx214 (\<lambda>_ _. 0x0214) (init_ctx 0x34 (\<lambda>_. 0)))) = Some d
    \<and> set_shutter imx214 5000 d = Some t \<and> unat (reg16 0x0202 t) = 5000 \<and> 5010 \<le> unat (frame_length t)"
proof -
  let ?d1 = "snd (open_sensor imx214 (\<lambda>_ _. 0x0214) (init_ctx 0x34 (\<lambda>_. 0)))"
  have "fst (open_sensor imx214 (\<lambda>_ _. 0x0214) (init_ctx 0x34 (\<lambda>_. 0))) = ERROR_NONE"
    by (simp add: open_sensor_def get_imgsensor_id_def imx214_timing imx214_info_def)
  then have opened: "open_sensor imx214 (\<lambda>_ _. 0x0214) (init_ctx 0x34 (\<lambda>_. 0)) = (ERROR_NONE, ?d1)"
    by (metis prod.collapse)
  obtain d where d: "sensor_run imx214 (Sn_control NORMAL_PREVIEW) ?d1 = Some d" by simp
  then have run: "ofold (sensor_run imx214) [Sn_control NORMAL_PREVIEW] ?d1 = Some d" by simp
  show ?thesis using exposure_reaches_sensor[OF _ opened run, of 5000] d by force
qed

text \<open>
  After a successful open, whatever calls follow, exactly one call has no result: asking for the
  rate 0 in any scenario but normal video divides by zero. No exposure, gain, anti-flicker or
  video-mode call does, because the context always has the timing of one of the modes.
\<close>

theorem sensor_faults_iff:
  assumes "cfg_ok c" and "open_sensor c probe d0 = (ERROR_NONE, d1)" and "ofold (sensor_run c) calls d1 = Some d"
  shows "sensor_run c k d = None \<longleftrightarrow>
    (\<exists>sc r. k = Sn_feature (Set_max_frame_rate_by_scenario sc r) \<and> (ucast r :: u32) = 0 \<and> (ucast sc :: u32) \<noteq> NORMAL_VIDEO)"
proof -
  have "timing_ok d"
    using ofold_invariant[OF assms(3), of timing_ok] open_ok[OF assms(1,2)] sensor_run_ok[OF assms(1)] by blast
  then show ?thesis using feature_cases(1)[OF assms(1)] by (cases k) (auto simp: zero_rate_def)
qed

theorem sensor_faults_iff_witness:
  "\<exists>d. open_sensor imx214 (\<lambda>_ _. 0x0214) (init_ctx 0x34 (\<lambda>_. 0)) = (ERROR_NONE, d)
    \<and> sensor_run imx214 (Sn_feature (Set_max_frame_rate_by_scenario 0 0)) d = None
    \<and> sensor_run imx214 (Sn_feature (Set_eshutter 0)) d \<noteq> None"
proof -
  have "fst (open_sensor imx214 (\<lambda>_ _. 0x0214) (init_ctx 0x34 (\<lambda>_. 0))) = ERROR_NONE"
    by (simp add: open_sensor_def get_imgsensor_id_def imx214_timing imx214_info_def)
  then obtain d where d: "open_sensor imx214 (\<lambda>_ _. 0x0214) (init_ctx 0x34 (\<lambda>_. 0)) = (ERROR_NONE, d)"
    by (metis prod.collapse)
  have run: "ofold (sensor_run imx214) [] d = Some d" by simp
  show ?thesis
    using d sensor_faults_iff[OF imx214_ok d run, of "Sn_feature (Set_max_frame_rate_by_scenario 0 0)"]
      sensor_faults_iff[OF imx214_ok d run, of "Sn_feature (Set_eshutter 0)"]
    by (auto simp: scenario_defs)
qed

text \<open>
  The video rate only falls. Once the video mode has set a rate, no sequence of feature calls
  without a new maximum rate of a scenario - setting a higher video rate included - makes frames
  shorter again: the frame length of any later exposure is at least the one the video mode set.
\<close>

theorem video_rate_only_falls:
  assumes "cfg_ok c" and "timing_ok d" and "r \<noteq> 0" and "set_video_mode c r d = Some d1"
    and "\<forall>f \<in> set fs. \<forall>sc rate. f \<noteq> Set_max_frame_rate_by_scenario sc rate" and "ofold (feature_set c) fs d1 = Some d2"
    and "set_shutter c exp d2 = Some d3"
  shows "unat (frame_length d1) \<le> unat (frame_length d3)"
proof -
  have d1: "timing_ok d1" "unat (min_frame_length d1) \<le> 65535" "frame_length d1 = min_frame_length d1"
    using video_mode_timing[OF assms(1,2), of r] assms(3,4) by auto
  define low where "low x \<longleftrightarrow> timing_ok x \<and> unat (min_frame_length d1) \<le> unat (min_frame_length x)" for x
  have "low d2"
  proof (rule ofold_invariant[OF assms(6)])
    show "low d1" using d1 by (simp add: low_def)
    fix f x t assume "f \<in> set fs" "low x" "feature_set c f x = Some t"
    then show "low t" using feature_cases(2)[OF assms(1), of x f t] assms(5) d1(2) by (fastforce simp: low_def)
  qed
  then have "timing_ok d2" "unat (min_frame_length d1) \<le> unat (min_frame_length d2)" by (simp_all add: low_def)
  moreover obtain fl dl where "set_shutter c exp d2 =
      Some (write_u16 0x0202 (ucast (clamp_shutter c exp)) (write_u16 0x0340 fl
        ((write_cmos_sensor_8 0x0104 1 (d2\<lparr>shutter := ucast exp\<rparr>))\<lparr>frame_length := fl, dummy_line := dl\<rparr>)))"
    "min 65535 (max (unat (min_frame_length d2)) (unat exp + 10)) \<le> unat fl"
    using set_shutter_eq[OF assms(1)] calculation(1) by blast
  ultimately show ?thesis using assms(7) d1(2,3) by simp
qed

theorem video_rate_only_falls_witness:
  "\<exists>d1 d2 d3. set_video_mode imx214 150 (snd (control imx214 NORMAL_VIDEO (init_ctx 0x34 (\<lambda>_. 0)))) = Some d1
    \<and> feature_set imx214 (Set_video_mode 300) d1 = Some d2 \<and> set_shutter imx214 100 d2 = Some d3
    \<and> unat (frame_length d1) \<le> unat (frame_length d3)"
proof -
  let ?d = "snd (control imx214 NORMAL_VIDEO (init_ctx 0x34 (\<lambda>_. 0)))"
  have t: "timing_ok ?d" by (rule control_ok[OF imx214_ok])
  obtain d1 where d1: "set_video_mode imx214 150 ?d = Some d1" "timing_ok d1"
    using video_mode_timing[OF imx214_ok t] by blast
  obtain d2 where d2: "set_video_mode imx214 300 d1 = Some d2" "timing_ok d2"
    using video_mode_timing[OF imx214_ok d1(2)] by blast
  obtain d3 where d3: "set_shutter imx214 100 d2 = Some d3" using exposure_timing(1)[OF imx214_ok d2(2)] by blast
  have f: "feature_set imx214 (Set_video_mode 300) d1 = Some d2" using d2(1) by (simp add: feature_set_def)
  then have "ofold (feature_set imx214) [Set_video_mode 300] d1 = Some d2" by simp
  from video_rate_only_falls[OF imx214_ok t _ d1(1) _ this d3] show ?thesis using d1(1) f d3 by auto
qed

end
