(* ===== verification/ImxGain.thy ===== *)
theory ImxGain
  imports Imx214Props
begin

text \<open>
  Gains and modes of the IMX214: how exact the gain in the registers is, when it arrives there,
  and when the registers of a mode agree with the timing the driver reports.
\<close>

unbundle bit_operations_syntax

subsection \<open>The gain table\<close>

text \<open>
  The gain of a register value \<open>r\<close> is \<open>512 / (512 - r)\<close>. A row is exact enough for the gains above
  the row before it.
\<close>

definition gain_exact :: "nat \<Rightarrow> nat \<Rightarrow> bool" where
  "gain_exact g r \<longleftrightarrow> 1 \<le> r \<and> r < 512 \<and> 99 * g * (512 - r) \<le> 100 * 512 * 1024 \<and> 100 * 512 * 1024 \<le> 104 * g * (512 - r)"

fun rows_exact :: "nat \<Rightarrow> nat \<Rightarrow> (u32 \<times> u16) list \<Rightarrow> bool" where
  "rows_exact lo least [] \<longleftrightarrow> True"
| "rows_exact lo least ((a, r) # rows) \<longleftrightarrow>
    gain_exact lo (unat r) \<and> gain_exact (unat a * 16) (unat r) \<and> lo \<le> unat a * 16 \<and> unat a \<le> 512 \<and> least \<le> unat r
    \<and> rows_exact (unat a * 16 + 1) (unat r) rows"

lemma gain_table_exact: "rows_exact 1024 0 sensorGainMapping"
  by (simp add: sensorGainMapping_def gain_exact_def)

lemma gain_exact_between:
  "gain_exact lo r \<Longrightarrow> gain_exact hi r \<Longrightarrow> lo \<le> g \<Longrightarrow> g \<le> hi \<Longrightarrow> gain_exact g r"
  unfolding gain_exact_def
  by (meson le_trans mult_le_mono1 mult_le_mono2)

lemma row_limit: "unat a \<le> 512 \<Longrightarrow> g \<le> a * 16 \<longleftrightarrow> unat g \<le> unat (a :: u32) * 16"
  by (simp add: word_le_nat_alt unat_word_ariths)

lemma find_least:
  "rows_exact lo least rows \<Longrightarrow> find P rows = Some p \<Longrightarrow> least \<le> unat (snd p)"
proof (induction rows arbitrary: lo least)
  case (Cons x rows)
  obtain a r where x: "x = (a, r)" by fastforce
  show ?case using Cons.prems Cons.IH[of "unat a * 16 + 1" "unat r"] by (auto simp: x split: if_splits)
qed simp

lemma find_exact:
  "rows_exact lo least rows \<Longrightarrow> lo \<le> unat g \<Longrightarrow> find (\<lambda>p. g \<le> fst p * 16) rows = Some p
    \<Longrightarrow> gain_exact (unat g) (unat (snd p))"
proof (induction rows arbitrary: lo least)
  case (Cons x rows)
  obtain a r where x: "x = (a, r)" by fastforce
  have lim: "g \<le> a * 16 \<longleftrightarrow> unat g \<le> unat a * 16" using Cons.prems(1) by (intro row_limit) (simp add: x)
  show ?case
  proof (cases "unat g \<le> unat a * 16")
    case True
    then show ?thesis using Cons.prems gain_exact_between[of lo "unat r" "unat a * 16" "unat g"] lim by (auto simp: x)
  next
    case False
    then show ?thesis using Cons.IH[of "unat a * 16 + 1" "unat r"] Cons.prems lim by (simp add: x)
  qed
qed simp

lemma find_mono:
  "rows_exact lo least rows \<Longrightarrow> g \<le> h \<Longrightarrow> find (\<lambda>p. g \<le> fst p * 16) rows = Some p
    \<Longrightarrow> find (\<lambda>p. h \<le> fst p * 16) rows = Some q \<Longrightarrow> unat (snd p) \<le> unat (snd q)"
proof (induction rows arbitrary: lo least)
  case (Cons x rows)
  obtain a r where x: "x = (a, r)" by fastforce
  have tail: "rows_exact (unat a * 16 + 1) (unat r) rows" using Cons.prems(1) by (simp add: x)
  show ?case
  proof (cases "g \<le> a * 16")
    case True
    then have p: "p = (a, r)" using Cons.prems(3) by (simp add: x)
    show ?thesis using Cons.prems(4) find_least[OF tail] by (auto simp: p x split: if_splits)
  next
    case False
    then have "\<not> h \<le> a * 16" using Cons.prems(2) by (meson order.trans)
    then show ?thesis using Cons.IH[OF tail Cons.prems(2)] Cons.prems(3,4) False by (simp add: x)
  qed
qed simp

lemma find_snoc: "find P (xs @ [x]) = (case find P xs of Some y \<Rightarrow> Some y | None \<Rightarrow> if P x then Some x else None)"
  by (induction xs) simp_all

text \<open>Up to 8 times the table decides, and it always has a row.\<close>

lemma gain2reg_table:
  assumes "g \<le> 8192"
  shows "\<exists>p. find (\<lambda>p. g \<le> fst p * 16) sensorGainMapping = Some p \<and> gain2reg g = snd p"
proof -
  let ?P = "\<lambda>p :: u32 \<times> u16. g \<le> fst p * 16"
  have split: "sensorGainMapping = butlast sensorGainMapping @ [(512, 448)]" by (simp add: sensorGainMapping_def)
  have last: "last sensorGainMapping = (512, 448)" by (simp add: sensorGainMapping_def)
  have "find ?P (butlast sensorGainMapping @ [(512, 448)]) =
      (case find ?P (butlast sensorGainMapping) of Some p \<Rightarrow> Some p | None \<Rightarrow> Some (512, 448))"
    using assms by (simp add: find_snoc split: option.splits)
  then have "find ?P sensorGainMapping = (case find ?P (butlast sensorGainMapping) of Some p \<Rightarrow> Some p | None \<Rightarrow> Some (512, 448))"
    using split by simp
  then show ?thesis using assms by (simp add: gain2reg_def last split: option.splits)
qed

text \<open>Above it is computed.\<close>

lemma gain2reg_formula:
  assumes "8192 < unat g" "unat g \<le> 16384"
  shows "unat (gain2reg g) = 512 - 524288 div unat g" "32 \<le> 524288 div unat g" "524288 div unat g \<le> 63"
proof -
  show b: "32 \<le> 524288 div unat g" "524288 div unat g \<le> 63"
    using assms div_le_mono2[of "unat g" 16384 524288] div_le_mono2[of 8193 "unat g" 524288] by simp_all
  have q: "unat (512 * BASEGAIN div g) = 524288 div unat g" by (simp add: BASEGAIN_def unat_div)
  have "unat (512 - 512 * BASEGAIN div g) = 512 - 524288 div unat g"
    using b by (subst unat_sub) (simp_all add: word_le_nat_alt q)
  moreover have "\<not> g \<le> 8192" using assms(1) by (simp add: word_le_nat_alt)
  ultimately show "unat (gain2reg g) = 512 - 524288 div unat g"
    by (simp add: gain2reg_def unsigned_ucast_eq take_bit_eq_mod)
qed

lemma gain2reg_exact:
  assumes "1024 \<le> unat g" "unat g \<le> 16384"
  shows "gain_exact (unat g) (unat (gain2reg g))"
proof (cases "g \<le> 8192")
  case True
  then obtain p where "find (\<lambda>p. g \<le> fst p * 16) sensorGainMapping = Some p" "gain2reg g = snd p"
    using gain2reg_table by blast
  then show ?thesis using find_exact[OF gain_table_exact assms(1)] by simp
next
  case False
  then have big: "8192 < unat g" by (simp add: word_le_nat_alt)
  note f = gain2reg_formula[OF big assms(2)]
  let ?q = "524288 div unat g"
  have le: "unat g * ?q \<le> 524288" by (rule times_div_less_eq_dividend)
  have "524288 = unat g * ?q + 524288 mod unat g" by simp
  moreover have "524288 mod unat g < unat g" using big by (intro mod_less_divisor) simp
  ultimately have ge: "507904 \<le> unat g * ?q" using assms(2) by linarith
  have "99 * (unat g * ?q) \<le> 100 * 512 * 1024" "100 * 512 * 1024 \<le> 104 * (unat g * ?q)" using le ge by linarith+
  then show ?thesis using f by (simp add: gain_exact_def mult.assoc)
qed

lemma gain2reg_mono:
  assumes "g \<le> h" "unat h \<le> 16384"
  shows "unat (gain2reg g) \<le> unat (gain2reg h)"
proof (cases "h \<le> 8192")
  case True
  then have "g \<le> 8192" using assms(1) by simp
  then show ?thesis using gain2reg_table[OF True] gain2reg_table[of g] find_mono[OF gain_table_exact assms(1)] by auto
next
  case False
  then have h: "8192 < unat h" by (simp add: word_le_nat_alt)
  show ?thesis
  proof (cases "g \<le> 8192")
    case True
    then obtain p where p: "find (\<lambda>p. g \<le> fst p * 16) sensorGainMapping = Some p" "gain2reg g = snd p"
      using gain2reg_table by blast
    have "find (\<lambda>p. (8192 :: u32) \<le> fst p * 16) sensorGainMapping = Some (512, 448)" by (simp add: sensorGainMapping_def)
    from find_mono[OF gain_table_exact True p(1) this] show ?thesis using p(2) gain2reg_formula[OF h assms(2)] by simp
  next
    case False
    then have g: "8192 < unat g" "unat g \<le> unat h" using assms(1) by (simp_all add: word_le_nat_alt)
    then have "524288 div unat h \<le> 524288 div unat g" by (intro div_le_mono2) simp_all
    then show ?thesis using gain2reg_formula[OF h assms(2)] gain2reg_formula[OF g(1)] g(2) assms(2) by simp
  qed
qed

text \<open>
  A gain of 1 to 16 times reaches the registers exactly enough: the value is between 1 and 511,
  the sensor's gain \<open>512 / (512 - r)\<close> is at most 1 percent below and 4 percent above the one asked
  for, and a larger gain never gives a smaller register value, across the end of the table too.
\<close>

theorem gain_accuracy:
  assumes "1024 \<le> unat g" and "g \<le> h" and "unat h \<le> 16384"
  shows "1 \<le> unat (gain2reg g) \<and> unat (gain2reg g) < 512
    \<and> 99 * unat g * (512 - unat (gain2reg g)) \<le> 100 * 512 * 1024
    \<and> 100 * 512 * 1024 \<le> 104 * unat g * (512 - unat (gain2reg g))
    \<and> unat (gain2reg g) \<le> unat (gain2reg h)"
proof -
  have "unat g \<le> 16384" using assms(2,3) by (simp add: word_le_nat_alt)
  then show ?thesis using gain2reg_exact[OF assms(1)] gain2reg_mono[OF assms(2,3)] by (simp add: gain_exact_def)
qed

theorem gain_accuracy_witness:
  "1 \<le> unat (gain2reg 2048) \<and> unat (gain2reg 2048) \<le> unat (gain2reg 9000)"
  using gain_accuracy[of 2048 9000] by simp

subsection \<open>When a gain takes effect\<close>

lemma gain_registers:
  assumes "unat r < 65536"
  shows "reg16 0x0204 (write_gain (ucast r) d) = r" "reg16 0x0216 (write_gain (ucast r) d) = r"
proof -
  have r: "ucast (ucast r :: u16) = (r :: u32)" using assms
    by (simp add: word_unat_eq_iff unsigned_ucast_eq unsigned_take_bit_eq take_bit_nat_eq_self)
  have s: "r \<le> 0xFFFF" using assms by (simp add: word_le_nat_alt)
  show "reg16 0x0204 (write_gain (ucast r) d) = r" "reg16 0x0216 (write_gain (ucast r) d) = r"
    using s by (simp_all add: write_gain_def r reg16_u16 reg16_other)
qed

text \<open>
  A gain takes effect one frame later than it is set, with the exposure set before it: setting
  it sends the gain of the previous call and releases the held registers; the next vsync notice
  sends the new one, to the long and to the short exposure. A vsync notice without a new gain
  sends the same value again.
\<close>

theorem gain_one_frame_late:
  assumes "gain d \<noteq> 0" and "unat (gain d) < 65536" and "set_gain g d = (g1, t)"
  shows "g1 = clamp_gain g \<and> reg16 0x0204 t = gain d \<and> reg16 0x0216 t = gain d \<and> sensor_reg t 0x0104 = 0
    \<and> reg16 0x0204 (vsync_notify t) = ucast (gain2reg g1) \<and> reg16 0x0216 (vsync_notify t) = ucast (gain2reg g1)
    \<and> vsync_notify (vsync_notify t) = vsync_notify t"
proof -
  have old: "(ucast (gain d) :: u16) \<noteq> 0"
    using assms(1,2) by (simp add: word_unat_eq_iff unsigned_ucast_eq unsigned_take_bit_eq take_bit_nat_eq_self)
  have t: "t = write_cmos_sensor_8 0x0104 0 (write_gain (ucast (gain d)) (d\<lparr>gain := ucast (gain2reg (clamp_gain g))\<rparr>))"
    "g1 = clamp_gain g"
    using assms(3) old by (auto simp: set_gain_def Let_def)
  have "1024 \<le> unat (clamp_gain g) \<and> unat (clamp_gain g) \<le> 16384"
    by (auto simp: clamp_gain_def BASEGAIN_def word_less_nat_alt)
  then have new: "1 \<le> unat (gain2reg g1)" "unat (gain2reg g1) < 512"
    using gain2reg_exact[of "clamp_gain g"] by (simp_all add: t(2) gain_exact_def)
  let ?r = "ucast (gain2reg g1) :: u32"
  have narrow: "ucast (ucast x :: u32) = x" for x :: u16 by transfer simp
  have r: "unat ?r = unat (gain2reg g1)" "ucast ?r = gain2reg g1" by (simp_all only: unat_u16_u32 narrow)
  have g: "gain t = ?r" by (simp add: t write_gain_def)
  have nz: "(ucast ?r :: u16) \<noteq> 0" using new(1) r(2) by (auto simp: word_unat_eq_iff)
  have v: "vsync_notify t = write_gain (ucast ?r) t" using nz by (simp add: vsync_notify_def g Let_def)
  have frozen: "reg16 0x0204 (write_cmos_sensor_8 0x0104 0 x) = reg16 0x0204 x" "reg16 0x0216 (write_cmos_sensor_8 0x0104 0 x) = reg16 0x0216 x" for x
    by (simp_all add: reg16_def)
  have gain_write: "gain (write_gain q x) = gain x" for q x by (simp add: write_gain_def)
  have twice: "write_gain q (write_gain q x) = write_gain q x" for q x
    by (rule subdrv_ctx.equality) (auto simp: write_gain_def write_u16_def write_cmos_sensor_8_def fun_eq_iff)
  have "vsync_notify (vsync_notify t) = vsync_notify t"
    unfolding v using nz twice[of "ucast ?r" t] by (simp add: vsync_notify_def Let_def gain_write g)
  moreover have "unat ?r < 65536" using new(2) r(1) by simp
  ultimately show ?thesis
    using gain_registers[OF assms(2)] gain_registers[of ?r t] v by (simp add: t(1) frozen) (simp add: t(2))
qed

theorem gain_one_frame_late_witness:
  "reg16 0x0204 (snd (set_gain 2048 (init_ctx 0x34 (\<lambda>_. 0)))) = 4096"
proof -
  obtain g t where g: "set_gain 2048 (init_ctx 0x34 (\<lambda>_. 0)) = (g, t)" by fastforce
  then have "reg16 0x0204 t = 4096"
    using gain_one_frame_late[of "init_ctx 0x34 (\<lambda>_. 0)" 2048 g t] by (simp add: init_ctx_def BASEGAIN_def)
  then show ?thesis by (simp add: g)
qed

subsection \<open>The registers of a mode\<close>

text \<open>What the last transfers of a list leave in the registers of the frame and the output.\<close>

definition frame_regs :: "reg_list \<Rightarrow> (u16 \<times> u8) list" where
  "frame_regs rs = rev (filter (\<lambda>p. drop_bit 4 (fst p) = 0x34) rs)"

lemma map_of_filter_key: "P a \<Longrightarrow> map_of (rev (filter (\<lambda>p. P (fst p)) rs)) a = map_of (rev rs) a"
  by (induction rs) (auto simp: map_add_def split: option.splits)

lemma frame_reg:
  assumes "drop_bit 4 a = 0x34"
  shows "sensor_reg (write_regs rs d) a = (case map_of (frame_regs rs) a of Some v \<Rightarrow> v | None \<Rightarrow> sensor_reg d a)"
  using map_of_filter_key[of "\<lambda>a. drop_bit 4 a = 0x34", OF assms, of rs] by (simp add: reg_regs frame_regs_def)

text \<open>Frame length, line length and output size.\<close>

definition mode_regs :: "sensor_dev \<Rightarrow> u32 \<times> u32 \<times> u32 \<times> u32" where
  "mode_regs d = (reg16 0x0340 d, reg16 0x0342 d, reg16 0x034C d, reg16 0x034E d)"

definition eight_regs :: "reg_list \<Rightarrow> u8 option list" where
  "eight_regs rs = map (map_of (frame_regs rs)) [0x0340, 0x0341, 0x0342, 0x0343, 0x034C, 0x034D, 0x034E, 0x034F]"

lemma mode_regs_list:
  "eight_regs rs = [Some a, Some b, Some c, Some e, Some f, Some g, Some h, Some i] \<Longrightarrow>
    mode_regs (write_regs rs d) =
      (push_bit 8 (ucast a) OR ucast b, push_bit 8 (ucast c) OR ucast e, push_bit 8 (ucast f) OR ucast g, push_bit 8 (ucast h) OR ucast i)"
  by (simp add: mode_regs_def reg16_def frame_reg eight_regs_def)

lemma preview_eight: "eight_regs imx214_preview_regs =
    [Some 0x08, Some 0x3E, Some 0x13, Some 0x90, Some 0x08, Some 0x38, Some 0x06, Some 0x18]"
  by code_simp

lemma preview_hdr_eight: "eight_regs imx214_preview_hdr_regs =
    [Some 0x08, Some 0x3E, Some 0x13, Some 0x90, Some 0x08, Some 0x38, Some 0x06, Some 0x18]"
  by code_simp

lemma capture_30fps_eight: "eight_regs imx214_capture_30fps_regs =
    [Some 0x0C, Some 0x58, Some 0x13, Some 0x90, Some 0x10, Some 0x70, Some 0x0C, Some 0x30]"
  by code_simp

lemma video_eight: "eight_regs imx214_video_regs =
    [Some 0x0C, Some 0x58, Some 0x13, Some 0x90, Some 0x10, Some 0x70, Some 0x0C, Some 0x30]"
  by code_simp

lemma fullsize_hdr_eight: "eight_regs imx214_fullsize_hdr_regs =
    [Some 0x0C, Some 0x58, Some 0x13, Some 0x90, Some 0x10, Some 0x70, Some 0x0C, Some 0x30]"
  by code_simp

lemma hs_video_eight: "eight_regs imx214_hs_video_regs =
    [Some 0x05, Some 0x08, Some 0x13, Some 0x90, Some 0x08, Some 0x38, Some 0x04, Some 0xA0]"
  by code_simp

lemmas imx214_mode_regs =
  mode_regs_list[OF preview_eight, simplified] mode_regs_list[OF preview_hdr_eight, simplified]
  mode_regs_list[OF capture_30fps_eight, simplified] mode_regs_list[OF video_eight, simplified]
  mode_regs_list[OF fullsize_hdr_eight, simplified] mode_regs_list[OF hs_video_eight, simplified]

lemma hdr_tail_regs: "mode_regs (hdr_tail d) = mode_regs d"
proof -
  have none: "eight_regs ((case imx214_ATR 3 3 of Some rs \<Rightarrow> rs | None \<Rightarrow> []) @ zigzag_regs z @ stream_on_regs) =
      [None, None, None, None, None, None, None, None]" for z
    by (cases z) code_simp+
  show ?thesis using none[of "ihdr_mode d = 9"] by (simp add: mode_regs_def hdr_tail_def reg16_def frame_reg eight_regs_def)
qed

text \<open>A setting leaves the context alone.\<close>

lemma regs_only_fields:
  "regs_only f \<Longrightarrow> frame_length (f d) = frame_length d \<and> line_length (f d) = line_length d \<and> ihdr_mode (f d) = ihdr_mode d
    \<and> current_fps (f d) = current_fps d"
  using regs_only_D[of f d] by auto

lemma setting_regs:
  "mode_regs (cf_preview imx214 d) = (2110, 5008, 2104, 1560)" "mode_regs (cf_preview_hdr imx214 d) = (2110, 5008, 2104, 1560)"
  "mode_regs (cf_capture imx214 300 d) = (3160, 5008, 4208, 3120)" "mode_regs (cf_fullsize_hdr imx214 fps d) = (3160, 5008, 4208, 3120)"
  "mode_regs (cf_normal_video imx214 fps d) = (3160, 5008, 4208, 3120)" "mode_regs (cf_hs_video imx214 d) = (1288, 5008, 2104, 1184)"
  "mode_regs (cf_slim_video imx214 d) = (1288, 5008, 2104, 1184)"
  by (simp_all add: imx214_def imx214_preview_setting_def imx214_preview_setting_HDR_def imx214_capture_setting_def
      imx214_fullsize_setting_HDR_def imx214_normal_video_setting_def imx214_hs_video_setting_def imx214_slim_video_setting_def
      hdr_tail_regs imx214_mode_regs)

lemma setting_fields:
  "frame_length (cf_preview imx214 d) = frame_length d" "line_length (cf_preview imx214 d) = line_length d"
  "frame_length (cf_preview_hdr imx214 d) = frame_length d" "line_length (cf_preview_hdr imx214 d) = line_length d"
  "frame_length (cf_capture imx214 fps d) = frame_length d" "line_length (cf_capture imx214 fps d) = line_length d"
  "frame_length (cf_fullsize_hdr imx214 fps d) = frame_length d" "line_length (cf_fullsize_hdr imx214 fps d) = line_length d"
  "frame_length (cf_normal_video imx214 fps d) = frame_length d" "line_length (cf_normal_video imx214 fps d) = line_length d"
  "frame_length (cf_hs_video imx214 d) = frame_length d" "line_length (cf_hs_video imx214 d) = line_length d"
  "frame_length (cf_slim_video imx214 d) = frame_length d" "line_length (cf_slim_video imx214 d) = line_length d"
  using imx214_ok regs_only_fields by (simp_all add: cfg_ok_def)

lemma scenario_modes:
  "scenario_mode i (ucast sc) =
    (if sc = 1 then in_cap i else if sc = 2 then in_normal_video i else if sc = 3 then in_hs_video i
     else if sc = 4 then in_slim_video i else in_pre i)"
  for sc :: u32
proof -
  have n: "unat (ucast sc :: u64) = unat sc" by transfer simp
  have "(ucast sc :: u64) = 1 \<longleftrightarrow> sc = 1" "(ucast sc :: u64) = 2 \<longleftrightarrow> sc = 2" "(ucast sc :: u64) = 3 \<longleftrightarrow> sc = 3"
    "(ucast sc :: u64) = 4 \<longleftrightarrow> sc = 4"
    by (simp_all only: word_unat_eq_iff n) simp_all
  then show ?thesis by (simp add: scenario_mode_def)
qed

text \<open>What the mode table says of each mode.\<close>

definition mode_table :: "imgsensor_mode \<Rightarrow> u32 \<times> u32 \<times> u32 \<times> u32" where
  "mode_table m = (framelength m, linelength m, ucast (grabwindow_width m), ucast (grabwindow_height m))"

lemma imx214_tables:
  "mode_table (in_pre imx214_info) = (2110, 5008, 2104, 1560)" "mode_table (in_cap imx214_info) = (3160, 5008, 4208, 3120)"
  "mode_table (in_cap1 imx214_info) = (3220, 5008, 4208, 3120)" "mode_table (in_cap2 imx214_info) = (3220, 5008, 4208, 3120)"
  "mode_table (in_normal_video imx214_info) = (3160, 5008, 4208, 3120)" "mode_table (in_hs_video imx214_info) = (1288, 5008, 2104, 1184)"
  "mode_table (in_slim_video imx214_info) = (1288, 5008, 2104, 1184)" "max_framerate (in_cap1 imx214_info) = 240"
  "max_framerate (in_cap2 imx214_info) = 150"
  by (simp_all add: imx214_info_def mode_table_def)

lemma control_mode:
  "frame_length (snd (control imx214 sc d)) = framelength m \<and> line_length (snd (control imx214 sc d)) = linelength m"
  if "m = (if sc = NORMAL_CAPTURE then capture_mode imx214_info (current_fps d) else scenario_mode imx214_info (ucast sc))"
  using that unfolding scenario_modes scenario_defs
  by (auto simp: control_def preview_def capture_def normal_video_def hs_video_def slim_video_def Let_def
      scenario_defs setting_fields set_mode_timing_def imx214_timing)

lemma control_regs:
  "mode_regs (snd (control imx214 sc d)) = mode_table (scenario_mode imx214_info (ucast sc))"
  unfolding scenario_modes
  by (auto simp: control_def preview_def capture_def normal_video_def hs_video_def slim_video_def Let_def
      scenario_defs setting_regs imx214_timing imx214_tables)

text \<open>
  Entering a scenario of the IMX214, plain or HDR, leaves frame length, line length and output
  size in the registers as the driver's context and mode table have them - except for a capture
  at 24 or 15 frames per second: the context then takes the timing of those rates, but the
  sensor is set up for 30.
\<close>

theorem mode_registers_agree:
  "mode_regs (snd (control imx214 sc d)) =
      (frame_length (snd (control imx214 sc d)), line_length (snd (control imx214 sc d)),
       ucast (grabwindow_width (scenario_mode imx214_info (ucast sc))), ucast (grabwindow_height (scenario_mode imx214_info (ucast sc))))
    \<longleftrightarrow> \<not> (sc = NORMAL_CAPTURE \<and> current_fps d \<in> {240, 150})"
proof (cases "sc = NORMAL_CAPTURE")
  case True
  then have "scenario_mode imx214_info (ucast sc) = in_cap imx214_info" unfolding scenario_modes by (simp add: scenario_defs)
  then show ?thesis
    using True control_regs[of sc d] control_mode[OF refl, of sc d] imx214_tables(2-4,8-9)
    by (auto simp: capture_mode_def mode_table_def)
next
  case False
  then show ?thesis using control_regs[of sc d] control_mode[OF refl, of sc d] by (simp add: mode_table_def)
qed

end
