(* ===== verification/Spec2Isabelle.thy ===== *)
theory Spec2Isabelle
  imports FsDrvReach FsConsole CamTimesync CamSofProps RawCtrl CamEngine SeninfClaims SeninfVc Imx214Claims ImxGain
begin

text \<open>
  Verification development for the MediaTek camera ISP drivers (frame-sync library, camsys,
  camera co-processor memory).

  \<^bold>\<open>The program.\<close> Sensors are V4L2 sub-devices. The frame-sync library
  (\<open>drivers/misc/mediatek/imgsensor/src-v4l2/frame-sync\<close>) chooses the frame length of every
  streaming sensor so that their vsyncs coincide; the sensor drivers call it when they register,
  stream and set a shutter, and it asks the frame monitor for vsync timestamps. camsys
  (\<open>drivers/media/platform/mtk-isp/isp_70/camsys/src\<close>) takes requests from user space, lets the
  co-processor compose them into command queues (CQ), and moves every request through a state
  machine driven by interrupts (start of frame, CQ done, frame done). Its buffers are slices of
  shared memory that the co-processor driver (\<open>drivers/remoteproc/mtk_ccd_mem.c\<close>) hands out.

  \<^bold>\<open>Theories and code.\<close>
  \<^item> \<open>Prelude\<close>: C integers at their width as words, the option monad for a run of C code
    (\<open>None\<close>: a fault, such as a division by zero or an access outside an array), bit words, list
    updates by index.
  \<^item> \<open>FsTypes\<close>, \<open>FsUtil\<close>, \<open>FsConsole\<close>: the structures and macros of \<open>frame-sync/*.h\<close>,
    \<open>frame_sync_util.c\<close>, \<open>frame_sync_console.c\<close>.
  \<^item> \<open>FrameMonitor\<close>: \<open>frame_monitor.c\<close>, from the vsync query to the per-sensor measurements and the
    timestamp checker.
  \<^item> \<open>FsAlgo\<close>, \<open>FsPairSync\<close>, \<open>FsAlgoSA\<close>, \<open>FsHdr\<close>: \<open>frame_sync_algo.c\<close> (one sensor's minimal
    frame length and anti-flicker; the pair trigger; the stand-alone algorithm with its shared
    dynamic parameters; multi-exposure frames).
  \<^item> \<open>HwSync\<close>: \<open>hw_sensor_sync_algo.c\<close> and \<open>custom/custom_hw_sync.c\<close>.
  \<^item> \<open>FsDrv\<close>: \<open>frame_sync.c\<close>, one definition per exported function over the whole driver state;
    \<open>FsRecorder\<close>: its frame recorder; \<open>FsDrvInv\<close>, \<open>FsDrvSafe\<close>, \<open>FsDrvTrigger\<close>, \<open>FsFeature\<close>: the
    invariant, its preservation and the absence of faults, the triggers, the feature modes;
    \<open>FsDrvReach\<close>: the calls as a step relation and what holds in every reachable state.
  \<^item> \<open>CamFeature\<close>: \<open>mtk_cam-feature.c\<close>; \<open>CamTimesync\<close>: \<open>mtk_cam-timesync.c\<close>.
  \<^item> \<open>CcdMem\<close>: \<open>mtk_ccd_mem.c\<close> over explicit stores of dma-buf objects, open files and
    descriptors, with the ownership discipline its clients rely on; \<open>CamPool\<close>: \<open>mtk_cam-pool.c\<close>
    on top of it, with the three pools as instances of one locale of free lists.
  \<^item> \<open>CamTypes\<close>: the records of \<open>mtk_cam.h\<close> and \<open>mtk_cam-ctrl.h\<close> (device, contexts, requests, stream
    data) and their look-ups; \<open>CamReq\<close>: the command-queue buffers of a context, from the request to
    the composer's answer and back; \<open>CamDeq\<close>: completion of requests (\<open>mtk_cam_dequeue_req_frame\<close>).
  \<^item> \<open>CamSensor\<close>, \<open>CamFrame\<close>, \<open>CamSof\<close>: \<open>mtk_cam-ctrl.c\<close> in the order of a frame: the sensor worker and
    the frame-sync bracket; CQ done, frame done, the works they queue, start and stop; the judgement
    at a start of frame, its timers, and the interrupts of a raw and of a camsv device. \<open>CamStates\<close>: every entry as a
    call, and the arrows along which frames move; \<open>CamSofProps\<close>: what the judgement chooses.
  \<^item> \<open>CamRes\<close>: the resource search of \<open>mtk_cam-raw.c\<close> (\<open>mtk_raw_resource_calc\<close>): binning, resizer,
    engines, clock and pixel mode along the plan of a strategy; \<open>RawCtrl\<close>: the resource request of
    user space, its pixel rates and the control handlers with their two mutexes.
  \<^item> \<open>CamEngine\<close>: the raw engines of a pipeline (\<open>mtk_cam_raw_select\<close>), the camsv engines reserved for
    its exposures (\<open>get_available_sv_pipes\<close>), \<open>mtk_cam_dev_config\<close> and what stream-off gives back.
  \<^item> \<open>SeninfRoute\<close>, \<open>SeninfDrv\<close>: the sensor interface (\<open>mtk_cam-seninf-route.c\<close>,
    \<open>mtk_cam-seninf-drv.c\<close>): the virtual channels of a sensor's frame descriptor, the muxes that carry
    them, stream on and off, the test model, formats, links and clock levels. \<open>SeninfProps\<close>: every
    operation keeps each mux on one list; \<open>SeninfVc\<close>: the channels of an arbitrary descriptor;
    \<open>SeninfClaims\<close>: the properties of ports and their muxes.
  \<^item> \<open>ImxRegs\<close>, \<open>Imx214\<close>: the sensor drivers \<open>imx214mipiraw_Sensor.c\<close> and \<open>imx214d2lmipiraw_Sensor.c\<close>: their
    data and register tables, exposure, gain, frame rates, scenarios and feature calls over the
    context and the sensor's registers. \<open>Imx214Props\<close>, \<open>Imx214Claims\<close>: frame lengths and faults over
    any sequence of calls; \<open>ImxGain\<close>: the gain table and the mode tables.

  \<^bold>\<open>What the lemmas show.\<close> For frame-sync: the bit words are the sets of registered, streaming,
  enabled and valid sensors, every call returns but for the faults that are characterised (a
  setting with more than five exposures, a missing line time, a period that wraps to zero), a
  control is answered by one call of the sensor driver with the frame length solved, the algorithms align the vsyncs of the
  sensors they solve, and feature modes follow an abstract state machine. For the memory table
  and the pools: initialising and releasing gives back exactly what was taken, slices tile the
  shared region, and buffers are conserved.
  For camsys: in any order of interrupts, timers, works and answers a frame only moves forward through
  its states (the first frame excepted); command-queue buffers are conserved; a queue
  is loaded and a request completed as the theorems say, and two theorems show how
  the frame-sync bracket and the time-sharing flag can block for good.
  For the raw pipeline: the search returns the first step of the plan that fits, as a specification
  that reads the plan as a list; the requests that have no defined result are characterised; engines
  are exclusive without time sharing, a camsv reservation is undone by its release, and raw engines
  are never given back.
  For the sensor interface: every mux is on exactly one list, a port is configured with one mux for
  each group of its channels or not at all, and the ways in which a port loses muxes are shown.
  For the IMX214: an exposure reaches the sensor's registers with a frame length that holds it, the
  gain table is as accurate as its step, and the register tables agree with the mode data.

  \<^bold>\<open>Parameters, bounds and fuel.\<close> Code outside the repository is an argument: the kernel's clocks
  and division helpers are arithmetic; the DMA allocator, descriptor table and dma-buf exporter
  are the fields of \<open>ccd_env\<close>, with \<open>alloc_ok\<close> and \<open>exports_ok\<close> stating that addresses and
  descriptors handed out are fresh, and an executable kernel that satisfies them; vsync
  timestamps are read through a query record. The only loop without a structural bound
  (\<open>adjust_diff_m_s\<close> in the stand-alone algorithm) is a \<open>partial_function\<close>, and
  \<open>adjust_loop_returns_iff\<close> says exactly when it returns.

  \<^bold>\<open>Not modelled.\<close> Logging and debug dumps; register programming of the ISP, the CSI receivers
  and of all sensors but the IMX214; V4L2, videobuf2 and media-controller glue; the imgsys engines; locking (every
  exported call is one atomic step). PROJECT.json lists each part with its status.
\<close>

end
